(* ===== verification/Prelude.thy ===== *)
theory Prelude
  imports Main "HOL-Library.Word"
begin

text \<open>
  Shared vocabulary of the development: the fixed-width integer types of the C code, the error
  codes of \<^verbatim>\<open>api/include/api/dpu_error.h\<close>, the sequencing combinator \<open>FF\<close> that mirrors the
  \<^verbatim>\<open>FF\<close> macro of \<^verbatim>\<open>api/src/include/dpu_internals.h\<close>, the loops over it, and the proof
  rules (\<open>keeps\<close>, \<open>returns\<close>) that every component uses.
\<close>

unbundle bit_operations_syntax

named_theorems keeps_rules \<open>preservation of a state predicate by an operation\<close>
named_theorems returns_rules \<open>partial correctness of an operation that returns DPU_OK\<close>

section \<open>Machine integers\<close>

type_synonym u8 = "8 word"
type_synonym u16 = "16 word"
type_synonym u32 = "32 word"
type_synonym u64 = "64 word"

text \<open>\<open>__builtin_popcount\<close>, \<open>__builtin_popcountll\<close>: the number of one bits.\<close>

definition popcount :: "'a::len word \<Rightarrow> nat" where
  "popcount w = length (filter (bit w) [0..<LENGTH('a)])"

text \<open>The byte of index \<open>k\<close> (little endian), as a 64-bit value: \<open>(x >> (k << 3)) & 0xFF\<close>.\<close>

definition cbyte :: "nat \<Rightarrow> u64 \<Rightarrow> u64" where
  "cbyte k x = drop_bit (8 * k) x AND 0xFF"

text \<open>\<open>1 << i\<close>, truncated to the width of the variable it is assigned to.\<close>

definition bit_of :: "nat \<Rightarrow> 'a::len word" where
  "bit_of i = push_bit i 1"

section \<open>Error codes and outcomes\<close>

datatype dpu_error =
    DPU_ERR_INTERNAL
  | DPU_ERR_SYSTEM
  | DPU_ERR_DRIVER
  | DPU_ERR_ALLOCATION
  | DPU_ERR_INVALID_DPU_SET
  | DPU_ERR_INVALID_THREAD_ID
  | DPU_ERR_INVALID_NOTIFY_ID
  | DPU_ERR_INVALID_WRAM_ACCESS
  | DPU_ERR_INVALID_IRAM_ACCESS
  | DPU_ERR_INVALID_MRAM_ACCESS
  | DPU_ERR_INVALID_SYMBOL_ACCESS
  | DPU_ERR_MRAM_BUSY
  | DPU_ERR_TRANSFER_ALREADY_SET
  | DPU_ERR_NO_PROGRAM_LOADED
  | DPU_ERR_DIFFERENT_DPU_PROGRAMS
  | DPU_ERR_CORRUPTED_MEMORY
  | DPU_ERR_DPU_DISABLED
  | DPU_ERR_DPU_ALREADY_RUNNING
  | DPU_ERR_INVALID_MEMORY_TRANSFER
  | DPU_ERR_INVALID_LAUNCH_POLICY
  | DPU_ERR_DPU_FAULT
  | DPU_ERR_ELF_INVALID_FILE
  | DPU_ERR_ELF_NO_SUCH_FILE
  | DPU_ERR_ELF_NO_SUCH_SECTION
  | DPU_ERR_TIMEOUT
  | DPU_ERR_INVALID_PROFILE
  | DPU_ERR_UNKNOWN_SYMBOL
  | DPU_ERR_LOG_FORMAT
  | DPU_ERR_LOG_CONTEXT_MISSING
  | DPU_ERR_LOG_BUFFER_TOO_SMALL
  | DPU_ERR_VPD_INVALID_FILE
  | DPU_ERR_VPD_NO_REPAIR
  | DPU_ERR_NO_THREAD_PER_RANK
  | DPU_ERR_INVALID_BUFFER_SIZE
  | DPU_ERR_NONBLOCKING_SYNC_CALLBACK
  | DPU_ERR_TOO_MANY_TASKLETS
  | DPU_ERR_SG_TOO_MANY_BLOCKS
  | DPU_ERR_SG_LENGTH_MISMATCH
  | DPU_ERR_SG_NOT_ACTIVATED
  | DPU_ERR_SG_NOT_MRAM_SYMBOL

text \<open>
  What a call can end in: \<open>Ret x\<close> is \<open>DPU_OK\<close> with the values the call stores through its
  result pointers, \<open>Fail e\<close> an error status, \<open>Abort\<close> a failed \<^verbatim>\<open>assert\<close>, and
  \<open>NoFuel\<close> marks the unbounded polling loops when the model's poll budget runs out.
\<close>

datatype 'a outcome = Ret 'a | Fail dpu_error | Abort | NoFuel

type_synonym ('s, 'a) op = "'s \<Rightarrow> 'a outcome \<times> 's"

definition ok :: "'a \<Rightarrow> ('s, 'a) op" where
  "ok x s = (Ret x, s)"

definition fail :: "dpu_error \<Rightarrow> ('s, 'a) op" where
  "fail e s = (Fail e, s)"

definition FF :: "('s, 'a) op \<Rightarrow> ('a \<Rightarrow> ('s, 'b) op) \<Rightarrow> ('s, 'b) op" where
  "FF m k s = (case m s of
       (Ret x, s') \<Rightarrow> k x s'
     | (Fail e, s') \<Rightarrow> (Fail e, s')
     | (Abort, s') \<Rightarrow> (Abort, s')
     | (NoFuel, s') \<Rightarrow> (NoFuel, s'))"

definition modify :: "('s \<Rightarrow> 's) \<Rightarrow> ('s, unit) op" where
  "modify f s = (Ret (), f s)"

definition gets :: "('s \<Rightarrow> 'a) \<Rightarrow> ('s, 'a) op" where
  "gets f s = (Ret (f s), s)"

text \<open>A C call whose status is dropped: the caller goes on whatever the call returned.\<close>

definition ignore_status :: "('s, 'a) op \<Rightarrow> ('s, unit) op" where
  "ignore_status m s = (case m s of
       (Abort, s') \<Rightarrow> (Abort, s')
     | (NoFuel, s') \<Rightarrow> (NoFuel, s')
     | (_, s') \<Rightarrow> (Ret (), s'))"

text \<open>A \<^verbatim>\<open>for\<close> loop over a list of indices, threading an accumulator.\<close>

primrec mfor :: "'i list \<Rightarrow> ('i \<Rightarrow> 'a \<Rightarrow> ('s, 'a) op) \<Rightarrow> 'a \<Rightarrow> ('s, 'a) op" where
  "mfor [] f a = ok a"
| "mfor (i # is) f a = FF (f i a) (mfor is f)"

section \<open>Laws of the combinators\<close>

lemma FF_ok [simp]: "FF (ok x) k = k x"
  by (rule ext) (simp add: FF_def ok_def)

lemma FF_fail [simp]: "FF (fail e) k = fail e"
  by (rule ext) (simp add: FF_def fail_def)

lemma FF_Pair [simp]:
  "FF (Pair (Ret x)) k = k x" "FF (Pair (Fail e)) k = Pair (Fail e)"
  by (rule ext, simp add: FF_def)+

lemma FF_assoc: "FF (FF m k) h = FF m (\<lambda>x. FF (k x) h)"
  by (rule ext) (simp add: FF_def split: prod.splits outcome.splits)

lemma FF_modify [simp]: "FF (modify f) k s = k () (f s)"
  by (simp add: FF_def modify_def)

lemma FF_gets [simp]: "FF (gets f) k s = k (f s) s"
  by (simp add: FF_def gets_def)

lemma ok_apply [simp]: "ok x s = (Ret x, s)"
  by (simp add: ok_def)

lemma fail_apply [simp]: "fail e s = (Fail e, s)"
  by (simp add: fail_def)

lemma modify_apply [simp]: "modify f s = (Ret (), f s)"
  by (simp add: modify_def)

lemma gets_apply [simp]: "gets f s = (Ret (f s), s)"
  by (simp add: gets_def)

lemma mfor_append: "mfor (xs @ ys) f a = FF (mfor xs f a) (mfor ys f)"
proof (induction xs arbitrary: a)
  case (Cons x xs)
  have "mfor (xs @ ys) f = (\<lambda>b. FF (mfor xs f b) (mfor ys f))"
    using Cons.IH by blast
  then show ?case by (simp add: FF_assoc)
qed simp

lemma FF_Ret_iff:
  "FF m k s = (Ret y, t) \<longleftrightarrow> (\<exists>x s'. m s = (Ret x, s') \<and> k x s' = (Ret y, t))"
  by (auto simp: FF_def split: prod.splits outcome.splits)

lemma FF_RetE [elim!]:
  assumes "FF m k s = (Ret y, t)"
  obtains x s' where "m s = (Ret x, s')" and "k x s' = (Ret y, t)"
  using assms by (auto simp: FF_Ret_iff)

section \<open>Preservation of a state predicate, whatever the outcome\<close>

definition keeps :: "('s \<Rightarrow> bool) \<Rightarrow> ('s, 'a) op \<Rightarrow> bool" where
  "keeps P m \<longleftrightarrow> (\<forall>s. P s \<longrightarrow> P (snd (m s)))"

lemma keepsI: "(\<And>s. P s \<Longrightarrow> P (snd (m s))) \<Longrightarrow> keeps P m"
  by (simp add: keeps_def)

lemma keepsD: "keeps P m \<Longrightarrow> P s \<Longrightarrow> P (snd (m s))"
  by (simp add: keeps_def)

lemma keeps_eqD: "keeps P m \<Longrightarrow> P s \<Longrightarrow> m s = (r, t) \<Longrightarrow> P t"
  by (metis keepsD snd_conv)

lemma keeps_ok [keeps_rules]: "keeps P (ok x)"
  by (simp add: keeps_def)

lemma keeps_fail [keeps_rules]: "keeps P (fail e)"
  by (simp add: keeps_def)

lemma keeps_gets [keeps_rules]: "keeps P (gets f)"
  by (simp add: keeps_def)

lemma keeps_modify: "(\<And>s. P s \<Longrightarrow> P (f s)) \<Longrightarrow> keeps P (modify f)"
  by (simp add: keeps_def)

lemma keeps_FF [keeps_rules]:
  assumes "keeps P m" and "\<And>x. keeps P (k x)"
  shows "keeps P (FF m k)"
proof (rule keepsI)
  fix s assume "P s"
  with assms(1) have "P (snd (m s))" by (rule keepsD)
  with assms(2) show "P (snd (FF m k s))"
    by (auto simp: FF_def keeps_def split: prod.splits outcome.splits)
qed

lemma keeps_if [keeps_rules]: "keeps P m \<Longrightarrow> keeps P n \<Longrightarrow> keeps P (if b then m else n)"
  by simp

lemma keeps_mfor [keeps_rules]: "(\<And>i a. keeps P (f i a)) \<Longrightarrow> keeps P (mfor is f a)"
  by (induction "is" arbitrary: a) (auto intro: keeps_rules)

lemma keeps_mfor_on: "(\<And>i a. i \<in> set is \<Longrightarrow> keeps P (f i a)) \<Longrightarrow> keeps P (mfor is f a)"
  by (induction "is" arbitrary: a) (auto intro: keeps_rules)

lemma keeps_ignore_status [keeps_rules]: "keeps P m \<Longrightarrow> keeps P (ignore_status m)"
  by (auto simp: keeps_def ignore_status_def split: prod.splits outcome.splits)

section \<open>Partial correctness of a successful call\<close>

definition returns :: "('s \<Rightarrow> bool) \<Rightarrow> ('s, 'a) op \<Rightarrow> ('a \<Rightarrow> 's \<Rightarrow> bool) \<Rightarrow> bool" where
  "returns P m Q \<longleftrightarrow> (\<forall>s x t. P s \<longrightarrow> m s = (Ret x, t) \<longrightarrow> Q x t)"

lemma returnsI: "(\<And>s x t. P s \<Longrightarrow> m s = (Ret x, t) \<Longrightarrow> Q x t) \<Longrightarrow> returns P m Q"
  by (simp add: returns_def)

lemma returnsD: "returns P m Q \<Longrightarrow> P s \<Longrightarrow> m s = (Ret x, t) \<Longrightarrow> Q x t"
  by (simp add: returns_def)

lemma returns_FF [returns_rules]:
  assumes "returns P m R" and "\<And>x. returns (R x) (k x) Q"
  shows "returns P (FF m k) Q"
  using assms by (fastforce simp: returns_def FF_Ret_iff)

lemma returns_pre: "returns P m Q \<Longrightarrow> (\<And>s. P' s \<Longrightarrow> P s) \<Longrightarrow> returns P' m Q"
  by (auto simp: returns_def)

lemma returns_keeps: "keeps P m \<Longrightarrow> returns P m (\<lambda>_. P)"
  unfolding returns_def using keeps_eqD by metis

lemma keeps_FF_returns:
  assumes "keeps P m" and "returns P m Q" and "\<And>x s. P s \<Longrightarrow> Q x s \<Longrightarrow> P (snd (k x s))"
  shows "keeps P (FF m k)"
proof (rule keepsI)
  fix s assume s: "P s"
  obtain out t where run: "m s = (out, t)" by (rule prod.exhaust)
  then have t: "P t" using assms(1) s keeps_eqD by metis
  show "P (snd (FF m k s))"
  proof (cases out)
    case (Ret x)
    then have "Q x t" using assms(2) s run returnsD by metis
    with assms(3) t Ret run show ?thesis by (simp add: FF_def)
  qed (use run t in \<open>simp_all add: FF_def\<close>)
qed

section \<open>Calls that end in DPU_OK\<close>

definition succeeds :: "('s \<Rightarrow> bool) \<Rightarrow> ('s, 'a) op \<Rightarrow> bool" where
  "succeeds P m \<longleftrightarrow> (\<forall>s. P s \<longrightarrow> (\<exists>x t. m s = (Ret x, t) \<and> P t))"

lemma succeedsI: "(\<And>s. P s \<Longrightarrow> \<exists>x t. m s = (Ret x, t) \<and> P t) \<Longrightarrow> succeeds P m"
  by (simp add: succeeds_def)

lemma succeedsE:
  assumes "succeeds P m" and "P s"
  obtains x t where "m s = (Ret x, t)" and "P t"
  using assms by (auto simp: succeeds_def)

lemma succeeds_ok: "succeeds P (ok x)"
  by (simp add: succeeds_def)

lemma succeeds_modify: "(\<And>s. P s \<Longrightarrow> P (f s)) \<Longrightarrow> succeeds P (modify f)"
  by (simp add: succeeds_def)

lemma succeeds_FF:
  assumes "succeeds P m" and "\<And>x. succeeds P (k x)"
  shows "succeeds P (FF m k)"
proof (rule succeedsI)
  fix s assume "P s"
  with assms(1) obtain x t where "m s = (Ret x, t)" "P t" by (rule succeedsE)
  moreover from assms(2) this(2) obtain y u where "k x t = (Ret y, u)" "P u" by (rule succeedsE)
  ultimately show "\<exists>y u. FF m k s = (Ret y, u) \<and> P u" by (simp add: FF_def)
qed

lemma succeeds_if: "succeeds P m \<Longrightarrow> succeeds P n \<Longrightarrow> succeeds P (if b then m else n)"
  by simp

lemma succeeds_mfor: "(\<And>i a. i \<in> set is \<Longrightarrow> succeeds P (f i a)) \<Longrightarrow> succeeds P (mfor is f a)"
  by (induction "is" arbitrary: a) (auto intro: succeeds_ok succeeds_FF)

section \<open>Bits and counts\<close>

lemma popcount_le: "popcount (w :: 'a::len word) \<le> LENGTH('a)"
  unfolding popcount_def by (metis length_filter_le length_upt minus_nat.diff_0)

lemma popcount_zero [simp]: "popcount (0 :: 'a::len word) = 0"
  by (simp add: popcount_def)

lemma popcount_eq_0_iff: "popcount (w :: 'a::len word) = 0 \<longleftrightarrow> w = 0"
proof
  assume "popcount w = 0"
  then have "\<forall>i < LENGTH('a). \<not> bit w i"
    by (auto simp: popcount_def filter_empty_conv)
  then show "w = 0" by (intro bit_word_eqI) simp
qed simp

lemma bit_bit_of [simp]: "bit (bit_of i :: 'a::len word) n \<longleftrightarrow> n = i \<and> i < LENGTH('a)"
  by (auto simp: bit_of_def bit_exp_iff)

lemma bit_not_bit_of [simp]:
  "bit (NOT (bit_of i) :: 'a::len word) n \<longleftrightarrow> n < LENGTH('a) \<and> n \<noteq> i"
  by (auto simp: bit_not_iff)

lemma word_eq_zero_iff_bits: "(w :: 'a::len word) = 0 \<longleftrightarrow> (\<forall>i < LENGTH('a). \<not> bit w i)"
  by (auto simp: bit_eq_iff possible_bit_word)

lemma and_bit_of_eq_0_iff:
  "(w :: 'a::len word) AND bit_of i = 0 \<longleftrightarrow> \<not> bit w i"
  by (auto simp: word_eq_zero_iff_bits bit_and_iff dest: bit_imp_le_length)

lemma unat_u8_lt: "unat (w :: u8) < 256"
  using order_less_le_trans [OF unsigned_less [of w], of 256] by simp

lemma bit_unat_iff: "bit (unat (w :: 'a::len word)) n \<longleftrightarrow> bit w n"
  by (simp only: unat_eq_nat_uint bit_nat_iff bit_uint_iff) (auto dest: bit_imp_le_length)

lemma bit_word_of_nat_iff: "bit (word_of_nat m :: 'a::len word) n \<longleftrightarrow> n < LENGTH('a) \<and> bit m n"
  by (simp add: bit_of_nat_iff)

lemma bit_mask_minus_one [simp]:
  "n \<le> LENGTH('a) \<Longrightarrow> bit (bit_of n - 1 :: 'a::len word) i \<longleftrightarrow> i < n"
  by (auto simp: bit_of_def bit_mask_iff simp flip: mask_eq_exp_minus_1)

lemma bit_cbyte: "bit (cbyte k x) i \<longleftrightarrow> i < 8 \<and> bit x (8 * k + i)"
proof -
  have m: "(0xFF :: u64) = mask 8" by (simp add: mask_eq_exp_minus_1)
  show ?thesis unfolding cbyte_def m
    by (auto simp: bit_and_iff bit_drop_bit_eq bit_mask_iff ac_simps)
qed

end
