(* ===== verification/Dpu_Mask.thy ===== *)
theory Dpu_Mask
  imports Prelude
begin

text \<open>
  \<^verbatim>\<open>commons/include/dpu_mask.h\<close>: sets of DPUs of one control interface as an 8-bit
  \<open>dpu_bitfield_t\<close>. The interface \<open>member_mask\<close> states what the other components rely on, and
  the operations of the header are shown to implement it.
\<close>

type_synonym dpu_bitfield = u8

definition dpu_mask_empty :: dpu_bitfield where
  "dpu_mask_empty = 0"

definition dpu_mask_one :: "nat \<Rightarrow> dpu_bitfield" where
  "dpu_mask_one dpu_id = bit_of dpu_id"

text \<open>\<open>(1L << n) - 1\<close>, truncated to 8 bits.\<close>

definition dpu_mask_all :: "nat \<Rightarrow> dpu_bitfield" where
  "dpu_mask_all nb_of_dpus = ucast ((bit_of nb_of_dpus - 1) :: u64)"

definition dpu_mask_union :: "dpu_bitfield \<Rightarrow> dpu_bitfield \<Rightarrow> dpu_bitfield" where
  "dpu_mask_union mask1 mask2 = mask1 OR mask2"

definition dpu_mask_intersection :: "dpu_bitfield \<Rightarrow> dpu_bitfield \<Rightarrow> dpu_bitfield" where
  "dpu_mask_intersection mask1 mask2 = mask1 AND mask2"

definition dpu_mask_difference :: "dpu_bitfield \<Rightarrow> dpu_bitfield \<Rightarrow> dpu_bitfield" where
  "dpu_mask_difference mask1 mask2 = mask1 AND NOT mask2"

definition dpu_mask_disjoint :: "dpu_bitfield \<Rightarrow> dpu_bitfield \<Rightarrow> dpu_bitfield" where
  "dpu_mask_disjoint mask1 mask2 = mask1 XOR mask2"

definition dpu_mask_select :: "dpu_bitfield \<Rightarrow> nat \<Rightarrow> dpu_bitfield" where
  "dpu_mask_select m dpu_id = dpu_mask_union m (dpu_mask_one dpu_id)"

definition dpu_mask_unselect :: "dpu_bitfield \<Rightarrow> nat \<Rightarrow> dpu_bitfield" where
  "dpu_mask_unselect m dpu_id = dpu_mask_difference m (dpu_mask_one dpu_id)"

definition dpu_bitfield_toggle :: "dpu_bitfield \<Rightarrow> nat \<Rightarrow> dpu_bitfield" where
  "dpu_bitfield_toggle m dpu_id = dpu_mask_disjoint m (dpu_mask_one dpu_id)"

definition dpu_mask_is_selected :: "dpu_bitfield \<Rightarrow> nat \<Rightarrow> bool" where
  "dpu_mask_is_selected m dpu_id \<longleftrightarrow> dpu_mask_intersection m (dpu_mask_one dpu_id) \<noteq> dpu_mask_empty"

definition dpu_mask_count :: "dpu_bitfield \<Rightarrow> nat" where
  "dpu_mask_count m = popcount m"

lemmas dpu_mask_defs = dpu_mask_empty_def dpu_mask_one_def dpu_mask_all_def dpu_mask_union_def
  dpu_mask_intersection_def dpu_mask_difference_def dpu_mask_disjoint_def dpu_mask_select_def
  dpu_mask_unselect_def dpu_bitfield_toggle_def dpu_mask_is_selected_def dpu_mask_count_def

section \<open>Masks as sets\<close>

locale member_mask =
  fixes empty :: 'm
    and select :: "'m \<Rightarrow> nat \<Rightarrow> 'm"
    and unselect :: "'m \<Rightarrow> nat \<Rightarrow> 'm"
    and toggle :: "'m \<Rightarrow> nat \<Rightarrow> 'm"
    and union :: "'m \<Rightarrow> 'm \<Rightarrow> 'm"
    and inter :: "'m \<Rightarrow> 'm \<Rightarrow> 'm"
    and diff :: "'m \<Rightarrow> 'm \<Rightarrow> 'm"
    and is_selected :: "'m \<Rightarrow> nat \<Rightarrow> bool"
    and count :: "'m \<Rightarrow> nat"
    and capacity :: nat
  assumes sel_empty: "\<not> is_selected empty i"
    and sel_select: "d < capacity \<Longrightarrow> is_selected (select m d) i \<longleftrightarrow> i = d \<or> is_selected m i"
    and sel_unselect: "is_selected (unselect m d) i \<longleftrightarrow> i \<noteq> d \<and> is_selected m i"
    and sel_toggle: "d < capacity \<Longrightarrow> is_selected (toggle m d) i \<longleftrightarrow> is_selected m i \<noteq> (i = d)"
    and sel_union: "is_selected (union m n) i \<longleftrightarrow> is_selected m i \<or> is_selected n i"
    and sel_inter: "is_selected (inter m n) i \<longleftrightarrow> is_selected m i \<and> is_selected n i"
    and sel_diff: "is_selected (diff m n) i \<longleftrightarrow> is_selected m i \<and> \<not> is_selected n i"
    and sel_bound: "is_selected m i \<Longrightarrow> i < capacity"
    and sel_ext: "(\<And>i. is_selected m i \<longleftrightarrow> is_selected n i) \<Longrightarrow> m = n"
    and count_card: "count m = card {i. is_selected m i}"
begin

definition elems :: "'m \<Rightarrow> nat set" where
  "elems m = {i. is_selected m i}"

lemma elems_finite [simp]: "finite (elems m)"
  by (rule finite_subset [of _ "{..<capacity}"]) (auto simp: elems_def dest: sel_bound)

lemma elems_select: "d < capacity \<Longrightarrow> elems (select m d) = insert d (elems m)"
  by (auto simp: elems_def sel_select)

lemma elems_unselect: "elems (unselect m d) = elems m - {d}"
  by (auto simp: elems_def sel_unselect)

lemma unselect_select: "d < capacity \<Longrightarrow> \<not> is_selected m d \<Longrightarrow> unselect (select m d) d = m"
  by (rule sel_ext) (auto simp: sel_select sel_unselect)

lemma toggle_toggle: "d < capacity \<Longrightarrow> toggle (toggle m d) d = m"
  by (rule sel_ext) (auto simp: sel_toggle)

lemma count_select:
  "d < capacity \<Longrightarrow> count (select m d) = (if is_selected m d then count m else Suc (count m))"
  using elems_finite [of m] elems_select [of d m]
  by (auto simp: count_card elems_def insert_absorb)

lemma count_unselect:
  "count (unselect m d) = (if is_selected m d then count m - 1 else count m)"
  using elems_finite [of m] elems_unselect [of m d]
  by (auto simp: count_card elems_def card_Diff_singleton_if)

lemma count_union_inter: "count (union m n) + count (inter m n) = count m + count n"
proof -
  have "card (elems m) + card (elems n) = card (elems m \<union> elems n) + card (elems m \<inter> elems n)"
    by (rule card_Un_Int) simp_all
  moreover have "elems (union m n) = elems m \<union> elems n" "elems (inter m n) = elems m \<inter> elems n"
    by (auto simp: elems_def sel_union sel_inter)
  ultimately show ?thesis by (simp add: count_card flip: elems_def)
qed

end

lemma is_selected_iff_bit: "dpu_mask_is_selected m i \<longleftrightarrow> bit m i"
  by (simp add: dpu_mask_defs and_bit_of_eq_0_iff)

lemma popcount_card: "popcount (w :: 'a::len word) = card {i. bit w i}"
proof -
  have "{i. bit w i} = set (filter (bit w) [0..<LENGTH('a)])"
    by (auto dest: bit_imp_le_length)
  then have "card {i. bit w i} = length (filter (bit w) [0..<LENGTH('a)])"
    by (simp only: distinct_card distinct_filter distinct_upt)
  then show ?thesis by (simp add: popcount_def)
qed

interpretation dpu_mask: member_mask dpu_mask_empty dpu_mask_select dpu_mask_unselect
  dpu_bitfield_toggle dpu_mask_union dpu_mask_intersection dpu_mask_difference
  dpu_mask_is_selected dpu_mask_count 8
proof unfold_locales
  fix m n :: dpu_bitfield and d i :: nat
  show "\<not> dpu_mask_is_selected dpu_mask_empty i"
    by (simp add: is_selected_iff_bit dpu_mask_empty_def)
  show "dpu_mask_is_selected (dpu_mask_unselect m d) i \<longleftrightarrow> i \<noteq> d \<and> dpu_mask_is_selected m i"
    by (auto simp: is_selected_iff_bit dpu_mask_defs bit_and_iff dest: bit_imp_le_length)
  show "dpu_mask_is_selected (dpu_mask_union m n) i \<longleftrightarrow> dpu_mask_is_selected m i \<or> dpu_mask_is_selected n i"
    by (simp add: is_selected_iff_bit dpu_mask_defs bit_or_iff)
  show "dpu_mask_is_selected (dpu_mask_intersection m n) i
    \<longleftrightarrow> dpu_mask_is_selected m i \<and> dpu_mask_is_selected n i"
    by (simp add: is_selected_iff_bit dpu_mask_defs bit_and_iff)
  show "dpu_mask_is_selected (dpu_mask_difference m n) i
    \<longleftrightarrow> dpu_mask_is_selected m i \<and> \<not> dpu_mask_is_selected n i"
    by (auto simp: is_selected_iff_bit dpu_mask_defs bit_and_iff bit_not_iff dest: bit_imp_le_length)
  show "dpu_mask_is_selected m i \<Longrightarrow> i < 8"
    using bit_imp_le_length [of m i] by (simp add: is_selected_iff_bit)
  show "(\<And>i. dpu_mask_is_selected m i \<longleftrightarrow> dpu_mask_is_selected n i) \<Longrightarrow> m = n"
    by (simp add: is_selected_iff_bit bit_word_eqI)
  show "dpu_mask_count m = card {i. dpu_mask_is_selected m i}"
    by (simp add: is_selected_iff_bit dpu_mask_count_def popcount_card)
qed (auto simp: is_selected_iff_bit dpu_mask_defs bit_or_iff bit_xor_iff)

lemma dpu_mask_all_selected: "n \<le> 8 \<Longrightarrow> dpu_mask_is_selected (dpu_mask_all n) i \<longleftrightarrow> i < n"
  by (auto simp: is_selected_iff_bit dpu_mask_all_def bit_ucast_iff)

end
