(* ===== verification/Cmd_Ring.thy ===== *)
theory Cmd_Ring
  imports Prelude
begin

text \<open>
  The circular buffer of the last control interface packets, \<^verbatim>\<open>debug_record_last_cmd\<close> and the
  dump macro \<^verbatim>\<open>LOGD_LAST_COMMANDS\<close> of \<^verbatim>\<open>ufi/src/ufi_rank_utils.h\<close>, over
  \<^verbatim>\<open>struct dpu_circular_buffer_commands_t\<close> of \<^verbatim>\<open>commons/include/dpu_rank.h\<close>. The buffer
  refines the list of all recorded packets, cut to the last \<open>size\<close> of them.
\<close>

record dpu_command =
  cmd_data :: "u64 list"
  cmd_direction :: char

record cmds_buffer =
  cb_cmds :: "dpu_command list"
  cb_size :: nat
  cb_nb :: nat
  cb_idx_last :: nat
  cb_has_wrapped :: bool

definition WRITE_DIR :: char where "WRITE_DIR = CHR ''W''"
definition READ_DIR :: char where "READ_DIR = CHR ''R''"

text \<open>
  The body of \<open>debug_record_last_cmd\<close> once debug logging is enabled. \<open>memcpy\<close> copies the
  first \<open>nr_cis\<close> values; the rest of the slot keeps its old values.
\<close>

definition cmds_buffer_record :: "nat \<Rightarrow> char \<Rightarrow> u64 list \<Rightarrow> cmds_buffer \<Rightarrow> cmds_buffer" where
  "cmds_buffer_record nr_cis direction commands b =
     (let idx = cb_idx_last b;
          old = cb_cmds b ! idx;
          slot = old\<lparr>cmd_data := take nr_cis commands @ drop nr_cis (cmd_data old),
                     cmd_direction := direction\<rparr>;
          idx' = idx + 1;
          b1 = b\<lparr>cb_cmds := (cb_cmds b)[idx := slot]\<rparr>;
          b2 = (if cb_has_wrapped b1 then b1
                else if idx' \<ge> cb_size b1 then b1\<lparr>cb_has_wrapped := True, cb_nb := cb_size b1\<rparr>
                else b1\<lparr>cb_nb := cb_nb b1 + 1\<rparr>)
      in b2\<lparr>cb_idx_last := idx' mod cb_size b2\<rparr>)"

text \<open>
  The packets in the order \<open>LOGD_LAST_COMMANDS\<close> prints them: \<open>LOG_PACKET\<close> prints the first
  \<open>nr_cis\<close> values of each.
\<close>

fun cmds_buffer_walk :: "nat \<Rightarrow> cmds_buffer \<Rightarrow> nat \<Rightarrow> nat \<Rightarrow> (u64 list \<times> char) list" where
  "cmds_buffer_walk nr_cis b idx 0 = []"
| "cmds_buffer_walk nr_cis b idx (Suc n) =
     (take nr_cis (cmd_data (cb_cmds b ! idx)), cmd_direction (cb_cmds b ! idx))
     # cmds_buffer_walk nr_cis b ((idx + 1) mod cb_size b) n"

definition cmds_buffer_dump :: "nat \<Rightarrow> cmds_buffer \<Rightarrow> (u64 list \<times> char) list" where
  "cmds_buffer_dump nr_cis b =
     cmds_buffer_walk nr_cis b (if cb_has_wrapped b then cb_idx_last b else 0) (cb_nb b)"

definition cmds_buffer_wf :: "nat \<Rightarrow> cmds_buffer \<Rightarrow> bool" where
  "cmds_buffer_wf nr_cis b \<longleftrightarrow>
     0 < cb_size b \<and> length (cb_cmds b) = cb_size b \<and> cb_idx_last b < cb_size b
     \<and> (if cb_has_wrapped b then cb_nb b = cb_size b else cb_nb b = cb_idx_last b)"

definition last_n :: "nat \<Rightarrow> 'a list \<Rightarrow> 'a list" where
  "last_n n xs = drop (length xs - n) xs"

section \<open>The contract of a bounded log\<close>

locale bounded_log =
  fixes push :: "'e \<Rightarrow> 'b \<Rightarrow> 'b"
    and entries :: "'b \<Rightarrow> 'e list"
    and capacity :: "'b \<Rightarrow> nat"
    and invar :: "'b \<Rightarrow> bool"
    and fits :: "'e \<Rightarrow> bool"
  assumes invar_push: "invar b \<Longrightarrow> fits e \<Longrightarrow> invar (push e b)"
    and capacity_push: "capacity (push e b) = capacity b"
    and entries_push: "invar b \<Longrightarrow> fits e \<Longrightarrow> entries (push e b) = last_n (capacity b) (entries b @ [e])"
    and entries_le: "invar b \<Longrightarrow> length (entries b) \<le> capacity b"
begin

lemma last_n_last_n_append: "last_n n (last_n n xs @ ys) = last_n n (xs @ ys)"
  by (cases "n \<le> length xs") (auto simp: last_n_def add.commute)

lemma entries_pushes:
  assumes "invar b" and "\<forall>e \<in> set es. fits e"
  shows "entries (fold push es b) = last_n (capacity b) (entries b @ es) \<and> invar (fold push es b)"
  using assms
proof (induction es arbitrary: b)
  case Nil
  then show ?case using entries_le [of b] by (simp add: last_n_def)
next
  case (Cons e es)
  then have "invar (push e b)" and "entries (push e b) = last_n (capacity b) (entries b @ [e])"
    by (simp_all add: invar_push entries_push)
  with Cons.IH [of "push e b"] Cons.prems show ?case
    using last_n_last_n_append [of "capacity b" "entries b @ [e]" es]
    by (simp add: capacity_push)
qed

end

section \<open>The circular buffer implements it\<close>

lemma cmds_buffer_walk_eq:
  "idx < cb_size b \<Longrightarrow> cmds_buffer_walk nr_cis b idx n =
     map (\<lambda>k. let c = cb_cmds b ! ((idx + k) mod cb_size b)
              in (take nr_cis (cmd_data c), cmd_direction c)) [0..<n]"
proof (induction n arbitrary: idx)
  case (Suc n)
  have "(idx + 1) mod cb_size b < cb_size b" using Suc.prems by simp
  from Suc.IH [OF this] Suc.prems show ?case
    by (simp add: upt_conv_Cons map_Suc_upt [symmetric] Let_def mod_add_left_eq
      del: upt_Suc)
qed simp

lemma cmds_buffer_record_size [simp]: "cb_size (cmds_buffer_record n d c b) = cb_size b"
  by (simp add: cmds_buffer_record_def Let_def)

lemma cmds_buffer_record_wf: "cmds_buffer_wf m b \<Longrightarrow> cmds_buffer_wf m (cmds_buffer_record n d c b)"
  by (auto simp: cmds_buffer_record_def cmds_buffer_wf_def Let_def not_le)

lemma cmds_buffer_dump_eq:
  "cmds_buffer_wf nr_cis b \<Longrightarrow> cmds_buffer_dump nr_cis b =
     map (\<lambda>k. let c = cb_cmds b ! (((if cb_has_wrapped b then cb_idx_last b else 0) + k) mod cb_size b)
              in (take nr_cis (cmd_data c), cmd_direction c)) [0..<cb_nb b]"
  unfolding cmds_buffer_dump_def by (rule cmds_buffer_walk_eq) (auto simp: cmds_buffer_wf_def)

lemma ring_shift: "(Suc i mod s + k) mod s = Suc (i + k) mod (s :: nat)"
  by (metis add_Suc mod_add_left_eq)

lemma ring_wrap: "i < s \<Longrightarrow> k < s \<Longrightarrow> Suc (i + k) mod s = i \<longleftrightarrow> k = s - Suc 0" for i k s :: nat
  by (cases "Suc (i + k) < s") (auto simp: le_mod_geq not_less mod_if)

lemma cmds_buffer_dump_record:
  assumes wf: "cmds_buffer_wf n b" and len: "n \<le> length c"
  shows "cmds_buffer_dump n (cmds_buffer_record n d c b)
    = last_n (cb_size b) (cmds_buffer_dump n b @ [(take n c, d)])"
proof -
  note defs = cmds_buffer_record_def cmds_buffer_wf_def Let_def last_n_def
  have wf': "cmds_buffer_wf n (cmds_buffer_record n d c b)"
    using wf by (rule cmds_buffer_record_wf)
  show ?thesis
  proof (cases "cb_has_wrapped b")
    case True
    let ?s = "cb_size b" and ?i = "cb_idx_last b"
    have bounds: "?i < ?s" "length (cb_cmds b) = ?s" "cb_nb b = ?s"
      using wf True by (simp_all add: cmds_buffer_wf_def)
    have at: "cmds_buffer_dump n (cmds_buffer_record n d c b) ! k
        = last_n ?s (cmds_buffer_dump n b @ [(take n c, d)]) ! k" if "k < ?s" for k
    proof (cases "k = ?s - Suc 0")
      case last: True
      then have "Suc (?i + k) mod ?s = ?i" using ring_wrap [OF bounds(1) that] by blast
      with last True that len bounds show ?thesis
        unfolding cmds_buffer_dump_eq [OF wf] cmds_buffer_dump_eq [OF wf']
        by (simp add: cmds_buffer_record_def Let_def last_n_def nth_append ring_shift)
    next
      case False
      then have "Suc (?i + k) mod ?s \<noteq> ?i" using ring_wrap [OF bounds(1) that] by blast
      moreover have "k < ?s - Suc 0" "Suc k < ?s" using False that by linarith+
      ultimately show ?thesis using True that len bounds
        unfolding cmds_buffer_dump_eq [OF wf] cmds_buffer_dump_eq [OF wf']
        by (simp add: cmds_buffer_record_def Let_def last_n_def nth_append ring_shift)
    qed
    have "cb_nb (cmds_buffer_record n d c b) = ?s"
      using True bounds by (simp add: cmds_buffer_record_def Let_def)
    then have len1: "length (cmds_buffer_dump n (cmds_buffer_record n d c b)) = ?s"
      by (simp only: cmds_buffer_dump_eq [OF wf'] length_map length_upt minus_nat.diff_0)
    have len2: "length (last_n ?s (cmds_buffer_dump n b @ [(take n c, d)])) = ?s"
      using bounds by (simp add: cmds_buffer_dump_eq [OF wf] last_n_def)
    show ?thesis by (rule nth_equalityI) (simp_all only: len1 len2 at)
  next
    case False
    let ?s = "cb_size b" and ?i = "cb_idx_last b"
    have bounds: "?i < ?s" "length (cb_cmds b) = ?s" "cb_nb b = ?i"
      using wf False by (simp_all add: cmds_buffer_wf_def)
    have nb: "cb_nb (cmds_buffer_record n d c b) = Suc ?i"
      using False bounds by (simp add: cmds_buffer_record_def Let_def)
    have start: "cb_has_wrapped (cmds_buffer_record n d c b) \<Longrightarrow> cb_idx_last (cmds_buffer_record n d c b) = 0"
      using False bounds by (simp add: cmds_buffer_record_def Let_def le_mod_geq split: if_splits)
    have at: "cmds_buffer_dump n (cmds_buffer_record n d c b) ! k
        = (cmds_buffer_dump n b @ [(take n c, d)]) ! k" if "k < Suc ?i" for k
    proof -
      have "cmds_buffer_dump n (cmds_buffer_record n d c b) ! k =
          (let e = cb_cmds (cmds_buffer_record n d c b) ! k in (take n (cmd_data e), cmd_direction e))"
        using that bounds start nb by (simp add: cmds_buffer_dump_eq [OF wf'] del: upt_Suc)
      then show ?thesis using that bounds len False
        by (cases "k = ?i") (simp_all add: cmds_buffer_dump_eq [OF wf] cmds_buffer_record_def Let_def nth_append)
    qed
    have len1: "length (cmds_buffer_dump n (cmds_buffer_record n d c b)) = Suc ?i"
      by (simp only: cmds_buffer_dump_eq [OF wf'] length_map length_upt minus_nat.diff_0 nb)
    have len2: "length (cmds_buffer_dump n b @ [(take n c, d)]) = Suc ?i"
      using bounds by (simp add: cmds_buffer_dump_eq [OF wf])
    have "last_n ?s (cmds_buffer_dump n b @ [(take n c, d)]) = cmds_buffer_dump n b @ [(take n c, d)]"
      unfolding last_n_def len2 using bounds by simp
    then show ?thesis
      by (simp only:) (rule nth_equalityI, simp_all only: len1 len2 at)
  qed
qed

lemma cmds_buffer_dump_length: "cmds_buffer_wf n b \<Longrightarrow> length (cmds_buffer_dump n b) \<le> cb_size b"
  by (auto simp: cmds_buffer_dump_eq cmds_buffer_wf_def split: if_splits)

interpretation cmd_log: bounded_log
  "\<lambda>(c, d). cmds_buffer_record nr_cis d c" "cmds_buffer_dump nr_cis" cb_size "cmds_buffer_wf nr_cis"
  "\<lambda>(c, d). length c = nr_cis" for nr_cis
  by unfold_locales
   (auto simp: cmds_buffer_record_wf cmds_buffer_dump_record cmds_buffer_dump_length)


section \<open>What the dump shows\<close>

definition empty_cmds_buffer :: "nat \<Rightarrow> cmds_buffer" where
  "empty_cmds_buffer n = \<lparr>cb_cmds = replicate n \<lparr>cmd_data = replicate 8 0, cmd_direction = CHR ''?''\<rparr>,
     cb_size = n, cb_nb = 0, cb_idx_last = 0, cb_has_wrapped = False\<rparr>"

text \<open>
  After any sequence of packets has been recorded in an empty buffer, the dump made on a
  timeout shows the last \<open>size\<close> of them, oldest first, each with its direction: none is lost,
  duplicated or out of order, before and after the buffer wraps.
\<close>

lemma dump_after_records:
  assumes "0 < n" and "\<forall>(c, d) \<in> set packets. length c = nr_cis"
  shows "cmds_buffer_dump nr_cis (fold (\<lambda>(c, d). cmds_buffer_record nr_cis d c) packets (empty_cmds_buffer n))
    = last_n n packets"
proof -
  have "cmds_buffer_wf nr_cis (empty_cmds_buffer n)"
    using assms(1) by (simp add: cmds_buffer_wf_def empty_cmds_buffer_def)
  moreover have "\<forall>e \<in> set packets. case e of (c, d) \<Rightarrow> length c = nr_cis"
    using assms(2) by simp
  ultimately have "cmds_buffer_dump nr_cis (fold (\<lambda>(c, d). cmds_buffer_record nr_cis d c) packets (empty_cmds_buffer n))
    = last_n (cb_size (empty_cmds_buffer n)) (cmds_buffer_dump nr_cis (empty_cmds_buffer n) @ packets)"
    using cmd_log.entries_pushes by blast
  then show ?thesis
    by (simp add: empty_cmds_buffer_def cmds_buffer_dump_def)
qed

lemma dump_after_records_witness:
  "cmds_buffer_dump 1 (fold (\<lambda>(c, d). cmds_buffer_record 1 d c) [([1], WRITE_DIR), ([2], READ_DIR), ([3], READ_DIR)]
     (empty_cmds_buffer 2)) = [([2], READ_DIR), ([3], READ_DIR)]"
  using dump_after_records [of 2 "[([1], WRITE_DIR), ([2], READ_DIR), ([3], READ_DIR)]" 1]
  by (simp add: last_n_def)

end
