(* ===== verification/Rank_State.thy ===== *)
theory Rank_State
  imports Dpu_Mask Cmd_Ring
begin

text \<open>
  The state the UFI layer works on: \<^verbatim>\<open>struct dpu_rank_t\<close> and the structures it embeds
  (\<^verbatim>\<open>commons/include/dpu_rank.h\<close>, \<^verbatim>\<open>api/include/lowlevel/dpu_hw_description.h\<close>,
  \<^verbatim>\<open>dpu_description.h\<close>, \<^verbatim>\<open>dpu_runner.h\<close>, \<^verbatim>\<open>api/include/api/dpu_types.h\<close>). The type variable
  \<open>'w\<close> is the backend behind \<^verbatim>\<open>struct dpu_rank_handler\<close> (hardware, driver or simulator): it is
  not code of this layer, so the handler's functions are fields of the record, and
  \<open>handler_ok\<close> states the only thing the layer relies on, that \<open>update_commands\<close> fills the
  fixed array it is given.

  C arrays of fixed length are lists whose length \<open>rank_wf\<close> fixes; counters and indices that
  the C code keeps in \<open>u8\<close> and that stay below 9 are \<open>nat\<close>.
\<close>

abbreviation (input) DPU_MAX_NR_CIS :: nat where "DPU_MAX_NR_CIS \<equiv> 8"
abbreviation (input) DPU_MAX_NR_DPUS_PER_CI :: nat where "DPU_MAX_NR_DPUS_PER_CI \<equiv> 8"
abbreviation (input) DPU_MAX_NR_GROUPS :: nat where "DPU_MAX_NR_GROUPS \<equiv> 8"
abbreviation (input) MAX_NR_DPUS_PER_RANK :: nat where "MAX_NR_DPUS_PER_RANK \<equiv> 64"
abbreviation (input) NR_OF_WRAM_BANKS :: nat where "NR_OF_WRAM_BANKS \<equiv> 4"
abbreviation (input) NB_MAX_REPAIR_ADDR :: nat where "NB_MAX_REPAIR_ADDR \<equiv> 4"

section \<open>Data\<close>

datatype dpu_slice_target_type =
    DPU_SLICE_TARGET_NONE
  | DPU_SLICE_TARGET_DPU
  | DPU_SLICE_TARGET_ALL
  | DPU_SLICE_TARGET_GROUP

text \<open>\<open>dpu_id\<close> and \<open>group_id\<close> are members of one union, so they share the field \<open>target_id\<close>.\<close>

record dpu_slice_target =
  target_type :: dpu_slice_target_type
  target_id :: nat

record dpu_configuration_slice_info =
  byte_order :: u64
  structure_value :: u64
  slice_target :: dpu_slice_target
  host_mux_mram_state :: u8
  dpus_per_group :: "u32 list"
  enabled_dpus :: u32
  all_dpus_are_enabled :: bool

record dpu_control_interface_context =
  fault_decode :: u8
  fault_collide :: u8
  color :: u8
  slice_info :: "dpu_configuration_slice_info list"

record dpu_run_context =
  dpu_running :: "u8 list"
  dpu_in_fault :: "u8 list"
  nb_dpu_running :: nat

record dpu_bit_config =
  cpu2dpu :: u16
  dpu2cpu :: u16
  nibble_swap :: u8
  stutter :: u8

record dpu_carousel_config =
  cmd_duration :: u8
  cmd_sampling :: u8
  res_duration :: u8
  res_sampling :: u8

record dpu_repair_config =
  AB_msbs :: u8
  CD_msbs :: u8
  A_lsbs :: u8
  B_lsbs :: u8
  C_lsbs :: u8
  D_lsbs :: u8
  even_index :: u8
  odd_index :: u8

record dpu_memory_repair_address =
  mra_address :: u32
  mra_faulty_bits :: u64

record dpu_memory_repair =
  corrupted_addresses :: "dpu_memory_repair_address list"
  nr_of_corrupted_addresses :: nat
  fail_to_repair :: bool

text \<open>A symbol of the program loaded in a DPU (\<^verbatim>\<open>api/include/lowlevel/dpu_elf.h\<close>).\<close>

record dpu_elf_symbol =
  symbol_name :: string
  symbol_value :: u32
  symbol_size :: u32

record dpu =
  dpu_enabled :: bool
  iram_repair :: dpu_memory_repair
  wram_repair :: "dpu_memory_repair list"
  program_symbols :: "dpu_elf_symbol list option"

datatype dpu_type =
    FUNCTIONAL_SIMULATOR | CYCLE_ACCURATE_SIMULATOR | RTL_SIMULATOR | HW | BACKUP_SPI | SCENARIO

record dpu_hw_description =
  chip_id :: u32
  carousel :: dpu_carousel_config
  fck_frequency_in_mhz :: u32
  reset_wait_duration :: u8
  std_temperature :: u8
  clock_division :: u8
  nr_of_control_interfaces :: nat
  nr_of_dpus_per_control_interface :: nat
  iram_size :: u16
  pcb_transformation :: dpu_bit_config
  nr_of_threads :: nat
  nr_of_notify_bits :: nat
  nr_of_atomic_bits :: nat
  nr_of_work_registers_per_thread :: nat

record dpu_configuration =
  api_must_switch_mram_mux :: bool
  init_mram_mux :: bool
  do_iram_repair :: bool
  do_wram_repair :: bool
  enable_cycle_accurate_behavior :: bool
  disable_api_safe_checks :: bool
  ila_control_refresh :: bool

section \<open>Transfer matrices\<close>

text \<open>\<^verbatim>\<open>struct dpu_transfer_matrix\<close>: one host pointer per DPU (0 is \<open>NULL\<close>), offset and size.\<close>

record dpu_transfer_matrix =
  tm_ptr :: "u64 list"
  tm_offset :: u32
  tm_size :: u32
  tm_type :: nat

definition transfer_matrix_wf :: "dpu_transfer_matrix \<Rightarrow> bool" where
  "transfer_matrix_wf m \<longleftrightarrow> length (tm_ptr m) = MAX_NR_DPUS_PER_RANK"

section \<open>The rank and its handler\<close>

datatype dpu_rank_status =
    DPU_RANK_SUCCESS
  | DPU_RANK_COMMUNICATION_ERROR
  | DPU_RANK_BACKEND_ERROR
  | DPU_RANK_SYSTEM_ERROR
  | DPU_RANK_INVALID_PROPERTY_ERROR
  | DPU_RANK_ENODEV

datatype dpu_event_kind =
    DPU_EVENT_RESET | DPU_EVENT_EXTRACT_CONTEXT | DPU_EVENT_RESTORE_CONTEXT | DPU_EVENT_MRAM_ACCESS_PROGRAM
  | DPU_EVENT_LOAD_PROGRAM | DPU_EVENT_DEBUG_ACTION

datatype dpu_custom_command =
    DPU_COMMAND_DPU_SOFT_RESET
  | DPU_COMMAND_ALL_SOFT_RESET
  | DPU_COMMAND_DPU_PREEXECUTION
  | DPU_COMMAND_ALL_PREEXECUTION
  | DPU_COMMAND_DPU_POSTEXECUTION
  | DPU_COMMAND_ALL_POSTEXECUTION
  | DPU_COMMAND_CUSTOM_LABEL
  | DPU_COMMAND_POSTMORTEM
  | DPU_COMMAND_SYSTEM_REPORT
  | DPU_COMMAND_BINARY_PATH
  | DPU_COMMAND_EVENT_START dpu_event_kind
  | DPU_COMMAND_EVENT_END dpu_event_kind
  | DPU_COMMAND_SET_SLICE_INFO

record 'w dpu_rank_handler =
  commit_commands :: "u64 list \<Rightarrow> 'w \<Rightarrow> dpu_rank_status \<times> 'w"
  update_commands :: "u64 list \<Rightarrow> 'w \<Rightarrow> dpu_rank_status \<times> u64 list \<times> 'w"
  copy_to_rank :: "dpu_transfer_matrix \<Rightarrow> 'w \<Rightarrow> dpu_rank_status \<times> 'w"
  copy_from_rank :: "dpu_transfer_matrix \<Rightarrow> 'w \<Rightarrow> dpu_rank_status \<times> 'w"
  custom_operation :: "(nat \<times> nat) option \<Rightarrow> dpu_custom_command \<Rightarrow> 'w \<Rightarrow> dpu_rank_status \<times> 'w"

text \<open>What a debugger saves of the rank before it takes control.\<close>

record dpu_debug_context =
  debug_color :: u8
  debug_result :: "u32 list"
  debug_slice_info :: "dpu_configuration_slice_info list"

text \<open>
  \<open>r_logd\<close> is \<open>LOGD_ENABLED\<close> of the \<open>ufi\<close> log module. The host buffers that IRAM and WRAM
  copies read and write are objects named by their address: \<open>host_words p i\<close> is the \<open>i\<close>-th
  \<open>dpuword_t\<close> and \<open>host_instrs p i\<close> the \<open>i\<close>-th \<open>dpuinstruction_t\<close> of the buffer at \<open>p\<close>.
\<close>

record 'w dpu_rank =
  r_type :: dpu_type
  r_hw :: dpu_hw_description
  r_configuration :: dpu_configuration
  r_ci :: dpu_control_interface_context
  r_run_context :: dpu_run_context
  r_dpus :: "dpu list"
  r_nr_dpus_enabled :: nat
  r_cmds :: "u64 list"
  r_data :: "u64 list"
  r_cmds_buffer :: cmds_buffer
  r_debug :: dpu_debug_context
  r_logd :: bool
  r_handler :: "'w dpu_rank_handler"
  r_world :: 'w
  host_words :: "u64 \<Rightarrow> nat \<Rightarrow> u32"
  host_instrs :: "u64 \<Rightarrow> nat \<Rightarrow> u64"

type_synonym ('w, 'a) ufi = "('w dpu_rank, 'a) op"

abbreviation nr_cis :: "'w dpu_rank \<Rightarrow> nat" where
  "nr_cis r \<equiv> nr_of_control_interfaces (r_hw r)"

abbreviation nr_dpus :: "'w dpu_rank \<Rightarrow> nat" where
  "nr_dpus r \<equiv> nr_of_dpus_per_control_interface (r_hw r)"

abbreviation r_slice :: "'w dpu_rank \<Rightarrow> nat \<Rightarrow> dpu_configuration_slice_info" where
  "r_slice r i \<equiv> slice_info (r_ci r) ! i"

definition upd_slice ::
  "nat \<Rightarrow> (dpu_configuration_slice_info \<Rightarrow> dpu_configuration_slice_info) \<Rightarrow> 'w dpu_rank \<Rightarrow> 'w dpu_rank" where
  "upd_slice i f r = r\<lparr>r_ci := (r_ci r)\<lparr>slice_info := (slice_info (r_ci r))[i := f (r_slice r i)]\<rparr>\<rparr>"

definition upd_ctx ::
  "(dpu_control_interface_context \<Rightarrow> dpu_control_interface_context) \<Rightarrow> 'w dpu_rank \<Rightarrow> 'w dpu_rank" where
  "upd_ctx f r = r\<lparr>r_ci := f (r_ci r)\<rparr>"

definition dpu_index :: "'w dpu_rank \<Rightarrow> nat \<Rightarrow> nat \<Rightarrow> nat" where
  "dpu_index r ci d = nr_dpus r * ci + d"

definition dpu_get_unsafe :: "'w dpu_rank \<Rightarrow> nat \<Rightarrow> nat \<Rightarrow> dpu" where
  "dpu_get_unsafe r ci d = r_dpus r ! dpu_index r ci d"

text \<open>\<open>dpu_get\<close> of \<^verbatim>\<open>api/src/dpu_management.c\<close>: \<open>NULL\<close> outside of the topology.\<close>

definition dpu_get :: "'w dpu_rank \<Rightarrow> nat \<Rightarrow> nat \<Rightarrow> dpu option" where
  "dpu_get r slice_id dpu_id =
     (if slice_id \<ge> nr_cis r \<or> dpu_id \<ge> nr_dpus r then None
      else Some (r_dpus r ! dpu_index r slice_id dpu_id))"

definition upd_dpu :: "nat \<Rightarrow> nat \<Rightarrow> (dpu \<Rightarrow> dpu) \<Rightarrow> 'w dpu_rank \<Rightarrow> 'w dpu_rank" where
  "upd_dpu ci d f r = r\<lparr>r_dpus := (r_dpus r)[dpu_index r ci d := f (dpu_get_unsafe r ci d)]\<rparr>"

definition get_transfer_matrix_index :: "'w dpu_rank \<Rightarrow> nat \<Rightarrow> nat \<Rightarrow> nat" where
  "get_transfer_matrix_index r slice_id dpu_id = dpu_id * nr_cis r + slice_id"

definition dpu_get_host_mux_mram_state :: "'w dpu_rank \<Rightarrow> nat \<Rightarrow> nat \<Rightarrow> u8" where
  "dpu_get_host_mux_mram_state r slice_id dpu_id =
     drop_bit dpu_id (host_mux_mram_state (r_slice r slice_id)) AND 1"

definition dpu_set_host_mux_mram_state :: "nat \<Rightarrow> nat \<Rightarrow> bool \<Rightarrow> 'w dpu_rank \<Rightarrow> 'w dpu_rank" where
  "dpu_set_host_mux_mram_state slice_id dpu_id host_side =
     upd_slice slice_id (\<lambda>i. i\<lparr>host_mux_mram_state :=
       (if host_side then host_mux_mram_state i OR bit_of dpu_id
        else host_mux_mram_state i AND NOT (bit_of dpu_id))\<rparr>)"

definition map_rank_status_to_api_status :: "dpu_rank_status \<Rightarrow> dpu_error option" where
  "map_rank_status_to_api_status s = (case s of
       DPU_RANK_SUCCESS \<Rightarrow> None
     | DPU_RANK_COMMUNICATION_ERROR \<Rightarrow> Some DPU_ERR_DRIVER
     | DPU_RANK_BACKEND_ERROR \<Rightarrow> Some DPU_ERR_DRIVER
     | DPU_RANK_SYSTEM_ERROR \<Rightarrow> Some DPU_ERR_SYSTEM
     | DPU_RANK_INVALID_PROPERTY_ERROR \<Rightarrow> Some DPU_ERR_INVALID_PROFILE
     | DPU_RANK_ENODEV \<Rightarrow> Some DPU_ERR_INTERNAL)"

text \<open>
  \<open>dpu_custom_for_rank\<close> of \<^verbatim>\<open>api/src/dpu_custom.c\<close>; the rank mutex is recursive and taken by the
  same thread, so lock and unlock change nothing a single caller sees.
\<close>

definition dpu_custom_for_rank :: "dpu_custom_command \<Rightarrow> ('w, unit) ufi" where
  "dpu_custom_for_rank command r =
     (case custom_operation (r_handler r) None command (r_world r) of (st, w) \<Rightarrow>
        (case map_rank_status_to_api_status st of
           None \<Rightarrow> (Ret (), r\<lparr>r_world := w\<rparr>)
         | Some e \<Rightarrow> (Fail e, r\<lparr>r_world := w\<rparr>)))"

text \<open>
  \<open>dpu_custom_for_dpu\<close>. The argument of an event is part of the command; the DPU is named by its
  slice and member id.
\<close>

definition dpu_custom_for_dpu :: "nat \<Rightarrow> nat \<Rightarrow> dpu_custom_command \<Rightarrow> ('w, unit) ufi" where
  "dpu_custom_for_dpu slice_id member_id command r =
     (if \<not> dpu_enabled (dpu_get_unsafe r slice_id member_id) then (Fail DPU_ERR_DPU_DISABLED, r)
      else (case custom_operation (r_handler r) (Some (slice_id, member_id)) command (r_world r) of (st, w) \<Rightarrow>
        (case map_rank_status_to_api_status st of
           None \<Rightarrow> (Ret (), r\<lparr>r_world := w\<rparr>)
         | Some e \<Rightarrow> (Fail e, r\<lparr>r_world := w\<rparr>))))"

section \<open>Well-formed ranks\<close>

definition handler_ok :: "'w dpu_rank_handler \<Rightarrow> bool" where
  "handler_ok h \<longleftrightarrow> (\<forall>b w st b' w'. update_commands h b w = (st, b', w') \<longrightarrow> length b' = length b)"

lemma handler_okD: "handler_ok h \<Longrightarrow> update_commands h b w = (st, b', w') \<Longrightarrow> length b' = length b"
  unfolding handler_ok_def by blast

definition rank_wf :: "'w dpu_rank \<Rightarrow> bool" where
  "rank_wf r \<longleftrightarrow>
     handler_ok (r_handler r)
     \<and> nr_cis r \<le> DPU_MAX_NR_CIS \<and> nr_dpus r \<le> DPU_MAX_NR_DPUS_PER_CI
     \<and> length (slice_info (r_ci r)) = DPU_MAX_NR_CIS
     \<and> (\<forall>i < DPU_MAX_NR_CIS. length (dpus_per_group (r_slice r i)) = DPU_MAX_NR_GROUPS)
     \<and> length (r_dpus r) = nr_cis r * nr_dpus r
     \<and> length (r_cmds r) = DPU_MAX_NR_CIS \<and> length (r_data r) = DPU_MAX_NR_CIS
     \<and> (r_logd r \<longrightarrow> cmds_buffer_wf (nr_cis r) (r_cmds_buffer r))"

lemma rank_wfD:
  assumes "rank_wf r"
  shows "handler_ok (r_handler r)" and "nr_cis r \<le> 8" and "nr_dpus r \<le> 8"
    and "length (slice_info (r_ci r)) = 8" and "length (r_cmds r) = 8" and "length (r_data r) = 8"
    and "i < 8 \<Longrightarrow> length (dpus_per_group (r_slice r i)) = 8"
    and "length (r_dpus r) = nr_cis r * nr_dpus r"
  using assms by (simp_all add: rank_wf_def)

section \<open>Frame facts\<close>

lemma r_slice_upd_slice:
  "j < length (slice_info (r_ci r)) \<Longrightarrow>
    r_slice (upd_slice i f r) j = (if i = j then f (r_slice r j) else r_slice r j)"
  by (simp add: upd_slice_def)

lemma r_slice_fold:
  assumes "distinct cis" and "j < length (slice_info (r_ci r))"
  shows "r_slice (fold (\<lambda>ci. upd_slice ci (f ci)) cis r) j = (if j \<in> set cis then f j (r_slice r j) else r_slice r j)"
  using assms
proof (induction cis arbitrary: r)
  case (Cons ci cis)
  then have "r_slice (fold (\<lambda>ci. upd_slice ci (f ci)) cis (upd_slice ci (f ci) r)) j
      = (if j \<in> set cis then f j (r_slice (upd_slice ci (f ci) r) j) else r_slice (upd_slice ci (f ci) r) j)"
    by (intro Cons.IH) (auto simp: upd_slice_def)
  with Cons.prems show ?case by (auto simp: r_slice_upd_slice)
qed simp

lemma upd_slice_simps [simp]:
  "r_type (upd_slice i f r) = r_type r" "r_hw (upd_slice i f r) = r_hw r"
  "r_configuration (upd_slice i f r) = r_configuration r" "r_cmds (upd_slice i f r) = r_cmds r"
  "r_run_context (upd_slice i f r) = r_run_context r" "r_dpus (upd_slice i f r) = r_dpus r"
  "r_data (upd_slice i f r) = r_data r" "r_handler (upd_slice i f r) = r_handler r"
  "r_world (upd_slice i f r) = r_world r" "r_logd (upd_slice i f r) = r_logd r"
  "r_cmds_buffer (upd_slice i f r) = r_cmds_buffer r"
  "host_words (upd_slice i f r) = host_words r" "host_instrs (upd_slice i f r) = host_instrs r"
  "color (r_ci (upd_slice i f r)) = color (r_ci r)"
  "length (slice_info (r_ci (upd_slice i f r))) = length (slice_info (r_ci r))"
  by (simp_all add: upd_slice_def)

lemma upd_dpu_simps [simp]:
  "r_hw (upd_dpu c d f r) = r_hw r" "r_ci (upd_dpu c d f r) = r_ci r"
  "r_handler (upd_dpu c d f r) = r_handler r" "r_cmds (upd_dpu c d f r) = r_cmds r"
  "r_data (upd_dpu c d f r) = r_data r" "length (r_dpus (upd_dpu c d f r)) = length (r_dpus r)"
  "r_logd (upd_dpu c d f r) = r_logd r" "r_cmds_buffer (upd_dpu c d f r) = r_cmds_buffer r"
  "r_configuration (upd_dpu c d f r) = r_configuration r"
  "r_run_context (upd_dpu c d f r) = r_run_context r"
  by (simp_all add: upd_dpu_def)

lemma rank_wf_upd_slice:
  "rank_wf r \<Longrightarrow> (\<And>s. length (dpus_per_group (f s)) = length (dpus_per_group s)) \<Longrightarrow> rank_wf (upd_slice i f r)"
  by (auto simp: rank_wf_def r_slice_upd_slice)

lemma rank_wf_upd_dpu: "rank_wf r \<Longrightarrow> rank_wf (upd_dpu c d f r)"
  by (simp add: rank_wf_def)

lemma transfer_matrix_index_inj:
  assumes "c < nr_cis r" "c' < nr_cis r"
  shows "get_transfer_matrix_index r c d = get_transfer_matrix_index r c' d' \<longleftrightarrow> c = c' \<and> d = d'"
proof
  assume eq: "get_transfer_matrix_index r c d = get_transfer_matrix_index r c' d'"
  have "(d * nr_cis r + c) mod nr_cis r = c" "(d' * nr_cis r + c') mod nr_cis r = c'"
    "(d * nr_cis r + c) div nr_cis r = d" "(d' * nr_cis r + c') div nr_cis r = d'"
    using assms by simp_all
  with eq show "c = c' \<and> d = d'" by (metis get_transfer_matrix_index_def)
qed simp

lemma transfer_matrix_index_lt:
  assumes "rank_wf r" "c < nr_cis r" "d < nr_dpus r"
  shows "get_transfer_matrix_index r c d < 64"
proof -
  have "d * nr_cis r + c < (d + 1) * nr_cis r" using assms(2) by simp
  also have "\<dots> \<le> 8 * 8" using assms rank_wfD(2,3) [OF assms(1)] by (intro mult_le_mono) auto
  finally show ?thesis by (simp add: get_transfer_matrix_index_def)
qed

lemma dpu_index_lt:
  assumes "rank_wf r" "c < nr_cis r" "d < nr_dpus r"
  shows "dpu_index r c d < length (r_dpus r)"
proof -
  have "nr_dpus r * c + d < nr_dpus r * (c + 1)" using assms(3) by simp
  also have "\<dots> \<le> nr_dpus r * nr_cis r" using assms(2) by (intro mult_le_mono) auto
  finally show ?thesis using rank_wfD(8) [OF assms(1)] by (simp add: dpu_index_def mult.commute)
qed

end
