(* ===== verification/Ci_Commands.thy ===== *)
theory Ci_Commands
  imports Prelude
begin

text \<open>
  The 64-bit control interface commands of \<^verbatim>\<open>ufi/include/ufi/ufi_ci_commands.h\<close>, macro by macro.
  A command is a \<^emph>\<open>structure\<close> (tag 0x11) that programs the command decoder, a \<^emph>\<open>frame\<close> (tag
  0x33) that is decoded with the current structure, or one of the special commands. The macro
  arguments are 64-bit values: every macro casts them to \<open>u64\<close> before it shifts them. The macros
  that spell one DPU instruction several times, once per byte, use a \<open>ci_instr_\<close> definition for it.
\<close>

definition ci_struct :: "u64 \<Rightarrow> u64 \<Rightarrow> u64 \<Rightarrow> u64 \<Rightarrow> u64 \<Rightarrow> u64 \<Rightarrow> u64" where
  "ci_struct b0 b1 b2 b3 b4 b5 =
     0x1100000000000000 OR push_bit 0 b0 OR push_bit 8 b1 OR push_bit 16 b2 OR push_bit 24 b3
     OR push_bit 32 b4 OR push_bit 40 b5"

definition ci_frame :: "u64 \<Rightarrow> u64 \<Rightarrow> u64 \<Rightarrow> u64 \<Rightarrow> u64 \<Rightarrow> u64 \<Rightarrow> u64 \<Rightarrow> u64" where
  "ci_frame b0 b1 b2 b3 b4 b5 b6 =
     0x3300000000000000 OR push_bit 0 b0 OR push_bit 8 b1 OR push_bit 16 b2 OR push_bit 24 b3
     OR push_bit 32 b4 OR push_bit 40 b5 OR push_bit 48 b6"

definition CI_EMPTY :: u64 where
  "CI_EMPTY =
     0"

definition CI_BIT_ORDER :: "u64 \<Rightarrow> u64 \<Rightarrow> u64 \<Rightarrow> u64 \<Rightarrow> u64" where
  "CI_BIT_ORDER ne stutter c2d d2c =
     0x0100000000000000 OR push_bit 0 ne OR push_bit 8 stutter OR push_bit 16 c2d
     OR push_bit 32 d2c"

definition CI_IDENTITY :: u64 where
  "CI_IDENTITY =
     0x01FF000000000000"

definition CI_SOFTWARE_RESET :: "u64 \<Rightarrow> u64 \<Rightarrow> u64" where
  "CI_SOFTWARE_RESET factor cycle_accurate =
     0x01FF00000000FF00 OR push_bit 0 factor OR push_bit 4 cycle_accurate"

definition CI_THERMAL_CONFIG :: "u64 \<Rightarrow> u64" where
  "CI_THERMAL_CONFIG threshold =
     0x01FF000000FF0000 OR push_bit 0 threshold"

definition CI_CMD_DURATION_FUTUR :: "u64 \<Rightarrow> u64" where
  "CI_CMD_DURATION_FUTUR duration =
     0x01FF000000FFFF00 OR push_bit 0 duration"

definition CI_RES_DURATION_FUTUR :: "u64 \<Rightarrow> u64" where
  "CI_RES_DURATION_FUTUR duration =
     0x01FF0000FF000000 OR push_bit 0 duration"

definition CI_RES_SAMPLING_FUTUR :: "u64 \<Rightarrow> u64" where
  "CI_RES_SAMPLING_FUTUR sampling =
     0x01FF0000FF00FF00 OR push_bit 0 sampling"

definition CI_BYTE_ORDER :: u64 where
  "CI_BYTE_ORDER =
     0x7777777777777777"

definition CI_NOP :: u64 where
  "CI_NOP =
     0xFF00000000000000"

definition CI_SELECT_DPU_STRUCT :: u64 where
  "CI_SELECT_DPU_STRUCT =
     ci_struct 2 0 0 0 0 0"

definition CI_SELECT_DPU_FRAME :: "u64 \<Rightarrow> u64" where
  "CI_SELECT_DPU_FRAME dpu_id =
     ci_frame 0xA dpu_id 0xFF 2 0 0 0"

definition CI_SELECT_GROUP_STRUCT :: u64 where
  "CI_SELECT_GROUP_STRUCT =
     ci_struct 2 0 0 0 0 0"

definition CI_SELECT_GROUP_FRAME :: "u64 \<Rightarrow> u64" where
  "CI_SELECT_GROUP_FRAME group_id =
     ci_frame 9 group_id 0xFF 2 0 0 0"

definition CI_SELECT_ALL_STRUCT :: u64 where
  "CI_SELECT_ALL_STRUCT =
     ci_struct 0 0 0 0 0 0"

definition CI_SELECT_ALL_FRAME :: u64 where
  "CI_SELECT_ALL_FRAME =
     ci_frame 8 0xFF 2 0 0 0 0"

definition CI_WRITE_GROUP_STRUCT :: u64 where
  "CI_WRITE_GROUP_STRUCT =
     ci_struct 2 0 0 0 0 0"

definition CI_WRITE_GROUP_FRAME :: "u64 \<Rightarrow> u64" where
  "CI_WRITE_GROUP_FRAME group_id =
     ci_frame 0xC group_id 0xFF 2 0 0 0"

definition CI_DMA_CTRL_READ_STRUCT :: u64 where
  "CI_DMA_CTRL_READ_STRUCT =
     ci_struct 0 0 0 0 0 0"

definition CI_DMA_CTRL_READ_FRAME :: u64 where
  "CI_DMA_CTRL_READ_FRAME =
     ci_frame 0x10 2 0 0 0 0 0"

definition CI_DMA_CTRL_WRITE_STRUCT :: u64 where
  "CI_DMA_CTRL_WRITE_STRUCT =
     ci_struct 0x3F 0 0xFF 2 0 0"

definition CI_DMA_CTRL_WRITE_FRAME :: "u64 \<Rightarrow> u64 \<Rightarrow> u64 \<Rightarrow> u64 \<Rightarrow> u64 \<Rightarrow> u64 \<Rightarrow> u64" where
  "CI_DMA_CTRL_WRITE_FRAME byte0 byte1 byte2 byte3 byte4 byte5 =
     ci_frame byte0 byte1 byte2 byte3 byte4 byte5 0xA7"

definition CI_DMA_CTRL_CLEAR_STRUCT :: u64 where
  "CI_DMA_CTRL_CLEAR_STRUCT =
     ci_struct 0x3F 0 0xFF 2 0 0"

definition CI_DMA_CTRL_CLEAR_FRAME :: u64 where
  "CI_DMA_CTRL_CLEAR_FRAME =
     ci_frame 0 0 0 0 0 0 0xA6"

definition CI_DMA_FAULT_THREAD_INDEX_READ_STRUCT :: u64 where
  "CI_DMA_FAULT_THREAD_INDEX_READ_STRUCT =
     ci_struct 0 0 0 0 0 0"

definition CI_DMA_FAULT_THREAD_INDEX_READ_FRAME :: u64 where
  "CI_DMA_FAULT_THREAD_INDEX_READ_FRAME =
     ci_frame 0x11 2 0 0 0 0 0"

definition CI_BKP_FAULT_THREAD_INDEX_READ_STRUCT :: u64 where
  "CI_BKP_FAULT_THREAD_INDEX_READ_STRUCT =
     ci_struct 0 0 0 0 0 0"

definition CI_BKP_FAULT_THREAD_INDEX_READ_FRAME :: u64 where
  "CI_BKP_FAULT_THREAD_INDEX_READ_FRAME =
     ci_frame 0x12 2 0 0 0 0 0"

definition CI_MEM_FAULT_THREAD_INDEX_READ_STRUCT :: u64 where
  "CI_MEM_FAULT_THREAD_INDEX_READ_STRUCT =
     ci_struct 0 0 0 0 0 0"

definition CI_MEM_FAULT_THREAD_INDEX_READ_FRAME :: u64 where
  "CI_MEM_FAULT_THREAD_INDEX_READ_FRAME =
     ci_frame 0x13 2 0 0 0 0 0"

definition CI_PC_LSB_READ_STRUCT :: u64 where
  "CI_PC_LSB_READ_STRUCT =
     ci_struct 0 0 0 0 0 0"

definition CI_PC_LSB_READ_FRAME :: u64 where
  "CI_PC_LSB_READ_FRAME =
     ci_frame 0x14 2 0 0 0 0 0"

definition CI_PC_MSB_READ_STRUCT :: u64 where
  "CI_PC_MSB_READ_STRUCT =
     ci_struct 0 0 0 0 0 0"

definition CI_PC_MSB_READ_FRAME :: u64 where
  "CI_PC_MSB_READ_FRAME =
     ci_frame 0x15 2 0 0 0 0 0"

definition CI_PC_MODE_READ_STRUCT :: u64 where
  "CI_PC_MODE_READ_STRUCT =
     ci_struct 0 0 0 0 0 0"

definition CI_PC_MODE_READ_FRAME :: u64 where
  "CI_PC_MODE_READ_FRAME =
     ci_frame 0x16 2 0 0 0 0 0"

definition CI_PC_MODE_WRITE_STRUCT :: u64 where
  "CI_PC_MODE_WRITE_STRUCT =
     ci_struct 0xBF 0 0 0xFF 2 0"

definition CI_PC_MODE_WRITE_FRAME :: "u64 \<Rightarrow> u64" where
  "CI_PC_MODE_WRITE_FRAME pc_mode =
     ci_frame pc_mode 0 0 0 0 0 0xA4"

definition CI_DPU_FAULT_STATE_READ_STRUCT :: u64 where
  "CI_DPU_FAULT_STATE_READ_STRUCT =
     ci_struct 0 0 0 0 0 0"

definition CI_DPU_FAULT_STATE_READ_FRAME :: u64 where
  "CI_DPU_FAULT_STATE_READ_FRAME =
     ci_frame 0x80 2 0 0 0 0 0"

definition CI_DPU_FAULT_STATE_CLR_STRUCT :: u64 where
  "CI_DPU_FAULT_STATE_CLR_STRUCT =
     ci_struct 0 0 0 0 0 0"

definition CI_DPU_FAULT_STATE_CLR_FRAME :: u64 where
  "CI_DPU_FAULT_STATE_CLR_FRAME =
     ci_frame 0x86 0xFF 2 0 0 0 0"

definition CI_DPU_FAULT_STATE_SET_AND_STEP_STRUCT :: u64 where
  "CI_DPU_FAULT_STATE_SET_AND_STEP_STRUCT =
     ci_struct 0 0 0 0 0 0"

definition CI_DPU_FAULT_STATE_SET_AND_STEP_FRAME :: u64 where
  "CI_DPU_FAULT_STATE_SET_AND_STEP_FRAME =
     ci_frame 0x87 0xFF 2 0 0 0 0"

definition CI_DPU_RUN_STATE_READ_STRUCT :: u64 where
  "CI_DPU_RUN_STATE_READ_STRUCT =
     ci_struct 0 0 0 0 0 0"

definition CI_DPU_RUN_STATE_READ_FRAME :: u64 where
  "CI_DPU_RUN_STATE_READ_FRAME =
     ci_frame 0x84 2 0 0 0 0 0"

definition CI_BKP_FAULT_READ_STRUCT :: u64 where
  "CI_BKP_FAULT_READ_STRUCT =
     ci_struct 0 0 0 0 0 0"

definition CI_BKP_FAULT_READ_FRAME :: u64 where
  "CI_BKP_FAULT_READ_FRAME =
     ci_frame 0xB0 2 0 0 0 0 0"

definition CI_BKP_FAULT_CLEAR_STRUCT :: u64 where
  "CI_BKP_FAULT_CLEAR_STRUCT =
     ci_struct 0 0 0 0 0 0"

definition CI_BKP_FAULT_CLEAR_FRAME :: u64 where
  "CI_BKP_FAULT_CLEAR_FRAME =
     ci_frame 0xB2 0xFF 2 0 0 0 0"

definition CI_BKP_FAULT_SET_STRUCT :: u64 where
  "CI_BKP_FAULT_SET_STRUCT =
     ci_struct 0 0 0 0 0 0"

definition CI_BKP_FAULT_SET_FRAME :: u64 where
  "CI_BKP_FAULT_SET_FRAME =
     ci_frame 0xB3 0xFF 2 0 0 0 0"

definition CI_POISON_FAULT_READ_STRUCT :: u64 where
  "CI_POISON_FAULT_READ_STRUCT =
     ci_struct 0 0 0 0 0 0"

definition CI_POISON_FAULT_READ_FRAME :: u64 where
  "CI_POISON_FAULT_READ_FRAME =
     ci_frame 0xB4 2 0 0 0 0 0"

definition CI_POISON_FAULT_CLEAR_STRUCT :: u64 where
  "CI_POISON_FAULT_CLEAR_STRUCT =
     ci_struct 0 0 0 0 0 0"

definition CI_POISON_FAULT_CLEAR_FRAME :: u64 where
  "CI_POISON_FAULT_CLEAR_FRAME =
     ci_frame 0xB6 0xFF 2 0 0 0 0"

definition CI_POISON_FAULT_SET_STRUCT :: u64 where
  "CI_POISON_FAULT_SET_STRUCT =
     ci_struct 0 0 0 0 0 0"

definition CI_POISON_FAULT_SET_FRAME :: u64 where
  "CI_POISON_FAULT_SET_FRAME =
     ci_frame 0xB7 0xFF 2 0 0 0 0"

definition CI_DMA_FAULT_READ_AND_CLR_STRUCT :: u64 where
  "CI_DMA_FAULT_READ_AND_CLR_STRUCT =
     ci_struct 0 0 0 0 0 0"

definition CI_DMA_FAULT_READ_AND_CLR_FRAME :: u64 where
  "CI_DMA_FAULT_READ_AND_CLR_FRAME =
     ci_frame 0x82 2 0 0 0 0 0"

definition CI_MEM_FAULT_READ_AND_CLR_STRUCT :: u64 where
  "CI_MEM_FAULT_READ_AND_CLR_STRUCT =
     ci_struct 0 0 0 0 0 0"

definition CI_MEM_FAULT_READ_AND_CLR_FRAME :: u64 where
  "CI_MEM_FAULT_READ_AND_CLR_FRAME =
     ci_frame 0xF4 2 0 0 0 0 0"

definition CI_STACK_UP_READ_AND_CLR_STRUCT :: u64 where
  "CI_STACK_UP_READ_AND_CLR_STRUCT =
     ci_struct 0 0 0 0 0 0"

definition CI_STACK_UP_READ_AND_CLR_FRAME :: u64 where
  "CI_STACK_UP_READ_AND_CLR_FRAME =
     ci_frame 0xF0 2 0 0 0 0 0"

definition CI_STACK_UP_READ_AND_SET_STRUCT :: u64 where
  "CI_STACK_UP_READ_AND_SET_STRUCT =
     ci_struct 0 0 0 0 0 0"

definition CI_STACK_UP_READ_AND_SET_FRAME :: u64 where
  "CI_STACK_UP_READ_AND_SET_FRAME =
     ci_frame 0xF2 2 0 0 0 0 0"

definition CI_THREAD_BOOT_STRUCT :: u64 where
  "CI_THREAD_BOOT_STRUCT =
     ci_struct 0x3F 0 2 0 0 0"

text \<open>The 48-bit instruction whose bytes \<open>CI_THREAD_BOOT_FRAME\<close> sends.\<close>

definition ci_instr_thread_boot :: "u64 \<Rightarrow> u64" where
  "ci_instr_thread_boot thread_id =
     0x7D8320000000 OR
     push_bit 34 (drop_bit 0 0x18 AND 0x1F) OR
     push_bit 24 (drop_bit 0 0 AND 0xF) OR
     push_bit 20 (drop_bit 0 thread_id AND 0xF) OR
     push_bit 16 (drop_bit 4 thread_id AND 0xF) OR
     push_bit 0 (drop_bit 0 0 AND 0xFFFF)"

definition CI_THREAD_BOOT_FRAME :: "u64 \<Rightarrow> u64" where
  "CI_THREAD_BOOT_FRAME thread_id =
     ci_frame (cbyte 2 (ci_instr_thread_boot thread_id))
     (cbyte 5 (ci_instr_thread_boot thread_id)) (cbyte 4 (ci_instr_thread_boot thread_id))
     (cbyte 0 (ci_instr_thread_boot thread_id)) (cbyte 1 (ci_instr_thread_boot thread_id))
     (cbyte 3 (ci_instr_thread_boot thread_id)) 0x98"

definition CI_THREAD_RESUME_STRUCT :: u64 where
  "CI_THREAD_RESUME_STRUCT =
     ci_struct 0x3F 0 2 0 0 0"

text \<open>The 48-bit instruction whose bytes \<open>CI_THREAD_RESUME_FRAME\<close> sends.\<close>

definition ci_instr_thread_resume :: "u64 \<Rightarrow> u64" where
  "ci_instr_thread_resume thread_id =
     0x7D0320000000 OR
     push_bit 34 (drop_bit 0 0x18 AND 0x1F) OR
     push_bit 24 (drop_bit 0 0 AND 0xF) OR
     push_bit 20 (drop_bit 0 thread_id AND 0xF) OR
     push_bit 16 (drop_bit 4 thread_id AND 0xF) OR
     push_bit 0 (drop_bit 0 0 AND 0xFFFF)"

definition CI_THREAD_RESUME_FRAME :: "u64 \<Rightarrow> u64" where
  "CI_THREAD_RESUME_FRAME thread_id =
     ci_frame (cbyte 2 (ci_instr_thread_resume thread_id))
     (cbyte 5 (ci_instr_thread_resume thread_id))
     (cbyte 4 (ci_instr_thread_resume thread_id))
     (cbyte 0 (ci_instr_thread_resume thread_id))
     (cbyte 1 (ci_instr_thread_resume thread_id))
     (cbyte 3 (ci_instr_thread_resume thread_id)) 0x98"

definition CI_THREAD_CLR_RUN_STRUCT :: u64 where
  "CI_THREAD_CLR_RUN_STRUCT =
     ci_struct 0x3F 0 2 0 0 0"

text \<open>The 48-bit instruction whose bytes \<open>CI_THREAD_CLR_RUN_FRAME\<close> sends.\<close>

definition ci_instr_thread_clr_run :: "u64 \<Rightarrow> u64" where
  "ci_instr_thread_clr_run thread_id =
     0x7C8320000000 OR
     push_bit 34 (drop_bit 0 0x18 AND 0x1F) OR
     push_bit 24 (drop_bit 0 0 AND 0xF) OR
     push_bit 20 (drop_bit 0 thread_id AND 0xF) OR
     push_bit 16 (drop_bit 4 thread_id AND 0xF) OR
     push_bit 0 (drop_bit 0 0 AND 0xFFFF)"

definition CI_THREAD_CLR_RUN_FRAME :: "u64 \<Rightarrow> u64" where
  "CI_THREAD_CLR_RUN_FRAME thread_id =
     ci_frame (cbyte 2 (ci_instr_thread_clr_run thread_id))
     (cbyte 5 (ci_instr_thread_clr_run thread_id))
     (cbyte 4 (ci_instr_thread_clr_run thread_id))
     (cbyte 0 (ci_instr_thread_clr_run thread_id))
     (cbyte 1 (ci_instr_thread_clr_run thread_id))
     (cbyte 3 (ci_instr_thread_clr_run thread_id)) 0x98"

definition CI_THREAD_READ_RUN_STRUCT :: u64 where
  "CI_THREAD_READ_RUN_STRUCT =
     ci_struct 0x3F 0 2 0 0 0"

text \<open>The 48-bit instruction whose bytes \<open>CI_THREAD_READ_RUN_FRAME\<close> sends.\<close>

definition ci_instr_thread_read_run :: "u64 \<Rightarrow> u64" where
  "ci_instr_thread_read_run thread_id =
     0x7C0330000000 OR
     push_bit 34 (drop_bit 0 0x18 AND 0x1F) OR
     push_bit 24 (drop_bit 0 0 AND 0xF) OR
     push_bit 20 (drop_bit 0 thread_id AND 0xF) OR
     push_bit 16 (drop_bit 4 thread_id AND 0xF) OR
     push_bit 0 (drop_bit 0 0 AND 0xFFFF)"

definition CI_THREAD_READ_RUN_FRAME :: "u64 \<Rightarrow> u64" where
  "CI_THREAD_READ_RUN_FRAME thread_id =
     ci_frame (cbyte 2 (ci_instr_thread_read_run thread_id))
     (cbyte 5 (ci_instr_thread_read_run thread_id))
     (cbyte 4 (ci_instr_thread_read_run thread_id))
     (cbyte 0 (ci_instr_thread_read_run thread_id))
     (cbyte 1 (ci_instr_thread_read_run thread_id))
     (cbyte 3 (ci_instr_thread_read_run thread_id)) 0x98"

definition CI_IRAM_WRITE_INSTRUCTION_STRUCT :: "u64 \<Rightarrow> u64" where
  "CI_IRAM_WRITE_INSTRUCTION_STRUCT address =
     ci_struct 0xFF 0 (cbyte 1 address) 0x47 2 0"

definition CI_IRAM_WRITE_INSTRUCTION_FRAME :: "u64 \<Rightarrow> u64 \<Rightarrow> u64" where
  "CI_IRAM_WRITE_INSTRUCTION_FRAME data address =
     ci_frame (cbyte 0 data) (cbyte 1 data) (cbyte 2 data) (cbyte 3 data) (cbyte 4 data)
     (cbyte 5 data) (cbyte 0 address)"

definition CI_IRAM_READ_BYTE0_STRUCT :: u64 where
  "CI_IRAM_READ_BYTE0_STRUCT =
     ci_struct 3 0 0 0 0 0"

definition CI_IRAM_READ_BYTE0_FRAME :: "u64 \<Rightarrow> u64" where
  "CI_IRAM_READ_BYTE0_FRAME address =
     ci_frame (cbyte 0 address) (cbyte 1 address) 0x40 2 0 0 0"

definition CI_IRAM_READ_BYTE1_STRUCT :: u64 where
  "CI_IRAM_READ_BYTE1_STRUCT =
     ci_struct 3 0 0 0 0 0"

definition CI_IRAM_READ_BYTE1_FRAME :: "u64 \<Rightarrow> u64" where
  "CI_IRAM_READ_BYTE1_FRAME address =
     ci_frame (cbyte 0 address) (cbyte 1 address) 0x41 2 0 0 0"

definition CI_IRAM_READ_BYTE2_STRUCT :: u64 where
  "CI_IRAM_READ_BYTE2_STRUCT =
     ci_struct 3 0 0 0 0 0"

definition CI_IRAM_READ_BYTE2_FRAME :: "u64 \<Rightarrow> u64" where
  "CI_IRAM_READ_BYTE2_FRAME address =
     ci_frame (cbyte 0 address) (cbyte 1 address) 0x42 2 0 0 0"

definition CI_IRAM_READ_BYTE3_STRUCT :: u64 where
  "CI_IRAM_READ_BYTE3_STRUCT =
     ci_struct 3 0 0 0 0 0"

definition CI_IRAM_READ_BYTE3_FRAME :: "u64 \<Rightarrow> u64" where
  "CI_IRAM_READ_BYTE3_FRAME address =
     ci_frame (cbyte 0 address) (cbyte 1 address) 0x43 2 0 0 0"

definition CI_IRAM_READ_BYTE4_STRUCT :: u64 where
  "CI_IRAM_READ_BYTE4_STRUCT =
     ci_struct 3 0 0 0 0 0"

definition CI_IRAM_READ_BYTE4_FRAME :: "u64 \<Rightarrow> u64" where
  "CI_IRAM_READ_BYTE4_FRAME address =
     ci_frame (cbyte 0 address) (cbyte 1 address) 0x44 2 0 0 0"

definition CI_IRAM_READ_BYTE5_STRUCT :: u64 where
  "CI_IRAM_READ_BYTE5_STRUCT =
     ci_struct 3 0 0 0 0 0"

definition CI_IRAM_READ_BYTE5_FRAME :: "u64 \<Rightarrow> u64" where
  "CI_IRAM_READ_BYTE5_FRAME address =
     ci_frame (cbyte 0 address) (cbyte 1 address) 0x45 2 0 0 0"

text \<open>The 48-bit instruction whose bytes \<open>CI_WRAM_WRITE_WORD_STRUCT\<close> sends.\<close>

definition ci_instr_wram_write_word :: "u64 \<Rightarrow> u64" where
  "ci_instr_wram_write_word address =
     0x7C0044000000 OR
     push_bit 17 (drop_bit 0 0 AND 7) OR
     push_bit 32 (drop_bit 3 0 AND 3) OR
     push_bit 34 (drop_bit 0 0x18 AND 0x1F) OR
     push_bit 27 (drop_bit 0 0 AND 1) OR
     push_bit 20 ((drop_bit 0 (push_bit 2 address) AND 0xF)) OR
     push_bit 39 ((drop_bit 4 (push_bit 2 address) AND 7)) OR
     push_bit 24 ((drop_bit 7 (push_bit 2 address) AND 1)) OR
     push_bit 15 ((drop_bit 8 (push_bit 2 address) AND 1)) OR
     push_bit 14 ((drop_bit 9 (push_bit 2 address) AND 1)) OR
     push_bit 13 ((drop_bit 10 (push_bit 2 address) AND 1)) OR
     push_bit 12 ((drop_bit 11 (push_bit 2 address) AND 1)) OR
     push_bit 0 ((drop_bit 12 (push_bit 2 address) AND 0xFFF))"

definition CI_WRAM_WRITE_WORD_STRUCT :: "u64 \<Rightarrow> u64" where
  "CI_WRAM_WRITE_WORD_STRUCT address =
     ci_struct 0xFF 3 (cbyte 0 (ci_instr_wram_write_word address))
     (cbyte 1 (ci_instr_wram_write_word address))
     (cbyte 3 (ci_instr_wram_write_word address)) 0x99"

definition CI_WRAM_WRITE_WORD_FRAME :: "u64 \<Rightarrow> u64 \<Rightarrow> u64" where
  "CI_WRAM_WRITE_WORD_FRAME data address =
     ci_frame (cbyte 0 data) (cbyte 1 data) (cbyte 2 data) (cbyte 3 data)
     (cbyte 2 (ci_instr_wram_write_word address))
     (cbyte 5 (ci_instr_wram_write_word address))
     (cbyte 4 (ci_instr_wram_write_word address))"

definition CI_WRAM_READ_WORD_STRUCT :: u64 where
  "CI_WRAM_READ_WORD_STRUCT =
     ci_struct 0x3F 0 2 0 0 0"

text \<open>The 48-bit instruction whose bytes \<open>CI_WRAM_READ_WORD_FRAME\<close> sends.\<close>

definition ci_instr_wram_read_word :: "u64 \<Rightarrow> u64" where
  "ci_instr_wram_read_word address =
     0x700344000000 OR
     push_bit 34 (drop_bit 0 0x18 AND 0x1F) OR
     push_bit 27 (drop_bit 0 0 AND 1) OR
     push_bit 20 ((drop_bit 0 (push_bit 2 address) AND 0xF)) OR
     push_bit 16 ((drop_bit 4 (push_bit 2 address) AND 0xF)) OR
     push_bit 15 ((drop_bit 8 (push_bit 2 address) AND 1)) OR
     push_bit 14 ((drop_bit 9 (push_bit 2 address) AND 1)) OR
     push_bit 13 ((drop_bit 10 (push_bit 2 address) AND 1)) OR
     push_bit 12 ((drop_bit 11 (push_bit 2 address) AND 1)) OR
     push_bit 0 ((drop_bit 12 (push_bit 2 address) AND 0xFFF)) OR
     push_bit 39 (drop_bit 0 0 AND 0x1F)"

definition CI_WRAM_READ_WORD_FRAME :: "u64 \<Rightarrow> u64" where
  "CI_WRAM_READ_WORD_FRAME address =
     ci_frame (cbyte 2 (ci_instr_wram_read_word address))
     (cbyte 5 (ci_instr_wram_read_word address)) (cbyte 4 (ci_instr_wram_read_word address))
     (cbyte 0 (ci_instr_wram_read_word address)) (cbyte 1 (ci_instr_wram_read_word address))
     (cbyte 3 (ci_instr_wram_read_word address)) 0x99"

definition CI_IREPAIR_CONFIG_AB_STRUCT :: u64 where
  "CI_IREPAIR_CONFIG_AB_STRUCT =
     ci_struct 0xA 0 0 0 0 0"

definition CI_IREPAIR_CONFIG_AB_FRAME :: "u64 \<Rightarrow> u64 \<Rightarrow> u64 \<Rightarrow> u64" where
  "CI_IREPAIR_CONFIG_AB_FRAME msb lsb_A lsb_B =
     ci_frame 0x90 msb 0x91 (lsb_B OR push_bit 4 lsb_A) 0xFF 2 0"

definition CI_IREPAIR_CONFIG_CD_STRUCT :: u64 where
  "CI_IREPAIR_CONFIG_CD_STRUCT =
     ci_struct 0xA 0 0 0 0 0"

definition CI_IREPAIR_CONFIG_CD_FRAME :: "u64 \<Rightarrow> u64 \<Rightarrow> u64 \<Rightarrow> u64" where
  "CI_IREPAIR_CONFIG_CD_FRAME msb lsb_C lsb_D =
     ci_frame 0x92 msb 0x93 (lsb_D OR push_bit 4 lsb_C) 0xFF 2 0"

definition CI_IREPAIR_CONFIG_OE_STRUCT :: u64 where
  "CI_IREPAIR_CONFIG_OE_STRUCT =
     ci_struct 0xA 0 0 0 0 0"

definition CI_IREPAIR_CONFIG_OE_FRAME :: "u64 \<Rightarrow> u64 \<Rightarrow> u64 \<Rightarrow> u64" where
  "CI_IREPAIR_CONFIG_OE_FRAME odd_index even_index timing =
     ci_frame 0x97 (drop_bit 1 odd_index) 0x96 (push_bit 5 timing OR drop_bit 1 even_index)
     0xFF 2 0"

definition CI_REGISTER_FILE_TIMING_CONFIG_STRUCT :: u64 where
  "CI_REGISTER_FILE_TIMING_CONFIG_STRUCT =
     ci_struct 0x7F 1 0xA5 0 0xFF 2"

definition CI_REGISTER_FILE_TIMING_CONFIG_FRAME :: "u64 \<Rightarrow> u64" where
  "CI_REGISTER_FILE_TIMING_CONFIG_FRAME rf_timing =
     ci_frame 0 rf_timing 0 0 0 0 0"

definition CI_CMD_BUS_CONFIG_DURATION_STRUCT :: u64 where
  "CI_CMD_BUS_CONFIG_DURATION_STRUCT =
     ci_struct 2 0 0 0 0 0"

definition CI_CMD_BUS_CONFIG_DURATION_FRAME :: "u64 \<Rightarrow> u64" where
  "CI_CMD_BUS_CONFIG_DURATION_FRAME duration =
     ci_frame 4 duration 0xFF 2 0 0 0"

definition CI_CMD_BUS_CONFIG_SAMPLING_STRUCT :: u64 where
  "CI_CMD_BUS_CONFIG_SAMPLING_STRUCT =
     ci_struct 2 0 0 0 0 0"

definition CI_CMD_BUS_CONFIG_SAMPLING_FRAME :: "u64 \<Rightarrow> u64" where
  "CI_CMD_BUS_CONFIG_SAMPLING_FRAME sampling =
     ci_frame 5 sampling 0xFF 2 0 0 0"

definition CI_CMD_BUS_SYNC_STRUCT :: u64 where
  "CI_CMD_BUS_SYNC_STRUCT =
     ci_struct 0 0 0 0 0 0"

definition CI_CMD_BUS_SYNC_FRAME :: u64 where
  "CI_CMD_BUS_SYNC_FRAME =
     ci_frame 7 0xFF 2 0 0 0 0"

definition CI_RES_BUS_CONFIG_DURATION_STRUCT :: u64 where
  "CI_RES_BUS_CONFIG_DURATION_STRUCT =
     ci_struct 0xBF 0 0 2 0 0"

definition CI_RES_BUS_CONFIG_DURATION_FRAME :: "u64 \<Rightarrow> u64" where
  "CI_RES_BUS_CONFIG_DURATION_FRAME duration =
     ci_frame duration 0 0 0 0 0 0xF6"

definition CI_RES_BUS_SYNC_STRUCT :: u64 where
  "CI_RES_BUS_SYNC_STRUCT =
     ci_struct 0 0 0 0 0 0"

definition CI_RES_BUS_SYNC_FRAME :: u64 where
  "CI_RES_BUS_SYNC_FRAME =
     ci_frame 0xF7 0xFF 2 0 0 0 0"

definition CI_NOTIFY_READ_STRUCT :: u64 where
  "CI_NOTIFY_READ_STRUCT =
     ci_struct 0x3F 0 2 0 0 0"

definition CI_NOTIFY_READ_FRAME :: "u64 \<Rightarrow> u64" where
  "CI_NOTIFY_READ_FRAME thread_id =
     ci_frame (cbyte 2 (ci_instr_thread_read_run thread_id))
     (cbyte 5 (ci_instr_thread_read_run thread_id))
     (cbyte 4 (ci_instr_thread_read_run thread_id))
     (cbyte 0 (ci_instr_thread_read_run thread_id))
     (cbyte 1 (ci_instr_thread_read_run thread_id))
     (cbyte 3 (ci_instr_thread_read_run thread_id)) 0x98"

definition CI_NOTIFY_CLR_STRUCT :: u64 where
  "CI_NOTIFY_CLR_STRUCT =
     ci_struct 0x3F 0 2 0 0 0"

definition CI_NOTIFY_CLR_FRAME :: "u64 \<Rightarrow> u64" where
  "CI_NOTIFY_CLR_FRAME thread_id =
     ci_frame (cbyte 2 (ci_instr_thread_clr_run thread_id))
     (cbyte 5 (ci_instr_thread_clr_run thread_id))
     (cbyte 4 (ci_instr_thread_clr_run thread_id))
     (cbyte 0 (ci_instr_thread_clr_run thread_id))
     (cbyte 1 (ci_instr_thread_clr_run thread_id))
     (cbyte 3 (ci_instr_thread_clr_run thread_id)) 0x98"

definition CI_NOTIFY_SET_STRUCT :: u64 where
  "CI_NOTIFY_SET_STRUCT =
     ci_struct 0x3F 0 2 0 0 0"

definition CI_NOTIFY_SET_FRAME :: "u64 \<Rightarrow> u64" where
  "CI_NOTIFY_SET_FRAME thread_id =
     ci_frame (cbyte 2 (ci_instr_thread_boot thread_id))
     (cbyte 5 (ci_instr_thread_boot thread_id)) (cbyte 4 (ci_instr_thread_boot thread_id))
     (cbyte 0 (ci_instr_thread_boot thread_id)) (cbyte 1 (ci_instr_thread_boot thread_id))
     (cbyte 3 (ci_instr_thread_boot thread_id)) 0x98"

definition CI_DEBUG_STD_REPLACE_STOP_ENABLED_STRUCT :: u64 where
  "CI_DEBUG_STD_REPLACE_STOP_ENABLED_STRUCT =
     ci_struct 0x3F 0 2 0 0 0"

text \<open>The 48-bit instruction whose bytes \<open>CI_DEBUG_STD_REPLACE_STOP_ENABLED_FRAME\<close> sends.\<close>

definition ci_instr_debug_std_replace_stop_enabled :: u64 where
  "ci_instr_debug_std_replace_stop_enabled =
     0x7EF320000000 OR
     push_bit 24 (drop_bit 0 0 AND 0xF) OR
     push_bit 0 (drop_bit 0 0 AND 0xFFFF)"

definition CI_DEBUG_STD_REPLACE_STOP_ENABLED_FRAME :: u64 where
  "CI_DEBUG_STD_REPLACE_STOP_ENABLED_FRAME =
     ci_frame (cbyte 2 (ci_instr_debug_std_replace_stop_enabled))
     (cbyte 5 (ci_instr_debug_std_replace_stop_enabled))
     (cbyte 4 (ci_instr_debug_std_replace_stop_enabled))
     (cbyte 0 (ci_instr_debug_std_replace_stop_enabled))
     (cbyte 1 (ci_instr_debug_std_replace_stop_enabled))
     (cbyte 3 (ci_instr_debug_std_replace_stop_enabled)) 0x9E"

definition CI_DEBUG_STD_REPLACE_CLEAR_STRUCT :: u64 where
  "CI_DEBUG_STD_REPLACE_CLEAR_STRUCT =
     ci_struct 0 0 0 0 0 0"

definition CI_DEBUG_STD_REPLACE_CLEAR_FRAME :: u64 where
  "CI_DEBUG_STD_REPLACE_CLEAR_FRAME =
     ci_frame 0x9C 2 0 0 0 0 0"

definition CI_DEBUG_STD_SAMPLE_PC_STRUCT :: u64 where
  "CI_DEBUG_STD_SAMPLE_PC_STRUCT =
     ci_struct 0x3F 0 0x9C 2 0 0"

definition CI_DEBUG_STD_SAMPLE_PC_FRAME :: u64 where
  "CI_DEBUG_STD_SAMPLE_PC_FRAME =
     ci_frame (cbyte 2 0x7C6300000000) (cbyte 5 0x7C6300000000) (cbyte 4 0x7C6300000000)
     (cbyte 0 0x7C6300000000) (cbyte 1 0x7C6300000000) (cbyte 3 0x7C6300000000) 0x9E"

end
