(* ===== verification/Ufi_Ci.thy ===== *)
theory Ufi_Ci
  imports Rank_State Ci_Commands
begin

text \<open>
  \<^verbatim>\<open>ufi/src/ufi_ci.c\<close>: the control interface protocol. A command is committed to all control
  interfaces (CIs) of the rank at once, the color bit of every CI that received one is flipped, and
  the results are polled until every such CI shows the expected answer in the expected color.
  Log output is not modelled; the record of the last packets is.

  The pointer arguments that functions fill are results. Where a caller passes a part of the rank
  itself (\<open>rank->data\<close>) as the buffer to poll into, the function takes \<open>store\<close>, how a buffer is
  written back into the rank; for an array on the caller's stack \<open>store\<close> is \<open>\<lambda>_ r. r\<close>.
\<close>

section \<open>Definitions\<close>

definition CI_MASK_ON :: "u8 \<Rightarrow> nat \<Rightarrow> bool" where
  "CI_MASK_ON m ci \<longleftrightarrow> m AND bit_of ci \<noteq> 0"

definition NB_RETRY_FOR_VALID_RESULT :: nat where
  "NB_RETRY_FOR_VALID_RESULT = 100"

definition TIMEOUT_COLOR :: nat where
  "TIMEOUT_COLOR = 100000"

definition is_chip_v1_4 :: "'w dpu_rank \<Rightarrow> bool" where
  "is_chip_v1_4 r \<longleftrightarrow> chip_id (r_hw r) AND 0xF0 = 0x40"

definition debug_record_last_cmd :: "char \<Rightarrow> u64 list \<Rightarrow> ('w, unit) ufi" where
  "debug_record_last_cmd direction commands = (\<lambda>r.
     if \<not> r_logd r then ok () r
     else modify (\<lambda>r. r\<lparr>r_cmds_buffer :=
            cmds_buffer_record (nr_cis r) direction commands (r_cmds_buffer r)\<rparr>) r)"

definition ci_commit_commands :: "u64 list \<Rightarrow> ('w, unit) ufi" where
  "ci_commit_commands commands =
     FF (debug_record_last_cmd WRITE_DIR commands) (\<lambda>_ r.
       (case commit_commands (r_handler r) commands (r_world r) of (st, w) \<Rightarrow>
          if st \<noteq> DPU_RANK_SUCCESS then (Fail DPU_ERR_DRIVER, r\<lparr>r_world := w\<rparr>)
          else (Ret (), r\<lparr>r_world := w\<rparr>)))"

definition ci_update_commands ::
  "(u64 list \<Rightarrow> 'w dpu_rank \<Rightarrow> 'w dpu_rank) \<Rightarrow> u64 list \<Rightarrow> ('w, u64 list) ufi" where
  "ci_update_commands store commands = (\<lambda>r.
     (case update_commands (r_handler r) commands (r_world r) of (st, commands', w) \<Rightarrow>
        let r' = store commands' (r\<lparr>r_world := w\<rparr>) in
        if st \<noteq> DPU_RANK_SUCCESS then fail DPU_ERR_DRIVER r'
        else FF (debug_record_last_cmd READ_DIR commands') (\<lambda>_. ok commands') r'))"

abbreviation store_data :: "u64 list \<Rightarrow> 'w dpu_rank \<Rightarrow> 'w dpu_rank" where
  "store_data d r \<equiv> r\<lparr>r_data := d\<rparr>"

abbreviation store_local :: "u64 list \<Rightarrow> 'w dpu_rank \<Rightarrow> 'w dpu_rank" where
  "store_local d r \<equiv> r"

definition ci_prepare_mask :: "u8 \<Rightarrow> u64 \<Rightarrow> u64 list" where
  "ci_prepare_mask m data =
     map (\<lambda>each_ci. if CI_MASK_ON m each_ci then data else CI_EMPTY) [0..<DPU_MAX_NR_CIS]"

definition ci_fill_selected_dpu_mask :: "nat \<Rightarrow> ('w, u8) ufi" where
  "ci_fill_selected_dpu_mask ci = (\<lambda>r.
     let info = r_slice r ci in
     (case target_type (slice_target info) of
        DPU_SLICE_TARGET_ALL \<Rightarrow> ok (bit_of (nr_dpus r) - 1) r
      | DPU_SLICE_TARGET_DPU \<Rightarrow> ok (bit_of (target_id (slice_target info))) r
      | DPU_SLICE_TARGET_GROUP \<Rightarrow> ok (ucast (dpus_per_group info ! target_id (slice_target info))) r
      | DPU_SLICE_TARGET_NONE \<Rightarrow> fail DPU_ERR_INTERNAL r))"

definition invert_color :: "u8 \<Rightarrow> 'w dpu_rank \<Rightarrow> 'w dpu_rank" where
  "invert_color ci_mask = upd_ctx (\<lambda>c. c\<lparr>color := color c XOR ci_mask\<rparr>)"

definition compute_ci_mask :: "nat \<Rightarrow> u64 list \<Rightarrow> u8" where
  "compute_ci_mask nr commands =
     fold (\<lambda>each_ci m. if commands ! each_ci \<noteq> CI_EMPTY then m OR bit_of each_ci else m) [0..<nr] 0"

record masks =
  result_masks :: "u64 list"
  expected_results :: "u64 list"
  ms_cis :: u8
  ms_is_done :: "bool list"

definition no_masks :: masks where
  "no_masks = \<lparr>result_masks = replicate 8 0, expected_results = replicate 8 0, ms_cis = 0,
               ms_is_done = replicate 8 False\<rparr>"

definition mark_sent :: "nat \<Rightarrow> masks \<Rightarrow> masks" where
  "mark_sent each_ci m = m\<lparr>
     ms_cis := ms_cis m OR bit_of each_ci,
     result_masks := (result_masks m)[each_ci := result_masks m ! each_ci OR 0xFF0000FF00000000],
     expected_results := (expected_results m)[each_ci := expected_results m ! each_ci OR 0x000000FF00000000]\<rparr>"

definition mark_idle :: "nat \<Rightarrow> masks \<Rightarrow> masks" where
  "mark_idle each_ci m = m\<lparr>ms_is_done := (ms_is_done m)[each_ci := True]\<rparr>"

definition add_result_mask :: "nat \<Rightarrow> u64 \<Rightarrow> masks \<Rightarrow> masks" where
  "add_result_mask each_ci x m =
     m\<lparr>result_masks := (result_masks m)[each_ci := result_masks m ! each_ci OR x]\<rparr>"

definition add_expected :: "nat \<Rightarrow> u64 \<Rightarrow> masks \<Rightarrow> masks" where
  "add_expected each_ci x m =
     m\<lparr>expected_results := (expected_results m)[each_ci := expected_results m ! each_ci OR x]\<rparr>"

definition compute_masks :: "u64 list \<Rightarrow> bool \<Rightarrow> ('w, masks) ufi" where
  "compute_masks commands add_select_mask = (\<lambda>r.
     mfor [0..<nr_cis r] (\<lambda>each_ci m.
       if commands ! each_ci \<noteq> CI_EMPTY then
         (let m1 = mark_sent each_ci m in
          if add_select_mask then
            FF (ci_fill_selected_dpu_mask each_ci) (\<lambda>dpu_mask.
              ok (add_expected each_ci (ucast dpu_mask)
                   (add_result_mask each_ci (bit_of (nr_dpus r) - 1) m1)))
          else ok m1)
       else ok (mark_idle each_ci m))
     no_masks r)"

definition determine_if_byte_discoveries_are_finished :: "nat \<Rightarrow> u64 list \<Rightarrow> u8 \<Rightarrow> bool" where
  "determine_if_byte_discoveries_are_finished nr data ci_mask =
     list_all (\<lambda>each_ci. \<not> CI_MASK_ON ci_mask each_ci
       \<or> list_ex (\<lambda>each_byte. cbyte each_byte (data ! each_ci) = 0) [0..<8]) [0..<nr]"

text \<open>The color byte, bits 48 to 55 of a result.\<close>

definition result_color :: "u64 \<Rightarrow> u8" where
  "result_color result = ucast (drop_bit 48 (result AND 0x00FF000000000000) AND 0xFF)"

text \<open>
  The body of the loop of \<open>determine_if_commands_are_finished\<close> for one CI that is not done:
  whether the loop goes on, the new \<open>is_done\<close> flag, and the fault bits to record.
\<close>

definition check_ci :: "u64 \<Rightarrow> u64 \<Rightarrow> u64 \<Rightarrow> bool \<Rightarrow> bool \<times> bool \<times> bool \<times> bool" where
  "check_ci result expected result_mask ci_color =
     (if result AND result_mask \<noteq> expected \<and> result AND CI_NOP \<noteq> CI_NOP then (False, False, False, False)
      else let nb_bits_set = popcount (result_color result) in
        if ci_color \<and> nb_bits_set \<le> 3 then (False, False, False, False)
        else if \<not> ci_color \<and> nb_bits_set \<ge> 5 then (False, False, False, False)
        else let nb = (if ci_color then 8 - nb_bits_set else nb_bits_set) in
          if nb = 0 then (True, True, False, False)
          else if nb = 1 then (True, True, True, False)
          else if nb = 2 then (True, True, False, True)
          else if nb = 3 then (True, True, True, True)
          else (False, True, False, False))"

definition record_faults :: "nat \<Rightarrow> bool \<Rightarrow> bool \<Rightarrow> 'w dpu_rank \<Rightarrow> 'w dpu_rank" where
  "record_faults ci decode collide = upd_ctx (\<lambda>c. c\<lparr>
     fault_decode := (if decode then fault_decode c OR bit_of ci else fault_decode c),
     fault_collide := (if collide then fault_collide c OR bit_of ci else fault_collide c)\<rparr>)"

fun finished_loop ::
  "u64 list \<Rightarrow> u64 list \<Rightarrow> u64 list \<Rightarrow> u8 \<Rightarrow> nat list \<Rightarrow> bool list \<Rightarrow> 'w dpu_rank
    \<Rightarrow> bool \<times> bool list \<times> 'w dpu_rank" where
  "finished_loop data expected rmasks expected_color [] is_done r = (True, is_done, r)"
| "finished_loop data expected rmasks expected_color (ci # cis) is_done r =
     (if is_done ! ci then finished_loop data expected rmasks expected_color cis is_done r
      else (case check_ci (data ! ci) (expected ! ci) (rmasks ! ci)
                   (expected_color AND bit_of ci \<noteq> 0) of
        (continue, done, decode, collide) \<Rightarrow>
          let is_done' = (if done then is_done[ci := True] else is_done);
              r' = record_faults ci decode collide r
          in if continue
             then finished_loop data expected rmasks expected_color cis is_done' r'
             else (False, is_done', r')))"

definition determine_if_commands_are_finished ::
  "u64 list \<Rightarrow> masks \<Rightarrow> u8 \<Rightarrow> bool list \<Rightarrow> 'w dpu_rank \<Rightarrow> bool \<times> bool list \<times> 'w dpu_rank" where
  "determine_if_commands_are_finished data m expected_color is_done r =
     finished_loop data (expected_results m) (result_masks m) expected_color [0..<nr_cis r] is_done r"

text \<open>The polling loop of \<open>exec_cmd\<close>; \<open>nr_retries\<close> is the value the iteration tests against 0.\<close>

fun exec_wait :: "nat \<Rightarrow> masks \<Rightarrow> u8 \<Rightarrow> bool list \<Rightarrow> ('w, unit) ufi" where
  "exec_wait nr_retries m expected_color is_done = (\<lambda>r.
     FF (ci_update_commands store_data (r_data r)) (\<lambda>data r.
       (case determine_if_commands_are_finished data m expected_color is_done r of
          (finished, is_done', r') \<Rightarrow>
            if finished then (Ret (), r')
            else (case nr_retries of
                    0 \<Rightarrow> (Fail DPU_ERR_TIMEOUT, r')
                  | Suc n \<Rightarrow> exec_wait n m expected_color is_done' r'))) r)"

definition exec_cmd :: "u64 list \<Rightarrow> bool \<Rightarrow> ('w, unit) ufi" where
  "exec_cmd commands add_select_mask =
     FF (compute_masks commands add_select_mask) (\<lambda>m r.
       let expected_color = color (r_ci r) AND ms_cis m in
       FF (modify (invert_color (ms_cis m))) (\<lambda>_.
       FF (ci_commit_commands commands) (\<lambda>_.
       FF (exec_wait NB_RETRY_FOR_VALID_RESULT m expected_color (ms_is_done m)) (\<lambda>_ r.
         if \<not> is_chip_v1_4 r
         then FF (ci_update_commands store_data (r_data r)) (\<lambda>_. ok ()) r
         else ok () r))) r)"

definition ci_exec_void_cmd :: "u64 list \<Rightarrow> ('w, unit) ufi" where
  "ci_exec_void_cmd commands = exec_cmd commands False"

definition ci_exec_wait_mask_cmd :: "u64 list \<Rightarrow> ('w, unit) ufi" where
  "ci_exec_wait_mask_cmd commands = exec_cmd commands True"

text \<open>
  The results a command leaves in the caller's array: the entries of the CIs that received a
  command, truncated to the width of the array, the others as they were.
\<close>

definition collect_results :: "u64 list \<Rightarrow> 'a::len word list \<Rightarrow> 'w dpu_rank \<Rightarrow> 'a word list" where
  "collect_results commands results r =
     fold (\<lambda>each_ci res. if commands ! each_ci \<noteq> CI_EMPTY then res[each_ci := ucast (r_data r ! each_ci)]
                         else res) [0..<nr_cis r] results"

definition ci_exec_8bit_cmd :: "u64 list \<Rightarrow> u8 list \<Rightarrow> ('w, u8 list) ufi" where
  "ci_exec_8bit_cmd commands results =
     FF (exec_cmd commands False) (\<lambda>_ r. ok (collect_results commands results r) r)"

definition ci_exec_32bit_cmd :: "u64 list \<Rightarrow> u32 list \<Rightarrow> ('w, u32 list) ufi" where
  "ci_exec_32bit_cmd commands results =
     FF (exec_cmd commands False) (\<lambda>_ r. ok (collect_results commands results r) r)"

fun byte_discovery_loop ::
  "nat \<Rightarrow> (u64 list \<Rightarrow> 'w dpu_rank \<Rightarrow> 'w dpu_rank) \<Rightarrow> u64 list \<Rightarrow> u8 \<Rightarrow> ('w, u64 list) ufi" where
  "byte_discovery_loop nr_retries store results ci_mask =
     FF (ci_update_commands store results) (\<lambda>results' r.
       if determine_if_byte_discoveries_are_finished (nr_cis r) results' ci_mask then ok results' r
       else (case nr_retries of
               0 \<Rightarrow> fail DPU_ERR_TIMEOUT r
             | Suc n \<Rightarrow> byte_discovery_loop n store results' ci_mask r))"

definition wait_for_byte_discovery ::
  "(u64 list \<Rightarrow> 'w dpu_rank \<Rightarrow> 'w dpu_rank) \<Rightarrow> u64 list \<Rightarrow> u8 \<Rightarrow> ('w, u64 list) ufi" where
  "wait_for_byte_discovery = byte_discovery_loop NB_RETRY_FOR_VALID_RESULT"

definition ci_exec_byte_discovery ::
  "u64 list \<Rightarrow> (u64 list \<Rightarrow> 'w dpu_rank \<Rightarrow> 'w dpu_rank) \<Rightarrow> u64 list \<Rightarrow> ('w, u64 list) ufi" where
  "ci_exec_byte_discovery commands store results = (\<lambda>r.
     let ci_mask = compute_ci_mask (nr_cis r) commands in
     FF (modify (invert_color ci_mask)) (\<lambda>_.
     FF (ci_commit_commands commands) (\<lambda>_.
     FF (wait_for_byte_discovery store results ci_mask) (\<lambda>results'.
     wait_for_byte_discovery store results' ci_mask))) r)"

definition reset_slice :: "nat \<Rightarrow> dpu_configuration_slice_info \<Rightarrow> dpu_configuration_slice_info" where
  "reset_slice nr_of_dpus s = s\<lparr>
     slice_target := (slice_target s)\<lparr>target_type := DPU_SLICE_TARGET_NONE\<rparr>,
     dpus_per_group := (bit_of nr_of_dpus - 1) # replicate (DPU_MAX_NR_GROUPS - 1) 0\<rparr>"

definition reset_slices :: "nat \<Rightarrow> 'w dpu_rank \<Rightarrow> 'w dpu_rank" where
  "reset_slices nr_of_dpus = fold (\<lambda>each_ci. upd_slice each_ci (reset_slice nr_of_dpus)) [0..<DPU_MAX_NR_CIS]"

definition ci_exec_reset_cmd :: "u64 list \<Rightarrow> ('w, unit) ufi" where
  "ci_exec_reset_cmd commands = (\<lambda>r.
     let reset_duration = unat (reset_wait_duration (r_hw r)) * unat (clock_division (r_hw r)) div 2;
         reset_mask = compute_ci_mask (nr_cis r) commands in
     FF (modify (invert_color reset_mask)) (\<lambda>_.
     FF (ci_commit_commands commands) (\<lambda>_.
     FF (mfor [0..<reset_duration] (\<lambda>_ data. ci_update_commands store_local data) (replicate 8 0)) (\<lambda>_.
     FF (modify (upd_ctx (\<lambda>c. c\<lparr>color := color c AND NOT reset_mask,
                                fault_collide := fault_collide c AND NOT reset_mask,
                                fault_decode := fault_decode c AND NOT reset_mask\<rparr>))) (\<lambda>_.
     modify (reset_slices (nr_dpus r)))))) r)"

text \<open>
  \<open>ci_get_color\<close>: read until the results are stable (or the timeout runs out), send a dummy
  identity command to the CIs that show a \<open>NOP\<close>, then take the colors over. The timeout is
  decremented before it is tested, so the read that brings it to 0 counts as a timeout whatever it
  returned.
\<close>

definition nop_seen :: "nat \<Rightarrow> u64 list \<Rightarrow> bool" where
  "nop_seen nr data = list_ex (\<lambda>s. drop_bit 56 (data ! s AND 0xFF00000000000000) AND 0xFF = 0xFF) [0..<nr]"

definition color_stable :: "nat \<Rightarrow> u64 list \<Rightarrow> bool" where
  "color_stable nr data = list_all (\<lambda>s.
     let cmd_type = drop_bit 56 (data ! s AND 0xFF00000000000000) AND 0xFF;
         valid = drop_bit 32 (data ! s AND 0xFF00000000) AND 0xFF
     in cmd_type = 0xFF \<or> (cmd_type = 0 \<and> valid = 0xFF)) [0..<nr]"

fun color_loop :: "nat \<Rightarrow> bool \<Rightarrow> u64 list \<Rightarrow> ('w, bool \<times> u64 list) ufi" where
  "color_loop timeout dummy data =
     FF (ci_update_commands store_local data) (\<lambda>data' r.
       let timeout' = timeout - 1;
           dummy' = (dummy \<or> nop_seen (nr_cis r) data')
       in if timeout' \<noteq> 0 \<and> \<not> color_stable (nr_cis r) data' then color_loop timeout' dummy' data' r
          else if timeout' = 0 then fail DPU_ERR_TIMEOUT r
          else ok (dummy', data') r)"

fun dummy_loop :: "nat \<Rightarrow> u64 list \<Rightarrow> ('w, u64 list) ufi" where
  "dummy_loop timeout data =
     FF (ci_update_commands store_local data) (\<lambda>data' r.
       let timeout' = timeout - 1
       in if timeout' \<noteq> 0 \<and> \<not> list_all (\<lambda>s. drop_bit 56 (data' ! s) = 0) [0..<nr_cis r]
          then dummy_loop timeout' data' r
          else if timeout' = 0 then fail DPU_ERR_TIMEOUT r
          else ok data' r)"

definition set_color_from :: "u64 \<Rightarrow> nat \<Rightarrow> u8 \<Rightarrow> u8" where
  "set_color_from result each_slice c =
     (if popcount (result_color result) \<le> 3 then c OR bit_of each_slice else c AND NOT (bit_of each_slice))"

definition ci_get_color :: "('w, u32 list) ufi" where
  "ci_get_color =
     FF (color_loop TIMEOUT_COLOR False (replicate 8 0)) (\<lambda>(dummy, data).
     FF (ci_update_commands store_local data) (\<lambda>data r.
       let ret_data = map ucast (take (nr_cis r) data);
           commands = map (\<lambda>s. if s < nr_cis r
                                then (if drop_bit 56 (data ! s) AND 0xFF = 0xFF then CI_IDENTITY else CI_EMPTY)
                                else data ! s) [0..<DPU_MAX_NR_CIS]
       in FF (if dummy then FF (ci_commit_commands commands) (\<lambda>_. dummy_loop TIMEOUT_COLOR commands)
              else ok data) (\<lambda>data'.
          FF (modify (upd_ctx (\<lambda>c. c\<lparr>color := fold (\<lambda>s. set_color_from (data' ! s) s) [0..<nr_cis r] (color c)\<rparr>)))
             (\<lambda>_. ok ret_data)) r))"

declare exec_wait.simps [simp del] byte_discovery_loop.simps [simp del]
  color_loop.simps [simp del] dummy_loop.simps [simp del]

section \<open>Masks and prepared buffers\<close>

lemma CI_MASK_ON_bit: "CI_MASK_ON m ci \<longleftrightarrow> bit m ci"
  by (simp add: CI_MASK_ON_def and_bit_of_eq_0_iff)

lemma CI_MASK_ON_lt: "CI_MASK_ON m ci \<Longrightarrow> ci < 8"
  using bit_imp_le_length [of m ci] by (simp add: CI_MASK_ON_bit)

lemma length_prepare_mask [simp]: "length (ci_prepare_mask m d) = 8"
  by (simp add: ci_prepare_mask_def)

lemma nth_prepare_mask:
  "i < 8 \<Longrightarrow> ci_prepare_mask m d ! i = (if CI_MASK_ON m i then d else CI_EMPTY)"
  by (simp add: ci_prepare_mask_def)

lemma bit_fold_or_bit_of:
  "bit (fold (\<lambda>i m. if P i then m OR bit_of i else m) xs (m :: u8)) j
    \<longleftrightarrow> bit m j \<or> (j \<in> set xs \<and> j < 8 \<and> P j)"
  by (induction xs arbitrary: m) (auto simp: bit_or_iff)

lemma bit_compute_ci_mask:
  "bit (compute_ci_mask nr commands) i \<longleftrightarrow> i < nr \<and> i < 8 \<and> commands ! i \<noteq> CI_EMPTY"
  by (auto simp: compute_ci_mask_def bit_fold_or_bit_of)

section \<open>What compute_masks returns\<close>

definition masks_of :: "nat \<Rightarrow> u64 list \<Rightarrow> masks" where
  "masks_of nr commands = fold (\<lambda>each_ci m.
     if commands ! each_ci \<noteq> CI_EMPTY then mark_sent each_ci m else mark_idle each_ci m) [0..<nr] no_masks"

lemma mfor_ok:
  assumes "\<And>i a. f i a = ok (g i a)"
  shows "mfor xs f a = ok (fold g xs a)"
proof (induction xs arbitrary: a)
  case (Cons x xs)
  have "mfor (x # xs) f a = FF (ok (g x a)) (mfor xs f)"
    by (subst mfor.simps) (subst assms, rule refl)
  also have "\<dots> = ok (fold g xs (g x a))" by (simp only: FF_ok Cons.IH)
  finally show ?case by (simp only: fold_Cons o_apply)
qed (simp only: mfor.simps fold_Nil id_apply)

lemma compute_masks_no_select: "compute_masks commands False r = (Ret (masks_of (nr_cis r) commands), r)"
  unfolding compute_masks_def masks_of_def
  by (subst mfor_ok [where g = "\<lambda>each_ci m. if commands ! each_ci \<noteq> CI_EMPTY then mark_sent each_ci m
    else mark_idle each_ci m"]) (simp_all add: Let_def)

lemma length_masks_of:
  "length (result_masks (masks_of nr commands)) = 8" "length (expected_results (masks_of nr commands)) = 8"
  "length (ms_is_done (masks_of nr commands)) = 8"
proof -
  have "length (result_masks (fold (\<lambda>i m. if P i then mark_sent i m else mark_idle i m) xs m)) = length (result_masks m)
      \<and> length (expected_results (fold (\<lambda>i m. if P i then mark_sent i m else mark_idle i m) xs m)) = length (expected_results m)
      \<and> length (ms_is_done (fold (\<lambda>i m. if P i then mark_sent i m else mark_idle i m) xs m)) = length (ms_is_done m)"
    for P m and xs :: "nat list"
    by (induction xs arbitrary: m) (simp_all add: mark_sent_def mark_idle_def)
  then show "length (result_masks (masks_of nr commands)) = 8" "length (expected_results (masks_of nr commands)) = 8"
    "length (ms_is_done (masks_of nr commands)) = 8"
    by (simp_all add: masks_of_def no_masks_def)
qed

lemma ms_cis_masks_of: "ms_cis (masks_of nr commands) = compute_ci_mask nr commands"
proof -
  have "ms_cis (fold (\<lambda>i m. if P i then mark_sent i m else mark_idle i m) xs m)
      = fold (\<lambda>i c. if P i then c OR bit_of i else c) xs (ms_cis m)" for P m and xs :: "nat list"
    by (induction xs arbitrary: m) (simp_all add: mark_sent_def mark_idle_def)
  then show ?thesis by (simp add: masks_of_def compute_ci_mask_def no_masks_def)
qed

lemma fill_selected_state [simp]: "snd (ci_fill_selected_dpu_mask ci r) = r"
  by (simp add: ci_fill_selected_dpu_mask_def Let_def split: dpu_slice_target_type.splits)

lemma mfor_state:
  "(\<And>i a s. snd (f i a s) = s) \<Longrightarrow> snd (mfor xs f a s) = s"
proof (induction xs arbitrary: a s)
  case (Cons x xs)
  then show ?case
    by (auto simp: FF_def split: prod.splits outcome.splits) (metis snd_conv)+
qed simp

lemma FF_state: "snd (m s) = s \<Longrightarrow> (\<And>x. snd (k x s) = s) \<Longrightarrow> snd (FF m k s) = s"
  by (auto simp: FF_def split: prod.splits outcome.splits)

lemma compute_masks_state [simp]: "snd (compute_masks commands sel r) = r"
  unfolding compute_masks_def
  by (rule mfor_state) (auto simp: Let_def intro!: FF_state)

lemma masks_of_nth:
  assumes "i < nr" "nr \<le> 8"
  shows "ms_is_done (masks_of nr commands) ! i \<longleftrightarrow> commands ! i = CI_EMPTY"
    and "commands ! i \<noteq> CI_EMPTY \<Longrightarrow> result_masks (masks_of nr commands) ! i = 0xFF0000FF00000000"
    and "commands ! i \<noteq> CI_EMPTY \<Longrightarrow> expected_results (masks_of nr commands) ! i = 0x000000FF00000000"
proof -
  let ?f = "\<lambda>i m. if commands ! i \<noteq> CI_EMPTY then mark_sent i m else mark_idle i m"
  have *: "length (ms_is_done m) = 8 \<Longrightarrow> length (result_masks m) = 8 \<Longrightarrow> length (expected_results m) = 8 \<Longrightarrow>
      n \<le> 8 \<Longrightarrow> i < 8 \<Longrightarrow> (ms_is_done (fold ?f [k..<n] m) ! i
        \<longleftrightarrow> ms_is_done m ! i \<or> (k \<le> i \<and> i < n \<and> commands ! i = CI_EMPTY))
      \<and> (result_masks (fold ?f [k..<n] m) ! i = (if k \<le> i \<and> i < n \<and> commands ! i \<noteq> CI_EMPTY
           then result_masks m ! i OR 0xFF0000FF00000000 else result_masks m ! i))
      \<and> (expected_results (fold ?f [k..<n] m) ! i = (if k \<le> i \<and> i < n \<and> commands ! i \<noteq> CI_EMPTY
           then expected_results m ! i OR 0x000000FF00000000 else expected_results m ! i))" for k n i m
  proof (induction "n - k" arbitrary: k m)
    case (Suc d)
    then have "[k..<n] = k # [Suc k..<n]" by (simp add: upt_conv_Cons)
    with Suc.hyps(1) [of "Suc k" "?f k m"] Suc.hyps(2) Suc.prems show ?case
      by (auto simp: mark_sent_def mark_idle_def nth_list_update)
  qed auto
  from * [of no_masks nr i 0] assms show
    "ms_is_done (masks_of nr commands) ! i \<longleftrightarrow> commands ! i = CI_EMPTY"
    "commands ! i \<noteq> CI_EMPTY \<Longrightarrow> result_masks (masks_of nr commands) ! i = 0xFF0000FF00000000"
    "commands ! i \<noteq> CI_EMPTY \<Longrightarrow> expected_results (masks_of nr commands) ! i = 0x000000FF00000000"
    by (simp_all add: masks_of_def no_masks_def)
qed

end
