(* ===== verification/Ci_Frame.thy ===== *)
theory Ci_Frame
  imports Ufi_Ci
begin

text \<open>
  What the control interface protocol of \<open>Ufi_Ci\<close> may change of a rank. \<open>ci_poll_frame\<close> is the
  contract of a predicate on ranks that polling does not touch (a poll writes the backend's
  world, the polled data, the packet log and the fault bits), \<open>ci_send_frame\<close> of one that
  committing does not touch either, and \<open>ci_exec_frame\<close> of one that a whole command, which also flips
  color bits, does not touch. Every protocol operation keeps
  such a predicate, whatever its outcome. \<open>rank_wf\<close> is one.
\<close>

section \<open>Rules for stateful reads\<close>

lemma keeps_state [keeps_rules]: "(\<And>x. keeps P (f x)) \<Longrightarrow> keeps P (\<lambda>r. f (g r) r)"
  by (simp add: keeps_def)

lemma keeps_state': "(\<And>s. P s \<Longrightarrow> keeps P (f s)) \<Longrightarrow> keeps P (\<lambda>r. f r r)"
  by (simp add: keeps_def)

lemma keeps_snd_id: "(\<And>s. snd (m s) = s) \<Longrightarrow> keeps P m"
  by (simp add: keeps_def)

section \<open>The contract\<close>

locale ci_poll_frame =
  fixes I :: "'w dpu_rank \<Rightarrow> bool"
  assumes I_wf: "I r \<Longrightarrow> rank_wf r"
    and I_update: "I r \<Longrightarrow> update_commands (r_handler r) b (r_world r) = (st, b', w) \<Longrightarrow> I (r\<lparr>r_world := w\<rparr>)"
    and I_data: "I r \<Longrightarrow> length b = 8 \<Longrightarrow> I (r\<lparr>r_data := b\<rparr>)"
    and I_ring: "I r \<Longrightarrow> r_logd r \<Longrightarrow>
      I (r\<lparr>r_cmds_buffer := cmds_buffer_record (nr_cis r) d c (r_cmds_buffer r)\<rparr>)"
    and I_faults: "I r \<Longrightarrow> I (r\<lparr>r_ci := (r_ci r)\<lparr>fault_decode := fd, fault_collide := fc\<rparr>\<rparr>)"
begin

definition store_ok :: "(u64 list \<Rightarrow> 'w dpu_rank \<Rightarrow> 'w dpu_rank) \<Rightarrow> bool" where
  "store_ok store \<longleftrightarrow> (\<forall>b r. length b = 8 \<longrightarrow> I r \<longrightarrow> I (store b r))"

lemma store_data_ok: "store_ok store_data"
  by (simp add: store_ok_def I_data)

lemma store_local_ok: "store_ok store_local"
  by (simp add: store_ok_def)

lemma I_record_faults: "I r \<Longrightarrow> I (record_faults ci a b r)"
  by (simp add: record_faults_def upd_ctx_def I_faults)

lemma keeps_debug_record: "keeps I (debug_record_last_cmd d c)"
  by (rule keepsI) (auto simp: debug_record_last_cmd_def I_ring)

lemma keeps_update:
  assumes "store_ok store" and "length b = 8"
  shows "keeps I (ci_update_commands store b)"
proof (rule keepsI)
  fix r assume r: "I r"
  obtain st b' w where up: "update_commands (r_handler r) b (r_world r) = (st, b', w)"
    by (metis prod_cases3)
  with handler_okD [OF rank_wfD(1) [OF I_wf [OF r]]] assms(2) have "length b' = 8" by metis
  then have "I (store b' (r\<lparr>r_world := w\<rparr>))"
    using assms(1) I_update [OF r up] by (simp add: store_ok_def)
  moreover have "keeps I (FF (debug_record_last_cmd READ_DIR b') (\<lambda>_. ok b'))"
    by (intro keeps_FF keeps_debug_record keeps_ok)
  ultimately show "I (snd (ci_update_commands store b r))"
    using up by (auto simp: ci_update_commands_def Let_def dest: keepsD)
qed

lemma update_length:
  assumes "length b = 8"
  shows "returns I (ci_update_commands store b) (\<lambda>b' _. length b' = 8)"
proof (rule returnsI)
  fix r b' r' assume r: "I r" and run: "ci_update_commands store b r = (Ret b', r')"
  obtain st bb w where up: "update_commands (r_handler r) b (r_world r) = (st, bb, w)"
    by (metis prod_cases3)
  with handler_okD [OF rank_wfD(1) [OF I_wf [OF r]]] assms have "length bb = 8" by metis
  moreover have "b' = bb" using run up
    by (auto simp: ci_update_commands_def Let_def FF_Ret_iff split: if_splits)
  ultimately show "length b' = 8" by simp
qed

lemma keeps_update_data: "keeps I (\<lambda>r. ci_update_commands store_data (r_data r) r)"
  by (rule keeps_state') (blast intro: keeps_update store_data_ok rank_wfD(6) I_wf)

lemma I_finished_loop:
  "I r \<Longrightarrow> I (snd (snd (finished_loop data ex rm ec cis is_done r)))"
  by (induction data ex rm ec cis is_done r rule: finished_loop.induct)
   (auto simp: Let_def I_record_faults split: prod.splits)

lemma keeps_update_then:
  assumes "\<And>d. keeps I (k d)"
  shows "keeps I (\<lambda>r. FF (ci_update_commands store_data (r_data r)) k r)"
proof (rule keepsI)
  fix s assume s: "I s"
  then have "keeps I (ci_update_commands store_data (r_data s))"
    by (intro keeps_update store_data_ok) (simp add: rank_wfD(6) I_wf)
  from keepsD [OF keeps_FF [OF this assms] s]
  show "I (snd (FF (ci_update_commands store_data (r_data s)) k s))" .
qed

lemma I_determine: "I r \<Longrightarrow> I (snd (snd (determine_if_commands_are_finished data m ec is_done r)))"
  by (simp only: determine_if_commands_are_finished_def I_finished_loop)

lemma keeps_exec_wait: "keeps I (exec_wait n m ec is_done)"
proof (induction n arbitrary: is_done)
  case 0
  have k: "keeps I (\<lambda>r. case determine_if_commands_are_finished data m ec is_done r of (finished, is_done', r') \<Rightarrow>
      if finished then (Ret (), r') else (Fail DPU_ERR_TIMEOUT, r'))" for data
    by (rule keepsI, drule I_determine [where data = data and m = m and ec = ec and is_done = is_done])
       (auto split: prod.splits)
  show ?case unfolding exec_wait.simps [of 0] nat.case
    by (rule keeps_update_then, rule k)
next
  case (Suc n)
  have k: "keeps I (\<lambda>r. case determine_if_commands_are_finished data m ec is_done r of (finished, is_done', r') \<Rightarrow>
      if finished then (Ret (), r') else exec_wait n m ec is_done' r')" for data
    by (rule keepsI, drule I_determine [where data = data and m = m and ec = ec and is_done = is_done])
       (auto split: prod.splits intro: keepsD [OF Suc.IH])
  show ?case unfolding exec_wait.simps [of "Suc n"] nat.case
    by (rule keeps_update_then, rule k)
qed

lemma keeps_reread: "keeps I (\<lambda>r. if \<not> is_chip_v1_4 r
      then FF (ci_update_commands store_data (r_data r)) (\<lambda>_. ok ()) r else ok () r)"
  using keepsD [OF keeps_update_then, OF keeps_ok] by (auto intro!: keepsI)

lemma keeps_poll_local:
  "length b = 8 \<Longrightarrow> keeps I (mfor xs (\<lambda>_ data. ci_update_commands store_local data) b)"
proof (induction xs arbitrary: b)
  case (Cons x xs)
  then show ?case unfolding mfor.simps
    by (intro keeps_FF_returns [OF keeps_update [OF store_local_ok] update_length]) (auto intro: keepsD)
qed (simp add: keeps_ok)

lemma keeps_byte_discovery_loop:
  assumes "store_ok store"
  shows "length b = 8 \<Longrightarrow> keeps I (byte_discovery_loop n store b m)"
proof (induction n arbitrary: b)
  case 0
  then show ?case
    by (subst byte_discovery_loop.simps)
     (intro keeps_FF keeps_update assms, simp_all add: keeps_def)
next
  case (Suc n)
  show ?case unfolding byte_discovery_loop.simps [of "Suc n"]
    by (rule keeps_FF_returns [OF keeps_update update_length])
       (use assms Suc in \<open>auto intro: keepsD\<close>)
qed

lemma byte_discovery_length:
  assumes "store_ok store"
  shows "length b = 8 \<Longrightarrow> returns I (byte_discovery_loop n store b m) (\<lambda>b' _. length b' = 8)"
proof (induction n arbitrary: b)
  case 0
  have "returns (\<lambda>s. length x = 8) (\<lambda>r. if determine_if_byte_discoveries_are_finished (nr_cis r) x m then ok x r
      else fail DPU_ERR_TIMEOUT r) (\<lambda>b' _. length b' = 8)" for x
    by (auto simp: returns_def split: if_splits)
  then show ?case
    unfolding byte_discovery_loop.simps [of 0] nat.case
    by (rule returns_FF [OF update_length [OF 0]])
next
  case (Suc n)
  show ?case
  proof (rule returnsI)
    fix r b' t assume r: "I r" and run: "byte_discovery_loop (Suc n) store b m r = (Ret b', t)"
    then obtain x s where up: "ci_update_commands store b r = (Ret x, s)"
      and rest: "(if determine_if_byte_discoveries_are_finished (nr_cis s) x m then ok x s
        else byte_discovery_loop n store x m s) = (Ret b', t)"
      unfolding byte_discovery_loop.simps [of "Suc n"] nat.case FF_Ret_iff by blast
    have "length x = 8" using returnsD [OF update_length [OF Suc.prems] r up] .
    moreover have "I s" using keeps_eqD [OF keeps_update [OF assms Suc.prems] r up] .
    ultimately show "length b' = 8"
      using rest returnsD [OF Suc.IH [of x]] by (auto split: if_splits)
  qed
qed

end

text \<open>Sending commits to the backend, and a whole command also flips color bits.\<close>

locale ci_send_frame = ci_poll_frame I for I :: "'w dpu_rank \<Rightarrow> bool" +
  assumes I_commit: "I r \<Longrightarrow> commit_commands (r_handler r) b (r_world r) = (st, w) \<Longrightarrow> I (r\<lparr>r_world := w\<rparr>)"
begin

lemma keeps_commit: "keeps I (ci_commit_commands c)"
  unfolding ci_commit_commands_def
  by (intro keeps_FF keeps_debug_record) (auto intro!: keepsI I_commit split: prod.splits)

end

locale ci_exec_frame = ci_send_frame I for I :: "'w dpu_rank \<Rightarrow> bool" +
  assumes I_color: "I r \<Longrightarrow> I (r\<lparr>r_ci := (r_ci r)\<lparr>color := col\<rparr>\<rparr>)"
begin

lemma I_upd_color: "I r \<Longrightarrow> I (upd_ctx (\<lambda>c. c\<lparr>color := f c\<rparr>) r)"
  by (simp add: upd_ctx_def I_color)

lemma I_invert_color: "I r \<Longrightarrow> I (invert_color m r)"
  by (simp add: invert_color_def I_upd_color)

lemma keeps_exec_cmd: "keeps I (exec_cmd commands sel)"
proof -
  have "keeps I (FF (modify (invert_color (ms_cis m))) (\<lambda>_. FF (ci_commit_commands commands)
      (\<lambda>_. FF (exec_wait NB_RETRY_FOR_VALID_RESULT m ec (ms_is_done m)) (\<lambda>_ r. if \<not> is_chip_v1_4 r
      then FF (ci_update_commands store_data (r_data r)) (\<lambda>_. ok ()) r else ok () r))))" for m ec
    by (intro keeps_FF keeps_commit keeps_exec_wait keeps_reread keeps_modify I_invert_color)
  then show ?thesis
    unfolding exec_cmd_def Let_def
    by (intro keeps_FF [OF keeps_snd_id [OF compute_masks_state]] keepsI) (erule keepsD [rotated])
qed

lemma keeps_void_cmd: "keeps I (ci_exec_void_cmd c)"
  by (simp add: ci_exec_void_cmd_def keeps_exec_cmd)

lemma keeps_wait_mask_cmd: "keeps I (ci_exec_wait_mask_cmd c)"
  by (simp add: ci_exec_wait_mask_cmd_def keeps_exec_cmd)

lemma keeps_8bit_cmd: "keeps I (ci_exec_8bit_cmd c res)"
  unfolding ci_exec_8bit_cmd_def by (intro keeps_FF keeps_exec_cmd) (simp add: keeps_def)

lemma keeps_32bit_cmd: "keeps I (ci_exec_32bit_cmd c res)"
  unfolding ci_exec_32bit_cmd_def by (intro keeps_FF keeps_exec_cmd) (simp add: keeps_def)

lemma keeps_byte_discovery:
  assumes "store_ok store" and "length b = 8"
  shows "keeps I (ci_exec_byte_discovery c store b)"
proof -
  have "keeps I (FF (modify (invert_color m)) (\<lambda>_. FF (ci_commit_commands c) (\<lambda>_.
      FF (wait_for_byte_discovery store b m) (\<lambda>x. wait_for_byte_discovery store x m))))" for m
    unfolding wait_for_byte_discovery_def
    by (intro keeps_FF keeps_commit keeps_modify I_invert_color
        keeps_FF_returns [OF keeps_byte_discovery_loop byte_discovery_length] assms)
       (auto intro: keepsD [OF keeps_byte_discovery_loop [OF assms(1)]])
  then show ?thesis
    unfolding ci_exec_byte_discovery_def Let_def by (simp add: keeps_def)
qed

end

section \<open>Well-formedness is such a predicate\<close>

lemma rank_wf_ctx:
  "rank_wf r \<Longrightarrow> rank_wf (r\<lparr>r_ci := (r_ci r)\<lparr>fault_decode := fd, fault_collide := fc\<rparr>\<rparr>)"
  "rank_wf r \<Longrightarrow> rank_wf (r\<lparr>r_ci := (r_ci r)\<lparr>color := col\<rparr>\<rparr>)"
  by (simp_all add: rank_wf_def)

interpretation wf: ci_exec_frame rank_wf
  by unfold_locales (auto simp: rank_wf_def cmds_buffer_record_wf)

end
