(* ===== verification/Bit_Config.thy ===== *)
theory Bit_Config
  imports Rank_State
begin

text \<open>
  \<^verbatim>\<open>ufi/src/ufi_bit_config.c\<close>: the bit shuffling between the CPU and the DPUs of a memory module.
  A shuffling permutes the four bits of each nibble (one permutation for the low nibbles, one for
  the high ones), then optionally swaps the two nibbles of every byte. A permutation is coded in a
  byte, two bits per entry. The main result is that the two transformations computed from a
  measurement of the wiring are inverse to each other.
\<close>

section \<open>Definitions\<close>

definition index_in_nibble :: "nat list" where
  "index_in_nibble = [0, 0, 1, 0, 2, 0, 0, 0, 3, 0, 0, 0, 0, 0, 0, 0]"

definition get_reciprocal :: "u8 \<Rightarrow> u8" where
  "get_reciprocal code = snd (fold (\<lambda>i (code, reciproc).
     let index = code AND 3 in
     (drop_bit 2 code, reciproc OR push_bit (unat index * 2) (word_of_nat i))) [0..<4] (code, 0))"

definition nibble_index :: "u32 \<Rightarrow> nat \<Rightarrow> nat" where
  "nibble_index bit_order_result sh = index_in_nibble ! unat (drop_bit sh bit_order_result AND 0xF)"

definition syndrome :: "nat \<Rightarrow> nat \<Rightarrow> nat \<Rightarrow> u8" where
  "syndrome i1 i2 i3 = push_bit (i1 * 2) 1 OR push_bit (i2 * 2) 2 OR push_bit (i3 * 2) 3"

text \<open>\<open>dpu_bit_config_compute\<close> does not write \<open>stutter\<close>: it updates the given structure.\<close>

definition dpu_bit_config_compute :: "u32 \<Rightarrow> dpu_bit_config \<Rightarrow> dpu_bit_config" where
  "dpu_bit_config_compute b config =
     (let swap = drop_bit 28 b AND 0xF \<noteq> 0;
          m_syndrome = syndrome (nibble_index b 4) (nibble_index b 12) (nibble_index b 20);
          l_syndrome = syndrome (nibble_index b 0) (nibble_index b 8) (nibble_index b 16);
          mm_syndrome = (if swap then get_reciprocal l_syndrome else get_reciprocal m_syndrome);
          ll_syndrome = (if swap then get_reciprocal m_syndrome else get_reciprocal l_syndrome);
          config_3124 = (if swap then get_reciprocal ll_syndrome else get_reciprocal mm_syndrome);
          config_2316 = (if swap then get_reciprocal mm_syndrome else get_reciprocal ll_syndrome);
          config_4740 = (if swap then get_reciprocal l_syndrome else get_reciprocal m_syndrome);
          config_3932 = (if swap then get_reciprocal m_syndrome else get_reciprocal l_syndrome)
      in config\<lparr>nibble_swap := (if swap then 0xFF else 0),
                cpu2dpu := ucast config_2316 OR push_bit 8 (ucast config_3124),
                dpu2cpu := ucast config_3932 OR push_bit 8 (ucast config_4740)\<rparr>)"

definition transform_nibble :: "u8 \<Rightarrow> u8 \<Rightarrow> u8" where
  "transform_nibble transformation nibble_value =
     fold (\<lambda>transformation_id acc.
       let id_bit = drop_bit (transformation_id * 2) transformation AND 3;
           bit_value = drop_bit transformation_id nibble_value AND 1
       in acc OR push_bit (unat id_bit) bit_value) [0..<4] 0"

definition transform_byte :: "u16 \<Rightarrow> u8 \<Rightarrow> u8 \<Rightarrow> u8" where
  "transform_byte transformations swap byte_value =
     fold (\<lambda>nibble_id acc.
       let nibble_value = drop_bit (nibble_id * 4) byte_value AND 0xF;
           nibble_transformation = ucast (drop_bit (nibble_id * 8) transformations AND 0xFF)
       in acc OR push_bit ((if swap \<noteq> 0 then (nibble_id + 1) mod 2 else nibble_id) * 4)
                   (transform_nibble nibble_transformation nibble_value)) [0..<2] 0"

definition transform_word :: "u16 \<Rightarrow> u8 \<Rightarrow> u32 \<Rightarrow> u32" where
  "transform_word transformations swap value =
     fold (\<lambda>byte_id acc.
       let byte_value = ucast (drop_bit (byte_id * 8) value AND 0xFF)
       in acc OR push_bit (byte_id * 8) (ucast (transform_byte transformations swap byte_value))) [0..<4] 0"

definition dpu_bit_config_dpu2cpu :: "dpu_bit_config \<Rightarrow> u32 \<Rightarrow> u32" where
  "dpu_bit_config_dpu2cpu config = transform_word (dpu2cpu config) (nibble_swap config)"

definition dpu_bit_config_cpu2dpu :: "dpu_bit_config \<Rightarrow> u32 \<Rightarrow> u32" where
  "dpu_bit_config_cpu2dpu config = transform_word (cpu2dpu config) (nibble_swap config)"

section \<open>Permutation codes\<close>

text \<open>Entry \<open>i\<close> of a code, and the codes whose entries are a permutation.\<close>

definition entry :: "u8 \<Rightarrow> nat \<Rightarrow> nat" where
  "entry code i = unat (drop_bit (i * 2) code AND 3)"

definition perm_code :: "u8 \<Rightarrow> bool" where
  "perm_code code \<longleftrightarrow> distinct (map (entry code) [0..<4])"

lemma upt_4: "[0..<4] = [0, 1, 2, 3 :: nat]" and upt_2: "[0..<2] = [0, 1 :: nat]"
  by (simp_all add: upt_rec)

lemma bit_3_iff: "bit (3 :: 'a::len word) k \<longleftrightarrow> k < 2 \<and> k < LENGTH('a)"
proof -
  have eq: "(3 :: 'a word) = mask 2" by (simp add: mask_eq_exp_minus_1)
  show ?thesis by (subst eq) (auto simp: bit_mask_iff)
qed

lemma bit_15_iff: "bit (0xF :: 'a::len word) k \<longleftrightarrow> k < 4 \<and> k < LENGTH('a)"
proof -
  have eq: "(0xF :: 'a word) = mask 4" by (simp add: mask_eq_exp_minus_1)
  show ?thesis by (subst eq) (auto simp: bit_mask_iff)
qed

lemma bit_255_iff: "bit (0xFF :: 'a::len word) k \<longleftrightarrow> k < 8 \<and> k < LENGTH('a)"
proof -
  have eq: "(0xFF :: 'a word) = mask 8" by (simp add: mask_eq_exp_minus_1)
  show ?thesis by (subst eq) (auto simp: bit_mask_iff)
qed

lemma entry_lt: "entry code i < 4"
proof -
  have "entry code i \<le> unat (3 :: u8)" unfolding entry_def
    by (rule word_le_nat_alt [THEN iffD1]) (rule word_and_le1)
  then show ?thesis by simp
qed

lemma bit_entry: "bit (entry code i) k \<longleftrightarrow> k < 2 \<and> bit code (2 * i + k)"
  by (simp only: entry_def bit_unat_iff bit_and_iff bit_3_iff bit_drop_bit_eq o_apply)
     (auto simp: mult.commute)

lemma entry_inj: "perm_code code \<Longrightarrow> i < 4 \<Longrightarrow> j < 4 \<Longrightarrow> entry code i = entry code j \<longleftrightarrow> i = j"
  unfolding perm_code_def by (auto simp: distinct_map inj_on_def)

lemma get_reciprocal_eq:
  "get_reciprocal code = push_bit (entry code 0 * 2) 0 OR push_bit (entry code 1 * 2) 1
     OR push_bit (entry code 2 * 2) 2 OR push_bit (entry code 3 * 2) 3"
  by (simp add: get_reciprocal_def upt_4 entry_def Let_def drop_bit_drop_bit or.assoc)

lemma not_bit_small: "i < 4 \<Longrightarrow> 2 \<le> k \<Longrightarrow> \<not> bit (i :: nat) k"
  using take_bit_nat_eq_self [of i 2] bit_take_bit_iff [of 2 i k] by auto

lemma bit_push_code:
  assumes "i < 4" "k < 2" "m < 4"
  shows "bit (push_bit (e * 2) (word_of_nat i :: u8)) (2 * m + k) \<longleftrightarrow> m = e \<and> bit i k"
proof (cases m e rule: linorder_cases)
  case less
  then show ?thesis using assms by (simp add: bit_push_bit_iff)
next
  case equal
  then show ?thesis using assms by (auto simp: bit_push_bit_iff bit_word_of_nat_iff)
next
  case greater
  then have "2 \<le> 2 * m + k - e * 2" by linarith
  then show ?thesis using assms greater not_bit_small [of i] by (simp add: bit_push_bit_iff bit_word_of_nat_iff)
qed

lemma ex_lt_4: "(\<exists>i < 4. P i) \<longleftrightarrow> P 0 \<or> P 1 \<or> P 2 \<or> P (3 :: nat)"
  by (auto simp: less_Suc_eq numeral_eq_Suc)

lemma bit_get_reciprocal:
  assumes "m < 4" "k < 2"
  shows "bit (get_reciprocal code) (2 * m + k) \<longleftrightarrow> (\<exists>i < 4. entry code i = m \<and> bit i k)"
proof -
  have "bit (get_reciprocal code) (2 * m + k) \<longleftrightarrow>
      (\<exists>i < 4. bit (push_bit (entry code i * 2) (word_of_nat i :: u8)) (2 * m + k))"
    unfolding ex_lt_4 by (simp add: get_reciprocal_eq bit_or_iff)
  also have "\<dots> \<longleftrightarrow> (\<exists>i < 4. entry code i = m \<and> bit i k)"
    using assms by (metis bit_push_code)
  finally show ?thesis .
qed

lemma entry_get_reciprocal:
  assumes "perm_code code" "i < 4"
  shows "entry (get_reciprocal code) (entry code i) = i"
proof (rule bit_eqI)
  fix k
  show "bit (entry (get_reciprocal code) (entry code i)) k \<longleftrightarrow> bit i k"
  proof (cases "k < 2")
    case True
    with assms show ?thesis
      by (auto simp: bit_entry bit_get_reciprocal entry_lt entry_inj)
  next
    case False
    then show ?thesis using not_bit_small [OF assms(2), of k] by (simp add: bit_entry)
  qed
qed

lemma entry_surj:
  assumes "perm_code code" "m < 4"
  shows "\<exists>i < 4. entry code i = m"
proof -
  have "inj_on (entry code) {..<4}" using entry_inj [OF assms(1)] by (auto simp: inj_on_def)
  moreover have "entry code ` {..<4} \<subseteq> {..<4}" using entry_lt by auto
  ultimately have "entry code ` {..<4} = {..<4}" by (simp add: endo_inj_surj)
  with assms(2) have "m \<in> entry code ` {..<4}" by (metis lessThan_iff)
  then show ?thesis by blast
qed

lemma entry_get_reciprocal':
  "perm_code code \<Longrightarrow> m < 4 \<Longrightarrow> entry code (entry (get_reciprocal code) m) = m"
  using entry_surj [of code m] entry_get_reciprocal by metis

lemma perm_code_get_reciprocal:
  assumes "perm_code code" shows "perm_code (get_reciprocal code)"
  unfolding perm_code_def distinct_map inj_on_def
  using entry_get_reciprocal' [OF assms] by (metis atLeastLessThan_iff distinct_upt set_upt)

lemma code_eqI:
  assumes "\<And>i. i < 4 \<Longrightarrow> entry a i = entry b i" shows "a = b"
proof (rule bit_word_eqI)
  fix n assume n: "n < LENGTH(8)"
  then have "n div 2 < 4" by simp
  then have "bit (entry a (n div 2)) (n mod 2) \<longleftrightarrow> bit (entry b (n div 2)) (n mod 2)"
    using assms by simp
  then show "bit a n \<longleftrightarrow> bit b n" by (simp add: bit_entry)
qed

lemma get_reciprocal_get_reciprocal:
  assumes "perm_code code" shows "get_reciprocal (get_reciprocal code) = code"
proof (rule code_eqI)
  fix i :: nat assume i: "i < 4"
  note p = perm_code_get_reciprocal [OF assms]
  have "entry (get_reciprocal code) (entry code i) = i" using assms i by (rule entry_get_reciprocal)
  then show "entry (get_reciprocal (get_reciprocal code)) i = entry code i"
    using entry_get_reciprocal [OF p entry_lt [of code i]] by simp
qed

section \<open>Transformations, bit by bit\<close>

lemma bit_fold_or: "bit (fold (\<lambda>i acc. acc OR f i) xs (a :: 'a::len word)) n \<longleftrightarrow> bit a n \<or> (\<exists>i \<in> set xs. bit (f i) n)"
  by (induction xs arbitrary: a) (auto simp: bit_or_iff)

lemma bit_1_iff': "bit (1 :: 'a::len word) n \<longleftrightarrow> n = 0"
  by (auto simp: bit_1_iff)

lemma bit_and_1: "bit (w AND 1 :: 'a::len word) n \<longleftrightarrow> n = 0 \<and> bit w 0"
  by (subst bit_and_iff, subst bit_1_iff') auto

lemma bit_transform_nibble: "bit (transform_nibble t v) n \<longleftrightarrow> (\<exists>i < 4. entry t i = n \<and> bit v i)"
proof -
  have "bit (push_bit e (drop_bit i v AND 1)) n \<longleftrightarrow> n = e \<and> bit v i" if "e < 4" for e i
    using that by (subst bit_push_bit_iff, subst bit_and_1, subst bit_drop_bit_eq) auto
  then show ?thesis
    unfolding transform_nibble_def Let_def bit_fold_or entry_def [symmetric]
    by (auto simp: entry_lt)
qed

text \<open>The transformation of nibble \<open>nib\<close>, and where the swap puts it.\<close>

definition nibble_code :: "u16 \<Rightarrow> nat \<Rightarrow> u8" where
  "nibble_code transformations nib = ucast (drop_bit (nib * 8) transformations AND 0xFF)"

definition nibble_place :: "u8 \<Rightarrow> nat \<Rightarrow> nat" where
  "nibble_place swap nib = (if swap \<noteq> 0 then (nib + 1) mod 2 else nib)"

lemma nibble_place_lt: "nib < 2 \<Longrightarrow> nibble_place swap nib < 2"
  by (simp add: nibble_place_def)

lemma nibble_place_involution: "nib < 2 \<Longrightarrow> nibble_place swap (nibble_place swap nib) = nib"
  by (auto simp: nibble_place_def less_2_cases_iff)

lemma nibble_place_inj:
  "nib < 2 \<Longrightarrow> nib' < 2 \<Longrightarrow> nibble_place swap nib = nibble_place swap nib' \<longleftrightarrow> nib = nib'"
  by (auto simp: nibble_place_def less_2_cases_iff)

lemma bit_push_nibble:
  assumes "p < 2" "m < 2" "y < 4" "\<And>k. bit (x :: u8) k \<Longrightarrow> k < 4"
  shows "bit (push_bit (p * 4) x) (4 * m + y) \<longleftrightarrow> p = m \<and> bit x y"
  using assms by (auto simp: bit_push_bit_iff less_2_cases_iff dest: assms(4))

lemma bit_transform_byte:
  assumes "nib < 2" "y < 4"
  shows "bit (transform_byte ts swap b) (4 * nibble_place swap nib + y)
    \<longleftrightarrow> (\<exists>i < 4. entry (nibble_code ts nib) i = y \<and> bit b (4 * nib + i))"
proof -
  let ?x = "\<lambda>m. transform_nibble (nibble_code ts m) (drop_bit (m * 4) b AND 0xF)"
  have lt: "k < 4" if "bit (?x m) k" for m k
    using that entry_lt by (auto simp: bit_transform_nibble)
  have "bit (transform_byte ts swap b) (4 * nibble_place swap nib + y) \<longleftrightarrow>
      (\<exists>m \<in> {0, 1}. bit (push_bit (nibble_place swap m * 4) (?x m)) (4 * nibble_place swap nib + y))"
    unfolding transform_byte_def Let_def nibble_code_def [symmetric] nibble_place_def [symmetric] bit_fold_or
    by (simp add: upt_2)
  also have "\<dots> \<longleftrightarrow> bit (?x nib) y"
  proof -
    have "bit (push_bit (nibble_place swap m * 4) (?x m)) (4 * nibble_place swap nib + y) \<longleftrightarrow> m = nib \<and> bit (?x m) y"
      if "m < 2" for m
      using bit_push_nibble [OF nibble_place_lt [OF that] nibble_place_lt [OF assms(1)] assms(2) lt]
        nibble_place_inj [OF that assms(1)] by simp
    from this [of 0] this [of 1] show ?thesis
      using less_2_cases [OF assms(1)] by (elim disjE) simp_all
  qed
  also have "\<dots> \<longleftrightarrow> (\<exists>i < 4. entry (nibble_code ts nib) i = y \<and> bit b (4 * nib + i))"
  proof -
    have "bit (drop_bit (nib * 4) b AND 0xF) i \<longleftrightarrow> bit b (4 * nib + i)" if "i < 4" for i
      using that by (subst bit_and_iff, subst bit_15_iff, subst bit_drop_bit_eq) (auto simp: mult.commute)
    then show ?thesis unfolding bit_transform_nibble by blast
  qed
  finally show ?thesis .
qed

lemma bit_push_byte:
  "b < 4 \<Longrightarrow> i < 4 \<Longrightarrow> y < 8 \<Longrightarrow>
    bit (push_bit (i * 8) (ucast (x :: u8) :: u32)) (8 * b + y) \<longleftrightarrow> i = b \<and> bit x y"
  by (cases i b rule: linorder_cases)
     (auto simp: bit_push_bit_iff bit_ucast_iff dest!: bit_imp_le_length)

lemma bit_transform_word:
  assumes "b < 4" "nib < 2" "y < 4"
  shows "bit (transform_word ts swap v) (8 * b + (4 * nibble_place swap nib + y))
    \<longleftrightarrow> (\<exists>i < 4. entry (nibble_code ts nib) i = y \<and> bit v (8 * b + (4 * nib + i)))"
proof -
  let ?x = "\<lambda>i. transform_byte ts swap (ucast (drop_bit (i * 8) v AND 0xFF))"
  have y: "4 * nibble_place swap nib + y < 8" using nibble_place_lt [OF assms(2), of swap] assms(3) by linarith
  have "bit (transform_word ts swap v) (8 * b + (4 * nibble_place swap nib + y)) \<longleftrightarrow>
      (\<exists>i < 4. bit (push_bit (i * 8) (ucast (?x i) :: u32)) (8 * b + (4 * nibble_place swap nib + y)))"
    unfolding transform_word_def Let_def bit_fold_or by auto
  also have "\<dots> \<longleftrightarrow> bit (?x b) (4 * nibble_place swap nib + y)"
    using bit_push_byte [OF assms(1) _ y] assms(1) by blast
  also have "\<dots> \<longleftrightarrow> (\<exists>i < 4. entry (nibble_code ts nib) i = y \<and> bit v (8 * b + (4 * nib + i)))"
  proof -
    have "bit (ucast (drop_bit (b * 8) v AND 0xFF) :: u8) (4 * nib + i) \<longleftrightarrow> bit v (8 * b + (4 * nib + i))"
      if "i < 4" for i
      using that assms(2)
      by (subst bit_ucast_iff, subst bit_and_iff, subst bit_255_iff, subst bit_drop_bit_eq) (auto simp: mult.commute)
    then show ?thesis unfolding bit_transform_byte [OF assms(2,3)] by blast
  qed
  finally show ?thesis .
qed

text \<open>Two transformations with reciprocal permutations, seen through the swap, are inverse.\<close>

lemma transform_word_inverse:
  assumes perm: "\<And>m. m < 2 \<Longrightarrow> perm_code (nibble_code ts m)"
    and recip: "\<And>m. m < 2 \<Longrightarrow> nibble_code ts' (nibble_place swap m) = get_reciprocal (nibble_code ts m)"
  shows "transform_word ts' swap (transform_word ts swap v) = v"
proof (rule bit_word_eqI)
  fix n assume "n < LENGTH(32)"
  define b m j where "b = n div 8" and "m = n mod 8 div 4" and "j = n mod 4"
  have "n mod 8 mod 4 = n mod 4" by (simp add: mod_mod_cancel)
  then have "n mod 8 = 4 * m + j" unfolding m_def j_def by (metis mult_div_mod_eq)
  then have n: "n = 8 * b + (4 * m + j)" unfolding b_def by (metis mult_div_mod_eq)
  have lt: "b < 4" "m < 2" "j < 4"
    using \<open>n < LENGTH(32)\<close> unfolding b_def m_def j_def by (simp_all add: less_mult_imp_div_less)
  let ?t = "nibble_code ts m" and ?s = "nibble_place swap m"
  have s: "?s < 2" "nibble_place swap ?s = m"
    using lt by (simp_all add: nibble_place_lt nibble_place_involution)
  have "bit (transform_word ts' swap (transform_word ts swap v)) n \<longleftrightarrow>
      (\<exists>i < 4. entry (nibble_code ts' ?s) i = j \<and> bit (transform_word ts swap v) (8 * b + (4 * ?s + i)))"
    using bit_transform_word [OF lt(1) s(1) lt(3), of ts' swap] s(2) n by simp
  also have "\<dots> \<longleftrightarrow> bit (transform_word ts swap v) (8 * b + (4 * ?s + entry ?t j))"
    using recip [OF lt(2)] entry_get_reciprocal [OF perm [OF lt(2)] lt(3)]
      entry_get_reciprocal' [OF perm [OF lt(2)]] entry_lt [of ?t j] by metis
  also have "\<dots> \<longleftrightarrow> bit v n"
    using bit_transform_word [OF lt(1,2) entry_lt, of ts swap v ?t j] entry_inj [OF perm [OF lt(2)] _ lt(3)]
      lt(3) n by metis
  finally show "bit (transform_word ts' swap (transform_word ts swap v)) n \<longleftrightarrow> bit v n" .
qed

section \<open>The computed configuration\<close>

lemma perm_code_syndrome:
  assumes "i1 < 4" "i2 < 4" "i3 < 4" "distinct [i1, i2, i3]"
  shows "perm_code (syndrome i1 i2 i3)"
proof -
  have "i < 4 \<Longrightarrow> i \<in> {0, 1, 2, 3}" for i :: nat by auto
  from this [OF assms(1)] this [OF assms(2)] this [OF assms(3)] assms(4) show ?thesis
    by (auto simp: perm_code_def upt_4 entry_def syndrome_def)
qed

lemma nibble_index_lt: "nibble_index b sh < 4"
proof -
  have "unat (drop_bit sh b AND 0xF) < 16"
  proof -
    have "unat (drop_bit sh b AND 0xF) \<le> unat (0xF :: u32)"
      by (rule word_le_nat_alt [THEN iffD1]) (rule word_and_le1)
    then show ?thesis by simp
  qed
  moreover have "list_all (\<lambda>x. x < 4) index_in_nibble" "length index_in_nibble = 16"
    by (simp_all add: index_in_nibble_def)
  ultimately show ?thesis by (simp add: nibble_index_def list_all_length)
qed

lemma nibble_code_pair:
  "nibble_code (ucast (lo :: u8) OR push_bit 8 (ucast (hi :: u8))) m = (if m = 0 then lo else hi)" if "m < 2"
proof (rule bit_word_eqI)
  fix k assume "k < LENGTH(8)"
  then have k: "k < 8" by simp
  have "bit (nibble_code (ucast lo OR push_bit 8 (ucast hi)) m) k \<longleftrightarrow>
      bit (ucast lo OR push_bit 8 (ucast hi) :: u16) (m * 8 + k)"
    unfolding nibble_code_def using k
    by (subst bit_ucast_iff, subst bit_and_iff, subst bit_255_iff, subst bit_drop_bit_eq) simp
  also have "\<dots> \<longleftrightarrow> bit (if m = 0 then lo else hi) k"
    using k that less_2_cases [OF that] bit_imp_le_length [of lo "8 + k"]
    by (auto simp: bit_or_iff bit_push_bit_iff bit_ucast_iff)
  finally show "bit (nibble_code (ucast lo OR push_bit 8 (ucast hi)) m) k
    \<longleftrightarrow> bit (if m = 0 then lo else hi) k" .
qed

text \<open>
  The wiring measurement is usable when the three nibbles it reads for each half name three
  different bit positions; the fourth position is the one left.
\<close>

definition bit_order_valid :: "u32 \<Rightarrow> bool" where
  "bit_order_valid b \<longleftrightarrow>
     distinct [nibble_index b 4, nibble_index b 12, nibble_index b 20]
     \<and> distinct [nibble_index b 0, nibble_index b 8, nibble_index b 16]"

text \<open>
  C1: The configuration that \<open>dpu_bit_config_compute\<close> derives from a usable wiring measurement
  makes \<open>dpu_bit_config_dpu2cpu\<close> and \<open>dpu_bit_config_cpu2dpu\<close> inverse to each other on every
  32-bit value, with or without nibble swap.
\<close>

theorem bit_config_round_trip:
  assumes "bit_order_valid b" and "config = dpu_bit_config_compute b c"
  shows "dpu_bit_config_dpu2cpu config (dpu_bit_config_cpu2dpu config v) = v
    \<and> dpu_bit_config_cpu2dpu config (dpu_bit_config_dpu2cpu config v) = v"
proof -
  let ?m = "syndrome (nibble_index b 4) (nibble_index b 12) (nibble_index b 20)"
  let ?l = "syndrome (nibble_index b 0) (nibble_index b 8) (nibble_index b 16)"
  have p: "perm_code ?m" "perm_code ?l"
    using assms(1) by (auto simp: bit_order_valid_def intro!: perm_code_syndrome nibble_index_lt)
  note r = p p [THEN perm_code_get_reciprocal] p [THEN get_reciprocal_get_reciprocal]
  have place: "nibble_place swap m = (if swap = 0 then m else if m = 0 then 1 else 0)" if "m < 2" for m swap
    using less_2_cases [OF that] by (auto simp: nibble_place_def)
  show ?thesis
    unfolding assms(2) dpu_bit_config_dpu2cpu_def dpu_bit_config_cpu2dpu_def dpu_bit_config_compute_def
    by (intro conjI transform_word_inverse; simp add: Let_def nibble_code_pair place r)
qed

theorem bit_config_round_trip_witness:
  "bit_order_valid 0xF0448822 \<and>
   (let config = dpu_bit_config_compute 0xF0448822 \<lparr>cpu2dpu = 0, dpu2cpu = 0, nibble_swap = 0, stutter = 0\<rparr>
    in dpu_bit_config_dpu2cpu config (dpu_bit_config_cpu2dpu config 0x12345678) = 0x12345678)"
proof -
  have v: "bit_order_valid 0xF0448822" by code_simp
  from bit_config_round_trip [OF v refl] v show ?thesis by (simp add: Let_def)
qed

end
