(* ===== verification/Ufi.thy ===== *)
theory Ufi
  imports Ci_Frame Bit_Config
begin

text \<open>
  \<^verbatim>\<open>ufi/src/ufi.c\<close>: the unified frame interface, the operations a host can ask of the DPUs behind
  the control interfaces (CIs) selected by a mask. A frame is only understood by a CI that holds
  the matching structure, so the operations go through the \<open>UFI_exec_\<close> functions, which program
  the structure when the cached one differs.

  Frames are built in the array of the rank (\<open>rank->cmds\<close>, \<open>r_cmds\<close>). The operations that store
  one frame per selected CI leave the other entries as they were. An output array of the caller is
  an argument and a result; a \<open>NULL\<close> output is \<open>None\<close>. Log output is not modelled.
\<close>

section \<open>The loop over the selected control interfaces\<close>

text \<open>\<open>next_ci\<close> starts from \<open>-1\<close>, which is 255 in its \<open>u8\<close> argument, so the first step wraps to 0.\<close>

function next_ci :: "u8 \<Rightarrow> u8 \<Rightarrow> u8 \<Rightarrow> u8" where
  "next_ci ci_mask current_ci nr =
     (let c = current_ci + 1
      in if c < nr \<and> \<not> CI_MASK_ON ci_mask (unat c) then next_ci ci_mask c nr else c)"
  by auto
termination
proof (relation "measure (\<lambda>(m, c, nr). unat nr - unat (c + 1))")
  fix ci_mask current_ci nr c :: u8
  assume "c = current_ci + 1" "c < nr \<and> \<not> CI_MASK_ON ci_mask (unat c)"
  then have lt: "unat c < unat nr" by (simp add: word_less_nat_alt)
  moreover have "unat nr < 256" by (rule unat_u8_lt)
  ultimately have "unat (c + 1) = unat c + 1" by (simp add: unat_word_ariths)
  with lt \<open>c = current_ci + 1\<close> show "((ci_mask, c, nr), (ci_mask, current_ci, nr))
      \<in> measure (\<lambda>(m, c, nr). unat nr - unat (c + 1))" by simp
qed simp

declare next_ci.simps [simp del]

lemma next_ci_gt:
  "c < nr \<Longrightarrow> unat c < unat (next_ci m c nr)"
proof (induction m c nr rule: next_ci.induct)
  case (1 m c nr)
  have "unat nr < 256" by (rule unat_u8_lt)
  with 1(2) have s: "unat (c + 1) = unat c + 1"
    by (simp add: unat_word_ariths word_less_nat_alt)
  show ?case
  proof (cases "c + 1 < nr \<and> \<not> CI_MASK_ON m (unat (c + 1))")
    case True
    with 1(1) [OF refl True] s show ?thesis by (subst next_ci.simps) (simp add: Let_def)
  next
    case False
    with s show ?thesis by (subst next_ci.simps) (auto simp: Let_def)
  qed
qed

function for_each_ci :: "u8 \<Rightarrow> u8 \<Rightarrow> u8 \<Rightarrow> u8 list" where
  "for_each_ci ci_mask nr i = (if i < nr then i # for_each_ci ci_mask nr (next_ci ci_mask i nr) else [])"
  by auto
termination
proof (relation "measure (\<lambda>(m, nr, i). unat nr - unat i)")
  fix ci_mask nr i :: u8 assume "i < nr"
  then show "((ci_mask, nr, next_ci ci_mask i nr), (ci_mask, nr, i)) \<in> measure (\<lambda>(m, nr, i). unat nr - unat i)"
    using next_ci_gt [of i nr ci_mask] by (auto simp: word_less_nat_alt)
qed simp

declare for_each_ci.simps [simp del]

text \<open>
  The values the loop \<open>for_each_ci (i, nr_cis, mask)\<close> visits, as the operations below use them;
  \<open>for_each_ci_visits\<close> proves that the C loop visits exactly these. The select operations clear
  bits of the loop's mask on the way, but only the bit of the current CI, which is never read again.
\<close>

definition ci_list :: "'w dpu_rank \<Rightarrow> u8 \<Rightarrow> nat list" where
  "ci_list r ci_mask = filter (CI_MASK_ON ci_mask) [0..<nr_cis r]"

section \<open>Structures and frames\<close>

definition prepare_cmds :: "u8 \<Rightarrow> u64 \<Rightarrow> 'w dpu_rank \<Rightarrow> 'w dpu_rank" where
  "prepare_cmds ci_mask data r = r\<lparr>r_cmds := ci_prepare_mask ci_mask data\<rparr>"

definition fill_cmds :: "u8 \<Rightarrow> (nat \<Rightarrow> u64) \<Rightarrow> 'w dpu_rank \<Rightarrow> 'w dpu_rank" where
  "fill_cmds ci_mask frame r = r\<lparr>r_cmds := fold (\<lambda>ci cmds. cmds[ci := frame ci]) (ci_list r ci_mask) (r_cmds r)\<rparr>"

definition exec_cmds_void :: "('w, unit) ufi" where
  "exec_cmds_void = (\<lambda>r. ci_exec_void_cmd (r_cmds r) r)"

definition exec_cmds_wait_mask :: "('w, unit) ufi" where
  "exec_cmds_wait_mask = (\<lambda>r. ci_exec_wait_mask_cmd (r_cmds r) r)"

definition exec_cmds_8bit :: "u8 list \<Rightarrow> ('w, u8 list) ufi" where
  "exec_cmds_8bit results = (\<lambda>r. ci_exec_8bit_cmd (r_cmds r) results r)"

definition exec_cmds_32bit :: "u32 list \<Rightarrow> ('w, u32 list) ufi" where
  "exec_cmds_32bit results = (\<lambda>r. ci_exec_32bit_cmd (r_cmds r) results r)"

definition set_structure :: "nat \<Rightarrow> u64 \<Rightarrow> 'w dpu_rank \<Rightarrow> 'w dpu_rank" where
  "set_structure ci structure = upd_slice ci (\<lambda>i. i\<lparr>structure_value := structure\<rparr>)"

definition UFI_exec_write_structure :: "u8 \<Rightarrow> u64 \<Rightarrow> ('w, unit) ufi" where
  "UFI_exec_write_structure ci_mask structure = (\<lambda>r.
     (case fold (\<lambda>each_ci (do_write, r).
              if structure_value (r_slice r each_ci) \<noteq> structure
              then (True, set_structure each_ci structure r) else (do_write, r))
            (ci_list r ci_mask) (False, r) of
        (do_write_structure, r') \<Rightarrow>
          if do_write_structure
          then FF (modify (prepare_cmds ci_mask structure)) (\<lambda>_. exec_cmds_void) r'
          else ok () r'))"

definition UFI_exec_write_structures :: "u8 \<Rightarrow> u64 list \<Rightarrow> ('w, unit) ufi" where
  "UFI_exec_write_structures ci_mask structures = (\<lambda>r.
     (case fold (\<lambda>each_ci (do_write, r).
              if structures ! each_ci \<noteq> CI_EMPTY \<and> structure_value (r_slice r each_ci) \<noteq> structures ! each_ci
              then (True, set_structure each_ci (structures ! each_ci) r) else (do_write, r))
            (ci_list r ci_mask) (False, r) of
        (do_write_structure, r') \<Rightarrow>
          if do_write_structure then ci_exec_void_cmd structures r' else ok () r'))"

definition UFI_exec_void_frame :: "u8 \<Rightarrow> u64 \<Rightarrow> u64 \<Rightarrow> ('w, unit) ufi" where
  "UFI_exec_void_frame ci_mask structure frame =
     FF (UFI_exec_write_structure ci_mask structure) (\<lambda>_.
     FF (modify (prepare_cmds ci_mask frame)) (\<lambda>_. exec_cmds_void))"

text \<open>The only caller passes \<open>rank->cmds\<close> as \<open>frames\<close>.\<close>

definition UFI_exec_void_frames :: "u8 \<Rightarrow> u64 list \<Rightarrow> ('w, unit) ufi" where
  "UFI_exec_void_frames ci_mask structures =
     FF (UFI_exec_write_structures ci_mask structures) (\<lambda>_. exec_cmds_void)"

definition UFI_exec_8bit_frame :: "u8 \<Rightarrow> u64 \<Rightarrow> u64 \<Rightarrow> u8 list \<Rightarrow> ('w, u8 list) ufi" where
  "UFI_exec_8bit_frame ci_mask structure frame results =
     FF (UFI_exec_write_structure ci_mask structure) (\<lambda>_.
     FF (modify (prepare_cmds ci_mask frame)) (\<lambda>_. exec_cmds_8bit results))"

definition UFI_exec_32bit_frame :: "u8 \<Rightarrow> u64 \<Rightarrow> u64 \<Rightarrow> u32 list \<Rightarrow> ('w, u32 list) ufi" where
  "UFI_exec_32bit_frame ci_mask structure frame results =
     FF (UFI_exec_write_structure ci_mask structure) (\<lambda>_.
     FF (modify (prepare_cmds ci_mask frame)) (\<lambda>_. exec_cmds_32bit results))"

text \<open>The operations whose output may be \<open>NULL\<close> run the void variant then.\<close>

definition UFI_exec_opt_frame :: "u8 \<Rightarrow> u64 \<Rightarrow> u64 \<Rightarrow> u8 list option \<Rightarrow> ('w, u8 list option) ufi" where
  "UFI_exec_opt_frame ci_mask structure frame results =
     (case results of
        None \<Rightarrow> FF (UFI_exec_void_frame ci_mask structure frame) (\<lambda>_. ok None)
      | Some res \<Rightarrow> FF (UFI_exec_8bit_frame ci_mask structure frame res) (\<lambda>res'. ok (Some res')))"

text \<open>One frame per selected CI, under one structure.\<close>

definition fill_and_exec :: "u8 \<Rightarrow> (nat \<Rightarrow> u64) \<Rightarrow> ('w, unit) ufi" where
  "fill_and_exec ci_mask frame = FF (modify (fill_cmds ci_mask frame)) (\<lambda>_. exec_cmds_void)"

section \<open>Commands without a structure\<close>

definition ufi_byte_order ::
  "u8 \<Rightarrow> (u64 list \<Rightarrow> 'w dpu_rank \<Rightarrow> 'w dpu_rank) \<Rightarrow> u64 list \<Rightarrow> ('w, u64 list) ufi" where
  "ufi_byte_order ci_mask store results =
     FF (modify (prepare_cmds ci_mask CI_BYTE_ORDER)) (\<lambda>_ r.
     ci_exec_byte_discovery (r_cmds r) store results r)"

definition ufi_soft_reset :: "u8 \<Rightarrow> u8 \<Rightarrow> u8 \<Rightarrow> ('w, unit) ufi" where
  "ufi_soft_reset ci_mask factor cycle_accurate =
     FF (modify (prepare_cmds ci_mask (CI_SOFTWARE_RESET (ucast factor) (ucast cycle_accurate)))) (\<lambda>_ r.
     ci_exec_reset_cmd (r_cmds r) r)"

definition ufi_bit_config ::
  "u8 \<Rightarrow> dpu_bit_config option \<Rightarrow> u32 list option \<Rightarrow> ('w, u32 list option) ufi" where
  "ufi_bit_config ci_mask config results = (\<lambda>r.
     let bit_config = pcb_transformation (r_hw r);
         cmd = (case config of
                  None \<Rightarrow> CI_BIT_ORDER 0 0 0 0
                | Some c \<Rightarrow> CI_BIT_ORDER (ucast (nibble_swap c)) (ucast (stutter c))
                    (ucast (dpu_bit_config_dpu2cpu bit_config (ucast (cpu2dpu c))))
                    (ucast (dpu_bit_config_dpu2cpu bit_config (ucast (dpu2cpu c)))))
     in FF (modify (prepare_cmds ci_mask cmd)) (\<lambda>_.
          (case results of
             None \<Rightarrow> FF exec_cmds_void (\<lambda>_. ok None)
           | Some res \<Rightarrow> FF (exec_cmds_32bit res) (\<lambda>res'. ok (Some res')))) r)"

definition ufi_identity :: "u8 \<Rightarrow> u32 list \<Rightarrow> ('w, u32 list) ufi" where
  "ufi_identity ci_mask results =
     FF (modify (prepare_cmds ci_mask CI_IDENTITY)) (\<lambda>_.
     FF (exec_cmds_32bit results) (\<lambda>results r.
     ok (fold (\<lambda>each_ci res. res[each_ci := dpu_bit_config_cpu2dpu (pcb_transformation (r_hw r)) (res ! each_ci)])
          (ci_list r ci_mask) results) r))"

definition ufi_thermal_config :: "u8 \<Rightarrow> u8 \<Rightarrow> ('w, unit) ufi" where
  "ufi_thermal_config ci_mask threshold =
     FF (modify (prepare_cmds ci_mask (CI_THERMAL_CONFIG (ucast threshold)))) (\<lambda>_. exec_cmds_void)"

section \<open>Selection\<close>

definition DPU_ENABLED_GROUP :: nat where "DPU_ENABLED_GROUP = 0"
definition DPU_DISABLED_GROUP :: nat where "DPU_DISABLED_GROUP = 1"

definition set_target :: "dpu_slice_target_type \<Rightarrow> nat \<Rightarrow> nat \<Rightarrow> 'w dpu_rank \<Rightarrow> 'w dpu_rank" where
  "set_target ty k ci = upd_slice ci (\<lambda>i. i\<lparr>slice_target := \<lparr>target_type = ty, target_id = k\<rparr>\<rparr>)"

definition set_target_all :: "nat \<Rightarrow> 'w dpu_rank \<Rightarrow> 'w dpu_rank" where
  "set_target_all ci =
     upd_slice ci (\<lambda>i. i\<lparr>slice_target := (slice_target i)\<lparr>target_type := DPU_SLICE_TARGET_ALL\<rparr>\<rparr>)"

definition target_is :: "dpu_slice_target_type \<Rightarrow> nat \<Rightarrow> dpu_configuration_slice_info \<Rightarrow> bool" where
  "target_is ty k info \<longleftrightarrow> target_type (slice_target info) = ty \<and> target_id (slice_target info) = k"

definition ufi_select_cis :: "u8 \<Rightarrow> ('w, u8) ufi" where
  "ufi_select_cis ci_mask = (\<lambda>r.
     ok (fold (\<lambda>each_ci mask. if enabled_dpus (r_slice r each_ci) = 0 then mask AND NOT (bit_of each_ci) else mask)
          (ci_list r ci_mask) ci_mask) r)"

text \<open>
  The body of the selection loops of \<open>ufi_select_group\<close>, \<open>ufi_select_dpu\<close> and
  \<open>ufi_select_dpu_even_disabled\<close>, which differ in the test of the CI and in the target.
\<close>

definition select_step ::
  "(dpu_configuration_slice_info \<Rightarrow> bool) \<Rightarrow> dpu_slice_target_type \<Rightarrow> nat \<Rightarrow> nat
    \<Rightarrow> u8 \<times> bool \<times> 'w dpu_rank \<Rightarrow> u8 \<times> bool \<times> 'w dpu_rank" where
  "select_step selectable ty k each_ci = (\<lambda>(mask, do_select, r).
     let ci_info = r_slice r each_ci in
     if selectable ci_info then
       if \<not> target_is ty k ci_info then (mask, True, set_target ty k each_ci r)
       else (mask, do_select, r)
     else (mask AND NOT (bit_of each_ci), do_select, r))"

definition select_loop ::
  "(dpu_configuration_slice_info \<Rightarrow> bool) \<Rightarrow> dpu_slice_target_type \<Rightarrow> nat \<Rightarrow> u8 \<Rightarrow> 'w dpu_rank
    \<Rightarrow> u8 \<times> bool \<times> 'w dpu_rank" where
  "select_loop selectable ty k ci_mask r =
     fold (select_step selectable ty k) (ci_list r ci_mask) (ci_mask, False, r)"

definition select_frame :: "bool \<Rightarrow> u8 \<Rightarrow> u64 \<Rightarrow> u64 \<Rightarrow> ('w, u8) ufi" where
  "select_frame do_select m structure frame =
     FF (if do_select then UFI_exec_void_frame m structure frame else ok ()) (\<lambda>_. ok m)"

definition ufi_select_group :: "u8 \<Rightarrow> nat \<Rightarrow> ('w, u8) ufi" where
  "ufi_select_group ci_mask group_id = (\<lambda>r.
     (case select_loop (\<lambda>i. dpus_per_group i ! group_id \<noteq> 0) DPU_SLICE_TARGET_GROUP group_id ci_mask r of
        (sel_mask, do_select, r') \<Rightarrow>
          select_frame do_select sel_mask CI_SELECT_GROUP_STRUCT (CI_SELECT_GROUP_FRAME (of_nat group_id)) r'))"

definition ufi_select_dpu :: "u8 \<Rightarrow> nat \<Rightarrow> ('w, u8) ufi" where
  "ufi_select_dpu ci_mask dpu = (\<lambda>r.
     (case select_loop (\<lambda>i. enabled_dpus i AND bit_of dpu \<noteq> 0) DPU_SLICE_TARGET_DPU dpu ci_mask r of
        (sel_mask, do_select, r') \<Rightarrow>
          select_frame do_select sel_mask CI_SELECT_DPU_STRUCT (CI_SELECT_DPU_FRAME (of_nat dpu)) r'))"

definition ufi_select_dpu_even_disabled :: "u8 \<Rightarrow> nat \<Rightarrow> ('w, u8) ufi" where
  "ufi_select_dpu_even_disabled ci_mask dpu = (\<lambda>r.
     (case select_loop (\<lambda>i. enabled_dpus i \<noteq> 0) DPU_SLICE_TARGET_DPU dpu ci_mask r of
        (sel_mask, do_select, r') \<Rightarrow>
          select_frame do_select sel_mask CI_SELECT_DPU_STRUCT (CI_SELECT_DPU_FRAME (of_nat dpu)) r'))"

text \<open>
  \<open>ufi_select_all\<close> and \<open>ufi_select_all_even_disabled\<close> choose a structure and a frame per CI; the
  frame goes to \<open>rank->cmds\<close>, whose other entries stay.
\<close>

definition put_frame :: "nat \<Rightarrow> u64 \<Rightarrow> 'w dpu_rank \<Rightarrow> 'w dpu_rank" where
  "put_frame ci frame r = r\<lparr>r_cmds := (r_cmds r)[ci := frame]\<rparr>"

definition select_all_step ::
  "nat \<Rightarrow> u8 \<times> bool \<times> u64 list \<times> 'w dpu_rank \<Rightarrow> u8 \<times> bool \<times> u64 list \<times> 'w dpu_rank" where
  "select_all_step each_ci = (\<lambda>(mask, do_select, structs, r).
     let ci_info = r_slice r each_ci in
     if all_dpus_are_enabled ci_info then
       if target_type (slice_target ci_info) \<noteq> DPU_SLICE_TARGET_ALL then
         (mask, True, structs[each_ci := CI_SELECT_ALL_STRUCT],
          set_target_all each_ci (put_frame each_ci CI_SELECT_ALL_FRAME r))
       else (mask, do_select, structs, r)
     else
       if \<not> target_is DPU_SLICE_TARGET_GROUP DPU_ENABLED_GROUP ci_info then
         if enabled_dpus ci_info \<noteq> 0 then
           (mask, True, structs[each_ci := CI_SELECT_GROUP_STRUCT],
            set_target DPU_SLICE_TARGET_GROUP DPU_ENABLED_GROUP each_ci
              (put_frame each_ci (CI_SELECT_GROUP_FRAME (of_nat DPU_ENABLED_GROUP)) r))
         else (mask AND NOT (bit_of each_ci), do_select, structs, r)
       else (mask, do_select, structs, r))"

definition select_frames :: "bool \<Rightarrow> u8 \<Rightarrow> u64 list \<Rightarrow> ('w, u8) ufi" where
  "select_frames do_select m structs =
     FF (if do_select then UFI_exec_void_frames m structs else ok ()) (\<lambda>_. ok m)"

definition ufi_select_all :: "u8 \<Rightarrow> ('w, u8) ufi" where
  "ufi_select_all ci_mask = (\<lambda>r.
     (case fold select_all_step (ci_list r ci_mask) (ci_mask, False, ci_prepare_mask 0 0, r) of
        (sel_mask, do_select, structs, r') \<Rightarrow> select_frames do_select sel_mask structs r'))"

definition select_all_even_disabled_step ::
  "nat \<Rightarrow> u8 \<times> bool \<times> u64 list \<times> 'w dpu_rank \<Rightarrow> u8 \<times> bool \<times> u64 list \<times> 'w dpu_rank" where
  "select_all_even_disabled_step each_ci = (\<lambda>(mask, do_select, structs, r).
     let ci_info = r_slice r each_ci in
     if enabled_dpus ci_info \<noteq> 0 then
       if target_type (slice_target ci_info) \<noteq> DPU_SLICE_TARGET_ALL then
         (mask, True, structs[each_ci := CI_SELECT_ALL_STRUCT],
          set_target_all each_ci (put_frame each_ci CI_SELECT_ALL_FRAME r))
       else (mask, do_select, structs, r)
     else (mask AND NOT (bit_of each_ci), do_select, structs, r))"

definition ufi_select_all_even_disabled :: "u8 \<Rightarrow> ('w, u8) ufi" where
  "ufi_select_all_even_disabled ci_mask = (\<lambda>r.
     (case fold select_all_even_disabled_step (ci_list r ci_mask) (ci_mask, False, ci_prepare_mask 0 0, r) of
        (sel_mask, do_select, structs, r') \<Rightarrow> select_frames do_select sel_mask structs r'))"

text \<open>The uncached variants select unconditionally and leave the caller's mask alone.\<close>

definition ufi_select_all_uncached :: "u8 \<Rightarrow> ('w, unit) ufi" where
  "ufi_select_all_uncached ci_mask = (\<lambda>r.
     FF (modify (fold set_target_all (ci_list r ci_mask))) (\<lambda>_.
     UFI_exec_void_frame ci_mask CI_SELECT_ALL_STRUCT CI_SELECT_ALL_FRAME) r)"

definition ufi_select_group_uncached :: "u8 \<Rightarrow> nat \<Rightarrow> ('w, unit) ufi" where
  "ufi_select_group_uncached ci_mask group_id = (\<lambda>r.
     FF (modify (fold (set_target DPU_SLICE_TARGET_GROUP group_id) (ci_list r ci_mask))) (\<lambda>_.
     UFI_exec_void_frame ci_mask CI_SELECT_GROUP_STRUCT (CI_SELECT_GROUP_FRAME (of_nat group_id))) r)"

definition ufi_select_dpu_uncached :: "u8 \<Rightarrow> nat \<Rightarrow> ('w, unit) ufi" where
  "ufi_select_dpu_uncached ci_mask dpu = (\<lambda>r.
     FF (modify (fold (set_target DPU_SLICE_TARGET_DPU dpu) (ci_list r ci_mask))) (\<lambda>_.
     UFI_exec_void_frame ci_mask CI_SELECT_DPU_STRUCT (CI_SELECT_DPU_FRAME (of_nat dpu))) r)"

section \<open>Groups and configuration\<close>

definition move_to_group :: "nat \<Rightarrow> u8 \<Rightarrow> dpu_configuration_slice_info \<Rightarrow> dpu_configuration_slice_info" where
  "move_to_group group_id dpu_mask info =
     (let groups = map (\<lambda>g. g AND NOT (ucast dpu_mask)) (dpus_per_group info)
      in info\<lparr>dpus_per_group := groups[group_id := groups ! group_id OR ucast dpu_mask]\<rparr>)"

definition ufi_write_group :: "u8 \<Rightarrow> nat \<Rightarrow> ('w, unit) ufi" where
  "ufi_write_group ci_mask group_id = (\<lambda>r.
     FF (mfor (ci_list r ci_mask) (\<lambda>each_ci _.
          FF (ci_fill_selected_dpu_mask each_ci) (\<lambda>dpu_mask.
          modify (upd_slice each_ci (move_to_group group_id dpu_mask)))) ()) (\<lambda>_.
     UFI_exec_void_frame ci_mask CI_WRITE_GROUP_STRUCT (CI_WRITE_GROUP_FRAME (of_nat group_id))) r)"

definition ufi_carousel_config :: "u8 \<Rightarrow> dpu_carousel_config \<Rightarrow> ('w, unit) ufi" where
  "ufi_carousel_config ci_mask config =
     FF (modify (prepare_cmds ci_mask (CI_CMD_DURATION_FUTUR (ucast (cmd_duration config))))) (\<lambda>_.
     FF exec_cmds_void (\<lambda>_.
     FF (UFI_exec_void_frame ci_mask CI_CMD_BUS_CONFIG_DURATION_STRUCT
           (CI_CMD_BUS_CONFIG_DURATION_FRAME (ucast (cmd_duration config)))) (\<lambda>_.
     FF (UFI_exec_void_frame ci_mask CI_CMD_BUS_CONFIG_SAMPLING_STRUCT
           (CI_CMD_BUS_CONFIG_SAMPLING_FRAME (ucast (cmd_sampling config)))) (\<lambda>_.
     FF (UFI_exec_void_frame ci_mask CI_CMD_BUS_SYNC_STRUCT CI_CMD_BUS_SYNC_FRAME) (\<lambda>_.
     FF (modify (prepare_cmds ci_mask (CI_RES_DURATION_FUTUR (ucast (res_duration config))))) (\<lambda>_.
     FF exec_cmds_void (\<lambda>_.
     FF (modify (prepare_cmds ci_mask (CI_RES_SAMPLING_FUTUR (ucast (res_sampling config))))) (\<lambda>_.
     FF exec_cmds_void (\<lambda>_.
     FF (UFI_exec_void_frame ci_mask CI_RES_BUS_CONFIG_DURATION_STRUCT
           (CI_RES_BUS_CONFIG_DURATION_FRAME (ucast (res_duration config)))) (\<lambda>_.
     UFI_exec_void_frame ci_mask CI_RES_BUS_SYNC_STRUCT CI_RES_BUS_SYNC_FRAME))))))))))"

definition ufi_clear_debug_replace :: "u8 \<Rightarrow> ('w, unit) ufi" where
  "ufi_clear_debug_replace ci_mask =
     UFI_exec_void_frame ci_mask CI_DEBUG_STD_REPLACE_CLEAR_STRUCT CI_DEBUG_STD_REPLACE_CLEAR_FRAME"

definition ufi_clear_fault_poison :: "u8 \<Rightarrow> ('w, unit) ufi" where
  "ufi_clear_fault_poison ci_mask =
     UFI_exec_void_frame ci_mask CI_POISON_FAULT_CLEAR_STRUCT CI_POISON_FAULT_CLEAR_FRAME"

definition ufi_clear_fault_bkp :: "u8 \<Rightarrow> ('w, unit) ufi" where
  "ufi_clear_fault_bkp ci_mask =
     UFI_exec_void_frame ci_mask CI_BKP_FAULT_CLEAR_STRUCT CI_BKP_FAULT_CLEAR_FRAME"

definition ufi_clear_fault_dma :: "u8 \<Rightarrow> ('w, unit) ufi" where
  "ufi_clear_fault_dma ci_mask =
     UFI_exec_void_frame ci_mask CI_DMA_FAULT_READ_AND_CLR_STRUCT CI_DMA_FAULT_READ_AND_CLR_FRAME"

definition ufi_clear_fault_mem :: "u8 \<Rightarrow> ('w, unit) ufi" where
  "ufi_clear_fault_mem ci_mask =
     UFI_exec_void_frame ci_mask CI_MEM_FAULT_READ_AND_CLR_STRUCT CI_MEM_FAULT_READ_AND_CLR_FRAME"

definition ufi_clear_fault_dpu :: "u8 \<Rightarrow> ('w, unit) ufi" where
  "ufi_clear_fault_dpu ci_mask =
     UFI_exec_void_frame ci_mask CI_DPU_FAULT_STATE_CLR_STRUCT CI_DPU_FAULT_STATE_CLR_FRAME"

definition ufi_clear_fault_intercept :: "u8 \<Rightarrow> ('w, unit) ufi" where
  "ufi_clear_fault_intercept ci_mask =
     UFI_exec_void_frame ci_mask CI_BKP_FAULT_READ_STRUCT CI_BKP_FAULT_READ_FRAME"

definition ufi_clear_run_bit :: "u8 \<Rightarrow> u8 \<Rightarrow> u8 list option \<Rightarrow> ('w, u8 list option) ufi" where
  "ufi_clear_run_bit ci_mask run_bit =
     UFI_exec_opt_frame ci_mask CI_THREAD_CLR_RUN_STRUCT (CI_THREAD_CLR_RUN_FRAME (ucast run_bit))"

section \<open>Repair, program counter mode, stack direction\<close>

definition IRAM_TIMING_SAFE_VALUE :: u64 where "IRAM_TIMING_SAFE_VALUE = 0x02"
definition RFRAM_TIMING_SAFE_VALUE :: u64 where "RFRAM_TIMING_SAFE_VALUE = 0x01"
definition WRAM_TIMING_SAFE_VALUE :: u64 where "WRAM_TIMING_SAFE_VALUE = 0x02"

definition ufi_clear_dma_ctrl :: "u8 \<Rightarrow> ('w, unit) ufi" where
  "ufi_clear_dma_ctrl ci_mask =
     UFI_exec_void_frame ci_mask CI_DMA_CTRL_CLEAR_STRUCT CI_DMA_CTRL_CLEAR_FRAME"

definition ufi_iram_repair_config :: "u8 \<Rightarrow> (nat \<Rightarrow> dpu_repair_config) \<Rightarrow> ('w, unit) ufi" where
  "ufi_iram_repair_config ci_mask config =
     FF (UFI_exec_write_structure ci_mask CI_IREPAIR_CONFIG_AB_STRUCT) (\<lambda>_.
     FF (fill_and_exec ci_mask (\<lambda>each_ci. CI_IREPAIR_CONFIG_AB_FRAME (ucast (AB_msbs (config each_ci)))
           (ucast (A_lsbs (config each_ci))) (ucast (B_lsbs (config each_ci))))) (\<lambda>_.
     FF (UFI_exec_write_structure ci_mask CI_IREPAIR_CONFIG_CD_STRUCT) (\<lambda>_.
     FF (fill_and_exec ci_mask (\<lambda>each_ci. CI_IREPAIR_CONFIG_CD_FRAME (ucast (CD_msbs (config each_ci)))
           (ucast (C_lsbs (config each_ci))) (ucast (D_lsbs (config each_ci))))) (\<lambda>_.
     FF (UFI_exec_write_structure ci_mask CI_IREPAIR_CONFIG_OE_STRUCT) (\<lambda>_.
     FF (fill_and_exec ci_mask (\<lambda>each_ci. CI_IREPAIR_CONFIG_OE_FRAME (ucast (odd_index (config each_ci)))
           (ucast (even_index (config each_ci))) IRAM_TIMING_SAFE_VALUE)) (\<lambda>_.
     UFI_exec_void_frame ci_mask CI_REGISTER_FILE_TIMING_CONFIG_STRUCT
       (CI_REGISTER_FILE_TIMING_CONFIG_FRAME RFRAM_TIMING_SAFE_VALUE)))))))"

text \<open>The DMA control frame of register \<open>reg\<close> of a WRAM bank, with the two data bytes given.\<close>

definition wram_repair_frame :: "u8 \<Rightarrow> u64 \<Rightarrow> u8 \<Rightarrow> u8 \<Rightarrow> u64" where
  "wram_repair_frame bank reg hi lo =
     (let b0 = 0x60 OR push_bit 2 bank; b4 = 0x60; b5 = 0x40
      in CI_DMA_CTRL_WRITE_FRAME (ucast b0) reg (0x60 OR ucast hi) (0x60 OR ucast lo) b4 b5)"

definition ufi_wram_repair_config :: "u8 \<Rightarrow> u8 \<Rightarrow> (nat \<Rightarrow> dpu_repair_config) \<Rightarrow> ('w, unit) ufi" where
  "ufi_wram_repair_config ci_mask bank config =
     FF (UFI_exec_write_structure ci_mask CI_DMA_CTRL_WRITE_STRUCT) (\<lambda>_.
     FF (fill_and_exec ci_mask (\<lambda>each_ci. wram_repair_frame bank 0x60
           (drop_bit 1 (even_index (config each_ci))) (drop_bit 1 (odd_index (config each_ci))))) (\<lambda>_.
     FF (fill_and_exec ci_mask (\<lambda>each_ci. wram_repair_frame bank 0x61
           (drop_bit 4 (AB_msbs (config each_ci))) (AB_msbs (config each_ci) AND 0xF))) (\<lambda>_.
     FF (fill_and_exec ci_mask (\<lambda>each_ci. wram_repair_frame bank 0x62
           (A_lsbs (config each_ci)) (B_lsbs (config each_ci)))) (\<lambda>_.
     FF (fill_and_exec ci_mask (\<lambda>each_ci. wram_repair_frame bank 0x63
           (drop_bit 4 (CD_msbs (config each_ci))) (CD_msbs (config each_ci) AND 0xF))) (\<lambda>_.
     FF (fill_and_exec ci_mask (\<lambda>each_ci. wram_repair_frame bank 0x64
           (C_lsbs (config each_ci)) (D_lsbs (config each_ci)))) (\<lambda>_.
     FF (UFI_exec_void_frame ci_mask CI_DMA_CTRL_WRITE_STRUCT
           (wram_repair_frame bank 0x65 0 (ucast WRAM_TIMING_SAFE_VALUE))) (\<lambda>_.
     ufi_clear_dma_ctrl ci_mask)))))))"

definition put_results :: "'w dpu_rank \<Rightarrow> u8 \<Rightarrow> (nat \<Rightarrow> 'a) \<Rightarrow> 'a list \<Rightarrow> 'a list" where
  "put_results r ci_mask f xs = fold (\<lambda>each_ci xs. xs[each_ci := f each_ci]) (ci_list r ci_mask) xs"

definition ufi_get_pc_mode :: "u8 \<Rightarrow> u8 list \<Rightarrow> ('w, u8 list) ufi" where
  "ufi_get_pc_mode ci_mask pc_mode =
     FF (UFI_exec_8bit_frame ci_mask CI_PC_MODE_READ_STRUCT CI_PC_MODE_READ_FRAME (replicate 8 0)) (\<lambda>modes r.
     ok (put_results r ci_mask (\<lambda>each_ci. modes ! each_ci) pc_mode) r)"

definition ufi_set_pc_mode :: "u8 \<Rightarrow> u8 list \<Rightarrow> ('w, unit) ufi" where
  "ufi_set_pc_mode ci_mask pc_mode =
     FF (UFI_exec_write_structure ci_mask CI_PC_MODE_WRITE_STRUCT) (\<lambda>_.
     fill_and_exec ci_mask (\<lambda>each_ci. CI_PC_MODE_WRITE_FRAME (ucast (pc_mode ! each_ci))))"

definition ufi_set_stack_direction :: "u8 \<Rightarrow> bool list \<Rightarrow> u8 list option \<Rightarrow> ('w, u8 list option) ufi" where
  "ufi_set_stack_direction ci_mask direction previous =
     FF (UFI_exec_write_structure ci_mask CI_STACK_UP_READ_AND_SET_STRUCT) (\<lambda>_.
     FF (modify (fill_cmds ci_mask (\<lambda>each_ci. if direction ! each_ci then CI_STACK_UP_READ_AND_SET_FRAME
                                               else CI_STACK_UP_READ_AND_CLR_FRAME))) (\<lambda>_.
     (case previous of
        None \<Rightarrow> FF exec_cmds_void (\<lambda>_. ok None)
      | Some res \<Rightarrow> FF (exec_cmds_8bit res) (\<lambda>res'. ok (Some res')))))"

section \<open>DMA control registers\<close>

definition ci_dma_ctrl_write_frame :: "u8 \<Rightarrow> u8 \<Rightarrow> u64" where
  "ci_dma_ctrl_write_frame address data =
     (let b0 = 0x60 OR (drop_bit 4 address AND 0x0F);
          b1 = 0x60 OR (drop_bit 0 address AND 0x0F);
          b2 = 0x60 OR (drop_bit 4 data AND 0x0F);
          b3 = 0x60 OR (drop_bit 0 data AND 0x0F);
          b4 = 0x60 :: u8;
          b5 = 0x20 :: u8
      in CI_DMA_CTRL_WRITE_FRAME (ucast b0) (ucast b1) (ucast b2) (ucast b3) (ucast b4) (ucast b5))"

definition ufi_write_dma_ctrl :: "u8 \<Rightarrow> u8 \<Rightarrow> u8 \<Rightarrow> ('w, unit) ufi" where
  "ufi_write_dma_ctrl ci_mask address data =
     UFI_exec_void_frame ci_mask CI_DMA_CTRL_WRITE_STRUCT (ci_dma_ctrl_write_frame address data)"

definition ufi_write_dma_ctrl_datas :: "u8 \<Rightarrow> u8 \<Rightarrow> u8 list \<Rightarrow> ('w, unit) ufi" where
  "ufi_write_dma_ctrl_datas ci_mask address datas =
     FF (UFI_exec_write_structure ci_mask CI_DMA_CTRL_WRITE_STRUCT) (\<lambda>_.
     fill_and_exec ci_mask (\<lambda>each_ci. ci_dma_ctrl_write_frame address (datas ! each_ci)))"

definition ufi_read_dma_ctrl :: "u8 \<Rightarrow> u8 list \<Rightarrow> ('w, u8 list) ufi" where
  "ufi_read_dma_ctrl ci_mask data =
     UFI_exec_8bit_frame ci_mask CI_DMA_CTRL_READ_STRUCT CI_DMA_CTRL_READ_FRAME data"

section \<open>Instruction and working memory\<close>

text \<open>
  \<open>src\<close> gives the buffer of each CI as a function of the index; \<open>dst\<close> names the buffer of each CI,
  an object of the host memory of the rank. The address of a read is computed as \<open>int\<close>, that of a
  write as \<open>u16\<close>.
\<close>

definition ufi_iram_write :: "u8 \<Rightarrow> (nat \<Rightarrow> nat \<Rightarrow> u64) \<Rightarrow> u16 \<Rightarrow> u16 \<Rightarrow> ('w, unit) ufi" where
  "ufi_iram_write ci_mask src offset len =
     mfor [0..<unat len] (\<lambda>each_address _.
       let addr = ucast (offset + of_nat each_address)
       in FF (UFI_exec_write_structure ci_mask (CI_IRAM_WRITE_INSTRUCTION_STRUCT addr)) (\<lambda>_.
          FF (modify (fill_cmds ci_mask (\<lambda>each_ci. CI_IRAM_WRITE_INSTRUCTION_FRAME (src each_ci each_address) addr))) (\<lambda>_.
          exec_cmds_wait_mask))) ()"

definition store_byte :: "nat \<Rightarrow> u8 \<Rightarrow> u64 \<Rightarrow> u64" where
  "store_byte k b x = (x AND NOT (push_bit (8 * k) 0xFF)) OR push_bit (8 * k) (ucast b)"

definition store_instr :: "u64 \<Rightarrow> nat \<Rightarrow> (u64 \<Rightarrow> u64) \<Rightarrow> 'w dpu_rank \<Rightarrow> 'w dpu_rank" where
  "store_instr p i f r = r\<lparr>host_instrs := (host_instrs r)(p := (host_instrs r p)(i := f (host_instrs r p i)))\<rparr>"

definition store_word :: "u64 \<Rightarrow> nat \<Rightarrow> u32 \<Rightarrow> 'w dpu_rank \<Rightarrow> 'w dpu_rank" where
  "store_word p i x r = r\<lparr>host_words := (host_words r)(p := (host_words r p)(i := x))\<rparr>"

definition iram_read_byte ::
  "u8 \<Rightarrow> (nat \<Rightarrow> u64) \<Rightarrow> u64 \<Rightarrow> u64 \<Rightarrow> nat \<Rightarrow> (u8 \<Rightarrow> u64 \<Rightarrow> u64) \<Rightarrow> u8 list \<Rightarrow> ('w, u8 list) ufi" where
  "iram_read_byte ci_mask dst structure frame i put bytes =
     FF (UFI_exec_8bit_frame ci_mask structure frame bytes) (\<lambda>bytes r.
     FF (modify (fold (\<lambda>each_ci. store_instr (dst each_ci) i (put (bytes ! each_ci))) (ci_list r ci_mask)))
        (\<lambda>_. ok bytes) r)"

definition ufi_iram_read :: "u8 \<Rightarrow> (nat \<Rightarrow> u64) \<Rightarrow> u16 \<Rightarrow> u16 \<Rightarrow> ('w, unit) ufi" where
  "ufi_iram_read ci_mask dst offset len =
     FF (mfor [0..<unat len] (\<lambda>i bytes.
       let addr = ucast offset + of_nat i
       in FF (iram_read_byte ci_mask dst CI_IRAM_READ_BYTE0_STRUCT (CI_IRAM_READ_BYTE0_FRAME addr) i (store_byte 0) bytes) (\<lambda>bytes.
          FF (iram_read_byte ci_mask dst CI_IRAM_READ_BYTE1_STRUCT (CI_IRAM_READ_BYTE1_FRAME addr) i (store_byte 1) bytes) (\<lambda>bytes.
          FF (iram_read_byte ci_mask dst CI_IRAM_READ_BYTE2_STRUCT (CI_IRAM_READ_BYTE2_FRAME addr) i (store_byte 2) bytes) (\<lambda>bytes.
          FF (iram_read_byte ci_mask dst CI_IRAM_READ_BYTE3_STRUCT (CI_IRAM_READ_BYTE3_FRAME addr) i (store_byte 3) bytes) (\<lambda>bytes.
          FF (iram_read_byte ci_mask dst CI_IRAM_READ_BYTE4_STRUCT (CI_IRAM_READ_BYTE4_FRAME addr) i (store_byte 4) bytes) (\<lambda>bytes.
          iram_read_byte ci_mask dst CI_IRAM_READ_BYTE5_STRUCT (CI_IRAM_READ_BYTE5_FRAME addr) i
            (\<lambda>b. store_byte 7 0 \<circ> store_byte 6 0 \<circ> store_byte 5 b) bytes))))))
       (replicate 8 0)) (\<lambda>_. ok ())"

definition ufi_wram_write :: "u8 \<Rightarrow> (nat \<Rightarrow> nat \<Rightarrow> u32) \<Rightarrow> u16 \<Rightarrow> u16 \<Rightarrow> ('w, unit) ufi" where
  "ufi_wram_write ci_mask src offset len =
     mfor [0..<unat len] (\<lambda>each_address _.
       let addr = ucast (offset + of_nat each_address)
       in FF (UFI_exec_write_structure ci_mask (CI_WRAM_WRITE_WORD_STRUCT addr)) (\<lambda>_.
          FF (modify (fill_cmds ci_mask (\<lambda>each_ci. CI_WRAM_WRITE_WORD_FRAME (ucast (src each_ci each_address)) addr))) (\<lambda>_.
          exec_cmds_wait_mask))) ()"

definition ufi_wram_read :: "u8 \<Rightarrow> (nat \<Rightarrow> u64) \<Rightarrow> u16 \<Rightarrow> u16 \<Rightarrow> ('w, unit) ufi" where
  "ufi_wram_read ci_mask dst offset len =
     FF (mfor [0..<unat len] (\<lambda>i words.
       FF (UFI_exec_32bit_frame ci_mask CI_WRAM_READ_WORD_STRUCT
             (CI_WRAM_READ_WORD_FRAME (ucast offset + of_nat i)) words) (\<lambda>words r.
       FF (modify (fold (\<lambda>each_ci. store_word (dst each_ci) i (words ! each_ci)) (ci_list r ci_mask)))
          (\<lambda>_. ok words) r)) (replicate 8 0)) (\<lambda>_. ok ())"

section \<open>Threads, run state and faults\<close>

definition ufi_thread_boot :: "u8 \<Rightarrow> u8 \<Rightarrow> u8 list option \<Rightarrow> ('w, u8 list option) ufi" where
  "ufi_thread_boot ci_mask thread =
     UFI_exec_opt_frame ci_mask CI_THREAD_BOOT_STRUCT (CI_THREAD_BOOT_FRAME (ucast thread))"

definition ufi_thread_resume :: "u8 \<Rightarrow> u8 \<Rightarrow> u8 list option \<Rightarrow> ('w, u8 list option) ufi" where
  "ufi_thread_resume ci_mask thread =
     UFI_exec_opt_frame ci_mask CI_THREAD_RESUME_STRUCT (CI_THREAD_RESUME_FRAME (ucast thread))"

definition ufi_read_run_bit :: "u8 \<Rightarrow> u8 \<Rightarrow> u8 list \<Rightarrow> ('w, u8 list) ufi" where
  "ufi_read_run_bit ci_mask run_bit =
     UFI_exec_8bit_frame ci_mask CI_THREAD_READ_RUN_STRUCT (CI_THREAD_READ_RUN_FRAME (ucast run_bit))"

definition ufi_read_dpu_run :: "u8 \<Rightarrow> u8 list \<Rightarrow> ('w, u8 list) ufi" where
  "ufi_read_dpu_run ci_mask =
     UFI_exec_8bit_frame ci_mask CI_DPU_RUN_STATE_READ_STRUCT CI_DPU_RUN_STATE_READ_FRAME"

definition ufi_read_dpu_fault :: "u8 \<Rightarrow> u8 list \<Rightarrow> ('w, u8 list) ufi" where
  "ufi_read_dpu_fault ci_mask =
     UFI_exec_8bit_frame ci_mask CI_DPU_FAULT_STATE_READ_STRUCT CI_DPU_FAULT_STATE_READ_FRAME"

definition ufi_set_dpu_fault_and_step :: "u8 \<Rightarrow> ('w, unit) ufi" where
  "ufi_set_dpu_fault_and_step ci_mask =
     UFI_exec_void_frame ci_mask CI_DPU_FAULT_STATE_SET_AND_STEP_STRUCT CI_DPU_FAULT_STATE_SET_AND_STEP_FRAME"

definition ufi_set_bkp_fault :: "u8 \<Rightarrow> ('w, unit) ufi" where
  "ufi_set_bkp_fault ci_mask = UFI_exec_void_frame ci_mask CI_BKP_FAULT_SET_STRUCT CI_BKP_FAULT_SET_FRAME"

definition ufi_set_poison_fault :: "u8 \<Rightarrow> ('w, unit) ufi" where
  "ufi_set_poison_fault ci_mask =
     UFI_exec_void_frame ci_mask CI_POISON_FAULT_SET_STRUCT CI_POISON_FAULT_SET_FRAME"

definition ufi_read_bkp_fault :: "u8 \<Rightarrow> u8 list option \<Rightarrow> ('w, u8 list option) ufi" where
  "ufi_read_bkp_fault ci_mask =
     UFI_exec_opt_frame ci_mask CI_BKP_FAULT_READ_STRUCT CI_BKP_FAULT_READ_FRAME"

definition ufi_read_poison_fault :: "u8 \<Rightarrow> u8 list \<Rightarrow> ('w, u8 list) ufi" where
  "ufi_read_poison_fault ci_mask =
     UFI_exec_8bit_frame ci_mask CI_POISON_FAULT_READ_STRUCT CI_POISON_FAULT_READ_FRAME"

definition ufi_read_and_clear_dma_fault :: "u8 \<Rightarrow> u8 list option \<Rightarrow> ('w, u8 list option) ufi" where
  "ufi_read_and_clear_dma_fault ci_mask =
     UFI_exec_opt_frame ci_mask CI_DMA_FAULT_READ_AND_CLR_STRUCT CI_DMA_FAULT_READ_AND_CLR_FRAME"

definition ufi_read_and_clear_mem_fault :: "u8 \<Rightarrow> u8 list option \<Rightarrow> ('w, u8 list option) ufi" where
  "ufi_read_and_clear_mem_fault ci_mask =
     UFI_exec_opt_frame ci_mask CI_MEM_FAULT_READ_AND_CLR_STRUCT CI_MEM_FAULT_READ_AND_CLR_FRAME"

definition ufi_read_bkp_fault_thread_index :: "u8 \<Rightarrow> u8 list \<Rightarrow> ('w, u8 list) ufi" where
  "ufi_read_bkp_fault_thread_index ci_mask =
     UFI_exec_8bit_frame ci_mask CI_BKP_FAULT_THREAD_INDEX_READ_STRUCT CI_BKP_FAULT_THREAD_INDEX_READ_FRAME"

definition ufi_read_dma_fault_thread_index :: "u8 \<Rightarrow> u8 list \<Rightarrow> ('w, u8 list) ufi" where
  "ufi_read_dma_fault_thread_index ci_mask =
     UFI_exec_8bit_frame ci_mask CI_DMA_FAULT_THREAD_INDEX_READ_STRUCT CI_DMA_FAULT_THREAD_INDEX_READ_FRAME"

definition ufi_read_mem_fault_thread_index :: "u8 \<Rightarrow> u8 list \<Rightarrow> ('w, u8 list) ufi" where
  "ufi_read_mem_fault_thread_index ci_mask =
     UFI_exec_8bit_frame ci_mask CI_MEM_FAULT_THREAD_INDEX_READ_STRUCT CI_MEM_FAULT_THREAD_INDEX_READ_FRAME"

section \<open>MRAM multiplexer, debug\<close>

definition ufi_set_mram_mux :: "u8 \<Rightarrow> u8 \<Rightarrow> ('w, unit) ufi" where
  "ufi_set_mram_mux ci_mask ci_mux_pos = (\<lambda>r.
     let mux_value = put_results r ci_mask
           (\<lambda>each_ci. if ci_mux_pos AND bit_of each_ci \<noteq> 0 then 0 else 1) (replicate 8 0)
     in FF (ufi_write_dma_ctrl_datas ci_mask 0x80 mux_value) (\<lambda>_.
        FF (ufi_write_dma_ctrl ci_mask 0x81 0) (\<lambda>_.
        FF (ufi_write_dma_ctrl_datas ci_mask 0x82 mux_value) (\<lambda>_.
        FF (ufi_write_dma_ctrl_datas ci_mask 0x84 mux_value) (\<lambda>_.
        ufi_clear_dma_ctrl ci_mask)))) r)"

definition ufi_debug_replace_stop :: "u8 \<Rightarrow> ('w, unit) ufi" where
  "ufi_debug_replace_stop ci_mask =
     UFI_exec_void_frame ci_mask CI_DEBUG_STD_REPLACE_STOP_ENABLED_STRUCT CI_DEBUG_STD_REPLACE_STOP_ENABLED_FRAME"

definition nr_bits_in_lsb :: "u16 \<Rightarrow> nat" where
  "nr_bits_in_lsb iramsize =
     (if unat iramsize = 2 ^ 12 then 6 else if unat iramsize = 2 ^ 13 then 7 else if unat iramsize = 2 ^ 14 then 7
      else if unat iramsize = 2 ^ 15 then 8 else if unat iramsize = 2 ^ 16 then 8 else 8)"

definition pc_of_bytes :: "nat \<Rightarrow> u8 \<Rightarrow> u8 \<Rightarrow> u16" where
  "pc_of_bytes nr_bits lsb msb = (ucast lsb AND (push_bit nr_bits 1 - 1)) OR push_bit nr_bits (ucast msb)"

definition ufi_debug_pc_read :: "u8 \<Rightarrow> u16 list \<Rightarrow> ('w, u16 list) ufi" where
  "ufi_debug_pc_read ci_mask pcs =
     FF (UFI_exec_8bit_frame ci_mask CI_PC_LSB_READ_STRUCT CI_PC_LSB_READ_FRAME (replicate 8 0)) (\<lambda>lsb.
     FF (UFI_exec_8bit_frame ci_mask CI_PC_MSB_READ_STRUCT CI_PC_MSB_READ_FRAME (replicate 8 0)) (\<lambda>msb r.
     ok (put_results r ci_mask (\<lambda>each_ci. pc_of_bytes (nr_bits_in_lsb (iram_size (r_hw r)))
           (lsb ! each_ci) (msb ! each_ci)) pcs) r))"

definition ufi_debug_pc_sample :: "u8 \<Rightarrow> ('w, unit) ufi" where
  "ufi_debug_pc_sample ci_mask =
     UFI_exec_void_frame ci_mask CI_DEBUG_STD_SAMPLE_PC_STRUCT CI_DEBUG_STD_SAMPLE_PC_FRAME"

end
