(* ===== verification/Ufi_Frame.thy ===== *)
theory Ufi_Frame
  imports Ufi
begin

text \<open>
  What the operations of \<open>Ufi\<close> may change of a rank, as extensions of the contract \<open>ci_exec_frame\<close>:
  \<open>ufi_frame\<close> allows the frame buffer and the structure cache, \<open>ufi_target_frame\<close> the selected
  target, \<open>ufi_group_frame\<close> the groups, and \<open>ufi_host_frame\<close> the host buffers that reads fill.
  Every operation keeps a predicate that satisfies the contract of what it writes.
\<close>

lemma keeps_opt:
  "keeps P m \<Longrightarrow> (\<And>x. keeps P (n x)) \<Longrightarrow> keeps P (case res of None \<Rightarrow> m | Some x \<Rightarrow> n x)"
  by (cases res) simp_all

lemma keeps_let_state: "(\<And>x. keeps P (f x)) \<Longrightarrow> keeps P (\<lambda>r. let x = g r in f x r)"
  by (simp add: keeps_def)

lemma keeps_if_state: "keeps P m \<Longrightarrow> keeps P n \<Longrightarrow> keeps P (\<lambda>r. if b r then m r else n r)"
  by (simp add: keeps_def)

lemma keeps_Pair: "keeps P (Pair x)"
  by (simp add: keeps_def)

lemma keeps_case_prod: "(\<And>x y. keeps P (m x y)) \<Longrightarrow> keeps P (case z of (x, y) \<Rightarrow> m x y)"
  by (cases z) simp

lemma fold_invariant_snd:
  assumes "I r" and "\<And>i a r. i \<in> set is \<Longrightarrow> I r \<Longrightarrow> I (snd (f i (a, r)))"
  shows "I (snd (fold f is (a, r)))"
  using assms
proof (induction "is" arbitrary: a r)
  case (Cons i "is")
  then have "I (snd (f i (a, r)))" by simp
  with Cons.IH [of "snd (f i (a, r))" "fst (f i (a, r))"] Cons.prems(2) show ?case by simp
qed simp

lemma fold_invariant: "I r \<Longrightarrow> (\<And>i r. i \<in> set is \<Longrightarrow> I r \<Longrightarrow> I (f i r)) \<Longrightarrow> I (fold f is r)"
  by (induction "is" arbitrary: r) simp_all

lemma ci_list_lt: "rank_wf r \<Longrightarrow> ci \<in> set (ci_list r m) \<Longrightarrow> ci < 8"
  by (auto simp: ci_list_def dest: CI_MASK_ON_lt)

lemma length_fold_update [simp]: "length (fold (\<lambda>i xs. xs[i := f i]) is xs) = length xs"
  by (induction "is" arbitrary: xs) simp_all

lemma nth_fold_update:
  "j < length xs \<Longrightarrow> fold (\<lambda>i xs. xs[i := f i]) is xs ! j = (if j \<in> set is then f j else xs ! j)"
  by (induction "is" arbitrary: xs) (auto simp: nth_list_update)

locale ufi_frame = ci_exec_frame I for I :: "'w dpu_rank \<Rightarrow> bool" +
  assumes I_cmds: "I r \<Longrightarrow> length c = 8 \<Longrightarrow> I (r\<lparr>r_cmds := c\<rparr>)"
    and I_structure: "I r \<Longrightarrow> ci < 8 \<Longrightarrow> I (set_structure ci s r)"
begin

lemma I_prepare: "I r \<Longrightarrow> I (prepare_cmds m d r)"
  by (simp add: prepare_cmds_def I_cmds)

lemma I_fill: "I r \<Longrightarrow> I (fill_cmds m f r)"
  by (simp add: fill_cmds_def I_cmds rank_wfD(5) I_wf)

lemma I_put_frame: "I r \<Longrightarrow> I (put_frame ci f r)"
  by (simp add: put_frame_def I_cmds rank_wfD(5) I_wf)

lemma keeps_prepare: "keeps I (modify (prepare_cmds m d))"
  by (rule keeps_modify) (rule I_prepare)

lemma keeps_exec_cmds:
  "keeps I exec_cmds_void" "keeps I exec_cmds_wait_mask" "keeps I (exec_cmds_8bit res)"
  "keeps I (exec_cmds_32bit res')"
  unfolding exec_cmds_void_def exec_cmds_wait_mask_def exec_cmds_8bit_def exec_cmds_32bit_def
  by (rule keepsI, erule keepsD [rotated],
      rule keeps_void_cmd keeps_wait_mask_cmd keeps_8bit_cmd keeps_32bit_cmd)+

lemma keeps_write_structure: "keeps I (UFI_exec_write_structure m s)"
proof (rule keepsI)
  fix r assume r: "I r"
  let ?f = "\<lambda>each_ci (do_write, r). if structure_value (r_slice r each_ci) \<noteq> s
    then (True, set_structure each_ci s r) else (do_write, r)"
  have "I (snd (fold ?f (ci_list r m) (False, r)))"
    using r by (rule fold_invariant_snd) (auto simp: I_structure ci_list_lt [OF I_wf [OF r]])
  moreover have "keeps I (FF (modify (prepare_cmds m s)) (\<lambda>_. exec_cmds_void))"
    by (intro keeps_FF keeps_prepare keeps_exec_cmds)
  ultimately show "I (snd (UFI_exec_write_structure m s r))"
    unfolding UFI_exec_write_structure_def by (auto split: prod.splits dest: keepsD)
qed

lemma keeps_write_structures: "keeps I (UFI_exec_write_structures m ss)"
proof (rule keepsI)
  fix r assume r: "I r"
  let ?f = "\<lambda>each_ci (do_write, r). if ss ! each_ci \<noteq> CI_EMPTY \<and> structure_value (r_slice r each_ci) \<noteq> ss ! each_ci
    then (True, set_structure each_ci (ss ! each_ci) r) else (do_write, r)"
  have "I (snd (fold ?f (ci_list r m) (False, r)))"
    using r by (rule fold_invariant_snd) (auto simp: I_structure ci_list_lt [OF I_wf [OF r]])
  then show "I (snd (UFI_exec_write_structures m ss r))"
    unfolding UFI_exec_write_structures_def using keeps_void_cmd [of ss]
    by (auto split: prod.splits dest: keepsD)
qed

lemma keeps_frames:
  "keeps I (UFI_exec_void_frame m s f)" "keeps I (UFI_exec_void_frames m ss)"
  "keeps I (UFI_exec_8bit_frame m s f res)" "keeps I (UFI_exec_32bit_frame m s f res')"
  "keeps I (fill_and_exec m ff)"
  unfolding UFI_exec_void_frame_def UFI_exec_void_frames_def UFI_exec_8bit_frame_def UFI_exec_32bit_frame_def
    fill_and_exec_def
  by (intro keeps_FF keeps_write_structure keeps_write_structures keeps_prepare keeps_exec_cmds
    keeps_modify I_fill; assumption)+

lemma keeps_opt_frame: "keeps I (UFI_exec_opt_frame m s f res)"
  unfolding UFI_exec_opt_frame_def by (intro keeps_opt keeps_FF keeps_frames keeps_ok)

lemmas keeps_exec = keeps_FF keeps_ok keeps_frames keeps_opt_frame keeps_write_structure keeps_exec_cmds
  keeps_prepare

lemma keeps_soft_commands:
  "keeps I (ufi_thermal_config m th)" "keeps I (ufi_bit_config m c res)" "keeps I (ufi_identity m ids)"
proof -
  show "keeps I (ufi_thermal_config m th)"
    unfolding ufi_thermal_config_def by (intro keeps_exec)
  show "keeps I (ufi_bit_config m c res)"
    unfolding ufi_bit_config_def Let_def
    by (rule keepsI, erule keepsD [rotated]) (intro keeps_exec keeps_opt)
  have "keeps I (\<lambda>r. ok (f r) r)" for f by (simp add: keeps_def)
  then show "keeps I (ufi_identity m ids)"
    unfolding ufi_identity_def by (intro keeps_exec)
qed

lemma keeps_byte_order:
  "store_ok store \<Longrightarrow> length res = 8 \<Longrightarrow> keeps I (ufi_byte_order m store res)"
  unfolding ufi_byte_order_def
  by (intro keeps_FF keeps_prepare) (rule keepsI, erule keepsD [rotated], rule keeps_byte_discovery)

lemma keeps_carousel: "keeps I (ufi_carousel_config m c)"
  unfolding ufi_carousel_config_def by (intro keeps_exec)

lemma keeps_clear_faults:
  "keeps I (ufi_clear_debug_replace m)" "keeps I (ufi_clear_fault_poison m)" "keeps I (ufi_clear_fault_bkp m)"
  "keeps I (ufi_clear_fault_dma m)" "keeps I (ufi_clear_fault_mem m)" "keeps I (ufi_clear_fault_dpu m)"
  "keeps I (ufi_clear_fault_intercept m)" "keeps I (ufi_clear_run_bit m b p)" "keeps I (ufi_clear_dma_ctrl m)"
  unfolding ufi_clear_debug_replace_def ufi_clear_fault_poison_def ufi_clear_fault_bkp_def ufi_clear_fault_dma_def
    ufi_clear_fault_mem_def ufi_clear_fault_dpu_def ufi_clear_fault_intercept_def ufi_clear_run_bit_def
    ufi_clear_dma_ctrl_def
  by (rule keeps_exec)+

lemma keeps_repair: "keeps I (ufi_iram_repair_config m c)" "keeps I (ufi_wram_repair_config m b c)"
  unfolding ufi_iram_repair_config_def ufi_wram_repair_config_def
  by (intro keeps_exec keeps_clear_faults)+

lemma keeps_pc_mode: "keeps I (ufi_get_pc_mode m res)" "keeps I (ufi_set_pc_mode m res)"
proof -
  have "keeps I (\<lambda>r. ok (f r) r)" for f by (simp add: keeps_def)
  then show "keeps I (ufi_get_pc_mode m res)" unfolding ufi_get_pc_mode_def by (intro keeps_exec)
  show "keeps I (ufi_set_pc_mode m res)" unfolding ufi_set_pc_mode_def by (intro keeps_exec)
qed

lemma keeps_stack_direction: "keeps I (ufi_set_stack_direction m d p)"
  unfolding ufi_set_stack_direction_def by (intro keeps_exec keeps_opt keeps_modify I_fill)

lemma keeps_dma_ctrl:
  "keeps I (ufi_write_dma_ctrl m a d)" "keeps I (ufi_write_dma_ctrl_datas m a ds)" "keeps I (ufi_read_dma_ctrl m res)"
  unfolding ufi_write_dma_ctrl_def ufi_write_dma_ctrl_datas_def ufi_read_dma_ctrl_def by (intro keeps_exec)+

lemma keeps_memory_write: "keeps I (ufi_iram_write m src off len)" "keeps I (ufi_wram_write m src' off len)"
  unfolding ufi_iram_write_def ufi_wram_write_def Let_def
  by (intro keeps_mfor keeps_exec keeps_modify I_fill; assumption)+

lemma keeps_threads:
  "keeps I (ufi_thread_boot m th p)" "keeps I (ufi_thread_resume m th p)" "keeps I (ufi_read_run_bit m b res)"
  "keeps I (ufi_read_dpu_run m res)" "keeps I (ufi_read_dpu_fault m res)" "keeps I (ufi_set_dpu_fault_and_step m)"
  "keeps I (ufi_set_bkp_fault m)" "keeps I (ufi_set_poison_fault m)" "keeps I (ufi_read_bkp_fault m p)"
  "keeps I (ufi_read_poison_fault m res)" "keeps I (ufi_read_and_clear_dma_fault m p)"
  "keeps I (ufi_read_and_clear_mem_fault m p)" "keeps I (ufi_read_bkp_fault_thread_index m res)"
  "keeps I (ufi_read_dma_fault_thread_index m res)" "keeps I (ufi_read_mem_fault_thread_index m res)"
  "keeps I (ufi_debug_replace_stop m)" "keeps I (ufi_debug_pc_sample m)"
  unfolding ufi_thread_boot_def ufi_thread_resume_def ufi_read_run_bit_def ufi_read_dpu_run_def
    ufi_read_dpu_fault_def ufi_set_dpu_fault_and_step_def ufi_set_bkp_fault_def ufi_set_poison_fault_def
    ufi_read_bkp_fault_def ufi_read_poison_fault_def ufi_read_and_clear_dma_fault_def
    ufi_read_and_clear_mem_fault_def ufi_read_bkp_fault_thread_index_def ufi_read_dma_fault_thread_index_def
    ufi_read_mem_fault_thread_index_def ufi_debug_replace_stop_def ufi_debug_pc_sample_def
  by (rule keeps_exec)+

lemma keeps_mram_mux: "keeps I (ufi_set_mram_mux m pos)"
  unfolding ufi_set_mram_mux_def Let_def
  by (rule keepsI, erule keepsD [rotated]) (intro keeps_FF keeps_dma_ctrl keeps_clear_faults)

lemma keeps_pc_read: "keeps I (ufi_debug_pc_read m pcs)"
proof -
  have "keeps I (\<lambda>r. ok (f r) r)" for f by (simp add: keeps_def)
  then show ?thesis unfolding ufi_debug_pc_read_def by (intro keeps_exec)
qed

lemma keeps_select_cis: "keeps I (ufi_select_cis m)"
  by (simp add: ufi_select_cis_def keeps_def)

lemmas keeps_ufi = keeps_soft_commands keeps_carousel keeps_clear_faults keeps_repair keeps_pc_mode
  keeps_stack_direction keeps_dma_ctrl keeps_memory_write keeps_threads keeps_mram_mux keeps_pc_read keeps_select_cis

end

section \<open>Operations that select\<close>

locale ufi_target_frame = ufi_frame I for I :: "'w dpu_rank \<Rightarrow> bool" +
  assumes I_target: "I r \<Longrightarrow> ci < 8 \<Longrightarrow> I (upd_slice ci (\<lambda>i. i\<lparr>slice_target := t\<rparr>) r)"
begin

lemma I_set_target: "I r \<Longrightarrow> ci < 8 \<Longrightarrow> I (set_target ty k ci r)"
  by (simp add: set_target_def I_target)

lemma I_set_target_all: "I r \<Longrightarrow> ci < 8 \<Longrightarrow> I (set_target_all ci r)"
  using I_target [of r ci "(slice_target (r_slice r ci))\<lparr>target_type := DPU_SLICE_TARGET_ALL\<rparr>"]
  by (simp add: set_target_all_def upd_slice_def)

lemma keeps_select_frame: "keeps I (select_frame d m s f)" "keeps I (select_frames d m ss)"
  unfolding select_frame_def select_frames_def by (intro keeps_exec keeps_if)+

lemma I_select_loop: "I r \<Longrightarrow> I (snd (snd (select_loop sel ty k m r)))"
proof -
  assume r: "I r"
  have "I (snd (snd (fold (select_step sel ty k) cis (m0, d0, r))))"
    if "\<forall>ci \<in> set cis. ci < 8" "I r" for cis m0 d0 and r :: "'w dpu_rank"
    using that
  proof (induction cis arbitrary: m0 d0 r)
    case (Cons ci cis)
    obtain m1 d1 r1 where st: "select_step sel ty k ci (m0, d0, r) = (m1, d1, r1)" by (metis prod_cases3)
    with Cons.prems have "I r1" by (auto simp: select_step_def Let_def I_set_target split: if_splits)
    with Cons st show ?case by simp
  qed simp
  then show ?thesis unfolding select_loop_def using r ci_list_lt [OF I_wf [OF r]] by blast
qed

lemma keeps_select_loop:
  "keeps I (\<lambda>r. case select_loop sel ty k m r of (sm, d, r') \<Rightarrow> select_frame d sm s f r')"
proof (rule keepsI)
  fix r assume r: "I r"
  obtain sm d r' where l: "select_loop sel ty k m r = (sm, d, r')" by (metis prod_cases3)
  with I_select_loop [OF r, of sel ty k m] have "I r'" by simp
  with l show "I (snd (case select_loop sel ty k m r of (sm, d, r') \<Rightarrow> select_frame d sm s f r'))"
    by (simp add: keepsD [OF keeps_select_frame(1)])
qed

lemma keeps_select_dpus:
  "keeps I (ufi_select_group m g)" "keeps I (ufi_select_dpu m d)" "keeps I (ufi_select_dpu_even_disabled m d)"
  unfolding ufi_select_group_def ufi_select_dpu_def ufi_select_dpu_even_disabled_def
  by (rule keeps_select_loop)+

lemma I_select_all_fold:
  assumes "\<And>ci m d ss r. I r \<Longrightarrow> ci < 8 \<Longrightarrow> I (snd (snd (snd (step ci (m, d, ss, r)))))"
    and "\<forall>ci \<in> set cis. ci < 8" and "I r"
  shows "I (snd (snd (snd (fold step cis (m, d, ss, r)))))"
  using assms(2,3)
proof (induction cis arbitrary: m d ss r)
  case (Cons ci cis)
  obtain m1 d1 s1 r1 where st: "step ci (m, d, ss, r) = (m1, d1, s1, r1)" by (metis prod_cases4)
  with assms(1) [of r ci m d ss] Cons.prems have "I r1" by simp
  with Cons st show ?case by simp
qed simp

lemma keeps_select_fold:
  assumes "\<And>ci m d ss r. I r \<Longrightarrow> ci < 8 \<Longrightarrow> I (snd (snd (snd (step ci (m, d, ss, r)))))"
  shows "keeps I (\<lambda>r. case fold step (ci_list r m) (m, d0, ss0, r) of (sm, d, ss, r') \<Rightarrow> select_frames d sm ss r')"
proof (rule keepsI)
  fix r assume r: "I r"
  obtain sm d ss r' where l: "fold step (ci_list r m) (m, d0, ss0, r) = (sm, d, ss, r')" by (metis prod_cases4)
  have "\<forall>ci \<in> set (ci_list r m). ci < 8" using ci_list_lt [OF I_wf [OF r]] by blast
  with I_select_all_fold [of step, OF assms _ r, of "ci_list r m" m d0 ss0] l have "I r'" by simp
  with l show "I (snd (case fold step (ci_list r m) (m, d0, ss0, r) of (sm, d, ss, r') \<Rightarrow> select_frames d sm ss r'))"
    by (simp add: keepsD [OF keeps_select_frame(2)])
qed

lemma keeps_select_all: "keeps I (ufi_select_all m)" "keeps I (ufi_select_all_even_disabled m)"
proof -
  have 1: "I (snd (snd (snd (select_all_step ci (m, d, ss, r)))))" if "I r" "ci < 8" for ci m d ss r
    using that by (auto simp: select_all_step_def Let_def I_set_target I_set_target_all I_put_frame)
  have 2: "I (snd (snd (snd (select_all_even_disabled_step ci (m, d, ss, r)))))" if "I r" "ci < 8" for ci m d ss r
    using that by (auto simp: select_all_even_disabled_step_def Let_def I_set_target_all I_put_frame)
  show "keeps I (ufi_select_all m)"
    unfolding ufi_select_all_def by (rule keeps_select_fold) (rule 1)
  show "keeps I (ufi_select_all_even_disabled m)"
    unfolding ufi_select_all_even_disabled_def by (rule keeps_select_fold) (rule 2)
qed

lemma keeps_select_uncached:
  "keeps I (ufi_select_all_uncached m)" "keeps I (ufi_select_group_uncached m g)" "keeps I (ufi_select_dpu_uncached m d)"
proof -
  have *: "keeps I (\<lambda>r. FF (modify (fold f (ci_list r m))) (\<lambda>_. UFI_exec_void_frame m s fr) r)"
    if f: "\<And>ci r. I r \<Longrightarrow> ci < 8 \<Longrightarrow> I (f ci r)" for f s fr
  proof (rule keepsI)
    fix r assume r: "I r"
    then have "I (fold f (ci_list r m) r)"
      by (rule fold_invariant) (erule f, erule ci_list_lt [OF I_wf [OF r]])
    then show "I (snd (FF (modify (fold f (ci_list r m))) (\<lambda>_. UFI_exec_void_frame m s fr) r))"
      by (simp only: FF_modify) (rule keepsD [OF keeps_frames(1)])
  qed
  show "keeps I (ufi_select_all_uncached m)"
    unfolding ufi_select_all_uncached_def by (rule * [of set_target_all, OF I_set_target_all])
  show "keeps I (ufi_select_group_uncached m g)"
    unfolding ufi_select_group_uncached_def
    by (rule * [of "set_target DPU_SLICE_TARGET_GROUP g", OF I_set_target])
  show "keeps I (ufi_select_dpu_uncached m d)"
    unfolding ufi_select_dpu_uncached_def
    by (rule * [of "set_target DPU_SLICE_TARGET_DPU d", OF I_set_target])
qed

lemmas keeps_select = keeps_select_dpus keeps_select_all keeps_select_uncached

end

section \<open>Operations that write groups, reset, or fill host buffers\<close>

lemma keeps_conj: "keeps P m \<Longrightarrow> keeps Q m \<Longrightarrow> keeps (\<lambda>s. P s \<and> Q s) m"
  by (simp add: keeps_def)

interpretation hw: ci_exec_frame "\<lambda>r. rank_wf r \<and> r_hw r = H" for H
  by unfold_locales (auto simp: rank_wf_ctx wf.I_update wf.I_commit wf.I_data wf.I_ring)

locale ufi_group_frame = ufi_target_frame I for I :: "'w dpu_rank \<Rightarrow> bool" +
  assumes I_move: "I r \<Longrightarrow> ci < 8 \<Longrightarrow> g < 8 \<Longrightarrow> I (upd_slice ci (move_to_group g m) r)"
    and I_reset: "I r \<Longrightarrow> ci < 8 \<Longrightarrow> I (upd_slice ci (reset_slice (nr_dpus r)) r)"
begin

lemma keeps_write_group: assumes "g < 8" shows "keeps I (ufi_write_group m g)"
proof (rule keepsI)
  fix r assume r: "I r"
  let ?f = "\<lambda>each_ci (_ :: unit). FF (ci_fill_selected_dpu_mask each_ci) (\<lambda>dm. modify (upd_slice each_ci (move_to_group g dm)))"
  have "keeps I (mfor (ci_list r m) ?f ())"
    using ci_list_lt [OF I_wf [OF r]] assms
    by (intro keeps_mfor_on keeps_FF keeps_snd_id keeps_modify I_move fill_selected_state) blast+
  then have "keeps I (FF (mfor (ci_list r m) ?f ()) (\<lambda>_. UFI_exec_void_frame m CI_WRITE_GROUP_STRUCT
      (CI_WRITE_GROUP_FRAME (of_nat g))))"
    by (intro keeps_FF keeps_frames)
  with r show "I (snd (ufi_write_group m g r))" unfolding ufi_write_group_def by (rule keepsD [rotated])
qed

lemma I_reset_context:
  "I r \<Longrightarrow> I (upd_ctx (\<lambda>c. c\<lparr>color := color c AND m, fault_collide := fault_collide c AND m,
     fault_decode := fault_decode c AND m\<rparr>) r)"
proof -
  assume r: "I r"
  have "I (r\<lparr>r_ci := (r_ci r)\<lparr>fault_decode := fault_decode (r_ci r) AND m,
      fault_collide := fault_collide (r_ci r) AND m, color := color (r_ci r) AND m\<rparr>\<rparr>)"
    using I_color [where col = "color (r_ci r) AND m", OF I_faults [where fd = "fault_decode (r_ci r) AND m"
      and fc = "fault_collide (r_ci r) AND m", OF r]] by simp
  moreover have "(r_ci r)\<lparr>fault_decode := fault_decode (r_ci r) AND m,
      fault_collide := fault_collide (r_ci r) AND m, color := color (r_ci r) AND m\<rparr>
    = (r_ci r)\<lparr>color := color (r_ci r) AND m, fault_collide := fault_collide (r_ci r) AND m,
      fault_decode := fault_decode (r_ci r) AND m\<rparr>" by simp
  ultimately show ?thesis by (simp add: upd_ctx_def)
qed

lemma keeps_reset_cmd: "keeps I (ci_exec_reset_cmd c)"
proof (rule keepsI)
  fix r assume r: "I r"
  define H where "H = r_hw r"
  let ?J = "\<lambda>s. I s \<and> (rank_wf s \<and> r_hw s = H)"
  let ?groups = "reset_slices (nr_dpus r)"
  have slices: "keeps ?J (modify ?groups)"
  proof (rule keeps_modify)
    fix s assume "?J s"
    then show "?J (?groups s)" unfolding reset_slices_def
    proof (rule fold_invariant [where I = ?J])
      fix ci s assume "ci \<in> set [0..<8 :: nat]" "?J s"
      then have "I (upd_slice ci (reset_slice (nr_dpus s)) s)" by (intro I_reset) auto
      with \<open>?J s\<close> I_wf show "?J (upd_slice ci (reset_slice (nr_dpus r)) s)" by (auto simp: H_def)
    qed
  qed
  have 1: "keeps ?J (modify (invert_color m))" for m
    using I_invert_color hw.I_invert_color by (intro keeps_conj keeps_modify) blast+
  have 2: "keeps ?J (ci_commit_commands c)"
    by (intro keeps_conj keeps_commit hw.keeps_commit)
  have 3: "keeps ?J (mfor xs (\<lambda>_ data. ci_update_commands store_local data) (replicate 8 0))" for xs :: "nat list"
    by (intro keeps_conj keeps_poll_local hw.keeps_poll_local) simp_all
  have 4: "keeps ?J (modify (upd_ctx (\<lambda>c. c\<lparr>color := color c AND m, fault_collide := fault_collide c AND m,
     fault_decode := fault_decode c AND m\<rparr>)))" for m
  proof (rule keeps_modify)
    fix s assume s: "?J s"
    then have "I (upd_ctx (\<lambda>c. c\<lparr>color := color c AND m, fault_collide := fault_collide c AND m,
     fault_decode := fault_decode c AND m\<rparr>) s)" by (intro I_reset_context) blast
    with s I_wf show "?J (upd_ctx (\<lambda>c. c\<lparr>color := color c AND m, fault_collide := fault_collide c AND m,
     fault_decode := fault_decode c AND m\<rparr>) s)" by (auto simp: upd_ctx_def)
  qed
  have "?J r" using r I_wf by (simp add: H_def)
  then have "?J (snd (ci_exec_reset_cmd c r))"
    unfolding ci_exec_reset_cmd_def Let_def
    by (rule keepsD [rotated]) (intro keeps_FF slices 1 2 3 4)
  then show "I (snd (ci_exec_reset_cmd c r))" by blast
qed

lemma keeps_soft_reset: "keeps I (ufi_soft_reset m f c)"
  unfolding ufi_soft_reset_def
  by (intro keeps_FF keeps_prepare) (rule keepsI, erule keepsD [OF keeps_reset_cmd])

lemmas keeps_groups = keeps_write_group keeps_soft_reset

end

locale ufi_host_frame = ufi_frame I for I :: "'w dpu_rank \<Rightarrow> bool" +
  assumes I_words: "I r \<Longrightarrow> I (store_word p i x r)"
    and I_instrs: "I r \<Longrightarrow> I (store_instr p i f r)"
begin

lemma keeps_iram_read_byte: "keeps I (iram_read_byte m dst s f i put bs)"
proof -
  have "keeps I (modify (fold (\<lambda>ci. store_instr (dst ci) i (put (x ! ci))) cis))" for x and cis :: "nat list"
    by (rule keeps_modify, erule fold_invariant) (rule I_instrs)
  then have "keeps I (\<lambda>r. FF (modify (fold (\<lambda>ci. store_instr (dst ci) i (put (x ! ci))) (ci_list r m)))
      (\<lambda>_. ok x) r)" for x
    by (auto simp: keeps_def)
  then show ?thesis unfolding iram_read_byte_def by (intro keeps_FF keeps_frames)
qed

lemma keeps_memory_read: "keeps I (ufi_iram_read m dst off len)" "keeps I (ufi_wram_read m dst off len)"
proof -
  show "keeps I (ufi_iram_read m dst off len)"
    unfolding ufi_iram_read_def Let_def by (intro keeps_FF keeps_mfor keeps_iram_read_byte keeps_ok)
  have "keeps I (modify (fold (\<lambda>ci. store_word (dst ci) i (x ! ci)) cis))" for x i and cis :: "nat list"
    by (rule keeps_modify, erule fold_invariant) (rule I_words)
  then have "keeps I (\<lambda>r. FF (modify (fold (\<lambda>ci. store_word (dst ci) i (x ! ci)) (ci_list r m)))
      (\<lambda>_. ok x) r)" for x i
    by (auto simp: keeps_def)
  then show "keeps I (ufi_wram_read m dst off len)"
    unfolding ufi_wram_read_def by (intro keeps_FF keeps_mfor keeps_frames keeps_ok)
qed

end

section \<open>Well-formedness, and the part no frame operation touches\<close>

lemma length_dpus_per_group_updates [simp]:
  "length (dpus_per_group (reset_slice n s)) = 8"
  "length (dpus_per_group (move_to_group g m s)) = length (dpus_per_group s)"
  by (simp_all add: reset_slice_def move_to_group_def Let_def)

lemma rank_wf_reset_slice: "rank_wf r \<Longrightarrow> rank_wf (upd_slice ci (reset_slice n) r)"
  by (auto simp: rank_wf_def r_slice_upd_slice)

interpretation wf: ufi_group_frame rank_wf
  by unfold_locales
     (simp_all add: set_structure_def rank_wf_upd_slice rank_wf_reset_slice, simp_all add: rank_wf_def)

interpretation wf: ufi_host_frame rank_wf
  by unfold_locales (simp_all add: store_word_def store_instr_def rank_wf_def)

text \<open>
  \<open>fixed_part\<close> is what the frame interface never writes: the description of the module, its
  configuration and backend, the DPUs, the run context, and in every CI the byte order, the
  multiplexer state and the sets of enabled DPUs.
\<close>

definition fixed_slice :: "dpu_configuration_slice_info \<Rightarrow> u64 \<times> u8 \<times> u32 \<times> bool" where
  "fixed_slice s = (byte_order s, host_mux_mram_state s, enabled_dpus s, all_dpus_are_enabled s)"

definition same_fixed :: "'w dpu_rank \<Rightarrow> 'w dpu_rank \<Rightarrow> bool" where
  "same_fixed r r' \<longleftrightarrow>
     r_hw r' = r_hw r \<and> r_type r' = r_type r \<and> r_configuration r' = r_configuration r
     \<and> r_run_context r' = r_run_context r \<and> r_dpus r' = r_dpus r
     \<and> r_nr_dpus_enabled r' = r_nr_dpus_enabled r \<and> r_handler r' = r_handler r \<and> r_debug r' = r_debug r
     \<and> map fixed_slice (slice_info (r_ci r')) = map fixed_slice (slice_info (r_ci r))"

lemma same_fixed_refl [simp]: "same_fixed r r"
  by (simp add: same_fixed_def)

lemma map_fixed_slice_update:
  "fixed_slice (f s) = fixed_slice (xs ! i) \<Longrightarrow> s = xs ! i \<Longrightarrow> map fixed_slice (xs[i := f s]) = map fixed_slice xs"
  by (metis list_update_id map_update)

lemma same_fixed_upd_slice:
  "same_fixed r s \<Longrightarrow> (\<And>i. fixed_slice (f i) = fixed_slice i) \<Longrightarrow> same_fixed r (upd_slice ci f s)"
  by (simp add: same_fixed_def upd_slice_def map_fixed_slice_update)

lemma fixed_slice_updates [simp]:
  "fixed_slice (s\<lparr>structure_value := x\<rparr>) = fixed_slice s" "fixed_slice (s\<lparr>slice_target := t\<rparr>) = fixed_slice s"
  "fixed_slice (move_to_group g m s) = fixed_slice s" "fixed_slice (reset_slice n s) = fixed_slice s"
  by (simp_all add: fixed_slice_def move_to_group_def reset_slice_def Let_def)

interpretation fixed: ufi_group_frame "\<lambda>r. rank_wf r \<and> same_fixed r0 r" for r0
  by unfold_locales
     (simp_all add: rank_wf_ctx wf.I_update wf.I_commit wf.I_data wf.I_ring wf.I_cmds wf.I_structure wf.I_target wf.I_move
        wf.I_reset set_structure_def same_fixed_upd_slice rank_wf_upd_slice, simp_all add: same_fixed_def)

interpretation fixed: ufi_host_frame "\<lambda>r. rank_wf r \<and> same_fixed r0 r" for r0
  by unfold_locales
     (simp_all add: wf.I_words wf.I_instrs, simp_all add: same_fixed_def store_word_def store_instr_def)

end
