(* ===== verification/Sample_Rank.thy ===== *)
theory Sample_Rank
  imports Rank_State
begin

text \<open>
  A small concrete rank, on which the theorems with hypotheses are instantiated: two control
  interfaces of eight DPUs each, all enabled, behind a backend whose world is the array of results
  it shows at every poll and that accepts everything.
\<close>

definition sample_handler :: "u64 list dpu_rank_handler" where
  "sample_handler = \<lparr>
     commit_commands = (\<lambda>_ w. (DPU_RANK_SUCCESS, w)),
     update_commands = (\<lambda>b w. (DPU_RANK_SUCCESS, take (length b) (w @ replicate (length b) 0), w)),
     copy_to_rank = (\<lambda>_ w. (DPU_RANK_SUCCESS, w)),
     copy_from_rank = (\<lambda>_ w. (DPU_RANK_SUCCESS, w)),
     custom_operation = (\<lambda>_ _ w. (DPU_RANK_SUCCESS, w))\<rparr>"

definition sample_hw :: dpu_hw_description where
  "sample_hw = \<lparr>
     chip_id = 0x42,
     carousel = \<lparr>cmd_duration = 2, cmd_sampling = 1, res_duration = 2, res_sampling = 1\<rparr>,
     fck_frequency_in_mhz = 350, reset_wait_duration = 20, std_temperature = 1, clock_division = 2,
     nr_of_control_interfaces = 2, nr_of_dpus_per_control_interface = 8, iram_size = 4096,
     pcb_transformation = \<lparr>cpu2dpu = 0xE4E4, dpu2cpu = 0xE4E4, nibble_swap = 0, stutter = 0\<rparr>,
     nr_of_threads = 24, nr_of_notify_bits = 40,
     nr_of_atomic_bits = 256, nr_of_work_registers_per_thread = 24\<rparr>"

definition sample_slice :: dpu_configuration_slice_info where
  "sample_slice = \<lparr>
     byte_order = 0x000103FF0F8FCFEF, structure_value = 0,
     slice_target = \<lparr>target_type = DPU_SLICE_TARGET_NONE, target_id = 0\<rparr>,
     host_mux_mram_state = 0xFF, dpus_per_group = 0xFF # replicate 7 0,
     enabled_dpus = 0xFF, all_dpus_are_enabled = True\<rparr>"

definition sample_dpu :: dpu where
  "sample_dpu = \<lparr>
     dpu_enabled = True,
     iram_repair = \<lparr>corrupted_addresses = replicate 4 \<lparr>mra_address = 0, mra_faulty_bits = 0\<rparr>,
                    nr_of_corrupted_addresses = 0, fail_to_repair = False\<rparr>,
     wram_repair = replicate 4 \<lparr>corrupted_addresses = replicate 4 \<lparr>mra_address = 0, mra_faulty_bits = 0\<rparr>,
                    nr_of_corrupted_addresses = 0, fail_to_repair = False\<rparr>,
     program_symbols = None\<rparr>"

definition sample_rank :: "u64 list \<Rightarrow> u64 list dpu_rank" where
  "sample_rank w = \<lparr>
     r_type = HW, r_hw = sample_hw,
     r_configuration = \<lparr>api_must_switch_mram_mux = True, init_mram_mux = True, do_iram_repair = False,
       do_wram_repair = False, enable_cycle_accurate_behavior = False, disable_api_safe_checks = False,
       ila_control_refresh = False\<rparr>,
     r_ci = \<lparr>fault_decode = 0, fault_collide = 0, color = 0, slice_info = replicate 8 sample_slice\<rparr>,
     r_run_context = \<lparr>dpu_running = replicate 8 0, dpu_in_fault = replicate 8 0, nb_dpu_running = 0\<rparr>,
     r_dpus = replicate 16 sample_dpu, r_nr_dpus_enabled = 16,
     r_cmds = replicate 8 0, r_data = replicate 8 0,
     r_cmds_buffer = \<lparr>cb_cmds = [], cb_size = 0, cb_nb = 0, cb_idx_last = 0, cb_has_wrapped = False\<rparr>,
     r_debug = \<lparr>debug_color = 0, debug_result = replicate 8 0, debug_slice_info = replicate 8 sample_slice\<rparr>,
     r_logd = False, r_handler = sample_handler, r_world = w,
     host_words = (\<lambda>_ _. 0), host_instrs = (\<lambda>_ _. 0)\<rparr>"

lemma sample_rank_wf: "rank_wf (sample_rank w)"
  by (auto simp: rank_wf_def sample_rank_def sample_hw_def sample_slice_def handler_ok_def sample_handler_def)

lemma sample_rank_simps:
  "r_handler (sample_rank w) = sample_handler" "r_data (sample_rank w) = replicate 8 0"
  "r_world (sample_rank w) = w" "nr_cis (sample_rank w) = 2" "nr_dpus (sample_rank w) = 8"
  "commit_commands sample_handler c w = (DPU_RANK_SUCCESS, w)" "color (r_ci (sample_rank w)) = 0"
  "ci < 8 \<Longrightarrow> r_slice (sample_rank w) ci = sample_slice" "r_slice (sample_rank w) 0 = sample_slice"
  by (simp_all add: sample_rank_def sample_handler_def sample_hw_def)

text \<open>The answer of a CI to a command sent while its color bit is clear (\<open>False\<close>) or set.\<close>

definition sample_answer :: "bool \<Rightarrow> u64" where
  "sample_answer c = (if c then 0x00FF00FF00000000 else 0x000000FF00000000)"

end
