(* ===== verification/Ci_Protocol.thy ===== *)
theory Ci_Protocol
  imports Ufi_Frame Sample_Rank
begin

text \<open>
  Properties of the control interface protocol of \<open>Ufi_Ci\<close>: what a result must look like to be
  accepted, which color bits a command flips, how many polls a command takes at most, what a reset
  leaves behind.
\<close>

section \<open>Results are decoded by the distance of their color byte\<close>

lemma popcount_not: "popcount (NOT w :: 'a::len word) = LENGTH('a) - popcount w"
proof -
  have "filter (bit (NOT w)) [0..<LENGTH('a)] = filter (\<lambda>n. \<not> bit w n) [0..<LENGTH('a)]"
    by (rule filter_cong) (auto simp: bit_not_iff)
  then have "popcount (NOT w) + popcount w = LENGTH('a)"
    using sum_length_filter_compl [of "bit w" "[0..<LENGTH('a)]"] by (simp add: popcount_def)
  then show ?thesis by simp
qed

definition expected_color_byte :: "bool \<Rightarrow> u8" where
  "expected_color_byte b = (if b then 0xFF else 0)"

definition color_distance :: "u64 \<Rightarrow> bool \<Rightarrow> nat" where
  "color_distance result ci_color = popcount (result_color result XOR expected_color_byte ci_color)"

lemma color_distance_eq:
  "color_distance x True = 8 - popcount (result_color x)" "color_distance x False = popcount (result_color x)"
proof -
  have "c XOR 0xFF = NOT c" for c :: u8
    by (rule bit_word_eqI, subst bit_xor_iff, subst bit_255_iff) (simp add: bit_not_iff)
  then show "color_distance x True = 8 - popcount (result_color x)"
    by (simp add: color_distance_def expected_color_byte_def popcount_not)
  show "color_distance x False = popcount (result_color x)"
    by (simp add: color_distance_def expected_color_byte_def)
qed

definition result_present :: "u64 \<Rightarrow> u64 \<Rightarrow> u64 \<Rightarrow> bool" where
  "result_present result expected result_mask \<longleftrightarrow>
     result AND result_mask = expected \<or> result AND CI_NOP = CI_NOP"

lemma check_ci_eq:
  "check_ci result expected result_mask ci_color =
     (let d = color_distance result ci_color
      in if result_present result expected result_mask \<and> d \<le> 4
         then (d \<le> 3, True, d = 1 \<or> d = 3, d = 2 \<or> d = 3)
         else (False, False, False, False))"
proof -
  have le: "popcount (result_color result) \<le> 8" using popcount_le [of "result_color result"] by simp
  show ?thesis
  proof (cases ci_color)
    case True
    with le show ?thesis
      by (auto simp: check_ci_def color_distance_eq result_present_def Let_def)
  next
    case False
    with le show ?thesis
      by (auto simp: check_ci_def color_distance_eq result_present_def Let_def)
  qed
qed

text \<open>
  C7: A polled result is judged by the Hamming distance \<open>d\<close> between its color byte and the byte of
  the expected color (all ones or all zeros). The CI is accepted exactly when the answer is there
  and \<open>d \<le> 3\<close>; then a decoding error is recorded iff \<open>d\<close> is odd and a collision iff \<open>d \<ge> 2\<close>.
  At \<open>d = 4\<close> the CI is rejected, but its done flag is set.
\<close>

theorem check_ci_by_color_distance:
  "check_ci result expected result_mask ci_color =
     (let d = color_distance result ci_color
      in if result_present result expected result_mask \<and> d \<le> 4
         then (d \<le> 3, True, d = 1 \<or> d = 3, d = 2 \<or> d = 3)
         else (False, False, False, False))"
  by (rule check_ci_eq)

section \<open>Color bits\<close>

interpretation color: ci_send_frame "\<lambda>r. rank_wf r \<and> color (r_ci r) = c" for c
  by unfold_locales (auto simp: rank_wf_ctx wf.I_update wf.I_commit wf.I_data wf.I_ring)

lemma exec_cmd_color:
  assumes wf: "rank_wf r" and run: "compute_masks commands sel r = (Ret m, r)"
  shows "color (r_ci (snd (exec_cmd commands sel r))) = color (r_ci r) XOR ms_cis m"
proof -
  let ?P = "\<lambda>s. rank_wf s \<and> color (r_ci s) = color (r_ci r) XOR ms_cis m"
  have "keeps ?P (FF (ci_commit_commands commands) (\<lambda>_.
      FF (exec_wait NB_RETRY_FOR_VALID_RESULT m ec (ms_is_done m)) (\<lambda>_ r. if \<not> is_chip_v1_4 r
      then FF (ci_update_commands store_data (r_data r)) (\<lambda>_. ok ()) r else ok () r)))" for ec
    by (intro keeps_FF color.keeps_commit color.keeps_exec_wait color.keeps_reread)
  moreover have "?P (invert_color (ms_cis m) r)"
    using wf wf.I_invert_color by (simp add: invert_color_def upd_ctx_def)
  ultimately have "?P (snd (FF (ci_commit_commands commands) (\<lambda>_.
      FF (exec_wait NB_RETRY_FOR_VALID_RESULT m ec (ms_is_done m)) (\<lambda>_ r. if \<not> is_chip_v1_4 r
      then FF (ci_update_commands store_data (r_data r)) (\<lambda>_. ok ()) r else ok () r))
      (invert_color (ms_cis m) r)))" for ec by (rule keepsD)
  then show ?thesis
    unfolding exec_cmd_def Let_def FF_def [of "compute_masks commands sel"] run by simp
qed

text \<open>
  C8: A command flips the expected color of exactly the CIs it addresses, those whose entry is not
  \<open>CI_EMPTY\<close>, whatever its outcome: a timeout or a driver error leaves the colors flipped.
\<close>

theorem exec_void_cmd_color:
  assumes "rank_wf r"
  shows "color (r_ci (snd (ci_exec_void_cmd commands r))) = color (r_ci r) XOR compute_ci_mask (nr_cis r) commands"
  using exec_cmd_color [OF assms compute_masks_no_select]
  by (simp add: ci_exec_void_cmd_def ms_cis_masks_of)

theorem exec_void_cmd_color_witness:
  "color (r_ci (snd (ci_exec_void_cmd [CI_IDENTITY, CI_EMPTY] (sample_rank [])))) =
     color (r_ci (sample_rank [])) XOR 1"
proof -
  have "compute_ci_mask (nr_cis (sample_rank [])) [CI_IDENTITY, CI_EMPTY] = 1"
    by (simp add: compute_ci_mask_def sample_rank_def sample_hw_def upt_rec CI_IDENTITY_def CI_EMPTY_def bit_of_def)
  with exec_void_cmd_color [OF sample_rank_wf, of "[CI_IDENTITY, CI_EMPTY]" "[]"] show ?thesis by simp
qed

section \<open>How many polls a command takes\<close>

text \<open>\<open>polls h k d w\<close> is what the \<open>k\<close>-th poll of the backend returns, each poll given the data of the one before.\<close>

fun polls :: "'w dpu_rank_handler \<Rightarrow> nat \<Rightarrow> u64 list \<Rightarrow> 'w \<Rightarrow> dpu_rank_status \<times> u64 list \<times> 'w" where
  "polls h 0 d w = update_commands h d w"
| "polls h (Suc k) d w = (case update_commands h d w of (st, d', w') \<Rightarrow> polls h k d' w')"

definition poll_status :: "'w dpu_rank_handler \<Rightarrow> nat \<Rightarrow> u64 list \<Rightarrow> 'w \<Rightarrow> dpu_rank_status" where
  "poll_status h k d w = fst (polls h k d w)"

definition poll_data :: "'w dpu_rank_handler \<Rightarrow> nat \<Rightarrow> u64 list \<Rightarrow> 'w \<Rightarrow> u64 list" where
  "poll_data h k d w = fst (snd (polls h k d w))"

definition poll_world :: "'w dpu_rank_handler \<Rightarrow> nat \<Rightarrow> u64 list \<Rightarrow> 'w \<Rightarrow> 'w" where
  "poll_world h k d w = snd (snd (polls h k d w))"

lemmas poll_defs = poll_status_def poll_data_def poll_world_def

lemma polls_last:
  "polls h (Suc k) d w = update_commands h (poll_data h k d w) (poll_world h k d w)"
proof (induction k arbitrary: d w)
  case (Suc k)
  obtain st d' w' where "update_commands h d w = (st, d', w')" by (metis prod_cases3)
  with Suc.IH [of d' w'] show ?case by (simp add: poll_defs)
qed (simp add: poll_defs split: prod.splits)

lemma update_success:
  assumes "update_commands (r_handler r) (r_data r) (r_world r) = (DPU_RANK_SUCCESS, d', w')"
  shows "\<exists>r1. ci_update_commands store_data (r_data r) r = (Ret d', r1) \<and> r_data r1 = d' \<and> r_world r1 = w'
    \<and> r_handler r1 = r_handler r \<and> r_hw r1 = r_hw r \<and> r_ci r1 = r_ci r"
  using assms by (simp add: ci_update_commands_def Let_def debug_record_last_cmd_def FF_def)

lemma record_faults_simps [simp]:
  "r_data (record_faults ci a b r) = r_data r" "r_world (record_faults ci a b r) = r_world r"
  "r_handler (record_faults ci a b r) = r_handler r" "r_hw (record_faults ci a b r) = r_hw r"
  by (simp_all add: record_faults_def upd_ctx_def)

lemma done_stays: "isd ! i \<Longrightarrow> (if dn then isd[ci := True] else isd) ! i"
  by (cases "i = ci"; cases "ci < length isd") (simp_all add: list_update_beyond)

lemma finished_loop_frame:
  "finished_loop data ex rm ec cis isd r = (f, isd', r') \<Longrightarrow>
    r_data r' = r_data r \<and> r_world r' = r_world r \<and> r_handler r' = r_handler r \<and> r_hw r' = r_hw r
    \<and> length isd' = length isd \<and> (\<forall>i. isd ! i \<longrightarrow> isd' ! i)"
proof (induction data ex rm ec cis isd r rule: finished_loop.induct)
  case (2 data ex rm ec ci cis isd r)
  obtain cont dn dc co where c: "check_ci (data ! ci) (ex ! ci) (rm ! ci) (ec AND bit_of ci \<noteq> 0) = (cont, dn, dc, co)"
    by (metis prod_cases4)
  have up: "isd ! i \<longrightarrow> (if dn then isd[ci := True] else isd) ! i" for i
    using done_stays by blast
  show ?case
    using 2 c up by (auto simp: Let_def split: if_splits)
qed simp

lemma finished_loop_all:
  "\<forall>ci \<in> set cis. isd ! ci \<or> fst (check_ci (data ! ci) (ex ! ci) (rm ! ci) (ec AND bit_of ci \<noteq> 0)) \<Longrightarrow>
    fst (finished_loop data ex rm ec cis isd r)"
proof (induction cis arbitrary: isd r)
  case (Cons ci cis)
  obtain cont dn dc co where c: "check_ci (data ! ci) (ex ! ci) (rm ! ci) (ec AND bit_of ci \<noteq> 0) = (cont, dn, dc, co)"
    by (metis prod_cases4)
  have "\<forall>i \<in> set cis. (if dn then isd[ci := True] else isd) ! i
      \<or> fst (check_ci (data ! i) (ex ! i) (rm ! i) (ec AND bit_of i \<noteq> 0))"
    using Cons.prems done_stays by (metis list.set_intros(2))
  from Cons.IH [OF this] Cons.prems c Cons.IH [of isd r] show ?case by (auto simp: Let_def)
qed simp

lemma finished_loop_absent:
  assumes "ci0 \<in> set cis" "\<not> isd ! ci0"
    and "check_ci (data ! ci0) (ex ! ci0) (rm ! ci0) (ec AND bit_of ci0 \<noteq> 0) = (False, False, False, False)"
  shows "\<not> fst (finished_loop data ex rm ec cis isd r) \<and> \<not> fst (snd (finished_loop data ex rm ec cis isd r)) ! ci0"
  using assms
proof (induction cis arbitrary: isd r)
  case (Cons ci cis)
  obtain cont dn dc co where c: "check_ci (data ! ci) (ex ! ci) (rm ! ci) (ec AND bit_of ci \<noteq> 0) = (cont, dn, dc, co)"
    by (metis prod_cases4)
  show ?case
  proof (cases "ci = ci0")
    case True
    with Cons.prems show ?thesis by (simp add: Let_def)
  next
    case False
    then have "(if dn then isd[ci := True] else isd) ! ci0 \<longleftrightarrow> isd ! ci0" by simp
    with False Cons c show ?thesis by (auto simp: Let_def)
  qed
qed simp

lemma exec_wait_answers:
  assumes "k \<le> n" and "\<forall>j \<le> k. poll_status (r_handler r) j (r_data r) (r_world r) = DPU_RANK_SUCCESS"
    and "\<forall>ci < nr_cis r. isd ! ci \<or> fst (check_ci (poll_data (r_handler r) k (r_data r) (r_world r) ! ci)
           (expected_results m ! ci) (result_masks m ! ci) (ec AND bit_of ci \<noteq> 0))"
  shows "\<exists>j \<le> k. \<exists>r'. exec_wait n m ec isd r = (Ret (), r') \<and> r_data r' = poll_data (r_handler r) j (r_data r) (r_world r)
    \<and> r_world r' = poll_world (r_handler r) j (r_data r) (r_world r) \<and> r_handler r' = r_handler r \<and> r_hw r' = r_hw r"
  using assms
proof (induction k arbitrary: n isd r)
  case 0
  obtain d' w' where up: "update_commands (r_handler r) (r_data r) (r_world r) = (DPU_RANK_SUCCESS, d', w')"
    using 0(2) by (cases "update_commands (r_handler r) (r_data r) (r_world r)") (auto simp: poll_defs)
  obtain r1 where r1: "ci_update_commands store_data (r_data r) r = (Ret d', r1)" "r_data r1 = d'" "r_world r1 = w'"
    "r_handler r1 = r_handler r" "r_hw r1 = r_hw r" using update_success [OF up] by blast
  obtain f isd' r2 where l: "finished_loop d' (expected_results m) (result_masks m) ec [0..<nr_cis r1] isd r1 = (f, isd', r2)"
    by (metis prod_cases3)
  have "f" using finished_loop_all [of "[0..<nr_cis r1]" isd d' "expected_results m" "result_masks m" ec r1] l 0(3) up r1
    by (auto simp: poll_defs)
  with r1 l finished_loop_frame [OF l] up show ?case
    by (subst exec_wait.simps) (auto simp: FF_def determine_if_commands_are_finished_def poll_defs)
next
  case (Suc k)
  then obtain n' where n: "n = Suc n'" by (cases n) auto
  obtain d' w' where up: "update_commands (r_handler r) (r_data r) (r_world r) = (DPU_RANK_SUCCESS, d', w')"
    using Suc(3) [rule_format, of 0]
    by (cases "update_commands (r_handler r) (r_data r) (r_world r)") (auto simp: poll_defs)
  obtain r1 where r1: "ci_update_commands store_data (r_data r) r = (Ret d', r1)" "r_data r1 = d'" "r_world r1 = w'"
    "r_handler r1 = r_handler r" "r_hw r1 = r_hw r" using update_success [OF up] by blast
  obtain f isd' r2 where l: "finished_loop d' (expected_results m) (result_masks m) ec [0..<nr_cis r1] isd r1 = (f, isd', r2)"
    by (metis prod_cases3)
  note fr = finished_loop_frame [OF l]
  have step: "exec_wait n m ec isd r = (if f then (Ret (), r2) else exec_wait n' m ec isd' r2)"
    using r1 l n by (subst exec_wait.simps) (simp add: FF_def determine_if_commands_are_finished_def)
  show ?case
  proof (cases f)
    case True
    with step fr r1 up show ?thesis
      by (intro exI [of _ 0]) (simp add: poll_defs)
  next
    case False
    have shift: "polls (r_handler r) (Suc j) (r_data r) (r_world r) = polls (r_handler r2) j (r_data r2) (r_world r2)" for j
      using up fr r1 by simp
    have "\<exists>j \<le> k. \<exists>r'. exec_wait n' m ec isd' r2 = (Ret (), r')
        \<and> r_data r' = poll_data (r_handler r2) j (r_data r2) (r_world r2)
        \<and> r_world r' = poll_world (r_handler r2) j (r_data r2) (r_world r2) \<and> r_handler r' = r_handler r2 \<and> r_hw r' = r_hw r2"
    proof (rule Suc.IH)
      show "k \<le> n'" using Suc(2) n by simp
      show "\<forall>j \<le> k. poll_status (r_handler r2) j (r_data r2) (r_world r2) = DPU_RANK_SUCCESS"
        using Suc(3) shift unfolding poll_defs by (metis Suc_le_mono)
      show "\<forall>ci < nr_cis r2. isd' ! ci \<or> fst (check_ci (poll_data (r_handler r2) k (r_data r2) (r_world r2) ! ci)
           (expected_results m ! ci) (result_masks m ! ci) (ec AND bit_of ci \<noteq> 0))"
        using Suc(4) shift fr r1 unfolding poll_defs by metis
    qed
    then obtain j r' where "j \<le> k" "exec_wait n' m ec isd' r2 = (Ret (), r')"
      "r_data r' = poll_data (r_handler r2) j (r_data r2) (r_world r2)"
      "r_world r' = poll_world (r_handler r2) j (r_data r2) (r_world r2)" "r_handler r' = r_handler r2" "r_hw r' = r_hw r2"
      by blast
    with step False fr r1 shift [of j] show ?thesis
      by (intro exI [of _ "Suc j"]) (simp add: poll_defs)
  qed
qed

lemma exec_wait_timeout:
  assumes "\<forall>j \<le> n. poll_status (r_handler r) j (r_data r) (r_world r) = DPU_RANK_SUCCESS"
    and "ci0 < nr_cis r" "\<not> isd ! ci0"
    and "\<forall>j \<le> n. check_ci (poll_data (r_handler r) j (r_data r) (r_world r) ! ci0)
           (expected_results m ! ci0) (result_masks m ! ci0) (ec AND bit_of ci0 \<noteq> 0) = (False, False, False, False)"
  shows "\<exists>r'. exec_wait n m ec isd r = (Fail DPU_ERR_TIMEOUT, r')
    \<and> r_world r' = poll_world (r_handler r) n (r_data r) (r_world r)"
  using assms
proof (induction n arbitrary: isd r)
  case 0
  obtain d' w' where up: "update_commands (r_handler r) (r_data r) (r_world r) = (DPU_RANK_SUCCESS, d', w')"
    using 0(1) by (cases "update_commands (r_handler r) (r_data r) (r_world r)") (auto simp: poll_defs)
  obtain r1 where r1: "ci_update_commands store_data (r_data r) r = (Ret d', r1)" "r_data r1 = d'" "r_world r1 = w'"
    "r_handler r1 = r_handler r" "r_hw r1 = r_hw r" using update_success [OF up] by blast
  obtain f isd' r2 where l: "finished_loop d' (expected_results m) (result_masks m) ec [0..<nr_cis r1] isd r1 = (f, isd', r2)"
    by (metis prod_cases3)
  have "\<not> f"
    using finished_loop_absent [of ci0 "[0..<nr_cis r1]" isd d' "expected_results m" "result_masks m" ec r1] l 0(2-) up r1
    by (auto simp: poll_defs)
  with r1 l finished_loop_frame [OF l] up show ?case
    by (subst exec_wait.simps) (auto simp: FF_def determine_if_commands_are_finished_def poll_defs)
next
  case (Suc n)
  obtain d' w' where up: "update_commands (r_handler r) (r_data r) (r_world r) = (DPU_RANK_SUCCESS, d', w')"
    using Suc(2) [rule_format, of 0]
    by (cases "update_commands (r_handler r) (r_data r) (r_world r)") (auto simp: poll_defs)
  obtain r1 where r1: "ci_update_commands store_data (r_data r) r = (Ret d', r1)" "r_data r1 = d'" "r_world r1 = w'"
    "r_handler r1 = r_handler r" "r_hw r1 = r_hw r" using update_success [OF up] by blast
  obtain f isd' r2 where l: "finished_loop d' (expected_results m) (result_masks m) ec [0..<nr_cis r1] isd r1 = (f, isd', r2)"
    by (metis prod_cases3)
  note fr = finished_loop_frame [OF l]
  have "check_ci (d' ! ci0) (expected_results m ! ci0) (result_masks m ! ci0) (ec AND bit_of ci0 \<noteq> 0)
      = (False, False, False, False)"
    using Suc(5) [rule_format, of 0] up by (simp add: poll_defs)
  then have f: "\<not> f" "\<not> isd' ! ci0"
    using finished_loop_absent [of ci0 "[0..<nr_cis r1]" isd d' "expected_results m" "result_masks m" ec r1] l Suc(3,4) r1
    by auto
  have step: "exec_wait (Suc n) m ec isd r = exec_wait n m ec isd' r2"
    using r1 l f by (subst exec_wait.simps) (simp add: FF_def determine_if_commands_are_finished_def)
  have shift: "polls (r_handler r) (Suc j) (r_data r) (r_world r) = polls (r_handler r2) j (r_data r2) (r_world r2)" for j
    using up fr r1 by simp
  have "\<exists>r'. exec_wait n m ec isd' r2 = (Fail DPU_ERR_TIMEOUT, r')
    \<and> r_world r' = poll_world (r_handler r2) n (r_data r2) (r_world r2)"
  proof (rule Suc.IH)
    show "\<forall>j \<le> n. poll_status (r_handler r2) j (r_data r2) (r_world r2) = DPU_RANK_SUCCESS"
      using Suc(2) shift unfolding poll_defs by (metis Suc_le_mono)
    show "\<forall>j \<le> n. check_ci (poll_data (r_handler r2) j (r_data r2) (r_world r2) ! ci0)
           (expected_results m ! ci0) (result_masks m ! ci0) (ec AND bit_of ci0 \<noteq> 0) = (False, False, False, False)"
      using Suc(5) shift unfolding poll_defs by (metis Suc_le_mono)
  qed (use Suc(3) fr r1 f in simp_all)
  with step shift [of n] show ?case by (simp add: poll_defs)
qed

lemma commit_success:
  assumes "commit_commands (r_handler r) c (r_world r) = (DPU_RANK_SUCCESS, w)"
  shows "\<exists>r1. ci_commit_commands c r = (Ret (), r1) \<and> r_data r1 = r_data r \<and> r_world r1 = w
    \<and> r_handler r1 = r_handler r \<and> r_hw r1 = r_hw r"
  using assms by (simp add: ci_commit_commands_def debug_record_last_cmd_def FF_def)

lemma exec_cmd_wait:
  assumes "compute_masks c sel r = (Ret m, r)" and "commit_commands (r_handler r) c (r_world r) = (DPU_RANK_SUCCESS, w)"
  shows "\<exists>r1. r_data r1 = r_data r \<and> r_world r1 = w \<and> r_handler r1 = r_handler r \<and> r_hw r1 = r_hw r
    \<and> exec_cmd c sel r = FF (exec_wait NB_RETRY_FOR_VALID_RESULT m (color (r_ci r) AND ms_cis m) (ms_is_done m))
        (\<lambda>_ r. if \<not> is_chip_v1_4 r then FF (ci_update_commands store_data (r_data r)) (\<lambda>_. ok ()) r else ok () r) r1"
proof -
  let ?r0 = "invert_color (ms_cis m) r"
  have "commit_commands (r_handler ?r0) c (r_world ?r0) = (DPU_RANK_SUCCESS, w)"
    using assms(2) by (simp add: invert_color_def upd_ctx_def)
  from commit_success [OF this] obtain r1 where r1: "ci_commit_commands c ?r0 = (Ret (), r1)" "r_data r1 = r_data r"
    "r_world r1 = w" "r_handler r1 = r_handler r" "r_hw r1 = r_hw r"
    by (auto simp: invert_color_def upd_ctx_def)
  then show ?thesis
    by (intro exI [of _ r1])
       (simp add: exec_cmd_def Let_def FF_def [of "compute_masks c sel"] FF_def [of "ci_commit_commands c"] assms(1))
qed

lemma exec_void_cmd_wait:
  assumes "commit_commands (r_handler r) c (r_world r) = (DPU_RANK_SUCCESS, w)"
  shows "\<exists>r1. r_data r1 = r_data r \<and> r_world r1 = w \<and> r_handler r1 = r_handler r \<and> r_hw r1 = r_hw r
    \<and> ci_exec_void_cmd c r = FF (exec_wait NB_RETRY_FOR_VALID_RESULT (masks_of (nr_cis r) c)
        (color (r_ci r) AND compute_ci_mask (nr_cis r) c) (ms_is_done (masks_of (nr_cis r) c)))
        (\<lambda>_ r. if \<not> is_chip_v1_4 r then FF (ci_update_commands store_data (r_data r)) (\<lambda>_. ok ()) r else ok () r) r1"
  using exec_cmd_wait [OF compute_masks_no_select assms] unfolding ms_cis_masks_of ci_exec_void_cmd_def .

lemma exec_color_bit:
  assumes "i < nr" "nr \<le> 8" "c ! i \<noteq> CI_EMPTY"
  shows "(k AND compute_ci_mask nr c) AND bit_of i \<noteq> 0 \<longleftrightarrow> bit k i"
  using assms by (simp add: and_bit_of_eq_0_iff bit_and_iff bit_compute_ci_mask)

text \<open>What the CI must show: the answer to its command, in a color that is not too far from the expected one.\<close>

definition ci_answers :: "'w dpu_rank \<Rightarrow> nat \<Rightarrow> u64 \<Rightarrow> bool" where
  "ci_answers r ci result \<longleftrightarrow>
     result_present result 0x000000FF00000000 0xFF0000FF00000000
     \<and> color_distance result (bit (color (r_ci r)) ci) \<le> 3"

definition addressed :: "'w dpu_rank \<Rightarrow> u64 list \<Rightarrow> nat list" where
  "addressed r commands = filter (\<lambda>ci. commands ! ci \<noteq> CI_EMPTY) [0..<nr_cis r]"

text \<open>A poll that shows every addressed CI the answer its masks ask for ends the wait.\<close>

lemma exec_cmd_answers:
  assumes "rank_wf r" and m: "compute_masks commands sel r = (Ret m, r)" "ms_cis m = compute_ci_mask (nr_cis r) commands"
    and commit: "commit_commands (r_handler r) commands (r_world r) = (DPU_RANK_SUCCESS, w)"
    and polls: "\<forall>j. poll_status (r_handler r) j (r_data r) w = DPU_RANK_SUCCESS" and "k \<le> 100"
    and answers: "\<And>ci. ci < nr_cis r \<Longrightarrow> ms_is_done m ! ci \<or> commands ! ci \<noteq> CI_EMPTY
      \<and> result_present (poll_data (r_handler r) k (r_data r) w ! ci) (expected_results m ! ci) (result_masks m ! ci)
      \<and> color_distance (poll_data (r_handler r) k (r_data r) w ! ci) (bit (color (r_ci r)) ci) \<le> 3"
  shows "\<exists>r'. exec_cmd commands sel r = (Ret (), r')"
proof -
  obtain r1 where r1: "r_data r1 = r_data r" "r_world r1 = w" "r_handler r1 = r_handler r" "r_hw r1 = r_hw r"
    and run: "exec_cmd commands sel r = FF (exec_wait NB_RETRY_FOR_VALID_RESULT m
        (color (r_ci r) AND compute_ci_mask (nr_cis r) commands) (ms_is_done m))
        (\<lambda>_ r. if \<not> is_chip_v1_4 r then FF (ci_update_commands store_data (r_data r)) (\<lambda>_. ok ()) r else ok () r) r1"
    using exec_cmd_wait [OF m(1) commit] unfolding m(2) by blast
  have le: "nr_cis r \<le> 8" using assms(1) by (rule rank_wfD)
  have "\<exists>j \<le> k. \<exists>r'. exec_wait NB_RETRY_FOR_VALID_RESULT m
        (color (r_ci r) AND compute_ci_mask (nr_cis r) commands) (ms_is_done m) r1
        = (Ret (), r') \<and> r_data r' = poll_data (r_handler r1) j (r_data r1) (r_world r1)
    \<and> r_world r' = poll_world (r_handler r1) j (r_data r1) (r_world r1) \<and> r_handler r' = r_handler r1 \<and> r_hw r' = r_hw r1"
  proof (rule exec_wait_answers)
    show "\<forall>ci < nr_cis r1. ms_is_done m ! ci
        \<or> fst (check_ci (poll_data (r_handler r1) k (r_data r1) (r_world r1) ! ci)
             (expected_results m ! ci) (result_masks m ! ci)
             ((color (r_ci r) AND compute_ci_mask (nr_cis r) commands) AND bit_of ci \<noteq> 0))"
    proof (intro allI impI)
      fix ci assume "ci < nr_cis r1"
      then have ci: "ci < nr_cis r" using r1 by simp
      show "ms_is_done m ! ci
        \<or> fst (check_ci (poll_data (r_handler r1) k (r_data r1) (r_world r1) ! ci)
             (expected_results m ! ci) (result_masks m ! ci)
             ((color (r_ci r) AND compute_ci_mask (nr_cis r) commands) AND bit_of ci \<noteq> 0))"
        using answers [OF ci] exec_color_bit [OF ci le, of commands "color (r_ci r)"] r1
        by (auto simp: check_ci_eq Let_def)
    qed
  qed (use assms(6) polls r1 in \<open>simp_all add: NB_RETRY_FOR_VALID_RESULT_def\<close>)
  then obtain j r' where r': "exec_wait NB_RETRY_FOR_VALID_RESULT m
        (color (r_ci r) AND compute_ci_mask (nr_cis r) commands) (ms_is_done m) r1 = (Ret (), r')"
    "r_data r' = poll_data (r_handler r) j (r_data r) w" "r_world r' = poll_world (r_handler r) j (r_data r) w"
    "r_handler r' = r_handler r" using r1 by auto
  obtain d' w' where "update_commands (r_handler r') (r_data r') (r_world r') = (DPU_RANK_SUCCESS, d', w')"
    using polls [rule_format, of "Suc j"] r' polls_last [of "r_handler r" j "r_data r" w]
    by (cases "polls (r_handler r) (Suc j) (r_data r) w") (simp add: poll_defs)
  from update_success [OF this] show ?thesis
    using run r'(1) by (auto simp: FF_def)
qed

lemma exec_void_answers:
  assumes wf: "rank_wf r" and "commit_commands (r_handler r) commands (r_world r) = (DPU_RANK_SUCCESS, w)"
    and "\<forall>j. poll_status (r_handler r) j (r_data r) w = DPU_RANK_SUCCESS" and "k \<le> 100"
    and answers: "\<forall>ci \<in> set (addressed r commands). ci_answers r ci (poll_data (r_handler r) k (r_data r) w ! ci)"
  shows "\<exists>r'. ci_exec_void_cmd commands r = (Ret (), r')"
  unfolding ci_exec_void_cmd_def
proof (rule exec_cmd_answers [OF wf compute_masks_no_select ms_cis_masks_of assms(2-4)])
  fix ci assume ci: "ci < nr_cis r"
  show "ms_is_done (masks_of (nr_cis r) commands) ! ci \<or> commands ! ci \<noteq> CI_EMPTY
      \<and> result_present (poll_data (r_handler r) k (r_data r) w ! ci) (expected_results (masks_of (nr_cis r) commands) ! ci)
          (result_masks (masks_of (nr_cis r) commands) ! ci)
      \<and> color_distance (poll_data (r_handler r) k (r_data r) w ! ci) (bit (color (r_ci r)) ci) \<le> 3"
  proof (cases "commands ! ci = CI_EMPTY")
    case False
    then have "ci_answers r ci (poll_data (r_handler r) k (r_data r) w ! ci)" using answers ci by (simp add: addressed_def)
    with False masks_of_nth [OF ci rank_wfD(2) [OF wf], of commands] show ?thesis by (simp add: ci_answers_def)
  qed (simp add: masks_of_nth [OF ci rank_wfD(2) [OF wf]])
qed

text \<open>
  C9: If the backend accepts the command and answers its polls, and at some poll \<open>k \<le> 100\<close> every
  addressed CI shows an acceptable answer, the command returns \<open>DPU_OK\<close>.
\<close>

theorem exec_void_cmd_answers:
  assumes "rank_wf r" and "commit_commands (r_handler r) commands (r_world r) = (DPU_RANK_SUCCESS, w)"
    and "\<forall>j. poll_status (r_handler r) j (r_data r) w = DPU_RANK_SUCCESS" and "k \<le> 100"
    and "\<forall>ci \<in> set (addressed r commands). ci_answers r ci (poll_data (r_handler r) k (r_data r) w ! ci)"
  shows "\<exists>r'. ci_exec_void_cmd commands r = (Ret (), r')"
  using assms by (rule exec_void_answers)

lemma sample_polls:
  "polls sample_handler k d w = (DPU_RANK_SUCCESS, take (length d) (w @ replicate (length d) 0), w)"
  by (induction k arbitrary: d) (simp_all add: sample_handler_def min_def)

lemma addressed_sample: "addressed (sample_rank w) [CI_IDENTITY, CI_EMPTY] = [0]"
  by (simp add: addressed_def sample_rank_simps upt_rec CI_IDENTITY_def CI_EMPTY_def)

theorem exec_void_cmd_answers_witness:
  "\<exists>r'. ci_exec_void_cmd [CI_IDENTITY, CI_EMPTY] (sample_rank [sample_answer False]) = (Ret (), r')"
proof (rule exec_void_cmd_answers [OF sample_rank_wf, where k = 0])
  have "ci_answers (sample_rank [sample_answer False]) 0 (sample_answer False)"
    by (simp add: ci_answers_def result_present_def sample_rank_simps sample_answer_def color_distance_eq
      result_color_def bit_0_eq)
  then show "\<forall>ci \<in> set (addressed (sample_rank [sample_answer False]) [CI_IDENTITY, CI_EMPTY]).
      ci_answers (sample_rank [sample_answer False]) ci
        (poll_data (r_handler (sample_rank [sample_answer False])) 0
           (r_data (sample_rank [sample_answer False])) [sample_answer False] ! ci)"
    by (simp add: addressed_sample poll_data_def sample_rank_simps sample_polls del: polls.simps)
qed (simp_all add: sample_rank_simps poll_status_def sample_polls del: polls.simps)

text \<open>
  C20: If the backend answers every poll but some addressed CI never shows the answer, the command
  returns \<open>DPU_ERR_TIMEOUT\<close>, after exactly 101 polls.
\<close>

theorem exec_void_cmd_timeout:
  assumes "rank_wf r" and "commit_commands (r_handler r) commands (r_world r) = (DPU_RANK_SUCCESS, w)"
    and "\<forall>j \<le> 100. poll_status (r_handler r) j (r_data r) w = DPU_RANK_SUCCESS"
    and "ci \<in> set (addressed r commands)"
    and "\<forall>j \<le> 100. \<not> result_present (poll_data (r_handler r) j (r_data r) w ! ci) 0x000000FF00000000 0xFF0000FF00000000"
  shows "\<exists>r'. ci_exec_void_cmd commands r = (Fail DPU_ERR_TIMEOUT, r')
    \<and> r_world r' = poll_world (r_handler r) 100 (r_data r) w"
proof -
  let ?m = "masks_of (nr_cis r) commands"
  obtain r1 where r1: "r_data r1 = r_data r" "r_world r1 = w" "r_handler r1 = r_handler r" "r_hw r1 = r_hw r"
    and run: "ci_exec_void_cmd commands r = FF (exec_wait NB_RETRY_FOR_VALID_RESULT ?m
        (color (r_ci r) AND compute_ci_mask (nr_cis r) commands) (ms_is_done ?m))
        (\<lambda>_ r. if \<not> is_chip_v1_4 r then FF (ci_update_commands store_data (r_data r)) (\<lambda>_. ok ()) r else ok () r) r1"
    using exec_void_cmd_wait [OF assms(2)] by blast
  have ci: "ci < nr_cis r" "commands ! ci \<noteq> CI_EMPTY" and le: "nr_cis r \<le> 8"
    using assms(1,4) by (auto simp: addressed_def rank_wfD)
  note m = masks_of_nth [OF ci(1) le, of commands]
  have "\<exists>r'. exec_wait NB_RETRY_FOR_VALID_RESULT ?m (color (r_ci r) AND compute_ci_mask (nr_cis r) commands)
      (ms_is_done ?m) r1 = (Fail DPU_ERR_TIMEOUT, r')
    \<and> r_world r' = poll_world (r_handler r1) NB_RETRY_FOR_VALID_RESULT (r_data r1) (r_world r1)"
  proof (rule exec_wait_timeout)
    show "\<forall>j \<le> NB_RETRY_FOR_VALID_RESULT. check_ci (poll_data (r_handler r1) j (r_data r1) (r_world r1) ! ci)
      (expected_results ?m ! ci) (result_masks ?m ! ci)
      ((color (r_ci r) AND compute_ci_mask (nr_cis r) commands) AND bit_of ci \<noteq> 0) = (False, False, False, False)"
      unfolding m(2,3) [OF ci(2)] check_ci_eq r1
      using assms(5) by (simp add: NB_RETRY_FOR_VALID_RESULT_def Let_def)
  qed (use assms(3) r1 ci m(1) in \<open>simp_all add: NB_RETRY_FOR_VALID_RESULT_def\<close>)
  with run r1 show ?thesis by (auto simp: FF_def NB_RETRY_FOR_VALID_RESULT_def)
qed

theorem exec_void_cmd_timeout_witness:
  "\<exists>r'. ci_exec_void_cmd [CI_IDENTITY, CI_EMPTY] (sample_rank []) = (Fail DPU_ERR_TIMEOUT, r')
    \<and> r_world r' = poll_world sample_handler 100 (replicate 8 0) []"
proof -
  have "\<exists>r'. ci_exec_void_cmd [CI_IDENTITY, CI_EMPTY] (sample_rank []) = (Fail DPU_ERR_TIMEOUT, r')
    \<and> r_world r' = poll_world (r_handler (sample_rank [])) 100 (r_data (sample_rank [])) []"
    by (rule exec_void_cmd_timeout [OF sample_rank_wf, where ci = 0])
       (simp_all add: sample_rank_simps poll_status_def poll_data_def sample_polls addressed_sample
          result_present_def CI_NOP_def del: polls.simps)
  then show ?thesis by (simp only: sample_rank_simps)
qed

text \<open>
  When the only addressed CI shows its answer in a color at distance exactly 4 from the expected
  one, the code means to read it again ("Mark the result as not ready"), but the CI stays marked
  done: the command returns \<open>DPU_OK\<close> at the next poll, whatever that poll shows.
\<close>

theorem exec_void_cmd_tie:
  assumes "rank_wf r" and "commit_commands (r_handler r) commands (r_world r) = (DPU_RANK_SUCCESS, w)"
    and "\<forall>j. poll_status (r_handler r) j (r_data r) w = DPU_RANK_SUCCESS"
    and "addressed r commands = [ci]"
    and "result_present (poll_data (r_handler r) 0 (r_data r) w ! ci) 0x000000FF00000000 0xFF0000FF00000000"
    and "color_distance (poll_data (r_handler r) 0 (r_data r) w ! ci) (bit (color (r_ci r)) ci) = 4"
    and "is_chip_v1_4 r"
  shows "\<exists>r'. ci_exec_void_cmd commands r = (Ret (), r') \<and> r_data r' = poll_data (r_handler r) 1 (r_data r) w"
proof -
  let ?m = "masks_of (nr_cis r) commands" and ?ec = "color (r_ci r) AND compute_ci_mask (nr_cis r) commands"
  obtain r1 where r1: "r_data r1 = r_data r" "r_world r1 = w" "r_handler r1 = r_handler r" "r_hw r1 = r_hw r"
    and run: "ci_exec_void_cmd commands r = FF (exec_wait NB_RETRY_FOR_VALID_RESULT ?m ?ec (ms_is_done ?m))
        (\<lambda>_ r. if \<not> is_chip_v1_4 r then FF (ci_update_commands store_data (r_data r)) (\<lambda>_. ok ()) r else ok () r) r1"
    using exec_void_cmd_wait [OF assms(2)] by blast
  have le: "nr_cis r \<le> 8" using assms(1) by (rule rank_wfD)
  have "ci \<in> set (addressed r commands)" using assms(4) by simp
  then have ci: "ci < nr_cis r" "commands ! ci \<noteq> CI_EMPTY" by (auto simp: addressed_def)
  have others: "commands ! i = CI_EMPTY" if "i < nr_cis r" "i \<noteq> ci" for i
  proof (rule ccontr)
    assume "commands ! i \<noteq> CI_EMPTY"
    with that(1) have "i \<in> set (addressed r commands)" by (simp add: addressed_def)
    with that(2) assms(4) show False by simp
  qed
  obtain d' w' where up: "update_commands (r_handler r1) (r_data r1) (r_world r1) = (DPU_RANK_SUCCESS, d', w')"
    using assms(3) [rule_format, of 0] r1
    by (cases "update_commands (r_handler r1) (r_data r1) (r_world r1)") (auto simp: poll_defs)
  obtain r2 where r2: "ci_update_commands store_data (r_data r1) r1 = (Ret d', r2)" "r_data r2 = d'" "r_world r2 = w'"
    "r_handler r2 = r_handler r1" "r_hw r2 = r_hw r1" using update_success [OF up] by blast
  note m = masks_of_nth [OF ci(1) le, of commands]
  have chk: "check_ci (d' ! ci) (expected_results ?m ! ci) (result_masks ?m ! ci) (?ec AND bit_of ci \<noteq> 0)
      = (False, True, False, False)"
    using assms(5,6) up r1 m(2,3) [OF ci(2)] exec_color_bit [OF ci(1) le ci(2)]
    by (simp add: check_ci_eq poll_defs Let_def)
  have loop: "finished_loop d' (expected_results ?m) (result_masks ?m) ?ec cis (ms_is_done ?m) s
      = (False, (ms_is_done ?m)[ci := True], s)"
    if "ci \<in> set cis" "\<forall>i \<in> set cis. i < nr_cis r" for cis s
    using that
  proof (induction cis)
    case (Cons i cis)
    show ?case
    proof (cases "i = ci")
      case True
      with chk m(1) ci(2) show ?thesis by (simp add: Let_def record_faults_def upd_ctx_def)
    next
      case False
      with Cons.prems others masks_of_nth(1) [of i "nr_cis r" commands] le have "ms_is_done ?m ! i" by simp
      with Cons False show ?thesis by simp
    qed
  qed simp
  have step: "exec_wait NB_RETRY_FOR_VALID_RESULT ?m ?ec (ms_is_done ?m) r1
      = exec_wait 99 ?m ?ec ((ms_is_done ?m)[ci := True]) r2"
    using r2 r1 loop [of "[0..<nr_cis r2]" r2] ci(1)
    by (subst exec_wait.simps)
       (simp add: FF_def determine_if_commands_are_finished_def NB_RETRY_FOR_VALID_RESULT_def)
  have all_done: "((ms_is_done ?m)[ci := True]) ! i" if "i < nr_cis r2" for i
    using that others masks_of_nth(1) [of i "nr_cis r" commands] le r1 r2 length_masks_of(3) [of "nr_cis r" commands]
    by (cases "i = ci") (auto simp: nth_list_update)
  have "\<exists>j \<le> 0. \<exists>r'. exec_wait 99 ?m ?ec ((ms_is_done ?m)[ci := True]) r2 = (Ret (), r')
      \<and> r_data r' = poll_data (r_handler r2) j (r_data r2) (r_world r2)
      \<and> r_world r' = poll_world (r_handler r2) j (r_data r2) (r_world r2) \<and> r_handler r' = r_handler r2 \<and> r_hw r' = r_hw r2"
    by (rule exec_wait_answers)
       (use assms(3) [rule_format, of 1] up r1 r2 all_done in \<open>simp_all add: poll_defs\<close>)
  then obtain r' where "exec_wait 99 ?m ?ec ((ms_is_done ?m)[ci := True]) r2 = (Ret (), r')"
    "r_data r' = poll_data (r_handler r2) 0 (r_data r2) (r_world r2)" "r_hw r' = r_hw r2" by auto
  with run step up r1 r2 assms(7) show ?thesis
    by (simp add: FF_def poll_defs is_chip_v1_4_def)
qed

theorem exec_void_cmd_tie_witness:
  "\<exists>r'. ci_exec_void_cmd [CI_IDENTITY, CI_EMPTY] (sample_rank [0x000F00FF00000000]) = (Ret (), r')"
proof -
  let ?r = "sample_rank [0x000F00FF00000000]"
  have dist: "color_distance 0x000F00FF00000000 (bit (color (r_ci ?r)) 0) = 4"
  proof -
    have "color_distance 0x000F00FF00000000 False = 4" by (simp add: color_distance_eq) code_simp
    then show ?thesis by (simp add: sample_rank_simps)
  qed
  have "\<exists>r'. ci_exec_void_cmd [CI_IDENTITY, CI_EMPTY] ?r = (Ret (), r')
      \<and> r_data r' = poll_data (r_handler ?r) 1 (r_data ?r) [0x000F00FF00000000]"
  proof (rule exec_void_cmd_tie [OF sample_rank_wf _ _ addressed_sample])
    show "color_distance (poll_data (r_handler ?r) 0 (r_data ?r) [0x000F00FF00000000] ! 0) (bit (color (r_ci ?r)) 0) = 4"
      using dist by (simp add: poll_data_def sample_polls sample_rank_simps del: polls.simps)
    show "is_chip_v1_4 ?r" by (simp add: is_chip_v1_4_def sample_rank_def sample_hw_def)
  qed (simp_all add: poll_status_def poll_data_def sample_polls sample_rank_simps result_present_def del: polls.simps)
  then show ?thesis by blast
qed

section \<open>Reset\<close>

lemma reset_slices_ctx [simp]:
  "color (r_ci (reset_slices n r)) = color (r_ci r)"
  "fault_decode (r_ci (reset_slices n r)) = fault_decode (r_ci r)"
  "fault_collide (r_ci (reset_slices n r)) = fault_collide (r_ci r)"
proof -
  have "color (r_ci (fold (\<lambda>ci. upd_slice ci f) cis s)) = color (r_ci s)
    \<and> fault_decode (r_ci (fold (\<lambda>ci. upd_slice ci f) cis s)) = fault_decode (r_ci s)
    \<and> fault_collide (r_ci (fold (\<lambda>ci. upd_slice ci f) cis s)) = fault_collide (r_ci s)" for f cis and s :: "'a dpu_rank"
    by (induction cis arbitrary: s) (simp_all add: upd_slice_def)
  then show "color (r_ci (reset_slices n r)) = color (r_ci r)"
    "fault_decode (r_ci (reset_slices n r)) = fault_decode (r_ci r)"
    "fault_collide (r_ci (reset_slices n r)) = fault_collide (r_ci r)"
    unfolding reset_slices_def by blast+
qed

lemma r_slice_reset_slices:
  assumes "length (slice_info (r_ci r)) = 8" and "ci < 8"
  shows "r_slice (reset_slices n r) ci = reset_slice n (r_slice r ci)"
  unfolding reset_slices_def using assms by (subst r_slice_fold) (auto simp del: upt.simps upt_rec_numeral)

text \<open>
  C23: A successful reset leaves every CI without a selected target and with all its DPUs in group
  0, clears the expected color and the recorded faults of the CIs it addresses, and keeps the
  colors of the others.
\<close>

theorem reset_cmd_state:
  assumes "rank_wf r" and "ci_exec_reset_cmd commands r = (Ret (), r')"
  shows "let m = compute_ci_mask (nr_cis r) commands in
    color (r_ci r') = color (r_ci r) AND NOT m \<and> fault_decode (r_ci r') AND m = 0 \<and> fault_collide (r_ci r') AND m = 0
    \<and> (\<forall>ci < 8. target_type (slice_target (r_slice r' ci)) = DPU_SLICE_TARGET_NONE
         \<and> dpus_per_group (r_slice r' ci) = (bit_of (nr_dpus r) - 1) # replicate 7 0)"
proof -
  define m where "m = compute_ci_mask (nr_cis r) commands"
  let ?P = "\<lambda>s. rank_wf s \<and> color (r_ci s) = color (r_ci r) XOR m"
  let ?d = "unat (reset_wait_duration (r_hw r)) * unat (clock_division (r_hw r)) div 2"
  let ?poll = "mfor [0..<?d] (\<lambda>_ data. ci_update_commands store_local data) (replicate 8 0)"
  let ?clear = "upd_ctx (\<lambda>c. c\<lparr>color := color c AND NOT m, fault_collide := fault_collide c AND NOT m,
         fault_decode := fault_decode c AND NOT m\<rparr>)"
  let ?groups = "reset_slices (nr_dpus r)"
  have "FF (FF (ci_commit_commands commands) (\<lambda>_. ?poll)) (\<lambda>_. FF (modify ?clear) (\<lambda>_. modify ?groups))
      (invert_color m r) = (Ret (), r')"
    using assms(2) unfolding ci_exec_reset_cmd_def Let_def FF_assoc FF_modify m_def [symmetric] .
  then obtain b s where run: "FF (ci_commit_commands commands) (\<lambda>_. ?poll) (invert_color m r) = (Ret b, s)"
    and last: "FF (modify ?clear) (\<lambda>_. modify ?groups) s = (Ret (), r')"
    by (rule FF_RetE)
  from last have "(Ret (), ?groups (?clear s)) = (Ret (), r')" unfolding FF_modify modify_apply .
  then have r': "r' = ?groups (?clear s)" by (elim Pair_inject) (rule sym)
  have "keeps ?P ?poll" by (rule color.keeps_poll_local) (rule length_replicate)
  then have "keeps ?P (FF (ci_commit_commands commands) (\<lambda>_. ?poll))"
    by (rule keeps_FF [OF color.keeps_commit])
  moreover have "?P (invert_color m r)"
    using assms(1) wf.I_invert_color by (simp add: invert_color_def upd_ctx_def)
  ultimately have s: "?P s" using run by (rule keeps_eqD)
  then have len: "length (slice_info (r_ci s)) = 8" by (simp add: rank_wfD)
  have "(color (r_ci r) XOR m) AND NOT m = color (r_ci r) AND NOT m"
    by (rule bit_word_eqI) (auto simp: bit_simps)
  then show ?thesis
    unfolding m_def [symmetric] Let_def
    using s len unfolding r'
    by (simp add: r_slice_reset_slices upd_ctx_def reset_slice_def and.assoc)
qed

theorem reset_cmd_state_witness:
  "\<exists>r'. ci_exec_reset_cmd [CI_SOFTWARE_RESET 2 0, CI_EMPTY] (sample_rank []) = (Ret (), r')
    \<and> target_type (slice_target (r_slice r' 0)) = DPU_SLICE_TARGET_NONE"
proof -
  have poll: "\<exists>b'. mfor xs (\<lambda>_ data. ci_update_commands store_local data) b r = (Ret b', r)"
    if "r_handler r = sample_handler" "\<not> r_logd r" for xs :: "nat list" and b and r :: "u64 list dpu_rank"
    using that
    by (induction xs arbitrary: b)
       (auto simp: FF_def ci_update_commands_def Let_def debug_record_last_cmd_def sample_handler_def)
  have "\<exists>r'. ci_exec_reset_cmd c (sample_rank []) = (Ret (), r')" for c
  proof -
    let ?s = "invert_color (compute_ci_mask (nr_cis (sample_rank [])) c) (sample_rank [])"
    have s: "r_handler ?s = sample_handler" "\<not> r_logd ?s"
      by (simp_all add: invert_color_def upd_ctx_def sample_rank_def)
    then have "ci_commit_commands c ?s = (Ret (), ?s)"
      unfolding ci_commit_commands_def FF_def debug_record_last_cmd_def by (simp add: sample_handler_def)
    moreover obtain b' where "mfor [0..<n] (\<lambda>_ data. ci_update_commands store_local data) (replicate 8 0) ?s = (Ret b', ?s)"
      if "n = unat (reset_wait_duration sample_hw) * unat (clock_division sample_hw) div 2" for n :: nat
      using poll [OF s] by blast
    ultimately show ?thesis
      unfolding ci_exec_reset_cmd_def Let_def FF_modify FF_def by (simp add: sample_rank_def)
  qed
  then obtain r' where run: "ci_exec_reset_cmd [CI_SOFTWARE_RESET 2 0, CI_EMPTY] (sample_rank []) = (Ret (), r')"
    by blast
  with reset_cmd_state [OF sample_rank_wf run] show ?thesis by (auto simp: Let_def)
qed

end
