(* ===== verification/Ufi_Select.thy ===== *)
theory Ufi_Select
  imports Ufi_Frame Sample_Rank
begin

text \<open>
  Properties of \<open>Ufi\<close>: the CIs the C loops visit, the structure cache, what the selection
  operations select, and the groups of DPUs that \<open>ufi_write_group\<close> maintains.
\<close>

section \<open>The loop over the control interfaces\<close>

lemma map_for_each_ci:
  assumes "unat (c + 1) = k" and "k \<le> unat nr"
  shows "map unat (for_each_ci m nr (next_ci m c nr)) = filter (CI_MASK_ON m) [k..<unat nr]"
  using assms
proof (induction "unat nr - k" arbitrary: c k)
  case 0
  then have "\<not> c + 1 < nr" by (simp add: word_less_nat_alt)
  then have "next_ci m c nr = c + 1" by (subst next_ci.simps) (simp add: Let_def)
  with \<open>\<not> c + 1 < nr\<close> 0 show ?case by (subst for_each_ci.simps) simp
next
  case (Suc d)
  then have lt: "k < unat nr" "c + 1 < nr" by (simp_all add: word_less_nat_alt)
  have "unat nr < 256" by (rule unat_u8_lt)
  have "unat (x + 1) = Suc k" if "unat x = k" for x :: u8
    using lt \<open>unat nr < 256\<close> that by (simp add: unat_word_ariths)
  from this [OF Suc.prems(1)] have s: "unat ((c + 1) + 1) = Suc k" .
  have IH: "map unat (for_each_ci m nr (next_ci m (c + 1) nr)) = filter (CI_MASK_ON m) [Suc k..<unat nr]"
    using Suc.hyps(1) [OF _ s] Suc.hyps(2) lt(1) by simp
  have up: "[k..<unat nr] = k # [Suc k..<unat nr]" using lt(1) by (rule upt_conv_Cons)
  show ?case
  proof (cases "CI_MASK_ON m k")
    case True
    then have "next_ci m c nr = c + 1" using Suc.prems(1) by (subst next_ci.simps) (simp add: Let_def)
    with True IH lt up Suc.prems(1) show ?thesis by (subst for_each_ci.simps) simp
  next
    case False
    then have "next_ci m c nr = next_ci m (c + 1) nr"
      using Suc.prems(1) lt by (subst next_ci.simps) (simp add: Let_def)
    with False IH up show ?thesis by simp
  qed
qed

text \<open>
  The macro \<open>for_each_ci\<close>, which starts \<open>next_ci\<close> from the wrapped index 255, visits exactly the
  CIs below \<open>nr\<close> whose bit is set in the mask, in increasing order, and terminates.
\<close>

theorem for_each_ci_visits:
  "map unat (for_each_ci m nr (next_ci m (- 1) nr)) = filter (CI_MASK_ON m) [0..<unat nr]"
  by (rule map_for_each_ci) simp_all

lemma ci_list_iff: "rank_wf r \<Longrightarrow> ci \<in> set (ci_list r m) \<longleftrightarrow> ci < nr_cis r \<and> bit m ci"
  by (auto simp: ci_list_def CI_MASK_ON_bit)

lemma distinct_ci_list: "distinct (ci_list r m)"
  by (simp add: ci_list_def)

section \<open>The structure cache\<close>

lemma write_structure_fold:
  assumes "distinct cis" and "\<forall>ci \<in> set cis. ci < length (slice_info (r_ci r))"
  shows "fold (\<lambda>each_ci (do_write, r).
              if structure_value (r_slice r each_ci) \<noteq> s then (True, set_structure each_ci s r) else (do_write, r))
            cis (d, r)
    = (d \<or> (\<exists>ci \<in> set cis. structure_value (r_slice r ci) \<noteq> s),
       fold (\<lambda>ci. set_structure ci s) cis r)"
  using assms
proof (induction cis arbitrary: d r)
  case (Cons ci cis)
  show ?case
  proof (cases "structure_value (r_slice r ci) = s")
    case True
    then have "set_structure ci s r = r" by (simp add: set_structure_def upd_slice_def flip: True)
    with True Cons show ?thesis by simp
  next
    case False
    let ?r = "set_structure ci s r"
    have "structure_value (r_slice ?r i) = structure_value (r_slice r i)" if "i \<in> set cis" for i
      using that Cons.prems by (auto simp: set_structure_def r_slice_upd_slice)
    moreover have "\<forall>i \<in> set cis. i < length (slice_info (r_ci ?r))" using Cons.prems by (simp add: set_structure_def)
    ultimately show ?thesis using False Cons by simp
  qed
qed simp

text \<open>All CIs of \<open>cis\<close> hold the structure \<open>s\<close>, as far as the host knows.\<close>

definition cached :: "nat list \<Rightarrow> u64 \<Rightarrow> 'w dpu_rank \<Rightarrow> bool" where
  "cached cis s r \<longleftrightarrow> (\<forall>ci \<in> set cis. structure_value (r_slice r ci) = s)"

text \<open>
  When every selected CI already holds the structure of a frame, \<open>UFI_exec_void_frame\<close> sends
  the frame alone: the structure is not written again.
\<close>

theorem void_frame_cached:
  assumes "rank_wf r" and "cached (ci_list r m) s r"
  shows "UFI_exec_void_frame m s f r = ci_exec_void_cmd (ci_prepare_mask m f) (prepare_cmds m f r)"
proof -
  have "fold (\<lambda>each_ci (do_write, r).
              if structure_value (r_slice r each_ci) \<noteq> s then (True, set_structure each_ci s r) else (do_write, r))
            cis (False, r) = (False, r)" if "\<forall>ci \<in> set cis. structure_value (r_slice r ci) = s" for cis
    using that by (induction cis) simp_all
  with assms(2) have "UFI_exec_write_structure m s r = ok () r"
    by (simp add: UFI_exec_write_structure_def cached_def)
  then show ?thesis
    by (simp add: UFI_exec_void_frame_def FF_def [of "UFI_exec_write_structure m s"] exec_cmds_void_def prepare_cmds_def)
qed

theorem void_frame_cached_witness:
  "UFI_exec_void_frame 1 0 CI_SELECT_ALL_FRAME (sample_rank []) =
     ci_exec_void_cmd (ci_prepare_mask 1 CI_SELECT_ALL_FRAME) (prepare_cmds 1 CI_SELECT_ALL_FRAME (sample_rank []))"
  by (rule void_frame_cached [OF sample_rank_wf])
     (auto simp: cached_def ci_list_iff sample_rank_wf sample_rank_simps, simp add: sample_slice_def)

text \<open>What no command changes of a slice: all of it.\<close>

interpretation slices: ci_exec_frame "\<lambda>r. rank_wf r \<and> slice_info (r_ci r) = si" for si
  by unfold_locales (auto simp: rank_wf_ctx wf.I_update wf.I_commit wf.I_data wf.I_ring)

lemma exec_void_slices:
  "rank_wf r \<Longrightarrow> slice_info (r_ci (snd (ci_exec_void_cmd c r))) = slice_info (r_ci r)"
  using keepsD [OF slices.keeps_void_cmd, of r "slice_info (r_ci r)" c] by simp

lemma prepare_cmds_simps [simp]:
  "r_ci (prepare_cmds m d r) = r_ci r" "r_hw (prepare_cmds m d r) = r_hw r" "r_cmds (prepare_cmds m d r) = ci_prepare_mask m d"
  by (simp_all add: prepare_cmds_def)

lemma slice_info_void_frame:
  assumes "rank_wf r"
  shows "slice_info (r_ci (snd (UFI_exec_void_frame m s f r)))
    = slice_info (r_ci (fold (\<lambda>ci. set_structure ci s) (ci_list r m) r))"
proof -
  let ?r0 = "fold (\<lambda>ci. set_structure ci s) (ci_list r m) r"
  have wf0: "rank_wf ?r0"
    by (rule fold_invariant [where I = rank_wf, OF assms]) (auto intro: wf.I_structure ci_list_lt [OF assms])
  define P where "P q \<longleftrightarrow> rank_wf q \<and> slice_info (r_ci q) = slice_info (r_ci ?r0)" for q :: "'a dpu_rank"
  have void: "keeps P (ci_exec_void_cmd c)" for c
    using slices.keeps_void_cmd [of "slice_info (r_ci ?r0)" c] by (simp add: P_def keeps_def)
  have prep: "P q \<Longrightarrow> P (prepare_cmds m d q)" for q d
    using wf.I_prepare by (auto simp: P_def)
  have send: "keeps P (FF (modify (prepare_cmds m d)) (\<lambda>_. exec_cmds_void))" for d
    unfolding exec_cmds_void_def
    by (rule keepsI, drule prep [of _ d], drule keepsD [OF void]) (simp add: prepare_cmds_def)
  have "\<forall>ci \<in> set (ci_list r m). ci < length (slice_info (r_ci r))"
    using ci_list_lt [OF assms] rank_wfD(4) [OF assms] by simp
  note fold = write_structure_fold [OF distinct_ci_list this, of s False]
  have P0: "P ?r0" using wf0 by (simp add: P_def)
  have ws: "P (snd (UFI_exec_write_structure m s r))"
  proof (cases "\<exists>ci \<in> set (ci_list r m). structure_value (r_slice r ci) \<noteq> s")
    case True
    with keepsD [OF send P0] show ?thesis unfolding UFI_exec_write_structure_def fold by simp
  next
    case False
    with P0 show ?thesis unfolding UFI_exec_write_structure_def fold by simp
  qed
  obtain out q where run: "UFI_exec_write_structure m s r = (out, q)" by (rule prod.exhaust)
  with ws have q: "P q" by simp
  with keepsD [OF send q, of f] have "P (snd (UFI_exec_void_frame m s f r))"
    unfolding UFI_exec_void_frame_def FF_def [of "UFI_exec_write_structure m s"] run
    by (cases out) simp_all
  then show ?thesis by (simp add: P_def)
qed

lemma void_frame_slices:
  assumes "rank_wf r" and "ci < 8"
  shows "r_slice (snd (UFI_exec_void_frame m s f r)) ci =
    (if ci < nr_cis r \<and> bit m ci then (r_slice r ci)\<lparr>structure_value := s\<rparr> else r_slice r ci)"
proof -
  have "r_slice (fold (\<lambda>ci. set_structure ci s) (ci_list r m) r) ci
      = (if ci \<in> set (ci_list r m) then (r_slice r ci)\<lparr>structure_value := s\<rparr> else r_slice r ci)"
    unfolding set_structure_def using assms by (intro r_slice_fold distinct_ci_list) (simp add: rank_wfD)
  then show ?thesis using slice_info_void_frame [OF assms(1)] ci_list_iff [OF assms(1)] by simp
qed

text \<open>
  After a frame, whatever its outcome, the host assumes the structure of the frame on every
  selected CI and has not changed what it knows of the others.
\<close>

theorem void_frame_structures:
  assumes "rank_wf r" and "ci < 8"
  shows "r_slice (snd (UFI_exec_void_frame m s f r)) ci =
    (if ci < nr_cis r \<and> bit m ci then (r_slice r ci)\<lparr>structure_value := s\<rparr> else r_slice r ci)"
  using assms by (rule void_frame_slices)

theorem void_frame_structures_witness:
  "structure_value (r_slice (snd (UFI_exec_void_frame 1 CI_SELECT_ALL_STRUCT CI_SELECT_ALL_FRAME (sample_rank []))) 0)
     = CI_SELECT_ALL_STRUCT"
proof -
  have "0 < nr_cis (sample_rank [])" by (simp add: sample_rank_simps)
  with void_frame_structures [OF sample_rank_wf, of 0 1 CI_SELECT_ALL_STRUCT CI_SELECT_ALL_FRAME "[]"]
  show ?thesis by simp
qed

section \<open>Selection\<close>

lemma select_loop_eq:
  assumes "distinct cis" and "\<forall>ci \<in> set cis. ci < length (slice_info (r_ci r)) \<and> ci < 8"
  shows "\<exists>sm d r'. fold (select_step sel ty k) cis (m, d0, r) = (sm, d, r')
    \<and> (\<forall>i. bit sm i \<longleftrightarrow> bit m i \<and> (i \<in> set cis \<longrightarrow> sel (r_slice r i)))
    \<and> (d \<longleftrightarrow> d0 \<or> (\<exists>i \<in> set cis. sel (r_slice r i) \<and> \<not> target_is ty k (r_slice r i)))
    \<and> (\<forall>i < length (slice_info (r_ci r)). r_slice r' i = (if i \<in> set cis \<and> sel (r_slice r i)
          then (r_slice r i)\<lparr>slice_target := \<lparr>target_type = ty, target_id = k\<rparr>\<rparr> else r_slice r i))
    \<and> ((\<exists>i \<in> set cis. sel (r_slice r i) \<and> \<not> target_is ty k (r_slice r i)) \<or> r' = r)"
  using assms
proof (induction cis arbitrary: m d0 r)
  case (Cons ci cis)
  let ?t = "\<lambda>s. s\<lparr>slice_target := \<lparr>target_type = ty, target_id = k\<rparr>\<rparr>"
  obtain m1 d1 r1 where st: "select_step sel ty k ci (m, d0, r) = (m1, d1, r1)" by (metis prod_cases3)
  have same: "?t s = s" if "target_is ty k s" for s
    using that by (cases "slice_target s") (simp add: target_is_def flip: surjective)
  have m1: "bit m1 i \<longleftrightarrow> bit m i \<and> (i = ci \<longrightarrow> sel (r_slice r ci))" for i
    using st Cons.prems(2) bit_imp_le_length [of m i]
    by (auto simp: select_step_def Let_def bit_and_iff split: if_splits)
  have d1: "d1 \<longleftrightarrow> d0 \<or> (sel (r_slice r ci) \<and> \<not> target_is ty k (r_slice r ci))"
    using st by (auto simp: select_step_def Let_def split: if_splits)
  have r1: "i < length (slice_info (r_ci r)) \<Longrightarrow> r_slice r1 i = (if i = ci \<and> sel (r_slice r ci) then ?t (r_slice r i) else r_slice r i)"
    and len: "length (slice_info (r_ci r1)) = length (slice_info (r_ci r))" for i
    using st by (auto simp: select_step_def Let_def set_target_def r_slice_upd_slice same split: if_splits)
  have r1r: "(sel (r_slice r ci) \<and> \<not> target_is ty k (r_slice r ci)) \<or> r1 = r"
    using st by (auto simp: select_step_def Let_def split: if_splits)
  have old: "r_slice r1 i = r_slice r i" if "i \<in> set cis" for i
    using that Cons.prems r1 [of i] by auto
  have "distinct cis" "\<forall>i \<in> set cis. i < length (slice_info (r_ci r1)) \<and> i < 8"
    using Cons.prems len by auto
  from Cons.IH [OF this, of m1 d1] obtain sm d r' where
    step: "fold (select_step sel ty k) cis (m1, d1, r1) = (sm, d, r')"
    "\<forall>i. bit sm i \<longleftrightarrow> bit m1 i \<and> (i \<in> set cis \<longrightarrow> sel (r_slice r1 i))"
    "d \<longleftrightarrow> d1 \<or> (\<exists>i \<in> set cis. sel (r_slice r1 i) \<and> \<not> target_is ty k (r_slice r1 i))"
    "\<forall>i < length (slice_info (r_ci r1)). r_slice r' i = (if i \<in> set cis \<and> sel (r_slice r1 i) then ?t (r_slice r1 i) else r_slice r1 i)"
    "(\<exists>i \<in> set cis. sel (r_slice r1 i) \<and> \<not> target_is ty k (r_slice r1 i)) \<or> r' = r1" by blast
  show ?case
  proof (intro exI conjI)
    show "fold (select_step sel ty k) (ci # cis) (m, d0, r) = (sm, d, r')" using st step(1) by simp
    show "\<forall>i. bit sm i \<longleftrightarrow> bit m i \<and> (i \<in> set (ci # cis) \<longrightarrow> sel (r_slice r i))"
      using step(2) m1 old by auto
    show "d \<longleftrightarrow> d0 \<or> (\<exists>i \<in> set (ci # cis). sel (r_slice r i) \<and> \<not> target_is ty k (r_slice r i))"
      using step(3) d1 old by auto
    show "\<forall>i < length (slice_info (r_ci r)). r_slice r' i = (if i \<in> set (ci # cis) \<and> sel (r_slice r i)
        then ?t (r_slice r i) else r_slice r i)"
      using step(4) len r1 old Cons.prems by auto
    show "(\<exists>i \<in> set (ci # cis). sel (r_slice r i) \<and> \<not> target_is ty k (r_slice r i)) \<or> r' = r"
      using step(5) r1r old by auto
  qed
qed simp

lemma select_spec:
  assumes wf: "rank_wf r"
    and run: "(case select_loop sel ty k m r of (sm, d, r1) \<Rightarrow> select_frame d sm s f r1) = (Ret m', r')"
  shows "(\<forall>i. bit m' i \<longleftrightarrow> bit m i \<and> (i < nr_cis r \<longrightarrow> sel (r_slice r i)))
    \<and> (\<forall>i < 8. slice_target (r_slice r' i) = (if i < nr_cis r \<and> bit m i \<and> sel (r_slice r i)
         then \<lparr>target_type = ty, target_id = k\<rparr> else slice_target (r_slice r i)))"
proof -
  have cis: "\<forall>ci \<in> set (ci_list r m). ci < length (slice_info (r_ci r)) \<and> ci < 8"
    using ci_list_lt [OF wf] rank_wfD(4) [OF wf] by simp
  obtain sm d r1 where loop: "select_loop sel ty k m r = (sm, d, r1)" by (metis prod_cases3)
  then have sm: "\<forall>i. bit sm i \<longleftrightarrow> bit m i \<and> (i \<in> set (ci_list r m) \<longrightarrow> sel (r_slice r i))"
    and r1: "\<forall>i < 8. r_slice r1 i = (if i \<in> set (ci_list r m) \<and> sel (r_slice r i)
          then (r_slice r i)\<lparr>slice_target := \<lparr>target_type = ty, target_id = k\<rparr>\<rparr> else r_slice r i)"
    using select_loop_eq [OF distinct_ci_list cis, of sel ty k m False] rank_wfD(4) [OF wf]
    by (auto simp: select_loop_def)
  have wf1: "rank_wf r1" using wf.I_select_loop [OF wf, of sel ty k m] loop by simp
  have m': "m' = sm" and r': "r' = (if d then snd (UFI_exec_void_frame sm s f r1) else r1)"
    using run loop by (auto simp: select_frame_def FF_Ret_iff split: if_splits)
  have "slice_target (r_slice r' i) = slice_target (r_slice r1 i)" if "i < 8" for i
    using void_frame_slices [OF wf1 that] by (simp add: r')
  with sm r1 m' show ?thesis using ci_list_iff [OF wf] by auto
qed

lemma select_cached:
  assumes wf: "rank_wf r"
    and "\<forall>ci \<in> set (ci_list r m). sel (r_slice r ci) \<longrightarrow> target_is ty k (r_slice r ci)"
  shows "\<exists>m'. (case select_loop sel ty k m r of (sm, d, r1) \<Rightarrow> select_frame d sm s f r1) = (Ret m', r)"
proof -
  have cis: "\<forall>ci \<in> set (ci_list r m). ci < length (slice_info (r_ci r)) \<and> ci < 8"
    using ci_list_lt [OF wf] rank_wfD(4) [OF wf] by simp
  obtain sm where "select_loop sel ty k m r = (sm, False, r)"
    using select_loop_eq [OF distinct_ci_list cis, of sel ty k m False] assms(2) unfolding select_loop_def by auto
  then show ?thesis by (simp add: select_frame_def)
qed

text \<open>
  C24: When \<open>ufi_select_dpu\<close> succeeds, the mask it returns drops exactly the CIs on which the DPU is
  not enabled; the others now target that DPU, and the dropped and unselected ones keep their target.
\<close>

theorem select_dpu_spec:
  assumes "rank_wf r" and "ufi_select_dpu m d r = (Ret m', r')"
  shows "(\<forall>ci. bit m' ci \<longleftrightarrow> bit m ci \<and> (ci < nr_cis r \<longrightarrow> bit (enabled_dpus (r_slice r ci)) d))
    \<and> (\<forall>ci < 8. slice_target (r_slice r' ci) = (if ci < nr_cis r \<and> bit m' ci
         then \<lparr>target_type = DPU_SLICE_TARGET_DPU, target_id = d\<rparr> else slice_target (r_slice r ci)))"
  using select_spec [OF assms(1) assms(2) [unfolded ufi_select_dpu_def]]
  by (simp add: and_bit_of_eq_0_iff)

text \<open>
  Selecting a DPU that is already the target of every CI where it is enabled sends nothing:
  the call succeeds and leaves the rank as it is.
\<close>

theorem select_dpu_cached:
  assumes "rank_wf r"
    and "\<forall>ci < nr_cis r. bit m ci \<and> bit (enabled_dpus (r_slice r ci)) d \<longrightarrow> target_is DPU_SLICE_TARGET_DPU d (r_slice r ci)"
  shows "\<exists>m'. ufi_select_dpu m d r = (Ret m', r)"
  unfolding ufi_select_dpu_def
  by (rule select_cached [OF assms(1)])
     (use assms(2) in \<open>simp add: ci_list_iff [OF assms(1)] and_bit_of_eq_0_iff\<close>)

theorem select_dpu_cached_witness: "\<exists>m'. ufi_select_dpu 1 9 (sample_rank []) = (Ret m', sample_rank [])"
  by (rule select_dpu_cached [OF sample_rank_wf])
     (auto simp: sample_rank_simps sample_slice_def)

text \<open>
  When \<open>ufi_select_group\<close> succeeds, the mask it returns drops exactly the CIs where the group is
  empty, and the others target the group.
\<close>

theorem select_group_spec:
  assumes "rank_wf r" and "ufi_select_group m g r = (Ret m', r')"
  shows "(\<forall>ci. bit m' ci \<longleftrightarrow> bit m ci \<and> (ci < nr_cis r \<longrightarrow> dpus_per_group (r_slice r ci) ! g \<noteq> 0))
    \<and> (\<forall>ci < 8. slice_target (r_slice r' ci) = (if ci < nr_cis r \<and> bit m' ci
         then \<lparr>target_type = DPU_SLICE_TARGET_GROUP, target_id = g\<rparr> else slice_target (r_slice r ci)))"
  using select_spec [OF assms(1) assms(2) [unfolded ufi_select_group_def]] by simp

section \<open>Groups\<close>

text \<open>Every DPU of every CI is in exactly one of the eight groups.\<close>

definition groups_partition :: "'w dpu_rank \<Rightarrow> bool" where
  "groups_partition r \<longleftrightarrow>
     (\<forall>ci < 8. \<forall>d < nr_dpus r. length (filter (\<lambda>g. bit g d) (dpus_per_group (r_slice r ci))) = 1)"

lemma move_to_group_bit:
  "g < length (dpus_per_group s) \<Longrightarrow> j < length (dpus_per_group s) \<Longrightarrow> d < 32 \<Longrightarrow>
    bit (dpus_per_group (move_to_group g m s) ! j) d \<longleftrightarrow>
      (if bit m d then j = g else bit (dpus_per_group s ! j) d)"
  by (auto simp: move_to_group_def Let_def nth_list_update bit_simps)

lemma filter_one_index:
  "length (filter P xs) = 1 \<longleftrightarrow> (\<exists>j < length xs. P (xs ! j) \<and> (\<forall>i < length xs. i \<noteq> j \<longrightarrow> \<not> P (xs ! i)))"
proof -
  have "length (filter P xs) = card {i. i < length xs \<and> P (xs ! i)}" by (rule length_filter_conv_card)
  also have "\<dots> = 1 \<longleftrightarrow> (\<exists>j. {i. i < length xs \<and> P (xs ! i)} = {j})" by (simp add: card_1_singleton_iff)
  also have "\<dots> \<longleftrightarrow> (\<exists>j < length xs. P (xs ! j) \<and> (\<forall>i < length xs. i \<noteq> j \<longrightarrow> \<not> P (xs ! i)))"
    by (auto simp: set_eq_iff)
  finally show ?thesis .
qed

lemma move_to_group_one:
  assumes "length (dpus_per_group s) = 8" "g < 8" "d < 8"
    and "length (filter (\<lambda>g. bit g d) (dpus_per_group s)) = 1"
  shows "length (filter (\<lambda>g. bit g d) (dpus_per_group (move_to_group g m s))) = 1"
proof (cases "bit m d")
  case True
  with assms(1-3) show ?thesis
    unfolding filter_one_index by (intro exI [of _ g]) (simp add: move_to_group_bit)
next
  case False
  with assms show ?thesis
    unfolding filter_one_index by (auto simp: move_to_group_bit)
qed

lemma reset_slice_one:
  "d < n \<Longrightarrow> n \<le> 8 \<Longrightarrow> length (filter (\<lambda>g. bit g d) (dpus_per_group (reset_slice n s))) = 1"
  by (simp add: reset_slice_def)

interpretation groups: ufi_group_frame "\<lambda>r. rank_wf r \<and> groups_partition r"
proof unfold_locales
  fix r :: "'w dpu_rank" and ci g :: nat and m :: u8
  assume r: "rank_wf r \<and> groups_partition r" and ci: "ci < 8" and g: "g < 8"
  have len: "length (slice_info (r_ci r)) = 8" "nr_dpus r \<le> 8" "\<forall>i < 8. length (dpus_per_group (r_slice r i)) = 8"
    using r by (simp_all add: rank_wfD)
  then show "rank_wf (upd_slice ci (move_to_group g m) r) \<and> groups_partition (upd_slice ci (move_to_group g m) r)"
    using r ci g wf.I_move [of r ci g m]
    by (auto simp: groups_partition_def r_slice_upd_slice intro!: move_to_group_one [simplified])
next
  fix r :: "'w dpu_rank" and ci :: nat
  assume r: "rank_wf r \<and> groups_partition r" and ci: "ci < 8"
  then show "rank_wf (upd_slice ci (reset_slice (nr_dpus r)) r)
      \<and> groups_partition (upd_slice ci (reset_slice (nr_dpus r)) r)"
    using rank_wfD(3,4) [of r]
    by (auto simp: rank_wf_reset_slice groups_partition_def r_slice_upd_slice intro!: reset_slice_one [simplified])
qed (auto simp: rank_wf_ctx wf.I_update wf.I_commit wf.I_data wf.I_ring wf.I_cmds wf.I_structure wf.I_target,
     auto simp: groups_partition_def set_structure_def r_slice_upd_slice rank_wfD)

text \<open>
  C27: \<open>ufi_write_group\<close> keeps the groups of every CI a partition of its DPUs, whatever its outcome.
\<close>

theorem write_group_partition:
  assumes "rank_wf r" and "groups_partition r" and "g < 8"
  shows "groups_partition (snd (ufi_write_group m g r))"
  using keepsD [OF groups.keeps_write_group [OF assms(3)], of r m] assms(1,2) by simp

lemma sample_rank_partition: "groups_partition (sample_rank w)"
proof -
  have "bit (0xFF :: u32) d" if "d < 8" for d using that by (subst bit_255_iff) simp
  then show ?thesis by (simp add: groups_partition_def sample_rank_simps) (simp add: sample_slice_def)
qed

theorem write_group_partition_witness: "groups_partition (snd (ufi_write_group 1 3 (sample_rank [])))"
  by (rule write_group_partition [OF sample_rank_wf sample_rank_partition]) simp

lemma write_group_loop:
  assumes "distinct cis" and "\<forall>ci \<in> set cis. ci < length (slice_info (r_ci r))"
    and "mfor cis (\<lambda>each_ci _. FF (ci_fill_selected_dpu_mask each_ci) (\<lambda>dpu_mask.
          modify (upd_slice each_ci (move_to_group g dpu_mask)))) () r = (Ret (), r')"
    and "ci \<in> set cis" "ci_fill_selected_dpu_mask ci r = (Ret dm, r)"
  shows "r_slice r' ci = move_to_group g dm (r_slice r ci)"
  using assms
proof (induction cis arbitrary: r)
  case (Cons i cis)
  let ?f = "\<lambda>each_ci (_ :: unit). FF (ci_fill_selected_dpu_mask each_ci) (\<lambda>dpu_mask.
          modify (upd_slice each_ci (move_to_group g dpu_mask)))"
  obtain dm1 where dm1: "ci_fill_selected_dpu_mask i r = (Ret dm1, r)"
    and rest: "mfor cis ?f () (upd_slice i (move_to_group g dm1) r) = (Ret (), r')"
  proof -
    from Cons.prems(3) obtain r1 where 1: "?f i () r = (Ret (), r1)" and 2: "mfor cis ?f () r1 = (Ret (), r')"
      unfolding mfor.simps by (auto simp: FF_Ret_iff)
    from 1 obtain dm1 s where 3: "ci_fill_selected_dpu_mask i r = (Ret dm1, s)"
      and 4: "modify (upd_slice i (move_to_group g dm1)) s = (Ret (), r1)" by (rule FF_RetE)
    have "s = r" using 3 fill_selected_state [of i r] by simp
    with 2 3 4 that show ?thesis by simp
  qed
  let ?r = "upd_slice i (move_to_group g dm1) r"
  have other: "r_slice ?r j = r_slice r j" if "j \<noteq> i" "j < length (slice_info (r_ci r))" for j
    using that by (simp add: r_slice_upd_slice)
  show ?case
  proof (cases "ci = i")
    case True
    then have "ci \<notin> set cis" "dm1 = dm" using Cons.prems(1,5) dm1 by auto
    have keep: "r_slice s ci = r_slice s0 ci" if "mfor js ?f () s0 = (Ret (), s)" "ci \<notin> set js" "ci < length (slice_info (r_ci s0))" for js s0 s
      using that
    proof (induction js arbitrary: s0)
      case (Cons j js)
      then obtain r1 where 1: "?f j () s0 = (Ret (), r1)" and 2: "mfor js ?f () r1 = (Ret (), s)"
        unfolding mfor.simps by (auto simp: FF_Ret_iff)
      from 1 obtain x y where 3: "ci_fill_selected_dpu_mask j s0 = (Ret x, y)"
        and 4: "modify (upd_slice j (move_to_group g x)) y = (Ret (), r1)" by (rule FF_RetE)
      have "y = s0" using 3 fill_selected_state [of j s0] by simp
      with 4 Cons.prems(2,3) have "r_slice r1 ci = r_slice s0 ci" "ci < length (slice_info (r_ci r1))"
        by (auto simp: r_slice_upd_slice)
      with Cons.IH [OF 2] Cons.prems(2) show ?case by simp
    qed simp
    from keep [OF rest] True \<open>ci \<notin> set cis\<close> \<open>dm1 = dm\<close> Cons.prems(2) show ?thesis by (simp add: r_slice_upd_slice)
  next
    case False
    then have ci: "ci \<in> set cis" "ci < length (slice_info (r_ci r))" using Cons.prems(2,4) by auto
    have fill: "ci_fill_selected_dpu_mask ci ?r = (Ret dm, ?r)"
      using Cons.prems(5) other [OF False ci(2)]
      by (auto simp: ci_fill_selected_dpu_mask_def Let_def split: dpu_slice_target_type.splits)
    have "r_slice r' ci = move_to_group g dm (r_slice ?r ci)"
    proof (rule Cons.IH [OF _ _ rest ci(1) fill])
      show "distinct cis" "\<forall>ci \<in> set cis. ci < length (slice_info (r_ci ?r))" using Cons.prems(1,2) by auto
    qed
    then show ?thesis using other [OF False ci(2)] by simp
  qed
qed simp

text \<open>
  C28: A successful \<open>ufi_write_group\<close> moves the DPUs that a selected CI targets to the given group
  and out of every other group, and leaves the other DPUs of that CI where they are.
\<close>

theorem write_group_spec:
  assumes "rank_wf r" and "g < 8" and "ufi_write_group m g r = (Ret (), r')"
    and "ci < nr_cis r" and "bit m ci" and "ci_fill_selected_dpu_mask ci r = (Ret dm, r)"
    and "j < 8" and "d < 32"
  shows "bit (dpus_per_group (r_slice r' ci) ! j) d \<longleftrightarrow>
    (if bit dm d then j = g else bit (dpus_per_group (r_slice r ci) ! j) d)"
proof -
  let ?f = "\<lambda>each_ci (_ :: unit). FF (ci_fill_selected_dpu_mask each_ci) (\<lambda>dpu_mask.
          modify (upd_slice each_ci (move_to_group g dpu_mask)))"
  obtain r1 where loop: "mfor (ci_list r m) ?f () r = (Ret (), r1)"
    and send: "UFI_exec_void_frame m CI_WRITE_GROUP_STRUCT (CI_WRITE_GROUP_FRAME (of_nat g)) r1 = (Ret (), r')"
    using assms(3) unfolding ufi_write_group_def by (auto simp: FF_Ret_iff)
  have ci: "ci \<in> set (ci_list r m)" "ci < 8" using assms(1,4,5) rank_wfD(2) [of r] by (simp_all add: ci_list_iff)
  have cis: "\<forall>ci \<in> set (ci_list r m). ci < length (slice_info (r_ci r))"
    using ci_list_lt [OF assms(1)] rank_wfD(4) [OF assms(1)] by simp
  have wf1: "rank_wf r1"
  proof -
    have "keeps rank_wf (mfor (ci_list r m) ?f ())"
      using ci_list_lt [OF assms(1)] assms(2)
      by (intro keeps_mfor_on keeps_FF keeps_snd_id keeps_modify wf.I_move fill_selected_state) blast+
    from keeps_eqD [OF this assms(1) loop] show ?thesis .
  qed
  have "dpus_per_group (r_slice r' ci) = dpus_per_group (r_slice r1 ci)"
    using void_frame_slices [OF wf1 ci(2), of m CI_WRITE_GROUP_STRUCT "CI_WRITE_GROUP_FRAME (of_nat g)"] send
    by (simp split: if_splits)
  also have "r_slice r1 ci = move_to_group g dm (r_slice r ci)"
    by (rule write_group_loop [OF distinct_ci_list cis loop ci(1) assms(6)])
  finally show ?thesis
    using move_to_group_bit [of g "r_slice r ci" j d dm] assms(2,7,8) rank_wfD(7) [OF assms(1) ci(2)] by simp
qed

section \<open>Selecting all DPUs\<close>

text \<open>What \<open>ufi_select_all\<close> wants of a CI: the target, or \<open>None\<close> when it drops the CI.\<close>

definition all_target :: "dpu_configuration_slice_info \<Rightarrow> dpu_slice_target option" where
  "all_target s =
     (if all_dpus_are_enabled s then Some ((slice_target s)\<lparr>target_type := DPU_SLICE_TARGET_ALL\<rparr>)
      else if target_is DPU_SLICE_TARGET_GROUP DPU_ENABLED_GROUP s then Some (slice_target s)
      else if enabled_dpus s \<noteq> 0
        then Some \<lparr>target_type = DPU_SLICE_TARGET_GROUP, target_id = DPU_ENABLED_GROUP\<rparr>
      else None)"

lemma put_frame_simps [simp]: "r_ci (put_frame ci f r) = r_ci r" "r_hw (put_frame ci f r) = r_hw r"
  by (simp_all add: put_frame_def)

lemma r_slice_set_target:
  "j < length (slice_info (r_ci r)) \<Longrightarrow>
    slice_target (r_slice (set_target ty k ci r) j) = (if j = ci then \<lparr>target_type = ty, target_id = k\<rparr> else slice_target (r_slice r j))"
  "j < length (slice_info (r_ci r)) \<Longrightarrow>
    slice_target (r_slice (set_target_all ci r) j) = (if j = ci then (slice_target (r_slice r j))\<lparr>target_type := DPU_SLICE_TARGET_ALL\<rparr>
       else slice_target (r_slice r j))"
  by (simp_all add: set_target_def set_target_all_def r_slice_upd_slice)

lemma select_all_fold:
  assumes "distinct cis" and "\<forall>ci \<in> set cis. ci < length (slice_info (r_ci r)) \<and> ci < 8"
    and "fold select_all_step cis (m, d0, ss0, r) = (sm, d, ss, r')"
  shows "(\<forall>i. bit sm i \<longleftrightarrow> bit m i \<and> (i \<in> set cis \<longrightarrow> all_target (r_slice r i) \<noteq> None))
    \<and> (\<forall>i < length (slice_info (r_ci r)). slice_target (r_slice r' i) =
         (if i \<in> set cis \<and> all_target (r_slice r i) \<noteq> None then the (all_target (r_slice r i))
          else slice_target (r_slice r i)))"
  using assms
proof (induction cis arbitrary: m d0 ss0 r)
  case (Cons ci cis)
  obtain m1 d1 s1 r1 where st: "select_all_step ci (m, d0, ss0, r) = (m1, d1, s1, r1)" by (metis prod_cases4)
  have ci: "ci < length (slice_info (r_ci r))" "ci < 8" using Cons.prems(2) by simp_all
  have m1: "bit m1 i \<longleftrightarrow> bit m i \<and> (i = ci \<longrightarrow> all_target (r_slice r ci) \<noteq> None)" for i
    using st ci bit_imp_le_length [of m i]
    by (auto simp: select_all_step_def Let_def all_target_def bit_and_iff split: if_splits)
  have len: "length (slice_info (r_ci r1)) = length (slice_info (r_ci r))"
    using st by (auto simp: select_all_step_def Let_def set_target_def set_target_all_def split: if_splits)
  have same: "s\<lparr>target_type := t\<rparr> = s" if "target_type s = t" for s t
    using that by (cases s) simp
  have at: "slice_target (r_slice r1 ci) = (if all_target (r_slice r ci) \<noteq> None then the (all_target (r_slice r ci))
      else slice_target (r_slice r ci))"
    using st ci by (auto simp: select_all_step_def Let_def all_target_def r_slice_set_target same split: if_splits)
  have other: "r_slice r1 i = r_slice r i" if "i \<noteq> ci" "i < length (slice_info (r_ci r))" for i
    using st that
    by (auto simp: select_all_step_def Let_def set_target_def set_target_all_def r_slice_upd_slice split: if_splits)
  have "distinct cis" "\<forall>i \<in> set cis. i < length (slice_info (r_ci r1)) \<and> i < 8"
    using Cons.prems len by auto
  from Cons.IH [OF this, of m1 d1 s1] Cons.prems(3) st
  have step: "\<forall>i. bit sm i \<longleftrightarrow> bit m1 i \<and> (i \<in> set cis \<longrightarrow> all_target (r_slice r1 i) \<noteq> None)"
    "\<forall>i < length (slice_info (r_ci r)). slice_target (r_slice r' i) =
         (if i \<in> set cis \<and> all_target (r_slice r1 i) \<noteq> None then the (all_target (r_slice r1 i))
          else slice_target (r_slice r1 i))"
    using len by auto
  have old: "r_slice r1 i = r_slice r i" if "i \<in> set cis" for i
    using that Cons.prems other [of i] by auto
  show ?case
  proof (intro conjI allI impI)
    fix i
    show "bit sm i \<longleftrightarrow> bit m i \<and> (i \<in> set (ci # cis) \<longrightarrow> all_target (r_slice r i) \<noteq> None)"
      using step(1) m1 old Cons.prems(1) by auto
  next
    fix i assume i: "i < length (slice_info (r_ci r))"
    show "slice_target (r_slice r' i) = (if i \<in> set (ci # cis) \<and> all_target (r_slice r i) \<noteq> None
        then the (all_target (r_slice r i)) else slice_target (r_slice r i))"
    proof (cases "i = ci")
      case True
      with Cons.prems(1) have "i \<notin> set cis" by simp
      with True at step(2) i show ?thesis by simp
    next
      case False
      with other [OF False i] step(2) [rule_format, OF i] show ?thesis
        by (cases "all_target (r_slice r i)") auto
    qed
  qed
qed simp

interpretation targets: ufi_frame "\<lambda>r. rank_wf r \<and> map slice_target (slice_info (r_ci r)) = ts" for ts
proof unfold_locales
  fix r :: "'w dpu_rank" and ci s
  assume r: "rank_wf r \<and> map slice_target (slice_info (r_ci r)) = ts" and ci: "(ci :: nat) < 8"
  then have "map slice_target ((slice_info (r_ci r))[ci := (r_slice r ci)\<lparr>structure_value := s\<rparr>])
      = map slice_target (slice_info (r_ci r))"
    by (simp add: map_update rank_wfD) (metis list_update_id nth_map rank_wfD(4))
  moreover have "rank_wf (set_structure ci s r)" using r ci wf.I_structure by blast
  ultimately show "rank_wf (set_structure ci s r) \<and> map slice_target (slice_info (r_ci (set_structure ci s r))) = ts"
    using r by (simp add: set_structure_def upd_slice_def)
qed (auto simp: rank_wf_ctx wf.I_update wf.I_commit wf.I_data wf.I_ring wf.I_cmds)

lemma select_all_mask:
  assumes "rank_wf r" and "ufi_select_all m r = (Ret m', r')"
  shows "bit m' ci \<longleftrightarrow> bit m ci \<and> (ci < nr_cis r \<longrightarrow> all_target (r_slice r ci) \<noteq> None)"
proof -
  have cis: "\<forall>ci \<in> set (ci_list r m). ci < length (slice_info (r_ci r)) \<and> ci < 8"
    using ci_list_lt [OF assms(1)] rank_wfD(4) [OF assms(1)] by simp
  obtain sm d ss r1 where loop: "fold select_all_step (ci_list r m) (m, False, ci_prepare_mask 0 0, r) = (sm, d, ss, r1)"
    by (metis prod_cases4)
  have "m' = sm" using assms(2) loop by (auto simp: ufi_select_all_def select_frames_def FF_Ret_iff split: if_splits)
  with select_all_fold [OF distinct_ci_list cis loop] ci_list_iff [OF assms(1), of ci m] show ?thesis by auto
qed

lemma select_all_targets:
  assumes "rank_wf r" and "ufi_select_all m r = (Ret m', r')"
  shows "(\<forall>ci. bit m' ci \<longleftrightarrow> bit m ci \<and> (ci < nr_cis r \<longrightarrow> all_dpus_are_enabled (r_slice r ci)
        \<or> enabled_dpus (r_slice r ci) \<noteq> 0 \<or> target_is DPU_SLICE_TARGET_GROUP DPU_ENABLED_GROUP (r_slice r ci)))
    \<and> (\<forall>ci < nr_cis r. bit m' ci \<longrightarrow>
         (if all_dpus_are_enabled (r_slice r ci) then target_type (slice_target (r_slice r' ci)) = DPU_SLICE_TARGET_ALL
          else target_is DPU_SLICE_TARGET_GROUP DPU_ENABLED_GROUP (r_slice r' ci)))"
proof -
  have cis: "\<forall>ci \<in> set (ci_list r m). ci < length (slice_info (r_ci r)) \<and> ci < 8"
    using ci_list_lt [OF assms(1)] rank_wfD(4) [OF assms(1)] by simp
  obtain sm d ss r1 where loop: "fold select_all_step (ci_list r m) (m, False, ci_prepare_mask 0 0, r) = (sm, d, ss, r1)"
    by (metis prod_cases4)
  note l = select_all_fold [OF distinct_ci_list cis loop]
  have wf1: "rank_wf r1"
  proof -
    have "\<forall>ci \<in> set (ci_list r m). ci < 8" using cis by blast
    moreover have "rank_wf (snd (snd (snd (select_all_step ci (m, d, ss, r)))))" if "rank_wf r" "ci < 8" for ci m d ss and r :: "'a dpu_rank"
      using that by (auto simp: select_all_step_def Let_def wf.I_set_target wf.I_set_target_all wf.I_put_frame)
    ultimately show ?thesis
      using wf.I_select_all_fold [of select_all_step "ci_list r m" r m False "ci_prepare_mask 0 0"] assms(1) loop by simp
  qed
  have run: "select_frames d sm ss r1 = (Ret m', r')" using assms(2) loop by (simp add: ufi_select_all_def)
  then have m': "m' = sm" by (auto simp: select_frames_def FF_Ret_iff split: if_splits)
  have "keeps (\<lambda>q. rank_wf q \<and> map slice_target (slice_info (r_ci q)) = map slice_target (slice_info (r_ci r1)))
      (select_frames d sm ss)"
    unfolding select_frames_def by (intro targets.keeps_exec keeps_if)
  from keepsD [OF this, of r1] run wf1
  have eq: "map slice_target (slice_info (r_ci r')) = map slice_target (slice_info (r_ci r1))" and "rank_wf r'" by simp_all
  have tgt: "slice_target (r_slice r' ci) = slice_target (r_slice r1 ci)" if "ci < 8" for ci
  proof -
    have "map slice_target (slice_info (r_ci r')) ! ci = map slice_target (slice_info (r_ci r1)) ! ci" using eq by simp
    then show ?thesis using that rank_wfD(4) [OF wf1] rank_wfD(4) [OF \<open>rank_wf r'\<close>] by simp
  qed
  show ?thesis
  proof (intro conjI allI impI)
    fix ci
    show "bit m' ci \<longleftrightarrow> bit m ci \<and> (ci < nr_cis r \<longrightarrow> all_dpus_are_enabled (r_slice r ci)
        \<or> enabled_dpus (r_slice r ci) \<noteq> 0 \<or> target_is DPU_SLICE_TARGET_GROUP DPU_ENABLED_GROUP (r_slice r ci))"
      using l m' ci_list_iff [OF assms(1), of ci m] by (auto simp: all_target_def)
  next
    fix ci assume ci: "ci < nr_cis r" "bit m' ci"
    then have lt: "ci < 8" using rank_wfD(2) [OF assms(1)] by simp
    have in_list: "ci \<in> set (ci_list r m)" "all_target (r_slice r ci) \<noteq> None"
      using l ci m' ci_list_iff [OF assms(1), of ci m] by auto
    with l lt tgt [OF lt] rank_wfD(4) [OF assms(1)]
    have "slice_target (r_slice r' ci) = the (all_target (r_slice r ci))" by simp
    then show "if all_dpus_are_enabled (r_slice r ci) then target_type (slice_target (r_slice r' ci)) = DPU_SLICE_TARGET_ALL
          else target_is DPU_SLICE_TARGET_GROUP DPU_ENABLED_GROUP (r_slice r' ci)"
      using in_list(2) by (auto simp: all_target_def target_is_def split: if_splits)
  qed
qed

text \<open>
  When \<open>ufi_select_all\<close> succeeds, the mask it returns drops exactly the selected CIs that have no
  enabled DPU and do not already target the group of enabled DPUs; a CI whose DPUs are all enabled
  then targets all of them, any other remaining CI targets the group of enabled DPUs. So a CI that
  lost its last DPU after a group selection is kept, unlike one that targets anything else.
\<close>

theorem select_all_spec:
  assumes "rank_wf r" and "ufi_select_all m r = (Ret m', r')"
  shows "(\<forall>ci. bit m' ci \<longleftrightarrow> bit m ci \<and> (ci < nr_cis r \<longrightarrow> all_dpus_are_enabled (r_slice r ci)
        \<or> enabled_dpus (r_slice r ci) \<noteq> 0 \<or> target_is DPU_SLICE_TARGET_GROUP DPU_ENABLED_GROUP (r_slice r ci)))
    \<and> (\<forall>ci < nr_cis r. bit m' ci \<longrightarrow>
         (if all_dpus_are_enabled (r_slice r ci) then target_type (slice_target (r_slice r' ci)) = DPU_SLICE_TARGET_ALL
          else target_is DPU_SLICE_TARGET_GROUP DPU_ENABLED_GROUP (r_slice r' ci)))"
  using assms by (rule select_all_targets)

end
