(* ===== verification/Ci_Live.thy ===== *)
theory Ci_Live
  imports Ci_Protocol Ufi_Select
begin

text \<open>
  Liveness: with a backend that answers, the frame interface does what it is asked. The contract
  \<open>responsive_backend\<close> states how control interfaces behave on the wire: a command flips the color
  in which a CI answers, a software reset sets it back to 0, and every poll shows the answer.
  \<open>live_handler\<close> is such a backend.
\<close>

section \<open>Software resets on the wire\<close>

text \<open>The command \<open>CI_SOFTWARE_RESET\<close>, whatever its argument byte.\<close>

definition resets :: "u64 \<Rightarrow> bool" where
  "resets c \<longleftrightarrow> c AND NOT 0xFF = 0x01FF00000000FF00"

lemma not_resets: "bit c 60 \<or> \<not> bit c 8 \<or> bit c 16 \<or> bit c 24 \<Longrightarrow> \<not> resets c"
proof
  assume or: "bit c 60 \<or> \<not> bit c 8 \<or> bit c 16 \<or> bit c 24" and "resets c"
  then have eq: "bit (c AND NOT 0xFF) k \<longleftrightarrow> bit (0x01FF00000000FF00 :: u64) k" for k by (simp add: resets_def)
  from eq [of 60] eq [of 8] eq [of 16] eq [of 24] or show False by (simp add: bit_and_iff bit_not_iff)
qed

lemma tagged_not_resets [simp]: "\<not> resets (ci_struct b0 b1 b2 b3 b4 b5)" "\<not> resets (ci_frame b0 b1 b2 b3 b4 b5 b6)"
  "\<not> resets CI_EMPTY"
  by (rule not_resets, simp add: ci_struct_def ci_frame_def CI_EMPTY_def bit_or_iff)+

lemma prepare_mask_not_resets: "\<not> resets d \<Longrightarrow> ci < 8 \<Longrightarrow> \<not> resets (ci_prepare_mask m d ! ci)"
  by (simp add: nth_prepare_mask)

lemmas command_defs = CI_SELECT_DPU_STRUCT_def CI_SELECT_DPU_FRAME_def CI_SELECT_GROUP_STRUCT_def CI_SELECT_GROUP_FRAME_def
  CI_SELECT_ALL_STRUCT_def CI_SELECT_ALL_FRAME_def CI_WRITE_GROUP_STRUCT_def CI_WRITE_GROUP_FRAME_def
  CI_DMA_CTRL_WRITE_STRUCT_def CI_DMA_CTRL_WRITE_FRAME_def CI_DMA_CTRL_CLEAR_STRUCT_def CI_DMA_CTRL_CLEAR_FRAME_def
  CI_CMD_BUS_CONFIG_DURATION_STRUCT_def CI_CMD_BUS_CONFIG_DURATION_FRAME_def CI_CMD_BUS_CONFIG_SAMPLING_STRUCT_def
  CI_CMD_BUS_CONFIG_SAMPLING_FRAME_def CI_CMD_BUS_SYNC_STRUCT_def CI_CMD_BUS_SYNC_FRAME_def
  CI_RES_BUS_CONFIG_DURATION_STRUCT_def CI_RES_BUS_CONFIG_DURATION_FRAME_def CI_RES_BUS_SYNC_STRUCT_def
  CI_RES_BUS_SYNC_FRAME_def ci_dma_ctrl_write_frame_def Let_def

text \<open>Every command keeps the frames the host has built.\<close>

interpretation cmds: ci_exec_frame "\<lambda>r. rank_wf r \<and> r_cmds r = k" for k
  by unfold_locales (auto simp: rank_wf_ctx wf.I_update wf.I_commit wf.I_data wf.I_ring)

locale responsive_backend =
  fixes h :: "'w dpu_rank_handler"
    and colors :: "'w \<Rightarrow> u8"
  assumes commit_ok: "\<exists>w'. commit_commands h c w = (DPU_RANK_SUCCESS, w')
      \<and> (\<forall>ci < 8. bit (colors w') ci \<longleftrightarrow> \<not> resets (c ! ci) \<and> (bit (colors w) ci \<noteq> (c ! ci \<noteq> CI_EMPTY)))"
    and update_ok: "\<exists>b' w'. update_commands h b w = (DPU_RANK_SUCCESS, b', w') \<and> colors w' = colors w
      \<and> length b' = length b"
    and answers: "update_commands h b w = (st, b', w') \<Longrightarrow> length b = 8 \<Longrightarrow> ci < 8 \<Longrightarrow>
      result_present (b' ! ci) 0x000000FF00000000 0xFF0000FF00000000 \<and> color_distance (b' ! ci) (\<not> bit (colors w) ci) \<le> 3"
begin

lemma update_facts:
  assumes "update_commands h b w = (st, b', w')"
  shows "st = DPU_RANK_SUCCESS" "colors w' = colors w" "length b' = length b"
  using assms update_ok [of b w] by auto

lemma commit_facts:
  assumes "commit_commands h c w = (st, w')"
  shows "st = DPU_RANK_SUCCESS"
    "\<forall>ci < 8. bit (colors w') ci \<longleftrightarrow> \<not> resets (c ! ci) \<and> (bit (colors w) ci \<noteq> (c ! ci \<noteq> CI_EMPTY))"
  using assms commit_ok [of c w] by auto

text \<open>The host and the CIs agree on the color of the next answer, and no reset is left among the frames.\<close>

definition live :: "'w dpu_rank \<Rightarrow> bool" where
  "live r \<longleftrightarrow> rank_wf r \<and> r_handler r = h \<and> (\<forall>ci < nr_cis r. bit (colors (r_world r)) ci \<longleftrightarrow> bit (color (r_ci r)) ci)
     \<and> (\<forall>ci < 8. \<not> resets (r_cmds r ! ci))"

lemma poll_success: "length d = 8 \<Longrightarrow> poll_status h j d w = DPU_RANK_SUCCESS \<and> length (poll_data h j d w) = 8
    \<and> colors (poll_world h j d w) = colors w"
proof (induction j arbitrary: d w)
  case 0
  then show ?case using update_facts by (cases "update_commands h d w") (auto simp: poll_defs)
next
  case (Suc j)
  obtain st d' w' where up: "update_commands h d w = (st, d', w')" by (metis prod_cases3)
  from Suc.IH [of d' w'] update_facts [OF up] Suc.prems up show ?case by (simp add: poll_defs)
qed

sublocale polling: ci_poll_frame "\<lambda>r. rank_wf r \<and> r_handler r = h \<and> r_hw r = hw \<and> color (r_ci r) = c \<and> colors (r_world r) = s"
  for hw c s
  by unfold_locales (auto simp: rank_wf_ctx wf.I_update wf.I_data wf.I_ring update_facts)

text \<open>
  A command whose masks ask for no more than what the CIs show succeeds. \<open>w\<close> is the world after the
  command.
\<close>

lemma live_exec_cmd:
  assumes live: "live r" and no: "\<forall>ci < 8. \<not> resets (c ! ci)"
    and m: "compute_masks c sel r = (Ret m, r)" "ms_cis m = compute_ci_mask (nr_cis r) c"
    and fits: "\<And>w b b' w' st ci. commit_commands h c (r_world r) = (DPU_RANK_SUCCESS, w) \<Longrightarrow>
      update_commands h b w = (st, b', w') \<Longrightarrow> length b = 8 \<Longrightarrow> ci < nr_cis r \<Longrightarrow>
      ms_is_done m ! ci \<or> c ! ci \<noteq> CI_EMPTY \<and> result_present (b' ! ci) (expected_results m ! ci) (result_masks m ! ci)"
  shows "\<exists>t. exec_cmd c sel r = (Ret (), t) \<and> live t"
proof -
  from live have wf: "rank_wf r" and h: "r_handler r = h" and len: "length (r_data r) = 8" by (simp_all add: live_def rank_wfD)
  obtain w where commit: "commit_commands h c (r_world r) = (DPU_RANK_SUCCESS, w)"
    and w: "\<forall>ci < 8. bit (colors w) ci \<longleftrightarrow> (bit (colors (r_world r)) ci \<noteq> (c ! ci \<noteq> CI_EMPTY))"
    using commit_ok [of c "r_world r"] no by auto
  have polls: "\<forall>j. poll_status (r_handler r) j (r_data r) w = DPU_RANK_SUCCESS" using poll_success [OF len] h by blast
  have bits: "bit (colors w) ci \<longleftrightarrow> (bit (color (r_ci r)) ci \<noteq> (commands_nonempty))"
    if "ci < nr_cis r" "commands_nonempty \<longleftrightarrow> c ! ci \<noteq> CI_EMPTY" for ci commands_nonempty
    using live that rank_wfD(2) [OF wf] w by (simp add: live_def)
  have "\<exists>r'. exec_cmd c sel r = (Ret (), r')"
  proof (rule exec_cmd_answers [OF wf m _ polls, where k = 0])
    fix ci assume ci: "ci < nr_cis r"
    obtain st d' w' where up: "update_commands h (r_data r) w = (st, d', w')" by (metis prod_cases3)
    from fits [OF commit up len ci] answers [OF up len, of ci] bits [OF ci] up h ci rank_wfD(2) [OF wf]
    show "ms_is_done m ! ci \<or> c ! ci \<noteq> CI_EMPTY
        \<and> result_present (poll_data (r_handler r) 0 (r_data r) w ! ci) (expected_results m ! ci) (result_masks m ! ci)
        \<and> color_distance (poll_data (r_handler r) 0 (r_data r) w ! ci) (bit (color (r_ci r)) ci) \<le> 3"
      by (auto simp: poll_defs)
  qed (use commit h in simp_all)
  then obtain r' where run: "exec_cmd c sel r = (Ret (), r')" by blast
  define P where "P q \<longleftrightarrow> rank_wf q \<and> r_handler q = h \<and> r_hw q = r_hw r \<and> color (r_ci q) = color (r_ci r) XOR ms_cis m \<and> colors (r_world q) = colors w"
    for q :: "'w dpu_rank"
  let ?r0 = "invert_color (ms_cis m) r"
  have wf0: "rank_wf ?r0" using wf by (rule wf.I_invert_color)
  have c0: "commit_commands (r_handler ?r0) c (r_world ?r0) = (DPU_RANK_SUCCESS, w)"
    using commit h by (simp add: invert_color_def upd_ctx_def)
  have "P (snd (ci_commit_commands c ?r0))"
  proof -
    have "rank_wf (snd (ci_commit_commands c ?r0))" using wf.keeps_commit wf0 by (rule keepsD)
    moreover from commit_success [OF c0] obtain r1 where "ci_commit_commands c ?r0 = (Ret (), r1)" "r_world r1 = w"
      "r_handler r1 = r_handler ?r0" "r_hw r1 = r_hw ?r0" by blast
    moreover have "color (r_ci (snd (ci_commit_commands c ?r0))) = color (r_ci r) XOR ms_cis m"
      using keepsD [OF color.keeps_commit, of ?r0 "color (r_ci r) XOR ms_cis m" c] wf0 by (simp add: invert_color_def upd_ctx_def)
    ultimately show ?thesis using h by (simp add: P_def invert_color_def upd_ctx_def)
  qed
  moreover have "keeps P (FF (exec_wait n mm ec isd) (\<lambda>_ r.
      if \<not> is_chip_v1_4 r then FF (ci_update_commands store_data (r_data r)) (\<lambda>_. ok ()) r else ok () r))" for n mm ec isd
    unfolding P_def by (intro keeps_FF polling.keeps_exec_wait polling.keeps_reread)
  ultimately have "P (snd (FF (ci_commit_commands c) (\<lambda>_. FF (exec_wait n mm ec isd) (\<lambda>_ r.
      if \<not> is_chip_v1_4 r then FF (ci_update_commands store_data (r_data r)) (\<lambda>_. ok ()) r else ok () r)) ?r0))" for n mm ec isd
    unfolding FF_def [of "ci_commit_commands c"]
    by (cases "ci_commit_commands c ?r0"; cases "fst (ci_commit_commands c ?r0)") (simp_all add: keepsD)
  then have "P (snd (exec_cmd c sel r))"
    unfolding exec_cmd_def Let_def FF_def [of "compute_masks c sel"] m(1) by simp
  with run have "P r'" by simp
  moreover have "r_cmds r' = r_cmds r"
    using keepsD [OF cmds.keeps_exec_cmd, of r "r_cmds r" c sel] wf run by simp
  ultimately have "live r'"
    using live unfolding live_def P_def m(2)
    using bits by (auto simp: bit_xor_iff bit_compute_ci_mask dest: rank_wfD(2))
  with run show ?thesis by blast
qed

lemma live_exec_plain:
  assumes no: "\<forall>ci < 8. \<not> resets (c ! ci)"
  shows "succeeds live (exec_cmd c False)"
proof (rule succeedsI)
  fix r assume live: "live r"
  then have le: "nr_cis r \<le> 8" by (simp add: live_def rank_wfD)
  from live have "\<exists>t. exec_cmd c False r = (Ret (), t) \<and> live t"
  proof (rule live_exec_cmd [OF _ no compute_masks_no_select ms_cis_masks_of])
    fix w b b' w' st ci assume up: "update_commands h b w = (st, b', w')" "length b = 8" and ci: "ci < nr_cis r"
    from answers [OF up, of ci] masks_of_nth [OF ci le, of c] ci le
    show "ms_is_done (masks_of (nr_cis r) c) ! ci \<or> c ! ci \<noteq> CI_EMPTY
      \<and> result_present (b' ! ci) (expected_results (masks_of (nr_cis r) c) ! ci) (result_masks (masks_of (nr_cis r) c) ! ci)"
      by auto
  qed
  then show "\<exists>x t. exec_cmd c False r = (Ret x, t) \<and> live t" by blast
qed

lemma live_exec_void: "\<forall>ci < 8. \<not> resets (c ! ci) \<Longrightarrow> succeeds live (ci_exec_void_cmd c)"
  unfolding ci_exec_void_cmd_def by (rule live_exec_plain)

lemma live_frame:
  "live r \<Longrightarrow> rank_wf (f r) \<Longrightarrow> r_handler (f r) = r_handler r \<Longrightarrow> r_world (f r) = r_world r \<Longrightarrow> r_hw (f r) = r_hw r
    \<Longrightarrow> color (r_ci (f r)) = color (r_ci r) \<Longrightarrow> (\<forall>ci < 8. \<not> resets (r_cmds (f r) ! ci)) \<Longrightarrow> live (f r)"
  by (simp add: live_def)

lemma live_wf: "live r \<Longrightarrow> rank_wf r"
  by (simp add: live_def)

lemma live_cmds: "live r \<Longrightarrow> ci < 8 \<Longrightarrow> \<not> resets (r_cmds r ! ci)"
  by (simp add: live_def)

lemma live_prepare: "\<not> resets d \<Longrightarrow> live r \<Longrightarrow> live (prepare_cmds m d r)"
  by (rule live_frame) (simp_all add: wf.I_prepare live_wf, simp_all add: prepare_cmds_def prepare_mask_not_resets)

lemma live_fill: "(\<And>ci. \<not> resets (f ci)) \<Longrightarrow> live r \<Longrightarrow> live (fill_cmds m f r)"
  by (rule live_frame) (simp_all add: wf.I_fill live_wf, simp_all add: fill_cmds_def nth_fold_update rank_wfD(5) live_wf live_cmds)

lemma live_structure: "live r \<Longrightarrow> ci < 8 \<Longrightarrow> live (set_structure ci s r)"
  by (rule live_frame) (simp_all add: wf.I_structure live_wf, simp_all add: set_structure_def live_cmds)

lemma live_target: "live r \<Longrightarrow> ci < 8 \<Longrightarrow> live (set_target ty k ci r)"
  by (rule live_frame) (simp_all add: wf.I_set_target live_wf, simp_all add: set_target_def live_cmds)

lemma live_exec_cmds: "succeeds live exec_cmds_void"
proof (rule succeedsI)
  fix r assume r: "live r"
  then have "\<forall>ci < 8. \<not> resets (r_cmds r ! ci)" by (simp add: live_def)
  from live_exec_void [OF this] r show "\<exists>x t. exec_cmds_void r = (Ret x, t) \<and> live t"
    unfolding exec_cmds_void_def by (rule succeedsE) blast
qed

lemma live_send: "\<not> resets d \<Longrightarrow> succeeds live (FF (modify (prepare_cmds m d)) (\<lambda>_. exec_cmds_void))"
  by (intro succeeds_FF succeeds_modify live_prepare live_exec_cmds)

lemma live_write_structure:
  assumes s: "\<not> resets s"
  shows "succeeds live (UFI_exec_write_structure m s)"
proof (rule succeedsI)
  fix r assume r: "live r"
  let ?f = "\<lambda>each_ci (do_write, r). if structure_value (r_slice r each_ci) \<noteq> s
    then (True, set_structure each_ci s r) else (do_write, r)"
  obtain d r1 where f: "fold ?f (ci_list r m) (False, r) = (d, r1)" by (rule prod.exhaust)
  have "live (snd (fold ?f (ci_list r m) (False, r)))"
    using r by (rule fold_invariant_snd) (auto intro: live_structure ci_list_lt [OF live_wf [OF r]])
  with f have "live r1" by simp
  then show "\<exists>x t. UFI_exec_write_structure m s r = (Ret x, t) \<and> live t"
    unfolding UFI_exec_write_structure_def f using succeedsE [OF live_send [OF s, of m]] by (cases d) fastforce+
qed

lemma live_void_frame: "\<not> resets s \<Longrightarrow> \<not> resets f \<Longrightarrow> succeeds live (UFI_exec_void_frame m s f)"
  unfolding UFI_exec_void_frame_def by (intro succeeds_FF live_write_structure live_send)

lemma live_fill_and_exec: "(\<And>ci. \<not> resets (f ci)) \<Longrightarrow> succeeds live (fill_and_exec m f)"
  unfolding fill_and_exec_def by (intro succeeds_FF succeeds_modify live_fill live_exec_cmds)

lemmas live_exec = succeeds_FF succeeds_ok live_void_frame live_fill_and_exec live_write_structure live_exec_cmds
  succeeds_modify live_prepare

lemma live_select_frame: "\<not> resets s \<Longrightarrow> \<not> resets f \<Longrightarrow> succeeds live (select_frame d sm s f)"
  unfolding select_frame_def by (intro live_exec succeeds_if)

lemma live_select_loop: "live r \<Longrightarrow> live (snd (snd (select_loop sel ty k m r)))"
proof -
  assume r: "live r"
  have "live (snd (snd (fold (select_step sel ty k) cis (m0, d0, r))))"
    if "\<forall>ci \<in> set cis. ci < 8" "live r" for cis m0 d0 and r :: "'w dpu_rank"
    using that
  proof (induction cis arbitrary: m0 d0 r)
    case (Cons ci cis)
    obtain m1 d1 r1 where st: "select_step sel ty k ci (m0, d0, r) = (m1, d1, r1)" by (metis prod_cases3)
    with Cons.prems have "live r1" by (auto simp: select_step_def Let_def live_target split: if_splits)
    with Cons st show ?case by simp
  qed simp
  then show ?thesis unfolding select_loop_def using r ci_list_lt [OF live_wf [OF r]] by blast
qed

lemma live_select:
  "succeeds live (ufi_select_dpu m d)" "succeeds live (ufi_select_group m g)"
  "succeeds live (ufi_select_dpu_even_disabled m d)"
proof -
  have *: "succeeds live (\<lambda>r. case select_loop sel ty k m r of (sm, d, r') \<Rightarrow> select_frame d sm s f r')"
    if s: "\<not> resets s" "\<not> resets f" for sel ty k s f
  proof (rule succeedsI)
    fix r assume r: "live r"
    obtain sm d r' where l: "select_loop sel ty k m r = (sm, d, r')" by (metis prod_cases3)
    with live_select_loop [OF r, of sel ty k m] have "live r'" by simp
    with live_select_frame [OF s, of d sm] l
    show "\<exists>x t. (case select_loop sel ty k m r of (sm, d, r') \<Rightarrow> select_frame d sm s f r') = (Ret x, t) \<and> live t"
      by (simp add: succeeds_def)
  qed
  show "succeeds live (ufi_select_dpu m d)" "succeeds live (ufi_select_group m g)"
    "succeeds live (ufi_select_dpu_even_disabled m d)"
    unfolding ufi_select_dpu_def ufi_select_group_def ufi_select_dpu_even_disabled_def by (rule *, simp_all add: command_defs)+
qed

lemma bit_u8: "8 \<le> n \<Longrightarrow> \<not> bit (ucast (x :: u8) :: u64) n"
  by (auto simp: bit_ucast_iff dest: bit_imp_le_length)

lemma config_not_resets: "\<not> resets (CI_CMD_DURATION_FUTUR x)" "\<not> resets (CI_RES_DURATION_FUTUR x)"
  "\<not> resets (CI_RES_SAMPLING_FUTUR x)" "\<not> resets (CI_THERMAL_CONFIG x)" "\<not> resets CI_IDENTITY" "\<not> resets CI_BYTE_ORDER"
  by (rule not_resets, simp add: CI_CMD_DURATION_FUTUR_def CI_RES_DURATION_FUTUR_def CI_RES_SAMPLING_FUTUR_def
    CI_THERMAL_CONFIG_def CI_IDENTITY_def CI_BYTE_ORDER_def bit_or_iff)+

lemma live_carousel: "succeeds live (ufi_carousel_config m c)"
  unfolding ufi_carousel_config_def
  by (intro live_exec; simp add: command_defs config_not_resets)

lemma live_dma_ctrl: "succeeds live (ufi_write_dma_ctrl m a d)" "succeeds live (ufi_write_dma_ctrl_datas m a ds)"
  "succeeds live (ufi_clear_dma_ctrl m)"
  unfolding ufi_write_dma_ctrl_def ufi_write_dma_ctrl_datas_def ufi_clear_dma_ctrl_def by (intro live_exec; simp add: command_defs)+

lemma live_mram_mux: "succeeds live (ufi_set_mram_mux m pos)"
proof -
  have "succeeds live (FF (ufi_write_dma_ctrl_datas m 0x80 v) (\<lambda>_. FF (ufi_write_dma_ctrl m 0x81 0) (\<lambda>_.
      FF (ufi_write_dma_ctrl_datas m 0x82 v) (\<lambda>_. FF (ufi_write_dma_ctrl_datas m 0x84 v) (\<lambda>_.
      ufi_clear_dma_ctrl m)))))" for v
    by (intro succeeds_FF live_dma_ctrl)
  then show ?thesis unfolding ufi_set_mram_mux_def Let_def by (simp add: succeeds_def)
qed

lemma live_write_group:
  assumes "g < 8" and live: "live r"
    and targets: "\<forall>ci < nr_cis r. bit m ci \<longrightarrow> target_type (slice_target (r_slice r ci)) \<noteq> DPU_SLICE_TARGET_NONE"
  shows "\<exists>r'. ufi_write_group m g r = (Ret (), r') \<and> live r'"
proof -
  let ?cis = "ci_list r m"
  let ?P = "\<lambda>q. live q \<and> (\<forall>ci \<in> set ?cis. target_type (slice_target (r_slice q ci)) \<noteq> DPU_SLICE_TARGET_NONE)"
  let ?f = "\<lambda>each_ci (_ :: unit). FF (ci_fill_selected_dpu_mask each_ci) (\<lambda>dm. modify (upd_slice each_ci (move_to_group g dm)))"
  have lt: "ci < 8" if "ci \<in> set ?cis" for ci using that ci_list_lt [OF live_wf [OF live]] by blast
  have move: "?P (upd_slice ci (move_to_group g dm) q)" if "?P q" "ci \<in> set ?cis" for q ci dm
  proof -
    have "live (upd_slice ci (move_to_group g dm) q)"
      using that lt assms(1) live_wf [of q]
      by (intro live_frame [where f = "upd_slice ci (move_to_group g dm)"]) (simp_all add: wf.I_move live_cmds)
    moreover have "slice_target (move_to_group g dm s) = slice_target s" for s
      by (simp add: move_to_group_def Let_def)
    ultimately show ?thesis
      using that lt rank_wfD(4) [OF live_wf, of q] by (auto simp: r_slice_upd_slice)
  qed
  have step: "succeeds ?P (?f ci u)" if ci: "ci \<in> set ?cis" for ci and u :: unit
  proof (rule succeedsI)
    fix q assume q: "?P q"
    with ci obtain dm where "ci_fill_selected_dpu_mask ci q = (Ret dm, q)"
      by (cases "target_type (slice_target (r_slice q ci))") (auto simp: ci_fill_selected_dpu_mask_def Let_def)
    with move [OF q ci, of dm] show "\<exists>x t. ?f ci u q = (Ret x, t) \<and> ?P t" by (simp add: FF_def)
  qed
  have "succeeds ?P (mfor ?cis ?f ())" using step by (rule succeeds_mfor)
  moreover have "?P r" using live targets ci_list_iff [OF live_wf [OF live]] by auto
  ultimately obtain u r1 where loop: "mfor ?cis ?f () r = (Ret u, r1)" and "?P r1" by (rule succeedsE)
  then have "live r1" by blast
  have g: "\<not> resets CI_WRITE_GROUP_STRUCT" "\<not> resets (CI_WRITE_GROUP_FRAME (of_nat g))" by (simp_all add: command_defs)
  from live_void_frame [OF g] \<open>live r1\<close> obtain v r2 where "UFI_exec_void_frame m CI_WRITE_GROUP_STRUCT (CI_WRITE_GROUP_FRAME (of_nat g)) r1 = (Ret v, r2)"
    and "live r2" by (rule succeedsE)
  with loop show ?thesis unfolding ufi_write_group_def by (auto simp: FF_def)
qed

lemma live_exec_frames:
  assumes ss: "\<forall>ci < 8. \<not> resets (ss ! ci)"
  shows "succeeds live (UFI_exec_void_frames m ss)"
proof (rule succeedsI)
  fix r assume r: "live r"
  let ?f = "\<lambda>each_ci (do_write, r). if ss ! each_ci \<noteq> CI_EMPTY \<and> structure_value (r_slice r each_ci) \<noteq> ss ! each_ci
    then (True, set_structure each_ci (ss ! each_ci) r) else (do_write, r)"
  obtain d r1 where f: "fold ?f (ci_list r m) (False, r) = (d, r1)" by (rule prod.exhaust)
  have "live (snd (fold ?f (ci_list r m) (False, r)))"
    using r by (rule fold_invariant_snd) (auto intro: live_structure ci_list_lt [OF live_wf [OF r]])
  with f have r1: "live r1" by simp
  from live_exec_void [OF ss] this obtain y q where "ci_exec_void_cmd ss r1 = (Ret y, q)" "live q" by (rule succeedsE)
  with r1 f obtain x r2 where r2: "UFI_exec_write_structures m ss r = (Ret x, r2)" "live r2"
    unfolding UFI_exec_write_structures_def by (cases d) simp_all
  from live_exec_cmds r2(2) obtain y r3 where "exec_cmds_void r2 = (Ret y, r3)" "live r3" by (rule succeedsE)
  with r2 show "\<exists>x t. UFI_exec_void_frames m ss r = (Ret x, t) \<and> live t"
    unfolding UFI_exec_void_frames_def by (simp add: FF_def)
qed

lemma update_not_resets: "\<not> resets v \<Longrightarrow> xs[i := v] ! j = xs ! j \<or> \<not> resets (xs[i := v] ! j)"
  by (cases "i = j"; cases "i < length xs") (simp_all add: list_update_beyond)

lemma live_put_frame:
  assumes "\<not> resets f" "live r"
  shows "live (put_frame ci f r)"
proof (rule live_frame [of r "put_frame ci f"])
  show "\<forall>j < 8. \<not> resets (r_cmds (put_frame ci f r) ! j)"
    using assms live_cmds [OF assms(2)] update_not_resets [OF assms(1), of "r_cmds r" ci]
    by (simp add: put_frame_def) metis
qed (use assms in \<open>simp_all add: wf.I_put_frame live_wf\<close>, simp_all add: put_frame_def)

lemma live_target_all: "live r \<Longrightarrow> ci < 8 \<Longrightarrow> live (set_target_all ci r)"
  by (rule live_frame) (simp_all add: wf.I_set_target_all live_wf, simp_all add: set_target_all_def live_cmds)

text \<open>The loops of \<open>ufi_select_all\<close> and its variant build structures that are no resets.\<close>

lemma live_select_all_loop:
  assumes step: "\<And>ci m d ss r m' d' ss' r'. step ci (m, d, ss, r) = (m', d', ss', r') \<Longrightarrow> ci < 8 \<Longrightarrow> live r \<Longrightarrow>
      live r' \<and> length ss' = length ss \<and> (\<forall>j < 8. ss' ! j = ss ! j \<or> \<not> resets (ss' ! j))"
    and "\<forall>ci \<in> set cis. ci < 8" "live r" "length ss = 8" "\<forall>j < 8. \<not> resets (ss ! j)"
    and "fold step cis (m, d, ss, r) = (m', d', ss', r')"
  shows "live r' \<and> (\<forall>j < 8. \<not> resets (ss' ! j))"
  using assms(2-)
proof (induction cis arbitrary: m d ss r)
  case (Cons ci cis)
  obtain m1 d1 s1 r1 where st: "step ci (m, d, ss, r) = (m1, d1, s1, r1)" by (metis prod_cases4)
  have r1: "live r1" "length s1 = 8" "\<forall>j < 8. \<not> resets (s1 ! j)" using step [OF st] Cons.prems by auto
  show ?case by (rule Cons.IH [OF _ r1]) (use Cons.prems st in auto)
qed auto

lemma live_select_all: "succeeds live (ufi_select_all m)" "succeeds live (ufi_select_all_even_disabled m)"
proof -
  have *: "succeeds live (\<lambda>r. case fold step (ci_list r m) (m, False, ci_prepare_mask 0 0, r) of
      (sm, d, ss, r') \<Rightarrow> select_frames d sm ss r')"
    if step: "\<And>ci m d ss r m' d' ss' r'. step ci (m, d, ss, r) = (m', d', ss', r') \<Longrightarrow> ci < 8 \<Longrightarrow> live r \<Longrightarrow>
      live r' \<and> length ss' = length ss \<and> (\<forall>j < 8. ss' ! j = ss ! j \<or> \<not> resets (ss' ! j))" for step
  proof (rule succeedsI)
    fix r assume r: "live r"
    obtain sm d ss r1 where l: "fold step (ci_list r m) (m, False, ci_prepare_mask 0 0, r) = (sm, d, ss, r1)"
      by (metis prod_cases4)
    have "\<forall>ci \<in> set (ci_list r m). ci < 8" using ci_list_lt [OF live_wf [OF r]] by blast
    moreover have "\<forall>j < 8. \<not> resets (ci_prepare_mask 0 0 ! j)"
      using tagged_not_resets(3) by (simp add: prepare_mask_not_resets CI_EMPTY_def)
    ultimately have r1: "live r1" and ss: "\<forall>j < 8. \<not> resets (ss ! j)"
      using live_select_all_loop [of step, OF step _ r _ _ l] by simp_all
    have "succeeds live (select_frames d sm ss)"
      unfolding select_frames_def by (intro succeeds_FF succeeds_ok succeeds_if live_exec_frames ss)
    from this r1 obtain x t where "select_frames d sm ss r1 = (Ret x, t)" "live t" by (rule succeedsE)
    with l show "\<exists>x t. (case fold step (ci_list r m) (m, False, ci_prepare_mask 0 0, r) of
      (sm, d, ss, r') \<Rightarrow> select_frames d sm ss r') = (Ret x, t) \<and> live t" by simp
  qed
  have c: "\<not> resets CI_SELECT_ALL_STRUCT" "\<not> resets CI_SELECT_GROUP_STRUCT" "\<not> resets CI_SELECT_ALL_FRAME"
    "\<not> resets (CI_SELECT_GROUP_FRAME g)" for g by (simp_all add: command_defs)
  show "succeeds live (ufi_select_all m)" unfolding ufi_select_all_def
    by (rule *) (auto simp: select_all_step_def Let_def c update_not_resets live_target live_target_all live_put_frame split: if_splits)
  show "succeeds live (ufi_select_all_even_disabled m)" unfolding ufi_select_all_even_disabled_def
    by (rule *) (auto simp: select_all_even_disabled_step_def Let_def c update_not_resets live_target live_target_all live_put_frame split: if_splits)
qed

end

section \<open>A responsive backend\<close>

text \<open>The world is the color in which each CI answers next; every poll shows every answer.\<close>

definition live_answer :: "u8 \<Rightarrow> nat \<Rightarrow> u64" where
  "live_answer w ci = (if bit w ci then 0x000000FF00000000 else 0x00FF00FF00000000)"

definition live_flip :: "u64 list \<Rightarrow> u8 \<Rightarrow> u8" where
  "live_flip c w = (w XOR compute_ci_mask 8 c)
     AND NOT (fold (\<lambda>ci m. if resets (c ! ci) then m OR bit_of ci else m) [0..<8] 0)"

lemma bit_live_flip: "ci < 8 \<Longrightarrow> bit (live_flip c w) ci \<longleftrightarrow> \<not> resets (c ! ci) \<and> (bit w ci \<noteq> (c ! ci \<noteq> CI_EMPTY))"
  by (simp add: live_flip_def bit_and_iff bit_xor_iff bit_not_iff bit_compute_ci_mask bit_fold_or_bit_of
      del: upt_rec_numeral) blast

definition live_handler :: "u8 dpu_rank_handler" where
  "live_handler = \<lparr>
     commit_commands = (\<lambda>c w. (DPU_RANK_SUCCESS, live_flip c w)),
     update_commands = (\<lambda>b w. (DPU_RANK_SUCCESS, map (live_answer w) [0..<length b], w)),
     copy_to_rank = (\<lambda>_ w. (DPU_RANK_SUCCESS, w)),
     copy_from_rank = (\<lambda>_ w. (DPU_RANK_SUCCESS, w)),
     custom_operation = (\<lambda>_ _ w. (DPU_RANK_SUCCESS, w))\<rparr>"

lemma live_answer_ok:
  "result_present (live_answer w ci) 0x000000FF00000000 0xFF0000FF00000000"
  "color_distance (live_answer w ci) (\<not> bit w ci) = 0"
proof -
  show "result_present (live_answer w ci) 0x000000FF00000000 0xFF0000FF00000000"
    by (simp add: live_answer_def result_present_def)
  have "color_distance 0x000000FF00000000 False = 0" "color_distance 0x00FF00FF00000000 True = 0" by code_simp+
  then show "color_distance (live_answer w ci) (\<not> bit w ci) = 0" by (simp add: live_answer_def)
qed

interpretation live: responsive_backend live_handler "\<lambda>w. w"
  by unfold_locales (auto simp: live_handler_def live_answer_ok bit_live_flip)

definition live_rank :: "u8 dpu_rank" where
  "live_rank = (let r = sample_rank [] in
     \<lparr>r_type = HW, r_hw = sample_hw, r_configuration = r_configuration r, r_ci = r_ci r,
      r_run_context = r_run_context r, r_dpus = r_dpus r, r_nr_dpus_enabled = 16,
      r_cmds = replicate 8 0, r_data = replicate 8 0, r_cmds_buffer = r_cmds_buffer r,
      r_debug = r_debug r, r_logd = False,
      r_handler = live_handler, r_world = 0, host_words = (\<lambda>_ _. 0), host_instrs = (\<lambda>_ _. 0)\<rparr>)"

lemma live_rank_wf: "rank_wf live_rank"
  by (auto simp: rank_wf_def live_rank_def Let_def sample_rank_def sample_hw_def sample_slice_def handler_ok_def
      live_handler_def)

lemma live_rank_live: "live.live live_rank"
proof -
  have "\<not> resets 0" by (rule not_resets) simp
  with live_rank_wf show ?thesis by (simp add: live.live_def) (simp add: live_rank_def Let_def sample_rank_def)
qed

text \<open>
  With a backend whose control interfaces answer every command in the color the protocol
  expects, and a host that agrees with them on the colors, selecting a DPU succeeds.
\<close>

theorem select_dpu_live:
  assumes "responsive_backend h colors" and "rank_wf r" and "r_handler r = h"
    and "\<forall>ci < nr_cis r. bit (colors (r_world r)) ci \<longleftrightarrow> bit (color (r_ci r)) ci"
    and "\<forall>ci < 8. \<not> resets (r_cmds r ! ci)"
  shows "\<exists>m' r'. ufi_select_dpu m d r = (Ret m', r')"
proof -
  have "responsive_backend.live h colors r"
    using assms(2-) by (simp add: responsive_backend.live_def [OF assms(1)])
  then show ?thesis
    using responsive_backend.live_select(1) [OF assms(1)] by (meson succeedsE)
qed

theorem select_dpu_live_witness: "\<exists>m' r'. ufi_select_dpu 3 5 live_rank = (Ret m', r')"
  by (rule select_dpu_live [OF live.responsive_backend_axioms live_rank_wf])
     (use live.live_cmds [OF live_rank_live] in \<open>simp_all add: live_rank_def Let_def sample_rank_def\<close>)

section \<open>Instances on the responsive backend\<close>

lemma live_rank_simps:
  "nr_cis live_rank = 2" "nr_dpus live_rank = 8" "ci < 8 \<Longrightarrow> r_slice live_rank ci = sample_slice"
  by (simp_all add: live_rank_def Let_def sample_rank_def sample_hw_def)

theorem select_dpu_spec_witness:
  "\<exists>m' r'. ufi_select_dpu 3 5 live_rank = (Ret m', r')
    \<and> slice_target (r_slice r' 1) = \<lparr>target_type = DPU_SLICE_TARGET_DPU, target_id = 5\<rparr>"
proof -
  obtain m' r' where run: "ufi_select_dpu 3 5 live_rank = (Ret m', r')"
    using live.live_select(1) live_rank_live by (rule succeedsE)
  have e: "bit (enabled_dpus sample_slice) 5" by (simp add: sample_slice_def)
  from select_dpu_spec [OF live_rank_wf run] e have "bit m' 1"
    by (simp add: live_rank_simps bit_3_iff)
  with select_dpu_spec [OF live_rank_wf run] run show ?thesis by (auto simp: live_rank_simps)
qed

theorem select_group_spec_witness:
  "\<exists>m' r'. ufi_select_group 3 0 live_rank = (Ret m', r') \<and> bit m' 0"
proof -
  obtain m' r' where run: "ufi_select_group 3 0 live_rank = (Ret m', r')"
    using live.live_select(2) live_rank_live by (rule succeedsE)
  have e: "dpus_per_group sample_slice ! 0 \<noteq> 0" by (simp add: sample_slice_def)
  from select_group_spec [OF live_rank_wf run] e run show ?thesis by (simp add: live_rank_simps bit_3_iff)
qed

theorem select_all_spec_witness:
  "\<exists>m' r'. ufi_select_all 3 live_rank = (Ret m', r')
    \<and> target_type (slice_target (r_slice r' 0)) = DPU_SLICE_TARGET_ALL"
proof -
  obtain m' r' where run: "ufi_select_all 3 live_rank = (Ret m', r')"
    using live.live_select_all(1) live_rank_live by (rule succeedsE)
  have e: "all_dpus_are_enabled sample_slice" by (simp add: sample_slice_def)
  from select_all_spec [OF live_rank_wf run] e have "bit m' 0"
    by (simp add: live_rank_simps bit_3_iff)
  with select_all_spec [OF live_rank_wf run] e run show ?thesis by (auto simp: live_rank_simps)
qed

definition live_rank_selected :: "u8 dpu_rank" where
  "live_rank_selected = set_target DPU_SLICE_TARGET_DPU 5 0 live_rank"

lemma live_rank_selected:
  "rank_wf live_rank_selected" "live.live live_rank_selected"
  "slice_target (r_slice live_rank_selected 0) = \<lparr>target_type = DPU_SLICE_TARGET_DPU, target_id = 5\<rparr>"
  "nr_cis live_rank_selected = 2"
  using wf.I_set_target [OF live_rank_wf, of 0] live.live_target [OF live_rank_live, of 0] rank_wfD(4) [OF live_rank_wf]
  by (simp_all add: live_rank_selected_def r_slice_set_target) (simp add: set_target_def live_rank_simps)

theorem write_group_spec_witness:
  "\<exists>r'. ufi_write_group 1 3 live_rank_selected = (Ret (), r') \<and> bit (dpus_per_group (r_slice r' 0) ! 3) 5"
proof -
  obtain r' where run: "ufi_write_group 1 3 live_rank_selected = (Ret (), r')"
    using live.live_write_group [of 3 live_rank_selected 1] live_rank_selected by (auto simp: bit_1_iff')
  have fill: "ci_fill_selected_dpu_mask 0 live_rank_selected = (Ret (bit_of 5), live_rank_selected)"
    by (simp add: ci_fill_selected_dpu_mask_def live_rank_selected Let_def)
  from write_group_spec [OF live_rank_selected(1) _ run _ _ fill, of 3 5] run show ?thesis
    by (simp add: live_rank_selected)
qed

end
