(* ===== verification/Dpu_Isa.thy ===== *)
theory Dpu_Isa
  imports Prelude
begin

text \<open>
  The instruction encoder (\<^verbatim>\<open>commons/src/dpu_instruction_encoder.h\<close>): one macro per instruction,
  each the opcode with the operands cut into bit fields,
  \<^verbatim>\<open>opcode | (((operand >> shr) & mask) << shl) | ...\<close>. Every macro is an entry
  \<^verbatim>\<open>Insn name operands opcode fields\<close> of the tables of \<open>Dpu_Isa_Table\<close>, its fields in the order
  of the macro; \<open>encode\<close> gives their meaning. This theory proves what a table entry has to satisfy so
  that the operands can be read back from the instruction.
\<close>

type_synonym insn_field = "nat \<times> nat \<times> u64 \<times> nat"

datatype insn = Insn (insn_name: string) (insn_operands: nat) (insn_opcode: u64) (insn_fields: "insn_field list")

definition field_bits :: "u64 list \<Rightarrow> insn_field \<Rightarrow> u64" where
  "field_bits operands = (\<lambda>(x, shr, msk, shl). push_bit shl (drop_bit shr (operands ! x) AND msk))"

definition encode :: "insn \<Rightarrow> u64 list \<Rightarrow> u64" where
  "encode i operands = fold (\<lambda>f w. w OR field_bits operands f) (insn_fields i) (insn_opcode i)"

section \<open>Reading the operands back\<close>

definition decode_operand :: "insn \<Rightarrow> nat \<Rightarrow> u64 \<Rightarrow> u64" where
  "decode_operand i operand w =
     fold (\<lambda>(x, shr, msk, shl) v. if x = operand then v OR push_bit shr (drop_bit shl w AND msk) else v) (insn_fields i) 0"

text \<open>The bits of an operand that the instruction has room for.\<close>

definition operand_mask :: "insn \<Rightarrow> nat \<Rightarrow> u64" where
  "operand_mask i operand =
     fold (\<lambda>(x, shr, msk, shl) v. if x = operand then v OR push_bit shr msk else v) (insn_fields i) 0"

text \<open>The fields lie one beside the other in the 48 bits of an instruction, outside the opcode.\<close>

fun fields_ok :: "int \<Rightarrow> insn_field list \<Rightarrow> bool" where
  "fields_ok used [] \<longleftrightarrow> used < 0x1000000000000"
| "fields_ok used ((x, shr, msk, shl) # fs) \<longleftrightarrow>
     used AND push_bit shl (uint msk) = 0 \<and> fields_ok (used OR push_bit shl (uint msk)) fs"

definition insn_ok :: "insn \<Rightarrow> bool" where
  "insn_ok i \<longleftrightarrow> fields_ok (uint (insn_opcode i)) (insn_fields i)"

definition add_fields :: "u64 list \<Rightarrow> insn_field list \<Rightarrow> u64 \<Rightarrow> u64" where
  "add_fields operands fs w = fold (\<lambda>f w. w OR field_bits operands f) fs w"

lemma add_fields_simps:
  "add_fields ops [] w = w" "add_fields ops (f # fs) w = add_fields ops fs (w OR field_bits ops f)"
  by (simp_all add: add_fields_def)

lemma bit_field_bits:
  "bit (field_bits ops (x, shr, msk, shl)) n \<longleftrightarrow>
     shl \<le> n \<and> n < 64 \<and> bit (ops ! x) (shr + (n - shl)) \<and> bit msk (n - shl)"
  by (auto simp: field_bits_def bit_push_bit_iff bit_and_iff bit_drop_bit_eq)

lemma bit_field_used: "bit (field_bits ops (x, shr, msk, shl)) n \<Longrightarrow> bit (push_bit shl (uint msk)) n"
  by (auto simp: bit_field_bits bit_push_bit_iff bit_uint_iff)

lemma and_zeroD: "(a :: int) AND b = 0 \<Longrightarrow> bit a n \<Longrightarrow> \<not> bit b n"
  by (metis bit_0_eq bit_and_iff bot_apply bot_bool_def)

text \<open>Fields do not touch what is used before them, and reach no bit from 48 on.\<close>

lemma fields_apart:
  "fields_ok used fs \<Longrightarrow> bit used n \<Longrightarrow> bit (add_fields ops fs w) n \<longleftrightarrow> bit w n"
proof (induction fs arbitrary: used w)
  case (Cons f fs)
  obtain x shr msk shl where f: "f = (x, shr, msk, shl)" by (metis prod_cases4)
  have "\<not> bit (push_bit shl (uint msk)) n"
    using Cons.prems and_zeroD by (auto simp: f)
  then have "\<not> bit (field_bits ops f) n" using bit_field_used f by blast
  with Cons.IH [of "used OR push_bit shl (uint msk)" "w OR field_bits ops f"] Cons.prems
  show ?case by (simp add: f add_fields_simps bit_or_iff)
qed (simp add: add_fields_simps)

lemma fields_below:
  assumes "fields_ok used fs" and "0 \<le> used"
  shows "bit used n \<Longrightarrow> n < 48" and "f \<in> set fs \<Longrightarrow> bit (field_bits ops f) n \<Longrightarrow> n < 48"
proof -
  have "(bit used n \<longrightarrow> n < 48) \<and> (\<forall>f \<in> set fs. bit (field_bits ops f) n \<longrightarrow> n < 48)"
    using assms
  proof (induction fs arbitrary: used)
    case Nil
    then have "take_bit 48 used = used" by (simp add: take_bit_int_eq_self)
    then show ?case by (metis bit_take_bit_iff empty_iff list.set(1))
  next
    case (Cons f fs)
    obtain x shr msk shl where f: "f = (x, shr, msk, shl)" by (metis prod_cases4)
    have "fields_ok (used OR push_bit shl (uint msk)) fs" "0 \<le> used OR push_bit shl (uint msk)"
      using Cons.prems by (simp_all add: f)
    from Cons.IH [OF this] show ?case using bit_field_used [of ops x shr msk shl n] by (auto simp: f bit_or_iff)
  qed
  then show "bit used n \<Longrightarrow> n < 48" "f \<in> set fs \<Longrightarrow> bit (field_bits ops f) n \<Longrightarrow> n < 48" by blast+
qed

lemma bit_add_fields: "bit (add_fields ops fs w) n \<longleftrightarrow> bit w n \<or> (\<exists>f \<in> set fs. bit (field_bits ops f) n)"
  by (induction fs arbitrary: w) (auto simp: add_fields_simps bit_or_iff)

lemma field_read:
  assumes "fields_ok used fs" "0 \<le> used" "\<And>n. bit w n \<Longrightarrow> bit used n" "(x, shr, msk, shl) \<in> set fs" "bit msk k"
  shows "bit (add_fields ops fs w) (shl + k) \<longleftrightarrow> bit (ops ! x) (shr + k)"
  using assms
proof (induction fs arbitrary: used w)
  case (Cons f fs)
  obtain x' shr' msk' shl' where f: "f = (x', shr', msk', shl')" by (metis prod_cases4)
  let ?used = "used OR push_bit shl' (uint msk')" and ?w = "w OR field_bits ops f"
  have ok: "fields_ok ?used fs" "0 \<le> ?used" "used AND push_bit shl' (uint msk') = 0" using Cons.prems by (simp_all add: f)
  have sub: "bit ?used n" if "bit ?w n" for n
    using that Cons.prems(3) bit_field_used by (auto simp: f bit_or_iff)
  show ?case
  proof (cases "f = (x, shr, msk, shl)")
    case True
    have "k < 64" using Cons.prems(5) by (auto dest: bit_imp_le_length)
    then have here: "bit (push_bit shl (uint msk)) (shl + k)" using Cons.prems(5) by (simp add: bit_push_bit_iff bit_uint_iff)
    then have "\<not> bit used (shl + k)" using and_zeroD [OF ok(3), of "shl + k"] True f by auto
    then have "\<not> bit w (shl + k)" using Cons.prems(3) by blast
    moreover have "bit ?used (shl + k)" using here True f by (simp add: bit_or_iff)
    then have "bit (add_fields ops fs ?w) (shl + k) \<longleftrightarrow> bit ?w (shl + k)" "shl + k < 48"
      using fields_apart [OF ok(1)] fields_below(1) [OF ok(1,2)] by blast+
    ultimately show ?thesis using True Cons.prems(5) by (simp add: add_fields_simps bit_or_iff bit_field_bits)
  next
    case False
    then show ?thesis using Cons.IH [OF ok(1,2) sub] Cons.prems(4,5) by (simp add: add_fields_simps)
  qed
qed simp

lemma bit_gather:
  "bit (fold (\<lambda>(x, shr, msk, shl) v. if x = operand then v OR g shr msk shl else v) fs v0) n \<longleftrightarrow>
     bit v0 n \<or> (\<exists>(x, shr, msk, shl) \<in> set fs. x = operand \<and> bit (g shr msk shl) n)"
  by (induction fs arbitrary: v0) (auto simp: bit_or_iff split: if_splits)

text \<open>Each operand is read back from the instruction as far as the instruction has room for it.\<close>

lemma decode_encode:
  assumes "insn_ok i"
  shows "decode_operand i x (encode i operands) = operands ! x AND operand_mask i x"
proof (rule bit_word_eqI)
  fix n assume n: "n < LENGTH(64)"
  have ok: "fields_ok (uint (insn_opcode i)) (insn_fields i)" using assms by (simp add: insn_ok_def)
  have enc: "encode i operands = add_fields operands (insn_fields i) (insn_opcode i)"
    by (simp add: encode_def add_fields_def)
  have "bit (encode i operands) (shl + k) \<longleftrightarrow> bit (operands ! x') (shr + k)"
    if "(x', shr, msk, shl) \<in> set (insn_fields i)" "bit msk k" for x' shr msk shl k
    unfolding enc by (rule field_read [OF ok _ _ that]) (auto simp: bit_uint_iff dest: bit_imp_le_length)
  moreover have "bit (decode_operand i x (encode i operands)) n \<longleftrightarrow>
      (\<exists>(x', shr, msk, shl) \<in> set (insn_fields i). x' = x \<and> shr \<le> n \<and> bit (encode i operands) (shl + (n - shr)) \<and> bit msk (n - shr))"
    using n unfolding decode_operand_def bit_gather by (auto simp: bit_push_bit_iff bit_and_iff bit_drop_bit_eq)
  moreover have "bit (operand_mask i x) n \<longleftrightarrow>
      (\<exists>(x', shr, msk, shl) \<in> set (insn_fields i). x' = x \<and> shr \<le> n \<and> bit msk (n - shr))"
    using n unfolding operand_mask_def bit_gather by (auto simp: bit_push_bit_iff)
  ultimately show "bit (decode_operand i x (encode i operands)) n \<longleftrightarrow> bit (operands ! x AND operand_mask i x) n"
    by (fastforce simp: bit_and_iff)
qed

lemma encode_48_bits:
  assumes "insn_ok i" shows "take_bit 48 (encode i operands) = encode i operands"
proof (rule bit_word_eqI)
  fix n
  have ok: "fields_ok (uint (insn_opcode i)) (insn_fields i)" using assms by (simp add: insn_ok_def)
  have "n < 48" if "bit (encode i operands) n"
  proof -
    have "n < 64" using that by (auto dest: bit_imp_le_length)
    moreover have "bit (insn_opcode i) n \<or> (\<exists>f \<in> set (insn_fields i). bit (field_bits operands f) n)"
      using that unfolding encode_def add_fields_def [symmetric] bit_add_fields .
    ultimately show ?thesis using fields_below [OF ok uint_ge_0, where n = n] by (auto simp: bit_uint_iff)
  qed
  then show "bit (take_bit 48 (encode i operands)) n \<longleftrightarrow> bit (encode i operands) n" by (auto simp: bit_take_bit_iff)
qed

end
