(* ===== verification/Dpu_Isa_Table.thy ===== *)
theory Dpu_Isa_Table
  imports Dpu_Isa
begin

text \<open>
  The 1078 instructions of \<^verbatim>\<open>commons/src/dpu_instruction_encoder.h\<close>, in the order of the header and one
  list per group of mnemonics. A field \<open>(x, shr, mask, shl)\<close> of an entry is the term
  \<^verbatim>\<open>((operand x >> shr) & mask) << shl\<close> of the macro, operands counted from 0. Then the numbers of
  the registers and of the conditions. The check that every entry is sound is at the end.
\<close>

section \<open>Instructions\<close>

definition isa_ACQUIRE :: "insn list" where
  "isa_ACQUIRE = [
     Insn ''ACQUIRErici'' 4 0x7c0380000000 [(0, 0, 0x1f, 34), (1, 0, 0xf, 20), (1, 4, 0xf, 16), (1, 8, 0x1f, 26), (1, 13, 7, 39),
       (3, 0, 0xffff, 0), (2, 0, 3, 24)]]"

definition isa_ADD :: "insn list" where
  "isa_ADD = [
     Insn ''ADD_Srri'' 3 0xe000000000 [(1, 0, 7, 17), (1, 3, 3, 32), (0, 1, 0xf, 40), (2, 0, 0xf, 20), (2, 4, 7, 34), (2, 7, 1,
       44), (2, 8, 1, 15), (2, 9, 1, 14), (2, 10, 1, 13), (2, 11, 1, 12), (2, 12, 0xfff, 0), (2, 24, 0xff, 24)],
     Insn ''ADD_Srric'' 4 0x4c8300000000 [(0, 1, 3, 40), (0, 3, 3, 44), (1, 0, 0x1f, 34), (3, 0, 0x1f, 24), (2, 0, 0xf, 20), (2,
       4, 0xf, 16), (2, 8, 1, 15), (2, 9, 1, 14), (2, 10, 1, 13), (2, 11, 1, 12), (2, 12, 0xfff, 0)],
     Insn ''ADD_Srrici'' 5 0x4c8300000000 [(0, 1, 3, 40), (0, 3, 3, 44), (1, 0, 0x1f, 34), (3, 0, 0x1f, 24), (2, 0, 0xf, 20), (2,
       4, 0xf, 16), (4, 0, 0xffff, 0)],
     Insn ''ADD_Srrif'' 3 0x4c8300000000 [(0, 1, 3, 40), (0, 3, 3, 44), (1, 0, 0x1f, 34), (2, 0, 0xf, 20), (2, 4, 0xf, 16), (2,
       8, 1, 15), (2, 9, 1, 14), (2, 10, 1, 13), (2, 11, 1, 12), (2, 12, 0xfff, 0)],
     Insn ''ADD_Srrr'' 3 0x4c8000c00000 [(0, 1, 3, 40), (0, 3, 3, 44), (2, 0, 7, 17), (2, 3, 3, 32), (1, 0, 0x1f, 34)],
     Insn ''ADD_Srrrc'' 4 0x4c8000c00000 [(0, 1, 3, 40), (0, 3, 3, 44), (2, 0, 7, 17), (2, 3, 3, 32), (1, 0, 0x1f, 34), (3, 0,
       0x1f, 24)],
     Insn ''ADD_Srrrci'' 5 0x4c8000c00000 [(0, 1, 3, 40), (0, 3, 3, 44), (2, 0, 7, 17), (2, 3, 3, 32), (1, 0, 0x1f, 34), (3, 0,
       0x1f, 24), (4, 0, 0xffff, 0)],
     Insn ''ADD_Urri'' 3 0x6000000000 [(1, 0, 7, 17), (1, 3, 3, 32), (0, 1, 0xf, 40), (2, 0, 0xf, 20), (2, 4, 7, 34), (2, 7, 1,
       44), (2, 8, 1, 15), (2, 9, 1, 14), (2, 10, 1, 13), (2, 11, 1, 12), (2, 12, 0xfff, 0), (2, 24, 0xff, 24)],
     Insn ''ADD_Urric'' 4 0x4c0300000000 [(0, 1, 3, 40), (0, 3, 3, 44), (1, 0, 0x1f, 34), (3, 0, 0x1f, 24), (2, 0, 0xf, 20), (2,
       4, 0xf, 16), (2, 8, 1, 15), (2, 9, 1, 14), (2, 10, 1, 13), (2, 11, 1, 12), (2, 12, 0xfff, 0)],
     Insn ''ADD_Urrici'' 5 0x4c0300000000 [(0, 1, 3, 40), (0, 3, 3, 44), (1, 0, 0x1f, 34), (3, 0, 0x1f, 24), (2, 0, 0xf, 20), (2,
       4, 0xf, 16), (4, 0, 0xffff, 0)],
     Insn ''ADD_Urrif'' 3 0x4c0300000000 [(0, 1, 3, 40), (0, 3, 3, 44), (1, 0, 0x1f, 34), (2, 0, 0xf, 20), (2, 4, 0xf, 16), (2,
       8, 1, 15), (2, 9, 1, 14), (2, 10, 1, 13), (2, 11, 1, 12), (2, 12, 0xfff, 0)],
     Insn ''ADD_Urrr'' 3 0x4c0000c00000 [(0, 1, 3, 40), (0, 3, 3, 44), (2, 0, 7, 17), (2, 3, 3, 32), (1, 0, 0x1f, 34)],
     Insn ''ADD_Urrrc'' 4 0x4c0000c00000 [(0, 1, 3, 40), (0, 3, 3, 44), (2, 0, 7, 17), (2, 3, 3, 32), (1, 0, 0x1f, 34), (3, 0,
       0x1f, 24)],
     Insn ''ADD_Urrrci'' 5 0x4c0000c00000 [(0, 1, 3, 40), (0, 3, 3, 44), (2, 0, 7, 17), (2, 3, 3, 32), (1, 0, 0x1f, 34), (3, 0,
       0x1f, 24), (4, 0, 0xffff, 0)],
     Insn ''ADDrri'' 3 0x300000000 [(0, 0, 0x1f, 39), (1, 0, 0x1f, 34), (2, 0, 0xf, 20), (2, 4, 0xf, 16), (2, 8, 1, 15), (2, 9,
       1, 14), (2, 10, 1, 13), (2, 11, 1, 12), (2, 12, 0xfff, 0), (2, 24, 0xff, 24)],
     Insn ''ADDrric'' 4 0xc0300000000 [(0, 0, 7, 39), (0, 3, 3, 44), (1, 0, 0x1f, 34), (3, 0, 0x1f, 24), (2, 0, 0xf, 20), (2, 4,
       0xf, 16), (2, 8, 1, 15), (2, 9, 1, 14), (2, 10, 1, 13), (2, 11, 1, 12), (2, 12, 0xfff, 0)],
     Insn ''ADDrrici'' 5 0xc0300000000 [(0, 0, 7, 39), (0, 3, 3, 44), (1, 0, 0x1f, 34), (3, 0, 0x1f, 24), (2, 0, 0xf, 20), (2, 4,
       0xf, 16), (4, 0, 0xffff, 0)],
     Insn ''ADDrrif'' 3 0xc0300000000 [(0, 0, 7, 39), (0, 3, 3, 44), (1, 0, 0x1f, 34), (2, 0, 0xf, 20), (2, 4, 0xf, 16), (2, 8,
       1, 15), (2, 9, 1, 14), (2, 10, 1, 13), (2, 11, 1, 12), (2, 12, 0xfff, 0)],
     Insn ''ADDrrr'' 3 0xc0000c00000 [(0, 0, 7, 39), (0, 3, 3, 44), (2, 0, 7, 17), (2, 3, 3, 32), (1, 0, 0x1f, 34)],
     Insn ''ADDrrrc'' 4 0xc0000c00000 [(0, 0, 7, 39), (0, 3, 3, 44), (2, 0, 7, 17), (2, 3, 3, 32), (1, 0, 0x1f, 34), (3, 0, 0x1f,
       24)],
     Insn ''ADDrrrci'' 5 0xc0000c00000 [(0, 0, 7, 39), (0, 3, 3, 44), (2, 0, 7, 17), (2, 3, 3, 32), (1, 0, 0x1f, 34), (3, 0,
       0x1f, 24), (4, 0, 0xffff, 0)],
     Insn ''ADDssi'' 3 0xc0310000000 [(0, 0, 7, 39), (0, 3, 3, 44), (1, 0, 0x1f, 34), (2, 0, 0xf, 20), (2, 4, 0xf, 16), (2, 8, 1,
       15), (2, 9, 1, 14), (2, 10, 1, 13), (2, 11, 1, 12), (2, 12, 0x1f, 0), (2, 16, 1, 5), (2, 16, 1, 6), (2, 16, 1, 7), (2, 16,
       1, 8), (2, 16, 1, 9), (2, 16, 1, 10), (2, 16, 1, 11)],
     Insn ''ADDsss'' 3 0xc0010c00000 [(0, 0, 7, 39), (0, 3, 3, 44), (2, 0, 0x1f, 34), (1, 0, 7, 17), (1, 3, 3, 32)],
     Insn ''ADDzri'' 2 0x606000000000 [(0, 0, 7, 17), (0, 3, 3, 32), (1, 0, 0xf, 20), (1, 4, 7, 34), (1, 7, 1, 39), (1, 8, 1,
       15), (1, 9, 1, 14), (1, 10, 1, 13), (1, 11, 1, 12), (1, 12, 0xfff, 0), (1, 24, 0xff, 24)],
     Insn ''ADDzric'' 3 0x3c0300000000 [(0, 0, 0x1f, 34), (2, 0, 0x1f, 24), (1, 0, 0xf, 20), (1, 4, 0xf, 16), (1, 8, 1, 15), (1,
       9, 1, 14), (1, 10, 1, 13), (1, 11, 1, 12), (1, 12, 0xfff, 0), (1, 24, 7, 39)]]"

definition isa_ADD_rest :: "insn list" where
  "isa_ADD_rest = [
     Insn ''ADDzrici'' 4 0x3c0300000000 [(0, 0, 0x1f, 34), (2, 0, 0x1f, 24), (1, 0, 0xf, 20), (1, 4, 0xf, 16), (1, 8, 7, 39), (3,
       0, 0xffff, 0)],
     Insn ''ADDzrif'' 2 0x3c0300000000 [(0, 0, 0x1f, 34), (1, 0, 0xf, 20), (1, 4, 0xf, 16), (1, 8, 1, 15), (1, 9, 1, 14), (1, 10,
       1, 13), (1, 11, 1, 12), (1, 12, 0xfff, 0), (1, 24, 7, 39)],
     Insn ''ADDzrr'' 2 0x3c0000c00000 [(1, 0, 7, 17), (1, 3, 3, 32), (0, 0, 0x1f, 34)],
     Insn ''ADDzrrc'' 3 0x3c0000c00000 [(1, 0, 7, 17), (1, 3, 3, 32), (0, 0, 0x1f, 34), (2, 0, 0x1f, 24)],
     Insn ''ADDzrrci'' 4 0x3c0000c00000 [(1, 0, 7, 17), (1, 3, 3, 32), (0, 0, 0x1f, 34), (2, 0, 0x1f, 24), (3, 0, 0xffff, 0)]]"

definition isa_ADDC :: "insn list" where
  "isa_ADDC = [
     Insn ''ADDC_Srric'' 4 0x4c8320000000 [(0, 1, 3, 40), (0, 3, 3, 44), (1, 0, 0x1f, 34), (3, 0, 0x1f, 24), (2, 0, 0xf, 20), (2,
       4, 0xf, 16), (2, 8, 1, 15), (2, 9, 1, 14), (2, 10, 1, 13), (2, 11, 1, 12), (2, 12, 0xfff, 0)],
     Insn ''ADDC_Srrici'' 5 0x4c8320000000 [(0, 1, 3, 40), (0, 3, 3, 44), (1, 0, 0x1f, 34), (3, 0, 0x1f, 24), (2, 0, 0xf, 20),
       (2, 4, 0xf, 16), (4, 0, 0xffff, 0)],
     Insn ''ADDC_Srrif'' 3 0x4c8320000000 [(0, 1, 3, 40), (0, 3, 3, 44), (1, 0, 0x1f, 34), (2, 0, 0xf, 20), (2, 4, 0xf, 16), (2,
       8, 1, 15), (2, 9, 1, 14), (2, 10, 1, 13), (2, 11, 1, 12), (2, 12, 0xfff, 0)],
     Insn ''ADDC_Srrr'' 3 0x4c8020c00000 [(0, 1, 3, 40), (0, 3, 3, 44), (2, 0, 7, 17), (2, 3, 3, 32), (1, 0, 0x1f, 34)],
     Insn ''ADDC_Srrrc'' 4 0x4c8020c00000 [(0, 1, 3, 40), (0, 3, 3, 44), (2, 0, 7, 17), (2, 3, 3, 32), (1, 0, 0x1f, 34), (3, 0,
       0x1f, 24)],
     Insn ''ADDC_Srrrci'' 5 0x4c8020c00000 [(0, 1, 3, 40), (0, 3, 3, 44), (2, 0, 7, 17), (2, 3, 3, 32), (1, 0, 0x1f, 34), (3, 0,
       0x1f, 24), (4, 0, 0xffff, 0)],
     Insn ''ADDC_Urric'' 4 0x4c0320000000 [(0, 1, 3, 40), (0, 3, 3, 44), (1, 0, 0x1f, 34), (3, 0, 0x1f, 24), (2, 0, 0xf, 20), (2,
       4, 0xf, 16), (2, 8, 1, 15), (2, 9, 1, 14), (2, 10, 1, 13), (2, 11, 1, 12), (2, 12, 0xfff, 0)],
     Insn ''ADDC_Urrici'' 5 0x4c0320000000 [(0, 1, 3, 40), (0, 3, 3, 44), (1, 0, 0x1f, 34), (3, 0, 0x1f, 24), (2, 0, 0xf, 20),
       (2, 4, 0xf, 16), (4, 0, 0xffff, 0)],
     Insn ''ADDC_Urrif'' 3 0x4c0320000000 [(0, 1, 3, 40), (0, 3, 3, 44), (1, 0, 0x1f, 34), (2, 0, 0xf, 20), (2, 4, 0xf, 16), (2,
       8, 1, 15), (2, 9, 1, 14), (2, 10, 1, 13), (2, 11, 1, 12), (2, 12, 0xfff, 0)],
     Insn ''ADDC_Urrr'' 3 0x4c0020c00000 [(0, 1, 3, 40), (0, 3, 3, 44), (2, 0, 7, 17), (2, 3, 3, 32), (1, 0, 0x1f, 34)],
     Insn ''ADDC_Urrrc'' 4 0x4c0020c00000 [(0, 1, 3, 40), (0, 3, 3, 44), (2, 0, 7, 17), (2, 3, 3, 32), (1, 0, 0x1f, 34), (3, 0,
       0x1f, 24)],
     Insn ''ADDC_Urrrci'' 5 0x4c0020c00000 [(0, 1, 3, 40), (0, 3, 3, 44), (2, 0, 7, 17), (2, 3, 3, 32), (1, 0, 0x1f, 34), (3, 0,
       0x1f, 24), (4, 0, 0xffff, 0)],
     Insn ''ADDCrri'' 3 0x100300000000 [(0, 0, 0x1f, 39), (1, 0, 0x1f, 34), (2, 0, 0xf, 20), (2, 4, 0xf, 16), (2, 8, 1, 15), (2,
       9, 1, 14), (2, 10, 1, 13), (2, 11, 1, 12), (2, 12, 0xfff, 0), (2, 24, 0xff, 24)],
     Insn ''ADDCrric'' 4 0xc0320000000 [(0, 0, 7, 39), (0, 3, 3, 44), (1, 0, 0x1f, 34), (3, 0, 0x1f, 24), (2, 0, 0xf, 20), (2, 4,
       0xf, 16), (2, 8, 1, 15), (2, 9, 1, 14), (2, 10, 1, 13), (2, 11, 1, 12), (2, 12, 0xfff, 0)],
     Insn ''ADDCrrici'' 5 0xc0320000000 [(0, 0, 7, 39), (0, 3, 3, 44), (1, 0, 0x1f, 34), (3, 0, 0x1f, 24), (2, 0, 0xf, 20), (2,
       4, 0xf, 16), (4, 0, 0xffff, 0)],
     Insn ''ADDCrrif'' 3 0xc0320000000 [(0, 0, 7, 39), (0, 3, 3, 44), (1, 0, 0x1f, 34), (2, 0, 0xf, 20), (2, 4, 0xf, 16), (2, 8,
       1, 15), (2, 9, 1, 14), (2, 10, 1, 13), (2, 11, 1, 12), (2, 12, 0xfff, 0)],
     Insn ''ADDCrrr'' 3 0xc0020c00000 [(0, 0, 7, 39), (0, 3, 3, 44), (2, 0, 7, 17), (2, 3, 3, 32), (1, 0, 0x1f, 34)],
     Insn ''ADDCrrrc'' 4 0xc0020c00000 [(0, 0, 7, 39), (0, 3, 3, 44), (2, 0, 7, 17), (2, 3, 3, 32), (1, 0, 0x1f, 34), (3, 0,
       0x1f, 24)],
     Insn ''ADDCrrrci'' 5 0xc0020c00000 [(0, 0, 7, 39), (0, 3, 3, 44), (2, 0, 7, 17), (2, 3, 3, 32), (1, 0, 0x1f, 34), (3, 0,
       0x1f, 24), (4, 0, 0xffff, 0)],
     Insn ''ADDCzri'' 2 0x616000000000 [(0, 0, 7, 17), (0, 3, 3, 32), (1, 0, 0xf, 20), (1, 4, 7, 34), (1, 7, 1, 39), (1, 8, 1,
       15), (1, 9, 1, 14), (1, 10, 1, 13), (1, 11, 1, 12), (1, 12, 0xfff, 0), (1, 24, 0xff, 24)],
     Insn ''ADDCzric'' 3 0x3c0320000000 [(0, 0, 0x1f, 34), (2, 0, 0x1f, 24), (1, 0, 0xf, 20), (1, 4, 0xf, 16), (1, 8, 1, 15), (1,
       9, 1, 14), (1, 10, 1, 13), (1, 11, 1, 12), (1, 12, 0xfff, 0), (1, 24, 7, 39)],
     Insn ''ADDCzrici'' 4 0x3c0320000000 [(0, 0, 0x1f, 34), (2, 0, 0x1f, 24), (1, 0, 0xf, 20), (1, 4, 0xf, 16), (1, 8, 7, 39),
       (3, 0, 0xffff, 0)],
     Insn ''ADDCzrif'' 2 0x3c0320000000 [(0, 0, 0x1f, 34), (1, 0, 0xf, 20), (1, 4, 0xf, 16), (1, 8, 1, 15), (1, 9, 1, 14), (1,
       10, 1, 13), (1, 11, 1, 12), (1, 12, 0xfff, 0), (1, 24, 7, 39)],
     Insn ''ADDCzrr'' 2 0x3c0020c00000 [(1, 0, 7, 17), (1, 3, 3, 32), (0, 0, 0x1f, 34)],
     Insn ''ADDCzrrc'' 3 0x3c0020c00000 [(1, 0, 7, 17), (1, 3, 3, 32), (0, 0, 0x1f, 34), (2, 0, 0x1f, 24)],
     Insn ''ADDCzrrci'' 4 0x3c0020c00000 [(1, 0, 7, 17), (1, 3, 3, 32), (0, 0, 0x1f, 34), (2, 0, 0x1f, 24), (3, 0, 0xffff, 0)]]"

definition isa_ADDS :: "insn list" where
  "isa_ADDS = [
     Insn ''ADDSrri'' 3 0xc0310000000 [(0, 0, 7, 39), (0, 3, 3, 44), (1, 0, 0x1f, 34), (2, 0, 0xf, 20), (2, 4, 0xf, 16), (2, 8,
       1, 15), (2, 9, 1, 14), (2, 10, 1, 13), (2, 11, 1, 12), (2, 12, 0x1f, 0), (2, 16, 1, 5), (2, 16, 1, 6), (2, 16, 1, 7), (2,
       16, 1, 8), (2, 16, 1, 9), (2, 16, 1, 10), (2, 16, 1, 11)],
     Insn ''ADDSrrr'' 3 0xc0010c00000 [(0, 0, 7, 39), (0, 3, 3, 44), (2, 0, 0x1f, 34), (1, 0, 7, 17), (1, 3, 3, 32)]]"

definition isa_AND :: "insn list" where
  "isa_AND = [
     Insn ''AND_Srki'' 3 0x508300000000 [(1, 0, 0x1f, 34), (0, 1, 0xf, 40), (2, 0, 0xf, 20), (2, 4, 0xf, 16), (2, 8, 1, 15), (2,
       9, 1, 14), (2, 10, 1, 13), (2, 11, 1, 12), (2, 12, 0xfff, 0), (2, 24, 0xff, 24)],
     Insn ''AND_Srri'' 3 0x20e000000000 [(1, 0, 7, 17), (1, 3, 3, 32), (0, 1, 0xf, 40), (2, 0, 0xf, 20), (2, 4, 7, 34), (2, 7, 1,
       44), (2, 8, 1, 15), (2, 9, 1, 14), (2, 10, 1, 13), (2, 11, 1, 12), (2, 12, 0xfff, 0), (2, 24, 0xff, 24)],
     Insn ''AND_Srric'' 4 0x9083a0000000 [(0, 1, 0xf, 40), (1, 0, 0x1f, 34), (3, 0, 0xf, 24), (2, 0, 0xf, 20), (2, 4, 0xf, 16),
       (2, 8, 1, 15), (2, 9, 1, 14), (2, 10, 1, 13), (2, 11, 1, 12), (2, 12, 0xfff, 0)],
     Insn ''AND_Srrici'' 5 0x9083a0000000 [(0, 1, 0xf, 40), (1, 0, 0x1f, 34), (3, 0, 0xf, 24), (2, 0, 0xf, 20), (2, 4, 0xf, 16),
       (4, 0, 0xffff, 0)],
     Insn ''AND_Srrif'' 3 0x9083a0000000 [(0, 1, 0xf, 40), (1, 0, 0x1f, 34), (2, 0, 0xf, 20), (2, 4, 0xf, 16), (2, 8, 1, 15), (2,
       9, 1, 14), (2, 10, 1, 13), (2, 11, 1, 12), (2, 12, 0xfff, 0)],
     Insn ''AND_Srrr'' 3 0x9080c0a00000 [(2, 0, 7, 17), (2, 3, 3, 32), (0, 1, 0xf, 40), (1, 0, 0x1f, 34)],
     Insn ''AND_Srrrc'' 4 0x9080c0a00000 [(2, 0, 7, 17), (2, 3, 3, 32), (0, 1, 0xf, 40), (1, 0, 0x1f, 34), (3, 0, 0xf, 24)],
     Insn ''AND_Srrrci'' 5 0x9080c0a00000 [(2, 0, 7, 17), (2, 3, 3, 32), (0, 1, 0xf, 40), (1, 0, 0x1f, 34), (3, 0, 0xf, 24), (4,
       0, 0xffff, 0)],
     Insn ''AND_Urki'' 3 0x500300000000 [(1, 0, 0x1f, 34), (0, 1, 0xf, 40), (2, 0, 0xf, 20), (2, 4, 0xf, 16), (2, 8, 1, 15), (2,
       9, 1, 14), (2, 10, 1, 13), (2, 11, 1, 12), (2, 12, 0xfff, 0), (2, 24, 0xff, 24)],
     Insn ''AND_Urri'' 3 0x206000000000 [(1, 0, 7, 17), (1, 3, 3, 32), (0, 1, 0xf, 40), (2, 0, 0xf, 20), (2, 4, 7, 34), (2, 7, 1,
       44), (2, 8, 1, 15), (2, 9, 1, 14), (2, 10, 1, 13), (2, 11, 1, 12), (2, 12, 0xfff, 0), (2, 24, 0xff, 24)],
     Insn ''AND_Urric'' 4 0x9003a0000000 [(0, 1, 0xf, 40), (1, 0, 0x1f, 34), (3, 0, 0xf, 24), (2, 0, 0xf, 20), (2, 4, 0xf, 16),
       (2, 8, 1, 15), (2, 9, 1, 14), (2, 10, 1, 13), (2, 11, 1, 12), (2, 12, 0xfff, 0)],
     Insn ''AND_Urrici'' 5 0x9003a0000000 [(0, 1, 0xf, 40), (1, 0, 0x1f, 34), (3, 0, 0xf, 24), (2, 0, 0xf, 20), (2, 4, 0xf, 16),
       (4, 0, 0xffff, 0)],
     Insn ''AND_Urrif'' 3 0x9003a0000000 [(0, 1, 0xf, 40), (1, 0, 0x1f, 34), (2, 0, 0xf, 20), (2, 4, 0xf, 16), (2, 8, 1, 15), (2,
       9, 1, 14), (2, 10, 1, 13), (2, 11, 1, 12), (2, 12, 0xfff, 0)],
     Insn ''AND_Urrr'' 3 0x9000c0a00000 [(2, 0, 7, 17), (2, 3, 3, 32), (0, 1, 0xf, 40), (1, 0, 0x1f, 34)],
     Insn ''AND_Urrrc'' 4 0x9000c0a00000 [(2, 0, 7, 17), (2, 3, 3, 32), (0, 1, 0xf, 40), (1, 0, 0x1f, 34), (3, 0, 0xf, 24)],
     Insn ''AND_Urrrci'' 5 0x9000c0a00000 [(2, 0, 7, 17), (2, 3, 3, 32), (0, 1, 0xf, 40), (1, 0, 0x1f, 34), (3, 0, 0xf, 24), (4,
       0, 0xffff, 0)],
     Insn ''ANDrri'' 3 0x500300000000 [(1, 0, 0x1f, 34), (0, 0, 0x1f, 39), (2, 0, 0xf, 20), (2, 4, 0xf, 16), (2, 8, 1, 15), (2,
       9, 1, 14), (2, 10, 1, 13), (2, 11, 1, 12), (2, 12, 0xfff, 0), (2, 24, 0xff, 24)],
     Insn ''ANDrric'' 4 0x8003a0000000 [(0, 0, 0x1f, 39), (1, 0, 0x1f, 34), (3, 0, 0xf, 24), (2, 0, 0xf, 20), (2, 4, 0xf, 16),
       (2, 8, 1, 15), (2, 9, 1, 14), (2, 10, 1, 13), (2, 11, 1, 12), (2, 12, 0xfff, 0)],
     Insn ''ANDrrici'' 5 0x8003a0000000 [(0, 0, 0x1f, 39), (1, 0, 0x1f, 34), (3, 0, 0xf, 24), (2, 0, 0xf, 20), (2, 4, 0xf, 16),
       (4, 0, 0xffff, 0)],
     Insn ''ANDrrif'' 3 0x8003a0000000 [(0, 0, 0x1f, 39), (1, 0, 0x1f, 34), (2, 0, 0xf, 20), (2, 4, 0xf, 16), (2, 8, 1, 15), (2,
       9, 1, 14), (2, 10, 1, 13), (2, 11, 1, 12), (2, 12, 0xfff, 0)],
     Insn ''ANDrrr'' 3 0x8000c0a00000 [(2, 0, 7, 17), (2, 3, 3, 32), (0, 0, 0x1f, 39), (1, 0, 0x1f, 34)],
     Insn ''ANDrrrc'' 4 0x8000c0a00000 [(2, 0, 7, 17), (2, 3, 3, 32), (0, 0, 0x1f, 39), (1, 0, 0x1f, 34), (3, 0, 0xf, 24)],
     Insn ''ANDrrrci'' 5 0x8000c0a00000 [(2, 0, 7, 17), (2, 3, 3, 32), (0, 0, 0x1f, 39), (1, 0, 0x1f, 34), (3, 0, 0xf, 24), (4,
       0, 0xffff, 0)],
     Insn ''ANDzri'' 2 0x656000000000 [(0, 0, 7, 17), (0, 3, 3, 32), (1, 0, 0xf, 20), (1, 4, 7, 34), (1, 7, 1, 39), (1, 8, 1,
       15), (1, 9, 1, 14), (1, 10, 1, 13), (1, 11, 1, 12), (1, 12, 0xfff, 0), (1, 24, 0xff, 24)],
     Insn ''ANDzric'' 3 0x8c03a0000000 [(0, 0, 0x1f, 34), (2, 0, 0xf, 24), (1, 0, 0xf, 20), (1, 4, 0xf, 16), (1, 8, 1, 15), (1,
       9, 1, 14), (1, 10, 1, 13), (1, 11, 1, 12), (1, 12, 0xfff, 0), (1, 24, 7, 39), (1, 27, 1, 44)],
     Insn ''ANDzrici'' 4 0x8c03a0000000 [(0, 0, 0x1f, 34), (2, 0, 0xf, 24), (1, 0, 0xf, 20), (1, 4, 0xf, 16), (1, 8, 7, 39), (1,
       11, 1, 44), (3, 0, 0xffff, 0)]]"

definition isa_AND_rest_to_ANDN :: "insn list" where
  "isa_AND_rest_to_ANDN = [
     Insn ''ANDzrif'' 2 0x8c03a0000000 [(0, 0, 0x1f, 34), (1, 0, 0xf, 20), (1, 4, 0xf, 16), (1, 8, 1, 15), (1, 9, 1, 14), (1, 10,
       1, 13), (1, 11, 1, 12), (1, 12, 0xfff, 0), (1, 24, 7, 39), (1, 27, 1, 44)],
     Insn ''ANDzrr'' 2 0x8c00c0a00000 [(1, 0, 7, 17), (1, 3, 3, 32), (0, 0, 0x1f, 34)],
     Insn ''ANDzrrc'' 3 0x8c00c0a00000 [(1, 0, 7, 17), (1, 3, 3, 32), (0, 0, 0x1f, 34), (2, 0, 0xf, 24)],
     Insn ''ANDzrrci'' 4 0x8c00c0a00000 [(1, 0, 7, 17), (1, 3, 3, 32), (0, 0, 0x1f, 34), (2, 0, 0xf, 24), (3, 0, 0xffff, 0)],
     Insn ''ANDN_Srric'' 4 0x9083c0000000 [(0, 1, 0xf, 40), (1, 0, 0x1f, 34), (3, 0, 0xf, 24), (2, 0, 0xf, 20), (2, 4, 0xf, 16),
       (2, 8, 1, 15), (2, 9, 1, 14), (2, 10, 1, 13), (2, 11, 1, 12), (2, 12, 0xfff, 0)],
     Insn ''ANDN_Srrici'' 5 0x9083c0000000 [(0, 1, 0xf, 40), (1, 0, 0x1f, 34), (3, 0, 0xf, 24), (2, 0, 0xf, 20), (2, 4, 0xf, 16),
       (4, 0, 0xffff, 0)],
     Insn ''ANDN_Srrif'' 3 0x9083c0000000 [(0, 1, 0xf, 40), (1, 0, 0x1f, 34), (2, 0, 0xf, 20), (2, 4, 0xf, 16), (2, 8, 1, 15),
       (2, 9, 1, 14), (2, 10, 1, 13), (2, 11, 1, 12), (2, 12, 0xfff, 0)],
     Insn ''ANDN_Srrr'' 3 0x9080c0c00000 [(2, 0, 7, 17), (2, 3, 3, 32), (0, 1, 0xf, 40), (1, 0, 0x1f, 34)],
     Insn ''ANDN_Srrrc'' 4 0x9080c0c00000 [(2, 0, 7, 17), (2, 3, 3, 32), (0, 1, 0xf, 40), (1, 0, 0x1f, 34), (3, 0, 0xf, 24)],
     Insn ''ANDN_Srrrci'' 5 0x9080c0c00000 [(2, 0, 7, 17), (2, 3, 3, 32), (0, 1, 0xf, 40), (1, 0, 0x1f, 34), (3, 0, 0xf, 24), (4,
       0, 0xffff, 0)],
     Insn ''ANDN_Urric'' 4 0x9003c0000000 [(0, 1, 0xf, 40), (1, 0, 0x1f, 34), (3, 0, 0xf, 24), (2, 0, 0xf, 20), (2, 4, 0xf, 16),
       (2, 8, 1, 15), (2, 9, 1, 14), (2, 10, 1, 13), (2, 11, 1, 12), (2, 12, 0xfff, 0)],
     Insn ''ANDN_Urrici'' 5 0x9003c0000000 [(0, 1, 0xf, 40), (1, 0, 0x1f, 34), (3, 0, 0xf, 24), (2, 0, 0xf, 20), (2, 4, 0xf, 16),
       (4, 0, 0xffff, 0)],
     Insn ''ANDN_Urrif'' 3 0x9003c0000000 [(0, 1, 0xf, 40), (1, 0, 0x1f, 34), (2, 0, 0xf, 20), (2, 4, 0xf, 16), (2, 8, 1, 15),
       (2, 9, 1, 14), (2, 10, 1, 13), (2, 11, 1, 12), (2, 12, 0xfff, 0)],
     Insn ''ANDN_Urrr'' 3 0x9000c0c00000 [(2, 0, 7, 17), (2, 3, 3, 32), (0, 1, 0xf, 40), (1, 0, 0x1f, 34)],
     Insn ''ANDN_Urrrc'' 4 0x9000c0c00000 [(2, 0, 7, 17), (2, 3, 3, 32), (0, 1, 0xf, 40), (1, 0, 0x1f, 34), (3, 0, 0xf, 24)],
     Insn ''ANDN_Urrrci'' 5 0x9000c0c00000 [(2, 0, 7, 17), (2, 3, 3, 32), (0, 1, 0xf, 40), (1, 0, 0x1f, 34), (3, 0, 0xf, 24), (4,
       0, 0xffff, 0)],
     Insn ''ANDNrri'' 3 0x8003c0000000 [(0, 0, 0x1f, 39), (1, 0, 0x1f, 34), (2, 0, 0xf, 20), (2, 4, 0xf, 16), (2, 8, 1, 15), (2,
       9, 1, 14), (2, 10, 1, 13), (2, 11, 1, 12), (2, 12, 0xfff, 0)],
     Insn ''ANDNrric'' 4 0x8003c0000000 [(0, 0, 0x1f, 39), (1, 0, 0x1f, 34), (3, 0, 0xf, 24), (2, 0, 0xf, 20), (2, 4, 0xf, 16),
       (2, 8, 1, 15), (2, 9, 1, 14), (2, 10, 1, 13), (2, 11, 1, 12), (2, 12, 0xfff, 0)],
     Insn ''ANDNrrici'' 5 0x8003c0000000 [(0, 0, 0x1f, 39), (1, 0, 0x1f, 34), (3, 0, 0xf, 24), (2, 0, 0xf, 20), (2, 4, 0xf, 16),
       (4, 0, 0xffff, 0)],
     Insn ''ANDNrrif'' 3 0x8003c0000000 [(0, 0, 0x1f, 39), (1, 0, 0x1f, 34), (2, 0, 0xf, 20), (2, 4, 0xf, 16), (2, 8, 1, 15), (2,
       9, 1, 14), (2, 10, 1, 13), (2, 11, 1, 12), (2, 12, 0xfff, 0)],
     Insn ''ANDNrrr'' 3 0x8000c0c00000 [(2, 0, 7, 17), (2, 3, 3, 32), (0, 0, 0x1f, 39), (1, 0, 0x1f, 34)],
     Insn ''ANDNrrrc'' 4 0x8000c0c00000 [(2, 0, 7, 17), (2, 3, 3, 32), (0, 0, 0x1f, 39), (1, 0, 0x1f, 34), (3, 0, 0xf, 24)],
     Insn ''ANDNrrrci'' 5 0x8000c0c00000 [(2, 0, 7, 17), (2, 3, 3, 32), (0, 0, 0x1f, 39), (1, 0, 0x1f, 34), (3, 0, 0xf, 24), (4,
       0, 0xffff, 0)],
     Insn ''ANDNzric'' 3 0x8c03c0000000 [(0, 0, 0x1f, 34), (2, 0, 0xf, 24), (1, 0, 0xf, 20), (1, 4, 0xf, 16), (1, 8, 1, 15), (1,
       9, 1, 14), (1, 10, 1, 13), (1, 11, 1, 12), (1, 12, 0xfff, 0), (1, 24, 7, 39), (1, 27, 1, 44)],
     Insn ''ANDNzrici'' 4 0x8c03c0000000 [(0, 0, 0x1f, 34), (2, 0, 0xf, 24), (1, 0, 0xf, 20), (1, 4, 0xf, 16), (1, 8, 7, 39), (1,
       11, 1, 44), (3, 0, 0xffff, 0)],
     Insn ''ANDNzrif'' 2 0x8c03c0000000 [(0, 0, 0x1f, 34), (1, 0, 0xf, 20), (1, 4, 0xf, 16), (1, 8, 1, 15), (1, 9, 1, 14), (1,
       10, 1, 13), (1, 11, 1, 12), (1, 12, 0xfff, 0), (1, 24, 7, 39), (1, 27, 1, 44)],
     Insn ''ANDNzrr'' 2 0x8c00c0c00000 [(1, 0, 7, 17), (1, 3, 3, 32), (0, 0, 0x1f, 34)],
     Insn ''ANDNzrrc'' 3 0x8c00c0c00000 [(1, 0, 7, 17), (1, 3, 3, 32), (0, 0, 0x1f, 34), (2, 0, 0xf, 24)],
     Insn ''ANDNzrrci'' 4 0x8c00c0c00000 [(1, 0, 7, 17), (1, 3, 3, 32), (0, 0, 0x1f, 34), (2, 0, 0xf, 24), (3, 0, 0xffff, 0)]]"

definition isa_ASR_to_CALL :: "insn list" where
  "isa_ASR_to_CALL = [
     Insn ''ASR_Srri'' 3 0x908340080000 [(0, 1, 0xf, 40), (1, 0, 0x1f, 34), (2, 0, 0xf, 20), (2, 4, 1, 28)],
     Insn ''ASR_Srric'' 4 0x908340080000 [(0, 1, 0xf, 40), (1, 0, 0x1f, 34), (3, 0, 0xf, 24), (2, 0, 0xf, 20), (2, 4, 1, 28)],
     Insn ''ASR_Srrici'' 5 0x908340080000 [(0, 1, 0xf, 40), (1, 0, 0x1f, 34), (3, 0, 0xf, 24), (3, 4, 1, 29), (2, 0, 0xf, 20),
       (2, 4, 1, 28), (4, 0, 0xffff, 0)],
     Insn ''ASR_Srrr'' 3 0x9080d0800000 [(2, 0, 7, 17), (2, 3, 3, 32), (0, 1, 0xf, 40), (1, 0, 0x1f, 34)],
     Insn ''ASR_Srrrc'' 4 0x9080d0800000 [(2, 0, 7, 17), (2, 3, 3, 32), (0, 1, 0xf, 40), (1, 0, 0x1f, 34), (3, 0, 0xf, 24)],
     Insn ''ASR_Srrrci'' 5 0x9080d0800000 [(2, 0, 7, 17), (2, 3, 3, 32), (0, 1, 0xf, 40), (1, 0, 0x1f, 34), (3, 0, 0xf, 24), (3,
       4, 1, 29), (4, 0, 0xffff, 0)],
     Insn ''ASR_Urri'' 3 0x900340080000 [(0, 1, 0xf, 40), (1, 0, 0x1f, 34), (2, 0, 0xf, 20), (2, 4, 1, 28)],
     Insn ''ASR_Urric'' 4 0x900340080000 [(0, 1, 0xf, 40), (1, 0, 0x1f, 34), (3, 0, 0xf, 24), (2, 0, 0xf, 20), (2, 4, 1, 28)],
     Insn ''ASR_Urrici'' 5 0x900340080000 [(0, 1, 0xf, 40), (1, 0, 0x1f, 34), (3, 0, 0xf, 24), (3, 4, 1, 29), (2, 0, 0xf, 20),
       (2, 4, 1, 28), (4, 0, 0xffff, 0)],
     Insn ''ASR_Urrr'' 3 0x9000d0800000 [(2, 0, 7, 17), (2, 3, 3, 32), (0, 1, 0xf, 40), (1, 0, 0x1f, 34)],
     Insn ''ASR_Urrrc'' 4 0x9000d0800000 [(2, 0, 7, 17), (2, 3, 3, 32), (0, 1, 0xf, 40), (1, 0, 0x1f, 34), (3, 0, 0xf, 24)],
     Insn ''ASR_Urrrci'' 5 0x9000d0800000 [(2, 0, 7, 17), (2, 3, 3, 32), (0, 1, 0xf, 40), (1, 0, 0x1f, 34), (3, 0, 0xf, 24), (3,
       4, 1, 29), (4, 0, 0xffff, 0)],
     Insn ''ASRrri'' 3 0x800340080000 [(0, 0, 0x1f, 39), (1, 0, 0x1f, 34), (2, 0, 0xf, 20), (2, 4, 1, 28)],
     Insn ''ASRrric'' 4 0x800340080000 [(0, 0, 0x1f, 39), (1, 0, 0x1f, 34), (3, 0, 0xf, 24), (2, 0, 0xf, 20), (2, 4, 1, 28)],
     Insn ''ASRrrici'' 5 0x800340080000 [(0, 0, 0x1f, 39), (1, 0, 0x1f, 34), (3, 0, 0xf, 24), (3, 4, 1, 29), (2, 0, 0xf, 20), (2,
       4, 1, 28), (4, 0, 0xffff, 0)],
     Insn ''ASRrrr'' 3 0x8000d0800000 [(2, 0, 7, 17), (2, 3, 3, 32), (0, 0, 0x1f, 39), (1, 0, 0x1f, 34)],
     Insn ''ASRrrrc'' 4 0x8000d0800000 [(2, 0, 7, 17), (2, 3, 3, 32), (0, 0, 0x1f, 39), (1, 0, 0x1f, 34), (3, 0, 0xf, 24)],
     Insn ''ASRrrrci'' 5 0x8000d0800000 [(2, 0, 7, 17), (2, 3, 3, 32), (0, 0, 0x1f, 39), (1, 0, 0x1f, 34), (3, 0, 0xf, 24), (3,
       4, 1, 29), (4, 0, 0xffff, 0)],
     Insn ''ASRzri'' 2 0x8c0340080000 [(0, 0, 0x1f, 34), (1, 0, 0xf, 20), (1, 4, 1, 28)],
     Insn ''ASRzric'' 3 0x8c0340080000 [(0, 0, 0x1f, 34), (2, 0, 0xf, 24), (1, 0, 0xf, 20), (1, 4, 1, 28)],
     Insn ''ASRzrici'' 4 0x8c0340080000 [(0, 0, 0x1f, 34), (2, 0, 0xf, 24), (2, 4, 1, 29), (1, 0, 0xf, 20), (1, 4, 1, 28), (3, 0,
       0xffff, 0)],
     Insn ''ASRzrr'' 2 0x8c00d0800000 [(1, 0, 7, 17), (1, 3, 3, 32), (0, 0, 0x1f, 34)],
     Insn ''ASRzrrc'' 3 0x8c00d0800000 [(1, 0, 7, 17), (1, 3, 3, 32), (0, 0, 0x1f, 34), (2, 0, 0xf, 24)],
     Insn ''ASRzrrci'' 4 0x8c00d0800000 [(1, 0, 7, 17), (1, 3, 3, 32), (0, 0, 0x1f, 34), (2, 0, 0xf, 24), (2, 4, 1, 29), (3, 0,
       0xffff, 0)],
     Insn ''BKP'' 0 0x7e6320000000 [],
     Insn ''BOOTri'' 2 0x7d8320000000 [(0, 0, 0x1f, 34), (1, 0, 0xf, 20), (1, 4, 0xf, 16)],
     Insn ''BOOTrici'' 4 0x7d8320000000 [(0, 0, 0x1f, 34), (2, 0, 0xf, 24), (1, 0, 0xf, 20), (1, 4, 0xf, 16), (3, 0, 0xffff, 0)],
     Insn ''CALLri'' 2 0x806300000000 [(0, 0, 0x1f, 39), (1, 0, 0xf, 20), (1, 4, 0xf, 16), (1, 8, 1, 15), (1, 9, 1, 14), (1, 10,
       1, 13), (1, 11, 1, 12), (1, 12, 0xfff, 0)],
     Insn ''CALLrr'' 2 0x800300000000 [(0, 0, 0x1f, 39), (1, 0, 0x1f, 34)],
     Insn ''CALLrri'' 3 0x800300000000 [(0, 0, 0x1f, 39), (1, 0, 0x1f, 34), (2, 0, 0xf, 20), (2, 4, 0xf, 16), (2, 8, 1, 15), (2,
       9, 1, 14), (2, 10, 1, 13), (2, 11, 1, 12), (2, 12, 0xfff, 0)],
     Insn ''CALLrrr'' 3 0x8000c0000000 [(2, 0, 7, 17), (2, 3, 3, 32), (0, 0, 0x1f, 39), (1, 0, 0x1f, 34)],
     Insn ''CALLzri'' 2 0x8c0300000000 [(0, 0, 0x1f, 34), (1, 0, 0xf, 20), (1, 4, 0xf, 16), (1, 8, 1, 15), (1, 9, 1, 14), (1, 10,
       1, 13), (1, 11, 1, 12), (1, 12, 0xfff, 0), (1, 24, 7, 39), (1, 27, 1, 44)],
     Insn ''CALLzrr'' 2 0x8c00c0000000 [(1, 0, 7, 17), (1, 3, 3, 32), (0, 0, 0x1f, 34)]]"

definition isa_CAO_to_CLS :: "insn list" where
  "isa_CAO_to_CLS = [
     Insn ''CAO_Srr'' 2 0x908330000000 [(1, 0, 0x1f, 34), (0, 1, 0xf, 40)],
     Insn ''CAO_Srrc'' 3 0x908330000000 [(1, 0, 0x1f, 34), (0, 1, 0xf, 40), (2, 0, 0xf, 24)],
     Insn ''CAO_Srrci'' 4 0x908330000000 [(1, 0, 0x1f, 34), (0, 1, 0xf, 40), (2, 0, 0xf, 24), (3, 0, 0xffff, 0)],
     Insn ''CAO_Urr'' 2 0x900330000000 [(1, 0, 0x1f, 34), (0, 1, 0xf, 40)],
     Insn ''CAO_Urrc'' 3 0x900330000000 [(1, 0, 0x1f, 34), (0, 1, 0xf, 40), (2, 0, 0xf, 24)],
     Insn ''CAO_Urrci'' 4 0x900330000000 [(1, 0, 0x1f, 34), (0, 1, 0xf, 40), (2, 0, 0xf, 24), (3, 0, 0xffff, 0)],
     Insn ''CAOrr'' 2 0x800330000000 [(1, 0, 0x1f, 34), (0, 0, 0x1f, 39)],
     Insn ''CAOrrc'' 3 0x800330000000 [(1, 0, 0x1f, 34), (0, 0, 0x1f, 39), (2, 0, 0xf, 24)],
     Insn ''CAOrrci'' 4 0x800330000000 [(1, 0, 0x1f, 34), (0, 0, 0x1f, 39), (2, 0, 0xf, 24), (3, 0, 0xffff, 0)],
     Insn ''CAOzr'' 1 0x8c0330000000 [(0, 0, 0x1f, 34)],
     Insn ''CAOzrc'' 2 0x8c0330000000 [(0, 0, 0x1f, 34), (1, 0, 0xf, 24)],
     Insn ''CAOzrci'' 3 0x8c0330000000 [(0, 0, 0x1f, 34), (1, 0, 0xf, 24), (2, 0, 0xffff, 0)],
     Insn ''CLO_Srr'' 2 0x908330100000 [(1, 0, 0x1f, 34), (0, 1, 0xf, 40)],
     Insn ''CLO_Srrc'' 3 0x908330100000 [(1, 0, 0x1f, 34), (0, 1, 0xf, 40), (2, 0, 0xf, 24)],
     Insn ''CLO_Srrci'' 4 0x908330100000 [(1, 0, 0x1f, 34), (0, 1, 0xf, 40), (2, 0, 0xf, 24), (3, 0, 0xffff, 0)],
     Insn ''CLO_Urr'' 2 0x900330100000 [(1, 0, 0x1f, 34), (0, 1, 0xf, 40)],
     Insn ''CLO_Urrc'' 3 0x900330100000 [(1, 0, 0x1f, 34), (0, 1, 0xf, 40), (2, 0, 0xf, 24)],
     Insn ''CLO_Urrci'' 4 0x900330100000 [(1, 0, 0x1f, 34), (0, 1, 0xf, 40), (2, 0, 0xf, 24), (3, 0, 0xffff, 0)],
     Insn ''CLOrr'' 2 0x800330100000 [(1, 0, 0x1f, 34), (0, 0, 0x1f, 39)],
     Insn ''CLOrrc'' 3 0x800330100000 [(1, 0, 0x1f, 34), (0, 0, 0x1f, 39), (2, 0, 0xf, 24)],
     Insn ''CLOrrci'' 4 0x800330100000 [(1, 0, 0x1f, 34), (0, 0, 0x1f, 39), (2, 0, 0xf, 24), (3, 0, 0xffff, 0)],
     Insn ''CLOzr'' 1 0x8c0330100000 [(0, 0, 0x1f, 34)],
     Insn ''CLOzrc'' 2 0x8c0330100000 [(0, 0, 0x1f, 34), (1, 0, 0xf, 24)],
     Insn ''CLOzrci'' 3 0x8c0330100000 [(0, 0, 0x1f, 34), (1, 0, 0xf, 24), (2, 0, 0xffff, 0)],
     Insn ''CLR_RUNrici'' 4 0x7c8320000000 [(0, 0, 0x1f, 34), (2, 0, 0xf, 24), (1, 0, 0xf, 20), (1, 4, 0xf, 16), (3, 0, 0xffff,
       0)],
     Insn ''CLS_Srr'' 2 0x908330200000 [(1, 0, 0x1f, 34), (0, 1, 0xf, 40)],
     Insn ''CLS_Srrc'' 3 0x908330200000 [(1, 0, 0x1f, 34), (0, 1, 0xf, 40), (2, 0, 0xf, 24)],
     Insn ''CLS_Srrci'' 4 0x908330200000 [(1, 0, 0x1f, 34), (0, 1, 0xf, 40), (2, 0, 0xf, 24), (3, 0, 0xffff, 0)],
     Insn ''CLS_Urr'' 2 0x900330200000 [(1, 0, 0x1f, 34), (0, 1, 0xf, 40)],
     Insn ''CLS_Urrc'' 3 0x900330200000 [(1, 0, 0x1f, 34), (0, 1, 0xf, 40), (2, 0, 0xf, 24)],
     Insn ''CLS_Urrci'' 4 0x900330200000 [(1, 0, 0x1f, 34), (0, 1, 0xf, 40), (2, 0, 0xf, 24), (3, 0, 0xffff, 0)],
     Insn ''CLSrr'' 2 0x800330200000 [(1, 0, 0x1f, 34), (0, 0, 0x1f, 39)],
     Insn ''CLSrrc'' 3 0x800330200000 [(1, 0, 0x1f, 34), (0, 0, 0x1f, 39), (2, 0, 0xf, 24)],
     Insn ''CLSrrci'' 4 0x800330200000 [(1, 0, 0x1f, 34), (0, 0, 0x1f, 39), (2, 0, 0xf, 24), (3, 0, 0xffff, 0)],
     Insn ''CLSzr'' 1 0x8c0330200000 [(0, 0, 0x1f, 34)],
     Insn ''CLSzrc'' 2 0x8c0330200000 [(0, 0, 0x1f, 34), (1, 0, 0xf, 24)],
     Insn ''CLSzrci'' 3 0x8c0330200000 [(0, 0, 0x1f, 34), (1, 0, 0xf, 24), (2, 0, 0xffff, 0)]]"

definition isa_CLZ_to_EXTSB :: "insn list" where
  "isa_CLZ_to_EXTSB = [
     Insn ''CLZ_Srr'' 2 0x908330300000 [(1, 0, 0x1f, 34), (0, 1, 0xf, 40)],
     Insn ''CLZ_Srrc'' 3 0x908330300000 [(1, 0, 0x1f, 34), (0, 1, 0xf, 40), (2, 0, 0xf, 24)],
     Insn ''CLZ_Srrci'' 4 0x908330300000 [(1, 0, 0x1f, 34), (0, 1, 0xf, 40), (2, 0, 0xf, 24), (3, 0, 0xffff, 0)],
     Insn ''CLZ_Urr'' 2 0x900330300000 [(1, 0, 0x1f, 34), (0, 1, 0xf, 40)],
     Insn ''CLZ_Urrc'' 3 0x900330300000 [(1, 0, 0x1f, 34), (0, 1, 0xf, 40), (2, 0, 0xf, 24)],
     Insn ''CLZ_Urrci'' 4 0x900330300000 [(1, 0, 0x1f, 34), (0, 1, 0xf, 40), (2, 0, 0xf, 24), (3, 0, 0xffff, 0)],
     Insn ''CLZrr'' 2 0x800330300000 [(1, 0, 0x1f, 34), (0, 0, 0x1f, 39)],
     Insn ''CLZrrc'' 3 0x800330300000 [(1, 0, 0x1f, 34), (0, 0, 0x1f, 39), (2, 0, 0xf, 24)],
     Insn ''CLZrrci'' 4 0x800330300000 [(1, 0, 0x1f, 34), (0, 0, 0x1f, 39), (2, 0, 0xf, 24), (3, 0, 0xffff, 0)],
     Insn ''CLZzr'' 1 0x8c0330300000 [(0, 0, 0x1f, 34)],
     Insn ''CLZzrc'' 2 0x8c0330300000 [(0, 0, 0x1f, 34), (1, 0, 0xf, 24)],
     Insn ''CLZzrci'' 3 0x8c0330300000 [(0, 0, 0x1f, 34), (1, 0, 0xf, 24), (2, 0, 0xffff, 0)],
     Insn ''CMPB4_Srrr'' 3 0x908080000000 [(2, 0, 7, 17), (2, 3, 3, 32), (0, 1, 0xf, 40), (1, 0, 0x1f, 34)],
     Insn ''CMPB4_Srrrc'' 4 0x908080000000 [(2, 0, 7, 17), (2, 3, 3, 32), (0, 1, 0xf, 40), (1, 0, 0x1f, 34), (3, 0, 0xf, 24)],
     Insn ''CMPB4_Srrrci'' 5 0x908080000000 [(2, 0, 7, 17), (2, 3, 3, 32), (0, 1, 0xf, 40), (1, 0, 0x1f, 34), (3, 0, 0xf, 24),
       (4, 0, 0xffff, 0)],
     Insn ''CMPB4_Urrr'' 3 0x900080000000 [(2, 0, 7, 17), (2, 3, 3, 32), (0, 1, 0xf, 40), (1, 0, 0x1f, 34)],
     Insn ''CMPB4_Urrrc'' 4 0x900080000000 [(2, 0, 7, 17), (2, 3, 3, 32), (0, 1, 0xf, 40), (1, 0, 0x1f, 34), (3, 0, 0xf, 24)],
     Insn ''CMPB4_Urrrci'' 5 0x900080000000 [(2, 0, 7, 17), (2, 3, 3, 32), (0, 1, 0xf, 40), (1, 0, 0x1f, 34), (3, 0, 0xf, 24),
       (4, 0, 0xffff, 0)],
     Insn ''CMPB4rrr'' 3 0x800080000000 [(2, 0, 7, 17), (2, 3, 3, 32), (0, 0, 0x1f, 39), (1, 0, 0x1f, 34)],
     Insn ''CMPB4rrrc'' 4 0x800080000000 [(2, 0, 7, 17), (2, 3, 3, 32), (0, 0, 0x1f, 39), (1, 0, 0x1f, 34), (3, 0, 0xf, 24)],
     Insn ''CMPB4rrrci'' 5 0x800080000000 [(2, 0, 7, 17), (2, 3, 3, 32), (0, 0, 0x1f, 39), (1, 0, 0x1f, 34), (3, 0, 0xf, 24), (4,
       0, 0xffff, 0)],
     Insn ''CMPB4zrr'' 2 0x8c0080000000 [(1, 0, 7, 17), (1, 3, 3, 32), (0, 0, 0x1f, 34)],
     Insn ''CMPB4zrrc'' 3 0x8c0080000000 [(1, 0, 7, 17), (1, 3, 3, 32), (0, 0, 0x1f, 34), (2, 0, 0xf, 24)],
     Insn ''CMPB4zrrci'' 4 0x8c0080000000 [(1, 0, 7, 17), (1, 3, 3, 32), (0, 0, 0x1f, 34), (2, 0, 0xf, 24), (3, 0, 0xffff, 0)],
     Insn ''DIV_STEPrrri'' 4 0x800060010000 [(2, 0, 7, 17), (2, 3, 3, 32), (0, 0, 0x1f, 39), (1, 0, 0x1f, 34), (3, 0, 0xf, 20),
       (3, 4, 1, 28)],
     Insn ''DIV_STEPrrrici'' 6 0x800060010000 [(2, 0, 7, 17), (2, 3, 3, 32), (0, 0, 0x1f, 39), (4, 0, 0xf, 24), (1, 0, 0x1f, 34),
       (3, 0, 0xf, 20), (3, 4, 1, 28), (5, 0, 0xffff, 0)],
     Insn ''EXTSB_Srr'' 2 0x908330500000 [(1, 0, 0x1f, 34), (0, 1, 0xf, 40)],
     Insn ''EXTSB_Srrc'' 3 0x908330500000 [(1, 0, 0x1f, 34), (0, 1, 0xf, 40), (2, 0, 0xf, 24)],
     Insn ''EXTSB_Srrci'' 4 0x908330500000 [(1, 0, 0x1f, 34), (0, 1, 0xf, 40), (2, 0, 0xf, 24), (3, 0, 0xffff, 0)],
     Insn ''EXTSBrr'' 2 0x800330500000 [(1, 0, 0x1f, 34), (0, 0, 0x1f, 39)],
     Insn ''EXTSBrrc'' 3 0x800330500000 [(1, 0, 0x1f, 34), (0, 0, 0x1f, 39), (2, 0, 0xf, 24)],
     Insn ''EXTSBrrci'' 4 0x800330500000 [(1, 0, 0x1f, 34), (0, 0, 0x1f, 39), (2, 0, 0xf, 24), (3, 0, 0xffff, 0)],
     Insn ''EXTSBzr'' 1 0x8c0330500000 [(0, 0, 0x1f, 34)],
     Insn ''EXTSBzrc'' 2 0x8c0330500000 [(0, 0, 0x1f, 34), (1, 0, 0xf, 24)],
     Insn ''EXTSBzrci'' 3 0x8c0330500000 [(0, 0, 0x1f, 34), (1, 0, 0xf, 24), (2, 0, 0xffff, 0)]]"

definition isa_EXTSH_to_FAULT :: "insn list" where
  "isa_EXTSH_to_FAULT = [
     Insn ''EXTSH_Srr'' 2 0x908330700000 [(1, 0, 0x1f, 34), (0, 1, 0xf, 40)],
     Insn ''EXTSH_Srrc'' 3 0x908330700000 [(1, 0, 0x1f, 34), (0, 1, 0xf, 40), (2, 0, 0xf, 24)],
     Insn ''EXTSH_Srrci'' 4 0x908330700000 [(1, 0, 0x1f, 34), (0, 1, 0xf, 40), (2, 0, 0xf, 24), (3, 0, 0xffff, 0)],
     Insn ''EXTSHrr'' 2 0x800330700000 [(1, 0, 0x1f, 34), (0, 0, 0x1f, 39)],
     Insn ''EXTSHrrc'' 3 0x800330700000 [(1, 0, 0x1f, 34), (0, 0, 0x1f, 39), (2, 0, 0xf, 24)],
     Insn ''EXTSHrrci'' 4 0x800330700000 [(1, 0, 0x1f, 34), (0, 0, 0x1f, 39), (2, 0, 0xf, 24), (3, 0, 0xffff, 0)],
     Insn ''EXTSHzr'' 1 0x8c0330700000 [(0, 0, 0x1f, 34)],
     Insn ''EXTSHzrc'' 2 0x8c0330700000 [(0, 0, 0x1f, 34), (1, 0, 0xf, 24)],
     Insn ''EXTSHzrci'' 3 0x8c0330700000 [(0, 0, 0x1f, 34), (1, 0, 0xf, 24), (2, 0, 0xffff, 0)],
     Insn ''EXTUB_Urr'' 2 0x900330400000 [(1, 0, 0x1f, 34), (0, 1, 0xf, 40)],
     Insn ''EXTUB_Urrc'' 3 0x900330400000 [(1, 0, 0x1f, 34), (0, 1, 0xf, 40), (2, 0, 0xf, 24)],
     Insn ''EXTUB_Urrci'' 4 0x900330400000 [(1, 0, 0x1f, 34), (0, 1, 0xf, 40), (2, 0, 0xf, 24), (3, 0, 0xffff, 0)],
     Insn ''EXTUBrr'' 2 0x800330400000 [(1, 0, 0x1f, 34), (0, 0, 0x1f, 39)],
     Insn ''EXTUBrrc'' 3 0x800330400000 [(1, 0, 0x1f, 34), (0, 0, 0x1f, 39), (2, 0, 0xf, 24)],
     Insn ''EXTUBrrci'' 4 0x800330400000 [(1, 0, 0x1f, 34), (0, 0, 0x1f, 39), (2, 0, 0xf, 24), (3, 0, 0xffff, 0)],
     Insn ''EXTUBzr'' 1 0x8c0330400000 [(0, 0, 0x1f, 34)],
     Insn ''EXTUBzrc'' 2 0x8c0330400000 [(0, 0, 0x1f, 34), (1, 0, 0xf, 24)],
     Insn ''EXTUBzrci'' 3 0x8c0330400000 [(0, 0, 0x1f, 34), (1, 0, 0xf, 24), (2, 0, 0xffff, 0)],
     Insn ''EXTUH_Urr'' 2 0x900330600000 [(1, 0, 0x1f, 34), (0, 1, 0xf, 40)],
     Insn ''EXTUH_Urrc'' 3 0x900330600000 [(1, 0, 0x1f, 34), (0, 1, 0xf, 40), (2, 0, 0xf, 24)],
     Insn ''EXTUH_Urrci'' 4 0x900330600000 [(1, 0, 0x1f, 34), (0, 1, 0xf, 40), (2, 0, 0xf, 24), (3, 0, 0xffff, 0)],
     Insn ''EXTUHrr'' 2 0x800330600000 [(1, 0, 0x1f, 34), (0, 0, 0x1f, 39)],
     Insn ''EXTUHrrc'' 3 0x800330600000 [(1, 0, 0x1f, 34), (0, 0, 0x1f, 39), (2, 0, 0xf, 24)],
     Insn ''EXTUHrrci'' 4 0x800330600000 [(1, 0, 0x1f, 34), (0, 0, 0x1f, 39), (2, 0, 0xf, 24), (3, 0, 0xffff, 0)],
     Insn ''EXTUHzr'' 1 0x8c0330600000 [(0, 0, 0x1f, 34)],
     Insn ''EXTUHzrc'' 2 0x8c0330600000 [(0, 0, 0x1f, 34), (1, 0, 0xf, 24)],
     Insn ''EXTUHzrci'' 3 0x8c0330600000 [(0, 0, 0x1f, 34), (1, 0, 0xf, 24), (2, 0, 0xffff, 0)],
     Insn ''FAULTi'' 1 0x7e6320000000 [(0, 0, 0xf, 20), (0, 4, 0xf, 16), (0, 8, 1, 15), (0, 9, 1, 14), (0, 10, 1, 13), (0, 11, 1,
       12), (0, 12, 0xfff, 0)]]"

definition isa_HASH_to_JGES :: "insn list" where
  "isa_HASH_to_JGES = [
     Insn ''HASH_Srric'' 4 0x908310000000 [(0, 1, 0xf, 40), (1, 0, 0x1f, 34), (3, 0, 0xf, 24), (2, 0, 0xf, 20), (2, 4, 0xf, 16),
       (2, 8, 1, 15), (2, 9, 1, 14), (2, 10, 1, 13), (2, 11, 1, 12), (2, 12, 0xfff, 0)],
     Insn ''HASH_Srrici'' 5 0x908310000000 [(0, 1, 0xf, 40), (1, 0, 0x1f, 34), (3, 0, 0xf, 24), (2, 0, 0xf, 20), (2, 4, 0xf, 16),
       (4, 0, 0xffff, 0)],
     Insn ''HASH_Srrif'' 3 0x908310000000 [(0, 1, 0xf, 40), (1, 0, 0x1f, 34), (2, 0, 0xf, 20), (2, 4, 0xf, 16), (2, 8, 1, 15),
       (2, 9, 1, 14), (2, 10, 1, 13), (2, 11, 1, 12), (2, 12, 0xfff, 0)],
     Insn ''HASH_Srrr'' 3 0x9080c0100000 [(2, 0, 7, 17), (2, 3, 3, 32), (0, 1, 0xf, 40), (1, 0, 0x1f, 34)],
     Insn ''HASH_Srrrc'' 4 0x9080c0100000 [(2, 0, 7, 17), (2, 3, 3, 32), (0, 1, 0xf, 40), (1, 0, 0x1f, 34), (3, 0, 0xf, 24)],
     Insn ''HASH_Srrrci'' 5 0x9080c0100000 [(2, 0, 7, 17), (2, 3, 3, 32), (0, 1, 0xf, 40), (1, 0, 0x1f, 34), (3, 0, 0xf, 24), (4,
       0, 0xffff, 0)],
     Insn ''HASH_Urric'' 4 0x900310000000 [(0, 1, 0xf, 40), (1, 0, 0x1f, 34), (3, 0, 0xf, 24), (2, 0, 0xf, 20), (2, 4, 0xf, 16),
       (2, 8, 1, 15), (2, 9, 1, 14), (2, 10, 1, 13), (2, 11, 1, 12), (2, 12, 0xfff, 0)],
     Insn ''HASH_Urrici'' 5 0x900310000000 [(0, 1, 0xf, 40), (1, 0, 0x1f, 34), (3, 0, 0xf, 24), (2, 0, 0xf, 20), (2, 4, 0xf, 16),
       (4, 0, 0xffff, 0)],
     Insn ''HASH_Urrif'' 3 0x900310000000 [(0, 1, 0xf, 40), (1, 0, 0x1f, 34), (2, 0, 0xf, 20), (2, 4, 0xf, 16), (2, 8, 1, 15),
       (2, 9, 1, 14), (2, 10, 1, 13), (2, 11, 1, 12), (2, 12, 0xfff, 0)],
     Insn ''HASH_Urrr'' 3 0x9000c0100000 [(2, 0, 7, 17), (2, 3, 3, 32), (0, 1, 0xf, 40), (1, 0, 0x1f, 34)],
     Insn ''HASH_Urrrc'' 4 0x9000c0100000 [(2, 0, 7, 17), (2, 3, 3, 32), (0, 1, 0xf, 40), (1, 0, 0x1f, 34), (3, 0, 0xf, 24)],
     Insn ''HASH_Urrrci'' 5 0x9000c0100000 [(2, 0, 7, 17), (2, 3, 3, 32), (0, 1, 0xf, 40), (1, 0, 0x1f, 34), (3, 0, 0xf, 24), (4,
       0, 0xffff, 0)],
     Insn ''HASHrri'' 3 0x800310000000 [(0, 0, 0x1f, 39), (1, 0, 0x1f, 34), (2, 0, 0xf, 20), (2, 4, 0xf, 16), (2, 8, 1, 15), (2,
       9, 1, 14), (2, 10, 1, 13), (2, 11, 1, 12), (2, 12, 0xfff, 0)],
     Insn ''HASHrric'' 4 0x800310000000 [(0, 0, 0x1f, 39), (1, 0, 0x1f, 34), (3, 0, 0xf, 24), (2, 0, 0xf, 20), (2, 4, 0xf, 16),
       (2, 8, 1, 15), (2, 9, 1, 14), (2, 10, 1, 13), (2, 11, 1, 12), (2, 12, 0xfff, 0)],
     Insn ''HASHrrici'' 5 0x800310000000 [(0, 0, 0x1f, 39), (1, 0, 0x1f, 34), (3, 0, 0xf, 24), (2, 0, 0xf, 20), (2, 4, 0xf, 16),
       (4, 0, 0xffff, 0)],
     Insn ''HASHrrif'' 3 0x800310000000 [(0, 0, 0x1f, 39), (1, 0, 0x1f, 34), (2, 0, 0xf, 20), (2, 4, 0xf, 16), (2, 8, 1, 15), (2,
       9, 1, 14), (2, 10, 1, 13), (2, 11, 1, 12), (2, 12, 0xfff, 0)],
     Insn ''HASHrrr'' 3 0x8000c0100000 [(2, 0, 7, 17), (2, 3, 3, 32), (0, 0, 0x1f, 39), (1, 0, 0x1f, 34)],
     Insn ''HASHrrrc'' 4 0x8000c0100000 [(2, 0, 7, 17), (2, 3, 3, 32), (0, 0, 0x1f, 39), (1, 0, 0x1f, 34), (3, 0, 0xf, 24)],
     Insn ''HASHrrrci'' 5 0x8000c0100000 [(2, 0, 7, 17), (2, 3, 3, 32), (0, 0, 0x1f, 39), (1, 0, 0x1f, 34), (3, 0, 0xf, 24), (4,
       0, 0xffff, 0)],
     Insn ''HASHzric'' 3 0x8c0310000000 [(0, 0, 0x1f, 34), (2, 0, 0xf, 24), (1, 0, 0xf, 20), (1, 4, 0xf, 16), (1, 8, 1, 15), (1,
       9, 1, 14), (1, 10, 1, 13), (1, 11, 1, 12), (1, 12, 0xfff, 0), (1, 24, 7, 39), (1, 27, 1, 44)],
     Insn ''HASHzrici'' 4 0x8c0310000000 [(0, 0, 0x1f, 34), (2, 0, 0xf, 24), (1, 0, 0xf, 20), (1, 4, 0xf, 16), (1, 8, 7, 39), (1,
       11, 1, 44), (3, 0, 0xffff, 0)],
     Insn ''HASHzrif'' 2 0x8c0310000000 [(0, 0, 0x1f, 34), (1, 0, 0xf, 20), (1, 4, 0xf, 16), (1, 8, 1, 15), (1, 9, 1, 14), (1,
       10, 1, 13), (1, 11, 1, 12), (1, 12, 0xfff, 0), (1, 24, 7, 39), (1, 27, 1, 44)],
     Insn ''HASHzrr'' 2 0x8c00c0100000 [(1, 0, 7, 17), (1, 3, 3, 32), (0, 0, 0x1f, 34)],
     Insn ''HASHzrrc'' 3 0x8c00c0100000 [(1, 0, 7, 17), (1, 3, 3, 32), (0, 0, 0x1f, 34), (2, 0, 0xf, 24)],
     Insn ''HASHzrrci'' 4 0x8c00c0100000 [(1, 0, 7, 17), (1, 3, 3, 32), (0, 0, 0x1f, 34), (2, 0, 0xf, 24), (3, 0, 0xffff, 0)],
     Insn ''JEQrii'' 3 0x3c0382000000 [(0, 0, 0x1f, 34), (1, 0, 0xf, 20), (1, 4, 0xf, 16), (1, 8, 7, 39), (2, 0, 0xffff, 0)],
     Insn ''JEQrri'' 3 0x3c0082c00000 [(1, 0, 7, 17), (1, 3, 3, 32), (0, 0, 0x1f, 34), (2, 0, 0xffff, 0)],
     Insn ''JGESrii'' 3 0x3c0397000000 [(0, 0, 0x1f, 34), (1, 0, 0xf, 20), (1, 4, 0xf, 16), (1, 8, 7, 39), (2, 0, 0xffff, 0)],
     Insn ''JGESrri'' 3 0x3c0097c00000 [(1, 0, 7, 17), (1, 3, 3, 32), (0, 0, 0x1f, 34), (2, 0, 0xffff, 0)]]"

definition isa_JGEU_to_LBSS :: "insn list" where
  "isa_JGEU_to_LBSS = [
     Insn ''JGEUrii'' 3 0x3c0395000000 [(0, 0, 0x1f, 34), (1, 0, 0xf, 20), (1, 4, 0xf, 16), (1, 8, 7, 39), (2, 0, 0xffff, 0)],
     Insn ''JGEUrri'' 3 0x3c0095c00000 [(1, 0, 7, 17), (1, 3, 3, 32), (0, 0, 0x1f, 34), (2, 0, 0xffff, 0)],
     Insn ''JGTSrii'' 3 0x3c0399000000 [(0, 0, 0x1f, 34), (1, 0, 0xf, 20), (1, 4, 0xf, 16), (1, 8, 7, 39), (2, 0, 0xffff, 0)],
     Insn ''JGTSrri'' 3 0x3c0099c00000 [(1, 0, 7, 17), (1, 3, 3, 32), (0, 0, 0x1f, 34), (2, 0, 0xffff, 0)],
     Insn ''JGTUrii'' 3 0x3c039b000000 [(0, 0, 0x1f, 34), (1, 0, 0xf, 20), (1, 4, 0xf, 16), (1, 8, 7, 39), (2, 0, 0xffff, 0)],
     Insn ''JGTUrri'' 3 0x3c009bc00000 [(1, 0, 7, 17), (1, 3, 3, 32), (0, 0, 0x1f, 34), (2, 0, 0xffff, 0)],
     Insn ''JLESrii'' 3 0x3c0398000000 [(0, 0, 0x1f, 34), (1, 0, 0xf, 20), (1, 4, 0xf, 16), (1, 8, 7, 39), (2, 0, 0xffff, 0)],
     Insn ''JLESrri'' 3 0x3c0098c00000 [(1, 0, 7, 17), (1, 3, 3, 32), (0, 0, 0x1f, 34), (2, 0, 0xffff, 0)],
     Insn ''JLEUrii'' 3 0x3c039a000000 [(0, 0, 0x1f, 34), (1, 0, 0xf, 20), (1, 4, 0xf, 16), (1, 8, 7, 39), (2, 0, 0xffff, 0)],
     Insn ''JLEUrri'' 3 0x3c009ac00000 [(1, 0, 7, 17), (1, 3, 3, 32), (0, 0, 0x1f, 34), (2, 0, 0xffff, 0)],
     Insn ''JLTSrii'' 3 0x3c0396000000 [(0, 0, 0x1f, 34), (1, 0, 0xf, 20), (1, 4, 0xf, 16), (1, 8, 7, 39), (2, 0, 0xffff, 0)],
     Insn ''JLTSrri'' 3 0x3c0096c00000 [(1, 0, 7, 17), (1, 3, 3, 32), (0, 0, 0x1f, 34), (2, 0, 0xffff, 0)],
     Insn ''JLTUrii'' 3 0x3c0394000000 [(0, 0, 0x1f, 34), (1, 0, 0xf, 20), (1, 4, 0xf, 16), (1, 8, 7, 39), (2, 0, 0xffff, 0)],
     Insn ''JLTUrri'' 3 0x3c0094c00000 [(1, 0, 7, 17), (1, 3, 3, 32), (0, 0, 0x1f, 34), (2, 0, 0xffff, 0)],
     Insn ''JNEQrii'' 3 0x3c0383000000 [(0, 0, 0x1f, 34), (1, 0, 0xf, 20), (1, 4, 0xf, 16), (1, 8, 7, 39), (2, 0, 0xffff, 0)],
     Insn ''JNEQrri'' 3 0x3c0083c00000 [(1, 0, 7, 17), (1, 3, 3, 32), (0, 0, 0x1f, 34), (2, 0, 0xffff, 0)],
     Insn ''JNZri'' 2 0x3c0383000000 [(0, 0, 0x1f, 34), (1, 0, 0xffff, 0)],
     Insn ''JUMPi'' 1 0x8c6300000000 [(0, 0, 0xf, 20), (0, 4, 0xf, 16), (0, 8, 1, 15), (0, 9, 1, 14), (0, 10, 1, 13), (0, 11, 1,
       12), (0, 12, 0xfff, 0), (0, 24, 7, 39), (0, 27, 1, 44)],
     Insn ''JUMPr'' 1 0x8c0300000000 [(0, 0, 0x1f, 34)],
     Insn ''JUMPri'' 2 0x8c0300000000 [(0, 0, 0x1f, 34), (1, 0, 0xf, 20), (1, 4, 0xf, 16), (1, 8, 1, 15), (1, 9, 1, 14), (1, 10,
       1, 13), (1, 11, 1, 12), (1, 12, 0xfff, 0), (1, 24, 7, 39), (1, 27, 1, 44)],
     Insn ''JZri'' 2 0x3c0382000000 [(0, 0, 0x1f, 34), (1, 0, 0xffff, 0)],
     Insn ''LBS_Serri'' 4 0x708361000000 [(2, 0, 0x1f, 34), (0, 0, 1, 27), (3, 0, 0xf, 20), (3, 4, 0xf, 16), (3, 8, 1, 15), (3,
       9, 1, 14), (3, 10, 1, 13), (3, 11, 1, 12), (3, 12, 0xfff, 0), (1, 1, 0xf, 40)],
     Insn ''LBS_Srri'' 3 0x708361000000 [(1, 0, 0x1f, 34), (2, 0, 0xf, 20), (2, 4, 0xf, 16), (2, 8, 1, 15), (2, 9, 1, 14), (2,
       10, 1, 13), (2, 11, 1, 12), (2, 12, 0xfff, 0), (0, 1, 0xf, 40)],
     Insn ''LBSerri'' 4 0x700341000000 [(2, 0, 0x1f, 34), (0, 0, 1, 27), (3, 0, 0xf, 20), (3, 4, 0xf, 16), (3, 8, 1, 15), (3, 9,
       1, 14), (3, 10, 1, 13), (3, 11, 1, 12), (3, 12, 0xfff, 0), (1, 0, 0x1f, 39)],
     Insn ''LBSersi'' 4 0x700351000000 [(2, 0, 0x1f, 34), (0, 0, 1, 27), (3, 0, 0xf, 20), (3, 4, 0xf, 16), (3, 8, 1, 15), (3, 9,
       1, 14), (3, 10, 1, 13), (3, 11, 1, 12), (3, 12, 0xfff, 0), (1, 0, 0x1f, 39)],
     Insn ''LBSrri'' 3 0x700341000000 [(1, 0, 0x1f, 34), (2, 0, 0xf, 20), (2, 4, 0xf, 16), (2, 8, 1, 15), (2, 9, 1, 14), (2, 10,
       1, 13), (2, 11, 1, 12), (2, 12, 0xfff, 0), (0, 0, 0x1f, 39)],
     Insn ''LBSSrri'' 3 0x700351000000 [(1, 0, 0x1f, 34), (2, 0, 0xf, 20), (2, 4, 0xf, 16), (2, 8, 1, 15), (2, 9, 1, 14), (2, 10,
       1, 13), (2, 11, 1, 12), (2, 12, 0xfff, 0), (0, 0, 0x1f, 39)]]"

definition isa_LBU_to_LHU :: "insn list" where
  "isa_LBU_to_LHU = [
     Insn ''LBU_Uerri'' 4 0x700360000000 [(2, 0, 0x1f, 34), (0, 0, 1, 27), (3, 0, 0xf, 20), (3, 4, 0xf, 16), (3, 8, 1, 15), (3,
       9, 1, 14), (3, 10, 1, 13), (3, 11, 1, 12), (3, 12, 0xfff, 0), (1, 1, 0xf, 40)],
     Insn ''LBU_Urri'' 3 0x700360000000 [(1, 0, 0x1f, 34), (2, 0, 0xf, 20), (2, 4, 0xf, 16), (2, 8, 1, 15), (2, 9, 1, 14), (2,
       10, 1, 13), (2, 11, 1, 12), (2, 12, 0xfff, 0), (0, 1, 0xf, 40)],
     Insn ''LBUerri'' 4 0x700340000000 [(2, 0, 0x1f, 34), (0, 0, 1, 27), (3, 0, 0xf, 20), (3, 4, 0xf, 16), (3, 8, 1, 15), (3, 9,
       1, 14), (3, 10, 1, 13), (3, 11, 1, 12), (3, 12, 0xfff, 0), (1, 0, 0x1f, 39)],
     Insn ''LBUersi'' 4 0x700350000000 [(2, 0, 0x1f, 34), (0, 0, 1, 27), (3, 0, 0xf, 20), (3, 4, 0xf, 16), (3, 8, 1, 15), (3, 9,
       1, 14), (3, 10, 1, 13), (3, 11, 1, 12), (3, 12, 0xfff, 0), (1, 0, 0x1f, 39)],
     Insn ''LBUrri'' 3 0x700340000000 [(1, 0, 0x1f, 34), (2, 0, 0xf, 20), (2, 4, 0xf, 16), (2, 8, 1, 15), (2, 9, 1, 14), (2, 10,
       1, 13), (2, 11, 1, 12), (2, 12, 0xfff, 0), (0, 0, 0x1f, 39)],
     Insn ''LBUSrri'' 3 0x700350000000 [(1, 0, 0x1f, 34), (2, 0, 0xf, 20), (2, 4, 0xf, 16), (2, 8, 1, 15), (2, 9, 1, 14), (2, 10,
       1, 13), (2, 11, 1, 12), (2, 12, 0xfff, 0), (0, 0, 0x1f, 39)],
     Insn ''LDerri'' 4 0x700346000000 [(2, 0, 0x1f, 34), (0, 0, 1, 27), (3, 0, 0xf, 20), (3, 4, 0xf, 16), (3, 8, 1, 15), (3, 9,
       1, 14), (3, 10, 1, 13), (3, 11, 1, 12), (3, 12, 0xfff, 0), (1, 0, 0x1f, 39)],
     Insn ''LDersi'' 4 0x700356000000 [(2, 0, 0x1f, 34), (0, 0, 1, 27), (3, 0, 0xf, 20), (3, 4, 0xf, 16), (3, 8, 1, 15), (3, 9,
       1, 14), (3, 10, 1, 13), (3, 11, 1, 12), (3, 12, 0xfff, 0), (1, 0, 0x1f, 39)],
     Insn ''LDrri'' 3 0x700346000000 [(1, 0, 0x1f, 34), (2, 0, 0xf, 20), (2, 4, 0xf, 16), (2, 8, 1, 15), (2, 9, 1, 14), (2, 10,
       1, 13), (2, 11, 1, 12), (2, 12, 0xfff, 0), (0, 0, 0x1f, 39)],
     Insn ''LDMArri'' 3 0x700000000000 [(1, 0, 7, 17), (1, 3, 3, 32), (0, 0, 0x1f, 34), (2, 0, 0xff, 24)],
     Insn ''LDMAIrri'' 3 0x700000000001 [(1, 0, 7, 17), (1, 3, 3, 32), (0, 0, 0x1f, 34), (2, 0, 0xff, 24)],
     Insn ''LDSrri'' 3 0x700356000000 [(1, 0, 0x1f, 34), (2, 0, 0xf, 20), (2, 4, 0xf, 16), (2, 8, 1, 15), (2, 9, 1, 14), (2, 10,
       1, 13), (2, 11, 1, 12), (2, 12, 0xfff, 0), (0, 0, 0x1f, 39)],
     Insn ''LHS_Serri'' 4 0x708363000000 [(2, 0, 0x1f, 34), (0, 0, 1, 27), (3, 0, 0xf, 20), (3, 4, 0xf, 16), (3, 8, 1, 15), (3,
       9, 1, 14), (3, 10, 1, 13), (3, 11, 1, 12), (3, 12, 0xfff, 0), (1, 1, 0xf, 40)],
     Insn ''LHS_Srri'' 3 0x708363000000 [(1, 0, 0x1f, 34), (2, 0, 0xf, 20), (2, 4, 0xf, 16), (2, 8, 1, 15), (2, 9, 1, 14), (2,
       10, 1, 13), (2, 11, 1, 12), (2, 12, 0xfff, 0), (0, 1, 0xf, 40)],
     Insn ''LHSerri'' 4 0x700343000000 [(2, 0, 0x1f, 34), (0, 0, 1, 27), (3, 0, 0xf, 20), (3, 4, 0xf, 16), (3, 8, 1, 15), (3, 9,
       1, 14), (3, 10, 1, 13), (3, 11, 1, 12), (3, 12, 0xfff, 0), (1, 0, 0x1f, 39)],
     Insn ''LHSersi'' 4 0x700353000000 [(2, 0, 0x1f, 34), (0, 0, 1, 27), (3, 0, 0xf, 20), (3, 4, 0xf, 16), (3, 8, 1, 15), (3, 9,
       1, 14), (3, 10, 1, 13), (3, 11, 1, 12), (3, 12, 0xfff, 0), (1, 0, 0x1f, 39)],
     Insn ''LHSrri'' 3 0x700343000000 [(1, 0, 0x1f, 34), (2, 0, 0xf, 20), (2, 4, 0xf, 16), (2, 8, 1, 15), (2, 9, 1, 14), (2, 10,
       1, 13), (2, 11, 1, 12), (2, 12, 0xfff, 0), (0, 0, 0x1f, 39)],
     Insn ''LHSSrri'' 3 0x700353000000 [(1, 0, 0x1f, 34), (2, 0, 0xf, 20), (2, 4, 0xf, 16), (2, 8, 1, 15), (2, 9, 1, 14), (2, 10,
       1, 13), (2, 11, 1, 12), (2, 12, 0xfff, 0), (0, 0, 0x1f, 39)],
     Insn ''LHU_Uerri'' 4 0x700362000000 [(2, 0, 0x1f, 34), (0, 0, 1, 27), (3, 0, 0xf, 20), (3, 4, 0xf, 16), (3, 8, 1, 15), (3,
       9, 1, 14), (3, 10, 1, 13), (3, 11, 1, 12), (3, 12, 0xfff, 0), (1, 1, 0xf, 40)],
     Insn ''LHU_Urri'' 3 0x700362000000 [(1, 0, 0x1f, 34), (2, 0, 0xf, 20), (2, 4, 0xf, 16), (2, 8, 1, 15), (2, 9, 1, 14), (2,
       10, 1, 13), (2, 11, 1, 12), (2, 12, 0xfff, 0), (0, 1, 0xf, 40)],
     Insn ''LHUerri'' 4 0x700342000000 [(2, 0, 0x1f, 34), (0, 0, 1, 27), (3, 0, 0xf, 20), (3, 4, 0xf, 16), (3, 8, 1, 15), (3, 9,
       1, 14), (3, 10, 1, 13), (3, 11, 1, 12), (3, 12, 0xfff, 0), (1, 0, 0x1f, 39)],
     Insn ''LHUersi'' 4 0x700352000000 [(2, 0, 0x1f, 34), (0, 0, 1, 27), (3, 0, 0xf, 20), (3, 4, 0xf, 16), (3, 8, 1, 15), (3, 9,
       1, 14), (3, 10, 1, 13), (3, 11, 1, 12), (3, 12, 0xfff, 0), (1, 0, 0x1f, 39)],
     Insn ''LHUrri'' 3 0x700342000000 [(1, 0, 0x1f, 34), (2, 0, 0xf, 20), (2, 4, 0xf, 16), (2, 8, 1, 15), (2, 9, 1, 14), (2, 10,
       1, 13), (2, 11, 1, 12), (2, 12, 0xfff, 0), (0, 0, 0x1f, 39)]]"

definition isa_LHUS_to_LSL :: "insn list" where
  "isa_LHUS_to_LSL = [
     Insn ''LHUSrri'' 3 0x700352000000 [(1, 0, 0x1f, 34), (2, 0, 0xf, 20), (2, 4, 0xf, 16), (2, 8, 1, 15), (2, 9, 1, 14), (2, 10,
       1, 13), (2, 11, 1, 12), (2, 12, 0xfff, 0), (0, 0, 0x1f, 39)],
     Insn ''LSL_Srri'' 3 0x908340040000 [(0, 1, 0xf, 40), (1, 0, 0x1f, 34), (2, 0, 0xf, 20), (2, 4, 1, 28)],
     Insn ''LSL_Srric'' 4 0x908340040000 [(0, 1, 0xf, 40), (1, 0, 0x1f, 34), (3, 0, 0xf, 24), (2, 0, 0xf, 20), (2, 4, 1, 28)],
     Insn ''LSL_Srrici'' 5 0x908340040000 [(0, 1, 0xf, 40), (1, 0, 0x1f, 34), (3, 0, 0xf, 24), (3, 4, 1, 29), (2, 0, 0xf, 20),
       (2, 4, 1, 28), (4, 0, 0xffff, 0)],
     Insn ''LSL_Srrr'' 3 0x9080d0400000 [(2, 0, 7, 17), (2, 3, 3, 32), (0, 1, 0xf, 40), (1, 0, 0x1f, 34)],
     Insn ''LSL_Srrrc'' 4 0x9080d0400000 [(2, 0, 7, 17), (2, 3, 3, 32), (0, 1, 0xf, 40), (1, 0, 0x1f, 34), (3, 0, 0xf, 24)],
     Insn ''LSL_Srrrci'' 5 0x9080d0400000 [(2, 0, 7, 17), (2, 3, 3, 32), (0, 1, 0xf, 40), (1, 0, 0x1f, 34), (3, 0, 0xf, 24), (3,
       4, 1, 29), (4, 0, 0xffff, 0)],
     Insn ''LSL_Urri'' 3 0x900340040000 [(0, 1, 0xf, 40), (1, 0, 0x1f, 34), (2, 0, 0xf, 20), (2, 4, 1, 28)],
     Insn ''LSL_Urric'' 4 0x900340040000 [(0, 1, 0xf, 40), (1, 0, 0x1f, 34), (3, 0, 0xf, 24), (2, 0, 0xf, 20), (2, 4, 1, 28)],
     Insn ''LSL_Urrici'' 5 0x900340040000 [(0, 1, 0xf, 40), (1, 0, 0x1f, 34), (3, 0, 0xf, 24), (3, 4, 1, 29), (2, 0, 0xf, 20),
       (2, 4, 1, 28), (4, 0, 0xffff, 0)],
     Insn ''LSL_Urrr'' 3 0x9000d0400000 [(2, 0, 7, 17), (2, 3, 3, 32), (0, 1, 0xf, 40), (1, 0, 0x1f, 34)],
     Insn ''LSL_Urrrc'' 4 0x9000d0400000 [(2, 0, 7, 17), (2, 3, 3, 32), (0, 1, 0xf, 40), (1, 0, 0x1f, 34), (3, 0, 0xf, 24)],
     Insn ''LSL_Urrrci'' 5 0x9000d0400000 [(2, 0, 7, 17), (2, 3, 3, 32), (0, 1, 0xf, 40), (1, 0, 0x1f, 34), (3, 0, 0xf, 24), (3,
       4, 1, 29), (4, 0, 0xffff, 0)]]"

definition isa_LSL1 :: "insn list" where
  "isa_LSL1 = [
     Insn ''LSL1_Srri'' 3 0x908340060000 [(0, 1, 0xf, 40), (1, 0, 0x1f, 34), (2, 0, 0xf, 20), (2, 4, 1, 28)],
     Insn ''LSL1_Srric'' 4 0x908340060000 [(0, 1, 0xf, 40), (1, 0, 0x1f, 34), (3, 0, 0xf, 24), (2, 0, 0xf, 20), (2, 4, 1, 28)],
     Insn ''LSL1_Srrici'' 5 0x908340060000 [(0, 1, 0xf, 40), (1, 0, 0x1f, 34), (3, 0, 0xf, 24), (3, 4, 1, 29), (2, 0, 0xf, 20),
       (2, 4, 1, 28), (4, 0, 0xffff, 0)],
     Insn ''LSL1_Srrr'' 3 0x9080d0600000 [(2, 0, 7, 17), (2, 3, 3, 32), (0, 1, 0xf, 40), (1, 0, 0x1f, 34)],
     Insn ''LSL1_Srrrc'' 4 0x9080d0600000 [(2, 0, 7, 17), (2, 3, 3, 32), (0, 1, 0xf, 40), (1, 0, 0x1f, 34), (3, 0, 0xf, 24)],
     Insn ''LSL1_Srrrci'' 5 0x9080d0600000 [(2, 0, 7, 17), (2, 3, 3, 32), (0, 1, 0xf, 40), (1, 0, 0x1f, 34), (3, 0, 0xf, 24), (3,
       4, 1, 29), (4, 0, 0xffff, 0)],
     Insn ''LSL1_Urri'' 3 0x900340060000 [(0, 1, 0xf, 40), (1, 0, 0x1f, 34), (2, 0, 0xf, 20), (2, 4, 1, 28)],
     Insn ''LSL1_Urric'' 4 0x900340060000 [(0, 1, 0xf, 40), (1, 0, 0x1f, 34), (3, 0, 0xf, 24), (2, 0, 0xf, 20), (2, 4, 1, 28)],
     Insn ''LSL1_Urrici'' 5 0x900340060000 [(0, 1, 0xf, 40), (1, 0, 0x1f, 34), (3, 0, 0xf, 24), (3, 4, 1, 29), (2, 0, 0xf, 20),
       (2, 4, 1, 28), (4, 0, 0xffff, 0)],
     Insn ''LSL1_Urrr'' 3 0x9000d0600000 [(2, 0, 7, 17), (2, 3, 3, 32), (0, 1, 0xf, 40), (1, 0, 0x1f, 34)],
     Insn ''LSL1_Urrrc'' 4 0x9000d0600000 [(2, 0, 7, 17), (2, 3, 3, 32), (0, 1, 0xf, 40), (1, 0, 0x1f, 34), (3, 0, 0xf, 24)],
     Insn ''LSL1_Urrrci'' 5 0x9000d0600000 [(2, 0, 7, 17), (2, 3, 3, 32), (0, 1, 0xf, 40), (1, 0, 0x1f, 34), (3, 0, 0xf, 24), (3,
       4, 1, 29), (4, 0, 0xffff, 0)],
     Insn ''LSL1rri'' 3 0x800340060000 [(0, 0, 0x1f, 39), (1, 0, 0x1f, 34), (2, 0, 0xf, 20), (2, 4, 1, 28)],
     Insn ''LSL1rric'' 4 0x800340060000 [(0, 0, 0x1f, 39), (1, 0, 0x1f, 34), (3, 0, 0xf, 24), (2, 0, 0xf, 20), (2, 4, 1, 28)],
     Insn ''LSL1rrici'' 5 0x800340060000 [(0, 0, 0x1f, 39), (1, 0, 0x1f, 34), (3, 0, 0xf, 24), (3, 4, 1, 29), (2, 0, 0xf, 20),
       (2, 4, 1, 28), (4, 0, 0xffff, 0)],
     Insn ''LSL1rrr'' 3 0x8000d0600000 [(2, 0, 7, 17), (2, 3, 3, 32), (0, 0, 0x1f, 39), (1, 0, 0x1f, 34)],
     Insn ''LSL1rrrc'' 4 0x8000d0600000 [(2, 0, 7, 17), (2, 3, 3, 32), (0, 0, 0x1f, 39), (1, 0, 0x1f, 34), (3, 0, 0xf, 24)],
     Insn ''LSL1rrrci'' 5 0x8000d0600000 [(2, 0, 7, 17), (2, 3, 3, 32), (0, 0, 0x1f, 39), (1, 0, 0x1f, 34), (3, 0, 0xf, 24), (3,
       4, 1, 29), (4, 0, 0xffff, 0)],
     Insn ''LSL1zri'' 2 0x8c0340060000 [(0, 0, 0x1f, 34), (1, 0, 0xf, 20), (1, 4, 1, 28)],
     Insn ''LSL1zric'' 3 0x8c0340060000 [(0, 0, 0x1f, 34), (2, 0, 0xf, 24), (1, 0, 0xf, 20), (1, 4, 1, 28)],
     Insn ''LSL1zrici'' 4 0x8c0340060000 [(0, 0, 0x1f, 34), (2, 0, 0xf, 24), (2, 4, 1, 29), (1, 0, 0xf, 20), (1, 4, 1, 28), (3,
       0, 0xffff, 0)],
     Insn ''LSL1zrr'' 2 0x8c00d0600000 [(1, 0, 7, 17), (1, 3, 3, 32), (0, 0, 0x1f, 34)],
     Insn ''LSL1zrrc'' 3 0x8c00d0600000 [(1, 0, 7, 17), (1, 3, 3, 32), (0, 0, 0x1f, 34), (2, 0, 0xf, 24)],
     Insn ''LSL1zrrci'' 4 0x8c00d0600000 [(1, 0, 7, 17), (1, 3, 3, 32), (0, 0, 0x1f, 34), (2, 0, 0xf, 24), (2, 4, 1, 29), (3, 0,
       0xffff, 0)]]"

definition isa_LSL1X :: "insn list" where
  "isa_LSL1X = [
     Insn ''LSL1X_Srri'' 3 0x908340070000 [(0, 1, 0xf, 40), (1, 0, 0x1f, 34), (2, 0, 0xf, 20), (2, 4, 1, 28)],
     Insn ''LSL1X_Srric'' 4 0x908340070000 [(0, 1, 0xf, 40), (1, 0, 0x1f, 34), (3, 0, 0xf, 24), (2, 0, 0xf, 20), (2, 4, 1, 28)],
     Insn ''LSL1X_Srrici'' 5 0x908340070000 [(0, 1, 0xf, 40), (1, 0, 0x1f, 34), (3, 0, 0xf, 24), (3, 4, 1, 29), (2, 0, 0xf, 20),
       (2, 4, 1, 28), (4, 0, 0xffff, 0)],
     Insn ''LSL1X_Srrr'' 3 0x9080d0700000 [(2, 0, 7, 17), (2, 3, 3, 32), (0, 1, 0xf, 40), (1, 0, 0x1f, 34)],
     Insn ''LSL1X_Srrrc'' 4 0x9080d0700000 [(2, 0, 7, 17), (2, 3, 3, 32), (0, 1, 0xf, 40), (1, 0, 0x1f, 34), (3, 0, 0xf, 24)],
     Insn ''LSL1X_Srrrci'' 5 0x9080d0700000 [(2, 0, 7, 17), (2, 3, 3, 32), (0, 1, 0xf, 40), (1, 0, 0x1f, 34), (3, 0, 0xf, 24),
       (3, 4, 1, 29), (4, 0, 0xffff, 0)],
     Insn ''LSL1X_Urri'' 3 0x900340070000 [(0, 1, 0xf, 40), (1, 0, 0x1f, 34), (2, 0, 0xf, 20), (2, 4, 1, 28)],
     Insn ''LSL1X_Urric'' 4 0x900340070000 [(0, 1, 0xf, 40), (1, 0, 0x1f, 34), (3, 0, 0xf, 24), (2, 0, 0xf, 20), (2, 4, 1, 28)],
     Insn ''LSL1X_Urrici'' 5 0x900340070000 [(0, 1, 0xf, 40), (1, 0, 0x1f, 34), (3, 0, 0xf, 24), (3, 4, 1, 29), (2, 0, 0xf, 20),
       (2, 4, 1, 28), (4, 0, 0xffff, 0)],
     Insn ''LSL1X_Urrr'' 3 0x9000d0700000 [(2, 0, 7, 17), (2, 3, 3, 32), (0, 1, 0xf, 40), (1, 0, 0x1f, 34)],
     Insn ''LSL1X_Urrrc'' 4 0x9000d0700000 [(2, 0, 7, 17), (2, 3, 3, 32), (0, 1, 0xf, 40), (1, 0, 0x1f, 34), (3, 0, 0xf, 24)],
     Insn ''LSL1X_Urrrci'' 5 0x9000d0700000 [(2, 0, 7, 17), (2, 3, 3, 32), (0, 1, 0xf, 40), (1, 0, 0x1f, 34), (3, 0, 0xf, 24),
       (3, 4, 1, 29), (4, 0, 0xffff, 0)],
     Insn ''LSL1Xrri'' 3 0x800340070000 [(0, 0, 0x1f, 39), (1, 0, 0x1f, 34), (2, 0, 0xf, 20), (2, 4, 1, 28)],
     Insn ''LSL1Xrric'' 4 0x800340070000 [(0, 0, 0x1f, 39), (1, 0, 0x1f, 34), (3, 0, 0xf, 24), (2, 0, 0xf, 20), (2, 4, 1, 28)],
     Insn ''LSL1Xrrici'' 5 0x800340070000 [(0, 0, 0x1f, 39), (1, 0, 0x1f, 34), (3, 0, 0xf, 24), (3, 4, 1, 29), (2, 0, 0xf, 20),
       (2, 4, 1, 28), (4, 0, 0xffff, 0)],
     Insn ''LSL1Xrrr'' 3 0x8000d0700000 [(2, 0, 7, 17), (2, 3, 3, 32), (0, 0, 0x1f, 39), (1, 0, 0x1f, 34)],
     Insn ''LSL1Xrrrc'' 4 0x8000d0700000 [(2, 0, 7, 17), (2, 3, 3, 32), (0, 0, 0x1f, 39), (1, 0, 0x1f, 34), (3, 0, 0xf, 24)],
     Insn ''LSL1Xrrrci'' 5 0x8000d0700000 [(2, 0, 7, 17), (2, 3, 3, 32), (0, 0, 0x1f, 39), (1, 0, 0x1f, 34), (3, 0, 0xf, 24), (3,
       4, 1, 29), (4, 0, 0xffff, 0)],
     Insn ''LSL1Xzri'' 2 0x8c0340070000 [(0, 0, 0x1f, 34), (1, 0, 0xf, 20), (1, 4, 1, 28)],
     Insn ''LSL1Xzric'' 3 0x8c0340070000 [(0, 0, 0x1f, 34), (2, 0, 0xf, 24), (1, 0, 0xf, 20), (1, 4, 1, 28)],
     Insn ''LSL1Xzrici'' 4 0x8c0340070000 [(0, 0, 0x1f, 34), (2, 0, 0xf, 24), (2, 4, 1, 29), (1, 0, 0xf, 20), (1, 4, 1, 28), (3,
       0, 0xffff, 0)],
     Insn ''LSL1Xzrr'' 2 0x8c00d0700000 [(1, 0, 7, 17), (1, 3, 3, 32), (0, 0, 0x1f, 34)],
     Insn ''LSL1Xzrrc'' 3 0x8c00d0700000 [(1, 0, 7, 17), (1, 3, 3, 32), (0, 0, 0x1f, 34), (2, 0, 0xf, 24)],
     Insn ''LSL1Xzrrci'' 4 0x8c00d0700000 [(1, 0, 7, 17), (1, 3, 3, 32), (0, 0, 0x1f, 34), (2, 0, 0xf, 24), (2, 4, 1, 29), (3, 0,
       0xffff, 0)]]"

definition isa_LSL_to_LSL_SUB :: "insn list" where
  "isa_LSL_to_LSL_SUB = [
     Insn ''LSLrri'' 3 0x800340040000 [(0, 0, 0x1f, 39), (1, 0, 0x1f, 34), (2, 0, 0xf, 20), (2, 4, 1, 28)],
     Insn ''LSLrric'' 4 0x800340040000 [(0, 0, 0x1f, 39), (1, 0, 0x1f, 34), (3, 0, 0xf, 24), (2, 0, 0xf, 20), (2, 4, 1, 28)],
     Insn ''LSLrrici'' 5 0x800340040000 [(0, 0, 0x1f, 39), (1, 0, 0x1f, 34), (3, 0, 0xf, 24), (3, 4, 1, 29), (2, 0, 0xf, 20), (2,
       4, 1, 28), (4, 0, 0xffff, 0)],
     Insn ''LSLrrr'' 3 0x8000d0400000 [(2, 0, 7, 17), (2, 3, 3, 32), (0, 0, 0x1f, 39), (1, 0, 0x1f, 34)],
     Insn ''LSLrrrc'' 4 0x8000d0400000 [(2, 0, 7, 17), (2, 3, 3, 32), (0, 0, 0x1f, 39), (1, 0, 0x1f, 34), (3, 0, 0xf, 24)],
     Insn ''LSLrrrci'' 5 0x8000d0400000 [(2, 0, 7, 17), (2, 3, 3, 32), (0, 0, 0x1f, 39), (1, 0, 0x1f, 34), (3, 0, 0xf, 24), (3,
       4, 1, 29), (4, 0, 0xffff, 0)],
     Insn ''LSLzri'' 2 0x8c0340040000 [(0, 0, 0x1f, 34), (1, 0, 0xf, 20), (1, 4, 1, 28)],
     Insn ''LSLzric'' 3 0x8c0340040000 [(0, 0, 0x1f, 34), (2, 0, 0xf, 24), (1, 0, 0xf, 20), (1, 4, 1, 28)],
     Insn ''LSLzrici'' 4 0x8c0340040000 [(0, 0, 0x1f, 34), (2, 0, 0xf, 24), (2, 4, 1, 29), (1, 0, 0xf, 20), (1, 4, 1, 28), (3, 0,
       0xffff, 0)],
     Insn ''LSLzrr'' 2 0x8c00d0400000 [(1, 0, 7, 17), (1, 3, 3, 32), (0, 0, 0x1f, 34)],
     Insn ''LSLzrrc'' 3 0x8c00d0400000 [(1, 0, 7, 17), (1, 3, 3, 32), (0, 0, 0x1f, 34), (2, 0, 0xf, 24)],
     Insn ''LSLzrrci'' 4 0x8c00d0400000 [(1, 0, 7, 17), (1, 3, 3, 32), (0, 0, 0x1f, 34), (2, 0, 0xf, 24), (2, 4, 1, 29), (3, 0,
       0xffff, 0)],
     Insn ''LSL_ADD_Srrri'' 4 0x908040000000 [(1, 0, 7, 17), (1, 3, 3, 32), (0, 1, 0xf, 40), (2, 0, 0x1f, 34), (3, 0, 0xf, 20),
       (3, 4, 1, 28)],
     Insn ''LSL_ADD_Srrrici'' 6 0x908040000000 [(1, 0, 7, 17), (1, 3, 3, 32), (0, 1, 0xf, 40), (2, 0, 0x1f, 34), (4, 0, 0xf, 24),
       (3, 0, 0xf, 20), (3, 4, 1, 28), (5, 0, 0xffff, 0)],
     Insn ''LSL_ADD_Urrri'' 4 0x900040000000 [(1, 0, 7, 17), (1, 3, 3, 32), (0, 1, 0xf, 40), (2, 0, 0x1f, 34), (3, 0, 0xf, 20),
       (3, 4, 1, 28)],
     Insn ''LSL_ADD_Urrrici'' 6 0x900040000000 [(1, 0, 7, 17), (1, 3, 3, 32), (0, 1, 0xf, 40), (2, 0, 0x1f, 34), (4, 0, 0xf, 24),
       (3, 0, 0xf, 20), (3, 4, 1, 28), (5, 0, 0xffff, 0)],
     Insn ''LSL_ADDrrri'' 4 0x800040000000 [(1, 0, 7, 17), (1, 3, 3, 32), (0, 0, 0x1f, 39), (2, 0, 0x1f, 34), (3, 0, 0xf, 20),
       (3, 4, 1, 28)],
     Insn ''LSL_ADDrrrici'' 6 0x800040000000 [(1, 0, 7, 17), (1, 3, 3, 32), (0, 0, 0x1f, 39), (2, 0, 0x1f, 34), (4, 0, 0xf, 24),
       (3, 0, 0xf, 20), (3, 4, 1, 28), (5, 0, 0xffff, 0)],
     Insn ''LSL_ADDzrri'' 3 0x8c0040000000 [(0, 0, 7, 17), (0, 3, 3, 32), (1, 0, 0x1f, 34), (2, 0, 0xf, 20), (2, 4, 1, 28)],
     Insn ''LSL_ADDzrrici'' 5 0x8c0040000000 [(0, 0, 7, 17), (0, 3, 3, 32), (1, 0, 0x1f, 34), (3, 0, 0xf, 24), (2, 0, 0xf, 20),
       (2, 4, 1, 28), (4, 0, 0xffff, 0)],
     Insn ''LSL_SUB_Srrri'' 4 0x908060000000 [(1, 0, 7, 17), (1, 3, 3, 32), (0, 1, 0xf, 40), (2, 0, 0x1f, 34), (3, 0, 0xf, 20),
       (3, 4, 1, 28)],
     Insn ''LSL_SUB_Srrrici'' 6 0x908060000000 [(1, 0, 7, 17), (1, 3, 3, 32), (0, 1, 0xf, 40), (2, 0, 0x1f, 34), (4, 0, 0xf, 24),
       (3, 0, 0xf, 20), (3, 4, 1, 28), (5, 0, 0xffff, 0)],
     Insn ''LSL_SUB_Urrri'' 4 0x900060000000 [(1, 0, 7, 17), (1, 3, 3, 32), (0, 1, 0xf, 40), (2, 0, 0x1f, 34), (3, 0, 0xf, 20),
       (3, 4, 1, 28)],
     Insn ''LSL_SUB_Urrrici'' 6 0x900060000000 [(1, 0, 7, 17), (1, 3, 3, 32), (0, 1, 0xf, 40), (2, 0, 0x1f, 34), (4, 0, 0xf, 24),
       (3, 0, 0xf, 20), (3, 4, 1, 28), (5, 0, 0xffff, 0)],
     Insn ''LSL_SUBrrri'' 4 0x800060000000 [(1, 0, 7, 17), (1, 3, 3, 32), (0, 0, 0x1f, 39), (2, 0, 0x1f, 34), (3, 0, 0xf, 20),
       (3, 4, 1, 28)],
     Insn ''LSL_SUBrrrici'' 6 0x800060000000 [(1, 0, 7, 17), (1, 3, 3, 32), (0, 0, 0x1f, 39), (2, 0, 0x1f, 34), (4, 0, 0xf, 24),
       (3, 0, 0xf, 20), (3, 4, 1, 28), (5, 0, 0xffff, 0)],
     Insn ''LSL_SUBzrri'' 3 0x8c0060000000 [(0, 0, 7, 17), (0, 3, 3, 32), (1, 0, 0x1f, 34), (2, 0, 0xf, 20), (2, 4, 1, 28)],
     Insn ''LSL_SUBzrrici'' 5 0x8c0060000000 [(0, 0, 7, 17), (0, 3, 3, 32), (1, 0, 0x1f, 34), (3, 0, 0xf, 24), (2, 0, 0xf, 20),
       (2, 4, 1, 28), (4, 0, 0xffff, 0)]]"

definition isa_LSLX :: "insn list" where
  "isa_LSLX = [
     Insn ''LSLX_Srri'' 3 0x908340050000 [(0, 1, 0xf, 40), (1, 0, 0x1f, 34), (2, 0, 0xf, 20), (2, 4, 1, 28)],
     Insn ''LSLX_Srric'' 4 0x908340050000 [(0, 1, 0xf, 40), (1, 0, 0x1f, 34), (3, 0, 0xf, 24), (2, 0, 0xf, 20), (2, 4, 1, 28)],
     Insn ''LSLX_Srrici'' 5 0x908340050000 [(0, 1, 0xf, 40), (1, 0, 0x1f, 34), (3, 0, 0xf, 24), (3, 4, 1, 29), (2, 0, 0xf, 20),
       (2, 4, 1, 28), (4, 0, 0xffff, 0)],
     Insn ''LSLX_Srrr'' 3 0x9080d0500000 [(2, 0, 7, 17), (2, 3, 3, 32), (0, 1, 0xf, 40), (1, 0, 0x1f, 34)],
     Insn ''LSLX_Srrrc'' 4 0x9080d0500000 [(2, 0, 7, 17), (2, 3, 3, 32), (0, 1, 0xf, 40), (1, 0, 0x1f, 34), (3, 0, 0xf, 24)],
     Insn ''LSLX_Srrrci'' 5 0x9080d0500000 [(2, 0, 7, 17), (2, 3, 3, 32), (0, 1, 0xf, 40), (1, 0, 0x1f, 34), (3, 0, 0xf, 24), (3,
       4, 1, 29), (4, 0, 0xffff, 0)],
     Insn ''LSLX_Urri'' 3 0x900340050000 [(0, 1, 0xf, 40), (1, 0, 0x1f, 34), (2, 0, 0xf, 20), (2, 4, 1, 28)],
     Insn ''LSLX_Urric'' 4 0x900340050000 [(0, 1, 0xf, 40), (1, 0, 0x1f, 34), (3, 0, 0xf, 24), (2, 0, 0xf, 20), (2, 4, 1, 28)],
     Insn ''LSLX_Urrici'' 5 0x900340050000 [(0, 1, 0xf, 40), (1, 0, 0x1f, 34), (3, 0, 0xf, 24), (3, 4, 1, 29), (2, 0, 0xf, 20),
       (2, 4, 1, 28), (4, 0, 0xffff, 0)],
     Insn ''LSLX_Urrr'' 3 0x9000d0500000 [(2, 0, 7, 17), (2, 3, 3, 32), (0, 1, 0xf, 40), (1, 0, 0x1f, 34)],
     Insn ''LSLX_Urrrc'' 4 0x9000d0500000 [(2, 0, 7, 17), (2, 3, 3, 32), (0, 1, 0xf, 40), (1, 0, 0x1f, 34), (3, 0, 0xf, 24)],
     Insn ''LSLX_Urrrci'' 5 0x9000d0500000 [(2, 0, 7, 17), (2, 3, 3, 32), (0, 1, 0xf, 40), (1, 0, 0x1f, 34), (3, 0, 0xf, 24), (3,
       4, 1, 29), (4, 0, 0xffff, 0)],
     Insn ''LSLXrri'' 3 0x800340050000 [(0, 0, 0x1f, 39), (1, 0, 0x1f, 34), (2, 0, 0xf, 20), (2, 4, 1, 28)],
     Insn ''LSLXrric'' 4 0x800340050000 [(0, 0, 0x1f, 39), (1, 0, 0x1f, 34), (3, 0, 0xf, 24), (2, 0, 0xf, 20), (2, 4, 1, 28)],
     Insn ''LSLXrrici'' 5 0x800340050000 [(0, 0, 0x1f, 39), (1, 0, 0x1f, 34), (3, 0, 0xf, 24), (3, 4, 1, 29), (2, 0, 0xf, 20),
       (2, 4, 1, 28), (4, 0, 0xffff, 0)],
     Insn ''LSLXrrr'' 3 0x8000d0500000 [(2, 0, 7, 17), (2, 3, 3, 32), (0, 0, 0x1f, 39), (1, 0, 0x1f, 34)],
     Insn ''LSLXrrrc'' 4 0x8000d0500000 [(2, 0, 7, 17), (2, 3, 3, 32), (0, 0, 0x1f, 39), (1, 0, 0x1f, 34), (3, 0, 0xf, 24)],
     Insn ''LSLXrrrci'' 5 0x8000d0500000 [(2, 0, 7, 17), (2, 3, 3, 32), (0, 0, 0x1f, 39), (1, 0, 0x1f, 34), (3, 0, 0xf, 24), (3,
       4, 1, 29), (4, 0, 0xffff, 0)],
     Insn ''LSLXzri'' 2 0x8c0340050000 [(0, 0, 0x1f, 34), (1, 0, 0xf, 20), (1, 4, 1, 28)],
     Insn ''LSLXzric'' 3 0x8c0340050000 [(0, 0, 0x1f, 34), (2, 0, 0xf, 24), (1, 0, 0xf, 20), (1, 4, 1, 28)],
     Insn ''LSLXzrici'' 4 0x8c0340050000 [(0, 0, 0x1f, 34), (2, 0, 0xf, 24), (2, 4, 1, 29), (1, 0, 0xf, 20), (1, 4, 1, 28), (3,
       0, 0xffff, 0)],
     Insn ''LSLXzrr'' 2 0x8c00d0500000 [(1, 0, 7, 17), (1, 3, 3, 32), (0, 0, 0x1f, 34)],
     Insn ''LSLXzrrc'' 3 0x8c00d0500000 [(1, 0, 7, 17), (1, 3, 3, 32), (0, 0, 0x1f, 34), (2, 0, 0xf, 24)],
     Insn ''LSLXzrrci'' 4 0x8c00d0500000 [(1, 0, 7, 17), (1, 3, 3, 32), (0, 0, 0x1f, 34), (2, 0, 0xf, 24), (2, 4, 1, 29), (3, 0,
       0xffff, 0)]]"

definition isa_LSR :: "insn list" where
  "isa_LSR = [
     Insn ''LSR_Srri'' 3 0x9083400c0000 [(0, 1, 0xf, 40), (1, 0, 0x1f, 34), (2, 0, 0xf, 20), (2, 4, 1, 28)],
     Insn ''LSR_Srric'' 4 0x9083400c0000 [(0, 1, 0xf, 40), (1, 0, 0x1f, 34), (3, 0, 0xf, 24), (2, 0, 0xf, 20), (2, 4, 1, 28)],
     Insn ''LSR_Srrici'' 5 0x9083400c0000 [(0, 1, 0xf, 40), (1, 0, 0x1f, 34), (3, 0, 0xf, 24), (3, 4, 1, 29), (2, 0, 0xf, 20),
       (2, 4, 1, 28), (4, 0, 0xffff, 0)],
     Insn ''LSR_Srrr'' 3 0x9080d0c00000 [(2, 0, 7, 17), (2, 3, 3, 32), (0, 1, 0xf, 40), (1, 0, 0x1f, 34)],
     Insn ''LSR_Srrrc'' 4 0x9080d0c00000 [(2, 0, 7, 17), (2, 3, 3, 32), (0, 1, 0xf, 40), (1, 0, 0x1f, 34), (3, 0, 0xf, 24)],
     Insn ''LSR_Srrrci'' 5 0x9080d0c00000 [(2, 0, 7, 17), (2, 3, 3, 32), (0, 1, 0xf, 40), (1, 0, 0x1f, 34), (3, 0, 0xf, 24), (3,
       4, 1, 29), (4, 0, 0xffff, 0)],
     Insn ''LSR_Urri'' 3 0x9003400c0000 [(0, 1, 0xf, 40), (1, 0, 0x1f, 34), (2, 0, 0xf, 20), (2, 4, 1, 28)],
     Insn ''LSR_Urric'' 4 0x9003400c0000 [(0, 1, 0xf, 40), (1, 0, 0x1f, 34), (3, 0, 0xf, 24), (2, 0, 0xf, 20), (2, 4, 1, 28)],
     Insn ''LSR_Urrici'' 5 0x9003400c0000 [(0, 1, 0xf, 40), (1, 0, 0x1f, 34), (3, 0, 0xf, 24), (3, 4, 1, 29), (2, 0, 0xf, 20),
       (2, 4, 1, 28), (4, 0, 0xffff, 0)],
     Insn ''LSR_Urrr'' 3 0x9000d0c00000 [(2, 0, 7, 17), (2, 3, 3, 32), (0, 1, 0xf, 40), (1, 0, 0x1f, 34)],
     Insn ''LSR_Urrrc'' 4 0x9000d0c00000 [(2, 0, 7, 17), (2, 3, 3, 32), (0, 1, 0xf, 40), (1, 0, 0x1f, 34), (3, 0, 0xf, 24)],
     Insn ''LSR_Urrrci'' 5 0x9000d0c00000 [(2, 0, 7, 17), (2, 3, 3, 32), (0, 1, 0xf, 40), (1, 0, 0x1f, 34), (3, 0, 0xf, 24), (3,
       4, 1, 29), (4, 0, 0xffff, 0)]]"

definition isa_LSR1 :: "insn list" where
  "isa_LSR1 = [
     Insn ''LSR1_Srri'' 3 0x9083400e0000 [(0, 1, 0xf, 40), (1, 0, 0x1f, 34), (2, 0, 0xf, 20), (2, 4, 1, 28)],
     Insn ''LSR1_Srric'' 4 0x9083400e0000 [(0, 1, 0xf, 40), (1, 0, 0x1f, 34), (3, 0, 0xf, 24), (2, 0, 0xf, 20), (2, 4, 1, 28)],
     Insn ''LSR1_Srrici'' 5 0x9083400e0000 [(0, 1, 0xf, 40), (1, 0, 0x1f, 34), (3, 0, 0xf, 24), (3, 4, 1, 29), (2, 0, 0xf, 20),
       (2, 4, 1, 28), (4, 0, 0xffff, 0)],
     Insn ''LSR1_Srrr'' 3 0x9080d0e00000 [(2, 0, 7, 17), (2, 3, 3, 32), (0, 1, 0xf, 40), (1, 0, 0x1f, 34)],
     Insn ''LSR1_Srrrc'' 4 0x9080d0e00000 [(2, 0, 7, 17), (2, 3, 3, 32), (0, 1, 0xf, 40), (1, 0, 0x1f, 34), (3, 0, 0xf, 24)],
     Insn ''LSR1_Srrrci'' 5 0x9080d0e00000 [(2, 0, 7, 17), (2, 3, 3, 32), (0, 1, 0xf, 40), (1, 0, 0x1f, 34), (3, 0, 0xf, 24), (3,
       4, 1, 29), (4, 0, 0xffff, 0)],
     Insn ''LSR1_Urri'' 3 0x9003400e0000 [(0, 1, 0xf, 40), (1, 0, 0x1f, 34), (2, 0, 0xf, 20), (2, 4, 1, 28)],
     Insn ''LSR1_Urric'' 4 0x9003400e0000 [(0, 1, 0xf, 40), (1, 0, 0x1f, 34), (3, 0, 0xf, 24), (2, 0, 0xf, 20), (2, 4, 1, 28)],
     Insn ''LSR1_Urrici'' 5 0x9003400e0000 [(0, 1, 0xf, 40), (1, 0, 0x1f, 34), (3, 0, 0xf, 24), (3, 4, 1, 29), (2, 0, 0xf, 20),
       (2, 4, 1, 28), (4, 0, 0xffff, 0)],
     Insn ''LSR1_Urrr'' 3 0x9000d0e00000 [(2, 0, 7, 17), (2, 3, 3, 32), (0, 1, 0xf, 40), (1, 0, 0x1f, 34)],
     Insn ''LSR1_Urrrc'' 4 0x9000d0e00000 [(2, 0, 7, 17), (2, 3, 3, 32), (0, 1, 0xf, 40), (1, 0, 0x1f, 34), (3, 0, 0xf, 24)],
     Insn ''LSR1_Urrrci'' 5 0x9000d0e00000 [(2, 0, 7, 17), (2, 3, 3, 32), (0, 1, 0xf, 40), (1, 0, 0x1f, 34), (3, 0, 0xf, 24), (3,
       4, 1, 29), (4, 0, 0xffff, 0)],
     Insn ''LSR1rri'' 3 0x8003400e0000 [(0, 0, 0x1f, 39), (1, 0, 0x1f, 34), (2, 0, 0xf, 20), (2, 4, 1, 28)],
     Insn ''LSR1rric'' 4 0x8003400e0000 [(0, 0, 0x1f, 39), (1, 0, 0x1f, 34), (3, 0, 0xf, 24), (2, 0, 0xf, 20), (2, 4, 1, 28)],
     Insn ''LSR1rrici'' 5 0x8003400e0000 [(0, 0, 0x1f, 39), (1, 0, 0x1f, 34), (3, 0, 0xf, 24), (3, 4, 1, 29), (2, 0, 0xf, 20),
       (2, 4, 1, 28), (4, 0, 0xffff, 0)],
     Insn ''LSR1rrr'' 3 0x8000d0e00000 [(2, 0, 7, 17), (2, 3, 3, 32), (0, 0, 0x1f, 39), (1, 0, 0x1f, 34)],
     Insn ''LSR1rrrc'' 4 0x8000d0e00000 [(2, 0, 7, 17), (2, 3, 3, 32), (0, 0, 0x1f, 39), (1, 0, 0x1f, 34), (3, 0, 0xf, 24)],
     Insn ''LSR1rrrci'' 5 0x8000d0e00000 [(2, 0, 7, 17), (2, 3, 3, 32), (0, 0, 0x1f, 39), (1, 0, 0x1f, 34), (3, 0, 0xf, 24), (3,
       4, 1, 29), (4, 0, 0xffff, 0)],
     Insn ''LSR1zri'' 2 0x8c03400e0000 [(0, 0, 0x1f, 34), (1, 0, 0xf, 20), (1, 4, 1, 28)],
     Insn ''LSR1zric'' 3 0x8c03400e0000 [(0, 0, 0x1f, 34), (2, 0, 0xf, 24), (1, 0, 0xf, 20), (1, 4, 1, 28)],
     Insn ''LSR1zrici'' 4 0x8c03400e0000 [(0, 0, 0x1f, 34), (2, 0, 0xf, 24), (2, 4, 1, 29), (1, 0, 0xf, 20), (1, 4, 1, 28), (3,
       0, 0xffff, 0)],
     Insn ''LSR1zrr'' 2 0x8c00d0e00000 [(1, 0, 7, 17), (1, 3, 3, 32), (0, 0, 0x1f, 34)],
     Insn ''LSR1zrrc'' 3 0x8c00d0e00000 [(1, 0, 7, 17), (1, 3, 3, 32), (0, 0, 0x1f, 34), (2, 0, 0xf, 24)],
     Insn ''LSR1zrrci'' 4 0x8c00d0e00000 [(1, 0, 7, 17), (1, 3, 3, 32), (0, 0, 0x1f, 34), (2, 0, 0xf, 24), (2, 4, 1, 29), (3, 0,
       0xffff, 0)]]"

definition isa_LSR1X :: "insn list" where
  "isa_LSR1X = [
     Insn ''LSR1X_Srri'' 3 0x9083400f0000 [(0, 1, 0xf, 40), (1, 0, 0x1f, 34), (2, 0, 0xf, 20), (2, 4, 1, 28)],
     Insn ''LSR1X_Srric'' 4 0x9083400f0000 [(0, 1, 0xf, 40), (1, 0, 0x1f, 34), (3, 0, 0xf, 24), (2, 0, 0xf, 20), (2, 4, 1, 28)],
     Insn ''LSR1X_Srrici'' 5 0x9083400f0000 [(0, 1, 0xf, 40), (1, 0, 0x1f, 34), (3, 0, 0xf, 24), (3, 4, 1, 29), (2, 0, 0xf, 20),
       (2, 4, 1, 28), (4, 0, 0xffff, 0)],
     Insn ''LSR1X_Srrr'' 3 0x9080d0f00000 [(2, 0, 7, 17), (2, 3, 3, 32), (0, 1, 0xf, 40), (1, 0, 0x1f, 34)],
     Insn ''LSR1X_Srrrc'' 4 0x9080d0f00000 [(2, 0, 7, 17), (2, 3, 3, 32), (0, 1, 0xf, 40), (1, 0, 0x1f, 34), (3, 0, 0xf, 24)],
     Insn ''LSR1X_Srrrci'' 5 0x9080d0f00000 [(2, 0, 7, 17), (2, 3, 3, 32), (0, 1, 0xf, 40), (1, 0, 0x1f, 34), (3, 0, 0xf, 24),
       (3, 4, 1, 29), (4, 0, 0xffff, 0)],
     Insn ''LSR1X_Urri'' 3 0x9003400f0000 [(0, 1, 0xf, 40), (1, 0, 0x1f, 34), (2, 0, 0xf, 20), (2, 4, 1, 28)],
     Insn ''LSR1X_Urric'' 4 0x9003400f0000 [(0, 1, 0xf, 40), (1, 0, 0x1f, 34), (3, 0, 0xf, 24), (2, 0, 0xf, 20), (2, 4, 1, 28)],
     Insn ''LSR1X_Urrici'' 5 0x9003400f0000 [(0, 1, 0xf, 40), (1, 0, 0x1f, 34), (3, 0, 0xf, 24), (3, 4, 1, 29), (2, 0, 0xf, 20),
       (2, 4, 1, 28), (4, 0, 0xffff, 0)],
     Insn ''LSR1X_Urrr'' 3 0x9000d0f00000 [(2, 0, 7, 17), (2, 3, 3, 32), (0, 1, 0xf, 40), (1, 0, 0x1f, 34)],
     Insn ''LSR1X_Urrrc'' 4 0x9000d0f00000 [(2, 0, 7, 17), (2, 3, 3, 32), (0, 1, 0xf, 40), (1, 0, 0x1f, 34), (3, 0, 0xf, 24)],
     Insn ''LSR1X_Urrrci'' 5 0x9000d0f00000 [(2, 0, 7, 17), (2, 3, 3, 32), (0, 1, 0xf, 40), (1, 0, 0x1f, 34), (3, 0, 0xf, 24),
       (3, 4, 1, 29), (4, 0, 0xffff, 0)],
     Insn ''LSR1Xrri'' 3 0x8003400f0000 [(0, 0, 0x1f, 39), (1, 0, 0x1f, 34), (2, 0, 0xf, 20), (2, 4, 1, 28)],
     Insn ''LSR1Xrric'' 4 0x8003400f0000 [(0, 0, 0x1f, 39), (1, 0, 0x1f, 34), (3, 0, 0xf, 24), (2, 0, 0xf, 20), (2, 4, 1, 28)],
     Insn ''LSR1Xrrici'' 5 0x8003400f0000 [(0, 0, 0x1f, 39), (1, 0, 0x1f, 34), (3, 0, 0xf, 24), (3, 4, 1, 29), (2, 0, 0xf, 20),
       (2, 4, 1, 28), (4, 0, 0xffff, 0)],
     Insn ''LSR1Xrrr'' 3 0x8000d0f00000 [(2, 0, 7, 17), (2, 3, 3, 32), (0, 0, 0x1f, 39), (1, 0, 0x1f, 34)],
     Insn ''LSR1Xrrrc'' 4 0x8000d0f00000 [(2, 0, 7, 17), (2, 3, 3, 32), (0, 0, 0x1f, 39), (1, 0, 0x1f, 34), (3, 0, 0xf, 24)],
     Insn ''LSR1Xrrrci'' 5 0x8000d0f00000 [(2, 0, 7, 17), (2, 3, 3, 32), (0, 0, 0x1f, 39), (1, 0, 0x1f, 34), (3, 0, 0xf, 24), (3,
       4, 1, 29), (4, 0, 0xffff, 0)],
     Insn ''LSR1Xzri'' 2 0x8c03400f0000 [(0, 0, 0x1f, 34), (1, 0, 0xf, 20), (1, 4, 1, 28)],
     Insn ''LSR1Xzric'' 3 0x8c03400f0000 [(0, 0, 0x1f, 34), (2, 0, 0xf, 24), (1, 0, 0xf, 20), (1, 4, 1, 28)],
     Insn ''LSR1Xzrici'' 4 0x8c03400f0000 [(0, 0, 0x1f, 34), (2, 0, 0xf, 24), (2, 4, 1, 29), (1, 0, 0xf, 20), (1, 4, 1, 28), (3,
       0, 0xffff, 0)],
     Insn ''LSR1Xzrr'' 2 0x8c00d0f00000 [(1, 0, 7, 17), (1, 3, 3, 32), (0, 0, 0x1f, 34)],
     Insn ''LSR1Xzrrc'' 3 0x8c00d0f00000 [(1, 0, 7, 17), (1, 3, 3, 32), (0, 0, 0x1f, 34), (2, 0, 0xf, 24)],
     Insn ''LSR1Xzrrci'' 4 0x8c00d0f00000 [(1, 0, 7, 17), (1, 3, 3, 32), (0, 0, 0x1f, 34), (2, 0, 0xf, 24), (2, 4, 1, 29), (3, 0,
       0xffff, 0)]]"

definition isa_LSR_rest_to_LSR_ADD :: "insn list" where
  "isa_LSR_rest_to_LSR_ADD = [
     Insn ''LSRrri'' 3 0x8003400c0000 [(0, 0, 0x1f, 39), (1, 0, 0x1f, 34), (2, 0, 0xf, 20), (2, 4, 1, 28)],
     Insn ''LSRrric'' 4 0x8003400c0000 [(0, 0, 0x1f, 39), (1, 0, 0x1f, 34), (3, 0, 0xf, 24), (2, 0, 0xf, 20), (2, 4, 1, 28)],
     Insn ''LSRrrici'' 5 0x8003400c0000 [(0, 0, 0x1f, 39), (1, 0, 0x1f, 34), (3, 0, 0xf, 24), (3, 4, 1, 29), (2, 0, 0xf, 20), (2,
       4, 1, 28), (4, 0, 0xffff, 0)],
     Insn ''LSRrrr'' 3 0x8000d0c00000 [(2, 0, 7, 17), (2, 3, 3, 32), (0, 0, 0x1f, 39), (1, 0, 0x1f, 34)],
     Insn ''LSRrrrc'' 4 0x8000d0c00000 [(2, 0, 7, 17), (2, 3, 3, 32), (0, 0, 0x1f, 39), (1, 0, 0x1f, 34), (3, 0, 0xf, 24)],
     Insn ''LSRrrrci'' 5 0x8000d0c00000 [(2, 0, 7, 17), (2, 3, 3, 32), (0, 0, 0x1f, 39), (1, 0, 0x1f, 34), (3, 0, 0xf, 24), (3,
       4, 1, 29), (4, 0, 0xffff, 0)],
     Insn ''LSRzri'' 2 0x8c03400c0000 [(0, 0, 0x1f, 34), (1, 0, 0xf, 20), (1, 4, 1, 28)],
     Insn ''LSRzric'' 3 0x8c03400c0000 [(0, 0, 0x1f, 34), (2, 0, 0xf, 24), (1, 0, 0xf, 20), (1, 4, 1, 28)],
     Insn ''LSRzrici'' 4 0x8c03400c0000 [(0, 0, 0x1f, 34), (2, 0, 0xf, 24), (2, 4, 1, 29), (1, 0, 0xf, 20), (1, 4, 1, 28), (3, 0,
       0xffff, 0)],
     Insn ''LSRzrr'' 2 0x8c00d0c00000 [(1, 0, 7, 17), (1, 3, 3, 32), (0, 0, 0x1f, 34)],
     Insn ''LSRzrrc'' 3 0x8c00d0c00000 [(1, 0, 7, 17), (1, 3, 3, 32), (0, 0, 0x1f, 34), (2, 0, 0xf, 24)],
     Insn ''LSRzrrci'' 4 0x8c00d0c00000 [(1, 0, 7, 17), (1, 3, 3, 32), (0, 0, 0x1f, 34), (2, 0, 0xf, 24), (2, 4, 1, 29), (3, 0,
       0xffff, 0)],
     Insn ''LSR_ADD_Srrri'' 4 0x908020000000 [(1, 0, 7, 17), (1, 3, 3, 32), (0, 1, 0xf, 40), (2, 0, 0x1f, 34), (3, 0, 0xf, 20),
       (3, 4, 1, 28)],
     Insn ''LSR_ADD_Srrrici'' 6 0x908020000000 [(1, 0, 7, 17), (1, 3, 3, 32), (0, 1, 0xf, 40), (2, 0, 0x1f, 34), (4, 0, 0xf, 24),
       (3, 0, 0xf, 20), (3, 4, 1, 28), (5, 0, 0xffff, 0)],
     Insn ''LSR_ADD_Urrri'' 4 0x900020000000 [(1, 0, 7, 17), (1, 3, 3, 32), (0, 1, 0xf, 40), (2, 0, 0x1f, 34), (3, 0, 0xf, 20),
       (3, 4, 1, 28)],
     Insn ''LSR_ADD_Urrrici'' 6 0x900020000000 [(1, 0, 7, 17), (1, 3, 3, 32), (0, 1, 0xf, 40), (2, 0, 0x1f, 34), (4, 0, 0xf, 24),
       (3, 0, 0xf, 20), (3, 4, 1, 28), (5, 0, 0xffff, 0)],
     Insn ''LSR_ADDrrri'' 4 0x800020000000 [(1, 0, 7, 17), (1, 3, 3, 32), (0, 0, 0x1f, 39), (2, 0, 0x1f, 34), (3, 0, 0xf, 20),
       (3, 4, 1, 28)],
     Insn ''LSR_ADDrrrici'' 6 0x800020000000 [(1, 0, 7, 17), (1, 3, 3, 32), (0, 0, 0x1f, 39), (2, 0, 0x1f, 34), (4, 0, 0xf, 24),
       (3, 0, 0xf, 20), (3, 4, 1, 28), (5, 0, 0xffff, 0)],
     Insn ''LSR_ADDzrri'' 3 0x8c0020000000 [(0, 0, 7, 17), (0, 3, 3, 32), (1, 0, 0x1f, 34), (2, 0, 0xf, 20), (2, 4, 1, 28)],
     Insn ''LSR_ADDzrrici'' 5 0x8c0020000000 [(0, 0, 7, 17), (0, 3, 3, 32), (1, 0, 0x1f, 34), (3, 0, 0xf, 24), (2, 0, 0xf, 20),
       (2, 4, 1, 28), (4, 0, 0xffff, 0)]]"

definition isa_LSRX_to_LW :: "insn list" where
  "isa_LSRX_to_LW = [
     Insn ''LSRX_Srri'' 3 0x9083400d0000 [(0, 1, 0xf, 40), (1, 0, 0x1f, 34), (2, 0, 0xf, 20), (2, 4, 1, 28)],
     Insn ''LSRX_Srric'' 4 0x9083400d0000 [(0, 1, 0xf, 40), (1, 0, 0x1f, 34), (3, 0, 0xf, 24), (2, 0, 0xf, 20), (2, 4, 1, 28)],
     Insn ''LSRX_Srrici'' 5 0x9083400d0000 [(0, 1, 0xf, 40), (1, 0, 0x1f, 34), (3, 0, 0xf, 24), (3, 4, 1, 29), (2, 0, 0xf, 20),
       (2, 4, 1, 28), (4, 0, 0xffff, 0)],
     Insn ''LSRX_Srrr'' 3 0x9080d0d00000 [(2, 0, 7, 17), (2, 3, 3, 32), (0, 1, 0xf, 40), (1, 0, 0x1f, 34)],
     Insn ''LSRX_Srrrc'' 4 0x9080d0d00000 [(2, 0, 7, 17), (2, 3, 3, 32), (0, 1, 0xf, 40), (1, 0, 0x1f, 34), (3, 0, 0xf, 24)],
     Insn ''LSRX_Srrrci'' 5 0x9080d0d00000 [(2, 0, 7, 17), (2, 3, 3, 32), (0, 1, 0xf, 40), (1, 0, 0x1f, 34), (3, 0, 0xf, 24), (3,
       4, 1, 29), (4, 0, 0xffff, 0)],
     Insn ''LSRX_Urri'' 3 0x9003400d0000 [(0, 1, 0xf, 40), (1, 0, 0x1f, 34), (2, 0, 0xf, 20), (2, 4, 1, 28)],
     Insn ''LSRX_Urric'' 4 0x9003400d0000 [(0, 1, 0xf, 40), (1, 0, 0x1f, 34), (3, 0, 0xf, 24), (2, 0, 0xf, 20), (2, 4, 1, 28)],
     Insn ''LSRX_Urrici'' 5 0x9003400d0000 [(0, 1, 0xf, 40), (1, 0, 0x1f, 34), (3, 0, 0xf, 24), (3, 4, 1, 29), (2, 0, 0xf, 20),
       (2, 4, 1, 28), (4, 0, 0xffff, 0)],
     Insn ''LSRX_Urrr'' 3 0x9000d0d00000 [(2, 0, 7, 17), (2, 3, 3, 32), (0, 1, 0xf, 40), (1, 0, 0x1f, 34)],
     Insn ''LSRX_Urrrc'' 4 0x9000d0d00000 [(2, 0, 7, 17), (2, 3, 3, 32), (0, 1, 0xf, 40), (1, 0, 0x1f, 34), (3, 0, 0xf, 24)],
     Insn ''LSRX_Urrrci'' 5 0x9000d0d00000 [(2, 0, 7, 17), (2, 3, 3, 32), (0, 1, 0xf, 40), (1, 0, 0x1f, 34), (3, 0, 0xf, 24), (3,
       4, 1, 29), (4, 0, 0xffff, 0)],
     Insn ''LSRXrri'' 3 0x8003400d0000 [(0, 0, 0x1f, 39), (1, 0, 0x1f, 34), (2, 0, 0xf, 20), (2, 4, 1, 28)],
     Insn ''LSRXrric'' 4 0x8003400d0000 [(0, 0, 0x1f, 39), (1, 0, 0x1f, 34), (3, 0, 0xf, 24), (2, 0, 0xf, 20), (2, 4, 1, 28)],
     Insn ''LSRXrrici'' 5 0x8003400d0000 [(0, 0, 0x1f, 39), (1, 0, 0x1f, 34), (3, 0, 0xf, 24), (3, 4, 1, 29), (2, 0, 0xf, 20),
       (2, 4, 1, 28), (4, 0, 0xffff, 0)],
     Insn ''LSRXrrr'' 3 0x8000d0d00000 [(2, 0, 7, 17), (2, 3, 3, 32), (0, 0, 0x1f, 39), (1, 0, 0x1f, 34)],
     Insn ''LSRXrrrc'' 4 0x8000d0d00000 [(2, 0, 7, 17), (2, 3, 3, 32), (0, 0, 0x1f, 39), (1, 0, 0x1f, 34), (3, 0, 0xf, 24)],
     Insn ''LSRXrrrci'' 5 0x8000d0d00000 [(2, 0, 7, 17), (2, 3, 3, 32), (0, 0, 0x1f, 39), (1, 0, 0x1f, 34), (3, 0, 0xf, 24), (3,
       4, 1, 29), (4, 0, 0xffff, 0)],
     Insn ''LSRXzri'' 2 0x8c03400d0000 [(0, 0, 0x1f, 34), (1, 0, 0xf, 20), (1, 4, 1, 28)],
     Insn ''LSRXzric'' 3 0x8c03400d0000 [(0, 0, 0x1f, 34), (2, 0, 0xf, 24), (1, 0, 0xf, 20), (1, 4, 1, 28)],
     Insn ''LSRXzrici'' 4 0x8c03400d0000 [(0, 0, 0x1f, 34), (2, 0, 0xf, 24), (2, 4, 1, 29), (1, 0, 0xf, 20), (1, 4, 1, 28), (3,
       0, 0xffff, 0)],
     Insn ''LSRXzrr'' 2 0x8c00d0d00000 [(1, 0, 7, 17), (1, 3, 3, 32), (0, 0, 0x1f, 34)],
     Insn ''LSRXzrrc'' 3 0x8c00d0d00000 [(1, 0, 7, 17), (1, 3, 3, 32), (0, 0, 0x1f, 34), (2, 0, 0xf, 24)],
     Insn ''LSRXzrrci'' 4 0x8c00d0d00000 [(1, 0, 7, 17), (1, 3, 3, 32), (0, 0, 0x1f, 34), (2, 0, 0xf, 24), (2, 4, 1, 29), (3, 0,
       0xffff, 0)],
     Insn ''LW_Serri'' 4 0x708364000000 [(2, 0, 0x1f, 34), (0, 0, 1, 27), (3, 0, 0xf, 20), (3, 4, 0xf, 16), (3, 8, 1, 15), (3, 9,
       1, 14), (3, 10, 1, 13), (3, 11, 1, 12), (3, 12, 0xfff, 0), (1, 1, 0xf, 40)],
     Insn ''LW_Srri'' 3 0x708364000000 [(1, 0, 0x1f, 34), (2, 0, 0xf, 20), (2, 4, 0xf, 16), (2, 8, 1, 15), (2, 9, 1, 14), (2, 10,
       1, 13), (2, 11, 1, 12), (2, 12, 0xfff, 0), (0, 1, 0xf, 40)],
     Insn ''LW_Uerri'' 4 0x700364000000 [(2, 0, 0x1f, 34), (0, 0, 1, 27), (3, 0, 0xf, 20), (3, 4, 0xf, 16), (3, 8, 1, 15), (3, 9,
       1, 14), (3, 10, 1, 13), (3, 11, 1, 12), (3, 12, 0xfff, 0), (1, 1, 0xf, 40)],
     Insn ''LW_Urri'' 3 0x700364000000 [(1, 0, 0x1f, 34), (2, 0, 0xf, 20), (2, 4, 0xf, 16), (2, 8, 1, 15), (2, 9, 1, 14), (2, 10,
       1, 13), (2, 11, 1, 12), (2, 12, 0xfff, 0), (0, 1, 0xf, 40)],
     Insn ''LWerri'' 4 0x700344000000 [(2, 0, 0x1f, 34), (0, 0, 1, 27), (3, 0, 0xf, 20), (3, 4, 0xf, 16), (3, 8, 1, 15), (3, 9,
       1, 14), (3, 10, 1, 13), (3, 11, 1, 12), (3, 12, 0xfff, 0), (1, 0, 0x1f, 39)],
     Insn ''LWersi'' 4 0x700354000000 [(2, 0, 0x1f, 34), (0, 0, 1, 27), (3, 0, 0xf, 20), (3, 4, 0xf, 16), (3, 8, 1, 15), (3, 9,
       1, 14), (3, 10, 1, 13), (3, 11, 1, 12), (3, 12, 0xfff, 0), (1, 0, 0x1f, 39)],
     Insn ''LWrri'' 3 0x700344000000 [(1, 0, 0x1f, 34), (2, 0, 0xf, 20), (2, 4, 0xf, 16), (2, 8, 1, 15), (2, 9, 1, 14), (2, 10,
       1, 13), (2, 11, 1, 12), (2, 12, 0xfff, 0), (0, 0, 0x1f, 39)]]"

definition isa_LWS_to_MUL_SH_SL :: "insn list" where
  "isa_LWS_to_MUL_SH_SL = [
     Insn ''LWSrri'' 3 0x700354000000 [(1, 0, 0x1f, 34), (2, 0, 0xf, 20), (2, 4, 0xf, 16), (2, 8, 1, 15), (2, 9, 1, 14), (2, 10,
       1, 13), (2, 11, 1, 12), (2, 12, 0xfff, 0), (0, 0, 0x1f, 39)],
     Insn ''MOVDrr'' 2 0x806020010000 [(1, 0, 7, 17), (1, 3, 3, 32), (0, 0, 0x1f, 39)],
     Insn ''MOVDrrci'' 4 0x806020010000 [(1, 0, 7, 17), (1, 3, 3, 32), (0, 0, 0x1f, 39), (2, 0, 0xf, 24), (3, 0, 0xffff, 0)],
     Insn ''MOVE_Sri'' 2 0x50eb00000000 [(0, 1, 0xf, 40), (1, 0, 0xf, 20), (1, 4, 0xf, 16), (1, 8, 1, 15), (1, 9, 1, 14), (1, 10,
       1, 13), (1, 11, 1, 12), (1, 12, 0xfff, 0), (1, 24, 0xff, 24)],
     Insn ''MOVE_Srici'' 4 0x90e3b0000000 [(0, 1, 0xf, 40), (2, 0, 0xf, 24), (1, 0, 0xf, 20), (1, 4, 0xf, 16), (3, 0, 0xffff, 0)],
     Insn ''MOVE_Srr'' 2 0x9083b0000000 [(0, 1, 0xf, 40), (1, 0, 0x1f, 34)],
     Insn ''MOVE_Srrci'' 4 0x9083b0000000 [(0, 1, 0xf, 40), (1, 0, 0x1f, 34), (2, 0, 0xf, 24), (3, 0, 0xffff, 0)],
     Insn ''MOVE_Uri'' 2 0x506b00000000 [(0, 1, 0xf, 40), (1, 0, 0xf, 20), (1, 4, 0xf, 16), (1, 8, 1, 15), (1, 9, 1, 14), (1, 10,
       1, 13), (1, 11, 1, 12), (1, 12, 0xfff, 0), (1, 24, 0xff, 24)],
     Insn ''MOVE_Urici'' 4 0x9063b0000000 [(0, 1, 0xf, 40), (2, 0, 0xf, 24), (1, 0, 0xf, 20), (1, 4, 0xf, 16), (3, 0, 0xffff, 0)],
     Insn ''MOVE_Urr'' 2 0x9003b0000000 [(0, 1, 0xf, 40), (1, 0, 0x1f, 34)],
     Insn ''MOVE_Urrci'' 4 0x9003b0000000 [(0, 1, 0xf, 40), (1, 0, 0x1f, 34), (2, 0, 0xf, 24), (3, 0, 0xffff, 0)],
     Insn ''MOVEri'' 2 0x606300000000 [(1, 0, 0xf, 20), (1, 4, 0xf, 16), (1, 8, 1, 15), (1, 9, 1, 14), (1, 10, 1, 13), (1, 11, 1,
       12), (1, 12, 0xfff, 0), (1, 24, 0xff, 24), (0, 0, 0x1f, 39)],
     Insn ''MOVErici'' 4 0x8063b0000000 [(0, 0, 0x1f, 39), (2, 0, 0xf, 24), (1, 0, 0xf, 20), (1, 4, 0xf, 16), (3, 0, 0xffff, 0)],
     Insn ''MOVErr'' 2 0x8003b0000000 [(0, 0, 0x1f, 39), (1, 0, 0x1f, 34)],
     Insn ''MOVErrci'' 4 0x8003b0000000 [(0, 0, 0x1f, 39), (1, 0, 0x1f, 34), (2, 0, 0xf, 24), (3, 0, 0xffff, 0)],
     Insn ''MUL_SH_SH_Srrr'' 3 0x4c8000700000 [(2, 0, 7, 17), (2, 3, 3, 32), (1, 0, 0x1f, 34), (0, 1, 3, 40), (0, 3, 3, 44)],
     Insn ''MUL_SH_SH_Srrrc'' 4 0x4c8000700000 [(2, 0, 7, 17), (2, 3, 3, 32), (1, 0, 0x1f, 34), (0, 1, 3, 40), (0, 3, 3, 44), (3,
       0, 0xf, 24)],
     Insn ''MUL_SH_SH_Srrrci'' 5 0x4c8000700000 [(2, 0, 7, 17), (2, 3, 3, 32), (1, 0, 0x1f, 34), (0, 1, 3, 40), (0, 3, 3, 44),
       (3, 0, 0x1f, 24), (4, 0, 0xffff, 0)],
     Insn ''MUL_SH_SHrrr'' 3 0xc0000700000 [(2, 0, 7, 17), (2, 3, 3, 32), (1, 0, 0x1f, 34), (0, 0, 7, 39), (0, 3, 3, 44)],
     Insn ''MUL_SH_SHrrrc'' 4 0xc0000700000 [(2, 0, 7, 17), (2, 3, 3, 32), (1, 0, 0x1f, 34), (0, 0, 7, 39), (0, 3, 3, 44), (3, 0,
       0xf, 24)],
     Insn ''MUL_SH_SHrrrci'' 5 0xc0000700000 [(2, 0, 7, 17), (2, 3, 3, 32), (1, 0, 0x1f, 34), (0, 0, 7, 39), (0, 3, 3, 44), (3,
       0, 0x1f, 24), (4, 0, 0xffff, 0)],
     Insn ''MUL_SH_SHzrr'' 2 0x3c0000700000 [(1, 0, 7, 17), (1, 3, 3, 32), (0, 0, 0x1f, 34)],
     Insn ''MUL_SH_SHzrrc'' 3 0x3c0000700000 [(1, 0, 7, 17), (1, 3, 3, 32), (0, 0, 0x1f, 34), (2, 0, 0xf, 24)],
     Insn ''MUL_SH_SHzrrci'' 4 0x3c0000700000 [(1, 0, 7, 17), (1, 3, 3, 32), (0, 0, 0x1f, 34), (2, 0, 0x1f, 24), (3, 0, 0xffff,
       0)],
     Insn ''MUL_SH_SL_Srrr'' 3 0x4c8000600000 [(2, 0, 7, 17), (2, 3, 3, 32), (1, 0, 0x1f, 34), (0, 1, 3, 40), (0, 3, 3, 44)],
     Insn ''MUL_SH_SL_Srrrc'' 4 0x4c8000600000 [(2, 0, 7, 17), (2, 3, 3, 32), (1, 0, 0x1f, 34), (0, 1, 3, 40), (0, 3, 3, 44), (3,
       0, 0xf, 24)],
     Insn ''MUL_SH_SL_Srrrci'' 5 0x4c8000600000 [(2, 0, 7, 17), (2, 3, 3, 32), (1, 0, 0x1f, 34), (0, 1, 3, 40), (0, 3, 3, 44),
       (3, 0, 0x1f, 24), (4, 0, 0xffff, 0)],
     Insn ''MUL_SH_SLrrr'' 3 0xc0000600000 [(2, 0, 7, 17), (2, 3, 3, 32), (1, 0, 0x1f, 34), (0, 0, 7, 39), (0, 3, 3, 44)],
     Insn ''MUL_SH_SLrrrc'' 4 0xc0000600000 [(2, 0, 7, 17), (2, 3, 3, 32), (1, 0, 0x1f, 34), (0, 0, 7, 39), (0, 3, 3, 44), (3, 0,
       0xf, 24)],
     Insn ''MUL_SH_SLrrrci'' 5 0xc0000600000 [(2, 0, 7, 17), (2, 3, 3, 32), (1, 0, 0x1f, 34), (0, 0, 7, 39), (0, 3, 3, 44), (3,
       0, 0x1f, 24), (4, 0, 0xffff, 0)],
     Insn ''MUL_SH_SLzrr'' 2 0x3c0000600000 [(1, 0, 7, 17), (1, 3, 3, 32), (0, 0, 0x1f, 34)],
     Insn ''MUL_SH_SLzrrc'' 3 0x3c0000600000 [(1, 0, 7, 17), (1, 3, 3, 32), (0, 0, 0x1f, 34), (2, 0, 0xf, 24)],
     Insn ''MUL_SH_SLzrrci'' 4 0x3c0000600000 [(1, 0, 7, 17), (1, 3, 3, 32), (0, 0, 0x1f, 34), (2, 0, 0x1f, 24), (3, 0, 0xffff,
       0)]]"

definition isa_MUL_SH_UH_to_MUL_SL_SH :: "insn list" where
  "isa_MUL_SH_UH_to_MUL_SL_SH = [
     Insn ''MUL_SH_UH_Srrr'' 3 0x4c8000b00000 [(2, 0, 7, 17), (2, 3, 3, 32), (1, 0, 0x1f, 34), (0, 1, 3, 40), (0, 3, 3, 44)],
     Insn ''MUL_SH_UH_Srrrc'' 4 0x4c8000b00000 [(2, 0, 7, 17), (2, 3, 3, 32), (1, 0, 0x1f, 34), (0, 1, 3, 40), (0, 3, 3, 44), (3,
       0, 0xf, 24)],
     Insn ''MUL_SH_UH_Srrrci'' 5 0x4c8000b00000 [(2, 0, 7, 17), (2, 3, 3, 32), (1, 0, 0x1f, 34), (0, 1, 3, 40), (0, 3, 3, 44),
       (3, 0, 0x1f, 24), (4, 0, 0xffff, 0)],
     Insn ''MUL_SH_UHrrr'' 3 0xc0000b00000 [(2, 0, 7, 17), (2, 3, 3, 32), (1, 0, 0x1f, 34), (0, 0, 7, 39), (0, 3, 3, 44)],
     Insn ''MUL_SH_UHrrrc'' 4 0xc0000b00000 [(2, 0, 7, 17), (2, 3, 3, 32), (1, 0, 0x1f, 34), (0, 0, 7, 39), (0, 3, 3, 44), (3, 0,
       0xf, 24)],
     Insn ''MUL_SH_UHrrrci'' 5 0xc0000b00000 [(2, 0, 7, 17), (2, 3, 3, 32), (1, 0, 0x1f, 34), (0, 0, 7, 39), (0, 3, 3, 44), (3,
       0, 0x1f, 24), (4, 0, 0xffff, 0)],
     Insn ''MUL_SH_UHzrr'' 2 0x3c0000b00000 [(1, 0, 7, 17), (1, 3, 3, 32), (0, 0, 0x1f, 34)],
     Insn ''MUL_SH_UHzrrc'' 3 0x3c0000b00000 [(1, 0, 7, 17), (1, 3, 3, 32), (0, 0, 0x1f, 34), (2, 0, 0xf, 24)],
     Insn ''MUL_SH_UHzrrci'' 4 0x3c0000b00000 [(1, 0, 7, 17), (1, 3, 3, 32), (0, 0, 0x1f, 34), (2, 0, 0x1f, 24), (3, 0, 0xffff,
       0)],
     Insn ''MUL_SH_UL_Srrr'' 3 0x4c8000a00000 [(2, 0, 7, 17), (2, 3, 3, 32), (1, 0, 0x1f, 34), (0, 1, 3, 40), (0, 3, 3, 44)],
     Insn ''MUL_SH_UL_Srrrc'' 4 0x4c8000a00000 [(2, 0, 7, 17), (2, 3, 3, 32), (1, 0, 0x1f, 34), (0, 1, 3, 40), (0, 3, 3, 44), (3,
       0, 0xf, 24)],
     Insn ''MUL_SH_UL_Srrrci'' 5 0x4c8000a00000 [(2, 0, 7, 17), (2, 3, 3, 32), (1, 0, 0x1f, 34), (0, 1, 3, 40), (0, 3, 3, 44),
       (3, 0, 0x1f, 24), (4, 0, 0xffff, 0)],
     Insn ''MUL_SH_ULrrr'' 3 0xc0000a00000 [(2, 0, 7, 17), (2, 3, 3, 32), (1, 0, 0x1f, 34), (0, 0, 7, 39), (0, 3, 3, 44)],
     Insn ''MUL_SH_ULrrrc'' 4 0xc0000a00000 [(2, 0, 7, 17), (2, 3, 3, 32), (1, 0, 0x1f, 34), (0, 0, 7, 39), (0, 3, 3, 44), (3, 0,
       0xf, 24)],
     Insn ''MUL_SH_ULrrrci'' 5 0xc0000a00000 [(2, 0, 7, 17), (2, 3, 3, 32), (1, 0, 0x1f, 34), (0, 0, 7, 39), (0, 3, 3, 44), (3,
       0, 0x1f, 24), (4, 0, 0xffff, 0)],
     Insn ''MUL_SH_ULzrr'' 2 0x3c0000a00000 [(1, 0, 7, 17), (1, 3, 3, 32), (0, 0, 0x1f, 34)],
     Insn ''MUL_SH_ULzrrc'' 3 0x3c0000a00000 [(1, 0, 7, 17), (1, 3, 3, 32), (0, 0, 0x1f, 34), (2, 0, 0xf, 24)],
     Insn ''MUL_SH_ULzrrci'' 4 0x3c0000a00000 [(1, 0, 7, 17), (1, 3, 3, 32), (0, 0, 0x1f, 34), (2, 0, 0x1f, 24), (3, 0, 0xffff,
       0)],
     Insn ''MUL_SL_SH_Srrr'' 3 0x4c8000500000 [(2, 0, 7, 17), (2, 3, 3, 32), (1, 0, 0x1f, 34), (0, 1, 3, 40), (0, 3, 3, 44)],
     Insn ''MUL_SL_SH_Srrrc'' 4 0x4c8000500000 [(2, 0, 7, 17), (2, 3, 3, 32), (1, 0, 0x1f, 34), (0, 1, 3, 40), (0, 3, 3, 44), (3,
       0, 0xf, 24)],
     Insn ''MUL_SL_SH_Srrrci'' 5 0x4c8000500000 [(2, 0, 7, 17), (2, 3, 3, 32), (1, 0, 0x1f, 34), (0, 1, 3, 40), (0, 3, 3, 44),
       (3, 0, 0x1f, 24), (4, 0, 0xffff, 0)],
     Insn ''MUL_SL_SHrrr'' 3 0xc0000500000 [(2, 0, 7, 17), (2, 3, 3, 32), (1, 0, 0x1f, 34), (0, 0, 7, 39), (0, 3, 3, 44)],
     Insn ''MUL_SL_SHrrrc'' 4 0xc0000500000 [(2, 0, 7, 17), (2, 3, 3, 32), (1, 0, 0x1f, 34), (0, 0, 7, 39), (0, 3, 3, 44), (3, 0,
       0xf, 24)],
     Insn ''MUL_SL_SHrrrci'' 5 0xc0000500000 [(2, 0, 7, 17), (2, 3, 3, 32), (1, 0, 0x1f, 34), (0, 0, 7, 39), (0, 3, 3, 44), (3,
       0, 0x1f, 24), (4, 0, 0xffff, 0)],
     Insn ''MUL_SL_SHzrr'' 2 0x3c0000500000 [(1, 0, 7, 17), (1, 3, 3, 32), (0, 0, 0x1f, 34)],
     Insn ''MUL_SL_SHzrrc'' 3 0x3c0000500000 [(1, 0, 7, 17), (1, 3, 3, 32), (0, 0, 0x1f, 34), (2, 0, 0xf, 24)],
     Insn ''MUL_SL_SHzrrci'' 4 0x3c0000500000 [(1, 0, 7, 17), (1, 3, 3, 32), (0, 0, 0x1f, 34), (2, 0, 0x1f, 24), (3, 0, 0xffff,
       0)]]"

definition isa_MUL_SL_SL_to_MUL_STEP :: "insn list" where
  "isa_MUL_SL_SL_to_MUL_STEP = [
     Insn ''MUL_SL_SL_Srrr'' 3 0x4c8000400000 [(2, 0, 7, 17), (2, 3, 3, 32), (1, 0, 0x1f, 34), (0, 1, 3, 40), (0, 3, 3, 44)],
     Insn ''MUL_SL_SL_Srrrc'' 4 0x4c8000400000 [(2, 0, 7, 17), (2, 3, 3, 32), (1, 0, 0x1f, 34), (0, 1, 3, 40), (0, 3, 3, 44), (3,
       0, 0xf, 24)],
     Insn ''MUL_SL_SL_Srrrci'' 5 0x4c8000400000 [(2, 0, 7, 17), (2, 3, 3, 32), (1, 0, 0x1f, 34), (0, 1, 3, 40), (0, 3, 3, 44),
       (3, 0, 0x1f, 24), (4, 0, 0xffff, 0)],
     Insn ''MUL_SL_SLrrr'' 3 0xc0000400000 [(2, 0, 7, 17), (2, 3, 3, 32), (1, 0, 0x1f, 34), (0, 0, 7, 39), (0, 3, 3, 44)],
     Insn ''MUL_SL_SLrrrc'' 4 0xc0000400000 [(2, 0, 7, 17), (2, 3, 3, 32), (1, 0, 0x1f, 34), (0, 0, 7, 39), (0, 3, 3, 44), (3, 0,
       0xf, 24)],
     Insn ''MUL_SL_SLrrrci'' 5 0xc0000400000 [(2, 0, 7, 17), (2, 3, 3, 32), (1, 0, 0x1f, 34), (0, 0, 7, 39), (0, 3, 3, 44), (3,
       0, 0x1f, 24), (4, 0, 0xffff, 0)],
     Insn ''MUL_SL_SLzrr'' 2 0x3c0000400000 [(1, 0, 7, 17), (1, 3, 3, 32), (0, 0, 0x1f, 34)],
     Insn ''MUL_SL_SLzrrc'' 3 0x3c0000400000 [(1, 0, 7, 17), (1, 3, 3, 32), (0, 0, 0x1f, 34), (2, 0, 0xf, 24)],
     Insn ''MUL_SL_SLzrrci'' 4 0x3c0000400000 [(1, 0, 7, 17), (1, 3, 3, 32), (0, 0, 0x1f, 34), (2, 0, 0x1f, 24), (3, 0, 0xffff,
       0)],
     Insn ''MUL_SL_UH_Srrr'' 3 0x4c8000900000 [(2, 0, 7, 17), (2, 3, 3, 32), (1, 0, 0x1f, 34), (0, 1, 3, 40), (0, 3, 3, 44)],
     Insn ''MUL_SL_UH_Srrrc'' 4 0x4c8000900000 [(2, 0, 7, 17), (2, 3, 3, 32), (1, 0, 0x1f, 34), (0, 1, 3, 40), (0, 3, 3, 44), (3,
       0, 0xf, 24)],
     Insn ''MUL_SL_UH_Srrrci'' 5 0x4c8000900000 [(2, 0, 7, 17), (2, 3, 3, 32), (1, 0, 0x1f, 34), (0, 1, 3, 40), (0, 3, 3, 44),
       (3, 0, 0x1f, 24), (4, 0, 0xffff, 0)],
     Insn ''MUL_SL_UHrrr'' 3 0xc0000900000 [(2, 0, 7, 17), (2, 3, 3, 32), (1, 0, 0x1f, 34), (0, 0, 7, 39), (0, 3, 3, 44)],
     Insn ''MUL_SL_UHrrrc'' 4 0xc0000900000 [(2, 0, 7, 17), (2, 3, 3, 32), (1, 0, 0x1f, 34), (0, 0, 7, 39), (0, 3, 3, 44), (3, 0,
       0xf, 24)],
     Insn ''MUL_SL_UHrrrci'' 5 0xc0000900000 [(2, 0, 7, 17), (2, 3, 3, 32), (1, 0, 0x1f, 34), (0, 0, 7, 39), (0, 3, 3, 44), (3,
       0, 0x1f, 24), (4, 0, 0xffff, 0)],
     Insn ''MUL_SL_UHzrr'' 2 0x3c0000900000 [(1, 0, 7, 17), (1, 3, 3, 32), (0, 0, 0x1f, 34)],
     Insn ''MUL_SL_UHzrrc'' 3 0x3c0000900000 [(1, 0, 7, 17), (1, 3, 3, 32), (0, 0, 0x1f, 34), (2, 0, 0xf, 24)],
     Insn ''MUL_SL_UHzrrci'' 4 0x3c0000900000 [(1, 0, 7, 17), (1, 3, 3, 32), (0, 0, 0x1f, 34), (2, 0, 0x1f, 24), (3, 0, 0xffff,
       0)],
     Insn ''MUL_SL_UL_Srrr'' 3 0x4c8000800000 [(2, 0, 7, 17), (2, 3, 3, 32), (1, 0, 0x1f, 34), (0, 1, 3, 40), (0, 3, 3, 44)],
     Insn ''MUL_SL_UL_Srrrc'' 4 0x4c8000800000 [(2, 0, 7, 17), (2, 3, 3, 32), (1, 0, 0x1f, 34), (0, 1, 3, 40), (0, 3, 3, 44), (3,
       0, 0xf, 24)],
     Insn ''MUL_SL_UL_Srrrci'' 5 0x4c8000800000 [(2, 0, 7, 17), (2, 3, 3, 32), (1, 0, 0x1f, 34), (0, 1, 3, 40), (0, 3, 3, 44),
       (3, 0, 0x1f, 24), (4, 0, 0xffff, 0)],
     Insn ''MUL_SL_ULrrr'' 3 0xc0000800000 [(2, 0, 7, 17), (2, 3, 3, 32), (1, 0, 0x1f, 34), (0, 0, 7, 39), (0, 3, 3, 44)],
     Insn ''MUL_SL_ULrrrc'' 4 0xc0000800000 [(2, 0, 7, 17), (2, 3, 3, 32), (1, 0, 0x1f, 34), (0, 0, 7, 39), (0, 3, 3, 44), (3, 0,
       0xf, 24)],
     Insn ''MUL_SL_ULrrrci'' 5 0xc0000800000 [(2, 0, 7, 17), (2, 3, 3, 32), (1, 0, 0x1f, 34), (0, 0, 7, 39), (0, 3, 3, 44), (3,
       0, 0x1f, 24), (4, 0, 0xffff, 0)],
     Insn ''MUL_SL_ULzrr'' 2 0x3c0000800000 [(1, 0, 7, 17), (1, 3, 3, 32), (0, 0, 0x1f, 34)],
     Insn ''MUL_SL_ULzrrc'' 3 0x3c0000800000 [(1, 0, 7, 17), (1, 3, 3, 32), (0, 0, 0x1f, 34), (2, 0, 0xf, 24)],
     Insn ''MUL_SL_ULzrrci'' 4 0x3c0000800000 [(1, 0, 7, 17), (1, 3, 3, 32), (0, 0, 0x1f, 34), (2, 0, 0x1f, 24), (3, 0, 0xffff,
       0)],
     Insn ''MUL_STEPrrri'' 4 0x800040010000 [(2, 0, 7, 17), (2, 3, 3, 32), (0, 0, 0x1f, 39), (1, 0, 0x1f, 34), (3, 0, 0xf, 20),
       (3, 4, 1, 28)],
     Insn ''MUL_STEPrrrici'' 6 0x800040010000 [(2, 0, 7, 17), (2, 3, 3, 32), (0, 0, 0x1f, 39), (1, 0, 0x1f, 34), (4, 0, 0xf, 24),
       (3, 0, 0xf, 20), (3, 4, 1, 28), (5, 0, 0xffff, 0)]]"

definition isa_MUL_UH_UH_to_MUL_UL_UH :: "insn list" where
  "isa_MUL_UH_UH_to_MUL_UL_UH = [
     Insn ''MUL_UH_UH_Urrr'' 3 0x4c0000300000 [(2, 0, 7, 17), (2, 3, 3, 32), (1, 0, 0x1f, 34), (0, 1, 3, 40), (0, 3, 3, 44)],
     Insn ''MUL_UH_UH_Urrrc'' 4 0x4c0000300000 [(2, 0, 7, 17), (2, 3, 3, 32), (1, 0, 0x1f, 34), (0, 1, 3, 40), (0, 3, 3, 44), (3,
       0, 0xf, 24)],
     Insn ''MUL_UH_UH_Urrrci'' 5 0x4c0000300000 [(2, 0, 7, 17), (2, 3, 3, 32), (1, 0, 0x1f, 34), (0, 1, 3, 40), (0, 3, 3, 44),
       (3, 0, 0x1f, 24), (4, 0, 0xffff, 0)],
     Insn ''MUL_UH_UHrrr'' 3 0xc0000300000 [(2, 0, 7, 17), (2, 3, 3, 32), (1, 0, 0x1f, 34), (0, 0, 7, 39), (0, 3, 3, 44)],
     Insn ''MUL_UH_UHrrrc'' 4 0xc0000300000 [(2, 0, 7, 17), (2, 3, 3, 32), (1, 0, 0x1f, 34), (0, 0, 7, 39), (0, 3, 3, 44), (3, 0,
       0xf, 24)],
     Insn ''MUL_UH_UHrrrci'' 5 0xc0000300000 [(2, 0, 7, 17), (2, 3, 3, 32), (1, 0, 0x1f, 34), (0, 0, 7, 39), (0, 3, 3, 44), (3,
       0, 0x1f, 24), (4, 0, 0xffff, 0)],
     Insn ''MUL_UH_UHzrr'' 2 0x3c0000300000 [(1, 0, 7, 17), (1, 3, 3, 32), (0, 0, 0x1f, 34)],
     Insn ''MUL_UH_UHzrrc'' 3 0x3c0000300000 [(1, 0, 7, 17), (1, 3, 3, 32), (0, 0, 0x1f, 34), (2, 0, 0xf, 24)],
     Insn ''MUL_UH_UHzrrci'' 4 0x3c0000300000 [(1, 0, 7, 17), (1, 3, 3, 32), (0, 0, 0x1f, 34), (2, 0, 0x1f, 24), (3, 0, 0xffff,
       0)],
     Insn ''MUL_UH_UL_Urrr'' 3 0x4c0000200000 [(2, 0, 7, 17), (2, 3, 3, 32), (1, 0, 0x1f, 34), (0, 1, 3, 40), (0, 3, 3, 44)],
     Insn ''MUL_UH_UL_Urrrc'' 4 0x4c0000200000 [(2, 0, 7, 17), (2, 3, 3, 32), (1, 0, 0x1f, 34), (0, 1, 3, 40), (0, 3, 3, 44), (3,
       0, 0xf, 24)],
     Insn ''MUL_UH_UL_Urrrci'' 5 0x4c0000200000 [(2, 0, 7, 17), (2, 3, 3, 32), (1, 0, 0x1f, 34), (0, 1, 3, 40), (0, 3, 3, 44),
       (3, 0, 0x1f, 24), (4, 0, 0xffff, 0)],
     Insn ''MUL_UH_ULrrr'' 3 0xc0000200000 [(2, 0, 7, 17), (2, 3, 3, 32), (1, 0, 0x1f, 34), (0, 0, 7, 39), (0, 3, 3, 44)],
     Insn ''MUL_UH_ULrrrc'' 4 0xc0000200000 [(2, 0, 7, 17), (2, 3, 3, 32), (1, 0, 0x1f, 34), (0, 0, 7, 39), (0, 3, 3, 44), (3, 0,
       0xf, 24)],
     Insn ''MUL_UH_ULrrrci'' 5 0xc0000200000 [(2, 0, 7, 17), (2, 3, 3, 32), (1, 0, 0x1f, 34), (0, 0, 7, 39), (0, 3, 3, 44), (3,
       0, 0x1f, 24), (4, 0, 0xffff, 0)],
     Insn ''MUL_UH_ULzrr'' 2 0x3c0000200000 [(1, 0, 7, 17), (1, 3, 3, 32), (0, 0, 0x1f, 34)],
     Insn ''MUL_UH_ULzrrc'' 3 0x3c0000200000 [(1, 0, 7, 17), (1, 3, 3, 32), (0, 0, 0x1f, 34), (2, 0, 0xf, 24)],
     Insn ''MUL_UH_ULzrrci'' 4 0x3c0000200000 [(1, 0, 7, 17), (1, 3, 3, 32), (0, 0, 0x1f, 34), (2, 0, 0x1f, 24), (3, 0, 0xffff,
       0)],
     Insn ''MUL_UL_UH_Urrr'' 3 0x4c0000100000 [(2, 0, 7, 17), (2, 3, 3, 32), (1, 0, 0x1f, 34), (0, 1, 3, 40), (0, 3, 3, 44)],
     Insn ''MUL_UL_UH_Urrrc'' 4 0x4c0000100000 [(2, 0, 7, 17), (2, 3, 3, 32), (1, 0, 0x1f, 34), (0, 1, 3, 40), (0, 3, 3, 44), (3,
       0, 0xf, 24)],
     Insn ''MUL_UL_UH_Urrrci'' 5 0x4c0000100000 [(2, 0, 7, 17), (2, 3, 3, 32), (1, 0, 0x1f, 34), (0, 1, 3, 40), (0, 3, 3, 44),
       (3, 0, 0x1f, 24), (4, 0, 0xffff, 0)],
     Insn ''MUL_UL_UHrrr'' 3 0xc0000100000 [(2, 0, 7, 17), (2, 3, 3, 32), (1, 0, 0x1f, 34), (0, 0, 7, 39), (0, 3, 3, 44)],
     Insn ''MUL_UL_UHrrrc'' 4 0xc0000100000 [(2, 0, 7, 17), (2, 3, 3, 32), (1, 0, 0x1f, 34), (0, 0, 7, 39), (0, 3, 3, 44), (3, 0,
       0xf, 24)],
     Insn ''MUL_UL_UHrrrci'' 5 0xc0000100000 [(2, 0, 7, 17), (2, 3, 3, 32), (1, 0, 0x1f, 34), (0, 0, 7, 39), (0, 3, 3, 44), (3,
       0, 0x1f, 24), (4, 0, 0xffff, 0)],
     Insn ''MUL_UL_UHzrr'' 2 0x3c0000100000 [(1, 0, 7, 17), (1, 3, 3, 32), (0, 0, 0x1f, 34)],
     Insn ''MUL_UL_UHzrrc'' 3 0x3c0000100000 [(1, 0, 7, 17), (1, 3, 3, 32), (0, 0, 0x1f, 34), (2, 0, 0xf, 24)],
     Insn ''MUL_UL_UHzrrci'' 4 0x3c0000100000 [(1, 0, 7, 17), (1, 3, 3, 32), (0, 0, 0x1f, 34), (2, 0, 0x1f, 24), (3, 0, 0xffff,
       0)]]"

definition isa_MUL_UL_UL :: "insn list" where
  "isa_MUL_UL_UL = [
     Insn ''MUL_UL_UL_Urrr'' 3 0x4c0000000000 [(2, 0, 7, 17), (2, 3, 3, 32), (1, 0, 0x1f, 34), (0, 1, 3, 40), (0, 3, 3, 44)],
     Insn ''MUL_UL_UL_Urrrc'' 4 0x4c0000000000 [(2, 0, 7, 17), (2, 3, 3, 32), (1, 0, 0x1f, 34), (0, 1, 3, 40), (0, 3, 3, 44), (3,
       0, 0xf, 24)],
     Insn ''MUL_UL_UL_Urrrci'' 5 0x4c0000000000 [(2, 0, 7, 17), (2, 3, 3, 32), (1, 0, 0x1f, 34), (0, 1, 3, 40), (0, 3, 3, 44),
       (3, 0, 0x1f, 24), (4, 0, 0xffff, 0)],
     Insn ''MUL_UL_ULrrr'' 3 0xc0000000000 [(2, 0, 7, 17), (2, 3, 3, 32), (1, 0, 0x1f, 34), (0, 0, 7, 39), (0, 3, 3, 44)],
     Insn ''MUL_UL_ULrrrc'' 4 0xc0000000000 [(2, 0, 7, 17), (2, 3, 3, 32), (1, 0, 0x1f, 34), (0, 0, 7, 39), (0, 3, 3, 44), (3, 0,
       0xf, 24)],
     Insn ''MUL_UL_ULrrrci'' 5 0xc0000000000 [(2, 0, 7, 17), (2, 3, 3, 32), (1, 0, 0x1f, 34), (0, 0, 7, 39), (0, 3, 3, 44), (3,
       0, 0x1f, 24), (4, 0, 0xffff, 0)],
     Insn ''MUL_UL_ULzrr'' 2 0x3c0000000000 [(1, 0, 7, 17), (1, 3, 3, 32), (0, 0, 0x1f, 34)],
     Insn ''MUL_UL_ULzrrc'' 3 0x3c0000000000 [(1, 0, 7, 17), (1, 3, 3, 32), (0, 0, 0x1f, 34), (2, 0, 0xf, 24)],
     Insn ''MUL_UL_ULzrrci'' 4 0x3c0000000000 [(1, 0, 7, 17), (1, 3, 3, 32), (0, 0, 0x1f, 34), (2, 0, 0x1f, 24), (3, 0, 0xffff,
       0)]]"

definition isa_NAND_to_NOP :: "insn list" where
  "isa_NAND_to_NOP = [
     Insn ''NAND_Srric'' 4 0x9083f0000000 [(0, 1, 0xf, 40), (1, 0, 0x1f, 34), (3, 0, 0xf, 24), (2, 0, 0xf, 20), (2, 4, 0xf, 16),
       (2, 8, 1, 15), (2, 9, 1, 14), (2, 10, 1, 13), (2, 11, 1, 12), (2, 12, 0xfff, 0)],
     Insn ''NAND_Srrici'' 5 0x9083f0000000 [(0, 1, 0xf, 40), (1, 0, 0x1f, 34), (3, 0, 0xf, 24), (2, 0, 0xf, 20), (2, 4, 0xf, 16),
       (4, 0, 0xffff, 0)],
     Insn ''NAND_Srrif'' 3 0x9083f0000000 [(0, 1, 0xf, 40), (1, 0, 0x1f, 34), (2, 0, 0xf, 20), (2, 4, 0xf, 16), (2, 8, 1, 15),
       (2, 9, 1, 14), (2, 10, 1, 13), (2, 11, 1, 12), (2, 12, 0xfff, 0)],
     Insn ''NAND_Srrr'' 3 0x9080c0f00000 [(2, 0, 7, 17), (2, 3, 3, 32), (0, 1, 0xf, 40), (1, 0, 0x1f, 34)],
     Insn ''NAND_Srrrc'' 4 0x9080c0f00000 [(2, 0, 7, 17), (2, 3, 3, 32), (0, 1, 0xf, 40), (1, 0, 0x1f, 34), (3, 0, 0xf, 24)],
     Insn ''NAND_Srrrci'' 5 0x9080c0f00000 [(2, 0, 7, 17), (2, 3, 3, 32), (0, 1, 0xf, 40), (1, 0, 0x1f, 34), (3, 0, 0xf, 24), (4,
       0, 0xffff, 0)],
     Insn ''NAND_Urric'' 4 0x9003f0000000 [(0, 1, 0xf, 40), (1, 0, 0x1f, 34), (3, 0, 0xf, 24), (2, 0, 0xf, 20), (2, 4, 0xf, 16),
       (2, 8, 1, 15), (2, 9, 1, 14), (2, 10, 1, 13), (2, 11, 1, 12), (2, 12, 0xfff, 0)],
     Insn ''NAND_Urrici'' 5 0x9003f0000000 [(0, 1, 0xf, 40), (1, 0, 0x1f, 34), (3, 0, 0xf, 24), (2, 0, 0xf, 20), (2, 4, 0xf, 16),
       (4, 0, 0xffff, 0)],
     Insn ''NAND_Urrif'' 3 0x9003f0000000 [(0, 1, 0xf, 40), (1, 0, 0x1f, 34), (2, 0, 0xf, 20), (2, 4, 0xf, 16), (2, 8, 1, 15),
       (2, 9, 1, 14), (2, 10, 1, 13), (2, 11, 1, 12), (2, 12, 0xfff, 0)],
     Insn ''NAND_Urrr'' 3 0x9000c0f00000 [(2, 0, 7, 17), (2, 3, 3, 32), (0, 1, 0xf, 40), (1, 0, 0x1f, 34)],
     Insn ''NAND_Urrrc'' 4 0x9000c0f00000 [(2, 0, 7, 17), (2, 3, 3, 32), (0, 1, 0xf, 40), (1, 0, 0x1f, 34), (3, 0, 0xf, 24)],
     Insn ''NAND_Urrrci'' 5 0x9000c0f00000 [(2, 0, 7, 17), (2, 3, 3, 32), (0, 1, 0xf, 40), (1, 0, 0x1f, 34), (3, 0, 0xf, 24), (4,
       0, 0xffff, 0)],
     Insn ''NANDrri'' 3 0x8003f0000000 [(0, 0, 0x1f, 39), (1, 0, 0x1f, 34), (2, 0, 0xf, 20), (2, 4, 0xf, 16), (2, 8, 1, 15), (2,
       9, 1, 14), (2, 10, 1, 13), (2, 11, 1, 12), (2, 12, 0xfff, 0)],
     Insn ''NANDrric'' 4 0x8003f0000000 [(0, 0, 0x1f, 39), (1, 0, 0x1f, 34), (3, 0, 0xf, 24), (2, 0, 0xf, 20), (2, 4, 0xf, 16),
       (2, 8, 1, 15), (2, 9, 1, 14), (2, 10, 1, 13), (2, 11, 1, 12), (2, 12, 0xfff, 0)],
     Insn ''NANDrrici'' 5 0x8003f0000000 [(0, 0, 0x1f, 39), (1, 0, 0x1f, 34), (3, 0, 0xf, 24), (2, 0, 0xf, 20), (2, 4, 0xf, 16),
       (4, 0, 0xffff, 0)],
     Insn ''NANDrrif'' 3 0x8003f0000000 [(0, 0, 0x1f, 39), (1, 0, 0x1f, 34), (2, 0, 0xf, 20), (2, 4, 0xf, 16), (2, 8, 1, 15), (2,
       9, 1, 14), (2, 10, 1, 13), (2, 11, 1, 12), (2, 12, 0xfff, 0)],
     Insn ''NANDrrr'' 3 0x8000c0f00000 [(2, 0, 7, 17), (2, 3, 3, 32), (0, 0, 0x1f, 39), (1, 0, 0x1f, 34)],
     Insn ''NANDrrrc'' 4 0x8000c0f00000 [(2, 0, 7, 17), (2, 3, 3, 32), (0, 0, 0x1f, 39), (1, 0, 0x1f, 34), (3, 0, 0xf, 24)],
     Insn ''NANDrrrci'' 5 0x8000c0f00000 [(2, 0, 7, 17), (2, 3, 3, 32), (0, 0, 0x1f, 39), (1, 0, 0x1f, 34), (3, 0, 0xf, 24), (4,
       0, 0xffff, 0)],
     Insn ''NANDzric'' 3 0x8c03f0000000 [(0, 0, 0x1f, 34), (2, 0, 0xf, 24), (1, 0, 0xf, 20), (1, 4, 0xf, 16), (1, 8, 1, 15), (1,
       9, 1, 14), (1, 10, 1, 13), (1, 11, 1, 12), (1, 12, 0xfff, 0), (1, 24, 7, 39), (1, 27, 1, 44)],
     Insn ''NANDzrici'' 4 0x8c03f0000000 [(0, 0, 0x1f, 34), (2, 0, 0xf, 24), (1, 0, 0xf, 20), (1, 4, 0xf, 16), (1, 8, 7, 39), (1,
       11, 1, 44), (3, 0, 0xffff, 0)],
     Insn ''NANDzrif'' 2 0x8c03f0000000 [(0, 0, 0x1f, 34), (1, 0, 0xf, 20), (1, 4, 0xf, 16), (1, 8, 1, 15), (1, 9, 1, 14), (1,
       10, 1, 13), (1, 11, 1, 12), (1, 12, 0xfff, 0), (1, 24, 7, 39), (1, 27, 1, 44)],
     Insn ''NANDzrr'' 2 0x8c00c0f00000 [(1, 0, 7, 17), (1, 3, 3, 32), (0, 0, 0x1f, 34)],
     Insn ''NANDzrrc'' 3 0x8c00c0f00000 [(1, 0, 7, 17), (1, 3, 3, 32), (0, 0, 0x1f, 34), (2, 0, 0xf, 24)],
     Insn ''NANDzrrci'' 4 0x8c00c0f00000 [(1, 0, 7, 17), (1, 3, 3, 32), (0, 0, 0x1f, 34), (2, 0, 0xf, 24), (3, 0, 0xffff, 0)],
     Insn ''NEGrr'' 2 0x200300000000 [(0, 0, 0x1f, 39), (1, 0, 0x1f, 34)],
     Insn ''NEGrrci'' 4 0xc0340000000 [(0, 0, 7, 39), (0, 3, 3, 44), (1, 0, 0x1f, 34), (2, 0, 0x1f, 24), (3, 0, 0xffff, 0)],
     Insn ''NOP'' 0 0x7c6300000000 []]"

definition isa_NOR_to_NOT :: "insn list" where
  "isa_NOR_to_NOT = [
     Insn ''NOR_Srric'' 4 0x9083e0000000 [(0, 1, 0xf, 40), (1, 0, 0x1f, 34), (3, 0, 0xf, 24), (2, 0, 0xf, 20), (2, 4, 0xf, 16),
       (2, 8, 1, 15), (2, 9, 1, 14), (2, 10, 1, 13), (2, 11, 1, 12), (2, 12, 0xfff, 0)],
     Insn ''NOR_Srrici'' 5 0x9083e0000000 [(0, 1, 0xf, 40), (1, 0, 0x1f, 34), (3, 0, 0xf, 24), (2, 0, 0xf, 20), (2, 4, 0xf, 16),
       (4, 0, 0xffff, 0)],
     Insn ''NOR_Srrif'' 3 0x9083e0000000 [(0, 1, 0xf, 40), (1, 0, 0x1f, 34), (2, 0, 0xf, 20), (2, 4, 0xf, 16), (2, 8, 1, 15), (2,
       9, 1, 14), (2, 10, 1, 13), (2, 11, 1, 12), (2, 12, 0xfff, 0)],
     Insn ''NOR_Srrr'' 3 0x9080c0e00000 [(2, 0, 7, 17), (2, 3, 3, 32), (0, 1, 0xf, 40), (1, 0, 0x1f, 34)],
     Insn ''NOR_Srrrc'' 4 0x9080c0e00000 [(2, 0, 7, 17), (2, 3, 3, 32), (0, 1, 0xf, 40), (1, 0, 0x1f, 34), (3, 0, 0xf, 24)],
     Insn ''NOR_Srrrci'' 5 0x9080c0e00000 [(2, 0, 7, 17), (2, 3, 3, 32), (0, 1, 0xf, 40), (1, 0, 0x1f, 34), (3, 0, 0xf, 24), (4,
       0, 0xffff, 0)],
     Insn ''NOR_Urric'' 4 0x9003e0000000 [(0, 1, 0xf, 40), (1, 0, 0x1f, 34), (3, 0, 0xf, 24), (2, 0, 0xf, 20), (2, 4, 0xf, 16),
       (2, 8, 1, 15), (2, 9, 1, 14), (2, 10, 1, 13), (2, 11, 1, 12), (2, 12, 0xfff, 0)],
     Insn ''NOR_Urrici'' 5 0x9003e0000000 [(0, 1, 0xf, 40), (1, 0, 0x1f, 34), (3, 0, 0xf, 24), (2, 0, 0xf, 20), (2, 4, 0xf, 16),
       (4, 0, 0xffff, 0)],
     Insn ''NOR_Urrif'' 3 0x9003e0000000 [(0, 1, 0xf, 40), (1, 0, 0x1f, 34), (2, 0, 0xf, 20), (2, 4, 0xf, 16), (2, 8, 1, 15), (2,
       9, 1, 14), (2, 10, 1, 13), (2, 11, 1, 12), (2, 12, 0xfff, 0)],
     Insn ''NOR_Urrr'' 3 0x9000c0e00000 [(2, 0, 7, 17), (2, 3, 3, 32), (0, 1, 0xf, 40), (1, 0, 0x1f, 34)],
     Insn ''NOR_Urrrc'' 4 0x9000c0e00000 [(2, 0, 7, 17), (2, 3, 3, 32), (0, 1, 0xf, 40), (1, 0, 0x1f, 34), (3, 0, 0xf, 24)],
     Insn ''NOR_Urrrci'' 5 0x9000c0e00000 [(2, 0, 7, 17), (2, 3, 3, 32), (0, 1, 0xf, 40), (1, 0, 0x1f, 34), (3, 0, 0xf, 24), (4,
       0, 0xffff, 0)],
     Insn ''NORrri'' 3 0x8003e0000000 [(0, 0, 0x1f, 39), (1, 0, 0x1f, 34), (2, 0, 0xf, 20), (2, 4, 0xf, 16), (2, 8, 1, 15), (2,
       9, 1, 14), (2, 10, 1, 13), (2, 11, 1, 12), (2, 12, 0xfff, 0)],
     Insn ''NORrric'' 4 0x8003e0000000 [(0, 0, 0x1f, 39), (1, 0, 0x1f, 34), (3, 0, 0xf, 24), (2, 0, 0xf, 20), (2, 4, 0xf, 16),
       (2, 8, 1, 15), (2, 9, 1, 14), (2, 10, 1, 13), (2, 11, 1, 12), (2, 12, 0xfff, 0)],
     Insn ''NORrrici'' 5 0x8003e0000000 [(0, 0, 0x1f, 39), (1, 0, 0x1f, 34), (3, 0, 0xf, 24), (2, 0, 0xf, 20), (2, 4, 0xf, 16),
       (4, 0, 0xffff, 0)],
     Insn ''NORrrif'' 3 0x8003e0000000 [(0, 0, 0x1f, 39), (1, 0, 0x1f, 34), (2, 0, 0xf, 20), (2, 4, 0xf, 16), (2, 8, 1, 15), (2,
       9, 1, 14), (2, 10, 1, 13), (2, 11, 1, 12), (2, 12, 0xfff, 0)],
     Insn ''NORrrr'' 3 0x8000c0e00000 [(2, 0, 7, 17), (2, 3, 3, 32), (0, 0, 0x1f, 39), (1, 0, 0x1f, 34)],
     Insn ''NORrrrc'' 4 0x8000c0e00000 [(2, 0, 7, 17), (2, 3, 3, 32), (0, 0, 0x1f, 39), (1, 0, 0x1f, 34), (3, 0, 0xf, 24)],
     Insn ''NORrrrci'' 5 0x8000c0e00000 [(2, 0, 7, 17), (2, 3, 3, 32), (0, 0, 0x1f, 39), (1, 0, 0x1f, 34), (3, 0, 0xf, 24), (4,
       0, 0xffff, 0)],
     Insn ''NORzric'' 3 0x8c03e0000000 [(0, 0, 0x1f, 34), (2, 0, 0xf, 24), (1, 0, 0xf, 20), (1, 4, 0xf, 16), (1, 8, 1, 15), (1,
       9, 1, 14), (1, 10, 1, 13), (1, 11, 1, 12), (1, 12, 0xfff, 0), (1, 24, 7, 39), (1, 27, 1, 44)],
     Insn ''NORzrici'' 4 0x8c03e0000000 [(0, 0, 0x1f, 34), (2, 0, 0xf, 24), (1, 0, 0xf, 20), (1, 4, 0xf, 16), (1, 8, 7, 39), (1,
       11, 1, 44), (3, 0, 0xffff, 0)],
     Insn ''NORzrif'' 2 0x8c03e0000000 [(0, 0, 0x1f, 34), (1, 0, 0xf, 20), (1, 4, 0xf, 16), (1, 8, 1, 15), (1, 9, 1, 14), (1, 10,
       1, 13), (1, 11, 1, 12), (1, 12, 0xfff, 0), (1, 24, 7, 39), (1, 27, 1, 44)],
     Insn ''NORzrr'' 2 0x8c00c0e00000 [(1, 0, 7, 17), (1, 3, 3, 32), (0, 0, 0x1f, 34)],
     Insn ''NORzrrc'' 3 0x8c00c0e00000 [(1, 0, 7, 17), (1, 3, 3, 32), (0, 0, 0x1f, 34), (2, 0, 0xf, 24)],
     Insn ''NORzrrci'' 4 0x8c00c0e00000 [(1, 0, 7, 17), (1, 3, 3, 32), (0, 0, 0x1f, 34), (2, 0, 0xf, 24), (3, 0, 0xffff, 0)],
     Insn ''NOTrci'' 3 0x9f8380ff0000 [(0, 0, 0x1f, 34), (1, 0, 0xf, 24), (2, 0, 0xffff, 0)],
     Insn ''NOTrr'' 2 0x4003ffffffff [(0, 0, 0x1f, 39), (1, 0, 0x1f, 34)],
     Insn ''NOTrrci'' 4 0x800380ff0000 [(0, 0, 0x1f, 39), (1, 0, 0x1f, 34), (2, 0, 0xf, 24), (3, 0, 0xffff, 0)]]"

definition isa_NXOR :: "insn list" where
  "isa_NXOR = [
     Insn ''NXOR_Srric'' 4 0x908390000000 [(0, 1, 0xf, 40), (1, 0, 0x1f, 34), (3, 0, 0xf, 24), (2, 0, 0xf, 20), (2, 4, 0xf, 16),
       (2, 8, 1, 15), (2, 9, 1, 14), (2, 10, 1, 13), (2, 11, 1, 12), (2, 12, 0xfff, 0)],
     Insn ''NXOR_Srrici'' 5 0x908390000000 [(0, 1, 0xf, 40), (1, 0, 0x1f, 34), (3, 0, 0xf, 24), (2, 0, 0xf, 20), (2, 4, 0xf, 16),
       (4, 0, 0xffff, 0)],
     Insn ''NXOR_Srrif'' 3 0x908390000000 [(0, 1, 0xf, 40), (1, 0, 0x1f, 34), (2, 0, 0xf, 20), (2, 4, 0xf, 16), (2, 8, 1, 15),
       (2, 9, 1, 14), (2, 10, 1, 13), (2, 11, 1, 12), (2, 12, 0xfff, 0)],
     Insn ''NXOR_Srrr'' 3 0x9080c0900000 [(2, 0, 7, 17), (2, 3, 3, 32), (0, 1, 0xf, 40), (1, 0, 0x1f, 34)],
     Insn ''NXOR_Srrrc'' 4 0x9080c0900000 [(2, 0, 7, 17), (2, 3, 3, 32), (0, 1, 0xf, 40), (1, 0, 0x1f, 34), (3, 0, 0xf, 24)],
     Insn ''NXOR_Srrrci'' 5 0x9080c0900000 [(2, 0, 7, 17), (2, 3, 3, 32), (0, 1, 0xf, 40), (1, 0, 0x1f, 34), (3, 0, 0xf, 24), (4,
       0, 0xffff, 0)],
     Insn ''NXOR_Urric'' 4 0x900390000000 [(0, 1, 0xf, 40), (1, 0, 0x1f, 34), (3, 0, 0xf, 24), (2, 0, 0xf, 20), (2, 4, 0xf, 16),
       (2, 8, 1, 15), (2, 9, 1, 14), (2, 10, 1, 13), (2, 11, 1, 12), (2, 12, 0xfff, 0)],
     Insn ''NXOR_Urrici'' 5 0x900390000000 [(0, 1, 0xf, 40), (1, 0, 0x1f, 34), (3, 0, 0xf, 24), (2, 0, 0xf, 20), (2, 4, 0xf, 16),
       (4, 0, 0xffff, 0)],
     Insn ''NXOR_Urrif'' 3 0x900390000000 [(0, 1, 0xf, 40), (1, 0, 0x1f, 34), (2, 0, 0xf, 20), (2, 4, 0xf, 16), (2, 8, 1, 15),
       (2, 9, 1, 14), (2, 10, 1, 13), (2, 11, 1, 12), (2, 12, 0xfff, 0)],
     Insn ''NXOR_Urrr'' 3 0x9000c0900000 [(2, 0, 7, 17), (2, 3, 3, 32), (0, 1, 0xf, 40), (1, 0, 0x1f, 34)],
     Insn ''NXOR_Urrrc'' 4 0x9000c0900000 [(2, 0, 7, 17), (2, 3, 3, 32), (0, 1, 0xf, 40), (1, 0, 0x1f, 34), (3, 0, 0xf, 24)],
     Insn ''NXOR_Urrrci'' 5 0x9000c0900000 [(2, 0, 7, 17), (2, 3, 3, 32), (0, 1, 0xf, 40), (1, 0, 0x1f, 34), (3, 0, 0xf, 24), (4,
       0, 0xffff, 0)],
     Insn ''NXORrri'' 3 0x800390000000 [(0, 0, 0x1f, 39), (1, 0, 0x1f, 34), (2, 0, 0xf, 20), (2, 4, 0xf, 16), (2, 8, 1, 15), (2,
       9, 1, 14), (2, 10, 1, 13), (2, 11, 1, 12), (2, 12, 0xfff, 0)],
     Insn ''NXORrric'' 4 0x800390000000 [(0, 0, 0x1f, 39), (1, 0, 0x1f, 34), (3, 0, 0xf, 24), (2, 0, 0xf, 20), (2, 4, 0xf, 16),
       (2, 8, 1, 15), (2, 9, 1, 14), (2, 10, 1, 13), (2, 11, 1, 12), (2, 12, 0xfff, 0)],
     Insn ''NXORrrici'' 5 0x800390000000 [(0, 0, 0x1f, 39), (1, 0, 0x1f, 34), (3, 0, 0xf, 24), (2, 0, 0xf, 20), (2, 4, 0xf, 16),
       (4, 0, 0xffff, 0)],
     Insn ''NXORrrif'' 3 0x800390000000 [(0, 0, 0x1f, 39), (1, 0, 0x1f, 34), (2, 0, 0xf, 20), (2, 4, 0xf, 16), (2, 8, 1, 15), (2,
       9, 1, 14), (2, 10, 1, 13), (2, 11, 1, 12), (2, 12, 0xfff, 0)],
     Insn ''NXORrrr'' 3 0x8000c0900000 [(2, 0, 7, 17), (2, 3, 3, 32), (0, 0, 0x1f, 39), (1, 0, 0x1f, 34)],
     Insn ''NXORrrrc'' 4 0x8000c0900000 [(2, 0, 7, 17), (2, 3, 3, 32), (0, 0, 0x1f, 39), (1, 0, 0x1f, 34), (3, 0, 0xf, 24)],
     Insn ''NXORrrrci'' 5 0x8000c0900000 [(2, 0, 7, 17), (2, 3, 3, 32), (0, 0, 0x1f, 39), (1, 0, 0x1f, 34), (3, 0, 0xf, 24), (4,
       0, 0xffff, 0)],
     Insn ''NXORzric'' 3 0x8c0390000000 [(0, 0, 0x1f, 34), (2, 0, 0xf, 24), (1, 0, 0xf, 20), (1, 4, 0xf, 16), (1, 8, 1, 15), (1,
       9, 1, 14), (1, 10, 1, 13), (1, 11, 1, 12), (1, 12, 0xfff, 0), (1, 24, 7, 39), (1, 27, 1, 44)],
     Insn ''NXORzrici'' 4 0x8c0390000000 [(0, 0, 0x1f, 34), (2, 0, 0xf, 24), (1, 0, 0xf, 20), (1, 4, 0xf, 16), (1, 8, 7, 39), (1,
       11, 1, 44), (3, 0, 0xffff, 0)],
     Insn ''NXORzrif'' 2 0x8c0390000000 [(0, 0, 0x1f, 34), (1, 0, 0xf, 20), (1, 4, 0xf, 16), (1, 8, 1, 15), (1, 9, 1, 14), (1,
       10, 1, 13), (1, 11, 1, 12), (1, 12, 0xfff, 0), (1, 24, 7, 39), (1, 27, 1, 44)],
     Insn ''NXORzrr'' 2 0x8c00c0900000 [(1, 0, 7, 17), (1, 3, 3, 32), (0, 0, 0x1f, 34)],
     Insn ''NXORzrrc'' 3 0x8c00c0900000 [(1, 0, 7, 17), (1, 3, 3, 32), (0, 0, 0x1f, 34), (2, 0, 0xf, 24)],
     Insn ''NXORzrrci'' 4 0x8c00c0900000 [(1, 0, 7, 17), (1, 3, 3, 32), (0, 0, 0x1f, 34), (2, 0, 0xf, 24), (3, 0, 0xffff, 0)]]"

definition isa_OR :: "insn list" where
  "isa_OR = [
     Insn ''OR_Srri'' 3 0x40e000000000 [(1, 0, 7, 17), (1, 3, 3, 32), (0, 1, 0xf, 40), (2, 0, 0xf, 20), (2, 4, 7, 34), (2, 7, 1,
       44), (2, 8, 1, 15), (2, 9, 1, 14), (2, 10, 1, 13), (2, 11, 1, 12), (2, 12, 0xfff, 0), (2, 24, 0xff, 24)],
     Insn ''OR_Srric'' 4 0x9083b0000000 [(0, 1, 0xf, 40), (1, 0, 0x1f, 34), (3, 0, 0xf, 24), (2, 0, 0xf, 20), (2, 4, 0xf, 16),
       (2, 8, 1, 15), (2, 9, 1, 14), (2, 10, 1, 13), (2, 11, 1, 12), (2, 12, 0xfff, 0)],
     Insn ''OR_Srrici'' 5 0x9083b0000000 [(0, 1, 0xf, 40), (1, 0, 0x1f, 34), (3, 0, 0xf, 24), (2, 0, 0xf, 20), (2, 4, 0xf, 16),
       (4, 0, 0xffff, 0)],
     Insn ''OR_Srrif'' 3 0x9083b0000000 [(0, 1, 0xf, 40), (1, 0, 0x1f, 34), (2, 0, 0xf, 20), (2, 4, 0xf, 16), (2, 8, 1, 15), (2,
       9, 1, 14), (2, 10, 1, 13), (2, 11, 1, 12), (2, 12, 0xfff, 0)],
     Insn ''OR_Srrr'' 3 0x9080c0b00000 [(2, 0, 7, 17), (2, 3, 3, 32), (0, 1, 0xf, 40), (1, 0, 0x1f, 34)],
     Insn ''OR_Srrrc'' 4 0x9080c0b00000 [(2, 0, 7, 17), (2, 3, 3, 32), (0, 1, 0xf, 40), (1, 0, 0x1f, 34), (3, 0, 0xf, 24)],
     Insn ''OR_Srrrci'' 5 0x9080c0b00000 [(2, 0, 7, 17), (2, 3, 3, 32), (0, 1, 0xf, 40), (1, 0, 0x1f, 34), (3, 0, 0xf, 24), (4,
       0, 0xffff, 0)],
     Insn ''OR_Urri'' 3 0x406000000000 [(1, 0, 7, 17), (1, 3, 3, 32), (0, 1, 0xf, 40), (2, 0, 0xf, 20), (2, 4, 7, 34), (2, 7, 1,
       44), (2, 8, 1, 15), (2, 9, 1, 14), (2, 10, 1, 13), (2, 11, 1, 12), (2, 12, 0xfff, 0), (2, 24, 0xff, 24)],
     Insn ''OR_Urric'' 4 0x9003b0000000 [(0, 1, 0xf, 40), (1, 0, 0x1f, 34), (3, 0, 0xf, 24), (2, 0, 0xf, 20), (2, 4, 0xf, 16),
       (2, 8, 1, 15), (2, 9, 1, 14), (2, 10, 1, 13), (2, 11, 1, 12), (2, 12, 0xfff, 0)],
     Insn ''OR_Urrici'' 5 0x9003b0000000 [(0, 1, 0xf, 40), (1, 0, 0x1f, 34), (3, 0, 0xf, 24), (2, 0, 0xf, 20), (2, 4, 0xf, 16),
       (4, 0, 0xffff, 0)],
     Insn ''OR_Urrif'' 3 0x9003b0000000 [(0, 1, 0xf, 40), (1, 0, 0x1f, 34), (2, 0, 0xf, 20), (2, 4, 0xf, 16), (2, 8, 1, 15), (2,
       9, 1, 14), (2, 10, 1, 13), (2, 11, 1, 12), (2, 12, 0xfff, 0)],
     Insn ''OR_Urrr'' 3 0x9000c0b00000 [(2, 0, 7, 17), (2, 3, 3, 32), (0, 1, 0xf, 40), (1, 0, 0x1f, 34)],
     Insn ''OR_Urrrc'' 4 0x9000c0b00000 [(2, 0, 7, 17), (2, 3, 3, 32), (0, 1, 0xf, 40), (1, 0, 0x1f, 34), (3, 0, 0xf, 24)],
     Insn ''OR_Urrrci'' 5 0x9000c0b00000 [(2, 0, 7, 17), (2, 3, 3, 32), (0, 1, 0xf, 40), (1, 0, 0x1f, 34), (3, 0, 0xf, 24), (4,
       0, 0xffff, 0)],
     Insn ''ORrri'' 3 0x600300000000 [(1, 0, 0x1f, 34), (2, 0, 0xf, 20), (2, 4, 0xf, 16), (2, 8, 1, 15), (2, 9, 1, 14), (2, 10,
       1, 13), (2, 11, 1, 12), (2, 12, 0xfff, 0), (2, 24, 0xff, 24), (0, 0, 0x1f, 39)],
     Insn ''ORrric'' 4 0x8003b0000000 [(0, 0, 0x1f, 39), (1, 0, 0x1f, 34), (3, 0, 0xf, 24), (2, 0, 0xf, 20), (2, 4, 0xf, 16), (2,
       8, 1, 15), (2, 9, 1, 14), (2, 10, 1, 13), (2, 11, 1, 12), (2, 12, 0xfff, 0)],
     Insn ''ORrrici'' 5 0x8003b0000000 [(0, 0, 0x1f, 39), (1, 0, 0x1f, 34), (3, 0, 0xf, 24), (2, 0, 0xf, 20), (2, 4, 0xf, 16),
       (4, 0, 0xffff, 0)],
     Insn ''ORrrif'' 3 0x8003b0000000 [(0, 0, 0x1f, 39), (1, 0, 0x1f, 34), (2, 0, 0xf, 20), (2, 4, 0xf, 16), (2, 8, 1, 15), (2,
       9, 1, 14), (2, 10, 1, 13), (2, 11, 1, 12), (2, 12, 0xfff, 0)],
     Insn ''ORrrr'' 3 0x8000c0b00000 [(2, 0, 7, 17), (2, 3, 3, 32), (0, 0, 0x1f, 39), (1, 0, 0x1f, 34)],
     Insn ''ORrrrc'' 4 0x8000c0b00000 [(2, 0, 7, 17), (2, 3, 3, 32), (0, 0, 0x1f, 39), (1, 0, 0x1f, 34), (3, 0, 0xf, 24)],
     Insn ''ORrrrci'' 5 0x8000c0b00000 [(2, 0, 7, 17), (2, 3, 3, 32), (0, 0, 0x1f, 39), (1, 0, 0x1f, 34), (3, 0, 0xf, 24), (4, 0,
       0xffff, 0)],
     Insn ''ORzri'' 2 0x666000000000 [(0, 0, 7, 17), (0, 3, 3, 32), (1, 0, 0xf, 20), (1, 4, 7, 34), (1, 7, 1, 39), (1, 8, 1, 15),
       (1, 9, 1, 14), (1, 10, 1, 13), (1, 11, 1, 12), (1, 12, 0xfff, 0), (1, 24, 0xff, 24)],
     Insn ''ORzric'' 3 0x8c03b0000000 [(0, 0, 0x1f, 34), (2, 0, 0xf, 24), (1, 0, 0xf, 20), (1, 4, 0xf, 16), (1, 8, 1, 15), (1, 9,
       1, 14), (1, 10, 1, 13), (1, 11, 1, 12), (1, 12, 0xfff, 0), (1, 24, 7, 39), (1, 27, 1, 44)],
     Insn ''ORzrici'' 4 0x8c03b0000000 [(0, 0, 0x1f, 34), (2, 0, 0xf, 24), (1, 0, 0xf, 20), (1, 4, 0xf, 16), (1, 8, 7, 39), (1,
       11, 1, 44), (3, 0, 0xffff, 0)],
     Insn ''ORzrif'' 2 0x8c03b0000000 [(0, 0, 0x1f, 34), (1, 0, 0xf, 20), (1, 4, 0xf, 16), (1, 8, 1, 15), (1, 9, 1, 14), (1, 10,
       1, 13), (1, 11, 1, 12), (1, 12, 0xfff, 0), (1, 24, 7, 39), (1, 27, 1, 44)],
     Insn ''ORzrr'' 2 0x8c00c0b00000 [(1, 0, 7, 17), (1, 3, 3, 32), (0, 0, 0x1f, 34)],
     Insn ''ORzrrc'' 3 0x8c00c0b00000 [(1, 0, 7, 17), (1, 3, 3, 32), (0, 0, 0x1f, 34), (2, 0, 0xf, 24)]]"

definition isa_OR_rest_to_RESUME :: "insn list" where
  "isa_OR_rest_to_RESUME = [
     Insn ''ORzrrci'' 4 0x8c00c0b00000 [(1, 0, 7, 17), (1, 3, 3, 32), (0, 0, 0x1f, 34), (2, 0, 0xf, 24), (3, 0, 0xffff, 0)],
     Insn ''ORN_Srric'' 4 0x9083d0000000 [(0, 1, 0xf, 40), (1, 0, 0x1f, 34), (3, 0, 0xf, 24), (2, 0, 0xf, 20), (2, 4, 0xf, 16),
       (2, 8, 1, 15), (2, 9, 1, 14), (2, 10, 1, 13), (2, 11, 1, 12), (2, 12, 0xfff, 0)],
     Insn ''ORN_Srrici'' 5 0x9083d0000000 [(0, 1, 0xf, 40), (1, 0, 0x1f, 34), (3, 0, 0xf, 24), (2, 0, 0xf, 20), (2, 4, 0xf, 16),
       (4, 0, 0xffff, 0)],
     Insn ''ORN_Srrif'' 3 0x9083d0000000 [(0, 1, 0xf, 40), (1, 0, 0x1f, 34), (2, 0, 0xf, 20), (2, 4, 0xf, 16), (2, 8, 1, 15), (2,
       9, 1, 14), (2, 10, 1, 13), (2, 11, 1, 12), (2, 12, 0xfff, 0)],
     Insn ''ORN_Srrr'' 3 0x9080c0d00000 [(2, 0, 7, 17), (2, 3, 3, 32), (0, 1, 0xf, 40), (1, 0, 0x1f, 34)],
     Insn ''ORN_Srrrc'' 4 0x9080c0d00000 [(2, 0, 7, 17), (2, 3, 3, 32), (0, 1, 0xf, 40), (1, 0, 0x1f, 34), (3, 0, 0xf, 24)],
     Insn ''ORN_Srrrci'' 5 0x9080c0d00000 [(2, 0, 7, 17), (2, 3, 3, 32), (0, 1, 0xf, 40), (1, 0, 0x1f, 34), (3, 0, 0xf, 24), (4,
       0, 0xffff, 0)],
     Insn ''ORN_Urric'' 4 0x9003d0000000 [(0, 1, 0xf, 40), (1, 0, 0x1f, 34), (3, 0, 0xf, 24), (2, 0, 0xf, 20), (2, 4, 0xf, 16),
       (2, 8, 1, 15), (2, 9, 1, 14), (2, 10, 1, 13), (2, 11, 1, 12), (2, 12, 0xfff, 0)],
     Insn ''ORN_Urrici'' 5 0x9003d0000000 [(0, 1, 0xf, 40), (1, 0, 0x1f, 34), (3, 0, 0xf, 24), (2, 0, 0xf, 20), (2, 4, 0xf, 16),
       (4, 0, 0xffff, 0)],
     Insn ''ORN_Urrif'' 3 0x9003d0000000 [(0, 1, 0xf, 40), (1, 0, 0x1f, 34), (2, 0, 0xf, 20), (2, 4, 0xf, 16), (2, 8, 1, 15), (2,
       9, 1, 14), (2, 10, 1, 13), (2, 11, 1, 12), (2, 12, 0xfff, 0)],
     Insn ''ORN_Urrr'' 3 0x9000c0d00000 [(2, 0, 7, 17), (2, 3, 3, 32), (0, 1, 0xf, 40), (1, 0, 0x1f, 34)],
     Insn ''ORN_Urrrc'' 4 0x9000c0d00000 [(2, 0, 7, 17), (2, 3, 3, 32), (0, 1, 0xf, 40), (1, 0, 0x1f, 34), (3, 0, 0xf, 24)],
     Insn ''ORN_Urrrci'' 5 0x9000c0d00000 [(2, 0, 7, 17), (2, 3, 3, 32), (0, 1, 0xf, 40), (1, 0, 0x1f, 34), (3, 0, 0xf, 24), (4,
       0, 0xffff, 0)],
     Insn ''ORNrri'' 3 0x8003d0000000 [(0, 0, 0x1f, 39), (1, 0, 0x1f, 34), (2, 0, 0xf, 20), (2, 4, 0xf, 16), (2, 8, 1, 15), (2,
       9, 1, 14), (2, 10, 1, 13), (2, 11, 1, 12), (2, 12, 0xfff, 0)],
     Insn ''ORNrric'' 4 0x8003d0000000 [(0, 0, 0x1f, 39), (1, 0, 0x1f, 34), (3, 0, 0xf, 24), (2, 0, 0xf, 20), (2, 4, 0xf, 16),
       (2, 8, 1, 15), (2, 9, 1, 14), (2, 10, 1, 13), (2, 11, 1, 12), (2, 12, 0xfff, 0)],
     Insn ''ORNrrici'' 5 0x8003d0000000 [(0, 0, 0x1f, 39), (1, 0, 0x1f, 34), (3, 0, 0xf, 24), (2, 0, 0xf, 20), (2, 4, 0xf, 16),
       (4, 0, 0xffff, 0)],
     Insn ''ORNrrif'' 3 0x8003d0000000 [(0, 0, 0x1f, 39), (1, 0, 0x1f, 34), (2, 0, 0xf, 20), (2, 4, 0xf, 16), (2, 8, 1, 15), (2,
       9, 1, 14), (2, 10, 1, 13), (2, 11, 1, 12), (2, 12, 0xfff, 0)],
     Insn ''ORNrrr'' 3 0x8000c0d00000 [(2, 0, 7, 17), (2, 3, 3, 32), (0, 0, 0x1f, 39), (1, 0, 0x1f, 34)],
     Insn ''ORNrrrc'' 4 0x8000c0d00000 [(2, 0, 7, 17), (2, 3, 3, 32), (0, 0, 0x1f, 39), (1, 0, 0x1f, 34), (3, 0, 0xf, 24)],
     Insn ''ORNrrrci'' 5 0x8000c0d00000 [(2, 0, 7, 17), (2, 3, 3, 32), (0, 0, 0x1f, 39), (1, 0, 0x1f, 34), (3, 0, 0xf, 24), (4,
       0, 0xffff, 0)],
     Insn ''ORNzric'' 3 0x8c03d0000000 [(0, 0, 0x1f, 34), (2, 0, 0xf, 24), (1, 0, 0xf, 20), (1, 4, 0xf, 16), (1, 8, 1, 15), (1,
       9, 1, 14), (1, 10, 1, 13), (1, 11, 1, 12), (1, 12, 0xfff, 0), (1, 24, 7, 39), (1, 27, 1, 44)],
     Insn ''ORNzrici'' 4 0x8c03d0000000 [(0, 0, 0x1f, 34), (2, 0, 0xf, 24), (1, 0, 0xf, 20), (1, 4, 0xf, 16), (1, 8, 7, 39), (1,
       11, 1, 44), (3, 0, 0xffff, 0)],
     Insn ''ORNzrif'' 2 0x8c03d0000000 [(0, 0, 0x1f, 34), (1, 0, 0xf, 20), (1, 4, 0xf, 16), (1, 8, 1, 15), (1, 9, 1, 14), (1, 10,
       1, 13), (1, 11, 1, 12), (1, 12, 0xfff, 0), (1, 24, 7, 39), (1, 27, 1, 44)],
     Insn ''ORNzrr'' 2 0x8c00c0d00000 [(1, 0, 7, 17), (1, 3, 3, 32), (0, 0, 0x1f, 34)],
     Insn ''ORNzrrc'' 3 0x8c00c0d00000 [(1, 0, 7, 17), (1, 3, 3, 32), (0, 0, 0x1f, 34), (2, 0, 0xf, 24)],
     Insn ''ORNzrrci'' 4 0x8c00c0d00000 [(1, 0, 7, 17), (1, 3, 3, 32), (0, 0, 0x1f, 34), (2, 0, 0xf, 24), (3, 0, 0xffff, 0)],
     Insn ''READ_RUNrici'' 4 0x7c0330000000 [(0, 0, 0x1f, 34), (2, 0, 0xf, 24), (1, 0, 0xf, 20), (1, 4, 0xf, 16), (3, 0, 0xffff,
       0)],
     Insn ''RELEASErici'' 4 0x7c0380000000 [(0, 0, 0x1f, 34), (1, 0, 0xf, 20), (1, 4, 0xf, 16), (1, 8, 0x1f, 26), (1, 13, 7, 39),
       (3, 0, 0xffff, 0), (2, 0, 3, 24)],
     Insn ''RESUMEri'' 2 0x7d0320000000 [(0, 0, 0x1f, 34), (1, 0, 0xf, 20), (1, 4, 0xf, 16)],
     Insn ''RESUMErici'' 4 0x7d0320000000 [(0, 0, 0x1f, 34), (2, 0, 0xf, 24), (1, 0, 0xf, 20), (1, 4, 0xf, 16), (3, 0, 0xffff,
       0)]]"

definition isa_ROL_to_ROL_ADD :: "insn list" where
  "isa_ROL_to_ROL_ADD = [
     Insn ''ROL_Srri'' 3 0x908340020000 [(0, 1, 0xf, 40), (1, 0, 0x1f, 34), (2, 0, 0xf, 20), (2, 4, 1, 28)],
     Insn ''ROL_Srric'' 4 0x908340020000 [(0, 1, 0xf, 40), (1, 0, 0x1f, 34), (3, 0, 0xf, 24), (2, 0, 0xf, 20), (2, 4, 1, 28)],
     Insn ''ROL_Srrici'' 5 0x908340020000 [(0, 1, 0xf, 40), (1, 0, 0x1f, 34), (3, 0, 0xf, 24), (3, 4, 1, 29), (2, 0, 0xf, 20),
       (2, 4, 1, 28), (4, 0, 0xffff, 0)],
     Insn ''ROL_Srrr'' 3 0x9080d0200000 [(2, 0, 7, 17), (2, 3, 3, 32), (0, 1, 0xf, 40), (1, 0, 0x1f, 34)],
     Insn ''ROL_Srrrc'' 4 0x9080d0200000 [(2, 0, 7, 17), (2, 3, 3, 32), (0, 1, 0xf, 40), (1, 0, 0x1f, 34), (3, 0, 0xf, 24)],
     Insn ''ROL_Srrrci'' 5 0x9080d0200000 [(2, 0, 7, 17), (2, 3, 3, 32), (0, 1, 0xf, 40), (1, 0, 0x1f, 34), (3, 0, 0xf, 24), (3,
       4, 1, 29), (4, 0, 0xffff, 0)],
     Insn ''ROL_Urri'' 3 0x900340020000 [(0, 1, 0xf, 40), (1, 0, 0x1f, 34), (2, 0, 0xf, 20), (2, 4, 1, 28)],
     Insn ''ROL_Urric'' 4 0x900340020000 [(0, 1, 0xf, 40), (1, 0, 0x1f, 34), (3, 0, 0xf, 24), (2, 0, 0xf, 20), (2, 4, 1, 28)],
     Insn ''ROL_Urrici'' 5 0x900340020000 [(0, 1, 0xf, 40), (1, 0, 0x1f, 34), (3, 0, 0xf, 24), (3, 4, 1, 29), (2, 0, 0xf, 20),
       (2, 4, 1, 28), (4, 0, 0xffff, 0)],
     Insn ''ROL_Urrr'' 3 0x9000d0200000 [(2, 0, 7, 17), (2, 3, 3, 32), (0, 1, 0xf, 40), (1, 0, 0x1f, 34)],
     Insn ''ROL_Urrrc'' 4 0x9000d0200000 [(2, 0, 7, 17), (2, 3, 3, 32), (0, 1, 0xf, 40), (1, 0, 0x1f, 34), (3, 0, 0xf, 24)],
     Insn ''ROL_Urrrci'' 5 0x9000d0200000 [(2, 0, 7, 17), (2, 3, 3, 32), (0, 1, 0xf, 40), (1, 0, 0x1f, 34), (3, 0, 0xf, 24), (3,
       4, 1, 29), (4, 0, 0xffff, 0)],
     Insn ''ROLrri'' 3 0x800340020000 [(0, 0, 0x1f, 39), (1, 0, 0x1f, 34), (2, 0, 0xf, 20), (2, 4, 1, 28)],
     Insn ''ROLrric'' 4 0x800340020000 [(0, 0, 0x1f, 39), (1, 0, 0x1f, 34), (3, 0, 0xf, 24), (2, 0, 0xf, 20), (2, 4, 1, 28)],
     Insn ''ROLrrici'' 5 0x800340020000 [(0, 0, 0x1f, 39), (1, 0, 0x1f, 34), (3, 0, 0xf, 24), (3, 4, 1, 29), (2, 0, 0xf, 20), (2,
       4, 1, 28), (4, 0, 0xffff, 0)],
     Insn ''ROLrrr'' 3 0x8000d0200000 [(2, 0, 7, 17), (2, 3, 3, 32), (0, 0, 0x1f, 39), (1, 0, 0x1f, 34)],
     Insn ''ROLrrrc'' 4 0x8000d0200000 [(2, 0, 7, 17), (2, 3, 3, 32), (0, 0, 0x1f, 39), (1, 0, 0x1f, 34), (3, 0, 0xf, 24)],
     Insn ''ROLrrrci'' 5 0x8000d0200000 [(2, 0, 7, 17), (2, 3, 3, 32), (0, 0, 0x1f, 39), (1, 0, 0x1f, 34), (3, 0, 0xf, 24), (3,
       4, 1, 29), (4, 0, 0xffff, 0)],
     Insn ''ROLzri'' 2 0x8c0340020000 [(0, 0, 0x1f, 34), (1, 0, 0xf, 20), (1, 4, 1, 28)],
     Insn ''ROLzric'' 3 0x8c0340020000 [(0, 0, 0x1f, 34), (2, 0, 0xf, 24), (1, 0, 0xf, 20), (1, 4, 1, 28)],
     Insn ''ROLzrici'' 4 0x8c0340020000 [(0, 0, 0x1f, 34), (2, 0, 0xf, 24), (2, 4, 1, 29), (1, 0, 0xf, 20), (1, 4, 1, 28), (3, 0,
       0xffff, 0)],
     Insn ''ROLzrr'' 2 0x8c00d0200000 [(1, 0, 7, 17), (1, 3, 3, 32), (0, 0, 0x1f, 34)],
     Insn ''ROLzrrc'' 3 0x8c00d0200000 [(1, 0, 7, 17), (1, 3, 3, 32), (0, 0, 0x1f, 34), (2, 0, 0xf, 24)],
     Insn ''ROLzrrci'' 4 0x8c00d0200000 [(1, 0, 7, 17), (1, 3, 3, 32), (0, 0, 0x1f, 34), (2, 0, 0xf, 24), (2, 4, 1, 29), (3, 0,
       0xffff, 0)],
     Insn ''ROL_ADD_Srrri'' 4 0x908000000000 [(1, 0, 7, 17), (1, 3, 3, 32), (0, 1, 0xf, 40), (2, 0, 0x1f, 34), (3, 0, 0xf, 20),
       (3, 4, 1, 28)],
     Insn ''ROL_ADD_Srrrici'' 6 0x908000000000 [(1, 0, 7, 17), (1, 3, 3, 32), (0, 1, 0xf, 40), (2, 0, 0x1f, 34), (4, 0, 0xf, 24),
       (3, 0, 0xf, 20), (3, 4, 1, 28), (5, 0, 0xffff, 0)],
     Insn ''ROL_ADD_Urrri'' 4 0x900000000000 [(1, 0, 7, 17), (1, 3, 3, 32), (0, 1, 0xf, 40), (2, 0, 0x1f, 34), (3, 0, 0xf, 20),
       (3, 4, 1, 28)],
     Insn ''ROL_ADD_Urrrici'' 6 0x900000000000 [(1, 0, 7, 17), (1, 3, 3, 32), (0, 1, 0xf, 40), (2, 0, 0x1f, 34), (4, 0, 0xf, 24),
       (3, 0, 0xf, 20), (3, 4, 1, 28), (5, 0, 0xffff, 0)],
     Insn ''ROL_ADDrrri'' 4 0x800000000000 [(1, 0, 7, 17), (1, 3, 3, 32), (0, 0, 0x1f, 39), (2, 0, 0x1f, 34), (3, 0, 0xf, 20),
       (3, 4, 1, 28)],
     Insn ''ROL_ADDrrrici'' 6 0x800000000000 [(1, 0, 7, 17), (1, 3, 3, 32), (0, 0, 0x1f, 39), (2, 0, 0x1f, 34), (4, 0, 0xf, 24),
       (3, 0, 0xf, 20), (3, 4, 1, 28), (5, 0, 0xffff, 0)],
     Insn ''ROL_ADDzrri'' 3 0x8c0000000000 [(0, 0, 7, 17), (0, 3, 3, 32), (1, 0, 0x1f, 34), (2, 0, 0xf, 20), (2, 4, 1, 28)],
     Insn ''ROL_ADDzrrici'' 5 0x8c0000000000 [(0, 0, 7, 17), (0, 3, 3, 32), (1, 0, 0x1f, 34), (3, 0, 0xf, 24), (2, 0, 0xf, 20),
       (2, 4, 1, 28), (4, 0, 0xffff, 0)]]"

definition isa_ROR :: "insn list" where
  "isa_ROR = [
     Insn ''ROR_Srri'' 3 0x9083400a0000 [(0, 1, 0xf, 40), (1, 0, 0x1f, 34), (2, 0, 0xf, 20), (2, 4, 1, 28)],
     Insn ''ROR_Srric'' 4 0x9083400a0000 [(0, 1, 0xf, 40), (1, 0, 0x1f, 34), (3, 0, 0xf, 24), (2, 0, 0xf, 20), (2, 4, 1, 28)],
     Insn ''ROR_Srrici'' 5 0x9083400a0000 [(0, 1, 0xf, 40), (1, 0, 0x1f, 34), (3, 0, 0xf, 24), (3, 4, 1, 29), (2, 0, 0xf, 20),
       (2, 4, 1, 28), (4, 0, 0xffff, 0)],
     Insn ''ROR_Srrr'' 3 0x9080d0a00000 [(2, 0, 7, 17), (2, 3, 3, 32), (0, 1, 0xf, 40), (1, 0, 0x1f, 34)],
     Insn ''ROR_Srrrc'' 4 0x9080d0a00000 [(2, 0, 7, 17), (2, 3, 3, 32), (0, 1, 0xf, 40), (1, 0, 0x1f, 34), (3, 0, 0xf, 24)],
     Insn ''ROR_Srrrci'' 5 0x9080d0a00000 [(2, 0, 7, 17), (2, 3, 3, 32), (0, 1, 0xf, 40), (1, 0, 0x1f, 34), (3, 0, 0xf, 24), (3,
       4, 1, 29), (4, 0, 0xffff, 0)],
     Insn ''ROR_Urri'' 3 0x9003400a0000 [(0, 1, 0xf, 40), (1, 0, 0x1f, 34), (2, 0, 0xf, 20), (2, 4, 1, 28)],
     Insn ''ROR_Urric'' 4 0x9003400a0000 [(0, 1, 0xf, 40), (1, 0, 0x1f, 34), (3, 0, 0xf, 24), (2, 0, 0xf, 20), (2, 4, 1, 28)],
     Insn ''ROR_Urrici'' 5 0x9003400a0000 [(0, 1, 0xf, 40), (1, 0, 0x1f, 34), (3, 0, 0xf, 24), (3, 4, 1, 29), (2, 0, 0xf, 20),
       (2, 4, 1, 28), (4, 0, 0xffff, 0)],
     Insn ''ROR_Urrr'' 3 0x9000d0a00000 [(2, 0, 7, 17), (2, 3, 3, 32), (0, 1, 0xf, 40), (1, 0, 0x1f, 34)],
     Insn ''ROR_Urrrc'' 4 0x9000d0a00000 [(2, 0, 7, 17), (2, 3, 3, 32), (0, 1, 0xf, 40), (1, 0, 0x1f, 34), (3, 0, 0xf, 24)],
     Insn ''ROR_Urrrci'' 5 0x9000d0a00000 [(2, 0, 7, 17), (2, 3, 3, 32), (0, 1, 0xf, 40), (1, 0, 0x1f, 34), (3, 0, 0xf, 24), (3,
       4, 1, 29), (4, 0, 0xffff, 0)],
     Insn ''RORrri'' 3 0x8003400a0000 [(0, 0, 0x1f, 39), (1, 0, 0x1f, 34), (2, 0, 0xf, 20), (2, 4, 1, 28)],
     Insn ''RORrric'' 4 0x8003400a0000 [(0, 0, 0x1f, 39), (1, 0, 0x1f, 34), (3, 0, 0xf, 24), (2, 0, 0xf, 20), (2, 4, 1, 28)],
     Insn ''RORrrici'' 5 0x8003400a0000 [(0, 0, 0x1f, 39), (1, 0, 0x1f, 34), (3, 0, 0xf, 24), (3, 4, 1, 29), (2, 0, 0xf, 20), (2,
       4, 1, 28), (4, 0, 0xffff, 0)],
     Insn ''RORrrr'' 3 0x8000d0a00000 [(2, 0, 7, 17), (2, 3, 3, 32), (0, 0, 0x1f, 39), (1, 0, 0x1f, 34)],
     Insn ''RORrrrc'' 4 0x8000d0a00000 [(2, 0, 7, 17), (2, 3, 3, 32), (0, 0, 0x1f, 39), (1, 0, 0x1f, 34), (3, 0, 0xf, 24)],
     Insn ''RORrrrci'' 5 0x8000d0a00000 [(2, 0, 7, 17), (2, 3, 3, 32), (0, 0, 0x1f, 39), (1, 0, 0x1f, 34), (3, 0, 0xf, 24), (3,
       4, 1, 29), (4, 0, 0xffff, 0)],
     Insn ''RORzri'' 2 0x8c03400a0000 [(0, 0, 0x1f, 34), (1, 0, 0xf, 20), (1, 4, 1, 28)],
     Insn ''RORzric'' 3 0x8c03400a0000 [(0, 0, 0x1f, 34), (2, 0, 0xf, 24), (1, 0, 0xf, 20), (1, 4, 1, 28)],
     Insn ''RORzrici'' 4 0x8c03400a0000 [(0, 0, 0x1f, 34), (2, 0, 0xf, 24), (2, 4, 1, 29), (1, 0, 0xf, 20), (1, 4, 1, 28), (3, 0,
       0xffff, 0)],
     Insn ''RORzrr'' 2 0x8c00d0a00000 [(1, 0, 7, 17), (1, 3, 3, 32), (0, 0, 0x1f, 34)],
     Insn ''RORzrrc'' 3 0x8c00d0a00000 [(1, 0, 7, 17), (1, 3, 3, 32), (0, 0, 0x1f, 34), (2, 0, 0xf, 24)],
     Insn ''RORzrrci'' 4 0x8c00d0a00000 [(1, 0, 7, 17), (1, 3, 3, 32), (0, 0, 0x1f, 34), (2, 0, 0xf, 24), (2, 4, 1, 29), (3, 0,
       0xffff, 0)]]"

definition isa_RSUB_to_SATS :: "insn list" where
  "isa_RSUB_to_SATS = [
     Insn ''RSUB_Srrr'' 3 0x4c8040c00000 [(0, 1, 3, 40), (0, 3, 3, 44), (2, 0, 7, 17), (2, 3, 3, 32), (1, 0, 0x1f, 34)],
     Insn ''RSUB_Srrrc'' 4 0x4c8040c00000 [(0, 1, 3, 40), (0, 3, 3, 44), (2, 0, 7, 17), (2, 3, 3, 32), (1, 0, 0x1f, 34), (3, 0,
       0x1f, 24)],
     Insn ''RSUB_Srrrci'' 5 0x4c8040c00000 [(0, 1, 3, 40), (0, 3, 3, 44), (2, 0, 7, 17), (2, 3, 3, 32), (1, 0, 0x1f, 34), (3, 0,
       0x1f, 24), (4, 0, 0xffff, 0)],
     Insn ''RSUB_Urrr'' 3 0x4c0040c00000 [(0, 1, 3, 40), (0, 3, 3, 44), (2, 0, 7, 17), (2, 3, 3, 32), (1, 0, 0x1f, 34)],
     Insn ''RSUB_Urrrc'' 4 0x4c0040c00000 [(0, 1, 3, 40), (0, 3, 3, 44), (2, 0, 7, 17), (2, 3, 3, 32), (1, 0, 0x1f, 34), (3, 0,
       0x1f, 24)],
     Insn ''RSUB_Urrrci'' 5 0x4c0040c00000 [(0, 1, 3, 40), (0, 3, 3, 44), (2, 0, 7, 17), (2, 3, 3, 32), (1, 0, 0x1f, 34), (3, 0,
       0x1f, 24), (4, 0, 0xffff, 0)],
     Insn ''RSUBrrr'' 3 0xc0040c00000 [(0, 0, 7, 39), (0, 3, 3, 44), (2, 0, 7, 17), (2, 3, 3, 32), (1, 0, 0x1f, 34)],
     Insn ''RSUBrrrc'' 4 0xc0040c00000 [(0, 0, 7, 39), (0, 3, 3, 44), (2, 0, 7, 17), (2, 3, 3, 32), (1, 0, 0x1f, 34), (3, 0,
       0x1f, 24)],
     Insn ''RSUBrrrci'' 5 0xc0040c00000 [(0, 0, 7, 39), (0, 3, 3, 44), (2, 0, 7, 17), (2, 3, 3, 32), (1, 0, 0x1f, 34), (3, 0,
       0x1f, 24), (4, 0, 0xffff, 0)],
     Insn ''RSUBzrr'' 2 0x3c0040c00000 [(1, 0, 7, 17), (1, 3, 3, 32), (0, 0, 0x1f, 34)],
     Insn ''RSUBzrrc'' 3 0x3c0040c00000 [(1, 0, 7, 17), (1, 3, 3, 32), (0, 0, 0x1f, 34), (2, 0, 0x1f, 24)],
     Insn ''RSUBzrrci'' 4 0x3c0040c00000 [(1, 0, 7, 17), (1, 3, 3, 32), (0, 0, 0x1f, 34), (2, 0, 0x1f, 24), (3, 0, 0xffff, 0)],
     Insn ''RSUBC_Srrr'' 3 0x4c8060c00000 [(0, 1, 3, 40), (0, 3, 3, 44), (2, 0, 7, 17), (2, 3, 3, 32), (1, 0, 0x1f, 34)],
     Insn ''RSUBC_Srrrc'' 4 0x4c8060c00000 [(0, 1, 3, 40), (0, 3, 3, 44), (2, 0, 7, 17), (2, 3, 3, 32), (1, 0, 0x1f, 34), (3, 0,
       0x1f, 24)],
     Insn ''RSUBC_Srrrci'' 5 0x4c8060c00000 [(0, 1, 3, 40), (0, 3, 3, 44), (2, 0, 7, 17), (2, 3, 3, 32), (1, 0, 0x1f, 34), (3, 0,
       0x1f, 24), (4, 0, 0xffff, 0)],
     Insn ''RSUBC_Urrr'' 3 0x4c0060c00000 [(0, 1, 3, 40), (0, 3, 3, 44), (2, 0, 7, 17), (2, 3, 3, 32), (1, 0, 0x1f, 34)],
     Insn ''RSUBC_Urrrc'' 4 0x4c0060c00000 [(0, 1, 3, 40), (0, 3, 3, 44), (2, 0, 7, 17), (2, 3, 3, 32), (1, 0, 0x1f, 34), (3, 0,
       0x1f, 24)],
     Insn ''RSUBC_Urrrci'' 5 0x4c0060c00000 [(0, 1, 3, 40), (0, 3, 3, 44), (2, 0, 7, 17), (2, 3, 3, 32), (1, 0, 0x1f, 34), (3, 0,
       0x1f, 24), (4, 0, 0xffff, 0)],
     Insn ''RSUBCrrr'' 3 0xc0060c00000 [(0, 0, 7, 39), (0, 3, 3, 44), (2, 0, 7, 17), (2, 3, 3, 32), (1, 0, 0x1f, 34)],
     Insn ''RSUBCrrrc'' 4 0xc0060c00000 [(0, 0, 7, 39), (0, 3, 3, 44), (2, 0, 7, 17), (2, 3, 3, 32), (1, 0, 0x1f, 34), (3, 0,
       0x1f, 24)],
     Insn ''RSUBCrrrci'' 5 0xc0060c00000 [(0, 0, 7, 39), (0, 3, 3, 44), (2, 0, 7, 17), (2, 3, 3, 32), (1, 0, 0x1f, 34), (3, 0,
       0x1f, 24), (4, 0, 0xffff, 0)],
     Insn ''RSUBCzrr'' 2 0x3c0060c00000 [(1, 0, 7, 17), (1, 3, 3, 32), (0, 0, 0x1f, 34)],
     Insn ''RSUBCzrrc'' 3 0x3c0060c00000 [(1, 0, 7, 17), (1, 3, 3, 32), (0, 0, 0x1f, 34), (2, 0, 0x1f, 24)],
     Insn ''RSUBCzrrci'' 4 0x3c0060c00000 [(1, 0, 7, 17), (1, 3, 3, 32), (0, 0, 0x1f, 34), (2, 0, 0x1f, 24), (3, 0, 0xffff, 0)],
     Insn ''SATS_Srr'' 2 0x908320000000 [(1, 0, 0x1f, 34), (0, 1, 0xf, 40)],
     Insn ''SATS_Srrc'' 3 0x908320000000 [(1, 0, 0x1f, 34), (0, 1, 0xf, 40), (2, 0, 0xf, 24)],
     Insn ''SATS_Srrci'' 4 0x908320000000 [(1, 0, 0x1f, 34), (0, 1, 0xf, 40), (2, 0, 0xf, 24), (3, 0, 0xffff, 0)],
     Insn ''SATS_Urr'' 2 0x900320000000 [(1, 0, 0x1f, 34), (0, 1, 0xf, 40)],
     Insn ''SATS_Urrc'' 3 0x900320000000 [(1, 0, 0x1f, 34), (0, 1, 0xf, 40), (2, 0, 0xf, 24)],
     Insn ''SATS_Urrci'' 4 0x900320000000 [(1, 0, 0x1f, 34), (0, 1, 0xf, 40), (2, 0, 0xf, 24), (3, 0, 0xffff, 0)],
     Insn ''SATSrr'' 2 0x800320000000 [(1, 0, 0x1f, 34), (0, 0, 0x1f, 39)],
     Insn ''SATSrrc'' 3 0x800320000000 [(1, 0, 0x1f, 34), (0, 0, 0x1f, 39), (2, 0, 0xf, 24)],
     Insn ''SATSrrci'' 4 0x800320000000 [(1, 0, 0x1f, 34), (0, 0, 0x1f, 39), (2, 0, 0xf, 24), (3, 0, 0xffff, 0)],
     Insn ''SATSzr'' 1 0x8c0320000000 [(0, 0, 0x1f, 34)],
     Insn ''SATSzrc'' 2 0x8c0320000000 [(0, 0, 0x1f, 34), (1, 0, 0xf, 24)],
     Insn ''SATSzrci'' 3 0x8c0320000000 [(0, 0, 0x1f, 34), (1, 0, 0xf, 24), (2, 0, 0xffff, 0)]]"

definition isa_SB_to_SDMA :: "insn list" where
  "isa_SB_to_SDMA = [
     Insn ''SBerii'' 4 0x7c0340000000 [(1, 0, 0x1f, 34), (0, 0, 1, 27), (2, 0, 0xf, 20), (2, 4, 7, 39), (2, 7, 1, 24), (2, 8, 1,
       15), (2, 9, 1, 14), (2, 10, 1, 13), (2, 11, 1, 12), (3, 0, 0xf, 16), (3, 4, 0xf, 0)],
     Insn ''SBerir'' 4 0x7c0040000000 [(3, 0, 7, 17), (3, 3, 3, 32), (1, 0, 0x1f, 34), (0, 0, 1, 27), (2, 0, 0xf, 20), (2, 4, 7,
       39), (2, 7, 1, 24), (2, 8, 1, 15), (2, 9, 1, 14), (2, 10, 1, 13), (2, 11, 1, 12), (2, 12, 0xfff, 0)],
     Insn ''SBesii'' 4 0x7c0350000000 [(1, 0, 0x1f, 34), (0, 0, 1, 27), (2, 0, 0xf, 20), (2, 4, 7, 39), (2, 7, 1, 24), (2, 8, 1,
       15), (2, 9, 1, 14), (2, 10, 1, 13), (2, 11, 1, 12), (3, 0, 0xf, 16), (3, 4, 0xf, 0)],
     Insn ''SBesir'' 4 0x7c0050000000 [(3, 0, 7, 17), (3, 3, 3, 32), (1, 0, 0x1f, 34), (0, 0, 1, 27), (2, 0, 0xf, 20), (2, 4, 7,
       39), (2, 7, 1, 24), (2, 8, 1, 15), (2, 9, 1, 14), (2, 10, 1, 13), (2, 11, 1, 12), (2, 12, 0xfff, 0)],
     Insn ''SBrii'' 3 0x7c0340000000 [(0, 0, 0x1f, 34), (1, 0, 0xf, 20), (1, 4, 7, 39), (1, 7, 1, 24), (1, 8, 1, 15), (1, 9, 1,
       14), (1, 10, 1, 13), (1, 11, 1, 12), (2, 0, 0xf, 16), (2, 4, 0xf, 0)],
     Insn ''SBrir'' 3 0x7c0040000000 [(2, 0, 7, 17), (2, 3, 3, 32), (0, 0, 0x1f, 34), (1, 0, 0xf, 20), (1, 4, 7, 39), (1, 7, 1,
       24), (1, 8, 1, 15), (1, 9, 1, 14), (1, 10, 1, 13), (1, 11, 1, 12), (1, 12, 0xfff, 0)],
     Insn ''SB_IDerii'' 4 0x7c0360000000 [(1, 0, 0x1f, 34), (0, 0, 1, 27), (2, 0, 0xf, 20), (2, 4, 7, 39), (2, 7, 1, 24), (2, 8,
       1, 15), (2, 9, 1, 14), (2, 10, 1, 13), (2, 11, 1, 12), (3, 0, 0xf, 16), (3, 4, 0xf, 0)],
     Insn ''SB_IDri'' 2 0x7c0360000000 [(0, 0, 0x1f, 34), (1, 0, 0xf, 20), (1, 4, 7, 39), (1, 7, 1, 24), (1, 8, 1, 15), (1, 9, 1,
       14), (1, 10, 1, 13), (1, 11, 1, 12)],
     Insn ''SB_IDrii'' 3 0x7c0360000000 [(0, 0, 0x1f, 34), (1, 0, 0xf, 20), (1, 4, 7, 39), (1, 7, 1, 24), (1, 8, 1, 15), (1, 9,
       1, 14), (1, 10, 1, 13), (1, 11, 1, 12), (2, 0, 0xf, 16), (2, 4, 0xf, 0)],
     Insn ''SBSrii'' 3 0x7c0350000000 [(0, 0, 0x1f, 34), (1, 0, 0xf, 20), (1, 4, 7, 39), (1, 7, 1, 24), (1, 8, 1, 15), (1, 9, 1,
       14), (1, 10, 1, 13), (1, 11, 1, 12), (2, 0, 0xf, 16), (2, 4, 0xf, 0)],
     Insn ''SBSrir'' 3 0x7c0050000000 [(2, 0, 7, 17), (2, 3, 3, 32), (0, 0, 0x1f, 34), (1, 0, 0xf, 20), (1, 4, 7, 39), (1, 7, 1,
       24), (1, 8, 1, 15), (1, 9, 1, 14), (1, 10, 1, 13), (1, 11, 1, 12), (1, 12, 0xfff, 0)],
     Insn ''SDerii'' 4 0x7c0346000000 [(1, 0, 0x1f, 34), (0, 0, 1, 27), (2, 0, 0xf, 20), (2, 4, 7, 39), (2, 7, 1, 24), (2, 8, 1,
       15), (2, 9, 1, 14), (2, 10, 1, 13), (2, 11, 1, 12), (3, 0, 0xf, 16), (3, 4, 0xfff, 0)],
     Insn ''SDerir'' 4 0x7c0046010000 [(3, 0, 7, 17), (3, 3, 3, 32), (1, 0, 0x1f, 34), (0, 0, 1, 27), (2, 0, 0xf, 20), (2, 4, 7,
       39), (2, 7, 1, 24), (2, 8, 1, 15), (2, 9, 1, 14), (2, 10, 1, 13), (2, 11, 1, 12), (2, 12, 0xfff, 0)],
     Insn ''SDesii'' 4 0x7c0356000000 [(1, 0, 0x1f, 34), (0, 0, 1, 27), (2, 0, 0xf, 20), (2, 4, 7, 39), (2, 7, 1, 24), (2, 8, 1,
       15), (2, 9, 1, 14), (2, 10, 1, 13), (2, 11, 1, 12), (3, 0, 0xf, 16), (3, 4, 0xfff, 0)],
     Insn ''SDesir'' 4 0x7c0056010000 [(3, 0, 7, 17), (3, 3, 3, 32), (1, 0, 0x1f, 34), (0, 0, 1, 27), (2, 0, 0xf, 20), (2, 4, 7,
       39), (2, 7, 1, 24), (2, 8, 1, 15), (2, 9, 1, 14), (2, 10, 1, 13), (2, 11, 1, 12), (2, 12, 0xfff, 0)],
     Insn ''SDrii'' 3 0x7c0346000000 [(0, 0, 0x1f, 34), (1, 0, 0xf, 20), (1, 4, 7, 39), (1, 7, 1, 24), (1, 8, 1, 15), (1, 9, 1,
       14), (1, 10, 1, 13), (1, 11, 1, 12), (2, 0, 0xf, 16), (2, 4, 0xfff, 0)],
     Insn ''SDrir'' 3 0x7c0046010000 [(2, 0, 7, 17), (2, 3, 3, 32), (0, 0, 0x1f, 34), (1, 0, 0xf, 20), (1, 4, 7, 39), (1, 7, 1,
       24), (1, 8, 1, 15), (1, 9, 1, 14), (1, 10, 1, 13), (1, 11, 1, 12), (1, 12, 0xfff, 0)],
     Insn ''SD_IDerii'' 4 0x7c0366000000 [(1, 0, 0x1f, 34), (0, 0, 1, 27), (2, 0, 0xf, 20), (2, 4, 7, 39), (2, 7, 1, 24), (2, 8,
       1, 15), (2, 9, 1, 14), (2, 10, 1, 13), (2, 11, 1, 12), (3, 0, 0xf, 16), (3, 4, 0xfff, 0)],
     Insn ''SD_IDri'' 2 0x7c0366000000 [(0, 0, 0x1f, 34), (1, 0, 0xf, 20), (1, 4, 7, 39), (1, 7, 1, 24), (1, 8, 1, 15), (1, 9, 1,
       14), (1, 10, 1, 13), (1, 11, 1, 12)],
     Insn ''SD_IDrii'' 3 0x7c0366000000 [(0, 0, 0x1f, 34), (1, 0, 0xf, 20), (1, 4, 7, 39), (1, 7, 1, 24), (1, 8, 1, 15), (1, 9,
       1, 14), (1, 10, 1, 13), (1, 11, 1, 12), (2, 0, 0xf, 16), (2, 4, 0xfff, 0)],
     Insn ''SDMArri'' 3 0x700000000002 [(1, 0, 7, 17), (1, 3, 3, 32), (0, 0, 0x1f, 34), (2, 0, 0xff, 24)]]"

definition isa_SDS_to_STOP :: "insn list" where
  "isa_SDS_to_STOP = [
     Insn ''SDSrii'' 3 0x7c0356000000 [(0, 0, 0x1f, 34), (1, 0, 0xf, 20), (1, 4, 7, 39), (1, 7, 1, 24), (1, 8, 1, 15), (1, 9, 1,
       14), (1, 10, 1, 13), (1, 11, 1, 12), (2, 0, 0xf, 16), (2, 4, 0xfff, 0)],
     Insn ''SDSrir'' 3 0x7c0056010000 [(2, 0, 7, 17), (2, 3, 3, 32), (0, 0, 0x1f, 34), (1, 0, 0xf, 20), (1, 4, 7, 39), (1, 7, 1,
       24), (1, 8, 1, 15), (1, 9, 1, 14), (1, 10, 1, 13), (1, 11, 1, 12), (1, 12, 0xfff, 0)],
     Insn ''SHerii'' 4 0x7c0342000000 [(1, 0, 0x1f, 34), (0, 0, 1, 27), (2, 0, 0xf, 20), (2, 4, 7, 39), (2, 7, 1, 24), (2, 8, 1,
       15), (2, 9, 1, 14), (2, 10, 1, 13), (2, 11, 1, 12), (3, 0, 0xf, 16), (3, 4, 0xfff, 0)],
     Insn ''SHerir'' 4 0x7c0042000000 [(3, 0, 7, 17), (3, 3, 3, 32), (1, 0, 0x1f, 34), (0, 0, 1, 27), (2, 0, 0xf, 20), (2, 4, 7,
       39), (2, 7, 1, 24), (2, 8, 1, 15), (2, 9, 1, 14), (2, 10, 1, 13), (2, 11, 1, 12), (2, 12, 0xfff, 0)],
     Insn ''SHesii'' 4 0x7c0352000000 [(1, 0, 0x1f, 34), (0, 0, 1, 27), (2, 0, 0xf, 20), (2, 4, 7, 39), (2, 7, 1, 24), (2, 8, 1,
       15), (2, 9, 1, 14), (2, 10, 1, 13), (2, 11, 1, 12), (3, 0, 0xf, 16), (3, 4, 0xfff, 0)],
     Insn ''SHesir'' 4 0x7c0052000000 [(3, 0, 7, 17), (3, 3, 3, 32), (1, 0, 0x1f, 34), (0, 0, 1, 27), (2, 0, 0xf, 20), (2, 4, 7,
       39), (2, 7, 1, 24), (2, 8, 1, 15), (2, 9, 1, 14), (2, 10, 1, 13), (2, 11, 1, 12), (2, 12, 0xfff, 0)],
     Insn ''SHrii'' 3 0x7c0342000000 [(0, 0, 0x1f, 34), (1, 0, 0xf, 20), (1, 4, 7, 39), (1, 7, 1, 24), (1, 8, 1, 15), (1, 9, 1,
       14), (1, 10, 1, 13), (1, 11, 1, 12), (2, 0, 0xf, 16), (2, 4, 0xfff, 0)],
     Insn ''SHrir'' 3 0x7c0042000000 [(2, 0, 7, 17), (2, 3, 3, 32), (0, 0, 0x1f, 34), (1, 0, 0xf, 20), (1, 4, 7, 39), (1, 7, 1,
       24), (1, 8, 1, 15), (1, 9, 1, 14), (1, 10, 1, 13), (1, 11, 1, 12), (1, 12, 0xfff, 0)],
     Insn ''SH_IDerii'' 4 0x7c0362000000 [(1, 0, 0x1f, 34), (0, 0, 1, 27), (2, 0, 0xf, 20), (2, 4, 7, 39), (2, 7, 1, 24), (2, 8,
       1, 15), (2, 9, 1, 14), (2, 10, 1, 13), (2, 11, 1, 12), (3, 0, 0xf, 16), (3, 4, 0xfff, 0)],
     Insn ''SH_IDri'' 2 0x7c0362000000 [(0, 0, 0x1f, 34), (1, 0, 0xf, 20), (1, 4, 7, 39), (1, 7, 1, 24), (1, 8, 1, 15), (1, 9, 1,
       14), (1, 10, 1, 13), (1, 11, 1, 12)],
     Insn ''SH_IDrii'' 3 0x7c0362000000 [(0, 0, 0x1f, 34), (1, 0, 0xf, 20), (1, 4, 7, 39), (1, 7, 1, 24), (1, 8, 1, 15), (1, 9,
       1, 14), (1, 10, 1, 13), (1, 11, 1, 12), (2, 0, 0xf, 16), (2, 4, 0xfff, 0)],
     Insn ''SHSrii'' 3 0x7c0352000000 [(0, 0, 0x1f, 34), (1, 0, 0xf, 20), (1, 4, 7, 39), (1, 7, 1, 24), (1, 8, 1, 15), (1, 9, 1,
       14), (1, 10, 1, 13), (1, 11, 1, 12), (2, 0, 0xf, 16), (2, 4, 0xfff, 0)],
     Insn ''SHSrir'' 3 0x7c0052000000 [(2, 0, 7, 17), (2, 3, 3, 32), (0, 0, 0x1f, 34), (1, 0, 0xf, 20), (1, 4, 7, 39), (1, 7, 1,
       24), (1, 8, 1, 15), (1, 9, 1, 14), (1, 10, 1, 13), (1, 11, 1, 12), (1, 12, 0xfff, 0)],
     Insn ''STOP'' 0 0x7ef320000000 [],
     Insn ''STOPci'' 2 0x7ef320000000 [(0, 0, 0xf, 24), (1, 0, 0xffff, 0)]]"

definition isa_SUB :: "insn list" where
  "isa_SUB = [
     Insn ''SUB_Srirc'' 4 0x4c8340000000 [(0, 1, 3, 40), (0, 3, 3, 44), (2, 0, 0x1f, 34), (3, 0, 0x1f, 24), (1, 0, 0xf, 20), (1,
       4, 0xf, 16), (1, 8, 1, 15), (1, 9, 1, 14), (1, 10, 1, 13), (1, 11, 1, 12), (1, 12, 0xfff, 0)],
     Insn ''SUB_Srirci'' 5 0x4c8340000000 [(0, 1, 3, 40), (0, 3, 3, 44), (2, 0, 0x1f, 34), (3, 0, 0x1f, 24), (1, 0, 0xf, 20), (1,
       4, 0xf, 16), (4, 0, 0xffff, 0)],
     Insn ''SUB_Srirf'' 3 0x4c8340000000 [(0, 1, 3, 40), (0, 3, 3, 44), (2, 0, 0x1f, 34), (1, 0, 0xf, 20), (1, 4, 0xf, 16), (1,
       8, 1, 15), (1, 9, 1, 14), (1, 10, 1, 13), (1, 11, 1, 12), (1, 12, 0xfff, 0)],
     Insn ''SUB_Srric'' 4 0x4c8380000000 [(0, 1, 3, 40), (0, 3, 3, 44), (1, 0, 0x1f, 34), (3, 0, 0x1f, 24), (3, 5, 1, 30), (2, 0,
       0xf, 20), (2, 4, 0xf, 16), (2, 8, 1, 15), (2, 9, 1, 14), (2, 10, 1, 13), (2, 11, 1, 12), (2, 12, 0xfff, 0)],
     Insn ''SUB_Srrici'' 5 0x4c8380000000 [(0, 1, 3, 40), (0, 3, 3, 44), (1, 0, 0x1f, 34), (3, 0, 0x1f, 24), (3, 5, 1, 30), (2,
       0, 0xf, 20), (2, 4, 0xf, 16), (4, 0, 0xffff, 0)],
     Insn ''SUB_Srrif'' 3 0x4c8380000000 [(0, 1, 3, 40), (0, 3, 3, 44), (1, 0, 0x1f, 34), (2, 0, 0xf, 20), (2, 4, 0xf, 16), (2,
       8, 1, 15), (2, 9, 1, 14), (2, 10, 1, 13), (2, 11, 1, 12), (2, 12, 0xfff, 0)],
     Insn ''SUB_Srrr'' 3 0x4c8080c00000 [(0, 1, 3, 40), (0, 3, 3, 44), (2, 0, 7, 17), (2, 3, 3, 32), (1, 0, 0x1f, 34)],
     Insn ''SUB_Srrrc'' 4 0x4c8080c00000 [(0, 1, 3, 40), (0, 3, 3, 44), (2, 0, 7, 17), (2, 3, 3, 32), (1, 0, 0x1f, 34), (3, 0,
       0x1f, 24), (3, 5, 1, 30)],
     Insn ''SUB_Srrrci'' 5 0x4c8080c00000 [(0, 1, 3, 40), (0, 3, 3, 44), (2, 0, 7, 17), (2, 3, 3, 32), (1, 0, 0x1f, 34), (3, 0,
       0x1f, 24), (3, 5, 1, 30), (4, 0, 0xffff, 0)],
     Insn ''SUB_Urirc'' 4 0x4c0340000000 [(0, 1, 3, 40), (0, 3, 3, 44), (2, 0, 0x1f, 34), (3, 0, 0x1f, 24), (1, 0, 0xf, 20), (1,
       4, 0xf, 16), (1, 8, 1, 15), (1, 9, 1, 14), (1, 10, 1, 13), (1, 11, 1, 12), (1, 12, 0xfff, 0)],
     Insn ''SUB_Urirci'' 5 0x4c0340000000 [(0, 1, 3, 40), (0, 3, 3, 44), (2, 0, 0x1f, 34), (3, 0, 0x1f, 24), (1, 0, 0xf, 20), (1,
       4, 0xf, 16), (4, 0, 0xffff, 0)],
     Insn ''SUB_Urirf'' 3 0x4c0340000000 [(0, 1, 3, 40), (0, 3, 3, 44), (2, 0, 0x1f, 34), (1, 0, 0xf, 20), (1, 4, 0xf, 16), (1,
       8, 1, 15), (1, 9, 1, 14), (1, 10, 1, 13), (1, 11, 1, 12), (1, 12, 0xfff, 0)],
     Insn ''SUB_Urric'' 4 0x4c0380000000 [(0, 1, 3, 40), (0, 3, 3, 44), (1, 0, 0x1f, 34), (3, 0, 0x1f, 24), (3, 5, 1, 30), (2, 0,
       0xf, 20), (2, 4, 0xf, 16), (2, 8, 1, 15), (2, 9, 1, 14), (2, 10, 1, 13), (2, 11, 1, 12), (2, 12, 0xfff, 0)],
     Insn ''SUB_Urrici'' 5 0x4c0380000000 [(0, 1, 3, 40), (0, 3, 3, 44), (1, 0, 0x1f, 34), (3, 0, 0x1f, 24), (3, 5, 1, 30), (2,
       0, 0xf, 20), (2, 4, 0xf, 16), (4, 0, 0xffff, 0)],
     Insn ''SUB_Urrif'' 3 0x4c0380000000 [(0, 1, 3, 40), (0, 3, 3, 44), (1, 0, 0x1f, 34), (2, 0, 0xf, 20), (2, 4, 0xf, 16), (2,
       8, 1, 15), (2, 9, 1, 14), (2, 10, 1, 13), (2, 11, 1, 12), (2, 12, 0xfff, 0)],
     Insn ''SUB_Urrr'' 3 0x4c0080c00000 [(0, 1, 3, 40), (0, 3, 3, 44), (2, 0, 7, 17), (2, 3, 3, 32), (1, 0, 0x1f, 34)],
     Insn ''SUB_Urrrc'' 4 0x4c0080c00000 [(0, 1, 3, 40), (0, 3, 3, 44), (2, 0, 7, 17), (2, 3, 3, 32), (1, 0, 0x1f, 34), (3, 0,
       0x1f, 24), (3, 5, 1, 30)],
     Insn ''SUB_Urrrci'' 5 0x4c0080c00000 [(0, 1, 3, 40), (0, 3, 3, 44), (2, 0, 7, 17), (2, 3, 3, 32), (1, 0, 0x1f, 34), (3, 0,
       0x1f, 24), (3, 5, 1, 30), (4, 0, 0xffff, 0)],
     Insn ''SUBrir'' 3 0x200300000000 [(0, 0, 0x1f, 39), (2, 0, 0x1f, 34), (1, 0, 0xf, 20), (1, 4, 0xf, 16), (1, 8, 1, 15), (1,
       9, 1, 14), (1, 10, 1, 13), (1, 11, 1, 12), (1, 12, 0xfff, 0), (1, 24, 0xff, 24)],
     Insn ''SUBrirc'' 4 0xc0340000000 [(0, 0, 7, 39), (0, 3, 3, 44), (2, 0, 0x1f, 34), (3, 0, 0x1f, 24), (1, 0, 0xf, 20), (1, 4,
       0xf, 16), (1, 8, 1, 15), (1, 9, 1, 14), (1, 10, 1, 13), (1, 11, 1, 12), (1, 12, 0xfff, 0)],
     Insn ''SUBrirci'' 5 0xc0340000000 [(0, 0, 7, 39), (0, 3, 3, 44), (2, 0, 0x1f, 34), (3, 0, 0x1f, 24), (1, 0, 0xf, 20), (1, 4,
       0xf, 16), (4, 0, 0xffff, 0)],
     Insn ''SUBrirf'' 3 0xc0340000000 [(0, 0, 7, 39), (0, 3, 3, 44), (2, 0, 0x1f, 34), (1, 0, 0xf, 20), (1, 4, 0xf, 16), (1, 8,
       1, 15), (1, 9, 1, 14), (1, 10, 1, 13), (1, 11, 1, 12), (1, 12, 0xfff, 0)],
     Insn ''SUBrric'' 4 0xc0380000000 [(0, 0, 7, 39), (0, 3, 3, 44), (1, 0, 0x1f, 34), (3, 0, 0x1f, 24), (3, 5, 1, 30), (2, 0,
       0xf, 20), (2, 4, 0xf, 16), (2, 8, 1, 15), (2, 9, 1, 14), (2, 10, 1, 13), (2, 11, 1, 12), (2, 12, 0xfff, 0)],
     Insn ''SUBrrici'' 5 0xc0380000000 [(0, 0, 7, 39), (0, 3, 3, 44), (1, 0, 0x1f, 34), (3, 0, 0x1f, 24), (3, 5, 1, 30), (2, 0,
       0xf, 20), (2, 4, 0xf, 16), (4, 0, 0xffff, 0)]]"

definition isa_SUB_rest :: "insn list" where
  "isa_SUB_rest = [
     Insn ''SUBrrif'' 3 0xc0380000000 [(0, 0, 7, 39), (0, 3, 3, 44), (1, 0, 0x1f, 34), (2, 0, 0xf, 20), (2, 4, 0xf, 16), (2, 8,
       1, 15), (2, 9, 1, 14), (2, 10, 1, 13), (2, 11, 1, 12), (2, 12, 0xfff, 0)],
     Insn ''SUBrrr'' 3 0xc0080c00000 [(0, 0, 7, 39), (0, 3, 3, 44), (2, 0, 7, 17), (2, 3, 3, 32), (1, 0, 0x1f, 34)],
     Insn ''SUBrrrc'' 4 0xc0080c00000 [(0, 0, 7, 39), (0, 3, 3, 44), (2, 0, 7, 17), (2, 3, 3, 32), (1, 0, 0x1f, 34), (3, 0, 0x1f,
       24), (3, 5, 1, 30)],
     Insn ''SUBrrrci'' 5 0xc0080c00000 [(0, 0, 7, 39), (0, 3, 3, 44), (2, 0, 7, 17), (2, 3, 3, 32), (1, 0, 0x1f, 34), (3, 0,
       0x1f, 24), (3, 5, 1, 30), (4, 0, 0xffff, 0)],
     Insn ''SUBssi'' 3 0xc0390000000 [(0, 0, 7, 39), (0, 3, 3, 44), (1, 0, 0x1f, 34), (2, 0, 0xf, 20), (2, 4, 0xf, 16), (2, 8, 1,
       15), (2, 9, 1, 14), (2, 10, 1, 13), (2, 11, 1, 12), (2, 12, 0x1f, 0), (2, 16, 1, 5), (2, 16, 1, 6), (2, 16, 1, 7), (2, 16,
       1, 8), (2, 16, 1, 9), (2, 16, 1, 10), (2, 16, 1, 11)],
     Insn ''SUBsss'' 3 0xc0050c00000 [(0, 0, 7, 39), (0, 3, 3, 44), (2, 0, 0x1f, 34), (1, 0, 7, 17), (1, 3, 3, 32)],
     Insn ''SUBzir'' 2 0x626000000000 [(1, 0, 7, 17), (1, 3, 3, 32), (0, 0, 0xf, 20), (0, 4, 7, 34), (0, 7, 1, 39), (0, 8, 1,
       15), (0, 9, 1, 14), (0, 10, 1, 13), (0, 11, 1, 12), (0, 12, 0xfff, 0), (0, 24, 0xff, 24)],
     Insn ''SUBzirc'' 3 0x3c0340000000 [(1, 0, 0x1f, 34), (2, 0, 0x1f, 24), (0, 0, 0xf, 20), (0, 4, 0xf, 16), (0, 8, 1, 15), (0,
       9, 1, 14), (0, 10, 1, 13), (0, 11, 1, 12), (0, 12, 0xfff, 0), (0, 24, 7, 39)],
     Insn ''SUBzirci'' 4 0x3c0340000000 [(1, 0, 0x1f, 34), (2, 0, 0x1f, 24), (0, 0, 0xf, 20), (0, 4, 0xf, 16), (0, 8, 7, 39), (3,
       0, 0xffff, 0)],
     Insn ''SUBzirf'' 2 0x3c0340000000 [(1, 0, 0x1f, 34), (0, 0, 0xf, 20), (0, 4, 0xf, 16), (0, 8, 1, 15), (0, 9, 1, 14), (0, 10,
       1, 13), (0, 11, 1, 12), (0, 12, 0xfff, 0), (0, 24, 7, 39)],
     Insn ''SUBzric'' 3 0x3c0380000000 [(0, 0, 0x1f, 34), (2, 0, 0x1f, 24), (2, 5, 1, 30), (1, 0, 0xf, 20), (1, 4, 0xf, 16), (1,
       8, 1, 15), (1, 9, 1, 14), (1, 10, 1, 13), (1, 11, 1, 12), (1, 12, 0xfff, 0), (1, 24, 7, 39)],
     Insn ''SUBzrici'' 4 0x3c0380000000 [(0, 0, 0x1f, 34), (2, 0, 0x1f, 24), (2, 5, 1, 30), (1, 0, 0xf, 20), (1, 4, 0xf, 16), (1,
       8, 7, 39), (3, 0, 0xffff, 0)],
     Insn ''SUBzrif'' 2 0x3c0380000000 [(0, 0, 0x1f, 34), (1, 0, 0xf, 20), (1, 4, 0xf, 16), (1, 8, 1, 15), (1, 9, 1, 14), (1, 10,
       1, 13), (1, 11, 1, 12), (1, 12, 0xfff, 0), (1, 24, 7, 39)],
     Insn ''SUBzrr'' 2 0x3c0080c00000 [(1, 0, 7, 17), (1, 3, 3, 32), (0, 0, 0x1f, 34)],
     Insn ''SUBzrrc'' 3 0x3c0080c00000 [(1, 0, 7, 17), (1, 3, 3, 32), (0, 0, 0x1f, 34), (2, 0, 0x1f, 24), (2, 5, 1, 30)],
     Insn ''SUBzrrci'' 4 0x3c0080c00000 [(1, 0, 7, 17), (1, 3, 3, 32), (0, 0, 0x1f, 34), (2, 0, 0x1f, 24), (2, 5, 1, 30), (3, 0,
       0xffff, 0)]]"

definition isa_SUBC :: "insn list" where
  "isa_SUBC = [
     Insn ''SUBC_Srirc'' 4 0x4c8360000000 [(0, 1, 3, 40), (0, 3, 3, 44), (2, 0, 0x1f, 34), (3, 0, 0x1f, 24), (1, 0, 0xf, 20), (1,
       4, 0xf, 16), (1, 8, 1, 15), (1, 9, 1, 14), (1, 10, 1, 13), (1, 11, 1, 12), (1, 12, 0xfff, 0)],
     Insn ''SUBC_Srirci'' 5 0x4c8360000000 [(0, 1, 3, 40), (0, 3, 3, 44), (2, 0, 0x1f, 34), (3, 0, 0x1f, 24), (1, 0, 0xf, 20),
       (1, 4, 0xf, 16), (4, 0, 0xffff, 0)],
     Insn ''SUBC_Srirf'' 3 0x4c8360000000 [(0, 1, 3, 40), (0, 3, 3, 44), (2, 0, 0x1f, 34), (1, 0, 0xf, 20), (1, 4, 0xf, 16), (1,
       8, 1, 15), (1, 9, 1, 14), (1, 10, 1, 13), (1, 11, 1, 12), (1, 12, 0xfff, 0)],
     Insn ''SUBC_Srric'' 4 0x4c83a0000000 [(0, 1, 3, 40), (0, 3, 3, 44), (1, 0, 0x1f, 34), (3, 0, 0x1f, 24), (3, 5, 1, 30), (2,
       0, 0xf, 20), (2, 4, 0xf, 16), (2, 8, 1, 15), (2, 9, 1, 14), (2, 10, 1, 13), (2, 11, 1, 12), (2, 12, 0xfff, 0)],
     Insn ''SUBC_Srrici'' 5 0x4c83a0000000 [(0, 1, 3, 40), (0, 3, 3, 44), (1, 0, 0x1f, 34), (3, 0, 0x1f, 24), (3, 5, 1, 30), (2,
       0, 0xf, 20), (2, 4, 0xf, 16), (4, 0, 0xffff, 0)],
     Insn ''SUBC_Srrif'' 3 0x4c83a0000000 [(0, 1, 3, 40), (0, 3, 3, 44), (1, 0, 0x1f, 34), (2, 0, 0xf, 20), (2, 4, 0xf, 16), (2,
       8, 1, 15), (2, 9, 1, 14), (2, 10, 1, 13), (2, 11, 1, 12), (2, 12, 0xfff, 0)],
     Insn ''SUBC_Srrr'' 3 0x4c80a0c00000 [(0, 1, 3, 40), (0, 3, 3, 44), (2, 0, 7, 17), (2, 3, 3, 32), (1, 0, 0x1f, 34)],
     Insn ''SUBC_Srrrc'' 4 0x4c80a0c00000 [(0, 1, 3, 40), (0, 3, 3, 44), (2, 0, 7, 17), (2, 3, 3, 32), (1, 0, 0x1f, 34), (3, 0,
       0x1f, 24), (3, 5, 1, 30)],
     Insn ''SUBC_Srrrci'' 5 0x4c80a0c00000 [(0, 1, 3, 40), (0, 3, 3, 44), (2, 0, 7, 17), (2, 3, 3, 32), (1, 0, 0x1f, 34), (3, 0,
       0x1f, 24), (3, 5, 1, 30), (4, 0, 0xffff, 0)],
     Insn ''SUBC_Urirc'' 4 0x4c0360000000 [(0, 1, 3, 40), (0, 3, 3, 44), (2, 0, 0x1f, 34), (3, 0, 0x1f, 24), (1, 0, 0xf, 20), (1,
       4, 0xf, 16), (1, 8, 1, 15), (1, 9, 1, 14), (1, 10, 1, 13), (1, 11, 1, 12), (1, 12, 0xfff, 0)],
     Insn ''SUBC_Urirci'' 5 0x4c0360000000 [(0, 1, 3, 40), (0, 3, 3, 44), (2, 0, 0x1f, 34), (3, 0, 0x1f, 24), (1, 0, 0xf, 20),
       (1, 4, 0xf, 16), (4, 0, 0xffff, 0)],
     Insn ''SUBC_Urirf'' 3 0x4c0360000000 [(0, 1, 3, 40), (0, 3, 3, 44), (2, 0, 0x1f, 34), (1, 0, 0xf, 20), (1, 4, 0xf, 16), (1,
       8, 1, 15), (1, 9, 1, 14), (1, 10, 1, 13), (1, 11, 1, 12), (1, 12, 0xfff, 0)],
     Insn ''SUBC_Urric'' 4 0x4c03a0000000 [(0, 1, 3, 40), (0, 3, 3, 44), (1, 0, 0x1f, 34), (3, 0, 0x1f, 24), (3, 5, 1, 30), (2,
       0, 0xf, 20), (2, 4, 0xf, 16), (2, 8, 1, 15), (2, 9, 1, 14), (2, 10, 1, 13), (2, 11, 1, 12), (2, 12, 0xfff, 0)],
     Insn ''SUBC_Urrici'' 5 0x4c03a0000000 [(0, 1, 3, 40), (0, 3, 3, 44), (1, 0, 0x1f, 34), (3, 0, 0x1f, 24), (3, 5, 1, 30), (2,
       0, 0xf, 20), (2, 4, 0xf, 16), (4, 0, 0xffff, 0)],
     Insn ''SUBC_Urrif'' 3 0x4c03a0000000 [(0, 1, 3, 40), (0, 3, 3, 44), (1, 0, 0x1f, 34), (2, 0, 0xf, 20), (2, 4, 0xf, 16), (2,
       8, 1, 15), (2, 9, 1, 14), (2, 10, 1, 13), (2, 11, 1, 12), (2, 12, 0xfff, 0)],
     Insn ''SUBC_Urrr'' 3 0x4c00a0c00000 [(0, 1, 3, 40), (0, 3, 3, 44), (2, 0, 7, 17), (2, 3, 3, 32), (1, 0, 0x1f, 34)],
     Insn ''SUBC_Urrrc'' 4 0x4c00a0c00000 [(0, 1, 3, 40), (0, 3, 3, 44), (2, 0, 7, 17), (2, 3, 3, 32), (1, 0, 0x1f, 34), (3, 0,
       0x1f, 24), (3, 5, 1, 30)],
     Insn ''SUBC_Urrrci'' 5 0x4c00a0c00000 [(0, 1, 3, 40), (0, 3, 3, 44), (2, 0, 7, 17), (2, 3, 3, 32), (1, 0, 0x1f, 34), (3, 0,
       0x1f, 24), (3, 5, 1, 30), (4, 0, 0xffff, 0)],
     Insn ''SUBCrir'' 3 0x300300000000 [(0, 0, 0x1f, 39), (2, 0, 0x1f, 34), (1, 0, 0xf, 20), (1, 4, 0xf, 16), (1, 8, 1, 15), (1,
       9, 1, 14), (1, 10, 1, 13), (1, 11, 1, 12), (1, 12, 0xfff, 0), (1, 24, 0xff, 24)],
     Insn ''SUBCrirc'' 4 0xc0360000000 [(0, 0, 7, 39), (0, 3, 3, 44), (2, 0, 0x1f, 34), (3, 0, 0x1f, 24), (1, 0, 0xf, 20), (1, 4,
       0xf, 16), (1, 8, 1, 15), (1, 9, 1, 14), (1, 10, 1, 13), (1, 11, 1, 12), (1, 12, 0xfff, 0)],
     Insn ''SUBCrirci'' 5 0xc0360000000 [(0, 0, 7, 39), (0, 3, 3, 44), (2, 0, 0x1f, 34), (3, 0, 0x1f, 24), (1, 0, 0xf, 20), (1,
       4, 0xf, 16), (4, 0, 0xffff, 0)],
     Insn ''SUBCrirf'' 3 0xc0360000000 [(0, 0, 7, 39), (0, 3, 3, 44), (2, 0, 0x1f, 34), (1, 0, 0xf, 20), (1, 4, 0xf, 16), (1, 8,
       1, 15), (1, 9, 1, 14), (1, 10, 1, 13), (1, 11, 1, 12), (1, 12, 0xfff, 0)],
     Insn ''SUBCrric'' 4 0xc03a0000000 [(0, 0, 7, 39), (0, 3, 3, 44), (1, 0, 0x1f, 34), (3, 0, 0x1f, 24), (3, 5, 1, 30), (2, 0,
       0xf, 20), (2, 4, 0xf, 16), (2, 8, 1, 15), (2, 9, 1, 14), (2, 10, 1, 13), (2, 11, 1, 12), (2, 12, 0xfff, 0)],
     Insn ''SUBCrrici'' 5 0xc03a0000000 [(0, 0, 7, 39), (0, 3, 3, 44), (1, 0, 0x1f, 34), (3, 0, 0x1f, 24), (3, 5, 1, 30), (2, 0,
       0xf, 20), (2, 4, 0xf, 16), (4, 0, 0xffff, 0)]]"

definition isa_SUBC_rest_to_SW :: "insn list" where
  "isa_SUBC_rest_to_SW = [
     Insn ''SUBCrrif'' 3 0xc03a0000000 [(0, 0, 7, 39), (0, 3, 3, 44), (1, 0, 0x1f, 34), (2, 0, 0xf, 20), (2, 4, 0xf, 16), (2, 8,
       1, 15), (2, 9, 1, 14), (2, 10, 1, 13), (2, 11, 1, 12), (2, 12, 0xfff, 0)],
     Insn ''SUBCrrr'' 3 0xc00a0c00000 [(0, 0, 7, 39), (0, 3, 3, 44), (2, 0, 7, 17), (2, 3, 3, 32), (1, 0, 0x1f, 34)],
     Insn ''SUBCrrrc'' 4 0xc00a0c00000 [(0, 0, 7, 39), (0, 3, 3, 44), (2, 0, 7, 17), (2, 3, 3, 32), (1, 0, 0x1f, 34), (3, 0,
       0x1f, 24), (3, 5, 1, 30)],
     Insn ''SUBCrrrci'' 5 0xc00a0c00000 [(0, 0, 7, 39), (0, 3, 3, 44), (2, 0, 7, 17), (2, 3, 3, 32), (1, 0, 0x1f, 34), (3, 0,
       0x1f, 24), (3, 5, 1, 30), (4, 0, 0xffff, 0)],
     Insn ''SUBCzir'' 2 0x636000000000 [(1, 0, 7, 17), (1, 3, 3, 32), (0, 0, 0xf, 20), (0, 4, 7, 34), (0, 7, 1, 39), (0, 8, 1,
       15), (0, 9, 1, 14), (0, 10, 1, 13), (0, 11, 1, 12), (0, 12, 0xfff, 0), (0, 24, 0xff, 24)],
     Insn ''SUBCzirc'' 3 0x3c0360000000 [(1, 0, 0x1f, 34), (2, 0, 0x1f, 24), (0, 0, 0xf, 20), (0, 4, 0xf, 16), (0, 8, 1, 15), (0,
       9, 1, 14), (0, 10, 1, 13), (0, 11, 1, 12), (0, 12, 0xfff, 0), (0, 24, 7, 39)],
     Insn ''SUBCzirci'' 4 0x3c0360000000 [(1, 0, 0x1f, 34), (2, 0, 0x1f, 24), (0, 0, 0xf, 20), (0, 4, 0xf, 16), (0, 8, 7, 39),
       (3, 0, 0xffff, 0)],
     Insn ''SUBCzirf'' 2 0x3c0360000000 [(1, 0, 0x1f, 34), (0, 0, 0xf, 20), (0, 4, 0xf, 16), (0, 8, 1, 15), (0, 9, 1, 14), (0,
       10, 1, 13), (0, 11, 1, 12), (0, 12, 0xfff, 0), (0, 24, 7, 39)],
     Insn ''SUBCzric'' 3 0x3c03a0000000 [(0, 0, 0x1f, 34), (2, 0, 0x1f, 24), (2, 5, 1, 30), (1, 0, 0xf, 20), (1, 4, 0xf, 16), (1,
       8, 1, 15), (1, 9, 1, 14), (1, 10, 1, 13), (1, 11, 1, 12), (1, 12, 0xfff, 0), (1, 24, 7, 39)],
     Insn ''SUBCzrici'' 4 0x3c03a0000000 [(0, 0, 0x1f, 34), (2, 0, 0x1f, 24), (2, 5, 1, 30), (1, 0, 0xf, 20), (1, 4, 0xf, 16),
       (1, 8, 7, 39), (3, 0, 0xffff, 0)],
     Insn ''SUBCzrif'' 2 0x3c03a0000000 [(0, 0, 0x1f, 34), (1, 0, 0xf, 20), (1, 4, 0xf, 16), (1, 8, 1, 15), (1, 9, 1, 14), (1,
       10, 1, 13), (1, 11, 1, 12), (1, 12, 0xfff, 0), (1, 24, 7, 39)],
     Insn ''SUBCzrr'' 2 0x3c00a0c00000 [(1, 0, 7, 17), (1, 3, 3, 32), (0, 0, 0x1f, 34)],
     Insn ''SUBCzrrc'' 3 0x3c00a0c00000 [(1, 0, 7, 17), (1, 3, 3, 32), (0, 0, 0x1f, 34), (2, 0, 0x1f, 24), (2, 5, 1, 30)],
     Insn ''SUBCzrrci'' 4 0x3c00a0c00000 [(1, 0, 7, 17), (1, 3, 3, 32), (0, 0, 0x1f, 34), (2, 0, 0x1f, 24), (2, 5, 1, 30), (3, 0,
       0xffff, 0)],
     Insn ''SUBSrri'' 3 0xc0390000000 [(0, 0, 7, 39), (0, 3, 3, 44), (1, 0, 0x1f, 34), (2, 0, 0xf, 20), (2, 4, 0xf, 16), (2, 8,
       1, 15), (2, 9, 1, 14), (2, 10, 1, 13), (2, 11, 1, 12), (2, 12, 0x1f, 0), (2, 16, 1, 5), (2, 16, 1, 6), (2, 16, 1, 7), (2,
       16, 1, 8), (2, 16, 1, 9), (2, 16, 1, 10), (2, 16, 1, 11)],
     Insn ''SUBSrrr'' 3 0xc0050c00000 [(0, 0, 7, 39), (0, 3, 3, 44), (2, 0, 0x1f, 34), (1, 0, 7, 17), (1, 3, 3, 32)],
     Insn ''SWerii'' 4 0x7c0344000000 [(1, 0, 0x1f, 34), (0, 0, 1, 27), (2, 0, 0xf, 20), (2, 4, 7, 39), (2, 7, 1, 24), (2, 8, 1,
       15), (2, 9, 1, 14), (2, 10, 1, 13), (2, 11, 1, 12), (3, 0, 0xf, 16), (3, 4, 0xfff, 0)],
     Insn ''SWerir'' 4 0x7c0044000000 [(3, 0, 7, 17), (3, 3, 3, 32), (1, 0, 0x1f, 34), (0, 0, 1, 27), (2, 0, 0xf, 20), (2, 4, 7,
       39), (2, 7, 1, 24), (2, 8, 1, 15), (2, 9, 1, 14), (2, 10, 1, 13), (2, 11, 1, 12), (2, 12, 0xfff, 0)],
     Insn ''SWesii'' 4 0x7c0354000000 [(1, 0, 0x1f, 34), (0, 0, 1, 27), (2, 0, 0xf, 20), (2, 4, 7, 39), (2, 7, 1, 24), (2, 8, 1,
       15), (2, 9, 1, 14), (2, 10, 1, 13), (2, 11, 1, 12), (3, 0, 0xf, 16), (3, 4, 0xfff, 0)],
     Insn ''SWesir'' 4 0x7c0054000000 [(3, 0, 7, 17), (3, 3, 3, 32), (1, 0, 0x1f, 34), (0, 0, 1, 27), (2, 0, 0xf, 20), (2, 4, 7,
       39), (2, 7, 1, 24), (2, 8, 1, 15), (2, 9, 1, 14), (2, 10, 1, 13), (2, 11, 1, 12), (2, 12, 0xfff, 0)],
     Insn ''SWrii'' 3 0x7c0344000000 [(0, 0, 0x1f, 34), (1, 0, 0xf, 20), (1, 4, 7, 39), (1, 7, 1, 24), (1, 8, 1, 15), (1, 9, 1,
       14), (1, 10, 1, 13), (1, 11, 1, 12), (2, 0, 0xf, 16), (2, 4, 0xfff, 0)],
     Insn ''SWrir'' 3 0x7c0044000000 [(2, 0, 7, 17), (2, 3, 3, 32), (0, 0, 0x1f, 34), (1, 0, 0xf, 20), (1, 4, 7, 39), (1, 7, 1,
       24), (1, 8, 1, 15), (1, 9, 1, 14), (1, 10, 1, 13), (1, 11, 1, 12), (1, 12, 0xfff, 0)]]"

definition isa_SW_ID_to_TIME_CFG :: "insn list" where
  "isa_SW_ID_to_TIME_CFG = [
     Insn ''SW_IDerii'' 4 0x7c0364000000 [(1, 0, 0x1f, 34), (0, 0, 1, 27), (2, 0, 0xf, 20), (2, 4, 7, 39), (2, 7, 1, 24), (2, 8,
       1, 15), (2, 9, 1, 14), (2, 10, 1, 13), (2, 11, 1, 12), (3, 0, 0xf, 16), (3, 4, 0xfff, 0)],
     Insn ''SW_IDri'' 2 0x7c0364000000 [(0, 0, 0x1f, 34), (1, 0, 0xf, 20), (1, 4, 7, 39), (1, 7, 1, 24), (1, 8, 1, 15), (1, 9, 1,
       14), (1, 10, 1, 13), (1, 11, 1, 12)],
     Insn ''SW_IDrii'' 3 0x7c0364000000 [(0, 0, 0x1f, 34), (1, 0, 0xf, 20), (1, 4, 7, 39), (1, 7, 1, 24), (1, 8, 1, 15), (1, 9,
       1, 14), (1, 10, 1, 13), (1, 11, 1, 12), (2, 0, 0xf, 16), (2, 4, 0xfff, 0)],
     Insn ''SWAPDrr'' 2 0x8060a0010000 [(1, 0, 7, 17), (1, 3, 3, 32), (0, 0, 0x1f, 39)],
     Insn ''SWAPDrrci'' 4 0x8060a0010000 [(1, 0, 7, 17), (1, 3, 3, 32), (0, 0, 0x1f, 39), (2, 0, 0xf, 24), (3, 0, 0xffff, 0)],
     Insn ''SWSrii'' 3 0x7c0354000000 [(0, 0, 0x1f, 34), (1, 0, 0xf, 20), (1, 4, 7, 39), (1, 7, 1, 24), (1, 8, 1, 15), (1, 9, 1,
       14), (1, 10, 1, 13), (1, 11, 1, 12), (2, 0, 0xf, 16), (2, 4, 0xfff, 0)],
     Insn ''SWSrir'' 3 0x7c0054000000 [(2, 0, 7, 17), (2, 3, 3, 32), (0, 0, 0x1f, 34), (1, 0, 0xf, 20), (1, 4, 7, 39), (1, 7, 1,
       24), (1, 8, 1, 15), (1, 9, 1, 14), (1, 10, 1, 13), (1, 11, 1, 12), (1, 12, 0xfff, 0)],
     Insn ''TELLri'' 2 0x7c0300000000 [(0, 0, 0x1f, 34), (1, 0, 0xf, 20), (1, 4, 0xf, 16), (1, 8, 1, 15), (1, 9, 1, 14), (1, 10,
       1, 13), (1, 11, 1, 12), (1, 12, 0xfff, 0)],
     Insn ''TIME_Sr'' 1 0x4ce020800000 [(0, 1, 3, 40), (0, 3, 3, 44)],
     Insn ''TIME_Srci'' 3 0x4ce020800000 [(0, 1, 3, 40), (0, 3, 3, 44), (1, 0, 0xf, 24), (2, 0, 0xffff, 0)],
     Insn ''TIME_Ur'' 1 0x4c6020800000 [(0, 1, 3, 40), (0, 3, 3, 44)],
     Insn ''TIME_Urci'' 3 0x4c6020800000 [(0, 1, 3, 40), (0, 3, 3, 44), (1, 0, 0xf, 24), (2, 0, 0xffff, 0)],
     Insn ''TIMEr'' 1 0xc6020800000 [(0, 0, 7, 39), (0, 3, 3, 44)],
     Insn ''TIMErci'' 3 0xc6020800000 [(0, 0, 7, 39), (0, 3, 3, 44), (1, 0, 0xf, 24), (2, 0, 0xffff, 0)],
     Insn ''TIMEz'' 0 0x3c6020800000 [],
     Insn ''TIMEzci'' 2 0x3c6020800000 [(0, 0, 0xf, 24), (1, 0, 0xffff, 0)],
     Insn ''TIME_CFG_Srr'' 2 0x4ce420800000 [(1, 0, 7, 17), (1, 3, 3, 32), (0, 1, 3, 40), (0, 3, 3, 44)],
     Insn ''TIME_CFG_Srrci'' 4 0x4ce420800000 [(1, 0, 7, 17), (1, 3, 3, 32), (0, 1, 3, 40), (0, 3, 3, 44), (2, 0, 0xf, 24), (3,
       0, 0xffff, 0)],
     Insn ''TIME_CFG_Urr'' 2 0x4c6420800000 [(1, 0, 7, 17), (1, 3, 3, 32), (0, 1, 3, 40), (0, 3, 3, 44)],
     Insn ''TIME_CFG_Urrci'' 4 0x4c6420800000 [(1, 0, 7, 17), (1, 3, 3, 32), (0, 1, 3, 40), (0, 3, 3, 44), (2, 0, 0xf, 24), (3,
       0, 0xffff, 0)],
     Insn ''TIME_CFGr'' 1 0x3c6420800000 [(0, 0, 7, 17), (0, 3, 3, 32)],
     Insn ''TIME_CFGrr'' 2 0xc6420800000 [(1, 0, 7, 17), (1, 3, 3, 32), (0, 0, 7, 39), (0, 3, 3, 44)],
     Insn ''TIME_CFGrrci'' 4 0xc6420800000 [(1, 0, 7, 17), (1, 3, 3, 32), (0, 0, 7, 39), (0, 3, 3, 44), (2, 0, 0xf, 24), (3, 0,
       0xffff, 0)],
     Insn ''TIME_CFGzr'' 1 0x3c6420800000 [(0, 0, 7, 17), (0, 3, 3, 32)],
     Insn ''TIME_CFGzrci'' 3 0x3c6420800000 [(0, 0, 7, 17), (0, 3, 3, 32), (1, 0, 0xf, 24), (2, 0, 0xffff, 0)]]"

definition isa_XOR :: "insn list" where
  "isa_XOR = [
     Insn ''XOR_Srric'' 4 0x908380000000 [(0, 1, 0xf, 40), (1, 0, 0x1f, 34), (3, 0, 0xf, 24), (2, 0, 0xf, 20), (2, 4, 0xf, 16),
       (2, 8, 1, 15), (2, 9, 1, 14), (2, 10, 1, 13), (2, 11, 1, 12), (2, 12, 0xfff, 0)],
     Insn ''XOR_Srrici'' 5 0x908380000000 [(0, 1, 0xf, 40), (1, 0, 0x1f, 34), (3, 0, 0xf, 24), (2, 0, 0xf, 20), (2, 4, 0xf, 16),
       (4, 0, 0xffff, 0)],
     Insn ''XOR_Srrif'' 3 0x908380000000 [(0, 1, 0xf, 40), (1, 0, 0x1f, 34), (2, 0, 0xf, 20), (2, 4, 0xf, 16), (2, 8, 1, 15), (2,
       9, 1, 14), (2, 10, 1, 13), (2, 11, 1, 12), (2, 12, 0xfff, 0)],
     Insn ''XOR_Srrr'' 3 0x9080c0800000 [(2, 0, 7, 17), (2, 3, 3, 32), (0, 1, 0xf, 40), (1, 0, 0x1f, 34)],
     Insn ''XOR_Srrrc'' 4 0x9080c0800000 [(2, 0, 7, 17), (2, 3, 3, 32), (0, 1, 0xf, 40), (1, 0, 0x1f, 34), (3, 0, 0xf, 24)],
     Insn ''XOR_Srrrci'' 5 0x9080c0800000 [(2, 0, 7, 17), (2, 3, 3, 32), (0, 1, 0xf, 40), (1, 0, 0x1f, 34), (3, 0, 0xf, 24), (4,
       0, 0xffff, 0)],
     Insn ''XOR_Urric'' 4 0x900380000000 [(0, 1, 0xf, 40), (1, 0, 0x1f, 34), (3, 0, 0xf, 24), (2, 0, 0xf, 20), (2, 4, 0xf, 16),
       (2, 8, 1, 15), (2, 9, 1, 14), (2, 10, 1, 13), (2, 11, 1, 12), (2, 12, 0xfff, 0)],
     Insn ''XOR_Urrici'' 5 0x900380000000 [(0, 1, 0xf, 40), (1, 0, 0x1f, 34), (3, 0, 0xf, 24), (2, 0, 0xf, 20), (2, 4, 0xf, 16),
       (4, 0, 0xffff, 0)],
     Insn ''XOR_Urrif'' 3 0x900380000000 [(0, 1, 0xf, 40), (1, 0, 0x1f, 34), (2, 0, 0xf, 20), (2, 4, 0xf, 16), (2, 8, 1, 15), (2,
       9, 1, 14), (2, 10, 1, 13), (2, 11, 1, 12), (2, 12, 0xfff, 0)],
     Insn ''XOR_Urrr'' 3 0x9000c0800000 [(2, 0, 7, 17), (2, 3, 3, 32), (0, 1, 0xf, 40), (1, 0, 0x1f, 34)],
     Insn ''XOR_Urrrc'' 4 0x9000c0800000 [(2, 0, 7, 17), (2, 3, 3, 32), (0, 1, 0xf, 40), (1, 0, 0x1f, 34), (3, 0, 0xf, 24)],
     Insn ''XOR_Urrrci'' 5 0x9000c0800000 [(2, 0, 7, 17), (2, 3, 3, 32), (0, 1, 0xf, 40), (1, 0, 0x1f, 34), (3, 0, 0xf, 24), (4,
       0, 0xffff, 0)],
     Insn ''XORrri'' 3 0x400300000000 [(0, 0, 0x1f, 39), (1, 0, 0x1f, 34), (2, 0, 0xf, 20), (2, 4, 0xf, 16), (2, 8, 1, 15), (2,
       9, 1, 14), (2, 10, 1, 13), (2, 11, 1, 12), (2, 12, 0xfff, 0), (2, 24, 0xff, 24)],
     Insn ''XORrric'' 4 0x800380000000 [(0, 0, 0x1f, 39), (1, 0, 0x1f, 34), (3, 0, 0xf, 24), (2, 0, 0xf, 20), (2, 4, 0xf, 16),
       (2, 8, 1, 15), (2, 9, 1, 14), (2, 10, 1, 13), (2, 11, 1, 12), (2, 12, 0xfff, 0)],
     Insn ''XORrrici'' 5 0x800380000000 [(0, 0, 0x1f, 39), (1, 0, 0x1f, 34), (3, 0, 0xf, 24), (2, 0, 0xf, 20), (2, 4, 0xf, 16),
       (4, 0, 0xffff, 0)],
     Insn ''XORrrif'' 3 0x800380000000 [(0, 0, 0x1f, 39), (1, 0, 0x1f, 34), (2, 0, 0xf, 20), (2, 4, 0xf, 16), (2, 8, 1, 15), (2,
       9, 1, 14), (2, 10, 1, 13), (2, 11, 1, 12), (2, 12, 0xfff, 0)],
     Insn ''XORrrr'' 3 0x8000c0800000 [(2, 0, 7, 17), (2, 3, 3, 32), (0, 0, 0x1f, 39), (1, 0, 0x1f, 34)],
     Insn ''XORrrrc'' 4 0x8000c0800000 [(2, 0, 7, 17), (2, 3, 3, 32), (0, 0, 0x1f, 39), (1, 0, 0x1f, 34), (3, 0, 0xf, 24)],
     Insn ''XORrrrci'' 5 0x8000c0800000 [(2, 0, 7, 17), (2, 3, 3, 32), (0, 0, 0x1f, 39), (1, 0, 0x1f, 34), (3, 0, 0xf, 24), (4,
       0, 0xffff, 0)],
     Insn ''XORzri'' 2 0x646000000000 [(0, 0, 7, 17), (0, 3, 3, 32), (1, 0, 0xf, 20), (1, 4, 7, 34), (1, 7, 1, 39), (1, 8, 1,
       15), (1, 9, 1, 14), (1, 10, 1, 13), (1, 11, 1, 12), (1, 12, 0xfff, 0), (1, 24, 0xff, 24)],
     Insn ''XORzric'' 3 0x8c0380000000 [(0, 0, 0x1f, 34), (2, 0, 0xf, 24), (1, 0, 0xf, 20), (1, 4, 0xf, 16), (1, 8, 1, 15), (1,
       9, 1, 14), (1, 10, 1, 13), (1, 11, 1, 12), (1, 12, 0xfff, 0), (1, 24, 7, 39), (1, 27, 1, 44)],
     Insn ''XORzrici'' 4 0x8c0380000000 [(0, 0, 0x1f, 34), (2, 0, 0xf, 24), (1, 0, 0xf, 20), (1, 4, 0xf, 16), (1, 8, 7, 39), (1,
       11, 1, 44), (3, 0, 0xffff, 0)],
     Insn ''XORzrif'' 2 0x8c0380000000 [(0, 0, 0x1f, 34), (1, 0, 0xf, 20), (1, 4, 0xf, 16), (1, 8, 1, 15), (1, 9, 1, 14), (1, 10,
       1, 13), (1, 11, 1, 12), (1, 12, 0xfff, 0), (1, 24, 7, 39), (1, 27, 1, 44)],
     Insn ''XORzrr'' 2 0x8c00c0800000 [(1, 0, 7, 17), (1, 3, 3, 32), (0, 0, 0x1f, 34)],
     Insn ''XORzrrc'' 3 0x8c00c0800000 [(1, 0, 7, 17), (1, 3, 3, 32), (0, 0, 0x1f, 34), (2, 0, 0xf, 24)],
     Insn ''XORzrrci'' 4 0x8c00c0800000 [(1, 0, 7, 17), (1, 3, 3, 32), (0, 0, 0x1f, 34), (2, 0, 0xf, 24), (3, 0, 0xffff, 0)]]"

definition instructions :: "insn list" where
  "instructions = isa_ACQUIRE @ isa_ADD @ isa_ADD_rest @ isa_ADDC @ isa_ADDS @ isa_AND @ isa_AND_rest_to_ANDN @ isa_ASR_to_CALL @
    isa_CAO_to_CLS @ isa_CLZ_to_EXTSB @ isa_EXTSH_to_FAULT @ isa_HASH_to_JGES @ isa_JGEU_to_LBSS @ isa_LBU_to_LHU @
    isa_LHUS_to_LSL @ isa_LSL1 @ isa_LSL1X @ isa_LSL_to_LSL_SUB @ isa_LSLX @ isa_LSR @ isa_LSR1 @ isa_LSR1X @
    isa_LSR_rest_to_LSR_ADD @ isa_LSRX_to_LW @ isa_LWS_to_MUL_SH_SL @ isa_MUL_SH_UH_to_MUL_SL_SH @ isa_MUL_SL_SL_to_MUL_STEP @
    isa_MUL_UH_UH_to_MUL_UL_UH @ isa_MUL_UL_UL @ isa_NAND_to_NOP @ isa_NOR_to_NOT @ isa_NXOR @ isa_OR @ isa_OR_rest_to_RESUME @
    isa_ROL_to_ROL_ADD @ isa_ROR @ isa_RSUB_to_SATS @ isa_SB_to_SDMA @ isa_SDS_to_STOP @ isa_SUB @ isa_SUB_rest @ isa_SUBC @
    isa_SUBC_rest_to_SW @ isa_SW_ID_to_TIME_CFG @ isa_XOR"

section \<open>Registers and conditions\<close>

definition dpu_registers :: "(string \<times> nat) list" where
  "dpu_registers = [
     (''REG_D0'', 0), (''REG_D10'', 10), (''REG_D12'', 12), (''REG_D14'', 14), (''REG_D16'', 16), (''REG_D18'', 18),
       (''REG_D2'', 2), (''REG_D20'', 20), (''REG_D22'', 22), (''REG_D4'', 4), (''REG_D6'', 6), (''REG_D8'', 8),
       (''REG_ID'', 28), (''REG_ID2'', 29), (''REG_ID4'', 30), (''REG_ID8'', 31), (''REG_LNEG'', 26), (''REG_MNEG'', 27),
       (''REG_ONE'', 25), (''REG_R0'', 0), (''REG_R1'', 1), (''REG_R10'', 10), (''REG_R11'', 11), (''REG_R12'', 12),
       (''REG_R13'', 13), (''REG_R14'', 14), (''REG_R15'', 15), (''REG_R16'', 16), (''REG_R17'', 17), (''REG_R18'', 18),
       (''REG_R19'', 19), (''REG_R2'', 2), (''REG_R20'', 20), (''REG_R21'', 21), (''REG_R22'', 22), (''REG_R23'', 23),
       (''REG_R3'', 3), (''REG_R4'', 4), (''REG_R5'', 5), (''REG_R6'', 6), (''REG_R7'', 7), (''REG_R8'', 8), (''REG_R9'', 9),
       (''REG_S0'', 0), (''REG_S1'', 1), (''REG_S10'', 10), (''REG_S11'', 11), (''REG_S12'', 12), (''REG_S13'', 13),
       (''REG_S14'', 14), (''REG_S15'', 15), (''REG_S16'', 16), (''REG_S17'', 17), (''REG_S18'', 18), (''REG_S19'', 19),
       (''REG_S2'', 2), (''REG_S20'', 20), (''REG_S21'', 21), (''REG_S22'', 22), (''REG_S23'', 23), (''REG_S3'', 3),
       (''REG_S4'', 4), (''REG_S5'', 5), (''REG_S6'', 6), (''REG_S7'', 7), (''REG_S8'', 8), (''REG_S9'', 9), (''REG_ZERO'', 24)]"

definition dpu_conditions_A_to_F :: "(string \<times> nat) list" where
  "dpu_conditions_A_to_F = [
     (''ACQUIRE_CC_NZ'', 3), (''ACQUIRE_CC_TRUE'', 1), (''ACQUIRE_CC_Z'', 2), (''ADD_NZ_CC_C'', 20), (''ADD_NZ_CC_MI'', 9),
       (''ADD_NZ_CC_NC'', 21), (''ADD_NZ_CC_NC10'', 27), (''ADD_NZ_CC_NC11'', 28), (''ADD_NZ_CC_NC12'', 29),
       (''ADD_NZ_CC_NC13'', 30), (''ADD_NZ_CC_NC14'', 31), (''ADD_NZ_CC_NC5'', 22), (''ADD_NZ_CC_NC6'', 23),
       (''ADD_NZ_CC_NC7'', 24), (''ADD_NZ_CC_NC8'', 25), (''ADD_NZ_CC_NC9'', 26), (''ADD_NZ_CC_NOV'', 19), (''ADD_NZ_CC_NZ'', 3),
       (''ADD_NZ_CC_OV'', 18), (''ADD_NZ_CC_PL'', 8), (''ADD_NZ_CC_SMI'', 15), (''ADD_NZ_CC_SNZ'', 13), (''ADD_NZ_CC_SPL'', 14),
       (''ADD_NZ_CC_SZ'', 12), (''ADD_NZ_CC_TRUE'', 1), (''ADD_NZ_CC_XNZ'', 5), (''ADD_NZ_CC_XZ'', 4), (''ADD_NZ_CC_Z'', 2),
       (''BOOT_CC_FALSE'', 0), (''BOOT_CC_NZ'', 3), (''BOOT_CC_SMI'', 15), (''BOOT_CC_SNZ'', 13), (''BOOT_CC_SPL'', 14),
       (''BOOT_CC_SZ'', 12), (''BOOT_CC_TRUE'', 1), (''BOOT_CC_XNZ'', 5), (''BOOT_CC_XZ'', 4), (''BOOT_CC_Z'', 2),
       (''CONST_CC_GE0_PL'', 0), (''CONST_CC_GEU_GEU'', 0), (''CONST_CC_ZERO_Z'', 0), (''COUNT_NZ_CC_MAX'', 8),
       (''COUNT_NZ_CC_NMAX'', 9), (''COUNT_NZ_CC_NZ'', 3), (''COUNT_NZ_CC_SMI'', 15), (''COUNT_NZ_CC_SNZ'', 13),
       (''COUNT_NZ_CC_SPL'', 14), (''COUNT_NZ_CC_SZ'', 12), (''COUNT_NZ_CC_TRUE'', 1), (''COUNT_NZ_CC_XNZ'', 5),
       (''COUNT_NZ_CC_XZ'', 4), (''COUNT_NZ_CC_Z'', 2), (''DIV_CC_FALSE'', 0), (''DIV_CC_SMI'', 15), (''DIV_CC_SNZ'', 13),
       (''DIV_CC_SPL'', 14), (''DIV_CC_SZ'', 12), (''DIV_CC_TRUE'', 1), (''DIV_NZ_CC_SMI'', 15), (''DIV_NZ_CC_SNZ'', 13),
       (''DIV_NZ_CC_SPL'', 14), (''DIV_NZ_CC_SZ'', 12), (''DIV_NZ_CC_TRUE'', 1), (''EXT_SUB_SET_CC_C'', 53),
       (''EXT_SUB_SET_CC_EQ'', 6), (''EXT_SUB_SET_CC_GES'', 55), (''EXT_SUB_SET_CC_GEU'', 53), (''EXT_SUB_SET_CC_GTS'', 57),
       (''EXT_SUB_SET_CC_GTU'', 59), (''EXT_SUB_SET_CC_LES'', 56), (''EXT_SUB_SET_CC_LEU'', 58), (''EXT_SUB_SET_CC_LTS'', 54),
       (''EXT_SUB_SET_CC_LTU'', 52), (''EXT_SUB_SET_CC_MI'', 41), (''EXT_SUB_SET_CC_NC'', 52), (''EXT_SUB_SET_CC_NEQ'', 7),
       (''EXT_SUB_SET_CC_NOV'', 51), (''EXT_SUB_SET_CC_NZ'', 7), (''EXT_SUB_SET_CC_OV'', 50), (''EXT_SUB_SET_CC_PL'', 40),
       (''EXT_SUB_SET_CC_SMI'', 47), (''EXT_SUB_SET_CC_SNZ'', 45), (''EXT_SUB_SET_CC_SPL'', 46), (''EXT_SUB_SET_CC_SZ'', 44),
       (''EXT_SUB_SET_CC_TRUE'', 33), (''EXT_SUB_SET_CC_XGTS'', 61), (''EXT_SUB_SET_CC_XGTU'', 63),
       (''EXT_SUB_SET_CC_XLES'', 60), (''EXT_SUB_SET_CC_XLEU'', 62), (''EXT_SUB_SET_CC_XNZ'', 11), (''EXT_SUB_SET_CC_XZ'', 10),
       (''EXT_SUB_SET_CC_Z'', 6), (''FALSE_CC_FALSE'', 0), (''IMM_SHIFT_NZ_CC_E'', 24), (''IMM_SHIFT_NZ_CC_MI'', 9),
       (''IMM_SHIFT_NZ_CC_NZ'', 3), (''IMM_SHIFT_NZ_CC_O'', 25), (''IMM_SHIFT_NZ_CC_PL'', 8), (''IMM_SHIFT_NZ_CC_SE'', 30)]"

definition dpu_conditions_I_to_T :: "(string \<times> nat) list" where
  "dpu_conditions_I_to_T = [
     (''IMM_SHIFT_NZ_CC_SMI'', 15), (''IMM_SHIFT_NZ_CC_SNZ'', 13), (''IMM_SHIFT_NZ_CC_SO'', 31), (''IMM_SHIFT_NZ_CC_SPL'', 14),
       (''IMM_SHIFT_NZ_CC_SZ'', 12), (''IMM_SHIFT_NZ_CC_TRUE'', 1), (''IMM_SHIFT_NZ_CC_XNZ'', 5), (''IMM_SHIFT_NZ_CC_XZ'', 4),
       (''IMM_SHIFT_NZ_CC_Z'', 2), (''LOG_NZ_CC_MI'', 9), (''LOG_NZ_CC_NZ'', 3), (''LOG_NZ_CC_PL'', 8), (''LOG_NZ_CC_SMI'', 15),
       (''LOG_NZ_CC_SNZ'', 13), (''LOG_NZ_CC_SPL'', 14), (''LOG_NZ_CC_SZ'', 12), (''LOG_NZ_CC_TRUE'', 1), (''LOG_NZ_CC_XNZ'', 5),
       (''LOG_NZ_CC_XZ'', 4), (''LOG_NZ_CC_Z'', 2), (''LOG_SET_CC_NZ'', 7), (''LOG_SET_CC_XNZ'', 11), (''LOG_SET_CC_XZ'', 10),
       (''LOG_SET_CC_Z'', 6), (''MUL_NZ_CC_LARGE'', 31), (''MUL_NZ_CC_NZ'', 3), (''MUL_NZ_CC_SMALL'', 30),
       (''MUL_NZ_CC_SMI'', 15), (''MUL_NZ_CC_SNZ'', 13), (''MUL_NZ_CC_SPL'', 14), (''MUL_NZ_CC_SZ'', 12),
       (''MUL_NZ_CC_TRUE'', 1), (''MUL_NZ_CC_XNZ'', 5), (''MUL_NZ_CC_XZ'', 4), (''MUL_NZ_CC_Z'', 2), (''RELEASE_CC_NZ'', 0),
       (''SHIFT_NZ_CC_E'', 24), (''SHIFT_NZ_CC_MI'', 9), (''SHIFT_NZ_CC_NSH32'', 28), (''SHIFT_NZ_CC_NZ'', 3),
       (''SHIFT_NZ_CC_O'', 25), (''SHIFT_NZ_CC_PL'', 8), (''SHIFT_NZ_CC_SE'', 30), (''SHIFT_NZ_CC_SH32'', 29),
       (''SHIFT_NZ_CC_SMI'', 15), (''SHIFT_NZ_CC_SNZ'', 13), (''SHIFT_NZ_CC_SO'', 31), (''SHIFT_NZ_CC_SPL'', 14),
       (''SHIFT_NZ_CC_SZ'', 12), (''SHIFT_NZ_CC_TRUE'', 1), (''SHIFT_NZ_CC_XNZ'', 5), (''SHIFT_NZ_CC_XZ'', 4),
       (''SHIFT_NZ_CC_Z'', 2), (''SUB_NZ_CC_C'', 21), (''SUB_NZ_CC_EQ'', 2), (''SUB_NZ_CC_GES'', 23), (''SUB_NZ_CC_GEU'', 21),
       (''SUB_NZ_CC_GTS'', 25), (''SUB_NZ_CC_GTU'', 27), (''SUB_NZ_CC_LES'', 24), (''SUB_NZ_CC_LEU'', 26),
       (''SUB_NZ_CC_LTS'', 22), (''SUB_NZ_CC_LTU'', 20), (''SUB_NZ_CC_MI'', 9), (''SUB_NZ_CC_NC'', 20), (''SUB_NZ_CC_NEQ'', 3),
       (''SUB_NZ_CC_NOV'', 19), (''SUB_NZ_CC_NZ'', 3), (''SUB_NZ_CC_OV'', 18), (''SUB_NZ_CC_PL'', 8), (''SUB_NZ_CC_SMI'', 15),
       (''SUB_NZ_CC_SNZ'', 13), (''SUB_NZ_CC_SPL'', 14), (''SUB_NZ_CC_SZ'', 12), (''SUB_NZ_CC_TRUE'', 1),
       (''SUB_NZ_CC_XGTS'', 29), (''SUB_NZ_CC_XGTU'', 31), (''SUB_NZ_CC_XLES'', 28), (''SUB_NZ_CC_XLEU'', 30),
       (''SUB_NZ_CC_XNZ'', 5), (''SUB_NZ_CC_XZ'', 4), (''SUB_NZ_CC_Z'', 2), (''SUB_SET_CC_EQ'', 6), (''SUB_SET_CC_NEQ'', 7),
       (''SUB_SET_CC_NZ'', 7), (''SUB_SET_CC_XNZ'', 11), (''SUB_SET_CC_XZ'', 10), (''SUB_SET_CC_Z'', 6), (''TRUE_CC_TRUE'', 1),
       (''TRUE_FALSE_CC_FALSE'', 0), (''TRUE_FALSE_CC_TRUE'', 1)]"

section \<open>Every instruction is sound\<close>

lemma isa_ACQUIRE_ok: "list_all insn_ok isa_ACQUIRE"
  by (simp add: isa_ACQUIRE_def insn_ok_def)

lemma isa_ADD_ok: "list_all insn_ok isa_ADD"
  by (simp add: isa_ADD_def insn_ok_def)

lemma isa_ADD_rest_ok: "list_all insn_ok isa_ADD_rest"
  by (simp add: isa_ADD_rest_def insn_ok_def)

lemma isa_ADDC_ok: "list_all insn_ok isa_ADDC"
  by (simp add: isa_ADDC_def insn_ok_def)

lemma isa_ADDS_ok: "list_all insn_ok isa_ADDS"
  by (simp add: isa_ADDS_def insn_ok_def)

lemma isa_AND_ok: "list_all insn_ok isa_AND"
  by (simp add: isa_AND_def insn_ok_def)

lemma isa_AND_rest_to_ANDN_ok: "list_all insn_ok isa_AND_rest_to_ANDN"
  by (simp add: isa_AND_rest_to_ANDN_def insn_ok_def)

lemma isa_ASR_to_CALL_ok: "list_all insn_ok isa_ASR_to_CALL"
  by (simp add: isa_ASR_to_CALL_def insn_ok_def)

lemma isa_CAO_to_CLS_ok: "list_all insn_ok isa_CAO_to_CLS"
  by (simp add: isa_CAO_to_CLS_def insn_ok_def)

lemma isa_CLZ_to_EXTSB_ok: "list_all insn_ok isa_CLZ_to_EXTSB"
  by (simp add: isa_CLZ_to_EXTSB_def insn_ok_def)

lemma isa_EXTSH_to_FAULT_ok: "list_all insn_ok isa_EXTSH_to_FAULT"
  by (simp add: isa_EXTSH_to_FAULT_def insn_ok_def)

lemma isa_HASH_to_JGES_ok: "list_all insn_ok isa_HASH_to_JGES"
  by (simp add: isa_HASH_to_JGES_def insn_ok_def)

lemma isa_JGEU_to_LBSS_ok: "list_all insn_ok isa_JGEU_to_LBSS"
  by (simp add: isa_JGEU_to_LBSS_def insn_ok_def)

lemma isa_LBU_to_LHU_ok: "list_all insn_ok isa_LBU_to_LHU"
  by (simp add: isa_LBU_to_LHU_def insn_ok_def)

lemma isa_LHUS_to_LSL_ok: "list_all insn_ok isa_LHUS_to_LSL"
  by (simp add: isa_LHUS_to_LSL_def insn_ok_def)

lemma isa_LSL1_ok: "list_all insn_ok isa_LSL1"
  by (simp add: isa_LSL1_def insn_ok_def)

lemma isa_LSL1X_ok: "list_all insn_ok isa_LSL1X"
  by (simp add: isa_LSL1X_def insn_ok_def)

lemma isa_LSL_to_LSL_SUB_ok: "list_all insn_ok isa_LSL_to_LSL_SUB"
  by (simp add: isa_LSL_to_LSL_SUB_def insn_ok_def)

lemma isa_LSLX_ok: "list_all insn_ok isa_LSLX"
  by (simp add: isa_LSLX_def insn_ok_def)

lemma isa_LSR_ok: "list_all insn_ok isa_LSR"
  by (simp add: isa_LSR_def insn_ok_def)

lemma isa_LSR1_ok: "list_all insn_ok isa_LSR1"
  by (simp add: isa_LSR1_def insn_ok_def)

lemma isa_LSR1X_ok: "list_all insn_ok isa_LSR1X"
  by (simp add: isa_LSR1X_def insn_ok_def)

lemma isa_LSR_rest_to_LSR_ADD_ok: "list_all insn_ok isa_LSR_rest_to_LSR_ADD"
  by (simp add: isa_LSR_rest_to_LSR_ADD_def insn_ok_def)

lemma isa_LSRX_to_LW_ok: "list_all insn_ok isa_LSRX_to_LW"
  by (simp add: isa_LSRX_to_LW_def insn_ok_def)

lemma isa_LWS_to_MUL_SH_SL_ok: "list_all insn_ok isa_LWS_to_MUL_SH_SL"
  by (simp add: isa_LWS_to_MUL_SH_SL_def insn_ok_def)

lemma isa_MUL_SH_UH_to_MUL_SL_SH_ok: "list_all insn_ok isa_MUL_SH_UH_to_MUL_SL_SH"
  by (simp add: isa_MUL_SH_UH_to_MUL_SL_SH_def insn_ok_def)

lemma isa_MUL_SL_SL_to_MUL_STEP_ok: "list_all insn_ok isa_MUL_SL_SL_to_MUL_STEP"
  by (simp add: isa_MUL_SL_SL_to_MUL_STEP_def insn_ok_def)

lemma isa_MUL_UH_UH_to_MUL_UL_UH_ok: "list_all insn_ok isa_MUL_UH_UH_to_MUL_UL_UH"
  by (simp add: isa_MUL_UH_UH_to_MUL_UL_UH_def insn_ok_def)

lemma isa_MUL_UL_UL_ok: "list_all insn_ok isa_MUL_UL_UL"
  by (simp add: isa_MUL_UL_UL_def insn_ok_def)

lemma isa_NAND_to_NOP_ok: "list_all insn_ok isa_NAND_to_NOP"
  by (simp add: isa_NAND_to_NOP_def insn_ok_def)

lemma isa_NOR_to_NOT_ok: "list_all insn_ok isa_NOR_to_NOT"
  by (simp add: isa_NOR_to_NOT_def insn_ok_def)

lemma isa_NXOR_ok: "list_all insn_ok isa_NXOR"
  by (simp add: isa_NXOR_def insn_ok_def)

lemma isa_OR_ok: "list_all insn_ok isa_OR"
  by (simp add: isa_OR_def insn_ok_def)

lemma isa_OR_rest_to_RESUME_ok: "list_all insn_ok isa_OR_rest_to_RESUME"
  by (simp add: isa_OR_rest_to_RESUME_def insn_ok_def)

lemma isa_ROL_to_ROL_ADD_ok: "list_all insn_ok isa_ROL_to_ROL_ADD"
  by (simp add: isa_ROL_to_ROL_ADD_def insn_ok_def)

lemma isa_ROR_ok: "list_all insn_ok isa_ROR"
  by (simp add: isa_ROR_def insn_ok_def)

lemma isa_RSUB_to_SATS_ok: "list_all insn_ok isa_RSUB_to_SATS"
  by (simp add: isa_RSUB_to_SATS_def insn_ok_def)

lemma isa_SB_to_SDMA_ok: "list_all insn_ok isa_SB_to_SDMA"
  by (simp add: isa_SB_to_SDMA_def insn_ok_def)

lemma isa_SDS_to_STOP_ok: "list_all insn_ok isa_SDS_to_STOP"
  by (simp add: isa_SDS_to_STOP_def insn_ok_def)

lemma isa_SUB_ok: "list_all insn_ok isa_SUB"
  by (simp add: isa_SUB_def insn_ok_def)

lemma isa_SUB_rest_ok: "list_all insn_ok isa_SUB_rest"
  by (simp add: isa_SUB_rest_def insn_ok_def)

lemma isa_SUBC_ok: "list_all insn_ok isa_SUBC"
  by (simp add: isa_SUBC_def insn_ok_def)

lemma isa_SUBC_rest_to_SW_ok: "list_all insn_ok isa_SUBC_rest_to_SW"
  by (simp add: isa_SUBC_rest_to_SW_def insn_ok_def)

lemma isa_SW_ID_to_TIME_CFG_ok: "list_all insn_ok isa_SW_ID_to_TIME_CFG"
  by (simp add: isa_SW_ID_to_TIME_CFG_def insn_ok_def)

lemma isa_XOR_ok: "list_all insn_ok isa_XOR"
  by (simp add: isa_XOR_def insn_ok_def)

lemma instructions_ok: "i \<in> set instructions \<Longrightarrow> insn_ok i"
proof -
  assume "i \<in> set instructions"
  moreover have "list_all insn_ok instructions"
    unfolding instructions_def list_all_append
    by (intro conjI isa_ACQUIRE_ok isa_ADD_ok isa_ADD_rest_ok isa_ADDC_ok isa_ADDS_ok isa_AND_ok isa_AND_rest_to_ANDN_ok isa_ASR_to_CALL_ok isa_CAO_to_CLS_ok isa_CLZ_to_EXTSB_ok isa_EXTSH_to_FAULT_ok isa_HASH_to_JGES_ok isa_JGEU_to_LBSS_ok isa_LBU_to_LHU_ok isa_LHUS_to_LSL_ok isa_LSL1_ok isa_LSL1X_ok isa_LSL_to_LSL_SUB_ok isa_LSLX_ok isa_LSR_ok isa_LSR1_ok isa_LSR1X_ok isa_LSR_rest_to_LSR_ADD_ok isa_LSRX_to_LW_ok isa_LWS_to_MUL_SH_SL_ok isa_MUL_SH_UH_to_MUL_SL_SH_ok isa_MUL_SL_SL_to_MUL_STEP_ok isa_MUL_UH_UH_to_MUL_UL_UH_ok isa_MUL_UL_UL_ok isa_NAND_to_NOP_ok isa_NOR_to_NOT_ok isa_NXOR_ok isa_OR_ok isa_OR_rest_to_RESUME_ok isa_ROL_to_ROL_ADD_ok isa_ROR_ok isa_RSUB_to_SATS_ok isa_SB_to_SDMA_ok isa_SDS_to_STOP_ok isa_SUB_ok isa_SUB_rest_ok isa_SUBC_ok isa_SUBC_rest_to_SW_ok isa_SW_ID_to_TIME_CFG_ok isa_XOR_ok)
  ultimately show ?thesis by (simp add: list_all_iff)
qed

end
