(* ===== verification/Ci_Encoding.thy ===== *)
theory Ci_Encoding
  imports Ufi_Select Dpu_Isa_Table
begin

text \<open>
  What the 64-bit commands of \<open>Ci_Commands\<close> carry: the bytes of a frame or of a structure are the
  arguments of the macro, so that encoded values can be read back, and no command built for a CI
  is the \<open>CI_EMPTY\<close> that means "nothing for this CI".
\<close>

lemma bit_push_ucast:
  "i < 8 \<Longrightarrow> j < 8 \<Longrightarrow> k < 8 \<Longrightarrow> bit (push_bit (8 * j) (ucast (b :: u8) :: u64)) (8 * k + i) \<longleftrightarrow> j = k \<and> bit b i"
  by (cases j k rule: linorder_cases)
     (auto simp: bit_push_bit_iff bit_ucast_iff dest: bit_imp_le_length)

lemma cbyte_eqI:
  assumes "\<And>i. i < 8 \<Longrightarrow> bit x (8 * k + i) \<longleftrightarrow> bit (b :: u8) i"
  shows "cbyte k x = ucast b"
proof (rule bit_word_eqI)
  fix n assume "n < LENGTH(64)"
  then show "bit (cbyte k x) n \<longleftrightarrow> bit (ucast b :: u64) n"
    using assms [of n] bit_imp_le_length [of b n] by (auto simp: bit_cbyte bit_ucast_iff)
qed

definition join_bytes :: "u8 list \<Rightarrow> u64" where
  "join_bytes bs = fold (\<lambda>j acc. acc OR push_bit (8 * j) (ucast (bs ! j))) [0..<8] 0"

lemma cbyte_join_bytes: "k < 8 \<Longrightarrow> cbyte k (join_bytes bs) = ucast (bs ! k)"
  by (rule cbyte_eqI) (auto simp: join_bytes_def bit_fold_or bit_push_ucast simp del: upt_rec_numeral)

lemma upt_8: "[0..<8] = [0, 1, 2, 3, 4, 5, 6, 7 :: nat]"
  by (simp add: numeral_eq_Suc)

lemma ci_frame_join:
  "ci_frame (ucast b0) (ucast b1) (ucast b2) (ucast b3) (ucast b4) (ucast b5) (ucast (b6 :: u8)) =
     join_bytes [b0, b1, b2, b3, b4, b5, b6, 0x33]"
  by (simp add: ci_frame_def join_bytes_def upt_8 or.assoc or.commute or.left_commute)

lemma cbyte_ci_frame:
  fixes b0 b1 b2 b3 b4 b5 b6 :: u8
  defines "f \<equiv> ci_frame (ucast b0) (ucast b1) (ucast b2) (ucast b3) (ucast b4) (ucast b5) (ucast b6)"
  shows "cbyte 0 f = ucast b0" "cbyte 1 f = ucast b1" "cbyte 2 f = ucast b2" "cbyte 3 f = ucast b3"
    "cbyte 4 f = ucast b4" "cbyte 5 f = ucast b5" "cbyte 6 f = ucast b6" "cbyte 7 f = 0x33"
  unfolding f_def ci_frame_join by (simp_all add: cbyte_join_bytes)

text \<open>How a DMA control frame is read: two nibbles of address, then two nibbles of data.\<close>

definition dma_ctrl_address :: "u64 \<Rightarrow> u8" where
  "dma_ctrl_address f = push_bit 4 (ucast (cbyte 0 f) AND 0xF) OR (ucast (cbyte 1 f) AND 0xF)"

definition dma_ctrl_data :: "u64 \<Rightarrow> u8" where
  "dma_ctrl_data f = push_bit 4 (ucast (cbyte 2 f) AND 0xF) OR (ucast (cbyte 3 f) AND 0xF)"

lemma nibbles_join:
  "push_bit 4 ((0x60 OR (drop_bit 4 x AND 0x0F)) AND 0xF) OR ((0x60 OR (drop_bit 0 x AND 0x0F)) AND 0xF) = (x :: u8)"
proof -
  have 60: "bit (0x60 :: u8) k \<longleftrightarrow> k = 5 \<or> k = 6" if "k < 8" for k
  proof -
    have "k \<in> {0, 1, 2, 3, 4, 5, 6, 7}" using that by auto
    then show ?thesis by (elim insertE emptyE) simp_all
  qed
  show ?thesis
  proof (rule bit_word_eqI)
    fix n assume n: "n < LENGTH(8)"
    then have "n \<in> {0, 1, 2, 3, 4, 5, 6, 7}" by auto
    then show "bit (push_bit 4 ((0x60 OR (drop_bit 4 x AND 0x0F)) AND 0xF) OR ((0x60 OR (drop_bit 0 x AND 0x0F)) AND 0xF)) n
        \<longleftrightarrow> bit x n"
      by (elim insertE emptyE) (simp_all add: bit_simps)
  qed
qed

text \<open>
  The address and the data of a DMA control register write can be read back from its frame,
  whatever their values, and the frame is tagged as a frame.
\<close>

theorem dma_ctrl_frame_round_trip:
  "dma_ctrl_address (ci_dma_ctrl_write_frame address data) = address
   \<and> dma_ctrl_data (ci_dma_ctrl_write_frame address data) = data
   \<and> cbyte 7 (ci_dma_ctrl_write_frame address data) = 0x33"
proof -
  let ?b = "\<lambda>x n. 0x60 OR (drop_bit n x AND 0x0F) :: u8"
  have f: "ci_dma_ctrl_write_frame address data = ci_frame (ucast (?b address 4)) (ucast (?b address 0))
      (ucast (?b data 4)) (ucast (?b data 0)) (ucast (0x60 :: u8)) (ucast (0x20 :: u8)) (ucast (0xA7 :: u8))"
    by (simp add: ci_dma_ctrl_write_frame_def CI_DMA_CTRL_WRITE_FRAME_def Let_def)
  have u: "ucast (ucast (b :: u8) :: u64) = b" for b by (rule bit_word_eqI) (simp add: bit_ucast_iff)
  show ?thesis
    unfolding dma_ctrl_address_def dma_ctrl_data_def f cbyte_ci_frame u by (simp add: nibbles_join [simplified])
qed

section \<open>Instructions in frames\<close>

lemma bit_push_cbyte: "bit (push_bit (8 * k) (cbyte k x)) n \<longleftrightarrow> 8 * k \<le> n \<and> n < 8 * k + 8 \<and> bit x n"
  by (auto simp: bit_push_bit_iff bit_cbyte dest: bit_imp_le_length)

lemma frame_instruction: "take_bit 48 (CI_IRAM_WRITE_INSTRUCTION_FRAME x a) = take_bit 48 x"
proof (rule bit_word_eqI)
  fix n assume "n < LENGTH(64)"
  have push: "push_bit 0 (cbyte 0 x) = push_bit (8 * 0) (cbyte 0 x)" "push_bit 8 (cbyte 1 x) = push_bit (8 * 1) (cbyte 1 x)"
    "push_bit 16 (cbyte 2 x) = push_bit (8 * 2) (cbyte 2 x)" "push_bit 24 (cbyte 3 x) = push_bit (8 * 3) (cbyte 3 x)"
    "push_bit 32 (cbyte 4 x) = push_bit (8 * 4) (cbyte 4 x)" "push_bit 40 (cbyte 5 x) = push_bit (8 * 5) (cbyte 5 x)" by simp_all
  have tag: "\<not> bit (0x3300000000000000 :: u64) n" if "n < 48"
  proof -
    have "(0x3300000000000000 :: u64) = push_bit 56 0x33" by simp
    with that show ?thesis by (simp only: bit_push_bit_iff) simp
  qed
  have address: "\<not> bit (push_bit 48 (cbyte 0 a)) n" if "n < 48" using that by (simp add: bit_push_bit_iff)
  show "bit (take_bit 48 (CI_IRAM_WRITE_INSTRUCTION_FRAME x a)) n \<longleftrightarrow> bit (take_bit 48 x) n"
    unfolding CI_IRAM_WRITE_INSTRUCTION_FRAME_def ci_frame_def push bit_take_bit_iff bit_or_iff bit_push_cbyte
    using tag address by auto
qed

text \<open>
  The operands of each of the instructions of the encoder are read back, as far as the instruction has room
  for them, from the frame that writes the instruction to the IRAM: no two operands share a bit, no
  operand disturbs the opcode, and the six bytes of the frame hold the whole instruction.
\<close>

theorem iram_frame_operands:
  assumes "i \<in> set instructions"
  shows "decode_operand i x (take_bit 48 (CI_IRAM_WRITE_INSTRUCTION_FRAME (encode i operands) address))
      = operands ! x AND operand_mask i x"
  using assms by (simp add: frame_instruction encode_48_bits decode_encode instructions_ok)

text \<open>The load of 256 double words that \<^verbatim>\<open>api/src/dpu_memory.c\<close> patches into its program.\<close>

definition LDMArri :: insn where
  "LDMArri = Insn ''LDMArri'' 3 0x700000000000 [(1, 0, 7, 17), (1, 3, 3, 32), (0, 0, 0x1f, 34), (2, 0, 0xff, 24)]"

lemma LDMArri_instruction: "LDMArri \<in> set instructions"
proof -
  have "LDMArri \<in> set isa_LBU_to_LHU" by (simp add: LDMArri_def isa_LBU_to_LHU_def)
  then show ?thesis by (simp add: instructions_def)
qed

theorem iram_frame_operands_witness:
  "decode_operand LDMArri 2 (take_bit 48 (CI_IRAM_WRITE_INSTRUCTION_FRAME (encode LDMArri [2, 0, 255]) 11)) = 255"
  using iram_frame_operands [OF LDMArri_instruction, of 2 "[2, 0, 255]" 11] by (simp add: operand_mask_def LDMArri_def)

end
