(* ===== verification/Ufi_Mux.thy ===== *)
theory Ufi_Mux
  imports Ufi_Frame
begin

text \<open>
  The MRAM multiplexers (second half of \<^verbatim>\<open>ufi/src/ufi_config.c\<close>) and the runner
  (\<^verbatim>\<open>ufi/src/ufi_runner.c\<close>). The MRAM of a DPU is reached either by the host or by the DPU; the
  rank records the side of every DPU in \<open>host_mux_mram_state\<close> of its slices. DPUs \<open>2k\<close> and \<open>2k+1\<close> of
  a CI share their multiplexer setting, so a switch of one line switches the pair.

  A \<^verbatim>\<open>struct dpu_t *\<close> argument is its position: the slice and the member identifiers.
\<close>

definition ALL_CIS :: u8 where "ALL_CIS = 0xFF"

lemma bit_ALL_CIS: "bit ALL_CIS ci \<longleftrightarrow> ci < 8"
  unfolding ALL_CIS_def by (subst bit_255_iff) simp

definition WAVEGEN_MUX_HOST_EXPECTED :: u8 where "WAVEGEN_MUX_HOST_EXPECTED = 0x00"

definition WAVEGEN_MUX_DPU_EXPECTED :: u8 where "WAVEGEN_MUX_DPU_EXPECTED = bit_of 0 OR bit_of 1"

definition TIMEOUT_MUX_STATUS :: nat where "TIMEOUT_MUX_STATUS = 100"

definition CMD_GET_MUX_CTRL :: u8 where "CMD_GET_MUX_CTRL = 0x02"

definition dpu_is_enabled :: "'w dpu_rank \<Rightarrow> nat \<Rightarrow> nat \<Rightarrow> bool" where
  "dpu_is_enabled r slice_id dpu_id = dpu_enabled (dpu_get_unsafe r slice_id dpu_id)"

definition dpu_wavegen_read_status :: "nat \<Rightarrow> nat \<Rightarrow> u8 \<Rightarrow> ('w, u8) ufi" where
  "dpu_wavegen_read_status slice_id dpu_id address = (\<lambda>r.
     if \<not> dpu_is_enabled r slice_id dpu_id then fail DPU_ERR_DPU_DISABLED r
     else FF (ufi_select_dpu (bit_of slice_id) dpu_id) (\<lambda>ci_mask.
          FF (ufi_write_dma_ctrl ci_mask 0xFF (address AND 3)) (\<lambda>_.
          FF (ufi_clear_dma_ctrl ci_mask) (\<lambda>_.
          FF (ufi_read_dma_ctrl ci_mask (replicate 8 0)) (\<lambda>results.
          ok (results ! slice_id))))) r)"

section \<open>Checking the multiplexers\<close>

text \<open>
  Both checks poll until the status of every CI is the expected one. The timeout is decremented
  before it is tested: the loop reports whether it reached 0, whatever the last poll showed.
\<close>

definition mux_mismatch :: "u8 list \<Rightarrow> (nat \<Rightarrow> u8) \<Rightarrow> nat \<Rightarrow> bool" where
  "mux_mismatch results expected each_slice \<longleftrightarrow> results ! each_slice AND 0x7B \<noteq> expected each_slice"

fun dpu_mux_loop :: "nat \<Rightarrow> u8 \<Rightarrow> (nat \<Rightarrow> u8) \<Rightarrow> u8 list \<Rightarrow> ('w, bool) ufi" where
  "dpu_mux_loop timeout ci_mask expected result_array =
     FF (ufi_read_dma_ctrl ci_mask result_array) (\<lambda>results r.
       let should_retry = list_ex (mux_mismatch results expected) (ci_list r ci_mask);
           timeout' = timeout - 1
       in if timeout' \<noteq> 0 \<and> should_retry then dpu_mux_loop timeout' ci_mask expected results r
          else ok (timeout' = 0) r)"

definition report_mux_timeout :: "bool \<Rightarrow> ('w, unit) ufi" where
  "report_mux_timeout timed_out = (\<lambda>r.
     if timed_out \<and> \<not> disable_api_safe_checks (r_configuration r) then fail DPU_ERR_TIMEOUT r else ok () r)"

definition dpu_check_wavegen_mux_status_for_dpu :: "nat \<Rightarrow> (nat \<Rightarrow> u8) \<Rightarrow> ('w, unit) ufi" where
  "dpu_check_wavegen_mux_status_for_dpu dpu_id expected =
     FF (ufi_select_dpu_even_disabled ALL_CIS dpu_id) (\<lambda>ci_mask.
     FF (ufi_write_dma_ctrl ci_mask 0xFF CMD_GET_MUX_CTRL) (\<lambda>_.
     FF (ufi_clear_dma_ctrl ci_mask) (\<lambda>_.
     FF (dpu_mux_loop TIMEOUT_MUX_STATUS ci_mask expected (replicate 8 0)) report_mux_timeout)))"

fun rank_mux_loop :: "nat \<Rightarrow> nat \<Rightarrow> u8 \<Rightarrow> u8 \<Rightarrow> u8 list \<Rightarrow> ('w, bool \<times> u8 list) ufi" where
  "rank_mux_loop timeout each_dpu ci_mask expected result_array =
     FF (ufi_select_dpu_even_disabled ALL_CIS each_dpu) (\<lambda>sel_mask.
     FF (ufi_read_dma_ctrl sel_mask result_array) (\<lambda>results r.
       let should_retry = list_ex (mux_mismatch results (\<lambda>_. expected)) (ci_list r ci_mask);
           timeout' = timeout - 1
       in if timeout' \<noteq> 0 \<and> should_retry then rank_mux_loop timeout' each_dpu ci_mask expected results r
          else ok (timeout' = 0, results) r))"

declare dpu_mux_loop.simps [simp del] rank_mux_loop.simps [simp del]

text \<open>A timeout on one DPU line returns at once: the lines after it are not looked at.\<close>

definition dpu_check_wavegen_mux_status_for_rank :: "u8 \<Rightarrow> ('w, unit) ufi" where
  "dpu_check_wavegen_mux_status_for_rank expected =
     FF (ufi_select_all_even_disabled ALL_CIS) (\<lambda>ci_mask.
     FF (ufi_write_dma_ctrl ci_mask 0xFF CMD_GET_MUX_CTRL) (\<lambda>_.
     FF (ufi_clear_dma_ctrl ci_mask) (\<lambda>_ r.
     FF (mfor [0..<nr_dpus r] (\<lambda>each_dpu (timed_out, results).
           if timed_out then ok (timed_out, results)
           else rank_mux_loop TIMEOUT_MUX_STATUS each_dpu ci_mask expected results)
         (False, replicate 8 0)) (\<lambda>(timed_out, _). report_mux_timeout timed_out) r)))"

section \<open>Switching the multiplexers\<close>

definition host_handle_access_for_dpu :: "nat \<Rightarrow> u8 \<Rightarrow> ('w, unit) ufi" where
  "host_handle_access_for_dpu dpu_id ci_mux_pos =
     FF (ufi_select_dpu_even_disabled ALL_CIS dpu_id) (\<lambda>ci_mask.
     FF (ufi_set_mram_mux ci_mask ci_mux_pos) (\<lambda>_.
     dpu_check_wavegen_mux_status_for_dpu dpu_id
       (\<lambda>slice_id. if ci_mux_pos AND bit_of slice_id \<noteq> 0 then WAVEGEN_MUX_HOST_EXPECTED
                   else WAVEGEN_MUX_DPU_EXPECTED)))"

definition host_handle_access_for_rank :: "bool \<Rightarrow> ('w, unit) ufi" where
  "host_handle_access_for_rank set_mux_for_host =
     FF (ufi_select_all_even_disabled ALL_CIS) (\<lambda>ci_mask.
     FF (ufi_set_mram_mux ci_mask (if set_mux_for_host then 0xFF else 0x0)) (\<lambda>_.
     dpu_check_wavegen_mux_status_for_rank
       (if set_mux_for_host then WAVEGEN_MUX_HOST_EXPECTED else WAVEGEN_MUX_DPU_EXPECTED)))"

text \<open>The sides of the DPUs of one line, one bit per CI.\<close>

definition mux_line :: "'w dpu_rank \<Rightarrow> nat \<Rightarrow> u8" where
  "mux_line r dpu_id =
     fold (\<lambda>each_slice m. m OR push_bit each_slice (dpu_get_host_mux_mram_state r each_slice dpu_id))
       [0..<nr_cis r] 0"

definition pair_base :: "nat \<Rightarrow> nat" where
  "pair_base dpu_id = dpu_id - dpu_id mod 2"

definition switch_lines :: "'w dpu_rank \<Rightarrow> nat \<Rightarrow> u8 \<Rightarrow> bool \<times> bool" where
  "switch_lines r dpu_id ci_mask =
     (let base = pair_base dpu_id in
      (mux_line r base \<noteq> ci_mask, base + 1 < nr_dpus r \<and> mux_line r (base + 1) \<noteq> ci_mask))"

definition running_on_lines :: "'w dpu_rank \<Rightarrow> nat \<Rightarrow> bool \<Rightarrow> bool \<Rightarrow> nat" where
  "running_on_lines r base switch_base_line switch_friend_line =
     (let run_mask = (if switch_base_line then dpu_mask_select dpu_mask_empty base else dpu_mask_empty);
          run_mask = (if switch_friend_line then dpu_mask_select run_mask (base + 1) else run_mask)
      in fold (\<lambda>each_slice n. n + dpu_mask_count (dpu_mask_intersection
                (dpu_running (r_run_context r) ! each_slice) run_mask)) [0..<nr_cis r] 0)"

definition record_mux_lines :: "nat \<Rightarrow> bool \<Rightarrow> bool \<Rightarrow> u8 \<Rightarrow> 'w dpu_rank \<Rightarrow> 'w dpu_rank" where
  "record_mux_lines base switch_base_line switch_friend_line ci_mask r =
     fold (\<lambda>each_slice r.
       let host_side = (ci_mask AND bit_of each_slice \<noteq> 0);
           r1 = (if switch_base_line then dpu_set_host_mux_mram_state each_slice base host_side r else r)
       in if switch_friend_line then dpu_set_host_mux_mram_state each_slice (base + 1) host_side r1 else r1)
     [0..<nr_cis r] r"

definition dpu_switch_mux_for_dpu_line :: "nat \<Rightarrow> u8 \<Rightarrow> ('w, unit) ufi" where
  "dpu_switch_mux_for_dpu_line dpu_id ci_mask = (\<lambda>r.
     let base = pair_base dpu_id in
     (case switch_lines r dpu_id ci_mask of (switch_base_line, switch_friend_line) \<Rightarrow>
        if \<not> switch_base_line \<and> \<not> switch_friend_line then ok () r
        else if running_on_lines r base switch_base_line switch_friend_line > 0
        then fail DPU_ERR_MRAM_BUSY r
        else FF (modify (record_mux_lines base switch_base_line switch_friend_line ci_mask)) (\<lambda>_.
             if \<not> api_must_switch_mram_mux (r_configuration r) then ok ()
             else FF (if switch_base_line then host_handle_access_for_dpu base ci_mask else ok ()) (\<lambda>_.
                  if switch_friend_line then host_handle_access_for_dpu (base + 1) ci_mask else ok ())) r))"

definition mux_wrong :: "'w dpu_rank \<Rightarrow> bool \<Rightarrow> nat \<Rightarrow> bool" where
  "mux_wrong r set_mux_for_host each_slice =
     (let state = host_mux_mram_state (r_slice r each_slice) in
      (set_mux_for_host \<and> popcount state < nr_dpus r) \<or> (\<not> set_mux_for_host \<and> state \<noteq> 0))"

definition set_mux_state :: "u8 \<Rightarrow> nat \<Rightarrow> 'w dpu_rank \<Rightarrow> 'w dpu_rank" where
  "set_mux_state x ci = upd_slice ci (\<lambda>i. i\<lparr>host_mux_mram_state := x\<rparr>)"

definition record_mux_rank :: "bool \<Rightarrow> 'w dpu_rank \<Rightarrow> 'w dpu_rank" where
  "record_mux_rank set_mux_for_host r =
     fold (set_mux_state (if set_mux_for_host then bit_of (nr_dpus r) - 1 else 0x0)) [0..<nr_cis r] r"

definition dpu_switch_mux_for_rank :: "bool \<Rightarrow> ('w, unit) ufi" where
  "dpu_switch_mux_for_rank set_mux_for_host = (\<lambda>r.
     if nb_dpu_running (r_run_context r) > 0 then fail DPU_ERR_MRAM_BUSY r
     else if \<not> list_ex (mux_wrong r set_mux_for_host) [0..<nr_cis r] then ok () r
     else FF (modify (record_mux_rank set_mux_for_host)) (\<lambda>_.
          if \<not> api_must_switch_mram_mux (r_configuration r) \<and> \<not> init_mram_mux (r_configuration r) then ok ()
          else host_handle_access_for_rank set_mux_for_host) r)"

section \<open>Starting threads and polling (ufi_runner.c)\<close>

definition mux_line_outside :: "u8 \<Rightarrow> 'w dpu_rank \<Rightarrow> nat \<Rightarrow> u8" where
  "mux_line_outside ci_mask r dpu_id =
     fold (\<lambda>each_slice m.
       if \<not> CI_MASK_ON ci_mask each_slice
       then m OR push_bit each_slice (dpu_get_host_mux_mram_state r each_slice dpu_id) else m)
     [0..<nr_cis r] 0"

definition start_thread :: "bool \<Rightarrow> u8 \<Rightarrow> u8 \<Rightarrow> u8 list option \<Rightarrow> ('w, u8 list option) ufi" where
  "start_thread resume ci_mask thread previous =
     (if resume then ufi_thread_resume ci_mask thread previous else ufi_thread_boot ci_mask thread previous)"

definition ci_start_thread_rank :: "u8 \<Rightarrow> bool \<Rightarrow> u8 list option \<Rightarrow> ('w, u8 list option) ufi" where
  "ci_start_thread_rank thread resume previous =
     FF (ufi_select_all ALL_CIS) (\<lambda>ci_mask.
     FF (if ci_mask = ALL_CIS then dpu_switch_mux_for_rank False
         else (\<lambda>r. mfor [0..<nr_dpus r] (\<lambda>each_dpu _ r.
                dpu_switch_mux_for_dpu_line each_dpu (mux_line_outside ci_mask r each_dpu) r) () r)) (\<lambda>_.
     FF (ufi_select_all ci_mask) (\<lambda>ci_mask.
     start_thread resume ci_mask thread previous)))"

definition ci_start_thread_dpu :: "nat \<Rightarrow> nat \<Rightarrow> u8 \<Rightarrow> bool \<Rightarrow> u8 list option \<Rightarrow> ('w, u8 list option) ufi" where
  "ci_start_thread_dpu slice_id dpu_id thread resume previous = (\<lambda>r.
     let ci_mask = bit_of slice_id in
     FF (dpu_switch_mux_for_dpu_line dpu_id (mux_line_outside ci_mask r dpu_id)) (\<lambda>_.
     FF (ufi_select_dpu ci_mask dpu_id) (\<lambda>ci_mask.
     start_thread resume ci_mask thread previous)) r)"

definition ci_poll_rank :: "u8 list \<Rightarrow> u8 list \<Rightarrow> ('w, u8 list \<times> u8 list) ufi" where
  "ci_poll_rank run fault =
     FF (ufi_select_all ALL_CIS) (\<lambda>ci_mask.
     FF (ufi_read_dpu_run ci_mask run) (\<lambda>run'.
     FF (ufi_read_dpu_fault ci_mask fault) (\<lambda>fault'.
     ok (run', fault'))))"

definition ci_sample_pc_dpu :: "nat \<Rightarrow> nat \<Rightarrow> ('w, u16) ufi" where
  "ci_sample_pc_dpu slice_id dpu_id =
     FF (ufi_select_dpu (bit_of slice_id) dpu_id) (\<lambda>ci_mask.
     FF (ufi_debug_pc_sample ci_mask) (\<lambda>_.
     FF (ufi_debug_pc_read ci_mask (replicate 8 0)) (\<lambda>pcs.
     ok (pcs ! slice_id))))"

section \<open>Frames\<close>

context ufi_target_frame
begin

lemma keeps_dpu_mux_loop: "keeps I (dpu_mux_loop n m e res)"
proof (induction n arbitrary: res rule: nat_less_induct)
  case (1 n)
  show ?case
  proof (subst dpu_mux_loop.simps, rule keeps_FF)
    show "keeps I (ufi_read_dma_ctrl m res)" by (rule keeps_ufi)
    fix x
    show "keeps I (\<lambda>r. let should_retry = list_ex (mux_mismatch x e) (ci_list r m); timeout' = n - 1
       in if timeout' \<noteq> 0 \<and> should_retry then dpu_mux_loop timeout' m e x r else ok (timeout' = 0) r)"
      unfolding Let_def using 1 by (cases "n - 1 = 0") (auto intro!: keeps_if_state keeps_Pair)
  qed
qed

lemma keeps_rank_mux_loop: "keeps I (rank_mux_loop n d m e res)"
proof (induction n arbitrary: res rule: nat_less_induct)
  case (1 n)
  show ?case
  proof (subst rank_mux_loop.simps, intro keeps_FF)
    show "keeps I (ufi_select_dpu_even_disabled ALL_CIS d)" by (rule keeps_select)
    show "keeps I (ufi_read_dma_ctrl sm res)" for sm by (rule keeps_ufi)
    fix sm :: u8 and x
    show "keeps I (\<lambda>r. let should_retry = list_ex (mux_mismatch x (\<lambda>_. e)) (ci_list r m); timeout' = n - 1
       in if timeout' \<noteq> 0 \<and> should_retry then rank_mux_loop timeout' d m e x r else ok (timeout' = 0, x) r)"
      unfolding Let_def using 1 by (cases "n - 1 = 0") (auto intro!: keeps_if_state keeps_Pair)
  qed
qed

lemma keeps_report: "keeps I (report_mux_timeout b)"
  by (rule keepsI) (simp add: report_mux_timeout_def)

lemma keeps_check_dpu: "keeps I (dpu_check_wavegen_mux_status_for_dpu d e)"
  unfolding dpu_check_wavegen_mux_status_for_dpu_def
  by (intro keeps_FF keeps_select keeps_ufi keeps_dpu_mux_loop keeps_report)

lemma keeps_check_rank: "keeps I (dpu_check_wavegen_mux_status_for_rank e)"
proof -
  have "keeps I (mfor ds (\<lambda>each_dpu (timed_out, results).
      if timed_out then ok (timed_out, results)
      else rank_mux_loop TIMEOUT_MUX_STATUS each_dpu m e results) a)" for ds m a
    by (rule keeps_mfor) (auto intro: keeps_rank_mux_loop keeps_ok split: prod.split)
  then have loop: "keeps I (FF (mfor ds (\<lambda>each_dpu (timed_out, results).
      if timed_out then ok (timed_out, results)
      else rank_mux_loop TIMEOUT_MUX_STATUS each_dpu m e results) a) (\<lambda>(timed_out, _). report_mux_timeout timed_out))" for ds m a
    by (intro keeps_FF keeps_case_prod keeps_report)
  show ?thesis unfolding dpu_check_wavegen_mux_status_for_rank_def
    by (intro keeps_FF keeps_select keeps_ufi) (rule keepsI, erule keepsD [OF loop])
qed

lemma keeps_host_access: "keeps I (host_handle_access_for_dpu d pos)" "keeps I (host_handle_access_for_rank b)"
  unfolding host_handle_access_for_dpu_def host_handle_access_for_rank_def
  by (intro keeps_FF keeps_select keeps_ufi keeps_check_dpu keeps_check_rank)+

lemma keeps_wavegen_read_status: "keeps I (dpu_wavegen_read_status s d a)"
  unfolding dpu_wavegen_read_status_def
  by (rule keepsI, simp, intro conjI impI, erule keepsD [rotated], intro keeps_FF keeps_select keeps_ufi keeps_ok)

lemma keeps_start_thread: "keeps I (start_thread res m t p)"
  unfolding start_thread_def by (intro keeps_if keeps_ufi)

lemma keeps_poll_rank: "keeps I (ci_poll_rank run fault)"
  unfolding ci_poll_rank_def by (intro keeps_FF keeps_select keeps_ufi keeps_ok)

lemma keeps_sample_pc: "keeps I (ci_sample_pc_dpu s d)"
  unfolding ci_sample_pc_dpu_def by (intro keeps_FF keeps_select keeps_ufi keeps_ok)

end

end
