(* ===== verification/Mux_Spec.thy ===== *)
theory Mux_Spec
  imports Ufi_Mux Ci_Live
begin

text \<open>
  What the multiplexer operations achieve: which side they record for every DPU, that they refuse
  while a DPU runs, that the two DPUs of a pair stay on the same side, and that threads are only
  started with the MRAM of the booted DPUs on the DPU side.
\<close>

section \<open>The fixed part of a rank\<close>

lemma same_fixedD:
  assumes "same_fixed r t" and "ci < length (slice_info (r_ci r))"
  shows "host_mux_mram_state (r_slice t ci) = host_mux_mram_state (r_slice r ci)"
    and "enabled_dpus (r_slice t ci) = enabled_dpus (r_slice r ci)"
    and "all_dpus_are_enabled (r_slice t ci) = all_dpus_are_enabled (r_slice r ci)"
    and "byte_order (r_slice t ci) = byte_order (r_slice r ci)"
proof -
  have eq: "map fixed_slice (slice_info (r_ci t)) = map fixed_slice (slice_info (r_ci r))"
    using assms(1) by (simp add: same_fixed_def)
  then have "length (slice_info (r_ci t)) = length (slice_info (r_ci r))" by (metis length_map)
  with eq assms(2) have "fixed_slice (r_slice t ci) = fixed_slice (r_slice r ci)" by (metis nth_map)
  then show "host_mux_mram_state (r_slice t ci) = host_mux_mram_state (r_slice r ci)"
    "enabled_dpus (r_slice t ci) = enabled_dpus (r_slice r ci)"
    "all_dpus_are_enabled (r_slice t ci) = all_dpus_are_enabled (r_slice r ci)"
    "byte_order (r_slice t ci) = byte_order (r_slice r ci)"
    by (simp_all add: fixed_slice_def)
qed

lemma same_fixed_hw:
  "same_fixed r t \<Longrightarrow> r_hw t = r_hw r" "same_fixed r t \<Longrightarrow> r_run_context t = r_run_context r"
  "same_fixed r t \<Longrightarrow> r_dpus t = r_dpus r" "same_fixed r t \<Longrightarrow> r_configuration t = r_configuration r"
  by (simp_all add: same_fixed_def)

text \<open>An operation that keeps the fixed part, run on a well-formed rank.\<close>

lemma fixed_run:
  assumes "\<And>r0. keeps (\<lambda>s. rank_wf s \<and> same_fixed r0 s) m" and "rank_wf r" and "m r = (out, t)"
  shows "rank_wf t \<and> same_fixed r t"
proof -
  have "rank_wf r \<and> same_fixed r r" using assms(2) by simp
  from keeps_eqD [OF assms(1) this assms(3)] show ?thesis .
qed

section \<open>What is recorded\<close>

definition mux_bit :: "'w dpu_rank \<Rightarrow> nat \<Rightarrow> nat \<Rightarrow> bool" where
  "mux_bit r ci d \<longleftrightarrow> bit (host_mux_mram_state (r_slice r ci)) d"

lemma bit_mux_state: "bit (dpu_get_host_mux_mram_state r ci d) k \<longleftrightarrow> k = 0 \<and> mux_bit r ci d"
  by (auto simp: dpu_get_host_mux_mram_state_def mux_bit_def bit_and_iff bit_drop_bit_eq bit_1_iff)

lemma bit_mux_fold:
  "bit (fold (\<lambda>ci m. if P ci then m OR push_bit ci (dpu_get_host_mux_mram_state r ci d) else m) cis (m :: u8)) j
    \<longleftrightarrow> bit m j \<or> (j \<in> set cis \<and> P j \<and> j < 8 \<and> mux_bit r j d)"
proof (induction cis arbitrary: m)
  case (Cons ci cis)
  have "bit (push_bit ci (dpu_get_host_mux_mram_state r ci d) :: u8) j \<longleftrightarrow> j = ci \<and> j < 8 \<and> mux_bit r ci d"
    by (auto simp: bit_push_bit_iff bit_mux_state)
  then show ?case by (auto simp: Cons.IH bit_or_iff)
qed simp

lemma bit_mux_line: "bit (mux_line r d) j \<longleftrightarrow> j < nr_cis r \<and> j < 8 \<and> mux_bit r j d"
  using bit_mux_fold [of "\<lambda>_. True" r d "[0..<nr_cis r]" 0 j] by (auto simp: mux_line_def)

lemma bit_mux_line_outside:
  "bit (mux_line_outside cm r d) j \<longleftrightarrow> j < nr_cis r \<and> j < 8 \<and> \<not> bit cm j \<and> mux_bit r j d"
  using bit_mux_fold [of "\<lambda>ci. \<not> CI_MASK_ON cm ci" r d "[0..<nr_cis r]" 0 j]
  by (auto simp: mux_line_outside_def CI_MASK_ON_bit)

definition line_byte :: "nat \<Rightarrow> bool \<Rightarrow> bool \<Rightarrow> bool \<Rightarrow> u8 \<Rightarrow> u8" where
  "line_byte base b f host x =
     (let set_side = (\<lambda>k x. if host then x OR bit_of k else x AND NOT (bit_of k) :: u8);
          x1 = (if b then set_side base x else x)
      in if f then set_side (base + 1) x1 else x1)"

lemma bit_line_byte:
  "bit (line_byte base b f host x) k \<longleftrightarrow>
     k < 8 \<and> (if b \<and> k = base \<or> f \<and> k = base + 1 then host else bit x k)"
  using bit_imp_le_length [of x k]
  by (cases b; cases f; cases host) (auto simp: line_byte_def Let_def bit_or_iff bit_and_iff)

definition record_line :: "nat \<Rightarrow> bool \<Rightarrow> bool \<Rightarrow> u8 \<Rightarrow> nat \<Rightarrow> 'w dpu_rank \<Rightarrow> 'w dpu_rank" where
  "record_line base b f m ci = upd_slice ci (\<lambda>i. i\<lparr>host_mux_mram_state :=
     line_byte base b f (m AND bit_of ci \<noteq> 0) (host_mux_mram_state i)\<rparr>)"

lemma upd_slice_id [simp]: "upd_slice ci (\<lambda>i. i) r = r"
  by (simp add: upd_slice_def)

lemma upd_slice_comp:
  "ci < length (slice_info (r_ci r)) \<Longrightarrow> upd_slice ci f (upd_slice ci g r) = upd_slice ci (\<lambda>i. f (g i)) r"
  by (simp add: upd_slice_def)

lemma record_mux_lines_eq:
  assumes "rank_wf r"
  shows "record_mux_lines base b f m r = fold (record_line base b f m) [0..<nr_cis r] r"
proof -
  let ?step = "\<lambda>each_slice r. let host_side = m AND bit_of each_slice \<noteq> 0;
      r1 = if b then dpu_set_host_mux_mram_state each_slice base host_side r else r
    in if f then dpu_set_host_mux_mram_state each_slice (base + 1) host_side r1 else r1"
  have step: "?step ci r = record_line base b f m ci r" if "ci < length (slice_info (r_ci r))" for ci and r :: "'a dpu_rank"
    using that
    by (cases b; cases f) (auto simp: record_line_def line_byte_def dpu_set_host_mux_mram_state_def
        upd_slice_comp Let_def cong: if_cong)
  have "fold ?step cis r = fold (record_line base b f m) cis r"
    if "\<forall>ci \<in> set cis. ci < length (slice_info (r_ci r))" for cis and r :: "'a dpu_rank"
    using that
  proof (induction cis arbitrary: r)
    case (Cons ci cis)
    have "\<forall>j \<in> set cis. j < length (slice_info (r_ci (record_line base b f m ci r)))"
      using Cons.prems by (simp add: record_line_def)
    then show ?case using Cons.IH Cons.prems step [of ci r] by simp
  qed simp
  moreover have "\<forall>ci \<in> set [0..<nr_cis r]. ci < length (slice_info (r_ci r))"
    using rank_wfD(2,4) [OF assms] by auto
  ultimately show ?thesis unfolding record_mux_lines_def by blast
qed

lemma fold_upd_slice_simps [simp]:
  "r_cmds (fold (\<lambda>ci. upd_slice ci (f ci)) cis r) = r_cmds r"
  "r_hw (fold (\<lambda>ci. upd_slice ci (f ci)) cis r) = r_hw r"
  "r_run_context (fold (\<lambda>ci. upd_slice ci (f ci)) cis r) = r_run_context r"
  "r_configuration (fold (\<lambda>ci. upd_slice ci (f ci)) cis r) = r_configuration r"
  "r_handler (fold (\<lambda>ci. upd_slice ci (f ci)) cis r) = r_handler r"
  "r_world (fold (\<lambda>ci. upd_slice ci (f ci)) cis r) = r_world r"
  "color (r_ci (fold (\<lambda>ci. upd_slice ci (f ci)) cis r)) = color (r_ci r)"
  by (induction cis arbitrary: r) simp_all

lemma rank_wf_fold_upd_slice:
  "rank_wf r \<Longrightarrow> (\<And>ci s. length (dpus_per_group (f ci s)) = length (dpus_per_group s))
    \<Longrightarrow> rank_wf (fold (\<lambda>ci. upd_slice ci (f ci)) cis r)"
  by (rule fold_invariant) (auto intro: rank_wf_upd_slice)

lemma record_rank_eq:
  "record_mux_rank host r = fold (\<lambda>ci. upd_slice ci (\<lambda>i. i\<lparr>host_mux_mram_state :=
     (if host then bit_of (nr_dpus r) - 1 else 0)\<rparr>)) [0..<nr_cis r] r"
  unfolding record_mux_rank_def by (simp add: set_mux_state_def [abs_def])

lemma record_lines_eq:
  "rank_wf r \<Longrightarrow> record_mux_lines base b f m r = fold (\<lambda>ci. upd_slice ci (\<lambda>i. i\<lparr>host_mux_mram_state :=
     line_byte base b f (m AND bit_of ci \<noteq> 0) (host_mux_mram_state i)\<rparr>)) [0..<nr_cis r] r"
  by (simp add: record_mux_lines_eq record_line_def [abs_def])

lemma record_facts:
  assumes "rank_wf r"
  shows "rank_wf (record_mux_rank host r)" "rank_wf (record_mux_lines base b f m r)"
    and "r_hw (record_mux_rank host r) = r_hw r" "r_hw (record_mux_lines base b f m r) = r_hw r"
    and "r_run_context (record_mux_rank host r) = r_run_context r"
    and "r_run_context (record_mux_lines base b f m r) = r_run_context r"
    and "ci < 8 \<Longrightarrow> r_slice (record_mux_rank host r) ci = (if ci < nr_cis r
       then (r_slice r ci)\<lparr>host_mux_mram_state := (if host then bit_of (nr_dpus r) - 1 else 0)\<rparr> else r_slice r ci)"
    and "ci < 8 \<Longrightarrow> r_slice (record_mux_lines base b f m r) ci = (if ci < nr_cis r
       then (r_slice r ci)\<lparr>host_mux_mram_state := line_byte base b f (m AND bit_of ci \<noteq> 0)
         (host_mux_mram_state (r_slice r ci))\<rparr> else r_slice r ci)"
  using assms
  by (simp_all only: record_rank_eq record_lines_eq fold_upd_slice_simps)
     (auto intro!: rank_wf_fold_upd_slice simp: r_slice_fold rank_wfD(4))

section \<open>The two switches\<close>

lemma switch_rank_cases:
  assumes "rank_wf r" and "dpu_switch_mux_for_rank host r = (out, t)"
  shows "(nb_dpu_running (r_run_context r) > 0 \<and> out = Fail DPU_ERR_MRAM_BUSY \<and> t = r)
    \<or> (nb_dpu_running (r_run_context r) = 0 \<and> (\<forall>ci < nr_cis r. \<not> mux_wrong r host ci) \<and> out = Ret () \<and> t = r)
    \<or> (nb_dpu_running (r_run_context r) = 0 \<and> rank_wf t \<and> same_fixed (record_mux_rank host r) t)"
proof (cases "nb_dpu_running (r_run_context r) > 0 \<or> \<not> list_ex (mux_wrong r host) [0..<nr_cis r]")
  case True
  with assms(2) show ?thesis
    by (cases "nb_dpu_running (r_run_context r) > 0")
       (auto simp: dpu_switch_mux_for_rank_def list_ex_iff)
next
  case False
  let ?m = "(if \<not> api_must_switch_mram_mux (r_configuration r) \<and> \<not> init_mram_mux (r_configuration r) then ok ()
      else host_handle_access_for_rank host)"
  have run: "?m (record_mux_rank host r) = (out, t)"
    using assms(2) False by (simp add: dpu_switch_mux_for_rank_def)
  have "keeps (\<lambda>s. rank_wf s \<and> same_fixed r0 s) ?m" for r0
    by (intro keeps_if keeps_ok fixed.keeps_host_access)
  from fixed_run [OF this record_facts(1) [OF assms(1)] run] False show ?thesis by simp
qed

lemma switch_line_cases:
  assumes "rank_wf r" and "dpu_switch_mux_for_dpu_line d m r = (out, t)"
  defines "base \<equiv> pair_base d"
    and "b \<equiv> mux_line r (pair_base d) \<noteq> m"
    and "f \<equiv> pair_base d + 1 < nr_dpus r \<and> mux_line r (pair_base d + 1) \<noteq> m"
  shows "(\<not> b \<and> \<not> f \<and> out = Ret () \<and> t = r)
    \<or> (running_on_lines r base b f > 0 \<and> out = Fail DPU_ERR_MRAM_BUSY \<and> t = r)
    \<or> (running_on_lines r base b f = 0 \<and> rank_wf t \<and> same_fixed (record_mux_lines base b f m r) t)"
proof -
  have lines: "switch_lines r d m = (b, f)" by (simp add: switch_lines_def b_def f_def base_def Let_def)
  show ?thesis
  proof (cases "(\<not> b \<and> \<not> f) \<or> running_on_lines r base b f > 0")
    case True
    with assms(2) lines show ?thesis
      by (auto simp: dpu_switch_mux_for_dpu_line_def Let_def base_def split: if_splits)
  next
    case False
    let ?m = "(if \<not> api_must_switch_mram_mux (r_configuration r) then ok ()
             else FF (if b then host_handle_access_for_dpu base m else ok ()) (\<lambda>_.
                  if f then host_handle_access_for_dpu (base + 1) m else ok ()))"
    have run: "?m (record_mux_lines base b f m r) = (out, t)"
      using assms(2) False lines by (auto simp: dpu_switch_mux_for_dpu_line_def Let_def base_def)
    have "keeps (\<lambda>s. rank_wf s \<and> same_fixed r0 s) ?m" for r0
      by (intro keeps_if keeps_FF keeps_ok fixed.keeps_host_access)
    from fixed_run [OF this record_facts(2) [OF assms(1)] run] False show ?thesis by simp
  qed
qed


section \<open>The invariant of the recorded sides\<close>

text \<open>Only existing DPUs are recorded, and the two DPUs of a pair are on the same side.\<close>

definition mux_inv :: "'w dpu_rank \<Rightarrow> bool" where
  "mux_inv r \<longleftrightarrow> (\<forall>ci < nr_cis r. (\<forall>k. mux_bit r ci k \<longrightarrow> k < nr_dpus r)
     \<and> (\<forall>k. 2 * k + 1 < nr_dpus r \<longrightarrow> mux_bit r ci (2 * k) = mux_bit r ci (2 * k + 1)))"

lemma same_fixed_mux_bit:
  "rank_wf r \<Longrightarrow> same_fixed r t \<Longrightarrow> ci < nr_cis r \<Longrightarrow> mux_bit t ci k = mux_bit r ci k"
  using same_fixedD(1) [of r t ci] rank_wfD(2,4) [of r] by (simp add: mux_bit_def)

lemma same_fixed_mux_inv: "rank_wf r \<Longrightarrow> same_fixed r t \<Longrightarrow> mux_inv t \<longleftrightarrow> mux_inv r"
  using same_fixed_mux_bit [of r t] same_fixed_hw(1) [of r t] by (simp add: mux_inv_def)

lemma full_popcount:
  assumes "\<And>k. bit (x :: u8) k \<Longrightarrow> k < n" and "n \<le> popcount x" and "k < n"
  shows "bit x k"
proof -
  have sub: "{i. bit x i} \<subseteq> {..<n}" using assms(1) by auto
  moreover have "card {i. bit x i} = card {..<n}"
    using card_mono [OF _ sub] assms(2) by (simp add: popcount_card)
  ultimately have "{i. bit x i} = {..<n}" by (intro card_subset_eq) auto
  with assms(3) show ?thesis by blast
qed

lemma switch_rank_bits:
  assumes "rank_wf r" and "mux_inv r" and "dpu_switch_mux_for_rank host r = (out, t)"
  shows "(0 < nb_dpu_running (r_run_context r) \<and> out = Fail DPU_ERR_MRAM_BUSY \<and> t = r)
    \<or> (nb_dpu_running (r_run_context r) = 0 \<and> rank_wf t \<and> r_hw t = r_hw r \<and> r_run_context t = r_run_context r
       \<and> (\<forall>ci < nr_cis r. \<forall>k. mux_bit t ci k \<longleftrightarrow> k < nr_dpus r \<and> host))"
  using switch_rank_cases [OF assms(1,3)]
proof (elim disjE conjE)
  assume ok: "\<forall>ci < nr_cis r. \<not> mux_wrong r host ci" and t: "t = r" and "nb_dpu_running (r_run_context r) = 0"
  have "mux_bit r ci k \<longleftrightarrow> k < nr_dpus r \<and> host" if ci: "ci < nr_cis r" for ci k
  proof (cases host)
    case True
    have range: "\<And>k. mux_bit r ci k \<Longrightarrow> k < nr_dpus r" using assms(2) ci by (auto simp: mux_inv_def)
    from ok ci True have "nr_dpus r \<le> popcount (host_mux_mram_state (r_slice r ci))"
      by (auto simp: mux_wrong_def Let_def not_less)
    with range full_popcount [of "host_mux_mram_state (r_slice r ci)" "nr_dpus r"] True show ?thesis
      by (auto simp: mux_bit_def)
  next
    case False
    with ok ci show ?thesis by (auto simp: mux_wrong_def Let_def mux_bit_def)
  qed
  with t assms(1) \<open>nb_dpu_running (r_run_context r) = 0\<close> show ?thesis by blast
next
  assume wf: "rank_wf t" and sf: "same_fixed (record_mux_rank host r) t" and "nb_dpu_running (r_run_context r) = 0"
  note rec = record_facts [OF assms(1)]
  have "mux_bit t ci k \<longleftrightarrow> k < nr_dpus r \<and> host" if ci: "ci < nr_cis r" for ci k
  proof -
    have "mux_bit t ci k = mux_bit (record_mux_rank host r) ci k"
      using same_fixed_mux_bit [OF rec(1) sf] rec(3) ci by simp
    moreover have "ci < 8" using rank_wfD(2) [OF assms(1)] ci by simp
    ultimately show ?thesis using rec(7) [of ci host] ci rank_wfD(3) [OF assms(1)] by (simp add: mux_bit_def)
  qed
  with wf same_fixed_hw(1,2) [OF sf] rec(3,5) \<open>nb_dpu_running (r_run_context r) = 0\<close> show ?thesis by simp
qed simp

lemma mux_bit_lt: "mux_bit r ci k \<Longrightarrow> k < 8"
  using bit_imp_le_length [of "host_mux_mram_state (r_slice r ci)" k] by (simp add: mux_bit_def)

lemma record_line_bits:
  assumes "rank_wf r" and "same_fixed (record_mux_lines base b f m r) t" and "ci < nr_cis r"
  shows "mux_bit t ci k \<longleftrightarrow> k < 8 \<and> (if b \<and> k = base \<or> f \<and> k = base + 1 then bit m ci else mux_bit r ci k)"
proof -
  have ci: "ci < 8" using rank_wfD(2) [OF assms(1)] assms(3) by simp
  have "mux_bit t ci k = mux_bit (record_mux_lines base b f m r) ci k"
    using same_fixed_mux_bit [OF record_facts(2) [OF assms(1)] assms(2)] record_facts(4) [OF assms(1)] assms(3) by simp
  then show ?thesis using record_facts(8) [OF assms(1) ci, of base b f m] assms(3) bit_imp_le_length [of m ci]
    by (auto simp: mux_bit_def bit_line_byte and_bit_of_eq_0_iff)
qed

lemma switch_line_bits:
  assumes "rank_wf r" and "dpu_switch_mux_for_dpu_line d m r = (out, t)"
  shows "(out = Fail DPU_ERR_MRAM_BUSY \<and> t = r)
    \<or> (rank_wf t \<and> r_hw t = r_hw r \<and> (\<forall>ci < nr_cis r. \<forall>k. mux_bit t ci k \<longleftrightarrow> k < 8 \<and>
        (if k = pair_base d \<or> k = pair_base d + 1 \<and> k < nr_dpus r then bit m ci else mux_bit r ci k)))"
proof -
  define base b f where "base = pair_base d" and "b \<longleftrightarrow> mux_line r base \<noteq> m"
    and "f \<longleftrightarrow> base + 1 < nr_dpus r \<and> mux_line r (base + 1) \<noteq> m"
  note cases = switch_line_cases [OF assms(1,2), folded base_def, folded b_def f_def]
  have same: "bit m ci = mux_bit r ci k" if "mux_line r k = m" "ci < nr_cis r" for k ci
    using that bit_mux_line [of r k ci] rank_wfD(2) [OF assms(1)] by auto
  have facts: "rank_wf t \<and> r_hw t = r_hw r \<and> (\<forall>ci < nr_cis r. \<forall>k. mux_bit t ci k \<longleftrightarrow> k < 8 \<and>
      (if b \<and> k = base \<or> f \<and> k = base + 1 then bit m ci else mux_bit r ci k))"
    if "\<not> (out = Fail DPU_ERR_MRAM_BUSY \<and> t = r)"
  proof (cases "same_fixed (record_mux_lines base b f m r) t")
    case True
    with cases that have "rank_wf t" using assms(1) by auto
    with True show ?thesis
      using record_line_bits [OF assms(1) True] same_fixed_hw(1) [OF True] record_facts(4) [OF assms(1), of base b f m]
      by simp
  next
    case False
    with cases that have "\<not> b" "\<not> f" "t = r" by auto
    then show ?thesis using assms(1) mux_bit_lt by auto
  qed
  have "(if b \<and> k = base \<or> f \<and> k = base + 1 then bit m ci else mux_bit r ci k)
    = (if k = base \<or> k = base + 1 \<and> k < nr_dpus r then bit m ci else mux_bit r ci k)" if "ci < nr_cis r" for ci k
    using same [of base ci] same [of "base + 1" ci] that unfolding b_def f_def by auto
  with facts show ?thesis unfolding base_def [symmetric] by (auto simp only:)
qed

lemma pair_base_eq: "pair_base d = 2 * (d div 2)"
  by (simp add: pair_base_def minus_mod_eq_mult_div)

lemma pair_base_cases: "d = pair_base d \<or> d = pair_base d + 1"
  unfolding pair_base_eq by presburger

lemma switch_line_inv:
  assumes "rank_wf r" and "mux_inv r" and "d < nr_dpus r" and "dpu_switch_mux_for_dpu_line d m r = (out, t)"
  shows "mux_inv t"
  using switch_line_bits [OF assms(1,4)]
proof (elim disjE conjE)
  assume hw: "r_hw t = r_hw r" and bits: "\<forall>ci < nr_cis r. \<forall>k. mux_bit t ci k \<longleftrightarrow> k < 8 \<and>
      (if k = pair_base d \<or> k = pair_base d + 1 \<and> k < nr_dpus r then bit m ci else mux_bit r ci k)"
  have base: "pair_base d < nr_dpus r" using assms(3) by (simp add: pair_base_def)
  have even: "2 * k = pair_base d \<longleftrightarrow> 2 * k + 1 = pair_base d + 1" "2 * k + 1 \<noteq> pair_base d" "2 * k \<noteq> pair_base d + 1" for k
    unfolding pair_base_eq by presburger+
  have le: "nr_dpus r \<le> 8" using rank_wfD(3) [OF assms(1)] .
  show ?thesis unfolding mux_inv_def hw
  proof (intro allI impI conjI)
    fix ci k assume "ci < nr_cis r" "mux_bit t ci k"
    with bits base assms(2) show "k < nr_dpus r" by (auto simp: mux_inv_def split: if_splits)
  next
    fix ci k assume "ci < nr_cis r" "2 * k + 1 < nr_dpus r"
    with bits even [of k] le assms(2) show "mux_bit t ci (2 * k) = mux_bit t ci (2 * k + 1)"
      by (auto simp: mux_inv_def)
  qed
qed (use assms(2) in simp)

lemma switch_rank_inv:
  assumes "rank_wf r" and "mux_inv r" and "dpu_switch_mux_for_rank host r = (out, t)"
  shows "mux_inv t"
  using switch_rank_bits [OF assms] assms(2) by (auto simp: mux_inv_def)

lemma switch_wf:
  "keeps rank_wf (dpu_switch_mux_for_rank host)" "keeps rank_wf (dpu_switch_mux_for_dpu_line d m)"
proof -
  show "keeps rank_wf (dpu_switch_mux_for_rank host)"
    by (rule keepsI) (use switch_rank_cases in \<open>metis prod.collapse\<close>)
  show "keeps rank_wf (dpu_switch_mux_for_dpu_line d m)"
    by (rule keepsI) (use switch_line_bits in \<open>metis prod.collapse\<close>)
qed

section \<open>Properties of the switches\<close>

text \<open>
  C29: While a DPU of the rank runs, the multiplexers of the rank are not switched: the call reports
  \<open>DPU_ERR_MRAM_BUSY\<close>, sends nothing and changes nothing. Otherwise, whatever its outcome, every
  existing DPU is recorded on the requested side.
\<close>

theorem switch_rank_records:
  assumes "rank_wf r" and "mux_inv r" and "dpu_switch_mux_for_rank host r = (out, t)"
  shows "if 0 < nb_dpu_running (r_run_context r) then out = Fail DPU_ERR_MRAM_BUSY \<and> t = r
    else \<forall>ci < nr_cis r. \<forall>k. mux_bit t ci k \<longleftrightarrow> k < nr_dpus r \<and> host"
  using switch_rank_bits [OF assms] by auto

text \<open>
  C30: The side is recorded before the multiplexers are commanded, and stays recorded when the
  command fails: calling the switch again after a failure reports success and sends nothing, although
  the multiplexers were never confirmed to be in place.
\<close>

theorem switch_rank_retry:
  assumes "rank_wf r" and "mux_inv r" and "nb_dpu_running (r_run_context r) = 0"
    and "dpu_switch_mux_for_rank host r = (Fail e, t)"
  shows "dpu_switch_mux_for_rank host t = (Ret (), t)"
proof -
  have hw: "r_hw t = r_hw r" "r_run_context t = r_run_context r" and wf: "rank_wf t"
    and bits: "\<forall>ci < nr_cis r. \<forall>k. mux_bit t ci k \<longleftrightarrow> k < nr_dpus r \<and> host"
    using switch_rank_bits [OF assms(1,2,4)] assms(3) by auto
  have "\<not> mux_wrong t host ci" if ci: "ci < nr_cis r" for ci
  proof (cases host)
    case True
    then have "{k. bit (host_mux_mram_state (r_slice t ci)) k} = {..<nr_dpus r}"
      using bits ci by (auto simp: mux_bit_def)
    then have "popcount (host_mux_mram_state (r_slice t ci)) = nr_dpus r" by (simp add: popcount_card)
    with True hw show ?thesis by (simp add: mux_wrong_def Let_def)
  next
    case False
    then have "host_mux_mram_state (r_slice t ci) = 0"
      using bits ci by (intro bit_word_eqI) (auto simp: mux_bit_def)
    with False show ?thesis by (simp add: mux_wrong_def Let_def)
  qed
  then show ?thesis using hw assms(3) by (auto simp: dpu_switch_mux_for_rank_def list_ex_iff)
qed

text \<open>
  A switch of a DPU line that is not refused, whatever its outcome, records for each CI the
  requested side for both DPUs of the pair of the line, and changes no other DPU.
\<close>

theorem switch_line_records:
  assumes "rank_wf r" and "dpu_switch_mux_for_dpu_line d m r = (out, t)" and "out \<noteq> Fail DPU_ERR_MRAM_BUSY"
    and "ci < nr_cis r" and "k < 8"
  shows "mux_bit t ci k \<longleftrightarrow>
    (if k = pair_base d \<or> k = pair_base d + 1 \<and> k < nr_dpus r then bit m ci else mux_bit r ci k)"
  using switch_line_bits [OF assms(1,2)] assms(3-5) by simp

text \<open>
  Neither switch separates the two DPUs of a pair or records a DPU that does not exist,
  whatever its outcome.
\<close>

theorem switch_mux_inv:
  assumes "rank_wf r" and "mux_inv r" and "d < nr_dpus r"
  shows "mux_inv (snd (dpu_switch_mux_for_rank host r)) \<and> mux_inv (snd (dpu_switch_mux_for_dpu_line d m r))"
  using switch_rank_inv [OF assms(1,2)] switch_line_inv [OF assms] by (metis prod.collapse)

section \<open>Starting threads\<close>

lemma same_fixed_select_all: "rank_wf r \<Longrightarrow> ufi_select_all m r = (out, t) \<Longrightarrow> rank_wf t \<and> same_fixed r t"
  by (rule fixed_run [OF fixed.keeps_select(4)])

lemma switch_lines_clear:
  assumes "mfor ds (\<lambda>d _ r. dpu_switch_mux_for_dpu_line d (mux_line_outside cm r d) r) u r = (Ret x, t)"
    and "rank_wf r" and "ci < nr_cis r" and "bit cm ci" and "\<forall>d \<in> set ds. d < nr_dpus r"
  shows "rank_wf t \<and> r_hw t = r_hw r \<and> (\<forall>k. (k \<in> set ds \<longrightarrow> \<not> mux_bit t ci k) \<and> (\<not> mux_bit r ci k \<longrightarrow> \<not> mux_bit t ci k))"
  using assms
proof (induction ds arbitrary: u r)
  case (Cons d ds)
  from Cons.prems(1) obtain v s where step: "dpu_switch_mux_for_dpu_line d (mux_line_outside cm r d) r = (Ret v, s)"
    and rest: "mfor ds (\<lambda>d _ r. dpu_switch_mux_for_dpu_line d (mux_line_outside cm r d) r) v s = (Ret x, t)"
    by (auto simp: FF_Ret_iff)
  have clear: "\<not> bit (mux_line_outside cm r d) ci" using Cons.prems(4) by (simp add: bit_mux_line_outside)
  have s: "rank_wf s" "r_hw s = r_hw r"
    and bits: "mux_bit s ci k \<longleftrightarrow> k < 8 \<and> (if k = pair_base d \<or> k = pair_base d + 1 \<and> k < nr_dpus r
        then bit (mux_line_outside cm r d) ci else mux_bit r ci k)" for k
    using switch_line_bits [OF Cons.prems(2) step] Cons.prems(3) by auto
  from Cons.IH [OF rest s(1)] s(2) Cons.prems(3-5)
  have IH: "rank_wf t" "r_hw t = r_hw r" "\<And>k. k \<in> set ds \<Longrightarrow> \<not> mux_bit t ci k"
    "\<And>k. \<not> mux_bit s ci k \<Longrightarrow> \<not> mux_bit t ci k" by auto
  have "\<not> mux_bit s ci d"
    using bits [of d] clear pair_base_cases [of d] Cons.prems(5) by auto
  moreover have "\<not> mux_bit s ci k" if "\<not> mux_bit r ci k" for k
    using bits [of k] clear that by auto
  ultimately show ?case using IH s(2) by auto
qed simp

text \<open>
  When \<open>ci_start_thread_rank\<close> succeeds, the MRAM of every DPU of every CI with enabled DPUs is on
  the DPU side: no thread starts on a DPU whose MRAM the host still holds.
\<close>

theorem start_thread_rank_mux:
  assumes "rank_wf r" and "mux_inv r" and "ci_start_thread_rank thread resume previous r = (Ret x, t)"
    and "ci < nr_cis r" and "enabled_dpus (r_slice r ci) \<noteq> 0" and "d < nr_dpus r"
  shows "\<not> mux_bit t ci d"
proof -
  from assms(3) obtain cm r1 u r2 cm2 r3 where sel: "ufi_select_all ALL_CIS r = (Ret cm, r1)"
    and switch: "(if cm = ALL_CIS then dpu_switch_mux_for_rank False
         else (\<lambda>r. mfor [0..<nr_dpus r] (\<lambda>each_dpu _ r.
                dpu_switch_mux_for_dpu_line each_dpu (mux_line_outside cm r each_dpu) r) () r)) r1 = (Ret u, r2)"
    and sel2: "ufi_select_all cm r2 = (Ret cm2, r3)" and start: "start_thread resume cm2 thread previous r3 = (Ret x, t)"
    unfolding ci_start_thread_rank_def by (auto simp: FF_Ret_iff)
  have r1: "rank_wf r1" "same_fixed r r1" using same_fixed_select_all [OF assms(1) sel] by auto
  have ci8: "ci < 8" using rank_wfD(2) [OF assms(1)] assms(4) by simp
  have "bit ALL_CIS ci" using ci8 by (simp add: bit_ALL_CIS)
  then have cm: "bit cm ci"
    using select_all_mask [OF assms(1) sel, of ci] assms(5) by (auto simp: all_target_def)
  have inv1: "mux_inv r1" using same_fixed_mux_inv [OF assms(1) r1(2)] assms(2) by simp
  have "rank_wf r2 \<and> r_hw r2 = r_hw r1 \<and> \<not> mux_bit r2 ci d"
  proof (cases "cm = ALL_CIS")
    case True
    with switch switch_rank_bits [OF r1(1) inv1, of False] same_fixed_hw(1) [OF r1(2)] assms(4) show ?thesis by auto
  next
    case False
    with switch have loop: "mfor [0..<nr_dpus r1] (\<lambda>each_dpu _ r.
        dpu_switch_mux_for_dpu_line each_dpu (mux_line_outside cm r each_dpu) r) () r1 = (Ret u, r2)" by simp
    from switch_lines_clear [OF loop r1(1) _ cm] same_fixed_hw(1) [OF r1(2)] assms(4,6) show ?thesis by simp
  qed
  then have r2: "rank_wf r2" "r_hw r2 = r_hw r" "\<not> mux_bit r2 ci d" using same_fixed_hw(1) [OF r1(2)] by simp_all
  have r3: "rank_wf r3" "same_fixed r2 r3" using same_fixed_select_all [OF r2(1) sel2] by auto
  have t: "rank_wf t" "same_fixed r3 t" using fixed_run [OF fixed.keeps_start_thread r3(1) start] by auto
  have hw: "nr_cis r3 = nr_cis r" "nr_cis r2 = nr_cis r"
    using same_fixed_hw(1) [OF r3(2)] r2(2) by simp_all
  have "mux_bit t ci d = mux_bit r3 ci d"
    using hw(1) assms(4) by (intro same_fixed_mux_bit [OF r3(1) t(2)]) simp
  also have "\<dots> = mux_bit r2 ci d"
    using hw(2) assms(4) by (intro same_fixed_mux_bit [OF r2(1) r3(2)]) simp
  finally show ?thesis using r2(3) by simp
qed

text \<open>
  C31: When both DPUs of each pair are recorded on the same side (\<open>mux_inv\<close>, which the operations on the
  multiplexers keep) and \<open>ci_start_thread_dpu\<close> succeeds for a DPU of the rank, then \<open>host_mux_mram_state\<close>
  records the MRAM of the DPU on the DPU side, and records every DPU of the other CIs on the side it recorded
  before. This is the record, which a failed switch can leave wrong.
\<close>

theorem start_thread_dpu_mux:
  assumes "rank_wf r" and "mux_inv r" and "ci_start_thread_dpu slice_id d thread resume previous r = (Ret x, t)"
    and "slice_id < nr_cis r" and "d < nr_dpus r" and "ci < nr_cis r"
  shows "\<not> mux_bit t slice_id d \<and> (ci \<noteq> slice_id \<longrightarrow> mux_bit t ci k = mux_bit r ci k)"
proof -
  define m where "m = mux_line_outside (bit_of slice_id) r d"
  from assms(3) obtain u r1 cm r2 where switch: "dpu_switch_mux_for_dpu_line d m r = (Ret u, r1)"
    and sel: "ufi_select_dpu (bit_of slice_id) d r1 = (Ret cm, r2)"
    and start: "start_thread resume cm thread previous r2 = (Ret x, t)"
    unfolding ci_start_thread_dpu_def Let_def m_def by (auto simp: FF_Ret_iff)
  have r1: "rank_wf r1" "r_hw r1 = r_hw r"
    and bits: "\<And>ci k. ci < nr_cis r \<Longrightarrow> mux_bit r1 ci k \<longleftrightarrow> k < 8 \<and>
        (if k = pair_base d \<or> k = pair_base d + 1 \<and> k < nr_dpus r then bit m ci else mux_bit r ci k)"
    using switch_line_bits [OF assms(1) switch] by auto
  have r2: "rank_wf r2" "same_fixed r1 r2" using fixed_run [OF fixed.keeps_select(2) r1(1) sel] by auto
  have t: "rank_wf t" "same_fixed r2 t" using fixed_run [OF fixed.keeps_start_thread r2(1) start] by auto
  have hw: "nr_cis r2 = nr_cis r" using same_fixed_hw(1) [OF r2(2)] r1(2) by simp
  have eq: "mux_bit t ci k = mux_bit r1 ci k" if "ci < nr_cis r" for ci k
    using same_fixed_mux_bit [OF r2(1) t(2), of ci k] same_fixed_mux_bit [OF r1(1) r2(2), of ci k] hw r1(2) that by simp
  have m: "bit m j \<longleftrightarrow> j \<noteq> slice_id \<and> mux_bit r j d" if "j < nr_cis r" for j
    using that rank_wfD(2) [OF assms(1)] by (auto simp: m_def bit_mux_line_outside)
  have "\<not> mux_bit t slice_id d"
    using eq [OF assms(4)] bits [OF assms(4), of d] m [OF assms(4)] pair_base_cases [of d] assms(5) by auto
  moreover have "mux_bit t ci k = mux_bit r ci k" if "ci \<noteq> slice_id"
  proof -
    have "mux_bit r ci d = mux_bit r ci k" if pair: "k = pair_base d \<or> k = pair_base d + 1 \<and> k < nr_dpus r"
    proof (cases "pair_base d + 1 < nr_dpus r")
      case True
      with assms(2,6) have "mux_bit r ci (pair_base d) = mux_bit r ci (pair_base d + 1)"
        by (simp add: mux_inv_def pair_base_eq)
      with pair pair_base_cases [of d] show ?thesis by auto
    next
      case False
      with assms(5) pair_base_cases [of d] pair have "d = pair_base d" "k = pair_base d" by auto
      then show ?thesis by simp
    qed
    moreover have "k < 8" if "mux_bit r ci k" using that by (rule mux_bit_lt)
    moreover have "k < 8" if "k = pair_base d \<or> k = pair_base d + 1 \<and> k < nr_dpus r"
      using that assms(5) rank_wfD(3) [OF assms(1)] pair_base_cases [of d] by auto
    ultimately show ?thesis using eq [OF assms(6)] bits [OF assms(6), of k] m [OF assms(6)] that by auto
  qed
  ultimately show ?thesis by blast
qed


section \<open>Instances\<close>

text \<open>
  \<open>quiet_rank\<close> is a rank whose multiplexers the backend switches by itself, \<open>dead_rank\<close> one whose
  backend rejects every packet.
\<close>

definition quiet :: "'w dpu_rank \<Rightarrow> 'w dpu_rank" where
  "quiet r = r\<lparr>r_configuration := (r_configuration r)\<lparr>api_must_switch_mram_mux := False, init_mram_mux := False\<rparr>\<rparr>"

definition quiet_rank :: "u8 dpu_rank" where "quiet_rank = quiet live_rank"

definition dead_handler :: "u64 list dpu_rank_handler" where
  "dead_handler = sample_handler\<lparr>commit_commands := (\<lambda>_ w. (DPU_RANK_BACKEND_ERROR, w))\<rparr>"

definition dead_rank :: "u64 list dpu_rank" where
  "dead_rank = (sample_rank [])\<lparr>r_handler := dead_handler\<rparr>"

lemma quiet_rank_live: "live.live quiet_rank"
  using live.live_frame [OF live_rank_live, of quiet] live_rank_wf live.live_cmds [OF live_rank_live]
  by (simp add: quiet_rank_def) (simp add: quiet_def rank_wf_def)

lemma quiet_rank_wf: "rank_wf quiet_rank"
  using quiet_rank_live by (simp add: live.live_def)

lemma quiet_rank_simps [simp]:
  "nr_cis quiet_rank = 2" "nr_dpus quiet_rank = 8" "nb_dpu_running (r_run_context quiet_rank) = 0"
  "ci < 8 \<Longrightarrow> r_slice quiet_rank ci = sample_slice"
  "\<not> api_must_switch_mram_mux (r_configuration quiet_rank)" "\<not> init_mram_mux (r_configuration quiet_rank)"
  "dpu_running (r_run_context quiet_rank) = replicate 8 0"
  by (simp_all add: quiet_rank_def quiet_def live_rank_def Let_def sample_rank_def sample_hw_def)

lemma sample_slice_mux: "mux_bit r ci k \<longleftrightarrow> k < 8" if "r_slice r ci = sample_slice"
proof -
  from that have "host_mux_mram_state (r_slice r ci) = 0xFF" by (simp add: sample_slice_def)
  then show ?thesis unfolding mux_bit_def by (simp only: bit_255_iff) simp
qed

lemma quiet_rank_mux [simp]: "ci < 2 \<Longrightarrow> mux_bit quiet_rank ci k \<longleftrightarrow> k < 8" "mux_inv quiet_rank"
  by (auto simp: sample_slice_mux mux_inv_def)

theorem switch_rank_records_witness:
  "\<not> mux_bit (snd (dpu_switch_mux_for_rank False quiet_rank)) 0 7
    \<and> \<not> mux_bit (snd (dpu_switch_mux_for_rank False quiet_rank)) 1 0"
proof -
  obtain out t where run: "dpu_switch_mux_for_rank False quiet_rank = (out, t)" by (rule prod.exhaust)
  from switch_rank_records [OF quiet_rank_wf quiet_rank_mux(2) run] run show ?thesis by simp
qed

theorem switch_rank_retry_witness:
  "dpu_switch_mux_for_rank False (snd (dpu_switch_mux_for_rank False dead_rank))
    = (Ret (), snd (dpu_switch_mux_for_rank False dead_rank))"
proof -
  have run: "dpu_switch_mux_for_rank False dead_rank = (Fail DPU_ERR_DRIVER, snd (dpu_switch_mux_for_rank False dead_rank))"
  proof -
    have "case dpu_switch_mux_for_rank False dead_rank of (out, t) \<Rightarrow> out = Fail DPU_ERR_DRIVER" by code_simp
    then show ?thesis by (auto split: prod.splits)
  qed
  have "rank_wf dead_rank"
    using sample_rank_wf [of "[]"]
    by (auto simp: rank_wf_def dead_rank_def dead_handler_def handler_ok_def sample_handler_def sample_rank_def)
  moreover have "mux_inv dead_rank"
    by (auto simp: mux_inv_def dead_rank_def sample_slice_mux sample_rank_simps)
  moreover have "nb_dpu_running (r_run_context dead_rank) = 0" by (simp add: dead_rank_def sample_rank_def)
  ultimately show ?thesis using run by (rule switch_rank_retry)
qed

lemma quiet_rank_idle: "running_on_lines quiet_rank d b f = 0"
  by (simp add: running_on_lines_def dpu_mask_count_def dpu_mask_intersection_def upt_rec numeral_2_eq_2)

theorem switch_mux_inv_witness: "mux_inv (snd (dpu_switch_mux_for_dpu_line 2 1 quiet_rank))"
  using switch_mux_inv [OF quiet_rank_wf quiet_rank_mux(2), of 2] by simp

context responsive_backend
begin

lemma live_record: "live r \<Longrightarrow> live (record_mux_rank host r)" "live r \<Longrightarrow> live (record_mux_lines base b f m r)"
proof -
  assume live: "live r"
  note rec = record_facts(1-4) [OF live_wf [OF live]]
  show "live (record_mux_rank host r)"
    by (rule live_frame [of r "record_mux_rank host"], rule live, rule rec(1)) (simp_all add: record_rank_eq live_cmds [OF live])
  show "live (record_mux_lines base b f m r)"
    by (rule live_frame [of r "record_mux_lines base b f m"], rule live, rule rec(2))
       (simp_all add: record_lines_eq live_wf [OF live] live_cmds [OF live])
qed

lemma live_quiet_switch:
  assumes "live r" and "\<not> api_must_switch_mram_mux (r_configuration r)" and "\<not> init_mram_mux (r_configuration r)"
    and "nb_dpu_running (r_run_context r) = 0"
  shows "\<exists>t. dpu_switch_mux_for_rank host r = (Ret (), t) \<and> live t"
  using assms live_record(1) [OF assms(1), of host] by (auto simp: dpu_switch_mux_for_rank_def)

lemma live_quiet_line:
  assumes "live r" and "\<not> api_must_switch_mram_mux (r_configuration r)"
    and "\<And>b f. running_on_lines r (pair_base d) b f = 0"
  shows "\<exists>t. dpu_switch_mux_for_dpu_line d m r = (Ret (), t) \<and> live t"
proof -
  obtain b f where "switch_lines r d m = (b, f)" by (rule prod.exhaust)
  then show ?thesis
    using assms live_record(2) [OF assms(1), of "pair_base d" b f m]
    by (cases "\<not> b \<and> \<not> f") (auto simp: dpu_switch_mux_for_dpu_line_def Let_def)
qed

lemma live_start_thread: "succeeds live (start_thread resume m t None)"
  unfolding start_thread_def ufi_thread_boot_def ufi_thread_resume_def UFI_exec_opt_frame_def
  by (intro succeeds_if) (simp_all add: succeeds_FF live_exec CI_THREAD_BOOT_STRUCT_def CI_THREAD_BOOT_FRAME_def
      CI_THREAD_RESUME_STRUCT_def CI_THREAD_RESUME_FRAME_def Let_def)

end

theorem switch_line_records_witness:
  "mux_bit (snd (dpu_switch_mux_for_dpu_line 2 1 quiet_rank)) 0 3
    \<and> \<not> mux_bit (snd (dpu_switch_mux_for_dpu_line 2 1 quiet_rank)) 1 3"
proof -
  obtain t where run: "dpu_switch_mux_for_dpu_line 2 1 quiet_rank = (Ret (), t)" 
    using live.live_quiet_line [OF quiet_rank_live, of 2 1] quiet_rank_idle by auto
  from switch_line_records [OF quiet_rank_wf run, of 0 3] switch_line_records [OF quiet_rank_wf run, of 1 3] run
  show ?thesis by (simp add: pair_base_def bit_1_iff')
qed

theorem start_thread_dpu_mux_witness:
  "\<exists>x t. ci_start_thread_dpu 1 3 0 False None quiet_rank = (Ret x, t) \<and> \<not> mux_bit t 1 3 \<and> mux_bit t 0 3"
proof -
  define m where "m = mux_line_outside (bit_of 1) quiet_rank 3"
  obtain r1 where 1: "dpu_switch_mux_for_dpu_line 3 m quiet_rank = (Ret (), r1)" and r1: "live.live r1"
    using live.live_quiet_line [OF quiet_rank_live, of 3 m] quiet_rank_idle by auto
  obtain cm r2 where 2: "ufi_select_dpu (bit_of 1) 3 r1 = (Ret cm, r2)" and r2: "live.live r2"
    using live.live_select(1) r1 by (rule succeedsE)
  obtain x t where 3: "start_thread False cm 0 None r2 = (Ret x, t)" using live.live_start_thread r2 by (rule succeedsE)
  have run: "ci_start_thread_dpu 1 3 0 False None quiet_rank = (Ret x, t)"
    using 1 2 3 by (simp add: ci_start_thread_dpu_def Let_def FF_def m_def)
  from start_thread_dpu_mux [OF quiet_rank_wf quiet_rank_mux(2) run, of 0 3] run show ?thesis by auto
qed

theorem start_thread_rank_mux_witness:
  "\<exists>x t. ci_start_thread_rank 0 False None quiet_rank = (Ret x, t) \<and> \<not> mux_bit t 1 3"
proof -
  obtain cm r1 where 1: "ufi_select_all ALL_CIS quiet_rank = (Ret cm, r1)" and r1: "live.live r1"
    using live.live_select_all(1) quiet_rank_live by (rule succeedsE)
  have fixed: "same_fixed quiet_rank r1" using same_fixed_select_all [OF quiet_rank_wf 1] by simp
  have "bit cm i" if "i < 8" for i
    using select_all_mask [OF quiet_rank_wf 1, of i] that
    by (auto simp: bit_ALL_CIS all_target_def sample_slice_def)
  then have "cm = ALL_CIS" by (intro bit_word_eqI) (simp add: bit_ALL_CIS)
  moreover obtain r2 where 2: "dpu_switch_mux_for_rank False r1 = (Ret (), r2)" and r2: "live.live r2"
    using live.live_quiet_switch [OF r1, of False] same_fixed_hw(2,4) [OF fixed] by auto
  moreover obtain cm2 r3 where 3: "ufi_select_all ALL_CIS r2 = (Ret cm2, r3)" and r3: "live.live r3"
    using live.live_select_all(1) r2 by (rule succeedsE)
  moreover obtain x t where 4: "start_thread False cm2 0 None r3 = (Ret x, t)"
    using live.live_start_thread r3 by (rule succeedsE)
  ultimately have run: "ci_start_thread_rank 0 False None quiet_rank = (Ret x, t)"
    using 1 by (simp add: ci_start_thread_rank_def FF_def)
  have e: "enabled_dpus sample_slice \<noteq> 0" by (simp add: sample_slice_def)
  from start_thread_rank_mux [OF quiet_rank_wf quiet_rank_mux(2) run, of 1 3] e run show ?thesis by auto
qed

end
