(* ===== verification/Ufi_Memory.thy ===== *)
theory Ufi_Memory
  imports Ufi_Mux
begin

text \<open>
  The copies of \<^verbatim>\<open>ufi/src/ufi_memory.c\<close> between the host and the memories of the DPUs, and the
  transfer matrices they work on (\<^verbatim>\<open>dpu_transfer_matrix_*\<close> of \<^verbatim>\<open>api/src/dpu_memory.c\<close>). The
  MRAM itself is behind \<open>copy_to_rank\<close> and \<open>copy_from_rank\<close> of the backend; what is modelled is how
  the multiplexers are set before them. A \<^verbatim>\<open>NULL\<close> that is dereferenced, an assertion that fails
  and a status that was never set end in \<open>Abort\<close>.
\<close>

section \<open>Transfer matrices\<close>

definition dpu_transfer_matrix_clear_all :: dpu_transfer_matrix where
  "dpu_transfer_matrix_clear_all = \<lparr>tm_ptr = replicate MAX_NR_DPUS_PER_RANK 0, tm_offset = 0, tm_size = 0, tm_type = 0\<rparr>"

definition dpu_transfer_matrix_add_dpu ::
  "'w dpu_rank \<Rightarrow> nat \<Rightarrow> nat \<Rightarrow> u64 \<Rightarrow> dpu_transfer_matrix \<Rightarrow> dpu_transfer_matrix" where
  "dpu_transfer_matrix_add_dpu r slice_id dpu_id buffer m =
     m\<lparr>tm_ptr := (tm_ptr m)[get_transfer_matrix_index r slice_id dpu_id := buffer]\<rparr>"

definition dpu_transfer_matrix_set_all :: "'w dpu_rank \<Rightarrow> u64 \<Rightarrow> dpu_transfer_matrix \<Rightarrow> dpu_transfer_matrix" where
  "dpu_transfer_matrix_set_all r buffer =
     fold (\<lambda>each_ci. fold (\<lambda>each_dpu. dpu_transfer_matrix_add_dpu r each_ci each_dpu
         (if dpu_is_enabled r each_ci each_dpu then buffer else 0)) [0..<nr_dpus r]) [0..<nr_cis r]"

definition dpu_transfer_matrix_clear_dpu ::
  "'w dpu_rank \<Rightarrow> nat \<Rightarrow> nat \<Rightarrow> dpu_transfer_matrix \<Rightarrow> dpu_transfer_matrix" where
  "dpu_transfer_matrix_clear_dpu r slice_id dpu_id m =
     m\<lparr>tm_ptr := (tm_ptr m)[get_transfer_matrix_index r slice_id dpu_id := 0]\<rparr>"

definition dpu_transfer_matrix_get_ptr :: "'w dpu_rank \<Rightarrow> nat \<Rightarrow> nat \<Rightarrow> dpu_transfer_matrix \<Rightarrow> u64" where
  "dpu_transfer_matrix_get_ptr r slice_id dpu_id m =
     (if \<not> dpu_is_enabled r slice_id dpu_id then 0 else tm_ptr m ! get_transfer_matrix_index r slice_id dpu_id)"

text \<open>\<open>matrix->ptr[get_transfer_matrix_index(rank, ci, dpu)]\<close>\<close>

definition buffer_of :: "'w dpu_rank \<Rightarrow> dpu_transfer_matrix \<Rightarrow> nat \<Rightarrow> nat \<Rightarrow> u64" where
  "buffer_of r m slice_id dpu_id = tm_ptr m ! get_transfer_matrix_index r slice_id dpu_id"

section \<open>Instruction memory\<close>

definition ci_copy_to_irams_rank :: "u16 \<Rightarrow> u64 \<Rightarrow> u16 \<Rightarrow> ('w, unit) ufi" where
  "ci_copy_to_irams_rank iram_instruction_index source nb_of_instructions =
     FF (ufi_select_all ALL_CIS) (\<lambda>ci_mask r.
     ufi_iram_write ci_mask (\<lambda>_. host_instrs r source) iram_instruction_index nb_of_instructions r)"

definition ci_copy_to_irams_dpu :: "nat \<Rightarrow> nat \<Rightarrow> u16 \<Rightarrow> u64 \<Rightarrow> u16 \<Rightarrow> ('w, unit) ufi" where
  "ci_copy_to_irams_dpu slice_id dpu_id iram_instruction_index source nb_of_instructions =
     FF (ufi_select_dpu (bit_of slice_id) dpu_id) (\<lambda>ci_mask r.
     ufi_iram_write ci_mask (\<lambda>_. host_instrs r source) iram_instruction_index nb_of_instructions r)"

definition ci_copy_from_irams_dpu :: "nat \<Rightarrow> nat \<Rightarrow> u64 \<Rightarrow> u16 \<Rightarrow> u16 \<Rightarrow> ('w, unit) ufi" where
  "ci_copy_from_irams_dpu slice_id dpu_id destination iram_instruction_index nb_of_instructions =
     FF (ufi_select_dpu (bit_of slice_id) dpu_id) (\<lambda>ci_mask.
     ufi_iram_read ci_mask (\<lambda>_. destination) iram_instruction_index nb_of_instructions)"

text \<open>
  The loops over the DPUs that have a buffer. The status is not initialised: when no DPU is copied,
  what the functions return is undefined.
\<close>

definition dpus_of_rank :: "'w dpu_rank \<Rightarrow> (nat \<times> nat) list" where
  "dpus_of_rank r = List.product [0..<nr_cis r] [0..<nr_dpus r]"

definition unset_status :: "bool \<Rightarrow> ('w, unit) ufi" where
  "unset_status status_is_set = (if status_is_set then ok () else (\<lambda>r. (Abort, r)))"

definition for_enabled_buffers :: "dpu_transfer_matrix \<Rightarrow> (nat \<Rightarrow> nat \<Rightarrow> u64 \<Rightarrow> ('w, unit) ufi) \<Rightarrow> ('w, unit) ufi" where
  "for_enabled_buffers matrix copy = (\<lambda>r.
     FF (mfor (dpus_of_rank r) (\<lambda>(each_ci, each_dpu) status_is_set r.
           if \<not> dpu_is_enabled r each_ci each_dpu \<or> buffer_of r matrix each_ci each_dpu = 0 then ok status_is_set r
           else FF (copy each_ci each_dpu (buffer_of r matrix each_ci each_dpu)) (\<lambda>_. ok True) r) False)
        unset_status r)"

definition ci_copy_to_irams_matrix :: "dpu_transfer_matrix \<Rightarrow> ('w, unit) ufi" where
  "ci_copy_to_irams_matrix matrix =
     for_enabled_buffers matrix (\<lambda>each_ci each_dpu buffer.
       ci_copy_to_irams_dpu each_ci each_dpu (ucast (tm_offset matrix)) buffer (ucast (tm_size matrix)))"

definition ci_copy_from_irams_matrix :: "dpu_transfer_matrix \<Rightarrow> ('w, unit) ufi" where
  "ci_copy_from_irams_matrix matrix =
     for_enabled_buffers matrix (\<lambda>each_ci each_dpu buffer.
       ci_copy_from_irams_dpu each_ci each_dpu buffer (ucast (tm_offset matrix)) (ucast (tm_size matrix)))"

section \<open>Splitting a transfer matrix\<close>

text \<open>
  One line of pairs, DPUs \<open>d\<close> and \<open>d + 1\<close> of every CI. The scan stops at the first CI where only one of the two
  has a transfer; the CIs after it are not looked at. \<open>None\<close>: \<open>dpu_get\<close> gave \<^verbatim>\<open>NULL\<close>.
\<close>

fun scan_line ::
  "'w dpu_rank \<Rightarrow> dpu_transfer_matrix \<Rightarrow> nat \<Rightarrow> nat list \<Rightarrow> bool \<times> bool \<Rightarrow> (bool \<times> bool \<times> bool) option" where
  "scan_line r m d [] (first_line, second_line) = Some (first_line, second_line, False)"
| "scan_line r m d (each_slice # slices) (first_line, second_line) =
     (case dpu_get r each_slice d of
        None \<Rightarrow> None
      | Some first_dpu \<Rightarrow>
          if \<not> dpu_enabled first_dpu then scan_line r m d slices (first_line, second_line)
          else (case dpu_get r each_slice (d + 1) of
             None \<Rightarrow> None
           | Some second_dpu \<Rightarrow>
               if \<not> dpu_enabled second_dpu then scan_line r m d slices (first_line, second_line)
               else let first = (buffer_of r m each_slice d \<noteq> 0);
                        second = (buffer_of r m each_slice (d + 1) \<noteq> 0)
                    in if first \<noteq> second then Some (first_line \<or> first, second_line \<or> second, True)
                       else scan_line r m d slices (first_line \<or> first, second_line \<or> second)))"

fun duplication_needed :: "'w dpu_rank \<Rightarrow> dpu_transfer_matrix \<Rightarrow> nat list \<Rightarrow> bool option" where
  "duplication_needed r m [] = Some False"
| "duplication_needed r m (d # ds) =
     (case scan_line r m d [0..<nr_cis r] (False, False) of
        None \<Rightarrow> None
      | Some (first_line, second_line, needed_for_line) \<Rightarrow>
          if first_line \<and> second_line \<and> needed_for_line then Some True else duplication_needed r m ds)"

text \<open>The lines \<open>0, 2, 4, ...\<close> of the DPUs.\<close>

definition pair_lines :: "'w dpu_rank \<Rightarrow> nat list" where
  "pair_lines r = map (\<lambda>k. 2 * k) [0..<(nr_dpus r + 1) div 2]"

definition split_matrix :: "'w dpu_rank \<Rightarrow> dpu_transfer_matrix \<Rightarrow> dpu_transfer_matrix \<times> dpu_transfer_matrix" where
  "split_matrix r m =
     fold (\<lambda>d. fold (\<lambda>each_slice (even_m, odd_m).
         (dpu_transfer_matrix_add_dpu r each_slice d (buffer_of r m each_slice d) even_m,
          dpu_transfer_matrix_add_dpu r each_slice (d + 1) (buffer_of r m each_slice (d + 1)) odd_m)) [0..<nr_cis r])
       (pair_lines r) (dpu_transfer_matrix_clear_all, dpu_transfer_matrix_clear_all)"

text \<open>With an odd number of DPUs the second DPU of the last pair is outside of the array.\<close>

definition duplicate_transfer_matrix ::
  "dpu_transfer_matrix \<Rightarrow> ('w, (dpu_transfer_matrix \<times> dpu_transfer_matrix) option) ufi" where
  "duplicate_transfer_matrix m = (\<lambda>r.
     if nr_dpus r \<le> 1 \<or> \<not> api_must_switch_mram_mux (r_configuration r) then ok None r
     else (case duplication_needed r m (pair_lines r) of
         None \<Rightarrow> (Abort, r)
       | Some False \<Rightarrow> ok None r
       | Some True \<Rightarrow> if odd (nr_dpus r) then (Abort, r) else ok (Some (split_matrix r m)) r))"

section \<open>Access to the MRAM\<close>

definition is_transfer_matrix_full :: "'w dpu_rank \<Rightarrow> dpu_transfer_matrix \<Rightarrow> bool" where
  "is_transfer_matrix_full r m =
     list_all (\<lambda>each_slice. list_all (\<lambda>each_dpu.
         \<not> dpu_mask_is_selected (ucast (enabled_dpus (r_slice r each_slice))) each_dpu
         \<or> \<not> (buffer_of r m each_slice each_dpu = 0 \<and> dpu_is_enabled r each_slice each_dpu)) [0..<nr_dpus r]) [0..<nr_cis r]"

text \<open>The CIs where a DPU of the line has a transfer.\<close>

definition line_mask :: "'w dpu_rank \<Rightarrow> dpu_transfer_matrix \<Rightarrow> nat \<Rightarrow> u8" where
  "line_mask r m d =
     fold (\<lambda>each_slice ci_mask.
         if dpu_is_enabled r each_slice d \<and> buffer_of r m each_slice d \<noteq> 0 then ci_mask OR bit_of each_slice else ci_mask)
       [0..<nr_cis r] 0"

text \<open>One round of the loop over the pairs, with its assertion that the lines do not disagree.\<close>

definition access_pair :: "dpu_transfer_matrix \<Rightarrow> nat \<Rightarrow> ('w, unit) ufi" where
  "access_pair m each_dpu = (\<lambda>r.
     if each_dpu + 1 \<ge> nr_dpus r \<and> 0 < nr_cis r then (Abort, r)
     else let mask1 = line_mask r m each_dpu; mask2 = line_mask r m (each_dpu + 1)
          in if mask1 = 0 \<and> mask2 = 0 then ok () r
             else if mask1 \<noteq> 0 \<and> mask2 \<noteq> 0 \<and> mask1 \<noteq> mask2 then (Abort, r)
             else FF (dpu_switch_mux_for_dpu_line each_dpu (mask1 OR mask2)) (\<lambda>_.
                  dpu_switch_mux_for_dpu_line (each_dpu + 1) (mask1 OR mask2)) r)"

definition host_get_access_for_transfer_matrix :: "dpu_transfer_matrix \<Rightarrow> ('w, unit) ufi" where
  "host_get_access_for_transfer_matrix m = (\<lambda>r. mfor (pair_lines r) (\<lambda>each_dpu _. access_pair m each_dpu) () r)"

definition host_get_access_for_transfer :: "dpu_transfer_matrix \<Rightarrow> ('w, unit) ufi" where
  "host_get_access_for_transfer m = (\<lambda>r.
     if is_transfer_matrix_full r m then dpu_switch_mux_for_rank True r
     else host_get_access_for_transfer_matrix m r)"

datatype dpu_transfer_type = DPU_TRANSFER_FROM_MRAM | DPU_TRANSFER_TO_MRAM

definition backend_copy :: "dpu_transfer_type \<Rightarrow> 'w dpu_rank_handler \<Rightarrow> dpu_transfer_matrix \<Rightarrow> 'w \<Rightarrow> dpu_rank_status \<times> 'w" where
  "backend_copy type h = (case type of DPU_TRANSFER_FROM_MRAM \<Rightarrow> copy_from_rank h | DPU_TRANSFER_TO_MRAM \<Rightarrow> copy_to_rank h)"

definition do_mram_transfer :: "dpu_transfer_type \<Rightarrow> dpu_transfer_matrix \<Rightarrow> ('w, unit) ufi" where
  "do_mram_transfer type m = (\<lambda>r.
     if list_all (\<lambda>each_dpu. tm_ptr m ! each_dpu = 0) [0..<MAX_NR_DPUS_PER_RANK] then ok () r
     else (case backend_copy type (r_handler r) m (r_world r) of (st, w) \<Rightarrow>
        if st \<noteq> DPU_RANK_SUCCESS then fail DPU_ERR_DRIVER (r\<lparr>r_world := w\<rparr>) else ok () (r\<lparr>r_world := w\<rparr>)))"

definition part_of :: "dpu_transfer_matrix \<Rightarrow> dpu_transfer_matrix \<Rightarrow> dpu_transfer_matrix" where
  "part_of m part = part\<lparr>tm_size := tm_size m, tm_offset := tm_offset m, tm_type := tm_type m\<rparr>"

definition copy_mram_for_dpus :: "dpu_transfer_type \<Rightarrow> dpu_transfer_matrix \<Rightarrow> ('w, unit) ufi" where
  "copy_mram_for_dpus type m =
     FF (duplicate_transfer_matrix m) (\<lambda>split.
       (case split of
          None \<Rightarrow> FF (host_get_access_for_transfer m) (\<lambda>_. do_mram_transfer type m)
        | Some (even_m, odd_m) \<Rightarrow>
            FF (host_get_access_for_transfer_matrix (part_of m even_m)) (\<lambda>_.
            FF (do_mram_transfer type (part_of m even_m)) (\<lambda>_.
            FF (host_get_access_for_transfer_matrix (part_of m odd_m)) (\<lambda>_.
            do_mram_transfer type (part_of m odd_m))))))"

definition ci_copy_to_mrams :: "dpu_transfer_matrix \<Rightarrow> ('w, unit) ufi" where
  "ci_copy_to_mrams = copy_mram_for_dpus DPU_TRANSFER_TO_MRAM"

definition ci_copy_from_mrams :: "dpu_transfer_matrix \<Rightarrow> ('w, unit) ufi" where
  "ci_copy_from_mrams = copy_mram_for_dpus DPU_TRANSFER_FROM_MRAM"

section \<open>Working memory\<close>

definition ci_copy_to_wrams_rank :: "u32 \<Rightarrow> u64 \<Rightarrow> u32 \<Rightarrow> ('w, unit) ufi" where
  "ci_copy_to_wrams_rank wram_word_offset source nb_of_words =
     FF (ufi_select_all ALL_CIS) (\<lambda>ci_mask r.
     ufi_wram_write ci_mask (\<lambda>_. host_words r source) (ucast wram_word_offset) (ucast nb_of_words) r)"

definition ci_copy_to_wrams_dpu :: "nat \<Rightarrow> nat \<Rightarrow> u32 \<Rightarrow> u64 \<Rightarrow> u32 \<Rightarrow> ('w, unit) ufi" where
  "ci_copy_to_wrams_dpu slice_id dpu_id wram_word_offset source nb_of_words =
     FF (ufi_select_dpu (bit_of slice_id) dpu_id) (\<lambda>ci_mask r.
     ufi_wram_write ci_mask (\<lambda>_. host_words r source) (ucast wram_word_offset) (ucast nb_of_words) r)"

definition ci_copy_from_wrams_dpu :: "nat \<Rightarrow> nat \<Rightarrow> u64 \<Rightarrow> u32 \<Rightarrow> u32 \<Rightarrow> ('w, unit) ufi" where
  "ci_copy_from_wrams_dpu slice_id dpu_id destination wram_word_offset nb_of_words =
     FF (ufi_select_dpu (bit_of slice_id) dpu_id) (\<lambda>ci_mask.
     ufi_wram_read ci_mask (\<lambda>_. destination) (ucast wram_word_offset) (ucast nb_of_words))"

text \<open>The buffers of the CIs on one line of DPUs; the array keeps those of the lines before.\<close>

definition line_buffers :: "'w dpu_rank \<Rightarrow> dpu_transfer_matrix \<Rightarrow> nat \<Rightarrow> u64 list \<Rightarrow> u64 list \<times> u8" where
  "line_buffers r m d wram_array =
     fold (\<lambda>each_ci (wram_array, ci_mask).
         if buffer_of r m each_ci d \<noteq> 0 then (wram_array[each_ci := buffer_of r m each_ci d], ci_mask OR bit_of each_ci)
         else (wram_array, ci_mask)) [0..<nr_cis r] (wram_array, 0)"

definition for_buffer_lines :: "dpu_transfer_matrix \<Rightarrow> (u8 \<Rightarrow> u64 list \<Rightarrow> ('w, unit) ufi) \<Rightarrow> ('w, unit) ufi" where
  "for_buffer_lines matrix copy = (\<lambda>r.
     FF (mfor [0..<nr_dpus r] (\<lambda>each_dpu (wram_array, status_is_set) r.
           (case line_buffers r matrix each_dpu wram_array of (wram_array, ci_mask) \<Rightarrow>
              if ci_mask = 0 then ok (wram_array, status_is_set) r
              else FF (ufi_select_dpu ci_mask each_dpu) (\<lambda>ci_mask. FF (copy ci_mask wram_array) (\<lambda>_. ok (wram_array, True))) r))
         (replicate 8 0, False))
        (\<lambda>(_, status_is_set). unset_status status_is_set) r)"

definition ci_copy_to_wrams_matrix :: "dpu_transfer_matrix \<Rightarrow> ('w, unit) ufi" where
  "ci_copy_to_wrams_matrix matrix =
     for_buffer_lines matrix (\<lambda>ci_mask wram_array r.
       ufi_wram_write ci_mask (\<lambda>each_ci. host_words r (wram_array ! each_ci)) (ucast (tm_offset matrix)) (ucast (tm_size matrix)) r)"

definition ci_copy_from_wrams_matrix :: "dpu_transfer_matrix \<Rightarrow> ('w, unit) ufi" where
  "ci_copy_from_wrams_matrix matrix =
     for_buffer_lines matrix (\<lambda>ci_mask wram_array.
       ufi_wram_read ci_mask (\<lambda>each_ci. wram_array ! each_ci) (ucast (tm_offset matrix)) (ucast (tm_size matrix)))"

end
