(* ===== verification/Memory_Spec.thy ===== *)
theory Memory_Spec
  imports Ufi_Memory Mux_Spec Sample_Rank
begin

text \<open>
  What the MRAM copies guarantee: a transfer matrix whose pairs of DPUs disagree is split so that the
  halves cannot, and the backend is only called while the MRAM of every DPU of the transfer is on
  the host side.
\<close>

section \<open>Positions in a transfer matrix\<close>

lemma set_pair_lines: "d \<in> set (pair_lines r) \<longleftrightarrow> even d \<and> d < nr_dpus r"
proof
  assume "d \<in> set (pair_lines r)"
  then obtain k where "k < (nr_dpus r + 1) div 2" "d = 2 * k" by (auto simp: pair_lines_def)
  then show "even d \<and> d < nr_dpus r" by presburger
next
  assume d: "even d \<and> d < nr_dpus r"
  then have "d = 2 * (d div 2)" "d div 2 < (nr_dpus r + 1) div 2" by presburger+
  then show "d \<in> set (pair_lines r)"
    unfolding pair_lines_def set_map by (intro image_eqI [of d _ "d div 2"]) simp_all
qed

section \<open>The halves of a split matrix\<close>

definition line_indices :: "'w dpu_rank \<Rightarrow> nat \<Rightarrow> nat list \<Rightarrow> nat list" where
  "line_indices r k ds = concat (map (\<lambda>d. map (\<lambda>ci. get_transfer_matrix_index r ci (d + k)) [0..<nr_cis r]) ds)"

definition copied :: "dpu_transfer_matrix \<Rightarrow> nat list \<Rightarrow> dpu_transfer_matrix \<Rightarrow> dpu_transfer_matrix" where
  "copied m is e = e\<lparr>tm_ptr := fold (\<lambda>j xs. xs[j := tm_ptr m ! j]) is (tm_ptr e)\<rparr>"

lemma copied_simps [simp]: "copied m [] e = e" "copied m (i # is) e = copied m is (e\<lparr>tm_ptr := (tm_ptr e)[i := tm_ptr m ! i]\<rparr>)"
  "copied m (xs @ ys) e = copied m ys (copied m xs e)"
  by (simp_all add: copied_def)

lemma split_matrix_eq:
  "split_matrix r m = (copied m (line_indices r 0 (pair_lines r)) dpu_transfer_matrix_clear_all,
     copied m (line_indices r 1 (pair_lines r)) dpu_transfer_matrix_clear_all)"
proof -
  have line: "fold (\<lambda>each_slice (even_m, odd_m).
         (dpu_transfer_matrix_add_dpu r each_slice d (buffer_of r m each_slice d) even_m,
          dpu_transfer_matrix_add_dpu r each_slice (Suc d) (buffer_of r m each_slice (Suc d)) odd_m)) cis (e, od)
      = (copied m (map (\<lambda>ci. get_transfer_matrix_index r ci d) cis) e,
         copied m (map (\<lambda>ci. get_transfer_matrix_index r ci (Suc d)) cis) od)" for d cis e od
    by (induction cis arbitrary: e od) (simp_all add: dpu_transfer_matrix_add_dpu_def buffer_of_def)
  have "fold (\<lambda>d. fold (\<lambda>each_slice (even_m, odd_m).
         (dpu_transfer_matrix_add_dpu r each_slice d (buffer_of r m each_slice d) even_m,
          dpu_transfer_matrix_add_dpu r each_slice (Suc d) (buffer_of r m each_slice (Suc d)) odd_m)) [0..<nr_cis r])
       ds (e, od) = (copied m (line_indices r 0 ds) e, copied m (line_indices r 1 ds) od)" for ds e od
    by (induction ds arbitrary: e od) (simp_all add: line line_indices_def)
  then show ?thesis by (simp add: split_matrix_def)
qed

lemma in_line_indices:
  "j \<in> set (line_indices r k ds) \<longleftrightarrow> (\<exists>d' \<in> set ds. \<exists>c < nr_cis r. j = get_transfer_matrix_index r c (d' + k))"
  by (induction ds) (simp_all add: line_indices_def image_iff Bex_def, blast)

lemma buffer_of_copied:
  assumes "rank_wf r" "ci < nr_cis r" "d < nr_dpus r"
  shows "buffer_of r (part_of m (copied m (line_indices r k ds) dpu_transfer_matrix_clear_all)) ci d
    = (if \<exists>d' \<in> set ds. d = d' + k then buffer_of r m ci d else 0)"
proof -
  let ?j = "get_transfer_matrix_index r ci d"
  have eq: "?j = get_transfer_matrix_index r c x \<longleftrightarrow> ci = c \<and> d = x" if "c < nr_cis r" for c x
    by (rule transfer_matrix_index_inj) (use assms(2) that in simp_all)
  have "?j \<in> set (line_indices r k ds) \<longleftrightarrow> (\<exists>d' \<in> set ds. \<exists>c < nr_cis r. ?j = get_transfer_matrix_index r c (d' + k))"
    by (rule in_line_indices)
  also have "\<dots> \<longleftrightarrow> (\<exists>d' \<in> set ds. d = d' + k)" using assms(2) eq by blast
  finally show ?thesis using transfer_matrix_index_lt [OF assms]
    by (simp add: buffer_of_def part_of_def copied_def dpu_transfer_matrix_clear_all_def nth_fold_update)
qed

lemma split_buffers:
  assumes "rank_wf r" "ci < nr_cis r" "d < nr_dpus r" and "split_matrix r m = (e, od)"
  shows "buffer_of r (part_of m e) ci d = (if even d then buffer_of r m ci d else 0)"
    and "even (nr_dpus r) \<Longrightarrow> buffer_of r (part_of m od) ci d = (if odd d then buffer_of r m ci d else 0)"
proof -
  have "d \<in> set (pair_lines r) \<longleftrightarrow> even d" using assms(3) by (auto simp: set_pair_lines)
  then show "buffer_of r (part_of m e) ci d = (if even d then buffer_of r m ci d else 0)"
    using assms(4) buffer_of_copied [OF assms(1-3), of m 0 "pair_lines r"] by (auto simp: split_matrix_eq)
  have "(\<exists>d' \<in> set (pair_lines r). d = d' + 1) \<longleftrightarrow> odd d"
  proof
    assume "odd d"
    then have "even (d - 1)" "d = (d - 1) + 1" by simp_all
    with assms(3) show "\<exists>d' \<in> set (pair_lines r). d = d' + 1" by (intro bexI [of _ "d - 1"]) (simp_all add: set_pair_lines)
  qed (auto simp: set_pair_lines)
  then show "buffer_of r (part_of m od) ci d = (if odd d then buffer_of r m ci d else 0)"
    using assms(4) buffer_of_copied [OF assms(1-3), of m 1 "pair_lines r"] by (auto simp: split_matrix_eq)
qed

lemma bit_line_mask:
  "bit (line_mask r m d) ci \<longleftrightarrow> ci < nr_cis r \<and> ci < 8 \<and> dpu_is_enabled r ci d \<and> buffer_of r m ci d \<noteq> 0"
  by (auto simp: line_mask_def bit_fold_or_bit_of)

text \<open>The pair of lines from \<open>d\<close> on asks for different CIs to be on the host side.\<close>

definition line_conflict :: "'w dpu_rank \<Rightarrow> dpu_transfer_matrix \<Rightarrow> nat \<Rightarrow> bool" where
  "line_conflict r m d \<longleftrightarrow> line_mask r m d \<noteq> 0 \<and> line_mask r m (d + 1) \<noteq> 0 \<and> line_mask r m d \<noteq> line_mask r m (d + 1)"

lemma line_mask_eq_0: "(\<And>ci. ci < nr_cis r \<Longrightarrow> buffer_of r m ci d = 0) \<Longrightarrow> line_mask r m d = 0"
  by (rule bit_word_eqI) (auto simp: bit_line_mask)

lemma split_no_conflict:
  assumes "rank_wf r" "split_matrix r m = (e, od)" "even (nr_dpus r)" "d \<in> set (pair_lines r)"
  shows "\<not> line_conflict r (part_of m e) d" "\<not> line_conflict r (part_of m od) d"
proof -
  have d: "even d" "d + 1 < nr_dpus r" using assms(3,4) by (auto simp: set_pair_lines elim!: evenE)
  have "line_mask r (part_of m e) (d + 1) = 0" "line_mask r (part_of m od) d = 0"
    using d split_buffers [OF assms(1) _ _ assms(2)] assms(3) by (simp_all add: line_mask_eq_0)
  then show "\<not> line_conflict r (part_of m e) d" "\<not> line_conflict r (part_of m od) d"
    by (simp_all add: line_conflict_def)
qed


section \<open>Access before a transfer\<close>

text \<open>The MRAM of every enabled DPU of the transfer is recorded on the host side.\<close>

definition accessible :: "'w dpu_rank \<Rightarrow> dpu_transfer_matrix \<Rightarrow> bool" where
  "accessible r m \<longleftrightarrow> list_all (\<lambda>ci. list_all (\<lambda>d.
       dpu_is_enabled r ci d \<and> buffer_of r m ci d \<noteq> 0 \<longrightarrow> mux_bit r ci d) [0..<nr_dpus r]) [0..<nr_cis r]"

lemma accessible_iff:
  "accessible r m \<longleftrightarrow> (\<forall>ci < nr_cis r. \<forall>d < nr_dpus r. dpu_is_enabled r ci d \<and> buffer_of r m ci d \<noteq> 0 \<longrightarrow> mux_bit r ci d)"
  by (auto simp: accessible_def list_all_iff)

lemma switch_dpus:
  assumes "rank_wf r"
  shows "dpu_switch_mux_for_dpu_line d m r = (out, t) \<Longrightarrow> r_dpus t = r_dpus r"
    and "dpu_switch_mux_for_rank host r = (out, t) \<Longrightarrow> r_dpus t = r_dpus r"
proof -
  have "r_dpus (fold (\<lambda>ci. upd_slice ci (f ci)) cis s) = r_dpus s" for f cis and s :: "'a dpu_rank"
    by (induction cis arbitrary: s) simp_all
  then have rec: "r_dpus (record_mux_lines b f g h r) = r_dpus r" "r_dpus (record_mux_rank host r) = r_dpus r" for b f g h
    by (simp_all only: record_lines_eq [OF assms] record_rank_eq)
  show "dpu_switch_mux_for_dpu_line d m r = (out, t) \<Longrightarrow> r_dpus t = r_dpus r"
    "dpu_switch_mux_for_rank host r = (out, t) \<Longrightarrow> r_dpus t = r_dpus r"
  using switch_line_cases [OF assms, of d m out t] switch_rank_cases [OF assms, of host out t]
    same_fixed_hw(3) [of _ t] rec
    by auto
qed

text \<open>What one round of the loop leaves behind.\<close>

lemma access_line:
  assumes "rank_wf r" "even d" "d + 1 < nr_dpus r"
    and "FF (dpu_switch_mux_for_dpu_line d m) (\<lambda>_. dpu_switch_mux_for_dpu_line (d + 1) m) r = (Ret (), t)"
  shows "rank_wf t" "r_hw t = r_hw r" "r_dpus t = r_dpus r"
    "ci < nr_cis r \<Longrightarrow> mux_bit t ci k \<longleftrightarrow> k < 8 \<and> (if k = d \<or> k = d + 1 then bit m ci else mux_bit r ci k)"
proof -
  obtain u where 1: "dpu_switch_mux_for_dpu_line d m r = (Ret (), u)" and 2: "dpu_switch_mux_for_dpu_line (d + 1) m u = (Ret (), t)"
    using assms(4) by (auto simp: FF_Ret_iff)
  have base: "pair_base d = d" "pair_base (Suc d) = d" using assms(2) by (simp_all add: pair_base_eq)
  note u = switch_line_bits [OF assms(1) 1]
  then have "rank_wf u" by simp
  note t = switch_line_bits [OF this 2]
  show "rank_wf t" "r_hw t = r_hw r" using u t by simp_all
  show "r_dpus t = r_dpus r" using switch_dpus(1) [OF assms(1) 1] switch_dpus(1) [OF \<open>rank_wf u\<close> 2] by simp
  have "r_hw u = r_hw r" using u by simp
  with u t assms(3) show "mux_bit t ci k \<longleftrightarrow> k < 8 \<and> (if k = d \<or> k = d + 1 then bit m ci else mux_bit r ci k)"
    if "ci < nr_cis r" using that by (auto simp: base)
qed


lemma dpu_is_enabled_cong: "r_hw t = r_hw r \<Longrightarrow> r_dpus t = r_dpus r \<Longrightarrow> dpu_is_enabled t = dpu_is_enabled r"
  by (simp add: dpu_is_enabled_def fun_eq_iff dpu_get_unsafe_def dpu_index_def)

lemma buffer_of_cong: "r_hw t = r_hw r \<Longrightarrow> buffer_of t = buffer_of r"
  by (simp add: buffer_of_def fun_eq_iff get_transfer_matrix_index_def)

lemma access_pair_Ret:
  assumes "rank_wf r" "even d" "access_pair m d r = (Ret (), t)"
  shows "rank_wf t" "r_hw t = r_hw r" "r_dpus t = r_dpus r"
    "ci < nr_cis r \<Longrightarrow> k \<noteq> d \<Longrightarrow> k \<noteq> d + 1 \<Longrightarrow> mux_bit t ci k = mux_bit r ci k"
    "ci < nr_cis r \<Longrightarrow> k < nr_dpus r \<Longrightarrow> k = d \<or> k = d + 1 \<Longrightarrow> dpu_is_enabled r ci k \<Longrightarrow> buffer_of r m ci k \<noteq> 0
      \<Longrightarrow> mux_bit t ci k"
proof -
  let ?m1 = "line_mask r m d" and ?m2 = "line_mask r m (d + 1)"
  have bits: "bit (?m1 OR ?m2) ci"
    if "ci < nr_cis r" "k = d \<or> k = d + 1" "dpu_is_enabled r ci k" "buffer_of r m ci k \<noteq> 0" for ci k
    using that rank_wfD(2) [OF assms(1)] by (auto simp: bit_or_iff bit_line_mask)
  show "rank_wf t" "r_hw t = r_hw r" "r_dpus t = r_dpus r"
    "ci < nr_cis r \<Longrightarrow> k \<noteq> d \<Longrightarrow> k \<noteq> d + 1 \<Longrightarrow> mux_bit t ci k = mux_bit r ci k"
    "ci < nr_cis r \<Longrightarrow> k < nr_dpus r \<Longrightarrow> k = d \<or> k = d + 1 \<Longrightarrow> dpu_is_enabled r ci k \<Longrightarrow> buffer_of r m ci k \<noteq> 0
      \<Longrightarrow> mux_bit t ci k"
  proof -
    consider (none) "?m1 = 0" "?m2 = 0" "t = r"
      | (switch) "?m1 \<noteq> 0 \<or> ?m2 \<noteq> 0" "d + 1 < nr_dpus r"
          "FF (dpu_switch_mux_for_dpu_line d (?m1 OR ?m2)) (\<lambda>_. dpu_switch_mux_for_dpu_line (d + 1) (?m1 OR ?m2)) r = (Ret (), t)"
    proof (cases "?m1 = 0 \<and> ?m2 = 0")
      case True
      with assms(3) show ?thesis using none by (simp add: access_pair_def Let_def split: if_splits)
    next
      case False
      then have "0 < nr_cis r" using line_mask_eq_0 [of r m d] line_mask_eq_0 [of r m "d + 1"] by (cases "nr_cis r") auto
      with False assms(3) show ?thesis using switch by (simp add: access_pair_def Let_def split: if_splits)
    qed
    then have "rank_wf t \<and> r_hw t = r_hw r \<and> r_dpus t = r_dpus r \<and>
      (\<forall>ci < nr_cis r. \<forall>k. mux_bit t ci k \<longleftrightarrow> k < 8 \<and>
        (if (k = d \<or> k = d + 1) \<and> (?m1 \<noteq> 0 \<or> ?m2 \<noteq> 0) then bit (?m1 OR ?m2) ci else mux_bit r ci k))"
    proof cases
      case none
      with assms(1) show ?thesis using mux_bit_lt by auto
    next
      case switch
      note f = access_line [OF assms(1,2) switch(2,3)]
      show ?thesis by (intro conjI allI impI f(1,2,3)) (use f(4) switch(1) in simp)
    qed
    note f = this
    show "rank_wf t" "r_hw t = r_hw r" "r_dpus t = r_dpus r" using f by simp_all
    show "mux_bit t ci k = mux_bit r ci k" if "ci < nr_cis r" "k \<noteq> d" "k \<noteq> d + 1"
      using f that mux_bit_lt by auto
    show "mux_bit t ci k" if "ci < nr_cis r" "k < nr_dpus r" "k = d \<or> k = d + 1" "dpu_is_enabled r ci k" "buffer_of r m ci k \<noteq> 0"
      proof -
      have "bit (?m1 OR ?m2) ci" using bits [OF that(1,3-5)] .
      moreover from this have "?m1 \<noteq> 0 \<or> ?m2 \<noteq> 0" by auto
      ultimately show ?thesis using f that(1-3) rank_wfD(3) [OF assms(1)] by simp
    qed
  qed
qed

lemma access_lines:
  assumes "rank_wf r" "\<forall>d \<in> set ds. even d" "distinct ds"
    and "mfor ds (\<lambda>each_dpu _. access_pair m each_dpu) () r = (Ret (), t)"
  shows "rank_wf t \<and> r_hw t = r_hw r \<and> r_dpus t = r_dpus r \<and>
    (\<forall>ci < nr_cis r. \<forall>k. (\<forall>d \<in> set ds. k \<noteq> d \<and> k \<noteq> d + 1) \<longrightarrow> mux_bit t ci k = mux_bit r ci k) \<and>
    (\<forall>ci < nr_cis r. \<forall>k < nr_dpus r. (\<exists>d \<in> set ds. k = d \<or> k = d + 1) \<and> dpu_is_enabled r ci k \<and> buffer_of r m ci k \<noteq> 0
       \<longrightarrow> mux_bit t ci k)"
  using assms
proof (induction ds arbitrary: r)
  case (Cons d ds)
  obtain u where 1: "access_pair m d r = (Ret (), u)" and 2: "mfor ds (\<lambda>each_dpu _. access_pair m each_dpu) () u = (Ret (), t)"
    using Cons.prems(4) by (auto simp: FF_Ret_iff)
  have d: "even d" using Cons.prems(2) by simp
  note u = access_pair_Ret [OF Cons.prems(1) d 1]
  have ds: "\<forall>d \<in> set ds. even d" "distinct ds" using Cons.prems(2,3) by simp_all
  note t = Cons.IH [OF u(1) ds 2]
  have apart: "\<forall>d' \<in> set ds. k \<noteq> d' \<and> k \<noteq> d' + 1" if "k = d \<or> k = d + 1" for k
  proof
    fix d' assume "d' \<in> set ds"
    with Cons.prems(2,3) have "even d'" "d' \<noteq> d" by auto
    with that d show "k \<noteq> d' \<and> k \<noteq> d' + 1" by presburger
  qed
  note cong = dpu_is_enabled_cong [OF u(2,3)] buffer_of_cong [OF u(2)]
  have head: "mux_bit t ci k" if "ci < nr_cis r" "k < nr_dpus r" "k = d \<or> k = d + 1" "dpu_is_enabled r ci k" "buffer_of r m ci k \<noteq> 0" for ci k
    using t apart [OF that(3)] u(5) [OF that] that(1) unfolding u(2) by blast
  have rest: "mux_bit t ci k" if "ci < nr_cis r" "k < nr_dpus r" "dpu_is_enabled r ci k" "buffer_of r m ci k \<noteq> 0"
    and "d' \<in> set ds" "k = d' \<or> k = d' + 1" for ci k d'
  proof -
    have "(\<exists>d' \<in> set ds. k = d' \<or> k = d' + 1) \<and> dpu_is_enabled u ci k \<and> buffer_of u m ci k \<noteq> 0"
      using that(3-6) unfolding cong by blast
    moreover have "ci < nr_cis u" "k < nr_dpus u" using that(1,2) unfolding u(2) .
    moreover note t
    ultimately show ?thesis by presburger
  qed
  have others: "mux_bit t ci k = mux_bit r ci k" if "ci < nr_cis r" "\<forall>d' \<in> set (d # ds). k \<noteq> d' \<and> k \<noteq> d' + 1" for ci k
    using t u(4) [of ci k] that unfolding u(2) by simp
  show ?case
  proof (intro conjI allI impI)
    show "rank_wf t" "r_hw t = r_hw r" "r_dpus t = r_dpus r" using t unfolding u(2,3) by blast+
    show "mux_bit t ci k = mux_bit r ci k" if "ci < nr_cis r" "\<forall>d' \<in> set (d # ds). k \<noteq> d' \<and> k \<noteq> d' + 1" for ci k
      using that by (rule others)
    fix ci k
    assume ci: "ci < nr_cis r" "k < nr_dpus r"
      and k: "(\<exists>d' \<in> set (d # ds). k = d' \<or> k = d' + 1) \<and> dpu_is_enabled r ci k \<and> buffer_of r m ci k \<noteq> 0"
    then consider "k = d \<or> k = d + 1" | d' where "d' \<in> set ds" "k = d' \<or> k = d' + 1" unfolding list.set by blast
    then show "mux_bit t ci k"
    proof cases
      case 1
      with ci k show ?thesis by (intro head) blast+
    next
      case 2
      with ci k show ?thesis by (intro rest) blast+
    qed
  qed
qed simp


lemma get_access_matrix:
  assumes "rank_wf r" "host_get_access_for_transfer_matrix m r = (Ret (), t)"
  shows "rank_wf t" "r_hw t = r_hw r" "r_dpus t = r_dpus r" "accessible t m"
proof -
  have "\<forall>d \<in> set (pair_lines r). even d" "distinct (pair_lines r)"
    by (auto simp: set_pair_lines) (simp add: pair_lines_def distinct_map inj_on_def)
  note f = access_lines [OF assms(1) this assms(2) [unfolded host_get_access_for_transfer_matrix_def]]
  then show "rank_wf t" and hw: "r_hw t = r_hw r" and dpus: "r_dpus t = r_dpus r" by blast+
  have cong: "dpu_is_enabled t = dpu_is_enabled r" "buffer_of t = buffer_of r" "nr_dpus t = nr_dpus r" "nr_cis t = nr_cis r"
    by (rule dpu_is_enabled_cong [OF hw dpus], rule buffer_of_cong [OF hw], simp_all only: hw)
  have "\<exists>d \<in> set (pair_lines r). k = d \<or> k = d + 1" if "k < nr_dpus r" for k
  proof
    show "k = pair_base k \<or> k = pair_base k + 1" by (rule pair_base_cases)
    have "even (pair_base k)" "pair_base k \<le> k" unfolding pair_base_eq by simp_all
    with that show "pair_base k \<in> set (pair_lines r)" by (simp add: set_pair_lines)
  qed
  note pair = this
  show "accessible t m" unfolding accessible_iff cong
  proof (intro allI impI)
    fix ci k assume ci: "ci < nr_cis r" "k < nr_dpus r" "dpu_is_enabled r ci k \<and> buffer_of r m ci k \<noteq> 0"
    then have "(\<exists>d \<in> set (pair_lines r). k = d \<or> k = d + 1) \<and> dpu_is_enabled r ci k \<and> buffer_of r m ci k \<noteq> 0"
      using pair by blast
    moreover note f ci(1,2)
    ultimately show "mux_bit t ci k" by presburger
  qed
qed

lemma get_access:
  assumes "rank_wf r" "mux_inv r" "host_get_access_for_transfer m r = (Ret (), t)"
  shows "rank_wf t" "r_hw t = r_hw r" "accessible t m"
proof -
  have "rank_wf t \<and> r_hw t = r_hw r \<and> accessible t m"
  proof (cases "is_transfer_matrix_full r m")
    case True
    then have "dpu_switch_mux_for_rank True r = (Ret (), t)" using assms(3) by (simp add: host_get_access_for_transfer_def)
    from switch_rank_bits [OF assms(1,2) this] show ?thesis by (auto simp: accessible_iff)
  next
    case False
    then show ?thesis using assms(3) get_access_matrix [OF assms(1), of m t] by (simp add: host_get_access_for_transfer_def)
  qed
  then show "rank_wf t" "r_hw t = r_hw r" "accessible t m" by blast+
qed

lemma do_mram_transfer_wf: "rank_wf r \<Longrightarrow> do_mram_transfer type m r = (out, t) \<Longrightarrow> rank_wf t"
  by (auto simp: do_mram_transfer_def rank_wf_def split: if_splits prod.splits)

text \<open>The copy with a check right before each call of the backend.\<close>

definition checked_transfer :: "dpu_transfer_type \<Rightarrow> dpu_transfer_matrix \<Rightarrow> ('w, unit) ufi" where
  "checked_transfer type m = (\<lambda>r. if accessible r m then do_mram_transfer type m r else (Abort, r))"

definition checked_copy :: "dpu_transfer_type \<Rightarrow> dpu_transfer_matrix \<Rightarrow> ('w, unit) ufi" where
  "checked_copy type m =
     FF (duplicate_transfer_matrix m) (\<lambda>split.
       (case split of
          None \<Rightarrow> FF (host_get_access_for_transfer m) (\<lambda>_. checked_transfer type m)
        | Some (even_m, odd_m) \<Rightarrow>
            FF (host_get_access_for_transfer_matrix (part_of m even_m)) (\<lambda>_.
            FF (checked_transfer type (part_of m even_m)) (\<lambda>_.
            FF (host_get_access_for_transfer_matrix (part_of m odd_m)) (\<lambda>_.
            checked_transfer type (part_of m odd_m))))))"

lemma FF_eqI: "(\<And>x t. m r = (Ret x, t) \<Longrightarrow> k x t = k' x t) \<Longrightarrow> FF m k r = FF m k' r"
  by (auto simp: FF_def split: prod.splits outcome.splits)

lemma duplicate_cases:
  assumes "duplicate_transfer_matrix m r = (Ret split, t)"
  shows "t = r" "split = None \<or> split = Some (split_matrix r m) \<and> even (nr_dpus r)"
  using assms by (auto simp: duplicate_transfer_matrix_def split: if_splits option.splits bool.splits)

lemma checked_transfer_eq: "accessible r m \<Longrightarrow> checked_transfer type m r = do_mram_transfer type m r"
  by (simp add: checked_transfer_def)

lemma access_then_transfer:
  assumes "rank_wf r" and "\<And>s. rank_wf s \<Longrightarrow> k () s = k' () s"
  shows "FF (host_get_access_for_transfer_matrix m) (\<lambda>_. FF (do_mram_transfer type m) k) r
    = FF (host_get_access_for_transfer_matrix m) (\<lambda>_. FF (checked_transfer type m) k') r"
proof (rule FF_eqI)
  fix x t assume "host_get_access_for_transfer_matrix m r = (Ret x, t)"
  then have run: "host_get_access_for_transfer_matrix m r = (Ret (), t)" by simp
  note a = get_access_matrix [OF assms(1) run]
  have "FF (do_mram_transfer type m) k t = FF (do_mram_transfer type m) k' t"
    by (rule FF_eqI) (simp add: assms(2) [OF do_mram_transfer_wf [OF a(1)]])
  then show "FF (do_mram_transfer type m) k t = FF (checked_transfer type m) k' t"
    by (simp add: FF_def checked_transfer_eq [OF a(4)])
qed

lemma access_then_last:
  assumes "rank_wf r"
  shows "FF (host_get_access_for_transfer_matrix m) (\<lambda>_. do_mram_transfer type m) r
    = FF (host_get_access_for_transfer_matrix m) (\<lambda>_. checked_transfer type m) r"
proof (rule FF_eqI)
  fix x t assume "host_get_access_for_transfer_matrix m r = (Ret x, t)"
  then have run: "host_get_access_for_transfer_matrix m r = (Ret (), t)" by simp
  show "do_mram_transfer type m t = checked_transfer type m t"
    using get_access_matrix(4) [OF assms run] by (simp add: checked_transfer_eq)
qed

text \<open>
  C18: On a well-formed rank with the invariant of the multiplexers, a copy to or from the MRAMs is
  the same as one that checks, before every call of the backend and for the matrix of that call, that
  the MRAM of each enabled DPU with a buffer is recorded on the host side: the check never fails, on
  the whole-rank path, on the path by pairs of lines, and for both halves of a matrix that was split.
\<close>

theorem mram_copy_checked:
  assumes "rank_wf r" and "mux_inv r"
  shows "copy_mram_for_dpus type m r = checked_copy type m r"
  unfolding copy_mram_for_dpus_def checked_copy_def
proof (rule FF_eqI)
  fix split t
  assume "duplicate_transfer_matrix m r = (Ret split, t)"
  then have t: "t = r" by (rule duplicate_cases(1))
  have unsplit: "FF (host_get_access_for_transfer m) (\<lambda>_. do_mram_transfer type m) r
    = FF (host_get_access_for_transfer m) (\<lambda>_. checked_transfer type m) r"
    by (rule FF_eqI) (use get_access(3) [OF assms] in \<open>simp add: checked_transfer_eq\<close>)
  show "(case split of None \<Rightarrow> FF (host_get_access_for_transfer m) (\<lambda>_. do_mram_transfer type m)
        | Some (even_m, odd_m) \<Rightarrow>
            FF (host_get_access_for_transfer_matrix (part_of m even_m)) (\<lambda>_.
            FF (do_mram_transfer type (part_of m even_m)) (\<lambda>_.
            FF (host_get_access_for_transfer_matrix (part_of m odd_m)) (\<lambda>_.
            do_mram_transfer type (part_of m odd_m))))) t
    = (case split of None \<Rightarrow> FF (host_get_access_for_transfer m) (\<lambda>_. checked_transfer type m)
        | Some (even_m, odd_m) \<Rightarrow>
            FF (host_get_access_for_transfer_matrix (part_of m even_m)) (\<lambda>_.
            FF (checked_transfer type (part_of m even_m)) (\<lambda>_.
            FF (host_get_access_for_transfer_matrix (part_of m odd_m)) (\<lambda>_.
            checked_transfer type (part_of m odd_m))))) t"
    unfolding t
    by (cases split rule: option.exhaust)
       (simp_all only: option.case unsplit prod.case_eq_if access_then_transfer [OF assms(1) access_then_last])
qed


text \<open>
  C19: When a transfer matrix is split, the rank does not change, the even half holds exactly the buffers of the DPUs with an
  even number and the odd half exactly the others, so that together they are the transfer; and no
  pair of lines of either half asks for different CIs, which is what \<open>access_pair\<close> asserts.
\<close>

theorem split_matrix_halves:
  assumes "rank_wf r" and "duplicate_transfer_matrix m r = (Ret (Some (e, od)), t)"
  shows "t = r \<and>
    (\<forall>ci < nr_cis r. \<forall>d < nr_dpus r.
       buffer_of r (part_of m e) ci d = (if even d then buffer_of r m ci d else 0)
       \<and> buffer_of r (part_of m od) ci d = (if odd d then buffer_of r m ci d else 0))
    \<and> (\<forall>d \<in> set (pair_lines r). \<not> line_conflict r (part_of m e) d \<and> \<not> line_conflict r (part_of m od) d)"
proof -
  have "t = r" using assms(2) by (rule duplicate_cases(1))
  moreover have split: "split_matrix r m = (e, od)" and even: "even (nr_dpus r)"
    using duplicate_cases(2) [OF assms(2)] by simp_all
  moreover note split_buffers [OF assms(1) _ _ split] split_no_conflict [OF assms(1) split even]
  ultimately show ?thesis by simp
qed

section \<open>A sample transfer\<close>

definition two_buffers :: "(nat \<times> nat) list \<Rightarrow> dpu_transfer_matrix" where
  "two_buffers dpus = fold (\<lambda>(ci, d). dpu_transfer_matrix_add_dpu (sample_rank []) ci d 0x1000) dpus dpu_transfer_matrix_clear_all"

lemma sample_mux: "mux_inv (sample_rank w)"
proof -
  have "mux_bit (sample_rank w) ci k \<longleftrightarrow> k < 8" if "ci < 2" for ci k
    using that by (intro sample_slice_mux) (simp add: sample_rank_simps)
  then show ?thesis by (simp add: mux_inv_def sample_rank_simps)
qed

theorem mram_copy_checked_witness:
  "copy_mram_for_dpus DPU_TRANSFER_TO_MRAM (two_buffers [(0, 0), (0, 1), (1, 0)]) (sample_rank [])
     = checked_copy DPU_TRANSFER_TO_MRAM (two_buffers [(0, 0), (0, 1), (1, 0)]) (sample_rank [])"
  by (rule mram_copy_checked [OF sample_rank_wf sample_mux])

lemma sample_split:
  "fst (duplicate_transfer_matrix (two_buffers [(0, 0), (0, 1), (1, 0)]) (sample_rank []))
     = Ret (Some (two_buffers [(0, 0), (1, 0)], two_buffers [(0, 1)]))"
  by code_simp

text \<open>
  The first mismatch ends the scan of a line: with a buffer for DPU 0 of CI 0 and one for DPU 1
  of CI 1, the scan has not seen the second line when it stops, the matrix is not split, and the
  assertion that the lines do not disagree fails.
\<close>

theorem unsplit_conflict_aborts:
  "fst (duplicate_transfer_matrix (two_buffers [(0, 0), (1, 1)]) (sample_rank [])) = Ret None
   \<and> line_conflict (sample_rank []) (two_buffers [(0, 0), (1, 1)]) 0
   \<and> fst (copy_mram_for_dpus DPU_TRANSFER_TO_MRAM (two_buffers [(0, 0), (1, 1)]) (sample_rank [])) = Abort"
proof (intro conjI)
  show "fst (duplicate_transfer_matrix (two_buffers [(0, 0), (1, 1)]) (sample_rank [])) = Ret None" by code_simp
  show "line_conflict (sample_rank []) (two_buffers [(0, 0), (1, 1)]) 0" by code_simp
  show "fst (copy_mram_for_dpus DPU_TRANSFER_TO_MRAM (two_buffers [(0, 0), (1, 1)]) (sample_rank [])) = Abort" by code_simp
qed


theorem split_matrix_halves_witness:
  "buffer_of (sample_rank []) (part_of (two_buffers [(0, 0), (0, 1), (1, 0)]) (two_buffers [(0, 1)])) 0 1 = 0x1000
   \<and> \<not> line_conflict (sample_rank []) (part_of (two_buffers [(0, 0), (0, 1), (1, 0)]) (two_buffers [(0, 0), (1, 0)])) 0"
proof -
  have "duplicate_transfer_matrix (two_buffers [(0, 0), (0, 1), (1, 0)]) (sample_rank [])
      = (Ret (Some (two_buffers [(0, 0), (1, 0)], two_buffers [(0, 1)])),
         snd (duplicate_transfer_matrix (two_buffers [(0, 0), (0, 1), (1, 0)]) (sample_rank [])))"
    using sample_split by (simp add: prod_eq_iff)
  note halves = split_matrix_halves [OF sample_rank_wf this]
  have "buffer_of (sample_rank []) (two_buffers [(0, 0), (0, 1), (1, 0)]) 0 1 = 0x1000" by code_simp
  with halves show ?thesis by (simp add: sample_rank_simps set_pair_lines)
qed

section \<open>The multiplexers after a copy\<close>

lemma keeps_access_pair:
  assumes "even d"
  shows "keeps (\<lambda>s. rank_wf s \<and> mux_inv s) (access_pair m d)"
proof (rule keepsI)
  fix r :: "'a dpu_rank" assume r: "rank_wf r \<and> mux_inv r"
  let ?I = "\<lambda>s :: 'a dpu_rank. rank_wf s \<and> mux_inv s \<and> r_hw s = r_hw r"
  have switch: "keeps ?I (dpu_switch_mux_for_dpu_line k x)" if "k < nr_dpus r" for k x
  proof (rule keepsI)
    fix s assume s: "?I s"
    then show "?I (snd (dpu_switch_mux_for_dpu_line k x s))"
      using switch_line_inv [of s k x] switch_line_bits [of s k x] that by (cases "dpu_switch_mux_for_dpu_line k x s") auto
  qed
  have pos: "0 < nr_cis r" if "line_mask r m d \<noteq> 0 \<or> line_mask r m (d + 1) \<noteq> 0"
    using that line_mask_eq_0 [of r m d] line_mask_eq_0 [of r m "d + 1"] by (cases "nr_cis r") auto
  show "rank_wf (snd (access_pair m d r)) \<and> mux_inv (snd (access_pair m d r))"
  proof (cases "(line_mask r m d = 0 \<and> line_mask r m (d + 1) = 0) \<or> line_conflict r m d \<or> nr_dpus r \<le> d + 1")
    case True
    then have "snd (access_pair m d r) = r"
      using pos by (auto simp: access_pair_def Let_def line_conflict_def)
    with r show ?thesis by simp
  next
    case False
    then have "access_pair m d r = FF (dpu_switch_mux_for_dpu_line d (line_mask r m d OR line_mask r m (d + 1)))
        (\<lambda>_. dpu_switch_mux_for_dpu_line (d + 1) (line_mask r m d OR line_mask r m (d + 1))) r"
      unfolding access_pair_def Let_def line_conflict_def by (simp only: not_less if_False not_le de_Morgan_disj simp_thms) auto
    moreover have kept: "keeps ?I (FF (dpu_switch_mux_for_dpu_line d (line_mask r m d OR line_mask r m (d + 1)))
        (\<lambda>_. dpu_switch_mux_for_dpu_line (d + 1) (line_mask r m d OR line_mask r m (d + 1))))"
      using False by (intro keeps_FF switch) simp_all
    ultimately show ?thesis using keepsD [OF kept, of r] r by simp
  qed
qed

lemma keeps_get_access_matrix: "keeps (\<lambda>s. rank_wf s \<and> mux_inv s) (host_get_access_for_transfer_matrix m)"
proof (rule keepsI)
  fix r :: "'a dpu_rank" assume r: "rank_wf r \<and> mux_inv r"
  have "keeps (\<lambda>s :: 'a dpu_rank. rank_wf s \<and> mux_inv s) (mfor (pair_lines r) (\<lambda>each_dpu _. access_pair m each_dpu) ())"
    by (intro keeps_mfor_on keeps_access_pair) (simp add: set_pair_lines)
  with r show "rank_wf (snd (host_get_access_for_transfer_matrix m r)) \<and> mux_inv (snd (host_get_access_for_transfer_matrix m r))"
    unfolding host_get_access_for_transfer_matrix_def by (rule keepsD [rotated])
qed

lemma keeps_get_access: "keeps (\<lambda>s. rank_wf s \<and> mux_inv s) (host_get_access_for_transfer m)"
proof (rule keepsI)
  fix r :: "'a dpu_rank" assume r: "rank_wf r \<and> mux_inv r"
  have "rank_wf (snd (dpu_switch_mux_for_rank True r)) \<and> mux_inv (snd (dpu_switch_mux_for_rank True r))"
    using r switch_rank_inv [of r True] keepsD [OF switch_wf(1) [of True], of r]
    by (cases "dpu_switch_mux_for_rank True r") auto
  then show "rank_wf (snd (host_get_access_for_transfer m r)) \<and> mux_inv (snd (host_get_access_for_transfer m r))"
    using keepsD [OF keeps_get_access_matrix [of m] r] by (simp add: host_get_access_for_transfer_def)
qed

lemma keeps_do_mram_transfer: "keeps (\<lambda>s. rank_wf s \<and> mux_inv s) (do_mram_transfer type m)"
proof (rule keepsI)
  fix r :: "'a dpu_rank" assume "rank_wf r \<and> mux_inv r"
  moreover have "mux_inv (r\<lparr>r_world := w\<rparr>) = mux_inv r" "rank_wf (r\<lparr>r_world := w\<rparr>) = rank_wf r" for w
    by (simp_all add: mux_inv_def mux_bit_def rank_wf_def)
  ultimately show "rank_wf (snd (do_mram_transfer type m r)) \<and> mux_inv (snd (do_mram_transfer type m r))"
    by (auto simp: do_mram_transfer_def split: prod.splits)
qed

text \<open>
  Whatever its outcome, a copy to or from the MRAMs keeps the rank well formed and the two DPUs
  of each pair on the same side.
\<close>

theorem mram_copy_mux_inv:
  assumes "rank_wf r" and "mux_inv r" and "copy_mram_for_dpus type m r = (out, t)"
  shows "rank_wf t \<and> mux_inv t"
proof -
  have "keeps (\<lambda>s. rank_wf s \<and> mux_inv s) (duplicate_transfer_matrix m)"
    by (rule keepsI) (simp add: duplicate_transfer_matrix_def split: option.split bool.split)
  then have "keeps (\<lambda>s. rank_wf s \<and> mux_inv s) (copy_mram_for_dpus type m)"
    unfolding copy_mram_for_dpus_def
    by (intro keeps_FF) (auto split: option.split intro!: keeps_FF keeps_get_access keeps_get_access_matrix keeps_do_mram_transfer)
  from keeps_eqD [OF this _ assms(3)] assms(1,2) show ?thesis by simp
qed

theorem mram_copy_mux_inv_witness:
  "mux_inv (snd (copy_mram_for_dpus DPU_TRANSFER_FROM_MRAM (two_buffers [(0, 0), (0, 1), (1, 0)]) (sample_rank [])))"
  by (rule mram_copy_mux_inv [THEN conjunct2, OF sample_rank_wf sample_mux])
     (rule surjective_pairing)

end
