(* ===== verification/Ufi_Repair.thy ===== *)
theory Ufi_Repair
  imports Ufi_Mux
begin

text \<open>
  SRAM repair (first half of \<^verbatim>\<open>ufi/src/ufi_config.c\<close>): a DPU memory can replace four
  corrupted addresses, two (\<open>A\<close>, \<open>B\<close>) sharing their most significant bits and two (\<open>C\<close>, \<open>D\<close>) sharing
  theirs, and two data bits, one of even and one of odd index. \<open>extract_memory_repair_configuration\<close>
  computes such a configuration from the corrupted addresses of a memory; a DPU with a memory that has
  none is disabled.
\<close>

definition count_nr_of_faulty_bits :: "u64 \<Rightarrow> u8" where
  "count_nr_of_faulty_bits data = of_nat (popcount data)"

text \<open>\<^verbatim>\<open>__builtin_ctzll\<close> and \<^verbatim>\<open>63 - __builtin_clzll\<close>, only called on a value other than 0.\<close>

definition find_index_of_first_faulty_bit :: "u64 \<Rightarrow> u8" where
  "find_index_of_first_faulty_bit data = of_nat (hd (filter (bit data) [0..<64]))"

definition find_index_of_last_faulty_bit :: "u64 \<Rightarrow> u8" where
  "find_index_of_last_faulty_bit data = of_nat (last (filter (bit data) [0..<64]))"

definition no_repair :: dpu_repair_config where
  "no_repair = \<lparr>AB_msbs = 0xFF, CD_msbs = 0xFF, A_lsbs = 0xFF, B_lsbs = 0xFF, C_lsbs = 0xFF, D_lsbs = 0xFF,
     even_index = 0xFF, odd_index = 0xFF\<rparr>"

text \<open>One address: the first free slot it fits in, or \<open>None\<close>.\<close>

definition place_address :: "u32 \<Rightarrow> dpu_repair_config \<Rightarrow> dpu_repair_config option" where
  "place_address address config =
     (let msbs = ucast (drop_bit 4 address) :: u8;
          lsbs = ucast (address AND 0xF) :: u8
      in if A_lsbs config = 0xFF then Some (config\<lparr>AB_msbs := msbs, A_lsbs := lsbs\<rparr>)
         else if B_lsbs config = 0xFF \<and> AB_msbs config = msbs then Some (config\<lparr>B_lsbs := lsbs\<rparr>)
         else if C_lsbs config = 0xFF then Some (config\<lparr>CD_msbs := msbs, C_lsbs := lsbs\<rparr>)
         else if D_lsbs config = 0xFF \<and> CD_msbs config = msbs then Some (config\<lparr>D_lsbs := lsbs\<rparr>)
         else None)"

text \<open>The loop stops at the first address that does not fit, with the slots filled so far.\<close>

fun place_addresses :: "u32 list \<Rightarrow> dpu_repair_config \<Rightarrow> bool \<times> dpu_repair_config" where
  "place_addresses [] config = (True, config)"
| "place_addresses (a # as) config =
     (case place_address a config of None \<Rightarrow> (False, config) | Some config' \<Rightarrow> place_addresses as config')"

definition place_last_bit :: "u64 \<Rightarrow> dpu_repair_config \<Rightarrow> dpu_repair_config" where
  "place_last_bit faulty_bits config =
     (let last_index = find_index_of_last_faulty_bit faulty_bits
      in if last_index AND 1 = 1 then config\<lparr>odd_index := last_index\<rparr> else config\<lparr>even_index := last_index\<rparr>)"

definition place_first_bit :: "u64 \<Rightarrow> dpu_repair_config \<Rightarrow> bool \<times> dpu_repair_config" where
  "place_first_bit faulty_bits config =
     (let first_index = find_index_of_first_faulty_bit faulty_bits
      in if first_index AND 1 = 1 then
           (if odd_index config \<noteq> 0xFF then (False, config) else (True, config\<lparr>odd_index := first_index\<rparr>))
         else
           (if even_index config \<noteq> 0xFF then (False, config) else (True, config\<lparr>even_index := first_index\<rparr>)))"

definition place_faulty_bits :: "u64 \<Rightarrow> dpu_repair_config \<Rightarrow> bool \<times> dpu_repair_config" where
  "place_faulty_bits faulty_bits config =
     (let nr_of_faulty_bits = count_nr_of_faulty_bits faulty_bits
      in if nr_of_faulty_bits > 2 then (False, config)
         else if nr_of_faulty_bits = 2 then place_first_bit faulty_bits (place_last_bit faulty_bits config)
         else if nr_of_faulty_bits = 1 then place_first_bit faulty_bits config
         else (True, config))"

definition default_if :: "u8 \<Rightarrow> u8 \<Rightarrow> u8" where
  "default_if v x = (if x = 0xFF then v else x)"

definition default_repair :: "dpu_repair_config \<Rightarrow> dpu_repair_config" where
  "default_repair config = config\<lparr>
     A_lsbs := default_if 0xF (A_lsbs config), B_lsbs := default_if 0xF (B_lsbs config),
     C_lsbs := default_if 0xF (C_lsbs config), D_lsbs := default_if 0xF (D_lsbs config),
     even_index := default_if 0 (even_index config), odd_index := default_if 1 (odd_index config)\<rparr>"

definition extract_memory_repair_configuration :: "dpu_memory_repair \<Rightarrow> bool \<times> dpu_repair_config" where
  "extract_memory_repair_configuration repair_info =
     (let nr_of_corrupted_addr = nr_of_corrupted_addresses repair_info;
          corrupted = take nr_of_corrupted_addr (corrupted_addresses repair_info)
      in if nr_of_corrupted_addr > NB_MAX_REPAIR_ADDR then (False, no_repair)
         else (case place_addresses (map mra_address corrupted) no_repair of
             (False, config) \<Rightarrow> (False, config)
           | (True, config) \<Rightarrow>
               (case place_faulty_bits (fold (\<lambda>c bits. bits OR mra_faulty_bits c) corrupted 0) config of
                  (False, config) \<Rightarrow> (False, config)
                | (True, config) \<Rightarrow> (True, default_repair config))))"

section \<open>Repairing the memories of a rank\<close>

text \<open>A DPU that cannot be repaired is disabled, and its CI told so.\<close>

definition disable_dpu_of :: "nat \<Rightarrow> nat \<Rightarrow> (dpu \<Rightarrow> dpu) \<Rightarrow> 'w dpu_rank \<Rightarrow> 'w dpu_rank" where
  "disable_dpu_of each_ci each_dpu mark r =
     upd_slice each_ci (\<lambda>i. i\<lparr>enabled_dpus := enabled_dpus i AND NOT (bit_of each_dpu), all_dpus_are_enabled := False\<rparr>)
       (upd_dpu each_ci each_dpu (\<lambda>d. (mark d)\<lparr>dpu_enabled := False\<rparr>) r)"

definition fail_iram :: "dpu \<Rightarrow> dpu" where
  "fail_iram d = d\<lparr>iram_repair := (iram_repair d)\<lparr>fail_to_repair := True\<rparr>\<rparr>"

definition fail_wram :: "nat \<Rightarrow> dpu \<Rightarrow> dpu" where
  "fail_wram bank d = d\<lparr>wram_repair := (wram_repair d)[bank := (wram_repair d ! bank)\<lparr>fail_to_repair := True\<rparr>]\<rparr>"

text \<open>One DPU line: the configuration of every CI, and the DPUs disabled.\<close>

definition extract_line ::
  "(dpu \<Rightarrow> dpu_memory_repair) \<Rightarrow> (dpu \<Rightarrow> dpu) \<Rightarrow> nat \<Rightarrow> 'w dpu_rank \<Rightarrow> (nat \<Rightarrow> dpu_repair_config) \<times> 'w dpu_rank" where
  "extract_line memory mark each_dpu r =
     fold (\<lambda>each_ci (configs, r).
         (case extract_memory_repair_configuration (memory (dpu_get_unsafe r each_ci each_dpu)) of
            (repaired, config) \<Rightarrow>
              (configs(each_ci := config), if repaired then r else disable_dpu_of each_ci each_dpu mark r)))
       [0..<nr_cis r] (\<lambda>_. no_repair, r)"

definition report_corrupted :: "('w, unit) ufi" where
  "report_corrupted = (\<lambda>r.
     if list_ex (\<lambda>each_ci. enabled_dpus (r_slice r each_ci) \<noteq> 0) [0..<nr_cis r]
     then ok () r else fail DPU_ERR_CORRUPTED_MEMORY r)"

definition try_to_repair_iram :: "('w, unit) ufi" where
  "try_to_repair_iram = (\<lambda>r.
     FF (mfor [0..<nr_dpus r] (\<lambda>each_dpu _ r.
          (case extract_line iram_repair fail_iram each_dpu r of
             (configs, r) \<Rightarrow>
               FF (ufi_select_dpu ALL_CIS each_dpu) (\<lambda>ci_mask. ufi_iram_repair_config ci_mask configs) r)) ())
        (\<lambda>_. report_corrupted) r)"

definition try_to_repair_wram :: "('w, unit) ufi" where
  "try_to_repair_wram = (\<lambda>r.
     FF (mfor [0..<nr_dpus r] (\<lambda>each_dpu _.
          mfor [0..<NR_OF_WRAM_BANKS] (\<lambda>each_wram_bank _ r.
            (case extract_line (\<lambda>d. wram_repair d ! each_wram_bank) (fail_wram each_wram_bank) each_dpu r of
               (configs, r) \<Rightarrow>
                 FF (ufi_select_dpu ALL_CIS each_dpu) (\<lambda>ci_mask.
                 ufi_wram_repair_config ci_mask (of_nat each_wram_bank) configs) r)) ()) ())
        (\<lambda>_. report_corrupted) r)"

definition default_config :: dpu_repair_config where
  "default_config = \<lparr>AB_msbs = 0, CD_msbs = 0, A_lsbs = 0, B_lsbs = 0, C_lsbs = 0, D_lsbs = 0,
     even_index = 0, odd_index = 1\<rparr>"

definition dpu_iram_repair_config :: "('w, unit) ufi" where
  "dpu_iram_repair_config = (\<lambda>r.
     if do_iram_repair (r_configuration r) then try_to_repair_iram r
     else FF (ufi_select_all ALL_CIS) (\<lambda>ci_mask. ufi_iram_repair_config ci_mask (\<lambda>_. default_config)) r)"

definition dpu_wram_repair_config :: "('w, unit) ufi" where
  "dpu_wram_repair_config = (\<lambda>r.
     if do_wram_repair (r_configuration r) then try_to_repair_wram r
     else FF (ufi_select_all ALL_CIS) (\<lambda>ci_mask.
          mfor [0..<NR_OF_WRAM_BANKS] (\<lambda>each_wram_bank _.
            ufi_wram_repair_config ci_mask (of_nat each_wram_bank) (\<lambda>_. default_config)) ()) r)"


section \<open>What a repair configuration covers\<close>

definition address_pair :: "u32 \<Rightarrow> u8 \<times> u8" where
  "address_pair a = (ucast (drop_bit 4 a), ucast (a AND 0xF))"

definition slots :: "dpu_repair_config \<Rightarrow> (u8 \<times> u8) set" where
  "slots c = {(AB_msbs c, A_lsbs c), (AB_msbs c, B_lsbs c), (CD_msbs c, C_lsbs c), (CD_msbs c, D_lsbs c)}"

text \<open>The slots the placement has filled: the least significant bits are one nibble, never \<open>0xFF\<close>.\<close>

definition slot :: "u8 \<Rightarrow> u8 \<Rightarrow> (u8 \<times> u8) set" where
  "slot msbs lsbs = (if lsbs = 0xFF then {} else {(msbs, lsbs)})"

definition filled :: "dpu_repair_config \<Rightarrow> (u8 \<times> u8) set" where
  "filled c = slot (AB_msbs c) (A_lsbs c) \<union> slot (AB_msbs c) (B_lsbs c)
     \<union> slot (CD_msbs c) (C_lsbs c) \<union> slot (CD_msbs c) (D_lsbs c)"

definition placed_ok :: "dpu_repair_config \<Rightarrow> bool" where
  "placed_ok c \<longleftrightarrow> (A_lsbs c = 0xFF \<longrightarrow> B_lsbs c = 0xFF \<and> C_lsbs c = 0xFF) \<and> (C_lsbs c = 0xFF \<longrightarrow> D_lsbs c = 0xFF)
     \<and> (C_lsbs c \<noteq> 0xFF \<and> CD_msbs c = AB_msbs c \<longrightarrow> B_lsbs c \<noteq> 0xFF)"

lemma nibble_not_sentinel: "ucast (a AND 0xF :: u32) \<noteq> (0xFF :: u8)"
proof
  assume eq: "ucast (a AND 0xF) = (0xFF :: u8)"
  have "bit (0xFF :: u8) 7" by simp
  then have "bit (ucast (a AND 0xF) :: u8) 7" by (simp only: eq)
  then have "bit (a AND 0xF) 7" by (simp add: bit_ucast_iff)
  then show False by (simp add: bit_and_iff)
qed

lemma place_address_fields:
  assumes "place_address a c = Some c'"
  shows "even_index c' = even_index c" "odd_index c' = odd_index c"
  using assms by (auto simp: place_address_def Let_def split: if_splits)

lemma place_address_cases:
  assumes "place_address a c = Some c'"
  obtains m l where "address_pair a = (m, l)" "l \<noteq> 0xFF"
    and "A_lsbs c = 0xFF \<and> c' = c\<lparr>AB_msbs := m, A_lsbs := l\<rparr>
      \<or> A_lsbs c \<noteq> 0xFF \<and> B_lsbs c = 0xFF \<and> AB_msbs c = m \<and> c' = c\<lparr>B_lsbs := l\<rparr>
      \<or> A_lsbs c \<noteq> 0xFF \<and> (B_lsbs c \<noteq> 0xFF \<or> AB_msbs c \<noteq> m) \<and> C_lsbs c = 0xFF \<and> c' = c\<lparr>CD_msbs := m, C_lsbs := l\<rparr>
      \<or> A_lsbs c \<noteq> 0xFF \<and> C_lsbs c \<noteq> 0xFF \<and> D_lsbs c = 0xFF \<and> CD_msbs c = m \<and> c' = c\<lparr>D_lsbs := l\<rparr>"
proof
  show "address_pair a = (ucast (drop_bit 4 a), ucast (a AND 0xF))" by (simp add: address_pair_def)
  show "ucast (a AND 0xF) \<noteq> (0xFF :: u8)" by (rule nibble_not_sentinel)
qed (use assms in \<open>simp add: place_address_def Let_def split: if_splits\<close>)

lemma place_address_filled:
  assumes "place_address a c = Some c'" and ok: "placed_ok c"
  shows "filled c' = insert (address_pair a) (filled c)" and "placed_ok c'"
proof -
  obtain m l where l: "address_pair a = (m, l)" "l \<noteq> 0xFF" and cases:
    "A_lsbs c = 0xFF \<and> c' = c\<lparr>AB_msbs := m, A_lsbs := l\<rparr>
      \<or> A_lsbs c \<noteq> 0xFF \<and> B_lsbs c = 0xFF \<and> AB_msbs c = m \<and> c' = c\<lparr>B_lsbs := l\<rparr>
      \<or> A_lsbs c \<noteq> 0xFF \<and> (B_lsbs c \<noteq> 0xFF \<or> AB_msbs c \<noteq> m) \<and> C_lsbs c = 0xFF \<and> c' = c\<lparr>CD_msbs := m, C_lsbs := l\<rparr>
      \<or> A_lsbs c \<noteq> 0xFF \<and> C_lsbs c \<noteq> 0xFF \<and> D_lsbs c = 0xFF \<and> CD_msbs c = m \<and> c' = c\<lparr>D_lsbs := l\<rparr>"
    using assms(1) by (rule place_address_cases)
  from cases show "filled c' = insert (address_pair a) (filled c)"
    using ok l by (elim disjE) (simp_all add: filled_def slot_def placed_ok_def insert_commute)
  from cases show "placed_ok c'"
    using ok l by (elim disjE) (auto simp: placed_ok_def)
qed

lemma place_addresses_filled:
  assumes "place_addresses as c = (b, c')" and "placed_ok c"
  shows "even_index c' = even_index c \<and> odd_index c' = odd_index c
    \<and> (b \<longrightarrow> filled c' = address_pair ` set as \<union> filled c)"
  using assms
proof (induction "as" c rule: place_addresses.induct)
  case (2 a "as" c)
  show ?case
  proof (cases "place_address a c")
    case (Some d)
    with 2 place_address_filled [OF Some] place_address_fields [OF Some] show ?thesis by auto
  qed (use 2 in auto)
qed simp

text \<open>An address that does not fit: no configuration covers it together with the filled slots.\<close>

definition slots_distinct :: "dpu_repair_config \<Rightarrow> bool" where
  "slots_distinct c \<longleftrightarrow> (B_lsbs c \<noteq> 0xFF \<longrightarrow> B_lsbs c \<noteq> A_lsbs c) \<and> (D_lsbs c \<noteq> 0xFF \<longrightarrow> D_lsbs c \<noteq> C_lsbs c)
     \<and> (CD_msbs c = AB_msbs c \<longrightarrow> (C_lsbs c \<noteq> 0xFF \<longrightarrow> C_lsbs c \<noteq> A_lsbs c \<and> C_lsbs c \<noteq> B_lsbs c)
        \<and> (D_lsbs c \<noteq> 0xFF \<longrightarrow> D_lsbs c \<noteq> A_lsbs c \<and> D_lsbs c \<noteq> B_lsbs c))"

lemma place_address_distinct:
  assumes "place_address a c = Some c'" and ok: "placed_ok c" "slots_distinct c" and new: "address_pair a \<notin> filled c"
  shows "slots_distinct c'"
proof -
  obtain m l where l: "address_pair a = (m, l)" "l \<noteq> 0xFF" and cases:
    "A_lsbs c = 0xFF \<and> c' = c\<lparr>AB_msbs := m, A_lsbs := l\<rparr>
      \<or> A_lsbs c \<noteq> 0xFF \<and> B_lsbs c = 0xFF \<and> AB_msbs c = m \<and> c' = c\<lparr>B_lsbs := l\<rparr>
      \<or> A_lsbs c \<noteq> 0xFF \<and> (B_lsbs c \<noteq> 0xFF \<or> AB_msbs c \<noteq> m) \<and> C_lsbs c = 0xFF \<and> c' = c\<lparr>CD_msbs := m, C_lsbs := l\<rparr>
      \<or> A_lsbs c \<noteq> 0xFF \<and> C_lsbs c \<noteq> 0xFF \<and> D_lsbs c = 0xFF \<and> CD_msbs c = m \<and> c' = c\<lparr>D_lsbs := l\<rparr>"
    using assms(1) by (rule place_address_cases)
  from cases show ?thesis
    using ok l new by (elim disjE) (auto simp: slots_distinct_def placed_ok_def filled_def slot_def split: if_splits)
qed

lemma place_address_complete:
  assumes "place_address a c = None" and ok: "placed_ok c" "slots_distinct c" and new: "address_pair a \<notin> filled c"
  shows "\<not> insert (address_pair a) (filled c) \<subseteq> slots d"
proof
  assume sub: "insert (address_pair a) (filled c) \<subseteq> slots d"
  obtain m l where l: "address_pair a = (m, l)" by (rule prod.exhaust)
  obtain m1 m2 A B C D where c: "AB_msbs c = m1" "CD_msbs c = m2" "A_lsbs c = A" "B_lsbs c = B" "C_lsbs c = C" "D_lsbs c = D"
    by blast
  have none: "A \<noteq> 0xFF" "B \<noteq> 0xFF \<or> m1 \<noteq> m" "C \<noteq> 0xFF" "D \<noteq> 0xFF \<or> m2 \<noteq> m"
    using assms(1) l c by (auto simp: place_address_def address_pair_def Let_def split: if_splits)
  consider "m = m1" "m = m2" | "m = m1" "m \<noteq> m2" | "m \<noteq> m1" "m = m2" | "m \<noteq> m1" "m \<noteq> m2" by blast
  then show False
  proof cases
    case 1
    then have "{(m, A), (m, B), (m, C), (m, D), (m, l)} \<subseteq> slots d"
      using sub l none by (auto simp: filled_def slot_def c)
    then have "card {(m, A), (m, B), (m, C), (m, D), (m, l)} \<le> card (slots d)"
      by (rule card_mono [rotated]) (simp add: slots_def)
    moreover have "card {(m, A), (m, B), (m, C), (m, D), (m, l)} = 5"
      using 1 none ok new l by (auto simp: filled_def slot_def slots_distinct_def c)
    moreover have "card (slots d) \<le> 4"
      unfolding slots_def by (simp add: card_insert_if)
    ultimately show False by linarith
  next
    case 2
    then have "{(m, A), (m, B), (m, l), (m2, C)} \<subseteq> slots d" "A \<noteq> B" "A \<noteq> l" "B \<noteq> l"
      using sub l none ok new by (auto simp: filled_def slot_def slots_distinct_def c)
    with 2 show False by (auto simp: slots_def)
  next
    case 3
    then have "{(m, C), (m, D), (m, l), (m1, A)} \<subseteq> slots d" "C \<noteq> D" "C \<noteq> l" "D \<noteq> l"
      using sub l none ok new by (auto simp: filled_def slot_def slots_distinct_def c)
    with 3 show False by (auto simp: slots_def)
  next
    case 4
    have "m1 = m2 \<longrightarrow> B \<noteq> 0xFF" using ok(1) none by (auto simp: placed_ok_def c)
    then have "{(m1, A), (m2, C), (m, l)} \<subseteq> slots d" "m1 = m2 \<longrightarrow> (m1, B) \<in> slots d \<and> A \<noteq> B \<and> A \<noteq> C \<and> B \<noteq> C"
      using sub l none ok new by (auto simp: filled_def slot_def slots_distinct_def c)
    with 4 show False by (cases "m1 = m2") (auto simp: slots_def)
  qed
qed

lemma place_addresses_complete:
  assumes "placed_ok c" "slots_distinct c" and "distinct (map address_pair as)"
    and "\<forall>a \<in> set as. address_pair a \<notin> filled c" and "address_pair ` set as \<union> filled c \<subseteq> slots d"
  shows "fst (place_addresses as c)"
  using assms
proof (induction "as" c rule: place_addresses.induct)
  case (2 a "as" c)
  have "place_address a c \<noteq> None"
    using place_address_complete [OF _ 2(2,3), of a d] 2(5,6) by auto
  then obtain e where e: "place_address a c = Some e" by blast
  note f = place_address_filled [OF e 2(2)]
  have "fst (place_addresses as e)"
    using 2(1) [OF e f(2) place_address_distinct [OF e 2(2,3)]] 2(4-6) f(1) by (auto simp: image_iff) metis
  with e show ?case by simp
qed simp

section \<open>Faulty bits\<close>

abbreviation bits_of :: "u64 \<Rightarrow> nat list" where
  "bits_of x \<equiv> filter (bit x) [0..<64]"

lemma set_bits_of: "set (bits_of x) = {k. bit x k}"
  by (auto dest: bit_imp_le_length)

lemma bits_of_sorted: "sorted (bits_of x)" "distinct (bits_of x)"
  by (simp_all add: sorted_wrt_filter)

lemma count_faulty: "unat (count_nr_of_faulty_bits x) = length (bits_of x)"
proof -
  have "length (bits_of x) \<le> 64" by (rule order_trans [OF length_filter_le]) simp
  then show ?thesis by (simp add: count_nr_of_faulty_bits_def popcount_def unat_of_nat)
qed

lemma index_word:
  assumes "k < 64"
  shows "unat (of_nat k :: u8) = k" "(of_nat k :: u8) AND 1 = 1 \<longleftrightarrow> odd k" "(of_nat k :: u8) \<noteq> 0xFF"
proof -
  show u: "unat (of_nat k :: u8) = k" using assms by (simp add: unat_of_nat)
  show "(of_nat k :: u8) AND 1 = 1 \<longleftrightarrow> odd k" 
  proof -
    have "(of_nat k :: u8) AND 1 = 1 \<longleftrightarrow> odd (of_nat k :: u8)" by (simp only: and_one_eq odd_iff_mod_2_eq_one)
    also have "\<dots> \<longleftrightarrow> odd k" by simp
    finally show ?thesis .
  qed
  show "(of_nat k :: u8) \<noteq> 0xFF"
  proof
    assume "(of_nat k :: u8) = 0xFF"
    then have "unat (of_nat k :: u8) = unat (0xFF :: u8)" by (simp only:)
    with u assms show False by simp
  qed
qed

definition index_ok :: "u64 \<Rightarrow> dpu_repair_config \<Rightarrow> bool" where
  "index_ok x c \<longleftrightarrow> even (unat (even_index c)) \<and> odd (unat (odd_index c))
     \<and> (\<forall>k. bit x k \<longrightarrow> k = unat (even_index c) \<or> k = unat (odd_index c))"

lemma bits_of_two:
  assumes "bits_of x = [j, k]"
  shows "j < k" "k < 64" "hd (bits_of x) = j" "last (bits_of x) = k"
proof -
  show "j < k" using bits_of_sorted [of x] assms by auto
  have "k \<in> set (bits_of x)" using assms by simp
  then show "k < 64" by simp
qed (use assms in simp_all)

lemma place_faulty_bits_eq:
  assumes "even_index c = 0xFF" "odd_index c = 0xFF"
  shows "bits_of x = [] \<Longrightarrow> place_faulty_bits x c = (True, c)"
    and "bits_of x = [k] \<Longrightarrow> place_faulty_bits x c
      = (True, if odd k then c\<lparr>odd_index := of_nat k\<rparr> else c\<lparr>even_index := of_nat k\<rparr>)"
    and "bits_of x = [j, k] \<Longrightarrow> odd j \<noteq> odd k \<Longrightarrow> place_faulty_bits x c
      = (True, if odd k then c\<lparr>odd_index := of_nat k, even_index := of_nat j\<rparr>
               else c\<lparr>even_index := of_nat k, odd_index := of_nat j\<rparr>)"
    and "bits_of x = [j, k] \<Longrightarrow> odd j = odd k \<Longrightarrow> \<not> fst (place_faulty_bits x c)"
    and "2 < length (bits_of x) \<Longrightarrow> \<not> fst (place_faulty_bits x c)"
proof -
  let ?n = "count_nr_of_faulty_bits x"
  have n: "?n = 0 \<longleftrightarrow> length (bits_of x) = 0" "?n = 1 \<longleftrightarrow> length (bits_of x) = 1" "?n = 2 \<longleftrightarrow> length (bits_of x) = 2"
    "?n > 2 \<longleftrightarrow> length (bits_of x) > 2"
    unfolding count_faulty [symmetric] by (simp_all add: word_unat_eq_iff word_less_nat_alt)
  note defs = place_faulty_bits_def place_first_bit_def place_last_bit_def Let_def
    find_index_of_first_faulty_bit_def find_index_of_last_faulty_bit_def n
  show "bits_of x = [] \<Longrightarrow> place_faulty_bits x c = (True, c)"
    "2 < length (bits_of x) \<Longrightarrow> \<not> fst (place_faulty_bits x c)"
    by (simp_all add: defs)
  show "place_faulty_bits x c = (True, if odd k then c\<lparr>odd_index := of_nat k\<rparr> else c\<lparr>even_index := of_nat k\<rparr>)"
    if L: "bits_of x = [k]"
  proof -
    have "k \<in> set (bits_of x)" by (simp only: L) simp
    then have "k < 64" by simp
    with L assms show ?thesis by (simp add: defs index_word)
  qed
  show "place_faulty_bits x c
      = (True, if odd k then c\<lparr>odd_index := of_nat k, even_index := of_nat j\<rparr>
               else c\<lparr>even_index := of_nat k, odd_index := of_nat j\<rparr>)" if L: "bits_of x = [j, k]" and "odd j \<noteq> odd k"
    using bits_of_two [OF L] that assms by (simp add: defs index_word)
  show "\<not> fst (place_faulty_bits x c)" if L: "bits_of x = [j, k]" and "odd j = odd k"
    using bits_of_two [OF L] that assms by (simp add: defs index_word)
qed

lemma length_cases_3:
  obtains "L = []" | k where "L = [k]" | j k where "L = [j, k]" | "2 < length L"
proof (cases L)
  case (Cons j M)
  with that show ?thesis by (cases M; cases "tl M") auto
qed (use that in blast)

lemma bit_set_bits_of: "bits_of x = L \<Longrightarrow> bit x k \<longleftrightarrow> k \<in> set L"
  using set_bits_of [of x] by auto

lemma bits_of_lt: "bits_of x = L \<Longrightarrow> k \<in> set L \<Longrightarrow> k < 64"
  by auto

lemma place_faulty_bits_sound:
  assumes run: "place_faulty_bits x c = (True, c')" and FF: "even_index c = 0xFF" "odd_index c = 0xFF"
  shows "filled c' = filled c" and "index_ok x (default_repair c')"
proof -
  have "filled c' = filled c \<and> index_ok x (default_repair c')"
  proof (cases "bits_of x" rule: length_cases_3)
    case 1
    with place_faulty_bits_eq(1) [OF FF 1] run FF bit_set_bits_of [OF 1] show ?thesis
      by (simp add: index_ok_def default_repair_def default_if_def)
  next
    case (2 k)
    with place_faulty_bits_eq(2) [OF FF 2] run FF bit_set_bits_of [OF 2] bits_of_lt [OF 2] show ?thesis
      by (auto simp: index_ok_def default_repair_def default_if_def filled_def index_word)
  next
    case (3 j k)
    have odd: "odd j \<noteq> odd k" using place_faulty_bits_eq(4) [OF FF 3] run by auto
    with place_faulty_bits_eq(3) [OF FF 3] run FF bit_set_bits_of [OF 3] bits_of_lt [OF 3] show ?thesis
      by (auto simp: index_ok_def default_repair_def default_if_def filled_def index_word)
  next
    case 4
    with place_faulty_bits_eq(5) [OF FF 4] run show ?thesis by simp
  qed
  then show "filled c' = filled c" "index_ok x (default_repair c')" by blast+
qed

lemma place_faulty_bits_complete:
  assumes d: "index_ok x d" and FF: "even_index c = 0xFF" "odd_index c = 0xFF"
  shows "fst (place_faulty_bits x c)"
proof (cases "bits_of x" rule: length_cases_3)
  case (3 j k)
  have "odd j \<noteq> odd k" using d bit_set_bits_of [OF 3] bits_of_two(1) [OF 3] unfolding index_ok_def by (metis less_irrefl list.set_intros)
  with place_faulty_bits_eq(3) [OF FF 3] show ?thesis by simp
next
  case 4
  have "set (bits_of x) \<subseteq> {unat (even_index d), unat (odd_index d)}"
    using d unfolding set_bits_of index_ok_def by auto
  then have "card (set (bits_of x)) \<le> card {unat (even_index d), unat (odd_index d)}" by (rule card_mono [rotated]) simp
  then have "card (set (bits_of x)) \<le> 2" by (simp add: card_insert_if split: if_splits)
  with 4 distinct_card [OF bits_of_sorted(2), of x] show ?thesis by simp
qed (use place_faulty_bits_eq(1,2) [OF FF] in auto)

section \<open>The extraction finds a configuration whenever there is one\<close>

text \<open>The corrupted addresses the extraction reads, and a configuration that repairs them.\<close>

definition corrupted_of :: "dpu_memory_repair \<Rightarrow> dpu_memory_repair_address list" where
  "corrupted_of info = take (nr_of_corrupted_addresses info) (corrupted_addresses info)"

definition repairs :: "dpu_repair_config \<Rightarrow> dpu_memory_repair \<Rightarrow> bool" where
  "repairs c info \<longleftrightarrow>
     (\<forall>x \<in> set (corrupted_of info). address_pair (mra_address x) \<in> slots c \<and> index_ok (mra_faulty_bits x) c)
     \<and> index_ok 0 c"

lemma index_ok_or: "index_ok (x OR y) c \<longleftrightarrow> index_ok x c \<and> index_ok y c"
  by (auto simp: index_ok_def bit_or_iff)

lemma index_ok_fold: "index_ok (fold (\<lambda>x b. b OR f x) xs b) c \<longleftrightarrow> index_ok b c \<and> (\<forall>x \<in> set xs. index_ok (f x) c)"
  by (induction xs arbitrary: b) (auto simp: index_ok_or)

lemma no_repair_facts: "placed_ok no_repair" "slots_distinct no_repair" "filled no_repair = {}"
  "even_index no_repair = 0xFF" "odd_index no_repair = 0xFF"
  by (simp_all add: placed_ok_def slots_distinct_def filled_def slot_def no_repair_def)

lemma filled_default: "filled c \<subseteq> slots (default_repair c)"
  by (auto simp: filled_def slot_def slots_def default_repair_def default_if_def split: if_splits)

lemma extract_eq:
  "extract_memory_repair_configuration info =
     (if nr_of_corrupted_addresses info > 4 then (False, no_repair)
      else (case place_addresses (map mra_address (corrupted_of info)) no_repair of
          (False, config) \<Rightarrow> (False, config)
        | (True, config) \<Rightarrow>
            (case place_faulty_bits (fold (\<lambda>c bits. bits OR mra_faulty_bits c) (corrupted_of info) 0) config of
               (False, config) \<Rightarrow> (False, config)
             | (True, config) \<Rightarrow> (True, default_repair config))))"
  unfolding extract_memory_repair_configuration_def corrupted_of_def Let_def by (rule refl)

text \<open>
  C34: When the extraction of a repair configuration succeeds, there are at most four corrupted
  addresses, the configuration replaces each of them and every faulty data bit, one of the two
  replaced bits being even and the other odd.
\<close>

theorem repair_extraction_sound:
  assumes "extract_memory_repair_configuration info = (True, config)"
  shows "nr_of_corrupted_addresses info \<le> 4 \<and> repairs config info"
proof -
  let ?as = "map mra_address (corrupted_of info)"
  let ?bits = "fold (\<lambda>c bits. bits OR mra_faulty_bits c) (corrupted_of info) 0"
  obtain c1 c2 where le: "nr_of_corrupted_addresses info \<le> 4" and 1: "place_addresses ?as no_repair = (True, c1)"
    and 2: "place_faulty_bits ?bits c1 = (True, c2)" and c: "config = default_repair c2"
    using assms by (auto simp: extract_eq split: if_splits prod.splits bool.splits)
  note p = place_addresses_filled [OF 1 no_repair_facts(1)]
  then have FF: "even_index c1 = 0xFF" "odd_index c1 = 0xFF" by (simp_all add: no_repair_facts)
  have "index_ok ?bits config" using place_faulty_bits_sound(2) [OF 2 FF] c by simp
  moreover have "address_pair ` set ?as \<subseteq> slots config"
    using filled_default [of c2] place_faulty_bits_sound(1) [OF 2 FF] p c by (auto simp: no_repair_facts)
  ultimately show ?thesis using le by (auto simp: repairs_def index_ok_fold)
qed

text \<open>
  C35: The extraction is complete: if at most four different addresses are corrupted and some
  configuration repairs them, the extraction succeeds, whatever the order of the addresses.
\<close>

theorem repair_extraction_complete:
  assumes "nr_of_corrupted_addresses info \<le> 4"
    and "distinct (map (address_pair \<circ> mra_address) (corrupted_of info))" and "repairs c info"
  shows "fst (extract_memory_repair_configuration info)"
proof -
  let ?as = "map mra_address (corrupted_of info)"
  let ?bits = "fold (\<lambda>c bits. bits OR mra_faulty_bits c) (corrupted_of info) 0"
  have "fst (place_addresses ?as no_repair)"
    using assms(2,3) by (intro place_addresses_complete [of _ _ c]) (auto simp: no_repair_facts repairs_def)
  then obtain c1 where 1: "place_addresses ?as no_repair = (True, c1)" by (cases "place_addresses ?as no_repair") auto
  note p = place_addresses_filled [OF 1 no_repair_facts(1)]
  then have FF: "even_index c1 = 0xFF" "odd_index c1 = 0xFF" by (simp_all add: no_repair_facts)
  have "index_ok ?bits c" using assms(3) by (simp add: repairs_def index_ok_fold)
  from place_faulty_bits_complete [OF this FF] 1 assms(1) show ?thesis
    by (auto simp: extract_eq split: prod.splits bool.splits)
qed

text \<open>Three corrupted words of a memory, two of them in the same block of 16.\<close>

definition sample_repair :: dpu_memory_repair where
  "sample_repair = \<lparr>
     corrupted_addresses = [\<lparr>mra_address = 0x123, mra_faulty_bits = 0x10\<rparr>, \<lparr>mra_address = 0x045, mra_faulty_bits = 0x80\<rparr>,
       \<lparr>mra_address = 0x127, mra_faulty_bits = 0x90\<rparr>, \<lparr>mra_address = 0, mra_faulty_bits = 0\<rparr>],
     nr_of_corrupted_addresses = 3, fail_to_repair = False\<rparr>"

lemma sample_repair_result:
  "extract_memory_repair_configuration sample_repair = (True, \<lparr>AB_msbs = 0x12, CD_msbs = 0x04,
     A_lsbs = 0x3, B_lsbs = 0x7, C_lsbs = 0x5, D_lsbs = 0xF, even_index = 4, odd_index = 7\<rparr>)"
  by code_simp

theorem repair_extraction_sound_witness:
  "repairs \<lparr>AB_msbs = 0x12, CD_msbs = 0x04, A_lsbs = 0x3, B_lsbs = 0x7, C_lsbs = 0x5, D_lsbs = 0xF,
     even_index = 4, odd_index = 7\<rparr> sample_repair"
  using repair_extraction_sound [OF sample_repair_result] by blast

lemma index_ok_code [code]:
  "index_ok x c \<longleftrightarrow> even (unat (even_index c)) \<and> odd (unat (odd_index c))
     \<and> list_all (\<lambda>k. k = unat (even_index c) \<or> k = unat (odd_index c)) (bits_of x)"
  using set_bits_of [of x] by (auto simp: index_ok_def list_all_iff)

theorem repair_extraction_complete_witness: "fst (extract_memory_repair_configuration sample_repair)"
proof (rule repair_extraction_complete)
  show "distinct (map (address_pair \<circ> mra_address) (corrupted_of sample_repair))" by code_simp
  show "repairs \<lparr>AB_msbs = 0x12, CD_msbs = 0x04, A_lsbs = 0x3, B_lsbs = 0x7, C_lsbs = 0x5, D_lsbs = 0xF,
     even_index = 4, odd_index = 7\<rparr> sample_repair"
    by code_simp
qed (simp add: sample_repair_def)

end
