(* ===== verification/Wavegen.thy ===== *)
theory Wavegen
  imports Ufi_Mux
begin

text \<open>
  The DMA engine and the waveform generator (\<^verbatim>\<open>ufi/src/ufi_dma_wavegen_config.c\<close> and its header):
  the tables of register values, their adjustment to the clock frequency, and the writes to the
  configuration registers. A field that a table of the code leaves out is 0, as C initialises it. The structures have the suffix \<open>_s\<close> because
  C gives functions the same names.
\<close>

section \<open>Configurations\<close>

record dpu_dma_config_s =
  refresh_access_number :: u8
  column_read_latency :: u8
  minimal_access_number :: u8
  default_time_origin :: u8
  ldma_to_sdma_time_origin :: u8
  xdma_time_start_activate :: u8
  xdma_time_start_access :: u8
  sdma_time_start_wb_f1 :: u8

record dpu_wavegen_reg_config_s =
  rise :: u8
  fall :: u8
  counter_enable :: u8
  counter_disable :: u8

record dpu_wavegen_timing_config_s =
  activate :: u8
  tc_read :: u8
  tc_write :: u8
  precharge :: u8
  refresh_start :: u8
  refresh_activ :: u8
  refresh_prech :: u8
  refresh_end :: u8

record dpu_wavegen_vector_sampling_config_s =
  rab_gross :: u8
  cat_gross :: u8
  dwbsb_gross :: u8
  drbsb_gross :: u8
  drbsb_fine :: u8

record dpu_wavegen_config_s =
  MCBAB :: dpu_wavegen_reg_config_s
  RCYCLKB :: dpu_wavegen_reg_config_s
  WCYCLKB :: dpu_wavegen_reg_config_s
  DWCLKB :: dpu_wavegen_reg_config_s
  DWAEB :: dpu_wavegen_reg_config_s
  DRAPB :: dpu_wavegen_reg_config_s
  DRAOB :: dpu_wavegen_reg_config_s
  DWBSB_EN :: dpu_wavegen_reg_config_s
  timing_completion :: dpu_wavegen_timing_config_s
  vector_sampling :: dpu_wavegen_vector_sampling_config_s
  refresh_and_row_hammer_info :: u16
  row_hammer_config :: u8
  refresh_ctrl :: u8

definition dma_engine_cas_config :: dpu_dma_config_s where
  "dma_engine_cas_config = \<lparr>
     refresh_access_number = 53, column_read_latency = 7, minimal_access_number = 0, default_time_origin = - 4,
     ldma_to_sdma_time_origin = - 10, xdma_time_start_activate = 9, xdma_time_start_access = 18, sdma_time_start_wb_f1 = 0\<rparr>"

definition dma_engine_clock_div2_config :: dpu_dma_config_s where
  "dma_engine_clock_div2_config = \<lparr>
     refresh_access_number = 0, column_read_latency = 9, minimal_access_number = 0, default_time_origin = - 4,
     ldma_to_sdma_time_origin = - 10, xdma_time_start_activate = 9, xdma_time_start_access = 18, sdma_time_start_wb_f1 = 0\<rparr>"

definition dma_engine_clock_div3_config :: dpu_dma_config_s where
  "dma_engine_clock_div3_config = \<lparr>
     refresh_access_number = 0, column_read_latency = 8, minimal_access_number = 0, default_time_origin = - 4,
     ldma_to_sdma_time_origin = - 10, xdma_time_start_activate = 9, xdma_time_start_access = 18, sdma_time_start_wb_f1 = 0\<rparr>"

definition dma_engine_clock_div4_config :: dpu_dma_config_s where
  "dma_engine_clock_div4_config = \<lparr>
     refresh_access_number = 0, column_read_latency = 7, minimal_access_number = 0, default_time_origin = - 4,
     ldma_to_sdma_time_origin = - 10, xdma_time_start_activate = 9, xdma_time_start_access = 18, sdma_time_start_wb_f1 = 0\<rparr>"

definition waveform_generator_clock_div2_config :: dpu_wavegen_config_s where
  "waveform_generator_clock_div2_config = \<lparr>
     MCBAB = \<lparr>rise = 0x00, fall = 0x39, counter_enable = 0x01, counter_disable = 0x01\<rparr>,
     RCYCLKB = \<lparr>rise = 0x33, fall = 0x39, counter_enable = 0x01, counter_disable = 0x03\<rparr>,
     WCYCLKB = \<lparr>rise = 0x31, fall = 0x00, counter_enable = 0x02, counter_disable = 0x03\<rparr>,
     DWCLKB = \<lparr>rise = 0x31, fall = 0x00, counter_enable = 0x01, counter_disable = 0x02\<rparr>,
     DWAEB = \<lparr>rise = 0x31, fall = 0x08, counter_enable = 0x02, counter_disable = 0x04\<rparr>,
     DRAPB = \<lparr>rise = 0x33, fall = 0x39, counter_enable = 0x01, counter_disable = 0x03\<rparr>,
     DRAOB = \<lparr>rise = 0x31, fall = 0x39, counter_enable = 0x03, counter_disable = 0x04\<rparr>,
     DWBSB_EN = \<lparr>rise = 0x3C, fall = 0x3E, counter_enable = 0x01, counter_disable = 0x03\<rparr>,
     timing_completion = \<lparr>activate = 0x0A, tc_read = 0x03, tc_write = 0x03, precharge = 0x0B,
       refresh_start = 0, refresh_activ = 0, refresh_prech = 0, refresh_end = 0\<rparr>,
     vector_sampling = \<lparr>rab_gross = 0x01, cat_gross = 0x01, dwbsb_gross = 0x01, drbsb_gross = 0x01, drbsb_fine = 0x02\<rparr>,
     refresh_and_row_hammer_info = 0, row_hammer_config = 0x06, refresh_ctrl = 0x01\<rparr>"

definition waveform_generator_clock_div3_config :: dpu_wavegen_config_s where
  "waveform_generator_clock_div3_config = \<lparr>
     MCBAB = \<lparr>rise = 0x00, fall = 0x39, counter_enable = 0x02, counter_disable = 0x02\<rparr>,
     RCYCLKB = \<lparr>rise = 0x33, fall = 0x39, counter_enable = 0x02, counter_disable = 0x04\<rparr>,
     WCYCLKB = \<lparr>rise = 0x31, fall = 0x00, counter_enable = 0x03, counter_disable = 0x04\<rparr>,
     DWCLKB = \<lparr>rise = 0x31, fall = 0x00, counter_enable = 0x02, counter_disable = 0x03\<rparr>,
     DWAEB = \<lparr>rise = 0x31, fall = 0x08, counter_enable = 0x03, counter_disable = 0x05\<rparr>,
     DRAPB = \<lparr>rise = 0x33, fall = 0x39, counter_enable = 0x02, counter_disable = 0x04\<rparr>,
     DRAOB = \<lparr>rise = 0x31, fall = 0x39, counter_enable = 0x04, counter_disable = 0x05\<rparr>,
     DWBSB_EN = \<lparr>rise = 0x3C, fall = 0x3E, counter_enable = 0x02, counter_disable = 0x04\<rparr>,
     timing_completion = \<lparr>activate = 0x0F, tc_read = 0x05, tc_write = 0x05, precharge = 0x0B,
       refresh_start = 0, refresh_activ = 0, refresh_prech = 0, refresh_end = 0\<rparr>,
     vector_sampling = \<lparr>rab_gross = 0x01, cat_gross = 0x01, dwbsb_gross = 0x01, drbsb_gross = 0x01, drbsb_fine = 0x02\<rparr>,
     refresh_and_row_hammer_info = 0, row_hammer_config = 0x06, refresh_ctrl = 0x01\<rparr>"

definition waveform_generator_clock_div4_config :: dpu_wavegen_config_s where
  "waveform_generator_clock_div4_config = \<lparr>
     MCBAB = \<lparr>rise = 0x00, fall = 0x39, counter_enable = 0x03, counter_disable = 0x03\<rparr>,
     RCYCLKB = \<lparr>rise = 0x33, fall = 0x39, counter_enable = 0x03, counter_disable = 0x05\<rparr>,
     WCYCLKB = \<lparr>rise = 0x31, fall = 0x00, counter_enable = 0x04, counter_disable = 0x05\<rparr>,
     DWCLKB = \<lparr>rise = 0x31, fall = 0x00, counter_enable = 0x03, counter_disable = 0x04\<rparr>,
     DWAEB = \<lparr>rise = 0x31, fall = 0x08, counter_enable = 0x04, counter_disable = 0x06\<rparr>,
     DRAPB = \<lparr>rise = 0x33, fall = 0x39, counter_enable = 0x03, counter_disable = 0x05\<rparr>,
     DRAOB = \<lparr>rise = 0x31, fall = 0x39, counter_enable = 0x05, counter_disable = 0x06\<rparr>,
     DWBSB_EN = \<lparr>rise = 0x3C, fall = 0x3E, counter_enable = 0x03, counter_disable = 0x05\<rparr>,
     timing_completion = \<lparr>activate = 0x14, tc_read = 0x07, tc_write = 0x07, precharge = 0x0B,
       refresh_start = 0, refresh_activ = 0, refresh_prech = 0, refresh_end = 0\<rparr>,
     vector_sampling = \<lparr>rab_gross = 0x02, cat_gross = 0x02, dwbsb_gross = 0x01, drbsb_gross = 0x01, drbsb_fine = 0x02\<rparr>,
     refresh_and_row_hammer_info = 0, row_hammer_config = 0x06, refresh_ctrl = 0x01\<rparr>"

section \<open>Adjusting the timing to the frequency\<close>

text \<open>
  The computation is in \<open>u32\<close>: \<open>w32\<close> wraps, \<open>sub32\<close> is the wrapping subtraction.
\<close>

definition w32 :: "nat \<Rightarrow> nat" where "w32 x = x mod 2 ^ 32"

definition sub32 :: "nat \<Rightarrow> nat \<Rightarrow> nat" where "sub32 x y = (x + 2 ^ 32 - y mod 2 ^ 32) mod 2 ^ 32"

definition nr_cycles_for :: "nat \<Rightarrow> nat \<Rightarrow> nat" where
  "nr_cycles_for duration_in_ns_tenfold frequency_in_mhz =
     w32 ((duration_in_ns_tenfold * frequency_in_mhz + 1000 - 1) div 1000)"

definition REFRESH_START_VALUE :: nat where "REFRESH_START_VALUE = 2"
definition REFRESH_END_VALUE :: nat where "REFRESH_END_VALUE = 2"
definition REFRESH_ACTIVATE_DURATION_TENFOLD_NS :: nat where "REFRESH_ACTIVATE_DURATION_TENFOLD_NS = 512"
definition REFRESH_PRECHARGE_DURATION_TENFOLD_NS :: nat where "REFRESH_PRECHARGE_DURATION_TENFOLD_NS = 269"
definition REFRESH_NR_PULSES_DEFAULT :: nat where "REFRESH_NR_PULSES_DEFAULT = 4"

definition refresh_mode_params :: "nat \<Rightarrow> nat \<times> nat" where
  "refresh_mode_params refresh_mode =
     (if refresh_mode = 1 then (345, 0) else if refresh_mode = 2 then (255, 1) else (155, 2))"

definition refresh_cycles_total :: "nat \<Rightarrow> nat \<Rightarrow> nat \<Rightarrow> nat" where
  "refresh_cycles_total nr_pulses act prech =
     w32 (1 + REFRESH_START_VALUE + 1 + nr_pulses * w32 (act + 1) + nr_pulses * w32 (prech + 1) + REFRESH_END_VALUE + 1)"

definition refresh_dma_value :: "nat \<Rightarrow> nat \<Rightarrow> nat \<Rightarrow> nat" where
  "refresh_dma_value tRFC fck_frequency fck_division =
     w32 (w32 (tRFC * fck_frequency) div (4 * fck_division * 1000) + 2 ^ 32 - 1)"

definition dma_cycles :: "nat \<Rightarrow> nat \<Rightarrow> nat" where
  "dma_cycles refresh_dma fck_division = w32 (w32 (refresh_dma + 1) * 4 * fck_division) div 2"

text \<open>
  The loop shortens the refresh pulses until the DMA refresh takes longer than they do; the code does
  not bound it, so it runs on fuel. The result is the durations and whether the fuel sufficed.
\<close>

fun refresh_loop :: "nat \<Rightarrow> nat \<Rightarrow> nat \<Rightarrow> nat \<Rightarrow> nat \<Rightarrow> (nat \<times> nat) option" where
  "refresh_loop 0 cycles nr_pulses act prech = None"
| "refresh_loop (Suc fuel) cycles nr_pulses act prech =
     (if cycles \<le> refresh_cycles_total nr_pulses act prech
      then refresh_loop fuel cycles nr_pulses (sub32 act 1) (sub32 prech 1)
      else Some (act, prech))"

definition refresh_value :: "nat \<Rightarrow> nat \<Rightarrow> nat \<Rightarrow> nat \<Rightarrow> nat" where
  "refresh_value half_tenth_fck_frequency nr_pulses act prech =
     w32 (REFRESH_START_VALUE + 1 + nr_pulses * w32 (act + 1) + sub32 nr_pulses 1 * w32 (prech + 1)
          + nr_cycles_for (14 * 10) half_tenth_fck_frequency)"

definition row_hammer_info :: "nat \<Rightarrow> nat \<Rightarrow> u16" where
  "row_hammer_info refresh mode_log2 =
     (let r = of_nat refresh :: u32
      in ucast (push_bit 15 (drop_bit 8 r AND 1) OR push_bit 8 (of_nat mode_log2 AND 0x3) OR (r AND 0xFF)))"

definition fill_timing_configuration ::
  "nat \<Rightarrow> dpu_dma_config_s \<Rightarrow> dpu_wavegen_config_s \<Rightarrow> nat \<Rightarrow> nat \<Rightarrow> nat \<Rightarrow> (dpu_dma_config_s \<times> dpu_wavegen_config_s) option" where
  "fill_timing_configuration fuel dma wavegen fck_frequency fck_division refresh_mode =
     (let half_tenth = fck_frequency div (2 * 10);
          act0 = sub32 (nr_cycles_for REFRESH_ACTIVATE_DURATION_TENFOLD_NS half_tenth) 1;
          prech0 = sub32 (nr_cycles_for REFRESH_PRECHARGE_DURATION_TENFOLD_NS half_tenth) 1;
          nr_pulses = REFRESH_NR_PULSES_DEFAULT div refresh_mode;
          (tRFC, mode_log2) = refresh_mode_params refresh_mode;
          refresh_dma = refresh_dma_value tRFC fck_frequency fck_division
      in map_option (\<lambda>(act, prech).
           (dma\<lparr>refresh_access_number := of_nat refresh_dma\<rparr>,
            wavegen\<lparr>timing_completion := (timing_completion wavegen)
                \<lparr>refresh_start := of_nat REFRESH_START_VALUE, refresh_activ := of_nat act,
                 refresh_prech := of_nat prech, refresh_end := of_nat REFRESH_END_VALUE\<rparr>,
              refresh_and_row_hammer_info :=
                row_hammer_info (refresh_value half_tenth nr_pulses act prech) mode_log2\<rparr>))
         (refresh_loop fuel (dma_cycles refresh_dma fck_division) nr_pulses act0 prech0))"

definition DPU_CLOCK_DIV8 :: u8 where "DPU_CLOCK_DIV8 = 0x0"
definition DPU_CLOCK_DIV4 :: u8 where "DPU_CLOCK_DIV4 = 0x4"
definition DPU_CLOCK_DIV3 :: u8 where "DPU_CLOCK_DIV3 = 0x3"
definition DPU_CLOCK_DIV2 :: u8 where "DPU_CLOCK_DIV2 = 0x8"

definition from_division_factor_to_dpu_enum :: "u8 \<Rightarrow> u8" where
  "from_division_factor_to_dpu_enum factor =
     (if factor = 3 then DPU_CLOCK_DIV3 else if factor = 4 then DPU_CLOCK_DIV4
      else if factor = 8 then DPU_CLOCK_DIV8 else DPU_CLOCK_DIV2)"

definition reference_configs :: "u8 \<Rightarrow> dpu_dma_config_s \<times> dpu_wavegen_config_s \<times> u8" where
  "reference_configs division =
     (let clock_div = from_division_factor_to_dpu_enum division
      in if clock_div = DPU_CLOCK_DIV4
         then (dma_engine_clock_div4_config, waveform_generator_clock_div4_config, division)
         else if clock_div = DPU_CLOCK_DIV3
         then (dma_engine_clock_div3_config, waveform_generator_clock_div3_config, division)
         else (dma_engine_clock_div2_config, waveform_generator_clock_div2_config, 2))"

definition fetch_dma_and_wavegen_configs ::
  "nat \<Rightarrow> u32 \<Rightarrow> u8 \<Rightarrow> nat \<Rightarrow> bool \<Rightarrow> (dpu_dma_config_s \<times> dpu_wavegen_config_s) option" where
  "fetch_dma_and_wavegen_configs fuel fck_frequency division refresh_mode ctrl_refresh =
     (case reference_configs division of (dma, wavegen, fck_division) \<Rightarrow>
        map_option (\<lambda>(dma, wavegen). (dma, if \<not> ctrl_refresh then wavegen\<lparr>refresh_ctrl := 0x0\<rparr> else wavegen))
          (fill_timing_configuration fuel dma wavegen (unat fck_frequency) (unat fck_division) refresh_mode))"

section \<open>Writing the registers\<close>

definition write_regs :: "u8 \<Rightarrow> u8 \<Rightarrow> u8 list \<Rightarrow> ('w, unit) ufi" where
  "write_regs ci_mask address values =
     mfor [0..<length values] (\<lambda>i _. ufi_write_dma_ctrl ci_mask (address + of_nat i) (values ! i)) ()"

definition dpu_dma_shuffling_box_config :: "dpu_bit_config \<Rightarrow> ('w, unit) ufi" where
  "dpu_dma_shuffling_box_config config =
     FF (ufi_select_all ALL_CIS) (\<lambda>ci_mask.
     FF (ufi_write_dma_ctrl ci_mask 0x10 (ucast (drop_bit 8 (dpu2cpu config) AND 0xFF))) (\<lambda>_.
     FF (ufi_write_dma_ctrl ci_mask 0x11 (ucast (drop_bit 0 (dpu2cpu config) AND 0xFF))) (\<lambda>_.
     FF (ufi_write_dma_ctrl ci_mask 0x12 (ucast (drop_bit 8 (cpu2dpu config) AND 0xFF))) (\<lambda>_.
     FF (ufi_write_dma_ctrl ci_mask 0x13 (ucast (drop_bit 0 (cpu2dpu config) AND 0xFF))) (\<lambda>_.
     FF (ufi_write_dma_ctrl ci_mask 0x14 (nibble_swap config)) (\<lambda>_.
     ufi_clear_dma_ctrl ci_mask))))))"

definition dpu_wavegen_reg_config :: "u8 \<Rightarrow> u8 \<Rightarrow> dpu_wavegen_reg_config_s \<Rightarrow> ('w, unit) ufi" where
  "dpu_wavegen_reg_config ci_mask address config =
     write_regs ci_mask address [rise config, fall config, counter_enable config, counter_disable config]"

definition dpu_wavegen_timing_config :: "u8 \<Rightarrow> u8 \<Rightarrow> dpu_wavegen_timing_config_s \<Rightarrow> ('w, unit) ufi" where
  "dpu_wavegen_timing_config ci_mask address config =
     write_regs ci_mask address [activate config, tc_read config, tc_write config, precharge config,
       refresh_start config, refresh_activ config, refresh_prech config, refresh_end config]"

definition dpu_wavegen_vector_sampling_config ::
  "u8 \<Rightarrow> u8 \<Rightarrow> dpu_wavegen_vector_sampling_config_s \<Rightarrow> ('w, unit) ufi" where
  "dpu_wavegen_vector_sampling_config ci_mask address config =
     write_regs ci_mask address [rab_gross config, cat_gross config, dwbsb_gross config, drbsb_gross config,
       drbsb_fine config]"

definition dpu_wavegen_rowhammer_and_refresh_config :: "u8 \<Rightarrow> u8 \<Rightarrow> u16 \<Rightarrow> u8 \<Rightarrow> ('w, unit) ufi" where
  "dpu_wavegen_rowhammer_and_refresh_config ci_mask address rowhammer_info rowhammer_config =
     write_regs ci_mask address [ucast (drop_bit 0 rowhammer_info AND 0xFF),
       ucast (drop_bit 8 rowhammer_info AND 0xFF), rowhammer_config]"

definition refresh_target :: "nat \<Rightarrow> nat \<Rightarrow> nat" where
  "refresh_target nr_of_dpus each_dpu =
     (if nr_of_dpus \<le> 4 then each_dpu else if each_dpu \<ge> 4 then each_dpu - 4 else each_dpu + 4)"

definition write_wavegen_config :: "dpu_wavegen_config_s \<Rightarrow> ('w, unit) ufi" where
  "write_wavegen_config config =
     FF (ufi_select_all ALL_CIS) (\<lambda>ci_mask.
     FF (dpu_wavegen_reg_config ci_mask 0xC0 (MCBAB config)) (\<lambda>_.
     FF (dpu_wavegen_reg_config ci_mask 0xC4 (RCYCLKB config)) (\<lambda>_.
     FF (dpu_wavegen_reg_config ci_mask 0xC8 (WCYCLKB config)) (\<lambda>_.
     FF (dpu_wavegen_reg_config ci_mask 0xCC (DWCLKB config)) (\<lambda>_.
     FF (dpu_wavegen_reg_config ci_mask 0xD0 (DWAEB config)) (\<lambda>_.
     FF (dpu_wavegen_reg_config ci_mask 0xD4 (DRAPB config)) (\<lambda>_.
     FF (dpu_wavegen_reg_config ci_mask 0xD8 (DRAOB config)) (\<lambda>_.
     FF (dpu_wavegen_reg_config ci_mask 0xDC (DWBSB_EN config)) (\<lambda>_.
     FF (dpu_wavegen_timing_config ci_mask 0xE0 (timing_completion config)) (\<lambda>_.
     FF (dpu_wavegen_vector_sampling_config ci_mask 0xE8 (vector_sampling config)) (\<lambda>_.
     dpu_wavegen_rowhammer_and_refresh_config ci_mask 0xFC
       (refresh_and_row_hammer_info config) (row_hammer_config config))))))))))))"

definition dpu_wavegen_config :: "dpu_wavegen_config_s \<Rightarrow> ('w, unit) ufi" where
  "dpu_wavegen_config config =
     FF (write_wavegen_config config) (\<lambda>_ r.
     mfor [0..<nr_dpus r] (\<lambda>each_dpu _.
       FF (ufi_select_dpu ALL_CIS (refresh_target (nr_dpus r) each_dpu)) (\<lambda>ci_mask.
       FF (ufi_write_dma_ctrl ci_mask 0x83 (refresh_ctrl config)) (\<lambda>_.
       ufi_clear_dma_ctrl ci_mask))) () r)"

definition dma_engine_timing :: "dpu_dma_config_s \<Rightarrow> u64" where
  "dma_engine_timing config =
     push_bit 36 (ucast (refresh_access_number config) AND 0x7F)
     OR push_bit 32 (ucast (column_read_latency config) AND 0x0F)
     OR push_bit 29 (ucast (minimal_access_number config) AND 0x07)
     OR push_bit 22 (ucast (default_time_origin config) AND 0x7F)
     OR push_bit 15 (ucast (ldma_to_sdma_time_origin config) AND 0x7F)
     OR push_bit 10 (ucast (xdma_time_start_activate config) AND 0x1F)
     OR push_bit 5 (ucast (xdma_time_start_access config) AND 0x1F)
     OR push_bit 0 (ucast (sdma_time_start_wb_f1 config) AND 0x1F)"

definition dpu_dma_config :: "dpu_dma_config_s \<Rightarrow> ('w, unit) ufi" where
  "dpu_dma_config config =
     (let timing = dma_engine_timing config in
      FF (ufi_select_all ALL_CIS) (\<lambda>ci_mask.
      FF (write_regs ci_mask 0x20 (map (\<lambda>k. ucast (drop_bit (8 * k) timing AND 0xFF)) [0..<6])) (\<lambda>_.
      ufi_clear_dma_ctrl ci_mask)))"


section \<open>The timing computation ends, and the timing is consistent\<close>

lemma w32_id: "x < 2 ^ 32 \<Longrightarrow> w32 x = x"
  by (simp add: w32_def)

lemma sub32_1: "0 < x \<Longrightarrow> x < 2 ^ 32 \<Longrightarrow> sub32 x 1 = x - 1"
proof -
  assume x: "0 < x" "x < 2 ^ 32"
  then have "x + 2 ^ 32 - 1 mod 2 ^ 32 = (x - 1) + 2 ^ 32" by simp
  with x show ?thesis unfolding sub32_def by (simp only: mod_add_self2) simp
qed

lemma refresh_cycles_total_small:
  "act < 2 ^ 20 \<Longrightarrow> prech < 2 ^ 20 \<Longrightarrow> refresh_cycles_total 2 act prech = 11 + 2 * act + 2 * prech"
  by (simp add: refresh_cycles_total_def w32_def REFRESH_START_VALUE_def REFRESH_END_VALUE_def)

lemma refresh_loop_step:
  assumes "act < 2 ^ 20" and "prech < 2 ^ 20"
  shows "\<not> cycles \<le> 11 + 2 * act + 2 * prech \<Longrightarrow> refresh_loop (Suc n) cycles 2 act prech = Some (act, prech)"
    and "cycles \<le> 11 + 2 * act + 2 * prech \<Longrightarrow> 0 < act \<Longrightarrow> 0 < prech \<Longrightarrow>
      refresh_loop (Suc n) cycles 2 act prech = refresh_loop n cycles 2 (act - 1) (prech - 1)"
  unfolding refresh_loop.simps refresh_cycles_total_small [OF assms]
  using sub32_1 [of act] sub32_1 [of prech] assms by simp_all

lemma refresh_loop_two_steps:
  assumes "2 \<le> act" "act < 2 ^ 20" "2 \<le> prech" "prech < 2 ^ 20" and "11 + 2 * act + 2 * prech < cycles + 8" and "3 \<le> fuel"
  shows "\<exists>a p. refresh_loop fuel cycles 2 act prech = Some (a, p) \<and> 11 + 2 * a + 2 * p < cycles \<and> a \<le> act \<and> p \<le> prech"
proof -
  obtain k where fuel: "fuel = Suc (Suc (Suc k))" using assms(6) by (metis Suc_le_D numeral_3_eq_3 Suc_le_mono)
  consider "\<not> cycles \<le> 11 + 2 * act + 2 * prech"
    | "cycles \<le> 11 + 2 * act + 2 * prech" "\<not> cycles \<le> 11 + 2 * (act - 1) + 2 * (prech - 1)"
    | "cycles \<le> 11 + 2 * act + 2 * prech" "cycles \<le> 11 + 2 * (act - 1) + 2 * (prech - 1)"
    by blast
  then show ?thesis
  proof cases
    case 1
    then show ?thesis using assms refresh_loop_step(1) [of act prech cycles] fuel by auto
  next
    case 2
    have "refresh_loop fuel cycles 2 act prech = refresh_loop (Suc (Suc k)) cycles 2 (act - 1) (prech - 1)"
      unfolding fuel using assms 2 by (intro refresh_loop_step(2)) auto
    also have "\<dots> = Some (act - 1, prech - 1)" using assms 2 by (intro refresh_loop_step(1)) auto
    finally show ?thesis using 2 by auto
  next
    case 3
    have "refresh_loop fuel cycles 2 act prech = refresh_loop (Suc (Suc k)) cycles 2 (act - 1) (prech - 1)"
      unfolding fuel using assms 3 by (intro refresh_loop_step(2)) auto
    also have "\<dots> = refresh_loop (Suc k) cycles 2 (act - 1 - 1) (prech - 1 - 1)"
      using assms 3 by (intro refresh_loop_step(2)) auto
    also have "\<dots> = Some (act - 1 - 1, prech - 1 - 1)" using assms by (intro refresh_loop_step(1)) auto
    finally show ?thesis using assms by auto
  qed
qed

lemma timing_arith:
  fixes f :: nat
  assumes "225 \<le> f" and "d \<in> {2, 3, 4}"
  shows "11 + 2 * ((512 * (f div 20) + 999) div 1000 - 1) + 2 * ((269 * (f div 20) + 999) div 1000 - 1)
    < 255 * f div (4 * d * 1000) * 4 * d div 2 + 8"
proof -
  define h where "h = f div 20"
  define a where "a = (512 * h + 999) div 1000"
  define p where "p = (269 * h + 999) div 1000"
  define q where "q = 255 * f div (4 * d * 1000)"
  have h: "20 * h \<le> f" unfolding h_def by simp
  have a: "1000 * a \<le> 512 * h + 999" and p: "1000 * p \<le> 269 * h + 999" unfolding a_def p_def by simp_all
  have q: "255 * f < 4 * d * 1000 * (q + 1)"
    using assms(2) dividend_less_times_div [of "4 * d * 1000" "255 * f"] by (auto simp: q_def algebra_simps)
  have "11 + 2 * (a - 1) + 2 * (p - 1) < q * 4 * d div 2 + 8"
    using assms h a p q by auto
  then show ?thesis unfolding a_def p_def q_def h_def .
qed


text \<open>The clock division a configuration is computed for.\<close>

definition effective_division :: "u8 \<Rightarrow> nat" where
  "effective_division division = (if division = 3 then 3 else if division = 4 then 4 else 2)"

lemma reference_division: "unat (snd (snd (reference_configs division))) = effective_division division"
  by (simp add: reference_configs_def from_division_factor_to_dpu_enum_def effective_division_def Let_def
      DPU_CLOCK_DIV2_def DPU_CLOCK_DIV3_def DPU_CLOCK_DIV4_def DPU_CLOCK_DIV8_def)

lemma initial_durations:
  assumes "225 \<le> f" and "f \<le> 4000"
  defines "act \<equiv> sub32 (nr_cycles_for REFRESH_ACTIVATE_DURATION_TENFOLD_NS (f div (2 * 10))) 1"
    and "prech \<equiv> sub32 (nr_cycles_for REFRESH_PRECHARGE_DURATION_TENFOLD_NS (f div (2 * 10))) 1"
  shows "act = (512 * (f div 20) + 999) div 1000 - 1" "prech = (269 * (f div 20) + 999) div 1000 - 1"
    and "2 \<le> act" "act < 200" "2 \<le> prech" "prech < 200"
proof -
  have h: "11 \<le> f div 20" "f div 20 \<le> 200" using assms by simp_all
  define a where "a = (512 * (f div 20) + 999) div 1000"
  define p where "p = (269 * (f div 20) + 999) div 1000"
  have b: "3 \<le> a" "a \<le> 200" "3 \<le> p" "p \<le> 200" using h unfolding a_def p_def by auto
  have "nr_cycles_for REFRESH_ACTIVATE_DURATION_TENFOLD_NS (f div (2 * 10)) = a"
    "nr_cycles_for REFRESH_PRECHARGE_DURATION_TENFOLD_NS (f div (2 * 10)) = p"
    using b by (simp_all add: nr_cycles_for_def REFRESH_ACTIVATE_DURATION_TENFOLD_NS_def
        REFRESH_PRECHARGE_DURATION_TENFOLD_NS_def w32_def a_def p_def add.commute)
  then have ap: "act = a - 1" "prech = p - 1"
    unfolding act_def prech_def using b sub32_1 [of a] sub32_1 [of p] by simp_all
  then show "act = (512 * (f div 20) + 999) div 1000 - 1" "prech = (269 * (f div 20) + 999) div 1000 - 1"
    by (simp_all only: a_def p_def)
  show "2 \<le> act" "act < 200" "2 \<le> prech" "prech < 200" unfolding ap using b by linarith+
qed

lemma dma_cycles_eq:
  assumes "225 \<le> f" and "f \<le> 4000" and "d \<in> {2, 3, 4}"
  shows "dma_cycles (refresh_dma_value 255 f d) d = 255 * f div (4 * d * 1000) * 4 * d div 2"
    and "refresh_dma_value 255 f d = 255 * f div (4 * d * 1000) - 1" and "255 * f div (4 * d * 1000) \<le> 128"
    and "1 \<le> 255 * f div (4 * d * 1000)"
proof -
  define q where "q = 255 * f div (4 * d * 1000)"
  have q: "1 \<le> q" "q \<le> 128" using assms by (auto simp: q_def)
  have "w32 (255 * f) = 255 * f" using assms by (simp add: w32_def)
  then have "refresh_dma_value 255 f d = w32 (q + 2 ^ 32 - 1)" by (simp only: refresh_dma_value_def q_def)
  also have "\<dots> = w32 ((q - 1) + 2 ^ 32)" using q by (simp add: ac_simps)
  also have "\<dots> = q - 1" unfolding w32_def mod_add_self2 using q by simp
  finally have dma: "refresh_dma_value 255 f d = q - 1" .
  then show "refresh_dma_value 255 f d = 255 * f div (4 * d * 1000) - 1" by (simp add: q_def)
  show "255 * f div (4 * d * 1000) \<le> 128" "1 \<le> 255 * f div (4 * d * 1000)" using q by (simp_all add: q_def)
  have "dma_cycles (q - 1) d = q * 4 * d div 2" using q assms(3) by (auto simp: dma_cycles_def w32_def)
  then show "dma_cycles (refresh_dma_value 255 f d) d = 255 * f div (4 * d * 1000) * 4 * d div 2"
    by (simp only: dma q_def)
qed

lemma timing_configuration:
  assumes "225 \<le> unat fck" and "unat fck \<le> 4000" and "3 \<le> fuel"
  shows "\<exists>dma wg. fetch_dma_and_wavegen_configs fuel fck division 2 ctrl = Some (dma, wg)
    \<and> (let t = timing_completion wg in
       1 + unat (refresh_start t) + 1 + 2 * (unat (refresh_activ t) + 1) + 2 * (unat (refresh_prech t) + 1)
         + unat (refresh_end t) + 1
       < (unat (refresh_access_number dma) + 1) * 4 * effective_division division div 2)"
proof -
  define f d where "f = unat fck" and "d = effective_division division"
  have f: "225 \<le> f" "f \<le> 4000" and d: "d \<in> {2, 3, 4}" using assms by (auto simp: f_def d_def effective_division_def)
  note act = initial_durations [OF f] and dma = dma_cycles_eq [OF f d]
  obtain rdma rwg rdiv where ref: "reference_configs division = (rdma, rwg, rdiv)" by (metis prod_cases3)
  have rdiv: "unat rdiv = d" using reference_division [of division] ref by (simp add: d_def)
  let ?act = "sub32 (nr_cycles_for REFRESH_ACTIVATE_DURATION_TENFOLD_NS (f div (2 * 10))) 1"
  let ?prech = "sub32 (nr_cycles_for REFRESH_PRECHARGE_DURATION_TENFOLD_NS (f div (2 * 10))) 1"
  let ?cycles = "dma_cycles (refresh_dma_value 255 f d) d"
  have ineq: "11 + 2 * ?act + 2 * ?prech < ?cycles + 8"
    unfolding act(1,2) dma(1) by (rule timing_arith [OF f(1) d])
  have "?act < 2 ^ 20" "?prech < 2 ^ 20" by (rule less_trans [OF act(4)], simp, rule less_trans [OF act(6)], simp)
  from refresh_loop_two_steps [OF act(3) this(1) act(5) this(2) ineq assms(3)]
  obtain a p where loop: "refresh_loop fuel ?cycles 2 ?act ?prech = Some (a, p)"
    and le: "11 + 2 * a + 2 * p < ?cycles" "a \<le> ?act" "p \<le> ?prech" by blast
  have "a < 200" "p < 200" using le_less_trans [OF le(2) act(4)] le_less_trans [OF le(3) act(6)] by blast+
  then have small: "a < 256" "p < 256" by simp_all
  have mode: "REFRESH_NR_PULSES_DEFAULT div 2 = 2" "refresh_mode_params 2 = (255, 1)"
    by (simp_all add: REFRESH_NR_PULSES_DEFAULT_def refresh_mode_params_def)
  define wg0 where "wg0 = rwg\<lparr>timing_completion := (timing_completion rwg)
      \<lparr>refresh_start := of_nat REFRESH_START_VALUE, refresh_activ := of_nat a,
       refresh_prech := of_nat p, refresh_end := of_nat REFRESH_END_VALUE\<rparr>,
     refresh_and_row_hammer_info := row_hammer_info (refresh_value (f div (2 * 10)) 2 a p) 1\<rparr>"
  define wg where "wg = (if \<not> ctrl then wg0\<lparr>refresh_ctrl := 0x0\<rparr> else wg0)"
  define dma' where "dma' = rdma\<lparr>refresh_access_number := of_nat (refresh_dma_value 255 f d)\<rparr>"
  have "fill_timing_configuration fuel rdma rwg f d 2 = Some (dma', wg0)"
    unfolding fill_timing_configuration_def Let_def mode by (simp only: prod.case loop option.map wg0_def dma'_def)
  then have fetch: "fetch_dma_and_wavegen_configs fuel fck division 2 ctrl = Some (dma', wg)"
    by (simp add: fetch_dma_and_wavegen_configs_def ref rdiv f_def wg_def)
  have t: "timing_completion wg = timing_completion wg0" by (simp add: wg_def)
  have "unat (refresh_access_number dma') = 255 * f div (4 * d * 1000) - 1"
    unfolding dma'_def dma(2) using dma(3) by (simp add: unat_of_nat)
  with dma(4) have "(unat (refresh_access_number dma') + 1) * 4 * d div 2 = ?cycles" unfolding dma(1) by simp
  moreover have "unat (refresh_activ (timing_completion wg0)) = a" "unat (refresh_prech (timing_completion wg0)) = p"
    "unat (refresh_start (timing_completion wg0)) = 2" "unat (refresh_end (timing_completion wg0)) = 2"
    using small by (simp_all add: wg0_def unat_of_nat REFRESH_START_VALUE_def REFRESH_END_VALUE_def)
  ultimately show ?thesis using le(1) fetch by (auto simp: t Let_def simp flip: d_def)
qed

text \<open>
  C32: For every clock between 225 and 4000 MHz and every clock division, in the refresh mode the
  reset uses, the loop that shortens the refresh pulses ends within three rounds, and the registers
  it leaves are consistent: the DMA refresh they describe takes longer than the refresh pulses.
\<close>

theorem timing_configuration_consistent:
  assumes "225 \<le> unat fck" and "unat fck \<le> 4000" and "3 \<le> fuel"
  shows "\<exists>dma wg. fetch_dma_and_wavegen_configs fuel fck division 2 ctrl = Some (dma, wg)
    \<and> (let t = timing_completion wg in
       1 + unat (refresh_start t) + 1 + 2 * (unat (refresh_activ t) + 1) + 2 * (unat (refresh_prech t) + 1)
         + unat (refresh_end t) + 1
       < (unat (refresh_access_number dma) + 1) * 4 * effective_division division div 2)"
  using assms by (rule timing_configuration)

theorem timing_configuration_consistent_witness:
  "\<exists>dma wg. fetch_dma_and_wavegen_configs 3 350 2 2 True = Some (dma, wg)
    \<and> (let t = timing_completion wg in
       1 + unat (refresh_start t) + 1 + 2 * (unat (refresh_activ t) + 1) + 2 * (unat (refresh_prech t) + 1)
         + unat (refresh_end t) + 1
       < (unat (refresh_access_number dma) + 1) * 4 * effective_division 2 div 2)"
  using timing_configuration_consistent [of 350 3 2 True] by simp

section \<open>The registers\<close>

text \<open>
  C33: The refresh control is written to every DPU of a CI exactly when a CI has at most four DPUs or
  eight; with eight, the writes start with DPU 4, as the comment in the code demands. With five, six
  or seven DPUs the targets leave the CI and some DPUs are never written.
\<close>

theorem refresh_targets_cover:
  assumes "n \<le> 8"
  shows "(refresh_target n ` {0..<n} = {0..<n} \<longleftrightarrow> n \<le> 4 \<or> n = 8)
    \<and> map (refresh_target 8) [0..<8] = [4, 5, 6, 7, 0, 1, 2, 3]"
proof
  have "n \<in> {0, 1, 2, 3, 4, 5, 6, 7, 8}" using assms by auto
  moreover have "refresh_target n ` {0..<n} = set (map (refresh_target n) [0..<n])" by simp
  ultimately show "refresh_target n ` {0..<n} = {0..<n} \<longleftrightarrow> n \<le> 4 \<or> n = 8"
    by (elim insertE emptyE) (simp_all add: refresh_target_def upt_rec set_eq_iff, presburger+)
  show "map (refresh_target 8) [0..<8] = [4, 5, 6, 7, 0, 1, 2, 3]" by code_simp
qed

theorem refresh_targets_cover_witness:
  "refresh_target 8 ` {0..<8} = {0..<8} \<and> refresh_target 6 ` {0..<6} \<noteq> {0..<6}"
  using refresh_targets_cover [of 8] refresh_targets_cover [of 6] by simp

lemma and_masks:
  "x AND 0x7F = take_bit 7 x" "x AND 0x0F = take_bit 4 x" "x AND 0x07 = take_bit 3 x" "x AND 0x1F = take_bit 5 (x :: 'a::len word)"
  by (simp_all add: take_bit_eq_mask mask_eq_exp_minus_1)

lemma bit_push_field:
  "k + w \<le> 64 \<Longrightarrow> bit (push_bit k (take_bit w (ucast (x :: u8) :: u64))) n \<longleftrightarrow> k \<le> n \<and> n < k + w \<and> bit x (n - k)"
  by (cases "k \<le> n") (auto simp: bit_push_bit_iff bit_take_bit_iff bit_ucast_iff)

lemma bit_dma_engine_timing:
  "bit (dma_engine_timing c) n \<longleftrightarrow>
     (36 \<le> n \<and> n < 43 \<and> bit (refresh_access_number c) (n - 36))
   \<or> (32 \<le> n \<and> n < 36 \<and> bit (column_read_latency c) (n - 32))
   \<or> (29 \<le> n \<and> n < 32 \<and> bit (minimal_access_number c) (n - 29))
   \<or> (22 \<le> n \<and> n < 29 \<and> bit (default_time_origin c) (n - 22))
   \<or> (15 \<le> n \<and> n < 22 \<and> bit (ldma_to_sdma_time_origin c) (n - 15))
   \<or> (10 \<le> n \<and> n < 15 \<and> bit (xdma_time_start_activate c) (n - 10))
   \<or> (5 \<le> n \<and> n < 10 \<and> bit (xdma_time_start_access c) (n - 5))
   \<or> (n < 5 \<and> bit (sdma_time_start_wb_f1 c) n)"
  unfolding dma_engine_timing_def and_masks bit_or_iff
  by (simp add: bit_push_field [of 0, simplified] bit_push_field disj_assoc)

lemma bit_timing_field:
  "n < 7 \<Longrightarrow> bit (dma_engine_timing c) (36 + n) \<longleftrightarrow> bit (refresh_access_number c) n"
  "n < 4 \<Longrightarrow> bit (dma_engine_timing c) (32 + n) \<longleftrightarrow> bit (column_read_latency c) n"
  "n < 3 \<Longrightarrow> bit (dma_engine_timing c) (29 + n) \<longleftrightarrow> bit (minimal_access_number c) n"
  "n < 7 \<Longrightarrow> bit (dma_engine_timing c) (22 + n) \<longleftrightarrow> bit (default_time_origin c) n"
  "n < 7 \<Longrightarrow> bit (dma_engine_timing c) (15 + n) \<longleftrightarrow> bit (ldma_to_sdma_time_origin c) n"
  "n < 5 \<Longrightarrow> bit (dma_engine_timing c) (10 + n) \<longleftrightarrow> bit (xdma_time_start_activate c) n"
  "n < 5 \<Longrightarrow> bit (dma_engine_timing c) (5 + n) \<longleftrightarrow> bit (xdma_time_start_access c) n"
  "n < 5 \<Longrightarrow> bit (dma_engine_timing c) (0 + n) \<longleftrightarrow> bit (sdma_time_start_wb_f1 c) n"
  unfolding bit_dma_engine_timing by simp_all

lemma field_of_word:
  assumes "\<And>n. n < w \<Longrightarrow> bit (t :: u64) (k + n) \<longleftrightarrow> bit (x :: u8) n" and "w \<le> 8"
  shows "take_bit w (ucast (drop_bit k t)) = take_bit w x"
  by (rule bit_word_eqI) (use assms in \<open>auto simp: bit_take_bit_iff bit_ucast_iff bit_drop_bit_eq\<close>)

text \<open>
  The 48-bit timing word keeps the fields of the DMA configuration apart: each is read back from
  its bits, cut to the width of its field.
\<close>

theorem dma_engine_timing_fields:
  "ucast (drop_bit 36 (dma_engine_timing c)) AND 0x7F = refresh_access_number c AND 0x7F
   \<and> ucast (drop_bit 32 (dma_engine_timing c)) AND 0x0F = column_read_latency c AND 0x0F
   \<and> ucast (drop_bit 29 (dma_engine_timing c)) AND 0x07 = minimal_access_number c AND 0x07
   \<and> ucast (drop_bit 22 (dma_engine_timing c)) AND 0x7F = default_time_origin c AND 0x7F
   \<and> ucast (drop_bit 15 (dma_engine_timing c)) AND 0x7F = ldma_to_sdma_time_origin c AND 0x7F
   \<and> ucast (drop_bit 10 (dma_engine_timing c)) AND 0x1F = xdma_time_start_activate c AND 0x1F
   \<and> ucast (drop_bit 5 (dma_engine_timing c)) AND 0x1F = xdma_time_start_access c AND 0x1F
   \<and> ucast (drop_bit 0 (dma_engine_timing c)) AND 0x1F = sdma_time_start_wb_f1 c AND 0x1F"
  unfolding and_masks
  by (simp add: field_of_word [OF bit_timing_field(1)] field_of_word [OF bit_timing_field(2)]
      field_of_word [OF bit_timing_field(3)] field_of_word [OF bit_timing_field(4)]
      field_of_word [OF bit_timing_field(5)] field_of_word [OF bit_timing_field(6)]
      field_of_word [OF bit_timing_field(7)] field_of_word [OF bit_timing_field(8), simplified])

end
