(* ===== verification/Ufi_Reset.thy ===== *)
theory Ufi_Reset
  imports Ufi_Repair Wavegen
begin

text \<open>
  The reset of a rank (\<^verbatim>\<open>ci_reset_rank\<close> of \<^verbatim>\<open>ufi/src/ufi_config.c\<close>) and its steps. All
  DPUs are enabled while it runs: the sets of enabled DPUs are saved first, narrowed by the SRAM
  repairs, and written back by \<open>dpu_init_groups\<close>.

  The program that resets the internal state of a DPU is read from a file of the package, so it is an
  argument (\<open>None\<close> when it cannot be read). The two loops the code does not bound run on fuel.
\<close>

definition from_celsius_to_dpu_enum :: "u8 \<Rightarrow> u8" where
  "from_celsius_to_dpu_enum temperature =
     (if temperature < 50 then 0 else if temperature < 60 then 1 else if temperature < 70 then 2
      else if temperature < 80 then 3 else if temperature < 90 then 4 else if temperature < 100 then 5
      else if temperature < 110 then 6 else 7)"

section \<open>Saving the enabled DPUs\<close>

type_synonym saved = "bool list \<times> u32 list"

definition enable_ci :: "nat \<Rightarrow> 'w dpu_rank \<Rightarrow> 'w dpu_rank" where
  "enable_ci each_ci r =
     fold (\<lambda>each_dpu. upd_dpu each_ci each_dpu (\<lambda>d. d\<lparr>dpu_enabled := True\<rparr>)) [0..<nr_dpus r]
       (upd_slice each_ci (\<lambda>i. i\<lparr>all_dpus_are_enabled := True, enabled_dpus := ucast (dpu_mask_all (nr_dpus r))\<rparr>) r)"

definition save_ci :: "bool \<Rightarrow> nat \<Rightarrow> saved \<times> 'w dpu_rank \<Rightarrow> saved \<times> 'w dpu_rank" where
  "save_ci update_save each_ci = (\<lambda>((all_save, enabled_save), r).
     let ci_info = r_slice r each_ci;
         all_save' = all_save[each_ci := (if \<not> update_save then all_dpus_are_enabled ci_info
                                          else all_save ! each_ci \<and> all_dpus_are_enabled ci_info)];
         enabled_save' = enabled_save[each_ci := (if \<not> update_save then enabled_dpus ci_info
                                                  else enabled_save ! each_ci AND enabled_dpus ci_info)]
     in ((all_save', enabled_save'), if enabled_dpus ci_info = 0 then r else enable_ci each_ci r))"

definition save_enabled_dpus :: "bool \<Rightarrow> saved \<Rightarrow> ('w, saved) ufi" where
  "save_enabled_dpus update_save saves = (\<lambda>r.
     (case fold (save_ci update_save) [0..<nr_cis r] (saves, r) of (saves', r') \<Rightarrow> (Ret saves', r')))"

section \<open>Configuration steps\<close>

definition EXPECTED_BYTE_ORDER_RESULT_AFTER_CONFIGURATION :: u64 where
  "EXPECTED_BYTE_ORDER_RESULT_AFTER_CONFIGURATION = 0x000103FF0F8FCFEF"

definition byte_order_values_are_compatible :: "u64 \<Rightarrow> u64 \<Rightarrow> bool" where
  "byte_order_values_are_compatible reference found =
     list_all (\<lambda>each_byte. popcount (ucast (drop_bit (8 * each_byte) reference AND 0xFF) :: u8)
                         = popcount (ucast (drop_bit (8 * each_byte) found AND 0xFF) :: u8)) [0..<8]"

text \<open>The results go to \<open>rank->data\<close>. Every CI is looked at, the first bad one is not the last.\<close>

definition check_byte_order :: "u8 \<Rightarrow> u64 list \<Rightarrow> ('w, unit) ufi" where
  "check_byte_order ci_mask results = (\<lambda>r.
     if list_all (\<lambda>slice_id. byte_order_values_are_compatible (results ! slice_id)
          EXPECTED_BYTE_ORDER_RESULT_AFTER_CONFIGURATION) (ci_list r ci_mask)
     then ok () r else fail DPU_ERR_DRIVER r)"

definition load_byte_orders :: "'w dpu_rank \<Rightarrow> 'w dpu_rank" where
  "load_byte_orders r = r\<lparr>r_data := fold (\<lambda>slice_id d. d[slice_id := byte_order (r_slice r slice_id)]) [0..<nr_cis r] (r_data r)\<rparr>"

definition dpu_byte_order :: "('w, unit) ufi" where
  "dpu_byte_order = (\<lambda>r.
     if r_type r = HW then FF (modify load_byte_orders) (\<lambda>_ r. check_byte_order ALL_CIS (r_data r) r) r
     else FF (ufi_select_cis ALL_CIS) (\<lambda>ci_mask r.
          FF (ufi_byte_order ci_mask store_data (r_data r)) (check_byte_order ci_mask) r) r)"

text \<open>The status of the reset command itself is dropped.\<close>

definition dpu_soft_reset :: "u8 \<Rightarrow> ('w, unit) ufi" where
  "dpu_soft_reset clock_div = (\<lambda>r.
     let cycle_accurate = (if enable_cycle_accurate_behavior (r_configuration r) then 1 else 0)
     in FF (ufi_select_cis ALL_CIS) (\<lambda>ci_mask.
        ignore_status (ufi_soft_reset ci_mask clock_div cycle_accurate)) r)"

text \<open>
  The reference is the answer of the first selected CI; \<^verbatim>\<open>__builtin_ctz(0)\<close> is undefined, so a rank
  without a CI to talk to aborts here.
\<close>

definition first_ci_result :: "u8 \<Rightarrow> u32 list \<Rightarrow> ('w, u32) ufi" where
  "first_ci_result ci_mask results = (\<lambda>r.
     if ci_mask = 0 then (Abort, r)
     else let result = results ! hd (filter (bit ci_mask) [0..<8])
          in if list_ex (\<lambda>slice_id. results ! slice_id \<noteq> result) (ci_list r ci_mask)
             then fail DPU_ERR_INTERNAL r else ok result r)"

definition set_bit_config :: "u32 \<Rightarrow> 'w dpu_rank \<Rightarrow> 'w dpu_rank" where
  "set_bit_config result r =
     r\<lparr>r_hw := (r_hw r)\<lparr>pcb_transformation :=
        (dpu_bit_config_compute result (pcb_transformation (r_hw r)))\<lparr>stutter := 0\<rparr>\<rparr>\<rparr>"

definition dpu_bit_config_step :: "('w, unit) ufi" where
  "dpu_bit_config_step =
     FF (ufi_select_cis ALL_CIS) (\<lambda>ci_mask.
     FF (ufi_bit_config ci_mask None (Some (replicate 8 0))) (\<lambda>results.
     FF (first_ci_result ci_mask (the results)) (\<lambda>result.
     modify (set_bit_config result))))"

definition dpu_identity :: "('w, unit) ufi" where
  "dpu_identity =
     FF (ufi_select_cis ALL_CIS) (\<lambda>ci_mask.
     FF (ufi_identity ci_mask (replicate 8 0)) (\<lambda>results.
     FF (first_ci_result ci_mask results) (\<lambda>identity_result r.
     if identity_result \<noteq> chip_id (r_hw r) then fail DPU_ERR_INTERNAL r else ok () r)))"

definition dpu_ci_shuffling_box_config :: "('w, unit) ufi" where
  "dpu_ci_shuffling_box_config =
     FF (ufi_select_cis ALL_CIS) (\<lambda>ci_mask r.
     FF (ufi_bit_config ci_mask (Some (pcb_transformation (r_hw r))) None) (\<lambda>_. ok ()) r)"

definition dpu_thermal_config :: "u8 \<Rightarrow> ('w, unit) ufi" where
  "dpu_thermal_config thermal_config =
     FF (ufi_select_cis ALL_CIS) (\<lambda>ci_mask.
     ignore_status (ufi_thermal_config ci_mask (from_celsius_to_dpu_enum thermal_config)))"

definition dpu_carousel_config_step :: "('w, unit) ufi" where
  "dpu_carousel_config_step =
     FF (ufi_select_all ALL_CIS) (\<lambda>ci_mask r. ufi_carousel_config ci_mask (carousel (r_hw r)) r)"

section \<open>Clearing the DPUs\<close>

definition dpu_clear_debug :: "('w, unit) ufi" where
  "dpu_clear_debug =
     FF (ufi_select_all ALL_CIS) (\<lambda>ci_mask.
     FF (ufi_clear_debug_replace ci_mask) (\<lambda>_.
     FF (ufi_clear_fault_poison ci_mask) (\<lambda>_.
     FF (ufi_clear_fault_bkp ci_mask) (\<lambda>_.
     FF (ufi_clear_fault_dma ci_mask) (\<lambda>_.
     FF (ufi_clear_fault_mem ci_mask) (\<lambda>_.
     FF (ufi_clear_fault_dpu ci_mask) (\<lambda>_.
     ufi_clear_fault_intercept ci_mask)))))))"

definition dpu_clear_run_bits :: "('w, unit) ufi" where
  "dpu_clear_run_bits = (\<lambda>r.
     let nr_run_bits = nr_of_threads (r_hw r) + nr_of_notify_bits (r_hw r)
     in FF (ufi_select_all ALL_CIS) (\<lambda>ci_mask.
        mfor [0..<nr_run_bits] (\<lambda>each_bit _. FF (ufi_clear_run_bit ci_mask (of_nat each_bit) None) (\<lambda>_. ok ())) ()) r)"

text \<open>
  The mode read back is looked up by the DPU (\<^verbatim>\<open>pc_modes[dpu_id]\<close>), not by the CI, and a
  mismatch is forgotten by the commands of the next DPU: only the last one decides.
\<close>

definition pc_mode_mismatch :: "'w dpu_rank \<Rightarrow> u8 list \<Rightarrow> u8 \<Rightarrow> nat \<Rightarrow> bool" where
  "pc_mode_mismatch r pc_modes pc_mode dpu_id =
     list_ex (\<lambda>slice_id. dpu_enabled (dpu_get_unsafe r slice_id dpu_id) \<and> pc_modes ! dpu_id \<noteq> pc_mode) [0..<nr_cis r]"

definition dpu_set_pc_mode :: "u8 \<Rightarrow> ('w, unit) ufi" where
  "dpu_set_pc_mode pc_mode =
     FF (ufi_select_all ALL_CIS) (\<lambda>ci_mask.
     FF (ufi_set_pc_mode ci_mask (replicate 8 pc_mode)) (\<lambda>_ r.
     FF (mfor [0..<nr_dpus r] (\<lambda>dpu_id (mismatch, pc_modes).
           FF (ufi_select_dpu ALL_CIS dpu_id) (\<lambda>ci_mask.
           FF (ufi_get_pc_mode ci_mask pc_modes) (\<lambda>pc_modes r.
           ok (pc_mode_mismatch r pc_modes pc_mode dpu_id, pc_modes) r)))
         (False, replicate 8 pc_mode)) (\<lambda>(mismatch, _).
     if mismatch then fail DPU_ERR_INTERNAL else ok ()) r))"

definition stack_mismatch :: "'w dpu_rank \<Rightarrow> u8 list \<Rightarrow> bool \<Rightarrow> bool" where
  "stack_mismatch r previous_directions stack_is_up =
     list_ex (\<lambda>slice_id. list_ex (\<lambda>dpu_id. dpu_enabled (dpu_get_unsafe r slice_id dpu_id)
         \<and> dpu_mask_is_selected (previous_directions ! slice_id) dpu_id \<noteq> stack_is_up) [0..<nr_dpus r]) [0..<nr_cis r]"

definition dpu_set_stack_direction :: "bool \<Rightarrow> ('w, unit) ufi" where
  "dpu_set_stack_direction stack_is_up =
     FF (ufi_select_all ALL_CIS) (\<lambda>ci_mask.
     FF (ufi_set_stack_direction ci_mask (replicate 8 stack_is_up) None) (\<lambda>_.
     FF (ufi_set_stack_direction ci_mask (replicate 8 stack_is_up) (Some (replicate 8 0))) (\<lambda>previous r.
     if stack_mismatch r (the previous) stack_is_up then fail DPU_ERR_INTERNAL r else ok () r)))"

fun wait_internal_reset :: "nat \<Rightarrow> u8 \<Rightarrow> u8 list \<Rightarrow> ('w, unit) ufi" where
  "wait_internal_reset 0 ci_mask state = (\<lambda>r. (NoFuel, r))"
| "wait_internal_reset (Suc fuel) ci_mask state =
     FF (ufi_read_dpu_run ci_mask state) (\<lambda>state r.
       let mask_all = bit_of (nr_dpus r) - 1 :: u8
       in if list_ex (\<lambda>each_ci. state ! each_ci AND mask_all \<noteq> 0) (ci_list r ci_mask)
          then wait_internal_reset fuel ci_mask state r else ok () r)"

declare wait_internal_reset.simps [simp del]

definition dpu_reset_internal_state :: "nat \<Rightarrow> u64 list option \<Rightarrow> ('w, unit) ufi" where
  "dpu_reset_internal_state fuel program = (\<lambda>r.
     (case program of
        None \<Rightarrow> fail DPU_ERR_SYSTEM r
      | Some internal_state_reset \<Rightarrow>
          FF (ufi_select_all ALL_CIS) (\<lambda>ci_mask.
          FF (ufi_iram_write ci_mask (\<lambda>_ i. internal_state_reset ! i) 0 (of_nat (length internal_state_reset))) (\<lambda>_.
          FF (mfor [0..<nr_of_threads (r_hw r)] (\<lambda>each_thread _.
                FF (ufi_thread_boot ci_mask (of_nat each_thread) None) (\<lambda>_. ok ())) ()) (\<lambda>_.
          wait_internal_reset fuel ci_mask (replicate 8 0)))) r))"

section \<open>The groups\<close>

definition init_ci_groups :: "bool \<Rightarrow> u32 \<Rightarrow> nat \<Rightarrow> u8 \<Rightarrow> ('w, u8) ufi" where
  "init_ci_groups all_enabled enabled each_ci ci_mask = (\<lambda>r.
     if all_enabled then ok (ci_mask OR bit_of each_ci) r
     else if enabled \<noteq> 0 then
       FF (mfor [0..<nr_dpus r] (\<lambda>each_dpu _.
            FF (ufi_select_dpu (bit_of each_ci) each_dpu) (\<lambda>single_ci_mask.
            ufi_write_group single_ci_mask
              (if enabled AND bit_of each_dpu \<noteq> 0 then DPU_ENABLED_GROUP else DPU_DISABLED_GROUP))) ())
          (\<lambda>_. ok ci_mask) r
     else ok ci_mask r)"

definition restore_ci :: "saved \<Rightarrow> nat \<Rightarrow> 'w dpu_rank \<Rightarrow> 'w dpu_rank" where
  "restore_ci saves each_ci r =
     (case saves of (all_save, enabled_save) \<Rightarrow>
        let r1 = upd_slice each_ci (\<lambda>i. i\<lparr>all_dpus_are_enabled := all_save ! each_ci,
                                          enabled_dpus := enabled_save ! each_ci\<rparr>) r;
            r2 = r1\<lparr>r_nr_dpus_enabled := r_nr_dpus_enabled r1 + popcount (enabled_save ! each_ci)\<rparr>
        in fold (\<lambda>each_dpu. upd_dpu each_ci each_dpu (\<lambda>d. d\<lparr>dpu_enabled :=
             enabled_save ! each_ci AND bit_of each_dpu \<noteq> 0\<rparr>)) [0..<nr_dpus r] r2)"

definition restore_enabled_dpus :: "saved \<Rightarrow> 'w dpu_rank \<Rightarrow> 'w dpu_rank" where
  "restore_enabled_dpus saves r = fold (restore_ci saves) [0..<nr_cis r] (r\<lparr>r_nr_dpus_enabled := 0\<rparr>)"

definition dpu_init_groups :: "saved \<Rightarrow> ('w, unit) ufi" where
  "dpu_init_groups saves = (\<lambda>r.
     FF (mfor [0..<nr_cis r] (\<lambda>each_ci. init_ci_groups (fst saves ! each_ci) (snd saves ! each_ci) each_ci) 0)
        (\<lambda>ci_mask.
     FF (if ci_mask \<noteq> 0 then
           FF (ufi_select_all ci_mask) (\<lambda>ci_mask. ufi_write_group ci_mask DPU_ENABLED_GROUP)
         else ok ()) (\<lambda>_.
     modify (restore_enabled_dpus saves))) r)"

section \<open>The reset\<close>

definition REFRESH_MODE_VALUE :: nat where "REFRESH_MODE_VALUE = 2"
definition DPU_PC_MODE_16 :: u8 where "DPU_PC_MODE_16 = 4"

definition reset_chips :: "('w, unit) ufi" where
  "reset_chips =
     FF dpu_byte_order (\<lambda>_.
     FF (dpu_soft_reset DPU_CLOCK_DIV8) (\<lambda>_.
     FF dpu_bit_config_step (\<lambda>_.
     FF dpu_ci_shuffling_box_config (\<lambda>_ r.
     FF (dpu_soft_reset (from_division_factor_to_dpu_enum (clock_division (r_hw r)))) (\<lambda>_.
     FF dpu_ci_shuffling_box_config (\<lambda>_.
     FF dpu_identity (\<lambda>_ r.
     FF (dpu_thermal_config (std_temperature (r_hw r))) (\<lambda>_.
     dpu_carousel_config_step) r))) r))))"

definition reset_dpus ::
  "nat \<Rightarrow> u64 list option \<Rightarrow> dpu_dma_config_s \<Rightarrow> dpu_wavegen_config_s \<Rightarrow> ('w, unit) ufi" where
  "reset_dpus fuel program dma_config wavegen_config =
     FF (dpu_dma_config dma_config) (\<lambda>_ r.
     FF (dpu_dma_shuffling_box_config (pcb_transformation (r_hw r))) (\<lambda>_.
     FF (dpu_wavegen_config wavegen_config) (\<lambda>_.
     FF dpu_clear_debug (\<lambda>_.
     FF dpu_clear_run_bits (\<lambda>_.
     FF (dpu_set_pc_mode DPU_PC_MODE_16) (\<lambda>_.
     FF (dpu_set_stack_direction True) (\<lambda>_.
     dpu_reset_internal_state fuel program)))))) r)"

definition reset_with_configs ::
  "nat \<Rightarrow> u64 list option \<Rightarrow> dpu_dma_config_s \<Rightarrow> dpu_wavegen_config_s \<Rightarrow> ('w, unit) ufi" where
  "reset_with_configs fuel program dma_config wavegen_config =
     FF (save_enabled_dpus False (replicate 8 False, replicate 8 0)) (\<lambda>saves.
     FF reset_chips (\<lambda>_.
     FF dpu_iram_repair_config (\<lambda>_.
     FF (save_enabled_dpus True saves) (\<lambda>saves.
     FF dpu_wram_repair_config (\<lambda>_.
     FF (save_enabled_dpus True saves) (\<lambda>saves.
     FF (reset_dpus fuel program dma_config wavegen_config) (\<lambda>_ r.
     FF (dpu_switch_mux_for_rank (api_must_switch_mram_mux (r_configuration r))) (\<lambda>_.
     FF (dpu_init_groups saves) (\<lambda>_.
     dpu_custom_for_rank DPU_COMMAND_SET_SLICE_INFO)) r)))))))"

definition ci_reset_rank :: "nat \<Rightarrow> u64 list option \<Rightarrow> ('w, unit) ufi" where
  "ci_reset_rank fuel program = (\<lambda>r.
     (case fetch_dma_and_wavegen_configs fuel (fck_frequency_in_mhz (r_hw r)) (clock_division (r_hw r))
             REFRESH_MODE_VALUE (\<not> ila_control_refresh (r_configuration r)) of
        None \<Rightarrow> (NoFuel, r)
      | Some (std_dma_config, wavegen_config) \<Rightarrow>
          reset_with_configs fuel program
            (if r_type r = CYCLE_ACCURATE_SIMULATOR then dma_engine_cas_config else std_dma_config) wavegen_config r))"

text \<open>\<open>ci_disable_dpu\<close> moves a DPU to the group of disabled DPUs.\<close>

definition ci_disable_dpu :: "nat \<Rightarrow> nat \<Rightarrow> ('w, unit) ufi" where
  "ci_disable_dpu slice_id dpu_id =
     FF (ufi_select_dpu (bit_of slice_id) dpu_id) (\<lambda>ci_mask. ufi_write_group ci_mask DPU_DISABLED_GROUP)"

end
