(* ===== verification/Reset_Frame.thy ===== *)
theory Reset_Frame
  imports Ufi_Reset
begin

text \<open>
  What the steps of the reset may change: \<open>reset_frame\<close> extends the contract of the frame interface
  by the bit configuration, the recorded side of the multiplexers and the backend's own operations.
  Every step of the reset but the ones that enable and disable DPUs keeps a predicate that satisfies it.
\<close>

context ufi_group_frame
begin

lemma keeps_modify_data: "keeps I (modify load_byte_orders)"
proof (rule keeps_modify)
  fix r assume r: "I r"
  have "length (fold (\<lambda>slice_id d. d[slice_id := byte_order (r_slice r slice_id)]) [0..<nr_cis r] (r_data r)) = 8"
    by (simp add: rank_wfD(6) [OF I_wf [OF r]])
  then show "I (load_byte_orders r)" unfolding load_byte_orders_def by (rule I_data [OF r])
qed

lemma keeps_check_byte_order: "keeps I (check_byte_order m res)"
  by (rule keepsI) (simp add: check_byte_order_def)

lemma keeps_dpu_byte_order: "keeps I dpu_byte_order"
proof -
  have "keeps I (\<lambda>r. check_byte_order ALL_CIS (r_data r) r)" by (rule keepsI, erule keepsD [OF keeps_check_byte_order])
  then have hw: "keeps I (FF (modify load_byte_orders) (\<lambda>_ r. check_byte_order ALL_CIS (r_data r) r))"
    by (intro keeps_FF keeps_modify_data)
  have "keeps I (\<lambda>r. FF (ufi_byte_order m store_data (r_data r)) (check_byte_order m) r)" for m
  proof (rule keepsI)
    fix r assume r: "I r"
    have "keeps I (FF (ufi_byte_order m store_data (r_data r)) (check_byte_order m))"
      by (intro keeps_FF keeps_byte_order store_data_ok rank_wfD(6) [OF I_wf [OF r]] keeps_check_byte_order)
    then show "I (snd (FF (ufi_byte_order m store_data (r_data r)) (check_byte_order m) r))" using r by (rule keepsD)
  qed
  then have "keeps I (FF (ufi_select_cis ALL_CIS) (\<lambda>m r. FF (ufi_byte_order m store_data (r_data r)) (check_byte_order m) r))"
    by (intro keeps_FF keeps_select_cis)
  with hw show ?thesis unfolding dpu_byte_order_def by (rule keeps_if_state)
qed

lemma keeps_dpu_soft_reset: "keeps I (dpu_soft_reset d)"
  unfolding dpu_soft_reset_def Let_def
  by (rule keepsI, erule keepsD [rotated]) (intro keeps_FF keeps_select_cis keeps_ignore_status keeps_soft_reset)

lemma keeps_first_ci: "keeps I (first_ci_result m res)"
  by (rule keepsI) (simp add: first_ci_result_def Let_def)

lemma keeps_identity: "keeps I dpu_identity"
proof -
  have "keeps I (\<lambda>r. if x \<noteq> chip_id (r_hw r) then fail DPU_ERR_INTERNAL r else ok () r)" for x
    by (intro keeps_if_state keeps_fail keeps_ok)
  then show ?thesis unfolding dpu_identity_def by (intro keeps_FF keeps_ufi keeps_first_ci)
qed

lemma keeps_shuffling: "keeps I dpu_ci_shuffling_box_config"
proof -
  have "keeps I (\<lambda>r. FF (ufi_bit_config m (Some (pcb_transformation (r_hw r))) None) (\<lambda>_. ok ()) r)" for m
    by (rule keepsI, erule keepsD [rotated]) (intro keeps_FF keeps_ufi keeps_ok)
  then show ?thesis unfolding dpu_ci_shuffling_box_config_def by (intro keeps_FF keeps_ufi)
qed

lemma keeps_thermal: "keeps I (dpu_thermal_config t)"
  unfolding dpu_thermal_config_def by (intro keeps_FF keeps_ufi keeps_ignore_status)

lemma keeps_carousel_step: "keeps I dpu_carousel_config_step"
proof -
  have "keeps I (\<lambda>r. ufi_carousel_config m (carousel (r_hw r)) r)" for m
    by (rule keepsI, erule keepsD [rotated]) (rule keeps_carousel)
  then show ?thesis unfolding dpu_carousel_config_step_def by (intro keeps_FF keeps_select)
qed

lemma keeps_clear: "keeps I dpu_clear_debug" "keeps I dpu_clear_run_bits"
proof -
  show "keeps I dpu_clear_debug" unfolding dpu_clear_debug_def by (intro keeps_FF keeps_select keeps_ufi)
  show "keeps I dpu_clear_run_bits" unfolding dpu_clear_run_bits_def Let_def
    by (rule keepsI, erule keepsD [rotated]) (intro keeps_FF keeps_select keeps_mfor keeps_ufi keeps_ok)
qed

lemma keeps_ok_state: "keeps I (\<lambda>r. ok (f r) r)"
  by (rule keepsI) simp

lemma keeps_set_pc_mode: "keeps I (dpu_set_pc_mode p)"
proof -
  have body: "keeps I (mfor xs (\<lambda>dpu_id (mismatch, pc_modes). FF (ufi_select_dpu ALL_CIS dpu_id) (\<lambda>ci_mask.
      FF (ufi_get_pc_mode ci_mask pc_modes) (\<lambda>pc_modes r. ok (pc_mode_mismatch r pc_modes p dpu_id, pc_modes) r))) a)"
    for xs :: "nat list" and a :: "bool \<times> u8 list"
    by (intro keeps_mfor keeps_case_prod keeps_FF keeps_select keeps_ufi keeps_ok_state)
  have "keeps I (case x of (mismatch, y) \<Rightarrow> if mismatch then fail DPU_ERR_INTERNAL else ok ())" for x :: "bool \<times> u8 list"
    by (intro keeps_case_prod keeps_if keeps_fail keeps_ok)
  then have "keeps I (\<lambda>r. FF (mfor [0..<nr_dpus r] (\<lambda>dpu_id (mismatch, pc_modes). FF (ufi_select_dpu ALL_CIS dpu_id) (\<lambda>ci_mask.
      FF (ufi_get_pc_mode ci_mask pc_modes) (\<lambda>pc_modes r. ok (pc_mode_mismatch r pc_modes p dpu_id, pc_modes) r))) a)
      (\<lambda>(mismatch, _). if mismatch then fail DPU_ERR_INTERNAL else ok ()) r)" for a :: "bool \<times> u8 list"
    by (intro keepsI, elim keepsD [rotated]) (intro keeps_FF body)
  then show ?thesis unfolding dpu_set_pc_mode_def by (intro keeps_FF keeps_select keeps_ufi)
qed

lemma keeps_set_stack: "keeps I (dpu_set_stack_direction up)"
proof -
  have "keeps I (\<lambda>r. if stack_mismatch r x up then fail DPU_ERR_INTERNAL r else ok () r)" for x
    by (intro keeps_if_state keeps_fail keeps_ok)
  then show ?thesis unfolding dpu_set_stack_direction_def by (intro keeps_FF keeps_select keeps_ufi)
qed

lemma keeps_wait_reset: "keeps I (wait_internal_reset fuel m st)"
proof (induction fuel arbitrary: st)
  case (Suc fuel)
  have "keeps I (\<lambda>r. let mask_all = bit_of (nr_dpus r) - 1 :: u8
       in if list_ex (\<lambda>each_ci. x ! each_ci AND mask_all \<noteq> 0) (ci_list r m)
          then wait_internal_reset fuel m x r else ok () r)" for x
    unfolding Let_def by (intro keeps_if_state Suc.IH keeps_ok)
  then show ?case unfolding wait_internal_reset.simps by (intro keeps_FF keeps_ufi)
qed (simp add: wait_internal_reset.simps keeps_def)

lemma keeps_internal_state: "keeps I (dpu_reset_internal_state fuel program)"
proof (cases program)
  case None
  then show ?thesis by (simp add: dpu_reset_internal_state_def keeps_def)
next
  case (Some p)
  show ?thesis unfolding dpu_reset_internal_state_def Some option.case
    by (rule keepsI, erule keepsD [rotated])
       (intro keeps_FF keeps_select keeps_ufi keeps_mfor keeps_ok keeps_wait_reset)
qed

lemma keeps_write_regs: "keeps I (write_regs m a vs)"
  unfolding write_regs_def by (intro keeps_mfor keeps_ufi)

lemma keeps_registers:
  "keeps I (dpu_dma_config d)" "keeps I (dpu_dma_shuffling_box_config b)" "keeps I (dpu_wavegen_config w)"
proof -
  show "keeps I (dpu_dma_config d)" "keeps I (dpu_dma_shuffling_box_config b)"
    unfolding dpu_dma_config_def dpu_dma_shuffling_box_config_def Let_def
    by (intro keeps_FF keeps_select keeps_write_regs keeps_ufi)+
  have "keeps I (write_wavegen_config w)"
    unfolding write_wavegen_config_def dpu_wavegen_reg_config_def dpu_wavegen_timing_config_def
      dpu_wavegen_vector_sampling_config_def dpu_wavegen_rowhammer_and_refresh_config_def
    by (intro keeps_FF keeps_select keeps_write_regs)
  moreover have "keeps I (\<lambda>r. mfor [0..<nr_dpus r] (\<lambda>each_dpu _. FF (ufi_select_dpu ALL_CIS (refresh_target (nr_dpus r) each_dpu))
      (\<lambda>ci_mask. FF (ufi_write_dma_ctrl ci_mask 0x83 (refresh_ctrl w)) (\<lambda>_. ufi_clear_dma_ctrl ci_mask))) () r)"
    by (rule keepsI, erule keepsD [rotated]) (intro keeps_FF keeps_mfor keeps_select keeps_ufi)
  ultimately show "keeps I (dpu_wavegen_config w)" unfolding dpu_wavegen_config_def by (intro keeps_FF)
qed

lemma keeps_reset_dpus: "keeps I (reset_dpus fuel program d w)"
proof -
  have "keeps I (\<lambda>r. FF (dpu_dma_shuffling_box_config (pcb_transformation (r_hw r))) (\<lambda>_. FF (dpu_wavegen_config w)
      (\<lambda>_. FF dpu_clear_debug (\<lambda>_. FF dpu_clear_run_bits (\<lambda>_. FF (dpu_set_pc_mode DPU_PC_MODE_16)
      (\<lambda>_. FF (dpu_set_stack_direction True) (\<lambda>_. dpu_reset_internal_state fuel program)))))) r)"
    by (rule keepsI, erule keepsD [rotated])
       (intro keeps_FF keeps_registers keeps_clear keeps_set_pc_mode keeps_set_stack keeps_internal_state)
  then show ?thesis unfolding reset_dpus_def by (intro keeps_FF keeps_registers)
qed

lemma keeps_init_ci: "keeps I (init_ci_groups a e ci m)"
proof -
  have "keeps I (FF (mfor xs (\<lambda>each_dpu _. FF (ufi_select_dpu (bit_of ci) each_dpu) (\<lambda>single_ci_mask.
      ufi_write_group single_ci_mask (if e AND bit_of each_dpu \<noteq> 0 then DPU_ENABLED_GROUP else DPU_DISABLED_GROUP))) ())
      (\<lambda>_. ok m))" for xs :: "nat list"
    by (intro keeps_FF keeps_mfor keeps_select keeps_write_group keeps_ok)
       (simp add: DPU_ENABLED_GROUP_def DPU_DISABLED_GROUP_def)
  then show ?thesis unfolding init_ci_groups_def
    by (intro keeps_if_state keeps_ok) (rule keepsI, erule keepsD [rotated])
qed

text \<open>The part of \<open>dpu_init_groups\<close> before the sets of enabled DPUs are written back.\<close>

lemma keeps_init_groups_part:
  "keeps I (mfor cis (\<lambda>each_ci. init_ci_groups (f each_ci) (g each_ci) each_ci) m)"
  "keeps I (if m \<noteq> 0 then FF (ufi_select_all m) (\<lambda>ci_mask. ufi_write_group ci_mask DPU_ENABLED_GROUP) else ok ())"
  by (intro keeps_mfor keeps_init_ci, intro keeps_if keeps_FF keeps_select keeps_write_group keeps_ok)
     (simp add: DPU_ENABLED_GROUP_def)

lemma keeps_repair_default:
  "keeps I (FF (ufi_select_all ALL_CIS) (\<lambda>m. ufi_iram_repair_config m c))"
  "keeps I (FF (ufi_select_all ALL_CIS) (\<lambda>m. mfor banks (\<lambda>b _. ufi_wram_repair_config m (of_nat b) c) ()))"
  by (intro keeps_FF keeps_mfor keeps_select keeps_ufi)+

end

locale reset_frame = ufi_group_frame I for I :: "'w dpu_rank \<Rightarrow> bool" +
  assumes I_bit_config: "I r \<Longrightarrow> I (set_bit_config x r)"
    and I_mux: "I r \<Longrightarrow> ci < 8 \<Longrightarrow> I (upd_slice ci (\<lambda>i. i\<lparr>host_mux_mram_state := m\<rparr>) r)"
    and I_custom: "I r \<Longrightarrow> custom_operation (r_handler r) d c (r_world r) = (st, w) \<Longrightarrow> I (r\<lparr>r_world := w\<rparr>)"
begin

lemma keeps_bit_config_step: "keeps I dpu_bit_config_step"
  unfolding dpu_bit_config_step_def
  by (intro keeps_FF keeps_ufi keeps_first_ci keeps_modify I_bit_config)

lemma keeps_reset_chips: "keeps I reset_chips"
proof -
  have 1: "keeps I (\<lambda>r. FF (dpu_thermal_config (f r)) (\<lambda>_. dpu_carousel_config_step) r)" for f
    by (rule keepsI, erule keepsD [rotated]) (intro keeps_FF keeps_thermal keeps_carousel_step)
  have "keeps I (\<lambda>r. FF (dpu_soft_reset (g r)) (\<lambda>_. FF dpu_ci_shuffling_box_config (\<lambda>_. FF dpu_identity (\<lambda>_ r.
      FF (dpu_thermal_config (f r)) (\<lambda>_. dpu_carousel_config_step) r))) r)" for f g
    by (rule keepsI, erule keepsD [rotated]) (intro keeps_FF keeps_dpu_soft_reset keeps_shuffling keeps_identity 1)
  then show ?thesis
    unfolding reset_chips_def
    by (intro keeps_FF keeps_dpu_byte_order keeps_dpu_soft_reset keeps_bit_config_step keeps_shuffling)
qed

lemma keeps_switch_rank: "keeps I (dpu_switch_mux_for_rank host)"
proof -
  have rec: "keeps I (modify (record_mux_rank host))"
  proof (rule keeps_modify)
    fix r assume r: "I r"
    then have le: "nr_cis r \<le> 8" by (rule rank_wfD(2) [OF I_wf])
    from r show "I (record_mux_rank host r)"
      unfolding record_mux_rank_def by (rule fold_invariant) (use le in \<open>auto simp: set_mux_state_def I_mux\<close>)
  qed
  have "keeps I (FF (modify (record_mux_rank host)) (\<lambda>_. if b then ok () else host_handle_access_for_rank host))" for b
    by (intro keeps_FF rec keeps_if keeps_ok keeps_host_access)
  then show ?thesis unfolding dpu_switch_mux_for_rank_def
    by (intro keeps_if_state keeps_fail keeps_ok) (rule keepsI, erule keepsD [rotated])
qed

lemma keeps_custom: "keeps I (dpu_custom_for_rank c)"
proof (rule keepsI)
  fix r assume r: "I r"
  obtain st w where "custom_operation (r_handler r) None c (r_world r) = (st, w)" by (rule prod.exhaust)
  with I_custom [OF r this] show "I (snd (dpu_custom_for_rank c r))"
    by (auto simp: dpu_custom_for_rank_def split: option.split)
qed

end

section \<open>Well-formedness\<close>

lemma rank_wf_bit_config: "rank_wf r \<Longrightarrow> rank_wf (set_bit_config x r)"
  by (simp add: rank_wf_def set_bit_config_def)

interpretation wf: reset_frame rank_wf
  by unfold_locales (simp_all add: rank_wf_bit_config rank_wf_upd_slice, simp add: rank_wf_def)

section \<open>The enabled DPUs\<close>

text \<open>What the steps of the reset, apart from the repairs and the saves, leave alone.\<close>

definition enabled_slice :: "dpu_configuration_slice_info \<Rightarrow> u32 \<times> bool" where
  "enabled_slice s = (enabled_dpus s, all_dpus_are_enabled s)"

definition same_enabled :: "'w dpu_rank \<Rightarrow> 'w dpu_rank \<Rightarrow> bool" where
  "same_enabled r r' \<longleftrightarrow>
     nr_cis r' = nr_cis r \<and> nr_dpus r' = nr_dpus r \<and> r_configuration r' = r_configuration r
     \<and> r_dpus r' = r_dpus r
     \<and> map enabled_slice (slice_info (r_ci r')) = map enabled_slice (slice_info (r_ci r))"

lemma same_enabled_refl [simp]: "same_enabled r r"
  by (simp add: same_enabled_def)

lemma same_enabled_upd_slice:
  assumes "same_enabled r s" and "\<And>i. enabled_slice (f i) = enabled_slice i"
  shows "same_enabled r (upd_slice ci f s)"
proof -
  have "map enabled_slice ((slice_info (r_ci s))[ci := f (r_slice s ci)]) = map enabled_slice (slice_info (r_ci s))"
    by (metis assms(2) list_update_id map_update)
  with assms(1) show ?thesis by (simp add: same_enabled_def upd_slice_def)
qed

lemma enabled_slice_updates [simp]:
  "enabled_slice (s\<lparr>structure_value := x\<rparr>) = enabled_slice s" "enabled_slice (s\<lparr>slice_target := t\<rparr>) = enabled_slice s"
  "enabled_slice (s\<lparr>host_mux_mram_state := m\<rparr>) = enabled_slice s"
  "enabled_slice (move_to_group g dm s) = enabled_slice s" "enabled_slice (reset_slice n s) = enabled_slice s"
  by (simp_all add: enabled_slice_def move_to_group_def reset_slice_def Let_def)

interpretation enabled: reset_frame "\<lambda>r. rank_wf r \<and> same_enabled r0 r" for r0
  by unfold_locales
     (simp_all add: rank_wf_ctx wf.I_update wf.I_commit wf.I_data wf.I_ring wf.I_cmds wf.I_structure wf.I_target wf.I_move
        wf.I_reset wf.I_bit_config wf.I_mux wf.I_custom set_structure_def same_enabled_upd_slice rank_wf_upd_slice,
      simp_all add: same_enabled_def set_bit_config_def)

lemma same_enabledD:
  assumes "rank_wf r" "same_enabled r r'" "ci < 8"
  shows "enabled_dpus (r_slice r' ci) = enabled_dpus (r_slice r ci)"
    and "all_dpus_are_enabled (r_slice r' ci) = all_dpus_are_enabled (r_slice r ci)"
proof -
  have "length (slice_info (r_ci r')) = length (slice_info (r_ci r))" "ci < length (slice_info (r_ci r))"
    using assms by (auto simp: same_enabled_def rank_wfD(4) dest: map_eq_imp_length_eq)
  then have "enabled_slice (r_slice r' ci) = enabled_slice (r_slice r ci)"
    using assms(2) unfolding same_enabled_def by (metis nth_map)
  then show "enabled_dpus (r_slice r' ci) = enabled_dpus (r_slice r ci)"
    "all_dpus_are_enabled (r_slice r' ci) = all_dpus_are_enabled (r_slice r ci)"
    by (simp_all add: enabled_slice_def)
qed

end
