(* ===== verification/Reset_Spec.thy ===== *)
theory Reset_Spec
  imports Reset_Frame Sample_Rank
begin

text \<open>
  What the reset does to the sets of enabled DPUs: a DPU is enabled after a successful reset exactly
  when it was before and none of its memories had to be given up.
\<close>

section \<open>The setup of a rank\<close>

text \<open>The description of the memories of a DPU, whether or not a repair has failed already.\<close>

definition mem_key :: "dpu_memory_repair \<Rightarrow> dpu_memory_repair_address list \<times> nat" where
  "mem_key m = (corrupted_addresses m, nr_of_corrupted_addresses m)"

definition dpu_key :: "dpu \<Rightarrow> (dpu_memory_repair_address list \<times> nat) list" where
  "dpu_key d = mem_key (iram_repair d) # map mem_key (wram_repair d)"

definition same_setup :: "'w dpu_rank \<Rightarrow> 'w dpu_rank \<Rightarrow> bool" where
  "same_setup r r' \<longleftrightarrow> rank_wf r' \<and> nr_cis r' = nr_cis r \<and> nr_dpus r' = nr_dpus r
     \<and> r_configuration r' = r_configuration r \<and> map dpu_key (r_dpus r') = map dpu_key (r_dpus r)"

lemma same_setup_refl: "rank_wf r \<Longrightarrow> same_setup r r"
  by (simp add: same_setup_def)

lemma same_setup_trans: "same_setup r s \<Longrightarrow> same_setup s t \<Longrightarrow> same_setup r t"
  by (simp add: same_setup_def)

lemma same_setup_enabled: "rank_wf t \<Longrightarrow> same_enabled r t \<Longrightarrow> same_setup r t"
  by (simp add: same_setup_def same_enabled_def)

lemma extract_key: "mem_key m = mem_key m' \<Longrightarrow> extract_memory_repair_configuration m = extract_memory_repair_configuration m'"
  by (simp add: mem_key_def extract_memory_repair_configuration_def)

lemma same_setup_dpu_key:
  assumes "same_setup r r'" and "rank_wf r" and "ci < nr_cis r" "d < nr_dpus r"
  shows "dpu_key (dpu_get_unsafe r' ci d) = dpu_key (dpu_get_unsafe r ci d)"
proof -
  have eq: "dpu_index r' ci d = dpu_index r ci d" "map dpu_key (r_dpus r') = map dpu_key (r_dpus r)"
    using assms(1) by (simp_all add: same_setup_def dpu_index_def)
  have lt: "dpu_index r ci d < length (r_dpus r)" using dpu_index_lt assms(2-4) by blast
  with eq(2) have "dpu_index r ci d < length (r_dpus r')" by (metis length_map)
  with lt eq show ?thesis unfolding dpu_get_unsafe_def by (metis nth_map)
qed

lemma same_setup_upd_slice:
  "same_setup r s \<Longrightarrow> (\<And>i. length (dpus_per_group (f i)) = length (dpus_per_group i)) \<Longrightarrow> same_setup r (upd_slice ci f s)"
  by (simp add: same_setup_def rank_wf_upd_slice)

lemma same_setup_upd_dpu:
  assumes "same_setup r s" and "\<And>d. dpu_key (f d) = dpu_key d"
  shows "same_setup r (upd_dpu ci d f s)"
proof -
  have "map dpu_key ((r_dpus s)[j := f (r_dpus s ! j)]) = map dpu_key (r_dpus s)" for j
    by (metis assms(2) list_update_id map_update)
  with assms(1) show ?thesis by (simp add: same_setup_def rank_wf_upd_dpu) (simp add: upd_dpu_def dpu_get_unsafe_def)
qed

lemma dpu_key_updates [simp]: "dpu_key (d\<lparr>dpu_enabled := e\<rparr>) = dpu_key d" "dpu_key (fail_iram d) = dpu_key d"
  "dpu_key (fail_wram b d) = dpu_key d"
proof -
  show "dpu_key (d\<lparr>dpu_enabled := e\<rparr>) = dpu_key d" "dpu_key (fail_iram d) = dpu_key d"
    by (simp_all add: dpu_key_def fail_iram_def mem_key_def)
  have "map mem_key ((wram_repair d)[b := (wram_repair d ! b)\<lparr>fail_to_repair := True\<rparr>]) = map mem_key (wram_repair d)"
  proof -
    have "mem_key ((wram_repair d ! b)\<lparr>fail_to_repair := True\<rparr>) = mem_key (wram_repair d ! b)" by (simp add: mem_key_def)
    then show ?thesis by (metis list_update_id map_update)
  qed
  then show "dpu_key (fail_wram b d) = dpu_key d" by (simp add: dpu_key_def fail_wram_def)
qed

abbreviation en :: "'w dpu_rank \<Rightarrow> nat \<Rightarrow> u32" where
  "en r ci \<equiv> enabled_dpus (r_slice r ci)"

section \<open>Saving\<close>

lemma fold_upd_dpu_simps:
  "slice_info (r_ci (fold (\<lambda>d. upd_dpu ci d (f d)) ds r)) = slice_info (r_ci r)"
  "nr_cis (fold (\<lambda>d. upd_dpu ci d (f d)) ds r) = nr_cis r"
  "nr_dpus (fold (\<lambda>d. upd_dpu ci d (f d)) ds r) = nr_dpus r"
  by (induction ds arbitrary: r) simp_all

lemma same_setup_fold_upd_dpu:
  "same_setup r s \<Longrightarrow> (\<And>d x. dpu_key (f d x) = dpu_key x) \<Longrightarrow> same_setup r (fold (\<lambda>d. upd_dpu ci d (f d)) ds s)"
  by (induction ds arbitrary: s) (auto intro: same_setup_upd_dpu)

lemma enable_ci_facts:
  assumes "rank_wf r" "ci < 8"
  shows "same_setup r (enable_ci ci r)"
    and "j < 8 \<Longrightarrow> r_slice (enable_ci ci r) j = (if j = ci
      then (r_slice r j)\<lparr>all_dpus_are_enabled := True, enabled_dpus := ucast (dpu_mask_all (nr_dpus r))\<rparr> else r_slice r j)"
proof -
  show "same_setup r (enable_ci ci r)" unfolding enable_ci_def
    by (rule same_setup_fold_upd_dpu, rule same_setup_upd_slice, rule same_setup_refl) (simp_all add: assms)
  show "j < 8 \<Longrightarrow> r_slice (enable_ci ci r) j = (if j = ci
      then (r_slice r j)\<lparr>all_dpus_are_enabled := True, enabled_dpus := ucast (dpu_mask_all (nr_dpus r))\<rparr> else r_slice r j)"
    using rank_wfD(4) [OF assms(1)] by (simp add: enable_ci_def fold_upd_dpu_simps r_slice_upd_slice)
qed

lemma save_loop:
  assumes "rank_wf r" "distinct cis" "\<forall>ci \<in> set cis. ci < 8" "length A = 8" "length E = 8"
    and "fold (save_ci u) cis ((A, E), r) = ((A', E'), r')"
  shows "same_setup r r' \<and> length E' = 8 \<and> length A' = 8
    \<and> (\<forall>ci < 8. E' ! ci = (if ci \<in> set cis then (if u then E ! ci AND en r ci else en r ci) else E ! ci)
         \<and> en r' ci = (if ci \<in> set cis \<and> en r ci \<noteq> 0 then ucast (dpu_mask_all (nr_dpus r)) else en r ci))"
  using assms
proof (induction cis arbitrary: A E r)
  case (Cons ci cis)
  define A1 where "A1 = A[ci := (if \<not> u then all_dpus_are_enabled (r_slice r ci) else A ! ci \<and> all_dpus_are_enabled (r_slice r ci))]"
  define E1 where "E1 = E[ci := (if \<not> u then en r ci else E ! ci AND en r ci)]"
  define r1 where "r1 = (if en r ci = 0 then r else enable_ci ci r)"
  have ci: "ci < 8" "ci \<notin> set cis" using Cons.prems by auto
  have step: "save_ci u ci ((A, E), r) = ((A1, E1), r1)" by (simp add: save_ci_def Let_def A1_def E1_def r1_def)
  have s1: "same_setup r r1" using enable_ci_facts(1) Cons.prems(1) ci same_setup_refl by (auto simp: r1_def)
  then have wf1: "rank_wf r1" "nr_dpus r1 = nr_dpus r" by (simp_all add: same_setup_def)
  have slice: "en r1 j = (if j = ci \<and> en r ci \<noteq> 0 then ucast (dpu_mask_all (nr_dpus r)) else en r j)" if "j < 8" for j
    using enable_ci_facts(2) [OF Cons.prems(1) ci(1) that] by (cases "j = ci") (auto simp: r1_def)
  have "same_setup r1 r' \<and> length E' = 8 \<and> length A' = 8
    \<and> (\<forall>ci < 8. E' ! ci = (if ci \<in> set cis then (if u then E1 ! ci AND en r1 ci else en r1 ci) else E1 ! ci)
         \<and> en r' ci = (if ci \<in> set cis \<and> en r1 ci \<noteq> 0 then ucast (dpu_mask_all (nr_dpus r1)) else en r1 ci))"
    using Cons.prems step wf1 by (intro Cons.IH) (simp_all add: A1_def E1_def)
  with s1 ci Cons.prems(5) show ?case
    by (auto simp: slice E1_def wf1(2) nth_list_update intro: same_setup_trans)
qed (simp add: same_setup_refl)

section \<open>Repairing\<close>

text \<open>
  An operation narrows the enabled DPUs to \<open>P\<close> when, on success, the DPUs \<open>k\<close> of each CI with \<open>P ci k\<close>
  stay enabled and no other does.
\<close>

definition narrows :: "'w dpu_rank \<Rightarrow> (nat \<Rightarrow> nat \<Rightarrow> bool) \<Rightarrow> ('w, 'a) ufi \<Rightarrow> bool" where
  "narrows r0 P m \<longleftrightarrow> (\<forall>r x t. same_setup r0 r \<and> rank_wf r \<and> m r = (Ret x, t) \<longrightarrow>
     same_setup r0 t \<and> (\<forall>ci < nr_cis r0. \<forall>k. bit (en t ci) k \<longleftrightarrow> bit (en r ci) k \<and> P ci k))"

lemma narrowsI:
  "(\<And>r x t. same_setup r0 r \<Longrightarrow> rank_wf r \<Longrightarrow> m r = (Ret x, t) \<Longrightarrow>
     same_setup r0 t \<and> (\<forall>ci < nr_cis r0. \<forall>k. bit (en t ci) k \<longleftrightarrow> bit (en r ci) k \<and> P ci k)) \<Longrightarrow> narrows r0 P m"
  unfolding narrows_def by blast

lemma same_setup_wf: "same_setup r s \<Longrightarrow> rank_wf s"
  by (simp add: same_setup_def)

lemma narrows_FF:
  assumes "narrows r0 P m" and "\<And>x. narrows r0 Q (k x)"
  shows "narrows r0 (\<lambda>ci d. P ci d \<and> Q ci d) (FF m k)"
proof (rule narrowsI)
  fix r y t assume r: "same_setup r0 r" "rank_wf r" and run: "FF m k r = (Ret y, t)"
  then obtain x s where 1: "m r = (Ret x, s)" and 2: "k x s = (Ret y, t)" by (auto simp: FF_Ret_iff)
  from assms(1) r 1 have s: "same_setup r0 s" "\<forall>ci < nr_cis r0. \<forall>k. bit (en s ci) k \<longleftrightarrow> bit (en r ci) k \<and> P ci k"
    unfolding narrows_def by blast+
  from assms(2) [of x] s(1) same_setup_wf [OF s(1)] 2
  have "same_setup r0 t" "\<forall>ci < nr_cis r0. \<forall>k. bit (en t ci) k \<longleftrightarrow> bit (en s ci) k \<and> Q ci k"
    unfolding narrows_def by blast+
  with s(2) show "same_setup r0 t \<and> (\<forall>ci < nr_cis r0. \<forall>k. bit (en t ci) k \<longleftrightarrow> bit (en r ci) k \<and> P ci k \<and> Q ci k)"
    by auto
qed

lemma narrows_mono:
  "narrows r0 P m \<Longrightarrow> (\<And>ci d. ci < nr_cis r0 \<Longrightarrow> P ci d \<longleftrightarrow> Q ci d) \<Longrightarrow> narrows r0 Q m"
  by (simp add: narrows_def)

lemma narrows_cong:
  assumes "narrows r0 P m'" and "\<And>r. same_setup r0 r \<Longrightarrow> m r = m' r"
  shows "narrows r0 P m"
proof (rule narrowsI)
  fix r x t assume r: "same_setup r0 r" "rank_wf r" and "m r = (Ret x, t)"
  then have "m' r = (Ret x, t)" using assms(2) by simp
  with assms(1) r show "same_setup r0 t \<and> (\<forall>ci < nr_cis r0. \<forall>k. bit (en t ci) k \<longleftrightarrow> bit (en r ci) k \<and> P ci k)"
    unfolding narrows_def by blast
qed

lemma narrows_ok: "narrows r0 (\<lambda>_ _. True) (ok x)"
  by (simp add: narrows_def)

lemma narrows_mfor:
  assumes "\<And>i a. i \<in> set is \<Longrightarrow> narrows r0 (P i) (f i a)"
  shows "narrows r0 (\<lambda>ci d. \<forall>i \<in> set is. P i ci d) (mfor is f a)"
  using assms
proof (induction "is" arbitrary: a)
  case Nil
  show ?case using narrows_ok [of r0 a] by (simp only: mfor.simps list.set ball_simps)
next
  case (Cons i "is")
  have "narrows r0 (\<lambda>ci d. P i ci d \<and> (\<forall>i \<in> set is. P i ci d)) (FF (f i a) (mfor is f))"
    by (rule narrows_FF, rule Cons.prems, simp, rule Cons.IH, rule Cons.prems) simp
  then show ?case by (simp add: narrows_mono)
qed

lemma narrows_enabled:
  assumes "\<And>r. keeps (\<lambda>s. rank_wf s \<and> same_enabled r s) m"
  shows "narrows r0 (\<lambda>_ _. True) m"
proof (rule narrowsI)
  fix r x t assume r: "same_setup r0 r" "rank_wf r" and run: "m r = (Ret x, t)"
  from keeps_eqD [OF assms _ run, of r] r have t: "rank_wf t" "same_enabled r t" by auto
  then have "same_setup r0 t" using r(1) same_setup_enabled same_setup_trans by blast
  moreover have "en t ci = en r ci" if "ci < nr_cis r0" for ci
    using same_enabledD(1) [OF r(2) t(2), of ci] that r(1) rank_wfD(2) [OF r(2)] by (simp add: same_setup_def)
  ultimately show "same_setup r0 t \<and> (\<forall>ci < nr_cis r0. \<forall>k. bit (en t ci) k \<longleftrightarrow> bit (en r ci) k \<and> True)" by simp
qed

text \<open>A memory of a DPU can be repaired.\<close>

definition repairable :: "'w dpu_rank \<Rightarrow> (dpu \<Rightarrow> dpu_memory_repair) \<Rightarrow> nat \<Rightarrow> nat \<Rightarrow> bool" where
  "repairable r memory ci d \<longleftrightarrow> fst (extract_memory_repair_configuration (memory (dpu_get_unsafe r ci d)))"

lemma disable_facts:
  assumes "rank_wf r" "ci < 8" "\<And>d. dpu_key (mark d) = dpu_key d"
  shows "same_setup r (disable_dpu_of ci d mark r)"
    and "j < 8 \<Longrightarrow> en (disable_dpu_of ci d mark r) j = (if j = ci then en r j AND NOT (bit_of d) else en r j)"
proof -
  show "same_setup r (disable_dpu_of ci d mark r)" unfolding disable_dpu_of_def
    by (rule same_setup_upd_slice, rule same_setup_upd_dpu, rule same_setup_refl) (simp_all add: assms)
  show "j < 8 \<Longrightarrow> en (disable_dpu_of ci d mark r) j = (if j = ci then en r j AND NOT (bit_of d) else en r j)"
    using rank_wfD(4) [OF assms(1)] by (simp add: disable_dpu_of_def r_slice_upd_slice)
qed

lemma extract_loop:
  assumes r0: "rank_wf r0" "d < nr_dpus r0" and r: "same_setup r0 r"
    and mem: "\<And>ci x. ci < nr_cis r0 \<Longrightarrow> dpu_key x = dpu_key (dpu_get_unsafe r0 ci d) \<Longrightarrow>
      mem_key (memory x) = mem_key (memory (dpu_get_unsafe r0 ci d))"
    and mark: "\<And>x. dpu_key (mark x) = dpu_key x"
    and cis: "distinct cis" "\<forall>ci \<in> set cis. ci < nr_cis r0"
    and run: "fold (\<lambda>each_ci (configs, r).
         (case extract_memory_repair_configuration (memory (dpu_get_unsafe r each_ci d)) of
            (repaired, config) \<Rightarrow>
              (configs(each_ci := config), if repaired then r else disable_dpu_of each_ci d mark r))) cis (c0, r) = (c, t)"
  shows "same_setup r0 t \<and> (\<forall>ci < nr_cis r0. \<forall>k. bit (en t ci) k \<longleftrightarrow>
     bit (en r ci) k \<and> (ci \<in> set cis \<and> k = d \<longrightarrow> repairable r0 memory ci d))"
  using r cis run
proof (induction cis arbitrary: c0 r)
  case (Cons ci cis)
  note lt8 = rank_wfD(2) [OF r0(1)]
  have ci: "ci < nr_cis r0" "ci \<notin> set cis" using Cons.prems by auto
  obtain b cfg where e: "extract_memory_repair_configuration (memory (dpu_get_unsafe r ci d)) = (b, cfg)" by (rule prod.exhaust)
  have b: "b \<longleftrightarrow> repairable r0 memory ci d"
    using e extract_key [OF mem [OF ci(1) same_setup_dpu_key [OF Cons.prems(1) r0(1) ci(1) r0(2)]]]
    by (simp add: repairable_def)
  define r1 where "r1 = (if b then r else disable_dpu_of ci d mark r)"
  have wf: "rank_wf r" using Cons.prems(1) by (rule same_setup_wf)
  have s1: "same_setup r0 r1"
    using disable_facts(1) [OF wf _ mark, of ci d] ci lt8 Cons.prems(1) by (auto simp: r1_def intro: same_setup_trans)
  have bits: "bit (en r1 j) k \<longleftrightarrow> bit (en r j) k \<and> (j = ci \<and> k = d \<longrightarrow> b)" if "j < nr_cis r0" for j k
    using disable_facts(2) [OF wf _ mark, of ci j d] that ci lt8
    by (auto simp: r1_def bit_and_iff dest: bit_imp_le_length)
  have "same_setup r0 t \<and> (\<forall>ci < nr_cis r0. \<forall>k. bit (en t ci) k \<longleftrightarrow>
     bit (en r1 ci) k \<and> (ci \<in> set cis \<and> k = d \<longrightarrow> repairable r0 memory ci d))"
    using Cons.prems e s1 by (intro Cons.IH [of r1 "c0(ci := cfg)"]) (simp_all add: r1_def)
  with ci show ?case by (auto simp: bits b)
qed simp

lemma narrows_line:
  assumes "rank_wf r0" "d < nr_dpus r0"
    and "\<And>ci x. ci < nr_cis r0 \<Longrightarrow> dpu_key x = dpu_key (dpu_get_unsafe r0 ci d) \<Longrightarrow>
      mem_key (memory x) = mem_key (memory (dpu_get_unsafe r0 ci d))"
    and "\<And>x. dpu_key (mark x) = dpu_key x"
    and k: "\<And>c. narrows r0 (\<lambda>_ _. True) (k c)"
  shows "narrows r0 (\<lambda>ci j. j = d \<longrightarrow> repairable r0 memory ci d)
    (\<lambda>r. case extract_line memory mark d r of (c, r) \<Rightarrow> k c r)"
proof (rule narrowsI)
  fix r x t assume r: "same_setup r0 r" "rank_wf r"
    and run: "(case extract_line memory mark d r of (c, r) \<Rightarrow> k c r) = (Ret x, t)"
  obtain c s where line: "extract_line memory mark d r = (c, s)" by (rule prod.exhaust)
  have n: "nr_cis r = nr_cis r0" using r(1) by (simp add: same_setup_def)
  have s: "same_setup r0 s" "\<forall>ci < nr_cis r0. \<forall>k. bit (en s ci) k \<longleftrightarrow> bit (en r ci) k \<and> (k = d \<longrightarrow> repairable r0 memory ci d)"
    using extract_loop [OF assms(1,2) r(1) assms(3,4) _ _ line [unfolded extract_line_def]] by (auto simp: n)
  have "same_setup r0 t" "\<forall>ci < nr_cis r0. \<forall>k. bit (en t ci) k \<longleftrightarrow> bit (en s ci) k"
    using k [of c] run line s(1) same_setup_wf [OF s(1)] unfolding narrows_def by auto
  with s(2) show "same_setup r0 t \<and> (\<forall>ci < nr_cis r0. \<forall>k. bit (en t ci) k \<longleftrightarrow>
      bit (en r ci) k \<and> (k = d \<longrightarrow> repairable r0 memory ci d))" by auto
qed

lemma narrows_report: "narrows r0 (\<lambda>_ _. True) report_corrupted"
  by (rule narrowsI) (auto simp: report_corrupted_def split: if_splits)

lemma mem_keys: "dpu_key x = dpu_key y \<Longrightarrow> mem_key (iram_repair x) = mem_key (iram_repair y)"
  "dpu_key x = dpu_key y \<Longrightarrow> b < length (wram_repair y) \<Longrightarrow> mem_key (wram_repair x ! b) = mem_key (wram_repair y ! b)"
proof -
  assume eq: "dpu_key x = dpu_key y"
  then show "mem_key (iram_repair x) = mem_key (iram_repair y)" by (simp add: dpu_key_def)
  have "map mem_key (wram_repair x) = map mem_key (wram_repair y)" using eq by (simp add: dpu_key_def)
  then show "b < length (wram_repair y) \<Longrightarrow> mem_key (wram_repair x ! b) = mem_key (wram_repair y ! b)"
    by (metis length_map nth_map)
qed

lemma narrows_iram:
  assumes "rank_wf r0"
  shows "narrows r0 (\<lambda>ci d. do_iram_repair (r_configuration r0) \<longrightarrow> d < nr_dpus r0 \<longrightarrow> repairable r0 iram_repair ci d)
    dpu_iram_repair_config"
proof -
  have loop: "narrows r0 (\<lambda>ci j. (\<forall>d \<in> set [0..<nr_dpus r0]. j = d \<longrightarrow> repairable r0 iram_repair ci d) \<and> True)
      (FF (mfor [0..<nr_dpus r0] (\<lambda>each_dpu _ r. (case extract_line iram_repair fail_iram each_dpu r of
             (configs, r) \<Rightarrow> FF (ufi_select_dpu ALL_CIS each_dpu) (\<lambda>ci_mask. ufi_iram_repair_config ci_mask configs) r)) ())
        (\<lambda>_. report_corrupted))"
    by (intro narrows_FF narrows_report narrows_mfor narrows_line [OF assms] narrows_enabled
        keeps_FF enabled.keeps_select enabled.keeps_repair mem_keys(1)) simp_all
  have attempt: "narrows r0 (\<lambda>ci d. d < nr_dpus r0 \<longrightarrow> repairable r0 iram_repair ci d) try_to_repair_iram"
    by (rule narrows_mono, rule narrows_cong, rule loop) (auto simp: try_to_repair_iram_def same_setup_def simp del: upt_rec_numeral)
  have default: "narrows r0 (\<lambda>_ _. True) (FF (ufi_select_all ALL_CIS) (\<lambda>m. ufi_iram_repair_config m (\<lambda>_. default_config)))"
    by (intro narrows_enabled enabled.keeps_repair_default)
  show ?thesis
  proof (cases "do_iram_repair (r_configuration r0)")
    case True
    show ?thesis
      by (rule narrows_mono, rule narrows_cong, rule attempt)
         (use True in \<open>simp_all add: dpu_iram_repair_config_def same_setup_def\<close>)
  next
    case False
    show ?thesis
      by (rule narrows_mono, rule narrows_cong, rule default)
         (use False in \<open>simp_all add: dpu_iram_repair_config_def same_setup_def\<close>)
  qed
qed

text \<open>The array of WRAM banks of a DPU.\<close>

definition wram_wf :: "'w dpu_rank \<Rightarrow> bool" where
  "wram_wf r \<longleftrightarrow> (\<forall>d \<in> set (r_dpus r). length (wram_repair d) = NR_OF_WRAM_BANKS)"

lemma wram_wfD:
  assumes "wram_wf r" "rank_wf r" "ci < nr_cis r" "d < nr_dpus r"
  shows "length (wram_repair (dpu_get_unsafe r ci d)) = 4"
  using assms dpu_index_lt [OF assms(2-4)] by (auto simp: wram_wf_def dpu_get_unsafe_def)

lemma narrows_wram:
  assumes wf: "rank_wf r0" "wram_wf r0"
  shows "narrows r0 (\<lambda>ci d. do_wram_repair (r_configuration r0) \<longrightarrow> d < nr_dpus r0 \<longrightarrow>
      (\<forall>b < 4. repairable r0 (\<lambda>d. wram_repair d ! b) ci d)) dpu_wram_repair_config"
proof -
  have line: "narrows r0 (\<lambda>ci j. j = d \<longrightarrow> repairable r0 (\<lambda>d. wram_repair d ! b) ci d)
      (\<lambda>r. case extract_line (\<lambda>d. wram_repair d ! b) (fail_wram b) d r of (configs, r) \<Rightarrow>
        FF (ufi_select_dpu ALL_CIS d) (\<lambda>ci_mask. ufi_wram_repair_config ci_mask (of_nat b) configs) r)"
    if "b \<in> set [0..<4]" "d \<in> set [0..<nr_dpus r0]" for b d
    using that wf(2)
    by (intro narrows_line [OF wf(1)] narrows_enabled keeps_FF enabled.keeps_select enabled.keeps_repair)
       (auto intro!: mem_keys(2) simp: wram_wfD [OF wf(2,1)])
  have loop: "narrows r0 (\<lambda>ci j. (\<forall>d \<in> set [0..<nr_dpus r0]. \<forall>b \<in> set [0..<4]. j = d \<longrightarrow> repairable r0 (\<lambda>d. wram_repair d ! b) ci d) \<and> True)
      (FF (mfor [0..<nr_dpus r0] (\<lambda>each_dpu _. mfor [0..<4] (\<lambda>each_wram_bank _ r.
         (case extract_line (\<lambda>d. wram_repair d ! each_wram_bank) (fail_wram each_wram_bank) each_dpu r of
            (configs, r) \<Rightarrow> FF (ufi_select_dpu ALL_CIS each_dpu) (\<lambda>ci_mask.
               ufi_wram_repair_config ci_mask (of_nat each_wram_bank) configs) r)) ()) ())
        (\<lambda>_. report_corrupted))"
    by (intro narrows_FF narrows_report narrows_mfor line)
  have attempt: "narrows r0 (\<lambda>ci d. d < nr_dpus r0 \<longrightarrow> (\<forall>b < 4. repairable r0 (\<lambda>d. wram_repair d ! b) ci d)) try_to_repair_wram"
    by (rule narrows_mono, rule narrows_cong, rule loop) (auto simp: try_to_repair_wram_def same_setup_def simp del: upt_rec_numeral)
  have default: "narrows r0 (\<lambda>_ _. True) (FF (ufi_select_all ALL_CIS) (\<lambda>m.
      mfor banks (\<lambda>b _. ufi_wram_repair_config m (of_nat b) (\<lambda>_. default_config)) ()))" for banks
    by (intro narrows_enabled enabled.keeps_repair_default)
  show ?thesis
  proof (cases "do_wram_repair (r_configuration r0)")
    case True
    show ?thesis
      by (rule narrows_mono, rule narrows_cong, rule attempt)
         (use True in \<open>simp_all add: dpu_wram_repair_config_def same_setup_def\<close>)
  next
    case False
    show ?thesis
      by (rule narrows_mono, rule narrows_cong, rule default)
         (use False in \<open>simp_all add: dpu_wram_repair_config_def same_setup_def\<close>)
  qed
qed

section \<open>Writing the sets back\<close>

lemma dpu_index_inj:
  assumes "d < nr_dpus r" "d' < nr_dpus r"
  shows "dpu_index r c d = dpu_index r c' d' \<longleftrightarrow> c = c' \<and> d = d'"
proof
  assume eq: "dpu_index r c d = dpu_index r c' d'"
  have "(nr_dpus r * c + d) mod nr_dpus r = d" "(nr_dpus r * c' + d') mod nr_dpus r = d'"
    "(nr_dpus r * c + d) div nr_dpus r = c" "(nr_dpus r * c' + d') div nr_dpus r = c'"
    using assms by simp_all
  with eq show "c = c' \<and> d = d'" by (metis dpu_index_def)
qed simp

lemma dpu_get_upd_dpu:
  assumes "rank_wf r" "c < nr_cis r" "d < nr_dpus r" "d' < nr_dpus r"
  shows "dpu_get_unsafe (upd_dpu c d f r) c' d' = (if c' = c \<and> d' = d then f (dpu_get_unsafe r c' d') else dpu_get_unsafe r c' d')"
  using dpu_index_inj [OF assms(3,4), of c c'] dpu_index_lt [OF assms(1-3)]
  by (auto simp: dpu_get_unsafe_def upd_dpu_def dpu_index_def)

lemma dpu_get_fold_upd:
  assumes "rank_wf r" "c < nr_cis r" "d' < nr_dpus r" "distinct ds" "\<forall>d \<in> set ds. d < nr_dpus r"
  shows "dpu_get_unsafe (fold (\<lambda>d. upd_dpu c d (f d)) ds r) c' d'
    = (if c' = c \<and> d' \<in> set ds then f d' (dpu_get_unsafe r c' d') else dpu_get_unsafe r c' d')"
  using assms
proof (induction ds arbitrary: r)
  case (Cons d ds)
  then have "dpu_get_unsafe (fold (\<lambda>d. upd_dpu c d (f d)) ds (upd_dpu c d (f d) r)) c' d'
      = (if c' = c \<and> d' \<in> set ds then f d' (dpu_get_unsafe (upd_dpu c d (f d) r) c' d')
         else dpu_get_unsafe (upd_dpu c d (f d) r) c' d')"
    by (intro Cons.IH) (simp_all add: rank_wf_upd_dpu)
  with Cons.prems show ?case by (auto simp: dpu_get_upd_dpu)
qed simp

lemma fold_upd_dpu_count: "r_nr_dpus_enabled (fold (\<lambda>d. upd_dpu c d (f d)) ds r) = r_nr_dpus_enabled r"
  by (induction ds arbitrary: r) (simp_all add: upd_dpu_def)

lemma restore_ci_facts:
  assumes "rank_wf r" "c < nr_cis r"
  shows "rank_wf (restore_ci (A, E) c r)" "nr_cis (restore_ci (A, E) c r) = nr_cis r" "nr_dpus (restore_ci (A, E) c r) = nr_dpus r"
    and "j < 8 \<Longrightarrow> en (restore_ci (A, E) c r) j = (if j = c then E ! c else en r j)"
    and "j < 8 \<Longrightarrow> all_dpus_are_enabled (r_slice (restore_ci (A, E) c r) j) = (if j = c then A ! c else all_dpus_are_enabled (r_slice r j))"
    and "d < nr_dpus r \<Longrightarrow> dpu_enabled (dpu_get_unsafe (restore_ci (A, E) c r) j d)
      = (if j = c then bit (E ! c) d else dpu_enabled (dpu_get_unsafe r j d))"
    and "r_nr_dpus_enabled (restore_ci (A, E) c r) = r_nr_dpus_enabled r + popcount (E ! c)"
proof -
  define r1 where "r1 = upd_slice c (\<lambda>i. i\<lparr>all_dpus_are_enabled := A ! c, enabled_dpus := E ! c\<rparr>) r"
  define r2 where "r2 = r1\<lparr>r_nr_dpus_enabled := r_nr_dpus_enabled r1 + popcount (E ! c)\<rparr>"
  let ?f = "\<lambda>d x. x\<lparr>dpu_enabled := E ! c AND bit_of d \<noteq> 0\<rparr>"
  have run: "restore_ci (A, E) c r = fold (\<lambda>d. upd_dpu c d (?f d)) [0..<nr_dpus r] r2"
    by (simp add: restore_ci_def Let_def r1_def r2_def)
  have "rank_wf r1" using assms(1) by (simp add: r1_def rank_wf_upd_slice)
  then have wf2: "rank_wf r2" by (simp add: r2_def rank_wf_def)
  have n: "nr_cis r2 = nr_cis r" "nr_dpus r2 = nr_dpus r" "slice_info (r_ci r2) = slice_info (r_ci r1)"
    "r_nr_dpus_enabled r2 = r_nr_dpus_enabled r + popcount (E ! c)" "r_dpus r2 = r_dpus r"
    by (simp_all add: r2_def r1_def) (simp add: upd_slice_def)
  have "same_setup r2 (restore_ci (A, E) c r)"
    unfolding run by (rule same_setup_fold_upd_dpu [OF same_setup_refl [OF wf2]]) simp
  then show "rank_wf (restore_ci (A, E) c r)" "nr_cis (restore_ci (A, E) c r) = nr_cis r" "nr_dpus (restore_ci (A, E) c r) = nr_dpus r"
    by (simp_all add: same_setup_def n)
  have s: "slice_info (r_ci (restore_ci (A, E) c r)) = slice_info (r_ci r1)" unfolding run by (simp add: fold_upd_dpu_simps n)
  show "j < 8 \<Longrightarrow> en (restore_ci (A, E) c r) j = (if j = c then E ! c else en r j)"
    "j < 8 \<Longrightarrow> all_dpus_are_enabled (r_slice (restore_ci (A, E) c r) j) = (if j = c then A ! c else all_dpus_are_enabled (r_slice r j))"
    using rank_wfD(4) [OF assms(1)] by (simp_all add: s r1_def r_slice_upd_slice)
  show "dpu_enabled (dpu_get_unsafe (restore_ci (A, E) c r) j d)
      = (if j = c then bit (E ! c) d else dpu_enabled (dpu_get_unsafe r j d))" if d: "d < nr_dpus r"
  proof -
    have "dpu_get_unsafe r2 j d = dpu_get_unsafe r j d" by (simp add: dpu_get_unsafe_def dpu_index_def n)
    moreover have "dpu_get_unsafe (restore_ci (A, E) c r) j d
        = (if j = c \<and> d \<in> set [0..<nr_dpus r] then ?f d (dpu_get_unsafe r2 j d) else dpu_get_unsafe r2 j d)"
      unfolding run using wf2 assms(2) d by (intro dpu_get_fold_upd) (simp_all add: n)
    ultimately show ?thesis using d by (simp add: and_bit_of_eq_0_iff)
  qed
  show "r_nr_dpus_enabled (restore_ci (A, E) c r) = r_nr_dpus_enabled r + popcount (E ! c)"
    unfolding run by (simp add: fold_upd_dpu_count n)
qed

lemma restore_loop:
  assumes "rank_wf r" "distinct cis" "\<forall>c \<in> set cis. c < nr_cis r" and "t = fold (restore_ci (A, E)) cis r"
  shows "rank_wf t \<and> nr_cis t = nr_cis r \<and> nr_dpus t = nr_dpus r
    \<and> (\<forall>c < nr_cis r. c \<in> set cis \<longrightarrow> en t c = E ! c \<and> all_dpus_are_enabled (r_slice t c) = A ! c)
    \<and> (\<forall>c < nr_cis r. c \<notin> set cis \<longrightarrow> en t c = en r c \<and> all_dpus_are_enabled (r_slice t c) = all_dpus_are_enabled (r_slice r c))
    \<and> (\<forall>c d. d < nr_dpus r \<longrightarrow> dpu_enabled (dpu_get_unsafe t c d)
         = (if c \<in> set cis then bit (E ! c) d else dpu_enabled (dpu_get_unsafe r c d)))
    \<and> r_nr_dpus_enabled t = r_nr_dpus_enabled r + (\<Sum>c\<leftarrow>cis. popcount (E ! c))"
  using assms
proof (induction cis arbitrary: r)
  case (Cons c cis)
  define s where "s = restore_ci (A, E) c r"
  have c: "c < nr_cis r" "c \<notin> set cis" using Cons.prems by auto
  note f = restore_ci_facts [OF Cons.prems(1) c(1), where A = A and E = E, folded s_def]
  have lt: "c' < 8" if "c' < nr_cis r" for c' using that rank_wfD(2) [OF Cons.prems(1)] by simp
  have t: "t = fold (restore_ci (A, E)) cis s" using Cons.prems(4) by (simp add: s_def)
  from Cons.IH [OF f(1) _ _ t] Cons.prems(2,3) f(2)
  have IH: "rank_wf t" "nr_cis t = nr_cis r" "nr_dpus t = nr_dpus r"
    "\<forall>c < nr_cis r. c \<in> set cis \<longrightarrow> en t c = E ! c \<and> all_dpus_are_enabled (r_slice t c) = A ! c"
    "\<forall>c < nr_cis r. c \<notin> set cis \<longrightarrow> en t c = en s c \<and> all_dpus_are_enabled (r_slice t c) = all_dpus_are_enabled (r_slice s c)"
    "\<forall>c d. d < nr_dpus r \<longrightarrow> dpu_enabled (dpu_get_unsafe t c d) = (if c \<in> set cis then bit (E ! c) d else dpu_enabled (dpu_get_unsafe s c d))"
    "r_nr_dpus_enabled t = r_nr_dpus_enabled s + (\<Sum>c\<leftarrow>cis. popcount (E ! c))"
    by (simp_all add: f(3))
  then show ?case using c by (simp add: f(4-7) lt)
qed simp

section \<open>The reset\<close>

lemma save_run:
  assumes "save_enabled_dpus u (A, E) r = (Ret saves, s)" "rank_wf r" "length A = 8" "length E = 8"
  shows "same_setup r s" "length (fst saves) = 8" "length (snd saves) = 8"
    and "ci < nr_cis r \<Longrightarrow> snd saves ! ci = (if u then E ! ci AND en r ci else en r ci)"
    and "ci < nr_cis r \<Longrightarrow> en s ci = (if en r ci \<noteq> 0 then ucast (dpu_mask_all (nr_dpus r)) else 0)"
proof -
  obtain A' E' where S: "saves = (A', E')" by (rule prod.exhaust)
  have run: "fold (save_ci u) [0..<nr_cis r] ((A, E), r) = ((A', E'), s)"
    using assms(1) by (auto simp: save_enabled_dpus_def S split: prod.splits)
  have lt: "\<forall>ci \<in> set [0..<nr_cis r]. ci < 8" using rank_wfD(2) [OF assms(2)] by auto
  note loop = save_loop [OF assms(2) _ lt assms(3,4) run]
  then show "same_setup r s" "length (fst saves) = 8" "length (snd saves) = 8" by (simp_all add: S)
  show "ci < nr_cis r \<Longrightarrow> snd saves ! ci = (if u then E ! ci AND en r ci else en r ci)"
    "ci < nr_cis r \<Longrightarrow> en s ci = (if en r ci \<noteq> 0 then ucast (dpu_mask_all (nr_dpus r)) else 0)"
    using loop lt by (simp_all add: S)
qed

lemma keeps_enabled_run:
  assumes "\<And>r0. keeps (\<lambda>s. rank_wf s \<and> same_enabled r0 s) m" and "rank_wf r" and "m r = (Ret x, t)"
  shows "same_setup r t" and "ci < nr_cis r \<Longrightarrow> en t ci = en r ci"
proof -
  have t: "rank_wf t" "same_enabled r t" using keeps_eqD [OF assms(1) _ assms(3), of r] assms(2) by auto
  then show "same_setup r t" by (rule same_setup_enabled)
  show "ci < nr_cis r \<Longrightarrow> en t ci = en r ci"
    using same_enabledD(1) [OF assms(2) t(2)] rank_wfD(2) [OF assms(2)] by simp
qed

lemma init_groups_run:
  assumes "dpu_init_groups (A, E) r = (Ret (), t)" and "rank_wf r"
  shows "ci < nr_cis r \<Longrightarrow> en t ci = E ! ci"
    and "ci < nr_cis r \<Longrightarrow> d < nr_dpus r \<Longrightarrow> dpu_enabled (dpu_get_unsafe t ci d) = bit (E ! ci) d"
    and "r_nr_dpus_enabled t = (\<Sum>c < nr_cis r. popcount (E ! c))" and "rank_wf t"
    and "nr_cis t = nr_cis r" and "nr_dpus t = nr_dpus r"
proof -
  obtain m s1 s2 where 1: "mfor [0..<nr_cis r] (\<lambda>each_ci. init_ci_groups (A ! each_ci) (E ! each_ci) each_ci) 0 r = (Ret m, s1)"
    and 2: "(if m \<noteq> 0 then FF (ufi_select_all m) (\<lambda>ci_mask. ufi_write_group ci_mask DPU_ENABLED_GROUP) else ok ()) s1 = (Ret (), s2)"
    and t: "t = restore_enabled_dpus (A, E) s2"
    using assms(1) by (auto simp: dpu_init_groups_def FF_Ret_iff)
  have s1: "same_setup r s1" using keeps_enabled_run(1) [OF enabled.keeps_init_groups_part(1) assms(2) 1] .
  have s2: "same_setup s1 s2" using keeps_enabled_run(1) [OF enabled.keeps_init_groups_part(2) same_setup_wf [OF s1] 2] .
  define s3 where "s3 = s2\<lparr>r_nr_dpus_enabled := 0\<rparr>"
  have "rank_wf s3" using same_setup_wf [OF s2] by (simp add: s3_def rank_wf_def)
  then have s3: "rank_wf s3" "nr_cis s3 = nr_cis r" "nr_dpus s3 = nr_dpus r" "r_nr_dpus_enabled s3 = 0"
    using s1 s2 by (simp_all add: s3_def same_setup_def)
  have n2: "nr_cis s2 = nr_cis r" using s1 s2 by (simp add: same_setup_def)
  have "t = fold (restore_ci (A, E)) [0..<nr_cis r] s3" by (simp add: t restore_enabled_dpus_def s3_def n2)
  note loop = restore_loop [OF s3(1) _ _ this]
  then show "rank_wf t" "nr_cis t = nr_cis r" "nr_dpus t = nr_dpus r"
    "ci < nr_cis r \<Longrightarrow> en t ci = E ! ci"
    "ci < nr_cis r \<Longrightarrow> d < nr_dpus r \<Longrightarrow> dpu_enabled (dpu_get_unsafe t ci d) = bit (E ! ci) d"
    by (simp_all add: s3)
  have "r_nr_dpus_enabled t = (\<Sum>c\<leftarrow>[0..<nr_cis r]. popcount (E ! c))" using loop by (simp add: s3)
  then show "r_nr_dpus_enabled t = (\<Sum>c < nr_cis r. popcount (E ! c))"
    by (simp add: sum_list_sum_nth atLeast0LessThan)
qed

lemma bit_all_dpus: "n \<le> 8 \<Longrightarrow> k < n \<Longrightarrow> bit (ucast (dpu_mask_all n) :: u32) k"
  using dpu_mask_all_selected [of n k] by (simp add: is_selected_iff_bit bit_ucast_iff)

text \<open>
  C10: After a successful reset a DPU is enabled exactly when it was enabled before and its IRAM and
  its WRAM banks, where their repair is configured, can be repaired; the flags of the DPUs and
  their number agree with the sets of enabled DPUs of the CIs.
\<close>

theorem reset_rank_enabled:
  assumes wf: "rank_wf r" "wram_wf r" and run: "ci_reset_rank fuel program r = (Ret (), t)"
    and ci: "ci < nr_cis r" "d < nr_dpus r"
  shows "(bit (en t ci) d \<longleftrightarrow> bit (en r ci) d
      \<and> (do_iram_repair (r_configuration r) \<longrightarrow> repairable r iram_repair ci d)
      \<and> (do_wram_repair (r_configuration r) \<longrightarrow> (\<forall>b < 4. repairable r (\<lambda>d. wram_repair d ! b) ci d)))
    \<and> (dpu_enabled (dpu_get_unsafe t ci d) \<longleftrightarrow> bit (en t ci) d)
    \<and> r_nr_dpus_enabled t = (\<Sum>c < nr_cis r. popcount (en t c))"
proof -
  obtain dma wg where with_configs: "reset_with_configs fuel program dma wg r = (Ret (), t)"
    using run by (auto simp: ci_reset_rank_def split: option.splits prod.splits)
  obtain S0 S1 S2 x y r1 r2 r3 r4 r5 r6 r7 r8 r9 where
    1: "save_enabled_dpus False (replicate 8 False, replicate 8 0) r = (Ret S0, r1)"
    and 2: "reset_chips r1 = (Ret (), r2)" and 3: "dpu_iram_repair_config r2 = (Ret x, r3)"
    and 4: "save_enabled_dpus True S0 r3 = (Ret S1, r4)" and 5: "dpu_wram_repair_config r4 = (Ret y, r5)"
    and 6: "save_enabled_dpus True S1 r5 = (Ret S2, r6)" and 7: "reset_dpus fuel program dma wg r6 = (Ret (), r7)"
    and 8: "dpu_switch_mux_for_rank (api_must_switch_mram_mux (r_configuration r7)) r7 = (Ret (), r8)"
    and 9: "dpu_init_groups S2 r8 = (Ret (), r9)" and 10: "dpu_custom_for_rank DPU_COMMAND_SET_SLICE_INFO r9 = (Ret (), t)"
    using with_configs unfolding reset_with_configs_def FF_Ret_iff by auto
  note s1 = save_run [OF 1 wf(1)]
  have R1: "same_setup r r1" using s1(1) by simp
  note k2 = keeps_enabled_run [OF enabled.keeps_reset_chips same_setup_wf [OF R1] 2]
  have R2: "same_setup r r2" using R1 k2(1) by (rule same_setup_trans)
  have R3: "same_setup r r3" "bit (en r3 ci) d \<longleftrightarrow> bit (en r2 ci) d
      \<and> (do_iram_repair (r_configuration r) \<longrightarrow> repairable r iram_repair ci d)"
    using narrows_iram [OF wf(1)] R2 same_setup_wf [OF R2] 3 ci unfolding narrows_def by blast+
  obtain A0 E0 A1 E1 A2 E2 where S: "S0 = (A0, E0)" "S1 = (A1, E1)" "S2 = (A2, E2)" by (metis prod.exhaust)
  have len0: "length A0 = 8" "length E0 = 8" using s1(2,3) by (simp_all add: S)
  note s4 = save_run [OF 4 [unfolded S(1)] same_setup_wf [OF R3(1)] len0]
  have R4: "same_setup r r4" using R3(1) s4(1) by (rule same_setup_trans)
  have R5: "same_setup r r5" "bit (en r5 ci) d \<longleftrightarrow> bit (en r4 ci) d
      \<and> (do_wram_repair (r_configuration r) \<longrightarrow> (\<forall>b < 4. repairable r (\<lambda>d. wram_repair d ! b) ci d))"
    using narrows_wram [OF wf] R4 same_setup_wf [OF R4] 5 ci unfolding narrows_def by blast+
  have len1: "length A1 = 8" "length E1 = 8" using s4(2,3) by (simp_all add: S)
  note s6 = save_run [OF 6 [unfolded S(2)] same_setup_wf [OF R5(1)] len1]
  have R6: "same_setup r r6" using R5(1) s6(1) by (rule same_setup_trans)
  note k7 = keeps_enabled_run(1) [OF enabled.keeps_reset_dpus same_setup_wf [OF R6] 7]
  note k8 = keeps_enabled_run(1) [OF enabled.keeps_switch_rank same_setup_wf [OF k7] 8]
  have R8: "same_setup r r8" using same_setup_trans [OF R6 same_setup_trans [OF k7 k8]] .
  note i = init_groups_run [OF 9 [unfolded S(3)] same_setup_wf [OF R8]]
  note k10 = keeps_eqD [OF enabled.keeps_custom _ 10, of r9]
  have n: "nr_cis r1 = nr_cis r" "nr_dpus r1 = nr_dpus r" "nr_cis r3 = nr_cis r" "nr_dpus r3 = nr_dpus r" "nr_cis r5 = nr_cis r"
    "nr_cis r8 = nr_cis r" "nr_dpus r8 = nr_dpus r" "nr_cis r9 = nr_cis r"
    using R1 R3(1) R5(1) R8 i(5) by (simp_all add: same_setup_def)
  have t: "r_dpus t = r_dpus r9" "nr_dpus t = nr_dpus r9" "r_nr_dpus_enabled t = r_nr_dpus_enabled r9" "r_ci t = r_ci r9"
    using 10 by (auto simp: dpu_custom_for_rank_def split: prod.splits option.splits)
  have full: "bit (ucast (dpu_mask_all (nr_dpus r)) :: u32) d" using bit_all_dpus rank_wfD(3) [OF wf(1)] ci(2) by blast
  have E2: "E2 ! ci = (en r ci AND en r3 ci) AND en r5 ci"
    using s1(4) s4(4) s6(4) ci(1) by (simp add: S n)
  have "bit (en r2 ci) d \<longleftrightarrow> en r ci \<noteq> 0" using k2(2) [of ci] s1(5) [of ci] ci(1) full by (simp add: n)
  moreover have nz: "bit (en r3 ci) d \<longrightarrow> en r3 ci \<noteq> 0" "bit (en r ci) d \<longrightarrow> en r ci \<noteq> 0" by auto
  moreover have "bit (en r4 ci) d \<longleftrightarrow> en r3 ci \<noteq> 0" using s4(5) [of ci] ci(1) full by (simp add: n)
  ultimately have "bit (E2 ! ci) d \<longleftrightarrow> bit (en r ci) d
      \<and> (do_iram_repair (r_configuration r) \<longrightarrow> repairable r iram_repair ci d)
      \<and> (do_wram_repair (r_configuration r) \<longrightarrow> (\<forall>b < 4. repairable r (\<lambda>d. wram_repair d ! b) ci d))"
    unfolding E2 bit_and_iff using R3(2) R5(2) nz by blast
  moreover have "en t c = E2 ! c" if "c < nr_cis r" for c using i(1) that by (simp add: t n)
  moreover have "dpu_enabled (dpu_get_unsafe t ci d) = bit (E2 ! ci) d"
    using i(2) [of ci d] ci by (simp add: dpu_get_unsafe_def dpu_index_def t n)
  moreover have "r_nr_dpus_enabled t = (\<Sum>c < nr_cis r. popcount (E2 ! c))" using i(3) by (simp add: t n)
  ultimately show ?thesis using ci(1) by simp
qed

section \<open>Resets that fail\<close>

lemma enable_ci_form:
  fixes r :: "'w dpu_rank"
  shows "\<exists>ds. enable_ci ci r = (upd_slice ci (\<lambda>i. i\<lparr>all_dpus_are_enabled := True, enabled_dpus := ucast (dpu_mask_all (nr_dpus r))\<rparr>) r)\<lparr>r_dpus := ds\<rparr>"
proof -
  have "\<exists>ds'. fold (\<lambda>d. upd_dpu ci d (f d)) is r = r\<lparr>r_dpus := ds'\<rparr>" for f "is" and r :: "'w dpu_rank"
  proof (induction "is" arbitrary: r)
    case Nil
    show ?case by (rule exI [of _ "r_dpus r"]) simp
  next
    case (Cons i "is")
    obtain ds where "fold (\<lambda>d. upd_dpu ci d (f d)) is (upd_dpu ci i (f i) r) = (upd_dpu ci i (f i) r)\<lparr>r_dpus := ds\<rparr>"
      using Cons.IH by blast
    moreover have "(upd_dpu ci i (f i) r)\<lparr>r_dpus := ds\<rparr> = r\<lparr>r_dpus := ds\<rparr>" by (simp add: upd_dpu_def)
    ultimately have "fold (\<lambda>d. upd_dpu ci d (f d)) (i # is) r = r\<lparr>r_dpus := ds\<rparr>" by simp
    then show ?case by (rule exI)
  qed
  note form = this [of "\<lambda>_ d. d\<lparr>dpu_enabled := True\<rparr>"]
  show ?thesis unfolding enable_ci_def by (rule form)
qed

lemma save_frame:
  assumes "fold (save_ci u) cis (S, r) = (S', t)" "rank_wf r" "\<forall>ci \<in> set cis. ci < 8"
  shows "r_type t = r_type r \<and> (\<forall>j < 8. byte_order (r_slice t j) = byte_order (r_slice r j))"
  using assms
proof (induction cis arbitrary: S r)
  case (Cons c cis)
  have c: "c < 8" using Cons.prems(3) by simp
  obtain S1 r1 where step: "save_ci u c (S, r) = (S1, r1)" by (rule prod.exhaust)
  then have r1: "r1 = r \<or> r1 = enable_ci c r" by (auto simp: save_ci_def Let_def split: prod.splits if_splits)
  obtain ds where "enable_ci c r = (upd_slice c (\<lambda>i. i\<lparr>all_dpus_are_enabled := True,
      enabled_dpus := ucast (dpu_mask_all (nr_dpus r))\<rparr>) r)\<lparr>r_dpus := ds\<rparr>" using enable_ci_form [of c r] by blast
  then have "r_type (enable_ci c r) = r_type r" by (simp add: upd_slice_def)
  moreover have "byte_order (r_slice (enable_ci c r) j) = byte_order (r_slice r j)" if "j < 8" for j
    using enable_ci_facts(2) [OF Cons.prems(2) c that] by simp
  moreover have "rank_wf r1" using r1 Cons.prems(2) enable_ci_facts(1) [OF Cons.prems(2) c] same_setup_wf by blast
  moreover have "fold (save_ci u) cis (S1, r1) = (S', t)" using Cons.prems(1) step by simp
  ultimately show ?case using Cons.IH [of S1 r1] Cons.prems(3) r1 by auto
qed simp

lemma load_byte_orders_data:
  assumes "rank_wf r" "ci < nr_cis r"
  shows "r_data (load_byte_orders r) ! ci = byte_order (r_slice r ci)"
  using assms rank_wfD(2,6) [OF assms(1)] nth_fold_update [of ci "r_data r" "\<lambda>ci. byte_order (r_slice r ci)" "[0..<nr_cis r]"]
  by (simp add: load_byte_orders_def)

text \<open>
  C36: A reset that finds an incompatible byte order on a well-formed rank of real chips, with a clock of 225 to
  4000 MHz and at least three units of fuel for the timing configuration before, fails with
  \<open>DPU_ERR_DRIVER\<close> and does not write the saved sets of enabled DPUs back: every CI that had an enabled DPU
  is left with all of its DPUs enabled, the disabled ones too.
\<close>

theorem reset_rank_byte_order_error:
  assumes wf: "rank_wf r" and hw: "r_type r = HW" "225 \<le> unat (fck_frequency_in_mhz (r_hw r))"
    "unat (fck_frequency_in_mhz (r_hw r)) \<le> 4000" "3 \<le> fuel"
    and bad: "ci < nr_cis r" "\<not> byte_order_values_are_compatible (byte_order (r_slice r ci)) EXPECTED_BYTE_ORDER_RESULT_AFTER_CONFIGURATION"
  shows "\<exists>t. ci_reset_rank fuel program r = (Fail DPU_ERR_DRIVER, t)
    \<and> list_all (\<lambda>j. en r j = 0 \<or> en t j = ucast (dpu_mask_all (nr_dpus r))) [0..<nr_cis r]"
proof -
  obtain dma wg where configs: "fetch_dma_and_wavegen_configs fuel (fck_frequency_in_mhz (r_hw r)) (clock_division (r_hw r))
      REFRESH_MODE_VALUE (\<not> ila_control_refresh (r_configuration r)) = Some (dma, wg)"
    using timing_configuration [of "fck_frequency_in_mhz (r_hw r)" fuel "clock_division (r_hw r)" "\<not> ila_control_refresh (r_configuration r)"]
      hw by (auto simp: REFRESH_MODE_VALUE_def)
  obtain S s where fold: "fold (save_ci False) [0..<nr_cis r] ((replicate 8 False, replicate 8 0), r) = (S, s)" by (rule prod.exhaust)
  then have save: "save_enabled_dpus False (replicate 8 False, replicate 8 0) r = (Ret S, s)" by (simp add: save_enabled_dpus_def)
  note run = save_run [OF save wf]
  have shape: "same_setup r s" using run(1) by simp
  then have s: "rank_wf s" "nr_cis s = nr_cis r" by (simp_all add: same_setup_def)
  have "\<forall>j \<in> set [0..<nr_cis r]. j < 8" using rank_wfD(2) [OF wf] by auto
  from save_frame [OF fold wf this] have frame: "r_type s = HW" "\<forall>j < 8. byte_order (r_slice s j) = byte_order (r_slice r j)"
    using hw(1) by simp_all
  have lt: "ci < 8" using bad(1) rank_wfD(2) [OF wf] by simp
  have "r_data (load_byte_orders s) ! ci = byte_order (r_slice r ci)"
    using load_byte_orders_data [OF s(1)] bad(1) s(2) frame(2) lt by simp
  moreover have "ci \<in> set (ci_list (load_byte_orders s) ALL_CIS)"
    using bad(1) lt s(2) bit_ALL_CIS [of ci] by (simp add: ci_list_def CI_MASK_ON_bit load_byte_orders_def)
  ultimately have "dpu_byte_order s = (Fail DPU_ERR_DRIVER, load_byte_orders s)"
    using bad(2) frame(1) by (auto simp: dpu_byte_order_def check_byte_order_def FF_def list_all_iff intro!: bexI [of _ ci])
  with save have "reset_with_configs fuel program d w r = (Fail DPU_ERR_DRIVER, load_byte_orders s)" for d w
    by (simp add: reset_with_configs_def reset_chips_def FF_def)
  with configs have fail: "ci_reset_rank fuel program r = (Fail DPU_ERR_DRIVER, load_byte_orders s)"
    by (simp add: ci_reset_rank_def)
  have "\<forall>j < nr_cis r. en r j = 0 \<or> en (load_byte_orders s) j = ucast (dpu_mask_all (nr_dpus r))"
    using run(5) by (simp add: load_byte_orders_def)
  then show ?thesis using fail by (simp add: list_all_iff)
qed

section \<open>Resets, however they end\<close>

lemma shapeI:
  assumes "\<And>r0. keeps (\<lambda>s. rank_wf s \<and> same_enabled r0 s) m" shows "keeps (same_setup r) m"
proof (rule keepsI)
  fix s assume s: "same_setup r s"
  obtain x t where run: "m s = (x, t)" by (rule prod.exhaust)
  have t: "rank_wf t" "same_enabled s t" using keeps_eqD [OF assms _ run, of s] same_setup_wf [OF s] by auto
  then have "same_setup s t" by (rule same_setup_enabled)
  with s run show "same_setup r (snd (m s))" by (auto intro: same_setup_trans)
qed

lemma shape_save: "keeps (same_setup r) (save_enabled_dpus u saves)"
proof (rule keepsI)
  fix s assume s: "same_setup r s"
  have "same_setup r (snd (fold (save_ci u) [0..<nr_cis s] (saves, s)))"
  proof (rule fold_invariant_snd [where I = "same_setup r", OF s])
    fix c S q assume "c \<in> set [0..<nr_cis s]" and q: "same_setup r q"
    then have "c < 8" using rank_wfD(2) [OF same_setup_wf [OF s]] by simp
    then have "same_setup r (enable_ci c q)"
      using q enable_ci_facts(1) [OF same_setup_wf [OF q]] same_setup_trans by blast
    with q show "same_setup r (snd (save_ci u c (S, q)))" by (simp add: save_ci_def Let_def split: prod.split)
  qed
  then show "same_setup r (snd (save_enabled_dpus u saves s))" by (auto simp: save_enabled_dpus_def split: prod.split)
qed

lemma shape_line:
  assumes mark: "\<And>x. dpu_key (mark x) = dpu_key x" and k: "\<And>c. keeps (same_setup r) (k c)"
  shows "keeps (same_setup r) (\<lambda>s. case extract_line memory mark d s of (c, t) \<Rightarrow> k c t)"
proof (rule keepsI)
  fix s assume s: "same_setup r s"
  have "same_setup r (snd (extract_line memory mark d s))"
    unfolding extract_line_def
  proof (rule fold_invariant_snd [where I = "same_setup r", OF s])
    fix c configs q assume "c \<in> set [0..<nr_cis s]" and q: "same_setup r q"
    then have "c < 8" using rank_wfD(2) [OF same_setup_wf [OF s]] by simp
    then have "same_setup r (disable_dpu_of c d mark q)"
      using q disable_facts(1) [OF same_setup_wf [OF q] _ mark] same_setup_trans by blast
    with q show "same_setup r (snd (case (configs, q) of (configs, r) \<Rightarrow>
        case extract_memory_repair_configuration (memory (dpu_get_unsafe r c d)) of
          (repaired, config) \<Rightarrow> (configs(c := config), if repaired then r else disable_dpu_of c d mark r)))"
      by (simp split: prod.split)
  qed
  then show "same_setup r (snd (case extract_line memory mark d s of (c, t) \<Rightarrow> k c t))"
    using k by (auto simp: keeps_def split: prod.split)
qed

lemma shape_repair: "keeps (same_setup r) dpu_iram_repair_config" "keeps (same_setup r) dpu_wram_repair_config"
proof -
  have report: "keeps (same_setup r) report_corrupted" by (rule keepsI) (simp add: report_corrupted_def)
  have "keeps (same_setup r) (FF (mfor ds (\<lambda>each_dpu _ r. (case extract_line iram_repair fail_iram each_dpu r of
             (configs, r) \<Rightarrow> FF (ufi_select_dpu ALL_CIS each_dpu) (\<lambda>ci_mask. ufi_iram_repair_config ci_mask configs) r)) ())
        (\<lambda>_. report_corrupted))" for ds
    by (intro keeps_FF report keeps_mfor shape_line shapeI enabled.keeps_select enabled.keeps_repair) simp
  then have iram: "keeps (same_setup r) try_to_repair_iram" unfolding try_to_repair_iram_def by (simp add: keeps_def)
  have "keeps (same_setup r) (FF (mfor ds (\<lambda>each_dpu _.
          mfor [0..<NR_OF_WRAM_BANKS] (\<lambda>each_wram_bank _ r.
            (case extract_line (\<lambda>d. wram_repair d ! each_wram_bank) (fail_wram each_wram_bank) each_dpu r of
               (configs, r) \<Rightarrow> FF (ufi_select_dpu ALL_CIS each_dpu) (\<lambda>ci_mask.
                 ufi_wram_repair_config ci_mask (of_nat each_wram_bank) configs) r)) ()) ())
        (\<lambda>_. report_corrupted))" for ds
    by (intro keeps_FF report keeps_mfor shape_line shapeI enabled.keeps_select enabled.keeps_repair) simp
  then have wram: "keeps (same_setup r) try_to_repair_wram" unfolding try_to_repair_wram_def by (simp add: keeps_def)
  show "keeps (same_setup r) dpu_iram_repair_config" "keeps (same_setup r) dpu_wram_repair_config"
    unfolding dpu_iram_repair_config_def dpu_wram_repair_config_def
    by (intro keeps_if_state iram wram shapeI enabled.keeps_repair_default)+
qed

lemma shape_restore: "same_setup r s \<Longrightarrow> same_setup r (restore_enabled_dpus saves s)"
proof -
  have count: "same_setup r (q\<lparr>r_nr_dpus_enabled := n\<rparr>)" if "same_setup r q" for q n
    using that by (auto simp: same_setup_def rank_wf_def)
  have ci: "same_setup r (restore_ci saves c q)" if "same_setup r q" for c q
  proof -
    obtain A E where saves: "saves = (A, E)" by (rule prod.exhaust)
    show ?thesis unfolding saves restore_ci_def prod.case Let_def
      by (rule same_setup_fold_upd_dpu, rule count, rule same_setup_upd_slice, rule that) simp_all
  qed
  show "same_setup r s \<Longrightarrow> same_setup r (restore_enabled_dpus saves s)"
    unfolding restore_enabled_dpus_def by (rule fold_invariant) (simp_all add: count ci)
qed

lemma shape_reset: "keeps (same_setup r) (ci_reset_rank fuel program)"
proof -
  have groups: "keeps (same_setup r) (FF (mfor cis (\<lambda>each_ci. init_ci_groups (fst s ! each_ci) (snd s ! each_ci) each_ci) 0)
      (\<lambda>m. FF (if m \<noteq> 0 then FF (ufi_select_all m) (\<lambda>ci_mask. ufi_write_group ci_mask DPU_ENABLED_GROUP) else ok ())
      (\<lambda>_. modify (restore_enabled_dpus s))))" for cis s
    by (intro keeps_FF keeps_modify shape_restore shapeI enabled.keeps_init_groups_part)
  then have groups: "keeps (same_setup r) (dpu_init_groups s)" for s unfolding dpu_init_groups_def by (simp add: keeps_def)
  have "keeps (same_setup r) (FF (dpu_switch_mux_for_rank b) (\<lambda>_. FF (dpu_init_groups s) (\<lambda>_.
      dpu_custom_for_rank DPU_COMMAND_SET_SLICE_INFO)))" for b s
    by (intro keeps_FF groups shapeI enabled.keeps_switch_rank enabled.keeps_custom)
  then have rest: "keeps (same_setup r) (\<lambda>t. FF (dpu_switch_mux_for_rank (api_must_switch_mram_mux (r_configuration t)))
      (\<lambda>_. FF (dpu_init_groups s) (\<lambda>_. dpu_custom_for_rank DPU_COMMAND_SET_SLICE_INFO)) t)" for s
    by (simp add: keeps_def)
  have "keeps (same_setup r) (reset_with_configs fuel program d w)" for d w
    unfolding reset_with_configs_def
    by (intro keeps_FF rest shape_save shape_repair shapeI enabled.keeps_reset_chips enabled.keeps_reset_dpus)
  then show ?thesis unfolding ci_reset_rank_def by (auto simp: keeps_def split: option.split prod.split)
qed

text \<open>
  However a reset ends, with success, an error, an undefined behaviour or no fuel left, it leaves a
  well-formed rank with the same numbers of CIs and DPUs, the same configuration and the same
  corrupted addresses in every memory of every DPU.
\<close>

theorem reset_rank_type:
  assumes "rank_wf r" and "ci_reset_rank fuel program r = (out, t)"
  shows "rank_wf t \<and> nr_cis t = nr_cis r \<and> nr_dpus t = nr_dpus r \<and> r_configuration t = r_configuration r
    \<and> map dpu_key (r_dpus t) = map dpu_key (r_dpus r)"
  using keeps_eqD [OF shape_reset _ assms(2), of r] same_setup_refl [OF assms(1)] by (simp add: same_setup_def)

text \<open>A rank whose first CI has one DPU enabled and a byte order that no configuration gives.\<close>

definition bad_order_rank :: "u64 list dpu_rank" where
  "bad_order_rank = upd_slice 0 (\<lambda>i. i\<lparr>byte_order := 0, enabled_dpus := 1, all_dpus_are_enabled := False\<rparr>) (sample_rank [])"

lemma bad_order_rank_wf: "rank_wf bad_order_rank"
  unfolding bad_order_rank_def by (rule rank_wf_upd_slice [OF sample_rank_wf]) simp

theorem reset_rank_byte_order_error_witness:
  "\<exists>t. ci_reset_rank 3 None bad_order_rank = (Fail DPU_ERR_DRIVER, t) \<and> en bad_order_rank 0 = 1 \<and> en t 0 = 0xFF"
proof -
  have r: "r_type bad_order_rank = HW" "fck_frequency_in_mhz (r_hw bad_order_rank) = 350" "nr_cis bad_order_rank = 2"
    "nr_dpus bad_order_rank = 8" "en bad_order_rank 0 = 1" "byte_order (r_slice bad_order_rank 0) = 0"
    by (simp_all add: bad_order_rank_def r_slice_upd_slice upd_slice_def sample_rank_def sample_hw_def)
  have "\<not> byte_order_values_are_compatible 0 EXPECTED_BYTE_ORDER_RESULT_AFTER_CONFIGURATION" by code_simp
  then obtain t where "ci_reset_rank 3 None bad_order_rank = (Fail DPU_ERR_DRIVER, t)"
    "list_all (\<lambda>j. en bad_order_rank j = 0 \<or> en t j = ucast (dpu_mask_all (nr_dpus bad_order_rank))) [0..<nr_cis bad_order_rank]"
    using reset_rank_byte_order_error [OF bad_order_rank_wf, of 3 0 None] r by auto
  moreover have "(ucast (dpu_mask_all 8) :: u32) = 0xFF" by code_simp
  ultimately show ?thesis using r by (fastforce simp: list_all_iff dest: bspec [of _ _ 0])
qed

theorem reset_rank_type_witness:
  "rank_wf (snd (ci_reset_rank 3 None bad_order_rank)) \<and> nr_cis (snd (ci_reset_rank 3 None bad_order_rank)) = 2"
proof -
  obtain out t where run: "ci_reset_rank 3 None bad_order_rank = (out, t)" by (rule prod.exhaust)
  have "nr_cis bad_order_rank = 2" by (simp add: bad_order_rank_def upd_slice_def sample_rank_def sample_hw_def)
  with reset_rank_type [OF bad_order_rank_wf run] run show ?thesis by simp
qed

end
