(* ===== verification/Reset_Live.thy ===== *)
theory Reset_Live
  imports Reset_Spec Mux_Spec
begin

text \<open>
  The reset succeeds on a rank that answers. \<open>answering_backend\<close> extends the contract of a responsive
  backend by the answers themselves: a CI latches the reply to its last command and shows it at every
  poll. Under it the reset needs only the replies that the code checks.
\<close>

section \<open>Calls that end in DPU_OK, with their results\<close>

definition yields :: "('s \<Rightarrow> bool) \<Rightarrow> ('s, 'a) op \<Rightarrow> ('a \<Rightarrow> 's \<Rightarrow> bool) \<Rightarrow> bool" where
  "yields P m Q \<longleftrightarrow> (\<forall>s. P s \<longrightarrow> (\<exists>x t. m s = (Ret x, t) \<and> Q x t))"

lemma yieldsI: "(\<And>s. P s \<Longrightarrow> \<exists>x t. m s = (Ret x, t) \<and> Q x t) \<Longrightarrow> yields P m Q"
  by (simp add: yields_def)

lemma yieldsE:
  assumes "yields P m Q" and "P s"
  obtains x t where "m s = (Ret x, t)" and "Q x t"
  using assms by (auto simp: yields_def)

lemma yields_FF:
  assumes "yields P m Q" and "\<And>x. yields (Q x) (k x) R"
  shows "yields P (FF m k) R"
proof (rule yieldsI)
  fix s assume "P s"
  with assms(1) obtain x t where "m s = (Ret x, t)" "Q x t" by (rule yieldsE)
  moreover from assms(2) this(2) obtain y u where "k x t = (Ret y, u)" "R y u" by (rule yieldsE)
  ultimately show "\<exists>y u. FF m k s = (Ret y, u) \<and> R y u" by (simp add: FF_def)
qed

lemma yields_post: "yields P m Q \<Longrightarrow> (\<And>x t. Q x t \<Longrightarrow> R x t) \<Longrightarrow> yields P m R"
  unfolding yields_def by blast

lemma yields_pre: "yields P m Q \<Longrightarrow> (\<And>s. P' s \<Longrightarrow> P s) \<Longrightarrow> yields P' m Q"
  unfolding yields_def by blast

lemma yields_ok: "(\<And>s. P s \<Longrightarrow> Q x s) \<Longrightarrow> yields P (ok x) Q"
  by (simp add: yields_def)

lemma yields_modify: "(\<And>s. P s \<Longrightarrow> Q () (f s)) \<Longrightarrow> yields P (modify f) Q"
  by (simp add: yields_def)

lemma yields_succeeds: "succeeds P m \<longleftrightarrow> yields P m (\<lambda>_. P)"
  by (simp add: succeeds_def yields_def)

lemma yields_of_succeeds: "succeeds P m \<Longrightarrow> yields P m (\<lambda>_. P)"
  by (simp add: yields_succeeds)

text \<open>An operation that depends on the state at its start.\<close>

lemma yields_state: "(\<And>s. P s \<Longrightarrow> yields (\<lambda>t. t = s) (f s) Q) \<Longrightarrow> yields P (\<lambda>s. f s s) Q"
  by (simp add: yields_def)

lemma yields_at: "yields P m Q \<Longrightarrow> P s \<Longrightarrow> yields (\<lambda>t. t = s) m Q"
  by (simp add: yields_def)

lemma yields_mfor:
  assumes "\<And>i a. i \<in> set is \<Longrightarrow> yields (\<lambda>s. P s \<and> Q a) (f i a) (\<lambda>b s. P s \<and> Q b)" and "Q a"
  shows "yields P (mfor is f a) (\<lambda>b s. P s \<and> Q b)"
  using assms
proof (induction "is" arbitrary: a)
  case (Cons i "is")
  have step: "yields P (f i a) (\<lambda>b s. P s \<and> Q b)"
    using Cons.prems by (intro yields_pre [OF Cons.prems(1)]) simp_all
  show ?case unfolding mfor.simps
  proof (rule yields_FF [OF step])
    fix b
    show "yields (\<lambda>s. P s \<and> Q b) (mfor is f b) (\<lambda>b s. P s \<and> Q b)"
    proof (rule yieldsI)
      fix s assume s: "P s \<and> Q b"
      have "yields P (mfor is f b) (\<lambda>b s. P s \<and> Q b)" using Cons s by simp
      with s show "\<exists>x t. mfor is f b s = (Ret x, t) \<and> P t \<and> Q x" by (auto elim: yieldsE)
    qed
  qed
qed (simp add: yields_def)

lemma yields_keeps:
  assumes "yields P m Q" and "keeps I m"
  shows "yields (\<lambda>s. P s \<and> I s) m (\<lambda>x t. Q x t \<and> I t)"
proof (rule yieldsI)
  fix s assume s: "P s \<and> I s"
  with assms(1) obtain x t where "m s = (Ret x, t)" "Q x t" by (auto elim: yieldsE)
  moreover from assms(2) s this(1) have "I t" by (auto dest: keeps_eqD)
  ultimately show "\<exists>x t. m s = (Ret x, t) \<and> Q x t \<and> I t" by blast
qed

section \<open>Ranks that are reset\<close>

text \<open>Every CI has its DPUs enabled, as \<open>save_enabled_dpus\<close> leaves them.\<close>

definition full_rank :: "dpu_configuration \<Rightarrow> dpu_hw_description \<Rightarrow> dpu_run_context \<Rightarrow> 'w dpu_rank \<Rightarrow> bool" where
  "full_rank conf hw rc r \<longleftrightarrow> rank_wf r \<and> r_configuration r = conf \<and> r_hw r = hw \<and> r_run_context r = rc
     \<and> (\<forall>ci < 8. ci < nr_of_control_interfaces hw \<longrightarrow> en r ci \<noteq> 0 \<and> all_dpus_are_enabled (r_slice r ci))"

lemma full_upd_slice:
  assumes "full_rank conf hw rc r" and "\<And>i. enabled_slice (f i) = enabled_slice i" and "rank_wf (upd_slice ci f r)" and "ci < 8"
  shows "full_rank conf hw rc (upd_slice ci f r)"
proof -
  have "length (slice_info (r_ci r)) = 8" using assms(1) by (simp add: full_rank_def rank_wfD)
  moreover have "enabled_dpus (f i) = enabled_dpus i" "all_dpus_are_enabled (f i) = all_dpus_are_enabled i" for i
    using assms(2) [of i] by (simp_all add: enabled_slice_def)
  ultimately show ?thesis using assms(1,3,4) by (simp add: full_rank_def r_slice_upd_slice)
qed

lemma full_rank_cong:
  "full_rank conf hw rc r \<Longrightarrow> rank_wf t \<Longrightarrow> r_configuration t = r_configuration r \<Longrightarrow> r_hw t = r_hw r \<Longrightarrow>
    r_run_context t = r_run_context r \<Longrightarrow> slice_info (r_ci t) = slice_info (r_ci r) \<Longrightarrow> full_rank conf hw rc t"
  by (simp add: full_rank_def)

lemma full_wf: "full_rank conf hw rc r \<Longrightarrow> rank_wf r"
  by (simp add: full_rank_def)

interpretation full: ufi_group_frame "full_rank conf hw rc" for conf hw rc
  by (unfold_locales, simp_all add: full_upd_slice full_wf set_structure_def rank_wf_upd_slice wf.I_target wf.I_move wf.I_reset)
     (frule full_wf, erule full_rank_cong, simp_all add: rank_wf_ctx wf.I_update wf.I_commit wf.I_data wf.I_ring wf.I_cmds)+

definition all_selected :: "'w dpu_rank \<Rightarrow> bool" where
  "all_selected r \<longleftrightarrow> (\<forall>ci < 8. ci < nr_cis r \<longrightarrow> target_type (slice_target (r_slice r ci)) = DPU_SLICE_TARGET_ALL)"

lemma all_selected_cong:
  "all_selected r \<Longrightarrow> r_hw t = r_hw r \<Longrightarrow> slice_info (r_ci t) = slice_info (r_ci r) \<Longrightarrow> all_selected t"
  by (simp add: all_selected_def)

lemma all_selected_structure:
  assumes "all_selected r" "rank_wf r" "ci < 8"
  shows "all_selected (set_structure ci s r)"
proof -
  have "r_slice (set_structure ci s r) j = (if j = ci then (r_slice r j)\<lparr>structure_value := s\<rparr> else r_slice r j)" if "j < 8" for j
    using that assms(3) rank_wfD(4) [OF assms(2)] by (simp add: set_structure_def r_slice_upd_slice)
  with assms(1) show ?thesis by (auto simp: all_selected_def) (simp_all add: set_structure_def)
qed

interpretation selected: ufi_frame "\<lambda>r. full_rank conf hw rc r \<and> all_selected r" for conf hw rc
  by (unfold_locales; clarify; (intro conjI)?;
      (rule full_wf full.I_update full.I_commit full.I_data full.I_ring full.I_faults full.I_color full.I_cmds full.I_structure
         all_selected_structure | erule all_selected_cong)?)
     (auto intro: full_wf full.I_update full.I_commit full.I_data full.I_ring full.I_faults full.I_color full.I_cmds full.I_structure)

section \<open>Collected results\<close>

lemma fold_update_if:
  "length (fold (\<lambda>i res. if P i then res[i := f i] else res) is res) = length res
    \<and> (\<forall>i < length res. fold (\<lambda>i res. if P i then res[i := f i] else res) is res ! i
         = (if i \<in> set is \<and> P i then f i else res ! i))"
proof (induction "is" arbitrary: res)
  case (Cons k "is")
  have "(if P k then res[k := f k] else res) ! i = (if i = k \<and> P i then f i else res ! i)" if "i < length res" for i
    using that by (cases "i = k") simp_all
  with Cons.IH [of "if P k then res[k := f k] else res"] show ?case by (auto split: if_splits)
qed simp

lemma nth_collect_results:
  "i < length res \<Longrightarrow> collect_results c res r ! i
    = (if i < nr_cis r \<and> c ! i \<noteq> CI_EMPTY then ucast (r_data r ! i) else res ! i)"
  and length_collect_results: "length (collect_results c res r) = length res"
  unfolding collect_results_def by (simp_all add: fold_update_if)

section \<open>Masks of a command for all DPUs\<close>

definition mark_all :: "u64 \<Rightarrow> u64 \<Rightarrow> nat \<Rightarrow> masks \<Rightarrow> masks" where
  "mark_all x y each_ci m = add_expected each_ci y (add_result_mask each_ci x (mark_sent each_ci m))"

lemma mfor_at:
  "(\<And>i a. i \<in> set is \<Longrightarrow> f i a s = (Ret (g i a), s)) \<Longrightarrow> mfor is f a s = (Ret (fold g is a), s)"
  by (induction "is" arbitrary: a) (simp_all add: FF_def)

lemma compute_masks_all:
  assumes "rank_wf r" "all_selected r" "\<forall>ci < nr_cis r. c ! ci \<noteq> CI_EMPTY"
  shows "compute_masks c True r = (Ret (fold (mark_all (bit_of (nr_dpus r) - 1) (ucast (bit_of (nr_dpus r) - 1 :: u8))) [0..<nr_cis r] no_masks), r)"
  unfolding compute_masks_def
proof (rule mfor_at)
  fix ci m assume "ci \<in> set [0..<nr_cis r]"
  then have ci: "ci < nr_cis r" "ci < 8" using rank_wfD(2) [OF assms(1)] by auto
  then have "ci_fill_selected_dpu_mask ci r = (Ret (bit_of (nr_dpus r) - 1), r)"
    using assms(2) by (simp add: ci_fill_selected_dpu_mask_def Let_def all_selected_def)
  then show "(if c ! ci \<noteq> CI_EMPTY then let m1 = mark_sent ci m in if True then FF (ci_fill_selected_dpu_mask ci) (\<lambda>dpu_mask.
              ok (add_expected ci (ucast dpu_mask) (add_result_mask ci (bit_of (nr_dpus r) - 1) m1))) else ok m1
       else ok (mark_idle ci m)) r
     = (Ret (mark_all (bit_of (nr_dpus r) - 1) (ucast (bit_of (nr_dpus r) - 1 :: u8)) ci m), r)"
    using assms(3) ci by (simp add: Let_def FF_def mark_all_def)
qed

lemma mark_all_masks:
  assumes "nr \<le> 8"
  shows "ms_cis (fold (mark_all x y) [0..<nr] no_masks) = fold (\<lambda>ci m. m OR bit_of ci) [0..<nr] 0"
    and "i < nr \<Longrightarrow> result_masks (fold (mark_all x y) [0..<nr] no_masks) ! i = 0xFF0000FF00000000 OR x"
    and "i < nr \<Longrightarrow> expected_results (fold (mark_all x y) [0..<nr] no_masks) ! i = 0x000000FF00000000 OR y"
proof -
  have cis: "ms_cis (fold (mark_all x y) is m) = fold (\<lambda>ci c. c OR bit_of ci) is (ms_cis m)" for "is" m
    by (induction "is" arbitrary: m) (simp_all add: mark_all_def mark_sent_def add_expected_def add_result_mask_def)
  show "ms_cis (fold (mark_all x y) [0..<nr] no_masks) = fold (\<lambda>ci m. m OR bit_of ci) [0..<nr] 0"
    unfolding cis by (simp add: no_masks_def)
  have "length (result_masks m) = 8 \<Longrightarrow> length (expected_results m) = 8 \<Longrightarrow> distinct is \<Longrightarrow> \<forall>i \<in> set is. i < 8 \<Longrightarrow>
      (\<forall>i < 8. result_masks (fold (mark_all x y) is m) ! i = (if i \<in> set is then result_masks m ! i OR 0xFF0000FF00000000 OR x else result_masks m ! i)
        \<and> expected_results (fold (mark_all x y) is m) ! i = (if i \<in> set is then expected_results m ! i OR 0x000000FF00000000 OR y else expected_results m ! i))"
    for "is" m
  proof (induction "is" arbitrary: m)
    case (Cons k "is")
    let ?m = "mark_all x y k m"
    have m: "length (result_masks ?m) = 8" "length (expected_results ?m) = 8"
      "\<forall>i < 8. result_masks ?m ! i = (if i = k then result_masks m ! i OR 0xFF0000FF00000000 OR x else result_masks m ! i)"
      "\<forall>i < 8. expected_results ?m ! i = (if i = k then expected_results m ! i OR 0x000000FF00000000 OR y else expected_results m ! i)"
      using Cons.prems by (simp_all add: mark_all_def mark_sent_def add_expected_def add_result_mask_def or.assoc)
    from Cons.IH [OF m(1,2)] m(3,4) Cons.prems show ?case by auto
  qed simp
  from this [of no_masks "[0..<nr]"] assms
  show "i < nr \<Longrightarrow> result_masks (fold (mark_all x y) [0..<nr] no_masks) ! i = 0xFF0000FF00000000 OR x"
    "i < nr \<Longrightarrow> expected_results (fold (mark_all x y) [0..<nr] no_masks) ! i = 0x000000FF00000000 OR y"
    by (simp_all add: no_masks_def)
qed

lemma compute_ci_mask_full: "\<forall>ci < nr. c ! ci \<noteq> CI_EMPTY \<Longrightarrow> compute_ci_mask nr c = fold (\<lambda>ci m. m OR bit_of ci) [0..<nr] 0"
  unfolding compute_ci_mask_def by (rule fold_cong) simp_all

text \<open>An answer whose low byte is all ones acknowledges every DPU.\<close>

lemma acknowledged:
  assumes "result_present x 0x000000FF00000000 0xFF0000FF00000000" and "(ucast x :: u8) = 0xFF" and "n \<le> 8"
  shows "result_present x (0x000000FF00000000 OR ucast (bit_of n - 1 :: u8)) (0xFF0000FF00000000 OR (bit_of n - 1))"
proof -
  have bits: "bit x i" if "i < 8" for i
  proof -
    have "bit (ucast x :: u8) i" unfolding assms(2) using that by (subst bit_255_iff) simp
    then show ?thesis by (simp add: bit_ucast_iff)
  qed
  have "x AND (bit_of n - 1) = ucast (bit_of n - 1 :: u8)"
    using assms(3) bits by (intro bit_word_eqI) (auto simp: bit_and_iff bit_ucast_iff)
  then show ?thesis using assms(1) by (auto simp: result_present_def bit.conj_disj_distrib)
qed

section \<open>The replies\<close>

definition with_bit_config :: "u32 \<Rightarrow> dpu_hw_description \<Rightarrow> dpu_hw_description" where
  "with_bit_config result hw = hw\<lparr>pcb_transformation := (dpu_bit_config_compute result (pcb_transformation hw))\<lparr>stutter := 0\<rparr>\<rparr>"

text \<open>The answers the reset checks.\<close>

definition good_replies :: "(u64 \<Rightarrow> u32) \<Rightarrow> dpu_hw_description \<Rightarrow> u64 list \<Rightarrow> bool" where
  "good_replies reply hw program \<longleftrightarrow>
     dpu_bit_config_cpu2dpu (pcb_transformation (with_bit_config (reply (CI_BIT_ORDER 0 0 0 0)) hw)) (reply CI_IDENTITY) = chip_id hw
     \<and> (\<forall>i < length program. ucast (reply (CI_IRAM_WRITE_INSTRUCTION_FRAME (program ! i) (of_nat i))) = (0xFF :: u8))
     \<and> ucast (reply CI_DPU_RUN_STATE_READ_FRAME) = (0 :: u8)
     \<and> ucast (reply CI_PC_MODE_READ_FRAME) = DPU_PC_MODE_16
     \<and> ucast (reply CI_STACK_UP_READ_AND_SET_FRAME) = (0xFF :: u8)
     \<and> ucast (reply CI_DMA_CTRL_READ_FRAME) AND 0x7B = (0 :: u8)"

locale answering_backend = responsive_backend h colors for h :: "'w dpu_rank_handler" and colors +
  fixes latched :: "'w \<Rightarrow> nat \<Rightarrow> u32"
    and reply :: "u64 \<Rightarrow> u32"
  assumes latch: "commit_commands h c w = (st, w') \<Longrightarrow> ci < 8 \<Longrightarrow>
      latched w' ci = (if c ! ci = CI_EMPTY then latched w ci else reply (c ! ci))"
    and hold: "update_commands h b w = (st, b', w') \<Longrightarrow> latched w' = latched w"
    and show_reply: "update_commands h b w = (st, b', w') \<Longrightarrow> length b = 8 \<Longrightarrow> ci < 8 \<Longrightarrow> ucast (b' ! ci) = latched w ci"
    and custom_ok: "\<exists>w'. custom_operation h d x w = (DPU_RANK_SUCCESS, w')"
begin

definition held :: "(nat \<Rightarrow> u32) \<Rightarrow> 'w dpu_rank \<Rightarrow> bool" where
  "held L r \<longleftrightarrow> rank_wf r \<and> r_handler r = h \<and> latched (r_world r) = L"

definition shown :: "(nat \<Rightarrow> u32) \<Rightarrow> 'w dpu_rank \<Rightarrow> bool" where
  "shown L r \<longleftrightarrow> held L r \<and> (\<forall>ci < 8. ucast (r_data r ! ci) = L ci)"

lemma update_shows: "returns (held L) (\<lambda>r. ci_update_commands store_data (r_data r) r) (\<lambda>_. shown L)"
proof (rule returnsI)
  fix r x t assume r: "held L r" and run: "ci_update_commands store_data (r_data r) r = (Ret x, t)"
  obtain st d' w' where up: "update_commands h (r_data r) (r_world r) = (st, d', w')" by (metis prod_cases3)
  have wf: "rank_wf t" using r by (intro keeps_eqD [OF wf.keeps_update_data _ run]) (simp add: held_def)
  have len: "length (r_data r) = 8" using r rank_wfD(6) by (auto simp: held_def)
  have st: "st = DPU_RANK_SUCCESS" and t: "r_data t = d'" "r_world t = w'" "r_handler t = h"
    using run up r by (auto simp: ci_update_commands_def held_def debug_record_last_cmd_def Let_def FF_def split: if_splits)
  have "latched w' = L" using hold [OF up] r by (simp add: held_def)
  moreover have "\<forall>ci < 8. ucast (d' ! ci) = L ci" using show_reply [OF up len] r by (simp add: held_def)
  ultimately show "shown L t" using wf t by (simp add: shown_def held_def)
qed

lemma shown_finished:
  assumes "shown L r" and "determine_if_commands_are_finished d m ec isd r = (f, isd', r')"
  shows "shown L r'"
proof -
  note run = assms(2) [unfolded determine_if_commands_are_finished_def]
  from finished_loop_frame [OF run] have "r_data r' = r_data r" "r_world r' = r_world r" "r_handler r' = r_handler r" by simp_all
  moreover have "rank_wf r'" using wf.I_determine [of r d m ec isd] assms by (simp add: shown_def held_def)
  ultimately show ?thesis using assms(1) by (simp add: shown_def held_def)
qed

lemma exec_wait_cases:
  assumes "exec_wait n m ec isd r = (Ret x, t)"
  obtains d r1 f isd' r2 where "ci_update_commands store_data (r_data r) r = (Ret d, r1)"
    and "determine_if_commands_are_finished d m ec isd r1 = (f, isd', r2)"
    and "f \<Longrightarrow> t = r2" and "\<not> f \<Longrightarrow> \<exists>k. n = Suc k \<and> exec_wait k m ec isd' r2 = (Ret x, t)"
proof -
  obtain o1 r1 where up: "ci_update_commands store_data (r_data r) r = (o1, r1)" by (rule prod.exhaust)
  with assms obtain d where d: "o1 = Ret d"
    by (subst (asm) exec_wait.simps) (cases o1; simp add: FF_def)
  obtain f isd' r2 where f: "determine_if_commands_are_finished d m ec isd r1 = (f, isd', r2)" by (metis prod_cases3)
  have "f \<Longrightarrow> t = r2" and "\<not> f \<Longrightarrow> \<exists>k. n = Suc k \<and> exec_wait k m ec isd' r2 = (Ret x, t)"
    using assms up d f by (subst (asm) exec_wait.simps; simp add: FF_def split: nat.splits)+
  with up d f that show thesis by blast
qed

lemma exec_wait_shows: "returns (held L) (exec_wait n m ec isd) (\<lambda>_. shown L)"
proof (induction n arbitrary: isd rule: less_induct)
  case (less n)
  show ?case
  proof (rule returnsI)
    fix r x t assume r: "held L r" and run: "exec_wait n m ec isd r = (Ret x, t)"
    obtain d r1 f isd' r2 where up: "ci_update_commands store_data (r_data r) r = (Ret d, r1)"
      and f: "determine_if_commands_are_finished d m ec isd r1 = (f, isd', r2)"
      and t: "f \<Longrightarrow> t = r2" "\<not> f \<Longrightarrow> \<exists>k. n = Suc k \<and> exec_wait k m ec isd' r2 = (Ret x, t)"
      using run by (rule exec_wait_cases) blast
    have "shown L r1" using returnsD [OF update_shows r] up by blast
    from shown_finished [OF this f] have r2: "shown L r2" .
    show "shown L t"
    proof (cases f)
      case False
      then obtain k where "n = Suc k" "exec_wait k m ec isd' r2 = (Ret x, t)" using t(2) by blast
      with less [of k] r2 show ?thesis by (auto simp: shown_def dest: returnsD)
    qed (use t r2 in simp)
  qed
qed

lemma commit_holds:
  "returns (\<lambda>r. rank_wf r \<and> r_handler r = h \<and> latched (r_world r) = L) (ci_commit_commands c)
     (\<lambda>_ t. \<exists>L'. held L' t \<and> (\<forall>ci < 8. c ! ci \<noteq> CI_EMPTY \<longrightarrow> L' ci = reply (c ! ci)))"
proof (rule returnsI)
  fix r x t assume r: "rank_wf r \<and> r_handler r = h \<and> latched (r_world r) = L" and run: "ci_commit_commands c r = (Ret x, t)"
  obtain st w' where c: "commit_commands h c (r_world r) = (st, w')" by (rule prod.exhaust)
  have "rank_wf t" using r by (intro keeps_eqD [OF wf.keeps_commit _ run]) simp
  moreover have "r_world t = w'" "r_handler t = h"
    using run c r by (auto simp: ci_commit_commands_def debug_record_last_cmd_def FF_def split: if_splits)
  ultimately show "\<exists>L'. held L' t \<and> (\<forall>ci < 8. c ! ci \<noteq> CI_EMPTY \<longrightarrow> L' ci = reply (c ! ci))"
    using latch [OF c] by (auto simp: held_def)
qed

text \<open>After a command that succeeds, the rank holds the replies.\<close>

lemma exec_cmd_replies:
  assumes "rank_wf r" "r_handler r = h" and run: "exec_cmd c sel r = (Ret (), t)" and ci: "ci < 8" "c ! ci \<noteq> CI_EMPTY"
  shows "ucast (r_data t ! ci) = reply (c ! ci)"
proof -
  obtain m where m: "fst (compute_masks c sel r) = Ret m" and rest:
    "FF (ci_commit_commands c) (\<lambda>_. FF (exec_wait NB_RETRY_FOR_VALID_RESULT m (color (r_ci r) AND ms_cis m) (ms_is_done m))
        (\<lambda>_ r. if \<not> is_chip_v1_4 r then FF (ci_update_commands store_data (r_data r)) (\<lambda>_. ok ()) r else ok () r))
       (invert_color (ms_cis m) r) = (Ret (), t)"
    using run unfolding exec_cmd_def FF_def [of "compute_masks c sel"]
    by (cases "compute_masks c sel r"; cases "fst (compute_masks c sel r)")
       (use compute_masks_state [of c sel r] in \<open>simp_all add: Let_def\<close>)
  let ?r0 = "invert_color (ms_cis m) r"
  have r0: "rank_wf ?r0 \<and> r_handler ?r0 = h \<and> latched (r_world ?r0) = latched (r_world ?r0)"
    using assms(1,2) wf.I_invert_color by (simp add: invert_color_def upd_ctx_def)
  from rest obtain r1 r2 where 1: "ci_commit_commands c ?r0 = (Ret (), r1)"
    and 2: "exec_wait NB_RETRY_FOR_VALID_RESULT m (color (r_ci r) AND ms_cis m) (ms_is_done m) r1 = (Ret (), r2)"
    and 3: "(if \<not> is_chip_v1_4 r2 then FF (ci_update_commands store_data (r_data r2)) (\<lambda>_. ok ()) r2 else ok () r2) = (Ret (), t)"
    unfolding FF_Ret_iff by auto
  obtain L where L: "held L r1" "\<forall>ci < 8. c ! ci \<noteq> CI_EMPTY \<longrightarrow> L ci = reply (c ! ci)"
    using returnsD [OF commit_holds r0 1] by blast
  from returnsD [OF exec_wait_shows L(1) 2] have r2: "shown L r2" .
  then have held: "held L r2" by (simp add: shown_def)
  have "shown L t"
  proof (cases "is_chip_v1_4 r2")
    case True
    with 3 r2 show ?thesis by simp
  next
    case False
    with 3 obtain d where "ci_update_commands store_data (r_data r2) r2 = (Ret d, t)" by (auto simp: FF_Ret_iff)
    with returnsD [OF update_shows held] show ?thesis by blast
  qed
  with L(2) ci show ?thesis by (simp add: shown_def)
qed

lemma succeeds_exec_value: "\<forall>ci < 8. \<not> resets (c ! ci) \<Longrightarrow> succeeds live (FF (exec_cmd c False) (\<lambda>_ r. ok (f r) r))"
  by (rule succeeds_FF, rule live_exec_plain, simp, rule succeedsI, simp)

text \<open>An invariant of the frame interface that also tells the shape of the rank.\<close>

definition ready :: "dpu_configuration \<Rightarrow> dpu_hw_description \<Rightarrow> dpu_run_context \<Rightarrow> 'w dpu_rank \<Rightarrow> bool" where
  "ready conf hw rc r \<longleftrightarrow> live r \<and> full_rank conf hw rc r"

lemma readyD:
  assumes "ready conf hw rc r"
  shows "live r" "full_rank conf hw rc r" "rank_wf r" "r_handler r = h" "r_hw r = hw" "r_configuration r = conf"
    "r_run_context r = rc" "nr_of_control_interfaces hw \<le> 8" "\<forall>ci < 8. \<not> resets (r_cmds r ! ci)"
    "ci < nr_of_control_interfaces hw \<Longrightarrow> en r ci \<noteq> 0 \<and> all_dpus_are_enabled (r_slice r ci)"
  using assms by (auto simp: ready_def live_def full_rank_def dest: rank_wfD(2))

lemma ready_op:
  assumes "succeeds live m" and "keeps (full_rank conf hw rc) m"
  shows "yields (ready conf hw rc) m (\<lambda>_. ready conf hw rc)"
  unfolding ready_def by (rule yields_keeps [OF yields_of_succeeds [OF assms(1)] assms(2)])

lemma ready_succeeds: "succeeds live m \<Longrightarrow> keeps (full_rank conf hw rc) m \<Longrightarrow> succeeds (ready conf hw rc) m"
  by (simp add: yields_succeeds ready_op)

text \<open>The results of a command: the replies of the CIs it addresses, the other entries as before.\<close>

definition replies :: "u8 \<Rightarrow> nat \<Rightarrow> u64 \<Rightarrow> 'a::len word list \<Rightarrow> 'a word list \<Rightarrow> bool" where
  "replies m nr c res res' \<longleftrightarrow> length res' = length res
     \<and> (\<forall>i < length res. res' ! i = (if i < nr \<and> bit m i then ucast (reply c) else res ! i))"

lemma ready_exec_value:
  assumes w: "\<And>x :: u64. (ucast x :: 'a::len word) = ucast (ucast x :: u32)"
    and c: "c \<noteq> CI_EMPTY" "length (res :: 'a word list) = 8"
    and cmds: "\<And>r. ready conf hw rc r \<Longrightarrow> P r \<Longrightarrow> \<forall>i < 8. i < nr_of_control_interfaces hw \<longrightarrow> r_cmds r ! i = (if bit m i then c else CI_EMPTY)"
  shows "yields (\<lambda>r. ready conf hw rc r \<and> P r) (\<lambda>r. FF (exec_cmd (r_cmds r) False) (\<lambda>_ r'. ok (collect_results (r_cmds r) res r') r') r)
    (\<lambda>res' r. ready conf hw rc r \<and> replies m (nr_of_control_interfaces hw) c res res')"
proof (rule yieldsI)
  fix r assume r: "ready conf hw rc r \<and> P r"
  note R = readyD [OF conjunct1 [OF r]]
  obtain u t where run: "exec_cmd (r_cmds r) False r = (Ret u, t)" and t: "ready conf hw rc t"
    using ready_op [OF live_exec_plain [OF R(9)] full.keeps_exec_cmd] conjunct1 [OF r] by (rule yieldsE)
  have hw: "r_hw t = hw" by (rule readyD(5) [OF t])
  have "replies m (nr_of_control_interfaces hw) c res (collect_results (r_cmds r) res t)"
    unfolding replies_def
  proof (intro conjI allI impI)
    fix i assume i: "i < length res"
    then have "i < 8" using c(2) by simp
    show "collect_results (r_cmds r) res t ! i = (if i < nr_of_control_interfaces hw \<and> bit m i then ucast (reply c) else res ! i)"
    proof (cases "i < nr_of_control_interfaces hw \<and> bit m i")
      case True
      then have cmd: "r_cmds r ! i = c" using cmds \<open>i < 8\<close> r by simp
      have "ucast (r_data t ! i) = reply (r_cmds r ! i)"
        by (rule exec_cmd_replies [OF R(3,4)]) (use run cmd c(1) \<open>i < 8\<close> in simp_all)
      then have "(ucast (r_data t ! i) :: 'a word) = ucast (reply c)" unfolding w cmd by simp
      with True cmd c(1) i show ?thesis by (simp add: nth_collect_results hw)
    next
      case False
      then have "\<not> (i < nr_of_control_interfaces hw \<and> r_cmds r ! i \<noteq> CI_EMPTY)" using cmds \<open>i < 8\<close> r by auto
      then show ?thesis using False by (auto simp: nth_collect_results [OF i] hw)
    qed
  qed (simp add: length_collect_results)
  with run t show "\<exists>res' q. FF (exec_cmd (r_cmds r) False) (\<lambda>_ r'. ok (collect_results (r_cmds r) res r') r') r = (Ret res', q)
      \<and> ready conf hw rc q \<and> replies m (nr_of_control_interfaces hw) c res res'"
    by (simp add: FF_def)
qed

lemma u8_of_u32: "(ucast x :: u8) = ucast (ucast x :: u32)"
  by (rule bit_word_eqI) (simp add: bit_ucast_iff)

text \<open>After a software reset the frames of the host are still the reset commands.\<close>

definition rebooted :: "dpu_configuration \<Rightarrow> dpu_hw_description \<Rightarrow> dpu_run_context \<Rightarrow> 'w dpu_rank \<Rightarrow> bool" where
  "rebooted conf hw rc r \<longleftrightarrow> full_rank conf hw rc r \<and> r_handler r = h
     \<and> (\<forall>ci < nr_cis r. bit (colors (r_world r)) ci \<longleftrightarrow> bit (color (r_ci r)) ci)"

lemma ready_rebooted: "ready conf hw rc r \<Longrightarrow> rebooted conf hw rc r"
  by (simp add: ready_def rebooted_def live_def)

lemma rebooted_prepare:
  assumes "rebooted conf hw rc r" and "\<not> resets d"
  shows "ready conf hw rc (prepare_cmds m d r)" "r_cmds (prepare_cmds m d r) = ci_prepare_mask m d"
proof -
  have "full_rank conf hw rc (prepare_cmds m d r)" using assms(1) by (simp add: rebooted_def full.I_prepare)
  then show "ready conf hw rc (prepare_cmds m d r)"
    using assms full_wf by (auto simp: ready_def live_def rebooted_def prepare_cmds_def prepare_mask_not_resets)
qed (simp add: prepare_cmds_def)

lemma prepared:
  assumes "\<not> resets d"
  shows "yields (rebooted conf hw rc) (modify (prepare_cmds m d)) (\<lambda>_ r. ready conf hw rc r \<and> r_cmds r = ci_prepare_mask m d)"
  using assms by (intro yields_modify) (simp add: rebooted_prepare)

lemma ready_exec_cmds: "yields (ready conf hw rc) exec_cmds_void (\<lambda>_. ready conf hw rc)"
  by (intro ready_op live_exec_cmds full.keeps_exec_cmds)

lemma prepared_value:
  assumes "length (res :: 'a::len word list) = 8" "\<And>x :: u64. (ucast x :: 'a word) = ucast (ucast x :: u32)" "d \<noteq> CI_EMPTY"
  shows "yields (\<lambda>r. ready conf hw rc r \<and> r_cmds r = ci_prepare_mask m d)
      (\<lambda>r. FF (exec_cmd (r_cmds r) False) (\<lambda>_ r'. ok (collect_results (r_cmds r) res r') r') r)
      (\<lambda>res' r. ready conf hw rc r \<and> replies m (nr_of_control_interfaces hw) d res res')"
proof (rule ready_exec_value [OF assms(2,3,1)])
  fix r :: "'w dpu_rank" assume "r_cmds r = ci_prepare_mask m d"
  then show "\<forall>i < 8. i < nr_of_control_interfaces hw \<longrightarrow> r_cmds r ! i = (if bit m i then d else CI_EMPTY)"
    by (simp add: nth_prepare_mask CI_MASK_ON_bit)
qed

lemma prepared_values:
  assumes "\<not> resets d" "d \<noteq> CI_EMPTY"
  shows "length res = 8 \<Longrightarrow> yields (rebooted conf hw rc) (FF (modify (prepare_cmds m d)) (\<lambda>_. exec_cmds_8bit res))
      (\<lambda>res' r. ready conf hw rc r \<and> replies m (nr_of_control_interfaces hw) d res res')"
    and "length res' = 8 \<Longrightarrow> yields (rebooted conf hw rc) (FF (modify (prepare_cmds m d)) (\<lambda>_. exec_cmds_32bit res'))
      (\<lambda>res'' r. ready conf hw rc r \<and> replies m (nr_of_control_interfaces hw) d res' res'')"
  unfolding exec_cmds_8bit_def ci_exec_8bit_cmd_def exec_cmds_32bit_def ci_exec_32bit_cmd_def
  by (rule yields_FF [OF prepared [OF assms(1)]], rule prepared_value [OF _ u8_of_u32 assms(2)], assumption,
      rule yields_FF [OF prepared [OF assms(1)]], rule prepared_value [OF _ _ assms(2)], assumption, rule ucast_id [symmetric]) (simp)?

lemma ready_8bit_frame:
  assumes "\<not> resets s" "\<not> resets f" "f \<noteq> CI_EMPTY" "length res = 8"
  shows "yields (ready conf hw rc) (UFI_exec_8bit_frame m s f res)
    (\<lambda>res' r. ready conf hw rc r \<and> replies m (nr_of_control_interfaces hw) f res res')"
  unfolding UFI_exec_8bit_frame_def
  by (rule yields_FF [OF ready_op [OF live_write_structure [OF assms(1)] full.keeps_write_structure]],
      rule yields_pre [OF prepared_values(1) [OF assms(2-4)] ready_rebooted])

section \<open>The steps on the chips\<close>

lemma select_cis_all: "rebooted conf hw rc r \<Longrightarrow> ufi_select_cis ALL_CIS r = (Ret ALL_CIS, r)"
proof -
  assume r: "rebooted conf hw rc r"
  have skip: "fold (\<lambda>ci m. if P ci then f ci m else m) cis m = m" if "\<forall>ci \<in> set cis. \<not> P ci" for P f m and cis :: "nat list"
    using that by (induction cis) simp_all
  have full: "full_rank conf hw rc r" using r by (simp add: rebooted_def)
  have "\<forall>ci \<in> set (ci_list r ALL_CIS). \<not> en r ci = 0"
    using ci_list_lt [OF full_wf [OF full]] full by (auto simp: full_rank_def ci_list_def)
  from skip [OF this] show ?thesis by (simp add: ufi_select_cis_def)
qed

lemma yields_select_cis:
  assumes "\<And>r. P r \<Longrightarrow> rebooted conf hw rc r" and "yields P (k ALL_CIS) Q"
  shows "yields P (FF (ufi_select_cis ALL_CIS) k) Q"
proof (rule yieldsI)
  fix r assume r: "P r"
  with assms(2) obtain x t where "k ALL_CIS r = (Ret x, t)" "Q x t" by (rule yieldsE)
  with select_cis_all [OF assms(1) [OF r]] show "\<exists>x t. FF (ufi_select_cis ALL_CIS) k r = (Ret x, t) \<and> Q x t"
    by (simp add: FF_def)
qed

lemma every_CI_bit: "ci < 8 \<Longrightarrow> bit ALL_CIS ci"
  unfolding ALL_CIS_def by (subst bit_255_iff) simp

lemma poll_local:
  "r_handler r = h \<Longrightarrow> length d = 8 \<Longrightarrow> \<exists>d' r'. mfor is (\<lambda>_ data. ci_update_commands store_local data) d r = (Ret d', r')
    \<and> r_handler r' = h \<and> colors (r_world r') = colors (r_world r)"
proof (induction "is" arbitrary: d r)
  case (Cons i "is")
  obtain st d1 w1 where up: "update_commands h d (r_world r) = (st, d1, w1)" by (metis prod_cases3)
  note f = update_facts [OF up]
  have "\<exists>r1. ci_update_commands store_local d r = (Ret d1, r1) \<and> r_handler r1 = h \<and> r_world r1 = w1"
    using up f(1) Cons.prems(1) by (simp add: ci_update_commands_def debug_record_last_cmd_def Let_def FF_def)
  then obtain r1 where r1: "ci_update_commands store_local d r = (Ret d1, r1)" "r_handler r1 = h" "r_world r1 = w1" by blast
  from Cons.IH [OF r1(2), of d1] f Cons.prems(2)
  obtain d' r' where "mfor is (\<lambda>_ data. ci_update_commands store_local data) d1 r1 = (Ret d', r')" "r_handler r' = h"
    "colors (r_world r') = colors (r_world r1)" by auto
  with r1 f(2) show ?case by (simp add: FF_def)
qed simp

lemma yields_reset_cmd:
  assumes d: "resets d"
  shows "yields (\<lambda>r. rebooted conf hw rc r \<and> r_cmds r = ci_prepare_mask ALL_CIS d) (\<lambda>r. ci_exec_reset_cmd (r_cmds r) r)
    (\<lambda>_. rebooted conf hw rc)"
proof (rule yieldsI)
  fix r assume r: "rebooted conf hw rc r \<and> r_cmds r = ci_prepare_mask ALL_CIS d"
  define c where "c = ci_prepare_mask ALL_CIS d"
  have full: "full_rank conf hw rc r" and h: "r_handler r = h" using r by (simp_all add: rebooted_def)
  have c: "c ! ci = d" if "ci < 8" for ci
    using that every_CI_bit [of ci] by (simp add: c_def nth_prepare_mask CI_MASK_ON_bit)
  have "d \<noteq> CI_EMPTY" using d tagged_not_resets(3) by blast
  define m where "m = compute_ci_mask (nr_cis r) c"
  have m: "bit m ci" if "ci < nr_cis r" for ci
    using that c rank_wfD(2) [OF full_wf [OF full]] \<open>d \<noteq> CI_EMPTY\<close> by (simp add: m_def bit_compute_ci_mask)
  let ?r0 = "invert_color m r"
  obtain w where w: "commit_commands h c (r_world r) = (DPU_RANK_SUCCESS, w)" "\<forall>ci < 8. \<not> bit (colors w) ci"
    using commit_ok [of c "r_world r"] c d by auto
  then have "commit_commands (r_handler ?r0) c (r_world ?r0) = (DPU_RANK_SUCCESS, w)"
    using h by (simp add: invert_color_def upd_ctx_def)
  from commit_success [OF this] obtain r1 where r1: "ci_commit_commands c ?r0 = (Ret (), r1)" "r_handler r1 = h" "r_world r1 = w"
    using h by (auto simp: invert_color_def upd_ctx_def)
  define n where "n = unat (reset_wait_duration (r_hw r)) * unat (clock_division (r_hw r)) div 2"
  obtain d' r2 where r2: "mfor [0..<n] (\<lambda>_ data. ci_update_commands store_local data) (replicate 8 0) r1 = (Ret d', r2)"
    "r_handler r2 = h" "colors (r_world r2) = colors w"
    using poll_local [OF r1(2), of "replicate 8 0" "[0..<n]"] r1(3) by auto
  let ?clear = "upd_ctx (\<lambda>c. c\<lparr>color := color c AND NOT m, fault_collide := fault_collide c AND NOT m,
         fault_decode := fault_decode c AND NOT m\<rparr>)"
  define t where "t = reset_slices (nr_dpus r) (?clear r2)"
  have run: "ci_exec_reset_cmd c r = (Ret (), t)"
    using r1(1) r2(1) unfolding ci_exec_reset_cmd_def Let_def FF_modify m_def [symmetric] n_def [symmetric]
    by (simp add: FF_def t_def)
  have "full_rank conf hw rc t" using keeps_eqD [OF full.keeps_reset_cmd full run] .
  moreover have "r_handler t = h" "r_world t = r_world r2"
    using r2(2) by (simp_all add: t_def reset_slices_def) (simp_all add: upd_ctx_def)
  moreover have "\<not> bit (color (r_ci t)) ci" if "ci < nr_cis r" for ci
    using m [OF that] by (simp add: t_def upd_ctx_def bit_and_iff bit_not_iff)
  moreover have "nr_cis t = nr_cis r" "nr_cis r \<le> 8"
    using calculation(1) full rank_wfD(2) [OF full_wf [OF full]] by (simp_all add: full_rank_def)
  ultimately have "rebooted conf hw rc t" using w(2) r2(3) by (simp add: rebooted_def)
  with run r show "\<exists>x t. ci_exec_reset_cmd (r_cmds r) r = (Ret x, t) \<and> rebooted conf hw rc t" by (simp add: c_def)
qed

lemma soft_reset_resets: "resets (CI_SOFTWARE_RESET (ucast (x :: u8)) (ucast (if b then 1 else 0 :: u8)))"
proof -
  have "(ucast x :: u64) AND NOT 0xFF = 0"
  proof (rule bit_word_eqI)
    show "bit ((ucast x :: u64) AND NOT 0xFF) n = bit (0 :: u64) n" for n
      by (subst bit_and_iff, subst bit_not_iff, subst bit_255_iff, cases "n < 8") (simp_all add: bit_u8)
  qed
  then show ?thesis by (cases b) (simp_all add: resets_def CI_SOFTWARE_RESET_def bit.conj_disj_distrib2)
qed

lemma yields_soft_reset: "yields (rebooted conf hw rc) (dpu_soft_reset x) (\<lambda>_. rebooted conf hw rc)"
proof -
  have one: "yields (rebooted conf hw rc) (ufi_soft_reset ALL_CIS x (if b then 1 else 0)) (\<lambda>_. rebooted conf hw rc)" for b
    unfolding ufi_soft_reset_def
  proof (rule yields_FF [OF _ yields_reset_cmd [OF soft_reset_resets]], rule yields_modify)
    fix r assume r: "rebooted conf hw rc r"
    then have "full_rank conf hw rc r" by (simp add: rebooted_def)
    then have "full_rank conf hw rc (prepare_cmds m d r)" for m d by (rule full.I_prepare)
    with r show "rebooted conf hw rc (prepare_cmds ALL_CIS (CI_SOFTWARE_RESET (ucast x) (ucast (if b then 1 else 0 :: u8))) r)
        \<and> r_cmds (prepare_cmds ALL_CIS (CI_SOFTWARE_RESET (ucast x) (ucast (if b then 1 else 0 :: u8))) r)
          = ci_prepare_mask ALL_CIS (CI_SOFTWARE_RESET (ucast x) (ucast (if b then 1 else 0 :: u8)))"
      by (simp add: rebooted_def prepare_cmds_def)
  qed
  have "yields (rebooted conf hw rc) (ignore_status (ufi_soft_reset ALL_CIS x (if b then 1 else 0))) (\<lambda>_. rebooted conf hw rc)" for b
    using one [of b] by (fastforce simp: yields_def ignore_status_def)
  note send = this
  have "yields (rebooted conf hw rc) (FF (ufi_select_cis ALL_CIS)
      (\<lambda>m. ignore_status (ufi_soft_reset m x (if b then 1 else 0)))) (\<lambda>_. rebooted conf hw rc)" for b
    by (rule yields_select_cis, assumption, rule send)
  then show ?thesis unfolding dpu_soft_reset_def Let_def by (simp add: yields_def)
qed

lemma yields_run: "(\<And>s. P s \<Longrightarrow> m s = (Ret (f s), g s) \<and> Q (f s) (g s)) \<Longrightarrow> yields P m Q"
  by (simp add: yields_def)

lemma first_ci_all:
  assumes "\<forall>i < nr_cis r. results ! i = v" "0 < nr_cis r"
  shows "first_ci_result ALL_CIS results r = (Ret v, r)"
proof -
  have f: "filter (bit ALL_CIS) [0..<8] = [0..<8]" using every_CI_bit by (simp add: filter_id_conv del: upt_rec_numeral)
  have "ALL_CIS \<noteq> 0" by (simp add: ALL_CIS_def)
  moreover have "hd [0..<8] = (0 :: nat)" by simp
  moreover have "results ! 0 = v" using assms by blast
  moreover have "\<not> list_ex (\<lambda>i. results ! i \<noteq> v) (ci_list r ALL_CIS)" using assms by (auto simp: list_ex_iff ci_list_def)
  ultimately show ?thesis unfolding first_ci_result_def f by (simp only: Let_def if_False ok_apply)
qed

lemma ready_set_bit_config:
  assumes "ready conf hw rc r"
  shows "ready conf (with_bit_config x hw) rc (set_bit_config x r)"
proof -
  have "rank_wf (set_bit_config x r)" using readyD(3) [OF assms] by (rule rank_wf_bit_config)
  then show ?thesis using assms
    by (simp add: ready_def live_def full_rank_def) (simp add: set_bit_config_def with_bit_config_def)
qed

lemma bit_order_not_resets: "\<not> resets (CI_BIT_ORDER (ucast (ns :: u8)) 0 c2d d2c)"
  by (rule not_resets) (simp add: CI_BIT_ORDER_def bit_or_iff bit_push_bit_iff bit_u8)

lemma bit_order_zero: "\<not> resets (CI_BIT_ORDER 0 0 0 0)" "CI_BIT_ORDER 0 0 0 0 \<noteq> CI_EMPTY"
  using bit_order_not_resets [of 0 0 0] by (simp_all add: CI_BIT_ORDER_def CI_EMPTY_def)

lemma yields_bit_config:
  assumes "0 < nr_of_control_interfaces hw"
  shows "yields (rebooted conf hw rc) dpu_bit_config_step (\<lambda>_. ready conf (with_bit_config (reply (CI_BIT_ORDER 0 0 0 0)) hw) rc)"
  unfolding dpu_bit_config_step_def
proof (rule yields_select_cis, assumption, rule yields_FF)
  show "yields (rebooted conf hw rc) (ufi_bit_config ALL_CIS None (Some (replicate 8 0)))
      (\<lambda>res r. ready conf hw rc r \<and> replies ALL_CIS (nr_of_control_interfaces hw) (CI_BIT_ORDER 0 0 0 0) (replicate 8 0) (the res))"
    unfolding ufi_bit_config_def Let_def option.case FF_assoc [symmetric]
    by (rule yields_FF, rule prepared_values(2) [OF bit_order_zero], simp, rule yields_ok) simp
  fix res
  show "yields (\<lambda>r. ready conf hw rc r \<and> replies ALL_CIS (nr_of_control_interfaces hw) (CI_BIT_ORDER 0 0 0 0) (replicate 8 0) (the res))
      (FF (first_ci_result ALL_CIS (the res)) (\<lambda>result. modify (set_bit_config result)))
      (\<lambda>_. ready conf (with_bit_config (reply (CI_BIT_ORDER 0 0 0 0)) hw) rc)"
  proof (rule yieldsI)
    fix r assume r: "ready conf hw rc r \<and> replies ALL_CIS (nr_of_control_interfaces hw) (CI_BIT_ORDER 0 0 0 0) (replicate 8 0) (the res)"
    then have hw: "r_hw r = hw" "nr_of_control_interfaces hw \<le> 8" using readyD(5,8) by blast+
    then have "\<forall>i < nr_cis r. the res ! i = reply (CI_BIT_ORDER 0 0 0 0)"
      using r every_CI_bit by (simp add: replies_def)
    from first_ci_all [OF this] hw assms r ready_set_bit_config
    show "\<exists>x t. FF (first_ci_result ALL_CIS (the res)) (\<lambda>result. modify (set_bit_config result)) r = (Ret x, t)
        \<and> ready conf (with_bit_config (reply (CI_BIT_ORDER 0 0 0 0)) hw) rc t" by (simp add: FF_def)
  qed
qed

lemma yields_shuffling:
  assumes "stutter (pcb_transformation hw) = 0"
  shows "yields (rebooted conf hw rc) dpu_ci_shuffling_box_config (\<lambda>_. ready conf hw rc)"
  unfolding dpu_ci_shuffling_box_config_def
proof (rule yields_select_cis, assumption,
    rule yields_state [where f = "\<lambda>r. FF (ufi_bit_config ALL_CIS (Some (pcb_transformation (r_hw r))) None) (\<lambda>_. ok ())"])
  fix r assume r: "rebooted conf hw rc r"
  then have "r_hw r = hw" by (simp add: rebooted_def full_rank_def)
  with assms have "stutter (pcb_transformation (r_hw r)) = 0" by simp
  moreover have "yields (rebooted conf hw rc) (FF (modify (prepare_cmds ALL_CIS (CI_BIT_ORDER (ucast ns) 0 c2d d2c)))
      (\<lambda>_. FF exec_cmds_void (\<lambda>_. ok (None :: u32 list option)))) (\<lambda>_. ready conf hw rc)" for ns :: u8 and c2d d2c
    by (rule yields_FF [OF prepared [OF bit_order_not_resets]], rule yields_FF,
        rule yields_pre [OF ready_exec_cmds [of conf hw rc]], simp, rule yields_ok, simp)
  ultimately have "yields (rebooted conf hw rc) (ufi_bit_config ALL_CIS (Some (pcb_transformation (r_hw r))) None) (\<lambda>_. ready conf hw rc)"
    unfolding ufi_bit_config_def Let_def option.case by (simp only: yields_def ucast_0) blast
  then have "yields (rebooted conf hw rc) (FF (ufi_bit_config ALL_CIS (Some (pcb_transformation (r_hw r))) None) (\<lambda>_. ok ()))
      (\<lambda>_. ready conf hw rc)"
    by (rule yields_FF) (rule yields_ok)
  then show "yields (\<lambda>t. t = r) (FF (ufi_bit_config ALL_CIS (Some (pcb_transformation (r_hw r))) None) (\<lambda>_. ok ()))
      (\<lambda>_. ready conf hw rc)"
    using r by (rule yields_at)
qed

lemma yields_cong: "yields P m' Q \<Longrightarrow> (\<And>s. P s \<Longrightarrow> m s = m' s) \<Longrightarrow> yields P m Q"
  by (simp add: yields_def)

lemma nth_map_cis:
  "distinct is \<Longrightarrow> \<forall>i \<in> set is. i < length res \<Longrightarrow> j < length res \<Longrightarrow>
    fold (\<lambda>i res. res[i := f (res ! i)]) is res ! j = (if j \<in> set is then f (res ! j) else res ! j)"
  by (induction "is" arbitrary: res) (auto simp: nth_list_update)

lemma identity_not_resets: "\<not> resets CI_IDENTITY" "CI_IDENTITY \<noteq> CI_EMPTY"
  by (rule config_not_resets) (simp add: CI_IDENTITY_def CI_EMPTY_def)

lemma yields_identity:
  assumes "0 < nr_of_control_interfaces hw"
    and "dpu_bit_config_cpu2dpu (pcb_transformation hw) (reply CI_IDENTITY) = chip_id hw"
  shows "yields (ready conf hw rc) dpu_identity (\<lambda>_. ready conf hw rc)"
proof -
  let ?n = "nr_of_control_interfaces hw"
  let ?f = "dpu_bit_config_cpu2dpu (pcb_transformation hw)"
  have results: "yields (ready conf hw rc) (ufi_identity ALL_CIS (replicate 8 0))
      (\<lambda>res r. ready conf hw rc r \<and> (\<forall>i < ?n. res ! i = chip_id hw))"
  proof -
    have "yields (\<lambda>r. ready conf hw rc r \<and> replies ALL_CIS ?n CI_IDENTITY (replicate 8 0) res)
      (\<lambda>r. ok (fold (\<lambda>each_ci res. res[each_ci := dpu_bit_config_cpu2dpu (pcb_transformation (r_hw r)) (res ! each_ci)])
          (ci_list r ALL_CIS) res) r)
      (\<lambda>res r. ready conf hw rc r \<and> (\<forall>i < ?n. res ! i = chip_id hw))" for res
    proof (rule yields_run, rule conjI, simp, intro conjI allI impI)
      fix r i assume r: "ready conf hw rc r \<and> replies ALL_CIS ?n CI_IDENTITY (replicate 8 0) res" and i: "i < ?n"
      from r have hw: "r_hw r = hw" "?n \<le> 8" "rank_wf r" using readyD(3,5,8) by blast+
      from r have len: "length res = 8" by (simp add: replies_def)
      have "res ! i = reply CI_IDENTITY" using r i hw(2) every_CI_bit [of i] by (simp add: replies_def)
      moreover have "i \<in> set (ci_list r ALL_CIS)" using i hw every_CI_bit [of i] by (simp add: ci_list_def CI_MASK_ON_bit)
      moreover have "\<forall>ci \<in> set (ci_list r ALL_CIS). ci < length res" using ci_list_lt [OF hw(3)] len by auto
      ultimately show "fold (\<lambda>each_ci res. res[each_ci := dpu_bit_config_cpu2dpu (pcb_transformation (r_hw r)) (res ! each_ci)])
          (ci_list r ALL_CIS) res ! i = chip_id hw"
        using nth_map_cis [OF distinct_ci_list [of r ALL_CIS], of res i ?f] i hw len assms(2) by simp
    qed blast
    note post = this
    show ?thesis unfolding ufi_identity_def FF_assoc [symmetric]
      by (rule yields_FF [OF yields_pre [OF prepared_values(2) [OF identity_not_resets] ready_rebooted] post]) simp_all
  qed
  have check: "yields (\<lambda>r. ready conf hw rc r \<and> (\<forall>i < ?n. res ! i = chip_id hw))
      (FF (first_ci_result ALL_CIS res) (\<lambda>x r. if x \<noteq> chip_id (r_hw r) then fail DPU_ERR_INTERNAL r else ok () r))
      (\<lambda>_. ready conf hw rc)" for res
  proof (rule yieldsI)
    fix r assume r: "ready conf hw rc r \<and> (\<forall>i < ?n. res ! i = chip_id hw)"
    then have hw: "r_hw r = hw" using readyD(5) by blast
    from first_ci_all [of r res "chip_id hw"] r hw assms(1)
    show "\<exists>x t. FF (first_ci_result ALL_CIS res) (\<lambda>x r. if x \<noteq> chip_id (r_hw r) then fail DPU_ERR_INTERNAL r else ok () r) r
        = (Ret x, t) \<and> ready conf hw rc t" by (simp add: FF_def)
  qed
  show ?thesis unfolding dpu_identity_def
    by (rule yields_select_cis, erule ready_rebooted, rule yields_FF [OF results check])
qed

lemma yields_ignore: "yields P m (\<lambda>_. Q) \<Longrightarrow> yields P (ignore_status m) (\<lambda>_. Q)"
  by (fastforce simp: yields_def ignore_status_def)

lemma yields_thermal: "yields (ready conf hw rc) (dpu_thermal_config x) (\<lambda>_. ready conf hw rc)"
  unfolding dpu_thermal_config_def
proof (rule yields_select_cis, erule ready_rebooted, rule yields_ignore)
  have "succeeds live (ufi_thermal_config m y)" for m y
    unfolding ufi_thermal_config_def by (intro live_send) (simp add: config_not_resets)
  then show "yields (ready conf hw rc) (ufi_thermal_config ALL_CIS (from_celsius_to_dpu_enum x)) (\<lambda>_. ready conf hw rc)"
    by (rule ready_op) (rule full.keeps_soft_commands)
qed

lemma ready_select_all: "yields (ready conf hw rc) (ufi_select_all m) (\<lambda>_. ready conf hw rc)"
  by (intro ready_op live_select_all full.keeps_select)

lemma yields_carousel: "yields (ready conf hw rc) dpu_carousel_config_step (\<lambda>_. ready conf hw rc)"
  unfolding dpu_carousel_config_step_def
proof (rule yields_FF [OF ready_select_all])
  fix m
  have "yields (ready conf hw rc) (ufi_carousel_config m (carousel hw)) (\<lambda>_. ready conf hw rc)"
    by (intro ready_op live_carousel full.keeps_carousel)
  then show "yields (ready conf hw rc) (\<lambda>r. ufi_carousel_config m (carousel (r_hw r)) r) (\<lambda>_. ready conf hw rc)"
    by (rule yields_cong) (simp add: readyD(5))
qed

lemma yields_byte_order:
  "yields (\<lambda>r. ready conf hw rc r \<and> r_type r = HW \<and> (\<forall>ci < nr_cis r. byte_order_values_are_compatible (byte_order (r_slice r ci))
      EXPECTED_BYTE_ORDER_RESULT_AFTER_CONFIGURATION)) dpu_byte_order (\<lambda>_. ready conf hw rc)"
proof (rule yields_run, rule conjI)
  fix r assume r: "ready conf hw rc r \<and> r_type r = HW \<and> (\<forall>ci < nr_cis r. byte_order_values_are_compatible (byte_order (r_slice r ci))
      EXPECTED_BYTE_ORDER_RESULT_AFTER_CONFIGURATION)"
  let ?t = "load_byte_orders r"
  note R = readyD [OF conjunct1 [OF r]]
  have "list_all (\<lambda>ci. byte_order_values_are_compatible (r_data ?t ! ci) EXPECTED_BYTE_ORDER_RESULT_AFTER_CONFIGURATION) (ci_list ?t ALL_CIS)"
    using r load_byte_orders_data [OF R(3)] by (auto simp: list_all_iff ci_list_def) (simp add: load_byte_orders_def)
  with r show "dpu_byte_order r = (Ret (), ?t)" by (simp add: dpu_byte_order_def check_byte_order_def)
  have wf: "rank_wf ?t" using R(3) unfolding load_byte_orders_def by (intro wf.I_data) (simp_all add: rank_wfD)
  have "live ?t" using R(1,9) wf by (intro live_frame [of r load_byte_orders]) (simp_all add: load_byte_orders_def)
  moreover have "full_rank conf hw rc ?t" using R(2) wf by (rule full_rank_cong) (simp_all add: load_byte_orders_def)
  ultimately show "ready conf hw rc ?t" by (simp add: ready_def)
qed

lemma yields_reset_chips:
  assumes "0 < nr_of_control_interfaces hw"
    and "dpu_bit_config_cpu2dpu (pcb_transformation (with_bit_config (reply (CI_BIT_ORDER 0 0 0 0)) hw)) (reply CI_IDENTITY) = chip_id hw"
  shows "yields (\<lambda>r. ready conf hw rc r \<and> r_type r = HW \<and> (\<forall>ci < nr_cis r. byte_order_values_are_compatible (byte_order (r_slice r ci))
      EXPECTED_BYTE_ORDER_RESULT_AFTER_CONFIGURATION)) reset_chips (\<lambda>_. ready conf (with_bit_config (reply (CI_BIT_ORDER 0 0 0 0)) hw) rc)"
proof -
  define hw' where "hw' = with_bit_config (reply (CI_BIT_ORDER 0 0 0 0)) hw"
  have hw': "0 < nr_of_control_interfaces hw'" "stutter (pcb_transformation hw') = 0"
    "dpu_bit_config_cpu2dpu (pcb_transformation hw') (reply CI_IDENTITY) = chip_id hw'"
    using assms by (simp_all add: hw'_def) (simp_all add: with_bit_config_def)
  have soft_reset: "yields (ready conf k rc) (dpu_soft_reset x) (\<lambda>_. rebooted conf k rc)" for k x
    by (rule yields_pre [OF yields_soft_reset]) (rule ready_rebooted)
  have last: "yields (ready conf hw' rc) (\<lambda>r. FF (dpu_thermal_config (std_temperature (r_hw r))) (\<lambda>_. dpu_carousel_config_step) r)
      (\<lambda>_. ready conf hw' rc)"
    by (rule yields_cong [OF yields_FF [OF yields_thermal yields_carousel]]) (simp add: readyD(5))
  have "yields (ready conf hw' rc) (FF (dpu_soft_reset x) (\<lambda>_. FF dpu_ci_shuffling_box_config (\<lambda>_. FF dpu_identity (\<lambda>_ r.
      FF (dpu_thermal_config (std_temperature (r_hw r))) (\<lambda>_. dpu_carousel_config_step) r)))) (\<lambda>_. ready conf hw' rc)" for x
    by (rule yields_FF [OF soft_reset], rule yields_FF [OF yields_shuffling [OF hw'(2)]],
        rule yields_FF [OF yields_identity [OF hw'(1,3)] last])
  then have rest: "yields (ready conf hw' rc) (\<lambda>r. FF (dpu_soft_reset (from_division_factor_to_dpu_enum (clock_division (r_hw r))))
      (\<lambda>_. FF dpu_ci_shuffling_box_config (\<lambda>_. FF dpu_identity (\<lambda>_ r.
      FF (dpu_thermal_config (std_temperature (r_hw r))) (\<lambda>_. dpu_carousel_config_step) r))) r) (\<lambda>_. ready conf hw' rc)"
    by (rule yields_cong) (simp add: readyD(5))
  show ?thesis unfolding reset_chips_def hw'_def [symmetric]
  proof (rule yields_FF [OF yields_byte_order], rule yields_FF [OF soft_reset])
    have "yields (rebooted conf hw rc) dpu_bit_config_step (\<lambda>_. ready conf hw' rc)"
      unfolding hw'_def by (rule yields_bit_config [OF assms(1)])
    from yields_FF [OF this yields_FF [OF yields_pre [OF yields_shuffling [OF hw'(2)] ready_rebooted] rest]]
    show "yields (rebooted conf hw rc) (FF dpu_bit_config_step (\<lambda>_. FF dpu_ci_shuffling_box_config (\<lambda>_ r.
      FF (dpu_soft_reset (from_division_factor_to_dpu_enum (clock_division (r_hw r)))) (\<lambda>_.
      FF dpu_ci_shuffling_box_config (\<lambda>_. FF dpu_identity (\<lambda>_ r.
      FF (dpu_thermal_config (std_temperature (r_hw r))) (\<lambda>_. dpu_carousel_config_step) r))) r))) (\<lambda>_. ready conf hw' rc)"
      by simp
  qed
qed

section \<open>The registers of the DPUs\<close>

lemma live_repair: "succeeds live (ufi_iram_repair_config m c)" "succeeds live (ufi_wram_repair_config m b c)"
  unfolding ufi_iram_repair_config_def ufi_wram_repair_config_def wram_repair_frame_def Let_def
  by (intro live_exec live_dma_ctrl;
      simp add: command_defs CI_IREPAIR_CONFIG_AB_STRUCT_def CI_IREPAIR_CONFIG_AB_FRAME_def CI_IREPAIR_CONFIG_CD_STRUCT_def
        CI_IREPAIR_CONFIG_CD_FRAME_def CI_IREPAIR_CONFIG_OE_STRUCT_def CI_IREPAIR_CONFIG_OE_FRAME_def
        CI_REGISTER_FILE_TIMING_CONFIG_STRUCT_def CI_REGISTER_FILE_TIMING_CONFIG_FRAME_def)+

lemma yields_default_repair:
  "yields (ready conf hw rc) (FF (ufi_select_all ALL_CIS) (\<lambda>m. ufi_iram_repair_config m c)) (\<lambda>_. ready conf hw rc)"
  "yields (ready conf hw rc) (FF (ufi_select_all ALL_CIS) (\<lambda>m. mfor banks (\<lambda>b _. ufi_wram_repair_config m (of_nat b) c) ()))
     (\<lambda>_. ready conf hw rc)"
  by (intro ready_op succeeds_FF live_select_all live_repair succeeds_mfor keeps_FF full.keeps_select full.keeps_repair keeps_mfor)+

lemma live_write_regs: "succeeds live (write_regs m a vs)"
  unfolding write_regs_def by (intro succeeds_mfor live_dma_ctrl)

lemma live_dma: "succeeds live (dpu_dma_config d)" "succeeds live (dpu_dma_shuffling_box_config b)" "succeeds live (write_wavegen_config w)"
  unfolding dpu_dma_config_def dpu_dma_shuffling_box_config_def write_wavegen_config_def dpu_wavegen_reg_config_def
    dpu_wavegen_timing_config_def dpu_wavegen_vector_sampling_config_def dpu_wavegen_rowhammer_and_refresh_config_def Let_def
  by (intro succeeds_FF live_select_all live_write_regs live_dma_ctrl)+

lemma live_state: "(\<And>x. succeeds live (f x)) \<Longrightarrow> succeeds live (\<lambda>r. f (g r) r)"
  by (simp add: succeeds_def)

lemma live_wavegen: "succeeds live (dpu_wavegen_config w)"
proof -
  have "succeeds live (\<lambda>r. mfor [0..<nr_dpus r] (\<lambda>each_dpu _. FF (ufi_select_dpu ALL_CIS (refresh_target (nr_dpus r) each_dpu))
      (\<lambda>ci_mask. FF (ufi_write_dma_ctrl ci_mask 0x83 (refresh_ctrl w)) (\<lambda>_. ufi_clear_dma_ctrl ci_mask))) () r)"
    by (rule live_state) (intro succeeds_mfor succeeds_FF live_select live_dma_ctrl)
  then show ?thesis unfolding dpu_wavegen_config_def by (intro succeeds_FF live_dma)
qed

lemma live_opt_frame: "\<not> resets s \<Longrightarrow> \<not> resets f \<Longrightarrow> succeeds live (UFI_exec_opt_frame m s f None)"
  unfolding UFI_exec_opt_frame_def by (simp add: succeeds_FF live_void_frame succeeds_ok)

lemma live_clear: "succeeds live dpu_clear_debug" "succeeds live dpu_clear_run_bits"
proof -
  show "succeeds live dpu_clear_debug"
    unfolding dpu_clear_debug_def ufi_clear_debug_replace_def ufi_clear_fault_poison_def ufi_clear_fault_bkp_def
      ufi_clear_fault_dma_def ufi_clear_fault_mem_def ufi_clear_fault_dpu_def ufi_clear_fault_intercept_def
    by (intro succeeds_FF live_select_all live_void_frame;
        simp add: CI_DEBUG_STD_REPLACE_CLEAR_STRUCT_def CI_DEBUG_STD_REPLACE_CLEAR_FRAME_def CI_POISON_FAULT_CLEAR_STRUCT_def
          CI_POISON_FAULT_CLEAR_FRAME_def CI_BKP_FAULT_CLEAR_STRUCT_def CI_BKP_FAULT_CLEAR_FRAME_def
          CI_DMA_FAULT_READ_AND_CLR_STRUCT_def CI_DMA_FAULT_READ_AND_CLR_FRAME_def CI_MEM_FAULT_READ_AND_CLR_STRUCT_def
          CI_MEM_FAULT_READ_AND_CLR_FRAME_def CI_DPU_FAULT_STATE_CLR_STRUCT_def CI_DPU_FAULT_STATE_CLR_FRAME_def
          CI_BKP_FAULT_READ_STRUCT_def CI_BKP_FAULT_READ_FRAME_def)
  have "succeeds live (FF (ufi_select_all ALL_CIS) (\<lambda>ci_mask.
        mfor [0..<n] (\<lambda>each_bit _. FF (ufi_clear_run_bit ci_mask (of_nat each_bit) None) (\<lambda>_. ok ())) ()))" for n
    unfolding ufi_clear_run_bit_def
    by (intro succeeds_FF live_select_all succeeds_mfor live_opt_frame succeeds_ok;
        simp add: CI_THREAD_CLR_RUN_STRUCT_def CI_THREAD_CLR_RUN_FRAME_def)
  then show "succeeds live dpu_clear_run_bits" unfolding dpu_clear_run_bits_def Let_def by (simp add: succeeds_def)
qed

text \<open>On a full rank \<open>ufi_select_all\<close> selects all DPUs of all CIs.\<close>

lemma yields_select_all:
  "yields (ready conf hw rc) (ufi_select_all ALL_CIS) (\<lambda>m r. ready conf hw rc r \<and> m = ALL_CIS \<and> all_selected r)"
proof (rule yieldsI)
  fix r assume r: "ready conf hw rc r"
  obtain m t where run: "ufi_select_all ALL_CIS r = (Ret m, t)" and t: "ready conf hw rc t"
    using ready_select_all r by (rule yieldsE)
  note R = readyD [OF r] note T = readyD [OF t]
  from select_all_targets [OF R(3) run] have mask: "bit m ci \<longleftrightarrow> bit ALL_CIS ci \<and> (ci < nr_cis r \<longrightarrow> all_dpus_are_enabled (r_slice r ci)
        \<or> enabled_dpus (r_slice r ci) \<noteq> 0 \<or> target_is DPU_SLICE_TARGET_GROUP DPU_ENABLED_GROUP (r_slice r ci))" for ci by blast
  then have "bit m ci \<longleftrightarrow> bit ALL_CIS ci" for ci using R(5,10) by auto
  then have m: "m = ALL_CIS" by (intro bit_word_eqI) simp
  have "target_type (slice_target (r_slice t ci)) = DPU_SLICE_TARGET_ALL" if "ci < nr_cis t" for ci
  proof -
    have ci: "ci < nr_cis r" "ci < 8" using that R(5,8) T(5) by simp_all
    then have "bit m ci" using m every_CI_bit by simp
    moreover have "all_dpus_are_enabled (r_slice r ci)" using R(5,10) ci by simp
    ultimately show ?thesis using select_all_targets [OF R(3) run] ci(1) by simp
  qed
  with run t m show "\<exists>m t. ufi_select_all ALL_CIS r = (Ret m, t) \<and> ready conf hw rc t \<and> m = ALL_CIS \<and> all_selected t"
    by (auto simp: all_selected_def)
qed

text \<open>A step that starts by selecting all DPUs.\<close>

lemma yields_all:
  "yields (\<lambda>r. ready conf hw rc r \<and> all_selected r) (k ALL_CIS) Q \<Longrightarrow> yields (ready conf hw rc) (FF (ufi_select_all ALL_CIS) k) Q"
  by (rule yields_FF [OF yields_select_all]) (auto simp: yields_def)

lemma put_results_same:
  assumes "\<forall>ci \<in> set (ci_list r m). f ci = v" shows "put_results r m f (replicate n v) = replicate n v"
proof -
  have "fold (\<lambda>ci xs. xs[ci := f ci]) cis (replicate n v) = replicate n v" if "\<forall>ci \<in> set cis. f ci = v" for cis
    using that
  proof (induction cis)
    case (Cons c cis)
    have "(replicate n v)[c := v] = replicate n v" by (metis list_update_beyond list_update_id nth_replicate not_less length_replicate)
    with Cons show ?case by simp
  qed simp
  with assms show ?thesis by (simp add: put_results_def)
qed

lemma pc_mode_not_resets: "\<not> resets CI_PC_MODE_READ_STRUCT" "\<not> resets CI_PC_MODE_READ_FRAME" "CI_PC_MODE_READ_FRAME \<noteq> CI_EMPTY"
  by (simp_all add: CI_PC_MODE_READ_STRUCT_def CI_PC_MODE_READ_FRAME_def) (simp add: ci_frame_def CI_EMPTY_def)

lemma yields_get_pc_mode:
  assumes "ucast (reply CI_PC_MODE_READ_FRAME) = v"
  shows "yields (ready conf hw rc) (ufi_get_pc_mode m (replicate 8 v)) (\<lambda>modes r. ready conf hw rc r \<and> modes = replicate 8 v)"
  unfolding ufi_get_pc_mode_def
proof (rule yields_FF [OF ready_8bit_frame [OF pc_mode_not_resets]])
  fix modes
  show "yields (\<lambda>r. ready conf hw rc r \<and> replies m (nr_of_control_interfaces hw) CI_PC_MODE_READ_FRAME (replicate 8 0) modes)
      (\<lambda>r. ok (put_results r m (\<lambda>each_ci. modes ! each_ci) (replicate 8 v)) r) (\<lambda>modes r. ready conf hw rc r \<and> modes = replicate 8 v)"
  proof (rule yields_run, rule conjI, simp, intro conjI)
    fix r assume r: "ready conf hw rc r \<and> replies m (nr_of_control_interfaces hw) CI_PC_MODE_READ_FRAME (replicate 8 0) modes"
    then have hw: "r_hw r = hw" "rank_wf r" using readyD(3,5) by blast+
    have "\<forall>ci \<in> set (ci_list r m). modes ! ci = v"
      using r hw assms ci_list_lt [OF hw(2)] ci_list_iff [OF hw(2)] by (auto simp: replies_def)
    then show "put_results r m (\<lambda>each_ci. modes ! each_ci) (replicate 8 v) = replicate 8 v" by (rule put_results_same)
  qed blast
qed simp

lemma yields_set_pc_mode:
  assumes "ucast (reply CI_PC_MODE_READ_FRAME) = v"
  shows "yields (ready conf hw rc) (dpu_set_pc_mode v) (\<lambda>_. ready conf hw rc)"
proof -
  have set_mode: "yields (ready conf hw rc) (ufi_set_pc_mode m ms) (\<lambda>_. ready conf hw rc)" for m ms
    unfolding ufi_set_pc_mode_def
    by (intro ready_op succeeds_FF live_write_structure live_fill_and_exec keeps_FF full.keeps_write_structure full.keeps_frames;
        simp add: CI_PC_MODE_WRITE_STRUCT_def CI_PC_MODE_WRITE_FRAME_def)
  let ?Q = "\<lambda>(mismatch, modes). \<not> mismatch \<and> modes = replicate 8 v"
  let ?body = "\<lambda>dpu_id (mismatch, pc_modes). FF (ufi_select_dpu ALL_CIS dpu_id) (\<lambda>ci_mask.
           FF (ufi_get_pc_mode ci_mask pc_modes) (\<lambda>pc_modes r. ok (pc_mode_mismatch r pc_modes v dpu_id, pc_modes) r))"
  have body: "yields (\<lambda>s. ready conf hw rc s \<and> ?Q a) (?body d a) (\<lambda>b s. ready conf hw rc s \<and> ?Q b)" if d: "d < 8" for d a
  proof (cases a)
    case (Pair mm modes)
    have "yields (\<lambda>s. ready conf hw rc s \<and> modes = replicate 8 v) (FF (ufi_select_dpu ALL_CIS d) (\<lambda>ci_mask.
           FF (ufi_get_pc_mode ci_mask modes) (\<lambda>pc_modes r. ok (pc_mode_mismatch r pc_modes v d, pc_modes) r)))
        (\<lambda>b s. ready conf hw rc s \<and> ?Q b)"
    proof (cases "modes = replicate 8 v")
      case True
      have sel: "yields (ready conf hw rc) (ufi_select_dpu ALL_CIS d) (\<lambda>_. ready conf hw rc)"
        by (intro ready_op live_select full.keeps_select)
      have "yields (ready conf hw rc) (FF (ufi_select_dpu ALL_CIS d) (\<lambda>ci_mask.
           FF (ufi_get_pc_mode ci_mask (replicate 8 v)) (\<lambda>pc_modes r. ok (pc_mode_mismatch r pc_modes v d, pc_modes) r)))
        (\<lambda>b s. ready conf hw rc s \<and> ?Q b)"
        by (rule yields_FF [OF sel], rule yields_FF [OF yields_get_pc_mode [OF assms]])
           (use d in \<open>auto simp: yields_def pc_mode_mismatch_def list_ex_iff\<close>)
      with True show ?thesis by simp
    qed (simp add: yields_def)
    then show ?thesis using Pair by (auto simp: yields_def)
  qed
  have loop: "yields (ready conf hw rc) (FF (mfor ds ?body (False, replicate 8 v))
      (\<lambda>(mismatch, _). if mismatch then fail DPU_ERR_INTERNAL else ok ())) (\<lambda>_. ready conf hw rc)" if "\<forall>d \<in> set ds. d < 8" for ds
    by (rule yields_FF, rule yields_mfor [where P = "ready conf hw rc" and Q = ?Q])
       (use body that in \<open>auto simp: yields_def\<close>)
  show ?thesis unfolding dpu_set_pc_mode_def
  proof (rule yields_FF [OF ready_select_all], rule yields_FF [OF set_mode])
    show "yields (ready conf hw rc) (\<lambda>r. FF (mfor [0..<nr_dpus r] ?body (False, replicate 8 v))
      (\<lambda>(mismatch, _). if mismatch then fail DPU_ERR_INTERNAL else ok ()) r) (\<lambda>_. ready conf hw rc)"
    proof (rule yields_cong [OF loop])
      show "\<forall>d \<in> set [0..<min 8 (nr_of_dpus_per_control_interface hw)]. d < 8" by auto
      fix s assume s: "ready conf hw rc s"
      then have "nr_dpus s = min 8 (nr_of_dpus_per_control_interface hw)" using readyD(3,5) rank_wfD(3) by fastforce
      then show "FF (mfor [0..<nr_dpus s] ?body (False, replicate 8 v))
      (\<lambda>(mismatch, _). if mismatch then fail DPU_ERR_INTERNAL else ok ()) s = FF (mfor [0..<min 8 (nr_of_dpus_per_control_interface hw)] ?body (False, replicate 8 v))
      (\<lambda>(mismatch, _). if mismatch then fail DPU_ERR_INTERNAL else ok ()) s" by simp
    qed
  qed
qed

section \<open>Frames for every CI\<close>

lemma ready_fill:
  assumes "ready conf hw rc r" and "\<And>ci. \<not> resets (f ci)"
  shows "ready conf hw rc (fill_cmds m f r)"
  using assms live_fill [of f r m] full.I_fill [of conf hw rc r m f] by (simp add: ready_def)

lemma fill_all_cmds:
  "ready conf hw rc r \<Longrightarrow> ci < nr_of_control_interfaces hw \<Longrightarrow> r_cmds (fill_cmds ALL_CIS f r) ! ci = f ci"
proof -
  assume r: "ready conf hw rc r" and ci: "ci < nr_of_control_interfaces hw"
  note R = readyD [OF r]
  have "ci < 8" using R(8) ci by simp
  moreover have "ci \<in> set (ci_list r ALL_CIS)" using ci \<open>ci < 8\<close> every_CI_bit R(5) by (simp add: ci_list_def CI_MASK_ON_bit)
  ultimately show ?thesis using rank_wfD(5) [OF R(3)] by (simp add: fill_cmds_def nth_fold_update)
qed

lemma yields_fill:
  "(\<And>ci. \<not> resets (f ci)) \<Longrightarrow> yields (ready conf hw rc) (modify (fill_cmds ALL_CIS f))
    (\<lambda>_ r. ready conf hw rc r \<and> (\<forall>ci < nr_of_control_interfaces hw. r_cmds r ! ci = f ci))"
  by (rule yields_modify) (auto simp: ready_fill fill_all_cmds)

lemma stack_not_resets: "\<not> resets CI_STACK_UP_READ_AND_SET_STRUCT" "\<not> resets CI_STACK_UP_READ_AND_SET_FRAME"
  "\<not> resets CI_STACK_UP_READ_AND_CLR_FRAME" "CI_STACK_UP_READ_AND_SET_FRAME \<noteq> CI_EMPTY"
  by (simp_all add: CI_STACK_UP_READ_AND_SET_STRUCT_def CI_STACK_UP_READ_AND_SET_FRAME_def CI_STACK_UP_READ_AND_CLR_FRAME_def)
     (simp add: ci_frame_def CI_EMPTY_def)

lemma yields_stack_direction:
  shows "yields (ready conf hw rc) (ufi_set_stack_direction ALL_CIS (replicate 8 True) None) (\<lambda>_. ready conf hw rc)"
    and "yields (ready conf hw rc) (ufi_set_stack_direction ALL_CIS (replicate 8 True) (Some (replicate 8 0)))
      (\<lambda>previous r. ready conf hw rc r \<and> replies ALL_CIS (nr_of_control_interfaces hw) CI_STACK_UP_READ_AND_SET_FRAME
         (replicate 8 0) (the previous))"
proof -
  let ?f = "\<lambda>ci. if replicate 8 True ! ci then CI_STACK_UP_READ_AND_SET_FRAME else CI_STACK_UP_READ_AND_CLR_FRAME"
  have f: "\<not> resets (?f ci)" for ci by (simp add: stack_not_resets)
  have struct: "yields (ready conf hw rc) (UFI_exec_write_structure ALL_CIS CI_STACK_UP_READ_AND_SET_STRUCT) (\<lambda>_. ready conf hw rc)"
    by (intro ready_op live_write_structure full.keeps_write_structure stack_not_resets)
  have void: "yields (\<lambda>r. ready conf hw rc r \<and> (\<forall>ci < nr_of_control_interfaces hw. r_cmds r ! ci = ?f ci))
      (FF exec_cmds_void (\<lambda>_. ok (None :: u8 list option))) (\<lambda>_. ready conf hw rc)"
    by (rule yields_FF [OF yields_pre [OF ready_exec_cmds [of conf hw rc]]], blast, rule yields_ok)
  have bytes: "yields (\<lambda>r. ready conf hw rc r \<and> (\<forall>ci < nr_of_control_interfaces hw. r_cmds r ! ci = ?f ci))
      (exec_cmds_8bit (replicate 8 0)) (\<lambda>res r. ready conf hw rc r \<and> replies ALL_CIS (nr_of_control_interfaces hw)
        CI_STACK_UP_READ_AND_SET_FRAME (replicate 8 0) res)"
    unfolding exec_cmds_8bit_def ci_exec_8bit_cmd_def
    by (rule ready_exec_value [OF u8_of_u32 stack_not_resets(4)]) (simp_all add: every_CI_bit)
  show "yields (ready conf hw rc) (ufi_set_stack_direction ALL_CIS (replicate 8 True) None) (\<lambda>_. ready conf hw rc)"
    unfolding ufi_set_stack_direction_def option.case
    by (rule yields_FF [OF struct], rule yields_FF [OF yields_fill [OF f] void])
  show "yields (ready conf hw rc) (ufi_set_stack_direction ALL_CIS (replicate 8 True) (Some (replicate 8 0)))
      (\<lambda>previous r. ready conf hw rc r \<and> replies ALL_CIS (nr_of_control_interfaces hw) CI_STACK_UP_READ_AND_SET_FRAME
         (replicate 8 0) (the previous))"
    unfolding ufi_set_stack_direction_def option.case
    by (rule yields_FF [OF struct], rule yields_FF [OF yields_fill [OF f]], rule yields_FF [OF bytes], rule yields_ok) simp
qed

lemma yields_set_stack:
  assumes "ucast (reply CI_STACK_UP_READ_AND_SET_FRAME) = (0xFF :: u8)"
  shows "yields (ready conf hw rc) (dpu_set_stack_direction True) (\<lambda>_. ready conf hw rc)"
  unfolding dpu_set_stack_direction_def
proof (rule yields_all, rule yields_FF, rule yields_pre [OF yields_stack_direction(1)], erule conjunct1,
    rule yields_FF [OF yields_stack_direction(2)])
  fix previous
  show "yields (\<lambda>r. ready conf hw rc r \<and> replies ALL_CIS (nr_of_control_interfaces hw) CI_STACK_UP_READ_AND_SET_FRAME
         (replicate 8 0) (the previous))
      (\<lambda>r. if stack_mismatch r (the previous) True then fail DPU_ERR_INTERNAL r else ok () r) (\<lambda>_. ready conf hw rc)"
  proof (rule yields_run, rule conjI)
    fix r assume r: "ready conf hw rc r \<and> replies ALL_CIS (nr_of_control_interfaces hw) CI_STACK_UP_READ_AND_SET_FRAME
         (replicate 8 0) (the previous)"
    note R = readyD [OF conjunct1 [OF r]]
    have "the previous ! ci = 0xFF" if "ci < nr_cis r" for ci
    proof -
      have "ci < 8" "ci < nr_of_control_interfaces hw" using that R(5,8) by simp_all
      then show ?thesis using r every_CI_bit [of ci] assms by (simp add: replies_def)
    qed
    moreover have "dpu_mask_is_selected 0xFF d" if "d < nr_dpus r" for d
      unfolding is_selected_iff_bit by (subst bit_255_iff) (use that rank_wfD(3) [OF R(3)] in simp)
    ultimately have "\<not> stack_mismatch r (the previous) True" by (auto simp: stack_mismatch_def list_ex_iff)
    then show "(if stack_mismatch r (the previous) True then fail DPU_ERR_INTERNAL r else ok () r) = (Ret (), r)" by simp
    show "ready conf hw rc r" using r by blast
  qed
qed

section \<open>Writing the instruction memory\<close>

lemma low_byte: "(ucast (x :: u64) :: u32) = y \<Longrightarrow> (ucast x :: u8) = ucast y"
  by (subst u8_of_u32) (simp only:)

lemma ready_wait_mask:
  assumes "\<And>ci. ucast (reply (f ci)) = (0xFF :: u8)" "\<And>ci. f ci \<noteq> CI_EMPTY"
  shows "yields (\<lambda>r. (ready conf hw rc r \<and> all_selected r) \<and> (\<forall>ci < nr_of_control_interfaces hw. r_cmds r ! ci = f ci))
    exec_cmds_wait_mask (\<lambda>_ r. ready conf hw rc r \<and> all_selected r)"
proof (rule yieldsI)
  fix r assume r: "(ready conf hw rc r \<and> all_selected r) \<and> (\<forall>ci < nr_of_control_interfaces hw. r_cmds r ! ci = f ci)"
  then have sel: "all_selected r" and rd: "ready conf hw rc r" by blast+
  note R = readyD [OF rd]
  let ?c = "r_cmds r"
  have c: "\<forall>ci < nr_cis r. ?c ! ci \<noteq> CI_EMPTY \<and> ucast (reply (?c ! ci)) = (0xFF :: u8)" using r assms R(5) by simp
  have le: "nr_cis r \<le> 8" "nr_dpus r \<le> 8" using rank_wfD(2,3) [OF R(3)] by simp_all
  note masks = mark_all_masks [OF le(1)]
  have "\<exists>t. exec_cmd ?c True r = (Ret (), t) \<and> live t"
  proof (rule live_exec_cmd [OF R(1,9) compute_masks_all [OF R(3) sel]])
    show "\<forall>ci < nr_cis r. ?c ! ci \<noteq> CI_EMPTY" using c by blast
    then show "ms_cis (fold (mark_all (bit_of (nr_dpus r) - 1) (ucast (bit_of (nr_dpus r) - 1 :: u8))) [0..<nr_cis r] no_masks)
        = compute_ci_mask (nr_cis r) ?c"
      by (simp add: compute_ci_mask_full masks(1))
    fix w b b' w' st ci
    assume commit: "commit_commands h ?c (r_world r) = (DPU_RANK_SUCCESS, w)" and up: "update_commands h b w = (st, b', w')" "length b = 8"
      and ci: "ci < nr_cis r"
    have lt: "ci < 8" using ci le(1) by simp
    have "ucast (b' ! ci) = reply (?c ! ci)" using show_reply [OF up lt] latch [OF commit lt] c ci by simp
    from low_byte [OF this] have "(ucast (b' ! ci) :: u8) = 0xFF" using c ci by simp
    note ack = acknowledged [OF conjunct1 [OF answers [OF up lt]] this le(2)]
    show "ms_is_done (fold (mark_all (bit_of (nr_dpus r) - 1) (ucast (bit_of (nr_dpus r) - 1 :: u8))) [0..<nr_cis r] no_masks) ! ci
        \<or> ?c ! ci \<noteq> CI_EMPTY \<and> result_present (b' ! ci)
          (expected_results (fold (mark_all (bit_of (nr_dpus r) - 1) (ucast (bit_of (nr_dpus r) - 1 :: u8))) [0..<nr_cis r] no_masks) ! ci)
          (result_masks (fold (mark_all (bit_of (nr_dpus r) - 1) (ucast (bit_of (nr_dpus r) - 1 :: u8))) [0..<nr_cis r] no_masks) ! ci)"
      unfolding masks(2) [OF ci] masks(3) [OF ci] using ack c ci by blast
  qed
  then obtain t where run: "exec_cmd ?c True r = (Ret (), t)" and "live t" by blast
  moreover have "full_rank conf hw rc t \<and> all_selected t"
    using R(2) sel by (intro keeps_eqD [OF selected.keeps_exec_cmd _ run]) blast
  ultimately show "\<exists>x t. exec_cmds_wait_mask r = (Ret x, t) \<and> ready conf hw rc t \<and> all_selected t"
    by (simp add: exec_cmds_wait_mask_def ci_exec_wait_mask_cmd_def ready_def)
qed

lemma yields_loop: "(\<And>i a. i \<in> set is \<Longrightarrow> yields P (f i a) (\<lambda>_. P)) \<Longrightarrow> yields P (mfor is f a) (\<lambda>_. P)"
  unfolding yields_succeeds [symmetric] by (rule succeeds_mfor)

lemma selected_op:
  assumes "succeeds live m" and "\<And>conf hw rc. keeps (\<lambda>r. full_rank conf hw rc r \<and> all_selected r) m"
  shows "yields (\<lambda>r. ready conf hw rc r \<and> all_selected r) m (\<lambda>_ r. ready conf hw rc r \<and> all_selected r)"
  using yields_keeps [OF yields_of_succeeds [OF assms(1)] assms(2) [of conf hw rc]]
  by (simp add: yields_def ready_def conj_assoc)

lemma iram_not_resets: "\<not> resets (CI_IRAM_WRITE_INSTRUCTION_STRUCT a)" "\<not> resets (CI_IRAM_WRITE_INSTRUCTION_FRAME x a)"
  by (simp_all add: CI_IRAM_WRITE_INSTRUCTION_STRUCT_def CI_IRAM_WRITE_INSTRUCTION_FRAME_def)

lemma frame_not_empty: "ci_frame b0 b1 b2 b3 b4 b5 b6 \<noteq> CI_EMPTY"
proof
  assume "ci_frame b0 b1 b2 b3 b4 b5 b6 = CI_EMPTY"
  then have "bit (ci_frame b0 b1 b2 b3 b4 b5 b6) 60 = bit CI_EMPTY 60" by simp
  then show False by (simp add: ci_frame_def CI_EMPTY_def bit_or_iff)
qed

lemma yields_iram_write:
  assumes "\<And>ci i. i < unat len \<Longrightarrow> ucast (reply (CI_IRAM_WRITE_INSTRUCTION_FRAME (src ci i) (ucast (off + of_nat i)))) = (0xFF :: u8)"
  shows "yields (\<lambda>r. ready conf hw rc r \<and> all_selected r) (ufi_iram_write ALL_CIS src off len)
    (\<lambda>_ r. ready conf hw rc r \<and> all_selected r)"
  unfolding ufi_iram_write_def Let_def
proof (rule yields_loop, rule yields_FF)
  fix i and a :: unit and x :: unit assume i: "i \<in> set [0..<unat len]"
  let ?a = "ucast (off + of_nat i) :: u64"
  show "yields (\<lambda>r. ready conf hw rc r \<and> all_selected r) (UFI_exec_write_structure ALL_CIS (CI_IRAM_WRITE_INSTRUCTION_STRUCT ?a))
      (\<lambda>_ r. ready conf hw rc r \<and> all_selected r)"
    by (rule selected_op [OF live_write_structure [OF iram_not_resets(1)] selected.keeps_write_structure])
  let ?f = "\<lambda>ci. CI_IRAM_WRITE_INSTRUCTION_FRAME (src ci i) ?a"
  show "yields (\<lambda>r. ready conf hw rc r \<and> all_selected r) (FF (modify (fill_cmds ALL_CIS ?f)) (\<lambda>_. exec_cmds_wait_mask))
      (\<lambda>_ r. ready conf hw rc r \<and> all_selected r)"
  proof (rule yields_FF [OF _ ready_wait_mask [where f = ?f]], rule yields_modify)
    fix r assume r: "ready conf hw rc r \<and> all_selected r"
    have "all_selected (fill_cmds ALL_CIS ?f r)" using conjunct2 [OF r] by (rule all_selected_cong) (simp_all add: fill_cmds_def)
    then show "(ready conf hw rc (fill_cmds ALL_CIS ?f r) \<and> all_selected (fill_cmds ALL_CIS ?f r))
        \<and> (\<forall>ci < nr_of_control_interfaces hw. r_cmds (fill_cmds ALL_CIS ?f r) ! ci = ?f ci)"
      using r fill_all_cmds [OF conjunct1 [OF r], where f = ?f] by (simp add: ready_fill iram_not_resets)
  qed (use i in \<open>simp_all add: assms\<close>, simp add: CI_IRAM_WRITE_INSTRUCTION_FRAME_def frame_not_empty)
qed

lemma live_thread_boot: "succeeds live (FF (ufi_thread_boot m n None) (\<lambda>_. ok ()))"
  unfolding ufi_thread_boot_def
  by (intro succeeds_FF succeeds_ok live_opt_frame) (simp_all add: CI_THREAD_BOOT_STRUCT_def CI_THREAD_BOOT_FRAME_def)

lemma run_state_not_resets: "\<not> resets CI_DPU_RUN_STATE_READ_STRUCT" "\<not> resets CI_DPU_RUN_STATE_READ_FRAME"
  "CI_DPU_RUN_STATE_READ_FRAME \<noteq> CI_EMPTY"
  by (simp_all add: CI_DPU_RUN_STATE_READ_STRUCT_def CI_DPU_RUN_STATE_READ_FRAME_def frame_not_empty)

lemma yields_wait_reset:
  assumes "ucast (reply CI_DPU_RUN_STATE_READ_FRAME) = (0 :: u8)"
  shows "yields (ready conf hw rc) (wait_internal_reset (Suc fuel) ALL_CIS (replicate 8 0)) (\<lambda>_. ready conf hw rc)"
  unfolding wait_internal_reset.simps ufi_read_dpu_run_def
proof (rule yields_FF [OF ready_8bit_frame [OF run_state_not_resets]])
  fix state
  show "yields (\<lambda>r. ready conf hw rc r \<and> replies ALL_CIS (nr_of_control_interfaces hw) CI_DPU_RUN_STATE_READ_FRAME (replicate 8 0) state)
      (\<lambda>r. let mask_all = bit_of (nr_dpus r) - 1 :: u8
       in if list_ex (\<lambda>each_ci. state ! each_ci AND mask_all \<noteq> 0) (ci_list r ALL_CIS)
          then wait_internal_reset fuel ALL_CIS state r else ok () r) (\<lambda>_. ready conf hw rc)"
  proof (rule yields_cong)
    fix r assume r: "ready conf hw rc r \<and> replies ALL_CIS (nr_of_control_interfaces hw) CI_DPU_RUN_STATE_READ_FRAME (replicate 8 0) state"
    note R = readyD [OF conjunct1 [OF r]]
    have "state ! ci = 0" if "ci \<in> set (ci_list r ALL_CIS)" for ci
      using r that ci_list_lt [OF R(3) that] assms by (simp add: replies_def)
    then have "\<not> list_ex (\<lambda>each_ci. state ! each_ci AND (bit_of (nr_dpus r) - 1) \<noteq> 0) (ci_list r ALL_CIS)" by (auto simp: list_ex_iff)
    then show "(let mask_all = bit_of (nr_dpus r) - 1 :: u8
       in if list_ex (\<lambda>each_ci. state ! each_ci AND mask_all \<noteq> 0) (ci_list r ALL_CIS)
          then wait_internal_reset fuel ALL_CIS state r else ok () r) = ok () r" by (simp only: Let_def if_False)
  qed (rule yields_ok, blast)
qed simp

lemma yields_internal_state:
  assumes "\<And>i. i < length program \<Longrightarrow> ucast (reply (CI_IRAM_WRITE_INSTRUCTION_FRAME (program ! i) (of_nat i))) = (0xFF :: u8)"
    and "ucast (reply CI_DPU_RUN_STATE_READ_FRAME) = (0 :: u8)" and "0 < fuel"
  shows "yields (ready conf hw rc) (dpu_reset_internal_state fuel (Some program)) (\<lambda>_. ready conf hw rc)"
proof -
  obtain k where fuel: "fuel = Suc k" using assms(3) by (cases fuel) auto
  have boot: "yields (ready conf hw rc) (mfor ts (\<lambda>each_thread _. FF (ufi_thread_boot m (of_nat each_thread) None) (\<lambda>_. ok ())) ())
      (\<lambda>_. ready conf hw rc)" for ts m
    by (intro yields_loop ready_op live_thread_boot keeps_FF full.keeps_threads keeps_ok)
  have word: "ucast (reply (CI_IRAM_WRITE_INSTRUCTION_FRAME (program ! i) (ucast (0 + of_nat i :: u16)))) = (0xFF :: u8)"
    if "i < unat (of_nat (length program) :: u16)" for i
  proof -
    have "unat (of_nat (length program) :: u16) \<le> length program" by (simp add: unat_of_nat)
    moreover have "i < 65536" using that unsigned_less [of "of_nat (length program) :: u16", where ?'a = nat] by simp
    then have "(ucast (of_nat i :: u16) :: u64) = of_nat i" by (simp add: word_unat_eq_iff unsigned_ucast_eq unat_of_nat take_bit_nat_eq_self)
    ultimately show ?thesis using that assms(1) [of i] by simp
  qed
  have "yields (ready conf hw rc) (FF (ufi_select_all ALL_CIS) (\<lambda>ci_mask.
          FF (ufi_iram_write ci_mask (\<lambda>_ i. program ! i) 0 (of_nat (length program))) (\<lambda>_.
          FF (mfor [0..<n] (\<lambda>each_thread _. FF (ufi_thread_boot ci_mask (of_nat each_thread) None) (\<lambda>_. ok ())) ()) (\<lambda>_.
          wait_internal_reset fuel ci_mask (replicate 8 0))))) (\<lambda>_. ready conf hw rc)" for n
    unfolding fuel
    by (rule yields_all, rule yields_FF [OF yields_iram_write], rule word, assumption, rule yields_FF [OF yields_pre [OF boot]], erule conjunct1,
        rule yields_wait_reset [OF assms(2)])
  then show ?thesis by (simp add: dpu_reset_internal_state_def yields_def)
qed

section \<open>The multiplexers\<close>

text \<open>Every entry of the results reads as a multiplexer on the side of the host.\<close>

definition host_side :: "u8 list \<Rightarrow> bool" where
  "host_side res \<longleftrightarrow> length res = 8 \<and> (\<forall>i < 8. res ! i AND 0x7B = 0)"

lemma dma_read_not_resets: "\<not> resets CI_DMA_CTRL_READ_STRUCT" "\<not> resets CI_DMA_CTRL_READ_FRAME" "CI_DMA_CTRL_READ_FRAME \<noteq> CI_EMPTY"
  by (simp_all add: CI_DMA_CTRL_READ_STRUCT_def CI_DMA_CTRL_READ_FRAME_def frame_not_empty)

lemma yields_read_mux:
  assumes "ucast (reply CI_DMA_CTRL_READ_FRAME) AND 0x7B = (0 :: u8)" and "host_side res"
  shows "yields (ready conf hw rc) (ufi_read_dma_ctrl m res) (\<lambda>res' r. ready conf hw rc r \<and> host_side res')"
  unfolding ufi_read_dma_ctrl_def
  by (rule yields_post [OF ready_8bit_frame [OF dma_read_not_resets]])
     (use assms in \<open>auto simp: replies_def host_side_def\<close>)

lemma yields_rank_mux_loop:
  assumes "ucast (reply CI_DMA_CTRL_READ_FRAME) AND 0x7B = (0 :: u8)" and "host_side res" and "1 < n"
  shows "yields (ready conf hw rc) (rank_mux_loop n d m WAVEGEN_MUX_HOST_EXPECTED res)
    (\<lambda>(late, res') r. ready conf hw rc r \<and> \<not> late \<and> host_side res')"
  unfolding rank_mux_loop.simps [of n]
proof (rule yields_FF)
  show "yields (ready conf hw rc) (ufi_select_dpu_even_disabled ALL_CIS d) (\<lambda>_. ready conf hw rc)"
    by (intro ready_op live_select full.keeps_select)
  fix sm
  show "yields (ready conf hw rc) (FF (ufi_read_dma_ctrl sm res) (\<lambda>results r.
       let should_retry = list_ex (mux_mismatch results (\<lambda>_. WAVEGEN_MUX_HOST_EXPECTED)) (ci_list r m); timeout' = n - 1
       in if timeout' \<noteq> 0 \<and> should_retry then rank_mux_loop timeout' d m WAVEGEN_MUX_HOST_EXPECTED results r
          else ok (timeout' = 0, results) r)) (\<lambda>(late, res') r. ready conf hw rc r \<and> \<not> late \<and> host_side res')"
  proof (rule yields_FF [OF yields_read_mux [OF assms(1,2)]], rule yieldsI)
    fix res' r assume r: "ready conf hw rc r \<and> host_side res'"
    have "res' ! ci AND 0x7B = 0" if "ci \<in> set (ci_list r m)" for ci
      using r that ci_list_lt [OF readyD(3) [OF conjunct1 [OF r]]] by (simp add: host_side_def)
    then have "\<not> list_ex (mux_mismatch res' (\<lambda>_. WAVEGEN_MUX_HOST_EXPECTED)) (ci_list r m)"
      by (simp add: list_ex_iff mux_mismatch_def WAVEGEN_MUX_HOST_EXPECTED_def)
    with r assms(3) show "\<exists>x t. (let should_retry = list_ex (mux_mismatch res' (\<lambda>_. WAVEGEN_MUX_HOST_EXPECTED)) (ci_list r m); timeout' = n - 1
       in if timeout' \<noteq> 0 \<and> should_retry then rank_mux_loop timeout' d m WAVEGEN_MUX_HOST_EXPECTED res' r
          else ok (timeout' = 0, res') r) = (Ret x, t) \<and> (case x of (late, res') \<Rightarrow> \<lambda>r. ready conf hw rc r \<and> \<not> late \<and> host_side res') t"
      by (simp add: Let_def)
  qed
qed

lemma yields_check_rank:
  assumes "ucast (reply CI_DMA_CTRL_READ_FRAME) AND 0x7B = (0 :: u8)"
  shows "yields (ready conf hw rc) (dpu_check_wavegen_mux_status_for_rank WAVEGEN_MUX_HOST_EXPECTED) (\<lambda>_. ready conf hw rc)"
proof -
  let ?body = "\<lambda>m each_dpu (timed_out, results). if timed_out then ok (timed_out, results)
    else rank_mux_loop TIMEOUT_MUX_STATUS each_dpu m WAVEGEN_MUX_HOST_EXPECTED results"
  let ?Q = "\<lambda>(late, res). \<not> late \<and> host_side res"
  have loop: "yields (ready conf hw rc) (mfor ds (?body m) (False, replicate 8 0)) (\<lambda>b r. ready conf hw rc r \<and> ?Q b)" for ds m
  proof (rule yields_mfor)
    fix d and a :: "bool \<times> u8 list"
    show "yields (\<lambda>s. ready conf hw rc s \<and> ?Q a) (?body m d a) (\<lambda>b s. ready conf hw rc s \<and> ?Q b)"
    proof (cases a)
      case (Pair late res)
      show ?thesis
      proof (cases "\<not> late \<and> host_side res")
        case True
        then show ?thesis using Pair
          by (auto intro!: yields_post [OF yields_pre [OF yields_rank_mux_loop [OF assms]]] simp: TIMEOUT_MUX_STATUS_def)
      qed (auto simp: yields_def Pair)
    qed
  qed (simp add: host_side_def)
  have report: "yields (\<lambda>r. ready conf hw rc r \<and> ?Q b) (case b of (timed_out, _) \<Rightarrow> report_mux_timeout timed_out)
      (\<lambda>_. ready conf hw rc)" for b
    by (auto simp: yields_def report_mux_timeout_def split: prod.split)
  have rest: "yields (ready conf hw rc) (\<lambda>r. FF (mfor [0..<nr_dpus r] (?body m) (False, replicate 8 0))
      (\<lambda>(timed_out, _). report_mux_timeout timed_out) r) (\<lambda>_. ready conf hw rc)" for m
    by (rule yields_cong [OF yields_FF [OF loop report]]) (simp add: readyD(5))
  show ?thesis unfolding dpu_check_wavegen_mux_status_for_rank_def
    by (rule yields_FF [OF ready_op [OF live_select_all(2) full.keeps_select_all(2)]],
        rule yields_FF [OF ready_op [OF live_dma_ctrl(1) full.keeps_dma_ctrl(1)]],
        rule yields_FF [OF ready_op [OF live_dma_ctrl(3) full.keeps_clear_faults(9)]], rule rest)
qed

lemma ready_record_mux: "ready conf hw rc r \<Longrightarrow> ready conf hw rc (record_mux_rank host r)"
proof -
  assume r: "ready conf hw rc r"
  note R = readyD [OF r]
  have "enabled_dpus (r_slice (record_mux_rank host r) ci) = en r ci
      \<and> all_dpus_are_enabled (r_slice (record_mux_rank host r) ci) = all_dpus_are_enabled (r_slice r ci)" if "ci < 8" for ci
    using record_facts(7) [OF R(3) that] by simp
  then have "full_rank conf hw rc (record_mux_rank host r)"
    using R(2) record_facts(1,3,5) [OF R(3)] by (simp add: full_rank_def) (simp add: record_rank_eq)
  with live_record(1) [OF R(1)] show ?thesis by (simp add: ready_def)
qed

lemma yields_switch_rank:
  assumes "ucast (reply CI_DMA_CTRL_READ_FRAME) AND 0x7B = (0 :: u8)" and "nb_dpu_running rc = 0"
  shows "yields (ready conf hw rc) (dpu_switch_mux_for_rank True) (\<lambda>_. ready conf hw rc)"
proof -
  have access: "yields (ready conf hw rc) (host_handle_access_for_rank True) (\<lambda>_. ready conf hw rc)"
    unfolding host_handle_access_for_rank_def if_True
    by (rule yields_FF [OF ready_op [OF live_select_all(2) full.keeps_select_all(2)]],
        rule yields_FF [OF ready_op [OF live_mram_mux full.keeps_mram_mux]], rule yields_check_rank [OF assms(1)])
  have switch: "yields (ready conf hw rc) (FF (modify (record_mux_rank True)) (\<lambda>_. if b then ok () else host_handle_access_for_rank True))
      (\<lambda>_. ready conf hw rc)" for b
    by (rule yields_FF [OF yields_modify [where Q = "\<lambda>_. ready conf hw rc"]])
       (auto intro: ready_record_mux access yields_ok)
  show ?thesis
  proof (rule yieldsI)
    fix r assume r: "ready conf hw rc r"
    then have n: "nb_dpu_running (r_run_context r) = 0" using assms(2) readyD(7) by simp
    obtain x t where "FF (modify (record_mux_rank True)) (\<lambda>_. if \<not> api_must_switch_mram_mux (r_configuration r)
        \<and> \<not> init_mram_mux (r_configuration r) then ok () else host_handle_access_for_rank True) r = (Ret x, t)" "ready conf hw rc t"
      using switch r by (rule yieldsE)
    then show "\<exists>x t. dpu_switch_mux_for_rank True r = (Ret x, t) \<and> ready conf hw rc t"
      using r n unfolding dpu_switch_mux_for_rank_def by simp
  qed
qed

section \<open>The DPUs and their groups\<close>

lemma yields_reset_dpus:
  assumes "\<And>i. i < length program \<Longrightarrow> ucast (reply (CI_IRAM_WRITE_INSTRUCTION_FRAME (program ! i) (of_nat i))) = (0xFF :: u8)"
    and "ucast (reply CI_DPU_RUN_STATE_READ_FRAME) = (0 :: u8)"
    and "ucast (reply CI_PC_MODE_READ_FRAME) = DPU_PC_MODE_16"
    and "ucast (reply CI_STACK_UP_READ_AND_SET_FRAME) = (0xFF :: u8)" and "0 < fuel"
  shows "yields (ready conf hw rc) (reset_dpus fuel (Some program) d w) (\<lambda>_. ready conf hw rc)"
proof -
  have rest: "yields (ready conf hw rc) (FF dpu_clear_debug (\<lambda>_. FF dpu_clear_run_bits (\<lambda>_. FF (dpu_set_pc_mode DPU_PC_MODE_16) (\<lambda>_.
     FF (dpu_set_stack_direction True) (\<lambda>_. dpu_reset_internal_state fuel (Some program)))))) (\<lambda>_. ready conf hw rc)"
    by (rule yields_FF [OF ready_op [OF live_clear(1) full.keeps_clear(1)]],
        rule yields_FF [OF ready_op [OF live_clear(2) full.keeps_clear(2)]],
        rule yields_FF [OF yields_set_pc_mode [OF assms(3)]], rule yields_FF [OF yields_set_stack [OF assms(4)]],
        rule yields_internal_state [OF assms(1,2,5)])
  have "yields (ready conf hw rc) (\<lambda>r. FF (dpu_dma_shuffling_box_config (pcb_transformation (r_hw r))) (\<lambda>_.
     FF (dpu_wavegen_config w) (\<lambda>_. FF dpu_clear_debug (\<lambda>_. FF dpu_clear_run_bits (\<lambda>_. FF (dpu_set_pc_mode DPU_PC_MODE_16) (\<lambda>_.
     FF (dpu_set_stack_direction True) (\<lambda>_. dpu_reset_internal_state fuel (Some program))))))) r) (\<lambda>_. ready conf hw rc)"
    by (rule yields_cong [OF yields_FF [OF ready_op [OF live_dma(2) full.keeps_registers(2)]
          yields_FF [OF ready_op [OF live_wavegen full.keeps_registers(3)] rest]]]) (simp add: readyD(5))
  then show ?thesis unfolding reset_dpus_def
    by (rule yields_FF [OF ready_op [OF live_dma(1) full.keeps_registers(1)]])
qed

lemma ready_write_group:
  assumes "g < 8" and t: "ready conf hw rc t"
    and "\<forall>ci < nr_cis t. bit m ci \<longrightarrow> target_type (slice_target (r_slice t ci)) \<noteq> DPU_SLICE_TARGET_NONE"
  shows "\<exists>x u. ufi_write_group m g t = (Ret x, u) \<and> ready conf hw rc u"
proof -
  obtain u where run: "ufi_write_group m g t = (Ret (), u)" and "live u"
    using live_write_group [OF assms(1) readyD(1) [OF t] assms(3)] by blast
  moreover have "full_rank conf hw rc u"
    using readyD(2) [OF t] by (rule keeps_eqD [OF full.keeps_write_group [OF assms(1)] _ run])
  ultimately show ?thesis by (auto simp: ready_def)
qed

lemma yields_dpu_group:
  assumes "g < 8"
  shows "yields (ready conf hw rc) (FF (ufi_select_dpu m d) (\<lambda>sm. ufi_write_group sm g)) (\<lambda>_. ready conf hw rc)"
proof (rule yieldsI)
  fix r assume r: "ready conf hw rc r"
  have "yields (ready conf hw rc) (ufi_select_dpu m d) (\<lambda>_. ready conf hw rc)"
    by (intro ready_op live_select full.keeps_select)
  then obtain sm t where run: "ufi_select_dpu m d r = (Ret sm, t)" and t: "ready conf hw rc t"
    using r by (rule yieldsE)
  note spec = select_spec [OF readyD(3) [OF r] run [unfolded ufi_select_dpu_def]]
  have "nr_cis t = nr_cis r" using readyD(5) r t by simp
  then have "\<forall>ci < nr_cis t. bit sm ci \<longrightarrow> target_type (slice_target (r_slice t ci)) \<noteq> DPU_SLICE_TARGET_NONE"
    using spec rank_wfD(2) [OF readyD(3) [OF r]] by auto
  from ready_write_group [OF assms t this] run
  show "\<exists>x u. FF (ufi_select_dpu m d) (\<lambda>sm. ufi_write_group sm g) r = (Ret x, u) \<and> ready conf hw rc u"
    by (auto simp: FF_def)
qed

lemma yields_all_group:
  assumes "g < 8"
  shows "yields (ready conf hw rc) (FF (ufi_select_all m) (\<lambda>sm. ufi_write_group sm g)) (\<lambda>_. ready conf hw rc)"
proof (rule yieldsI)
  fix r assume r: "ready conf hw rc r"
  obtain sm t where run: "ufi_select_all m r = (Ret sm, t)" and t: "ready conf hw rc t"
    using ready_select_all r by (rule yieldsE)
  note spec = select_all_targets [OF readyD(3) [OF r] run]
  have "target_type (slice_target (r_slice t ci)) \<noteq> DPU_SLICE_TARGET_NONE" if "ci < nr_cis t" "bit sm ci" for ci
  proof -
    have "ci < nr_cis r" using that readyD(5) r t by simp
    from conjunct2 [OF spec, rule_format, OF this that(2)] show ?thesis by (auto simp: target_is_def split: if_splits)
  qed
  from ready_write_group [OF assms t, of sm] this run
  show "\<exists>x u. FF (ufi_select_all m) (\<lambda>sm. ufi_write_group sm g) r = (Ret x, u) \<and> ready conf hw rc u"
    by (auto simp: FF_def)
qed

lemma yields_init_ci: "yields (ready conf hw rc) (init_ci_groups a e ci m) (\<lambda>_. ready conf hw rc)"
proof (rule yieldsI)
  fix r assume r: "ready conf hw rc r"
  let ?m = "FF (mfor [0..<nr_dpus r] (\<lambda>each_dpu _. FF (ufi_select_dpu (bit_of ci) each_dpu) (\<lambda>single_ci_mask.
            ufi_write_group single_ci_mask (if e AND bit_of each_dpu \<noteq> 0 then DPU_ENABLED_GROUP else DPU_DISABLED_GROUP))) ())
          (\<lambda>_. ok m)"
  have "yields (ready conf hw rc) ?m (\<lambda>_. ready conf hw rc)"
    by (rule yields_FF [OF yields_loop [OF yields_dpu_group]])
       (auto simp: DPU_ENABLED_GROUP_def DPU_DISABLED_GROUP_def yields_ok)
  then obtain x t where "?m r = (Ret x, t)" "ready conf hw rc t" using r by (rule yieldsE)
  with r show "\<exists>x t. init_ci_groups a e ci m r = (Ret x, t) \<and> ready conf hw rc t"
    by (simp add: init_ci_groups_def)
qed

lemma restore_handler:
  fixes r :: "'w dpu_rank"
  shows "r_handler (restore_enabled_dpus saves r) = r_handler r"
proof -
  have dpus: "r_handler (fold (\<lambda>d. upd_dpu c d (f d)) ds r) = r_handler r" for c f ds and r :: "'w dpu_rank"
    by (induction ds arbitrary: r) (simp_all add: upd_dpu_def)
  have ci: "r_handler (restore_ci saves c r) = r_handler r" for c and r :: "'w dpu_rank"
    by (simp add: restore_ci_def Let_def dpus split: prod.split)
  have "r_handler (fold (restore_ci saves) cis r) = r_handler r" for cis and r :: "'w dpu_rank"
    by (induction cis arbitrary: r) (simp_all add: ci)
  then show ?thesis by (simp add: restore_enabled_dpus_def)
qed

lemma yields_init_groups: "yields (ready conf hw rc) (dpu_init_groups saves) (\<lambda>_ r. r_handler r = h)"
proof -
  have part: "yields (ready conf hw rc) (if m \<noteq> 0 then FF (ufi_select_all m) (\<lambda>ci_mask. ufi_write_group ci_mask DPU_ENABLED_GROUP)
      else ok ()) (\<lambda>_. ready conf hw rc)" for m
    using yields_all_group [of DPU_ENABLED_GROUP conf hw rc m] by (auto simp: DPU_ENABLED_GROUP_def yields_ok)
  have "yields (ready conf hw rc) (modify (restore_enabled_dpus saves)) (\<lambda>_ r. r_handler r = h)"
    by (rule yields_modify) (simp add: restore_handler readyD(4))
  then have rest: "yields (ready conf hw rc) (FF (if m \<noteq> 0 then FF (ufi_select_all m) (\<lambda>ci_mask. ufi_write_group ci_mask DPU_ENABLED_GROUP)
      else ok ()) (\<lambda>_. modify (restore_enabled_dpus saves))) (\<lambda>_ r. r_handler r = h)" for m
    by (rule yields_FF [OF part])
  have "yields (ready conf hw rc) (FF (mfor cis (\<lambda>each_ci. init_ci_groups (fst saves ! each_ci) (snd saves ! each_ci) each_ci) 0)
        (\<lambda>ci_mask. FF (if ci_mask \<noteq> 0 then FF (ufi_select_all ci_mask) (\<lambda>ci_mask. ufi_write_group ci_mask DPU_ENABLED_GROUP)
         else ok ()) (\<lambda>_. modify (restore_enabled_dpus saves)))) (\<lambda>_ r. r_handler r = h)" for cis
    by (rule yields_FF [OF yields_loop [OF yields_init_ci] rest])
  then show ?thesis unfolding dpu_init_groups_def by (simp add: yields_def)
qed

lemma yields_custom: "yields (\<lambda>r. r_handler r = h) (dpu_custom_for_rank c) (\<lambda>_ _. True)"
proof (rule yieldsI)
  fix r :: "'w dpu_rank" assume "r_handler r = h"
  moreover obtain w where "custom_operation h None c (r_world r) = (DPU_RANK_SUCCESS, w)" using custom_ok by blast
  ultimately show "\<exists>x t. dpu_custom_for_rank c r = (Ret x, t) \<and> True"
    by (simp add: dpu_custom_for_rank_def map_rank_status_to_api_status_def)
qed

section \<open>Saving the enabled DPUs\<close>

text \<open>The ranks from which the reset succeeds: some DPU of every CI is enabled.\<close>

definition startable :: "dpu_configuration \<Rightarrow> dpu_hw_description \<Rightarrow> dpu_run_context \<Rightarrow> 'w dpu_rank \<Rightarrow> bool" where
  "startable conf hw rc r \<longleftrightarrow> live r \<and> r_configuration r = conf \<and> r_hw r = hw \<and> r_run_context r = rc
     \<and> (\<forall>ci < nr_of_control_interfaces hw. en r ci \<noteq> 0)"

text \<open>What a save leaves alone, and the byte orders that the first steps look at.\<close>

definition known :: "dpu_type \<Rightarrow> (nat \<Rightarrow> u64) \<Rightarrow> 'w dpu_rank \<Rightarrow> bool" where
  "known ty orders r \<longleftrightarrow> r_type r = ty \<and> (\<forall>ci < nr_cis r. byte_order (r_slice r ci) = orders ci)"

lemma enable_ci_startable:
  assumes r: "startable conf hw rc r" "known ty orders r" and ci: "ci < nr_cis r" and n: "0 < nr_dpus r"
  shows "startable conf hw rc (enable_ci ci r)" "known ty orders (enable_ci ci r)"
proof -
  let ?t = "enable_ci ci r"
  let ?f = "\<lambda>i. i\<lparr>all_dpus_are_enabled := True, enabled_dpus := ucast (dpu_mask_all (nr_dpus r))\<rparr>"
  have live: "live r" and wf: "rank_wf r" using r(1) live_wf by (simp_all add: startable_def)
  have lt: "ci < 8" using rank_wfD(2) [OF wf] ci by simp
  obtain ds where t: "?t = (upd_slice ci ?f r)\<lparr>r_dpus := ds\<rparr>" using enable_ci_form [of ci r] by blast
  have wf_t: "rank_wf ?t" using enable_ci_facts(1) [OF wf lt] by (rule same_setup_wf)
  have fields: "r_hw ?t = r_hw r" "r_configuration ?t = r_configuration r" "r_run_context ?t = r_run_context r"
    "r_type ?t = r_type r" "r_cmds ?t = r_cmds r" "r_handler ?t = r_handler r" "r_world ?t = r_world r"
    "color (r_ci ?t) = color (r_ci r)"
    unfolding t by (simp_all add: upd_slice_def)
  have slice: "r_slice ?t j = (if j = ci then ?f (r_slice r j) else r_slice r j)" if "j < 8" for j
    using enable_ci_facts(2) [OF wf lt that] .
  have nz: "(ucast (dpu_mask_all (nr_dpus r)) :: u32) \<noteq> 0"
    using bit_all_dpus [of "nr_dpus r" 0] n rank_wfD(3) [OF wf] by auto
  have "live ?t" using live wf_t live_cmds [OF live] by (intro live_frame [of r "enable_ci ci"]) (simp_all add: fields)
  moreover have "en ?t j \<noteq> 0" if "j < nr_cis r" for j
    using that r(1) nz slice [of j] rank_wfD(2) [OF wf] by (auto simp: startable_def)
  ultimately show "startable conf hw rc ?t" using r(1) by (simp add: startable_def fields)
  have "byte_order (r_slice ?t j) = byte_order (r_slice r j)" if "j < 8" for j using slice [OF that] by simp
  with r(2) show "known ty orders ?t" using rank_wfD(2) [OF wf] by (simp add: known_def fields)
qed

lemma yields_save:
  assumes "0 < nr_of_dpus_per_control_interface hw"
  shows "yields (\<lambda>r. startable conf hw rc r \<and> known ty orders r) (save_enabled_dpus u saves)
    (\<lambda>_ r. ready conf hw rc r \<and> known ty orders r)"
proof (rule yieldsI)
  fix r assume r: "startable conf hw rc r \<and> known ty orders r"
  let ?n = "nr_of_control_interfaces hw"
  have hw: "r_hw r = hw" and "rank_wf r" using r live_wf by (auto simp: startable_def)
  have le: "?n \<le> 8" using rank_wfD(2) [OF \<open>rank_wf r\<close>] hw by simp
  have "startable conf hw rc (snd (fold (save_ci u) cis (s, q))) \<and> known ty orders (snd (fold (save_ci u) cis (s, q)))
      \<and> (\<forall>ci < ?n. ci \<in> set cis \<or> all_dpus_are_enabled (r_slice q ci) \<longrightarrow>
           all_dpus_are_enabled (r_slice (snd (fold (save_ci u) cis (s, q))) ci))"
    if "startable conf hw rc q" "known ty orders q" "\<forall>ci \<in> set cis. ci < ?n" for cis s q
    using that
  proof (induction cis arbitrary: s q)
    case (Cons c cis)
    have q: "r_hw q = hw" "rank_wf q" "en q c \<noteq> 0" using Cons.prems live_wf by (auto simp: startable_def)
    obtain s' where step: "save_ci u c (s, q) = (s', enable_ci c q)"
      using q(3) by (cases s) (simp add: save_ci_def Let_def)
    have e: "startable conf hw rc (enable_ci c q)" "known ty orders (enable_ci c q)"
      using enable_ci_startable [OF Cons.prems(1,2)] Cons.prems(3) q(1) assms by simp_all
    have "c < 8" using Cons.prems(3) le by simp
    then have "all_dpus_are_enabled (r_slice (enable_ci c q) ci)" if "ci = c \<or> all_dpus_are_enabled (r_slice q ci)" "ci < ?n" for ci
      using that enable_ci_facts(2) [OF q(2), of c ci] le by auto
    then show ?case using Cons.IH [OF e, of s'] Cons.prems(3) step by auto
  qed simp
  from this [of r "[0..<?n]" saves] r obtain s t where run: "fold (save_ci u) [0..<?n] (saves, r) = (s, t)"
    and t: "startable conf hw rc t" "known ty orders t" "\<forall>ci < ?n. all_dpus_are_enabled (r_slice t ci)"
    by (cases "fold (save_ci u) [0..<?n] (saves, r)") auto
  have "ready conf hw rc t" using t(1,3) live_wf by (auto simp: ready_def full_rank_def startable_def)
  with run t(2) hw show "\<exists>x t. save_enabled_dpus u saves r = (Ret x, t) \<and> ready conf hw rc t \<and> known ty orders t"
    by (simp add: save_enabled_dpus_def)
qed

lemma ready_startable: "ready conf hw rc r \<Longrightarrow> startable conf hw rc r"
  using readyD [of conf hw rc r] by (simp add: startable_def)

lemma yields_save_again:
  assumes "0 < nr_of_dpus_per_control_interface hw"
  shows "yields (ready conf hw rc) (save_enabled_dpus u saves) (\<lambda>_. ready conf hw rc)"
proof (rule yieldsI)
  fix r assume r: "ready conf hw rc r"
  then have "startable conf hw rc r \<and> known (r_type r) (\<lambda>ci. byte_order (r_slice r ci)) r"
    by (simp add: ready_startable known_def)
  with yields_save [OF assms] obtain x t where "save_enabled_dpus u saves r = (Ret x, t)" "ready conf hw rc t"
    by (rule yieldsE) blast
  then show "\<exists>x t. save_enabled_dpus u saves r = (Ret x, t) \<and> ready conf hw rc t" by blast
qed

section \<open>The reset\<close>

lemma reset_with_configs_succeeds:
  assumes hw: "0 < nr_of_control_interfaces hw" "0 < nr_of_dpus_per_control_interface hw" and good: "good_replies reply hw program"
    and conf: "\<not> do_iram_repair conf" "\<not> do_wram_repair conf" "api_must_switch_mram_mux conf" "nb_dpu_running rc = 0"
    and orders: "\<forall>ci < nr_of_control_interfaces hw. byte_order_values_are_compatible (orders ci)
      EXPECTED_BYTE_ORDER_RESULT_AFTER_CONFIGURATION" and fuel: "0 < fuel"
  shows "yields (\<lambda>r. startable conf hw rc r \<and> known HW orders r) (reset_with_configs fuel (Some program) d w) (\<lambda>_ _. True)"
proof -
  define hw' where "hw' = with_bit_config (reply (CI_BIT_ORDER 0 0 0 0)) hw"
  have hw': "0 < nr_of_dpus_per_control_interface hw'" using hw(2) by (simp add: hw'_def with_bit_config_def)
  note G = good [unfolded good_replies_def]
  have chips: "yields (\<lambda>r. ready conf hw rc r \<and> known HW orders r) reset_chips (\<lambda>_. ready conf hw' rc)"
    unfolding hw'_def by (rule yields_pre [OF yields_reset_chips [OF hw(1)]]) (use G orders readyD(5) in \<open>auto simp: known_def\<close>)
  have iram: "yields (ready conf hw' rc) dpu_iram_repair_config (\<lambda>_. ready conf hw' rc)"
    by (rule yields_cong [OF yields_default_repair(1)]) (simp add: dpu_iram_repair_config_def readyD(6) conf)
  have wram: "yields (ready conf hw' rc) dpu_wram_repair_config (\<lambda>_. ready conf hw' rc)"
    by (rule yields_cong [OF yields_default_repair(2)]) (simp add: dpu_wram_repair_config_def readyD(6) conf)
  note save = yields_save_again [OF hw']
  have dpus: "yields (ready conf hw' rc) (reset_dpus fuel (Some program) d w) (\<lambda>_. ready conf hw' rc)"
    by (rule yields_reset_dpus) (use G fuel in simp_all)
  have mux: "yields (ready conf hw' rc) (\<lambda>r. FF (dpu_switch_mux_for_rank (api_must_switch_mram_mux (r_configuration r)))
      (\<lambda>_. FF (dpu_init_groups s) (\<lambda>_. dpu_custom_for_rank DPU_COMMAND_SET_SLICE_INFO)) r) (\<lambda>_ _. True)" for s
    by (rule yields_cong [OF yields_FF [OF yields_switch_rank yields_FF [OF yields_init_groups yields_custom]]])
       (use G conf in \<open>simp_all add: readyD(6)\<close>)
  show ?thesis unfolding reset_with_configs_def
    by (rule yields_FF [OF yields_save [OF hw(2)]], rule yields_FF [OF chips], rule yields_FF [OF iram], rule yields_FF [OF save],
        rule yields_FF [OF wram], rule yields_FF [OF save], rule yields_FF [OF dpus], rule mux)
qed

end

text \<open>A rank of real chips on such a backend, in the state in which the reset meets it.\<close>

definition resettable :: "(u64 \<Rightarrow> u32) \<Rightarrow> ('w \<Rightarrow> u8) \<Rightarrow> u64 list \<Rightarrow> 'w dpu_rank \<Rightarrow> bool" where
  "resettable reply colors program r \<longleftrightarrow>
     rank_wf r \<and> r_type r = HW \<and> 0 < nr_cis r \<and> 0 < nr_dpus r
     \<and> (\<forall>ci < nr_cis r. en r ci \<noteq> 0 \<and> byte_order_values_are_compatible (byte_order (r_slice r ci))
          EXPECTED_BYTE_ORDER_RESULT_AFTER_CONFIGURATION
          \<and> (bit (colors (r_world r)) ci \<longleftrightarrow> bit (color (r_ci r)) ci))
     \<and> (\<forall>ci < 8. \<not> resets (r_cmds r ! ci))
     \<and> \<not> do_iram_repair (r_configuration r) \<and> \<not> do_wram_repair (r_configuration r)
     \<and> api_must_switch_mram_mux (r_configuration r) \<and> nb_dpu_running (r_run_context r) = 0
     \<and> 225 \<le> unat (fck_frequency_in_mhz (r_hw r)) \<and> unat (fck_frequency_in_mhz (r_hw r)) \<le> 4000
     \<and> good_replies reply (r_hw r) program"

lemma reset_rank_succeeds:
  assumes "answering_backend (r_handler r) colors latched reply" and "resettable reply colors program r" and "3 \<le> fuel"
  shows "\<exists>t. ci_reset_rank fuel (Some program) r = (Ret (), t)"
proof -
  note R = assms(2) [unfolded resettable_def]
  have resp: "responsive_backend (r_handler r) colors" using assms(1) by (rule answering_backend.axioms)
  have "responsive_backend.live (r_handler r) colors r" using R by (simp add: responsive_backend.live_def [OF resp])
  then have start: "answering_backend.startable (r_handler r) colors (r_configuration r) (r_hw r) (r_run_context r) r
      \<and> answering_backend.known HW (\<lambda>ci. byte_order (r_slice r ci)) r"
    using R by (simp add: answering_backend.startable_def [OF assms(1)] answering_backend.known_def [OF assms(1)])
  obtain dma wg where configs: "fetch_dma_and_wavegen_configs fuel (fck_frequency_in_mhz (r_hw r)) (clock_division (r_hw r))
      REFRESH_MODE_VALUE (\<not> ila_control_refresh (r_configuration r)) = Some (dma, wg)"
    using timing_configuration [of "fck_frequency_in_mhz (r_hw r)" fuel "clock_division (r_hw r)" "\<not> ila_control_refresh (r_configuration r)"]
      R assms(3) by (auto simp: REFRESH_MODE_VALUE_def)
  have "0 < nr_of_control_interfaces (r_hw r)" "0 < nr_of_dpus_per_control_interface (r_hw r)" "0 < fuel"
    using R assms(3) by simp_all
  with R have "yields (\<lambda>t. answering_backend.startable (r_handler r) colors (r_configuration r) (r_hw r) (r_run_context r) t
      \<and> answering_backend.known HW (\<lambda>ci. byte_order (r_slice r ci)) t) (reset_with_configs fuel (Some program) dma wg) (\<lambda>_ _. True)"
    by (intro answering_backend.reset_with_configs_succeeds [OF assms(1)]) simp_all
  then obtain x t where "reset_with_configs fuel (Some program) dma wg r = (Ret x, t)" using start by (rule yieldsE)
  with configs R show ?thesis by (simp add: ci_reset_rank_def)
qed

text \<open>
  C17: The reset succeeds on a well-formed rank of real chips (\<open>HW\<close>) behind a backend whose CIs answer every
  command in the color the protocol expects and latch the reply to each, and which accepts every custom
  operation, when the rank has a CI and a DPU, and every CI an enabled DPU and a byte order the code accepts;
  the host and the backend agree on the colors, and no reset command is left in the command buffer;
  the API has to switch the multiplexers, no repair of the IRAM or WRAM is requested, and no DPU is running;
  the clock is 225 to 4000 MHz; a program of the reset is given, and the CIs reply with the values the
  reset reads back (\<open>good_replies\<close>). Then no poll loop runs out of fuel or of its
  timeout, and no check of the eighteen steps fails. Three units of fuel are enough.
\<close>

theorem reset_rank_live:
  assumes "answering_backend (r_handler r) colors latched reply" and "resettable reply colors program r" and "3 \<le> fuel"
  shows "\<exists>t. ci_reset_rank fuel (Some program) r = (Ret (), t)"
  using assms by (rule reset_rank_succeeds)

section \<open>A backend that answers\<close>

text \<open>The world is the color and the last reply of each CI.\<close>

definition answer_to :: "u64 \<Rightarrow> u32" where
  "answer_to c =
     (if c = CI_BIT_ORDER 0 0 0 0 then 0xF0448822
      else if c = CI_IDENTITY then dpu_bit_config_dpu2cpu (pcb_transformation (with_bit_config 0xF0448822 sample_hw)) 0x42
      else if c = CI_PC_MODE_READ_FRAME then 4
      else if c = CI_DPU_RUN_STATE_READ_FRAME \<or> c = CI_DMA_CTRL_READ_FRAME then 0
      else 0xFF)"

definition last_reply :: "u8 \<times> u32 list \<Rightarrow> nat \<Rightarrow> u32" where
  "last_reply w ci = (if ci < length (snd w) then snd w ! ci else 0)"

definition answering_handler :: "(u8 \<times> u32 list) dpu_rank_handler" where
  "answering_handler = \<lparr>
     commit_commands = (\<lambda>c w. (DPU_RANK_SUCCESS, (live_flip c (fst w),
       map (\<lambda>ci. if c ! ci = CI_EMPTY then last_reply w ci else answer_to (c ! ci)) [0..<8]))),
     update_commands = (\<lambda>b w. (DPU_RANK_SUCCESS, map (\<lambda>ci. live_answer (fst w) ci OR ucast (last_reply w ci)) [0..<length b], w)),
     copy_to_rank = (\<lambda>_ w. (DPU_RANK_SUCCESS, w)),
     copy_from_rank = (\<lambda>_ w. (DPU_RANK_SUCCESS, w)),
     custom_operation = (\<lambda>_ _ w. (DPU_RANK_SUCCESS, w))\<rparr>"

lemma answer_present:
  "result_present (live_answer w ci OR ucast (x :: u32)) 0x000000FF00000000 0xFF0000FF00000000"
  "color_distance (live_answer w ci OR ucast x) (\<not> bit w ci) = 0"
proof -
  have mask: "ucast x AND (0xFF0000FF00000000 :: u64) = 0"
  proof (rule bit_word_eqI)
    fix n
    have shift: "(0xFF0000FF00000000 :: u64) = push_bit 32 0xFF0000FF" by simp
    have "\<not> (bit x n \<and> bit (push_bit 32 0xFF0000FF :: u64) n)"
      unfolding bit_push_bit_iff by (auto dest: bit_imp_le_length)
    then show "bit (ucast x AND (0xFF0000FF00000000 :: u64)) n \<longleftrightarrow> bit (0 :: u64) n"
      unfolding shift bit_and_iff bit_ucast_iff by simp
  qed
  then have "(live_answer w ci OR ucast x) AND 0xFF0000FF00000000 = live_answer w ci AND 0xFF0000FF00000000"
    by (simp add: bit.conj_disj_distrib2)
  with live_answer_ok(1) [of w ci] show "result_present (live_answer w ci OR ucast x) 0x000000FF00000000 0xFF0000FF00000000"
    by (auto simp: result_present_def live_answer_def split: if_splits)
  have "result_color (live_answer w ci OR ucast x) = result_color (live_answer w ci)"
    by (rule bit_word_eqI) (auto simp: result_color_def bit_ucast_iff bit_drop_bit_eq bit_or_iff bit_and_iff dest: bit_imp_le_length)
  with live_answer_ok(2) show "color_distance (live_answer w ci OR ucast x) (\<not> bit w ci) = 0" by (simp add: color_distance_def)
qed

interpretation answering: answering_backend answering_handler fst last_reply answer_to
proof unfold_locales
  show "update_commands answering_handler b w = (st, b', w') \<Longrightarrow> length b = 8 \<Longrightarrow> ci < 8 \<Longrightarrow> ucast (b' ! ci) = last_reply w ci"
    for b w st b' w' ci
  proof -
    assume "update_commands answering_handler b w = (st, b', w')" "length b = 8" "ci < 8"
    then have "b' ! ci = live_answer (fst w) ci OR ucast (last_reply w ci)" by (auto simp: answering_handler_def)
    moreover have "(ucast (live_answer v i OR ucast x) :: u32) = x" for v i and x :: u32
    proof (rule bit_word_eqI)
      fix n
      have "\<not> bit (live_answer v i) n" if "n < 32"
      proof -
        have "live_answer v i = push_bit 32 (if bit v i then 0xFF else 0x00FF00FF)" by (simp add: live_answer_def)
        with that show ?thesis by (simp add: bit_push_bit_iff)
      qed
      then show "bit (ucast (live_answer v i OR ucast x) :: u32) n \<longleftrightarrow> bit x n"
        by (auto simp: bit_ucast_iff bit_or_iff dest: bit_imp_le_length)
    qed
    ultimately show ?thesis by simp
  qed
qed (auto simp: answering_handler_def answer_present bit_live_flip last_reply_def simp del: upt_rec_numeral)

definition answering_rank :: "(u8 \<times> u32 list) dpu_rank" where
  "answering_rank = (let r = sample_rank [] in
     \<lparr>r_type = HW, r_hw = sample_hw, r_configuration = r_configuration r, r_ci = r_ci r,
      r_run_context = r_run_context r, r_dpus = r_dpus r, r_nr_dpus_enabled = 16,
      r_cmds = replicate 8 0, r_data = replicate 8 0, r_cmds_buffer = r_cmds_buffer r,
      r_debug = r_debug r, r_logd = False,
      r_handler = answering_handler, r_world = (0, []), host_words = (\<lambda>_ _. 0), host_instrs = (\<lambda>_ _. 0)\<rparr>)"

lemma answering_rank_wf: "rank_wf answering_rank" "wram_wf answering_rank"
  by (auto simp: rank_wf_def wram_wf_def answering_rank_def Let_def sample_rank_def sample_hw_def sample_slice_def sample_dpu_def
      handler_ok_def answering_handler_def)

lemma all_less_two: "(\<forall>i < Suc (Suc 0). P i) \<longleftrightarrow> P 0 \<and> P 1"
  by (auto simp: less_Suc_eq)

lemma frame_values:
  "CI_BIT_ORDER 0 0 0 0 = 0x0100000000000000" "CI_IDENTITY = 0x01FF000000000000"
  "CI_PC_MODE_READ_FRAME = 0x3300000000000216" "CI_DPU_RUN_STATE_READ_FRAME = 0x3300000000000284"
  "CI_DMA_CTRL_READ_FRAME = 0x3300000000000210" "CI_STACK_UP_READ_AND_SET_FRAME = 0x33000000000002F2"
  "CI_IRAM_WRITE_INSTRUCTION_FRAME 0 0 = 0x3300000000000000" "CI_IRAM_WRITE_INSTRUCTION_FRAME 1 1 = 0x3301000000000001"
  by (simp_all add: CI_BIT_ORDER_def CI_IDENTITY_def CI_PC_MODE_READ_FRAME_def CI_DPU_RUN_STATE_READ_FRAME_def
      CI_DMA_CTRL_READ_FRAME_def CI_STACK_UP_READ_AND_SET_FRAME_def CI_IRAM_WRITE_INSTRUCTION_FRAME_def ci_frame_def cbyte_def)

lemma good_answers: "good_replies answer_to sample_hw [0, 1]"
proof -
  define c where "c = pcb_transformation (with_bit_config 0xF0448822 sample_hw)"
  have "dpu_bit_config_cpu2dpu c (dpu_bit_config_dpu2cpu c 0x42) = chip_id sample_hw" unfolding c_def by code_simp
  then show ?thesis
    by (simp add: good_replies_def answer_to_def frame_values all_less_two DPU_PC_MODE_16_def c_def)
qed

lemma answering_rank_resettable: "resettable answer_to fst [0, 1] answering_rank"
proof -
  have "byte_order_values_are_compatible (byte_order sample_slice) EXPECTED_BYTE_ORDER_RESULT_AFTER_CONFIGURATION" by code_simp
  moreover have "\<not> resets 0" by (rule not_resets) simp
  ultimately show ?thesis using answering_rank_wf(1) good_answers
    by (simp add: resettable_def) (simp add: answering_rank_def Let_def sample_rank_def sample_hw_def sample_slice_def)
qed

theorem reset_rank_live_witness: "\<exists>t. ci_reset_rank 3 (Some [0, 1]) answering_rank = (Ret (), t)"
proof (rule reset_rank_live [OF _ answering_rank_resettable])
  show "answering_backend (r_handler answering_rank) fst last_reply answer_to"
    using answering.answering_backend_axioms by (simp add: answering_rank_def Let_def)
qed simp

theorem reset_rank_enabled_witness:
  "\<exists>t. ci_reset_rank 3 (Some [0, 1]) answering_rank = (Ret (), t) \<and> bit (en t 1) 7 \<and> dpu_enabled (dpu_get_unsafe t 1 7)"
proof -
  have "answering_backend (r_handler answering_rank) fst last_reply answer_to"
    using answering.answering_backend_axioms by (simp add: answering_rank_def Let_def)
  from reset_rank_succeeds [OF this answering_rank_resettable, of 3]
  obtain t where run: "ci_reset_rank 3 (Some [0, 1]) answering_rank = (Ret (), t)" by auto
  have r: "1 < nr_cis answering_rank" "7 < nr_dpus answering_rank" "\<not> do_iram_repair (r_configuration answering_rank)"
    "\<not> do_wram_repair (r_configuration answering_rank)" "en answering_rank 1 = 0xFF"
    by (simp_all add: answering_rank_def Let_def sample_rank_def sample_hw_def sample_slice_def)
  have "bit (en answering_rank 1) 7" unfolding r(5) by code_simp
  with reset_rank_enabled [OF answering_rank_wf run r(1,2)] r(3,4) run show ?thesis by auto
qed

end
