(* ===== verification/Ufi_Debug.thy ===== *)
theory Ufi_Debug
  imports Ufi_Memory Dpu_Isa
begin

text \<open>
  The debugger's side of the UFI layer (\<^verbatim>\<open>ufi/src/ufi_debug.c\<close>), with \<open>drain_pipeline\<close> and the
  patching of programs (\<^verbatim>\<open>api/src/dpu_internals.c\<close>), the fault process of
  \<^verbatim>\<open>api/src/dpu_debug.c\<close> and the reset of one DPU (\<open>ci_reset_dpu\<close> of \<^verbatim>\<open>ufi_config.c\<close>). The
  operations work on a rank and on a \<open>dpu_context_t\<close> given by pointer, which they change up to the
  step that fails: their state is the pair. Allocations succeed; an index outside of an array and an
  entry read before it was written end in \<open>Abort\<close>; the polls that the code does not bound have
  fuel. The programs \<open>coreDump\<close> and \<open>restoreRegisters\<close> are files and hence arguments.
\<close>

section \<open>The context of a debugged DPU\<close>

record dpu_context =
  registers :: "u32 list"
  pcs :: "u16 list"
  atomic_register :: "bool list"
  zero_flags :: "bool list"
  carry_flags :: "bool list"
  nr_of_running_threads :: u8
  scheduling :: "u8 list"
  bkp_fault :: bool
  dma_fault :: bool
  mem_fault :: bool
  bkp_fault_thread_index :: u8
  dma_fault_thread_index :: u8
  mem_fault_thread_index :: u8
  bkp_fault_id :: u32

type_synonym ('w, 'a) dbg = "('w dpu_rank \<times> dpu_context, 'a) op"

definition on_rank :: "('w, 'a) ufi \<Rightarrow> ('w, 'a) dbg" where
  "on_rank m = (\<lambda>(r, c). case m r of (out, r') \<Rightarrow> (out, (r', c)))"

definition in_context :: "(dpu_context \<Rightarrow> dpu_context) \<Rightarrow> ('w, unit) dbg" where
  "in_context f = modify (\<lambda>(r, c). (r, f c))"

definition abort :: "('s, 'a) op" where
  "abort s = (Abort, s)"

text \<open>
  The address of a local variable that is given to a copy: 0, which no buffer of a caller has. What
  was read is taken out at once, so that one address is enough.
\<close>

definition local_buffer :: u64 where "local_buffer = 0"

definition DPU_FAULT_UNKNOWN_ID :: u32 where "DPU_FAULT_UNKNOWN_ID = 0xffffff"

abbreviation (input) DPU_NR_THREADS :: nat where "DPU_NR_THREADS \<equiv> 24"
abbreviation (input) DPU_NR_ATOMIC_BITS :: nat where "DPU_NR_ATOMIC_BITS \<equiv> 256"
abbreviation (input) DPU_NR_WORK_REGS :: nat where "DPU_NR_WORK_REGS \<equiv> 24"

definition ATOMIC_REG_SIZE_IN_WORDS :: nat where "ATOMIC_REG_SIZE_IN_WORDS = DPU_NR_ATOMIC_BITS div 4"
definition WORK_REGS_SIZE_IN_WORDS :: nat where "WORK_REGS_SIZE_IN_WORDS = DPU_NR_THREADS * DPU_NR_WORK_REGS"
definition FLAGS_SIZE_IN_WORDS :: nat where "FLAGS_SIZE_IN_WORDS = DPU_NR_THREADS * 1"

section \<open>Instructions\<close>

definition FAULTi :: insn where
  "FAULTi = Insn ''FAULTi'' 1 0x7e6320000000
     [(0, 0, 0xf, 20), (0, 4, 0xf, 16), (0, 8, 0x1, 15), (0, 9, 0x1, 14), (0, 10, 0x1, 13), (0, 11, 0x1, 12), (0, 12, 0xfff, 0)]"

definition STOPci :: insn where
  "STOPci = Insn ''STOPci'' 2 0x7ef320000000 [(0, 0, 0xf, 24), (1, 0, 0xffff, 0)]"

definition BOOT_CC_TRUE :: u64 where "BOOT_CC_TRUE = 1"

text \<open>\<open>extract_bkp_fault_id\<close> finds the immediate bit by bit, from where \<open>FAULTi\<close> puts each bit.\<close>

definition fault_immediate :: "u64 \<Rightarrow> u32" where
  "fault_immediate instruction =
     fold (\<lambda>each_bit immediate.
         if instruction AND (encode FAULTi [ucast (bit_of each_bit :: u32)] XOR encode FAULTi [0]) \<noteq> 0
         then immediate OR bit_of each_bit else immediate) [0..<32] 0"

definition fault_id_of :: "u64 \<Rightarrow> u32" where
  "fault_id_of instruction =
     (if instruction AND encode FAULTi [0] \<noteq> encode FAULTi [0] then DPU_FAULT_UNKNOWN_ID
      else fault_immediate instruction)"

text \<open>\<open>dpu_copy_from_iram_for_dpu\<close> of \<^verbatim>\<open>api/src/dpu_memory.c\<close>, with the macro \<open>verify_iram_access\<close>.\<close>

definition verify_iram_access :: "nat \<Rightarrow> nat \<Rightarrow> ('w, unit) ufi \<Rightarrow> ('w, unit) ufi" where
  "verify_iram_access offset len copy = (\<lambda>r.
     if len = 0 then ok () r
     else if offset \<ge> unat (iram_size (r_hw r)) \<or> offset + len > unat (iram_size (r_hw r))
     then fail DPU_ERR_INVALID_IRAM_ACCESS r
     else copy r)"

definition dpu_copy_from_iram_for_dpu :: "nat \<Rightarrow> nat \<Rightarrow> u64 \<Rightarrow> u16 \<Rightarrow> u16 \<Rightarrow> ('w, unit) ufi" where
  "dpu_copy_from_iram_for_dpu slice_id dpu_id destination iram_instruction_index nb_of_instructions = (\<lambda>r.
     if \<not> dpu_is_enabled r slice_id dpu_id then fail DPU_ERR_DPU_DISABLED r
     else verify_iram_access (unat iram_instruction_index) (unat nb_of_instructions)
       (ci_copy_from_irams_dpu slice_id dpu_id destination iram_instruction_index nb_of_instructions) r)"

definition extract_bkp_fault_id :: "nat \<Rightarrow> nat \<Rightarrow> u16 \<Rightarrow> ('w, u32) ufi" where
  "extract_bkp_fault_id slice_id dpu_id pc =
     FF (modify (store_instr local_buffer 0 (\<lambda>_. 0))) (\<lambda>_.
     FF (dpu_copy_from_iram_for_dpu slice_id dpu_id local_buffer pc 1) (\<lambda>_.
     gets (\<lambda>r. fault_id_of (host_instrs r local_buffer 0))))"

section \<open>Stepping back\<close>

text \<open>\<open>dpu_thread_boot_safe_for_dpu\<close> (\<^verbatim>\<open>api/src/dpu_runner.c\<close>) without a place for the previous run bit.\<close>

definition dpu_thread_boot_safe_for_dpu :: "nat \<Rightarrow> nat \<Rightarrow> u8 \<Rightarrow> bool \<Rightarrow> ('w, unit) ufi" where
  "dpu_thread_boot_safe_for_dpu slice_id dpu_id thread resume =
     FF (ci_start_thread_dpu slice_id dpu_id thread resume None) (\<lambda>_. ok ())"

text \<open>The poll until the DPU stops; the result array keeps its entries between the reads.\<close>

fun wait_dpu_stops :: "nat \<Rightarrow> u8 \<Rightarrow> nat \<Rightarrow> nat \<Rightarrow> u8 list \<Rightarrow> ('w, u8 list) ufi" where
  "wait_dpu_stops 0 ci_mask slice_id member_id res = (\<lambda>r. (NoFuel, r))"
| "wait_dpu_stops (Suc n) ci_mask slice_id member_id res =
     FF (ufi_read_dpu_run ci_mask res) (\<lambda>res.
     if res ! slice_id AND dpu_mask_one member_id \<noteq> 0
     then wait_dpu_stops n ci_mask slice_id member_id res else ok res)"

definition previous_instruction :: "'w dpu_rank \<Rightarrow> u16 \<Rightarrow> u16" where
  "previous_instruction r pc = (if pc = 0 then iram_size (r_hw r) - 1 else pc - 1)"

definition boot_at :: "nat \<Rightarrow> nat \<Rightarrow> nat \<Rightarrow> u8 \<Rightarrow> u16 \<Rightarrow> ('w, unit) ufi" where
  "boot_at fuel slice_id member_id thread pc =
     FF (ufi_select_dpu (bit_of slice_id) member_id) (\<lambda>ci_mask.
     FF (ufi_iram_read ci_mask (\<lambda>_. local_buffer) 0 1) (\<lambda>_.
     FF (gets (\<lambda>r. host_instrs r local_buffer 0)) (\<lambda>instruction.
     FF (ufi_iram_write ci_mask (\<lambda>_ _. encode STOPci [BOOT_CC_TRUE, ucast pc]) 0 1) (\<lambda>_.
     FF (dpu_thread_boot_safe_for_dpu slice_id member_id thread False) (\<lambda>_.
     FF (wait_dpu_stops fuel ci_mask slice_id member_id (replicate 8 0)) (\<lambda>_.
     ufi_iram_write ci_mask (\<lambda>_ _. instruction) 0 1))))))"

text \<open>
  \<open>decrement_thread_pc\<close> on the entry of the thread in \<open>context->pcs\<close>; the entry is changed before
  the DPU is touched.
\<close>

definition decrement_thread_pc :: "nat \<Rightarrow> nat \<Rightarrow> nat \<Rightarrow> u8 \<Rightarrow> ('w, unit) dbg" where
  "decrement_thread_pc fuel slice_id member_id thread =
     FF (on_rank (dpu_custom_for_dpu slice_id member_id (DPU_COMMAND_EVENT_START DPU_EVENT_DEBUG_ACTION))) (\<lambda>_ (r, c).
     if length (pcs c) \<le> unat thread then abort (r, c)
     else let pc = previous_instruction r (pcs c ! unat thread)
       in FF (in_context (\<lambda>c. c\<lparr>pcs := (pcs c)[unat thread := pc]\<rparr>)) (\<lambda>_.
          FF (on_rank (boot_at fuel slice_id member_id thread pc)) (\<lambda>_.
          on_rank (dpu_custom_for_dpu slice_id member_id (DPU_COMMAND_EVENT_END DPU_EVENT_DEBUG_ACTION)))) (r, c))"

section \<open>Draining the pipeline\<close>

definition read_run_register :: "nat \<Rightarrow> u8 \<Rightarrow> u8 list \<Rightarrow> u8 list \<Rightarrow> ('w, u8 list \<times> u8 list) ufi" where
  "read_run_register slice_id ci_mask res run_register = (\<lambda>r.
     mfor [0..<nr_of_threads (r_hw r)] (\<lambda>each_thread (res, run_register).
       FF (ufi_read_run_bit ci_mask (of_nat each_thread) res) (\<lambda>res.
       ok (res, run_register[each_thread := res ! slice_id]))) (res, run_register) r)"

text \<open>
  What a round does for one thread: a thread that has left the FIFO since the last round gets the PC
  of the round, and is entered in the schedule.
\<close>

definition drain_thread ::
  "bool \<Rightarrow> nat \<Rightarrow> u16 \<Rightarrow> u8 list \<Rightarrow> nat \<Rightarrow> bool \<times> u8 list \<times> dpu_context \<Rightarrow> bool \<times> u8 list \<times> dpu_context" where
  "drain_thread should_add_to_schedule member_id pc run_register each_thread = (\<lambda>(still_draining, previous, c).
     if run_register ! each_thread AND dpu_mask_one member_id \<noteq> 0 then (True, previous, c)
     else if previous ! each_thread AND dpu_mask_one member_id \<noteq> 0
     then (still_draining, previous[each_thread := 0],
       if should_add_to_schedule
       then c\<lparr>pcs := (pcs c)[each_thread := pc], scheduling := (scheduling c)[each_thread := nr_of_running_threads c],
              nr_of_running_threads := nr_of_running_threads c + 1\<rparr>
       else c\<lparr>pcs := (pcs c)[each_thread := pc]\<rparr>)
     else (still_draining, previous, c))"

definition drain_round ::
  "bool \<Rightarrow> nat \<Rightarrow> u16 \<Rightarrow> u8 list \<Rightarrow> nat \<Rightarrow> u8 list \<Rightarrow> dpu_context \<Rightarrow> bool \<times> u8 list \<times> dpu_context" where
  "drain_round add member_id pc run_register nr_of_threads_per_dpu previous c =
     fold (drain_thread add member_id pc run_register) [0..<nr_of_threads_per_dpu] (False, previous, c)"

fun drain_loop :: "nat \<Rightarrow> bool \<Rightarrow> nat \<Rightarrow> nat \<Rightarrow> u8 \<Rightarrow> u8 list \<Rightarrow> u8 list \<Rightarrow> u8 list \<Rightarrow> ('w, unit) dbg" where
  "drain_loop 0 add slice_id member_id ci_mask res run_register previous = (\<lambda>s. (NoFuel, s))"
| "drain_loop (Suc n) add slice_id member_id ci_mask res run_register previous =
     FF (on_rank (ufi_debug_replace_stop ci_mask)) (\<lambda>_.
     FF (on_rank (ufi_set_dpu_fault_and_step ci_mask)) (\<lambda>_.
     FF (on_rank (ufi_debug_pc_read ci_mask (replicate 8 0))) (\<lambda>pc_results.
     FF (on_rank (read_run_register slice_id ci_mask res run_register)) (\<lambda>(res, run_register) (r, c).
     (case drain_round add member_id (pc_results ! slice_id) run_register (nr_of_threads (r_hw r)) previous c of
        (still_draining, previous, c) \<Rightarrow>
          if still_draining then drain_loop n add slice_id member_id ci_mask res run_register previous (r, c)
          else ok () (r, c))))))"

definition drain_pipeline :: "nat \<Rightarrow> nat \<Rightarrow> nat \<Rightarrow> bool \<Rightarrow> ('w, unit) dbg" where
  "drain_pipeline fuel slice_id member_id should_add_to_schedule =
     FF (on_rank (ufi_select_dpu (bit_of slice_id) member_id)) (\<lambda>ci_mask (r, c).
     FF (on_rank (read_run_register slice_id ci_mask (replicate 8 0) (replicate (nr_of_threads (r_hw r)) 0)))
       (\<lambda>(res, previous).
        if list_ex (\<lambda>each_thread. previous ! each_thread AND dpu_mask_one member_id \<noteq> 0) [0..<nr_of_threads (r_hw r)]
        then FF (drain_loop fuel should_add_to_schedule slice_id member_id ci_mask res
               (replicate (nr_of_threads (r_hw r)) 0) previous) (\<lambda>_.
             on_rank (ufi_clear_debug_replace ci_mask))
        else ok ()) (r, c))"

section \<open>Faults kept in the memory of the DPU\<close>

definition ERROR_STORAGE_GUARD :: u32 where "ERROR_STORAGE_GUARD = 0xFEFEB"

text \<open>The bit fields of \<open>error_storage_t\<close>, from the least significant bit on: 1, 5, 1, 5 and 20 bits.\<close>

definition encode_error_storage :: "bool \<Rightarrow> u8 \<Rightarrow> bool \<Rightarrow> u8 \<Rightarrow> u32" where
  "encode_error_storage dma_f dma_thread mem_f mem_thread =
     (if dma_f then 1 else 0) OR push_bit 1 (ucast dma_thread AND 0x1F) OR
     (if mem_f then bit_of 6 else 0) OR push_bit 7 (ucast mem_thread AND 0x1F) OR push_bit 12 ERROR_STORAGE_GUARD"

definition decode_error_storage :: "u32 \<Rightarrow> (bool \<times> u8 \<times> bool \<times> u8) option" where
  "decode_error_storage storage =
     (if drop_bit 12 storage \<noteq> ERROR_STORAGE_GUARD then None
      else Some (bit storage 0, ucast (drop_bit 1 storage AND 0x1F), bit storage 6, ucast (drop_bit 7 storage AND 0x1F)))"

text \<open>\<open>dpu_get_symbol\<close> of \<^verbatim>\<open>api/src/api/dpu_memory.c\<close>: the first symbol of that name.\<close>

fun dpu_get_symbol :: "dpu_elf_symbol list \<Rightarrow> string \<Rightarrow> dpu_elf_symbol option" where
  "dpu_get_symbol [] name = None"
| "dpu_get_symbol (elf_symbol # symbols) name =
     (if symbol_name elf_symbol = name then Some elf_symbol else dpu_get_symbol symbols name)"

definition get_error_store_symbol :: "dpu_elf_symbol list option \<Rightarrow> u32 \<Rightarrow> u32 option" where
  "get_error_store_symbol program error_store_addr = (case program of
       Some symbols \<Rightarrow> map_option symbol_value (dpu_get_symbol symbols ''error_storage'')
     | None \<Rightarrow> if error_store_addr \<noteq> 0 then Some error_store_addr else None)"

section \<open>Entering the debugger\<close>

text \<open>
  A fault is kept as 0 or 1 (\<^verbatim>\<open>bkp_fault = (result & mask_one) != 0\<close>) and later tested with the
  bit of the DPU once more (\<^verbatim>\<open>(bkp_fault & mask_one) != 0\<close>).
\<close>

definition fault_flag :: "u8 list \<Rightarrow> nat \<Rightarrow> nat \<Rightarrow> u8" where
  "fault_flag res slice_id member_id = (if res ! slice_id AND dpu_mask_one member_id \<noteq> 0 then 1 else 0)"

definition flag_of_dpu :: "u8 \<Rightarrow> nat \<Rightarrow> bool" where
  "flag_of_dpu flag member_id \<longleftrightarrow> flag AND dpu_mask_one member_id \<noteq> 0"

text \<open>1. and 2.: drain the pipeline, and get the PCs of the threads that were not in it.\<close>

definition boot_threads :: "nat \<Rightarrow> nat \<Rightarrow> (nat \<Rightarrow> bool) \<Rightarrow> nat \<Rightarrow> ('w, unit) ufi" where
  "boot_threads slice_id member_id wanted nr_of_threads_per_dpu =
     mfor [0..<nr_of_threads_per_dpu] (\<lambda>each_thread _.
       if wanted each_thread then dpu_thread_boot_safe_for_dpu slice_id member_id (of_nat each_thread) True else ok ()) ()"

definition drain_all_threads :: "nat \<Rightarrow> nat \<Rightarrow> nat \<Rightarrow> u8 \<Rightarrow> ('w, unit) dbg" where
  "drain_all_threads fuel slice_id member_id ci_mask =
     FF (drain_pipeline fuel slice_id member_id True) (\<lambda>_ (r, c).
     if unat (nr_of_running_threads c) = nr_of_threads (r_hw r) then ok () (r, c)
     else FF (on_rank (ufi_clear_fault_dpu ci_mask)) (\<lambda>_.
       FF (on_rank (ufi_set_dpu_fault_and_step ci_mask)) (\<lambda>_.
       FF (on_rank (boot_threads slice_id member_id (\<lambda>t. scheduling c ! t = 0xFF) (nr_of_threads (r_hw r)))) (\<lambda>_.
       FF (on_rank (ufi_read_bkp_fault ci_mask None)) (\<lambda>_.
       drain_pipeline fuel slice_id member_id False)))) (r, c))"

text \<open>3.: the faults; \<open>res\<close> is the result array, which keeps what a read does not write.\<close>

record identified_faults =
  id_dma_fault :: u8
  id_mem_fault :: u8
  id_dma_thread :: u8
  id_mem_thread :: u8

definition identify_faults :: "nat \<Rightarrow> nat \<Rightarrow> u8 \<Rightarrow> u8 list \<Rightarrow> ('w, identified_faults) ufi" where
  "identify_faults slice_id member_id ci_mask res =
     FF (ufi_read_dma_fault_thread_index ci_mask res) (\<lambda>res1.
     FF (ufi_read_mem_fault_thread_index ci_mask res1) (\<lambda>res2.
     FF (ufi_clear_fault_bkp ci_mask) (\<lambda>_.
     FF (ufi_read_and_clear_dma_fault ci_mask (Some res2)) (\<lambda>res3.
     FF (ufi_read_and_clear_mem_fault ci_mask res3) (\<lambda>res4.
     FF (ufi_clear_fault_dpu ci_mask) (\<lambda>_.
     ok \<lparr>id_dma_fault = fault_flag (the res3) slice_id member_id, id_mem_fault = fault_flag (the res4) slice_id member_id,
         id_dma_thread = res1 ! slice_id, id_mem_thread = res2 ! slice_id\<rparr>))))))"

definition report_bkp_fault :: "nat \<Rightarrow> nat \<Rightarrow> nat \<Rightarrow> u8 \<Rightarrow> ('w, unit) dbg" where
  "report_bkp_fault fuel slice_id member_id thread =
     FF (in_context (\<lambda>c. c\<lparr>bkp_fault := True, bkp_fault_thread_index := thread\<rparr>)) (\<lambda>_ (r, c).
     if length (pcs c) \<le> unat thread then abort (r, c)
     else FF (on_rank (extract_bkp_fault_id slice_id member_id (previous_instruction r (pcs c ! unat thread)))) (\<lambda>fault_id.
       FF (in_context (\<lambda>c. c\<lparr>bkp_fault_id := fault_id\<rparr>)) (\<lambda>_.
       if fault_id = DPU_FAULT_UNKNOWN_ID then in_context (\<lambda>c. c\<lparr>bkp_fault := False\<rparr>)
       else decrement_thread_pc fuel slice_id member_id thread)) (r, c))"

definition report_dma_fault :: "nat \<Rightarrow> nat \<Rightarrow> nat \<Rightarrow> u8 \<Rightarrow> ('w, unit) dbg" where
  "report_dma_fault fuel slice_id member_id thread =
     FF (in_context (\<lambda>c. c\<lparr>dma_fault := True, dma_fault_thread_index := thread\<rparr>)) (\<lambda>_.
     decrement_thread_pc fuel slice_id member_id thread)"

definition report_mem_fault :: "nat \<Rightarrow> nat \<Rightarrow> nat \<Rightarrow> u8 \<Rightarrow> ('w, unit) dbg" where
  "report_mem_fault fuel slice_id member_id thread =
     FF (in_context (\<lambda>c. c\<lparr>mem_fault := True, mem_fault_thread_index := thread\<rparr>)) (\<lambda>_.
     decrement_thread_pc fuel slice_id member_id thread)"

text \<open>The faults of an earlier session are kept in the variable \<open>error_storage\<close> of the program.\<close>

definition merge_stored_faults :: "(bool \<times> u8 \<times> bool \<times> u8) option \<Rightarrow> bool \<Rightarrow> bool \<Rightarrow> dpu_context \<Rightarrow> dpu_context" where
  "merge_stored_faults stored dma_seen mem_seen c = (case stored of
       None \<Rightarrow> c
     | Some (dma_f, dma_thread, mem_f, mem_thread) \<Rightarrow>
         c\<lparr>dma_fault := dma_fault c \<or> dma_f,
           dma_fault_thread_index := (if dma_seen then dma_fault_thread_index c else dma_thread),
           mem_fault := mem_fault c \<or> mem_f,
           mem_fault_thread_index := (if mem_seen then mem_fault_thread_index c else mem_thread)\<rparr>)"

text \<open>The last argument is the index of the DMA fault again.\<close>

definition storage_of_context :: "dpu_context \<Rightarrow> u32" where
  "storage_of_context c =
     encode_error_storage (dma_fault c) (dma_fault_thread_index c) (mem_fault c) (dma_fault_thread_index c)"

definition sync_error_storage :: "nat \<Rightarrow> nat \<Rightarrow> u32 \<Rightarrow> bool \<Rightarrow> bool \<Rightarrow> ('w, unit) dbg" where
  "sync_error_storage slice_id member_id error_store_addr dma_seen mem_seen = (\<lambda>(r, c).
     case get_error_store_symbol (program_symbols (dpu_get_unsafe r slice_id member_id)) error_store_addr of
       None \<Rightarrow> ok () (r, c)
     | Some address \<Rightarrow>
         FF (on_rank (FF (modify (store_word local_buffer 0 0)) (\<lambda>_.
              FF (ci_copy_from_wrams_dpu slice_id member_id local_buffer (address div 4) 1) (\<lambda>_.
              gets (\<lambda>r. host_words r local_buffer 0))))) (\<lambda>storage.
         FF (in_context (merge_stored_faults (decode_error_storage storage) dma_seen mem_seen)) (\<lambda>_ (r, c).
         if dma_seen \<or> mem_seen
         then on_rank (FF (modify (store_word local_buffer 0 (storage_of_context c))) (\<lambda>_.
                ci_copy_to_wrams_dpu slice_id member_id (address div 4) local_buffer 1)) (r, c)
         else ok () (r, c))) (r, c))"

definition ci_debug_init_dpu :: "nat \<Rightarrow> nat \<Rightarrow> nat \<Rightarrow> u32 \<Rightarrow> ('w, unit) dbg" where
  "ci_debug_init_dpu fuel slice_id member_id error_store_addr =
     FF (on_rank (ufi_select_dpu (bit_of slice_id) member_id)) (\<lambda>ci_mask.
     FF (on_rank (ufi_read_bkp_fault_thread_index ci_mask (replicate 8 0))) (\<lambda>res.
     FF (on_rank (ufi_read_bkp_fault ci_mask (Some res))) (\<lambda>res'.
     FF (on_rank (ufi_set_bkp_fault ci_mask)) (\<lambda>_.
     FF (drain_all_threads fuel slice_id member_id ci_mask) (\<lambda>_.
     FF (on_rank (identify_faults slice_id member_id ci_mask (the res'))) (\<lambda>faults.
     let bkp_seen = flag_of_dpu (fault_flag (the res') slice_id member_id) member_id;
         dma_seen = flag_of_dpu (id_dma_fault faults) member_id;
         mem_seen = flag_of_dpu (id_mem_fault faults) member_id
     in FF (if bkp_seen then report_bkp_fault fuel slice_id member_id (res ! slice_id) else ok ()) (\<lambda>_.
        FF (if dma_seen then report_dma_fault fuel slice_id member_id (id_dma_thread faults) else ok ()) (\<lambda>_.
        FF (if mem_seen then report_mem_fault fuel slice_id member_id (id_mem_thread faults) else ok ()) (\<lambda>_.
        sync_error_storage slice_id member_id error_store_addr dma_seen mem_seen)))))))))"

section \<open>Leaving the debugger, stepping\<close>

text \<open>
  \<open>scheduling_order\<close>: the thread of each position; \<open>None\<close> is an entry that was not written. A
  position outside of the array is out of bounds.
\<close>

definition scheduling_order :: "nat \<Rightarrow> u8 list \<Rightarrow> nat option list option" where
  "scheduling_order nr_of_threads_per_dpu schedule =
     (if list_all (\<lambda>t. schedule ! t = 0xFF \<or> unat (schedule ! t) < nr_of_threads_per_dpu) [0..<nr_of_threads_per_dpu]
      then Some (fold (\<lambda>each_thread order.
             if schedule ! each_thread \<noteq> 0xFF then order[unat (schedule ! each_thread) := Some each_thread] else order)
           [0..<nr_of_threads_per_dpu] (replicate nr_of_threads_per_dpu None))
      else None)"

definition resume_threads :: "nat \<Rightarrow> nat \<Rightarrow> (nat \<Rightarrow> bool) \<Rightarrow> dpu_context \<Rightarrow> ('w, unit) ufi" where
  "resume_threads slice_id member_id wanted c = (\<lambda>r.
     case scheduling_order (nr_of_threads (r_hw r)) (scheduling c) of
       None \<Rightarrow> (Abort, r)
     | Some order \<Rightarrow>
         mfor [0..<unat (nr_of_running_threads c)] (\<lambda>each_running_thread _.
           if nr_of_threads (r_hw r) \<le> each_running_thread then abort
           else (case order ! each_running_thread of
               None \<Rightarrow> abort
             | Some thread \<Rightarrow>
                 if wanted thread then dpu_thread_boot_safe_for_dpu slice_id member_id (of_nat thread) True else ok ())) () r)"

definition in_fault :: "dpu_context \<Rightarrow> bool" where
  "in_fault c \<longleftrightarrow> (bkp_fault c \<and> bkp_fault_id c \<noteq> 0) \<or> mem_fault c \<or> dma_fault c"

definition ci_debug_teardown_dpu :: "nat \<Rightarrow> nat \<Rightarrow> ('w, unit) dbg" where
  "ci_debug_teardown_dpu slice_id member_id = (\<lambda>(r, c).
     on_rank (FF (ufi_select_dpu (bit_of slice_id) member_id) (\<lambda>ci_mask.
       FF (ufi_set_dpu_fault_and_step ci_mask) (\<lambda>_.
       FF (ufi_set_bkp_fault ci_mask) (\<lambda>_.
       FF (resume_threads slice_id member_id (\<lambda>_. True) c) (\<lambda>_.
       FF (ufi_read_bkp_fault ci_mask None) (\<lambda>_.
       FF (ufi_clear_fault_bkp ci_mask) (\<lambda>_.
       if in_fault c then ok () else ufi_clear_fault_dpu ci_mask))))))) (r, c))"

text \<open>5 Bis.: until the DPU is stopped or in fault.\<close>

fun wait_step :: "nat \<Rightarrow> u8 \<Rightarrow> nat \<Rightarrow> nat \<Rightarrow> u8 list \<Rightarrow> ('w, u8 list) ufi" where
  "wait_step 0 ci_mask slice_id member_id res = (\<lambda>r. (NoFuel, r))"
| "wait_step (Suc n) ci_mask slice_id member_id res =
     FF (ufi_read_dpu_run ci_mask res) (\<lambda>res_run.
     FF (ufi_read_dpu_fault ci_mask res_run) (\<lambda>res_fault.
     if (res_run ! slice_id AND NOT (res_fault ! slice_id)) AND dpu_mask_one member_id \<noteq> 0
     then wait_step n ci_mask slice_id member_id res_fault else ok res_fault))"

record step_faults =
  step_poison :: u8
  step_dma :: u8
  step_mem :: u8

definition step_thread :: "nat \<Rightarrow> nat \<Rightarrow> nat \<Rightarrow> u8 \<Rightarrow> u8 \<Rightarrow> dpu_context \<Rightarrow> ('w, step_faults) ufi" where
  "step_thread fuel slice_id member_id thread ci_mask c =
     FF (ufi_set_dpu_fault_and_step ci_mask) (\<lambda>_.
     FF (ufi_set_poison_fault ci_mask) (\<lambda>_.
     FF (dpu_thread_boot_safe_for_dpu slice_id member_id thread True) (\<lambda>_.
     FF (resume_threads slice_id member_id (\<lambda>t. t \<noteq> unat thread) c) (\<lambda>_.
     FF (ufi_read_bkp_fault ci_mask None) (\<lambda>_.
     FF (ufi_clear_fault_bkp ci_mask) (\<lambda>_.
     FF (ufi_clear_fault_dpu ci_mask) (\<lambda>_.
     FF (wait_step fuel ci_mask slice_id member_id (replicate 8 0)) (\<lambda>res.
     FF (ufi_read_poison_fault ci_mask res) (\<lambda>res1.
     FF (ufi_clear_fault_poison ci_mask) (\<lambda>_.
     FF (ufi_read_bkp_fault ci_mask None) (\<lambda>_.
     FF (ufi_clear_fault_bkp ci_mask) (\<lambda>_.
     FF (ufi_read_and_clear_dma_fault ci_mask (Some res1)) (\<lambda>res2.
     FF (ufi_read_and_clear_mem_fault ci_mask res2) (\<lambda>res3.
     ok \<lparr>step_poison = res1 ! slice_id, step_dma = the res2 ! slice_id, step_mem = the res3 ! slice_id\<rparr>))))))))))))))"

definition reset_schedule :: "nat \<Rightarrow> dpu_context \<Rightarrow> dpu_context" where
  "reset_schedule nr_of_threads_per_dpu c =
     c\<lparr>scheduling := fold (\<lambda>t s. s[t := 0xFF]) [0..<nr_of_threads_per_dpu] (scheduling c), nr_of_running_threads := 0\<rparr>"

definition report_step_faults :: "nat \<Rightarrow> nat \<Rightarrow> nat \<Rightarrow> u8 \<Rightarrow> step_faults \<Rightarrow> ('w, unit) dbg" where
  "report_step_faults fuel slice_id member_id thread faults =
     FF (if \<not> flag_of_dpu (step_poison faults) member_id
         then FF (in_context (\<lambda>c. c\<lparr>bkp_fault := True, bkp_fault_thread_index := thread\<rparr>)) (\<lambda>_.
              FF (decrement_thread_pc fuel slice_id member_id thread) (\<lambda>_ (r, c).
              FF (on_rank (extract_bkp_fault_id slice_id member_id (pcs c ! unat thread))) (\<lambda>fault_id.
              in_context (\<lambda>c. c\<lparr>bkp_fault_id := fault_id\<rparr>)) (r, c)))
         else ok ()) (\<lambda>_.
     FF (if flag_of_dpu (step_dma faults) member_id then report_dma_fault fuel slice_id member_id thread else ok ()) (\<lambda>_.
     if flag_of_dpu (step_mem faults) member_id then report_mem_fault fuel slice_id member_id thread else ok ()))"

definition ci_debug_step_dpu :: "nat \<Rightarrow> nat \<Rightarrow> nat \<Rightarrow> u8 \<Rightarrow> ('w, unit) dbg" where
  "ci_debug_step_dpu fuel slice_id member_id thread = (\<lambda>(r, c).
     FF (on_rank (ufi_select_dpu (bit_of slice_id) member_id)) (\<lambda>ci_mask.
     FF (on_rank (step_thread fuel slice_id member_id thread ci_mask c)) (\<lambda>faults.
     let nr_of_waiting_threads = (ucast (nr_of_running_threads c) - 1 :: u32)
     in FF (in_context (reset_schedule (nr_of_threads (r_hw r)))) (\<lambda>_.
        FF (drain_pipeline fuel slice_id member_id True) (\<lambda>_.
        FF (on_rank (ufi_clear_fault_dpu ci_mask)) (\<lambda>_ (r', c').
        if ucast (nr_of_running_threads c') - nr_of_waiting_threads = 1
        then report_step_faults fuel slice_id member_id thread faults (r', c')
        else ok () (r', c')))))) (r, c))"

definition ci_debug_read_pcs_dpu :: "nat \<Rightarrow> nat \<Rightarrow> nat \<Rightarrow> ('w, unit) dbg" where
  "ci_debug_read_pcs_dpu fuel slice_id member_id = (\<lambda>(r, c).
     FF (on_rank (ufi_select_dpu (bit_of slice_id) member_id)) (\<lambda>ci_mask.
     FF (on_rank (ufi_set_dpu_fault_and_step ci_mask)) (\<lambda>_.
     FF (on_rank (ufi_set_bkp_fault ci_mask)) (\<lambda>_.
     FF (on_rank (boot_threads slice_id member_id (\<lambda>_. True) (nr_of_threads (r_hw r)))) (\<lambda>_.
     FF (on_rank (ufi_read_bkp_fault ci_mask None)) (\<lambda>_.
     FF (drain_pipeline fuel slice_id member_id False) (\<lambda>_.
     FF (on_rank (ufi_select_dpu ci_mask member_id)) (\<lambda>ci_mask.
     FF (on_rank (ufi_clear_fault_bkp ci_mask)) (\<lambda>_.
     on_rank (ufi_clear_fault_dpu ci_mask))))))))) (r, c))"

section \<open>Programs that run on the DPU\<close>

text \<open>\<open>set_pc_in_core_dump_or_restore_registers\<close> for all threads; \<open>None\<close>: an index outside of the program.\<close>

definition set_pc_in_core_dump_or_restore_registers :: "nat \<Rightarrow> u16 \<Rightarrow> u64 list \<Rightarrow> u64 list option" where
  "set_pc_in_core_dump_or_restore_registers thread pc program =
     (if DPU_NR_THREADS \<le> thread \<or> length program < 12 * (DPU_NR_THREADS - thread - 1) + 10 then None
      else let upper_index = length program - 12 * (DPU_NR_THREADS - thread - 1)
           in Some (fold (\<lambda>k program. program[upper_index - k := program ! (upper_index - k) OR ucast pc]) [1, 4, 7, 10] program))"

fun patch_program :: "u16 list \<Rightarrow> nat list \<Rightarrow> u64 list \<Rightarrow> u64 list option" where
  "patch_program thread_pcs [] program = Some program"
| "patch_program thread_pcs (t # threads) program =
     Option.bind (set_pc_in_core_dump_or_restore_registers t (thread_pcs ! t) program) (patch_program thread_pcs threads)"

fun wait_run_bit :: "nat \<Rightarrow> u8 \<Rightarrow> nat \<Rightarrow> nat \<Rightarrow> u8 list \<Rightarrow> ('w, unit) ufi" where
  "wait_run_bit 0 ci_mask slice_id member_id running = (\<lambda>r. (NoFuel, r))"
| "wait_run_bit (Suc n) ci_mask slice_id member_id running =
     FF (ufi_read_run_bit ci_mask 0 running) (\<lambda>running.
     if running ! slice_id AND dpu_mask_one member_id \<noteq> 0
     then wait_run_bit n ci_mask slice_id member_id running else ok ())"

definition dpu_boot_and_wait_for_dpu :: "nat \<Rightarrow> nat \<Rightarrow> nat \<Rightarrow> ('w, unit) ufi" where
  "dpu_boot_and_wait_for_dpu fuel slice_id member_id =
     FF (ufi_select_dpu (bit_of slice_id) member_id) (\<lambda>ci_mask r.
     if nr_cis r \<le> slice_id \<or> nr_dpus r \<le> member_id then (Abort, r)
     else FF (dpu_thread_boot_safe_for_dpu slice_id member_id 0 False) (\<lambda>_.
       wait_run_bit fuel ci_mask slice_id member_id (replicate 8 0)) r)"

section \<open>The saved context\<close>

text \<open>
  The context as the programs keep it at the start of the WRAM: a byte per atomic bit, then the
  registers two by two for all threads (the odd one first), then the flags of each thread.
\<close>

definition context_size_in_words :: nat where
  "context_size_in_words = ATOMIC_REG_SIZE_IN_WORDS + WORK_REGS_SIZE_IN_WORDS + FLAGS_SIZE_IN_WORDS"

definition byte_of_words :: "u32 list \<Rightarrow> nat \<Rightarrow> u8" where
  "byte_of_words raw i = ucast (drop_bit (8 * (i mod 4)) (raw ! (i div 4)))"

definition set_byte_of_words :: "nat \<Rightarrow> u8 \<Rightarrow> u32 list \<Rightarrow> u32 list" where
  "set_byte_of_words i b raw =
     raw[i div 4 := (raw ! (i div 4) AND NOT (push_bit (8 * (i mod 4)) 0xFF)) OR push_bit (8 * (i mod 4)) (ucast b)]"

definition odd_register_context_index :: "nat \<Rightarrow> nat \<Rightarrow> nat" where
  "odd_register_context_index each_thread each_register_index =
     ATOMIC_REG_SIZE_IN_WORDS + each_register_index * DPU_NR_THREADS + 2 * each_thread"

definition flags_offset :: nat where "flags_offset = ATOMIC_REG_SIZE_IN_WORDS + WORK_REGS_SIZE_IN_WORDS"

text \<open>The threads with the even registers of each.\<close>

definition register_pairs :: "dpu_hw_description \<Rightarrow> (nat \<times> nat) list" where
  "register_pairs hw = List.product [0..<nr_of_threads hw] (map (\<lambda>k. 2 * k) [0..<(nr_of_work_registers_per_thread hw + 1) div 2])"

definition unpack_registers :: "dpu_hw_description \<Rightarrow> u32 list \<Rightarrow> u32 list \<Rightarrow> u32 list" where
  "unpack_registers hw raw =
     fold (\<lambda>(t, reg) regs.
         let even_register_index = t * nr_of_work_registers_per_thread hw + reg
         in (regs[even_register_index := raw ! (odd_register_context_index t reg + 1)])
              [even_register_index + 1 := raw ! odd_register_context_index t reg]) (register_pairs hw)"

definition unpack_context :: "dpu_hw_description \<Rightarrow> u32 list \<Rightarrow> dpu_context \<Rightarrow> dpu_context" where
  "unpack_context hw raw c = c\<lparr>
     atomic_register := fold (\<lambda>i a. a[i := (byte_of_words raw i \<noteq> 0)]) [0..<nr_of_atomic_bits hw] (atomic_register c),
     registers := unpack_registers hw raw (registers c),
     carry_flags := fold (\<lambda>t f. f[t := (raw ! (flags_offset + t) AND 1 \<noteq> 0)]) [0..<nr_of_threads hw] (carry_flags c),
     zero_flags := fold (\<lambda>t f. f[t := (raw ! (flags_offset + t) AND 2 \<noteq> 0)]) [0..<nr_of_threads hw] (zero_flags c)\<rparr>"

definition pack_context :: "dpu_hw_description \<Rightarrow> dpu_context \<Rightarrow> u32 list \<Rightarrow> u32 list" where
  "pack_context hw c raw =
     (let raw1 = fold (\<lambda>i. set_byte_of_words i (if atomic_register c ! i then 0xFF else 0x00)) [0..<nr_of_atomic_bits hw] raw
      in fold (\<lambda>each_thread raw.
           (fold (\<lambda>reg raw.
               let even_register_index = each_thread * nr_of_work_registers_per_thread hw + reg
               in (raw[odd_register_context_index each_thread reg := registers c ! (even_register_index + 1)])
                    [odd_register_context_index each_thread reg + 1 := registers c ! even_register_index])
             (map (\<lambda>k. 2 * k) [0..<(nr_of_work_registers_per_thread hw + 1) div 2]) raw)
             [flags_offset + each_thread :=
                (if carry_flags c ! each_thread then 1 else 0) + (if zero_flags c ! each_thread then 2 else 0)])
         [0..<nr_of_threads hw] raw1)"

text \<open>The layout has room for what the hardware has; otherwise the accesses leave the arrays.\<close>

definition layout_fits :: "dpu_hw_description \<Rightarrow> bool" where
  "layout_fits hw \<longleftrightarrow> nr_of_threads hw \<le> DPU_NR_THREADS \<and> nr_of_work_registers_per_thread hw \<le> DPU_NR_WORK_REGS
     \<and> even (nr_of_work_registers_per_thread hw) \<and> nr_of_atomic_bits hw \<le> DPU_NR_ATOMIC_BITS"

definition dpu_extract_context_for_dpu_routine :: "nat \<Rightarrow> nat \<Rightarrow> nat \<Rightarrow> ('w, unit) dbg" where
  "dpu_extract_context_for_dpu_routine fuel slice_id member_id =
     FF (on_rank (dpu_boot_and_wait_for_dpu fuel slice_id member_id)) (\<lambda>_.
     FF (on_rank (ufi_select_dpu (bit_of slice_id) member_id)) (\<lambda>ci_mask.
     FF (on_rank (ufi_wram_read ci_mask (\<lambda>_. local_buffer) 0 (of_nat context_size_in_words))) (\<lambda>_ (r, c).
     if \<not> layout_fits (r_hw r) then abort (r, c)
     else in_context (unpack_context (r_hw r) (map (host_words r local_buffer) [0..<context_size_in_words])) (r, c))))"

definition dpu_restore_context_for_dpu_routine :: "nat \<Rightarrow> nat \<Rightarrow> nat \<Rightarrow> ('w, unit) dbg" where
  "dpu_restore_context_for_dpu_routine fuel slice_id member_id = (\<lambda>(r, c).
     if \<not> layout_fits (r_hw r) then abort (r, c)
     else on_rank (
       let raw_context = pack_context (r_hw r) c (replicate context_size_in_words 0)
       in FF (ufi_select_dpu (bit_of slice_id) member_id) (\<lambda>ci_mask.
          FF (ufi_wram_write ci_mask (\<lambda>_ i. raw_context ! i) 0 (of_nat context_size_in_words)) (\<lambda>_.
          dpu_boot_and_wait_for_dpu fuel slice_id member_id))) (r, c))"

text \<open>
  The memories are saved, the patched program is loaded and run, and the memories are written back;
  a step that fails leaves them as they are then.
\<close>

definition dpu_execute_routine_for_dpu ::
  "nat \<Rightarrow> nat \<Rightarrow> u64 list option \<Rightarrow> ('w, unit) dbg \<Rightarrow> dpu_event_kind \<Rightarrow> ('w, unit) dbg" where
  "dpu_execute_routine_for_dpu slice_id member_id fetched_program routine custom_event =
     FF (on_rank (dpu_custom_for_dpu slice_id member_id (DPU_COMMAND_EVENT_START custom_event))) (\<lambda>_.
     (case fetched_program of
        None \<Rightarrow> fail DPU_ERR_SYSTEM
      | Some program \<Rightarrow>
          FF (on_rank (ufi_select_dpu (bit_of slice_id) member_id)) (\<lambda>ci_mask.
          FF (on_rank (ufi_iram_read ci_mask (\<lambda>_. local_buffer) 0 (of_nat (length program)))) (\<lambda>_.
          FF (gets (\<lambda>(r, c). host_instrs r local_buffer)) (\<lambda>iram_backup.
          FF (on_rank (ufi_wram_read ci_mask (\<lambda>_. local_buffer) 0 (of_nat context_size_in_words))) (\<lambda>_.
          FF (gets (\<lambda>(r, c). host_words r local_buffer)) (\<lambda>wram_backup (r, c).
          (case patch_program (pcs c) [0..<nr_of_threads (r_hw r)] program of
             None \<Rightarrow> abort (r, c)
           | Some patched \<Rightarrow>
               FF (on_rank (ufi_iram_write ci_mask (\<lambda>_ i. patched ! i) 0 (of_nat (length program)))) (\<lambda>_.
               FF routine (\<lambda>_.
               FF (on_rank (ufi_wram_write ci_mask (\<lambda>_. wram_backup) 0 (of_nat context_size_in_words))) (\<lambda>_.
               FF (on_rank (ufi_iram_write ci_mask (\<lambda>_. iram_backup) 0 (of_nat (length program)))) (\<lambda>_.
               on_rank (dpu_custom_for_dpu slice_id member_id (DPU_COMMAND_EVENT_END custom_event)))))) (r, c)))))))))"

definition ci_debug_extract_context_dpu :: "nat \<Rightarrow> nat \<Rightarrow> nat \<Rightarrow> u64 list option \<Rightarrow> ('w, unit) dbg" where
  "ci_debug_extract_context_dpu fuel slice_id member_id core_dump_program =
     dpu_execute_routine_for_dpu slice_id member_id core_dump_program
       (dpu_extract_context_for_dpu_routine fuel slice_id member_id) DPU_EVENT_EXTRACT_CONTEXT"

definition ci_debug_restore_context_dpu :: "nat \<Rightarrow> nat \<Rightarrow> nat \<Rightarrow> u64 list option \<Rightarrow> ('w, unit) dbg" where
  "ci_debug_restore_context_dpu fuel slice_id member_id restore_registers_program =
     dpu_execute_routine_for_dpu slice_id member_id restore_registers_program
       (dpu_restore_context_for_dpu_routine fuel slice_id member_id) DPU_EVENT_RESTORE_CONTEXT"

section \<open>Attaching to a rank\<close>

definition ci_debug_save_context_rank :: "('w, unit) ufi" where
  "ci_debug_save_context_rank =
     FF ci_get_color (\<lambda>debug_result'.
     modify (\<lambda>r. r\<lparr>r_debug := (r_debug r)\<lparr>
       debug_result := map (\<lambda>i. if i < length debug_result' then debug_result' ! i else debug_result (r_debug r) ! i) [0..<DPU_MAX_NR_CIS],
       debug_color := color (r_ci r)\<rparr>\<rparr>))"

text \<open>\<open>dpu_set_debug_slice_info\<close>; the target comes as the 64 bits of the structure.\<close>

definition dpu_set_debug_slice_info :: "nat \<Rightarrow> u64 \<Rightarrow> dpu_slice_target \<Rightarrow> u8 \<Rightarrow> ('w, unit) ufi" where
  "dpu_set_debug_slice_info slice_id structure target mux_state = (\<lambda>r.
     if DPU_MAX_NR_CIS \<le> slice_id then (Abort, r)
     else modify (\<lambda>r. r\<lparr>r_debug := (r_debug r)\<lparr>debug_slice_info := (debug_slice_info (r_debug r))[slice_id :=
       (debug_slice_info (r_debug r) ! slice_id)\<lparr>structure_value := structure, host_mux_mram_state := mux_state,
          slice_target := target\<rparr>]\<rparr>\<rparr>) r)"

text \<open>
  The two polls: the timeout is decremented before it is tested, and the read that brings it to 0
  counts as a timeout whatever it returned.
\<close>

definition no_command_left :: "nat \<Rightarrow> u64 list \<Rightarrow> bool" where
  "no_command_left nr data = list_all (\<lambda>s. drop_bit 56 (data ! s) AND 0xFF = 0) [0..<nr]"

definition answers_valid :: "nat \<Rightarrow> u64 list \<Rightarrow> bool" where
  "answers_valid nr data = list_all (\<lambda>s.
     drop_bit 56 (data ! s AND 0xFF00000000000000) AND 0xFF = 0 \<and> drop_bit 32 (data ! s AND 0xFF00000000) AND 0xFF = 0xFF) [0..<nr]"

fun stable_loop :: "nat \<Rightarrow> (nat \<Rightarrow> u64 list \<Rightarrow> bool) \<Rightarrow> u64 list \<Rightarrow> ('w, u64 list) ufi" where
  "stable_loop timeout is_stable data =
     FF (ci_update_commands store_local data) (\<lambda>data' r.
       let timeout' = timeout - 1
       in if timeout' \<noteq> 0 \<and> \<not> is_stable (nr_cis r) data' then stable_loop timeout' is_stable data' r
          else if timeout' = 0 then fail DPU_ERR_TIMEOUT r
          else ok data' r)"

declare stable_loop.simps [simp del]

definition restore_target :: "dpu_slice_target \<Rightarrow> u8 \<Rightarrow> ('w, unit) ufi" where
  "restore_target target ci_mask = (case target_type target of
       DPU_SLICE_TARGET_NONE \<Rightarrow> ok ()
     | DPU_SLICE_TARGET_DPU \<Rightarrow> ufi_select_dpu_uncached ci_mask (target_id target)
     | DPU_SLICE_TARGET_GROUP \<Rightarrow> ufi_select_group_uncached ci_mask (target_id target)
     | DPU_SLICE_TARGET_ALL \<Rightarrow> ufi_select_all_uncached ci_mask)"

text \<open>The CIs that already have the color the application expects.\<close>

definition same_color_mask :: "'w dpu_rank \<Rightarrow> u8" where
  "same_color_mask r =
     fold (\<lambda>each_slice identity_mask.
         if color (r_ci r) AND bit_of each_slice = debug_color (r_debug r) AND bit_of each_slice
         then identity_mask OR bit_of each_slice else identity_mask) [0..<nr_cis r] 0"

definition restore_structures :: "'w dpu_rank \<Rightarrow> 'w dpu_rank" where
  "restore_structures r =
     fold (\<lambda>each_slice. set_structure each_slice (structure_value (debug_slice_info (r_debug r) ! each_slice))) [0..<nr_cis r] r"

definition replace_first :: "nat \<Rightarrow> (nat \<Rightarrow> 'a) \<Rightarrow> 'a list \<Rightarrow> 'a list" where
  "replace_first n f data = fold (\<lambda>i data. data[i := f i]) [0..<n] data"

definition ci_debug_restore_context_rank :: "('w, unit) ufi" where
  "ci_debug_restore_context_rank =
     FF (stable_loop TIMEOUT_COLOR no_command_left (replicate 8 0)) (\<lambda>data r.
     FF (mfor [0..<nr_cis r] (\<lambda>each_slice _ r.
           restore_target (slice_target (debug_slice_info (r_debug r) ! each_slice)) (bit_of each_slice) r) ()) (\<lambda>_ r.
     FF (if same_color_mask r \<noteq> 0 then FF (ufi_identity (same_color_mask r) (replicate 8 0)) (\<lambda>_. ok ()) else ok ()) (\<lambda>_.
     FF (modify restore_structures) (\<lambda>_ r.
     let data = replace_first (nr_cis r) (\<lambda>s. structure_value (debug_slice_info (r_debug r) ! s)) data
     in FF (ci_commit_commands data) (\<lambda>_.
        FF (stable_loop TIMEOUT_COLOR answers_valid data) (\<lambda>data.
        FF (modify (upd_ctx (\<lambda>c. c\<lparr>color := color c XOR (bit_of (nr_cis r) - 1)\<rparr>))) (\<lambda>_ r.
        ci_commit_commands
          (replace_first (nr_cis r) (\<lambda>s. 0xFF00000000000000 OR ucast (debug_result (r_debug r) ! s)) data) r))) r)) r) r)"

definition debug_mux_line :: "'w dpu_rank \<Rightarrow> nat \<Rightarrow> u8" where
  "debug_mux_line r each_dpu =
     fold (\<lambda>each_slice mux_mask.
         mux_mask OR push_bit each_slice (drop_bit each_dpu (host_mux_mram_state (debug_slice_info (r_debug r) ! each_slice)) AND 1))
       [0..<nr_cis r] 0"

definition ci_debug_restore_mux_context_rank :: "('w, unit) ufi" where
  "ci_debug_restore_mux_context_rank = (\<lambda>r.
     mfor [0..<nr_dpus r] (\<lambda>each_dpu _ r. dpu_switch_mux_for_dpu_line each_dpu (debug_mux_line r each_dpu) r) () r)"

section \<open>The entry points of the API\<close>

text \<open>The operations on a DPU refuse a disabled one; \<open>dpu_execute_thread_step_in_fault_for_dpu\<close> also a thread that is not running.\<close>

definition if_enabled :: "nat \<Rightarrow> nat \<Rightarrow> ('w, unit) dbg \<Rightarrow> ('w, unit) dbg" where
  "if_enabled slice_id member_id m = (\<lambda>(r, c).
     if \<not> dpu_is_enabled r slice_id member_id then fail DPU_ERR_DPU_DISABLED (r, c) else m (r, c))"

definition dpu_extract_pcs_for_dpu :: "nat \<Rightarrow> nat \<Rightarrow> nat \<Rightarrow> ('w, unit) dbg" where
  "dpu_extract_pcs_for_dpu fuel slice_id member_id = if_enabled slice_id member_id (ci_debug_read_pcs_dpu fuel slice_id member_id)"

definition dpu_extract_context_for_dpu :: "nat \<Rightarrow> nat \<Rightarrow> nat \<Rightarrow> u64 list option \<Rightarrow> ('w, unit) dbg" where
  "dpu_extract_context_for_dpu fuel slice_id member_id program =
     if_enabled slice_id member_id (ci_debug_extract_context_dpu fuel slice_id member_id program)"

definition dpu_restore_context_for_dpu :: "nat \<Rightarrow> nat \<Rightarrow> nat \<Rightarrow> u64 list option \<Rightarrow> ('w, unit) dbg" where
  "dpu_restore_context_for_dpu fuel slice_id member_id program =
     if_enabled slice_id member_id (ci_debug_restore_context_dpu fuel slice_id member_id program)"

definition dpu_initialize_fault_process_for_dpu :: "nat \<Rightarrow> nat \<Rightarrow> nat \<Rightarrow> u32 \<Rightarrow> ('w, unit) dbg" where
  "dpu_initialize_fault_process_for_dpu fuel slice_id member_id error_store_addr =
     if_enabled slice_id member_id (ci_debug_init_dpu fuel slice_id member_id error_store_addr)"

definition dpu_finalize_fault_process_for_dpu :: "nat \<Rightarrow> nat \<Rightarrow> ('w, unit) dbg" where
  "dpu_finalize_fault_process_for_dpu slice_id member_id = if_enabled slice_id member_id (ci_debug_teardown_dpu slice_id member_id)"

definition dpu_execute_thread_step_in_fault_for_dpu :: "nat \<Rightarrow> nat \<Rightarrow> nat \<Rightarrow> u8 \<Rightarrow> ('w, unit) dbg" where
  "dpu_execute_thread_step_in_fault_for_dpu fuel slice_id member_id thread =
     if_enabled slice_id member_id (\<lambda>(r, c).
       if nr_of_threads (r_hw r) \<le> unat thread then fail DPU_ERR_INVALID_THREAD_ID (r, c)
       else if scheduling c ! unat thread = 0xFF then fail DPU_ERR_INTERNAL (r, c)
       else ci_debug_step_dpu fuel slice_id member_id thread (r, c))"

section \<open>Reset of one DPU\<close>

definition fresh_context :: "nat \<Rightarrow> dpu_context" where
  "fresh_context nr_of_dpu_threads = \<lparr>
     registers = [], pcs = replicate nr_of_dpu_threads 0, atomic_register = [], zero_flags = [], carry_flags = [],
     nr_of_running_threads = 0, scheduling = replicate nr_of_dpu_threads 0xFF,
     bkp_fault = False, dma_fault = False, mem_fault = False,
     bkp_fault_thread_index = 0, dma_fault_thread_index = 0, mem_fault_thread_index = 0, bkp_fault_id = 0\<rparr>"

definition ci_reset_dpu :: "nat \<Rightarrow> nat \<Rightarrow> nat \<Rightarrow> ('w, unit) ufi" where
  "ci_reset_dpu fuel slice_id member_id = (\<lambda>r.
     FF (dpu_custom_for_dpu slice_id member_id DPU_COMMAND_DPU_SOFT_RESET) (\<lambda>_ r.
     (case dpu_initialize_fault_process_for_dpu fuel slice_id member_id 0 (r, fresh_context (nr_of_threads (r_hw r))) of
        (out, (r, c)) \<Rightarrow>
          FF (\<lambda>r. (out, r)) (\<lambda>_.
          FF (ufi_select_dpu (bit_of slice_id) member_id) (\<lambda>ci_mask.
          FF (ufi_iram_write ci_mask (\<lambda>_ _. encode STOPci [BOOT_CC_TRUE, 0]) 0 1) (\<lambda>_.
          FF (mfor [0..<nr_of_threads (r_hw r)] (\<lambda>each_thread _.
                dpu_thread_boot_safe_for_dpu slice_id member_id (of_nat each_thread) False) ()) (\<lambda>_.
          FF (wait_dpu_stops fuel ci_mask slice_id member_id (replicate 8 0)) (\<lambda>_. ok ()))))) r)) r)"

end
