(* ===== verification/Debug_Encoding.thy ===== *)
theory Debug_Encoding
  imports Ufi_Debug Dpu_Isa_Table
begin

text \<open>
  What the debugger's data formats keep: the number of a software fault in its instruction, and the
  faults in the \<open>error_storage\<close> word.
\<close>

section \<open>The number of a fault\<close>

lemma debug_instructions: "FAULTi \<in> set instructions" "STOPci \<in> set instructions"
proof -
  have "FAULTi \<in> set isa_EXTSH_to_FAULT" by (simp add: FAULTi_def isa_EXTSH_to_FAULT_def)
  then show "FAULTi \<in> set instructions" by (simp add: instructions_def)
  have "STOPci \<in> set isa_SDS_to_STOP" by (simp add: STOPci_def isa_SDS_to_STOP_def)
  then show "STOPci \<in> set instructions" by (simp add: instructions_def)
qed

text \<open>Where bit \<open>k\<close> of the immediate is.\<close>

definition fault_bit_position :: "nat \<Rightarrow> nat" where
  "fault_bit_position k = [20, 21, 22, 23, 16, 17, 18, 19, 15, 14, 13, 12, 0, 1, 2, 3, 4, 5, 6, 7, 8, 9, 10, 11] ! k"

lemma fault_bit_locations:
  "list_all (\<lambda>k. encode FAULTi [ucast (bit_of k :: u32)] XOR encode FAULTi [0]
     = (if k < 24 then bit_of (fault_bit_position k) else 0)) [0..<32]"
  by code_simp

lemma bit_fault_instruction:
  assumes "k < 24"
  shows "bit (encode FAULTi [x]) (fault_bit_position k) \<longleftrightarrow> bit x k"
proof -
  have "k \<in> set [0, 1, 2, 3, 4, 5, 6, 7, 8, 9, 10, 11, 12, 13, 14, 15, 16, 17, 18, 19, 20, 21, 22, 23]"
    using assms by simp presburger
  then show ?thesis
    by (simp add: encode_def FAULTi_def) 
       (elim disjE; simp add: fault_bit_position_def bit_or_iff bit_field_bits numeral_2_eq_2)
qed


lemma fault_immediate_encode: "fault_immediate (encode FAULTi [x]) = ucast (x AND 0xFFFFFF)"
proof -
  have test: "(encode FAULTi [x] AND (encode FAULTi [ucast (bit_of k :: u32)] XOR encode FAULTi [0]) \<noteq> 0)
      \<longleftrightarrow> k < 24 \<and> bit x k" if "k < 32" for k
  proof -
    have "encode FAULTi [ucast (bit_of k :: u32)] XOR encode FAULTi [0] = (if k < 24 then bit_of (fault_bit_position k) else 0)"
      using fault_bit_locations that unfolding list_all_iff by simp
    then show ?thesis using bit_fault_instruction [of k x] by (simp add: and_bit_of_eq_0_iff)
  qed
  have gather: "bit (fold (\<lambda>k w. if P k then w OR bit_of k else w) ks (w :: u32)) n \<longleftrightarrow> bit w n \<or> n \<in> set ks \<and> n < 32 \<and> P n"
    for P ks w n by (induction ks arbitrary: w) (auto simp: bit_or_iff)
  have m: "(0xFFFFFF :: u64) = mask 24" by (simp add: mask_eq_exp_minus_1)
  show ?thesis
  proof (rule bit_word_eqI)
    fix n assume "n < LENGTH(32)"
    then show "bit (fault_immediate (encode FAULTi [x])) n = bit (ucast (x AND 0xFFFFFF) :: u32) n"
      unfolding fault_immediate_def gather m by (auto simp: test bit_ucast_iff bit_and_iff bit_mask_iff)
  qed
qed

text \<open>
  The number that \<open>extract_bkp_fault_id\<close> finds in a \<open>fault\<close> instruction is its immediate, as
  far as the instruction has room for it. The largest number is therefore the same as
  \<open>DPU_FAULT_UNKNOWN_ID\<close>, the answer for an instruction that is not a \<open>fault\<close>; and a \<open>stop\<close>, whose
  opcode has all bits of the one of \<open>fault\<close>, is taken for a fault with the number of its address.
\<close>

theorem fault_id_round_trip:
  "fault_id_of (encode FAULTi [x]) = ucast (x AND 0xFFFFFF)
   \<and> fault_id_of (encode FAULTi [0xFFFFFF]) = DPU_FAULT_UNKNOWN_ID
   \<and> fault_id_of (encode STOPci [BOOT_CC_TRUE, 0]) = 0"
proof -
  have base: "encode FAULTi [x] AND encode FAULTi [0] = encode FAULTi [0]" for x
  proof (rule bit_word_eqI)
    fix n
    have "bit (encode FAULTi [0]) n \<Longrightarrow> bit (insn_opcode FAULTi) n"
      unfolding encode_def add_fields_def [symmetric] bit_add_fields by (auto simp: FAULTi_def bit_field_bits)
    moreover have "bit (insn_opcode FAULTi) n \<Longrightarrow> bit (encode FAULTi [x]) n"
      unfolding encode_def add_fields_def [symmetric] bit_add_fields by blast
    ultimately show "bit (encode FAULTi [x] AND encode FAULTi [0]) n = bit (encode FAULTi [0]) n"
      by (auto simp: bit_and_iff)
  qed
  have fault: "fault_id_of (encode FAULTi [x]) = ucast (x AND 0xFFFFFF)" for x
    by (simp add: fault_id_of_def base fault_immediate_encode)
  have "fault_id_of (encode STOPci [BOOT_CC_TRUE, 0]) = 0" by code_simp
  then show ?thesis using fault [of x] fault [of "0xFFFFFF"]
    by (simp add: fault_id_of_def DPU_FAULT_UNKNOWN_ID_def)
qed


section \<open>The stored faults\<close>

lemma bit_thread_field:
  "k + 5 \<le> 32 \<Longrightarrow> bit (push_bit k (ucast (t :: u8) AND 0x1F) :: u32) n \<longleftrightarrow> k \<le> n \<and> n < k + 5 \<and> bit t (n - k)"
proof -
  assume k: "k + 5 \<le> 32"
  have m5: "(0x1F :: u32) = mask 5" by (simp add: mask_eq_exp_minus_1)
  show ?thesis using k unfolding m5 by (auto simp: bit_and_iff bit_push_bit_iff bit_mask_iff bit_ucast_iff)
qed

lemma guard_lt: "bit ERROR_STORAGE_GUARD n \<Longrightarrow> n < 20"
proof -
  have "ERROR_STORAGE_GUARD = take_bit 20 ERROR_STORAGE_GUARD" unfolding ERROR_STORAGE_GUARD_def by simp
  then show "bit ERROR_STORAGE_GUARD n \<Longrightarrow> n < 20" by (metis bit_take_bit_iff)
qed

lemma bit_guard_field: "bit (push_bit 12 ERROR_STORAGE_GUARD) n \<longleftrightarrow> 12 \<le> n \<and> n < 32 \<and> bit ERROR_STORAGE_GUARD (n - 12)"
  by (auto simp: bit_push_bit_iff)

lemma bit_storage:
  "bit (encode_error_storage d dt m mt) n \<longleftrightarrow>
     (n = 0 \<and> d) \<or> (1 \<le> n \<and> n < 6 \<and> bit dt (n - 1)) \<or> (n = 6 \<and> m) \<or> (7 \<le> n \<and> n < 12 \<and> bit mt (n - 7))
     \<or> (12 \<le> n \<and> n < 32 \<and> bit ERROR_STORAGE_GUARD (n - 12))"
proof -
  have "bit (if d then 1 else 0 :: u32) n \<longleftrightarrow> n = 0 \<and> d" "bit (if m then bit_of 6 else 0 :: u32) n \<longleftrightarrow> n = 6 \<and> m"
    by (simp_all add: bit_1_iff)
  moreover note bit_thread_field [of 1 dt n] bit_thread_field [of 7 mt n] bit_guard_field [of n]
  ultimately show ?thesis unfolding encode_error_storage_def bit_or_iff by simp
qed

text \<open>
  What is stored is what is read back: the two faults, and the indices of the threads as far as
  five bits go; a word that was never written is recognised as such. What
  \<open>ci_debug_init_dpu\<close> stores for the thread of the memory fault is, however, the thread of the DMA
  fault.
\<close>

theorem error_storage_round_trip:
  "decode_error_storage (encode_error_storage d dt m mt) = Some (d, dt AND 0x1F, m, mt AND 0x1F)
   \<and> decode_error_storage 0 = None
   \<and> decode_error_storage (storage_of_context c)
       = Some (dma_fault c, dma_fault_thread_index c AND 0x1F, mem_fault c, dma_fault_thread_index c AND 0x1F)"
proof -
  have m5: "(0x1F :: u32) = mask 5" "(0x1F :: u8) = mask 5" by (simp_all add: mask_eq_exp_minus_1)
  have "drop_bit 12 (encode_error_storage d dt m mt) = ERROR_STORAGE_GUARD" for d dt m mt
    by (rule bit_word_eqI) (auto simp: bit_drop_bit_eq bit_storage dest: guard_lt)
  moreover have "ucast (drop_bit 1 (encode_error_storage d dt m mt) AND 0x1F) = dt AND 0x1F" for d dt m mt
    unfolding m5 by (rule bit_word_eqI) (auto simp: bit_ucast_iff bit_drop_bit_eq bit_and_iff bit_mask_iff bit_storage)
  moreover have "ucast (drop_bit 7 (encode_error_storage d dt m mt) AND 0x1F) = mt AND 0x1F" for d dt m mt
    unfolding m5 by (rule bit_word_eqI) (auto simp: bit_ucast_iff bit_drop_bit_eq bit_and_iff bit_mask_iff bit_storage)
  moreover have "bit (encode_error_storage d dt m mt) 0 = d" "bit (encode_error_storage d dt m mt) 6 = m" for d dt m mt
    by (simp_all add: bit_storage)
  ultimately have "decode_error_storage (encode_error_storage d dt m mt) = Some (d, dt AND 0x1F, m, mt AND 0x1F)" for d dt m mt
    by (simp add: decode_error_storage_def)
  then show ?thesis by (simp add: storage_of_context_def decode_error_storage_def ERROR_STORAGE_GUARD_def)
qed

end
