(* ===== verification/Debug_Layout.thy ===== *)
theory Debug_Layout
  imports Ufi_Debug Sample_Rank
begin

text \<open>
  The context of a DPU in its WRAM, as \<open>coreDump\<close> leaves it there and \<open>restoreRegisters\<close> takes
  it: writing it and reading it back.
\<close>

section \<open>Steps that write different places of an array\<close>

lemma fold_apart:
  assumes "distinct ts" and "length xs = n"
    and len: "\<And>t xs. t \<in> set ts \<Longrightarrow> length xs = n \<Longrightarrow> length (f t xs) = n"
    and keep: "\<And>t xs j. t \<in> set ts \<Longrightarrow> length xs = n \<Longrightarrow> j < n \<Longrightarrow> j \<notin> S t \<Longrightarrow> f t xs ! j = xs ! j"
    and put: "\<And>t xs j. t \<in> set ts \<Longrightarrow> length xs = n \<Longrightarrow> j < n \<Longrightarrow> j \<in> S t \<Longrightarrow> f t xs ! j = v t j"
    and apart: "\<And>t t' j. t \<in> set ts \<Longrightarrow> t' \<in> set ts \<Longrightarrow> j \<in> S t \<Longrightarrow> j \<in> S t' \<Longrightarrow> t = t'"
  shows "length (fold f ts xs) = n \<and> (\<forall>j < n. (\<forall>t \<in> set ts. j \<notin> S t) \<longrightarrow> fold f ts xs ! j = xs ! j)
    \<and> (\<forall>j < n. \<forall>t \<in> set ts. j \<in> S t \<longrightarrow> fold f ts xs ! j = v t j)"
  using assms
proof (induction ts arbitrary: xs)
  case (Cons t ts)
  have l: "length (f t xs) = n" using Cons.prems(2,3) by simp
  have IH: "length (fold f ts (f t xs)) = n" "\<And>j. j < n \<Longrightarrow> \<forall>t \<in> set ts. j \<notin> S t \<Longrightarrow> fold f ts (f t xs) ! j = f t xs ! j"
    "\<And>j t'. j < n \<Longrightarrow> t' \<in> set ts \<Longrightarrow> j \<in> S t' \<Longrightarrow> fold f ts (f t xs) ! j = v t' j"
    using Cons.IH [OF _ l] Cons.prems by simp_all
  have mem: "t \<in> set (t # ts)" and new: "t \<notin> set ts" using Cons.prems(1) by simp_all
  note at = Cons.prems(4) [OF mem Cons.prems(2)] Cons.prems(5) [OF mem Cons.prems(2)]
  have "fold f (t # ts) xs ! j = xs ! j" if "j < n" "\<forall>t' \<in> set (t # ts). j \<notin> S t'" for j
    using that IH(2) [of j] at(1) [of j] by simp
  moreover have "fold f (t # ts) xs ! j = v t' j" if "j < n" "t' \<in> set (t # ts)" "j \<in> S t'" for j t'
  proof (cases "t' \<in> set ts")
    case True
    then show ?thesis using IH(3) that by simp
  next
    case False
    then have t': "t' = t" using that(2) by simp
    have "\<forall>u \<in> set ts. j \<notin> S u"
    proof
      fix u assume "u \<in> set ts"
      then show "j \<notin> S u" using Cons.prems(6) [OF mem, of u j] that(3) t' new by auto
    qed
    then show ?thesis using IH(2) that at(2) t' by simp
  qed
  ultimately show ?case using IH(1) by simp
qed simp

section \<open>The context in the WRAM\<close>

definition context_wf :: "dpu_hw_description \<Rightarrow> dpu_context \<Rightarrow> bool" where
  "context_wf hw c \<longleftrightarrow> length (registers c) = nr_of_threads hw * nr_of_work_registers_per_thread hw
     \<and> length (pcs c) = nr_of_threads hw \<and> length (atomic_register c) = nr_of_atomic_bits hw
     \<and> length (zero_flags c) = nr_of_threads hw \<and> length (carry_flags c) = nr_of_threads hw
     \<and> length (scheduling c) = nr_of_threads hw"

lemmas layout_defs = odd_register_context_index_def flags_offset_def ATOMIC_REG_SIZE_IN_WORDS_def
  WORK_REGS_SIZE_IN_WORDS_def FLAGS_SIZE_IN_WORDS_def context_size_in_words_def

text \<open>The pairs of registers and the flags do not overlap.\<close>

lemma odd_index_inj:
  assumes "t < 24" "t' < 24" "even reg" "even reg'" "e < 2" "e' < 2"
    and "odd_register_context_index t reg + e = odd_register_context_index t' reg' + e'"
  shows "t = t' \<and> reg = reg' \<and> e = e'"
proof -
  obtain k k' where k: "reg = 2 * k" "reg' = 2 * k'" using assms(3,4) by (auto elim!: evenE)
  from assms(7) have "48 * k + (2 * t + e) = 48 * k' + (2 * t' + e')" by (simp add: layout_defs k)
  moreover have "2 * t + e < 48" "2 * t' + e' < 48" using assms by simp_all
  ultimately have "(48 * k + (2 * t + e)) div 48 = (48 * k' + (2 * t' + e')) div 48" "2 * t + e < 48" "2 * t' + e' < 48" by simp_all
  then have eq: "k = k'" by simp
  with \<open>48 * k + (2 * t + e) = 48 * k' + (2 * t' + e')\<close> have te: "2 * t + e = 2 * t' + e'" by simp
  then have "t = t'" using assms(5,6) by linarith
  with te eq k show ?thesis by simp
qed

lemma odd_index_bounds:
  assumes "t < 24" "even reg" "reg < 24" "e < 2"
  shows "64 \<le> odd_register_context_index t reg + e" "odd_register_context_index t reg + e < flags_offset"
proof -
  obtain k where k: "reg = 2 * k" using assms(2) by (auto elim!: evenE)
  have "k < 12" using assms(3) k by simp
  then show "64 \<le> odd_register_context_index t reg + e" "odd_register_context_index t reg + e < flags_offset"
    using assms(1,4) by (simp_all add: layout_defs k)
qed

definition even_registers :: "dpu_hw_description \<Rightarrow> nat list" where
  "even_registers hw = map (\<lambda>k. 2 * k) [0..<(nr_of_work_registers_per_thread hw + 1) div 2]"

lemma set_even_registers:
  assumes "layout_fits hw"
  shows "set (even_registers hw) = {reg. even reg \<and> reg + 1 < nr_of_work_registers_per_thread hw}" "distinct (even_registers hw)"
proof -
  obtain n where n: "nr_of_work_registers_per_thread hw = 2 * n" using assms by (auto simp: layout_fits_def elim!: evenE)
  then show "set (even_registers hw) = {reg. even reg \<and> reg + 1 < nr_of_work_registers_per_thread hw}"
    by (auto simp: even_registers_def elim!: evenE)
  show "distinct (even_registers hw)" by (simp add: even_registers_def distinct_map inj_on_def)
qed

definition put_pair :: "dpu_hw_description \<Rightarrow> dpu_context \<Rightarrow> nat \<Rightarrow> nat \<Rightarrow> u32 list \<Rightarrow> u32 list" where
  "put_pair hw c t reg raw =
     (raw[odd_register_context_index t reg := registers c ! (t * nr_of_work_registers_per_thread hw + reg + 1)])
         [odd_register_context_index t reg + 1 := registers c ! (t * nr_of_work_registers_per_thread hw + reg)]"

definition put_thread :: "dpu_hw_description \<Rightarrow> dpu_context \<Rightarrow> nat \<Rightarrow> u32 list \<Rightarrow> u32 list" where
  "put_thread hw c t raw = (fold (put_pair hw c t) (even_registers hw) raw)
     [flags_offset + t := (if carry_flags c ! t then 1 else 0) + (if zero_flags c ! t then 2 else 0)]"

lemma pack_context_eq:
  "pack_context hw c raw = fold (put_thread hw c) [0..<nr_of_threads hw]
     (fold (\<lambda>i. set_byte_of_words i (if atomic_register c ! i then 0xFF else 0x00)) [0..<nr_of_atomic_bits hw] raw)"
  by (simp add: pack_context_def put_thread_def [abs_def] put_pair_def [abs_def] even_registers_def Let_def)

definition pair_places :: "nat \<Rightarrow> nat \<Rightarrow> nat set" where
  "pair_places t reg = {odd_register_context_index t reg, odd_register_context_index t reg + 1}"

lemma pair_placesE:
  assumes "j \<in> pair_places t reg" obtains e where "e < 2" "j = odd_register_context_index t reg + e"
  using assms by (auto simp: pair_places_def)

lemma put_pairs:
  assumes fits: "layout_fits hw" and t: "t < nr_of_threads hw" and len: "length raw = context_size_in_words"
  shows "length (fold (put_pair hw c t) (even_registers hw) raw) = context_size_in_words"
    and "j < context_size_in_words \<Longrightarrow> \<forall>reg \<in> set (even_registers hw). j \<notin> pair_places t reg \<Longrightarrow>
      fold (put_pair hw c t) (even_registers hw) raw ! j = raw ! j"
    and "reg \<in> set (even_registers hw) \<Longrightarrow> fold (put_pair hw c t) (even_registers hw) raw ! odd_register_context_index t reg
      = registers c ! (t * nr_of_work_registers_per_thread hw + reg + 1)"
    and "reg \<in> set (even_registers hw) \<Longrightarrow> fold (put_pair hw c t) (even_registers hw) raw ! (odd_register_context_index t reg + 1)
      = registers c ! (t * nr_of_work_registers_per_thread hw + reg)"
proof -
  let ?n = "nr_of_work_registers_per_thread hw" and ?f = "fold (put_pair hw c t) (even_registers hw) raw"
  let ?v = "\<lambda>reg j. registers c ! (t * ?n + reg + (if j = odd_register_context_index t reg then 1 else 0))"
  have t24: "t < 24" and n24: "?n \<le> 24" using t fits by (simp_all add: layout_fits_def)
  note regs = set_even_registers [OF fits]
  have reg: "even reg \<and> reg < 24" if "reg \<in> set (even_registers hw)" for reg
    using that regs(1) n24 by auto
  have apart: "reg = reg'" if r: "reg \<in> set (even_registers hw)" "reg' \<in> set (even_registers hw)"
    and j: "j \<in> pair_places t reg" "j \<in> pair_places t reg'" for reg reg' j
  proof -
    obtain e where e: "e < 2" "j = odd_register_context_index t reg + e" using j(1) by (rule pair_placesE)
    obtain e' where e': "e' < 2" "j = odd_register_context_index t reg' + e'" using j(2) by (rule pair_placesE)
    note e e'
    then show ?thesis using odd_index_inj [OF t24 t24, of reg reg' e e'] reg r e by simp
  qed
  have "length ?f = context_size_in_words \<and> (\<forall>j < context_size_in_words. (\<forall>reg \<in> set (even_registers hw). j \<notin> pair_places t reg) \<longrightarrow> ?f ! j = raw ! j)
    \<and> (\<forall>j < context_size_in_words. \<forall>reg \<in> set (even_registers hw). j \<in> pair_places t reg \<longrightarrow> ?f ! j = ?v reg j)"
    by (rule fold_apart [OF regs(2) len _ _ _ apart])
       (auto simp: put_pair_def pair_places_def nth_list_update)
  note F = this
  have lt: "odd_register_context_index t reg + e < context_size_in_words" if "reg \<in> set (even_registers hw)" "e < 2" for reg e
    using odd_index_bounds(2) [OF t24, of reg e] reg [OF that(1)] that(2) by (simp add: layout_defs)
  show "length ?f = context_size_in_words" using F by blast
  show "?f ! j = raw ! j" if "j < context_size_in_words" "\<forall>reg \<in> set (even_registers hw). j \<notin> pair_places t reg"
    using F that by blast
  show "?f ! odd_register_context_index t reg = registers c ! (t * ?n + reg + 1)" if r: "reg \<in> set (even_registers hw)"
  proof -
    have "odd_register_context_index t reg < context_size_in_words" using lt [OF r, of 0] by simp
    moreover have "odd_register_context_index t reg \<in> pair_places t reg" by (simp add: pair_places_def)
    ultimately have "?f ! odd_register_context_index t reg = ?v reg (odd_register_context_index t reg)" using F r by blast
    then show ?thesis by simp
  qed
  show "?f ! (odd_register_context_index t reg + 1) = registers c ! (t * ?n + reg)" if r: "reg \<in> set (even_registers hw)"
  proof -
    have "odd_register_context_index t reg + 1 < context_size_in_words" using lt [OF r, of 1] by simp
    moreover have "odd_register_context_index t reg + 1 \<in> pair_places t reg" by (simp add: pair_places_def)
    ultimately have "?f ! (odd_register_context_index t reg + 1) = ?v reg (odd_register_context_index t reg + 1)" using F r by blast
    then show ?thesis by simp
  qed
qed

definition thread_places :: "dpu_hw_description \<Rightarrow> nat \<Rightarrow> nat set" where
  "thread_places hw t = insert (flags_offset + t) (\<Union>reg \<in> set (even_registers hw). pair_places t reg)"

definition flags_word :: "dpu_context \<Rightarrow> nat \<Rightarrow> u32" where
  "flags_word c t = (if carry_flags c ! t then 1 else 0) + (if zero_flags c ! t then 2 else 0)"

lemma place_of_thread:
  assumes fits: "layout_fits hw" and "t < nr_of_threads hw" "t' < nr_of_threads hw"
    and "j \<in> thread_places hw t" "j \<in> thread_places hw t'"
  shows "t = t'"
proof -
  have t: "t < 24" "t' < 24" and n: "nr_of_work_registers_per_thread hw \<le> 24" using assms by (simp_all add: layout_fits_def)
  have place: "(\<exists>reg e. even reg \<and> reg < 24 \<and> e < 2 \<and> j = odd_register_context_index u reg + e) \<and> j < flags_offset
      \<or> j = flags_offset + u"
    if j: "j \<in> thread_places hw u" and u: "u < 24" for u
  proof -
    from j consider "j = flags_offset + u" | reg where "reg \<in> set (even_registers hw)" "j \<in> pair_places u reg"
      unfolding thread_places_def by blast
    then show ?thesis
    proof cases
      case 2
      obtain e where e: "e < 2" "j = odd_register_context_index u reg + e" using 2(2) by (rule pair_placesE)
      moreover have "even reg" "reg < 24" using 2(1) set_even_registers(1) [OF fits] n by simp_all
      moreover note odd_index_bounds(2) [OF u this e(1)]
      ultimately show ?thesis by blast
    qed simp
  qed
  from place [OF assms(4) t(1)] place [OF assms(5) t(2)] show ?thesis
  proof (elim disjE exE conjE)
    fix reg e reg' e'
    assume "even reg" "reg < 24" "e < 2" "j = odd_register_context_index t reg + e"
      "even reg'" "reg' < 24" "e' < 2" "j = odd_register_context_index t' reg' + e'"
    then show ?thesis using odd_index_inj [OF t, of reg reg' e e'] by simp
  qed simp_all
qed

lemma thread_places_ge:
  assumes fits: "layout_fits hw" and t: "t < nr_of_threads hw" and j: "j \<in> thread_places hw t"
  shows "64 \<le> j"
proof -
  from j consider "j = flags_offset + t" | reg where "reg \<in> set (even_registers hw)" "j \<in> pair_places t reg"
    unfolding thread_places_def by blast
  then show ?thesis
  proof cases
    case 2
    obtain e where e: "e < 2" "j = odd_register_context_index t reg + e" using 2(2) by (rule pair_placesE)
    have "even reg" "reg < 24" "t < 24" using 2(1) set_even_registers(1) [OF fits] fits t by (simp_all add: layout_fits_def)
    then show ?thesis using odd_index_bounds(1) [of t reg e] e by simp
  qed (simp add: layout_defs)
qed

lemma put_thread_values:
  assumes fits: "layout_fits hw" and t: "t < nr_of_threads hw" and len: "length raw = context_size_in_words"
  shows "length (put_thread hw c t raw) = context_size_in_words"
    and "j < context_size_in_words \<Longrightarrow> j \<notin> thread_places hw t \<Longrightarrow> put_thread hw c t raw ! j = raw ! j"
    and "reg \<in> set (even_registers hw) \<Longrightarrow> put_thread hw c t raw ! odd_register_context_index t reg
      = registers c ! (t * nr_of_work_registers_per_thread hw + reg + 1)"
    and "reg \<in> set (even_registers hw) \<Longrightarrow> put_thread hw c t raw ! (odd_register_context_index t reg + 1)
      = registers c ! (t * nr_of_work_registers_per_thread hw + reg)"
    and "put_thread hw c t raw ! (flags_offset + t) = flags_word c t"
proof -
  note P = put_pairs [OF fits t len, where c = c]
  have t24: "t < 24" and n24: "nr_of_work_registers_per_thread hw \<le> 24" using t fits by (simp_all add: layout_fits_def)
  have low: "odd_register_context_index t reg + e \<noteq> flags_offset + t" if "reg \<in> set (even_registers hw)" "e < 2" for reg e
    using odd_index_bounds(2) [OF t24, of reg e] that set_even_registers(1) [OF fits] n24 by simp
  show "length (put_thread hw c t raw) = context_size_in_words" using P(1) by (simp add: put_thread_def)
  show "put_thread hw c t raw ! j = raw ! j" if "j < context_size_in_words" "j \<notin> thread_places hw t"
    using that P(2) [of j] by (simp add: put_thread_def thread_places_def)
  show "put_thread hw c t raw ! odd_register_context_index t reg = registers c ! (t * nr_of_work_registers_per_thread hw + reg + 1)"
    if "reg \<in> set (even_registers hw)" using P(3) [OF that] low [OF that, of 0] by (simp add: put_thread_def)
  show "put_thread hw c t raw ! (odd_register_context_index t reg + 1) = registers c ! (t * nr_of_work_registers_per_thread hw + reg)"
    if "reg \<in> set (even_registers hw)" using P(4) [OF that] low [OF that, of 1] by (simp add: put_thread_def)
  have "flags_offset + t < context_size_in_words" using t24 by (simp add: layout_defs)
  then show "put_thread hw c t raw ! (flags_offset + t) = flags_word c t" using P(1) by (simp add: put_thread_def flags_word_def)
qed

lemma put_threads_values:
  fixes c :: dpu_context
  assumes fits: "layout_fits hw" and len: "length raw = context_size_in_words" and t: "t < nr_of_threads hw"
  defines "packed \<equiv> fold (put_thread hw c) [0..<nr_of_threads hw] raw"
  shows "reg \<in> set (even_registers hw) \<Longrightarrow> packed ! odd_register_context_index t reg
      = registers c ! (t * nr_of_work_registers_per_thread hw + reg + 1)"
    and "reg \<in> set (even_registers hw) \<Longrightarrow> packed ! (odd_register_context_index t reg + 1)
      = registers c ! (t * nr_of_work_registers_per_thread hw + reg)"
    and "packed ! (flags_offset + t) = flags_word c t"
    and "length packed = context_size_in_words"
    and "j < 64 \<Longrightarrow> packed ! j = raw ! j"
proof -
  let ?z = "replicate context_size_in_words (0 :: u32)"
  have z: "length ?z = context_size_in_words" by simp
  have same: "put_thread hw c u xs ! j = put_thread hw c u ?z ! j"
    if u: "u < nr_of_threads hw" and "length xs = context_size_in_words" and j: "j \<in> thread_places hw u" for u xs j
  proof -
    note 1 = put_thread_values(3,4,5) [OF fits u that(2), where c = c] and 2 = put_thread_values(3,4,5) [OF fits u z, where c = c]
    from j show ?thesis by (auto simp: thread_places_def pair_places_def 1 2 simp del: One_nat_def add_Suc_right)
  qed
  have F: "length packed = context_size_in_words \<and> (\<forall>j < context_size_in_words. (\<forall>u \<in> set [0..<nr_of_threads hw]. j \<notin> thread_places hw u) \<longrightarrow> packed ! j = raw ! j)
    \<and> (\<forall>j < context_size_in_words. \<forall>u \<in> set [0..<nr_of_threads hw]. j \<in> thread_places hw u \<longrightarrow> packed ! j = put_thread hw c u ?z ! j)"
    unfolding packed_def
  proof (rule fold_apart [OF distinct_upt len])
    fix u and xs :: "u32 list" assume u: "u \<in> set [0..<nr_of_threads hw]" and xs: "length xs = context_size_in_words"
    then have u': "u < nr_of_threads hw" by simp
    show "length (put_thread hw c u xs) = context_size_in_words" by (rule put_thread_values(1) [OF fits u' xs])
    show "put_thread hw c u xs ! j = xs ! j" if "j < context_size_in_words" "j \<notin> thread_places hw u" for j
      using that by (rule put_thread_values(2) [OF fits u' xs])
    show "put_thread hw c u xs ! j = put_thread hw c u ?z ! j" if "j \<in> thread_places hw u" for j
      by (rule same [OF u' xs that])
  qed (use place_of_thread [OF fits] in auto)
  have n24: "nr_of_work_registers_per_thread hw \<le> 24" "t < 24" using fits t by (simp_all add: layout_fits_def)
  have at: "packed ! j = put_thread hw c t ?z ! j" if "j < context_size_in_words" "j \<in> thread_places hw t" for j
    using F that t by simp
  note V = put_thread_values [OF fits t z, where c = c]
  have lt: "odd_register_context_index t reg + e < context_size_in_words" if "reg \<in> set (even_registers hw)" "e < 2" for reg e
    using odd_index_bounds(2) [OF n24(2), of reg e] that set_even_registers(1) [OF fits] n24 by (simp add: layout_defs)
  show "packed ! odd_register_context_index t reg = registers c ! (t * nr_of_work_registers_per_thread hw + reg + 1)"
    if r: "reg \<in> set (even_registers hw)"
    using at [of "odd_register_context_index t reg"] lt [OF r, of 0] r V(3) [OF r] by (auto simp: thread_places_def pair_places_def)
  show "packed ! (odd_register_context_index t reg + 1) = registers c ! (t * nr_of_work_registers_per_thread hw + reg)"
    if r: "reg \<in> set (even_registers hw)"
    using at [of "odd_register_context_index t reg + 1"] lt [OF r, of 1] r V(4) [OF r] by (auto simp: thread_places_def pair_places_def)
  show "packed ! (flags_offset + t) = flags_word c t"
    using at [of "flags_offset + t"] V(5) n24(2) by (simp add: thread_places_def layout_defs)
  show "length packed = context_size_in_words" using F by blast
  show "j < 64 \<Longrightarrow> packed ! j = raw ! j" 
  proof -
    assume j: "j < 64"
    have "j \<notin> thread_places hw u" if "u < nr_of_threads hw" for u
      using thread_places_ge [OF fits that] j by force
    then show ?thesis using F j by (simp add: layout_defs)
  qed
qed

lemma byte_of_set_byte:
  assumes "i < 4 * length raw" "j < 4 * length raw"
  shows "byte_of_words (set_byte_of_words i b raw) j = (if i = j then b else byte_of_words raw j)"
proof (rule bit_word_eqI)
  fix n assume n: "n < LENGTH(8)"
  have split: "x = 4 * (x div 4) + x mod 4" "x mod 4 < 4" for x :: nat by simp_all
  have m8: "(0xFF :: u32) = mask 8" by (simp add: mask_eq_exp_minus_1)
  have div: "i div 4 < length raw" "j div 4 < length raw" using assms by simp_all
  have room: "8 * (j mod 4) + n < 32" using split(2) [of j] n by simp
  show "bit (byte_of_words (set_byte_of_words i b raw) j) n = bit (if i = j then b else byte_of_words raw j) n"
  proof (cases "i div 4 = j div 4")
    case False
    then show ?thesis by (auto simp: byte_of_words_def set_byte_of_words_def nth_list_update_neq)
  next
    case True
    then have eq: "i = j \<longleftrightarrow> i mod 4 = j mod 4" using split(1) [of i] split(1) [of j] by auto
    have hit: "8 * (i mod 4) \<le> 8 * (j mod 4) + n \<and> 8 * (j mod 4) + n - 8 * (i mod 4) < 8 \<longleftrightarrow> i mod 4 = j mod 4"
      using n by auto
    have word: "bit ((raw ! (j div 4) AND NOT (push_bit (8 * (i mod 4)) (mask 8))) OR push_bit (8 * (i mod 4)) (ucast b)) (8 * (j mod 4) + n)
        \<longleftrightarrow> (if i mod 4 = j mod 4 then bit b n else bit (raw ! (j div 4)) (8 * (j mod 4) + n))"
      using hit room n bit_imp_le_length [of b "8 * (j mod 4) + n - 8 * (i mod 4)"]
      by (auto simp: bit_or_iff bit_and_iff bit_not_iff bit_push_bit_iff bit_mask_iff bit_ucast_iff)
    have byte: "bit (ucast (drop_bit k (w :: u32)) :: u8) n = bit w (k + n)" for k w
      using n by (simp add: bit_ucast_iff bit_drop_bit_eq)
    have "bit (byte_of_words (set_byte_of_words i b raw) j) n
        = bit ((raw ! (j div 4) AND NOT (push_bit (8 * (i mod 4)) (mask 8))) OR push_bit (8 * (i mod 4)) (ucast b)) (8 * (j mod 4) + n)"
      using div(2) unfolding byte_of_words_def set_byte_of_words_def byte True m8 by simp
    moreover have "bit (byte_of_words raw j) n = bit (raw ! (j div 4)) (8 * (j mod 4) + n)"
      unfolding byte_of_words_def byte ..
    ultimately show ?thesis using word eq by simp
  qed
qed

lemma length_set_byte: "length (set_byte_of_words i b raw) = length raw"
  by (simp add: set_byte_of_words_def)

lemma byte_of_set_bytes:
  assumes "m \<le> 4 * length raw" "j < m"
  shows "byte_of_words (fold (\<lambda>i. set_byte_of_words i (g i)) [0..<m] raw) j = g j"
proof -
  have "length (fold (\<lambda>i. set_byte_of_words i (g i)) is raw) = length raw
    \<and> ((\<forall>i \<in> set is. i < 4 * length raw) \<longrightarrow> byte_of_words (fold (\<lambda>i. set_byte_of_words i (g i)) is raw) j
        = (if j \<in> set is then g j else byte_of_words raw j))" for "is"
    using assms
    by (induction "is" rule: rev_induct) (auto simp: byte_of_set_byte length_set_byte)
  from this [of "[0..<m]"] show ?thesis using assms by simp
qed

section \<open>Writing and reading back\<close>

lemma register_pairs_eq: "register_pairs hw = List.product [0..<nr_of_threads hw] (even_registers hw)"
  by (simp add: register_pairs_def even_registers_def)

lemma unpack_registers_nth:
  assumes fits: "layout_fits hw" and len: "length regs = nr_of_threads hw * nr_of_work_registers_per_thread hw"
    and j: "j < length regs"
    and odd: "\<And>t reg. t < nr_of_threads hw \<Longrightarrow> reg \<in> set (even_registers hw) \<Longrightarrow>
      raw ! odd_register_context_index t reg = saved ! (t * nr_of_work_registers_per_thread hw + reg + 1)"
    and even: "\<And>t reg. t < nr_of_threads hw \<Longrightarrow> reg \<in> set (even_registers hw) \<Longrightarrow>
      raw ! (odd_register_context_index t reg + 1) = saved ! (t * nr_of_work_registers_per_thread hw + reg)"
  shows "unpack_registers hw raw regs ! j = saved ! j"
proof -
  let ?n = "nr_of_work_registers_per_thread hw"
  let ?S = "\<lambda>(t, reg). {t * ?n + reg, t * ?n + reg + 1}"
  let ?f = "\<lambda>(t, reg) regs. let even_register_index = t * ?n + reg
         in (regs[even_register_index := raw ! (odd_register_context_index t reg + 1)])
              [even_register_index + 1 := raw ! odd_register_context_index t reg]"
  note regs = set_even_registers [OF fits]
  have pair: "t < nr_of_threads hw \<and> even reg \<and> reg + 1 < ?n" if "(t, reg) \<in> set (register_pairs hw)" for t reg
    using that by (simp add: register_pairs_eq regs(1))
  have place: "k div ?n = t \<and> k mod ?n - k mod ?n mod 2 = reg" if p: "(t, reg) \<in> set (register_pairs hw)" and "k \<in> ?S (t, reg)" for t reg k
  proof -
    from that(2) obtain e where e: "e < 2" "k = t * ?n + (reg + e)" by auto
    have "reg + e < ?n" using e(1) pair [OF p] by simp
    then have "k div ?n = t" "k mod ?n = reg + e" using e(2) by simp_all
    moreover have "(reg + e) mod 2 = e" using e(1) pair [OF p] by (auto elim!: evenE)
    ultimately show ?thesis by simp
  qed
  have "distinct (register_pairs hw)" using regs(2) by (simp add: register_pairs_eq distinct_product)
  then have F: "length (fold ?f (register_pairs hw) regs) = length regs
    \<and> (\<forall>j < length regs. (\<forall>p \<in> set (register_pairs hw). j \<notin> ?S p) \<longrightarrow> fold ?f (register_pairs hw) regs ! j = regs ! j)
    \<and> (\<forall>j < length regs. \<forall>p \<in> set (register_pairs hw). j \<in> ?S p \<longrightarrow> fold ?f (register_pairs hw) regs ! j = saved ! j)"
  proof (rule fold_apart)
    fix p and xs :: "u32 list" and j
    assume p: "p \<in> set (register_pairs hw)" and xs: "length xs = length regs"
    obtain t reg where tr: "p = (t, reg)" by (cases p)
    show "length (?f p xs) = length regs" by (simp add: tr xs Let_def)
    show "?f p xs ! j = xs ! j" if "j < length regs" "j \<notin> ?S p" using that by (simp add: tr Let_def)
    show "?f p xs ! j = saved ! j" if "j < length regs" "j \<in> ?S p"
      using that xs pair [of t reg] p odd [of t reg] even [of t reg] by (auto simp: tr Let_def register_pairs_eq)
  next
    fix p p' j assume in_S: "p \<in> set (register_pairs hw)" "p' \<in> set (register_pairs hw)" "j \<in> ?S p" "j \<in> ?S p'"
    obtain t reg t' reg' where tr: "p = (t, reg)" "p' = (t', reg')" by (cases p; cases p')
    show "p = p'"
      using place [OF in_S(1) [unfolded tr] in_S(3) [unfolded tr]] place [OF in_S(2) [unfolded tr] in_S(4) [unfolded tr]]
      unfolding tr by blast
  qed simp
  have n: "0 < ?n" using j len by (cases ?n) auto
  define t reg where "t = j div ?n" and "reg = j mod ?n - j mod ?n mod 2"
  have "t < nr_of_threads hw" using j len n by (simp add: t_def less_mult_imp_div_less)
  moreover have "even ?n" using fits by (simp add: layout_fits_def)
  moreover have "j mod ?n < ?n" using n by simp
  moreover have reg2: "reg = 2 * (j mod ?n div 2)" by (simp add: reg_def minus_mod_eq_mult_div)
  moreover obtain h where "?n = 2 * h" using \<open>even ?n\<close> by (auto elim!: evenE)
  moreover have "2 * (m div 2) + 1 < 2 * h" if "m < 2 * h" for m h :: nat using that by presburger
  ultimately have "reg + 1 < ?n" by metis
  with \<open>t < nr_of_threads hw\<close> reg2 have "(t, reg) \<in> set (register_pairs hw)"
    by (simp add: register_pairs_eq regs(1))
  moreover have "j = t * ?n + j mod ?n" by (simp add: t_def)
  moreover have "m = 2 * (m div 2) \<or> m = 2 * (m div 2) + 1" for m :: nat by presburger
  then have "j mod ?n = reg \<or> j mod ?n = reg + 1" unfolding reg2 .
  ultimately have "j \<in> ?S (t, reg)" by auto
  with F j \<open>(t, reg) \<in> set (register_pairs hw)\<close> show ?thesis unfolding unpack_registers_def by blast
qed


text \<open>
  C21: What \<open>dpu_restore_context_for_dpu_routine\<close> writes for a context is read back by
  \<open>dpu_extract_context_for_dpu_routine\<close> as the same registers, atomic bits and flags, whatever the
  buffer and the context read into held before, for every hardware that fits the layout.
\<close>

theorem context_round_trip:
  assumes fits: "layout_fits hw" and wf: "context_wf hw c" "context_wf hw c'" and len: "length raw = context_size_in_words"
  defines "back \<equiv> unpack_context hw (pack_context hw c raw) c'"
  shows "registers back = registers c \<and> atomic_register back = atomic_register c
    \<and> carry_flags back = carry_flags c \<and> zero_flags back = zero_flags c"
proof -
  let ?bytes = "fold (\<lambda>i. set_byte_of_words i (if atomic_register c ! i then 0xFF else 0x00)) [0..<nr_of_atomic_bits hw] raw"
  have "length (fold (\<lambda>i. set_byte_of_words i (g i)) is xs) = length xs" for g "is" xs
    by (induction "is" arbitrary: xs) (simp_all add: length_set_byte)
  then have bytes: "length ?bytes = context_size_in_words" using len by simp
  note P = put_threads_values [OF fits bytes, where c = c, folded pack_context_eq]
  have bits: "byte_of_words (pack_context hw c raw) i \<noteq> 0 \<longleftrightarrow> atomic_register c ! i" if "i < nr_of_atomic_bits hw" for i
  proof -
    have "nr_of_atomic_bits hw \<le> 256" using fits by (simp add: layout_fits_def)
    then have m: "nr_of_atomic_bits hw \<le> 4 * length raw" "i div 4 < 64" using that len by (simp_all add: layout_defs)
    have t0: "pack_context hw c raw ! (i div 4) = ?bytes ! (i div 4)" 
      using P(5) m(2) by (cases "nr_of_threads hw") (auto simp: pack_context_eq)
    then have "byte_of_words (pack_context hw c raw) i = byte_of_words ?bytes i" by (simp add: byte_of_words_def)
    also have "\<dots> = (if atomic_register c ! i then 0xFF else 0x00)" by (rule byte_of_set_bytes [OF m(1) that])
    finally show ?thesis by simp
  qed
  have flags: "pack_context hw c raw ! (flags_offset + t) = flags_word c t" if "t < nr_of_threads hw" for t
    using P(3) [OF that] .
  have flag_bits: "flags_word c t AND 1 \<noteq> 0 \<longleftrightarrow> carry_flags c ! t" "flags_word c t AND 2 \<noteq> 0 \<longleftrightarrow> zero_flags c ! t" for t
    by (simp_all add: flags_word_def)
  have "length (unpack_registers hw rw regs) = length regs" for rw regs
  proof -
    have "length (fold (\<lambda>(t, reg) regs. let k = t * m + reg in (regs[k := f t reg])[k + 1 := g t reg]) ps regs) = length regs"
      for m :: nat and f g :: "nat \<Rightarrow> nat \<Rightarrow> u32" and ps
      by (induction ps arbitrary: regs) (auto simp: Let_def)
    then show ?thesis by (simp add: unpack_registers_def)
  qed
  then have len': "length (registers back) = length (registers c)"
    using wf by (simp add: back_def unpack_context_def context_wf_def)
  then have "registers back = registers c"
  proof (rule nth_equalityI)
    fix j assume "j < length (registers back)"
    then have "j < length (registers c')" using len' wf by (simp add: context_wf_def)
    then show "registers back ! j = registers c ! j"
      using unpack_registers_nth [OF fits, of "registers c'" j "pack_context hw c raw" "registers c"] P(1,2) wf(2)
      by (simp add: back_def unpack_context_def context_wf_def)
  qed
  moreover have "atomic_register back = atomic_register c"
    using wf bits by (intro nth_equalityI) (simp_all add: back_def unpack_context_def context_wf_def nth_fold_update)
  moreover have "carry_flags back = carry_flags c" "zero_flags back = zero_flags c"
    using wf flags flag_bits
    by (intro nth_equalityI; simp add: back_def unpack_context_def context_wf_def nth_fold_update)+
  ultimately show ?thesis by blast
qed


definition sample_context :: dpu_context where
  "sample_context = (fresh_context 24)\<lparr>registers := map of_nat [0..<576],
     atomic_register := map even [0..<256], zero_flags := map odd [0..<24], carry_flags := replicate 24 True\<rparr>"

lemma sample_context_wf: "layout_fits sample_hw" "context_wf sample_hw sample_context"
  by (simp_all add: layout_fits_def context_wf_def sample_hw_def sample_context_def fresh_context_def)

theorem context_round_trip_witness:
  "registers (unpack_context sample_hw (pack_context sample_hw sample_context (replicate context_size_in_words 7))
     (sample_context\<lparr>registers := replicate 576 0\<rparr>)) = map of_nat [0..<576]"
proof -
  have wf: "context_wf sample_hw (sample_context\<lparr>registers := replicate 576 0\<rparr>)"
    using sample_context_wf(2) by (simp add: context_wf_def sample_hw_def)
  have len: "length (replicate context_size_in_words (7 :: u32)) = context_size_in_words" by simp
  have "registers sample_context = map of_nat [0..<576]" by (simp add: sample_context_def)
  with context_round_trip [OF sample_context_wf wf len] show ?thesis by simp
qed

end
