(* ===== verification/Debug_Drain.thy ===== *)
theory Debug_Drain
  imports Debug_Layout Mux_Spec
begin

text \<open>
  The schedule that draining the pipeline builds and that leaving the debugger reads: what a drain reads
  from the CI is a list of rounds, and the schedule is a function of that list.
\<close>

section \<open>The schedule\<close>

text \<open>The threads \<open>ts\<close>, in this order, and no others are in the schedule of the context.\<close>

definition scheduled :: "nat \<Rightarrow> nat list \<Rightarrow> dpu_context \<Rightarrow> bool" where
  "scheduled nt ts c \<longleftrightarrow> distinct ts \<and> set ts \<subseteq> {..<nt} \<and> length (scheduling c) = nt
     \<and> nr_of_running_threads c = of_nat (length ts)
     \<and> (\<forall>i < length ts. scheduling c ! (ts ! i) = of_nat i) \<and> (\<forall>t < nt. t \<notin> set ts \<longrightarrow> scheduling c ! t = 0xFF)"

lemma schedule_next:
  assumes "scheduled nt ts c" "t < nt" "t \<notin> set ts"
  shows "scheduled nt (ts @ [t]) (c\<lparr>pcs := p, scheduling := (scheduling c)[t := nr_of_running_threads c],
    nr_of_running_threads := nr_of_running_threads c + 1\<rparr>)"
  unfolding scheduled_def
proof (intro conjI allI impI)
  note s = assms(1) [unfolded scheduled_def]
  fix i assume i: "i < length (ts @ [t])"
  show "scheduling (c\<lparr>pcs := p, scheduling := (scheduling c)[t := nr_of_running_threads c],
      nr_of_running_threads := nr_of_running_threads c + 1\<rparr>) ! ((ts @ [t]) ! i) = of_nat i"
  proof (cases "i < length ts")
    case True
    then have "ts ! i \<noteq> t" using assms(3) by auto
    then show ?thesis using True s by (simp add: nth_append)
  next
    case False
    then have "i = length ts" using i by simp
    then show ?thesis using s assms(2) by simp
  qed
qed (use assms in \<open>auto simp: scheduled_def\<close>)

lemma keeps_read_run_register: "keeps (\<lambda>s. rank_wf s \<and> same_fixed r0 s) (read_run_register slice_id ci_mask res run)"
proof -
  have "keeps (\<lambda>s. rank_wf s \<and> same_fixed r0 s) (mfor ts (\<lambda>each_thread (res, run_register).
      FF (ufi_read_run_bit ci_mask (of_nat each_thread) res) (\<lambda>res. ok (res, run_register[each_thread := res ! slice_id]))) acc)" for ts acc
    by (intro keeps_mfor) (auto split: prod.split intro!: keeps_FF keeps_ok fixed.keeps_threads)
  then show ?thesis unfolding read_run_register_def by (rule_tac keepsI, erule_tac keepsD [rotated])
qed

lemma read_run_register_length:
  assumes "read_run_register slice_id ci_mask res run r = (Ret (res', run'), r')"
  shows "length run' = length run"
proof -
  have "length run' = length run" if "mfor ts (\<lambda>each_thread (res, run_register).
      FF (ufi_read_run_bit ci_mask (of_nat each_thread) res) (\<lambda>res. ok (res, run_register[each_thread := res ! slice_id])))
      (res, run) r = (Ret (res', run'), r')" for ts res run r
    using that by (induction ts arbitrary: res run r) (fastforce simp: FF_Ret_iff)+
  with assms show ?thesis unfolding read_run_register_def by blast
qed

section \<open>What a drain reads\<close>

definition running :: "nat \<Rightarrow> u8 list \<Rightarrow> nat \<Rightarrow> bool" where
  "running member_id run_register t \<longleftrightarrow> run_register ! t AND dpu_mask_one member_id \<noteq> 0"

text \<open>
  One round of the loop: the PC of the thread that leaves and the run register, which is read after it;
  \<open>drain_reads\<close> lists the rounds until no thread is running, an operation fails or there is no fuel left,
  and \<open>pipeline_reads\<close> begins with the run register before the first round.
\<close>

definition drain_read :: "nat \<Rightarrow> u8 \<Rightarrow> u8 list \<Rightarrow> u8 list \<Rightarrow> ('w, u16 \<times> u8 list \<times> u8 list) ufi" where
  "drain_read slice_id ci_mask res run_register =
     FF (ufi_debug_replace_stop ci_mask) (\<lambda>_.
     FF (ufi_set_dpu_fault_and_step ci_mask) (\<lambda>_.
     FF (ufi_debug_pc_read ci_mask (replicate 8 0)) (\<lambda>pc_results.
     FF (read_run_register slice_id ci_mask res run_register) (\<lambda>(res, run_register).
     ok (pc_results ! slice_id, res, run_register)))))"

fun drain_reads :: "nat \<Rightarrow> nat \<Rightarrow> nat \<Rightarrow> u8 \<Rightarrow> u8 list \<Rightarrow> u8 list \<Rightarrow> 'w dpu_rank \<Rightarrow> (u16 \<times> u8 list) list" where
  "drain_reads 0 slice_id member_id ci_mask res run_register r = []"
| "drain_reads (Suc n) slice_id member_id ci_mask res run_register r =
     (case drain_read slice_id ci_mask res run_register r of
        (Ret (pc, res, run_register), r') \<Rightarrow> (pc, run_register) #
          (if list_ex (running member_id run_register) [0..<nr_of_threads (r_hw r')]
           then drain_reads n slice_id member_id ci_mask res run_register r' else [])
      | _ \<Rightarrow> [])"

definition pipeline_reads :: "nat \<Rightarrow> nat \<Rightarrow> nat \<Rightarrow> 'w dpu_rank \<Rightarrow> u8 list \<times> (u16 \<times> u8 list) list" where
  "pipeline_reads fuel slice_id member_id r =
     (let nt = nr_of_threads (r_hw r)
      in case FF (ufi_select_dpu (bit_of slice_id) member_id) (\<lambda>ci_mask.
              FF (read_run_register slice_id ci_mask (replicate 8 0) (replicate nt 0)) (\<lambda>(res, previous).
              ok (ci_mask, res, previous))) r of
           (Ret (ci_mask, res, previous), r') \<Rightarrow> (previous,
             if list_ex (running member_id previous) [0..<nt]
             then drain_reads fuel slice_id member_id ci_mask res (replicate nt 0) r' else [])
         | _ \<Rightarrow> (replicate nt 0, []))"

text \<open>
  The threads that leave the pipeline, each with the PC of the round in which its bit is clear for the first
  time; those that leave in the same round in the order of their numbers.
\<close>

fun leaving :: "nat \<Rightarrow> nat \<Rightarrow> (nat \<Rightarrow> bool) \<Rightarrow> (u16 \<times> u8 list) list \<Rightarrow> (nat \<times> u16) list" where
  "leaving nt member_id before [] = []"
| "leaving nt member_id before ((pc, run_register) # reads) =
     map (\<lambda>t. (t, pc)) (filter (\<lambda>t. before t \<and> \<not> running member_id run_register t) [0..<nt])
     @ leaving nt member_id (\<lambda>t. before t \<and> running member_id run_register t) reads"

lemma leaving_cong: "(\<And>t. t < nt \<Longrightarrow> before t = before' t) \<Longrightarrow> leaving nt member_id before reads = leaving nt member_id before' reads"
proof (induction reads arbitrary: before before')
  case (Cons read reads)
  obtain pc run where read: "read = (pc, run)" by (rule prod.exhaust)
  have "filter (\<lambda>t. before t \<and> \<not> running member_id run t) [0..<nt] = filter (\<lambda>t. before' t \<and> \<not> running member_id run t) [0..<nt]"
    using Cons.prems by (intro filter_cong) simp_all
  moreover have "leaving nt member_id (\<lambda>t. before t \<and> running member_id run t) reads = leaving nt member_id (\<lambda>t. before' t \<and> running member_id run t) reads"
    using Cons.prems by (intro Cons.IH) simp
  ultimately show ?case by (simp add: read)
qed simp

lemma leaving_none: "(\<And>t. t < nt \<Longrightarrow> \<not> before t) \<Longrightarrow> leaving nt member_id before reads = []"
proof (induction reads arbitrary: before)
  case (Cons read reads)
  then show ?case by (cases read) simp
qed simp

section \<open>What a drain records\<close>

definition drained :: "nat \<Rightarrow> (nat \<times> u16) list \<Rightarrow> dpu_context \<Rightarrow> bool" where
  "drained nt ls c \<longleftrightarrow> scheduled nt (map fst ls) c \<and> length (pcs c) = nt \<and> (\<forall>(t, pc) \<in> set ls. pcs c ! t = pc)"

lemma drain_thread_records:
  fixes previous run :: "u8 list" and member_id t :: nat
  assumes "drained nt ls c" "length previous = nt" "t < nt" "running member_id previous t \<Longrightarrow> t \<notin> fst ` set ls"
  defines "left \<equiv> running member_id previous t \<and> \<not> running member_id run t"
  shows "\<exists>c'. drain_thread True member_id pc run t (still, previous, c)
      = (still \<or> running member_id run t, if left then previous[t := 0] else previous, c')
    \<and> drained nt (ls @ (if left then [(t, pc)] else [])) c'"
proof (cases left)
  case True
  let ?c = "c\<lparr>pcs := (pcs c)[t := pc], scheduling := (scheduling c)[t := nr_of_running_threads c],
    nr_of_running_threads := nr_of_running_threads c + 1\<rparr>"
  have new: "t \<notin> set (map fst ls)" using assms(4) True by (simp add: left_def)
  have "scheduled nt (map fst ls @ [t]) ?c"
    using assms(1) new by (intro schedule_next assms(3)) (simp_all add: drained_def)
  moreover have "\<forall>(u, q) \<in> set (ls @ [(t, pc)]). pcs ?c ! u = q"
  proof
    fix l assume "l \<in> set (ls @ [(t, pc)])"
    then consider "l = (t, pc)" | "l \<in> set ls" "fst l \<noteq> t" using new by (cases "l = (t, pc)") auto
    then show "case l of (u, q) \<Rightarrow> pcs ?c ! u = q"
      using assms(1,3) by cases (auto simp: drained_def split: prod.splits)
  qed
  ultimately have "drained nt (ls @ [(t, pc)]) ?c" using assms(1) unfolding drained_def by simp
  then show ?thesis using True by (intro exI [of _ ?c]) (simp add: left_def drain_thread_def running_def)
next
  case False
  then show ?thesis using assms(1)
    by (intro exI [of _ c]) (auto simp: left_def drain_thread_def running_def)
qed

lemma drain_round_records:
  assumes c: "drained nt ls c" and len: "length previous = nt" and new: "\<And>t. t < nt \<Longrightarrow> running member_id previous t \<Longrightarrow> t \<notin> fst ` set ls"
  shows "\<exists>previous' c'. drain_round True member_id pc run nt previous c = (list_ex (running member_id run) [0..<nt], previous', c')
    \<and> length previous' = nt \<and> (\<forall>t < nt. running member_id previous' t \<longleftrightarrow> running member_id previous t \<and> running member_id run t)
    \<and> drained nt (ls @ map (\<lambda>t. (t, pc)) (filter (\<lambda>t. running member_id previous t \<and> \<not> running member_id run t) [0..<nt])) c'"
proof -
  have "\<exists>previous' c'. fold (drain_thread True member_id pc run) [0..<k] (False, previous, c) = (list_ex (running member_id run) [0..<k], previous', c')
      \<and> length previous' = nt \<and> (\<forall>t < nt. running member_id previous' t \<longleftrightarrow> running member_id previous t \<and> (t < k \<longrightarrow> running member_id run t))
      \<and> drained nt (ls @ map (\<lambda>t. (t, pc)) (filter (\<lambda>t. running member_id previous t \<and> \<not> running member_id run t) [0..<k])) c'" if "k \<le> nt" for k
    using that
  proof (induction k)
    case 0
    then show ?case using c len by simp
  next
    case (Suc k)
    let ?ls = "ls @ map (\<lambda>t. (t, pc)) (filter (\<lambda>t. running member_id previous t \<and> \<not> running member_id run t) [0..<k])"
    from Suc obtain p d where IH: "fold (drain_thread True member_id pc run) [0..<k] (False, previous, c) = (list_ex (running member_id run) [0..<k], p, d)"
      "length p = nt" "\<forall>t < nt. running member_id p t \<longleftrightarrow> running member_id previous t \<and> (t < k \<longrightarrow> running member_id run t)" "drained nt ?ls d" by auto
    have k: "k < nt" using Suc.prems by simp
    have "running member_id p k \<longleftrightarrow> running member_id previous k" using IH(3) k by simp
    moreover have "k \<notin> fst ` set ?ls" if "running member_id previous k" using new [OF k that] by auto
    ultimately obtain d' where d': "drain_thread True member_id pc run k (list_ex (running member_id run) [0..<k], p, d)
        = (list_ex (running member_id run) [0..<k] \<or> running member_id run k,
           if running member_id previous k \<and> \<not> running member_id run k then p[k := 0] else p, d')"
      "drained nt (?ls @ (if running member_id previous k \<and> \<not> running member_id run k then [(k, pc)] else [])) d'"
      using drain_thread_records [OF IH(4,2) k, where member_id = member_id and run = run and pc = pc and still = "list_ex (running member_id run) [0..<k]"] by auto
    have "running member_id (if running member_id previous k \<and> \<not> running member_id run k then p[k := 0] else p) t
        \<longleftrightarrow> running member_id previous t \<and> (t < Suc k \<longrightarrow> running member_id run t)" if t: "t < nt" for t
    proof (cases "t = k")
      case True
      then show ?thesis using IH(3) k IH(2) by (simp add: running_def)
    next
      case False
      have "running member_id (p[k := 0]) t = running member_id p t" using False by (simp add: running_def)
      then show ?thesis using IH(3) t False by auto
    qed
    moreover have "length (if running member_id previous k \<and> \<not> running member_id run k then p[k := 0] else p) = nt" using IH(2) by simp
    moreover have "fold (drain_thread True member_id pc run) [0..<Suc k] (False, previous, c)
        = (list_ex (running member_id run) [0..<Suc k],
           if running member_id previous k \<and> \<not> running member_id run k then p[k := 0] else p, d')"
      using IH(1) d'(1) by simp
    moreover have "drained nt (ls @ map (\<lambda>t. (t, pc)) (filter (\<lambda>t. running member_id previous t \<and> \<not> running member_id run t) [0..<Suc k])) d'"
      using d'(2) by (cases "running member_id previous k \<and> \<not> running member_id run k") (simp_all, blast?)
    ultimately show ?case by blast
  qed
  from this [OF order_refl] show ?thesis by (simp add: drain_round_def)
qed

text \<open>The loop, round by round.\<close>

lemma on_rank_FF: "on_rank (FF m k) = FF (on_rank m) (\<lambda>x. on_rank (k x))"
  by (rule ext) (auto simp: on_rank_def FF_def split: prod.splits outcome.splits)

lemma drain_loop_read:
  "drain_loop (Suc n) add slice_id member_id ci_mask res run previous =
     FF (on_rank (drain_read slice_id ci_mask res run)) (\<lambda>(pc, res, run) (r, c).
       case drain_round add member_id pc run (nr_of_threads (r_hw r)) previous c of
         (still_draining, previous, c) \<Rightarrow>
           if still_draining then drain_loop n add slice_id member_id ci_mask res run previous (r, c) else ok () (r, c))"
proof -
  have ret: "FF (on_rank (ok x)) k = k x" for x :: "u16 \<times> u8 list \<times> u8 list" and k :: "u16 \<times> u8 list \<times> u8 list \<Rightarrow> ('w, unit) dbg"
    by (rule ext) (simp add: FF_def on_rank_def ok_def split: prod.split)
  show ?thesis by (simp add: drain_read_def on_rank_FF FF_assoc ret case_prod_unfold) (simp only: fst_conv snd_conv)
qed

lemma keeps_drain_read: "keeps (\<lambda>s. rank_wf s \<and> same_fixed b s) (drain_read slice_id ci_mask res run)"
  unfolding drain_read_def
  by (intro keeps_FF fixed.keeps_threads fixed.keeps_pc_read keeps_read_run_register) (auto split: prod.split intro: keeps_ok)

lemma drain_read_length: "drain_read slice_id ci_mask res run r = (Ret (pc, res', run'), r') \<Longrightarrow> length run' = length run"
  by (auto simp: drain_read_def FF_Ret_iff ok_def dest!: read_run_register_length)

lemma drain_loop_records:
  assumes "rank_wf r" "same_fixed b r" and "drained (nr_of_threads (r_hw b)) ls c" "length previous = nr_of_threads (r_hw b)"
    and "\<And>t. t < nr_of_threads (r_hw b) \<Longrightarrow> running member_id previous t \<Longrightarrow> t \<notin> fst ` set ls"
    and "drain_loop fuel True slice_id member_id ci_mask res run previous (r, c) = (out, (r', c'))"
    and "new = leaving (nr_of_threads (r_hw b)) member_id (running member_id previous) (drain_reads fuel slice_id member_id ci_mask res run r)"
  shows "rank_wf r' \<and> same_fixed b r' \<and> drained (nr_of_threads (r_hw b)) (ls @ new) c'
    \<and> (out = Ret () \<longrightarrow> fst ` set new = {t. t < nr_of_threads (r_hw b) \<and> running member_id previous t})"
  using assms
proof (induction fuel arbitrary: r c res run previous ls new)
  case 0
  then show ?case by (simp add: drained_def)
next
  case (Suc n)
  let ?nt = "nr_of_threads (r_hw b)"
  obtain o1 r1 where read: "drain_read slice_id ci_mask res run r = (o1, r1)" by (rule prod.exhaust)
  have r1: "rank_wf r1 \<and> same_fixed b r1" by (rule keeps_eqD [OF keeps_drain_read _ read]) (use Suc.prems(1,2) in simp)
  show ?case
  proof (cases o1)
    case (Ret x)
    obtain pc res' run' where x: "x = (pc, res', run')" by (metis prod_cases3)
    have hw: "nr_of_threads (r_hw r1) = ?nt" using r1 same_fixed_hw(1) [of b r1] by simp
    let ?left = "map (\<lambda>t. (t, pc)) (filter (\<lambda>t. running member_id previous t \<and> \<not> running member_id run' t) [0..<?nt])"
    from drain_round_records [OF Suc.prems(3-5), where pc = pc and run = run'] obtain previous' d
      where round: "drain_round True member_id pc run' ?nt previous c = (list_ex (running member_id run') [0..<?nt], previous', d)"
        and len: "length previous' = ?nt"
        and before: "\<forall>t < ?nt. running member_id previous' t \<longleftrightarrow> running member_id previous t \<and> running member_id run' t"
        and d: "drained ?nt (ls @ ?left) d" by blast
    have run_loop: "(if list_ex (running member_id run') [0..<?nt] then drain_loop n True slice_id member_id ci_mask res' run' previous' (r1, d)
        else ok () (r1, d)) = (out, (r', c'))"
      using Suc.prems(6) unfolding drain_loop_read by (simp add: FF_def on_rank_def read Ret x hw round)
    show ?thesis
    proof (cases "list_ex (running member_id run') [0..<?nt]")
      case True
      let ?rest = "leaving ?nt member_id (running member_id previous') (drain_reads n slice_id member_id ci_mask res' run' r1)"
      have "t \<notin> fst ` set (ls @ ?left)" if "t < ?nt" "running member_id previous' t" for t
        using Suc.prems(5) before that by auto
      note IH = Suc.IH [OF conjunct1 [OF r1] conjunct2 [OF r1] d len this]
      have "drain_loop n True slice_id member_id ci_mask res' run' previous' (r1, d) = (out, (r', c'))" using run_loop True by simp
      note rest = IH [OF _ _ this]
      have "leaving ?nt member_id (\<lambda>t. running member_id previous t \<and> running member_id run' t) (drain_reads n slice_id member_id ci_mask res' run' r1) = ?rest"
        using before by (intro leaving_cong) simp
      then have new: "new = ?left @ ?rest" using True by (simp add: Suc.prems(7) read Ret x hw)
      have "fst ` set new = {t. t < ?nt \<and> running member_id previous t}" if "out = Ret ()"
      proof -
        have "fst ` set ?left = {t. t < ?nt \<and> running member_id previous t \<and> \<not> running member_id run' t}" by (auto simp: image_image)
        moreover have "fst ` set ?rest = {t. t < ?nt \<and> running member_id previous' t}" using rest that by blast
        ultimately show ?thesis unfolding new set_append image_Un using before by blast
      qed
      then show ?thesis using rest unfolding new by simp
    next
      case False
      then have new: "new = ?left" by (simp add: Suc.prems(7) read Ret x hw)
      have "\<not> running member_id run' t" if "t < ?nt" for t using False that by (simp add: list_ex_iff)
      then have "fst ` set new = {t. t < ?nt \<and> running member_id previous t}" unfolding new by (auto simp: image_image)
      moreover have "r' = r1 \<and> c' = d" using run_loop False by (simp add: ok_def)
      ultimately show ?thesis using r1 d unfolding new by simp
    qed
  next
    case (Fail e)
    then show ?thesis using Suc.prems r1 unfolding drain_loop_read by (auto simp: FF_def on_rank_def read)
  next
    case Abort
    then show ?thesis using Suc.prems r1 unfolding drain_loop_read by (auto simp: FF_def on_rank_def read)
  next
    case NoFuel
    then show ?thesis using Suc.prems r1 unfolding drain_loop_read by (auto simp: FF_def on_rank_def read)
  qed
qed

section \<open>Resuming what was scheduled\<close>

lemma scheduled_position:
  assumes "scheduled nt ts c" "nt \<le> 254" "t < nt"
  shows "scheduling c ! t \<noteq> 0xFF \<longleftrightarrow> t \<in> set ts"
    and "i < length ts \<Longrightarrow> unat (scheduling c ! (ts ! i)) = i \<and> ts ! i < nt"
proof -
  note s = assms(1) [unfolded scheduled_def]
  have "length ts \<le> nt" using s distinct_card [of ts] card_mono [of "{..<nt}" "set ts"] by simp
  then have small: "length ts \<le> 254" using assms(2) by simp
  have pos: "unat (scheduling c ! (ts ! i)) = i" if "i < length ts" for i
    using s that small by (simp add: unat_of_nat)
  then show "i < length ts \<Longrightarrow> unat (scheduling c ! (ts ! i)) = i \<and> ts ! i < nt"
    using s nth_mem [of i ts] by (meson lessThan_iff subsetD)
  show "scheduling c ! t \<noteq> 0xFF \<longleftrightarrow> t \<in> set ts"
  proof
    assume "t \<in> set ts"
    then obtain i where i: "i < length ts" "t = ts ! i" by (auto simp: in_set_conv_nth)
    have "unat (0xFF :: u8) = 255" by simp
    then show "scheduling c ! t \<noteq> 0xFF" using pos [OF i(1)] i small by auto
  qed (use s assms(3) in auto)
qed

lemma scheduling_order_scheduled:
  assumes sch: "scheduled nt ts c" and nt: "nt \<le> 254"
  obtains order where "scheduling_order nt (scheduling c) = Some order"
    and "\<And>i. i < length ts \<Longrightarrow> order ! i = Some (ts ! i)"
proof -
  let ?s = "scheduling c"
  let ?f = "\<lambda>t order. if ?s ! t \<noteq> 0xFF then order[unat (?s ! t) := Some t] else order"
  have len: "length ts \<le> nt" using sch distinct_card [of ts] card_mono [of "{..<nt}" "set ts"] by (simp add: scheduled_def)
  have pos: "?s ! t = 0xFF \<or> unat (?s ! t) < nt \<and> (\<exists>i < length ts. t = ts ! i \<and> unat (?s ! t) = i)" if "t < nt" for t
  proof (cases "t \<in> set ts")
    case True
    then obtain i where i: "i < length ts" "t = ts ! i" by (auto simp: in_set_conv_nth)
    then show ?thesis using scheduled_position(2) [OF sch nt that i(1)] len by auto
  next
    case False
    then show ?thesis using scheduled_position(1) [OF sch nt that] by simp
  qed
  have F: "length (fold ?f [0..<nt] (replicate nt None)) = nt
    \<and> (\<forall>j < nt. (\<forall>t \<in> set [0..<nt]. j \<notin> (if ?s ! t = 0xFF then {} else {unat (?s ! t)})) \<longrightarrow>
          fold ?f [0..<nt] (replicate nt None) ! j = replicate nt None ! j)
    \<and> (\<forall>j < nt. \<forall>t \<in> set [0..<nt]. j \<in> (if ?s ! t = 0xFF then {} else {unat (?s ! t)}) \<longrightarrow>
          fold ?f [0..<nt] (replicate nt None) ! j = Some t)"
  proof (rule fold_apart)
    fix t t' j assume "t \<in> set [0..<nt]" "t' \<in> set [0..<nt]"
      "j \<in> (if ?s ! t = 0xFF then {} else {unat (?s ! t)})" "j \<in> (if ?s ! t' = 0xFF then {} else {unat (?s ! t')})"
    then show "t = t'" using pos [of t] pos [of t'] by (auto split: if_splits)
  qed (auto split: if_splits)
  have "fold ?f [0..<nt] (replicate nt None) ! i = Some (ts ! i)" if "i < length ts" for i
  proof -
    have t: "ts ! i \<in> set ts" using that by simp
    then have "ts ! i < nt" using sch by (auto simp: scheduled_def)
    moreover have "?s ! (ts ! i) \<noteq> 0xFF" "unat (?s ! (ts ! i)) = i"
      using scheduled_position [OF sch nt calculation] t that by simp_all
    ultimately show ?thesis using F that len by simp
  qed
  moreover have "scheduling_order nt ?s = Some (fold ?f [0..<nt] (replicate nt None))"
  proof -
    have "list_all (\<lambda>t. ?s ! t = 0xFF \<or> unat (?s ! t) < nt) [0..<nt]" unfolding list_all_iff using pos by fastforce
    then show ?thesis by (simp add: scheduling_order_def)
  qed
  ultimately show thesis using that by blast
qed

lemma mfor_nth:
  assumes "\<And>i. i < length ts \<Longrightarrow> f i = g (ts ! i)"
  shows "mfor [0..<length ts] f a = mfor ts g a"
proof -
  have "mfor [k..<length ts] f a = mfor (drop k ts) g a" for k a
  proof (induction "length ts - k" arbitrary: k a)
    case (Suc n)
    then have k: "k < length ts" by simp
    have "mfor [Suc k..<length ts] f = mfor (drop (Suc k) ts) g" using Suc.hyps(1) [of "Suc k"] Suc.hyps(2) by (intro ext) simp
    then show ?case using k by (simp add: upt_conv_Cons Cons_nth_drop_Suc [symmetric] assms)
  qed simp
  from this [of 0] show ?thesis by simp
qed

lemma resume_scheduled:
  assumes sch: "scheduled nt ts c" and nt: "nt \<le> 254" "nr_of_threads (r_hw r) = nt"
  shows "resume_threads slice_id member_id wanted c r = mfor ts (\<lambda>thread _.
    if wanted thread then dpu_thread_boot_safe_for_dpu slice_id member_id (of_nat thread) True else ok ()) () r"
proof -
  obtain order where order: "scheduling_order nt (scheduling c) = Some order" "\<And>i. i < length ts \<Longrightarrow> order ! i = Some (ts ! i)"
    using scheduling_order_scheduled [OF sch nt(1)] by blast
  have len: "length ts \<le> nt" using sch distinct_card [of ts] card_mono [of "{..<nt}" "set ts"] by (simp add: scheduled_def)
  have "unat (nr_of_running_threads c) = length ts" using sch len nt(1) by (simp add: scheduled_def unat_of_nat)
  then show ?thesis
    unfolding resume_threads_def nt(2) order(1) option.case
    using len order(2) by (simp, intro fun_cong [OF mfor_nth]) auto
qed



text \<open>The whole drain.\<close>

lemma drain_pipeline_records:
  assumes "rank_wf r" and "drained (nr_of_threads (r_hw r)) [] c"
    and "drain_pipeline fuel slice_id member_id True (r, c) = (out, (r', c'))"
    and "pipeline_reads fuel slice_id member_id r = (initial, reads)"
  defines "ls \<equiv> leaving (nr_of_threads (r_hw r)) member_id (running member_id initial) reads"
  shows "same_fixed r r' \<and> drained (nr_of_threads (r_hw r)) ls c'
    \<and> (out = Ret () \<longrightarrow> fst ` set ls = {t. t < nr_of_threads (r_hw r) \<and> running member_id initial t})"
proof -
  let ?nt = "nr_of_threads (r_hw r)"
  obtain o1 r1 where select: "ufi_select_dpu (bit_of slice_id) member_id r = (o1, r1)" by (rule prod.exhaust)
  have r1: "rank_wf r1 \<and> same_fixed r r1" by (rule keeps_eqD [OF fixed.keeps_select_dpus(2) _ select]) (use assms(1) in simp)
  show ?thesis
  proof (cases o1)
    case (Ret ci_mask)
    obtain o2 r2 where read: "read_run_register slice_id ci_mask (replicate 8 0) (replicate ?nt 0) r1 = (o2, r2)" by (rule prod.exhaust)
    have r2: "rank_wf r2 \<and> same_fixed r r2" by (rule keeps_eqD [OF keeps_read_run_register r1 read])
    have hw: "nr_of_threads (r_hw r1) = ?nt" using r1 same_fixed_hw(1) [of r r1] by simp
    show ?thesis
    proof (cases o2)
      case [simp]: (Ret x)
      obtain res previous where x: "x = (res, previous)" by (rule prod.exhaust)
      have len: "length previous = ?nt" using read_run_register_length [of slice_id ci_mask "replicate 8 0" "replicate ?nt 0"] read x by simp
      show ?thesis
      proof (cases "list_ex (running member_id previous) [0..<?nt]")
        case True
        obtain o3 r3 c3 where loop: "drain_loop fuel True slice_id member_id ci_mask res (replicate ?nt 0) previous (r2, c) = (o3, (r3, c3))"
          by (metis prod_cases3)
        have reads: "initial = previous" "reads = drain_reads fuel slice_id member_id ci_mask res (replicate ?nt 0) r2"
          using assms(4) select read x True \<open>o1 = Ret ci_mask\<close> by (simp_all add: pipeline_reads_def FF_def ok_def)
        have done_loop: "rank_wf r3 \<and> same_fixed r r3 \<and> drained ?nt ls c3
            \<and> (o3 = Ret () \<longrightarrow> fst ` set ls = {t. t < ?nt \<and> running member_id initial t})"
          using drain_loop_records [OF conjunct1 [OF r2] conjunct2 [OF r2] assms(2) len _ loop refl] unfolding ls_def reads by simp
        have end_loop: "(case o3 of Ret _ \<Rightarrow> (case ufi_clear_debug_replace ci_mask r3 of (out, r') \<Rightarrow> (out, (r', c3))) | Fail e \<Rightarrow> (Fail e, (r3, c3)) | Abort \<Rightarrow> (Abort, (r3, c3))
            | NoFuel \<Rightarrow> (NoFuel, (r3, c3))) = (out, (r', c'))"
          using assms(3) True unfolding drain_pipeline_def running_def
          by (cases o3) (auto simp: FF_def on_rank_def select read x hw loop \<open>o1 = Ret ci_mask\<close>)
        obtain o4 r4 where clear: "ufi_clear_debug_replace ci_mask r3 = (o4, r4)" by (rule prod.exhaust)
        have "rank_wf r4 \<and> same_fixed r r4" by (rule keeps_eqD [OF fixed.keeps_clear_faults(1) _ clear]) (use done_loop in simp)
        then show ?thesis using done_loop end_loop clear by (cases o3) auto
      next
        case False
        have "initial = previous" "reads = []"
          using assms(4) select read x False \<open>o1 = Ret ci_mask\<close> by (simp_all add: pipeline_reads_def FF_def ok_def)
        moreover have "c' = c \<and> r' = r2"
          using assms(3) False unfolding drain_pipeline_def running_def
          by (simp add: FF_def on_rank_def select read x hw \<open>o1 = Ret ci_mask\<close> ok_def)
        moreover have "{t. t < ?nt \<and> running member_id previous t} = {}" using False by (auto simp: list_ex_iff)
        ultimately show ?thesis using r2 assms(2) unfolding ls_def by simp
      qed
    qed (use assms(2-4) select read r2 hw \<open>o1 = Ret ci_mask\<close> in
      \<open>auto simp: drain_pipeline_def pipeline_reads_def FF_def on_rank_def ls_def\<close>)
  qed (use assms(2-4) select r1 in \<open>auto simp: drain_pipeline_def pipeline_reads_def FF_def on_rank_def ls_def\<close>)
qed

text \<open>
  C22: draining the pipeline of a DPU into an empty schedule and resuming. What the CI answers in the rounds
  of the drain, the PC and the run register of each, determines the schedule: the threads whose bits were set
  before the drain and are clear in a later round, ordered by the first such round and within a round by
  their numbers, each with the PC of its round. However the drain ends, resuming boots these threads in this
  order, those that are wanted, and never reads an entry of \<open>scheduling_order\<close> that was not written; when the
  drain succeeds, they are all threads that were running before it. The DPU has at most 254 threads.
\<close>

theorem drain_then_resume:
  assumes "rank_wf r" and "nr_of_threads (r_hw r) \<le> 254"
    and "length (scheduling c) = nr_of_threads (r_hw r)" and "\<forall>t < nr_of_threads (r_hw r). scheduling c ! t = 0xFF"
    and "nr_of_running_threads c = 0" and "length (pcs c) = nr_of_threads (r_hw r)"
    and "drain_pipeline fuel slice_id member_id True (r, c) = (out, (r', c'))"
    and "pipeline_reads fuel slice_id member_id r = (initial, reads)"
  defines "ls \<equiv> leaving (nr_of_threads (r_hw r)) member_id (running member_id initial) reads"
  shows "unat (nr_of_running_threads c') = length ls \<and> (\<forall>(t, pc) \<in> set ls. pcs c' ! t = pc)
    \<and> resume_threads slice_id member_id wanted c' r' = mfor (map fst ls) (\<lambda>thread _.
        if wanted thread then dpu_thread_boot_safe_for_dpu slice_id member_id (of_nat thread) True else ok ()) () r'
    \<and> (out = Ret () \<longrightarrow> fst ` set ls = {t. t < nr_of_threads (r_hw r) \<and> running member_id initial t})"
proof -
  let ?nt = "nr_of_threads (r_hw r)"
  have "drained ?nt [] c" using assms(3-6) by (simp add: drained_def scheduled_def)
  note records = drain_pipeline_records [OF assms(1) this assms(7,8), folded ls_def]
  then have ls: "scheduled ?nt (map fst ls) c'" "\<forall>(t, pc) \<in> set ls. pcs c' ! t = pc" by (simp_all add: drained_def)
  have "length (map fst ls) \<le> ?nt"
    using ls(1) distinct_card [of "map fst ls"] card_mono [of "{..<?nt}" "set (map fst ls)"] unfolding scheduled_def by simp
  then have "unat (nr_of_running_threads c') = length ls" using ls(1) assms(2) by (simp add: scheduled_def unat_of_nat)
  moreover have "nr_of_threads (r_hw r') = ?nt" using records same_fixed_hw(1) [of r r'] by simp
  ultimately show ?thesis using records ls(2) resume_scheduled [OF ls(1) assms(2)] by blast
qed

text \<open>
  A backend that answers every command, and the reads of the PC and of the run bits from a list: both threads
  of the DPU are running, and the second one leaves first.
\<close>

definition script_handler :: "(u8 \<times> u32 \<times> u32 list) dpu_rank_handler" where
  "script_handler = \<lparr>
     commit_commands = (\<lambda>c (colors, reply, script). (DPU_RANK_SUCCESS,
       if c ! 0 \<in> {CI_PC_LSB_READ_FRAME, CI_THREAD_READ_RUN_FRAME 0, CI_THREAD_READ_RUN_FRAME 1}
       then (live_flip c colors, hd script, tl script) else (live_flip c colors, 0, script))),
     update_commands = (\<lambda>b w. (DPU_RANK_SUCCESS, map (\<lambda>ci. live_answer (fst w) ci OR ucast (fst (snd w))) [0..<length b], w)),
     copy_to_rank = (\<lambda>_ w. (DPU_RANK_SUCCESS, w)),
     copy_from_rank = (\<lambda>_ w. (DPU_RANK_SUCCESS, w)),
     custom_operation = (\<lambda>_ _ w. (DPU_RANK_SUCCESS, w))\<rparr>"

definition script_rank :: "u32 list \<Rightarrow> (u8 \<times> u32 \<times> u32 list) dpu_rank" where
  "script_rank script = (let r = sample_rank [] in
     \<lparr>r_type = HW, r_hw = sample_hw\<lparr>nr_of_threads := 2\<rparr>, r_configuration = r_configuration r, r_ci = r_ci r,
      r_run_context = r_run_context r, r_dpus = r_dpus r, r_nr_dpus_enabled = 16,
      r_cmds = replicate 8 0, r_data = replicate 8 0, r_cmds_buffer = r_cmds_buffer r,
      r_debug = r_debug r, r_logd = False, r_handler = script_handler, r_world = (0, 0, script),
      host_words = (\<lambda>_ _. 0), host_instrs = (\<lambda>_ _. 0)\<rparr>)"

lemma script_rank_wf: "rank_wf (script_rank script)"
  by (auto simp: rank_wf_def script_rank_def Let_def sample_rank_def sample_hw_def sample_slice_def handler_ok_def script_handler_def
      split: prod.splits)

lemma script_reads: "pipeline_reads 3 0 0 (script_rank [1, 1, 7, 1, 0, 9, 0, 0]) = ([1, 1], [(7, [1, 0]), (9, [0, 0])])"
  by code_simp

definition script_session :: "unit outcome \<times> (u8 \<times> u32 \<times> u32 list) dpu_rank \<times> dpu_context" where
  "script_session = drain_pipeline 3 0 0 True (script_rank [1, 1, 7, 1, 0, 9, 0, 0], fresh_context 2)"

theorem drain_then_resume_witness:
  "unat (nr_of_running_threads (snd (snd script_session))) = 2
    \<and> pcs (snd (snd script_session)) ! 1 = 7 \<and> pcs (snd (snd script_session)) ! 0 = 9
    \<and> resume_threads 0 0 (\<lambda>_. True) (snd (snd script_session)) (fst (snd script_session))
      = mfor [1, 0] (\<lambda>thread _. dpu_thread_boot_safe_for_dpu 0 0 (of_nat thread) True) () (fst (snd script_session))"
proof -
  have threads: "nr_of_threads (r_hw (script_rank script)) = 2" for script by (simp add: script_rank_def Let_def)
  have empty: "length (scheduling (fresh_context 2)) = 2" "\<forall>t < 2. scheduling (fresh_context 2) ! t = 0xFF"
    "nr_of_running_threads (fresh_context 2) = 0" "length (pcs (fresh_context 2)) = 2" by (simp_all add: fresh_context_def)
  have session: "drain_pipeline 3 0 0 True (script_rank [1, 1, 7, 1, 0, 9, 0, 0], fresh_context 2)
    = (fst script_session, (fst (snd script_session), snd (snd script_session)))" by (simp add: script_session_def)
  have leaves: "leaving 2 0 (running 0 [1, 1]) [(7, [1, 0]), (9, [0, 0])] = [(1, 7), (0, 9)]" by code_simp
  from drain_then_resume [OF script_rank_wf _ _ _ _ _ session script_reads, of "\<lambda>_. True", unfolded threads leaves] empty
  show ?thesis by simp
qed

end
