(* ===== verification/Debug_Spec.thy ===== *)
theory Debug_Spec
  imports Debug_Drain
begin

text \<open>
  The faults that entering the debugger does not see.
\<close>

section \<open>Operations on the rank leave the context alone\<close>

lemma keeps_on_rank: "keeps P m \<Longrightarrow> keeps (\<lambda>(r, c). P r \<and> Q c) (on_rank m)"
  by (auto simp: keeps_def on_rank_def split: prod.splits)

lemma keeps_on_rank_context: "keeps (\<lambda>(r, c). Q c) (on_rank m)"
  by (auto simp: keeps_def on_rank_def split: prod.splits)

section \<open>Faults that are not seen\<close>

lemma flag_missed: "member_id \<noteq> 0 \<Longrightarrow> \<not> flag_of_dpu (fault_flag res slice_id member_id) member_id"
  by (simp add: flag_of_dpu_def fault_flag_def dpu_mask_one_def and_bit_of_eq_0_iff bit_1_iff)

definition same_bkp :: "dpu_context \<Rightarrow> dpu_context \<Rightarrow> bool" where
  "same_bkp c c' \<longleftrightarrow> bkp_fault c' = bkp_fault c \<and> bkp_fault_id c' = bkp_fault_id c
     \<and> bkp_fault_thread_index c' = bkp_fault_thread_index c"

lemma keeps_with_state: "(\<And>r c. keeps P (m r c)) \<Longrightarrow> keeps P (\<lambda>(r, c). m r c (r, c))"
  by (auto simp: keeps_def)

lemma keeps_with_if:
  "(\<And>r c. keeps P (m r c)) \<Longrightarrow> (\<And>r c. keeps P (n r c)) \<Longrightarrow> keeps P (\<lambda>(r, c). if b r c then m r c (r, c) else n r c (r, c))"
  by (auto simp: keeps_def)

lemma keeps_abort [keeps_rules]: "keeps P abort"
  by (simp add: keeps_def abort_def)

lemma drain_round_same_bkp: "drain_round add member_id pc run nt previous c = (still, previous', c') \<Longrightarrow> same_bkp c c'"
proof -
  have "same_bkp c (snd (snd (fold (drain_thread add member_id pc run) ts s)))" if "same_bkp c (snd (snd s))" for ts s
    using that
  proof (induction ts arbitrary: s)
    case (Cons t ts)
    then have "same_bkp c (snd (snd (drain_thread add member_id pc run t s)))"
      by (cases s) (auto simp: drain_thread_def same_bkp_def)
    then show ?case using Cons.IH by simp
  qed simp
  from this [of "(False, previous, c)" "[0..<nt]"]
  show "drain_round add member_id pc run nt previous c = (still, previous', c') \<Longrightarrow> same_bkp c c'"
    by (simp add: drain_round_def same_bkp_def)
qed

lemma keeps_after_round:
  fixes loop :: "u8 list \<Rightarrow> ('w, unit) dbg"
  assumes "\<And>previous. keeps (\<lambda>(r, c). same_bkp c0 c) (loop previous)"
  shows "keeps (\<lambda>(r, c). same_bkp c0 c) (\<lambda>(r, c). case drain_round add member_id pc run (nr_of_threads (r_hw r)) previous c of
        (still_draining, previous, c) \<Rightarrow> if still_draining then loop previous (r, c) else ok () (r, c))"
proof (rule keepsI)
  fix s :: "'w dpu_rank \<times> dpu_context" assume "case s of (r, c) \<Rightarrow> same_bkp c0 c"
  then obtain r c where s: "s = (r, c)" and c: "same_bkp c0 c" by (cases s) simp
  obtain still previous' c' where round: "drain_round add member_id pc run (nr_of_threads (r_hw r)) previous c = (still, previous', c')"
    by (metis prod_cases3)
  have c': "same_bkp c0 c'" using c drain_round_same_bkp [OF round] by (simp add: same_bkp_def)
  show "case snd (case s of (r, c) \<Rightarrow> case drain_round add member_id pc run (nr_of_threads (r_hw r)) previous c of
        (still_draining, previous, c) \<Rightarrow> if still_draining then loop previous (r, c) else ok () (r, c)) of (r, c) \<Rightarrow> same_bkp c0 c"
    using c' keepsD [OF assms, of "(r, c')" previous'] by (simp add: s round)
qed

lemma keeps_drain_loop_bkp: "keeps (\<lambda>(r, c). same_bkp c0 c) (drain_loop fuel add slice_id member_id ci_mask res run previous)"
proof (induction fuel arbitrary: res run previous)
  case (Suc n)
  show ?case unfolding drain_loop.simps
    by (intro keeps_FF keeps_on_rank_context) (rename_tac x, case_tac x, simp only: prod.case, intro keeps_after_round Suc.IH)
qed (simp add: keeps_def)

lemma keeps_drain_pipeline_bkp: "keeps (\<lambda>(r, c). same_bkp c0 c) (drain_pipeline fuel slice_id member_id add)"
  unfolding drain_pipeline_def
  by (intro keeps_FF keeps_on_rank_context keeps_with_state)
     (auto intro!: keeps_FF keeps_on_rank_context keeps_drain_loop_bkp keeps_ok)

lemma keeps_drain_all_bkp: "keeps (\<lambda>(r, c). same_bkp c0 c) (drain_all_threads fuel slice_id member_id ci_mask)"
  unfolding drain_all_threads_def
proof (intro keeps_FF keeps_drain_pipeline_bkp)
  fix x :: unit
  show "keeps (\<lambda>(r, c). same_bkp c0 c) (\<lambda>(r :: 'a dpu_rank, c). if unat (nr_of_running_threads c) = nr_of_threads (r_hw r) then ok () (r, c)
     else FF (on_rank (ufi_clear_fault_dpu ci_mask)) (\<lambda>_.
       FF (on_rank (ufi_set_dpu_fault_and_step ci_mask)) (\<lambda>_.
       FF (on_rank (boot_threads slice_id member_id (\<lambda>t. scheduling c ! t = 0xFF) (nr_of_threads (r_hw r)))) (\<lambda>_.
       FF (on_rank (ufi_read_bkp_fault ci_mask None)) (\<lambda>_.
       drain_pipeline fuel slice_id member_id False)))) (r, c))"
    by (rule keeps_with_if [where b = "\<lambda>r c. unat (nr_of_running_threads c) = nr_of_threads (r_hw r)" and m = "\<lambda>_ _. ok ()"
          and n = "\<lambda>r c. FF (on_rank (ufi_clear_fault_dpu ci_mask)) (\<lambda>_.
       FF (on_rank (ufi_set_dpu_fault_and_step ci_mask)) (\<lambda>_.
       FF (on_rank (boot_threads slice_id member_id (\<lambda>t. scheduling c ! t = 0xFF) (nr_of_threads (r_hw r)))) (\<lambda>_.
       FF (on_rank (ufi_read_bkp_fault ci_mask None)) (\<lambda>_.
       drain_pipeline fuel slice_id member_id False))))"])
       (intro keeps_ok keeps_FF keeps_on_rank_context keeps_drain_pipeline_bkp)+
qed

lemma keeps_sync_bkp: "keeps (\<lambda>(r, c). same_bkp c0 c) (sync_error_storage slice_id member_id addr dma_seen mem_seen)"
proof -
  have merge: "keeps (\<lambda>(r, c). same_bkp c0 c) (in_context (merge_stored_faults stored dma_seen mem_seen))" for stored
    by (auto simp: in_context_def keeps_def same_bkp_def merge_stored_faults_def split: option.split)
  have store: "keeps (\<lambda>(r :: 'a dpu_rank, c). same_bkp c0 c) (\<lambda>(r, c). if dma_seen \<or> mem_seen
         then on_rank (FF (modify (store_word local_buffer 0 (storage_of_context c))) (\<lambda>_.
                ci_copy_to_wrams_dpu slice_id member_id (address div 4) local_buffer 1)) (r, c)
         else ok () (r, c))" for address
    by (rule keeps_with_if [where b = "\<lambda>_ _. dma_seen \<or> mem_seen" and n = "\<lambda>_ _. ok ()"
          and m = "\<lambda>r c. on_rank (FF (modify (store_word local_buffer 0 (storage_of_context c))) (\<lambda>_.
                ci_copy_to_wrams_dpu slice_id member_id (address div 4) local_buffer 1))"])
       (intro keeps_ok keeps_on_rank_context)+
  have copy: "keeps (\<lambda>(r :: 'a dpu_rank, c). same_bkp c0 c) (FF (on_rank m) (\<lambda>storage.
         FF (in_context (merge_stored_faults (decode_error_storage storage) dma_seen mem_seen)) (\<lambda>_ (r, c).
         if dma_seen \<or> mem_seen
         then on_rank (FF (modify (store_word local_buffer 0 (storage_of_context c))) (\<lambda>_.
                ci_copy_to_wrams_dpu slice_id member_id (address div 4) local_buffer 1)) (r, c)
         else ok () (r, c))))" for m :: "('a, u32) ufi" and address
    by (intro keeps_FF [OF keeps_on_rank_context] keeps_FF [OF merge] store)
  show ?thesis
  proof (rule keepsI)
    fix s :: "'a dpu_rank \<times> dpu_context" assume s: "case s of (r, c) \<Rightarrow> same_bkp c0 c"
    obtain r c where rc: "s = (r, c)" by (rule prod.exhaust)
    show "case snd (sync_error_storage slice_id member_id addr dma_seen mem_seen s) of (r, c) \<Rightarrow> same_bkp c0 c"
    proof (cases "get_error_store_symbol (program_symbols (dpu_get_unsafe r slice_id member_id)) addr")
      case None
      then show ?thesis using s by (simp add: rc sync_error_storage_def)
    next
      case (Some address)
      then show ?thesis using keepsD [OF copy s] by (simp only: rc sync_error_storage_def prod.case option.case)
    qed
  qed
qed

lemma identify_faults_missed:
  assumes "member_id \<noteq> 0" "on_rank (identify_faults slice_id member_id ci_mask res) s = (Ret faults, t)"
  shows "\<not> flag_of_dpu (id_dma_fault faults) member_id" "\<not> flag_of_dpu (id_mem_fault faults) member_id"
proof -
  obtain r' where "identify_faults slice_id member_id ci_mask res (fst s) = (Ret faults, r')"
    using assms(2) by (cases s) (auto simp: on_rank_def split: prod.splits)
  then show "\<not> flag_of_dpu (id_dma_fault faults) member_id" "\<not> flag_of_dpu (id_mem_fault faults) member_id"
    unfolding identify_faults_def by (auto simp: FF_Ret_iff flag_missed [OF assms(1)])
qed

text \<open>Entering the debugger as if the CI had reported no fault.\<close>

definition debug_init_unreported :: "nat \<Rightarrow> nat \<Rightarrow> nat \<Rightarrow> u32 \<Rightarrow> ('w, unit) dbg" where
  "debug_init_unreported fuel slice_id member_id error_store_addr =
     FF (on_rank (ufi_select_dpu (bit_of slice_id) member_id)) (\<lambda>ci_mask.
     FF (on_rank (ufi_read_bkp_fault_thread_index ci_mask (replicate 8 0))) (\<lambda>res.
     FF (on_rank (ufi_read_bkp_fault ci_mask (Some res))) (\<lambda>res'.
     FF (on_rank (ufi_set_bkp_fault ci_mask)) (\<lambda>_.
     FF (drain_all_threads fuel slice_id member_id ci_mask) (\<lambda>_.
     FF (on_rank (identify_faults slice_id member_id ci_mask (the res'))) (\<lambda>_.
     sync_error_storage slice_id member_id error_store_addr False False))))))"

lemma reports_missed:
  fixes res :: "u8 list" and res' :: "u8 list option"
  assumes "member_id \<noteq> 0"
  shows "FF (on_rank (identify_faults slice_id member_id ci_mask (the res'))) (\<lambda>faults.
     let bkp_seen = flag_of_dpu (fault_flag (the res') slice_id member_id) member_id;
         dma_seen = flag_of_dpu (id_dma_fault faults) member_id;
         mem_seen = flag_of_dpu (id_mem_fault faults) member_id
     in FF (if bkp_seen then report_bkp_fault fuel slice_id member_id (res ! slice_id) else ok ()) (\<lambda>_.
        FF (if dma_seen then report_dma_fault fuel slice_id member_id (id_dma_thread faults) else ok ()) (\<lambda>_.
        FF (if mem_seen then report_mem_fault fuel slice_id member_id (id_mem_thread faults) else ok ()) (\<lambda>_.
        sync_error_storage slice_id member_id error_store_addr dma_seen mem_seen))))
    = (FF (on_rank (identify_faults slice_id member_id ci_mask (the res'))) (\<lambda>_.
        sync_error_storage slice_id member_id error_store_addr False False) :: ('w, unit) dbg)"
  (is "?L = ?R")
proof (rule ext)
  fix s :: "'w dpu_rank \<times> dpu_context"
  obtain out t where run: "on_rank (identify_faults slice_id member_id ci_mask (the res')) s = (out, t)" by (rule prod.exhaust)
  show "?L s = ?R s"
  proof (cases out)
    case (Ret faults)
    note missed = identify_faults_missed [OF assms run [unfolded Ret]] flag_missed [OF assms]
    show ?thesis by (simp add: FF_def run Ret Let_def missed ok_def)
  qed (simp_all add: FF_def run)
qed

lemma debug_init_unreported:
  assumes "member_id \<noteq> 0"
  shows "ci_debug_init_dpu fuel slice_id member_id error_store_addr = debug_init_unreported fuel slice_id member_id error_store_addr"
  unfolding ci_debug_init_dpu_def debug_init_unreported_def by (simp only: reports_missed [OF assms])

text \<open>
  C37: for every DPU but the first of a CI, no fault that the CI reports is taken over when the debugger is
  entered. Whatever the CI answers to the reads of its break point, DMA and memory faults, the operation is
  the one without the three reports, in which the synchronisation with the error storage is told of no fault
  and only reads it; and the break point fault, its number and its thread in the context are as before.
\<close>

theorem debug_init_misses_faults:
  assumes "member_id \<noteq> 0" and "ci_debug_init_dpu fuel slice_id member_id error_store_addr (r, c) = (out, (r', c'))"
  shows "debug_init_unreported fuel slice_id member_id error_store_addr (r, c) = (out, (r', c'))
    \<and> bkp_fault c' = bkp_fault c \<and> bkp_fault_id c' = bkp_fault_id c \<and> bkp_fault_thread_index c' = bkp_fault_thread_index c"
proof -
  have kept: "keeps (\<lambda>(r, d). same_bkp c d) (debug_init_unreported fuel slice_id member_id error_store_addr :: ('a, unit) dbg)"
    unfolding debug_init_unreported_def by (intro keeps_FF keeps_on_rank_context keeps_drain_all_bkp keeps_sync_bkp)
  have "case (r, c) of (r, d) \<Rightarrow> same_bkp c d" by (simp add: same_bkp_def)
  from keeps_eqD [OF kept this assms(2) [unfolded debug_init_unreported [OF assms(1)]]] assms(2) show ?thesis
    by (simp add: same_bkp_def debug_init_unreported [OF assms(1)])
qed

theorem debug_init_misses_faults_witness:
  "\<not> bkp_fault (snd (snd (ci_debug_init_dpu 9 0 3 0 (sample_rank [0x01FF0008FF, 0x01FF0008FF], fresh_context 24))))
    \<and> ci_debug_init_dpu 9 0 3 0 (sample_rank [0x01FF0008FF, 0x01FF0008FF], fresh_context 24)
      = debug_init_unreported 9 0 3 0 (sample_rank [0x01FF0008FF, 0x01FF0008FF], fresh_context 24)"
proof -
  let ?run = "ci_debug_init_dpu 9 0 3 0 (sample_rank [0x01FF0008FF, 0x01FF0008FF], fresh_context 24)"
  have "?run = (fst ?run, (fst (snd ?run), snd (snd ?run)))" by simp
  from debug_init_misses_faults [OF _ this] show ?thesis by (simp add: fresh_context_def)
qed

end
