(* ===== verification/Bytes.thy ===== *)
theory Bytes
  imports Prelude
begin

text \<open>
  Words and arrays as the bytes they have in memory, least significant byte first, and the contract
  that an encoding of fixed width fulfils.
\<close>

section \<open>Little-endian bytes\<close>

definition bytes_of_word :: "'a::len word \<Rightarrow> u8 list" where
  "bytes_of_word w = map (\<lambda>i. ucast (drop_bit (8 * i) w)) [0..<LENGTH('a) div 8]"

primrec word_of_bytes :: "u8 list \<Rightarrow> 'a::len word" where
  "word_of_bytes [] = 0"
| "word_of_bytes (b # bs) = ucast b OR push_bit 8 (word_of_bytes bs)"

definition bytes_of_bool :: "bool \<Rightarrow> u8 list" where
  "bytes_of_bool b = [if b then 1 else 0]"

definition bool_of_bytes :: "u8 list \<Rightarrow> bool" where
  "bool_of_bytes bs \<longleftrightarrow> hd bs \<noteq> 0"

text \<open>An array in memory, and an array of elements of \<open>k\<close> bytes read from memory.\<close>

definition array_bytes :: "('a \<Rightarrow> u8 list) \<Rightarrow> 'a list \<Rightarrow> u8 list" where
  "array_bytes enc xs = concat (map enc xs)"

definition bytes_array :: "nat \<Rightarrow> (u8 list \<Rightarrow> 'a) \<Rightarrow> u8 list \<Rightarrow> 'a list" where
  "bytes_array k dec bs = map (\<lambda>i. dec (take k (drop (k * i) bs))) [0..<length bs div k]"

section \<open>Encodings of fixed width\<close>

text \<open>The contract of an element of the format: so many bytes, from which it is read back.\<close>

locale element_format =
  fixes enc :: "'a \<Rightarrow> u8 list" and dec :: "u8 list \<Rightarrow> 'a" and width :: nat
  assumes read_back: "dec (enc x) = x" and enc_length: "length (enc x) = width" and width_pos: "0 < width"
begin

lemma array_length: "length (array_bytes enc xs) = width * length xs"
  by (induction xs) (simp_all add: array_bytes_def enc_length)

lemma array_nth: "i < length xs \<Longrightarrow> take width (drop (width * i) (array_bytes enc xs)) = enc (xs ! i)"
proof (induction xs arbitrary: i)
  case (Cons x xs)
  show ?case
  proof (cases i)
    case 0
    then show ?thesis by (simp add: array_bytes_def enc_length)
  next
    case (Suc j)
    have "drop (width * i) (array_bytes enc (x # xs)) = drop (width * j) (array_bytes enc xs)"
      by (simp add: Suc array_bytes_def enc_length)
    then show ?thesis using Cons Suc by simp
  qed
qed simp

lemma array_read_back: "bytes_array width dec (array_bytes enc xs) = xs"
  using width_pos by (intro nth_equalityI) (simp_all add: bytes_array_def array_length array_nth read_back)

end

lemma bit_word_of_bytes:
  "bit (word_of_bytes bs :: 'a::len word) i \<longleftrightarrow> i < LENGTH('a) \<and> i div 8 < length bs \<and> bit (bs ! (i div 8)) (i mod 8)"
proof (induction bs arbitrary: i)
  case (Cons b bs)
  show ?case
  proof (cases "i < 8")
    case True
    then show ?thesis by (auto simp: bit_or_iff bit_push_bit_iff bit_ucast_iff possible_bit_word)
  next
    case False
    then have "i div 8 = Suc ((i - 8) div 8)" "i mod 8 = (i - 8) mod 8"
      by (simp_all add: le_div_geq le_mod_geq)
    moreover have "\<not> bit b i" using False by (auto dest: bit_imp_le_length)
    ultimately show ?thesis using False
      by (auto simp: bit_or_iff bit_push_bit_iff bit_ucast_iff possible_bit_word Cons.IH)
  qed
qed simp

lemma word_bytes_read_back:
  assumes "8 * n = LENGTH('a::len)"
  shows "word_of_bytes (bytes_of_word (w :: 'a word)) = w"
proof (rule bit_word_eqI)
  fix i assume i: "i < LENGTH('a)"
  then have "i div 8 < n" using assms by simp
  moreover have "8 * (i div 8) + i mod 8 = i" by simp
  moreover have "n = LENGTH('a) div 8" using assms by simp
  ultimately show "bit (word_of_bytes (bytes_of_word w) :: 'a word) i = bit w i"
    using i by (simp add: bit_word_of_bytes bytes_of_word_def bit_ucast_iff bit_drop_bit_eq possible_bit_word)
qed

lemma length_bytes_of_word: "length (bytes_of_word (w :: 'a::len word)) = LENGTH('a) div 8"
  by (simp add: bytes_of_word_def)

interpretation u16_format: element_format "bytes_of_word :: u16 \<Rightarrow> u8 list" word_of_bytes 2
  by unfold_locales (rule word_bytes_read_back [where n = 2], simp_all add: length_bytes_of_word)

interpretation u32_format: element_format "bytes_of_word :: u32 \<Rightarrow> u8 list" word_of_bytes 4
  by unfold_locales (rule word_bytes_read_back [where n = 4], simp_all add: length_bytes_of_word)

interpretation u64_format: element_format "bytes_of_word :: u64 \<Rightarrow> u8 list" word_of_bytes 8
  by unfold_locales (rule word_bytes_read_back [where n = 8], simp_all add: length_bytes_of_word)

interpretation u8_format: element_format "bytes_of_word :: u8 \<Rightarrow> u8 list" word_of_bytes 1
  by unfold_locales (rule word_bytes_read_back [where n = 1], simp_all add: length_bytes_of_word)

interpretation bool_format: element_format bytes_of_bool bool_of_bytes 1
  by unfold_locales (simp_all add: bytes_of_bool_def bool_of_bytes_def)

lemmas format_simps = u8_format.read_back u16_format.read_back u32_format.read_back u64_format.read_back bool_format.read_back
  u8_format.enc_length u16_format.enc_length u32_format.enc_length u64_format.enc_length bool_format.enc_length
  u16_format.array_length u32_format.array_length u64_format.array_length bool_format.array_length
  u16_format.array_read_back u32_format.array_read_back u64_format.array_read_back bool_format.array_read_back

end
