(* ===== verification/Checkpoint.thy ===== *)
theory Checkpoint
  imports Ufi_Debug Bytes
begin

text \<open>
  The serialized form of a DPU context (\<open>dpu_checkpoint_serialize\<close>, \<open>dpu_checkpoint_deserialize\<close>
  and their size computation in \<^verbatim>\<open>api/src/dpu_debug.c\<close>). The macros that move through the buffer
  are operations on a pointer, given as the bytes of the allocated object from there on and the
  distance to the end that the caller announced: a read beyond the object ends in \<open>Abort\<close>, before
  the check of the macro. Allocations succeed.
\<close>

section \<open>The context with the memories of the DPU\<close>

text \<open>\<open>dpu_context_t\<close> with its \<open>info\<close> and the snapshots, \<open>None\<close> for \<^verbatim>\<open>NULL\<close>.\<close>

record checkpoint_context = dpu_context +
  info_nr_threads :: u32
  info_nr_registers :: u32
  info_nr_atomic_bits :: u32
  info_iram_size :: u16
  info_mram_size :: u32
  info_wram_size :: u32
  ctx_iram :: "u64 list option"
  ctx_mram :: "u8 list option"
  ctx_wram :: "u32 list option"

definition dpu_context_fill :: "u32 \<Rightarrow> u32 \<Rightarrow> u32 \<Rightarrow> u16 \<Rightarrow> u32 \<Rightarrow> u32 \<Rightarrow> checkpoint_context \<Rightarrow> checkpoint_context" where
  "dpu_context_fill nr_threads nr_work_registers nr_atomic_bits iram mram wram c =
     c\<lparr>info_nr_threads := nr_threads, info_nr_registers := nr_work_registers, info_nr_atomic_bits := nr_atomic_bits,
       info_iram_size := iram, info_mram_size := mram, info_wram_size := wram,
       ctx_iram := None, ctx_mram := None, ctx_wram := None,
       registers := replicate (unat (nr_threads * nr_work_registers)) 0,
       pcs := replicate (unat nr_threads) 0,
       atomic_register := replicate (unat nr_atomic_bits) False,
       zero_flags := replicate (unat nr_threads) False,
       carry_flags := replicate (unat nr_threads) False,
       scheduling := replicate (unat nr_threads) 0\<rparr>"

definition SERIALIZED_CONTEXT_MAGIC :: u32 where "SERIALIZED_CONTEXT_MAGIC = 0xfabddbaf"
definition SERIALIZED_CONTEXT_CHIP_VERSION :: u32 where "SERIALIZED_CONTEXT_CHIP_VERSION = 18"
definition SERIALIZED_CONTEXT_VERSION :: u32 where "SERIALIZED_CONTEXT_VERSION = 3"

section \<open>Serializing\<close>

text \<open>The sizes in bytes of the arrays, computed in 32 bits.\<close>

definition iram_byte_size :: "checkpoint_context \<Rightarrow> u32" where
  "iram_byte_size c = (if ctx_iram c = None then 0 else 8 * ucast (info_iram_size c))"

definition mram_byte_size :: "checkpoint_context \<Rightarrow> u32" where
  "mram_byte_size c = (if ctx_mram c = None then 0 else info_mram_size c)"

definition wram_byte_size :: "checkpoint_context \<Rightarrow> u32" where
  "wram_byte_size c = (if ctx_wram c = None then 0 else 4 * info_wram_size c)"

definition dpu_checkpoint_get_serialized_context_size :: "checkpoint_context \<Rightarrow> u32" where
  "dpu_checkpoint_get_serialized_context_size c =
     4 + 4 + 4 + 4 + 4 + 4
       + 4 + 4 + 4 + 4 + iram_byte_size c + mram_byte_size c + wram_byte_size c
       + 4 * info_nr_threads c * info_nr_registers c + 2 * info_nr_threads c + info_nr_atomic_bits c
       + info_nr_threads c + info_nr_threads c + 1
       + info_nr_threads c + 1 + 1 + 1 + 1
       + 1 + 1 + 4"

text \<open>What \<open>SERIALIZED_ELEM\<close> is given, in order: a number of bytes and the object they are copied from.\<close>

definition serialized_elems :: "checkpoint_context \<Rightarrow> (u32 \<times> u8 list) list" where
  "serialized_elems c =
     [(4, bytes_of_word SERIALIZED_CONTEXT_MAGIC),
      (4, bytes_of_word SERIALIZED_CONTEXT_CHIP_VERSION),
      (4, bytes_of_word SERIALIZED_CONTEXT_VERSION),
      (4, bytes_of_word SERIALIZED_CONTEXT_MAGIC),
      (4, bytes_of_word (info_nr_threads c)),
      (4, bytes_of_word (info_nr_registers c)),
      (4, bytes_of_word (info_nr_atomic_bits c)),
      (4, bytes_of_word (if ctx_iram c = None then 0 else ucast (info_iram_size c) :: u32)),
      (4, bytes_of_word (mram_byte_size c)),
      (4, bytes_of_word (if ctx_wram c = None then 0 else info_wram_size c)),
      (iram_byte_size c, array_bytes bytes_of_word (case ctx_iram c of None \<Rightarrow> [] | Some m \<Rightarrow> m)),
      (mram_byte_size c, (case ctx_mram c of None \<Rightarrow> [] | Some m \<Rightarrow> m)),
      (wram_byte_size c, array_bytes bytes_of_word (case ctx_wram c of None \<Rightarrow> [] | Some m \<Rightarrow> m)),
      (4 * info_nr_threads c * info_nr_registers c, array_bytes bytes_of_word (registers c)),
      (2 * info_nr_threads c, array_bytes bytes_of_word (pcs c)),
      (info_nr_atomic_bits c, array_bytes bytes_of_bool (atomic_register c)),
      (info_nr_threads c, array_bytes bytes_of_bool (zero_flags c)),
      (info_nr_threads c, array_bytes bytes_of_bool (carry_flags c)),
      (1, bytes_of_word (nr_of_running_threads c)),
      (info_nr_threads c, scheduling c),
      (1, bytes_of_bool (bkp_fault c)),
      (1, bytes_of_bool (dma_fault c)),
      (1, bytes_of_bool (mem_fault c)),
      (1, bytes_of_word (bkp_fault_thread_index c)),
      (1, bytes_of_word (dma_fault_thread_index c)),
      (1, bytes_of_word (mem_fault_thread_index c)),
      (4, bytes_of_word (bkp_fault_id c))]"

text \<open>
  The caller gives the size of its buffer, or \<^verbatim>\<open>NULL\<close> to have one allocated. Reading past an
  array of the context or writing past the buffer is undefined.
\<close>

definition dpu_checkpoint_serialize :: "checkpoint_context \<Rightarrow> u32 option \<Rightarrow> (u8 list \<times> u32) outcome" where
  "dpu_checkpoint_serialize c buffer_size =
     (let serialized_size = dpu_checkpoint_get_serialized_context_size c;
          bytes = concat (map (\<lambda>(n, object). take (unat n) object) (serialized_elems c))
      in if buffer_size \<noteq> None \<and> buffer_size \<noteq> Some serialized_size then Fail DPU_ERR_INVALID_BUFFER_SIZE
         else if list_ex (\<lambda>(n, object). length object < unat n) (serialized_elems c)
              \<or> unat serialized_size < length bytes then Abort
         else Ret (bytes, serialized_size))"

section \<open>Deserializing\<close>

text \<open>A pointer into the buffer: the object from there on, and the distance to \<open>serialized_context_end\<close>.\<close>

type_synonym cursor = "u8 list \<times> nat"

definition DESERIALIZED_NEXT_ELEM :: "cursor \<Rightarrow> u32 \<Rightarrow> ('s, cursor) op" where
  "DESERIALIZED_NEXT_ELEM p n =
     (if snd p < unat n then fail DPU_ERR_ELF_INVALID_FILE else ok (drop (unat n) (fst p), snd p - unat n))"

definition DESERIALIZED_ELEM :: "(u8 list \<Rightarrow> ('s, 'a) op) \<Rightarrow> cursor \<Rightarrow> u32 \<Rightarrow> ('s, 'a \<times> cursor) op" where
  "DESERIALIZED_ELEM store p n =
     (if length (fst p) < unat n then abort
      else FF (store (take (unat n) (fst p))) (\<lambda>x.
           FF (DESERIALIZED_NEXT_ELEM p n) (\<lambda>p. ok (x, p))))"

definition expect_u32 :: "u32 \<Rightarrow> cursor \<Rightarrow> ('s, cursor) op" where
  "expect_u32 value p =
     (if length (fst p) < 4 then abort
      else if word_of_bytes (take 4 (fst p)) \<noteq> value then fail DPU_ERR_ELF_INVALID_FILE
      else DESERIALIZED_NEXT_ELEM p 4)"

definition read_u32 :: "cursor \<Rightarrow> ('s, u32 \<times> cursor) op" where
  "read_u32 p = DESERIALIZED_ELEM (\<lambda>bs. ok (word_of_bytes bs)) p 4"

definition into_context :: "(u8 list \<Rightarrow> checkpoint_context \<Rightarrow> checkpoint_context) \<Rightarrow> u32 \<Rightarrow> cursor \<Rightarrow> (checkpoint_context, cursor) op" where
  "into_context store n p = FF (DESERIALIZED_ELEM (\<lambda>bs. modify (store bs)) p n) (\<lambda>(_, p). ok p)"

text \<open>The first entries of an array are overwritten.\<close>

definition over :: "'a list \<Rightarrow> 'a list \<Rightarrow> 'a list" where
  "over xs ys = xs @ drop (length xs) ys"

definition read_header :: "cursor \<Rightarrow> ('s, cursor) op" where
  "read_header p =
     FF (expect_u32 SERIALIZED_CONTEXT_MAGIC p) (\<lambda>p.
     FF (expect_u32 SERIALIZED_CONTEXT_CHIP_VERSION p) (\<lambda>p.
     FF (expect_u32 SERIALIZED_CONTEXT_VERSION p) (\<lambda>p.
     expect_u32 SERIALIZED_CONTEXT_MAGIC p)))"

definition read_memories :: "u32 \<Rightarrow> u32 \<Rightarrow> u32 \<Rightarrow> cursor \<Rightarrow> (checkpoint_context, cursor) op" where
  "read_memories iram mram wram p =
     FF (if iram \<noteq> 0 then into_context (\<lambda>bs c. c\<lparr>ctx_iram := Some (bytes_array 8 word_of_bytes bs)\<rparr>) (8 * iram) p else ok p) (\<lambda>p.
     FF (if mram \<noteq> 0 then into_context (\<lambda>bs c. c\<lparr>ctx_mram := Some bs\<rparr>) mram p else ok p) (\<lambda>p.
     if wram \<noteq> 0 then into_context (\<lambda>bs c. c\<lparr>ctx_wram := Some (bytes_array 4 word_of_bytes bs)\<rparr>) (4 * wram) p else ok p))"

definition read_arrays :: "u32 \<Rightarrow> u32 \<Rightarrow> u32 \<Rightarrow> cursor \<Rightarrow> (checkpoint_context, cursor) op" where
  "read_arrays threads registers_per_thread atomic_bits p =
     FF (into_context (\<lambda>bs c. c\<lparr>registers := over (bytes_array 4 word_of_bytes bs) (registers c)\<rparr>)
           (4 * threads * registers_per_thread) p) (\<lambda>p.
     FF (into_context (\<lambda>bs c. c\<lparr>pcs := over (bytes_array 2 word_of_bytes bs) (pcs c)\<rparr>) (2 * threads) p) (\<lambda>p.
     FF (into_context (\<lambda>bs c. c\<lparr>atomic_register := over (bytes_array 1 bool_of_bytes bs) (atomic_register c)\<rparr>) atomic_bits p) (\<lambda>p.
     FF (into_context (\<lambda>bs c. c\<lparr>zero_flags := over (bytes_array 1 bool_of_bytes bs) (zero_flags c)\<rparr>) threads p) (\<lambda>p.
     FF (into_context (\<lambda>bs c. c\<lparr>carry_flags := over (bytes_array 1 bool_of_bytes bs) (carry_flags c)\<rparr>) threads p) (\<lambda>p.
     FF (into_context (\<lambda>bs c. c\<lparr>nr_of_running_threads := word_of_bytes bs\<rparr>) 1 p) (\<lambda>p.
     into_context (\<lambda>bs c. c\<lparr>scheduling := over bs (scheduling c)\<rparr>) threads p))))))"

definition read_faults :: "cursor \<Rightarrow> (checkpoint_context, cursor) op" where
  "read_faults p =
     FF (into_context (\<lambda>bs c. c\<lparr>bkp_fault := bool_of_bytes bs\<rparr>) 1 p) (\<lambda>p.
     FF (into_context (\<lambda>bs c. c\<lparr>dma_fault := bool_of_bytes bs\<rparr>) 1 p) (\<lambda>p.
     FF (into_context (\<lambda>bs c. c\<lparr>mem_fault := bool_of_bytes bs\<rparr>) 1 p) (\<lambda>p.
     FF (into_context (\<lambda>bs c. c\<lparr>bkp_fault_thread_index := word_of_bytes bs\<rparr>) 1 p) (\<lambda>p.
     FF (into_context (\<lambda>bs c. c\<lparr>dma_fault_thread_index := word_of_bytes bs\<rparr>) 1 p) (\<lambda>p.
     FF (into_context (\<lambda>bs c. c\<lparr>mem_fault_thread_index := word_of_bytes bs\<rparr>) 1 p) (\<lambda>p.
     into_context (\<lambda>bs c. c\<lparr>bkp_fault_id := word_of_bytes bs\<rparr>) 4 p))))))"

text \<open>
  \<open>object\<close> is the allocated object the pointer \<open>serialized_context\<close> points to. The sizes of the
  memories are read with 32 bits; the context keeps 16 bits of that of the IRAM.
\<close>

definition dpu_checkpoint_deserialize :: "u8 list \<Rightarrow> u32 \<Rightarrow> (checkpoint_context, unit) op" where
  "dpu_checkpoint_deserialize object serialized_context_size =
     FF (read_header (object, unat serialized_context_size)) (\<lambda>p.
     FF (read_u32 p) (\<lambda>(threads, p).
     FF (read_u32 p) (\<lambda>(registers_per_thread, p).
     FF (read_u32 p) (\<lambda>(atomic_bits, p).
     FF (read_u32 p) (\<lambda>(iram, p).
     FF (read_u32 p) (\<lambda>(mram, p).
     FF (read_u32 p) (\<lambda>(wram, p).
     FF (modify (dpu_context_fill threads registers_per_thread atomic_bits (ucast iram) mram wram)) (\<lambda>_.
     FF (read_memories iram mram wram p) (\<lambda>p.
     FF (read_arrays threads registers_per_thread atomic_bits p) (\<lambda>p.
     FF (read_faults p) (\<lambda>_. ok ())))))))))))"

end
