(* ===== verification/Checkpoint_Spec.thy ===== *)
theory Checkpoint_Spec
  imports Checkpoint
begin

text \<open>
  What a serialized context keeps: the round trip of a checkpoint through its bytes, and what becomes
  of bytes that were cut.
\<close>

section \<open>Complete contexts\<close>

text \<open>
  The arrays have the sizes that \<open>info\<close> says, a snapshot that is there has the size of its memory,
  and everything together has less than 4 GB.
\<close>

definition context_complete :: "checkpoint_context \<Rightarrow> bool" where
  "context_complete c \<longleftrightarrow>
     length (registers c) = unat (info_nr_threads c) * unat (info_nr_registers c)
     \<and> length (pcs c) = unat (info_nr_threads c) \<and> length (zero_flags c) = unat (info_nr_threads c)
     \<and> length (carry_flags c) = unat (info_nr_threads c) \<and> length (scheduling c) = unat (info_nr_threads c)
     \<and> length (atomic_register c) = unat (info_nr_atomic_bits c)
     \<and> (ctx_iram c = None \<or> length (the (ctx_iram c)) = unat (info_iram_size c))
     \<and> (ctx_mram c = None \<or> length (the (ctx_mram c)) = unat (info_mram_size c))
     \<and> (ctx_wram c = None \<or> length (the (ctx_wram c)) = unat (info_wram_size c))
     \<and> length (concat (map snd (serialized_elems c))) < 2 ^ 32"

text \<open>What a checkpoint keeps: all, except the sizes of the memories that have no snapshot.\<close>

definition restored :: "checkpoint_context \<Rightarrow> checkpoint_context" where
  "restored c = c\<lparr>
     info_iram_size := (if ctx_iram c = None then 0 else info_iram_size c),
     ctx_iram := (if info_iram_size c = 0 then None else ctx_iram c),
     info_mram_size := (if ctx_mram c = None then 0 else info_mram_size c),
     ctx_mram := (if info_mram_size c = 0 then None else ctx_mram c),
     info_wram_size := (if ctx_wram c = None then 0 else info_wram_size c),
     ctx_wram := (if info_wram_size c = 0 then None else ctx_wram c)\<rparr>"

lemma unat_ok: "m < 2 ^ 32 \<Longrightarrow> w = of_nat m \<Longrightarrow> unat (w :: u32) = m"
  by (simp add: unat_of_nat)

lemma length_le_concat: "(n, object) \<in> set es \<Longrightarrow> length object \<le> length (concat (map snd es))"
  by (induction es) auto

lemma elems_exact:
  assumes "context_complete c"
  shows "list_all (\<lambda>(n, object). n = of_nat (length object)) (serialized_elems c)"
proof -
  note sizes = assms [unfolded context_complete_def]
  have iram: "iram_byte_size c = of_nat (length (array_bytes bytes_of_word (case ctx_iram c of None \<Rightarrow> [] | Some m \<Rightarrow> m)))"
    using sizes by (cases "ctx_iram c") (simp_all add: iram_byte_size_def format_simps)
  have mram: "mram_byte_size c = of_nat (length (case ctx_mram c of None \<Rightarrow> [] | Some m \<Rightarrow> m))"
    using sizes by (cases "ctx_mram c") (simp_all add: mram_byte_size_def)
  have wram: "wram_byte_size c = of_nat (length (array_bytes bytes_of_word (case ctx_wram c of None \<Rightarrow> [] | Some m \<Rightarrow> m)))"
    using sizes by (cases "ctx_wram c") (simp_all add: wram_byte_size_def format_simps)
  show ?thesis
    unfolding serialized_elems_def list.pred_inject prod.case
    using sizes by (intro conjI iram mram wram) (simp_all add: format_simps)
qed

lemma elems_fit:
  assumes "context_complete c" and "(n, object) \<in> set (serialized_elems c)"
  shows "unat n = length object"
proof (rule unat_ok)
  have "length object \<le> length (concat (map snd (serialized_elems c)))"
    using assms(2) by (rule length_le_concat)
  then show "length object < 2 ^ 32" using assms(1) by (simp add: context_complete_def)
  show "n = of_nat (length object)"
    using elems_exact [OF assms(1)] assms(2) by (auto simp: list_all_iff)
qed

lemma serialized_size:
  assumes "context_complete c"
  shows "unat (dpu_checkpoint_get_serialized_context_size c) = length (concat (map snd (serialized_elems c)))"
proof (rule unat_ok)
  have "of_nat (length (concat (map snd es))) = sum_list (map fst es)"
    if "list_all (\<lambda>(n, object). n = of_nat (length object)) es" for es :: "(u32 \<times> u8 list) list"
    using that by (induction es) auto
  from this [OF elems_exact [OF assms]]
  have "of_nat (length (concat (map snd (serialized_elems c)))) = sum_list (map fst (serialized_elems c))" .
  also have "\<dots> = dpu_checkpoint_get_serialized_context_size c"
    by (simp add: serialized_elems_def dpu_checkpoint_get_serialized_context_size_def algebra_simps)
  finally show "dpu_checkpoint_get_serialized_context_size c = of_nat (length (concat (map snd (serialized_elems c))))" ..
qed (use assms in \<open>simp add: context_complete_def\<close>)

lemma serialize_complete:
  assumes "context_complete c"
  shows "dpu_checkpoint_serialize c None = Ret (concat (map snd (serialized_elems c)), dpu_checkpoint_get_serialized_context_size c)"
proof -
  have "map (\<lambda>(n, object). take (unat n) object) (serialized_elems c) = map snd (serialized_elems c)"
    using elems_fit [OF assms] by (intro map_cong refl) auto
  moreover have "\<not> list_ex (\<lambda>(n, object). length object < unat n) (serialized_elems c)"
    using elems_fit [OF assms] by (auto simp: list_ex_iff)
  ultimately show ?thesis using serialized_size [OF assms] by (simp only: dpu_checkpoint_serialize_def Let_def) simp
qed

section \<open>Reading what was written\<close>

text \<open>A pointer to bytes that end where the caller says.\<close>

definition cur :: "u8 list \<Rightarrow> cursor" where
  "cur bs = (bs, length bs)"

lemma elem_read: "unat n = length b \<Longrightarrow> DESERIALIZED_ELEM store (cur (b @ rest)) n = FF (store b) (\<lambda>x. ok (x, cur rest))"
  by (rule ext) (simp add: DESERIALIZED_ELEM_def DESERIALIZED_NEXT_ELEM_def cur_def FF_def split: prod.split outcome.split)

lemma into_read: "unat n = length b \<Longrightarrow> FF (into_context store n (cur (b @ rest))) k s = k (cur rest) (store b s)"
  "unat n = length b \<Longrightarrow> into_context store n (cur (b @ rest)) s = (Ret (cur rest), store b s)"
  by (simp_all add: into_context_def elem_read FF_assoc)

lemma u32_read: "read_u32 (cur (bytes_of_word v @ rest)) = ok (v, cur rest)"
  by (rule ext) (simp add: read_u32_def elem_read format_simps)

lemma expect_read: "expect_u32 v (cur (bytes_of_word v @ rest)) = ok (cur rest)"
  by (rule ext) (simp add: expect_u32_def DESERIALIZED_NEXT_ELEM_def cur_def format_simps)

lemma over_all: "length xs = length ys \<Longrightarrow> over xs ys = xs"
  by (simp add: over_def)

lemma read_header_run:
  "read_header (cur (bytes_of_word SERIALIZED_CONTEXT_MAGIC @ bytes_of_word SERIALIZED_CONTEXT_CHIP_VERSION
     @ bytes_of_word SERIALIZED_CONTEXT_VERSION @ bytes_of_word SERIALIZED_CONTEXT_MAGIC @ rest)) = ok (cur rest)"
  by (rule ext) (simp add: read_header_def expect_read)

lemma read_memories_run:
  assumes "unat (8 * iram) = length i" "iram = 0 \<longrightarrow> i = []" "unat mram = length m"
    and "unat (4 * wram) = length w" "wram = 0 \<longrightarrow> w = []"
  shows "FF (read_memories iram mram wram (cur (i @ m @ w @ rest))) k c = k (cur rest) (c\<lparr>
     ctx_iram := (if iram = 0 then ctx_iram c else Some (bytes_array 8 word_of_bytes i)),
     ctx_mram := (if mram = 0 then ctx_mram c else Some m),
     ctx_wram := (if wram = 0 then ctx_wram c else Some (bytes_array 4 word_of_bytes w))\<rparr>)"
proof -
  have "mram = 0 \<Longrightarrow> m = []" using assms(3) by simp
  with assms show ?thesis
    by (cases "iram = 0"; cases "mram = 0"; cases "wram = 0"; simp add: read_memories_def into_read FF_assoc)
       (simp_all add: FF_def)
qed

lemma read_arrays_run:
  assumes "unat (4 * threads * regs) = length r" "unat (2 * threads) = length p" "unat bits = length a"
    and "unat threads = length z" "unat threads = length y" "unat threads = length q"
    and "length (registers c) = length r div 4" "length (pcs c) = length p div 2" "length (atomic_register c) = length a"
    and "length (zero_flags c) = length z" "length (carry_flags c) = length y" "length (scheduling c) = length q"
  shows "FF (read_arrays threads regs bits (cur (r @ p @ a @ z @ y @ bytes_of_word (n :: u8) @ q @ rest))) k c = k (cur rest) (c\<lparr>
     registers := bytes_array 4 word_of_bytes r, pcs := bytes_array 2 word_of_bytes p,
     atomic_register := bytes_array 1 bool_of_bytes a, zero_flags := bytes_array 1 bool_of_bytes z,
     carry_flags := bytes_array 1 bool_of_bytes y, nr_of_running_threads := n, scheduling := q\<rparr>)"
proof -
  have same: "length y = length z" "length q = length z" using assms(4-6) by simp_all
  have "length (bytes_array k dec bs) = length bs div k" for k and dec :: "u8 list \<Rightarrow> 'e" and bs
    by (simp add: bytes_array_def)
  note over_array = over_all [of "bytes_array _ _ _", unfolded this]
  show ?thesis using assms(7-12)
    by (simp add: read_arrays_def into_read assms(1-4) same format_simps over_array over_all FF_assoc)
qed

lemma read_faults_run:
  "FF (read_faults (cur (bytes_of_bool f1 @ bytes_of_bool f2 @ bytes_of_bool f3 @ bytes_of_word (t1 :: u8) @ bytes_of_word (t2 :: u8)
      @ bytes_of_word (t3 :: u8) @ bytes_of_word (n :: u32) @ rest))) k c = k (cur rest) (c\<lparr>bkp_fault := f1, dma_fault := f2,
     mem_fault := f3, bkp_fault_thread_index := t1, dma_fault_thread_index := t2, mem_fault_thread_index := t3, bkp_fault_id := n\<rparr>)"
  by (simp add: read_faults_def into_read format_simps FF_assoc)

text \<open>The sizes of what is read, as the read functions ask for them.\<close>

abbreviation (input) "iram_bytes c \<equiv> array_bytes bytes_of_word (case ctx_iram c of None \<Rightarrow> [] | Some m \<Rightarrow> m)"
abbreviation (input) "mram_bytes c \<equiv> (case ctx_mram c of None \<Rightarrow> [] | Some m \<Rightarrow> m)"
abbreviation (input) "wram_bytes c \<equiv> array_bytes bytes_of_word (case ctx_wram c of None \<Rightarrow> [] | Some m \<Rightarrow> m)"
abbreviation (input) "iram_count c \<equiv> (if ctx_iram c = None then 0 else ucast (info_iram_size c) :: u32)"
abbreviation (input) "wram_count c \<equiv> (if ctx_wram c = None then 0 else info_wram_size c)"

lemma read_sizes:
  assumes complete: "context_complete c"
  shows "unat (8 * iram_count c) = length (iram_bytes c)" "iram_count c = 0 \<longrightarrow> iram_bytes c = []"
    "unat (mram_byte_size c) = length (mram_bytes c)"
    "unat (4 * wram_count c) = length (wram_bytes c)" "wram_count c = 0 \<longrightarrow> wram_bytes c = []"
    "unat (4 * info_nr_threads c * info_nr_registers c) = length (array_bytes bytes_of_word (registers c))"
    "unat (2 * info_nr_threads c) = length (array_bytes bytes_of_word (pcs c))"
    "unat (info_nr_atomic_bits c) = length (array_bytes bytes_of_bool (atomic_register c))"
    "unat (info_nr_threads c) = length (array_bytes bytes_of_bool (zero_flags c))"
    "unat (info_nr_threads c) = length (array_bytes bytes_of_bool (carry_flags c))"
    "unat (info_nr_threads c) = length (scheduling c)"
proof -
  note sizes = complete [unfolded context_complete_def]
  have fit: "unat n = length object" if "(n, object) \<in> set (serialized_elems c)" for n object
    using elems_fit [OF complete that] .
  show "unat (8 * iram_count c) = length (iram_bytes c)" "iram_count c = 0 \<longrightarrow> iram_bytes c = []"
    using fit [of "iram_byte_size c" "iram_bytes c"] sizes
    by (auto simp: serialized_elems_def iram_byte_size_def array_bytes_def split: if_splits option.splits)
  show "unat (4 * wram_count c) = length (wram_bytes c)" "wram_count c = 0 \<longrightarrow> wram_bytes c = []"
    using fit [of "wram_byte_size c" "wram_bytes c"] sizes
    by (auto simp: serialized_elems_def wram_byte_size_def array_bytes_def split: if_splits option.splits)
qed (rule elems_fit [OF complete], simp add: serialized_elems_def)+

lemma deserialize_complete:
  assumes complete: "context_complete c"
  shows "dpu_checkpoint_deserialize (concat (map snd (serialized_elems c))) (dpu_checkpoint_get_serialized_context_size c) c0
    = (Ret (), restored c)"
proof -
  note sizes = complete [unfolded context_complete_def]
  note reads = read_sizes [OF complete]
  have start: "(concat (map snd (serialized_elems c)), unat (dpu_checkpoint_get_serialized_context_size c))
      = cur (concat (map snd (serialized_elems c)))"
    by (simp add: cur_def serialized_size [OF complete])
  have bools: "bytes_array (Suc 0) bool_of_bytes (array_bytes bytes_of_bool xs) = xs" for xs
    using bool_format.array_read_back by simp
  have counts: "unat (info_nr_threads c * info_nr_registers c) = length (registers c)" "unat (info_nr_threads c) = length (pcs c)"
    "unat (info_nr_atomic_bits c) = length (atomic_register c)" "length (zero_flags c) = length (pcs c)"
    "length (carry_flags c) = length (pcs c)" "length (scheduling c) = length (pcs c)"
  proof -
    have "unat (4 * info_nr_threads c * info_nr_registers c) < 2 ^ 32"
      by (rule order_less_le_trans [OF unsigned_less]) simp
    then have "4 * length (registers c) < 2 ^ 32" using reads(6) by (simp add: format_simps)
    moreover have "info_nr_threads c * info_nr_registers c = of_nat (length (registers c))" using sizes by simp
    ultimately show "unat (info_nr_threads c * info_nr_registers c) = length (registers c)" by (intro unat_ok) simp_all
  qed (use sizes in simp_all)
  have narrow: "ucast (ucast (w :: u16) :: u32) = w" for w
    by (rule bit_word_eqI) (simp add: bit_ucast_iff possible_bit_word)
  have run: "dpu_checkpoint_deserialize (concat (map snd (serialized_elems c))) (dpu_checkpoint_get_serialized_context_size c) c0
    = (Ret (), c0\<lparr>info_nr_threads := info_nr_threads c, info_nr_registers := info_nr_registers c,
       info_nr_atomic_bits := info_nr_atomic_bits c, info_iram_size := ucast (iram_count c), info_mram_size := mram_byte_size c,
       info_wram_size := wram_count c,
       ctx_iram := (if iram_count c = 0 then None else Some (case ctx_iram c of None \<Rightarrow> [] | Some m \<Rightarrow> m)),
       ctx_mram := (if mram_byte_size c = 0 then None else Some (mram_bytes c)),
       ctx_wram := (if wram_count c = 0 then None else Some (case ctx_wram c of None \<Rightarrow> [] | Some m \<Rightarrow> m)),
       registers := registers c, pcs := pcs c, atomic_register := atomic_register c, zero_flags := zero_flags c,
       carry_flags := carry_flags c, nr_of_running_threads := nr_of_running_threads c, scheduling := scheduling c,
       bkp_fault := bkp_fault c, dma_fault := dma_fault c, mem_fault := mem_fault c,
       bkp_fault_thread_index := bkp_fault_thread_index c, dma_fault_thread_index := dma_fault_thread_index c,
       mem_fault_thread_index := mem_fault_thread_index c, bkp_fault_id := bkp_fault_id c\<rparr>)"
    unfolding dpu_checkpoint_deserialize_def start
    by (simp only: serialized_elems_def list.map snd_conv concat.simps append_Nil2 read_header_run u32_read FF_ok prod.case
          FF_modify read_memories_run [OF reads(1-5)])
       (subst read_arrays_run [OF reads(6-11)],
        simp_all only: read_faults_run [where rest = "[]", simplified],
        simp_all add: dpu_context_fill_def format_simps bools counts)
  have zero: "(ucast (w :: u16) :: u32) = 0 \<longleftrightarrow> w = 0" for w
    by (metis narrow ucast_0)
  show ?thesis unfolding run prod.inject
    by (intro conjI refl checkpoint_context.equality)
       (auto simp: restored_def mram_byte_size_def narrow zero split: option.split)
qed

text \<open>
  C13: A checkpoint is kept by its bytes: a complete context is serialized into exactly as many bytes
  as announced, and deserializing them, into whatever context, succeeds and gives the same context
  back, except that the size of a memory without a snapshot becomes 0.
\<close>

theorem checkpoint_round_trip:
  assumes "context_complete c"
  shows "\<exists>bytes nbytes. dpu_checkpoint_serialize c None = Ret (bytes, nbytes) \<and> length bytes = unat nbytes
    \<and> (\<forall>c0. dpu_checkpoint_deserialize bytes nbytes c0 = (Ret (), restored c))"
  using serialize_complete [OF assms] serialized_size [OF assms] deserialize_complete [OF assms] by auto

section \<open>Bytes that were cut\<close>

text \<open>
  What an operation on the buffer does with fewer bytes than it needs: with the rest of the object
  behind the end it is refused, and with nothing behind the end it reads past the object.
\<close>

definition cut :: "(cursor \<Rightarrow> ('s, 'a) op) \<Rightarrow> u8 list \<Rightarrow> bool" where
  "cut K bs \<longleftrightarrow> (\<forall>n < length bs. \<forall>rest s. fst (K (bs @ rest, n) s) = Fail DPU_ERR_ELF_INVALID_FILE
     \<and> fst (K (take n bs, n) s) = Abort)"

lemma cutD:
  "cut K bs \<Longrightarrow> n < length bs \<Longrightarrow>
    fst (K (bs @ rest, n) s) = Fail DPU_ERR_ELF_INVALID_FILE \<and> fst (K (take n bs, n) s) = Abort"
  by (simp add: cut_def)

lemma cut_Nil: "cut K []"
  by (simp add: cut_def)

lemma cut_elem:
  assumes "unat n = length b" and "\<And>s. \<exists>s'. store b s = (Ret x, s')" and "cut (K x) rest"
  shows "cut (\<lambda>p. FF (DESERIALIZED_ELEM store p n) (\<lambda>(x, p). K x p)) (b @ rest)"
  unfolding cut_def
proof (intro allI impI)
  fix k more s assume k: "k < length (b @ rest)"
  obtain s' where s': "store b s = (Ret x, s')" using assms(2) by blast
  show "fst (FF (DESERIALIZED_ELEM store ((b @ rest) @ more, k) n) (\<lambda>(x, p). K x p) s) = Fail DPU_ERR_ELF_INVALID_FILE
    \<and> fst (FF (DESERIALIZED_ELEM store (take k (b @ rest), k) n) (\<lambda>(x, p). K x p) s) = Abort"
  proof (cases "k < length b")
    case True
    then show ?thesis
      using s' assms(1) by (simp add: DESERIALIZED_ELEM_def DESERIALIZED_NEXT_ELEM_def FF_def abort_def)
  next
    case False
    then show ?thesis
      using k s' assms(1,3) by (simp add: DESERIALIZED_ELEM_def DESERIALIZED_NEXT_ELEM_def FF_def abort_def cut_def)
  qed
qed

lemma cut_into:
  assumes "unat n = length b" and "cut K rest"
  shows "cut (\<lambda>p. FF (into_context store n p) K) (b @ rest)"
proof -
  have "cut (\<lambda>p. FF (DESERIALIZED_ELEM (\<lambda>bs. modify (store bs)) p n) (\<lambda>(x, p). K p)) (b @ rest)"
    using assms by (intro cut_elem) simp_all
  moreover have "FF (into_context store n p) K = FF (DESERIALIZED_ELEM (\<lambda>bs. modify (store bs)) p n) (\<lambda>(x, p). K p)" for p
    unfolding into_context_def FF_assoc by (rule arg_cong [where f = "FF _"]) (simp add: fun_eq_iff split: prod.split)
  ultimately show ?thesis by simp
qed

lemma cut_into_opt:
  "unat n = length b \<Longrightarrow> v = 0 \<longrightarrow> b = [] \<Longrightarrow> cut K rest \<Longrightarrow>
    cut (\<lambda>p. FF (if v \<noteq> 0 then into_context store n p else ok p) K) (b @ rest)"
  by (cases "v = 0") (simp_all add: cut_into)

lemma cut_u32: "cut (K v) rest \<Longrightarrow> cut (\<lambda>p. FF (read_u32 p) (\<lambda>(v, p). K v p)) (bytes_of_word v @ rest)"
  unfolding read_u32_def by (intro cut_elem) (simp_all add: format_simps)

lemma cut_expect:
  assumes "cut K rest"
  shows "cut (\<lambda>p. FF (expect_u32 v p) K) (bytes_of_word v @ rest)"
  unfolding cut_def
proof (intro allI impI)
  fix k more s assume k: "k < length (bytes_of_word v @ rest)"
  show "fst (FF (expect_u32 v ((bytes_of_word v @ rest) @ more, k)) K s) = Fail DPU_ERR_ELF_INVALID_FILE
    \<and> fst (FF (expect_u32 v (take k (bytes_of_word v @ rest), k)) K s) = Abort"
  proof (cases "k < 4")
    case True
    then show ?thesis by (simp add: expect_u32_def DESERIALIZED_NEXT_ELEM_def FF_def abort_def format_simps)
  next
    case False
    then have "take 4 (take k (bytes_of_word v @ rest)) = bytes_of_word v" by (simp add: format_simps)
    then show ?thesis
      using k False assms by (simp add: expect_u32_def DESERIALIZED_NEXT_ELEM_def FF_def abort_def format_simps cut_def)
  qed
qed

lemma cut_modify: "cut K bs \<Longrightarrow> cut (\<lambda>p. FF (modify f) (\<lambda>_. K p)) bs"
  by (simp add: cut_def)

lemma cut_assoc: "cut (\<lambda>p. FF (m p) (\<lambda>x. FF (k x) h)) bs \<Longrightarrow> cut (\<lambda>p. FF (FF (m p) k) h) bs"
  by (simp add: FF_assoc)

lemma deserialize_cut:
  assumes complete: "context_complete c"
  shows "cut (\<lambda>p. FF (read_header p) (\<lambda>p.
     FF (read_u32 p) (\<lambda>(threads, p). FF (read_u32 p) (\<lambda>(registers_per_thread, p). FF (read_u32 p) (\<lambda>(atomic_bits, p).
     FF (read_u32 p) (\<lambda>(iram, p). FF (read_u32 p) (\<lambda>(mram, p). FF (read_u32 p) (\<lambda>(wram, p).
     FF (modify (dpu_context_fill threads registers_per_thread atomic_bits (ucast iram) mram wram)) (\<lambda>_.
     FF (read_memories iram mram wram p) (\<lambda>p.
     FF (read_arrays threads registers_per_thread atomic_bits p) (\<lambda>p.
     FF (read_faults p) (\<lambda>_. ok ())))))))))))) (concat (map snd (serialized_elems c)))"
proof -
  note step = cut_expect cut_u32 cut_modify cut_into cut_into_opt cut_Nil
  have "mram_byte_size c = 0 \<longrightarrow> mram_bytes c = []" using read_sizes(3) [OF complete] by auto
  then show ?thesis
    unfolding serialized_elems_def list.map snd_conv concat.simps
     read_header_def read_memories_def read_arrays_def read_faults_def FF_assoc
    by (intro step read_sizes [OF complete]) (simp_all add: format_simps)
qed

text \<open>
  C25: A checkpoint of which a part is missing is not taken for a whole one. If the caller announces
  fewer bytes than were serialized, deserializing ends in \<open>DPU_ERR_ELF_INVALID_FILE\<close> as long as
  the buffer really goes on; but every element is copied before its end is checked, so that with a
  buffer of exactly the announced size the error is never returned: the copy reads past the buffer.
\<close>

theorem checkpoint_cut:
  assumes "context_complete c" and "dpu_checkpoint_serialize c None = Ret (bytes, nbytes)" and "n < unat nbytes"
  shows "fst (dpu_checkpoint_deserialize (bytes @ others) (of_nat n) c0) = Fail DPU_ERR_ELF_INVALID_FILE
    \<and> fst (dpu_checkpoint_deserialize (take n bytes) (of_nat n) c0) = Abort"
proof -
  have bytes: "bytes = concat (map snd (serialized_elems c))" "unat nbytes = length bytes"
    using assms(2) serialize_complete [OF assms(1)] serialized_size [OF assms(1)] by simp_all
  have "n < 2 ^ 32" using assms(3) by (rule order.strict_trans) (rule order_less_le_trans [OF unsigned_less], simp)
  then have n: "unat (of_nat n :: u32) = n" by (simp add: unat_of_nat)
  have "n < length (concat (map snd (serialized_elems c)))" using assms(3) bytes by simp
  from cutD [OF deserialize_cut [OF assms(1)] this, of others c0] show ?thesis
    unfolding dpu_checkpoint_deserialize_def n bytes(1) .
qed

text \<open>The context of a DPU with one thread, whose WRAM was saved and whose IRAM was not.\<close>

definition sample_checkpoint :: checkpoint_context where
  "sample_checkpoint = \<lparr>
     registers = [1, 2], pcs = [7], atomic_register = [True, False, True], zero_flags = [True], carry_flags = [False],
     nr_of_running_threads = 1, scheduling = [0], bkp_fault = True, dma_fault = False, mem_fault = False,
     bkp_fault_thread_index = 0, dma_fault_thread_index = 0, mem_fault_thread_index = 0, bkp_fault_id = 0x12345,
     info_nr_threads = 1, info_nr_registers = 2, info_nr_atomic_bits = 3,
     info_iram_size = 4096, info_mram_size = 0, info_wram_size = 2,
     ctx_iram = None, ctx_mram = None, ctx_wram = Some [0xDEADBEEF, 5]\<rparr>"

lemma sample_checkpoint_complete: "context_complete sample_checkpoint"
  by (simp add: context_complete_def sample_checkpoint_def serialized_elems_def format_simps array_bytes_def
      iram_byte_size_def mram_byte_size_def wram_byte_size_def)

theorem checkpoint_round_trip_witness:
  "\<exists>bytes nbytes. dpu_checkpoint_serialize sample_checkpoint None = Ret (bytes, nbytes)
    \<and> (\<forall>c0. dpu_checkpoint_deserialize bytes nbytes c0 = (Ret (), sample_checkpoint\<lparr>info_iram_size := 0\<rparr>))"
proof -
  have "restored sample_checkpoint = sample_checkpoint\<lparr>info_iram_size := 0\<rparr>"
    by (simp add: restored_def sample_checkpoint_def)
  with checkpoint_round_trip [OF sample_checkpoint_complete] show ?thesis by auto
qed

theorem checkpoint_cut_witness:
  "\<exists>bytes. fst (dpu_checkpoint_deserialize (take 41 bytes) (of_nat 41) sample_checkpoint) = Abort"
proof -
  obtain bytes nbytes where run: "dpu_checkpoint_serialize sample_checkpoint None = Ret (bytes, nbytes)"
    and len: "length bytes = unat nbytes"
    using serialize_complete [OF sample_checkpoint_complete] serialized_size [OF sample_checkpoint_complete] by auto
  have "nbytes = dpu_checkpoint_get_serialized_context_size sample_checkpoint"
    using run serialize_complete [OF sample_checkpoint_complete] by simp
  then have "41 < unat nbytes"
    by (simp add: dpu_checkpoint_get_serialized_context_size_def sample_checkpoint_def iram_byte_size_def mram_byte_size_def
        wram_byte_size_def)
  from checkpoint_cut [OF sample_checkpoint_complete run this] show ?thesis by blast
qed

end
