(* ===== verification/Xeon_Sp.thy ===== *)
theory Xeon_Sp
  imports Rank_State Bytes
begin

text \<open>
  The mapping of a rank into the memory of the host (\<^verbatim>\<open>hw/src/mappings/xeon_sp/xeon_sp_translation.c\<close>):
  the 8x8 byte transposition in its plain and vectorised forms, the address of an MRAM word, the
  transfers of a matrix, the scattered buffers, the shares of the threads and the pools.

  Vector registers are lists of bytes, lane 0 first, and an intrinsic is the function on them that its
  documentation gives; fences, cache flushes and non-temporal hints have no effect on values. The
  mapped region is a function from the offset to the byte at it.
\<close>

section \<open>Vector instructions\<close>

definition lane32 :: "u8 list \<Rightarrow> nat \<Rightarrow> u8 list" where
  "lane32 v i = take 4 (drop (4 * i) v)"

text \<open>\<open>_mm_set_epi8\<close> lists the bytes from the most significant one down; so do the \<open>set\<close> of wider elements.\<close>

definition mm_set_epi8 :: "u8 list \<Rightarrow> u8 list" where
  "mm_set_epi8 es = rev es"

definition mm_set_epi64 :: "u64 list \<Rightarrow> u8 list" where
  "mm_set_epi64 es = array_bytes bytes_of_word (rev es)"

definition mm_shuffle_ps :: "u8 list \<Rightarrow> u8 list \<Rightarrow> nat \<Rightarrow> u8 list" where
  "mm_shuffle_ps a b imm =
     lane32 a (imm mod 4) @ lane32 a (imm div 4 mod 4) @ lane32 b (imm div 16 mod 4) @ lane32 b (imm div 64 mod 4)"

definition mm_blend_ps :: "u8 list \<Rightarrow> u8 list \<Rightarrow> nat \<Rightarrow> u8 list" where
  "mm_blend_ps a b imm = concat (map (\<lambda>i. if odd (imm div 2 ^ i) then lane32 b i else lane32 a i) [0..<4])"

text \<open>\<open>_mm_shuffle_epi8\<close> and its wider forms, which work on each 128 bits.\<close>

definition mm_shuffle_epi8 :: "u8 list \<Rightarrow> u8 list \<Rightarrow> u8 list" where
  "mm_shuffle_epi8 a m =
     map (\<lambda>i. if 128 \<le> m ! i then 0 else a ! (16 * (i div 16) + unat (m ! i) mod 16)) [0..<length m]"

definition mm_i32gather_epi32 :: "u8 list \<Rightarrow> nat list \<Rightarrow> u8 list" where
  "mm_i32gather_epi32 base vindex = concat (map (\<lambda>v. take 4 (drop v base)) vindex)"

definition mm_permutevar_epi32 :: "u8 list \<Rightarrow> nat list \<Rightarrow> u8 list" where
  "mm_permutevar_epi32 a idx = concat (map (lane32 a) idx)"

definition mm512_permutexvar_epi8 :: "u8 list \<Rightarrow> u8 list \<Rightarrow> u8 list" where
  "mm512_permutexvar_epi8 idx a = map (\<lambda>m. a ! (unat m mod 64)) idx"

section \<open>The transposition\<close>

definition NB_REAL_CIS :: nat where "NB_REAL_CIS = 8"
definition NB_ELEM_MATRIX :: nat where "NB_ELEM_MATRIX = 8"

definition byte_interleave :: "u8 list \<Rightarrow> u8 list \<Rightarrow> u8 list" where
  "byte_interleave input output =
     fold (\<lambda>i output. fold (\<lambda>j output. output[8 * i + j := input ! (8 * j + i)]) [0..<8] output) [0..<NB_ELEM_MATRIX] output"

definition byte_interleave_sse4_1 :: "u8 list \<Rightarrow> u8 list" where
  "byte_interleave_sse4_1 input =
     (let pshufbcnst_0 = mm_set_epi8 [15, 7, 11, 3, 13, 5, 9, 1, 14, 6, 10, 2, 12, 4, 8, 0];
          pshufbcnst_1 = mm_set_epi8 [13, 5, 9, 1, 15, 7, 11, 3, 12, 4, 8, 0, 14, 6, 10, 2];
          pshufbcnst_2 = mm_set_epi8 [11, 3, 15, 7, 9, 1, 13, 5, 10, 2, 14, 6, 8, 0, 12, 4];
          pshufbcnst_3 = mm_set_epi8 [9, 1, 13, 5, 11, 3, 15, 7, 8, 0, 12, 4, 10, 2, 14, 6];
          B0 = take 16 (drop 0 input); B1 = take 16 (drop 16 input);
          B2 = take 16 (drop 32 input); B3 = take 16 (drop 48 input);
          B1 = mm_shuffle_ps B1 B1 0b10110001;
          B3 = mm_shuffle_ps B3 B3 0b10110001;
          T0 = mm_blend_ps B0 B1 0b1010; T1 = mm_blend_ps B2 B3 0b1010;
          T2 = mm_blend_ps B0 B1 0b0101; T3 = mm_blend_ps B2 B3 0b0101;
          B0 = mm_shuffle_epi8 T0 pshufbcnst_0; B1 = mm_shuffle_epi8 T1 pshufbcnst_1;
          B2 = mm_shuffle_epi8 T2 pshufbcnst_2; B3 = mm_shuffle_epi8 T3 pshufbcnst_3;
          T0 = mm_blend_ps B0 B1 0b1010; T1 = mm_blend_ps B0 B1 0b0101;
          T2 = mm_blend_ps B2 B3 0b1010; T3 = mm_blend_ps B2 B3 0b0101;
          T1 = mm_shuffle_ps T1 T1 0b10110001;
          T3 = mm_shuffle_ps T3 T3 0b10110001
      in T0 @ T1 @ T2 @ T3)"

definition byte_interleave_avx2 :: "u8 list \<Rightarrow> u8 list" where
  "byte_interleave_avx2 input =
     (let tm = mm_set_epi8 [15, 11, 7, 3, 14, 10, 6, 2, 13, 9, 5, 1, 12, 8, 4, 0,
                            15, 11, 7, 3, 14, 10, 6, 2, 13, 9, 5, 1, 12, 8, 4, 0];
          vindex = [0, 8, 16, 24, 32, 40, 48, 56];
          perm = [0, 4, 1, 5, 2, 6, 3, 7];
          load0 = mm_i32gather_epi32 input vindex;
          load1 = mm_i32gather_epi32 (drop 4 input) vindex;
          transpose0 = mm_shuffle_epi8 load0 tm;
          transpose1 = mm_shuffle_epi8 load1 tm
      in mm_permutevar_epi32 transpose0 perm @ mm_permutevar_epi32 transpose1 perm)"

definition byte_interleave_avx512 :: "u8 list \<Rightarrow> u8 list" where
  "byte_interleave_avx512 input =
     (let mask = mm_set_epi64 [0x0f0b07030e0a0602, 0x0d0905010c080400, 0x0f0b07030e0a0602, 0x0d0905010c080400,
                               0x0f0b07030e0a0602, 0x0d0905010c080400, 0x0f0b07030e0a0602, 0x0d0905010c080400];
          vindex = [0, 8, 16, 24, 32, 40, 48, 56, 4, 12, 20, 28, 36, 44, 52, 60];
          perm = [0, 4, 1, 5, 2, 6, 3, 7, 8, 12, 9, 13, 10, 14, 11, 15];
          load = mm_i32gather_epi32 input vindex;
          transpose = mm_shuffle_epi8 load mask
      in mm_permutevar_epi32 transpose perm)"

text \<open>Compiled where the compiler has the VBMI extension only.\<close>

definition byte_interleave_avx512vbmi :: "u8 list \<Rightarrow> u8 list" where
  "byte_interleave_avx512vbmi src =
     (let trans8x8shuf = mm_set_epi64 [0x0f0b07030e0a0602, 0x0d0905010c080400, 0x0f0b07030e0a0602, 0x0d0905010c080400,
                               0x0f0b07030e0a0602, 0x0d0905010c080400, 0x0f0b07030e0a0602, 0x0d0905010c080400]
      in mm512_permutexvar_epi8 trans8x8shuf src)"

section \<open>Blocks of the control interfaces\<close>

definition load_bytes :: "nat \<Rightarrow> nat \<Rightarrow> (nat \<Rightarrow> u8) \<Rightarrow> u8 list" where
  "load_bytes p n mem = map (\<lambda>k. mem (p + k)) [0..<n]"

definition store_bytes :: "nat \<Rightarrow> u8 list \<Rightarrow> (nat \<Rightarrow> u8) \<Rightarrow> nat \<Rightarrow> u8" where
  "store_bytes p bs mem = (\<lambda>a. if p \<le> a \<and> a < p + length bs then bs ! (a - p) else mem a)"

definition write_block_sse4_1 :: "nat \<Rightarrow> u64 list \<Rightarrow> (nat \<Rightarrow> u8) \<Rightarrow> nat \<Rightarrow> u8" where
  "write_block_sse4_1 ci_address data mem =
     store_bytes (ci_address + 48) (mm_set_epi64 [data ! 6, data ! 7])
     (store_bytes (ci_address + 32) (mm_set_epi64 [data ! 4, data ! 5])
     (store_bytes (ci_address + 16) (mm_set_epi64 [data ! 2, data ! 3])
     (store_bytes ci_address (mm_set_epi64 [data ! 0, data ! 1]) mem)))"

definition write_block_avx512 :: "nat \<Rightarrow> u64 list \<Rightarrow> (nat \<Rightarrow> u8) \<Rightarrow> nat \<Rightarrow> u8" where
  "write_block_avx512 ci_address data mem =
     store_bytes ci_address (mm_set_epi64 [data ! 7, data ! 6, data ! 5, data ! 4, data ! 3, data ! 2, data ! 1, data ! 0]) mem"

definition read_block_avx512 :: "nat \<Rightarrow> (nat \<Rightarrow> u8) \<Rightarrow> u64 list" where
  "read_block_avx512 ci_address mem = bytes_array 8 word_of_bytes (load_bytes ci_address 64 mem)"

text \<open>
  \<open>xeon_sp_write_to_cis\<close> and \<open>xeon_sp_read_from_cis\<close>, with the flag \<open>one_read\<close>. A read sees the
  answers the hardware shows then: \<open>seen k\<close> at the read number \<open>k\<close>.
\<close>

definition xeon_sp_write_to_cis :: "u64 list \<Rightarrow> (nat \<Rightarrow> u8) \<Rightarrow> (nat \<Rightarrow> u8) \<times> bool" where
  "xeon_sp_write_to_cis block_data mem =
     (store_bytes 0x20000 (byte_interleave_avx512 (array_bytes bytes_of_word block_data)) mem, False)"

definition NB_READS :: nat where "NB_READS = 3"

definition xeon_sp_read_from_cis :: "bool \<Rightarrow> (nat \<Rightarrow> nat \<Rightarrow> u8) \<Rightarrow> u64 list \<times> bool" where
  "xeon_sp_read_from_cis one_read seen =
     (let nb_reads = (if one_read then NB_READS - 1 else NB_READS);
          input = fold (\<lambda>i _. load_bytes (0x20000 + 32 * 1024) 64 (seen i)) [0..<nb_reads] (replicate 64 0)
      in (bytes_array 8 word_of_bytes (byte_interleave_avx512 input), True))"

section \<open>The address of an MRAM word\<close>

definition BANK_START :: "nat \<Rightarrow> nat" where
  "BANK_START dpu_id = 0x40000 * (dpu_id mod 4) + (if dpu_id \<ge> 4 then 0x40 else 0)"

definition BANK_OFFSET_NEXT_DATA :: "u64 \<Rightarrow> u64" where "BANK_OFFSET_NEXT_DATA i = i * 16"
definition BANK_CHUNK_SIZE :: u64 where "BANK_CHUNK_SIZE = 0x20000"
definition BANK_NEXT_CHUNK_OFFSET :: u64 where "BANK_NEXT_CHUNK_OFFSET = 0x100000"

definition apply_address_translation_on_mram_offset :: "u32 \<Rightarrow> u32" where
  "apply_address_translation_on_mram_offset byte_offset =
     (let mask_21_to_15 = push_bit 15 (push_bit (21 - 15 + 1) 1 - 1) :: u32;
          mask_21_to_14 = push_bit 14 (push_bit (21 - 14 + 1) 1 - 1) :: u32;
          bits_21_to_15 = drop_bit 15 (byte_offset AND mask_21_to_15);
          bit_14 = drop_bit 14 byte_offset AND 1;
          unchanged_bits = byte_offset AND NOT mask_21_to_14
      in unchanged_bits OR push_bit 14 bits_21_to_15 OR push_bit 21 bit_14)"

text \<open>The offset of the cache line of the word number \<open>i\<close> of a transfer, from the start of the bank.\<close>

definition line_offset :: "nat \<Rightarrow> u32 \<Rightarrow> u64" where
  "line_offset i offset =
     (let mram_64_bit_word_offset = apply_address_translation_on_mram_offset (of_nat i * 8 + offset) div 8;
          next_data = BANK_OFFSET_NEXT_DATA (ucast mram_64_bit_word_offset * 8)
      in next_data mod BANK_CHUNK_SIZE + next_data div BANK_CHUNK_SIZE * BANK_NEXT_CHUNK_OFFSET)"

definition line_address :: "nat \<Rightarrow> nat \<Rightarrow> u32 \<Rightarrow> nat" where
  "line_address dpu_id i offset = BANK_START dpu_id + unat (line_offset i offset)"

section \<open>Scattered buffers\<close>

text \<open>
  \<open>sg_xfer_buffer_iterator\<close>: the number of the current block and the index in it. The blocks are
  those of the buffer with the array \<open>zeros\<close> behind them; the length of a block is that of its list.
\<close>

record sg_iterator =
  it_block :: nat
  it_index :: nat

definition init_sg_xfer_buffer_iterator :: "u8 list list \<Rightarrow> sg_iterator option" where
  "init_sg_xfer_buffer_iterator blocks = (if blocks = [] then None else Some \<lparr>it_block = 0, it_index = 0\<rparr>)"

definition go_to_next_block :: "nat \<Rightarrow> sg_iterator \<Rightarrow> sg_iterator" where
  "go_to_next_block nr_blocks it =
     (if nr_blocks - it_block it = 0 then it\<lparr>it_index := 0\<rparr>
      else \<lparr>it_block = it_block it + 1, it_index = 0\<rparr>)"

text \<open>The place of the next byte, and the iterator behind it.\<close>

definition get_next_byte :: "u8 list list \<Rightarrow> sg_iterator \<Rightarrow> (nat \<times> nat) \<times> sg_iterator" where
  "get_next_byte blocks it =
     (let place = (it_block it, it_index it); it' = it\<lparr>it_index := it_index it + 1\<rparr>
      in if it_index it' = length (blocks ! it_block it)
         then if it_block it \<noteq> length blocks - 1 then (place, go_to_next_block (length blocks - 1) it')
              else (place, it'\<lparr>it_index := 0\<rparr>)
         else (place, it'))"

definition in_block :: "u8 list list \<Rightarrow> nat \<times> nat \<Rightarrow> bool" where
  "in_block blocks place \<longleftrightarrow> fst place < length blocks \<and> snd place < length (blocks ! fst place)"

primrec get_bytes :: "nat \<Rightarrow> u8 list list \<Rightarrow> sg_iterator \<Rightarrow> (u8 list \<times> sg_iterator) option" where
  "get_bytes 0 blocks it = Some ([], it)"
| "get_bytes (Suc n) blocks it =
     (case get_next_byte blocks it of (place, it') \<Rightarrow>
        if in_block blocks place
        then map_option (\<lambda>(bs, it). (blocks ! fst place ! snd place # bs, it)) (get_bytes n blocks it')
        else None)"

definition get_next_eight_bytes :: "u8 list list \<Rightarrow> sg_iterator \<Rightarrow> (u8 list \<times> sg_iterator) option" where
  "get_next_eight_bytes blocks it =
     (let block = blocks ! it_block it
      in if length block > 8 + it_index it
         then Some (take 8 (drop (it_index it) block), it\<lparr>it_index := it_index it + 8\<rparr>)
         else if length block = 8 + it_index it
         then Some (take 8 (drop (it_index it) block), go_to_next_block (length blocks - 1) it)
         else get_bytes 8 blocks it)"

primrec put_bytes :: "u8 list \<Rightarrow> u8 list list \<Rightarrow> sg_iterator \<Rightarrow> (u8 list list \<times> sg_iterator) option" where
  "put_bytes [] blocks it = Some (blocks, it)"
| "put_bytes (b # bs) blocks it =
     (case get_next_byte blocks it of (place, it') \<Rightarrow>
        if in_block blocks place
        then put_bytes bs (blocks[fst place := (blocks ! fst place)[snd place := b]]) it'
        else None)"

definition put_in_block :: "u8 list \<Rightarrow> nat \<Rightarrow> u8 list \<Rightarrow> u8 list" where
  "put_in_block bs k block = take k block @ bs @ drop (k + length bs) block"

definition write_next_eight_bytes :: "u8 list \<Rightarrow> u8 list list \<Rightarrow> sg_iterator \<Rightarrow> (u8 list list \<times> sg_iterator) option" where
  "write_next_eight_bytes in_buffer blocks it =
     (if it_block it = length blocks - 1 then Some (blocks, it)
      else let block = blocks ! it_block it
      in if length block > 8 + it_index it
         then Some (blocks[it_block it := put_in_block in_buffer (it_index it) block], it\<lparr>it_index := it_index it + 8\<rparr>)
         else if length block = 8 + it_index it
         then Some (blocks[it_block it := put_in_block in_buffer (it_index it) block], go_to_next_block (length blocks - 1) it)
         else put_bytes in_buffer blocks it)"

section \<open>Transfers of a matrix\<close>

text \<open>
  What the transfers work on: the mapped region, the host buffers by their address (64-bit words, or
  blocks for a scattered buffer), and the array \<open>zeros\<close> behind the blocks.
\<close>

record xeon_sp_world =
  region :: "nat \<Rightarrow> u8"
  xfer_words :: "u64 \<Rightarrow> nat \<Rightarrow> u64"
  sg_blocks :: "u64 \<Rightarrow> u8 list list"
  zeros :: "u8 list"

definition DPU_DEFAULT_XFER_MATRIX :: nat where "DPU_DEFAULT_XFER_MATRIX = 0"
definition DPU_SG_XFER_MATRIX :: nat where "DPU_SG_XFER_MATRIX = 1"

definition has_buffer :: "dpu_transfer_matrix \<Rightarrow> nat \<Rightarrow> nat \<Rightarrow> bool" where
  "has_buffer m dpu_id ci_id \<longleftrightarrow> tm_ptr m ! (dpu_id * NB_REAL_CIS + ci_id) \<noteq> 0"

definition buffer :: "dpu_transfer_matrix \<Rightarrow> nat \<Rightarrow> nat \<Rightarrow> u64" where
  "buffer m dpu_id ci_id = tm_ptr m ! (dpu_id * NB_REAL_CIS + ci_id)"

definition do_dpu_transfer :: "nat \<Rightarrow> dpu_transfer_matrix \<Rightarrow> nat \<Rightarrow> bool" where
  "do_dpu_transfer nb_cis m dpu_id = list_ex (has_buffer m dpu_id) [0..<nb_cis]"

definition nr_words :: "dpu_transfer_matrix \<Rightarrow> nat" where
  "nr_words m = unat (tm_size m) div 8"

definition put_line :: "nat \<Rightarrow> nat \<Rightarrow> dpu_transfer_matrix \<Rightarrow> u64 list \<Rightarrow> xeon_sp_world \<Rightarrow> xeon_sp_world" where
  "put_line dpu_id i m cache_line w =
     w\<lparr>region := store_bytes (line_address dpu_id i (tm_offset m))
         (byte_interleave_avx512 (array_bytes bytes_of_word cache_line)) (region w)\<rparr>"

text \<open>
  One word of every buffer of a line of DPUs; the entries of \<open>cache_line\<close> for the CIs without a
  buffer keep what they had, and go to the region with the others.
\<close>

definition write_word :: "nat \<Rightarrow> dpu_transfer_matrix \<Rightarrow> nat \<Rightarrow> nat \<Rightarrow> u64 list \<times> xeon_sp_world \<Rightarrow> u64 list \<times> xeon_sp_world" where
  "write_word nb_cis m dpu_id i = (\<lambda>(cache_line, w).
     let cache_line = fold (\<lambda>ci_id cache_line.
           if has_buffer m dpu_id ci_id then cache_line[ci_id := xfer_words w (buffer m dpu_id ci_id) i] else cache_line)
         [0..<nb_cis] cache_line
     in (cache_line, put_line dpu_id i m cache_line w))"

text \<open>The iterators of the buffers of a line; \<open>None\<close> where there is no buffer.\<close>

definition init_iterators :: "nat \<Rightarrow> dpu_transfer_matrix \<Rightarrow> nat \<Rightarrow> xeon_sp_world \<Rightarrow> sg_iterator option list option" where
  "init_iterators nb_cis m dpu_id w =
     (if list_all (\<lambda>ci_id. has_buffer m dpu_id ci_id \<longrightarrow> sg_blocks w (buffer m dpu_id ci_id) \<noteq> []) [0..<nb_cis]
      then Some (map (\<lambda>ci_id. if has_buffer m dpu_id ci_id
             then init_sg_xfer_buffer_iterator (sg_blocks w (buffer m dpu_id ci_id)) else None) [0..<nb_cis])
      else None)"

definition gather_word :: "nat \<Rightarrow> dpu_transfer_matrix \<Rightarrow> nat \<Rightarrow> nat \<Rightarrow> sg_iterator option list \<times> u64 list \<times> xeon_sp_world
    \<Rightarrow> (sg_iterator option list \<times> u64 list \<times> xeon_sp_world) option" where
  "gather_word nb_cis m dpu_id i = (\<lambda>(its, cache_line, w).
     map_option (\<lambda>(its, cache_line). (its, cache_line, put_line dpu_id i m cache_line w))
       (fold (\<lambda>ci_id s. Option.bind s (\<lambda>(its, cache_line).
           case its ! ci_id of None \<Rightarrow> Some (its, cache_line)
           | Some it \<Rightarrow> map_option (\<lambda>(bs, it). (its[ci_id := Some it], cache_line[ci_id := word_of_bytes bs]))
               (get_next_eight_bytes (sg_blocks w (buffer m dpu_id ci_id) @ [zeros w]) it)))
         [0..<nb_cis] (Some (its, cache_line))))"

text \<open>
  A whole line; \<open>None\<close> is a read outside of the blocks.
\<close>

definition write_line :: "nat \<Rightarrow> dpu_transfer_matrix \<Rightarrow> nat \<Rightarrow> u64 list \<times> xeon_sp_world \<Rightarrow> (u64 list \<times> xeon_sp_world) option" where
  "write_line nb_cis m dpu_id = (\<lambda>(cache_line, w).
     if \<not> do_dpu_transfer nb_cis m dpu_id then Some (cache_line, w)
     else if tm_type m = DPU_SG_XFER_MATRIX
     then Option.bind (init_iterators nb_cis m dpu_id w) (\<lambda>its.
          map_option snd (fold (\<lambda>i s. Option.bind s (gather_word nb_cis m dpu_id i)) [0..<nr_words m] (Some (its, cache_line, w))))
     else Some (fold (write_word nb_cis m dpu_id) [0..<nr_words m] (cache_line, w)))"

text \<open>\<open>cache_line\<close> is a local array that is not initialised: its contents are an argument.\<close>

definition threads_write_to_rank :: "nat \<Rightarrow> dpu_transfer_matrix \<Rightarrow> u64 list \<Rightarrow> nat \<Rightarrow> nat \<Rightarrow> xeon_sp_world \<Rightarrow> xeon_sp_world option" where
  "threads_write_to_rank nb_cis m cache_line dpu_id_start dpu_id_stop w =
     (if tm_size m = 0 then Some w
      else map_option snd (fold (\<lambda>dpu_id s. Option.bind s (write_line nb_cis m dpu_id)) [dpu_id_start..<dpu_id_stop]
             (Some (cache_line, w))))"

text \<open>Reading: the line of every word is loaded, transposed and distributed.\<close>

definition get_line :: "nat \<Rightarrow> nat \<Rightarrow> dpu_transfer_matrix \<Rightarrow> xeon_sp_world \<Rightarrow> u8 list" where
  "get_line dpu_id i m w = byte_interleave_avx2 (load_bytes (line_address dpu_id i (tm_offset m)) 64 (region w))"

definition read_word :: "nat \<Rightarrow> dpu_transfer_matrix \<Rightarrow> nat \<Rightarrow> nat \<Rightarrow> xeon_sp_world \<Rightarrow> xeon_sp_world" where
  "read_word nb_cis m dpu_id i w =
     (let cache_line_interleave = get_line dpu_id i m w
      in fold (\<lambda>ci_id w. if has_buffer m dpu_id ci_id
           then w\<lparr>xfer_words := (xfer_words w)(buffer m dpu_id ci_id := (xfer_words w (buffer m dpu_id ci_id))
                  (i := word_of_bytes (take 8 (drop (8 * ci_id) cache_line_interleave))))\<rparr>
           else w) [0..<nb_cis] w)"

definition scatter_word :: "nat \<Rightarrow> dpu_transfer_matrix \<Rightarrow> nat \<Rightarrow> nat \<Rightarrow> sg_iterator option list \<times> xeon_sp_world
    \<Rightarrow> (sg_iterator option list \<times> xeon_sp_world) option" where
  "scatter_word nb_cis m dpu_id i = (\<lambda>(its, w).
     let cache_line_interleave = get_line dpu_id i m w
     in fold (\<lambda>ci_id s. Option.bind s (\<lambda>(its, w).
           case its ! ci_id of None \<Rightarrow> Some (its, w)
           | Some it \<Rightarrow> map_option (\<lambda>(blocks, it). (its[ci_id := Some it],
                 w\<lparr>sg_blocks := (sg_blocks w)(buffer m dpu_id ci_id := butlast blocks), zeros := last blocks\<rparr>))
               (write_next_eight_bytes (take 8 (drop (8 * ci_id) cache_line_interleave))
                  (sg_blocks w (buffer m dpu_id ci_id) @ [zeros w]) it)))
         [0..<nb_cis] (Some (its, w)))"

definition read_line :: "nat \<Rightarrow> dpu_transfer_matrix \<Rightarrow> nat \<Rightarrow> xeon_sp_world \<Rightarrow> xeon_sp_world option" where
  "read_line nb_cis m dpu_id w =
     (if \<not> do_dpu_transfer nb_cis m dpu_id then Some w
      else if tm_type m = DPU_SG_XFER_MATRIX
      then Option.bind (init_iterators nb_cis m dpu_id w) (\<lambda>its.
           map_option snd (fold (\<lambda>i s. Option.bind s (scatter_word nb_cis m dpu_id i)) [0..<nr_words m] (Some (its, w))))
      else Some (fold (read_word nb_cis m dpu_id) [0..<nr_words m] w))"

definition threads_read_from_rank :: "nat \<Rightarrow> dpu_transfer_matrix \<Rightarrow> nat \<Rightarrow> nat \<Rightarrow> xeon_sp_world \<Rightarrow> xeon_sp_world option" where
  "threads_read_from_rank nb_cis m dpu_id_start dpu_id_stop w =
     (if tm_size m = 0 then Some w
      else fold (\<lambda>dpu_id s. Option.bind s (read_line nb_cis m dpu_id)) [dpu_id_start..<dpu_id_stop] (Some w))"

section \<open>The shares of the threads\<close>

record xfer_thread_configuration =
  nb_thread_per_pool :: u32
  threshold_1_thread :: u32
  threshold_2_threads :: u32
  threshold_4_threads :: u32

definition nb_threads_for_xfer :: "xfer_thread_configuration \<Rightarrow> u32 \<Rightarrow> u8" where
  "nb_threads_for_xfer conf size_transfer =
     (if size_transfer < threshold_1_thread conf then 1
      else if size_transfer < threshold_2_threads conf \<and> nb_thread_per_pool conf \<ge> 2 then 2
      else if size_transfer < threshold_4_threads conf \<and> nb_thread_per_pool conf \<ge> 4 then 4
      else ucast (nb_thread_per_pool conf))"

text \<open>The DPUs from \<open>dpu_id_start\<close> to before \<open>dpu_id_stop\<close> of one thread, in \<^verbatim>\<open>uint8_t\<close>.\<close>

definition thread_share :: "u8 \<Rightarrow> u8 \<Rightarrow> u8 \<Rightarrow> (u8 \<times> u8) option" where
  "thread_share nb_dpus_per_ci nb_threads thread_id =
     (if \<not> nb_threads > thread_id then None
      else let nb_dpus_per_thread = nb_dpus_per_ci div nb_threads;
               dpu_id_start = thread_id * nb_dpus_per_thread;
               dpu_id_stop = (if unat thread_id = unat nb_threads - 1 then nb_dpus_per_ci else (thread_id + 1) * nb_dpus_per_thread)
           in Some (dpu_id_start, dpu_id_stop))"

datatype thread_mram_xfer = thread_mram_xfer_read | thread_mram_xfer_write

definition thread_do_mram_xfer :: "thread_mram_xfer \<Rightarrow> nat \<Rightarrow> u8 \<Rightarrow> u8 \<Rightarrow> dpu_transfer_matrix \<Rightarrow> (u8 \<Rightarrow> u64 list) \<Rightarrow> u8
    \<Rightarrow> xeon_sp_world \<Rightarrow> xeon_sp_world option" where
  "thread_do_mram_xfer direction nb_cis nb_dpus_per_ci nb_threads m garbage thread_id w =
     (case thread_share nb_dpus_per_ci nb_threads thread_id of
        None \<Rightarrow> Some w
      | Some (dpu_id_start, dpu_id_stop) \<Rightarrow>
          (case direction of
             thread_mram_xfer_read \<Rightarrow> threads_read_from_rank nb_cis m (unat dpu_id_start) (unat dpu_id_stop) w
           | thread_mram_xfer_write \<Rightarrow>
               threads_write_to_rank nb_cis m (garbage thread_id) (unat dpu_id_start) (unat dpu_id_stop) w))"

text \<open>
  A transfer: between the two barriers every thread of the pool does its share, here one after the
  other in any order.
\<close>

definition xeon_sp_do_xfer :: "thread_mram_xfer \<Rightarrow> xfer_thread_configuration \<Rightarrow> nat \<Rightarrow> u8 \<Rightarrow> dpu_transfer_matrix
    \<Rightarrow> (u8 \<Rightarrow> u64 list) \<Rightarrow> u8 list \<Rightarrow> xeon_sp_world \<Rightarrow> xeon_sp_world option" where
  "xeon_sp_do_xfer direction conf nb_cis nb_dpus_per_ci m garbage order w =
     fold (\<lambda>thread_id s. Option.bind s
        (thread_do_mram_xfer direction nb_cis nb_dpus_per_ci (nb_threads_for_xfer conf (tm_size m)) m garbage thread_id))
       order (Some w)"

section \<open>Pools\<close>

definition MAX_THREAD_PER_POOL :: u32 where "MAX_THREAD_PER_POOL = 8"
definition MAX_NB_POOL :: nat where "MAX_NB_POOL = 31"
definition MAX_NB_CHANNEL :: nat where "MAX_NB_CHANNEL = MAX_NB_POOL"
definition DPU_XFER_THREAD_CONF_DEFAULT :: u32 where "DPU_XFER_THREAD_CONF_DEFAULT = 0xFFFFFFFF"

definition default_xfer_thread_configuration :: xfer_thread_configuration where
  "default_xfer_thread_configuration = \<lparr>nb_thread_per_pool = 4, threshold_1_thread = 1024,
     threshold_2_threads = 2048, threshold_4_threads = 32 * 1024\<rparr>"

definition xeon_sp_set_configuration :: "xfer_thread_configuration \<Rightarrow> xfer_thread_configuration" where
  "xeon_sp_set_configuration conf =
     (let d = default_xfer_thread_configuration in
      \<lparr>nb_thread_per_pool =
         (if nb_thread_per_pool conf = DPU_XFER_THREAD_CONF_DEFAULT then nb_thread_per_pool d
          else if nb_thread_per_pool conf > MAX_THREAD_PER_POOL then MAX_THREAD_PER_POOL
          else nb_thread_per_pool conf),
       threshold_1_thread = (if threshold_1_thread conf = DPU_XFER_THREAD_CONF_DEFAULT then threshold_1_thread d else threshold_1_thread conf),
       threshold_2_threads = (if threshold_2_threads conf = DPU_XFER_THREAD_CONF_DEFAULT then threshold_2_threads d else threshold_2_threads conf),
       threshold_4_threads = (if threshold_4_threads conf = DPU_XFER_THREAD_CONF_DEFAULT then threshold_4_threads d else threshold_4_threads conf)\<rparr>)"

definition channel_id_to_pool_id :: "nat \<Rightarrow> nat" where
  "channel_id_to_pool_id channel_id = (if channel_id = 0xFF then MAX_NB_CHANNEL - 1 else channel_id)"

text \<open>The mutex that \<open>xeon_sp_acquire_pool\<close> takes and \<open>xeon_sp_release_pool\<close> gives back, and the pool behind it.\<close>

definition mutex_of_channel :: "nat \<Rightarrow> nat" where
  "mutex_of_channel channel_id = (if channel_id < MAX_NB_CHANNEL then channel_id else MAX_NB_CHANNEL - 1)"

text \<open>
  The counters \<open>nb_region_per_channel\<close>, and the pools whose threads run, with their number of threads.
  The creation of barriers and threads succeeds; an index outside of the arrays aborts.
\<close>

record xeon_sp_ctx =
  nb_region_per_channel :: "u32 list"
  pool_threads :: "u32 option list"

definition init_channel_id :: "nat \<Rightarrow> nat" where
  "init_channel_id channel_id = (if channel_id > MAX_NB_CHANNEL then MAX_NB_CHANNEL - 1 else channel_id)"

definition xeon_sp_init_rank :: "xfer_thread_configuration \<Rightarrow> nat \<Rightarrow> (xeon_sp_ctx, xfer_thread_configuration) op" where
  "xeon_sp_init_rank conf channel_id = (\<lambda>s.
     let conf = xeon_sp_set_configuration conf; channel_id = init_channel_id channel_id
     in if length (nb_region_per_channel s) \<le> channel_id then (Abort, s)
        else let nb = nb_region_per_channel s ! channel_id;
                 s = s\<lparr>nb_region_per_channel := (nb_region_per_channel s)[channel_id := nb + 1]\<rparr>
             in if nb > 0 then ok conf s
                else ok conf (s\<lparr>pool_threads := (pool_threads s)[channel_id_to_pool_id channel_id := Some (nb_thread_per_pool conf)]\<rparr>))"

definition xeon_sp_destroy_rank :: "nat \<Rightarrow> (xeon_sp_ctx, unit) op" where
  "xeon_sp_destroy_rank channel_id = (\<lambda>s.
     let channel_id = init_channel_id channel_id
     in if length (nb_region_per_channel s) \<le> channel_id then (Abort, s)
        else let nb = nb_region_per_channel s ! channel_id - 1;
                 s = s\<lparr>nb_region_per_channel := (nb_region_per_channel s)[channel_id := nb]\<rparr>
             in if nb \<noteq> 0 then ok () s
                else ok () (s\<lparr>pool_threads := (pool_threads s)[channel_id_to_pool_id channel_id := None]\<rparr>))"

end
