(* ===== verification/Xeon_Interleave.thy ===== *)
theory Xeon_Interleave
  imports Xeon_Sp
begin

text \<open>
  The vectorised transpositions of an 8x8 byte matrix are the reference \<open>byte_interleave\<close>.
\<close>

section \<open>Vectors picked from the input\<close>

text \<open>
  A vector that is picked from the input: entry \<open>k\<close> is the byte \<open>g k\<close> of it. Every instruction
  maps a picked vector to a picked vector, so that an equation of vectors is one of indices.
\<close>

definition picked :: "u8 list \<Rightarrow> nat \<Rightarrow> (nat \<Rightarrow> nat) \<Rightarrow> u8 list" where
  "picked xs n g = map (\<lambda>k. xs ! g k) [0..<n]"

lemma picked_cong: "list_all (\<lambda>k. g k = h k) [0..<n] \<Longrightarrow> picked xs n g = picked xs n h"
  by (simp add: picked_def list_all_iff)

lemma upt64: "[0..<64] = [0, 1, 2, 3, 4, 5, 6, 7, 8, 9, 10, 11, 12, 13, 14, 15, 16, 17, 18, 19, 20, 21, 22, 23, 24, 25, 26, 27, 28, 29, 30, 31,
  32, 33, 34, 35, 36, 37, 38, 39, 40, 41, 42, 43, 44, 45, 46, 47, 48, 49, 50, 51, 52, 53, 54, 55, 56, 57, 58, 59, 60, 61, 62, 63]"
  by (simp add: upt_rec)

lemma length_picked: "length (picked xs n g) = n"
  by (simp add: picked_def)

lemma nth_picked: "k < n \<Longrightarrow> picked xs n g ! k = xs ! g k"
  by (simp add: picked_def)

lemmas picked_simps = length_picked nth_picked

lemma picked_self: "length xs = n \<Longrightarrow> picked xs n (\<lambda>k. k) = xs"
  by (intro nth_equalityI) (simp_all add: picked_simps)

lemma drop_picked: "drop m (picked xs n g) = picked xs (n - m) (\<lambda>j. g (m + j))"
  by (rule nth_equalityI) (simp_all add: picked_simps)

lemma take_drop_picked: "m + k \<le> n \<Longrightarrow> take k (drop m (picked xs n g)) = picked xs k (\<lambda>j. g (m + j))"
  by (rule nth_equalityI) (simp_all add: picked_simps)

lemma take_picked: "k \<le> n \<Longrightarrow> take k (picked xs n g) = picked xs k g"
  using take_drop_picked [of 0 k n xs g] by simp

lemma append_picked: "picked xs n g @ picked xs m h = picked xs (n + m) (\<lambda>k. if k < n then g k else h (k - n))"
  by (rule nth_equalityI) (simp_all add: picked_simps nth_append)

lemma lane_picked: "4 * i + 4 \<le> n \<Longrightarrow> lane32 (picked xs n g) i = picked xs 4 (\<lambda>j. g (4 * i + j))"
  by (simp add: lane32_def take_drop_picked)

lemma concat_picked: "concat (map (\<lambda>i. picked xs 4 (h i)) is) = picked xs (4 * length is) (\<lambda>k. h (is ! (k div 4)) (k mod 4))"
proof (induction "is" rule: rev_induct)
  case (snoc i "is")
  have "picked xs (4 * length is) (\<lambda>k. h (is ! (k div 4)) (k mod 4)) @ picked xs 4 (h i)
    = picked xs (4 * length is + 4) (\<lambda>k. h ((is @ [i]) ! (k div 4)) (k mod 4))"
    unfolding append_picked
  proof (rule picked_cong, unfold list_all_iff, intro ballI)
    fix k assume "k \<in> set [0..<4 * length is + 4]"
    then have k: "k < 4 * length is + 4" by simp
    show "(if k < 4 * length is then h (is ! (k div 4)) (k mod 4) else h i (k - 4 * length is)) = h ((is @ [i]) ! (k div 4)) (k mod 4)"
    proof (cases "k < 4 * length is")
      case True
      then have "k div 4 < length is" by (simp add: div_less_iff_less_mult ac_simps)
      then show ?thesis using True by (simp add: nth_append)
    next
      case False
      then obtain j where j: "k = 4 * length is + j" by (metis le_Suc_ex not_less)
      then have "j < 4" using k by simp
      then show ?thesis using j by simp
    qed
  qed
  then show ?case by (simp add: snoc.IH add.commute)
qed (simp add: picked_def)

lemma gather_picked:
  "list_all (\<lambda>v. v + 4 \<le> n) vindex \<Longrightarrow>
    mm_i32gather_epi32 (picked xs n g) vindex = picked xs (4 * length vindex) (\<lambda>k. g (vindex ! (k div 4) + k mod 4))"
proof -
  assume *: "list_all (\<lambda>v. v + 4 \<le> n) vindex"
  have "map (\<lambda>v. take 4 (drop v (picked xs n g))) vindex = map (\<lambda>v. picked xs 4 (\<lambda>j. g (v + j))) vindex"
    using * by (auto simp: list_all_iff take_drop_picked)
  then show ?thesis unfolding mm_i32gather_epi32_def by (simp only: concat_picked)
qed

lemma permute_picked:
  "4 * length idx = l \<Longrightarrow> list_all (\<lambda>i. 4 * i + 4 \<le> n) idx \<Longrightarrow>
    mm_permutevar_epi32 (picked xs n g) idx = picked xs l (\<lambda>k. g (4 * (idx ! (k div 4)) + k mod 4))"
proof -
  assume l: "4 * length idx = l" and *: "list_all (\<lambda>i. 4 * i + 4 \<le> n) idx"
  have "map (lane32 (picked xs n g)) idx = map (\<lambda>i. picked xs 4 (\<lambda>j. g (4 * i + j))) idx"
    using * by (auto simp: list_all_iff lane_picked)
  then show ?thesis unfolding mm_permutevar_epi32_def by (simp only: concat_picked l)
qed

lemma shuffle_picked:
  assumes "length m = l" and "16 dvd l" and "l \<le> n" and "list_all (\<lambda>b. b < 128) m"
  shows "mm_shuffle_epi8 (picked xs n g) m = picked xs l (\<lambda>i. g (16 * (i div 16) + unat (m ! i) mod 16))"
proof -
  have "16 * (i div 16) + unat (m ! i) mod 16 < n \<and> \<not> 128 \<le> m ! i" if i: "i < l" for i
  proof -
    obtain q where q: "l = 16 * q" using assms(2) by auto
    have "i div 16 < q" using i q by (simp add: div_less_iff_less_mult mult.commute)
    then have "16 * (i div 16) + 16 \<le> n" using q assms(3) by simp
    moreover have "unat (m ! i) mod 16 < 16" by simp
    ultimately show ?thesis using assms(1,4) i by (simp add: not_le list_all_length)
  qed
  then show ?thesis using assms(1)
    by (intro nth_equalityI) (auto simp: mm_shuffle_epi8_def picked_simps)
qed

lemma shuffle_ps_picked:
  "mm_shuffle_ps (picked xs 16 g) (picked xs 16 g) imm
    = picked xs 16 (\<lambda>k. g (4 * ([imm mod 4, imm div 4 mod 4, imm div 16 mod 4, imm div 64 mod 4] ! (k div 4)) + k mod 4))"
proof -
  have "mm_shuffle_ps (picked xs 16 g) (picked xs 16 g) imm
    = mm_permutevar_epi32 (picked xs 16 g) [imm mod 4, imm div 4 mod 4, imm div 16 mod 4, imm div 64 mod 4]"
    by (simp add: mm_shuffle_ps_def mm_permutevar_epi32_def)
  also have "\<dots> = picked xs 16 (\<lambda>k. g (4 * ([imm mod 4, imm div 4 mod 4, imm div 16 mod 4, imm div 64 mod 4] ! (k div 4)) + k mod 4))"
  proof (subst permute_picked [where l = 16])
    have "x mod 4 \<le> 3" for x :: nat by presburger
    then show "list_all (\<lambda>i. 4 * i + 4 \<le> 16) [imm mod 4, imm div 4 mod 4, imm div 16 mod 4, imm div 64 mod 4]" by simp
  qed simp_all
  finally show ?thesis .
qed

lemma blend_picked:
  "mm_blend_ps (picked xs 16 g) (picked xs 16 h) imm = picked xs 16 (\<lambda>k. if odd (imm div 2 ^ (k div 4)) then h k else g k)"
proof -
  have "map (\<lambda>i. if odd (imm div 2 ^ i) then lane32 (picked xs 16 h) i else lane32 (picked xs 16 g) i) [0..<4]
    = map (\<lambda>i. picked xs 4 (\<lambda>j. if odd (imm div 2 ^ i) then h (4 * i + j) else g (4 * i + j))) [0..<4]"
    by (auto simp: lane_picked)
  then have "mm_blend_ps (picked xs 16 g) (picked xs 16 h) imm
    = picked xs (4 * length [0..<4]) (\<lambda>k. if odd (imm div 2 ^ ([0..<4] ! (k div 4)))
        then h (4 * ([0..<4] ! (k div 4)) + k mod 4) else g (4 * ([0..<4] ! (k div 4)) + k mod 4))"
    unfolding mm_blend_ps_def by (simp only: concat_picked)
  also have "\<dots> = picked xs 16 (\<lambda>k. if odd (imm div 2 ^ (k div 4)) then h k else g k)"
  proof -
    have "k div 4 < 4" if "k < 16" for k :: nat using that by (simp add: div_less_iff_less_mult)
    then show ?thesis by (auto simp: picked_def)
  qed
  finally show ?thesis .
qed

definition transposed :: "nat \<Rightarrow> nat" where
  "transposed k = 8 * (k mod 8) + k div 8"

lemma avx2_transposes:
  assumes "length xs = 64"
  shows "byte_interleave_avx2 xs = picked xs 64 transposed"
proof -
  have "byte_interleave_avx2 (picked xs 64 (\<lambda>k. k)) = picked xs 64 transposed"
    unfolding byte_interleave_avx2_def Let_def drop_picked mm_set_epi8_def
    by (simp add: gather_picked shuffle_picked [where l = 32] permute_picked [where l = 32] append_picked, rule picked_cong, simp add: upt64 transposed_def)
  then show ?thesis using assms by (simp add: picked_self)
qed


text \<open>The index after the gather of the 512-bit version, and that of its shuffle within 128 bits.\<close>

definition gathered :: "nat \<Rightarrow> nat" where
  "gathered k = 8 * (k div 4 mod 8) + 4 * (k div 32) + k mod 4"

definition within_lane :: "nat \<Rightarrow> nat" where
  "within_lane i = 16 * (i div 16) + 4 * (i mod 4) + i mod 16 div 4"

lemma avx512_transposes:
  assumes "length xs = 64"
  shows "byte_interleave_avx512 xs = picked xs 64 transposed"
proof -
  have mask: "mm_set_epi64 [0x0f0b07030e0a0602, 0x0d0905010c080400, 0x0f0b07030e0a0602, 0x0d0905010c080400,
      0x0f0b07030e0a0602, 0x0d0905010c080400, 0x0f0b07030e0a0602, 0x0d0905010c080400]
    = [0, 4, 8, 12, 1, 5, 9, 13, 2, 6, 10, 14, 3, 7, 11, 15, 0, 4, 8, 12, 1, 5, 9, 13, 2, 6, 10, 14, 3, 7, 11, 15,
       0, 4, 8, 12, 1, 5, 9, 13, 2, 6, 10, 14, 3, 7, 11, 15, 0, 4, 8, 12, 1, 5, 9, 13, 2, 6, 10, 14, 3, 7, 11, 15]"
    by code_simp
  let ?mask = "[0, 4, 8, 12, 1, 5, 9, 13, 2, 6, 10, 14, 3, 7, 11, 15, 0, 4, 8, 12, 1, 5, 9, 13, 2, 6, 10, 14, 3, 7, 11, 15,
       0, 4, 8, 12, 1, 5, 9, 13, 2, 6, 10, 14, 3, 7, 11, 15, 0, 4, 8, 12, 1, 5, 9, 13, 2, 6, 10, 14, 3, 7, 11, 15] :: u8 list"
  have load: "mm_i32gather_epi32 (picked xs 64 (\<lambda>k. k)) [0, 8, 16, 24, 32, 40, 48, 56, 4, 12, 20, 28, 36, 44, 52, 60] = picked xs 64 gathered"
    by (simp add: gather_picked, rule picked_cong, simp add: upt64 gathered_def)
  have picks: "list_all (\<lambda>i. 16 * (i div 16) + unat (?mask ! i) mod 16 = within_lane i) [0..<64]" by (simp add: upt64 within_lane_def)
  have transpose: "mm_shuffle_epi8 (picked xs 64 gathered) ?mask = picked xs 64 (\<lambda>i. gathered (within_lane i))"
    by (subst shuffle_picked [where l = 64]) (simp, simp, simp, simp, rule picked_cong, use picks in \<open>simp add: list_all_iff\<close>)
  have "byte_interleave_avx512 (picked xs 64 (\<lambda>k. k)) = picked xs 64 transposed"
    unfolding byte_interleave_avx512_def Let_def mask load transpose
    by (subst permute_picked [where l = 64], simp, simp, rule picked_cong, simp add: upt64 gathered_def within_lane_def transposed_def)
  then show ?thesis using assms by (simp add: picked_self)
qed

lemma sse_transposes:
  assumes "length xs = 64"
  shows "byte_interleave_sse4_1 xs = picked xs 64 transposed"
proof -
  have "byte_interleave_sse4_1 (picked xs 64 (\<lambda>k. k)) = picked xs 64 transposed"
    unfolding byte_interleave_sse4_1_def Let_def mm_set_epi8_def
    by (simp add: take_picked take_drop_picked shuffle_picked [where l = 16] shuffle_ps_picked blend_picked append_picked,
        rule picked_cong, simp add: upt64 transposed_def)
  then show ?thesis using assms by (simp add: picked_self)
qed


lemma fold_fold: "fold (\<lambda>i. fold g (h i)) is s = fold g (concat (map h is)) s"
  by (induction "is" arbitrary: s) simp_all

lemma fold_updates: "n \<le> length xs \<Longrightarrow> fold (\<lambda>k xs. xs[k := f k]) [0..<n] xs = map f [0..<n] @ drop n xs"
proof (induction n)
  case (Suc n)
  then show ?case by (simp add: list_update_append Cons_nth_drop_Suc [symmetric])
qed simp

lemma reference_transposes:
  assumes "length out = 64"
  shows "byte_interleave xs out = picked xs 64 transposed"
proof -
  have inner: "fold (\<lambda>j out. out[8 * i + j := xs ! (8 * j + i)]) [0..<8] out
      = fold (\<lambda>k out. out[k := xs ! transposed k]) [8 * i..<8 * i + 8] out" for i out
  proof -
    have "[8 * i..<8 * i + 8] = map (\<lambda>j. 8 * i + j) [0..<8]" by (rule nth_equalityI) simp_all
    moreover have "xs ! transposed (8 * i + j) = xs ! (8 * j + i)" if "j < 8" for j
      using that by (simp add: transposed_def)
    ultimately show ?thesis by (auto simp: fold_map intro!: fold_cong)
  qed
  have "concat (map (\<lambda>i. [8 * i..<8 * i + 8]) [0..<8]) = [0..<64]" by (simp add: upt64 upt_rec)
  then have "byte_interleave xs out = fold (\<lambda>k out. out[k := xs ! transposed k]) [0..<64] out"
    unfolding byte_interleave_def inner NB_ELEM_MATRIX_def by (simp only: fold_fold)
  also have "\<dots> = picked xs 64 transposed"
    using assms by (simp only: fold_updates [of 64] order.refl) (simp add: picked_def)
  finally show ?thesis .
qed

lemma transposed_twice: "length xs = 64 \<Longrightarrow> picked (picked xs 64 transposed) 64 transposed = xs"
proof (rule nth_equalityI)
  fix k assume "length xs = 64" "k < length (picked (picked xs 64 transposed) 64 transposed)"
  then have k: "k < 64" by (simp add: picked_simps)
  then have "k div 8 < 8" by (simp add: div_less_iff_less_mult)
  then have "transposed k < 64" "transposed (transposed k) = k" by (simp_all add: transposed_def)
  with k show "picked (picked xs 64 transposed) 64 transposed ! k = xs ! k" by (simp add: picked_simps)
qed (simp add: picked_simps)

section \<open>All versions are the reference\<close>

text \<open>
  C16: The SSE4.1, the AVX2 and the AVX-512 transposition compute, on every input of 64 bytes, what the
  double loop of \<open>byte_interleave\<close> leaves in its output, whatever was there before; and transposing
  with one version what another has transposed gives the input back.
\<close>

theorem interleave_equivalence:
  assumes "length xs = 64" and "length out = 64"
  shows "byte_interleave_sse4_1 xs = byte_interleave xs out \<and> byte_interleave_avx2 xs = byte_interleave xs out
    \<and> byte_interleave_avx512 xs = byte_interleave xs out \<and> byte_interleave_avx2 (byte_interleave_avx512 xs) = xs"
  using assms by (simp add: sse_transposes avx2_transposes avx512_transposes reference_transposes picked_simps transposed_twice)

theorem interleave_equivalence_witness:
  "byte_interleave_avx2 (byte_interleave_avx512 (map of_nat [0..<64])) = map of_nat [0..<64]"
proof -
  have "length (map of_nat [0..<64] :: u8 list) = 64" "length (replicate 64 0 :: u8 list) = 64" by simp_all
  from interleave_equivalence [OF this] show ?thesis by blast
qed

text \<open>The VBMI version only looks at the first 16 bytes of its input.\<close>

lemma vbmi_ignores_most:
  assumes "take 16 xs = take 16 ys"
  shows "byte_interleave_avx512vbmi xs = byte_interleave_avx512vbmi ys"
proof -
  have "xs ! k = ys ! k" if "k < 16" for k
    using assms that by (metis nth_take)
  moreover have "list_all (\<lambda>m. unat m mod 64 < 16) (mm_set_epi64 [0x0f0b07030e0a0602, 0x0d0905010c080400, 0x0f0b07030e0a0602,
      0x0d0905010c080400, 0x0f0b07030e0a0602, 0x0d0905010c080400, 0x0f0b07030e0a0602, 0x0d0905010c080400])"
    by code_simp
  ultimately show ?thesis
    by (auto simp: byte_interleave_avx512vbmi_def mm512_permutexvar_epi8_def list_all_iff)
qed

text \<open>The SSE4.1 version of the block write swaps the words of every pair.\<close>

lemma sse_block_swapped:
  "length data = 8 \<Longrightarrow> mm_set_epi64 [data ! 0, data ! 1] = bytes_of_word (data ! 1) @ bytes_of_word (data ! 0)"
  by (simp add: mm_set_epi64_def array_bytes_def)

end
