(* ===== verification/Xeon_Transfer.thy ===== *)
theory Xeon_Transfer
  imports Xeon_Interleave
begin

text \<open>
  What a transfer does to the mapped region: the address of a word, the words of the MRAMs as the
  region shows them, writing and reading a matrix by the threads of a pool.
\<close>

section \<open>The address translation\<close>

lemma bit_translated:
  assumes "n < 32"
  shows "bit (apply_address_translation_on_mram_offset x) n
    \<longleftrightarrow> (if n < 14 \<or> 22 \<le> n then bit x n else if n = 21 then bit x 14 else bit x (n + 1))"
proof -
  have mask: "push_bit m (push_bit k 1 - 1) = push_bit m (mask k :: u32)" for m k
    by (simp add: mask_eq_decr_exp push_bit_eq_mult)
  show ?thesis using assms
    unfolding apply_address_translation_on_mram_offset_def Let_def mask
    unfolding bit_or_iff bit_and_iff bit_not_iff bit_push_bit_iff bit_drop_bit_eq bit_mask_iff bit_1_iff
    by (auto simp: possible_bit_word)
qed

lemma translated_inj:
  assumes "apply_address_translation_on_mram_offset x = apply_address_translation_on_mram_offset y"
  shows "x = y"
proof (rule bit_word_eqI)
  fix n assume n: "n < LENGTH(32)"
  let ?m = "if n < 14 \<or> 22 \<le> n then n else if n = 14 then 21 else n - 1"
  have "?m < 32" using n by auto
  from bit_translated [OF this, of x] bit_translated [OF this, of y] show "bit x n = bit y n"
    using assms by (auto split: if_splits)
qed

text \<open>Within the 64 MB of a bank: words stay words, and addresses stay in the bank.\<close>

lemma translated_aligned: "8 dvd unat x \<Longrightarrow> 8 dvd unat (apply_address_translation_on_mram_offset x)"
proof -
  have dvd: "8 dvd unat w \<longleftrightarrow> (\<forall>n < 3. \<not> bit w n)" for w :: u32
  proof -
    have "8 dvd unat w \<longleftrightarrow> take_bit 3 (unat w) = 0" by (simp add: take_bit_eq_mod dvd_eq_mod_eq_0)
    also have "\<dots> \<longleftrightarrow> (\<forall>n < 3. \<not> bit (unat w) n)" by (auto simp: bit_eq_iff bit_take_bit_iff)
    finally show ?thesis by (simp add: bit_unat_iff)
  qed
  show "8 dvd unat x \<Longrightarrow> 8 dvd unat (apply_address_translation_on_mram_offset x)"
    unfolding dvd by (simp add: bit_translated)
qed

section \<open>Cache lines\<close>

text \<open>The number of the cache line in which a word of the bank of a DPU is.\<close>

definition line_number :: "nat \<Rightarrow> u32 \<Rightarrow> nat" where
  "line_number dpu_id a =
     (let w = unat (apply_address_translation_on_mram_offset a) div 8
      in 2 * (w mod 1024) + dpu_id div 4 + 4096 * (dpu_id mod 4) + 16384 * (w div 1024))"

lemma unat_small64: "m < 2 ^ 64 \<Longrightarrow> unat (of_nat m :: u64) = m"
  by (simp add: unat_of_nat)

lemma line_address_number:
  assumes "dpu_id < 8"
  shows "line_address dpu_id i offset = 64 * line_number dpu_id (of_nat i * 8 + offset)"
proof -
  let ?t = "apply_address_translation_on_mram_offset (of_nat i * 8 + offset)"
  define w where "w = unat ?t div 8"
  have "unat ?t < 2 ^ 32" by (rule order_less_le_trans [OF unsigned_less]) simp
  then have w: "w < 2 ^ 29" by (simp add: w_def less_mult_imp_div_less)
  have "w = unat (?t div 8)" by (simp add: w_def unat_div)
  then have "ucast (?t div 8) = (of_nat w :: u64)"
    by (intro bit_word_eqI) (simp add: bit_ucast_iff bit_word_of_nat_iff bit_unat_iff possible_bit_word)
  then have next_data: "BANK_OFFSET_NEXT_DATA (ucast (?t div 8) * 8) = of_nat (128 * w)"
    by (simp add: BANK_OFFSET_NEXT_DATA_def)
  have small: "128 * w < 2 ^ 64" using w by simp
  have "line_offset i offset = of_nat ((128 * w) mod 2 ^ 17 + (128 * w) div 2 ^ 17 * 2 ^ 20)"
  proof -
    define v where "v = (of_nat (128 * w) :: u64)"
    have "unat v = 128 * w" unfolding v_def using small by (intro unat_small64) simp
    then have "v mod 0x20000 = of_nat ((128 * w) mod 2 ^ 17)" "v div 0x20000 = of_nat ((128 * w) div 2 ^ 17)"
      using small by (simp_all add: word_unat_eq_iff unat_mod unat_div unat_of_nat)
    note this [unfolded v_def]
    with this show ?thesis
      unfolding line_offset_def Let_def next_data BANK_CHUNK_SIZE_def BANK_NEXT_CHUNK_OFFSET_def by simp
  qed
  moreover have "(128 * w) mod 2 ^ 17 + (128 * w) div 2 ^ 17 * 2 ^ 20 < 2 ^ 64"
    using w by simp
  ultimately have "unat (line_offset i offset) = (128 * w) mod 2 ^ 17 + (128 * w) div 2 ^ 17 * 2 ^ 20"
    by (simp only: unat_small64)
  then have "unat (line_offset i offset) = 128 * (w mod 1024) + w div 1024 * 2 ^ 20"
    using mult_mod_right [of 128 w 1024] by simp
  moreover have "dpu_id div 4 = (if 4 \<le> dpu_id then 1 else 0)"
    using assms by (cases "4 \<le> dpu_id") (auto simp: div_nat_eqI)
  ultimately show ?thesis
    by (simp add: line_address_def line_number_def BANK_START_def Let_def w_def)
qed

lemma line_number_inj:
  assumes "d < 8" "d' < 8" "line_number d a = line_number d' b" "8 dvd unat a" "8 dvd unat b"
  shows "d = d' \<and> a = b"
proof -
  let ?t = "unat (apply_address_translation_on_mram_offset a)" and ?t' = "unat (apply_address_translation_on_mram_offset b)"
  define w w' where "w = ?t div 8" and "w' = ?t' div 8"
  have eq: "2 * (w mod 1024) + d div 4 + 4096 * (d mod 4) + 16384 * (w div 1024)
      = 2 * (w' mod 1024) + d' div 4 + 4096 * (d' mod 4) + 16384 * (w' div 1024)"
    using assms(3) by (simp add: line_number_def Let_def w_def w'_def)
  have bound: "w mod 1024 < 1024" "w' mod 1024 < 1024" "d mod 4 < 4" "d' mod 4 < 4" "d div 4 < 2" "d' div 4 < 2"
    using assms(1,2) by auto
  have "w div 1024 = w' div 1024"
    using eq bound by (cases "w div 1024" "w' div 1024" rule: linorder_cases) linarith+
  moreover from this have "d mod 4 = d' mod 4"
    using eq bound by (cases "d mod 4" "d' mod 4" rule: linorder_cases) linarith+
  moreover from calculation have "w mod 1024 = w' mod 1024"
    using eq bound by (cases "w mod 1024" "w' mod 1024" rule: linorder_cases) linarith+
  moreover from calculation have "d div 4 = d' div 4" using eq by linarith
  ultimately have "w = w'" "d = d'" by (metis div_mult_mod_eq)+
  moreover have "8 * w = ?t" "8 * w' = ?t'"
    using translated_aligned [OF assms(4)] translated_aligned [OF assms(5)] by (simp_all add: w_def w'_def)
  ultimately show ?thesis using translated_inj [of a b] by (simp add: word_unat_eq_iff)
qed

section \<open>The words of an MRAM\<close>

text \<open>The 64-bit word at address \<open>a\<close> of the MRAM of a DPU, as the mapped region shows it.\<close>

definition mram_word :: "(nat \<Rightarrow> u8) \<Rightarrow> nat \<Rightarrow> nat \<Rightarrow> u32 \<Rightarrow> u64" where
  "mram_word mem dpu_id ci_id a = word_of_bytes (map (\<lambda>k. mem (line_address dpu_id 0 a + 8 * k + ci_id)) [0..<8])"

definition word_addr :: "dpu_transfer_matrix \<Rightarrow> nat \<Rightarrow> u32" where
  "word_addr m i = of_nat i * 8 + tm_offset m"

lemma line_of_word: "d < 8 \<Longrightarrow> line_address d i (tm_offset m) = 64 * line_number d (word_addr m i)"
  "d < 8 \<Longrightarrow> line_address d 0 a = 64 * line_number d a"
  by (simp_all add: line_address_number word_addr_def)

lemma mram_word_cong:
  assumes "d < 8" "ci < 8" and "\<And>b. b div 64 = line_number d a \<Longrightarrow> r b = r' b"
  shows "mram_word r d ci a = mram_word r' d ci a"
proof -
  have "r (64 * line_number d a + 8 * k + ci) = r' (64 * line_number d a + 8 * k + ci)" if "k < 8" for k
  proof (rule assms(3))
    have "8 * k + ci < 64" using that assms(2) by simp
    then show "(64 * line_number d a + 8 * k + ci) div 64 = line_number d a" by (simp add: add.assoc)
  qed
  then have "map (\<lambda>k. r (64 * line_number d a + 8 * k + ci)) [0..<8] = map (\<lambda>k. r' (64 * line_number d a + 8 * k + ci)) [0..<8]"
    by (intro map_cong refl) simp
  then show ?thesis by (simp only: mram_word_def line_of_word(2) [OF assms(1)])
qed

lemma array_bytes_at:
  assumes "length cl = 8" "ci < 8" "k < 8"
  shows "array_bytes bytes_of_word (cl :: u64 list) ! (8 * ci + k) = bytes_of_word (cl ! ci) ! k"
proof -
  have "take 8 (drop (8 * ci) (array_bytes bytes_of_word cl)) ! k = bytes_of_word (cl ! ci) ! k"
    using u64_format.array_nth [of ci cl] assms by simp
  then show ?thesis using assms by (simp add: u64_format.array_length)
qed

lemma put_line_word:
  assumes "d < 8" "ci < 8" "length cl = 8"
  shows "mram_word (region (put_line d i m cl w)) d ci (word_addr m i) = cl ! ci"
proof -
  let ?L = "64 * line_number d (word_addr m i)"
  have len: "length (array_bytes bytes_of_word cl) = 64" using assms(3) by (simp add: u64_format.array_length)
  have at: "region (put_line d i m cl w) (?L + 8 * k + ci) = bytes_of_word (cl ! ci) ! k" if k: "k < 8" for k
  proof -
    have "8 * k + ci < 64" "transposed (8 * k + ci) = 8 * ci + k" using k assms(2) by (simp_all add: transposed_def)
    then show ?thesis
      using assms k by (simp add: put_line_def store_bytes_def line_of_word(1) avx512_transposes [OF len] picked_simps array_bytes_at)
  qed
  have "map (\<lambda>k. region (put_line d i m cl w) (?L + 8 * k + ci)) [0..<8] = bytes_of_word (cl ! ci)"
    by (rule nth_equalityI) (simp_all add: at length_bytes_of_word)
  then show ?thesis by (simp add: mram_word_def line_of_word(2) [OF assms(1)] u64_format.read_back)
qed

lemma put_line_keeps:
  assumes "d < 8" "length cl = 8" "b div 64 \<noteq> line_number d (word_addr m i)"
  shows "region (put_line d i m cl w) b = region w b"
proof -
  have "length (byte_interleave_avx512 (array_bytes bytes_of_word cl)) = 64"
    using assms(2) by (simp add: avx512_transposes u64_format.array_length picked_simps)
  moreover have "\<not> (64 * L \<le> b \<and> b < 64 * L + 64)" if "b div 64 \<noteq> L" for L
    using that by (metis div_nat_eqI mult.commute mult_Suc_right add.commute)
  ultimately show ?thesis using assms by (auto simp: put_line_def store_bytes_def line_of_word(1))
qed

section \<open>Writing a matrix\<close>

text \<open>
  A transfer that the code says it works for: aligned to 8 bytes, within the bank, on at most 8 CIs.
\<close>

definition transfer_fits :: "nat \<Rightarrow> dpu_transfer_matrix \<Rightarrow> bool" where
  "transfer_fits nb_cis m \<longleftrightarrow> nb_cis \<le> 8 \<and> 8 dvd unat (tm_offset m) \<and> unat (tm_offset m) + unat (tm_size m) \<le> 2 ^ 26"

lemma unat_small: "n < 2 ^ 26 \<Longrightarrow> unat (of_nat n :: u32) = n"
  by (simp add: unat_of_nat)

lemma word_addr_unat:
  assumes "transfer_fits nb_cis m" "i < nr_words m"
  shows "unat (word_addr m i) = unat (tm_offset m) + 8 * i"
proof -
  have "i < unat (tm_size m) div 8" using assms(2) by (simp only: nr_words_def)
  then have "8 * i < unat (tm_size m)" by linarith
  moreover have "unat (tm_offset m) + unat (tm_size m) \<le> 2 ^ 26" using assms(1) unfolding transfer_fits_def by blast
  ultimately have "unat (of_nat (unat (tm_offset m) + 8 * i) :: u32) = unat (tm_offset m) + 8 * i" by (intro unat_small) linarith
  moreover have "word_addr m i = of_nat (unat (tm_offset m) + 8 * i)"
    by (simp add: word_addr_def)
  ultimately show ?thesis by (simp only:)
qed

lemma word_line_inj:
  assumes fits: "transfer_fits nb_cis m" and "d < 8" "d' < 8" "i < nr_words m" "j < nr_words m"
    and "line_number d (word_addr m i) = line_number d' (word_addr m j)"
  shows "d = d' \<and> i = j"
proof -
  note u = word_addr_unat [OF fits assms(4)] word_addr_unat [OF fits assms(5)]
  have "8 dvd unat (word_addr m i)" "8 dvd unat (word_addr m j)" using u fits by (simp_all add: transfer_fits_def)
  from line_number_inj [OF assms(2,3,6) this] have "d = d'" and same: "word_addr m i = word_addr m j" by blast+
  have "unat (tm_offset m) + 8 * i = unat (tm_offset m) + 8 * j" unfolding u [symmetric] same ..
  with \<open>d = d'\<close> show ?thesis by linarith
qed

text \<open>
  The words \<open>(d, i)\<close> of \<open>W\<close> have been written: where there is a buffer the MRAM has its word, and
  outside of the lines of \<open>W\<close> the region is as before.
\<close>

definition written :: "nat \<Rightarrow> dpu_transfer_matrix \<Rightarrow> (nat \<times> nat) set \<Rightarrow> xeon_sp_world \<Rightarrow> xeon_sp_world \<Rightarrow> bool" where
  "written nb_cis m W w0 w \<longleftrightarrow>
     (\<forall>(d, i) \<in> W. \<forall>ci < nb_cis. has_buffer m d ci \<longrightarrow> mram_word (region w) d ci (word_addr m i) = xfer_words w0 (buffer m d ci) i)
     \<and> (\<forall>b. (\<forall>(d, i) \<in> W. b div 64 \<noteq> line_number d (word_addr m i)) \<longrightarrow> region w b = region w0 b)
     \<and> xfer_words w = xfer_words w0 \<and> sg_blocks w = sg_blocks w0 \<and> zeros w = zeros w0"

lemma fold_fill:
  "length cl = 8 \<Longrightarrow> n \<le> 8 \<Longrightarrow> (let cl' = fold (\<lambda>ci cl. if P ci then cl[ci := f ci] else cl) [0..<n] cl
     in length cl' = 8 \<and> (\<forall>ci < n. P ci \<longrightarrow> cl' ! ci = f ci))"
proof (induction n)
  case (Suc n)
  then show ?case by (auto simp: Let_def nth_list_update less_Suc_eq)
qed simp

lemma write_word_step:
  assumes fits: "transfer_fits nb_cis m" and W: "\<forall>(e, j) \<in> W. e < 8 \<and> j < nr_words m" and d: "d < 8" "i < nr_words m"
    and before: "length (fst s) = 8" "written nb_cis m W w0 (snd s)"
  shows "length (fst (write_word nb_cis m d i s)) = 8 \<and> written nb_cis m (insert (d, i) W) w0 (snd (write_word nb_cis m d i s))"
proof -
  obtain cl w where s: "s = (cl, w)" by (rule prod.exhaust)
  define cl' where "cl' = fold (\<lambda>ci cl. if has_buffer m d ci then cl[ci := xfer_words w (buffer m d ci) i] else cl) [0..<nb_cis] cl"
  have n8: "nb_cis \<le> 8" using fits by (simp add: transfer_fits_def)
  have cl': "length cl' = 8" "\<And>ci. ci < nb_cis \<Longrightarrow> has_buffer m d ci \<Longrightarrow> cl' ! ci = xfer_words w (buffer m d ci) i"
    using fold_fill [of cl nb_cis "has_buffer m d" "\<lambda>ci. xfer_words w (buffer m d ci) i"] before(1) n8
    by (simp_all add: Let_def cl'_def s)
  have run: "write_word nb_cis m d i s = (cl', put_line d i m cl' w)" by (simp add: write_word_def s cl'_def Let_def)
  have w: "written nb_cis m W w0 w" using before(2) by (simp add: s)
  have "mram_word (region (put_line d i m cl' w)) e ci (word_addr m j) = xfer_words w0 (buffer m e ci) j"
    if e: "(e, j) \<in> insert (d, i) W" "ci < nb_cis" "has_buffer m e ci" for e j ci
  proof (cases "(e, j) = (d, i)")
    case True
    then show ?thesis using put_line_word [OF d(1), of ci cl'] cl' e n8 w by (simp add: written_def)
  next
    case False
    then have "(e, j) \<in> W" using e(1) by blast
    then have ej: "e < 8" "j < nr_words m" and old: "mram_word (region w) e ci (word_addr m j) = xfer_words w0 (buffer m e ci) j"
      using W w e by (auto simp: written_def)
    have "line_number e (word_addr m j) \<noteq> line_number d (word_addr m i)"
      using word_line_inj [OF fits ej(1) d(1) ej(2) d(2)] False by auto
    then have "mram_word (region (put_line d i m cl' w)) e ci (word_addr m j) = mram_word (region w) e ci (word_addr m j)"
      using e(2) n8 by (intro mram_word_cong [OF ej(1)] put_line_keeps [OF d(1) cl'(1)]) simp_all
    with old show ?thesis by simp
  qed
  moreover have "region (put_line d i m cl' w) b = region w0 b"
    if "\<forall>(e, j) \<in> insert (d, i) W. b div 64 \<noteq> line_number e (word_addr m j)" for b
    using that w put_line_keeps [OF d(1) cl'(1), of b m i w] by (simp add: written_def)
  moreover have "xfer_words (put_line d i m cl' w) = xfer_words w0 \<and> sg_blocks (put_line d i m cl' w) = sg_blocks w0
      \<and> zeros (put_line d i m cl' w) = zeros w0"
    using w by (simp add: written_def put_line_def)
  ultimately show ?thesis using cl'(1) unfolding run written_def by (simp add: case_prod_beta)
qed

lemma write_words:
  assumes fits: "transfer_fits nb_cis m" and d: "d < 8" and W: "\<forall>(e, j) \<in> W. e < 8 \<and> j < nr_words m"
    and before: "length (fst s) = 8" "written nb_cis m W w0 (snd s)"
  shows "n \<le> nr_words m \<Longrightarrow> length (fst (fold (write_word nb_cis m d) [0..<n] s)) = 8
    \<and> written nb_cis m (W \<union> {d} \<times> {..<n}) w0 (snd (fold (write_word nb_cis m d) [0..<n] s))"
proof (induction n)
  case (Suc n)
  let ?s = "fold (write_word nb_cis m d) [0..<n] s"
  have "W \<union> {d} \<times> {..<Suc n} = insert (d, n) (W \<union> {d} \<times> {..<n})" by auto
  moreover have "\<forall>(e, j) \<in> W \<union> {d} \<times> {..<n}. e < 8 \<and> j < nr_words m" using W d Suc.prems by auto
  ultimately show ?case using write_word_step [OF fits _ d, of "W \<union> {d} \<times> {..<n}" n ?s w0] Suc by simp
qed (use before in simp)

text \<open>The words that the DPUs of \<open>D\<close> take part in.\<close>

definition lines_of :: "nat \<Rightarrow> dpu_transfer_matrix \<Rightarrow> nat set \<Rightarrow> (nat \<times> nat) set" where
  "lines_of nb_cis m D = {d \<in> D. do_dpu_transfer nb_cis m d} \<times> {..<nr_words m}"

lemma lines_of_simps:
  "lines_of nb_cis m {} = {}"
  "lines_of nb_cis m (insert d D) = lines_of nb_cis m D \<union> (if do_dpu_transfer nb_cis m d then {d} \<times> {..<nr_words m} else {})"
  "lines_of nb_cis m (D \<union> E) = lines_of nb_cis m D \<union> lines_of nb_cis m E"
  by (auto simp: lines_of_def)

lemma lines_of_bounds: "D \<subseteq> {..<8} \<Longrightarrow> \<forall>(e, j) \<in> lines_of nb_cis m D. e < 8 \<and> j < nr_words m"
  by (auto simp: lines_of_def)

lemma write_line_step:
  assumes fits: "transfer_fits nb_cis m" and plain: "tm_type m \<noteq> DPU_SG_XFER_MATRIX" and d: "d < 8" and D: "D \<subseteq> {..<8}"
    and before: "length (fst s) = 8" "written nb_cis m (lines_of nb_cis m D) w0 (snd s)"
  shows "\<exists>s'. write_line nb_cis m d s = Some s' \<and> length (fst s') = 8
    \<and> written nb_cis m (lines_of nb_cis m (insert d D)) w0 (snd s')"
proof (cases "do_dpu_transfer nb_cis m d")
  case True
  then show ?thesis using write_words [OF fits d lines_of_bounds [OF D] before, of "nr_words m"] plain
    by (simp add: write_line_def lines_of_simps case_prod_beta)
next
  case False
  then show ?thesis using before by (simp add: write_line_def lines_of_simps case_prod_beta)
qed

lemma write_lines:
  assumes fits: "transfer_fits nb_cis m" and plain: "tm_type m \<noteq> DPU_SG_XFER_MATRIX" and D: "D \<subseteq> {..<8}"
    and before: "length (fst s) = 8" "written nb_cis m (lines_of nb_cis m D) w0 (snd s)"
  shows "a \<le> b \<Longrightarrow> b \<le> 8 \<Longrightarrow> \<exists>s'. fold (\<lambda>d s. Option.bind s (write_line nb_cis m d)) [a..<b] (Some s) = Some s' \<and> length (fst s') = 8
    \<and> written nb_cis m (lines_of nb_cis m (D \<union> {a..<b})) w0 (snd s')"
proof (induction b)
  case (Suc b)
  show ?case
  proof (cases "a = Suc b")
    case False
    then obtain s' where s': "fold (\<lambda>d s. Option.bind s (write_line nb_cis m d)) [a..<b] (Some s) = Some s'"
      "length (fst s') = 8" "written nb_cis m (lines_of nb_cis m (D \<union> {a..<b})) w0 (snd s')"
      using Suc.IH Suc.prems by auto
    have "D \<union> {a..<b} \<subseteq> {..<8}" "insert b (D \<union> {a..<b}) = D \<union> {a..<Suc b}" using D Suc.prems False by auto
    with write_line_step [OF fits plain _ this(1) s'(2,3), of b] s'(1) Suc.prems False show ?thesis by simp
  qed (use before in simp)
qed (use before in simp)

lemma threads_write:
  assumes "transfer_fits nb_cis m" "tm_type m \<noteq> DPU_SG_XFER_MATRIX" "D \<subseteq> {..<8}" "length garbage = 8" "a \<le> b" "b \<le> 8"
    and "written nb_cis m (lines_of nb_cis m D) w0 w"
  shows "\<exists>w'. threads_write_to_rank nb_cis m garbage a b w = Some w'
    \<and> written nb_cis m (lines_of nb_cis m (D \<union> {a..<b})) w0 w'"
proof (cases "tm_size m = 0")
  case True
  then have "lines_of nb_cis m E = {}" for E by (simp add: lines_of_def nr_words_def)
  with True assms(7) show ?thesis by (simp add: threads_write_to_rank_def)
next
  case False
  obtain s' where "fold (\<lambda>d s. Option.bind s (write_line nb_cis m d)) [a..<b] (Some (garbage, w)) = Some s'"
    "written nb_cis m (lines_of nb_cis m (D \<union> {a..<b})) w0 (snd s')"
    using write_lines [OF assms(1-3), of "(garbage, w)" w0 a b] assms by auto
  with False show ?thesis by (simp add: threads_write_to_rank_def)
qed

section \<open>The shares of the threads\<close>

lemma share_bounds:
  assumes "t < n"
  shows "\<exists>a b. thread_share nb n t = Some (a, b) \<and> unat a = unat t * (unat nb div unat n)
    \<and> unat b = (if unat t + 1 = unat n then unat nb else (unat t + 1) * (unat nb div unat n))"
proof -
  have tn: "unat t < unat n" using assms by (simp add: word_less_nat_alt)
  have "(unat t + 1) * (unat nb div unat n) \<le> unat n * (unat nb div unat n)" using tn by (intro mult_right_mono) simp_all
  also have "\<dots> \<le> unat nb" by simp
  finally have le: "(unat t + 1) * (unat nb div unat n) \<le> unat nb" .
  have nb: "unat nb < 256" by (rule order_less_le_trans [OF unsigned_less]) simp
  have n: "unat n < 256" by (rule order_less_le_trans [OF unsigned_less]) simp
  have small: "unat (of_nat k :: u8) = k" if "k < 256" for k using that by (simp add: unat_of_nat)
  define q where "q = nb div n"
  have q: "unat q = unat nb div unat n" by (simp add: q_def unat_div)
  have eqs: "t * q = of_nat (unat t * unat q)" "(t + 1) * q = of_nat ((unat t + 1) * unat q)"
    by (simp_all add: distrib_right add.commute)
  have le': "(unat t + 1) * unat q < 256" using le nb unfolding q by linarith
  moreover have "unat t * unat q \<le> (unat t + 1) * unat q" by simp
  ultimately have "unat t * unat q < 256" by linarith
  from small [OF this] small [OF le'] have "unat (t * q) = unat t * unat q" "unat ((t + 1) * q) = (unat t + 1) * unat q"
    unfolding eqs .
  then have a: "unat (t * (nb div n)) = unat t * (unat nb div unat n)"
    and b: "unat ((t + 1) * (nb div n)) = (unat t + 1) * (unat nb div unat n)" unfolding unat_div [symmetric] q_def by blast+
  have "unat t = unat n - 1 \<longleftrightarrow> unat t + 1 = unat n" using tn by auto
  then show ?thesis using assms a b by (simp add: thread_share_def Let_def)
qed

text \<open>The DPUs of a thread.\<close>

definition share :: "u8 \<Rightarrow> u8 \<Rightarrow> u8 \<Rightarrow> nat set" where
  "share nb n t = (case thread_share nb n t of None \<Rightarrow> {} | Some (a, b) \<Rightarrow> {unat a..<unat b})"

lemma share_eq:
  "share nb n t = (if t < n then {unat t * (unat nb div unat n)..<
     (if unat t + 1 = unat n then unat nb else (unat t + 1) * (unat nb div unat n))} else {})"
proof (cases "t < n")
  case True
  then show ?thesis using share_bounds [of t n nb] by (auto simp: share_def)
qed (simp add: share_def thread_share_def)

lemma share_range:
  assumes "thread_share nb n t = Some (a, b)"
  shows "unat a \<le> unat b \<and> unat b \<le> unat nb"
proof -
  have t: "t < n" using assms by (simp add: thread_share_def split: if_splits)
  let ?q = "unat nb div unat n"
  have "(unat t + 1) * ?q \<le> unat n * ?q" using t by (intro mult_right_mono) (simp_all add: word_less_nat_alt Suc_leI)
  also have "\<dots> \<le> unat nb" by simp
  finally have "(unat t + 1) * ?q \<le> unat nb" .
  moreover have "unat t * ?q \<le> (unat t + 1) * ?q" by simp
  ultimately show ?thesis using share_bounds [OF t, of nb] assms by (auto split: if_splits)
qed

lemma share_within: "share nb n t \<subseteq> {..<unat nb}"
  using share_range [of nb n t] by (auto simp: share_def split: option.splits)

lemma share_exists:
  assumes "0 < n" "d < unat nb"
  shows "\<exists>t < n. d \<in> share nb n t"
proof -
  define k where "k = (if unat nb div unat n = 0 then unat n - 1 else min (d div (unat nb div unat n)) (unat n - 1))"
  have n: "0 < unat n" "unat n < 256"
    using assms(1) by (simp add: word_less_nat_alt) (rule order_less_le_trans [OF unsigned_less], simp)
  then have k: "k < unat n" by (auto simp: k_def)
  define t where "t = (of_nat k :: u8)"
  have t: "unat t = k" "t < n" using k n by (simp_all add: t_def unat_of_nat word_less_nat_alt)
  have "k * (unat nb div unat n) \<le> d"
  proof (cases "unat nb div unat n = 0")
    case False
    have "k * (unat nb div unat n) \<le> d div (unat nb div unat n) * (unat nb div unat n)"
      using False by (intro mult_right_mono) (simp_all add: k_def)
    also have "\<dots> \<le> d" by simp
    finally show ?thesis .
  qed (simp only: mult_0_right)
  moreover have "d < (k + 1) * (unat nb div unat n)" if "k + 1 \<noteq> unat n"
  proof -
    have pos: "0 < unat nb div unat n" "k = d div (unat nb div unat n)" using that n by (auto simp: k_def min_def split: if_splits)
    from dividend_less_div_times [OF pos(1), of d] show ?thesis unfolding pos(2) [symmetric] by simp
  qed
  ultimately have "d \<in> share nb n t" using t assms(2) by (simp add: share_eq)
  with t show ?thesis by blast
qed

lemma shares_cover:
  assumes "0 < n" "\<forall>t < n. t \<in> set ts"
  shows "(\<Union>t \<in> set ts. share nb n t) = {..<unat nb}"
proof (intro equalityI subsetI)
  fix d assume "d \<in> {..<unat nb}"
  then obtain t where "t < n" "d \<in> share nb n t" using share_exists [OF assms(1), of d nb] by auto
  with assms(2) show "d \<in> (\<Union>t \<in> set ts. share nb n t)" by (intro UN_I [of t]) simp_all
qed (use share_within in auto)

lemma share_unique:
  assumes "d \<in> share nb n t" "d \<in> share nb n u"
  shows "t = u"
proof -
  have less: "\<not> unat t < unat u" if "d \<in> share nb n t" "d \<in> share nb n u" for t u
  proof
    assume tu: "unat t < unat u"
    have n: "t < n" "u < n" using that by (auto simp: share_eq split: if_splits)
    then have "unat u < unat n" by (simp add: word_less_nat_alt)
    then have "unat t + 1 \<noteq> unat n" using tu by linarith
    then have "d < (unat t + 1) * (unat nb div unat n)" "unat u * (unat nb div unat n) \<le> d"
      using that n by (simp_all add: share_eq)
    moreover have "(unat t + 1) * (unat nb div unat n) \<le> unat u * (unat nb div unat n)"
      using tu by (intro mult_right_mono) simp_all
    ultimately show False by linarith
  qed
  from less [OF assms] less [OF assms(2,1)] show ?thesis by (simp add: word_unat_eq_iff)
qed

lemma share_iff:
  "(\<exists>a b. thread_share nb n t = Some (a, b) \<and> a \<le> d \<and> d < b) \<longleftrightarrow> unat d \<in> share nb n t"
  by (auto simp: share_def word_le_nat_alt word_less_nat_alt split: option.splits)

text \<open>
  C26: whatever the number of DPUs of a CI and the number of threads, the threads split the DPUs: every
  DPU is in the share of exactly one thread, although the number of DPUs need not be a multiple of the
  number of threads and all the arithmetic is in bytes.
\<close>

theorem threads_split_dpus:
  assumes "0 < nb_threads" "d < nb_dpus_per_ci"
  shows "\<exists>!t. \<exists>dpu_id_start dpu_id_stop. thread_share nb_dpus_per_ci nb_threads t = Some (dpu_id_start, dpu_id_stop)
    \<and> dpu_id_start \<le> d \<and> d < dpu_id_stop"
  unfolding share_iff using share_exists [OF assms(1), of "unat d" nb_dpus_per_ci] assms(2) share_unique
  by (auto simp: word_less_nat_alt)

lemma threads_split_dpus_witness:
  "\<exists>!t. \<exists>a b. thread_share 8 (3 :: u8) t = Some (a, b) \<and> a \<le> (7 :: u8) \<and> 7 < b"
  by (rule threads_split_dpus) simp_all

section \<open>Writing with a pool of threads\<close>

lemma threads_of_pool:
  assumes "nb_thread_per_pool c \<noteq> 0"
  shows "0 < nb_threads_for_xfer (xeon_sp_set_configuration c) size_transfer"
proof -
  have small: "0 < (ucast v :: u8)" if "0 < v" "v \<le> 8" for v :: u32
  proof -
    have "unat (ucast v :: u8) = unat v mod 256" by (simp add: unsigned_ucast_eq unsigned_take_bit_eq take_bit_eq_mod)
    with that show ?thesis by (simp add: word_less_nat_alt word_le_nat_alt)
  qed
  have "0 < nb_thread_per_pool (xeon_sp_set_configuration c) \<and> nb_thread_per_pool (xeon_sp_set_configuration c) \<le> 8"
    using assms by (auto simp: xeon_sp_set_configuration_def Let_def default_xfer_thread_configuration_def
        MAX_THREAD_PER_POOL_def word_neq_0_conv)
  with small show ?thesis unfolding nb_threads_for_xfer_def by auto
qed

lemma thread_write:
  assumes "transfer_fits nb_cis m" "tm_type m \<noteq> DPU_SG_XFER_MATRIX" "D \<subseteq> {..<8}" "length (garbage t) = 8" "unat nb_dpus \<le> 8"
    and "written nb_cis m (lines_of nb_cis m D) w0 w"
  shows "\<exists>w'. thread_do_mram_xfer thread_mram_xfer_write nb_cis nb_dpus n m garbage t w = Some w'
    \<and> written nb_cis m (lines_of nb_cis m (D \<union> share nb_dpus n t)) w0 w'"
proof (cases "thread_share nb_dpus n t")
  case (Some ab)
  then obtain a b where ab: "thread_share nb_dpus n t = Some (a, b)" by (metis surj_pair)
  then have "unat a \<le> unat b \<and> unat b \<le> 8" using share_range [of nb_dpus n t a b] assms(5) by linarith
  with threads_write [OF assms(1-4) _ _ assms(6), of "unat a" "unat b"] ab
  show ?thesis by (simp add: thread_do_mram_xfer_def share_def)
qed (use assms in \<open>simp add: thread_do_mram_xfer_def share_def\<close>)

lemma pool_write:
  assumes fits: "transfer_fits nb_cis m" "tm_type m \<noteq> DPU_SG_XFER_MATRIX" "\<forall>t. length (garbage t) = 8" "unat nb_dpus \<le> 8"
  shows "D \<subseteq> {..<8} \<Longrightarrow> written nb_cis m (lines_of nb_cis m D) w0 w \<Longrightarrow>
    \<exists>w'. fold (\<lambda>t s. Option.bind s (thread_do_mram_xfer thread_mram_xfer_write nb_cis nb_dpus n m garbage t)) ts (Some w) = Some w'
    \<and> written nb_cis m (lines_of nb_cis m (D \<union> (\<Union>t \<in> set ts. share nb_dpus n t))) w0 w'"
proof (induction ts arbitrary: D w)
  case (Cons t ts)
  obtain w1 where w1: "thread_do_mram_xfer thread_mram_xfer_write nb_cis nb_dpus n m garbage t w = Some w1"
    "written nb_cis m (lines_of nb_cis m (D \<union> share nb_dpus n t)) w0 w1"
    using thread_write [OF fits(1,2) Cons.prems(1) _ fits(4) Cons.prems(2), of garbage t n] fits(3) by blast
  have "D \<union> share nb_dpus n t \<subseteq> {..<8}" using Cons.prems(1) share_within [of nb_dpus n t] fits(4) by fastforce
  from Cons.IH [OF this w1(2)] w1(1) show ?case by (simp add: Un_assoc)
qed simp

lemma xfer_written:
  assumes "transfer_fits nb_cis m" "tm_type m \<noteq> DPU_SG_XFER_MATRIX" "\<forall>t. length (garbage t) = 8" "unat nb_dpus \<le> 8"
    and "nb_thread_per_pool c \<noteq> 0"
    and "\<forall>t < nb_threads_for_xfer (xeon_sp_set_configuration c) (tm_size m). t \<in> set order"
  shows "\<exists>w'. xeon_sp_do_xfer thread_mram_xfer_write (xeon_sp_set_configuration c) nb_cis nb_dpus m garbage order w = Some w'
    \<and> written nb_cis m (lines_of nb_cis m {..<unat nb_dpus}) w w'"
proof -
  let ?n = "nb_threads_for_xfer (xeon_sp_set_configuration c) (tm_size m)"
  have "written nb_cis m (lines_of nb_cis m {}) w w" by (simp add: written_def lines_of_simps)
  from pool_write [OF assms(1-4) _ this, where n = ?n and ts = order]
  show ?thesis using shares_cover [OF threads_of_pool [OF assms(5)] assms(6)] by (simp add: xeon_sp_do_xfer_def)
qed

text \<open>
  C14: a write of a matrix by the threads of a pool, in whatever order they run: every host word is in
  the MRAM of its DPU at its place, whatever the uninitialised arrays of the threads held, and the bytes
  of the region outside of the cache lines of the transfer are as before.
\<close>

theorem xfer_write:
  assumes "transfer_fits nb_cis m" "tm_type m \<noteq> DPU_SG_XFER_MATRIX" "\<forall>t. length (garbage t) = 8" "unat nb_dpus \<le> 8"
    and "nb_thread_per_pool c \<noteq> 0"
    and "\<forall>t < nb_threads_for_xfer (xeon_sp_set_configuration c) (tm_size m). t \<in> set order"
  shows "\<exists>w'. xeon_sp_do_xfer thread_mram_xfer_write (xeon_sp_set_configuration c) nb_cis nb_dpus m garbage order w = Some w'
    \<and> (\<forall>d < unat nb_dpus. \<forall>ci < nb_cis. \<forall>i < nr_words m. has_buffer m d ci \<longrightarrow>
         mram_word (region w') d ci (word_addr m i) = xfer_words w (buffer m d ci) i)
    \<and> (\<forall>b. (\<forall>d < unat nb_dpus. \<forall>i < nr_words m. do_dpu_transfer nb_cis m d \<longrightarrow> b div 64 \<noteq> line_number d (word_addr m i))
         \<longrightarrow> region w' b = region w b)"
proof -
  obtain w' where run: "xeon_sp_do_xfer thread_mram_xfer_write (xeon_sp_set_configuration c) nb_cis nb_dpus m garbage order w = Some w'"
    and w': "written nb_cis m (lines_of nb_cis m {..<unat nb_dpus}) w w'"
    using xfer_written [OF assms] by blast
  have "(d, i) \<in> lines_of nb_cis m {..<unat nb_dpus}"
    if "d < unat nb_dpus" "ci < nb_cis" "i < nr_words m" "has_buffer m d ci" for d ci i
    using that by (auto simp: lines_of_def do_dpu_transfer_def list_ex_iff)
  then have "\<forall>d < unat nb_dpus. \<forall>ci < nb_cis. \<forall>i < nr_words m. has_buffer m d ci \<longrightarrow>
       mram_word (region w') d ci (word_addr m i) = xfer_words w (buffer m d ci) i"
    using w' unfolding written_def by fast
  moreover have "region w' b = region w b"
    if "\<forall>d < unat nb_dpus. \<forall>i < nr_words m. do_dpu_transfer nb_cis m d \<longrightarrow> b div 64 \<noteq> line_number d (word_addr m i)" for b
    using that w' by (auto simp: written_def lines_of_def)
  ultimately show ?thesis using run by blast
qed

text \<open>A rank of 8 DPUs per CI, 16 bytes to each DPU from address 0x4008 on, by 4 threads.\<close>

definition sample_transfer :: "u64 \<Rightarrow> dpu_transfer_matrix" where
  "sample_transfer base = \<lparr>tm_ptr = map (\<lambda>k. base + of_nat k) [0..<64], tm_offset = 0x4008, tm_size = 16, tm_type = 0\<rparr>"

definition sample_pool :: "u32 \<Rightarrow> xfer_thread_configuration" where
  "sample_pool n = \<lparr>nb_thread_per_pool = n, threshold_1_thread = 0, threshold_2_threads = 0, threshold_4_threads = 0\<rparr>"

definition sample_host :: xeon_sp_world where
  "sample_host = \<lparr>region = (\<lambda>_. 0xFF), xfer_words = (\<lambda>p i. 256 * p + of_nat i), sg_blocks = (\<lambda>_. []), zeros = []\<rparr>"

lemma sample_buffer:
  assumes "d < 8" "ci < 8"
  shows "buffer (sample_transfer base) d ci = base + of_nat (8 * d + ci)"
proof -
  have "d * 8 + ci < 64" using assms by simp
  then show ?thesis by (simp add: buffer_def NB_REAL_CIS_def sample_transfer_def mult.commute)
qed

lemma sample_has_buffer: "d < 8 \<Longrightarrow> ci < 8 \<Longrightarrow> has_buffer (sample_transfer base) d ci \<longleftrightarrow> base + of_nat (8 * d + ci) \<noteq> 0"
  using sample_buffer [of d ci base] by (simp add: has_buffer_def buffer_def)

lemma sample_threads:
  "nb_threads_for_xfer (xeon_sp_set_configuration (sample_pool 4)) n = 4"
  "nb_threads_for_xfer (xeon_sp_set_configuration (sample_pool 1)) n = 1"
  by (simp_all add: nb_threads_for_xfer_def xeon_sp_set_configuration_def sample_pool_def Let_def DPU_XFER_THREAD_CONF_DEFAULT_def
      MAX_THREAD_PER_POOL_def)

lemma sample_order: "\<forall>t < 4. t \<in> set [3, 1, 0, 2 :: u8]"
proof (intro allI impI)
  fix t :: u8 assume "t < 4"
  then have "unat t < 4" by (simp add: word_less_nat_alt)
  then have "unat t \<in> {0, 1, 2, 3}" by auto
  then show "t \<in> set [3, 1, 0, 2]" by (auto simp: word_unat_eq_iff)
qed

lemma sample_fits: "transfer_fits 8 (sample_transfer base)" "tm_type (sample_transfer base) \<noteq> DPU_SG_XFER_MATRIX"
  "nr_words (sample_transfer base) = 2" "nb_thread_per_pool (sample_pool n) = n"
  by (simp_all add: transfer_fits_def sample_transfer_def DPU_SG_XFER_MATRIX_def nr_words_def sample_pool_def)

theorem xfer_write_witness:
  "\<exists>w'. xeon_sp_do_xfer thread_mram_xfer_write (xeon_sp_set_configuration (sample_pool 4)) 8 8 (sample_transfer 1)
      (\<lambda>_. replicate 8 0) [3, 1, 0, 2] sample_host = Some w' \<and> mram_word (region w') 5 2 0x4010 = 0x2B01"
proof -
  have pool: "nb_thread_per_pool (sample_pool 4) \<noteq> 0" by (simp add: sample_fits)
  have order: "\<forall>t < nb_threads_for_xfer (xeon_sp_set_configuration (sample_pool 4)) (tm_size (sample_transfer 1)). t \<in> set [3, 1, 0, 2]"
    unfolding sample_threads by (rule sample_order)
  have arrays: "\<forall>t :: u8. length ((\<lambda>_. replicate 8 (0 :: u64)) t) = 8" and eight: "unat (8 :: u8) \<le> 8" by simp_all
  obtain w' where w': "xeon_sp_do_xfer thread_mram_xfer_write (xeon_sp_set_configuration (sample_pool 4)) 8 8 (sample_transfer 1)
      (\<lambda>_. replicate 8 0) [3, 1, 0, 2] sample_host = Some w'"
    and all: "\<forall>d < unat (8 :: u8). \<forall>ci < 8. \<forall>i < nr_words (sample_transfer 1). has_buffer (sample_transfer 1) d ci \<longrightarrow>
         mram_word (region w') d ci (word_addr (sample_transfer 1) i) = xfer_words sample_host (buffer (sample_transfer 1) d ci) i"
    using xfer_write [OF sample_fits(1,2) arrays eight pool order, of sample_host] by blast
  have five: "5 < unat (8 :: u8)" "(2 :: nat) < 8" "1 < nr_words (sample_transfer 1)" "has_buffer (sample_transfer 1) 5 2"
    by (simp_all add: sample_fits sample_has_buffer)
  have "mram_word (region w') 5 2 (word_addr (sample_transfer 1) 1) = xfer_words sample_host (buffer (sample_transfer 1) 5 2) 1"
    using all five by blast
  moreover have "word_addr (sample_transfer 1) 1 = 0x4010" by (simp add: word_addr_def sample_transfer_def)
  moreover have "xfer_words sample_host (buffer (sample_transfer 1) 5 2) 1 = 0x2B01" by (simp add: sample_buffer sample_host_def)
  ultimately show ?thesis using w' by simp
qed

end
