(* ===== verification/Xeon_Scatter.thy ===== *)
theory Xeon_Scatter
  imports Xeon_Transfer
begin

text \<open>
  Scattered buffers (\<^verbatim>\<open>xeon_sp_translation.c\<close>): the iterators deliver the bytes of the blocks one
  behind the other and zeros after them, so that a transfer of scattered buffers writes what the
  transfer of the buffers copied together would.
\<close>

section \<open>The bytes of the blocks\<close>

definition padded :: "u8 list list \<Rightarrow> nat \<Rightarrow> u8" where
  "padded blocks k = (if k < length (concat blocks) then concat blocks ! k else 0)"

text \<open>The iterator over \<open>blocks @ [zs]\<close> is at the byte number \<open>p\<close>.\<close>

definition it_at :: "u8 list list \<Rightarrow> u8 list \<Rightarrow> nat \<Rightarrow> sg_iterator \<Rightarrow> bool" where
  "it_at blocks zs p it \<longleftrightarrow>
     it_block it < length blocks \<and> it_index it < length (blocks ! it_block it)
       \<and> p = length (concat (take (it_block it) blocks)) + it_index it
     \<or> it_block it = length blocks \<and> it_index it < length zs \<and> length (concat blocks) \<le> p"

text \<open>No block is empty, and the array behind them has zeros only.\<close>

definition sg_wf :: "u8 list list \<Rightarrow> u8 list \<Rightarrow> bool" where
  "sg_wf blocks zs \<longleftrightarrow> [] \<notin> set blocks \<and> zs \<noteq> [] \<and> set zs \<subseteq> {0}"

lemma padded_block:
  assumes "b < length blocks" "k < length (blocks ! b)"
  shows "padded blocks (length (concat (take b blocks)) + k) = blocks ! b ! k"
proof -
  have "concat blocks = concat (take b blocks) @ blocks ! b @ concat (drop (Suc b) blocks)"
    using arg_cong [OF id_take_nth_drop [OF assms(1)], of concat] by simp
  with assms(2) show ?thesis by (simp add: padded_def nth_append)
qed

lemma concat_take_Suc: "b < length blocks \<Longrightarrow> length (concat (take (Suc b) blocks)) = length (concat (take b blocks)) + length (blocks ! b)"
  by (simp add: take_Suc_conv_app_nth)

lemma next_block_at:
  assumes "sg_wf blocks zs" "b < length blocks"
  shows "it_at blocks zs (length (concat (take b blocks)) + length (blocks ! b)) \<lparr>it_block = Suc b, it_index = 0\<rparr>"
proof (cases "Suc b < length blocks")
  case True
  then have "blocks ! Suc b \<noteq> []" using assms(1) unfolding sg_wf_def by (metis nth_mem)
  with True assms(2) show ?thesis by (simp add: it_at_def concat_take_Suc)
next
  case False
  then have "Suc b = length blocks" using assms(2) by simp
  moreover from this have "length (concat blocks) = length (concat (take b blocks)) + length (blocks ! b)"
    using concat_take_Suc [OF assms(2)] by simp
  ultimately show ?thesis using assms(1) by (simp add: it_at_def sg_wf_def)
qed

lemma at_byte:
  assumes wf: "sg_wf blocks zs" and at: "it_at blocks zs p it"
  obtains b k it' where "get_next_byte (blocks @ [zs]) it = ((b, k), it')" "in_block (blocks @ [zs]) (b, k)"
    "(blocks @ [zs]) ! b ! k = padded blocks p" "it_at blocks zs (Suc p) it'"
proof (cases "it_block it < length blocks")
  case True
  let ?b = "it_block it"
  have k: "it_index it < length (blocks ! ?b)" "p = length (concat (take ?b blocks)) + it_index it" using at True by (simp_all add: it_at_def)
  have byte: "in_block (blocks @ [zs]) (?b, it_index it)" "(blocks @ [zs]) ! ?b ! it_index it = padded blocks p"
    using True k padded_block [OF True k(1)] by (simp_all add: in_block_def nth_append)
  show ?thesis
  proof (cases "Suc (it_index it) = length (blocks ! ?b)")
    case last: True
    have "get_next_byte (blocks @ [zs]) it = ((?b, it_index it), \<lparr>it_block = Suc ?b, it_index = 0\<rparr>)"
      using True last by (simp add: get_next_byte_def Let_def nth_append go_to_next_block_def)
    moreover have "Suc p = length (concat (take ?b blocks)) + length (blocks ! ?b)" using k last by simp
    ultimately show ?thesis using that byte next_block_at [OF wf True] by metis
  next
    case False
    have "get_next_byte (blocks @ [zs]) it = ((?b, it_index it), it\<lparr>it_index := it_index it + 1\<rparr>)"
      using True False by (simp add: get_next_byte_def Let_def nth_append)
    moreover have "it_at blocks zs (Suc p) (it\<lparr>it_index := it_index it + 1\<rparr>)" using True False k by (simp add: it_at_def)
    ultimately show ?thesis using that byte by blast
  qed
next
  case False
  then have b: "it_block it = length blocks" "it_index it < length zs" "length (concat blocks) \<le> p" using at by (simp_all add: it_at_def)
  have "zs ! it_index it = 0" using wf nth_mem [OF b(2)] by (auto simp: sg_wf_def)
  then have byte: "in_block (blocks @ [zs]) (length blocks, it_index it)" "(blocks @ [zs]) ! length blocks ! it_index it = padded blocks p"
    using b by (simp_all add: in_block_def padded_def)
  have "it_at blocks zs (Suc p) (snd (get_next_byte (blocks @ [zs]) it))"
    "fst (get_next_byte (blocks @ [zs]) it) = (length blocks, it_index it)"
    using b by (auto simp: get_next_byte_def Let_def it_at_def go_to_next_block_def)
  then show ?thesis using that byte by (metis prod.collapse)
qed

lemma get_bytes_padded:
  assumes wf: "sg_wf blocks zs"
  shows "it_at blocks zs p it \<Longrightarrow>
    \<exists>it'. get_bytes n (blocks @ [zs]) it = Some (map (padded blocks) [p..<p + n], it') \<and> it_at blocks zs (p + n) it'"
proof (induction n arbitrary: p it)
  case (Suc n)
  obtain b k it1 where step: "get_next_byte (blocks @ [zs]) it = ((b, k), it1)" "in_block (blocks @ [zs]) (b, k)"
    "(blocks @ [zs]) ! b ! k = padded blocks p" "it_at blocks zs (Suc p) it1"
    by (rule at_byte [OF wf Suc.prems])
  have "[p..<p + Suc n] = p # [Suc p..<Suc p + n]" by (simp add: upt_conv_Cons del: upt_Suc)
  with Suc.IH [OF step(4)] step(1-3) show ?case by (auto simp del: upt_Suc)
qed simp

lemma get_eight_padded:
  assumes wf: "sg_wf blocks zs" and at: "it_at blocks zs p it"
  shows "\<exists>it'. get_next_eight_bytes (blocks @ [zs]) it = Some (map (padded blocks) [p..<p + 8], it') \<and> it_at blocks zs (p + 8) it'"
proof -
  let ?block = "(blocks @ [zs]) ! it_block it" and ?k = "it_index it"
  have inside: "take 8 (drop ?k ?block) = map (padded blocks) [p..<p + 8]" if "8 + ?k \<le> length ?block"
  proof (rule nth_equalityI)
    fix j assume "j < length (take 8 (drop ?k ?block))"
    then have j: "j < 8" by simp
    have "?block ! (?k + j) = padded blocks (p + j)"
    proof (cases "it_block it < length blocks")
      case True
      then have "p = length (concat (take (it_block it) blocks)) + ?k" using at by (simp add: it_at_def)
      with True that j show ?thesis using padded_block [OF True, of "?k + j"] by (simp add: nth_append add.assoc)
    next
      case False
      then have b: "it_block it = length blocks" "length (concat blocks) \<le> p" using at by (simp_all add: it_at_def)
      then have "zs ! (?k + j) \<in> set zs" using that j by (intro nth_mem) simp
      then show ?thesis using wf b by (auto simp: sg_wf_def padded_def)
    qed
    with that j show "take 8 (drop ?k ?block) ! j = map (padded blocks) [p..<p + 8] ! j" by simp
  qed (use that in simp)
  consider "8 + ?k < length ?block" | "length ?block = 8 + ?k" | "length ?block < 8 + ?k" by linarith
  then show ?thesis
  proof cases
    case 1
    then have "get_next_eight_bytes (blocks @ [zs]) it = Some (map (padded blocks) [p..<p + 8], it\<lparr>it_index := ?k + 8\<rparr>)"
      using inside by (simp add: get_next_eight_bytes_def Let_def)
    moreover have "it_at blocks zs (p + 8) (it\<lparr>it_index := ?k + 8\<rparr>)" using at 1 by (auto simp: it_at_def nth_append)
    ultimately show ?thesis by blast
  next
    case 2
    then have "get_next_eight_bytes (blocks @ [zs]) it = Some (map (padded blocks) [p..<p + 8], go_to_next_block (length blocks) it)"
      using inside by (simp add: get_next_eight_bytes_def Let_def)
    moreover have "it_at blocks zs (p + 8) (go_to_next_block (length blocks) it)"
    proof (cases "it_block it < length blocks")
      case True
      then have "p + 8 = length (concat (take (it_block it) blocks)) + length (blocks ! it_block it)"
        using at 2 by (simp add: it_at_def nth_append)
      with next_block_at [OF wf True] True show ?thesis by (simp add: go_to_next_block_def)
    next
      case False
      then show ?thesis using at by (auto simp: it_at_def go_to_next_block_def)
    qed
    ultimately show ?thesis by blast
  next
    case 3
    then have "get_next_eight_bytes (blocks @ [zs]) it = get_bytes 8 (blocks @ [zs]) it"
      by (simp add: get_next_eight_bytes_def Let_def)
    with get_bytes_padded [OF wf at, of 8] show ?thesis by simp
  qed
qed

section \<open>A line of scattered buffers\<close>

text \<open>The buffers copied together: the words of the blocks with zeros behind them.\<close>

definition flat :: "xeon_sp_world \<Rightarrow> xeon_sp_world" where
  "flat w = w\<lparr>xfer_words := (\<lambda>p i. word_of_bytes (map (padded (sg_blocks w p)) [8 * i..<8 * i + 8])), sg_blocks := (\<lambda>_. [])\<rparr>"

definition plain :: "dpu_transfer_matrix \<Rightarrow> dpu_transfer_matrix" where
  "plain m = m\<lparr>tm_type := DPU_DEFAULT_XFER_MATRIX\<rparr>"

lemma plain_fields:
  "has_buffer (plain m) d ci = has_buffer m d ci" "buffer (plain m) d ci = buffer m d ci" "nr_words (plain m) = nr_words m"
  "tm_size (plain m) = tm_size m" "tm_offset (plain m) = tm_offset m" "tm_type (plain m) = DPU_DEFAULT_XFER_MATRIX"
  by (simp_all add: plain_def has_buffer_def buffer_def nr_words_def)

lemma plain_line:
  "do_dpu_transfer nb_cis (plain m) d = do_dpu_transfer nb_cis m d" "put_line d i (plain m) cl w = put_line d i m cl w"
  by (simp_all add: do_dpu_transfer_def put_line_def plain_fields list_ex_iff)

lemmas plain_simps = plain_fields plain_line

text \<open>The buffers of a transfer of \<open>nb_cis\<close> CIs that its lines \<open>d < 8\<close> use.\<close>

definition scattered :: "nat \<Rightarrow> dpu_transfer_matrix \<Rightarrow> xeon_sp_world \<Rightarrow> bool" where
  "scattered nb_cis m w \<longleftrightarrow> (\<forall>d < 8. \<forall>ci < nb_cis. has_buffer m d ci \<longrightarrow>
     sg_blocks w (buffer m d ci) \<noteq> [] \<and> sg_wf (sg_blocks w (buffer m d ci)) (zeros w))"

definition its_at :: "nat \<Rightarrow> dpu_transfer_matrix \<Rightarrow> nat \<Rightarrow> xeon_sp_world \<Rightarrow> (nat \<Rightarrow> nat) \<Rightarrow> sg_iterator option list \<Rightarrow> bool" where
  "its_at nb_cis m d w pos its \<longleftrightarrow> length its = nb_cis \<and> (\<forall>ci < nb_cis.
     if has_buffer m d ci then \<exists>it. its ! ci = Some it \<and> it_at (sg_blocks w (buffer m d ci)) (zeros w) (pos ci) it
     else its ! ci = None)"

lemma its_atD:
  "its_at nb_cis m d w pos its \<Longrightarrow> ci < nb_cis \<Longrightarrow> has_buffer m d ci \<Longrightarrow>
    \<exists>it. its ! ci = Some it \<and> it_at (sg_blocks w (buffer m d ci)) (zeros w) (pos ci) it"
  by (simp add: its_at_def)

lemma its_at_cong: "(\<And>ci. ci < nb_cis \<Longrightarrow> pos ci = pos' ci) \<Longrightarrow> its_at nb_cis m d w pos its = its_at nb_cis m d w pos' its"
  by (simp add: its_at_def)

lemma init_at:
  assumes "scattered nb_cis m w" "d < 8"
  shows "\<exists>its. init_iterators nb_cis m d w = Some its \<and> its_at nb_cis m d w (\<lambda>_. 0) its"
proof -
  have "it_at (sg_blocks w (buffer m d ci)) (zeros w) 0 \<lparr>it_block = 0, it_index = 0\<rparr>" "sg_blocks w (buffer m d ci) \<noteq> []"
    if "ci < nb_cis" "has_buffer m d ci" for ci
  proof -
    have b: "sg_blocks w (buffer m d ci) \<noteq> []" "sg_wf (sg_blocks w (buffer m d ci)) (zeros w)"
      using assms that by (simp_all add: scattered_def)
    then have "sg_blocks w (buffer m d ci) ! 0 \<noteq> []" unfolding sg_wf_def by (metis length_greater_0_conv nth_mem)
    with b show "it_at (sg_blocks w (buffer m d ci)) (zeros w) 0 \<lparr>it_block = 0, it_index = 0\<rparr>" "sg_blocks w (buffer m d ci) \<noteq> []"
      by (simp_all add: it_at_def)
  qed
  then show ?thesis by (auto simp: init_iterators_def list_all_iff its_at_def init_sg_xfer_buffer_iterator_def)
qed

lemma gather_cis:
  assumes scattered: "scattered nb_cis m w" and d: "d < 8" and at: "its_at nb_cis m d w (\<lambda>_. 8 * i) its"
  shows "n \<le> nb_cis \<Longrightarrow> \<exists>its'. fold (\<lambda>ci_id s. Option.bind s (\<lambda>(its, cache_line).
           case its ! ci_id of None \<Rightarrow> Some (its, cache_line)
           | Some it \<Rightarrow> map_option (\<lambda>(bs, it). (its[ci_id := Some it], cache_line[ci_id := word_of_bytes bs]))
               (get_next_eight_bytes (sg_blocks w (buffer m d ci_id) @ [zeros w]) it))) [0..<n] (Some (its, cl))
       = Some (its', fold (\<lambda>ci cl. if has_buffer m d ci then cl[ci := xfer_words (flat w) (buffer m d ci) i] else cl) [0..<n] cl)
     \<and> its_at nb_cis m d w (\<lambda>ci. if ci < n then 8 * (i + 1) else 8 * i) its'"
proof (induction n)
  case (Suc n)
  then obtain its' where run: "fold (\<lambda>ci_id s. Option.bind s (\<lambda>(its, cache_line).
           case its ! ci_id of None \<Rightarrow> Some (its, cache_line)
           | Some it \<Rightarrow> map_option (\<lambda>(bs, it). (its[ci_id := Some it], cache_line[ci_id := word_of_bytes bs]))
               (get_next_eight_bytes (sg_blocks w (buffer m d ci_id) @ [zeros w]) it))) [0..<n] (Some (its, cl))
       = Some (its', fold (\<lambda>ci cl. if has_buffer m d ci then cl[ci := xfer_words (flat w) (buffer m d ci) i] else cl) [0..<n] cl)"
    and at': "its_at nb_cis m d w (\<lambda>ci. if ci < n then 8 * (i + 1) else 8 * i) its'" by auto
  have n: "n < nb_cis" using Suc.prems by simp
  show ?case
  proof (cases "has_buffer m d n")
    case False
    then have "its' ! n = None" using at' n by (auto simp: its_at_def)
    moreover have "its_at nb_cis m d w (\<lambda>ci. if ci < Suc n then 8 * (i + 1) else 8 * i) its'"
      using at' False unfolding its_at_def by (auto simp: less_Suc_eq)
    ultimately show ?thesis using run False by simp
  next
    case True
    then obtain it where it: "its' ! n = Some it" "it_at (sg_blocks w (buffer m d n)) (zeros w) (8 * i) it"
      using its_atD [OF at' n True] by auto
    have "sg_wf (sg_blocks w (buffer m d n)) (zeros w)" using scattered d n True by (simp add: scattered_def)
    from get_eight_padded [OF this it(2)] obtain it' where it': "get_next_eight_bytes (sg_blocks w (buffer m d n) @ [zeros w]) it
        = Some (map (padded (sg_blocks w (buffer m d n))) [8 * i..<8 * i + 8], it')"
      "it_at (sg_blocks w (buffer m d n)) (zeros w) (8 * i + 8) it'" by blast
    have "its_at nb_cis m d w (\<lambda>ci. if ci < Suc n then 8 * (i + 1) else 8 * i) (its'[n := Some it'])"
      using at' it'(2) n True unfolding its_at_def by (auto simp: less_Suc_eq nth_list_update add.commute)
    with run it it' True show ?thesis by (simp add: flat_def)
  qed
qed (use at in \<open>simp add: its_at_def\<close>)

lemma gather_word_refines:
  assumes "scattered nb_cis m w" "d < 8" "its_at nb_cis m d w (\<lambda>_. 8 * i) its"
  shows "\<exists>its' cl' w'. gather_word nb_cis m d i (its, cl, w) = Some (its', cl', w')
    \<and> write_word nb_cis (plain m) d i (cl, flat w) = (cl', flat w')
    \<and> its_at nb_cis m d w' (\<lambda>_. 8 * Suc i) its' \<and> scattered nb_cis m w'"
proof -
  obtain its' where "fold (\<lambda>ci_id s. Option.bind s (\<lambda>(its, cache_line).
           case its ! ci_id of None \<Rightarrow> Some (its, cache_line)
           | Some it \<Rightarrow> map_option (\<lambda>(bs, it). (its[ci_id := Some it], cache_line[ci_id := word_of_bytes bs]))
               (get_next_eight_bytes (sg_blocks w (buffer m d ci_id) @ [zeros w]) it))) [0..<nb_cis] (Some (its, cl))
       = Some (its', fold (\<lambda>ci cl. if has_buffer m d ci then cl[ci := xfer_words (flat w) (buffer m d ci) i] else cl) [0..<nb_cis] cl)"
    and "its_at nb_cis m d w (\<lambda>ci. if ci < nb_cis then 8 * (i + 1) else 8 * i) its'"
    using gather_cis [OF assms, of nb_cis cl] by blast
  moreover from this(2) have "its_at nb_cis m d w (\<lambda>_. 8 * Suc i) its'"
    by (subst its_at_cong [where pos' = "\<lambda>ci. if ci < nb_cis then 8 * (i + 1) else 8 * i"]) simp_all
  moreover have "its_at nb_cis m d (put_line d i m cl' w) pos its' \<longleftrightarrow> its_at nb_cis m d w pos its'"
    "scattered nb_cis m (put_line d i m cl' w)" "put_line d i m cl' (flat w) = flat (put_line d i m cl' w)" for cl' pos
    using assms(1) by (simp_all add: its_at_def scattered_def put_line_def flat_def)
  ultimately show ?thesis by (simp add: gather_word_def write_word_def plain_simps Let_def cong: if_cong)
qed

lemma gather_words_refine:
  assumes "scattered nb_cis m w" "d < 8" "its_at nb_cis m d w (\<lambda>_. 0) its"
  shows "\<exists>its' cl' w'. fold (\<lambda>i s. Option.bind s (gather_word nb_cis m d i)) [0..<n] (Some (its, cl, w)) = Some (its', cl', w')
    \<and> fold (write_word nb_cis (plain m) d) [0..<n] (cl, flat w) = (cl', flat w')
    \<and> its_at nb_cis m d w' (\<lambda>_. 8 * n) its' \<and> scattered nb_cis m w'"
proof (induction n)
  case (Suc n)
  then obtain its' cl' w' where "fold (\<lambda>i s. Option.bind s (gather_word nb_cis m d i)) [0..<n] (Some (its, cl, w)) = Some (its', cl', w')"
    "fold (write_word nb_cis (plain m) d) [0..<n] (cl, flat w) = (cl', flat w')"
    "its_at nb_cis m d w' (\<lambda>_. 8 * n) its'" "scattered nb_cis m w'" by blast
  with gather_word_refines [OF this(4) assms(2) this(3), of cl'] show ?case by auto
qed (use assms in simp)

text \<open>A run of the scattered transfer and the run of the plain one.\<close>

definition line_refines :: "nat \<Rightarrow> dpu_transfer_matrix \<Rightarrow> (u64 list \<times> xeon_sp_world) option \<Rightarrow> (u64 list \<times> xeon_sp_world) option \<Rightarrow> bool" where
  "line_refines nb_cis m r r' \<longleftrightarrow> (\<exists>cl w. r = Some (cl, w) \<and> r' = Some (cl, flat w) \<and> scattered nb_cis m w)"

lemma write_line_refines:
  assumes "scattered nb_cis m w" "d < 8" "tm_type m = DPU_SG_XFER_MATRIX"
  shows "line_refines nb_cis m (write_line nb_cis m d (cl, w)) (write_line nb_cis (plain m) d (cl, flat w))"
proof (cases "do_dpu_transfer nb_cis m d")
  case False
  then show ?thesis using assms(1) by (simp add: line_refines_def write_line_def plain_simps)
next
  case True
  obtain its where its: "init_iterators nb_cis m d w = Some its" "its_at nb_cis m d w (\<lambda>_. 0) its"
    using init_at [OF assms(1,2)] by blast
  from gather_words_refine [OF assms(1,2) its(2), of "nr_words m" cl] show ?thesis
    using True its(1) assms(3)
    by (auto simp: line_refines_def write_line_def plain_simps DPU_DEFAULT_XFER_MATRIX_def DPU_SG_XFER_MATRIX_def)
qed

lemma write_lines_refine:
  assumes "tm_type m = DPU_SG_XFER_MATRIX" "\<forall>d \<in> set ds. d < 8"
  shows "line_refines nb_cis m r r' \<Longrightarrow> line_refines nb_cis m (fold (\<lambda>d s. Option.bind s (write_line nb_cis m d)) ds r)
    (fold (\<lambda>d s. Option.bind s (write_line nb_cis (plain m) d)) ds r')"
  using assms(2)
proof (induction ds arbitrary: r r')
  case (Cons d ds)
  from Cons.prems(1) obtain cl w where "r = Some (cl, w)" "r' = Some (cl, flat w)" "scattered nb_cis m w"
    by (auto simp: line_refines_def)
  with write_line_refines [OF this(3) _ assms(1), of d cl] Cons.prems(2) Cons.IH show ?case by simp
qed simp

lemma threads_write_refine:
  assumes "scattered nb_cis m w" "b \<le> 8" "tm_type m = DPU_SG_XFER_MATRIX"
  shows "\<exists>w'. threads_write_to_rank nb_cis m cl a b w = Some w' \<and> threads_write_to_rank nb_cis (plain m) cl a b (flat w) = Some (flat w')
    \<and> scattered nb_cis m w'"
proof (cases "tm_size m = 0")
  case False
  have "\<forall>d \<in> set [a..<b]. d < 8" "line_refines nb_cis m (Some (cl, w)) (Some (cl, flat w))"
    using assms(1,2) by (auto simp: line_refines_def)
  from write_lines_refine [OF assms(3) this] False show ?thesis
    by (auto simp: line_refines_def threads_write_to_rank_def plain_simps)
qed (use assms in \<open>simp add: threads_write_to_rank_def plain_simps\<close>)

section \<open>A transfer of scattered buffers\<close>

text \<open>
  C12: a write of scattered buffers refines the plain one: whatever the lengths of the blocks, the
  threads, their order and what the uninitialised arrays hold, the region is what a write of the same
  buffers copied together and padded with zeros leaves, provided that no block is empty and the array
  of zeros holds zeros.
\<close>

theorem sg_write_refines:
  assumes "scattered nb_cis m w" "tm_type m = DPU_SG_XFER_MATRIX" "unat nb_dpus \<le> 8"
  shows "\<exists>w'. xeon_sp_do_xfer thread_mram_xfer_write conf nb_cis nb_dpus m garbage order w = Some w'
    \<and> xeon_sp_do_xfer thread_mram_xfer_write conf nb_cis nb_dpus (plain m) garbage order (flat w) = Some (flat w')"
proof -
  have "\<exists>w'. xeon_sp_do_xfer thread_mram_xfer_write conf nb_cis nb_dpus m garbage order w = Some w'
    \<and> xeon_sp_do_xfer thread_mram_xfer_write conf nb_cis nb_dpus (plain m) garbage order (flat w) = Some (flat w')
    \<and> scattered nb_cis m w'"
  proof (induction order rule: rev_induct)
    case (snoc t ts)
    then obtain w1 where run: "xeon_sp_do_xfer thread_mram_xfer_write conf nb_cis nb_dpus m garbage ts w = Some w1"
      "xeon_sp_do_xfer thread_mram_xfer_write conf nb_cis nb_dpus (plain m) garbage ts (flat w) = Some (flat w1)"
      "scattered nb_cis m w1" by blast
    show ?case
    proof (cases "thread_share nb_dpus (nb_threads_for_xfer conf (tm_size m)) t")
      case (Some ab)
      then obtain a b where ab: "thread_share nb_dpus (nb_threads_for_xfer conf (tm_size m)) t = Some (a, b)" by (metis surj_pair)
      then have "unat b \<le> 8" using share_range [OF ab] assms(3) by linarith
      from threads_write_refine [OF run(3) this assms(2), of "garbage t" "unat a"] run ab show ?thesis
        by (auto simp: xeon_sp_do_xfer_def thread_do_mram_xfer_def plain_simps)
    qed (use run in \<open>simp add: xeon_sp_do_xfer_def thread_do_mram_xfer_def plain_simps\<close>)
  qed (use assms(1) in \<open>simp add: xeon_sp_do_xfer_def\<close>)
  then show ?thesis by blast
qed

text \<open>Twelve bytes in two blocks for each DPU, for a transfer of 16.\<close>

definition sample_scattered :: xeon_sp_world where
  "sample_scattered = sample_host\<lparr>sg_blocks := (\<lambda>_. [[1, 2, 3], [4, 5, 6, 7, 8, 9, 10, 11, 12]]), zeros := replicate 4096 0\<rparr>"

definition sample_sg_transfer :: dpu_transfer_matrix where
  "sample_sg_transfer = sample_transfer 1\<lparr>tm_type := DPU_SG_XFER_MATRIX\<rparr>"

lemma replicate_zeros: "set (replicate n (0 :: u8)) \<subseteq> {0}"
  by auto

theorem sg_write_refines_witness:
  "\<exists>w'. xeon_sp_do_xfer thread_mram_xfer_write (sample_pool 4) 8 8 sample_sg_transfer (\<lambda>_. replicate 8 0) [3, 1, 0, 2] sample_scattered = Some w'
    \<and> xeon_sp_do_xfer thread_mram_xfer_write (sample_pool 4) 8 8 (plain sample_sg_transfer) (\<lambda>_. replicate 8 0) [3, 1, 0, 2]
        (flat sample_scattered) = Some (flat w')"
proof -
  have "zeros sample_scattered = replicate 4096 0" by (simp add: sample_scattered_def)
  moreover have "(replicate 4096 0 :: u8 list) \<noteq> []" by (simp add: replicate_empty)
  ultimately have "scattered 8 sample_sg_transfer sample_scattered"
    using replicate_zeros [of 4096] unfolding scattered_def sg_wf_def by (simp add: sample_scattered_def)
  moreover have "tm_type sample_sg_transfer = DPU_SG_XFER_MATRIX" "unat (8 :: u8) \<le> 8" by (simp_all add: sample_sg_transfer_def)
  ultimately show ?thesis by (rule sg_write_refines)
qed

text \<open>
  Reading a word that reaches past the last block does write behind it: into the array of zeros, which
  then is no longer one for the writes to come.
\<close>

lemma read_spoils_zeros:
  "write_next_eight_bytes [x0, x1, x2, x3, x4, x5, x6, x7] ([[b0, b1, b2, b3]] @ [z0 # z1 # z2 # z3 # z4 # zs]) \<lparr>it_block = 0, it_index = 0\<rparr>
    = Some ([[x0, x1, x2, x3]] @ [x4 # x5 # x6 # x7 # z4 # zs], \<lparr>it_block = 1, it_index = 4\<rparr>)"
  by (simp add: write_next_eight_bytes_def Let_def get_next_byte_def in_block_def go_to_next_block_def)

end
