(* ===== verification/Xeon_Read.thy ===== *)
theory Xeon_Read
  imports Xeon_Transfer
begin

text \<open>
  Reading a matrix with the threads of a pool (\<^verbatim>\<open>xeon_sp_translation.c\<close>), and a read behind a write.
\<close>

section \<open>One word of a line\<close>

lemma get_line_word:
  assumes "d < 8" "ci < 8"
  shows "word_of_bytes (take 8 (drop (8 * ci) (get_line d i m w))) = mram_word (region w) d ci (word_addr m i)"
proof -
  let ?L = "64 * line_number d (word_addr m i)"
  have "take 8 (drop (8 * ci) (get_line d i m w)) = map (\<lambda>k. region w (?L + 8 * k + ci)) [0..<8]"
  proof (rule nth_equalityI)
    fix k assume "k < length (take 8 (drop (8 * ci) (get_line d i m w)))"
    then have k: "k < 8" by simp
    have "8 * ci + k < 64" "transposed (8 * ci + k) = 8 * k + ci" using k assms(2) by (simp_all add: transposed_def)
    then show "take 8 (drop (8 * ci) (get_line d i m w)) ! k = map (\<lambda>k. region w (?L + 8 * k + ci)) [0..<8] ! k"
      using k assms by (simp add: get_line_def load_bytes_def avx2_transposes picked_simps line_of_word(1) add.assoc)
  qed (use assms(2) in \<open>simp add: get_line_def load_bytes_def avx2_transposes picked_simps\<close>)
  then show ?thesis by (simp add: mram_word_def line_of_word(2) [OF assms(1)])
qed

text \<open>
  The words \<open>W\<close> have been read: the buffers have the words of the MRAMs, everything else is as before.
\<close>

definition to_buffer :: "nat \<Rightarrow> dpu_transfer_matrix \<Rightarrow> nat \<Rightarrow> u64 \<Rightarrow> nat \<Rightarrow> bool" where
  "to_buffer nb_cis m d p ci \<longleftrightarrow> ci < nb_cis \<and> has_buffer m d ci \<and> buffer m d ci = p"

definition fetched :: "nat \<Rightarrow> dpu_transfer_matrix \<Rightarrow> (nat \<times> nat) set \<Rightarrow> xeon_sp_world \<Rightarrow> xeon_sp_world \<Rightarrow> bool" where
  "fetched nb_cis m W w0 w \<longleftrightarrow>
     (\<forall>d i p ci. (d, i) \<in> W \<and> to_buffer nb_cis m d p ci \<longrightarrow> xfer_words w p i = mram_word (region w0) d ci (word_addr m i))
     \<and> (\<forall>p i. (\<forall>d ci. (d, i) \<in> W \<longrightarrow> \<not> to_buffer nb_cis m d p ci) \<longrightarrow> xfer_words w p i = xfer_words w0 p i)
     \<and> region w = region w0 \<and> sg_blocks w = sg_blocks w0 \<and> zeros w = zeros w0"

text \<open>No two DPUs of the transfer share a buffer.\<close>

definition distinct_buffers :: "nat \<Rightarrow> dpu_transfer_matrix \<Rightarrow> bool" where
  "distinct_buffers nb_cis m \<longleftrightarrow> (\<forall>d < 8. \<forall>e < 8. \<forall>ci < nb_cis. \<forall>cj < nb_cis.
     has_buffer m d ci \<and> has_buffer m e cj \<and> buffer m d ci = buffer m e cj \<longrightarrow> d = e \<and> ci = cj)"

lemma one_buffer:
  "distinct_buffers nb_cis m \<Longrightarrow> to_buffer nb_cis m d p ci \<Longrightarrow> to_buffer nb_cis m e p cj \<Longrightarrow> d < 8 \<Longrightarrow> e < 8 \<Longrightarrow> d = e \<and> ci = cj"
  unfolding distinct_buffers_def to_buffer_def by blast

lemma read_word_cis:
  assumes d: "d < 8" "n \<le> 8" and line: "\<And>ci. ci < 8 \<Longrightarrow> f ci = mram_word (region w) d ci (word_addr m i)"
    and distinct: "distinct_buffers nb_cis m" "n \<le> nb_cis"
  defines "w' \<equiv> fold (\<lambda>ci w. if has_buffer m d ci
           then w\<lparr>xfer_words := (xfer_words w)(buffer m d ci := (xfer_words w (buffer m d ci))(i := f ci))\<rparr>
           else w) [0..<n] w"
  shows "(\<forall>p ci. to_buffer n m d p ci \<longrightarrow> xfer_words w' p i = mram_word (region w) d ci (word_addr m i))
     \<and> (\<forall>p j. (j = i \<longrightarrow> (\<forall>ci. \<not> to_buffer n m d p ci)) \<longrightarrow> xfer_words w' p j = xfer_words w p j)
     \<and> region w' = region w \<and> sg_blocks w' = sg_blocks w \<and> zeros w' = zeros w"
  using d(2) distinct(2) unfolding w'_def
proof (induction n)
  case (Suc n)
  have n: "n < 8" using Suc.prems by simp
  have other: "ci = n" if "to_buffer (Suc n) m d (buffer m d n) ci" "has_buffer m d n" for ci
    using that distinct(1) d(1) Suc.prems by (auto simp: distinct_buffers_def to_buffer_def)
  have split: "to_buffer (Suc n) m d p ci \<longleftrightarrow> to_buffer n m d p ci \<or> ci = n \<and> has_buffer m d n \<and> buffer m d n = p" for p ci
    by (auto simp: to_buffer_def less_Suc_eq)
  show ?case
  proof (cases "has_buffer m d n")
    case True
    have "\<not> to_buffer n m d (buffer m d n) ci" for ci
      using other [OF _ True, of ci] by (auto simp: to_buffer_def)
    with Suc True line [OF n] show ?thesis unfolding split by auto
  qed (use Suc in \<open>simp add: split\<close>)
qed (simp add: to_buffer_def)

lemma read_word_step:
  assumes n8: "nb_cis \<le> 8" and d: "d < 8" and distinct: "distinct_buffers nb_cis m"
    and W: "\<forall>(e, j) \<in> W. e < 8" and before: "fetched nb_cis m W w0 w"
  shows "fetched nb_cis m (insert (d, i) W) w0 (read_word nb_cis m d i w)"
proof -
  let ?w = "read_word nb_cis m d i w"
  have run: "(\<forall>p ci. to_buffer nb_cis m d p ci \<longrightarrow> xfer_words ?w p i = mram_word (region w) d ci (word_addr m i))
     \<and> (\<forall>p j. (j = i \<longrightarrow> (\<forall>ci. \<not> to_buffer nb_cis m d p ci)) \<longrightarrow> xfer_words ?w p j = xfer_words w p j)
     \<and> region ?w = region w \<and> sg_blocks ?w = sg_blocks w \<and> zeros ?w = zeros w"
    unfolding read_word_def Let_def by (rule read_word_cis [OF d n8 get_line_word [OF d] distinct order_refl])
  have region: "region w = region w0" using before by (simp add: fetched_def)
  show ?thesis unfolding fetched_def
  proof (intro conjI allI impI; (elim conjE)?)
    fix e j p ci assume e: "(e, j) \<in> insert (d, i) W" "to_buffer nb_cis m e p ci"
    show "xfer_words ?w p j = mram_word (region w0) e ci (word_addr m j)"
    proof (cases "(e, j) = (d, i)")
      case True
      then show ?thesis using run e(2) region by simp
    next
      case False
      then have "(e, j) \<in> W" using e(1) by blast
      moreover from this have "e < 8" using W by auto
      then have "j = i \<longrightarrow> (\<forall>cj. \<not> to_buffer nb_cis m d p cj)"
        using one_buffer [OF distinct e(2) _ _ d] False by blast
      ultimately show ?thesis using run before e(2) by (simp add: fetched_def)
    qed
  next
    fix p j assume "\<forall>e ci. (e, j) \<in> insert (d, i) W \<longrightarrow> \<not> to_buffer nb_cis m e p ci"
    then show "xfer_words ?w p j = xfer_words w0 p j" using run before by (simp add: fetched_def)
  qed (use run before in \<open>simp_all add: fetched_def\<close>)
qed

lemma read_words:
  assumes "nb_cis \<le> 8" "d < 8" "distinct_buffers nb_cis m" "\<forall>(e, j) \<in> W. e < 8" "fetched nb_cis m W w0 w"
  shows "fetched nb_cis m (W \<union> {d} \<times> {..<n}) w0 (fold (read_word nb_cis m d) [0..<n] w)"
proof (induction n)
  case (Suc n)
  have "W \<union> {d} \<times> {..<Suc n} = insert (d, n) (W \<union> {d} \<times> {..<n})" by auto
  moreover have "\<forall>(e, j) \<in> W \<union> {d} \<times> {..<n}. e < 8" using assms(2,4) by auto
  ultimately show ?case using read_word_step [OF assms(1-3) _ Suc, of n] by simp
qed (use assms(5) in simp)

lemma read_line_step:
  assumes n8: "nb_cis \<le> 8" and plain: "tm_type m \<noteq> DPU_SG_XFER_MATRIX" and d: "d < 8" and D: "D \<subseteq> {..<8}"
    and distinct: "distinct_buffers nb_cis m" and before: "fetched nb_cis m (lines_of nb_cis m D) w0 w"
  shows "\<exists>w'. read_line nb_cis m d w = Some w' \<and> fetched nb_cis m (lines_of nb_cis m (insert d D)) w0 w'"
proof (cases "do_dpu_transfer nb_cis m d")
  case True
  have "\<forall>(e, j) \<in> lines_of nb_cis m D. e < 8" using lines_of_bounds [OF D, of nb_cis m] by auto
  from read_words [OF n8 d distinct this before, of "nr_words m"] True plain
  show ?thesis by (simp add: read_line_def lines_of_simps)
next
  case False
  then show ?thesis using before by (simp add: read_line_def lines_of_simps)
qed

lemma read_lines:
  assumes n8: "nb_cis \<le> 8" and plain: "tm_type m \<noteq> DPU_SG_XFER_MATRIX" and D: "D \<subseteq> {..<8}"
    and distinct: "distinct_buffers nb_cis m" and before: "fetched nb_cis m (lines_of nb_cis m D) w0 w"
  shows "a \<le> b \<Longrightarrow> b \<le> 8 \<Longrightarrow> \<exists>w'. fold (\<lambda>d s. Option.bind s (read_line nb_cis m d)) [a..<b] (Some w) = Some w'
    \<and> fetched nb_cis m (lines_of nb_cis m (D \<union> {a..<b})) w0 w'"
proof (induction b)
  case (Suc b)
  show ?case
  proof (cases "a = Suc b")
    case False
    then obtain w' where w': "fold (\<lambda>d s. Option.bind s (read_line nb_cis m d)) [a..<b] (Some w) = Some w'"
      "fetched nb_cis m (lines_of nb_cis m (D \<union> {a..<b})) w0 w'"
      using Suc.IH Suc.prems by auto
    have "D \<union> {a..<b} \<subseteq> {..<8}" "insert b (D \<union> {a..<b}) = D \<union> {a..<Suc b}" using D Suc.prems False by auto
    with read_line_step [OF n8 plain _ this(1) distinct w'(2), of b] w'(1) Suc.prems False show ?thesis by simp
  qed (use before in simp)
qed (use before in simp)

section \<open>Reading with a pool of threads\<close>

lemma threads_read:
  assumes "nb_cis \<le> 8" "tm_type m \<noteq> DPU_SG_XFER_MATRIX" "D \<subseteq> {..<8}" "distinct_buffers nb_cis m" "a \<le> b" "b \<le> 8"
    and "fetched nb_cis m (lines_of nb_cis m D) w0 w"
  shows "\<exists>w'. threads_read_from_rank nb_cis m a b w = Some w' \<and> fetched nb_cis m (lines_of nb_cis m (D \<union> {a..<b})) w0 w'"
proof (cases "tm_size m = 0")
  case True
  then have "lines_of nb_cis m E = {}" for E by (simp add: lines_of_def nr_words_def)
  with True assms(7) show ?thesis by (simp add: threads_read_from_rank_def)
next
  case False
  then show ?thesis using read_lines [OF assms(1-4,7,5,6)] by (simp add: threads_read_from_rank_def)
qed

lemma thread_read:
  assumes "nb_cis \<le> 8" "tm_type m \<noteq> DPU_SG_XFER_MATRIX" "D \<subseteq> {..<8}" "distinct_buffers nb_cis m" "unat nb_dpus \<le> 8"
    and "fetched nb_cis m (lines_of nb_cis m D) w0 w"
  shows "\<exists>w'. thread_do_mram_xfer thread_mram_xfer_read nb_cis nb_dpus n m garbage t w = Some w'
    \<and> fetched nb_cis m (lines_of nb_cis m (D \<union> share nb_dpus n t)) w0 w'"
proof (cases "thread_share nb_dpus n t")
  case (Some ab)
  then obtain a b where ab: "thread_share nb_dpus n t = Some (a, b)" by (metis surj_pair)
  then have "unat a \<le> unat b" "unat b \<le> 8" using share_range [of nb_dpus n t a b] assms(5) by linarith+
  from threads_read [OF assms(1-4) this assms(6)] ab show ?thesis by (simp add: thread_do_mram_xfer_def share_def)
qed (use assms in \<open>simp add: thread_do_mram_xfer_def share_def\<close>)

lemma pool_read:
  assumes fits: "nb_cis \<le> 8" "tm_type m \<noteq> DPU_SG_XFER_MATRIX" "distinct_buffers nb_cis m" "unat nb_dpus \<le> 8"
  shows "D \<subseteq> {..<8} \<Longrightarrow> fetched nb_cis m (lines_of nb_cis m D) w0 w \<Longrightarrow>
    \<exists>w'. fold (\<lambda>t s. Option.bind s (thread_do_mram_xfer thread_mram_xfer_read nb_cis nb_dpus n m garbage t)) ts (Some w) = Some w'
    \<and> fetched nb_cis m (lines_of nb_cis m (D \<union> (\<Union>t \<in> set ts. share nb_dpus n t))) w0 w'"
proof (induction ts arbitrary: D w)
  case (Cons t ts)
  obtain w1 where w1: "thread_do_mram_xfer thread_mram_xfer_read nb_cis nb_dpus n m garbage t w = Some w1"
    "fetched nb_cis m (lines_of nb_cis m (D \<union> share nb_dpus n t)) w0 w1"
    using thread_read [OF fits(1,2) Cons.prems(1) fits(3,4) Cons.prems(2), of n garbage t] by blast
  have "D \<union> share nb_dpus n t \<subseteq> {..<8}" using Cons.prems(1) share_within [of nb_dpus n t] fits(4) by fastforce
  from Cons.IH [OF this w1(2)] w1(1) show ?case by (simp add: Un_assoc)
qed simp

text \<open>A read of a matrix by the threads of a pool, in whatever order they run.\<close>

lemma xfer_read:
  assumes "nb_cis \<le> 8" "tm_type m \<noteq> DPU_SG_XFER_MATRIX" "distinct_buffers nb_cis m" "unat nb_dpus \<le> 8"
    and "nb_thread_per_pool c \<noteq> 0"
    and "\<forall>t < nb_threads_for_xfer (xeon_sp_set_configuration c) (tm_size m). t \<in> set order"
  shows "\<exists>w'. xeon_sp_do_xfer thread_mram_xfer_read (xeon_sp_set_configuration c) nb_cis nb_dpus m garbage order w = Some w'
    \<and> fetched nb_cis m (lines_of nb_cis m {..<unat nb_dpus}) w w'"
proof -
  let ?n = "nb_threads_for_xfer (xeon_sp_set_configuration c) (tm_size m)"
  have "fetched nb_cis m (lines_of nb_cis m {}) w w" by (simp add: fetched_def lines_of_simps)
  from pool_read [OF assms(1-4) _ this, where n = ?n and ts = order and garbage = garbage]
  show ?thesis using shares_cover [OF threads_of_pool [OF assms(5)] assms(6)] by (simp add: xeon_sp_do_xfer_def)
qed

section \<open>A read behind a write\<close>

text \<open>
  C11: the threads of a pool write the matrix \<open>m\<close>, then the threads of a pool read the matrix \<open>m'\<close> of the
  same offset and size, each in whatever order and number: the words that come back in the buffers of
  \<open>m'\<close> are those that went out from the buffers of \<open>m\<close>, for every DPU that has a buffer in both.
\<close>

theorem xfer_round_trip:
  assumes fits: "transfer_fits nb_cis m" and plain: "tm_type m \<noteq> DPU_SG_XFER_MATRIX" "tm_type m' \<noteq> DPU_SG_XFER_MATRIX"
    and same: "tm_offset m' = tm_offset m" "tm_size m' = tm_size m"
    and distinct: "distinct_buffers nb_cis m'" and garbage: "\<forall>t. length (garbage t) = 8" and nb: "unat nb_dpus \<le> 8"
    and pools: "nb_thread_per_pool c \<noteq> 0" "nb_thread_per_pool c' \<noteq> 0"
    and orders: "\<forall>t < nb_threads_for_xfer (xeon_sp_set_configuration c) (tm_size m). t \<in> set order"
      "\<forall>t < nb_threads_for_xfer (xeon_sp_set_configuration c') (tm_size m'). t \<in> set order'"
  shows "\<exists>w1 w2. xeon_sp_do_xfer thread_mram_xfer_write (xeon_sp_set_configuration c) nb_cis nb_dpus m garbage order w = Some w1
    \<and> xeon_sp_do_xfer thread_mram_xfer_read (xeon_sp_set_configuration c') nb_cis nb_dpus m' garbage order' w1 = Some w2
    \<and> (\<forall>d < unat nb_dpus. \<forall>ci < nb_cis. \<forall>i < nr_words m. has_buffer m d ci \<and> has_buffer m' d ci \<longrightarrow>
         xfer_words w2 (buffer m' d ci) i = xfer_words w (buffer m d ci) i)"
proof -
  have n8: "nb_cis \<le> 8" using fits by (simp add: transfer_fits_def)
  obtain w1 where w1: "xeon_sp_do_xfer thread_mram_xfer_write (xeon_sp_set_configuration c) nb_cis nb_dpus m garbage order w = Some w1"
    "written nb_cis m (lines_of nb_cis m {..<unat nb_dpus}) w w1"
    using xfer_written [OF fits plain(1) garbage nb pools(1) orders(1)] by blast
  obtain w2 where w2: "xeon_sp_do_xfer thread_mram_xfer_read (xeon_sp_set_configuration c') nb_cis nb_dpus m' garbage order' w1 = Some w2"
    "fetched nb_cis m' (lines_of nb_cis m' {..<unat nb_dpus}) w1 w2"
    using xfer_read [OF n8 plain(2) distinct nb pools(2) orders(2)] by blast
  have "xfer_words w2 (buffer m' d ci) i = xfer_words w (buffer m d ci) i"
    if "d < unat nb_dpus" "ci < nb_cis" "i < nr_words m" "has_buffer m d ci" "has_buffer m' d ci" for d ci i
  proof -
    have "(d, i) \<in> lines_of nb_cis m {..<unat nb_dpus}" "(d, i) \<in> lines_of nb_cis m' {..<unat nb_dpus}"
      using that same(2) by (auto simp: lines_of_def do_dpu_transfer_def list_ex_iff nr_words_def)
    moreover have "word_addr m' i = word_addr m i" by (simp add: word_addr_def same(1))
    moreover have "to_buffer nb_cis m' d (buffer m' d ci) ci" using that by (simp add: to_buffer_def)
    ultimately show ?thesis using w1(2) w2(2) that unfolding fetched_def written_def by fastforce
  qed
  with w1(1) w2(1) show ?thesis by blast
qed

lemma sample_distinct: "distinct_buffers 8 (sample_transfer base)"
  unfolding distinct_buffers_def
proof (intro allI impI; elim conjE)
  fix d e ci cj :: nat assume below: "d < 8" "e < 8" "ci < 8" "cj < 8" and eq: "buffer (sample_transfer base) d ci = buffer (sample_transfer base) e cj"
  have "(of_nat (8 * d + ci) :: u64) = of_nat (8 * e + cj)" using eq sample_buffer [OF below(1,3)] sample_buffer [OF below(2,4)] by simp
  moreover have "8 * d + ci < 64" "8 * e + cj < 64" using below by simp_all
  ultimately have "8 * d + ci = 8 * e + cj"
    using unat_small64 [of "8 * d + ci"] unat_small64 [of "8 * e + cj"] by simp
  with below show "d = e \<and> ci = cj" by presburger
qed

theorem xfer_round_trip_witness:
  "\<exists>w1 w2. xeon_sp_do_xfer thread_mram_xfer_write (xeon_sp_set_configuration (sample_pool 4)) 8 8 (sample_transfer 1)
      (\<lambda>_. replicate 8 0) [3, 1, 0, 2] sample_host = Some w1
    \<and> xeon_sp_do_xfer thread_mram_xfer_read (xeon_sp_set_configuration (sample_pool 1)) 8 8 (sample_transfer 0x1000)
      (\<lambda>_. replicate 8 0) [0] w1 = Some w2
    \<and> xfer_words w2 0x102A 1 = 0x2B01"
proof -
  have pools: "nb_thread_per_pool (sample_pool 4) \<noteq> 0" "nb_thread_per_pool (sample_pool 1) \<noteq> 0" by (simp_all add: sample_fits)
  have order: "\<forall>t < nb_threads_for_xfer (xeon_sp_set_configuration (sample_pool 4)) (tm_size (sample_transfer 1)). t \<in> set [3, 1, 0, 2]"
    unfolding sample_threads by (rule sample_order)
  have order': "\<forall>t < nb_threads_for_xfer (xeon_sp_set_configuration (sample_pool 1)) (tm_size (sample_transfer 0x1000)). t \<in> set [0]"
    unfolding sample_threads by simp
  have arrays: "\<forall>t :: u8. length ((\<lambda>_. replicate 8 (0 :: u64)) t) = 8" and eight: "unat (8 :: u8) \<le> 8" by simp_all
  have same: "tm_offset (sample_transfer 0x1000) = tm_offset (sample_transfer 1)" "tm_size (sample_transfer 0x1000) = tm_size (sample_transfer 1)"
    by (simp_all add: sample_transfer_def)
  obtain w1 w2 where runs: "xeon_sp_do_xfer thread_mram_xfer_write (xeon_sp_set_configuration (sample_pool 4)) 8 8 (sample_transfer 1)
      (\<lambda>_. replicate 8 0) [3, 1, 0, 2] sample_host = Some w1"
    "xeon_sp_do_xfer thread_mram_xfer_read (xeon_sp_set_configuration (sample_pool 1)) 8 8 (sample_transfer 0x1000)
      (\<lambda>_. replicate 8 0) [0] w1 = Some w2"
    and all: "\<forall>d < unat (8 :: u8). \<forall>ci < 8. \<forall>i < nr_words (sample_transfer 1).
      has_buffer (sample_transfer 1) d ci \<and> has_buffer (sample_transfer 0x1000) d ci \<longrightarrow>
         xfer_words w2 (buffer (sample_transfer 0x1000) d ci) i = xfer_words sample_host (buffer (sample_transfer 1) d ci) i"
    using xfer_round_trip [OF sample_fits(1,2,2) same sample_distinct arrays eight pools order order', of sample_host] by blast
  have five: "5 < unat (8 :: u8)" "(2 :: nat) < 8" "1 < nr_words (sample_transfer 1)" "has_buffer (sample_transfer 1) 5 2"
      "has_buffer (sample_transfer 0x1000) 5 2"
    by (simp_all add: sample_fits sample_has_buffer)
  have "xfer_words w2 (buffer (sample_transfer 0x1000) 5 2) 1 = xfer_words sample_host (buffer (sample_transfer 1) 5 2) 1"
    using all five by simp
  then have "xfer_words w2 0x102A 1 = 0x2B01" by (simp add: sample_buffer sample_host_def)
  with runs show ?thesis by blast
qed

end
