(* ===== verification/Xeon_Gather.thy ===== *)
theory Xeon_Gather
  imports Xeon_Scatter Xeon_Read
begin

text \<open>
  Reading into scattered buffers (\<^verbatim>\<open>xeon_sp_translation.c\<close>): as long as the blocks have room for
  the transfer, it leaves in them what a read into buffers of one piece would.
\<close>

section \<open>Storing the next eight bytes\<close>

lemma put_twice:
  assumes "p < length xs"
  shows "put_in_block bs (Suc p) (put_in_block [b] p xs) = put_in_block (b # bs) p xs"
  using assms by (simp add: put_in_block_def min_def add.commute)

lemma put_byte: "k < length xs \<Longrightarrow> xs[k := b] = put_in_block [b] k xs"
  by (simp add: put_in_block_def upd_conv_take_nth_drop)

lemma length_put: "k + length bs \<le> length xs \<Longrightarrow> length (put_in_block bs k xs) = length xs"
  by (simp add: put_in_block_def)

lemma nth_put:
  assumes "k + length bs \<le> length xs" "j < length xs"
  shows "put_in_block bs k xs ! j = (if k \<le> j \<and> j < k + length bs then bs ! (j - k) else xs ! j)"
  using assms by (auto simp: put_in_block_def nth_append min_def)

lemma put_concat:
  assumes "b < length blocks" "k + length bs \<le> length (blocks ! b)"
  shows "concat (blocks[b := put_in_block bs k (blocks ! b)]) = put_in_block bs (length (concat (take b blocks)) + k) (concat blocks)"
proof -
  have c: "concat blocks = concat (take b blocks) @ blocks ! b @ concat (drop (Suc b) blocks)"
    using arg_cong [OF id_take_nth_drop [OF assms(1)], of concat] by simp
  have "concat (blocks[b := put_in_block bs k (blocks ! b)])
      = concat (take b blocks) @ put_in_block bs k (blocks ! b) @ concat (drop (Suc b) blocks)"
    by (simp add: upd_conv_take_nth_drop [OF assms(1)])
  then show ?thesis using assms(2) unfolding c by (simp add: put_in_block_def)
qed

text \<open>The same blocks with other bytes.\<close>

definition same_shape :: "u8 list list \<Rightarrow> u8 list list \<Rightarrow> bool" where
  "same_shape blocks blocks' \<longleftrightarrow> map length blocks' = map length blocks"

lemma same_shape_simps:
  assumes "same_shape blocks blocks'"
  shows "it_at blocks' zs p it \<longleftrightarrow> it_at blocks zs p it" "sg_wf blocks' zs \<longleftrightarrow> sg_wf blocks zs"
    "length (concat blocks') = length (concat blocks)" "blocks' = [] \<longleftrightarrow> blocks = []"
proof -
  have len: "length blocks' = length blocks" using assms map_eq_imp_length_eq unfolding same_shape_def by blast
  have nth: "length (blocks' ! i) = length (blocks ! i)" if "i < length blocks" for i
    using assms that len unfolding same_shape_def by (metis nth_map)
  have sums: "length (concat (take n blocks')) = length (concat (take n blocks))" for n
    using assms by (simp add: same_shape_def length_concat take_map [symmetric])
  from sums [of "length blocks"] len show all: "length (concat blocks') = length (concat blocks)" by simp
  show "it_at blocks' zs p it \<longleftrightarrow> it_at blocks zs p it"
    using len nth sums all by (auto simp: it_at_def)
  have "[] \<in> set xs \<longleftrightarrow> 0 \<in> set (map length xs)" for xs :: "u8 list list" by force
  then show "sg_wf blocks' zs \<longleftrightarrow> sg_wf blocks zs" using assms by (simp only: sg_wf_def same_shape_def)
  show "blocks' = [] \<longleftrightarrow> blocks = []" using len by auto
qed

lemma same_shape_update:
  "b < length blocks \<Longrightarrow> length block = length (blocks ! b) \<Longrightarrow> same_shape blocks (blocks[b := block])"
  by (simp add: same_shape_def map_update) (metis length_map list_update_id nth_map)

lemma same_shape_trans: "same_shape a b \<Longrightarrow> same_shape b c \<Longrightarrow> same_shape a c"
  by (simp add: same_shape_def)

lemma put_bytes_at:
  assumes "sg_wf blocks zs"
  shows "it_at blocks zs p it \<Longrightarrow> p + length bs \<le> length (concat blocks) \<Longrightarrow> sg_wf blocks zs \<Longrightarrow>
    \<exists>blocks' it'. put_bytes bs (blocks @ [zs]) it = Some (blocks' @ [zs], it') \<and> same_shape blocks blocks'
      \<and> concat blocks' = put_in_block bs p (concat blocks) \<and> it_at blocks zs (p + length bs) it'"
proof (induction bs arbitrary: blocks p it)
  case Nil
  then show ?case by (simp add: put_in_block_def same_shape_def)
next
  case (Cons x bs)
  obtain b k it1 where step: "get_next_byte (blocks @ [zs]) it = ((b, k), it1)" "in_block (blocks @ [zs]) (b, k)"
    "(blocks @ [zs]) ! b ! k = padded blocks p" "it_at blocks zs (Suc p) it1"
    by (rule at_byte [OF Cons.prems(3,1)])
  have place: "b = it_block it" "k = it_index it" using step(1) by (auto simp: get_next_byte_def Let_def split: if_splits)
  have b: "b < length blocks" "k < length (blocks ! b)" "p = length (concat (take b blocks)) + k"
    using Cons.prems(1,2) unfolding place by (auto simp: it_at_def)
  define blocks1 where "blocks1 = blocks[b := (blocks ! b)[k := x]]"
  have shape: "same_shape blocks blocks1" using b by (simp add: blocks1_def same_shape_update)
  note same = same_shape_simps [OF shape]
  have bytes: "concat blocks1 = put_in_block [x] p (concat blocks)"
    using put_concat [OF b(1), of k "[x]"] b by (simp add: blocks1_def put_byte)
  have "\<exists>blocks' it'. put_bytes bs (blocks1 @ [zs]) it1 = Some (blocks' @ [zs], it') \<and> same_shape blocks1 blocks'
      \<and> concat blocks' = put_in_block bs (Suc p) (concat blocks1) \<and> it_at blocks1 zs (Suc p + length bs) it'"
    using step(4) Cons.prems(2,3) by (intro Cons.IH) (simp_all add: same)
  then obtain blocks' it' where rest: "put_bytes bs (blocks1 @ [zs]) it1 = Some (blocks' @ [zs], it')" "same_shape blocks1 blocks'"
      "concat blocks' = put_in_block bs (Suc p) (concat blocks1)" "it_at blocks1 zs (Suc p + length bs) it'" by blast
  have "p < length (concat blocks)" using Cons.prems(2) by simp
  then have "concat blocks' = put_in_block (x # bs) p (concat blocks)" using rest(3) bytes by (simp add: put_twice)
  moreover have "put_bytes (x # bs) (blocks @ [zs]) it = Some (blocks' @ [zs], it')"
    using step(1,2) rest(1) b(1) by (simp add: blocks1_def nth_append list_update_append)
  moreover have "it_at blocks zs (p + length (x # bs)) it'" using rest(4) by (simp add: same)
  ultimately show ?case using same_shape_trans [OF shape rest(2)] by blast
qed

lemma put_eight_at:
  assumes wf: "sg_wf blocks zs" and at: "it_at blocks zs p it" and bs: "length bs = 8" and room: "p + 8 \<le> length (concat blocks)"
  shows "\<exists>blocks' it'. write_next_eight_bytes bs (blocks @ [zs]) it = Some (blocks' @ [zs], it') \<and> same_shape blocks blocks'
      \<and> concat blocks' = put_in_block bs p (concat blocks) \<and> it_at blocks zs (p + 8) it'"
proof -
  let ?b = "it_block it" and ?k = "it_index it"
  have b: "?b < length blocks" "?k < length (blocks ! ?b)" "p = length (concat (take ?b blocks)) + ?k"
    using at room by (auto simp: it_at_def)
  define blocks' where "blocks' = blocks[?b := put_in_block bs ?k (blocks ! ?b)]"
  have inside: "same_shape blocks blocks'" "concat blocks' = put_in_block bs p (concat blocks)" if "8 + ?k \<le> length (blocks ! ?b)"
    using that bs b put_concat [OF b(1), of ?k bs] by (simp_all add: blocks'_def same_shape_update length_put)
  consider "8 + ?k < length (blocks ! ?b)" | "length (blocks ! ?b) = 8 + ?k" | "length (blocks ! ?b) < 8 + ?k" by linarith
  then show ?thesis
  proof cases
    case 1
    then have "write_next_eight_bytes bs (blocks @ [zs]) it = Some (blocks' @ [zs], it\<lparr>it_index := ?k + 8\<rparr>)"
      using b(1) by (simp add: write_next_eight_bytes_def Let_def nth_append blocks'_def list_update_append)
    moreover have "it_at blocks zs (p + 8) (it\<lparr>it_index := ?k + 8\<rparr>)" using b 1 by (simp add: it_at_def)
    ultimately show ?thesis using inside 1 by auto
  next
    case 2
    then have "write_next_eight_bytes bs (blocks @ [zs]) it = Some (blocks' @ [zs], \<lparr>it_block = Suc ?b, it_index = 0\<rparr>)"
      using b(1) by (simp add: write_next_eight_bytes_def Let_def nth_append blocks'_def list_update_append go_to_next_block_def)
    moreover have "it_at blocks zs (p + 8) \<lparr>it_block = Suc ?b, it_index = 0\<rparr>"
      using next_block_at [OF wf b(1)] unfolding b(3) 2 by (simp only: ac_simps)
    ultimately show ?thesis using inside 2 by auto
  next
    case 3
    then have "write_next_eight_bytes bs (blocks @ [zs]) it = put_bytes bs (blocks @ [zs]) it"
      using b(1) by (simp add: write_next_eight_bytes_def Let_def nth_append)
    with put_bytes_at [OF wf at, of bs] bs room wf show ?thesis by simp
  qed
qed

section \<open>A line of scattered buffers\<close>

text \<open>The blocks of every buffer have room for the transfer.\<close>

definition roomy :: "nat \<Rightarrow> dpu_transfer_matrix \<Rightarrow> xeon_sp_world \<Rightarrow> bool" where
  "roomy nb_cis m w \<longleftrightarrow> scattered nb_cis m w \<and> (\<forall>d < 8. \<forall>ci < nb_cis. has_buffer m d ci \<longrightarrow>
     8 * nr_words m \<le> length (concat (sg_blocks w (buffer m d ci))))"

text \<open>The worlds of a run have blocks of the same shape.\<close>

definition same_host :: "xeon_sp_world \<Rightarrow> xeon_sp_world \<Rightarrow> bool" where
  "same_host w w' \<longleftrightarrow> (\<forall>p. same_shape (sg_blocks w p) (sg_blocks w' p)) \<and> zeros w' = zeros w \<and> region w' = region w"

lemma same_host_simps:
  assumes "same_host w w'"
  shows "its_at nb_cis m d w' pos its \<longleftrightarrow> its_at nb_cis m d w pos its" "roomy nb_cis m w' \<longleftrightarrow> roomy nb_cis m w"
    "get_line d i m w' = get_line d i m w"
proof -
  have shape: "same_shape (sg_blocks w p) (sg_blocks w' p)" for p using assms by (simp add: same_host_def)
  note same = same_shape_simps [OF shape]
  have "zeros w' = zeros w" "region w' = region w" using assms by (simp_all add: same_host_def)
  then show "its_at nb_cis m d w' pos its \<longleftrightarrow> its_at nb_cis m d w pos its" "roomy nb_cis m w' \<longleftrightarrow> roomy nb_cis m w"
    "get_line d i m w' = get_line d i m w"
    by (simp_all add: its_at_def same roomy_def scattered_def get_line_def)
qed

lemma same_host_trans: "same_host a b \<Longrightarrow> same_host b c \<Longrightarrow> same_host a c"
  using same_shape_trans by (simp add: same_host_def) blast

definition put_blocks :: "u64 \<Rightarrow> u8 list list \<Rightarrow> xeon_sp_world \<Rightarrow> xeon_sp_world" where
  "put_blocks p blocks w = w\<lparr>sg_blocks := (sg_blocks w)(p := blocks)\<rparr>"

lemma padded_put:
  assumes "concat blocks' = put_in_block bs (8 * i) (concat blocks)" "length bs = 8" "8 * i + 8 \<le> length (concat blocks)"
  shows "map (padded blocks') [8 * j..<8 * j + 8] = (if j = i then bs else map (padded blocks) [8 * j..<8 * j + 8])"
proof -
  have at: "padded blocks' k = (if 8 * i \<le> k \<and> k < 8 * i + 8 then bs ! (k - 8 * i) else padded blocks k)" for k
    using assms by (auto simp: padded_def length_put nth_put)
  have "map (padded blocks') [8 * i..<8 * i + 8] = bs"
    by (rule nth_equalityI) (use assms(2) at in simp_all)
  moreover have "padded blocks' k = padded blocks k" if "j \<noteq> i" "8 * j \<le> k" "k < 8 * j + 8" for k
  proof -
    have "\<not> (8 * i \<le> k \<and> k < 8 * i + 8)" using that by presburger
    then show ?thesis by (simp only: at if_False)
  qed
  ultimately show ?thesis by simp
qed

definition put_word :: "u64 \<Rightarrow> nat \<Rightarrow> u64 \<Rightarrow> xeon_sp_world \<Rightarrow> xeon_sp_world" where
  "put_word p i v w = w\<lparr>xfer_words := (xfer_words w)(p := (xfer_words w p)(i := v))\<rparr>"

lemma flat_put_blocks:
  assumes "concat blocks' = put_in_block bs (8 * i) (concat (sg_blocks w p))" "length bs = 8" "8 * i + 8 \<le> length (concat (sg_blocks w p))"
  shows "flat (put_blocks p blocks' w) = put_word p i (word_of_bytes bs) (flat w)"
  by (simp add: flat_def put_blocks_def put_word_def fun_eq_iff padded_put [OF assms])

lemma scatter_cis:
  assumes room: "roomy nb_cis m w" and i: "i < nr_words m" and d: "d < 8" and n8: "nb_cis \<le> 8" and line: "length l = 64"
    and at: "its_at nb_cis m d w (\<lambda>_. 8 * i) its"
  shows "n \<le> nb_cis \<Longrightarrow> \<exists>its' w'. fold (\<lambda>ci_id s. Option.bind s (\<lambda>(its, w).
           case its ! ci_id of None \<Rightarrow> Some (its, w)
           | Some it \<Rightarrow> map_option (\<lambda>(blocks, it). (its[ci_id := Some it],
                 w\<lparr>sg_blocks := (sg_blocks w)(buffer m d ci_id := butlast blocks), zeros := last blocks\<rparr>))
               (write_next_eight_bytes (take 8 (drop (8 * ci_id) l)) (sg_blocks w (buffer m d ci_id) @ [zeros w]) it)))
         [0..<n] (Some (its, w)) = Some (its', w')
     \<and> flat w' = fold (\<lambda>ci w. if has_buffer m d ci then put_word (buffer m d ci) i (word_of_bytes (take 8 (drop (8 * ci) l))) w else w) [0..<n] (flat w)
     \<and> same_host w w' \<and> its_at nb_cis m d w (\<lambda>ci. if ci < n then 8 * Suc i else 8 * i) its'"
proof (induction n)
  case 0
  then show ?case using at by (simp add: same_host_def same_shape_def)
next
  case (Suc n)
  let ?f = "\<lambda>ci_id s. Option.bind s (\<lambda>(its, w).
           case its ! ci_id of None \<Rightarrow> Some (its, w)
           | Some it \<Rightarrow> map_option (\<lambda>(blocks, it). (its[ci_id := Some it],
                 w\<lparr>sg_blocks := (sg_blocks w)(buffer m d ci_id := butlast blocks), zeros := last blocks\<rparr>))
               (write_next_eight_bytes (take 8 (drop (8 * ci_id) l)) (sg_blocks w (buffer m d ci_id) @ [zeros w]) it))"
  obtain its' w' where run: "fold ?f [0..<n] (Some (its, w)) = Some (its', w')"
     "flat w' = fold (\<lambda>ci w. if has_buffer m d ci then put_word (buffer m d ci) i (word_of_bytes (take 8 (drop (8 * ci) l))) w else w) [0..<n] (flat w)"
     and same: "same_host w w'" and at': "its_at nb_cis m d w (\<lambda>ci. if ci < n then 8 * Suc i else 8 * i) its'"
    using Suc by auto
  have n: "n < nb_cis" using Suc.prems by simp
  show ?case
  proof (cases "has_buffer m d n")
    case False
    then have "its' ! n = None" using at' n by (auto simp: its_at_def)
    moreover have "its_at nb_cis m d w (\<lambda>ci. if ci < Suc n then 8 * Suc i else 8 * i) its'"
      using at' False unfolding its_at_def by (auto simp: less_Suc_eq)
    ultimately show ?thesis using run same False by simp
  next
    case True
    let ?p = "buffer m d n" and ?bs = "take 8 (drop (8 * n) l)"
    have at2: "its_at nb_cis m d w' (\<lambda>ci. if ci < n then 8 * Suc i else 8 * i) its'" and room': "roomy nb_cis m w'"
      using at' room by (simp_all add: same_host_simps [OF same])
    obtain it where it: "its' ! n = Some it" "it_at (sg_blocks w' ?p) (zeros w') (8 * i) it" using its_atD [OF at2 n True] by auto
    have wf: "sg_wf (sg_blocks w' ?p) (zeros w')" and big: "8 * i + 8 \<le> length (concat (sg_blocks w' ?p))"
      using room' d n True i by (fastforce simp: roomy_def scattered_def)+
    have bs: "length ?bs = 8" using line n n8 by simp
    obtain blocks' it' where put: "write_next_eight_bytes ?bs (sg_blocks w' ?p @ [zeros w']) it = Some (blocks' @ [zeros w'], it')"
      "same_shape (sg_blocks w' ?p) blocks'" "concat blocks' = put_in_block ?bs (8 * i) (concat (sg_blocks w' ?p))"
      "it_at (sg_blocks w' ?p) (zeros w') (8 * i + 8) it'"
      using put_eight_at [OF wf it(2) bs big] by blast
    have "?f n (Some (its', w')) = Some (its'[n := Some it'], put_blocks ?p blocks' w')"
      using it(1) put(1) by (simp add: put_blocks_def)
    moreover have "flat (put_blocks ?p blocks' w') = put_word ?p i (word_of_bytes ?bs) (flat w')"
      by (rule flat_put_blocks [OF put(3) bs big])
    moreover have "same_host w' (put_blocks ?p blocks' w')"
      using put(2) by (simp add: same_host_def put_blocks_def same_shape_def)
    moreover have "its_at nb_cis m d w' (\<lambda>ci. if ci < Suc n then 8 * Suc i else 8 * i) (its'[n := Some it'])"
      using at2 put(4) n True unfolding its_at_def by (auto simp: less_Suc_eq nth_list_update add.commute)
    ultimately show ?thesis using run True same_host_trans [OF same]
      by (simp add: same_host_simps [OF same] del: bind_split)
  qed
qed

lemma flat_line: "get_line d i (plain m) (flat w) = get_line d i m w"
  by (simp add: get_line_def flat_def plain_simps)

lemma scatter_word_refines:
  assumes "roomy nb_cis m w" "i < nr_words m" "d < 8" "nb_cis \<le> 8" "its_at nb_cis m d w (\<lambda>_. 8 * i) its"
  shows "\<exists>its' w'. scatter_word nb_cis m d i (its, w) = Some (its', w') \<and> read_word nb_cis (plain m) d i (flat w) = flat w'
    \<and> its_at nb_cis m d w' (\<lambda>_. 8 * Suc i) its' \<and> roomy nb_cis m w'"
proof -
  let ?l = "get_line d i m w"
  have "length ?l = 64" by (simp add: get_line_def load_bytes_def avx2_transposes picked_simps)
  from scatter_cis [OF assms(1-4) this assms(5) order_refl] obtain its' w' where
    "scatter_word nb_cis m d i (its, w) = Some (its', w')"
    and flat: "flat w' = fold (\<lambda>ci w. if has_buffer m d ci then put_word (buffer m d ci) i (word_of_bytes (take 8 (drop (8 * ci) ?l))) w else w)
      [0..<nb_cis] (flat w)"
    and same: "same_host w w'" and at: "its_at nb_cis m d w (\<lambda>ci. if ci < nb_cis then 8 * Suc i else 8 * i) its'"
    by (auto simp: scatter_word_def)
  moreover have "read_word nb_cis (plain m) d i (flat w) = flat w'"
    unfolding flat read_word_def Let_def flat_line plain_fields put_word_def ..
  moreover have "its_at nb_cis m d w' (\<lambda>_. 8 * Suc i) its'" unfolding same_host_simps [OF same]
    using at by (subst its_at_cong [where pos' = "\<lambda>ci. if ci < nb_cis then 8 * Suc i else 8 * i"]) simp_all
  ultimately show ?thesis using assms(1) same_host_simps(2) [OF same] by blast
qed

lemma scatter_words_refine:
  assumes "roomy nb_cis m w" "d < 8" "nb_cis \<le> 8" "its_at nb_cis m d w (\<lambda>_. 0) its"
  shows "n \<le> nr_words m \<Longrightarrow> \<exists>its' w'. fold (\<lambda>i s. Option.bind s (scatter_word nb_cis m d i)) [0..<n] (Some (its, w)) = Some (its', w')
    \<and> fold (read_word nb_cis (plain m) d) [0..<n] (flat w) = flat w' \<and> its_at nb_cis m d w' (\<lambda>_. 8 * n) its' \<and> roomy nb_cis m w'"
proof (induction n)
  case (Suc n)
  then obtain its' w' where run: "fold (\<lambda>i s. Option.bind s (scatter_word nb_cis m d i)) [0..<n] (Some (its, w)) = Some (its', w')"
    "fold (read_word nb_cis (plain m) d) [0..<n] (flat w) = flat w'"
    "its_at nb_cis m d w' (\<lambda>_. 8 * n) its'" "roomy nb_cis m w'" by auto
  have "n < nr_words m" using Suc.prems by simp
  from scatter_word_refines [OF run(4) this assms(2,3) run(3)] run(1,2) show ?case by auto
qed (use assms in simp)

lemma read_line_refines:
  assumes "roomy nb_cis m w" "d < 8" "nb_cis \<le> 8" "tm_type m = DPU_SG_XFER_MATRIX"
  shows "\<exists>w'. read_line nb_cis m d w = Some w' \<and> read_line nb_cis (plain m) d (flat w) = Some (flat w') \<and> roomy nb_cis m w'"
proof (cases "do_dpu_transfer nb_cis m d")
  case False
  then show ?thesis using assms(1) by (simp add: read_line_def plain_simps)
next
  case True
  have "scattered nb_cis m w" using assms(1) by (simp add: roomy_def)
  from init_at [OF this assms(2)] obtain its where its: "init_iterators nb_cis m d w = Some its" "its_at nb_cis m d w (\<lambda>_. 0) its" by blast
  from scatter_words_refine [OF assms(1-3) its(2) order_refl] show ?thesis
    using True its(1) assms(4) by (auto simp: read_line_def plain_simps DPU_DEFAULT_XFER_MATRIX_def DPU_SG_XFER_MATRIX_def)
qed

lemma read_lines_refine:
  assumes "nb_cis \<le> 8" "tm_type m = DPU_SG_XFER_MATRIX" "roomy nb_cis m w"
  shows "\<forall>d \<in> set ds. d < 8 \<Longrightarrow> \<exists>w'. fold (\<lambda>d s. Option.bind s (read_line nb_cis m d)) ds (Some w) = Some w'
    \<and> fold (\<lambda>d s. Option.bind s (read_line nb_cis (plain m) d)) ds (Some (flat w)) = Some (flat w') \<and> roomy nb_cis m w'"
proof (induction ds rule: rev_induct)
  case (snoc d ds)
  then obtain w' where "fold (\<lambda>d s. Option.bind s (read_line nb_cis m d)) ds (Some w) = Some w'"
    "fold (\<lambda>d s. Option.bind s (read_line nb_cis (plain m) d)) ds (Some (flat w)) = Some (flat w')" "roomy nb_cis m w'" by auto
  with read_line_refines [OF this(3) _ assms(1,2), of d] snoc.prems show ?case by auto
qed (use assms(3) in simp)

section \<open>A transfer into scattered buffers\<close>

text \<open>
  C15: a read into scattered buffers with room for the transfer refines the plain one: whatever the
  lengths of the blocks, the threads and their order, the blocks then hold, one behind the other, what a
  read into buffers of one piece leaves in these, and there still is room for the next transfer.
\<close>

theorem sg_read_refines:
  assumes "roomy nb_cis m w" "nb_cis \<le> 8" "tm_type m = DPU_SG_XFER_MATRIX" "unat nb_dpus \<le> 8"
  shows "\<exists>w'. xeon_sp_do_xfer thread_mram_xfer_read conf nb_cis nb_dpus m garbage order w = Some w'
    \<and> xeon_sp_do_xfer thread_mram_xfer_read conf nb_cis nb_dpus (plain m) garbage order (flat w) = Some (flat w')
    \<and> roomy nb_cis m w'"
proof (induction order rule: rev_induct)
  case (snoc t ts)
  then obtain w1 where run: "xeon_sp_do_xfer thread_mram_xfer_read conf nb_cis nb_dpus m garbage ts w = Some w1"
    "xeon_sp_do_xfer thread_mram_xfer_read conf nb_cis nb_dpus (plain m) garbage ts (flat w) = Some (flat w1)"
    "roomy nb_cis m w1" by blast
  show ?case
  proof (cases "thread_share nb_dpus (nb_threads_for_xfer conf (tm_size m)) t")
    case (Some ab)
    then obtain a b where ab: "thread_share nb_dpus (nb_threads_for_xfer conf (tm_size m)) t = Some (a, b)" by (metis surj_pair)
    then have "unat b \<le> 8" using share_range [OF ab] assms(4) by linarith
    then have "\<forall>d \<in> set [unat a..<unat b]. d < 8" by auto
    from read_lines_refine [OF assms(2,3) run(3) this] run ab show ?thesis
      by (auto simp: xeon_sp_do_xfer_def thread_do_mram_xfer_def threads_read_from_rank_def plain_simps)
  qed (use run in \<open>simp add: xeon_sp_do_xfer_def thread_do_mram_xfer_def plain_simps\<close>)
qed (use assms(1) in \<open>simp add: xeon_sp_do_xfer_def\<close>)

text \<open>Sixteen bytes in three blocks for each DPU.\<close>

definition sample_room :: xeon_sp_world where
  "sample_room = sample_host\<lparr>sg_blocks := (\<lambda>_. [[1, 2, 3], [4], [5, 6, 7, 8, 9, 10, 11, 12, 13, 14, 15, 16]]), zeros := [0]\<rparr>"

theorem sg_read_refines_witness:
  "\<exists>w'. xeon_sp_do_xfer thread_mram_xfer_read (sample_pool 4) 8 8 sample_sg_transfer (\<lambda>_. []) [3, 1, 0, 2] sample_room = Some w'
    \<and> xeon_sp_do_xfer thread_mram_xfer_read (sample_pool 4) 8 8 (plain sample_sg_transfer) (\<lambda>_. []) [3, 1, 0, 2] (flat sample_room)
        = Some (flat w') \<and> roomy 8 sample_sg_transfer w'"
proof -
  have "nr_words sample_sg_transfer = 2" by (simp add: sample_sg_transfer_def sample_transfer_def nr_words_def)
  then have "roomy 8 sample_sg_transfer sample_room" by (simp add: roomy_def scattered_def sg_wf_def sample_room_def)
  moreover have "(8 :: nat) \<le> 8" "tm_type sample_sg_transfer = DPU_SG_XFER_MATRIX" "unat (8 :: u8) \<le> 8"
    by (simp_all add: sample_sg_transfer_def)
  ultimately show ?thesis by (rule sg_read_refines)
qed

end
