(* ===== verification/Xeon_Pool.thy ===== *)
theory Xeon_Pool
  imports Xeon_Transfer
begin

text \<open>
  The pools of the channels (\<^verbatim>\<open>xeon_sp_translation.c\<close>): their threads run as long as a rank of
  the channel is there, and where the indices do not fit.
\<close>

section \<open>The life of a pool\<close>

definition pools_wf :: "xeon_sp_ctx \<Rightarrow> bool" where
  "pools_wf s \<longleftrightarrow> length (nb_region_per_channel s) = MAX_NB_CHANNEL \<and> length (pool_threads s) = MAX_NB_POOL
     \<and> (\<forall>c < MAX_NB_POOL. pool_threads s ! c \<noteq> None \<longleftrightarrow> nb_region_per_channel s ! c \<noteq> 0)"

lemma channel_in_range:
  assumes "c < MAX_NB_CHANNEL \<or> c = 0xFF"
  shows "init_channel_id c < MAX_NB_CHANNEL" "channel_id_to_pool_id (init_channel_id c) = init_channel_id c"
    "channel_id_to_pool_id c = init_channel_id c" "mutex_of_channel c = init_channel_id c"
  using assms by (auto simp: init_channel_id_def channel_id_to_pool_id_def mutex_of_channel_def MAX_NB_CHANNEL_def MAX_NB_POOL_def)

lemma init_rank_pool:
  assumes wf: "pools_wf s" and c: "c < MAX_NB_CHANNEL \<or> c = 0xFF" and no_wrap: "nb_region_per_channel s ! init_channel_id c \<noteq> - 1"
  shows "\<exists>s'. xeon_sp_init_rank conf c s = ok (xeon_sp_set_configuration conf) s' \<and> pools_wf s'
    \<and> pool_threads s' ! channel_id_to_pool_id c \<noteq> None"
proof -
  let ?c = "init_channel_id c"
  have next_nb: "nb_region_per_channel s ! ?c + 1 \<noteq> 0" using no_wrap by (metis add.right_inverse add_diff_cancel_right' diff_0)
  note range = channel_in_range [OF c]
  have "?c < length (pool_threads s)" "?c < length (nb_region_per_channel s)"
    using wf range(1) by (simp_all add: pools_wf_def MAX_NB_CHANNEL_def)
  with wf range next_nb show ?thesis
    by (auto simp: xeon_sp_init_rank_def Let_def pools_wf_def nth_list_update MAX_NB_CHANNEL_def word_neq_0_conv)
qed

lemma destroy_rank_pool:
  assumes wf: "pools_wf s" and c: "c < MAX_NB_CHANNEL \<or> c = 0xFF"
    and there: "nb_region_per_channel s ! init_channel_id c \<noteq> 0"
  shows "\<exists>s'. xeon_sp_destroy_rank c s = ok () s' \<and> pools_wf s'
    \<and> (pool_threads s' ! channel_id_to_pool_id c = None \<longleftrightarrow> nb_region_per_channel s ! init_channel_id c = 1)"
proof -
  let ?c = "init_channel_id c"
  note range = channel_in_range [OF c]
  have "?c < length (pool_threads s)" "?c < length (nb_region_per_channel s)"
    using wf range(1) by (simp_all add: pools_wf_def MAX_NB_CHANNEL_def)
  with wf range there show ?thesis
    by (auto simp: xeon_sp_destroy_rank_def Let_def pools_wf_def nth_list_update MAX_NB_CHANNEL_def)
qed

section \<open>Where the code goes wrong\<close>

text \<open>The channel 31 is not caught by the clamp.\<close>

lemma channel_31_out_of_bounds:
  "pools_wf s \<Longrightarrow> fst (xeon_sp_init_rank conf 31 s) = Abort"
  by (simp add: xeon_sp_init_rank_def Let_def init_channel_id_def pools_wf_def MAX_NB_CHANNEL_def MAX_NB_POOL_def)

text \<open>The threads of the channels from 32 to 254 are those of the last pool, their transfers look for another.\<close>

lemma channel_without_pool:
  assumes "31 < c" "c < 0xFF"
  shows "channel_id_to_pool_id (init_channel_id c) = 30" "channel_id_to_pool_id c = c"
  using assms by (simp_all add: init_channel_id_def channel_id_to_pool_id_def MAX_NB_CHANNEL_def MAX_NB_POOL_def)

text \<open>
  The pool has the threads of the first rank of the channel; a rank with more of them in its
  configuration leaves the shares of the missing ones out.
\<close>

lemma short_pool_misses:
  assumes "d \<in> share nb n t" "t \<notin> set ts"
  shows "d \<notin> (\<Union>u \<in> set ts. share nb n u)"
  using assms share_unique by blast

end
