(* ===== verification/Pid_Comm.thy ===== *)
theory Pid_Comm
  imports Xeon_Sp
begin

text \<open>
  The collective operations between the DPUs of several ranks, which the host carries out in the mapped
  regions without unpacking the words (\<^verbatim>\<open>hw/src/mappings/xeon_sp/pid_comm.c\<close>): all-to-all,
  all-gather, all-reduce and reduce-scatter over groups of eight DPUs.

  The regions are functions from the offset to the byte, one for each rank; a pointer is the number of
  the region and the offset in it. Fences and cache flushes have no effect on values.
\<close>

section \<open>Vector instructions\<close>

text \<open>Lanes of a width: \<open>epi8\<close>, \<open>epi16\<close>, \<open>epi32\<close>, \<open>epi64\<close>.\<close>

definition epi8 :: "(u8 \<Rightarrow> u8 \<Rightarrow> u8) \<Rightarrow> u8 list \<Rightarrow> u8 list \<Rightarrow> u8 list" where
  "epi8 f a b = map2 f a b"

definition epi16 :: "(u16 \<Rightarrow> u16 \<Rightarrow> u16) \<Rightarrow> u8 list \<Rightarrow> u8 list \<Rightarrow> u8 list" where
  "epi16 f a b = array_bytes bytes_of_word (map2 f (bytes_array 2 word_of_bytes a) (bytes_array 2 word_of_bytes b))"

definition epi32 :: "(u32 \<Rightarrow> u32 \<Rightarrow> u32) \<Rightarrow> u8 list \<Rightarrow> u8 list \<Rightarrow> u8 list" where
  "epi32 f a b = array_bytes bytes_of_word (map2 f (bytes_array 4 word_of_bytes a) (bytes_array 4 word_of_bytes b))"

definition epi64 :: "(u64 \<Rightarrow> u64 \<Rightarrow> u64) \<Rightarrow> u8 list \<Rightarrow> u8 list \<Rightarrow> u8 list" where
  "epi64 f a b = array_bytes bytes_of_word (map2 f (bytes_array 8 word_of_bytes a) (bytes_array 8 word_of_bytes b))"

definition mm512_or_epi64 :: "u8 list \<Rightarrow> u8 list \<Rightarrow> u8 list" where
  "mm512_or_epi64 = epi64 (\<lambda>x y. x OR y)"

text \<open>The maximum of signed lanes.\<close>

definition signed_max :: "'a::len word \<Rightarrow> 'a word \<Rightarrow> 'a word" where
  "signed_max x y = (if sint x < sint y then y else x)"

definition mm512_rol_epi64 :: "u8 list \<Rightarrow> nat \<Rightarrow> u8 list" where
  "mm512_rol_epi64 a n = array_bytes bytes_of_word (map (word_rotl n) (bytes_array 8 word_of_bytes a :: u64 list))"

definition mm512_setzero :: "u8 list" where
  "mm512_setzero = mm_set_epi64 [0, 0, 0, 0, 0, 0, 0, 0]"

section \<open>Addresses\<close>

type_synonym regions = "nat \<Rightarrow> nat \<Rightarrow> u8"
type_synonym ptr = "nat \<times> nat"

definition stream_load_si512 :: "ptr \<Rightarrow> regions \<Rightarrow> u8 list" where
  "stream_load_si512 p mem = load_bytes (snd p) 64 (mem (fst p))"

definition stream_si512 :: "ptr \<Rightarrow> u8 list \<Rightarrow> regions \<Rightarrow> regions" where
  "stream_si512 p reg mem = mem(fst p := store_bytes (snd p) reg (mem (fst p)))"

definition apply_address_translation_on_mram_offset_a2a :: "u32 \<Rightarrow> u32" where
  "apply_address_translation_on_mram_offset_a2a byte_offset =
     (let mask_21_to_15 = push_bit 15 (push_bit (21 - 15 + 1) 1 - 1) :: u32;
          mask_21_to_14 = push_bit 14 (push_bit (21 - 14 + 1) 1 - 1) :: u32;
          bits_21_to_15 = drop_bit 15 (byte_offset AND mask_21_to_15);
          bit_14 = drop_bit 14 byte_offset AND 1;
          unchanged_bits = byte_offset AND NOT mask_21_to_14
      in unchanged_bits OR push_bit 14 bits_21_to_15 OR push_bit 21 bit_14)"

definition BANK_OFFSET_NEXT_DATA_a2a :: "u32 \<Rightarrow> u32" where "BANK_OFFSET_NEXT_DATA_a2a i = i * 16"
definition BANK_CHUNK_SIZE_a2a :: u64 where "BANK_CHUNK_SIZE_a2a = 0x20000"
definition BANK_NEXT_CHUNK_OFFSET_a2a :: u64 where "BANK_NEXT_CHUNK_OFFSET_a2a = 0x100000"

definition mram_offset_1mb_wise :: "u32 \<Rightarrow> nat" where
  "mram_offset_1mb_wise mram_offset =
     (let mram_64_bit_word_offset = apply_address_translation_on_mram_offset_a2a mram_offset;
          next_data = ucast (BANK_OFFSET_NEXT_DATA_a2a mram_64_bit_word_offset)
      in unat (next_data mod BANK_CHUNK_SIZE_a2a + next_data div BANK_CHUNK_SIZE_a2a * BANK_NEXT_CHUNK_OFFSET_a2a))"

text \<open>The place of the rotate group \<open>rg_id\<close>, the eight DPUs with one number in their CIs.\<close>

definition rotate_group_offset_256_64 :: "u32 \<Rightarrow> nat" where
  "rotate_group_offset_256_64 rg_id = unat (rg_id mod 4 * (256 * 1024) + rg_id div 4 * 64)"

definition rank_addr_iter :: "nat \<Rightarrow> u32 \<Rightarrow> u32 \<Rightarrow> ptr" where
  "rank_addr_iter base rg_id mram_offset = (base, mram_offset_1mb_wise mram_offset + rotate_group_offset_256_64 rg_id)"

definition advance :: "nat \<Rightarrow> ptr \<Rightarrow> ptr" where
  "advance n p = (fst p, snd p + n)"

section \<open>Copying lines\<close>

definition RNS_COPY_a2a :: "nat \<Rightarrow> nat \<Rightarrow> ptr \<Rightarrow> ptr \<Rightarrow> regions \<Rightarrow> regions" where
  "RNS_COPY_a2a rotate_bit iter src_addr dst_addr mem =
     fold (\<lambda>cl mem. stream_si512 dst_addr (mm512_rol_epi64 (stream_load_si512 src_addr mem) rotate_bit) mem) [0..<iter] mem"

definition S_COPY_a2a :: "nat \<Rightarrow> ptr \<Rightarrow> ptr \<Rightarrow> regions \<Rightarrow> regions" where
  "S_COPY_a2a iter src_addr dst_addr mem =
     fold (\<lambda>cl mem. stream_si512 dst_addr (stream_load_si512 src_addr mem) mem) [0..<iter] mem"

definition RNS_COPY_ag :: "nat \<Rightarrow> ptr \<Rightarrow> ptr list \<Rightarrow> regions \<Rightarrow> regions" where
  "RNS_COPY_ag iter src_addr dst_addr_array mem =
     snd (fold (\<lambda>k (reg1, mem).
       let reg1 = (if k = 0 then reg1 else mm512_rol_epi64 reg1 8)
       in (reg1, fold (\<lambda>cl mem. stream_si512 (dst_addr_array ! (8 * cl + k)) reg1 mem) [0..<iter] mem))
       [0..<8] (stream_load_si512 src_addr mem, mem))"

definition S_COPY_ag :: "nat \<Rightarrow> ptr \<Rightarrow> ptr list \<Rightarrow> regions \<Rightarrow> regions" where
  "S_COPY_ag iter src_addr dst_addr_array mem =
     (let reg1 = stream_load_si512 src_addr mem
      in fold (\<lambda>cl mem. stream_si512 (dst_addr_array ! cl) reg1 mem) [0..<iter] mem)"

section \<open>Reducing lines\<close>

text \<open>The words of a line one behind the other, and back: \<open>vindex\<close>, \<open>mask\<close> and \<open>perm\<close> of the macros.\<close>

definition domain_transfer :: "u8 list \<Rightarrow> u8 list" where
  "domain_transfer reg =
     (let mask = mm_set_epi64 [0x0f0b07030e0a0602, 0x0d0905010c080400, 0x0f0b07030e0a0602, 0x0d0905010c080400,
                               0x0f0b07030e0a0602, 0x0d0905010c080400, 0x0f0b07030e0a0602, 0x0d0905010c080400];
          vindex = [0, 2, 4, 6, 8, 10, 12, 14, 1, 3, 5, 7, 9, 11, 13, 15];
          perm = [0, 4, 1, 5, 2, 6, 3, 7, 8, 12, 9, 13, 10, 14, 11, 15];
          reg = mm_permutevar_epi32 reg vindex;
          reg = mm_shuffle_epi8 reg mask
      in mm_permutevar_epi32 reg perm)"

definition add_lanes :: "u32 \<Rightarrow> u8 list \<Rightarrow> u8 list \<Rightarrow> u8 list" where
  "add_lanes size_of =
     (if size_of = 1 then epi8 (+) else if size_of = 2 then epi16 (+) else if size_of = 4 then epi32 (+) else epi64 (+))"

definition max_lanes :: "u32 \<Rightarrow> u8 list \<Rightarrow> u8 list \<Rightarrow> u8 list" where
  "max_lanes size_of =
     (if size_of = 1 then epi8 signed_max else if size_of = 2 then epi16 signed_max
      else if size_of = 4 then epi32 signed_max else epi64 signed_max)"

definition reduce_lanes :: "u32 \<Rightarrow> u32 \<Rightarrow> u8 list \<Rightarrow> u8 list \<Rightarrow> u8 list" where
  "reduce_lanes size_of reduce_type acc reg =
     (if reduce_type = 0 then add_lanes size_of acc reg else if reduce_type = 1 then max_lanes size_of acc reg else acc)"

text \<open>Eight lines for each source group, the line \<open>k\<close> rotated by \<open>k\<close> bytes, taken up by \<open>op\<close>.\<close>

definition rns_source :: "ptr list \<Rightarrow> regions \<Rightarrow> nat \<Rightarrow> nat \<Rightarrow> u8 list" where
  "rns_source src_addr mem i k = mm512_rol_epi64 (stream_load_si512 (src_addr ! (8 * i + k)) mem) (8 * k)"

definition rns_sum :: "(u8 list \<Rightarrow> u8 list \<Rightarrow> u8 list) \<Rightarrow> (u8 list \<Rightarrow> u8 list) \<Rightarrow> ptr list \<Rightarrow> nat \<Rightarrow> regions \<Rightarrow> u8 list \<Rightarrow> u8 list" where
  "rns_sum op conv src_addr num_iter_src mem acc =
     fold (\<lambda>i. fold (\<lambda>k acc. op acc (conv (rns_source src_addr mem i k))) [0..<8]) [0..<num_iter_src] acc"

text \<open>The sum goes to eight lines of each group, rotated back by one more byte each time.\<close>

definition rns_distribute :: "ptr list \<Rightarrow> nat \<Rightarrow> u8 list \<times> regions \<Rightarrow> u8 list \<times> regions" where
  "rns_distribute dst_addr num_iter_src = (\<lambda>(sum, mem).
     fold (\<lambda>i s. fold (\<lambda>k (sum, mem).
         let sum = mm512_rol_epi64 sum 56 in (sum, stream_si512 (dst_addr ! (8 * i + k)) sum mem)) [0..<8] s)
       [0..<num_iter_src] (mm512_rol_epi64 sum 8, mem))"

definition RNS_SUM_AR :: "nat \<Rightarrow> ptr list \<Rightarrow> ptr list \<Rightarrow> nat \<Rightarrow> u32 \<Rightarrow> u32 \<Rightarrow> regions \<Rightarrow> regions" where
  "RNS_SUM_AR iter src_addr dst_addr num_iter_src size_of reduce_type mem =
     snd (fold (\<lambda>cl (sum, mem).
       if size_of = 0 then
         rns_distribute dst_addr num_iter_src (rns_sum mm512_or_epi64 (\<lambda>reg. reg) src_addr num_iter_src mem sum, mem)
       else if size_of = 1 then
         rns_distribute dst_addr num_iter_src (rns_sum (reduce_lanes 1 reduce_type) (\<lambda>reg. reg) src_addr num_iter_src mem sum, mem)
       else
         rns_distribute dst_addr num_iter_src
           (domain_transfer (rns_sum (reduce_lanes size_of reduce_type) domain_transfer src_addr num_iter_src mem sum), mem))
       [0..<iter] (mm512_setzero, mem))"

definition RNS_SUM_RS :: "nat \<Rightarrow> ptr list \<Rightarrow> ptr \<Rightarrow> nat \<Rightarrow> u32 \<Rightarrow> regions \<Rightarrow> regions" where
  "RNS_SUM_RS iter src_addr dst_addr num_iter_src size_of mem =
     snd (fold (\<lambda>cl (sum, mem).
       let sum = (if size_of = 1 then rns_sum (add_lanes 1) (\<lambda>reg. reg) src_addr num_iter_src mem sum
                  else domain_transfer (rns_sum (add_lanes size_of) domain_transfer src_addr num_iter_src mem sum))
       in (sum, stream_si512 dst_addr sum mem)) [0..<iter] (mm512_setzero, mem))"

text \<open>The same across groups: one line for each group, nothing rotated.\<close>

definition s_sum :: "(u8 list \<Rightarrow> u8 list \<Rightarrow> u8 list) \<Rightarrow> (u8 list \<Rightarrow> u8 list) \<Rightarrow> ptr list \<Rightarrow> nat \<Rightarrow> regions \<Rightarrow> u8 list \<Rightarrow> u8 list" where
  "s_sum op conv src_addr num_iter_src mem acc =
     fold (\<lambda>i acc. op acc (conv (stream_load_si512 (src_addr ! i) mem))) [0..<num_iter_src] acc"

definition S_SUM_AR :: "nat \<Rightarrow> ptr list \<Rightarrow> ptr list \<Rightarrow> nat \<Rightarrow> u32 \<Rightarrow> u32 \<Rightarrow> regions \<Rightarrow> regions" where
  "S_SUM_AR iter src_addr dst_addr num_iter_src size_of reduce_type mem =
     snd (fold (\<lambda>cl (sum, mem).
       let sum = (if size_of = 1 then s_sum (reduce_lanes 1 reduce_type) (\<lambda>reg. reg) src_addr num_iter_src mem sum
                  else domain_transfer (s_sum (reduce_lanes size_of reduce_type) domain_transfer src_addr num_iter_src mem sum))
       in (sum, fold (\<lambda>i mem. stream_si512 (dst_addr ! i) sum mem) [0..<num_iter_src] mem)) [0..<iter] (mm512_setzero, mem))"

definition S_SUM_RS :: "nat \<Rightarrow> ptr list \<Rightarrow> ptr \<Rightarrow> nat \<Rightarrow> u32 \<Rightarrow> regions \<Rightarrow> regions" where
  "S_SUM_RS iter src_addr dst_addr num_iter_src size_of mem =
     snd (fold (\<lambda>cl (sum, mem).
       let sum = (if size_of = 1 then s_sum (add_lanes 1) (\<lambda>reg. reg) src_addr num_iter_src mem sum
                  else domain_transfer (s_sum (add_lanes size_of) domain_transfer src_addr num_iter_src mem sum))
       in (sum, stream_si512 dst_addr sum mem)) [0..<iter] (mm512_setzero, mem))"

section \<open>All-to-all\<close>

text \<open>
  One round: the eight lines of 64 aligned bytes, or the line of a single word, at the two offsets,
  copied with \<open>copy\<close>; the offsets move on.
\<close>

definition a2a_block :: "(ptr \<Rightarrow> ptr \<Rightarrow> regions \<Rightarrow> regions) \<Rightarrow> nat \<times> u32 \<Rightarrow> nat \<times> u32 \<Rightarrow> u32 \<times> u32 \<times> regions \<Rightarrow> u32 \<times> u32 \<times> regions" where
  "a2a_block copy src dst = (\<lambda>(src_mram_offset, dst_mram_offset, mem).
     let src_rank_addr_iter = rank_addr_iter (fst src) (snd src) src_mram_offset;
         dst_rank_addr_iter = rank_addr_iter (fst dst) (snd dst) dst_mram_offset
     in (src_mram_offset + 64, dst_mram_offset + 64,
         fold (\<lambda>iter_8. copy (advance (128 * iter_8) src_rank_addr_iter) (advance (128 * iter_8) dst_rank_addr_iter)) [0..<8] mem))"

definition a2a_word :: "(ptr \<Rightarrow> ptr \<Rightarrow> regions \<Rightarrow> regions) \<Rightarrow> nat \<times> u32 \<Rightarrow> nat \<times> u32 \<Rightarrow> u32 \<times> u32 \<times> regions \<Rightarrow> u32 \<times> u32 \<times> regions" where
  "a2a_word copy src dst = (\<lambda>(src_mram_offset, dst_mram_offset, mem).
     (src_mram_offset + 8, dst_mram_offset + 8,
      copy (rank_addr_iter (fst src) (snd src) src_mram_offset) (rank_addr_iter (fst dst) (snd dst) dst_mram_offset) mem))"

definition a2a_lines :: "(ptr \<Rightarrow> ptr \<Rightarrow> regions \<Rightarrow> regions) \<Rightarrow> nat \<times> u32 \<Rightarrow> nat \<times> u32 \<Rightarrow> u32 \<Rightarrow> u32 \<Rightarrow> u32 \<times> u32 \<times> regions \<Rightarrow> u32 \<times> u32 \<times> regions" where
  "a2a_lines copy src dst iter_length remain_length s =
     fold (\<lambda>_. a2a_word copy src dst) [0..<unat remain_length] (fold (\<lambda>_. a2a_block copy src dst) [0..<unat iter_length] s)"

definition xeon_sp_trans_all_to_all_rg :: "nat \<Rightarrow> nat \<Rightarrow> u32 \<Rightarrow> u32 \<Rightarrow> u32 \<Rightarrow> u32 \<Rightarrow> u32 \<Rightarrow> u32 \<Rightarrow> u32 \<Rightarrow> regions \<Rightarrow> regions" where
  "xeon_sp_trans_all_to_all_rg base_src base_dst src_rg_id dst_rg_id src_start_offset dst_start_offset byte_length
       alltoall_comm_type communication_buffer_offset mem =
     (let src_mram_offset = src_start_offset + 1024 * 1024;
          dst_mram_offset = dst_start_offset + 1024 * 1024 + communication_buffer_offset;
          aligned = (src_start_offset mod 64 = 0 \<and> dst_start_offset mod 64 = 0);
          iter_length = (if aligned then byte_length div 64 else 0);
          remain_length = (if aligned then (byte_length mod 64 + 7) div 8 else byte_length div 8);
          src = (base_src, src_rg_id); dst = (base_dst, dst_rg_id)
      in snd (snd (if alltoall_comm_type = 0
         then fold (\<lambda>rns_chip_id. a2a_lines (RNS_COPY_a2a (8 * rns_chip_id) 1) src dst iter_length remain_length) [0..<8]
                (src_mram_offset, dst_mram_offset, mem)
         else a2a_lines (S_COPY_a2a 1) src dst iter_length remain_length (src_mram_offset, dst_mram_offset, mem))))"

section \<open>All-gather\<close>

text \<open>The rounds of one thread: they start where its share of the words would, but count only.\<close>

definition thread_rounds :: "u32 \<Rightarrow> u32 \<Rightarrow> u32 \<Rightarrow> nat list" where
  "thread_rounds iter_length num_thread thread_id =
     [unat (iter_length div num_thread * thread_id)..<unat (iter_length div num_thread * (thread_id + 1))]"

definition xeon_sp_trans_all_gather_rg :: "nat \<Rightarrow> nat list \<Rightarrow> u32 \<Rightarrow> u32 list \<Rightarrow> u32 \<Rightarrow> u32 \<Rightarrow> u32 \<Rightarrow> u32 \<Rightarrow> u32 \<Rightarrow> nat \<Rightarrow> u32 \<Rightarrow> u32
    \<Rightarrow> regions \<Rightarrow> regions" where
  "xeon_sp_trans_all_gather_rg base_src base_dst src_rg_id dst_rg_id src_start_offset dst_start_offset byte_length
       allgather_comm_type communication_buffer_offset num_iter_dst num_thread thread_id mem =
     (let src_mram_offset = src_start_offset + 1024 * 1024;
          dst_mram_offset = dst_start_offset + 1024 * 1024 + communication_buffer_offset;
          iter_length = byte_length div 8
      in snd (snd (fold (\<lambda>i (src_mram_offset, dst_mram_offset, mem).
           let src_rank_addr_iter = rank_addr_iter base_src src_rg_id src_mram_offset;
               mem = (if allgather_comm_type = 0
                 then RNS_COPY_ag num_iter_dst src_rank_addr_iter
                        (map (\<lambda>rg_offset. rank_addr_iter (base_dst ! (rg_offset div 8)) (dst_rg_id ! (rg_offset div 8))
                            (dst_mram_offset + of_nat (rg_offset mod 8) * byte_length)) [0..<8 * num_iter_dst]) mem
                 else S_COPY_ag num_iter_dst src_rank_addr_iter
                        (map (\<lambda>rg_offset. rank_addr_iter (base_dst ! rg_offset) (dst_rg_id ! rg_offset) dst_mram_offset)
                           [0..<num_iter_dst]) mem)
           in (src_mram_offset + 8, dst_mram_offset + 8, mem))
         (thread_rounds iter_length num_thread thread_id) (src_mram_offset, dst_mram_offset, mem))))"

section \<open>All-reduce\<close>

text \<open>The addresses of eight blocks for each group, of one block for each group.\<close>

definition rns_addresses :: "nat list \<Rightarrow> u32 list \<Rightarrow> nat \<Rightarrow> u32 \<Rightarrow> u32 \<Rightarrow> ptr list" where
  "rns_addresses base rg_id num_iter byte_length mram_offset =
     map (\<lambda>n. rank_addr_iter (base ! (n div 8)) (rg_id ! (n div 8)) (mram_offset + byte_length * of_nat (n mod 8))) [0..<8 * num_iter]"

definition s_addresses :: "nat list \<Rightarrow> u32 list \<Rightarrow> nat \<Rightarrow> u32 \<Rightarrow> ptr list" where
  "s_addresses base rg_id num_iter mram_offset = map (\<lambda>j. rank_addr_iter (base ! j) (rg_id ! j) mram_offset) [0..<num_iter]"

definition xeon_sp_trans_all_reduce_rg :: "nat list \<Rightarrow> u32 list \<Rightarrow> u32 \<Rightarrow> u32 \<Rightarrow> u32 \<Rightarrow> u32 \<Rightarrow> nat \<Rightarrow> u32 \<Rightarrow> u32 \<Rightarrow> u32 \<Rightarrow> u32 \<Rightarrow> u32
    \<Rightarrow> regions \<Rightarrow> regions" where
  "xeon_sp_trans_all_reduce_rg base_src src_rg_id iter_dst_a src_start_offset dst_start_offset byte_length num_iter_src
       communication_buffer_offset size_of reduce_type num_thread thread_id mem =
     (let iter_length = byte_length div 8;
          src_mram_offset = src_start_offset + 1024 * 1024 + 8 * (iter_length div num_thread) * thread_id;
          dst_mram_offset = dst_start_offset + 1024 * 1024 + communication_buffer_offset + byte_length * 8 * iter_dst_a
            + 8 * (iter_length div num_thread) * thread_id
      in snd (snd (fold (\<lambda>i (src_mram_offset, dst_mram_offset, mem).
           (src_mram_offset + 8, dst_mram_offset + 8,
            RNS_SUM_AR 1 (rns_addresses base_src src_rg_id num_iter_src byte_length src_mram_offset)
              (rns_addresses base_src src_rg_id num_iter_src byte_length dst_mram_offset) num_iter_src size_of reduce_type mem))
         (thread_rounds iter_length num_thread thread_id) (src_mram_offset, dst_mram_offset, mem))))"

definition xeon_sp_trans_all_reduce_y_rg :: "nat list \<Rightarrow> u32 list \<Rightarrow> u32 \<Rightarrow> u32 \<Rightarrow> u32 \<Rightarrow> u32 \<Rightarrow> nat \<Rightarrow> u32 \<Rightarrow> u32 \<Rightarrow> u32 \<Rightarrow> u32
    \<Rightarrow> regions \<Rightarrow> regions" where
  "xeon_sp_trans_all_reduce_y_rg base_src src_rg_id iter_dst_b src_start_offset dst_start_offset byte_length num_iter_src
       alltoall_comm_type communication_buffer_offset size_of reduce_type mem =
     (let src_mram_offset = src_start_offset + 1024 * 1024;
          dst_mram_offset = dst_start_offset + 1024 * 1024 + communication_buffer_offset
            + (if alltoall_comm_type = 0 then 0 else byte_length * 1 * iter_dst_b)
      in snd (snd (fold (\<lambda>i (src_mram_offset, dst_mram_offset, mem).
           (src_mram_offset + 8, dst_mram_offset + 8,
            S_SUM_AR 1 (s_addresses base_src src_rg_id num_iter_src src_mram_offset)
              (s_addresses base_src src_rg_id num_iter_src dst_mram_offset) num_iter_src size_of reduce_type mem))
         [0..<unat (byte_length div 8)] (src_mram_offset, dst_mram_offset, mem))))"

section \<open>Reduce-scatter\<close>

definition xeon_sp_trans_reduce_scatter_cpu_rg :: "nat list \<Rightarrow> nat \<Rightarrow> u32 list \<Rightarrow> u32 \<Rightarrow> u32 \<Rightarrow> u32 \<Rightarrow> u32 \<Rightarrow> nat \<Rightarrow> u32 \<Rightarrow> u32 \<Rightarrow> u32 \<Rightarrow> u32
    \<Rightarrow> regions \<Rightarrow> regions" where
  "xeon_sp_trans_reduce_scatter_cpu_rg base_src base_dst src_rg_id dst_rg_id src_start_offset dst_start_offset byte_length
       num_iter_src communication_buffer_offset size_of num_thread thread_id mem =
     (let iter_length = byte_length div 8;
          src_mram_offset = src_start_offset + 1024 * 1024 + communication_buffer_offset + 8 * (iter_length div num_thread) * thread_id;
          dst_mram_offset = dst_start_offset + 1024 * 1024 + 8 * (iter_length div num_thread) * thread_id
      in snd (snd (fold (\<lambda>i (src_mram_offset, dst_mram_offset, mem).
           (src_mram_offset + 8, dst_mram_offset + 8,
            RNS_SUM_RS 1 (rns_addresses base_src src_rg_id num_iter_src byte_length src_mram_offset)
              (rank_addr_iter base_dst dst_rg_id dst_mram_offset) num_iter_src size_of mem))
         (thread_rounds iter_length num_thread thread_id) (src_mram_offset, dst_mram_offset, mem))))"

definition xeon_sp_trans_reduce_scatter_cpu_y_rg :: "nat list \<Rightarrow> nat \<Rightarrow> u32 list \<Rightarrow> u32 \<Rightarrow> u32 \<Rightarrow> u32 \<Rightarrow> u32 \<Rightarrow> nat \<Rightarrow> u32 \<Rightarrow> u32
    \<Rightarrow> regions \<Rightarrow> regions" where
  "xeon_sp_trans_reduce_scatter_cpu_y_rg base_src base_dst src_rg_id dst_rg_id src_start_offset dst_start_offset byte_length
       num_iter_src communication_buffer_offset size_of mem =
     (let src_mram_offset = src_start_offset + 1024 * 1024 + communication_buffer_offset;
          dst_mram_offset = dst_start_offset + 1024 * 1024
      in snd (snd (fold (\<lambda>i (src_mram_offset, dst_mram_offset, mem).
           (src_mram_offset + 8, dst_mram_offset + 8,
            S_SUM_RS 1 (s_addresses base_src src_rg_id num_iter_src src_mram_offset)
              (rank_addr_iter base_dst dst_rg_id dst_mram_offset) num_iter_src size_of mem))
         [0..<unat (byte_length div 8)] (src_mram_offset, dst_mram_offset, mem))))"

end
