(* ===== verification/Pid_Words.thy ===== *)
theory Pid_Words
  imports Pid_Comm Xeon_Transfer
begin

text \<open>
  The words of the eight DPUs of a group in a line: what rotating, transferring between the domains and
  adding the lanes of a register does to them, and the places of the lines.
\<close>

section \<open>Words in a register\<close>

text \<open>The word of a CI in a line as the memory holds it, and in a register after the domain transfer.\<close>

definition line_word :: "u8 list \<Rightarrow> nat \<Rightarrow> u64" where
  "line_word v ci = word_of_bytes (map (\<lambda>k. v ! (8 * k + ci)) [0..<8])"

definition ci_word :: "u8 list \<Rightarrow> nat \<Rightarrow> u64" where
  "ci_word v ci = word_of_bytes (take 8 (drop (8 * ci) v))"

lemma domain_transfer_transposes:
  assumes "length xs = 64"
  shows "domain_transfer xs = picked xs 64 transposed"
proof -
  have mask: "mm_set_epi64 [0x0f0b07030e0a0602, 0x0d0905010c080400, 0x0f0b07030e0a0602, 0x0d0905010c080400,
      0x0f0b07030e0a0602, 0x0d0905010c080400, 0x0f0b07030e0a0602, 0x0d0905010c080400]
    = [0, 4, 8, 12, 1, 5, 9, 13, 2, 6, 10, 14, 3, 7, 11, 15, 0, 4, 8, 12, 1, 5, 9, 13, 2, 6, 10, 14, 3, 7, 11, 15,
       0, 4, 8, 12, 1, 5, 9, 13, 2, 6, 10, 14, 3, 7, 11, 15, 0, 4, 8, 12, 1, 5, 9, 13, 2, 6, 10, 14, 3, 7, 11, 15]"
    by code_simp
  let ?mask = "[0, 4, 8, 12, 1, 5, 9, 13, 2, 6, 10, 14, 3, 7, 11, 15, 0, 4, 8, 12, 1, 5, 9, 13, 2, 6, 10, 14, 3, 7, 11, 15,
       0, 4, 8, 12, 1, 5, 9, 13, 2, 6, 10, 14, 3, 7, 11, 15, 0, 4, 8, 12, 1, 5, 9, 13, 2, 6, 10, 14, 3, 7, 11, 15] :: u8 list"
  have load: "mm_permutevar_epi32 (picked xs 64 (\<lambda>k. k)) [0, 2, 4, 6, 8, 10, 12, 14, 1, 3, 5, 7, 9, 11, 13, 15] = picked xs 64 gathered"
    by (subst permute_picked [where l = 64], simp, simp, rule picked_cong, simp add: upt64 gathered_def)
  have picks: "list_all (\<lambda>i. 16 * (i div 16) + unat (?mask ! i) mod 16 = within_lane i) [0..<64]" by (simp add: upt64 within_lane_def)
  have transpose: "mm_shuffle_epi8 (picked xs 64 gathered) ?mask = picked xs 64 (\<lambda>i. gathered (within_lane i))"
    by (subst shuffle_picked [where l = 64]) (simp, simp, simp, simp, rule picked_cong, use picks in \<open>simp add: list_all_iff\<close>)
  have "domain_transfer (picked xs 64 (\<lambda>k. k)) = picked xs 64 transposed"
    unfolding domain_transfer_def Let_def mask load transpose
    by (subst permute_picked [where l = 64], simp, simp, rule picked_cong, simp add: upt64 gathered_def within_lane_def transposed_def)
  then show ?thesis using assms by (simp add: picked_self)
qed

lemma length_domain_transfer: "length v = 64 \<Longrightarrow> length (domain_transfer v) = 64"
  by (simp add: domain_transfer_transposes picked_simps)

lemma transposed_index: "k < 8 \<Longrightarrow> c < 8 \<Longrightarrow> transposed (8 * c + k) = 8 * k + c"
  by (simp add: transposed_def)

lemma ci_word_transfer:
  assumes "length v = 64" "c < 8"
  shows "ci_word (domain_transfer v) c = line_word v c"
proof -
  have "take 8 (drop (8 * c) (picked v 64 transposed)) = map (\<lambda>k. v ! (8 * k + c)) [0..<8]"
    using assms(2) by (intro nth_equalityI) (simp_all add: picked_simps transposed_index)
  then show ?thesis using assms by (simp add: ci_word_def line_word_def domain_transfer_transposes)
qed

lemma line_word_transfer:
  assumes "length v = 64" "c < 8"
  shows "line_word (domain_transfer v) c = ci_word v c"
proof -
  have "picked v 64 transposed ! (8 * k + c) = v ! (8 * c + k)" if "k < 8" for k
    using assms(2) that by (simp add: picked_simps transposed_index)
  then have "map (\<lambda>k. picked v 64 transposed ! (8 * k + c)) [0..<8] = take 8 (drop (8 * c) v)"
    using assms by (intro nth_equalityI) simp_all
  then show ?thesis using assms(1) by (simp add: ci_word_def line_word_def domain_transfer_transposes)
qed

section \<open>Rotation\<close>

lemma rotl_bytes:
  assumes "r \<le> 8" "length bs = 8" "c < 8"
  shows "bytes_of_word (word_rotl (8 * r) (word_of_bytes bs :: u64)) ! c = bs ! ((c + 8 - r) mod 8)"
proof (rule bit_word_eqI)
  fix j assume "j < LENGTH(8)"
  then have j: "j < 8" by simp
  let ?m = "(8 * c + j + (64 - 8 * r mod 64)) mod 64"
  have m: "?m = 8 * ((c + 8 - r) mod 8) + j"
  proof (cases "c < r")
    case True
    then show ?thesis using assms(1,3) j by (cases "r = 8") simp_all
  next
    case False
    then have "8 * c + j + (64 - 8 * r mod 64) = 64 + (8 * (c - r) + j)" "(c + 8 - r) mod 8 = c - r"
      using assms(1,3) by (simp_all add: le_mod_geq)
    moreover have "8 * (c - r) + j < 64" using assms(3) j by simp
    ultimately show ?thesis by (simp only: mod_add_self1 mod_less)
  qed
  have L: "LENGTH(64) = 64" by simp
  have "(c + 8 - r) mod 8 < 8" by simp
  with j m have at: "?m < 64" "?m div 8 = (c + 8 - r) mod 8" "?m mod 8 = j" by simp_all
  have "8 * c + j < 64" using assms(3) j by simp
  then have "bit (word_rotl (8 * r) (word_of_bytes bs :: u64)) (8 * c + j) = bit (word_of_bytes bs :: u64) ?m"
    unfolding bit_word_rotl_iff L by simp
  also have "\<dots> = bit (bs ! ((c + 8 - r) mod 8)) j"
    unfolding bit_word_of_bytes L using at assms(2) by simp
  finally show "bit (bytes_of_word (word_rotl (8 * r) (word_of_bytes bs :: u64)) ! c) j = bit (bs ! ((c + 8 - r) mod 8)) j"
    using assms(3) j by (simp add: bytes_of_word_def bit_ucast_iff bit_drop_bit_eq)
qed

lemma rol_byte:
  assumes "length v = 64" "r \<le> 8" "k < 8" "c < 8"
  shows "mm512_rol_epi64 v (8 * r) ! (8 * k + c) = v ! (8 * k + (c + 8 - r) mod 8)"
proof -
  let ?lanes = "map (word_rotl (8 * r)) (bytes_array 8 word_of_bytes v :: u64 list)"
  have len: "length ?lanes = 8" "length (array_bytes bytes_of_word ?lanes) = 64"
    using assms(1) by (simp_all add: bytes_array_def u64_format.array_length)
  have "take 8 (drop (8 * k) (array_bytes bytes_of_word ?lanes)) = bytes_of_word (?lanes ! k)"
    using assms(3) len(1) by (intro u64_format.array_nth) simp
  moreover have "?lanes ! k = word_rotl (8 * r) (word_of_bytes (take 8 (drop (8 * k) v)))"
    using assms(1,3) by (simp add: bytes_array_def)
  moreover have "take 8 (drop (8 * k) xs) ! c = xs ! (8 * k + c)" if "length xs = 64" for xs :: "u8 list"
    using that assms(3,4) by simp
  ultimately have "array_bytes bytes_of_word ?lanes ! (8 * k + c)
      = bytes_of_word (word_rotl (8 * r) (word_of_bytes (take 8 (drop (8 * k) v)) :: u64)) ! c"
    using len(2) by metis
  also have "\<dots> = take 8 (drop (8 * k) v) ! ((c + 8 - r) mod 8)" using assms by (intro rotl_bytes) simp_all
  also have "\<dots> = v ! (8 * k + (c + 8 - r) mod 8)" using assms by simp
  finally show ?thesis by (simp add: mm512_rol_epi64_def)
qed

lemma length_rol: "length v = 64 \<Longrightarrow> length (mm512_rol_epi64 v n) = 64"
  by (simp add: mm512_rol_epi64_def u64_format.array_length bytes_array_def)

lemma line_word_rol:
  assumes "length v = 64" "r \<le> 8" "c < 8"
  shows "line_word (mm512_rol_epi64 v (8 * r)) c = line_word v ((c + 8 - r) mod 8)"
proof -
  have "map (\<lambda>k. mm512_rol_epi64 v (8 * r) ! (8 * k + c)) [0..<8] = map (\<lambda>k. v ! (8 * k + (c + 8 - r) mod 8)) [0..<8]"
    using rol_byte [OF assms(1,2) _ assms(3)] by (intro map_cong refl) simp
  then show ?thesis by (simp only: line_word_def)
qed

section \<open>Lanes\<close>

context element_format begin

lemma array_take: "take (width * n) (array_bytes enc xs) = array_bytes enc (take n xs)"
proof (induction xs arbitrary: n)
  case (Cons x xs)
  then show ?case by (cases n) (simp_all add: array_bytes_def enc_length)
qed (simp add: array_bytes_def)

lemma array_drop: "drop (width * n) (array_bytes enc xs) = array_bytes enc (drop n xs)"
proof (induction xs arbitrary: n)
  case (Cons x xs)
  then show ?case by (cases n) (simp_all add: array_bytes_def enc_length)
qed (simp add: array_bytes_def)

lemma bytes_take:
  assumes "width * n \<le> length bs"
  shows "bytes_array width dec (take (width * n) bs) = take n (bytes_array width dec bs)"
proof (rule nth_equalityI)
  have n: "n \<le> length bs div width" using assms width_pos by (simp add: less_eq_div_iff_mult_less_eq mult.commute)
  then show "length (bytes_array width dec (take (width * n) bs)) = length (take n (bytes_array width dec bs))"
    using assms width_pos by (simp add: bytes_array_def)
  fix i assume "i < length (bytes_array width dec (take (width * n) bs))"
  then have i: "i < n" using assms width_pos by (simp add: bytes_array_def)
  then have "width * i + width \<le> width * n" by (metis Suc_leI mult_Suc_right mult_le_mono2 add.commute)
  then have "take width (drop (width * i) (take (width * n) bs)) = take width (drop (width * i) bs)"
    by (simp add: drop_take min_def)
  with i n assms width_pos show "bytes_array width dec (take (width * n) bs) ! i = take n (bytes_array width dec bs) ! i"
    by (simp add: bytes_array_def)
qed

lemma bytes_drop: "bytes_array width dec (drop (width * n) bs) = drop n (bytes_array width dec bs)"
proof (rule nth_equalityI)
  have len: "length (drop (width * n) bs) div width = length bs div width - n"
  proof (cases "width * n \<le> length bs")
    case True
    then obtain r where "length bs = width * n + r" using le_Suc_ex by blast
    then show ?thesis using width_pos by simp
  next
    case False
    then have "length bs div width < n" using width_pos by (simp add: div_less_iff_less_mult mult.commute)
    with False show ?thesis by simp
  qed
  then show "length (bytes_array width dec (drop (width * n) bs)) = length (drop n (bytes_array width dec bs))"
    by (simp add: bytes_array_def)
  fix i assume "i < length (bytes_array width dec (drop (width * n) bs))"
  then have i: "i < length bs div width - n" unfolding bytes_array_def length_map length_upt len by simp
  then have "i + n < length bs div width" by simp
  with i len show "bytes_array width dec (drop (width * n) bs) ! i = drop n (bytes_array width dec bs) ! i"
    by (simp add: bytes_array_def distrib_left add.commute)
qed

lemma lanes_part:
  assumes "width * q = 8" "length a = 64" "length b = 64" "c < 8"
  shows "take 8 (drop (8 * c) (array_bytes enc (map2 f (bytes_array width dec a) (bytes_array width dec b))))
    = array_bytes enc (map2 f (bytes_array width dec (take 8 (drop (8 * c) a))) (bytes_array width dec (take 8 (drop (8 * c) b))))"
proof -
  have at: "8 * c = width * (q * c)" "(8 :: nat) = width * q" using assms(1) by simp_all
  have room: "width * q \<le> length (drop (width * (q * c)) a)" "width * q \<le> length (drop (width * (q * c)) b)"
    using assms unfolding at(2) [symmetric] at(1) [symmetric] by simp_all
  show ?thesis unfolding at(1) unfolding at(2) array_take array_drop bytes_take [OF room(1)] bytes_take [OF room(2)] bytes_drop
    by (simp add: take_map drop_map take_zip drop_zip)
qed

lemma lanes_length:
  assumes "width * q = 8" "length a = 64" "length b = 64"
  shows "length (array_bytes enc (map2 f (bytes_array width dec a) (bytes_array width dec b))) = 64"
proof -
  have "(64 :: nat) = width * (q * 8)" using assms(1) by (simp flip: mult.assoc)
  then have "(64 :: nat) div width = q * 8" using width_pos by (metis nonzero_mult_div_cancel_left less_not_refl2)
  then show ?thesis using assms by (simp add: array_length bytes_array_def mult.commute)
qed

end

text \<open>
  An operation that works on each of the eight words of a register on its own, and what it does to one
  of them.
\<close>

definition on_word :: "(u8 list \<Rightarrow> u8 list \<Rightarrow> u8 list) \<Rightarrow> u64 \<Rightarrow> u64 \<Rightarrow> u64" where
  "on_word op x y = word_of_bytes (op (bytes_of_word x) (bytes_of_word y))"

definition lanewise :: "(u8 list \<Rightarrow> u8 list \<Rightarrow> u8 list) \<Rightarrow> bool" where
  "lanewise op \<longleftrightarrow> (\<forall>a b. length a = 64 \<and> length b = 64 \<longrightarrow> length (op a b) = 64
     \<and> (\<forall>c < 8. take 8 (drop (8 * c) (op a b)) = op (take 8 (drop (8 * c) a)) (take 8 (drop (8 * c) b))))"

lemma lanewise_epi: "lanewise (epi8 f)" "lanewise (epi16 g)" "lanewise (epi32 h)" "lanewise (epi64 j)"
  unfolding lanewise_def epi8_def epi16_def epi32_def epi64_def
  using u16_format.lanes_part [of 4] u16_format.lanes_length [of 4] u32_format.lanes_part [of 2] u32_format.lanes_length [of 2]
    u64_format.lanes_part [of 1] u64_format.lanes_length [of 1]
  by (simp_all add: take_map drop_map take_zip drop_zip)

lemma lanewise_reduce: "lanewise (add_lanes size_of)" "lanewise (reduce_lanes size_of reduce_type)" "lanewise mm512_or_epi64"
proof -
  show add: "lanewise (add_lanes size_of)" by (simp add: add_lanes_def lanewise_epi)
  have "lanewise (max_lanes size_of)" by (simp add: max_lanes_def lanewise_epi)
  with add show "lanewise (reduce_lanes size_of reduce_type)" by (simp add: lanewise_def reduce_lanes_def)
  show "lanewise mm512_or_epi64" by (simp add: mm512_or_epi64_def lanewise_epi)
qed

lemma bytes_word_read_back:
  assumes "length bs = 8"
  shows "bytes_of_word (word_of_bytes bs :: u64) = bs"
proof (rule nth_equalityI)
  fix i assume "i < length (bytes_of_word (word_of_bytes bs :: u64))"
  then have i: "i < 8" by (simp add: length_bytes_of_word)
  show "bytes_of_word (word_of_bytes bs :: u64) ! i = bs ! i"
  proof (rule bit_word_eqI)
    fix j assume "j < LENGTH(8)"
    then have "j < 8" by simp
    moreover from this have "(8 * i + j) div 8 = i" "(8 * i + j) mod 8 = j" "8 * i + j < 64" using i by simp_all
    ultimately show "bit (bytes_of_word (word_of_bytes bs :: u64) ! i) j = bit (bs ! i) j"
      using i assms by (simp add: bytes_of_word_def bit_ucast_iff bit_drop_bit_eq bit_word_of_bytes)
  qed
qed (simp add: length_bytes_of_word assms)

lemma ci_word_op:
  assumes "lanewise op" "length a = 64" "length b = 64" "c < 8"
  shows "length (op a b) = 64" "ci_word (op a b) c = on_word op (ci_word a c) (ci_word b c)"
proof -
  have "bytes_of_word (ci_word v c) = take 8 (drop (8 * c) v)" if "length v = 64" for v
    using that assms(4) by (simp add: ci_word_def bytes_word_read_back)
  with assms show "length (op a b) = 64" "ci_word (op a b) c = on_word op (ci_word a c) (ci_word b c)"
    by (simp_all add: lanewise_def on_word_def ci_word_def)
qed

text \<open>Bytes may stay where they are.\<close>

lemma line_word_op:
  assumes "length a = 64" "length b = 64" "c < 8"
  shows "length (epi8 f a b) = 64" "line_word (epi8 f a b) c = on_word (epi8 f) (line_word a c) (line_word b c)"
proof -
  have line: "bytes_of_word (line_word v c) = map (\<lambda>k. v ! (8 * k + c)) [0..<8]" for v
    by (simp add: line_word_def bytes_word_read_back)
  have "map (\<lambda>k. epi8 f a b ! (8 * k + c)) [0..<8] = epi8 f (map (\<lambda>k. a ! (8 * k + c)) [0..<8]) (map (\<lambda>k. b ! (8 * k + c)) [0..<8])"
    using assms by (intro nth_equalityI) (simp_all add: epi8_def)
  then show "line_word (epi8 f a b) c = on_word (epi8 f) (line_word a c) (line_word b c)"
    by (simp add: on_word_def line) (simp add: line_word_def)
  show "length (epi8 f a b) = 64" using assms by (simp add: epi8_def)
qed

section \<open>Sums of lines\<close>

text \<open>
  What a register holds for each CI: \<open>view\<close> is \<open>line_word\<close> for the bytes as the memory has them and
  \<open>ci_word\<close> behind the domain transfer.
\<close>

definition well_viewed :: "(u8 list \<Rightarrow> nat \<Rightarrow> u64) \<Rightarrow> (u8 list \<Rightarrow> u8 list \<Rightarrow> u8 list) \<Rightarrow> bool" where
  "well_viewed view op \<longleftrightarrow> (\<forall>a b. length a = 64 \<and> length b = 64 \<longrightarrow> length (op a b) = 64
     \<and> (\<forall>c < 8. view (op a b) c = on_word op (view a c) (view b c)))"

lemma well_viewed_simps: "lanewise op \<Longrightarrow> well_viewed ci_word op" "well_viewed line_word (epi8 f)"
  by (simp_all add: well_viewed_def ci_word_op(2) line_word_op(2)) (simp_all add: lanewise_def epi8_def)

lemma fold_view:
  assumes "well_viewed view op" "length acc = 64" "\<forall>x \<in> set xs. length (f x) = 64" "c < 8"
  shows "length (fold (\<lambda>x acc. op acc (f x)) xs acc) = 64
    \<and> view (fold (\<lambda>x acc. op acc (f x)) xs acc) c = fold (\<lambda>x w. on_word op w (view (f x) c)) xs (view acc c)"
  using assms(2,3)
proof (induction xs arbitrary: acc)
  case (Cons x xs)
  have "length (op acc (f x)) = 64" "view (op acc (f x)) c = on_word op (view acc c) (view (f x) c)"
    using assms(1,4) Cons.prems by (simp_all add: well_viewed_def)
  with Cons show ?case by simp
qed simp

text \<open>All the words that the sum of eight lines of each group takes up, in the order of the code.\<close>

definition pairs :: "nat \<Rightarrow> (nat \<times> nat) list" where
  "pairs n = concat (map (\<lambda>i. map (Pair i) [0..<8]) [0..<n])"

lemma rns_sum_pairs:
  "rns_sum op conv src_addr n mem acc = fold (\<lambda>(i, k) acc. op acc (conv (rns_source src_addr mem i k))) (pairs n) acc"
  by (simp add: rns_sum_def pairs_def fold_fold [symmetric] fold_map comp_def del: upt_rec)

lemma pairs_bound: "(i, k) \<in> set (pairs n) \<longleftrightarrow> i < n \<and> k < 8"
  by (auto simp: pairs_def image_iff Bex_def)

lemma length_load: "length (stream_load_si512 p mem) = 64"
  by (simp add: stream_load_si512_def load_bytes_def)

lemma rns_source_word:
  assumes "k < 8" "c < 8"
  shows "length (rns_source src_addr mem i k) = 64"
    "line_word (rns_source src_addr mem i k) c = line_word (stream_load_si512 (src_addr ! (8 * i + k)) mem) ((c + 8 - k) mod 8)"
  using assms by (simp_all add: rns_source_def length_rol length_load line_word_rol)

lemma setzero_word: "length mm512_setzero = 64" "c < 8 \<Longrightarrow> line_word mm512_setzero c = 0" "c < 8 \<Longrightarrow> ci_word mm512_setzero c = 0"
proof -
  have zero: "mm512_setzero = replicate 64 0" by code_simp
  show "length mm512_setzero = 64" unfolding zero by simp
  have null: "word_of_bytes (replicate n 0) = (0 :: u64)" for n by (induction n) simp_all
  assume c: "c < 8"
  then have "map (\<lambda>k. mm512_setzero ! (8 * k + c)) [0..<8] = replicate 8 0" "take 8 (drop (8 * c) mm512_setzero) = replicate 8 0"
    unfolding zero by (intro nth_equalityI, simp_all)+
  then show "line_word mm512_setzero c = 0" "ci_word mm512_setzero c = 0" by (simp_all only: line_word_def ci_word_def null)
qed

section \<open>Places\<close>

lemma same_translation: "apply_address_translation_on_mram_offset_a2a = apply_address_translation_on_mram_offset"
  by (simp add: fun_eq_iff apply_address_translation_on_mram_offset_a2a_def apply_address_translation_on_mram_offset_def)

lemma small_bits: "unat (w :: u32) < 2 ^ 26 \<longleftrightarrow> (\<forall>n \<ge> 26. \<not> bit w n)"
proof -
  have "unat w < 2 ^ 26 \<longleftrightarrow> take_bit 26 (unat w) = unat w" by (simp add: take_bit_nat_eq_self_iff)
  also have "\<dots> \<longleftrightarrow> (\<forall>n. (n < 26 \<and> bit w n) = bit w n)" by (simp only: bit_eq_iff bit_take_bit_iff bit_unat_iff possible_bit_nat simp_thms)
  also have "\<dots> \<longleftrightarrow> (\<forall>n \<ge> 26. \<not> bit w n)" by (meson not_less)
  finally show ?thesis .
qed

lemma translated_small:
  assumes "unat a < 2 ^ 26"
  shows "unat (apply_address_translation_on_mram_offset a) < 2 ^ 26"
  using assms unfolding small_bits
proof (intro allI impI notI)
  fix n assume n: "\<forall>n \<ge> 26. \<not> bit a n" "26 \<le> n" "bit (apply_address_translation_on_mram_offset a) n"
  then have "n < 32" using bit_imp_le_length [OF n(3)] by simp
  with n bit_translated [OF this, of a] show False by auto
qed

lemma offset_1mb_wise:
  assumes "8 dvd unat a" "unat a < 2 ^ 26"
  shows "mram_offset_1mb_wise a = unat (line_offset 0 a)"
proof -
  let ?t = "apply_address_translation_on_mram_offset a"
  have t: "unat ?t < 2 ^ 26" "8 dvd unat ?t" using translated_small [OF assms(2)] translated_aligned [OF assms(1)] by auto
  define w where "w = unat ?t div 8"
  have tw: "unat ?t = 8 * w" "w < 2 ^ 23" using t by (auto simp: w_def)
  have wide: "unat (ucast v :: u64) = unat v" for v :: u32
  proof -
    have "unat v < 2 ^ 64" by (rule order_less_le_trans [OF unsigned_less]) simp
    then show ?thesis by (simp add: unsigned_ucast_eq take_bit_nat_eq_self_iff)
  qed
  have "unat (?t * 16) = unat ?t * 16" using t(1) by (simp add: unat_word_ariths)
  then have l: "unat (ucast (BANK_OFFSET_NEXT_DATA_a2a ?t) :: u64) = 128 * w" using tw by (simp add: BANK_OFFSET_NEXT_DATA_a2a_def wide)
  have "unat (ucast (?t div 8) :: u64) = w" unfolding wide by (simp add: unat_div w_def)
  then have r: "unat (BANK_OFFSET_NEXT_DATA (ucast (?t div 8) * 8)) = 128 * w"
    using tw(2) by (simp add: BANK_OFFSET_NEXT_DATA_def unat_word_ariths)
  have "(ucast (BANK_OFFSET_NEXT_DATA_a2a ?t) :: u64) = BANK_OFFSET_NEXT_DATA (ucast (?t div 8) * 8)"
    using l r by (simp only: word_unat_eq_iff)
  then show ?thesis
    by (simp add: mram_offset_1mb_wise_def line_offset_def Let_def same_translation BANK_CHUNK_SIZE_a2a_def BANK_CHUNK_SIZE_def
        BANK_NEXT_CHUNK_OFFSET_a2a_def BANK_NEXT_CHUNK_OFFSET_def)
qed

text \<open>The number of the line of a group, as for the transfers of the host.\<close>

lemma group_bank:
  assumes "unat rg < 8"
  shows "rotate_group_offset_256_64 rg = BANK_START (unat rg)"
proof -
  have "unat rg \<in> {0, 1, 2, 3, 4, 5, 6, 7}" using assms by auto
  then have "rg \<in> {0, 1, 2, 3, 4, 5, 6, 7}" by (auto simp: word_unat_eq_iff)
  then show ?thesis by (auto simp: rotate_group_offset_256_64_def BANK_START_def)
qed

lemma group_line:
  assumes "unat rg < 8" "8 dvd unat a" "unat a < 2 ^ 26"
  shows "rank_addr_iter r rg a = (r, 64 * line_number (unat rg) a)"
proof -
  have "line_address (unat rg) 0 a = 64 * line_number (unat rg) a"
    using line_address_number [OF assms(1), of 0 a] by simp
  then show ?thesis by (simp add: rank_addr_iter_def offset_1mb_wise [OF assms(2,3)] group_bank [OF assms(1)] line_address_def)
qed

text \<open>The words behind each other in 64 aligned bytes are in every other line.\<close>

lemma translated_block:
  assumes "64 dvd unat a" "unat a < 2 ^ 26" "j < 8"
  shows "apply_address_translation_on_mram_offset (a + 8 * of_nat j) = apply_address_translation_on_mram_offset a + 8 * of_nat j"
proof -
  have low: "\<not> bit a n" if "n < 6" for n
  proof -
    have "take_bit 6 (unat a) = 0" using assms(1) by (simp add: take_bit_eq_mod dvd_eq_mod_eq_0)
    then show ?thesis using that by (metis bit_take_bit_iff bit_0_eq bot_apply bot_bool_def bit_unat_iff)
  qed
  have high: "bit (8 * of_nat j :: u32) n \<Longrightarrow> n < 6" for n
  proof -
    have eight: "(8 * of_nat j :: u32) = of_nat (8 * j)" by simp
    have "8 * j < 2 ^ 6" using assms(3) by simp
    then have "take_bit 6 (8 * j) = 8 * j" by (simp add: take_bit_nat_eq_self_iff)
    then show "bit (8 * of_nat j :: u32) n \<Longrightarrow> n < 6" unfolding eight bit_word_of_nat_iff by (metis bit_take_bit_iff)
  qed
  have sum_or: "x + 8 * of_nat j = x OR 8 * of_nat j" if "\<And>n. n < 6 \<Longrightarrow> \<not> bit x n" for x :: u32
    using that high by (intro disjunctive_add_eq_or bit_word_eqI) (auto simp: bit_and_iff)
  have t_low: "\<not> bit (apply_address_translation_on_mram_offset a) n" if "n < 6" for n
    using low [OF that] bit_translated [of n a] that by simp
  have "apply_address_translation_on_mram_offset (a OR 8 * of_nat j) = apply_address_translation_on_mram_offset a OR 8 * of_nat j"
  proof (rule bit_word_eqI)
    fix n assume "n < LENGTH(32)"
    then have n: "n < 32" by simp
    show "bit (apply_address_translation_on_mram_offset (a OR 8 * of_nat j)) n = bit (apply_address_translation_on_mram_offset a OR 8 * of_nat j) n"
      using n high [of n] high [of 14] high [of "n + 1"] unfolding bit_or_iff bit_translated [OF n] by auto
  qed
  with sum_or [OF low] sum_or [OF t_low] show ?thesis by simp
qed

lemma block_lines:
  assumes "64 dvd unat a" "unat a + 64 \<le> 2 ^ 26" "j < 8"
  shows "unat (a + 8 * of_nat j) = unat a + 8 * j" "line_number d (a + 8 * of_nat j) = line_number d a + 2 * j"
proof -
  have "a + 8 * of_nat j = of_nat (unat a + 8 * j)" by simp
  moreover have "unat (of_nat (unat a + 8 * j) :: u32) = unat a + 8 * j" using assms(2,3) by (intro unat_small) linarith
  ultimately show "unat (a + 8 * of_nat j) = unat a + 8 * j" by (simp only:)
  let ?t = "apply_address_translation_on_mram_offset a"
  have small: "unat a < 2 ^ 26" using assms(2) by linarith
  have "64 dvd unat ?t"
  proof -
    have "\<not> bit ?t n" if "n < 6" for n
    proof -
      have "take_bit 6 (unat a) = 0" using assms(1) by (simp add: take_bit_eq_mod dvd_eq_mod_eq_0)
      then have "\<not> bit a n" using that by (metis bit_take_bit_iff bit_0_eq bot_apply bot_bool_def bit_unat_iff)
      then show ?thesis using bit_translated [of n a] that by simp
    qed
    then have "take_bit 6 (unat ?t) = 0" by (simp add: bit_eq_iff bit_take_bit_iff bit_unat_iff)
    then show ?thesis by (simp add: take_bit_eq_mod dvd_eq_mod_eq_0)
  qed
  then obtain q where q: "unat ?t = 64 * q" by blast
  have "unat ?t < 2 ^ 26" by (rule translated_small [OF small])
  then have "q + 1 \<le> 2 ^ 20" using q by simp
  then have "unat (of_nat (64 * q + 8 * j) :: u32) = 64 * q + 8 * j" using assms(3) by (intro unat_small) simp
  moreover have "?t + 8 * of_nat j = of_nat (64 * q + 8 * j)" unfolding of_nat_add q [symmetric] by simp
  ultimately have "unat (?t + 8 * of_nat j) = 64 * q + 8 * j" by (simp only:)
  then have "unat (apply_address_translation_on_mram_offset (a + 8 * of_nat j)) div 8 = 8 * q + j"
    unfolding translated_block [OF assms(1) small assms(3)] by simp
  moreover have "unat ?t div 8 = 8 * q" using q by simp
  moreover have "(8 * q + j) mod 1024 = (8 * q) mod 1024 + j" "(8 * q + j) div 1024 = 8 * q div 1024"
  proof -
    define m where "m = q mod 128"
    have "q = 128 * (q div 128) + m" unfolding m_def by (simp only: mult_div_mod_eq)
    then have m: "m < 128" "8 * q = 1024 * (q div 128) + 8 * m" unfolding m_def [symmetric] by (simp add: m_def, linarith)
    have "8 * m + j < 1024" using m(1) assms(3) by linarith
    then show "(8 * q + j) mod 1024 = (8 * q) mod 1024 + j" "(8 * q + j) div 1024 = 8 * q div 1024"
      unfolding m(2) using m(1) by (simp_all add: add.assoc)
  qed
  ultimately show "line_number d (a + 8 * of_nat j) = line_number d a + 2 * j" by (simp add: line_number_def Let_def)
qed

end
