(* ===== verification/Pid_Lines.thy ===== *)
theory Pid_Lines
  imports Pid_Words
begin

text \<open>
  Runs that load lines, compute and store lines: as long as no line is stored twice or loaded after it
  was stored, every step sees the memory of the beginning.
\<close>

section \<open>Loading and storing lines\<close>

text \<open>A line is the number of its region and its number there.\<close>

definition line_ptr :: "nat \<times> nat \<Rightarrow> ptr" where
  "line_ptr l = (fst l, 64 * snd l)"

definition load_line :: "nat \<times> nat \<Rightarrow> regions \<Rightarrow> u8 list" where
  "load_line l mem = stream_load_si512 (line_ptr l) mem"

definition store_line :: "nat \<times> nat \<Rightarrow> u8 list \<Rightarrow> regions \<Rightarrow> regions" where
  "store_line l = stream_si512 (line_ptr l)"

lemma length_load_line: "length (load_line l mem) = 64"
  by (simp add: load_line_def length_load)

lemma load_store:
  assumes "length v = 64"
  shows "load_line l (store_line l' v mem) = (if l = l' then v else load_line l mem)"
proof (rule nth_equalityI)
  fix k assume "k < length (load_line l (store_line l' v mem))"
  then have k: "k < 64" by (simp add: length_load_line)
  have "64 * snd l' \<le> 64 * snd l + k \<and> 64 * snd l + k < 64 * snd l' + 64 \<longleftrightarrow> snd l = snd l'"
    using k by (cases "snd l" "snd l'" rule: linorder_cases) simp_all
  then show "load_line l (store_line l' v mem) ! k = (if l = l' then v else load_line l mem) ! k"
    using k assms by (auto simp: load_line_def store_line_def line_ptr_def stream_load_si512_def stream_si512_def load_bytes_def
        store_bytes_def prod_eq_iff)
qed (simp add: length_load_line assms)

text \<open>
  A step loads the lines \<open>S\<close> and stores what \<open>F\<close> computes to the lines \<open>D\<close>.
\<close>

definition line_step :: "(nat \<times> nat) list \<Rightarrow> (nat \<times> nat) list \<Rightarrow> (u8 list list \<Rightarrow> u8 list list) \<Rightarrow> regions \<Rightarrow> regions" where
  "line_step S D F mem = fold (\<lambda>(l, v). store_line l v) (zip D (F (map (\<lambda>l. load_line l mem) S))) mem"

definition step_ok :: "(nat \<times> nat) list \<Rightarrow> (nat \<times> nat) list \<Rightarrow> (u8 list list \<Rightarrow> u8 list list) \<Rightarrow> bool" where
  "step_ok S D F \<longleftrightarrow> distinct D \<and> (\<forall>vs. length vs = length S \<and> (\<forall>v \<in> set vs. length v = 64) \<longrightarrow>
     length (F vs) = length D \<and> (\<forall>v \<in> set (F vs). length v = 64))"

lemma store_lines:
  "distinct D \<Longrightarrow> length D = length vs \<Longrightarrow> \<forall>v \<in> set vs. length v = 64 \<Longrightarrow>
    (\<forall>i < length D. load_line (D ! i) (fold (\<lambda>(l, v). store_line l v) (zip D vs) mem) = vs ! i)
    \<and> (\<forall>l. l \<notin> set D \<longrightarrow> load_line l (fold (\<lambda>(l, v). store_line l v) (zip D vs) mem) = load_line l mem)"
proof (induction D arbitrary: vs mem)
  case (Cons d D)
  then obtain v vs' where vs: "vs = v # vs'" by (cases vs) auto
  have IH: "(\<forall>i < length D. load_line (D ! i) (fold (\<lambda>(l, v). store_line l v) (zip D vs') (store_line d v mem)) = vs' ! i)
    \<and> (\<forall>l. l \<notin> set D \<longrightarrow> load_line l (fold (\<lambda>(l, v). store_line l v) (zip D vs') (store_line d v mem)) = load_line l (store_line d v mem))"
    using Cons.prems vs by (intro Cons.IH) simp_all
  have len: "length v = 64" and d: "d \<notin> set D" using Cons.prems vs by simp_all
  have "load_line ((d # D) ! i) (fold (\<lambda>(l, v). store_line l v) (zip (d # D) vs) mem) = vs ! i" if "i < length (d # D)" for i
  proof (cases i)
    case 0
    have "load_line d (fold (\<lambda>(l, v). store_line l v) (zip D vs') (store_line d v mem)) = load_line d (store_line d v mem)"
      using IH d by blast
    with 0 len show ?thesis by (simp add: vs load_store)
  next
    case (Suc j)
    then show ?thesis using IH that by (simp add: vs)
  qed
  moreover have "load_line l (fold (\<lambda>(l, v). store_line l v) (zip (d # D) vs) mem) = load_line l mem" if "l \<notin> set (d # D)" for l
  proof -
    have "load_line l (fold (\<lambda>(l, v). store_line l v) (zip D vs') (store_line d v mem)) = load_line l (store_line d v mem)"
      using IH that by (metis list.set_intros(2))
    then show ?thesis using that len by (simp add: vs load_store)
  qed
  ultimately show ?case by blast
qed simp

lemma line_step_lines:
  assumes "step_ok S D F"
  shows "i < length D \<Longrightarrow> load_line (D ! i) (line_step S D F mem) = F (map (\<lambda>l. load_line l mem) S) ! i"
    "l \<notin> set D \<Longrightarrow> load_line l (line_step S D F mem) = load_line l mem"
proof -
  let ?vs = "F (map (\<lambda>l. load_line l mem) S)"
  have "length ?vs = length D \<and> (\<forall>v \<in> set ?vs. length v = 64)"
    using assms unfolding step_ok_def by (elim conjE allE impE) (auto simp: length_load_line)
  then have "length D = length ?vs" "\<forall>v \<in> set ?vs. length v = 64" by simp_all
  moreover have "distinct D" using assms by (simp add: step_ok_def)
  ultimately have "distinct D" "length D = length ?vs" "\<forall>v \<in> set ?vs. length v = 64" by blast+
  from store_lines [OF \<open>distinct D\<close> \<open>length D = length ?vs\<close> \<open>\<forall>v \<in> set ?vs. length v = 64\<close>, of mem]
  show "i < length D \<Longrightarrow> load_line (D ! i) (line_step S D F mem) = F (map (\<lambda>l. load_line l mem) S) ! i"
    "l \<notin> set D \<Longrightarrow> load_line l (line_step S D F mem) = load_line l mem"
    unfolding line_step_def by blast+
qed

section \<open>Runs\<close>

lemma run_steps:
  assumes ok: "\<forall>t < n. step_ok (S t) (D t) (F t)"
    and apart: "\<forall>t < n. \<forall>u < n. t < u \<longrightarrow> set (D t) \<inter> set (D u) = {} \<and> set (D t) \<inter> set (S u) = {}"
  shows "(\<forall>t < n. \<forall>i < length (D t). load_line (D t ! i) (fold (\<lambda>t. line_step (S t) (D t) (F t)) [0..<n] mem)
        = F t (map (\<lambda>l. load_line l mem) (S t)) ! i)
    \<and> (\<forall>l. (\<forall>t < n. l \<notin> set (D t)) \<longrightarrow> load_line l (fold (\<lambda>t. line_step (S t) (D t) (F t)) [0..<n] mem) = load_line l mem)"
  using assms
proof (induction n)
  case (Suc n)
  let ?m = "fold (\<lambda>t. line_step (S t) (D t) (F t)) [0..<n] mem"
  have IH: "\<And>t i. t < n \<Longrightarrow> i < length (D t) \<Longrightarrow> load_line (D t ! i) ?m = F t (map (\<lambda>l. load_line l mem) (S t)) ! i"
    "\<And>l. \<forall>t < n. l \<notin> set (D t) \<Longrightarrow> load_line l ?m = load_line l mem"
    using Suc by auto
  have ok: "step_ok (S n) (D n) (F n)" using Suc.prems(1) by simp
  have before: "map (\<lambda>l. load_line l ?m) (S n) = map (\<lambda>l. load_line l mem) (S n)"
  proof (rule map_cong [OF refl])
    fix l assume "l \<in> set (S n)"
    then have "\<forall>t < n. l \<notin> set (D t)" using Suc.prems(2) by (metis disjoint_iff lessI less_SucI)
    then show "load_line l ?m = load_line l mem" by (rule IH(2))
  qed
  have run: "fold (\<lambda>t. line_step (S t) (D t) (F t)) [0..<Suc n] mem = line_step (S n) (D n) (F n) ?m" by simp
  have "load_line (D t ! i) (line_step (S n) (D n) (F n) ?m) = F t (map (\<lambda>l. load_line l mem) (S t)) ! i"
    if t: "t < Suc n" "i < length (D t)" for t i
  proof (cases "t = n")
    case True
    then show ?thesis using line_step_lines(1) [OF ok, of i ?m] t before by simp
  next
    case False
    then have "t < n" using t(1) by simp
    then have "D t ! i \<notin> set (D n)" using Suc.prems(2) t(2) by (metis disjoint_iff lessI less_SucI nth_mem)
    then show ?thesis using line_step_lines(2) [OF ok] IH(1) [OF \<open>t < n\<close> t(2)] by simp
  qed
  moreover have "load_line l (line_step (S n) (D n) (F n) ?m) = load_line l mem" if "\<forall>t < Suc n. l \<notin> set (D t)" for l
    using that line_step_lines(2) [OF ok, of l ?m] IH(2) by simp
  ultimately show ?case unfolding run by blast
qed simp

end
