(* ===== verification/Pid_All_To_All.thy ===== *)
theory Pid_All_To_All
  imports Pid_Lines
begin

text \<open>
  The all-to-all between two groups (\<^verbatim>\<open>xeon_sp_trans_all_to_all_rg\<close>): the rounds over eight
  lines at once do what rounds over single words do, and each word ends at its place.
\<close>

section \<open>Words of the DPUs\<close>

text \<open>
  The word at address \<open>a\<close> of the MRAM of the DPU \<open>c\<close> of a group, the number of its region and its number
  there.
\<close>

definition pe_word :: "regions \<Rightarrow> nat \<times> u32 \<Rightarrow> nat \<Rightarrow> u32 \<Rightarrow> u64" where
  "pe_word mem g c a = line_word (stream_load_si512 (rank_addr_iter (fst g) (snd g) a) mem) c"

definition word_ok :: "nat \<times> u32 \<Rightarrow> u32 \<Rightarrow> bool" where
  "word_ok g a \<longleftrightarrow> unat (snd g) < 8 \<and> 8 dvd unat a \<and> unat a < 2 ^ 26"

definition group_key :: "nat \<times> u32 \<Rightarrow> u32 \<Rightarrow> nat \<times> nat" where
  "group_key g a = (fst g, line_number (unat (snd g)) a)"

lemma key_ptr: "word_ok g a \<Longrightarrow> rank_addr_iter (fst g) (snd g) a = line_ptr (group_key g a)"
  by (simp add: word_ok_def group_line line_ptr_def group_key_def)

lemma pe_word_key: "word_ok g a \<Longrightarrow> pe_word mem g c a = line_word (load_line (group_key g a) mem) c"
  by (simp add: pe_word_def key_ptr load_line_def)

lemma key_inj:
  assumes "word_ok g a" "word_ok h b"
  shows "group_key g a = group_key h b \<longleftrightarrow> g = h \<and> a = b"
proof
  assume eq: "group_key g a = group_key h b"
  then have "unat (snd g) = unat (snd h) \<and> a = b"
    using assms by (intro line_number_inj) (simp_all add: word_ok_def group_key_def)
  moreover from this have "snd g = snd h" by (simp only: word_unat_eq_iff)
  ultimately show "g = h \<and> a = b" using eq by (simp add: group_key_def prod_eq_iff)
qed simp

text \<open>It is the word that the host transfers from and to this DPU.\<close>

lemma pe_word_mram:
  assumes "word_ok (r, rg) a" "c < 8"
  shows "pe_word mem (r, rg) c a = mram_word (mem r) (unat rg) c a"
proof -
  have rg: "unat rg < 8" using assms by (simp add: word_ok_def)
  have "load_line (group_key (r, rg) a) mem ! (8 * k + c) = mem r (64 * line_number (unat rg) a + 8 * k + c)" if "k < 8" for k
    using that assms(2) by (simp add: load_line_def line_ptr_def group_key_def stream_load_si512_def load_bytes_def add.assoc)
  then show ?thesis unfolding pe_word_key [OF assms(1)] line_word_def mram_word_def line_of_word(2) [OF rg]
    by (intro arg_cong [where f = word_of_bytes] map_cong refl) simp
qed

section \<open>Copying a line\<close>

lemma copy_steps:
  "RNS_COPY_a2a rot 1 (line_ptr s) (line_ptr d) = line_step [s] [d] (map (\<lambda>v. mm512_rol_epi64 v rot))"
  "S_COPY_a2a 1 (line_ptr s) (line_ptr d) = line_step [s] [d] (map (\<lambda>v. v))"
  by (simp_all add: fun_eq_iff RNS_COPY_a2a_def S_COPY_a2a_def line_step_def load_line_def store_line_def)

lemma copy_step_ok: "step_ok [s] [d] (map (\<lambda>v. mm512_rol_epi64 v rot))" "step_ok [s] [d] (map (\<lambda>v. v))"
  by (auto simp: step_ok_def length_rol)

section \<open>The rounds\<close>

lemma a2a_word_run:
  "fold (\<lambda>_. a2a_word copy src dst) [0..<m] (s, d, mem) = (s + 8 * of_nat m, d + 8 * of_nat m,
     fold (\<lambda>t. copy (rank_addr_iter (fst src) (snd src) (s + 8 * of_nat t)) (rank_addr_iter (fst dst) (snd dst) (d + 8 * of_nat t))) [0..<m] mem)"
  by (induction m) (simp_all add: a2a_word_def algebra_simps)

text \<open>The offsets \<open>a\<close> from which \<open>n\<close> aligned bytes are in the bank.\<close>

definition bytes_ok :: "u32 \<Rightarrow> nat \<Rightarrow> bool" where
  "bytes_ok a n \<longleftrightarrow> 8 dvd unat a \<and> unat a + n \<le> 2 ^ 26"

lemma word_offset:
  assumes "bytes_ok a (8 * n)" "t < n"
  shows "unat (a + 8 * of_nat t) = unat a + 8 * t" "8 dvd unat (a + 8 * of_nat t)" "unat (a + 8 * of_nat t) < 2 ^ 26"
proof -
  have small: "unat a + 8 * t < 2 ^ 26" using assms by (simp add: bytes_ok_def)
  have "a + 8 * of_nat t = of_nat (unat a + 8 * t)" by simp
  moreover have "unat (of_nat (unat a + 8 * t) :: u32) = unat a + 8 * t" by (rule unat_small [OF small])
  ultimately show at: "unat (a + 8 * of_nat t) = unat a + 8 * t" by (simp only:)
  show "8 dvd unat (a + 8 * of_nat t)" "unat (a + 8 * of_nat t) < 2 ^ 26"
    using small assms(1) unfolding at bytes_ok_def by simp_all
qed

lemma advance_block:
  assumes "unat (snd g) < 8" "64 dvd unat a" "unat a + 64 \<le> 2 ^ 26" "j < 8"
  shows "advance (128 * j) (rank_addr_iter (fst g) (snd g) a) = rank_addr_iter (fst g) (snd g) (a + 8 * of_nat j)"
proof -
  note at = block_lines [OF assms(2-4)]
  have "8 dvd unat a" using assms(2) by (rule dvd_trans [rotated]) simp
  then have "8 dvd unat (a + 8 * of_nat j)" "unat (a + 8 * of_nat j) < 2 ^ 26" unfolding at(1) using assms(3,4) by simp_all
  with assms \<open>8 dvd unat a\<close> show ?thesis by (simp add: group_line advance_def at(2))
qed

text \<open>The single copies of \<open>n\<close> words behind each other.\<close>

definition copies :: "(ptr \<Rightarrow> ptr \<Rightarrow> regions \<Rightarrow> regions) \<Rightarrow> nat \<times> u32 \<Rightarrow> nat \<times> u32 \<Rightarrow> u32 \<Rightarrow> u32 \<Rightarrow> nat \<Rightarrow> regions \<Rightarrow> regions" where
  "copies copy src dst s d n =
     fold (\<lambda>t. copy (rank_addr_iter (fst src) (snd src) (s + 8 * of_nat t)) (rank_addr_iter (fst dst) (snd dst) (d + 8 * of_nat t))) [0..<n]"

lemma fold_shift: "fold f [m..<m + n] s = fold (\<lambda>t. f (m + t)) [0..<n] s"
  by (induction n) simp_all

lemma copies_append: "copies copy src dst s d (m + n) mem = copies copy src dst (s + 8 * of_nat m) (d + 8 * of_nat m) n (copies copy src dst s d m mem)"
proof -
  have split: "[0..<m + n] = [0..<m] @ [m..<m + n]" by (rule upt_add_eq_append) simp
  have shift: "a + 8 * of_nat (m + t) = a + 8 * of_nat m + 8 * of_nat t" for a :: u32 and t by (simp add: algebra_simps)
  show ?thesis unfolding copies_def split by (simp only: fold_append fold_shift [where m = m] shift comp_def)
qed

lemma a2a_block_step:
  assumes "unat (snd src) < 8" "unat (snd dst) < 8" "64 dvd unat s" "unat s + 64 \<le> 2 ^ 26" "64 dvd unat d" "unat d + 64 \<le> 2 ^ 26"
  shows "a2a_block copy src dst (s, d, mem) = (s + 8 * of_nat 8, d + 8 * of_nat 8, copies copy src dst s d 8 mem)"
proof -
  have "fold (\<lambda>j. copy (advance (128 * j) (rank_addr_iter (fst src) (snd src) s)) (advance (128 * j) (rank_addr_iter (fst dst) (snd dst) d))) [0..<8] mem
    = copies copy src dst s d 8 mem"
    unfolding copies_def
    by (rule fold_cong [OF refl refl], simp add: advance_block [OF assms(1,3,4)] advance_block [OF assms(2,5,6)])
  then show ?thesis by (simp add: a2a_block_def Let_def)
qed

lemma aligned_offset:
  assumes "64 dvd unat (a :: u32)" "unat a + 64 * n \<le> 2 ^ 26" "m < n"
  shows "unat (a + 8 * of_nat (8 * m)) = unat a + 64 * m" "64 dvd unat (a + 8 * of_nat (8 * m))"
    "unat (a + 8 * of_nat (8 * m)) + 64 \<le> 2 ^ 26"
proof -
  have "8 dvd unat a" using assms(1) by (rule dvd_trans [rotated]) simp
  then have "bytes_ok a (8 * (8 * n))" using assms(2) by (simp add: bytes_ok_def)
  moreover have "8 * m < 8 * n" using assms(3) by simp
  ultimately have at: "unat (a + 8 * of_nat (8 * m)) = unat a + 8 * (8 * m)" by (rule word_offset)
  show "unat (a + 8 * of_nat (8 * m)) = unat a + 64 * m" unfolding at by simp
  show "64 dvd unat (a + 8 * of_nat (8 * m))" unfolding at using assms(1) by simp
  have "64 * m + 64 \<le> 64 * n" using assms(3) by simp
  then show "unat (a + 8 * of_nat (8 * m)) + 64 \<le> 2 ^ 26" unfolding at using assms(2) by linarith
qed

lemma a2a_block_run:
  assumes "unat (snd src) < 8" "unat (snd dst) < 8" "64 dvd unat s" "unat s + 64 * n \<le> 2 ^ 26" "64 dvd unat d" "unat d + 64 * n \<le> 2 ^ 26"
  shows "m \<le> n \<Longrightarrow> fold (\<lambda>_. a2a_block copy src dst) [0..<m] (s, d, mem)
    = (s + 8 * of_nat (8 * m), d + 8 * of_nat (8 * m), copies copy src dst s d (8 * m) mem)"
proof (induction m)
  case (Suc m)
  have m: "m < n" using Suc.prems by simp
  have step: "a2a_block copy src dst (s + 8 * of_nat (8 * m), d + 8 * of_nat (8 * m), mem')
    = (s + 8 * of_nat (8 * m) + 8 * of_nat 8, d + 8 * of_nat (8 * m) + 8 * of_nat 8,
       copies copy src dst (s + 8 * of_nat (8 * m)) (d + 8 * of_nat (8 * m)) 8 mem')" for mem'
    using aligned_offset [OF assms(3,4) m] aligned_offset [OF assms(5,6) m] by (intro a2a_block_step assms(1,2)) auto
  have "8 * Suc m = 8 * m + 8" by simp
  then have all: "copies copy src dst s d (8 * Suc m) mem
      = copies copy src dst (s + 8 * of_nat (8 * m)) (d + 8 * of_nat (8 * m)) 8 (copies copy src dst s d (8 * m) mem)"
    by (simp only: copies_append)
  have next_offset: "a + 8 * of_nat (8 * m) + 8 * of_nat 8 = a + 8 * of_nat (8 * Suc m)" for a :: u32 by simp
  have "fold (\<lambda>_. a2a_block copy src dst) [0..<m] (s, d, mem)
      = (s + 8 * of_nat (8 * m), d + 8 * of_nat (8 * m), copies copy src dst s d (8 * m) mem)" using Suc by simp
  then show ?case unfolding all using step next_offset by (simp only: upt_Suc_append zero_le fold_append fold_Cons fold_Nil comp_def id_def)
qed (simp add: copies_def)

text \<open>
  The two offsets of a run of \<open>n\<close> words that the code handles: in the bank, and for rounds over
  eight lines aligned to the 64 bytes that these rounds take to be one behind the other.
\<close>

definition a2a_ok :: "nat \<times> u32 \<Rightarrow> u32 \<Rightarrow> nat \<Rightarrow> u32 \<Rightarrow> bool" where
  "a2a_ok g a n iter_length \<longleftrightarrow> unat (snd g) < 8 \<and> bytes_ok a (8 * n) \<and> (iter_length \<noteq> 0 \<longrightarrow> 64 dvd unat a)"

lemma a2a_lines_run:
  assumes n: "n = 8 * unat iter_length + unat remain_length" and src: "a2a_ok src s n iter_length" and dst: "a2a_ok dst d n iter_length"
  shows "a2a_lines copy src dst iter_length remain_length (s, d, mem) = (s + 8 * of_nat n, d + 8 * of_nat n, copies copy src dst s d n mem)"
proof -
  let ?m = "8 * unat iter_length"
  have blocks: "fold (\<lambda>_. a2a_block copy src dst) [0..<unat iter_length] (s, d, mem)
      = (s + 8 * of_nat ?m, d + 8 * of_nat ?m, copies copy src dst s d ?m mem)"
  proof (cases "iter_length = 0")
    case False
    then show ?thesis using src dst n by (intro a2a_block_run [where n = "unat iter_length"]) (simp_all add: a2a_ok_def bytes_ok_def)
  qed (simp add: copies_def)
  have words: "fold (\<lambda>_. a2a_word copy src dst) [0..<unat remain_length] (s', d', mem')
      = (s' + 8 * of_nat (unat remain_length), d' + 8 * of_nat (unat remain_length), copies copy src dst s' d' (unat remain_length) mem')" for s' d' mem'
    by (simp only: a2a_word_run copies_def)
  have shift: "a + 8 * of_nat ?m + 8 * of_nat (unat remain_length) = a + 8 * of_nat n" for a :: u32
    unfolding n by (simp add: algebra_simps)
  show ?thesis unfolding a2a_lines_def blocks words shift unfolding n copies_append ..
qed

text \<open>The eight rotations one behind the other: the words of the block \<open>p\<close> are rotated by \<open>p\<close> bytes.\<close>

definition rotating :: "nat \<Rightarrow> nat \<times> u32 \<Rightarrow> nat \<times> u32 \<Rightarrow> u32 \<Rightarrow> u32 \<Rightarrow> nat \<Rightarrow> regions \<Rightarrow> regions" where
  "rotating n src dst s d m = fold (\<lambda>t. RNS_COPY_a2a (8 * (t div n)) 1
     (rank_addr_iter (fst src) (snd src) (s + 8 * of_nat t)) (rank_addr_iter (fst dst) (snd dst) (d + 8 * of_nat t))) [0..<m]"

lemma rotating_Suc:
  "rotating n src dst s d (n * p + n) mem
    = copies (RNS_COPY_a2a (8 * p) 1) src dst (s + 8 * of_nat (n * p)) (d + 8 * of_nat (n * p)) n (rotating n src dst s d (n * p) mem)"
proof -
  have split: "[0..<n * p + n] = [0..<n * p] @ [n * p..<n * p + n]" by (rule upt_add_eq_append) simp
  have shift: "a + 8 * of_nat (n * p + t) = a + 8 * of_nat (n * p) + 8 * of_nat t" for a :: u32 and t by (simp add: algebra_simps)
  have "fold (\<lambda>t. RNS_COPY_a2a (8 * ((n * p + t) div n)) 1 (rank_addr_iter (fst src) (snd src) (s + 8 * of_nat (n * p) + 8 * of_nat t))
          (rank_addr_iter (fst dst) (snd dst) (d + 8 * of_nat (n * p) + 8 * of_nat t))) [0..<n] m
      = copies (RNS_COPY_a2a (8 * p) 1) src dst (s + 8 * of_nat (n * p)) (d + 8 * of_nat (n * p)) n m" for m
    unfolding copies_def by (rule fold_cong [OF refl refl]) simp
  then show ?thesis unfolding rotating_def split by (simp only: fold_append fold_shift [where m = "n * p"] shift comp_def)
qed

lemma chips_run:
  assumes n: "n = 8 * unat iter_length + unat remain_length"
    and ok: "\<forall>p < 8. a2a_ok src (s + 8 * of_nat (n * p)) n iter_length \<and> a2a_ok dst (d + 8 * of_nat (n * p)) n iter_length"
  shows "m \<le> 8 \<Longrightarrow> fold (\<lambda>p. a2a_lines (RNS_COPY_a2a (8 * p) 1) src dst iter_length remain_length) [0..<m] (s, d, mem)
    = (s + 8 * of_nat (n * m), d + 8 * of_nat (n * m), rotating n src dst s d (n * m) mem)"
proof (induction m)
  case (Suc m)
  have step: "a2a_lines (RNS_COPY_a2a (8 * m) 1) src dst iter_length remain_length (s + 8 * of_nat (n * m), d + 8 * of_nat (n * m), mem')
      = (s + 8 * of_nat (n * m) + 8 * of_nat n, d + 8 * of_nat (n * m) + 8 * of_nat n,
         copies (RNS_COPY_a2a (8 * m) 1) src dst (s + 8 * of_nat (n * m)) (d + 8 * of_nat (n * m)) n mem')" for mem'
    using ok Suc.prems by (intro a2a_lines_run n) simp_all
  have shift: "a + 8 * of_nat (n * m) + 8 * of_nat n = a + 8 * of_nat (n * Suc m)" for a :: u32 by (simp add: algebra_simps)
  have next_m: "n * Suc m = n * m + n" by simp
  have "rotating n src dst s d (n * Suc m) mem = copies (RNS_COPY_a2a (8 * m) 1) src dst (s + 8 * of_nat (n * m))
      (d + 8 * of_nat (n * m)) n (rotating n src dst s d (n * m) mem)" unfolding next_m by (rule rotating_Suc)
  then show ?case using Suc step shift by (simp only: upt_Suc_append zero_le fold_append fold_Cons fold_Nil comp_def id_def Suc_leD)
qed (simp add: rotating_def)

section \<open>The result\<close>

text \<open>
  \<open>n\<close> bytes at \<open>a\<close> of a group and at \<open>b\<close> of another, or of the same one and not overlapping.
\<close>

definition areas_ok :: "nat \<times> u32 \<Rightarrow> u32 \<Rightarrow> nat \<times> u32 \<Rightarrow> u32 \<Rightarrow> nat \<Rightarrow> bool" where
  "areas_ok g a h b n \<longleftrightarrow> unat (snd g) < 8 \<and> unat (snd h) < 8 \<and> bytes_ok a n \<and> bytes_ok b n
     \<and> (g \<noteq> h \<or> unat a + n \<le> unat b \<or> unat b + n \<le> unat a)"

lemma areas_words:
  assumes "areas_ok g a h b (8 * n)" "t < n"
  shows "word_ok g (a + 8 * of_nat t)" "word_ok h (b + 8 * of_nat t)"
  using assms word_offset [of a n t] word_offset [of b n t] by (simp_all add: areas_ok_def word_ok_def)

lemma areas_apart:
  assumes "areas_ok g a h b (8 * n)" "t < n" "u < n"
  shows "group_key h (b + 8 * of_nat t) = group_key h (b + 8 * of_nat u) \<longleftrightarrow> t = u"
    "group_key h (b + 8 * of_nat t) \<noteq> group_key g (a + 8 * of_nat u)"
proof -
  note w = areas_words [OF assms(1)]
  have a: "bytes_ok a (8 * n)" and b: "bytes_ok b (8 * n)" using assms(1) by (simp_all add: areas_ok_def)
  note at = word_offset(1) [OF a assms(3)] word_offset(1) [OF b assms(2)] word_offset(1) [OF b assms(3)]
  have "b + 8 * of_nat t = b + 8 * of_nat u \<longleftrightarrow> unat (b + 8 * of_nat t) = unat (b + 8 * of_nat u)" by (simp only: word_unat_eq_iff)
  then show "group_key h (b + 8 * of_nat t) = group_key h (b + 8 * of_nat u) \<longleftrightarrow> t = u"
    unfolding key_inj [OF w(2) [OF assms(2)] w(2) [OF assms(3)]] at by auto
  have "unat (b + 8 * of_nat t) \<noteq> unat (a + 8 * of_nat u)" if "g = h"
    unfolding at using assms that by (auto simp: areas_ok_def)
  then show "group_key h (b + 8 * of_nat t) \<noteq> group_key g (a + 8 * of_nat u)"
    unfolding key_inj [OF w(2) [OF assms(2)] w(1) [OF assms(3)]] by auto
qed

text \<open>Copies of single words that do not get into each other's way.\<close>

lemma copies_lines:
  fixes mem :: regions
  assumes areas: "areas_ok g a h b (8 * n)"
    and ok: "\<And>t. t < n \<Longrightarrow> step_ok [group_key g (a + 8 * of_nat t)] [group_key h (b + 8 * of_nat t)] (map (f t))"
  defines "mem' \<equiv> fold (\<lambda>t. line_step [group_key g (a + 8 * of_nat t)] [group_key h (b + 8 * of_nat t)] (map (f t))) [0..<n] mem"
  shows "t < n \<Longrightarrow> pe_word mem' h c (b + 8 * of_nat t) = line_word (f t (load_line (group_key g (a + 8 * of_nat t)) mem)) c"
    "word_ok k x \<Longrightarrow> \<not> (k = h \<and> unat b \<le> unat x \<and> unat x < unat b + 8 * n) \<Longrightarrow> pe_word mem' k c x = pe_word mem k c x"
proof -
  let ?S = "\<lambda>t. [group_key g (a + 8 * of_nat t)]" and ?D = "\<lambda>t. [group_key h (b + 8 * of_nat t)]"
  note run = run_steps [of n ?S ?D "\<lambda>t. map (f t)" mem]
  have "\<forall>t < n. \<forall>u < n. t < u \<longrightarrow> set (?D t) \<inter> set (?D u) = {} \<and> set (?D t) \<inter> set (?S u) = {}"
    using areas_apart [OF areas] by auto
  with ok have all: "(\<forall>t < n. \<forall>i < length (?D t). load_line (?D t ! i) mem' = map (f t) (map (\<lambda>l. load_line l mem) (?S t)) ! i)
    \<and> (\<forall>l. (\<forall>t < n. l \<notin> set (?D t)) \<longrightarrow> load_line l mem' = load_line l mem)"
    unfolding mem'_def by (intro run) auto
  show "t < n \<Longrightarrow> pe_word mem' h c (b + 8 * of_nat t) = line_word (f t (load_line (group_key g (a + 8 * of_nat t)) mem)) c"
    using all areas_words [OF areas] by (simp add: pe_word_key)
  assume x: "word_ok k x" "\<not> (k = h \<and> unat b \<le> unat x \<and> unat x < unat b + 8 * n)"
  have "group_key k x \<noteq> group_key h (b + 8 * of_nat t)" if "t < n" for t
  proof -
    have "bytes_ok b (8 * n)" using areas by (simp add: areas_ok_def)
    from word_offset(1) [OF this that] have "unat (b + 8 * of_nat t) = unat b + 8 * t" .
    then have "k = h \<Longrightarrow> x \<noteq> b + 8 * of_nat t" using x(2) that by auto
    then show ?thesis unfolding key_inj [OF x(1) areas_words(2) [OF areas that]] by blast
  qed
  then have "\<forall>t < n. group_key k x \<notin> set [group_key h (b + 8 * of_nat t)]" by simp
  then have "load_line (group_key k x) mem' = load_line (group_key k x) mem" using conjunct2 [OF all] by blast
  then show "pe_word mem' k c x = pe_word mem k c x" by (simp add: pe_word_key [OF x(1)])
qed

lemma mod64: "(x :: u32) mod 64 = 0 \<longleftrightarrow> 64 dvd unat x"
proof -
  have "x mod 64 = 0 \<longleftrightarrow> unat (x mod 64) = 0" by (simp only: unat_eq_0)
  also have "\<dots> \<longleftrightarrow> unat x mod 64 = 0" by (simp add: unat_mod)
  finally show ?thesis by (simp only: dvd_eq_mod_eq_0)
qed

lemma dvd64_add: "64 dvd unat x \<Longrightarrow> 64 dvd unat y \<Longrightarrow> 64 dvd unat (x + y :: u32)"
proof -
  assume "64 dvd unat x" "64 dvd unat y"
  then have "64 dvd (unat x + unat y) mod 2 ^ 32" by (simp add: dvd_mod)
  then show ?thesis by (simp add: unat_word_ariths)
qed

lemma all_to_all_words:
  fixes src_rg_id dst_rg_id src_start_offset dst_start_offset byte_length communication_buffer_offset :: u32 and base_src base_dst :: nat and mem :: regions
  defines "src \<equiv> (base_src, src_rg_id)" and "dst \<equiv> (base_dst, dst_rg_id)"
    and "s \<equiv> src_start_offset + 1024 * 1024" and "d \<equiv> dst_start_offset + 1024 * 1024 + communication_buffer_offset"
    and "n \<equiv> unat byte_length div 8"
    and "mem' \<equiv> xeon_sp_trans_all_to_all_rg base_src base_dst src_rg_id dst_rg_id src_start_offset dst_start_offset byte_length 0
      communication_buffer_offset mem"
  assumes length: "8 dvd unat byte_length" and areas: "areas_ok src s dst d (8 * unat byte_length)"
    and fast: "src_start_offset mod 64 = 0 \<and> dst_start_offset mod 64 = 0 \<longrightarrow> byte_length mod 64 = 0 \<and> communication_buffer_offset mod 64 = 0"
  shows "(\<forall>p < 8. \<forall>i < n. \<forall>c < 8. pe_word mem' dst c (d + 8 * of_nat (n * p + i)) = pe_word mem src ((c + 8 - p) mod 8) (s + 8 * of_nat (n * p + i)))
    \<and> (\<forall>g c a. word_ok g a \<longrightarrow> \<not> (g = dst \<and> unat d \<le> unat a \<and> unat a < unat d + 8 * unat byte_length) \<longrightarrow> pe_word mem' g c a = pe_word mem g c a)"
proof -
  have n: "unat byte_length = 8 * n" using length by (simp add: n_def)
  have areas: "areas_ok src s dst d (8 * (n * 8))" using areas by (simp add: n mult.commute mult.left_commute)
  define aligned where "aligned \<longleftrightarrow> src_start_offset mod 64 = 0 \<and> dst_start_offset mod 64 = 0"
  define iter_length where "iter_length = (if aligned then byte_length div 64 else 0)"
  define remain_length where "remain_length = (if aligned then (byte_length mod 64 + 7) div 8 else byte_length div 8)"
  have counts: "n = 8 * unat iter_length + unat remain_length"
  proof (cases aligned)
    case True
    then have "byte_length mod 64 = 0" using fast by (simp add: aligned_def)
    moreover from this have "64 dvd 8 * n" unfolding mod64 n .
    ultimately show ?thesis using True n by (auto simp: iter_length_def remain_length_def unat_div)
  next
    case False
    then show ?thesis using n by (simp add: iter_length_def remain_length_def unat_div)
  qed
  have start: "64 dvd unat (a + 8 * of_nat (n * p))" if aligned "64 dvd unat a" "bytes_ok a (8 * (n * 8))" "p < 8" "n \<noteq> 0" for a p
  proof -
    have "64 dvd 8 * n" using fast that(1) unfolding aligned_def mod64 n by blast
    then have "64 dvd 8 * n * p" by (rule dvd_mult2)
    then have "64 dvd 8 * (n * p)" by (simp only: mult.assoc)
    moreover have "n * p < n * 8" using that(4,5) by simp
    ultimately show ?thesis using word_offset(1) [OF that(3), of "n * p"] that(2) by (simp only: dvd_add)
  qed
  have piece: "a2a_ok g (a + 8 * of_nat (n * p)) n iter_length"
    if g: "unat (snd g) < 8" and a: "bytes_ok a (8 * (n * 8))" "aligned \<Longrightarrow> 64 dvd unat a" and p: "p < 8" for g a p
  proof (cases "n = 0")
    case True
    then have "iter_length = 0" using counts by (simp add: unsigned_eq_0_iff)
    with True show ?thesis using g a by (simp add: a2a_ok_def bytes_ok_def)
  next
    case False
    then have "n * p < n * 8" using p by simp
    note at = word_offset [OF a(1) this]
    have "n * p + n \<le> n * 8" using p by (metis Suc_leI mult_Suc_right add.commute mult_le_mono2)
    then have "8 * (n * p) + 8 * n \<le> 8 * (n * 8)" by linarith
    then have "bytes_ok (a + 8 * of_nat (n * p)) (8 * n)"
      using a(1) at(2) unfolding bytes_ok_def at(1) by linarith
    moreover have "iter_length \<noteq> 0 \<Longrightarrow> aligned" by (simp add: iter_length_def split: if_splits)
    ultimately show ?thesis using g start [OF _ a(2) a(1) p False] by (auto simp: a2a_ok_def)
  qed
  have "unat (snd src) < 8" "unat (snd dst) < 8" "bytes_ok s (8 * (n * 8))" "bytes_ok d (8 * (n * 8))"
    using areas by (simp_all add: areas_ok_def)
  moreover have "64 dvd unat s" if aligned
    using that unfolding aligned_def mod64 s_def by (intro dvd64_add) simp_all
  moreover have "64 dvd unat d" if aligned
    using that fast unfolding aligned_def mod64 d_def by (intro dvd64_add) simp_all
  ultimately have "\<forall>p < 8. a2a_ok src (s + 8 * of_nat (n * p)) n iter_length \<and> a2a_ok dst (d + 8 * of_nat (n * p)) n iter_length"
    using piece by blast
  from chips_run [OF counts this order_refl] have "mem' = rotating n src dst s d (n * 8) mem"
    by (simp add: mem'_def xeon_sp_trans_all_to_all_rg_def Let_def s_def d_def src_def dst_def iter_length_def remain_length_def aligned_def)
  also have "\<dots> = fold (\<lambda>t. line_step [group_key src (s + 8 * of_nat t)] [group_key dst (d + 8 * of_nat t)]
      (map (\<lambda>v. mm512_rol_epi64 v (8 * (t div n))))) [0..<n * 8] mem"
    unfolding rotating_def
    by (rule fold_cong [OF refl refl]) (simp add: key_ptr areas_words [OF areas] copy_steps [unfolded One_nat_def])
  finally have mem': "mem' = fold (\<lambda>t. line_step [group_key src (s + 8 * of_nat t)] [group_key dst (d + 8 * of_nat t)]
      (map (\<lambda>v. mm512_rol_epi64 v (8 * (t div n))))) [0..<n * 8] mem" .
  note result = copies_lines [OF areas, where f = "\<lambda>t v. mm512_rol_epi64 v (8 * (t div n))" and mem = mem, OF copy_step_ok(1), folded mem']
  have "pe_word mem' dst c (d + 8 * of_nat (n * p + i)) = pe_word mem src ((c + 8 - p) mod 8) (s + 8 * of_nat (n * p + i))"
    if "p < 8" "i < n" "c < 8" for p i c
  proof -
    have "n * p + n \<le> n * 8" using that(1) by (metis Suc_leI mult_Suc_right add.commute mult_le_mono2)
    then have t: "n * p + i < n * 8" using that(2) by linarith
    have q: "(n * p + i) div n = p" using that(2) by simp
    show ?thesis using that
      unfolding result(1) [OF t, of c] pe_word_key [OF areas_words(1) [OF areas t]] q
      by (simp add: line_word_rol length_load_line del: of_nat_add of_nat_mult)
  qed
  moreover have "pe_word mem' g c a = pe_word mem g c a"
    if "word_ok g a" "\<not> (g = dst \<and> unat d \<le> unat a \<and> unat a < unat d + 8 * unat byte_length)" for g c a
    using that by (intro result(2)) (simp_all add: n mult.commute mult.left_commute)
  ultimately show ?thesis by blast
qed

text \<open>
  C3: the all-to-all between two groups: of the eight blocks of \<open>byte_length\<close> bytes of each DPU of the
  source the block \<open>p\<close> of the DPU \<open>c\<close> goes to the block \<open>p\<close> of the DPU \<open>c + p\<close> (modulo 8) of the
  destination; every other word of every MRAM stays as it is. This holds for areas that are aligned to a
  word, in the bank and do not overlap; where the code copies 64 bytes at once, it needs lengths and a
  buffer offset aligned to 64 bytes, which it does not check.
\<close>

theorem all_to_all_rotates:
  fixes src_rg_id dst_rg_id src_start_offset dst_start_offset byte_length communication_buffer_offset :: u32 and base_src base_dst :: nat and mem :: regions
  defines "src \<equiv> (base_src, src_rg_id)" and "dst \<equiv> (base_dst, dst_rg_id)"
    and "s \<equiv> src_start_offset + 1024 * 1024" and "d \<equiv> dst_start_offset + 1024 * 1024 + communication_buffer_offset"
    and "n \<equiv> unat byte_length div 8"
    and "mem' \<equiv> xeon_sp_trans_all_to_all_rg base_src base_dst src_rg_id dst_rg_id src_start_offset dst_start_offset byte_length 0
      communication_buffer_offset mem"
  assumes length: "8 dvd unat byte_length" and areas: "areas_ok src s dst d (8 * unat byte_length)"
    and fast: "src_start_offset mod 64 = 0 \<and> dst_start_offset mod 64 = 0 \<longrightarrow> byte_length mod 64 = 0 \<and> communication_buffer_offset mod 64 = 0"
  shows "(\<forall>p < 8. \<forall>i < n. \<forall>c < 8. pe_word mem' dst c (d + 8 * of_nat (n * p + i)) = pe_word mem src ((c + 8 - p) mod 8) (s + 8 * of_nat (n * p + i)))
    \<and> (\<forall>g c a. word_ok g a \<longrightarrow> \<not> (g = dst \<and> unat d \<le> unat a \<and> unat a < unat d + 8 * unat byte_length) \<longrightarrow> pe_word mem' g c a = pe_word mem g c a)"
  unfolding src_def dst_def s_def d_def n_def mem'_def
  by (rule all_to_all_words [OF length areas [unfolded src_def dst_def s_def d_def] fast])

lemma all_to_all_rotates_witness:
  "pe_word (xeon_sp_trans_all_to_all_rg 0 1 2 3 0 0 64 0 0 (\<lambda>r i. of_nat (i + r))) (1, 3) 5 (1048576 + 8 * of_nat (8 * 3 + 2))
    = pe_word (\<lambda>r i. of_nat (i + r)) (0, 2) 2 (1048576 + 8 * of_nat (8 * 3 + 2))"
proof -
  have "areas_ok (0, 2) 1048576 (1, 3) 1048576 (8 * unat (64 :: u32))" by (simp add: areas_ok_def bytes_ok_def)
  from conjunct1 [OF all_to_all_rotates [where src_start_offset = 0 and dst_start_offset = 0 and byte_length = 64 and communication_buffer_offset = 0
      and src_rg_id = 2 and dst_rg_id = 3 and base_src = 0 and base_dst = 1 and mem = "\<lambda>r i. of_nat (i + r)"],
    THEN spec [of _ 3], THEN mp, THEN spec [of _ 2], THEN mp, THEN spec [of _ 5], THEN mp]
  show ?thesis by (simp add: \<open>areas_ok _ _ _ _ _\<close> [simplified])
qed

end
