(* ===== verification/Pid_Gather.thy ===== *)
theory Pid_Gather
  imports Pid_All_To_All
begin

text \<open>
  Collective operations that store many lines in a round, seen word by word: runs of such rounds, and
  the all-gather (\<^verbatim>\<open>xeon_sp_trans_all_gather_rg\<close>).
\<close>

section \<open>Rounds that store many lines\<close>

lemma line_step_map:
  "line_step S (map K L) (\<lambda>vs. map (V vs) L) mem = fold (\<lambda>x. store_line (K x) (V (map (\<lambda>l. load_line l mem) S) x)) L mem"
proof -
  have "zip (map K L) (map f L) = map (\<lambda>x. (K x, f x)) L" for f by (induction L) simp_all
  from this [of "V (map (\<lambda>l. load_line l mem) S)"] show ?thesis by (simp add: line_step_def fold_map comp_def)
qed

lemma run_values:
  fixes n :: nat and S :: "nat \<Rightarrow> (nat \<times> nat) list" and K :: "nat \<Rightarrow> 'a \<Rightarrow> nat \<times> nat" and V :: "nat \<Rightarrow> u8 list list \<Rightarrow> 'a \<Rightarrow> u8 list"
    and L :: "'a list" and mem :: regions
  defines "mem' \<equiv> fold (\<lambda>t. line_step (S t) (map (K t) L) (\<lambda>vs. map (V t vs) L)) [0..<n] mem"
  assumes L: "\<forall>t < n. distinct (map (K t) L)"
    and apart: "\<forall>t < n. \<forall>u < n. t < u \<longrightarrow> (\<forall>x \<in> set L. (\<forall>y \<in> set L. K t x \<noteq> K u y) \<and> K t x \<notin> set (S u))"
    and len: "\<forall>t < n. \<forall>x \<in> set L. \<forall>vs. length vs = length (S t) \<longrightarrow> (\<forall>v \<in> set vs. length v = 64) \<longrightarrow> length (V t vs x) = 64"
  shows "t < n \<Longrightarrow> x \<in> set L \<Longrightarrow> load_line (K t x) mem' = V t (map (\<lambda>l. load_line l mem) (S t)) x"
    "(\<forall>t < n. \<forall>x \<in> set L. K t x \<noteq> l) \<Longrightarrow> load_line l mem' = load_line l mem"
proof -
  have ok: "\<forall>t < n. step_ok (S t) (map (K t) L) (\<lambda>vs. map (V t vs) L)"
    using L len by (auto simp: step_ok_def)
  have sets: "\<forall>t < n. \<forall>u < n. t < u \<longrightarrow> set (map (K t) L) \<inter> set (map (K u) L) = {} \<and> set (map (K t) L) \<inter> set (S u) = {}"
  proof (intro allI impI)
    fix t u assume tu: "t < n" "u < n" "t < u"
    have "\<forall>x \<in> set L. (\<forall>y \<in> set L. K t x \<noteq> K u y) \<and> K t x \<notin> set (S u)" using apart tu by blast
    then show "set (map (K t) L) \<inter> set (map (K u) L) = {} \<and> set (map (K t) L) \<inter> set (S u) = {}"
      unfolding disjoint_iff set_map by (metis imageE)
  qed
  note all = run_steps [OF ok sets, of mem, folded mem'_def]
  {
    assume t: "t < n" and x: "x \<in> set L"
    obtain i where i: "i < length L" "L ! i = x" using x by (auto simp: in_set_conv_nth)
    then show "load_line (K t x) mem' = V t (map (\<lambda>l. load_line l mem) (S t)) x"
      using conjunct1 [OF all] t by auto
  next
    assume "\<forall>t < n. \<forall>x \<in> set L. K t x \<noteq> l"
    then have "\<forall>t < n. l \<notin> set (map (K t) L)" by auto
    then show "load_line l mem' = load_line l mem" using conjunct2 [OF all] by blast
  }
qed

text \<open>The two offsets that the rounds move on.\<close>

lemma offsets_run:
  "fold (\<lambda>i (s, d, mem). (s + 8, d + 8, f s d mem)) xs (s, d, mem)
    = (s + 8 * of_nat (length xs) :: u32, d + 8 * of_nat (length xs) :: u32, fold (\<lambda>t. f (s + 8 * of_nat t) (d + 8 * of_nat t)) [0..<length xs] mem)"
  by (induction xs rule: rev_induct) (simp_all add: algebra_simps)

lemma one_thread: "thread_rounds m 1 0 = [0..<unat m]"
  by (simp add: thread_rounds_def)

section \<open>Places\<close>

definition group_list :: "nat list \<Rightarrow> u32 list \<Rightarrow> nat \<Rightarrow> (nat \<times> u32) list" where
  "group_list base rg_id n = map (\<lambda>j. (base ! j, rg_id ! j)) [0..<n]"

lemma area_word:
  assumes "unat (snd g) < 8" "bytes_ok a (8 * m)" "t < m"
  shows "word_ok g (a + 8 * of_nat t)"
  using assms word_offset [OF assms(2,3)] by (simp add: word_ok_def)

lemma area_key:
  assumes "unat (snd g) < 8" "bytes_ok a (8 * m)" "t < m" "unat (snd h) < 8" "bytes_ok b (8 * l)" "u < l"
  shows "group_key g (a + 8 * of_nat t) = group_key h (b + 8 * of_nat u) \<longleftrightarrow> g = h \<and> unat a + 8 * t = unat b + 8 * u"
proof -
  have "a + 8 * of_nat t = b + 8 * of_nat u \<longleftrightarrow> unat a + 8 * t = unat b + 8 * u"
    unfolding word_unat_eq_iff word_offset(1) [OF assms(2,3)] word_offset(1) [OF assms(5,6)] ..
  then show ?thesis unfolding key_inj [OF area_word [OF assms(1-3)] area_word [OF assms(4-6)]] by blast
qed

lemma index_inj:
  assumes "t < n" "u < (n :: nat)"
  shows "n * k + t = n * l + u \<longleftrightarrow> k = l \<and> t = u"
proof
  assume eq: "n * k + t = n * l + u"
  then have "(n * k + t) div n = (n * l + u) div n" by simp
  then have "k = l" using assms by simp
  with eq show "k = l \<and> t = u" by simp
qed simp

lemma index_bound: "t < n \<Longrightarrow> k < m \<Longrightarrow> n * k + t < n * (m :: nat)"
proof -
  assume "t < n" "k < m"
  then have "n * Suc k \<le> n * m" by (intro mult_le_mono2) simp
  with \<open>t < n\<close> show ?thesis by simp
qed

lemma block_address:
  assumes "8 dvd unat (byte_length :: u32)" "n = unat byte_length div 8"
  shows "a + 8 * of_nat t + of_nat k * byte_length = a + 8 * of_nat (n * k + t)"
    "a + 8 * of_nat t + byte_length * of_nat k = a + 8 * of_nat (n * k + t)" "unat (byte_length div 8) = n"
proof -
  have "byte_length = of_nat (unat byte_length)" by simp
  also have "unat byte_length = 8 * n" using assms by simp
  finally have b: "byte_length = 8 * of_nat n" by simp
  show "a + 8 * of_nat t + of_nat k * byte_length = a + 8 * of_nat (n * k + t)"
    "a + 8 * of_nat t + byte_length * of_nat k = a + 8 * of_nat (n * k + t)" unfolding b by (simp_all add: algebra_simps)
  show "unat (byte_length div 8) = n" by (simp add: unat_div assms(2))
qed

section \<open>All-gather\<close>

text \<open>The register behind \<open>k\<close> rotations by one byte.\<close>

abbreviation rotated :: "nat \<Rightarrow> u8 list \<Rightarrow> u8 list" where
  "rotated k \<equiv> (\<lambda>v. mm512_rol_epi64 v 8) ^^ k"

lemma line_word_rotated:
  assumes "length v = 64" "c < 8"
  shows "length (rotated k v) = 64 \<and> (k \<le> 8 \<longrightarrow> line_word (rotated k v) c = line_word v ((c + 8 - k) mod 8))"
  using assms(2)
proof (induction k arbitrary: c)
  case (Suc k)
  then have len: "length (rotated k v) = 64" by blast
  have "(c + 8 - 1) mod 8 < 8" by simp
  then have "k \<le> 8 \<longrightarrow> line_word (rotated k v) ((c + 8 - 1) mod 8) = line_word v (((c + 8 - 1) mod 8 + 8 - k) mod 8)"
    using Suc.IH by blast
  moreover have "((c + 8 - 1) mod 8 + 8 - k) mod 8 = (c + 8 - Suc k) mod 8" if "Suc k \<le> 8"
    using that Suc.prems by (cases "c = 0") (simp_all add: mod_if)
  moreover have "line_word (mm512_rol_epi64 (rotated k v) (8 * 1)) c = line_word (rotated k v) ((c + 8 - 1) mod 8)"
    using len Suc.prems by (intro line_word_rol) simp_all
  ultimately show ?case using len by (simp add: length_rol)
qed (simp add: assms)

text \<open>All blocks of all groups, in the order of the code.\<close>

definition spread :: "nat \<Rightarrow> nat \<Rightarrow> (nat \<times> nat) list" where
  "spread n m = concat (map (\<lambda>k. map (\<lambda>g. (g, k)) [0..<n]) [0..<m])"

lemma spread_set: "(g, k) \<in> set (spread n m) \<longleftrightarrow> g < n \<and> k < m"
  by (auto simp: spread_def image_iff Bex_def)

lemma distinct_spread: "distinct (spread n m)"
proof (induction m)
  case (Suc m)
  have "spread n (Suc m) = spread n m @ map (\<lambda>g. (g, m)) [0..<n]" by (simp add: spread_def)
  moreover have "set (spread n m) \<inter> set (map (\<lambda>g. (g, m)) [0..<n]) = {}" by (auto simp: spread_set)
  moreover have "distinct (map (\<lambda>g. (g, m)) [0..<n])" by (simp add: distinct_map inj_on_def)
  ultimately show ?case using Suc by simp
qed (simp add: spread_def)

lemma gather_rounds:
  "fold (\<lambda>k (reg1, mem). let reg1 = (if k = 0 then reg1 else mm512_rol_epi64 reg1 8)
      in (reg1, fold (\<lambda>cl mem. stream_si512 (dst ! (8 * cl + k)) reg1 mem) [0..<n] mem)) [0..<m] (v, mem)
    = (rotated (m - 1) v, fold (\<lambda>(g, k). stream_si512 (dst ! (8 * g + k)) (rotated k v)) (spread n m) mem)"
proof (induction m)
  case (Suc m)
  have "spread n (Suc m) = spread n m @ map (\<lambda>g. (g, m)) [0..<n]" by (simp add: spread_def)
  with Suc show ?case by (cases m) (simp_all add: fold_map comp_def Let_def)
qed (simp add: spread_def)

text \<open>
  The word \<open>t\<close> of the block \<open>k\<close> of the group \<open>g\<close> that a run stores behind \<open>d\<close>: in areas that are in the
  bank, no word is stored twice.
\<close>

definition block_key :: "(nat \<times> u32) list \<Rightarrow> u32 \<Rightarrow> nat \<Rightarrow> nat \<Rightarrow> nat \<times> nat \<Rightarrow> nat \<times> nat" where
  "block_key gs d n t = (\<lambda>(g, k). group_key (gs ! g) (d + 8 * of_nat (n * k + t)))"

definition groups_ok :: "(nat \<times> u32) list \<Rightarrow> bool" where
  "groups_ok gs \<longleftrightarrow> distinct gs \<and> (\<forall>g \<in> set gs. unat (snd g) < 8)"

lemma block_key_inj:
  assumes gs: "groups_ok gs" and d: "bytes_ok d (8 * (n * 8))" and x: "fst x < length gs" "snd x < 8" "t < n"
    and y: "fst y < length gs" "snd y < 8" "u < n"
  shows "block_key gs d n t x = block_key gs d n u y \<longleftrightarrow> t = u \<and> x = y"
proof -
  have g: "unat (snd (gs ! fst x)) < 8" "unat (snd (gs ! fst y)) < 8" using gs x y by (simp_all add: groups_ok_def)
  have b: "n * snd x + t < n * 8" "n * snd y + u < n * 8" using x y by (simp_all add: index_bound)
  have cancel: "unat d + 8 * p = unat d + 8 * q \<longleftrightarrow> p = q" for p q :: nat by simp
  have "block_key gs d n t x = block_key gs d n u y \<longleftrightarrow> gs ! fst x = gs ! fst y \<and> n * snd x + t = n * snd y + u"
    unfolding block_key_def split_beta area_key [OF g(1) d b(1) g(2) d b(2)] cancel ..
  also have "\<dots> \<longleftrightarrow> fst x = fst y \<and> snd x = snd y \<and> t = u"
    using gs x y by (simp add: index_inj groups_ok_def nth_eq_iff_index_eq)
  finally show ?thesis by (auto simp: prod_eq_iff)
qed

lemma block_keys_distinct:
  assumes gs: "groups_ok gs" and d: "bytes_ok d (8 * (n * 8))" and t: "t < n"
    and L: "distinct L" "\<forall>x \<in> set L. fst x < length gs \<and> snd x < 8"
  shows "distinct (map (block_key gs d n t) L)"
proof -
  have "inj_on (block_key gs d n t) (set L)"
  proof (rule inj_onI)
    fix x y assume xy: "x \<in> set L" "y \<in> set L" "block_key gs d n t x = block_key gs d n t y"
    then have "fst x < length gs" "snd x < 8" "fst y < length gs" "snd y < 8" using L(2) by blast+
    with xy(3) show "x = y" using block_key_inj [OF gs d _ _ t _ _ t, of x y] by blast
  qed
  then show ?thesis by (simp add: distinct_map L(1))
qed

lemma block_word:
  assumes gs: "groups_ok gs" and d: "bytes_ok d (8 * (n * 8))" and x: "g < length gs" "k < 8" "t < n"
  shows "word_ok (gs ! g) (d + 8 * of_nat (n * k + t))"
  using assms index_bound [OF x(3,2)] by (intro area_word [where m = "n * 8"]) (simp_all add: groups_ok_def)

lemma other_word:
  assumes gs: "groups_ok gs" and d: "bytes_ok d (8 * (n * 8))" and x: "g < length gs" "k < 8" "t < n"
    and a: "word_ok h a" "\<not> (h \<in> set gs \<and> unat d \<le> unat a \<and> unat a < unat d + 64 * n)"
  shows "block_key gs d n t (g, k) \<noteq> group_key h a"
proof
  assume "block_key gs d n t (g, k) = group_key h a"
  then have eq: "gs ! g = h" "d + 8 * of_nat (n * k + t) = a"
    using key_inj [OF block_word [OF gs d x] a(1)] by (simp_all add: block_key_def)
  have "n * k + t < n * 8" using x by (simp add: index_bound)
  then have "unat a = unat d + 8 * (n * k + t)" using word_offset(1) [OF d] eq(2) by blast
  moreover have "h \<in> set gs" using eq(1) x(1) nth_mem by blast
  moreover have "8 * (n * k + t) < 8 * (n * 8)" using \<open>n * k + t < n * 8\<close> by (intro mult_strict_left_mono) simp_all
  moreover from calculation have "unat d \<le> unat a" "unat a < unat d + 64 * n" by linarith+
  ultimately show False using a(2) by blast
qed

lemma gather_step:
  assumes gs: "groups_ok gs" and d: "bytes_ok d (8 * (n * 8))" and src: "word_ok src s" and t: "t < n"
    and dst: "\<And>g k. g < length gs \<Longrightarrow> k < 8 \<Longrightarrow> dst ! (8 * g + k) = rank_addr_iter (fst (gs ! g)) (snd (gs ! g)) (d + 8 * of_nat (n * k + t))"
  shows "RNS_COPY_ag (length gs) (rank_addr_iter (fst src) (snd src) s) dst
    = line_step [group_key src s] (map (block_key gs d n t) (spread (length gs) 8)) (\<lambda>vs. map (\<lambda>(g, k). rotated k (vs ! 0)) (spread (length gs) 8))"
proof
  fix mem
  let ?v = "load_line (group_key src s) mem"
  have store: "store_line (block_key gs d n t (g, k)) v = stream_si512 (dst ! (8 * g + k)) v" if "g < length gs" "k < 8" for g k v
    unfolding store_line_def block_key_def prod.case dst [OF that] key_ptr [OF block_word [OF gs d that t]] ..
  have "RNS_COPY_ag (length gs) (rank_addr_iter (fst src) (snd src) s) dst mem
      = fold (\<lambda>(g, k). stream_si512 (dst ! (8 * g + k)) (rotated k ?v)) (spread (length gs) 8) mem"
    by (simp only: RNS_COPY_ag_def gather_rounds snd_conv key_ptr [OF src] load_line_def)
  also have "\<dots> = fold (\<lambda>x. store_line (block_key gs d n t x) (case x of (g, k) \<Rightarrow> rotated k ?v)) (spread (length gs) 8) mem"
    by (rule fold_cong [OF refl refl]) (auto simp only: spread_set prod.case store split: prod.splits)
  also have "\<dots> = line_step [group_key src s] (map (block_key gs d n t) (spread (length gs) 8))
      (\<lambda>vs. map (\<lambda>(g, k). rotated k (vs ! 0)) (spread (length gs) 8)) mem"
    by (simp only: line_step_map list.map nth_Cons_0)
  finally show "RNS_COPY_ag (length gs) (rank_addr_iter (fst src) (snd src) s) dst mem
    = line_step [group_key src s] (map (block_key gs d n t) (spread (length gs) 8)) (\<lambda>vs. map (\<lambda>(g, k). rotated k (vs ! 0)) (spread (length gs) 8)) mem" .
qed

lemma all_gather_rounds:
  fixes base_src num_iter_dst :: nat and base_dst :: "nat list" and dst_rg_id :: "u32 list" and src_rg_id s d byte_length :: u32
  defines "src \<equiv> (base_src, src_rg_id)" and "gs \<equiv> group_list base_dst dst_rg_id num_iter_dst" and "n \<equiv> unat byte_length div 8"
  assumes length: "8 dvd unat byte_length" and gs: "groups_ok gs" and d: "bytes_ok d (8 * (n * 8))"
    and src: "unat (snd src) < 8" and s: "bytes_ok s (8 * n)" and t: "t < n"
  shows "RNS_COPY_ag num_iter_dst (rank_addr_iter base_src src_rg_id (s + 8 * of_nat t))
      (map (\<lambda>rg_offset. rank_addr_iter (base_dst ! (rg_offset div 8)) (dst_rg_id ! (rg_offset div 8))
         (d + 8 * of_nat t + of_nat (rg_offset mod 8) * byte_length)) [0..<8 * num_iter_dst])
    = line_step [group_key src (s + 8 * of_nat t)] (map (block_key gs d n t) (spread num_iter_dst 8))
        (\<lambda>vs. map (\<lambda>(g, k). rotated k (vs ! 0)) (spread num_iter_dst 8))"
proof -
  have len: "length gs = num_iter_dst" by (simp add: gs_def group_list_def)
  have at: "gs ! g = (base_dst ! g, dst_rg_id ! g)" if "g < num_iter_dst" for g using that by (simp add: gs_def group_list_def)
  let ?dst = "map (\<lambda>rg_offset. rank_addr_iter (base_dst ! (rg_offset div 8)) (dst_rg_id ! (rg_offset div 8))
         (d + 8 * of_nat t + of_nat (rg_offset mod 8) * byte_length)) [0..<8 * num_iter_dst]"
  have "?dst ! (8 * g + k) = rank_addr_iter (fst (gs ! g)) (snd (gs ! g)) (d + 8 * of_nat (n * k + t))"
    if "g < length gs" "k < 8" for g k
  proof -
    have "8 * g + k < 8 * num_iter_dst" using that len by linarith
    moreover have "(8 * g + k) div 8 = g" "(8 * g + k) mod 8 = k" using that(2) by simp_all
    moreover note block_address(1) [OF length n_def [THEN meta_eq_to_obj_eq], of d t k, symmetric]
    ultimately show ?thesis using that len by (simp only: at fst_conv snd_conv nth_map length_upt diff_zero nth_upt plus_nat.add_0)
  qed
  from gather_step [OF gs d area_word [OF src s t] t this] show ?thesis by (simp only: len src_def fst_conv snd_conv)
qed

text \<open>
  C4: the all-gather of a group: the block of \<open>byte_length\<close> bytes of the DPU \<open>c - k\<close> (modulo 8) of the
  source becomes the block \<open>k\<close> of the DPU \<open>c\<close> of every destination, so every DPU has the blocks of all
  eight; every other word of every MRAM stays as it is. This holds for the single thread that the callers
  ask for, whole words, different destinations, and areas in the bank that do not overlap.
\<close>

theorem all_gather_spreads:
  fixes src_rg_id src_start_offset dst_start_offset byte_length communication_buffer_offset :: u32
    and base_src num_iter_dst :: nat and base_dst :: "nat list" and dst_rg_id :: "u32 list" and mem :: regions
  defines "src \<equiv> (base_src, src_rg_id)" and "gs \<equiv> group_list base_dst dst_rg_id num_iter_dst"
    and "s \<equiv> src_start_offset + 1024 * 1024" and "d \<equiv> dst_start_offset + 1024 * 1024 + communication_buffer_offset"
    and "n \<equiv> unat byte_length div 8"
    and "mem' \<equiv> xeon_sp_trans_all_gather_rg base_src base_dst src_rg_id dst_rg_id src_start_offset dst_start_offset byte_length 0
      communication_buffer_offset num_iter_dst 1 0 mem"
  assumes length: "8 dvd unat byte_length" and gs: "groups_ok gs" and src: "unat (snd src) < 8"
    and s: "bytes_ok s (8 * n)" and d: "bytes_ok d (8 * (n * 8))"
    and apart: "src \<in> set gs \<Longrightarrow> unat s + 8 * n \<le> unat d \<or> unat d + 64 * n \<le> unat s"
  shows "(\<forall>g < num_iter_dst. \<forall>k < 8. \<forall>i < n. \<forall>c < 8.
        pe_word mem' (gs ! g) c (d + 8 * of_nat (n * k + i)) = pe_word mem src ((c + 8 - k) mod 8) (s + 8 * of_nat i))
    \<and> (\<forall>g c a. word_ok g a \<longrightarrow> \<not> (g \<in> set gs \<and> unat d \<le> unat a \<and> unat a < unat d + 64 * n) \<longrightarrow> pe_word mem' g c a = pe_word mem g c a)"
proof -
  have len: "length gs = num_iter_dst" by (simp add: gs_def group_list_def)
  let ?L = "spread num_iter_dst 8" and ?K = "block_key gs d n" and ?S = "\<lambda>t. [group_key src (s + 8 * of_nat t)]"
    and ?V = "\<lambda>(t :: nat) vs (g :: nat, k). rotated k (vs ! 0 :: u8 list)"
  have one: "thread_rounds (byte_length div 8) 1 0 = [0..<n]"
    by (simp only: one_thread block_address(3) [OF length n_def [THEN meta_eq_to_obj_eq]])
  have "mem' = fold (\<lambda>t. RNS_COPY_ag num_iter_dst (rank_addr_iter base_src src_rg_id (s + 8 * of_nat t))
      (map (\<lambda>rg_offset. rank_addr_iter (base_dst ! (rg_offset div 8)) (dst_rg_id ! (rg_offset div 8))
         (d + 8 * of_nat t + of_nat (rg_offset mod 8) * byte_length)) [0..<8 * num_iter_dst])) [0..<n] mem"
    unfolding mem'_def xeon_sp_trans_all_gather_rg_def Let_def one if_P [OF refl] offsets_run snd_conv length_upt diff_zero
    by (simp only: s_def d_def)
  also have "\<dots> = fold (\<lambda>t. line_step (?S t) (map (?K t) ?L) (\<lambda>vs. map (?V t vs) ?L)) [0..<n] mem"
    by (rule fold_cong [OF refl refl], unfold set_upt atLeastLessThan_iff)
      (rule all_gather_rounds [OF length gs [unfolded gs_def] d [unfolded n_def] src [unfolded src_def] s [unfolded n_def],
        folded gs_def n_def src_def], blast)
  finally have mem': "mem' = fold (\<lambda>t. line_step (?S t) (map (?K t) ?L) (\<lambda>vs. map (?V t vs) ?L)) [0..<n] mem" .
  have bound: "fst x < length gs \<and> snd x < 8 \<longleftrightarrow> x \<in> set ?L" for x using spread_set [of "fst x" "snd x"] len by simp
  have d1: "\<forall>t < n. distinct (map (?K t) ?L)"
    using block_keys_distinct [OF gs d _ distinct_spread] bound by blast
  have d2: "\<forall>t < n. \<forall>u < n. t < u \<longrightarrow> (\<forall>x \<in> set ?L. (\<forall>y \<in> set ?L. ?K t x \<noteq> ?K u y) \<and> ?K t x \<notin> set (?S u))"
  proof (intro allI impI ballI conjI)
    fix t u x assume t: "t < n" "u < n" "t < u" "x \<in> set ?L"
    show "?K t x \<noteq> ?K u y" if "y \<in> set ?L" for y
    proof -
      have x: "fst x < length gs" "snd x < 8" "fst y < length gs" "snd y < 8" using bound t(4) that by blast+
      show ?thesis unfolding block_key_inj [OF gs d x(1,2) t(1) x(3,4) t(2)] using t(3) by simp
    qed
    have "\<not> (src \<in> set gs \<and> unat d \<le> unat (s + 8 * of_nat u) \<and> unat (s + 8 * of_nat u) < unat d + 64 * n)"
      using apart t(2) unfolding word_offset(1) [OF s t(2)] by auto
    moreover have "fst x < length gs" "snd x < 8" using bound t(4) by blast+
    ultimately have "?K t (fst x, snd x) \<noteq> group_key src (s + 8 * of_nat u)"
      by (intro other_word [OF gs d _ _ t(1) area_word [OF src s t(2)]])
    then show "?K t x \<notin> set (?S u)" by simp
  qed
  have d3: "\<forall>t < n. \<forall>x \<in> set ?L. \<forall>vs. length vs = length (?S t) \<longrightarrow> (\<forall>v \<in> set vs. length v = 64) \<longrightarrow> length (?V t vs x) = 64"
    using line_word_rotated [of _ 0] by (auto simp: split_beta)
  note result = run_values [where S = ?S and K = ?K and V = ?V and L = ?L and n = n and mem = mem, OF d1 d2 d3, folded mem']
  have "pe_word mem' (gs ! g) c (d + 8 * of_nat (n * k + i)) = pe_word mem src ((c + 8 - k) mod 8) (s + 8 * of_nat i)"
    if "g < num_iter_dst" "k < 8" "i < n" "c < 8" for g k i c
  proof -
    have "load_line (group_key (gs ! g) (d + 8 * of_nat (n * k + i))) mem' = rotated k (load_line (group_key src (s + 8 * of_nat i)) mem)"
      using result(1) [OF that(3), of "(g, k)"] that by (simp add: spread_set block_key_def)
    then show ?thesis
      unfolding pe_word_key [OF block_word [OF gs d that(1) [folded len] that(2,3)]] pe_word_key [OF area_word [OF src s that(3)]]
      using line_word_rotated [OF length_load_line that(4), of k] that(2) by simp
  qed
  moreover have "pe_word mem' g c a = pe_word mem g c a"
    if a: "word_ok g a" "\<not> (g \<in> set gs \<and> unat d \<le> unat a \<and> unat a < unat d + 64 * n)" for g c a
  proof -
    have "\<forall>t < n. \<forall>x \<in> set ?L. ?K t x \<noteq> group_key g a"
      using other_word [OF gs d _ _ _ a] bound by (metis prod.collapse)
    from result(2) [OF this] show ?thesis by (simp only: pe_word_key [OF a(1)])
  qed
  ultimately show ?thesis by blast
qed

lemma all_gather_spreads_witness:
  "pe_word (xeon_sp_trans_all_gather_rg 0 [1, 2] 5 [0, 3] 0 0 16 0 64 2 1 0 (\<lambda>r i. of_nat (i + r))) (2, 3) 4 (1048640 + 8 * of_nat (2 * 6 + 1))
    = pe_word (\<lambda>r i. of_nat (i + r)) (0, 5) 6 (1048576 + 8 * of_nat 1)"
proof -
  have gs: "group_list [1, 2] [0, 3] 2 = [(1, 0), (2, 3)]" by (simp add: group_list_def upt_rec)
  have ok: "groups_ok (group_list [1, 2] [0, 3] 2)" unfolding gs by (simp add: groups_ok_def)
  from conjunct1 [OF all_gather_spreads [where src_start_offset = 0 and dst_start_offset = 0 and byte_length = 16 and communication_buffer_offset = 64
      and src_rg_id = 5 and base_src = 0 and mem = "\<lambda>r i. of_nat (i + r)", OF _ ok],
    THEN spec [of _ 1], THEN mp, THEN spec [of _ 6], THEN mp, THEN spec [of _ 1], THEN mp, THEN spec [of _ 4], THEN mp]
  show ?thesis by (simp add: gs gs [unfolded One_nat_def] bytes_ok_def)
qed

end
