(* ===== verification/Pid_Reduce.thy ===== *)
theory Pid_Reduce
  imports Pid_Gather
begin

text \<open>
  All-reduce and reduce-scatter over groups of eight DPUs
  (\<^verbatim>\<open>xeon_sp_trans_all_reduce_rg\<close>, \<^verbatim>\<open>xeon_sp_trans_reduce_scatter_cpu_rg\<close>): each word is the sum,
  or maximum, of the words at its place in all blocks that go to its DPU.
\<close>

section \<open>The sum of the loaded lines\<close>

definition sum_lines :: "(u8 list \<Rightarrow> u8 list \<Rightarrow> u8 list) \<Rightarrow> (u8 list \<Rightarrow> u8 list) \<Rightarrow> nat \<Rightarrow> u8 list list \<Rightarrow> u8 list" where
  "sum_lines op conv n vs = fold (\<lambda>(i, k) acc. op acc (conv (mm512_rol_epi64 (vs ! (8 * i + k)) (8 * k)))) (pairs n) mm512_setzero"

lemma length_pairs: "length (pairs n) = 8 * n"
  by (induction n) (simp_all add: pairs_def)

lemma pairs_nth: "i < n \<Longrightarrow> k < 8 \<Longrightarrow> pairs n ! (8 * i + k) = (i, k)"
proof (induction n)
  case (Suc n)
  have split: "pairs (Suc n) = pairs n @ map (Pair n) [0..<8]" by (simp add: pairs_def)
  show ?case
  proof (cases "i < n")
    case True
    then have "8 * i + k < length (pairs n)" unfolding length_pairs using Suc.prems(2) by linarith
    then show ?thesis using Suc True by (simp add: split nth_append del: upt_rec)
  next
    case False
    then have "i = n" using Suc.prems(1) by simp
    then show ?thesis using Suc.prems(2) by (simp add: split nth_append length_pairs)
  qed
qed simp

lemma rns_sum_lines:
  assumes "\<And>i k. i < n \<Longrightarrow> k < 8 \<Longrightarrow> stream_load_si512 (src_addr ! (8 * i + k)) mem = vs ! (8 * i + k)"
  shows "rns_sum op conv src_addr n mem mm512_setzero = sum_lines op conv n vs"
  unfolding rns_sum_pairs sum_lines_def
  by (rule fold_cong [OF refl refl]) (auto simp: pairs_bound rns_source_def assms)

lemma sum_lines_word:
  assumes view: "well_viewed view op" and conv: "\<And>v. length v = 64 \<Longrightarrow> length (conv v) = 64 \<and> view (conv v) c = line_word v c"
    and zero: "view mm512_setzero c = 0" and vs: "length vs = 8 * n" "\<forall>v \<in> set vs. length v = 64" and c: "c < 8"
  shows "length (sum_lines op conv n vs) = 64
    \<and> view (sum_lines op conv n vs) c
      = fold (\<lambda>(i, k) w. on_word op w (line_word (vs ! (8 * i + k)) ((c + 8 - k) mod 8))) (pairs n) 0"
proof -
  let ?f = "\<lambda>(i, k). conv (mm512_rol_epi64 (vs ! (8 * i + k)) (8 * k))"
  have at: "length (mm512_rol_epi64 (vs ! (8 * i + k)) (8 * k)) = 64
      \<and> line_word (mm512_rol_epi64 (vs ! (8 * i + k)) (8 * k)) c = line_word (vs ! (8 * i + k)) ((c + 8 - k) mod 8)"
    if "i < n" "k < 8" for i k
  proof -
    have "8 * i + k < length vs" using that vs(1) by linarith
    then have "length (vs ! (8 * i + k)) = 64" using vs(2) nth_mem by blast
    then show ?thesis using that(2) c by (simp add: length_rol line_word_rol)
  qed
  have len: "\<forall>x \<in> set (pairs n). length (?f x) = 64" using at conv by (auto simp: pairs_bound)
  have fold: "sum_lines op conv n vs = fold (\<lambda>x acc. op acc (?f x)) (pairs n) mm512_setzero"
    unfolding sum_lines_def by (rule fold_cong [OF refl refl]) (simp add: split_beta)
  have "length (sum_lines op conv n vs) = 64 \<and> view (sum_lines op conv n vs) c
      = fold (\<lambda>x w. on_word op w (view (?f x) c)) (pairs n) (view mm512_setzero c)"
    unfolding fold by (rule fold_view [OF view setzero_word(1) len c])
  also have "fold (\<lambda>x w. on_word op w (view (?f x) c)) (pairs n) (view mm512_setzero c)
      = fold (\<lambda>(i, k) w. on_word op w (line_word (vs ! (8 * i + k)) ((c + 8 - k) mod 8))) (pairs n) 0"
    by (rule fold_cong [OF zero refl]) (use at conv in \<open>auto simp: pairs_bound\<close>)
  finally show ?thesis .
qed

text \<open>A bitwise operation works on bytes as well as on words.\<close>

lemma on_word_epi64: "on_word (epi64 f) x y = f x y"
  by (simp add: on_word_def epi64_def bytes_array_def array_bytes_def format_simps)

lemma or_bytes: "j < 8 \<Longrightarrow> bytes_of_word (x OR y :: u64) ! j = bytes_of_word x ! j OR bytes_of_word y ! j"
  by (rule bit_word_eqI) (simp add: bytes_of_word_def bit_ucast_iff bit_drop_bit_eq bit_or_iff)

lemma or_lanes:
  assumes "length a = 64" "length b = 64"
  shows "mm512_or_epi64 a b = epi8 (\<lambda>x y. x OR y) a b"
proof (rule nth_equalityI)
  let ?lanes = "map2 (\<lambda>x y. x OR y) (bytes_array 8 word_of_bytes a :: u64 list) (bytes_array 8 word_of_bytes b)"
  have len: "length ?lanes = 8" using assms by (simp add: bytes_array_def)
  then show "length (mm512_or_epi64 a b) = length (epi8 (\<lambda>x y. x OR y) a b)"
    using assms by (simp add: mm512_or_epi64_def epi64_def epi8_def u64_format.array_length)
  fix i assume "i < length (mm512_or_epi64 a b)"
  then have i: "i < 64" using len by (simp add: mm512_or_epi64_def epi64_def u64_format.array_length)
  define k j where "k = i div 8" and "j = i mod 8"
  have kj: "i = 8 * k + j" "k < 8" "j < 8" using i by (auto simp: k_def j_def)
  have part: "take 8 (drop (8 * k) xs) ! j = xs ! i" if "length xs = 64" for xs :: "u8 list"
    using that kj by simp
  have "take 8 (drop (8 * k) (array_bytes bytes_of_word ?lanes)) = bytes_of_word (?lanes ! k)"
    using kj(2) len by (intro u64_format.array_nth) simp
  moreover have "?lanes ! k = word_of_bytes (take 8 (drop (8 * k) a)) OR word_of_bytes (take 8 (drop (8 * k) b))"
    using kj(2) assms by (simp add: bytes_array_def)
  moreover have "length (array_bytes bytes_of_word ?lanes) = 64" using len by (simp add: u64_format.array_length)
  ultimately have "array_bytes bytes_of_word ?lanes ! i
      = bytes_of_word (word_of_bytes (take 8 (drop (8 * k) a)) OR word_of_bytes (take 8 (drop (8 * k) b)) :: u64) ! j"
    using part by metis
  also have "\<dots> = a ! i OR b ! i"
    using kj assms by (simp add: or_bytes bytes_word_read_back part)
  finally show "mm512_or_epi64 a b ! i = epi8 (\<lambda>x y. x OR y) a b ! i"
    using i assms by (simp add: mm512_or_epi64_def epi64_def epi8_def)
qed

lemma viewed_or: "well_viewed line_word mm512_or_epi64"
  unfolding well_viewed_def
proof (intro allI impI conjI)
  fix a b :: "u8 list" assume ab: "length a = 64 \<and> length b = 64"
  then show "length (mm512_or_epi64 a b) = 64" by (simp add: or_lanes epi8_def)
  fix c :: nat assume c: "c < 8"
  have line: "bytes_of_word (line_word v c) = map (\<lambda>k. v ! (8 * k + c)) [0..<8]" for v
    by (simp add: line_word_def bytes_word_read_back)
  have "bytes_of_word (line_word (mm512_or_epi64 a b) c) = bytes_of_word (line_word a c OR line_word b c)"
  proof (rule nth_equalityI)
    fix k assume "k < length (bytes_of_word (line_word (mm512_or_epi64 a b) c))"
    then have k: "k < 8" by (simp add: format_simps)
    then show "bytes_of_word (line_word (mm512_or_epi64 a b) c) ! k = bytes_of_word (line_word a c OR line_word b c) ! k"
      unfolding or_bytes [OF k] line using ab c by (simp add: or_lanes epi8_def)
  qed (simp add: format_simps)
  then have "line_word (mm512_or_epi64 a b) c = line_word a c OR line_word b c" by (metis u64_format.read_back)
  then show "line_word (mm512_or_epi64 a b) c = on_word mm512_or_epi64 (line_word a c) (line_word b c)"
    by (simp add: mm512_or_epi64_def on_word_epi64)
qed

section \<open>One round\<close>

definition word_op :: "u32 \<Rightarrow> u32 \<Rightarrow> u8 list \<Rightarrow> u8 list \<Rightarrow> u8 list" where
  "word_op size_of reduce_type = (if size_of = 0 then mm512_or_epi64 else reduce_lanes size_of reduce_type)"

definition reduced :: "u32 \<Rightarrow> u32 \<Rightarrow> nat \<Rightarrow> u8 list list \<Rightarrow> u8 list" where
  "reduced size_of reduce_type n vs =
     (if size_of \<le> 1 then sum_lines (word_op size_of reduce_type) (\<lambda>reg. reg) n vs
      else domain_transfer (sum_lines (word_op size_of reduce_type) domain_transfer n vs))"

lemma viewed_bytes: "well_viewed line_word (reduce_lanes 1 reduce_type)"
proof -
  have "on_word (\<lambda>acc reg. acc) x y = x" for x y by (simp add: on_word_def format_simps)
  then have "well_viewed line_word (\<lambda>acc reg. acc)" by (simp add: well_viewed_def)
  moreover have "reduce_lanes 1 reduce_type = (if reduce_type = 0 then epi8 (+) else if reduce_type = 1 then epi8 signed_max else (\<lambda>acc reg. acc))"
    by (auto simp: fun_eq_iff reduce_lanes_def add_lanes_def max_lanes_def)
  ultimately show ?thesis by (simp add: well_viewed_simps)
qed

lemma word_cases: "\<not> (x :: u32) \<le> 1 \<Longrightarrow> x \<noteq> 0 \<and> x \<noteq> 1" "(x :: u32) \<le> 1 \<longleftrightarrow> x = 0 \<or> x = 1"
  by (auto simp: word_le_nat_alt word_unat_eq_iff)

lemma reduced_word:
  assumes vs: "length vs = 8 * n" "\<forall>v \<in> set vs. length v = 64" and c: "c < 8"
  shows "length (reduced size_of reduce_type n vs) = 64
    \<and> line_word (reduced size_of reduce_type n vs) c
      = fold (\<lambda>(i, k) w. on_word (word_op size_of reduce_type) w (line_word (vs ! (8 * i + k)) ((c + 8 - k) mod 8))) (pairs n) 0"
proof (cases "size_of \<le> 1")
  case True
  then have view: "well_viewed line_word (word_op size_of reduce_type)"
    unfolding word_cases(2) by (auto simp: word_op_def viewed_or viewed_bytes)
  from sum_lines_word [OF view _ setzero_word(2) [OF c] vs c, of "\<lambda>reg. reg"] True show ?thesis by (simp add: reduced_def)
next
  case False
  then have op: "word_op size_of reduce_type = reduce_lanes size_of reduce_type"
    using word_cases(1) [of size_of] by (simp add: word_op_def)
  have view: "well_viewed ci_word (word_op size_of reduce_type)" unfolding op by (intro well_viewed_simps lanewise_reduce)
  have conv: "length v = 64 \<Longrightarrow> length (domain_transfer v) = 64 \<and> ci_word (domain_transfer v) c = line_word v c" for v
    using c by (simp add: length_domain_transfer ci_word_transfer)
  from sum_lines_word [OF view conv setzero_word(3) [OF c] vs c] False c show ?thesis
    by (simp add: reduced_def length_domain_transfer line_word_transfer)
qed

text \<open>The sum goes round.\<close>

abbreviation turned :: "nat \<Rightarrow> u8 list \<Rightarrow> u8 list" where
  "turned k \<equiv> (\<lambda>v. mm512_rol_epi64 v 56) ^^ k"

lemma line_word_turned:
  assumes "length v = 64" "c < 8"
  shows "length (turned k v) = 64 \<and> line_word (turned k v) c = line_word v ((c + k) mod 8)"
  using assms(2)
proof (induction k arbitrary: c)
  case (Suc k)
  have IH: "length (turned k v) = 64" "line_word (turned k v) ((c + 1) mod 8) = line_word v (((c + 1) mod 8 + k) mod 8)"
    using Suc.IH [of "(c + 1) mod 8"] by simp_all
  have "line_word (mm512_rol_epi64 (turned k v) (8 * 7)) c = line_word (turned k v) ((c + 8 - 7) mod 8)"
    using IH(1) Suc.prems by (intro line_word_rol) simp_all
  moreover have "((c + 1) mod 8 + k) mod 8 = (c + Suc k) mod 8" by (simp add: mod_simps)
  ultimately show ?case using IH by (simp add: length_rol)
qed (simp add: assms)

definition sent :: "nat \<times> nat \<Rightarrow> u8 list \<Rightarrow> u8 list" where
  "sent x v = turned (8 * fst x + snd x + 1) (mm512_rol_epi64 v 8)"

lemma line_word_sent:
  assumes "length v = 64" "c < 8"
  shows "length (sent x v) = 64" "line_word (sent x v) c = line_word v ((c + snd x) mod 8)"
proof -
  have rol: "length (mm512_rol_epi64 v (8 * 1)) = 64" using assms(1) by (simp add: length_rol)
  note turn = line_word_turned [OF rol assms(2), of "8 * fst x + snd x + 1"]
  then show "length (sent x v) = 64" by (simp add: sent_def)
  let ?c = "(c + (8 * fst x + snd x + 1)) mod 8"
  have "line_word (sent x v) c = line_word (mm512_rol_epi64 v (8 * 1)) ?c" using turn by (simp add: sent_def)
  also have "\<dots> = line_word v ((?c + 8 - 1) mod 8)" using assms(1) by (intro line_word_rol) simp_all
  also have "(?c + 8 - 1) mod 8 = (c + snd x) mod 8"
  proof -
    have "y + 8 - 1 = y + 7" for y :: nat by simp
    then have "(?c + 8 - 1) mod 8 = (?c + 7) mod 8" by (simp only:)
    also have "\<dots> = (c + (8 * fst x + snd x + 1) + 7) mod 8" by (simp only: mod_add_left_eq)
    also have "c + (8 * fst x + snd x + 1) + 7 = c + snd x + 8 * (fst x + 1)" by simp
    finally show ?thesis by (simp only: mod_mult_self2)
  qed
  finally show "line_word (sent x v) c = line_word v ((c + snd x) mod 8)" .
qed

lemma distribute_rounds:
  "rns_distribute dst n (v, mem)
    = (turned (8 * n) (mm512_rol_epi64 v 8), fold (\<lambda>x. stream_si512 (dst ! (8 * fst x + snd x)) (sent x v)) (pairs n) mem)"
proof -
  have row: "fold (\<lambda>k (sum, mem). let sum = mm512_rol_epi64 sum 56 in (sum, stream_si512 (dst ! (8 * i + k)) sum mem)) [0..<m] (turned l w, mem)
    = (turned (l + m) w, fold (\<lambda>k. stream_si512 (dst ! (8 * i + k)) (turned (l + k + 1) w)) [0..<m] mem)" for i m l w mem
    by (induction m) (simp_all add: Let_def)
  have "fold (\<lambda>i s. fold (\<lambda>k (sum, mem). let sum = mm512_rol_epi64 sum 56 in (sum, stream_si512 (dst ! (8 * i + k)) sum mem)) [0..<8] s)
      [0..<n] (turned 0 (mm512_rol_epi64 v 8), mem)
    = (turned (8 * n) (mm512_rol_epi64 v 8), fold (\<lambda>x. stream_si512 (dst ! (8 * fst x + snd x)) (sent x v)) (pairs n) mem)"
  proof (induction n)
    case (Suc n)
    have split: "pairs (Suc n) = pairs n @ map (Pair n) [0..<8]" by (simp add: pairs_def)
    have next_n: "8 * n + 8 = 8 * Suc n" by simp
    show ?case unfolding split upt_Suc_append [OF zero_le] fold_append fold_Cons fold_Nil comp_def id_def Suc row next_n
      by (simp add: fold_map comp_def sent_def del: upt_rec)
  qed (simp add: pairs_def)
  then show ?thesis by (simp add: rns_distribute_def)
qed

section \<open>All-reduce\<close>

lemma distinct_pairs: "distinct (pairs n)"
proof (induction n)
  case (Suc n)
  have split: "pairs (Suc n) = pairs n @ map (Pair n) [0..<8]" by (simp add: pairs_def)
  moreover have "set (pairs n) \<inter> set (map (Pair n) [0..<8]) = {}" by (auto simp: pairs_bound)
  moreover have "distinct (map (Pair n) [0..<8])" by (simp add: distinct_map inj_on_def del: upt_rec)
  ultimately show ?case using Suc by simp
qed (simp add: pairs_def)

lemma pairs_fst_snd: "x \<in> set (pairs n) \<longleftrightarrow> fst x < n \<and> snd x < 8"
  using pairs_bound [of "fst x" "snd x"] by simp

lemma addresses_nth:
  assumes length: "8 dvd unat byte_length" and n: "n = unat byte_length div 8" and x: "i < m" "k < 8"
  shows "rns_addresses base rg_id m byte_length (a + 8 * of_nat t) ! (8 * i + k)
    = rank_addr_iter (fst (group_list base rg_id m ! i)) (snd (group_list base rg_id m ! i)) (a + 8 * of_nat (n * k + t))"
proof -
  have "8 * i + k < 8 * m" using x by linarith
  moreover have "(8 * i + k) div 8 = i" "(8 * i + k) mod 8 = k" using x(2) by simp_all
  moreover note block_address(2) [OF length n, of a t k, symmetric]
  moreover have "group_list base rg_id m ! i = (base ! i, rg_id ! i)" using x(1) by (simp add: group_list_def)
  ultimately show ?thesis
    by (simp only: rns_addresses_def fst_conv snd_conv nth_map length_upt diff_zero nth_upt plus_nat.add_0)
qed

lemma addresses_lines:
  fixes base :: "nat list" and rg_id :: "u32 list" and m :: nat
  defines "gs \<equiv> group_list base rg_id m"
  assumes length: "8 dvd unat byte_length" and n: "n = unat byte_length div 8" and gs: "groups_ok gs"
    and a: "bytes_ok a (8 * (n * 8))" and t: "t < n" and x: "i < m" "k < 8"
  shows "rns_addresses base rg_id m byte_length (a + 8 * of_nat t) ! (8 * i + k) = line_ptr (block_key gs a n t (i, k))"
    "map (\<lambda>l. load_line l mem) (map (block_key gs a n t) (pairs m)) ! (8 * i + k) = load_line (block_key gs a n t (i, k)) mem"
proof -
  have len: "length gs = m" by (simp add: gs_def group_list_def)
  show "rns_addresses base rg_id m byte_length (a + 8 * of_nat t) ! (8 * i + k) = line_ptr (block_key gs a n t (i, k))"
    unfolding addresses_nth [OF length n x] gs_def [symmetric] block_key_def prod.case
    by (rule key_ptr [OF block_word [OF gs a _ x(2) t]]) (simp add: len x)
  have "8 * i + k < 8 * m" using x by linarith
  then show "map (\<lambda>l. load_line l mem) (map (block_key gs a n t) (pairs m)) ! (8 * i + k) = load_line (block_key gs a n t (i, k)) mem"
    by (simp add: length_pairs pairs_nth [OF x])
qed

lemma all_reduce_step:
  fixes base :: "nat list" and rg_id :: "u32 list" and m :: nat
  defines "gs \<equiv> group_list base rg_id m"
  assumes length: "8 dvd unat byte_length" and n: "n = unat byte_length div 8" and gs: "groups_ok gs"
    and s: "bytes_ok s (8 * (n * 8))" and d: "bytes_ok d (8 * (n * 8))" and t: "t < n"
  shows "RNS_SUM_AR 1 (rns_addresses base rg_id m byte_length (s + 8 * of_nat t)) (rns_addresses base rg_id m byte_length (d + 8 * of_nat t))
      m size_of reduce_type
    = line_step (map (block_key gs s n t) (pairs m)) (map (block_key gs d n t) (pairs m))
        (\<lambda>vs. map (\<lambda>x. sent x (reduced size_of reduce_type m vs)) (pairs m))"
proof
  fix mem
  let ?src = "rns_addresses base rg_id m byte_length (s + 8 * of_nat t)" and ?dst = "rns_addresses base rg_id m byte_length (d + 8 * of_nat t)"
    and ?vs = "map (\<lambda>l. load_line l mem) (map (block_key gs s n t) (pairs m))"
  have "stream_load_si512 (?src ! (8 * i + k)) mem = ?vs ! (8 * i + k)" if "i < m" "k < 8" for i k
    unfolding gs_def addresses_lines(1) [OF length n gs [unfolded gs_def] s t that]
      addresses_lines(2) [OF length n gs [unfolded gs_def] s t that] by (simp add: load_line_def)
  note sum = rns_sum_lines [OF this]
  have "RNS_SUM_AR 1 ?src ?dst m size_of reduce_type mem = snd (rns_distribute ?dst m (reduced size_of reduce_type m ?vs, mem))"
  proof (cases "size_of \<le> 1")
    case True
    then show ?thesis unfolding word_cases(2) by (auto simp: RNS_SUM_AR_def sum reduced_def word_op_def word_cases(2) if_distrib [where f = snd])
  next
    case False
    with word_cases(1) [OF this] show ?thesis by (simp add: RNS_SUM_AR_def sum reduced_def word_op_def)
  qed
  also have "\<dots> = fold (\<lambda>x. stream_si512 (?dst ! (8 * fst x + snd x)) (sent x (reduced size_of reduce_type m ?vs))) (pairs m) mem"
    by (simp only: distribute_rounds snd_conv)
  also have "\<dots> = fold (\<lambda>x. store_line (block_key gs d n t x) (sent x (reduced size_of reduce_type m ?vs))) (pairs m) mem"
    by (rule fold_cong [OF refl refl])
      (simp only: pairs_fst_snd addresses_lines(1) [OF length n gs [unfolded gs_def] d t] store_line_def prod.collapse gs_def)
  finally show "RNS_SUM_AR 1 ?src ?dst m size_of reduce_type mem
    = line_step (map (block_key gs s n t) (pairs m)) (map (block_key gs d n t) (pairs m))
        (\<lambda>vs. map (\<lambda>x. sent x (reduced size_of reduce_type m vs)) (pairs m)) mem"
    unfolding line_step_map .
qed

lemma block_apart:
  assumes gs: "groups_ok gs" and s: "bytes_ok s (8 * (n * 8))" and d: "bytes_ok d (8 * (n * 8))"
    and apart: "s = d \<or> unat s + 64 * n \<le> unat d \<or> unat d + 64 * n \<le> unat s"
    and x: "fst x < length gs" "snd x < 8" "t < n" and y: "fst y < length gs" "snd y < 8" "u < n" and tu: "t \<noteq> u"
  shows "block_key gs d n t x \<noteq> block_key gs s n u y"
proof (cases "s = d")
  case True
  show ?thesis unfolding True block_key_inj [OF gs d x y] using tu by simp
next
  case False
  have b: "n * snd x + t < n * 8" "n * snd y + u < n * 8" using x y by (simp_all add: index_bound)
  have g: "unat (snd (gs ! fst x)) < 8" "unat (snd (gs ! fst y)) < 8" using gs x y by (simp_all add: groups_ok_def)
  have "8 * (n * snd x + t) < 8 * (n * 8)" "8 * (n * snd y + u) < 8 * (n * 8)" using b by (intro mult_strict_left_mono, simp_all)+
  moreover have "unat s + 64 * n \<le> unat d \<or> unat d + 64 * n \<le> unat s" using apart False by blast
  ultimately have "unat d + 8 * (n * snd x + t) \<noteq> unat s + 8 * (n * snd y + u)" by linarith
  then show ?thesis unfolding block_key_def split_beta area_key [OF g(1) d b(1) g(2) s b(2)] by blast
qed

lemma blocks_reduced:
  fixes base :: "nat list" and rg_id :: "u32 list" and m :: nat and s byte_length :: u32 and n t :: nat and mem :: regions
  defines "gs \<equiv> group_list base rg_id m"
  defines "vs \<equiv> map (\<lambda>l. load_line l mem) (map (block_key gs s n t) (pairs m))"
  assumes length: "8 dvd unat byte_length" and n: "n = unat byte_length div 8" and gs: "groups_ok gs"
    and s: "bytes_ok s (8 * (n * 8))" and t: "t < n" and c: "c < 8"
  shows "length (reduced size_of reduce_type m vs) = 64"
    "line_word (reduced size_of reduce_type m vs) c
      = fold (\<lambda>(i, l) w. on_word (word_op size_of reduce_type) w (pe_word mem (gs ! i) ((c + 8 - l) mod 8) (s + 8 * of_nat (n * l + t)))) (pairs m) 0"
proof -
  have len: "length gs = m" by (simp add: gs_def group_list_def)
  have vs: "length vs = 8 * m" "\<forall>v \<in> set vs. length v = 64" by (simp_all add: vs_def length_pairs length_load_line)
  note value_c = reduced_word [OF vs c, of size_of reduce_type]
  show "length (reduced size_of reduce_type m vs) = 64" by (rule conjunct1 [OF value_c])
  have "fold (\<lambda>(i, l) w. on_word (word_op size_of reduce_type) w (line_word (vs ! (8 * i + l)) ((c + 8 - l) mod 8))) (pairs m) 0
    = fold (\<lambda>(i, l) w. on_word (word_op size_of reduce_type) w (pe_word mem (gs ! i) ((c + 8 - l) mod 8) (s + 8 * of_nat (n * l + t)))) (pairs m) 0"
  proof (rule fold_cong [OF refl refl])
    fix x assume "x \<in> set (pairs m)"
    then have x: "fst x < m" "snd x < 8" by (simp_all only: pairs_fst_snd)
    have "vs ! (8 * fst x + snd x) = load_line (block_key gs s n t (fst x, snd x)) mem"
      unfolding vs_def gs_def by (rule addresses_lines(2) [OF length n gs [unfolded gs_def] s t x])
    then have "line_word (vs ! (8 * fst x + snd x)) ((c + 8 - snd x) mod 8)
        = pe_word mem (gs ! fst x) ((c + 8 - snd x) mod 8) (s + 8 * of_nat (n * snd x + t))"
      unfolding pe_word_key [OF block_word [OF gs s x(1) [folded len] x(2) t]] by (simp only: block_key_def prod.case)
    then show "(case x of (i, l) \<Rightarrow> \<lambda>w. on_word (word_op size_of reduce_type) w (line_word (vs ! (8 * i + l)) ((c + 8 - l) mod 8)))
      = (case x of (i, l) \<Rightarrow> \<lambda>w. on_word (word_op size_of reduce_type) w (pe_word mem (gs ! i) ((c + 8 - l) mod 8) (s + 8 * of_nat (n * l + t))))"
      by (simp only: split_beta)
  qed
  with value_c show "line_word (reduced size_of reduce_type m vs) c
      = fold (\<lambda>(i, l) w. on_word (word_op size_of reduce_type) w (pe_word mem (gs ! i) ((c + 8 - l) mod 8) (s + 8 * of_nat (n * l + t)))) (pairs m) 0"
    by (simp only:)
qed

lemma pairs_blocks: "\<forall>x \<in> set (pairs (length gs)). fst x < length gs \<and> snd x < 8"
  using pairs_fst_snd by blast

lemma reduced_length:
  assumes "length vs = length (map f (pairs m))" "\<forall>v \<in> set vs. length v = 64"
  shows "length (reduced size_of reduce_type m vs) = 64"
  using assms reduced_word [of vs m 0] by (simp add: length_pairs)

lemma all_reduce_run:
  fixes gs :: "(nat \<times> u32) list" and s d size_of reduce_type :: u32 and n :: nat and mem :: regions
  defines "L \<equiv> pairs (length gs)"
  defines "mem' \<equiv> fold (\<lambda>t. line_step (map (block_key gs s n t) L) (map (block_key gs d n t) L)
      (\<lambda>vs. map (\<lambda>x. sent x (reduced size_of reduce_type (length gs) vs)) L)) [0..<n] mem"
  assumes gs: "groups_ok gs" and s: "bytes_ok s (8 * (n * 8))" and d: "bytes_ok d (8 * (n * 8))"
    and apart: "s = d \<or> unat s + 64 * n \<le> unat d \<or> unat d + 64 * n \<le> unat s"
  shows "t < n \<Longrightarrow> x \<in> set L \<Longrightarrow> load_line (block_key gs d n t x) mem'
      = sent x (reduced size_of reduce_type (length gs) (map (\<lambda>l. load_line l mem) (map (block_key gs s n t) L)))"
    "(\<forall>t < n. \<forall>x \<in> set L. block_key gs d n t x \<noteq> l) \<Longrightarrow> load_line l mem' = load_line l mem"
proof -
  let ?K = "block_key gs d n" and ?S = "\<lambda>t. map (block_key gs s n t) L"
    and ?V = "\<lambda>(t :: nat) vs x. sent x (reduced size_of reduce_type (length gs) vs)"
  have bound: "\<forall>x \<in> set L. fst x < length gs \<and> snd x < 8" unfolding L_def by (rule pairs_blocks)
  have d1: "\<forall>t < n. distinct (map (?K t) L)" using block_keys_distinct [OF gs d _ _ bound] distinct_pairs L_def by blast
  have d2: "\<forall>t < n. \<forall>u < n. t < u \<longrightarrow> (\<forall>x \<in> set L. (\<forall>y \<in> set L. ?K t x \<noteq> ?K u y) \<and> ?K t x \<notin> set (?S u))"
  proof (intro allI impI ballI conjI)
    fix t u x assume t: "t < n" "u < n" "t < u" "x \<in> set L"
    have x: "fst x < length gs" "snd x < 8" using bound t(4) by blast+
    have tu: "t \<noteq> u" using t(3) by simp
    show "?K t x \<noteq> ?K u y" if "y \<in> set L" for y
      using block_apart [OF gs d d _ x t(1) _ _ t(2) tu] bound that by blast
    have "?K t x \<noteq> block_key gs s n u y" if "y \<in> set L" for y
      using block_apart [OF gs s d apart x t(1) _ _ t(2) tu] bound that by blast
    then show "?K t x \<notin> set (?S u)" unfolding set_map by blast
  qed
  have d3: "\<forall>t < n. \<forall>x \<in> set L. \<forall>vs. length vs = length (?S t) \<longrightarrow> (\<forall>v \<in> set vs. length v = 64) \<longrightarrow> length (?V t vs x) = 64"
    unfolding L_def by (intro allI ballI impI, rule line_word_sent(1) [of _ 0], rule reduced_length, assumption+, simp)
  show "t < n \<Longrightarrow> x \<in> set L \<Longrightarrow> load_line (block_key gs d n t x) mem'
      = sent x (reduced size_of reduce_type (length gs) (map (\<lambda>l. load_line l mem) (map (block_key gs s n t) L)))"
    "(\<forall>t < n. \<forall>x \<in> set L. block_key gs d n t x \<noteq> l) \<Longrightarrow> load_line l mem' = load_line l mem"
    using run_values [where S = ?S and K = ?K and V = ?V and L = L and n = n and mem = mem, OF d1 d2 d3, folded mem'_def] by blast+
qed

lemma all_reduce_words:
  fixes src_start_offset dst_start_offset byte_length communication_buffer_offset iter_dst_a size_of reduce_type :: u32
    and num_iter_src :: nat and base :: "nat list" and rg_id :: "u32 list" and mem :: regions
  defines "gs \<equiv> group_list base rg_id num_iter_src" and "s \<equiv> src_start_offset + 1024 * 1024"
    and "d \<equiv> dst_start_offset + 1024 * 1024 + communication_buffer_offset + byte_length * 8 * iter_dst_a"
    and "n \<equiv> unat byte_length div 8"
    and "mem' \<equiv> xeon_sp_trans_all_reduce_rg base rg_id iter_dst_a src_start_offset dst_start_offset byte_length num_iter_src
      communication_buffer_offset size_of reduce_type 1 0 mem"
  assumes length: "8 dvd unat byte_length" and gs: "groups_ok gs"
    and s: "bytes_ok s (8 * (n * 8))" and d: "bytes_ok d (8 * (n * 8))"
    and apart: "s = d \<or> unat s + 64 * n \<le> unat d \<or> unat d + 64 * n \<le> unat s"
  shows "(\<forall>g < num_iter_src. \<forall>k < 8. \<forall>t < n. \<forall>c < 8. pe_word mem' (gs ! g) c (d + 8 * of_nat (n * k + t))
        = fold (\<lambda>(i, l) w. on_word (word_op size_of reduce_type) w
            (pe_word mem (gs ! i) (((c + k) mod 8 + 8 - l) mod 8) (s + 8 * of_nat (n * l + t)))) (pairs num_iter_src) 0)
    \<and> (\<forall>g c a. word_ok g a \<longrightarrow> \<not> (g \<in> set gs \<and> unat d \<le> unat a \<and> unat a < unat d + 64 * n) \<longrightarrow> pe_word mem' g c a = pe_word mem g c a)"
proof -
  let ?m = num_iter_src
  have len: "length gs = ?m" by (simp add: gs_def group_list_def)
  note n = n_def [THEN meta_eq_to_obj_eq]
  let ?L = "pairs ?m" and ?K = "block_key gs d n" and ?S = "\<lambda>t. map (block_key gs s n t) (pairs ?m)"
    and ?V = "\<lambda>(t :: nat) vs x. sent x (reduced size_of reduce_type ?m vs)"
  have one: "thread_rounds (byte_length div 8) 1 0 = [0..<n]" by (simp only: one_thread block_address(3) [OF length n])
  have "mem' = fold (\<lambda>t. RNS_SUM_AR 1 (rns_addresses base rg_id ?m byte_length (s + 8 * of_nat t))
      (rns_addresses base rg_id ?m byte_length (d + 8 * of_nat t)) ?m size_of reduce_type) [0..<n] mem"
    unfolding mem'_def xeon_sp_trans_all_reduce_rg_def Let_def one offsets_run snd_conv length_upt diff_zero mult_zero_right add_0_right
    by (simp only: s_def d_def)
  also have "\<dots> = fold (\<lambda>t. line_step (?S t) (map (?K t) ?L) (\<lambda>vs. map (?V t vs) ?L)) [0..<n] mem"
    by (rule fold_cong [OF refl refl], unfold set_upt atLeastLessThan_iff gs_def)
      (rule all_reduce_step [OF length n gs [unfolded gs_def] s d], blast)
  finally have mem': "mem' = fold (\<lambda>t. line_step (?S t) (map (?K t) ?L) (\<lambda>vs. map (?V t vs) ?L)) [0..<n] mem" .
  note result = all_reduce_run [OF gs s d apart, where size_of = size_of and reduce_type = reduce_type and mem = mem, unfolded len, folded mem']
  have "pe_word mem' (gs ! g) c (d + 8 * of_nat (n * k + t)) = fold (\<lambda>(i, l) w. on_word (word_op size_of reduce_type) w
      (pe_word mem (gs ! i) (((c + k) mod 8 + 8 - l) mod 8) (s + 8 * of_nat (n * l + t)))) (pairs ?m) 0"
    if at: "g < ?m" "k < 8" "t < n" "c < 8" for g k t c
  proof -
    let ?sum = "reduced size_of reduce_type ?m (map (\<lambda>l. load_line l mem) (?S t))"
    have c: "(c + k) mod 8 < 8" by simp
    have "(g, k) \<in> set ?L" using at by (simp only: pairs_bound)
    from result(1) [OF at(3) this]
    have "pe_word mem' (gs ! g) c (d + 8 * of_nat (n * k + t)) = line_word (sent (g, k) ?sum) c"
      unfolding pe_word_key [OF block_word [OF gs d at(1) [folded len] at(2,3)]] block_key_def prod.case by simp
    also have "\<dots> = line_word ?sum ((c + k) mod 8)"
      using line_word_sent(2) [OF blocks_reduced(1) [OF length n gs [unfolded gs_def] s at(3,4), folded gs_def] at(4), of "(g, k)"] by simp
    also note blocks_reduced(2) [OF length n gs [unfolded gs_def] s at(3) c, folded gs_def]
    finally show ?thesis .
  qed
  moreover have "pe_word mem' g c a = pe_word mem g c a"
    if a: "word_ok g a" "\<not> (g \<in> set gs \<and> unat d \<le> unat a \<and> unat a < unat d + 64 * n)" for g c a
  proof -
    have "\<forall>t < n. \<forall>x \<in> set ?L. ?K t x \<noteq> group_key g a"
      using other_word [OF gs d _ _ _ a] pairs_blocks [of gs, unfolded len] by (metis prod.collapse len)
    from result(2) [OF this] show ?thesis by (simp only: pe_word_key [OF a(1)])
  qed
  ultimately show ?thesis by blast
qed

text \<open>
  C2: the all-reduce of some groups: the word at each place of the block \<open>k\<close> of the DPU \<open>c\<close> of each
  group becomes the sum (the maximum with 0, the union of bits) over all groups \<open>i\<close> and blocks \<open>l\<close> of the
  word at this place of the block \<open>l\<close> of the DPU \<open>c + k - l\<close> (modulo 8) of the group \<open>i\<close>, so after the
  all-to-all by the DPUs themselves that the code expects, every DPU has all sums; the lanes are of
  \<open>size_of\<close> bytes and wrap around, and every other word of every MRAM stays as it is. This holds for the
  single thread that the callers ask for, in place and for areas that do not overlap.
\<close>

theorem all_reduce_sums:
  fixes src_start_offset dst_start_offset byte_length communication_buffer_offset iter_dst_a size_of reduce_type :: u32
    and num_iter_src :: nat and base :: "nat list" and rg_id :: "u32 list" and mem :: regions
  defines "gs \<equiv> group_list base rg_id num_iter_src" and "s \<equiv> src_start_offset + 1024 * 1024"
    and "d \<equiv> dst_start_offset + 1024 * 1024 + communication_buffer_offset + byte_length * 8 * iter_dst_a"
    and "n \<equiv> unat byte_length div 8"
    and "mem' \<equiv> xeon_sp_trans_all_reduce_rg base rg_id iter_dst_a src_start_offset dst_start_offset byte_length num_iter_src
      communication_buffer_offset size_of reduce_type 1 0 mem"
  assumes length: "8 dvd unat byte_length" and gs: "groups_ok gs"
    and s: "bytes_ok s (8 * (n * 8))" and d: "bytes_ok d (8 * (n * 8))"
    and apart: "s = d \<or> unat s + 64 * n \<le> unat d \<or> unat d + 64 * n \<le> unat s"
  shows "(\<forall>g < num_iter_src. \<forall>k < 8. \<forall>t < n. \<forall>c < 8. pe_word mem' (gs ! g) c (d + 8 * of_nat (n * k + t))
        = fold (\<lambda>(i, l) w. on_word (word_op size_of reduce_type) w
            (pe_word mem (gs ! i) (((c + k) mod 8 + 8 - l) mod 8) (s + 8 * of_nat (n * l + t)))) (pairs num_iter_src) 0)
    \<and> (\<forall>g c a. word_ok g a \<longrightarrow> \<not> (g \<in> set gs \<and> unat d \<le> unat a \<and> unat a < unat d + 64 * n) \<longrightarrow> pe_word mem' g c a = pe_word mem g c a)"
  unfolding gs_def s_def d_def n_def mem'_def
  by (rule all_reduce_words [OF length gs [unfolded gs_def] s [unfolded s_def n_def] d [unfolded d_def n_def] apart [unfolded s_def d_def n_def]])

lemma all_reduce_sums_witness:
  "pe_word (xeon_sp_trans_all_reduce_rg [0, 1] [5, 3] 0 0 0 16 2 0 4 0 1 0 (\<lambda>r i. of_nat (i + r))) (1, 3) 7 (1048576 + 8 * of_nat (2 * 6 + 1))
    = fold (\<lambda>(i, l) w. on_word (word_op 4 0) w
        (pe_word (\<lambda>r i. of_nat (i + r)) ([(0, 5), (1, 3)] ! i) (((7 + 6) mod 8 + 8 - l) mod 8) (1048576 + 8 * of_nat (2 * l + 1)))) (pairs 2) 0"
proof -
  have gs: "group_list [0, 1] [5, 3] 2 = [(0, 5), (1, 3)]" by (simp add: group_list_def upt_rec)
  have ok: "groups_ok (group_list [0, 1] [5, 3] 2)" unfolding gs by (simp add: groups_ok_def)
  from conjunct1 [OF all_reduce_sums [where src_start_offset = 0 and dst_start_offset = 0 and byte_length = 16 and communication_buffer_offset = 0
      and iter_dst_a = 0 and size_of = 4 and reduce_type = 0 and mem = "\<lambda>r i. of_nat (i + r)", OF _ ok],
    THEN spec [of _ 1], THEN mp, THEN spec [of _ 6], THEN mp, THEN spec [of _ 1], THEN mp, THEN spec [of _ 7], THEN mp]
  show ?thesis by (simp add: gs gs [unfolded One_nat_def] bytes_ok_def)
qed

text \<open>What the operation does to single words: the lanes of 8 bytes are the words themselves.\<close>

lemma reduce_words:
  "on_word mm512_or_epi64 x y = x OR y" "on_word (reduce_lanes 8 0) x y = x + y" "on_word (reduce_lanes 8 1) x y = signed_max x y"
  by (simp_all add: reduce_lanes_def [abs_def] add_lanes_def max_lanes_def mm512_or_epi64_def on_word_epi64)

text \<open>Words all of whose signed lanes are negative.\<close>

definition lanes_negative :: "u32 \<Rightarrow> u64 \<Rightarrow> bool" where
  "lanes_negative size_of w \<longleftrightarrow>
     (if size_of = 1 then list_all (\<lambda>x :: u8. sint x < 0) (bytes_of_word w)
      else if size_of = 2 then list_all (\<lambda>x :: u16. sint x < 0) (bytes_array 2 word_of_bytes (bytes_of_word w))
      else if size_of = 4 then list_all (\<lambda>x :: u32. sint x < 0) (bytes_array 4 word_of_bytes (bytes_of_word w))
      else sint w < 0)"

lemma max_with_zeros: "list_all (\<lambda>x. sint x < 0) xs \<Longrightarrow> length xs = n \<Longrightarrow> map2 signed_max (replicate n 0) xs = replicate n 0"
  by (induction xs arbitrary: n) (auto simp: signed_max_def)

lemma zero_lanes:
  "bytes_of_word (0 :: u64) = replicate 8 0" "word_of_bytes (replicate 8 0) = (0 :: u64)"
  "bytes_array 2 word_of_bytes (replicate 8 0) = (replicate 4 0 :: u16 list)" "array_bytes bytes_of_word (replicate 4 (0 :: u16)) = replicate 8 0"
  "bytes_array 4 word_of_bytes (replicate 8 0) = (replicate 2 0 :: u32 list)" "array_bytes bytes_of_word (replicate 2 (0 :: u32)) = replicate 8 0"
  by code_simp+

lemma max_of_negative:
  assumes "lanes_negative size_of w"
  shows "on_word (max_lanes size_of) 0 w = 0"
proof -
  have len: "length (bytes_array 2 word_of_bytes (bytes_of_word w) :: u16 list) = 4" "length (bytes_array 4 word_of_bytes (bytes_of_word w) :: u32 list) = 2"
    by (simp_all add: bytes_array_def format_simps)
  consider "size_of = 1" | "size_of = 2" | "size_of = 4" | "size_of \<noteq> 1" "size_of \<noteq> 2" "size_of \<noteq> 4" by blast
  then show ?thesis
  proof cases
    case 1
    then have "map2 signed_max (replicate 8 0) (bytes_of_word w) = replicate 8 0"
      using assms by (intro max_with_zeros) (simp_all add: lanes_negative_def format_simps)
    then show ?thesis using 1 by (simp only: on_word_def max_lanes_def epi8_def zero_lanes simp_thms if_True)
  next
    case 2
    then have "map2 signed_max (replicate 4 0) (bytes_array 2 word_of_bytes (bytes_of_word w) :: u16 list) = replicate 4 0"
      using assms len(1) by (intro max_with_zeros) (simp_all add: lanes_negative_def)
    then show ?thesis using 2 by (simp add: on_word_def max_lanes_def epi16_def zero_lanes)
  next
    case 3
    then have "map2 signed_max (replicate 2 0) (bytes_array 4 word_of_bytes (bytes_of_word w) :: u32 list) = replicate 2 0"
      using assms len(2) by (intro max_with_zeros) (simp_all add: lanes_negative_def)
    then show ?thesis using 3 by (simp add: on_word_def max_lanes_def epi32_def zero_lanes)
  next
    case 4
    then show ?thesis using assms by (simp add: max_lanes_def on_word_epi64 lanes_negative_def signed_max_def)
  qed
qed

text \<open>
  C38: the all-reduce with the maximum, of words all of whose lanes of \<open>size_of\<close> bytes are negative, leaves 0
  in every DPU of every group, not the maximum: the code starts each maximum from a register of zeros. The
  areas are as for the sums.
\<close>

theorem max_of_negatives:
  fixes src_start_offset dst_start_offset byte_length communication_buffer_offset iter_dst_a size_of :: u32
    and num_iter_src :: nat and base :: "nat list" and rg_id :: "u32 list" and mem :: regions
  defines "gs \<equiv> group_list base rg_id num_iter_src" and "s \<equiv> src_start_offset + 1024 * 1024"
    and "d \<equiv> dst_start_offset + 1024 * 1024 + communication_buffer_offset + byte_length * 8 * iter_dst_a"
    and "n \<equiv> unat byte_length div 8"
    and "mem' \<equiv> xeon_sp_trans_all_reduce_rg base rg_id iter_dst_a src_start_offset dst_start_offset byte_length num_iter_src
      communication_buffer_offset size_of 1 1 0 mem"
  assumes length: "8 dvd unat byte_length" and gs: "groups_ok gs"
    and s: "bytes_ok s (8 * (n * 8))" and d: "bytes_ok d (8 * (n * 8))"
    and apart: "s = d \<or> unat s + 64 * n \<le> unat d \<or> unat d + 64 * n \<le> unat s"
    and size: "size_of \<noteq> 0"
    and negative: "\<forall>i < num_iter_src. \<forall>l < 8. \<forall>t < n. \<forall>c < 8. lanes_negative size_of (pe_word mem (gs ! i) c (s + 8 * of_nat (n * l + t)))"
  shows "\<forall>g < num_iter_src. \<forall>k < 8. \<forall>t < n. \<forall>c < 8. pe_word mem' (gs ! g) c (d + 8 * of_nat (n * k + t)) = 0"
proof (intro allI impI)
  fix g k t c :: nat assume at: "g < num_iter_src" "k < 8" "t < n" "c < 8"
  note words = all_reduce_words [OF length gs [unfolded gs_def] s [unfolded s_def n_def] d [unfolded d_def n_def] apart [unfolded s_def d_def n_def],
    where size_of = size_of and reduce_type = 1 and mem = mem, folded gs_def s_def d_def n_def mem'_def]
  have op: "word_op size_of 1 = max_lanes size_of" using size by (simp add: word_op_def fun_eq_iff reduce_lanes_def)
  have "fold (\<lambda>(i, l) w. on_word (max_lanes size_of) w (pe_word mem (gs ! i) (((c + k) mod 8 + 8 - l) mod 8) (s + 8 * of_nat (n * l + t)))) xs 0 = 0"
    if "set xs \<subseteq> set (pairs num_iter_src)" for xs
    using that
  proof (induction xs)
    case (Cons x xs)
    then have "fst x < num_iter_src" "snd x < 8" by (auto simp: pairs_def)
    then have "lanes_negative size_of (pe_word mem (gs ! fst x) (((c + k) mod 8 + 8 - snd x) mod 8) (s + 8 * of_nat (n * snd x + t)))"
      using negative at(3) by simp
    then show ?case using Cons by (simp add: max_of_negative case_prod_unfold)
  qed simp
  then show "pe_word mem' (gs ! g) c (d + 8 * of_nat (n * k + t)) = 0"
    using words [THEN conjunct1, rule_format, OF at] unfolding op by simp
qed

lemma max_of_negatives_witness:
  "pe_word (xeon_sp_trans_all_reduce_rg [0, 1] [0, 3] 0 0 0 64 2 0 4 1 1 0 (\<lambda>_ _. 0xFE)) (1, 3) 5 (1048576 + 8 * of_nat (8 * 2 + 1)) = 0"
proof -
  have gs: "group_list [0, 1] [0, 3] 2 = [(0, 0), (1, 3)]" by (simp add: group_list_def upt_rec)
  have ok: "groups_ok (group_list [0, 1] [0, 3] 2)" unfolding gs by (simp add: groups_ok_def)
  have "lanes_negative 4 (word_of_bytes (replicate 8 0xFE))" by code_simp
  moreover have "pe_word (\<lambda>_ _. 0xFE) g c a = word_of_bytes (replicate 8 0xFE)" if "c < 8" for g c a
  proof -
    have "map (\<lambda>k. stream_load_si512 p (\<lambda>_ _. 0xFE) ! (8 * k + c)) [0..<8] = replicate 8 0xFE" for p
      using that by (intro nth_equalityI) (simp_all add: stream_load_si512_def load_bytes_def)
    then show ?thesis by (simp only: pe_word_def line_word_def)
  qed
  ultimately have negative: "\<forall>i < 2. \<forall>l < 8. \<forall>t < unat (64 :: u32) div 8. \<forall>c < 8. lanes_negative 4
      (pe_word (\<lambda>_ _. 0xFE) (group_list [0, 1] [0, 3] 2 ! i) c (0 + 1024 * 1024 + 8 * of_nat (unat (64 :: u32) div 8 * l + t)))" by simp
  from max_of_negatives [where src_start_offset = 0 and dst_start_offset = 0 and byte_length = 64 and communication_buffer_offset = 0
      and iter_dst_a = 0 and size_of = 4 and mem = "\<lambda>_ _. 0xFE", OF _ ok _ _ _ _ negative,
    THEN spec [of _ 1], THEN mp, THEN spec [of _ 2], THEN mp, THEN spec [of _ 1], THEN mp, THEN spec [of _ 5], THEN mp]
  show ?thesis by (simp add: gs gs [unfolded One_nat_def] bytes_ok_def)
qed

section \<open>Reduce-scatter\<close>

lemma reduce_scatter_step:
  fixes base :: "nat list" and rg_id :: "u32 list" and m :: nat
  defines "gs \<equiv> group_list base rg_id m"
  assumes length: "8 dvd unat byte_length" and n: "n = unat byte_length div 8" and gs: "groups_ok gs"
    and s: "bytes_ok s (8 * (n * 8))" and t: "t < n" and dst: "word_ok dst d" and some: "size_of \<noteq> 0"
  shows "RNS_SUM_RS 1 (rns_addresses base rg_id m byte_length (s + 8 * of_nat t)) (rank_addr_iter (fst dst) (snd dst) d) m size_of
    = line_step (map (block_key gs s n t) (pairs m)) (map (\<lambda>_. group_key dst d) [()]) (\<lambda>vs. map (\<lambda>_. reduced size_of 0 m vs) [()])"
proof
  fix mem
  let ?src = "rns_addresses base rg_id m byte_length (s + 8 * of_nat t)"
    and ?vs = "map (\<lambda>l. load_line l mem) (map (block_key gs s n t) (pairs m))"
  have "stream_load_si512 (?src ! (8 * i + k)) mem = ?vs ! (8 * i + k)" if "i < m" "k < 8" for i k
    unfolding gs_def addresses_lines(1) [OF length n gs [unfolded gs_def] s t that]
      addresses_lines(2) [OF length n gs [unfolded gs_def] s t that] by (simp add: load_line_def)
  note sum = rns_sum_lines [OF this]
  have "add_lanes size_of = reduce_lanes size_of 0" by (simp add: fun_eq_iff reduce_lanes_def)
  then have op: "add_lanes size_of = word_op size_of 0" using some by (simp add: word_op_def)
  have "size_of \<le> 1 \<longleftrightarrow> size_of = 1" using some by (simp add: word_cases(2))
  then have "RNS_SUM_RS 1 ?src (rank_addr_iter (fst dst) (snd dst) d) m size_of mem
      = store_line (group_key dst d) (reduced size_of 0 m ?vs) mem"
    using op by (auto simp: RNS_SUM_RS_def sum reduced_def store_line_def key_ptr [OF dst] Let_def)
  then show "RNS_SUM_RS 1 ?src (rank_addr_iter (fst dst) (snd dst) d) m size_of mem
    = line_step (map (block_key gs s n t) (pairs m)) (map (\<lambda>_. group_key dst d) [()]) (\<lambda>vs. map (\<lambda>_. reduced size_of 0 m vs) [()]) mem"
    unfolding line_step_map by simp
qed

text \<open>
  C5: the reduce-scatter of some groups into one: the word \<open>t\<close> of the DPU \<open>c\<close> of the destination becomes
  the sum over all groups \<open>i\<close> and blocks \<open>l\<close> of the word \<open>t\<close> of the block \<open>l\<close> of the DPU \<open>c - l\<close> (modulo 8)
  of the group \<open>i\<close>, in lanes of \<open>size_of\<close> bytes that wrap around; every other word of every MRAM stays as
  it is. This holds for the single thread that the callers ask for and areas in the bank that do not
  overlap.
\<close>

theorem reduce_scatter_sums:
  fixes src_start_offset dst_start_offset byte_length communication_buffer_offset size_of dst_rg_id :: u32
    and base_dst num_iter_src :: nat and base :: "nat list" and rg_id :: "u32 list" and mem :: regions
  defines "gs \<equiv> group_list base rg_id num_iter_src" and "dst \<equiv> (base_dst, dst_rg_id)"
    and "s \<equiv> src_start_offset + 1024 * 1024 + communication_buffer_offset" and "d \<equiv> dst_start_offset + 1024 * 1024"
    and "n \<equiv> unat byte_length div 8"
    and "mem' \<equiv> xeon_sp_trans_reduce_scatter_cpu_rg base base_dst rg_id dst_rg_id src_start_offset dst_start_offset byte_length
      num_iter_src communication_buffer_offset size_of 1 0 mem"
  assumes length: "8 dvd unat byte_length" and some: "size_of \<noteq> 0" and gs: "groups_ok gs" and dst: "unat (snd dst) < 8"
    and s: "bytes_ok s (8 * (n * 8))" and d: "bytes_ok d (8 * n)"
    and apart: "dst \<in> set gs \<Longrightarrow> unat s + 64 * n \<le> unat d \<or> unat d + 8 * n \<le> unat s"
  shows "(\<forall>t < n. \<forall>c < 8. pe_word mem' dst c (d + 8 * of_nat t)
        = fold (\<lambda>(i, l) w. on_word (add_lanes size_of) w (pe_word mem (gs ! i) ((c + 8 - l) mod 8) (s + 8 * of_nat (n * l + t))))
            (pairs num_iter_src) 0)
    \<and> (\<forall>g c a. word_ok g a \<longrightarrow> \<not> (g = dst \<and> unat d \<le> unat a \<and> unat a < unat d + 8 * n) \<longrightarrow> pe_word mem' g c a = pe_word mem g c a)"
proof -
  let ?m = num_iter_src
  have len: "length gs = ?m" by (simp add: gs_def group_list_def)
  note n = n_def [THEN meta_eq_to_obj_eq]
  have "add_lanes size_of = reduce_lanes size_of 0" by (simp add: fun_eq_iff reduce_lanes_def)
  then have op: "word_op size_of 0 = add_lanes size_of" using some by (simp add: word_op_def)
  let ?K = "\<lambda>(t :: nat) (_ :: unit). group_key dst (d + 8 * of_nat t)" and ?S = "\<lambda>t. map (block_key gs s n t) (pairs ?m)"
    and ?V = "\<lambda>(t :: nat) vs (_ :: unit). reduced size_of 0 ?m vs"
  have one: "thread_rounds (byte_length div 8) 1 0 = [0..<n]" by (simp only: one_thread block_address(3) [OF length n])
  have "mem' = fold (\<lambda>t. RNS_SUM_RS 1 (rns_addresses base rg_id ?m byte_length (s + 8 * of_nat t))
      (rank_addr_iter base_dst dst_rg_id (d + 8 * of_nat t)) ?m size_of) [0..<n] mem"
    unfolding mem'_def xeon_sp_trans_reduce_scatter_cpu_rg_def Let_def one offsets_run snd_conv length_upt diff_zero mult_zero_right add_0_right
    by (simp only: s_def d_def)
  also have "\<dots> = fold (\<lambda>t. line_step (?S t) (map (?K t) [()]) (\<lambda>vs. map (?V t vs) [()])) [0..<n] mem"
    by (rule fold_cong [OF refl refl], unfold set_upt atLeastLessThan_iff gs_def)
      (rule reduce_scatter_step [OF length n gs [unfolded gs_def] s _ area_word [OF dst d] some, unfolded dst_def fst_conv snd_conv, folded dst_def], simp_all)
  finally have mem': "mem' = fold (\<lambda>t. line_step (?S t) (map (?K t) [()]) (\<lambda>vs. map (?V t vs) [()])) [0..<n] mem" .
  have d1: "\<forall>t < n. distinct (map (?K t) [()])" by simp
  have d2: "\<forall>t < n. \<forall>u < n. t < u \<longrightarrow> (\<forall>x \<in> set [()]. (\<forall>y \<in> set [()]. ?K t x \<noteq> ?K u y) \<and> ?K t x \<notin> set (?S u))"
  proof (intro allI impI ballI conjI)
    fix t u :: nat and x :: unit assume t: "t < n" "u < n" "t < u"
    show "?K t x \<noteq> ?K u y" for y unfolding area_key [OF dst d t(1) dst d t(2)] using t(3) by simp
    have "\<not> (dst \<in> set gs \<and> unat s \<le> unat (d + 8 * of_nat t) \<and> unat (d + 8 * of_nat t) < unat s + 64 * n)"
      using apart t(1) unfolding word_offset(1) [OF d t(1)] by auto
    then have "block_key gs s n u (i, k) \<noteq> group_key dst (d + 8 * of_nat t)" if "i < ?m" "k < 8" for i k
      using other_word [OF gs s _ that(2) t(2) area_word [OF dst d t(1)]] that(1) len by blast
    then show "?K t x \<notin> set (?S u)" unfolding set_map using pairs_bound by fastforce
  qed
  have d3: "\<forall>t < n. \<forall>x \<in> set [()]. \<forall>vs. length vs = length (?S t) \<longrightarrow> (\<forall>v \<in> set vs. length v = 64) \<longrightarrow> length (?V t vs x) = 64"
    using reduced_length by blast
  note result = run_values [where S = ?S and K = ?K and V = ?V and L = "[()]" and n = n and mem = mem, OF d1 d2 d3, folded mem']
  have "pe_word mem' dst c (d + 8 * of_nat t)
      = fold (\<lambda>(i, l) w. on_word (add_lanes size_of) w (pe_word mem (gs ! i) ((c + 8 - l) mod 8) (s + 8 * of_nat (n * l + t)))) (pairs ?m) 0"
    if at: "t < n" "c < 8" for t c
    using result(1) [OF at(1), of "()"] blocks_reduced(2) [OF length n gs [unfolded gs_def] s at, where mem = mem and size_of = size_of and reduce_type = 0, folded gs_def]
    unfolding pe_word_key [OF area_word [OF dst d at(1)]] op by simp
  moreover have "pe_word mem' g c a = pe_word mem g c a"
    if a: "word_ok g a" "\<not> (g = dst \<and> unat d \<le> unat a \<and> unat a < unat d + 8 * n)" for g c a
  proof -
    have "?K t x \<noteq> group_key g a" if "t < n" for t x
    proof -
      have "g = dst \<Longrightarrow> unat (d + 8 * of_nat t) \<noteq> unat a" using a(2) that unfolding word_offset(1) [OF d that] by auto
      then show ?thesis unfolding key_inj [OF area_word [OF dst d that] a(1)] by blast
    qed
    then have "\<forall>t < n. \<forall>x \<in> set [()]. ?K t x \<noteq> group_key g a" by blast
    from result(2) [OF this] show ?thesis by (simp only: pe_word_key [OF a(1)])
  qed
  ultimately show ?thesis by blast
qed

lemma reduce_scatter_sums_witness:
  "pe_word (xeon_sp_trans_reduce_scatter_cpu_rg [0, 1] 2 [5, 3] 7 0 0 16 2 0 2 1 0 (\<lambda>r i. of_nat (i + r))) (2, 7) 6 (1048576 + 8 * of_nat 1)
    = fold (\<lambda>(i, l) w. on_word (add_lanes 2) w
        (pe_word (\<lambda>r i. of_nat (i + r)) ([(0, 5), (1, 3)] ! i) ((6 + 8 - l) mod 8) (1048576 + 8 * of_nat (2 * l + 1)))) (pairs 2) 0"
proof -
  have gs: "group_list [0, 1] [5, 3] 2 = [(0, 5), (1, 3)]" by (simp add: group_list_def upt_rec)
  have ok: "groups_ok (group_list [0, 1] [5, 3] 2)" unfolding gs by (simp add: groups_ok_def)
  from conjunct1 [OF reduce_scatter_sums [where src_start_offset = 0 and dst_start_offset = 0 and byte_length = 16 and communication_buffer_offset = 0
      and base_dst = 2 and dst_rg_id = 7 and size_of = 2 and mem = "\<lambda>r i. of_nat (i + r)", OF _ _ ok],
    THEN spec [of _ 1], THEN mp, THEN spec [of _ 6], THEN mp]
  show ?thesis by (simp add: gs gs [unfolded One_nat_def] bytes_ok_def)
qed

end
