(* ===== verification/Pid_Schedule.thy ===== *)
theory Pid_Schedule
  imports Pid_Comm
begin

text \<open>
  How the host schedules an all-to-all over a hypercube of groups
  (\<^verbatim>\<open>thread_all_to_all_rns\<close> and \<^verbatim>\<open>hw_all_to_all_rns\<close> of \<^verbatim>\<open>hw/src/rank/hw_dpu_rank.c\<close>): the shares of the
  threads, and the groups and offsets of each iteration.

  \<open>ranks\<close> holds the region of each rank of the set. The threads run one after the other, in any order; what
  they write does not overlap.
\<close>

section \<open>Definitions\<close>

text \<open>The products over the axes: all iterations, and those along the axes of the communication.\<close>

definition iteration_numbers :: "u32 list \<Rightarrow> u32 list \<Rightarrow> u32 \<Rightarrow> u32 \<times> u32" where
  "iteration_numbers axis_len comm_axis comm_type =
     (let (total_iter_num, total_axis_product) = fold (\<lambda>i (total_iter_num, total_axis_product).
            (total_iter_num * axis_len ! i, if comm_axis ! i = 1 then total_axis_product * axis_len ! i else total_axis_product))
            [0..<length axis_len] (1, 1);
          total_axis_product = (if comm_type = 0 then total_axis_product div 8 else total_axis_product)
      in (total_iter_num div 8 * total_axis_product, total_axis_product))"

text \<open>The iterations of a thread: the remainder of the division goes to the first threads.\<close>

definition iteration_share :: "u32 \<Rightarrow> u32 \<Rightarrow> u32 \<Rightarrow> nat list" where
  "iteration_share total_iter_num num_thread thread_id =
     (let num_inter_thread = 1;
          share = total_iter_num div (num_thread div num_inter_thread);
          remainder = total_iter_num mod (num_thread div num_inter_thread);
          start_point = share * (thread_id div num_inter_thread);
          (remain_iter, start_point) = (if thread_id div num_inter_thread < remainder then (1, start_point + thread_id div num_inter_thread)
            else (0, start_point + remainder))
      in [unat start_point..<unat (start_point + (share + remain_iter))])"

text \<open>The coordinates along the other axes, from the last one.\<close>

definition fixed_coordinates :: "u32 list \<Rightarrow> u32 list \<Rightarrow> u32 \<times> u32 \<times> u32 list \<times> u32 list \<Rightarrow> u32 \<times> u32 \<times> u32 list \<times> u32 list" where
  "fixed_coordinates axis_len comm_axis =
     fold (\<lambda>dim (cur_iter_num, cur_remain, iter_src, iter_dst).
       if comm_axis ! dim = 0 then
         let cur_iter_num = (if dim = 0 then cur_iter_num div (axis_len ! 0 div 8) else cur_iter_num div axis_len ! dim);
             coordinate = cur_remain div cur_iter_num
         in (cur_iter_num, cur_remain - coordinate * cur_iter_num, iter_src[dim := coordinate], iter_dst[dim := coordinate])
       else (cur_iter_num, cur_remain, iter_src, iter_dst))
     (rev [0..<length axis_len])"

text \<open>The coordinates along the axes of the communication.\<close>

definition comm_coordinates :: "u32 list \<Rightarrow> u32 list \<Rightarrow> u32 \<times> u32 \<times> u32 list \<times> u32 list \<Rightarrow> u32 \<times> u32 \<times> u32 list \<times> u32 list" where
  "comm_coordinates axis_len comm_axis =
     fold (\<lambda>dim (cur_iter_src, cur_iter_dst, iter_src, iter_dst).
       if comm_axis ! dim = 1 then
         let len = (if dim = 0 then axis_len ! dim div 8 else axis_len ! dim)
         in (cur_iter_src div len, cur_iter_dst div len, iter_src[dim := cur_iter_src mod len], iter_dst[dim := cur_iter_dst mod len])
       else (cur_iter_src, cur_iter_dst, iter_src, iter_dst))
     [0..<length axis_len]"

text \<open>The number of the rank and of the group of DPUs in it: the rank is a sum of parts that are rounded down one by one.\<close>

definition group_ids :: "u32 list \<Rightarrow> u32 list \<Rightarrow> u32 \<times> u32" where
  "group_ids axis_len iter =
     (let (_, rank_id, rg_id) = fold (\<lambda>dim (temp_total_product, rank_id, rg_id).
            let temp_total_product = (if dim = 1 then temp_total_product * (axis_len ! 0 div 8)
                  else if dim > 1 then temp_total_product * axis_len ! (dim - 1) else temp_total_product)
            in (temp_total_product, rank_id + iter ! dim * temp_total_product div 8, rg_id + iter ! dim * temp_total_product))
            [0..<length axis_len] (1, 0, 0)
      in (rank_id, rg_id mod 8))"

text \<open>One iteration; \<open>None\<close> for a rank that is not in the set.\<close>

definition all_to_all_iteration :: "nat list \<Rightarrow> u32 \<Rightarrow> u32 \<Rightarrow> u32 \<Rightarrow> u32 \<Rightarrow> u32 \<Rightarrow> u32 list \<Rightarrow> u32 list \<Rightarrow> nat
    \<Rightarrow> (u32 list \<times> u32 list \<times> regions) option \<Rightarrow> (u32 list \<times> u32 list \<times> regions) option" where
  "all_to_all_iteration ranks src_start_offset dst_start_offset dpu_byte_length comm_type communication_buffer_offset axis_len comm_axis i s =
     (case s of None \<Rightarrow> None | Some (iter_src, iter_dst, mem) \<Rightarrow>
      let (total_iter_num, total_axis_product) = iteration_numbers axis_len comm_axis comm_type;
          (_, cur_remain, iter_src, iter_dst) = fixed_coordinates axis_len comm_axis (total_iter_num, of_nat i, iter_src, iter_dst);
          cur_iter_src = cur_remain div total_axis_product;
          cur_iter_dst = cur_remain mod total_axis_product;
          blocks = (if comm_type = 0 then 8 else 1);
          src_start_offset_iter = src_start_offset + cur_iter_dst * blocks * dpu_byte_length;
          dst_start_offset_iter = dst_start_offset + cur_iter_src * blocks * dpu_byte_length;
          (_, _, iter_src, iter_dst) = comm_coordinates axis_len comm_axis (cur_iter_src, cur_iter_dst, iter_src, iter_dst);
          (src_rank_id, src_rg_id) = group_ids axis_len iter_src;
          (dst_rank_id, dst_rg_id) = group_ids axis_len iter_dst
      in if unat src_rank_id < length ranks \<and> unat dst_rank_id < length ranks
         then Some (iter_src, iter_dst, xeon_sp_trans_all_to_all_rg (ranks ! unat src_rank_id) (ranks ! unat dst_rank_id) src_rg_id dst_rg_id
           src_start_offset_iter dst_start_offset_iter dpu_byte_length comm_type communication_buffer_offset mem)
         else None)"

definition thread_all_to_all_rns :: "nat list \<Rightarrow> u32 \<Rightarrow> u32 \<Rightarrow> u32 \<Rightarrow> u32 \<Rightarrow> u32 \<Rightarrow> u32 \<Rightarrow> u32 list \<Rightarrow> u32 list \<Rightarrow> u32
    \<Rightarrow> regions option \<Rightarrow> regions option" where
  "thread_all_to_all_rns ranks src_start_offset dst_start_offset dpu_byte_length comm_type communication_buffer_offset num_thread
       axis_len comm_axis thread_id mem =
     map_option (\<lambda>(_, _, mem). mem)
       (fold (all_to_all_iteration ranks src_start_offset dst_start_offset dpu_byte_length comm_type communication_buffer_offset axis_len comm_axis)
         (iteration_share (fst (iteration_numbers axis_len comm_axis comm_type)) num_thread thread_id)
         (map_option (\<lambda>mem. (replicate (length axis_len) 0, replicate (length axis_len) 0, mem)) mem))"

text \<open>For a first axis shorter than 8 no thread is created, and the joins wait for threads that were never set: \<open>None\<close>.\<close>

definition hw_all_to_all_rns :: "u32 list \<Rightarrow> nat list \<Rightarrow> u32 \<Rightarrow> u32 \<Rightarrow> u32 \<Rightarrow> u32 \<Rightarrow> u32 \<Rightarrow> u32 list \<Rightarrow> u32 list \<Rightarrow> regions \<Rightarrow> regions option" where
  "hw_all_to_all_rns threads ranks src_start_offset dst_start_offset dpu_byte_length comm_type communication_buffer_offset axis_len comm_axis mem =
     (if axis_len ! 0 \<ge> 8
      then fold (thread_all_to_all_rns ranks src_start_offset dst_start_offset dpu_byte_length comm_type communication_buffer_offset 32
             axis_len comm_axis) threads (Some mem)
      else None)"

section \<open>The shares\<close>

lemma share_nat:
  assumes "t < n"
  shows "iteration_share iters n t = [unat iters div unat n * unat t + min (unat t) (unat iters mod unat n)
      ..<unat iters div unat n * Suc (unat t) + min (Suc (unat t)) (unat iters mod unat n)]"
proof -
  let ?q = "unat iters div unat n" and ?r = "unat iters mod unat n" and ?t = "unat t" and ?n = "unat n"
  have t: "?t < ?n" using assms by (simp add: word_less_nat_alt)
  have iters: "unat iters = ?q * ?n + ?r" by simp
  have all: "?q * Suc ?t + min (Suc ?t) ?r \<le> unat iters"
  proof -
    have "?q * Suc ?t \<le> ?q * ?n" using t by (intro mult_le_mono2) simp
    then show ?thesis using iters by linarith
  qed
  have "unat iters < 2 ^ 32" using unsigned_less [of iters] by simp
  then have room: "?q * Suc ?t + min (Suc ?t) ?r < 2 ^ 32" using all by linarith
  then have rooms: "?q * ?t + min ?t ?r < 2 ^ 32" by simp
  have nat32: "unat (of_nat x :: u32) = x" if "x < 2 ^ 32" for x using that by (simp add: unsigned_of_nat take_bit_nat_eq_self_iff)
  have less: "t < iters mod n \<longleftrightarrow> ?t < ?r" by (simp add: word_less_nat_alt unat_mod)
  have div_mod: "iters div n = of_nat ?q" "iters mod n = of_nat ?r" by (simp_all flip: unat_div unat_mod)
  show ?thesis
  proof (cases "?t < ?r")
    case True
    then have min: "min ?t ?r = ?t" "min (Suc ?t) ?r = Suc ?t" by simp_all
    have "iters div n * t + t = of_nat (?q * ?t + ?t)" "iters div n * t + t + (iters div n + 1) = of_nat (?q * Suc ?t + Suc ?t)"
      using div_mod(1) by (simp_all add: algebra_simps)
    then have at: "unat (iters div n * t + t) = ?q * ?t + ?t" "unat (iters div n * t + t + (iters div n + 1)) = ?q * Suc ?t + Suc ?t"
      using nat32 [OF room] nat32 [OF rooms] unfolding min by (simp_all only:)
    have "iteration_share iters n t = [unat (iters div n * t + t)..<unat (iters div n * t + t + (iters div n + 1))]"
      using True less by (simp add: iteration_share_def Let_def)
    then show ?thesis by (simp only: at min)
  next
    case False
    then have min: "min ?t ?r = ?r" "min (Suc ?t) ?r = ?r" by simp_all
    have "iters div n * t + iters mod n = of_nat (?q * ?t + ?r)" "iters div n * t + iters mod n + (iters div n + 0) = of_nat (?q * Suc ?t + ?r)"
      using div_mod by (simp_all add: algebra_simps)
    then have at: "unat (iters div n * t + iters mod n) = ?q * ?t + ?r" "unat (iters div n * t + iters mod n + (iters div n + 0)) = ?q * Suc ?t + ?r"
      using nat32 [OF room] nat32 [OF rooms] unfolding min by (simp_all only:)
    have "iteration_share iters n t = [unat (iters div n * t + iters mod n)..<unat (iters div n * t + iters mod n + (iters div n + 0))]"
      using False less by (simp add: iteration_share_def Let_def)
    then show ?thesis by (simp only: at min)
  qed
qed

lemma shares_concat:
  assumes "0 < n"
  shows "concat (map (\<lambda>t. iteration_share iters n (of_nat t)) [0..<unat n]) = [0..<unat iters]"
proof -
  let ?q = "unat iters div unat n" and ?r = "unat iters mod unat n"
  have n: "0 < unat n" using assms by (simp add: word_less_nat_alt)
  have "concat (map (\<lambda>t. iteration_share iters n (of_nat t)) [0..<m]) = [0..<?q * m + min m ?r]" if "m \<le> unat n" for m
    using that
  proof (induction m)
    case (Suc m)
    have "unat n < 2 ^ 32" using unsigned_less [of n] by simp
    then have m: "unat (of_nat m :: u32) = m" using Suc.prems by (simp add: unsigned_of_nat take_bit_nat_eq_self_iff)
    then have "of_nat m < n" using Suc.prems by (simp add: word_less_nat_alt)
    from share_nat [OF this, of iters] have "iteration_share iters n (of_nat m) = [?q * m + min m ?r..<?q * Suc m + min (Suc m) ?r]" unfolding m .
    moreover have "?q * m + min m ?r \<le> ?q * Suc m + min (Suc m) ?r" by (intro add_mono mult_le_mono2) simp_all
    then obtain k where k: "?q * Suc m + min (Suc m) ?r = ?q * m + min m ?r + k" using le_Suc_ex by blast
    have "[0..<?q * Suc m + min (Suc m) ?r] = [0..<?q * m + min m ?r] @ [?q * m + min m ?r..<?q * Suc m + min (Suc m) ?r]"
      unfolding k by (rule upt_add_eq_append) simp
    moreover have "[0..<Suc m] = [0..<m] @ [m]" by simp
    ultimately show ?case using Suc.IH Suc.prems by (simp only: map_append concat_append list.map concat.simps append_Nil2 Suc_leD)
  qed simp
  moreover have "?q * unat n + min (unat n) ?r = unat iters" using n by (simp add: less_imp_le min_absorb2)
  ultimately show ?thesis by simp
qed

text \<open>
  C39: whatever the number of iterations and of threads, the shares of the threads, one behind the other,
  are all iterations: none is left out and none is done twice.
\<close>

theorem shares_are_iterations:
  assumes "0 < n"
  shows "concat (map (\<lambda>t. iteration_share iters n (of_nat t)) [0..<unat n]) = [0..<unat iters]"
  using assms by (rule shares_concat)

lemma shares_are_iterations_witness:
  "concat (map (\<lambda>t. iteration_share 70 32 (of_nat t)) [0..<unat (32 :: u32)]) = [0..<unat (70 :: u32)]"
  by (rule shares_are_iterations) simp

end
