(* ===== verification/Pid_Relocate.thy ===== *)
theory Pid_Relocate
  imports Xeon_Sp
begin

text \<open>
  The programs that relocate the blocks in the MRAM of a DPU before and after a collective operation
  (\<^verbatim>\<open>pidcomm_lib/data_relocate_clockwise\<close> and \<^verbatim>\<open>pidcomm_lib/data_relocate_reverse_clockwise\<close>), run by
  the tasklets of the DPU.

  The MRAM is a function from the address to the byte, addresses as the DPU has them, from \<^verbatim>\<open>MRAM_MASK\<close>
  (\<^verbatim>\<open>api/src/dpu_loader.c\<close>) on; \<open>heap\<close> is
  \<^verbatim>\<open>DPU_MRAM_HEAP_POINTER\<close> and \<open>size_of_T\<close> is the size of the type the program was built for. Between
  two barriers every tasklet reads its chunk into its own cache or writes it; \<open>order\<close> gives the order in
  which the tasklets come to it in each round. \<^verbatim>\<open>mram_read\<close> and \<^verbatim>\<open>mram_write\<close> come from the header
  \<^verbatim>\<open>mram.h\<close> of the tool chain, which is not part of this repository: they are parameters of the programs, and
  the locale \<open>mram_dma\<close> holds what is documented of them.
\<close>

section \<open>The programs\<close>

record dpu_arguments_comm =
  arg_start_offset :: u32
  arg_target_offset :: u32
  arg_total_data_size :: u32
  arg_num_comm_dpu :: u32
  arg_each_dpu :: u32
  arg_no_rotate :: bool
  arg_num_row :: u32
  arg_comm_type :: u32
  arg_a_length :: u32
  arg_num_comm_rg :: u32

definition max_words_per_dpu :: "u32 \<Rightarrow> dpu_arguments_comm \<Rightarrow> u32" where
  "max_words_per_dpu size_of_T args = arg_total_data_size args div (arg_num_comm_dpu args * size_of_T)"

definition relocate_iter :: "u32 \<Rightarrow> dpu_arguments_comm \<Rightarrow> u32" where
  "relocate_iter size_of_T args =
     (let bytes = max_words_per_dpu size_of_T args * size_of_T
      in if bytes mod 2048 = 0 then bytes div 2048 else bytes div 2048 + 1)"

text \<open>The size of a chunk: all but the last one are 2048 bytes.\<close>

definition chunk_size :: "u32 \<Rightarrow> dpu_arguments_comm \<Rightarrow> u32 \<Rightarrow> u32" where
  "chunk_size size_of_T args iteration =
     (if iteration = relocate_iter size_of_T args - 1
      then let leftover_num = max_words_per_dpu size_of_T args - 2048 div size_of_T * iteration in leftover_num * size_of_T
      else 2048)"

definition original_addr :: "u32 \<Rightarrow> u32 \<Rightarrow> dpu_arguments_comm \<Rightarrow> u32 \<Rightarrow> u32 \<Rightarrow> u32" where
  "original_addr heap size_of_T args target_dpu_num iteration =
     heap + arg_start_offset args + max_words_per_dpu size_of_T args * target_dpu_num * size_of_T + 2048 * iteration"

text \<open>
  The address a chunk goes to, for the block number \<open>offset\<close> among the \<open>tasklets\<close> blocks of a round.
\<close>

definition target_addr :: "u32 \<Rightarrow> u32 \<Rightarrow> u32 \<Rightarrow> dpu_arguments_comm \<Rightarrow> u32 \<Rightarrow> u32 \<Rightarrow> u32 \<Rightarrow> u32" where
  "target_addr tasklets heap size_of_T args offset target_dpu_num iteration =
     (let max_words = max_words_per_dpu size_of_T args
      in if arg_no_rotate args
         then heap + arg_target_offset args + max_words * target_dpu_num * size_of_T + 2048 * iteration
         else heap + arg_target_offset args + target_dpu_num div tasklets * tasklets * max_words * size_of_T
           + offset * max_words * size_of_T + 2048 * iteration)"

definition clockwise_offset :: "u32 \<Rightarrow> dpu_arguments_comm \<Rightarrow> u32 \<Rightarrow> u32" where
  "clockwise_offset tasklets args target_dpu_num = (target_dpu_num - arg_each_dpu args) mod tasklets"

definition reverse_offset :: "u32 \<Rightarrow> dpu_arguments_comm \<Rightarrow> u32 \<Rightarrow> u32" where
  "reverse_offset tasklets args target_dpu_num = (arg_each_dpu args - target_dpu_num) mod tasklets"

text \<open>
  All tasklets read their chunks, wait for each other, and write them. A call \<^verbatim>\<open>mram_read(from, cache, n)\<close>
  gives the bytes it loads into the cache of the tasklet.
\<close>

type_synonym mram_reader = "u32 \<Rightarrow> u32 \<Rightarrow> (nat \<Rightarrow> u8) \<Rightarrow> u8 list"
type_synonym mram_writer = "u8 list \<Rightarrow> u32 \<Rightarrow> u32 \<Rightarrow> (nat \<Rightarrow> u8) \<Rightarrow> nat \<Rightarrow> u8"

definition relocate_round :: "mram_reader \<Rightarrow> mram_writer \<Rightarrow> u32 \<Rightarrow> u32 \<Rightarrow> u32 \<Rightarrow> dpu_arguments_comm \<Rightarrow> (u32 \<Rightarrow> u32) \<Rightarrow> nat list \<Rightarrow> nat \<Rightarrow> nat \<Rightarrow> (nat \<Rightarrow> u8) \<Rightarrow> nat \<Rightarrow> u8" where
  "relocate_round mram_read mram_write tasklets heap size_of_T args offset order k iteration mem =
     (let iteration = of_nat iteration;
          target_dpu_num = (\<lambda>tasklet_id. of_nat tasklet_id + tasklets * of_nat k);
          word_caches = map (\<lambda>tasklet_id. mram_read (original_addr heap size_of_T args (target_dpu_num tasklet_id) iteration)
            (chunk_size size_of_T args iteration) mem) order
      in fold (\<lambda>(tasklet_id, word_cache).
           mram_write word_cache
             (target_addr tasklets heap size_of_T args (offset (target_dpu_num tasklet_id)) (target_dpu_num tasklet_id) iteration)
             (chunk_size size_of_T args iteration)) (zip order word_caches) mem)"

definition relocate_blocks :: "mram_reader \<Rightarrow> mram_writer \<Rightarrow> u32 \<Rightarrow> u32 \<Rightarrow> u32 \<Rightarrow> dpu_arguments_comm \<Rightarrow> (u32 \<Rightarrow> u32) \<Rightarrow> (nat \<Rightarrow> nat \<Rightarrow> nat list) \<Rightarrow> (nat \<Rightarrow> u8) \<Rightarrow> nat \<Rightarrow> u8" where
  "relocate_blocks mram_read mram_write tasklets heap size_of_T args offset order =
     fold (\<lambda>k. fold (\<lambda>iteration. relocate_round mram_read mram_write tasklets heap size_of_T args offset (order k iteration) k iteration)
         [0..<unat (relocate_iter size_of_T args)])
       [0..<unat (arg_num_comm_dpu args div tasklets)]"

definition data_relocate_clockwise :: "mram_reader \<Rightarrow> mram_writer \<Rightarrow> u32 \<Rightarrow> u32 \<Rightarrow> (nat \<Rightarrow> nat \<Rightarrow> nat list) \<Rightarrow> dpu_arguments_comm \<Rightarrow> (nat \<Rightarrow> u8) \<Rightarrow> nat \<Rightarrow> u8" where
  "data_relocate_clockwise mram_read mram_write heap size_of_T order args =
     (let num_comm_dpu = arg_num_comm_dpu args
      in if num_comm_dpu mod 8 = 0
         then relocate_blocks mram_read mram_write 8 heap size_of_T args (clockwise_offset 8 args) order
         else if num_comm_dpu = 4 \<or> num_comm_dpu = 2
         then relocate_blocks mram_read mram_write num_comm_dpu heap size_of_T args (clockwise_offset num_comm_dpu args) order
         else (\<lambda>mem. mem))"

text \<open>
  The branch of the second program for groups of which all eight DPUs take part, the one whose tasklets
  wait for each other.
\<close>

definition data_relocate_reverse_clockwise_8 :: "mram_reader \<Rightarrow> mram_writer \<Rightarrow> u32 \<Rightarrow> u32 \<Rightarrow> (nat \<Rightarrow> nat \<Rightarrow> nat list) \<Rightarrow> dpu_arguments_comm \<Rightarrow> (nat \<Rightarrow> u8) \<Rightarrow> nat \<Rightarrow> u8" where
  "data_relocate_reverse_clockwise_8 mram_read mram_write heap size_of_T order args =
     relocate_blocks mram_read mram_write 8 heap size_of_T args (reverse_offset 8 args) order"

section \<open>The DMA\<close>

text \<open>
  What the programs rely on: between an address and a size that are multiples of 8 bytes, in the bank, at most
  2048 bytes are moved as they are. Nothing is said of other addresses and sizes, for which the DMA of a DPU
  moves other bytes than those asked for.
\<close>

abbreviation mram_start :: nat where "mram_start \<equiv> 0x08000000"
abbreviation mram_end :: nat where "mram_end \<equiv> 0x0c000000"

definition dma_aligned :: "u32 \<Rightarrow> u32 \<Rightarrow> bool" where
  "dma_aligned addr n \<longleftrightarrow> 8 dvd unat addr \<and> 8 dvd unat n \<and> 0 < unat n \<and> unat n \<le> 2048
     \<and> mram_start \<le> unat addr \<and> unat addr + unat n \<le> mram_end"

locale mram_dma =
  fixes mram_read :: mram_reader and mram_write :: mram_writer
  assumes read_aligned: "dma_aligned addr n \<Longrightarrow> mram_read addr n mem = load_bytes (unat addr) (unat n) mem"
    and write_aligned: "dma_aligned addr n \<Longrightarrow> length cache = unat n \<Longrightarrow> mram_write cache addr n mem = store_bytes (unat addr) cache mem"

text \<open>
  The instructions of the DMA (\<^verbatim>\<open>ldma\<close> and \<^verbatim>\<open>sdma\<close> of \<^verbatim>\<open>python/dpu/isa.py\<close>) mask the addresses of both
  memories and take the number of groups of eight bytes, less one, from the immediate and the upper byte of \<open>ra\<close>.
\<close>

definition dma_size :: "u32 \<Rightarrow> u32 \<Rightarrow> u32" where
  "dma_size immDma ra = push_bit 3 (1 + ((immDma + (drop_bit 24 ra AND 0xff)) AND 0xff))"

definition ldma :: "u32 \<Rightarrow> u32 \<Rightarrow> u32 \<Rightarrow> (nat \<Rightarrow> u8) \<Rightarrow> (nat \<Rightarrow> u8) \<Rightarrow> nat \<Rightarrow> u8" where
  "ldma ra rb immDma mram wram =
     store_bytes (unat (ra AND 0xfffff8)) (load_bytes (unat (rb AND 0xfffffff8)) (unat (dma_size immDma ra)) mram) wram"

definition sdma :: "u32 \<Rightarrow> u32 \<Rightarrow> u32 \<Rightarrow> (nat \<Rightarrow> u8) \<Rightarrow> (nat \<Rightarrow> u8) \<Rightarrow> nat \<Rightarrow> u8" where
  "sdma ra rb immDma wram mram =
     store_bytes (unat (rb AND 0xfffffff8)) (load_bytes (unat (ra AND 0xfffff8)) (unat (dma_size immDma ra)) wram) mram"

text \<open>One instruction between the MRAM and a cache at the address 0 of the WRAM keeps the promise.\<close>

definition dma_groups :: "u32 \<Rightarrow> u32" where
  "dma_groups n = push_bit 24 (n div 8 - 1)"

definition ldma_read :: mram_reader where
  "ldma_read addr n mem = load_bytes 0 (unat n) (ldma (dma_groups n) addr 0 mem (\<lambda>_. 0))"

definition sdma_write :: mram_writer where
  "sdma_write cache addr n mem = sdma (dma_groups n) addr 0 (store_bytes 0 cache (\<lambda>_. 0)) mem"

lemma dma_group_size:
  assumes "dma_aligned addr n"
  shows "dma_size 0 (dma_groups n) = n" "dma_groups n AND 0xfffff8 = 0" "addr AND 0xfffffff8 = addr"
proof -
  let ?j = "n div 8 - 1"
  obtain g where g: "unat n = 8 * g" using assms by (auto simp: dma_aligned_def)
  then have g1: "0 < g" "g \<le> 256" using assms by (simp_all add: dma_aligned_def)
  have d: "unat (n div 8) = g" by (simp add: unat_div g)
  have j: "unat ?j = g - 1" using d g1 by (subst unat_minus_one) auto
  have small: "take_bit 8 ?j = ?j" unfolding word_unat_eq_iff unsigned_take_bit_eq j using g1 by (simp add: take_bit_eq_mod)
  have m: "x AND 0xff = take_bit 8 x" for x :: u32 by (simp add: take_bit_eq_mask mask_eq_exp_minus_1)
  have "take_bit 8 (drop_bit 24 (push_bit 24 ?j)) = take_bit 8 ?j"
    by (rule bit_word_eqI) (auto simp: bit_simps)
  then have "1 + ((0 + (drop_bit 24 (push_bit 24 ?j) AND 0xff)) AND 0xff) = n div 8" unfolding m by (simp add: small)
  moreover have "push_bit 3 (n div 8) = n" using g g1 by (simp add: word_unat_eq_iff unat_div push_bit_eq_mult unat_word_ariths)
  ultimately show "dma_size 0 (dma_groups n) = n" unfolding dma_size_def dma_groups_def by (simp only:)
  have "\<not> bit (0xfffff8 :: u32) k" if "24 \<le> k" for k
  proof -
    have "(0xfffff8 :: u32) = take_bit 24 0xfffff8" by simp
    then show ?thesis using that by (metis bit_take_bit_iff not_less)
  qed
  then show "dma_groups n AND 0xfffff8 = 0" unfolding dma_groups_def by (intro bit_word_eqI) (auto simp: bit_simps)
  obtain h where h: "unat addr = 8 * h" using assms by (auto simp: dma_aligned_def)
  have "take_bit 3 (unat addr) = 0" by (simp add: h take_bit_eq_mod)
  then have "\<not> bit addr k" if "k < 3" for k using that bit_take_bit_iff [of 3 "unat addr" k] by (simp add: bit_unsigned_iff)
  then have "addr AND NOT (mask 3) = addr" by (intro bit_word_eqI) (auto simp: bit_simps)
  moreover have "NOT (mask 3) = (0xfffffff8 :: u32)" by (simp add: mask_eq_exp_minus_1)
  ultimately show "addr AND 0xfffffff8 = addr" by (simp only:)
qed

interpretation isa: mram_dma ldma_read sdma_write
proof
  fix addr n :: u32 and mem :: "nat \<Rightarrow> u8" and cache :: "u8 list"
  assume al: "dma_aligned addr n"
  note n = dma_group_size [OF al]
  show "ldma_read addr n mem = load_bytes (unat addr) (unat n) mem"
    unfolding ldma_read_def ldma_def n by (simp add: load_bytes_def store_bytes_def)
  show "sdma_write cache addr n mem = store_bytes (unat addr) cache mem" if "length cache = unat n"
    unfolding sdma_write_def sdma_def n by (auto simp: load_bytes_def store_bytes_def that [symmetric] fun_eq_iff)
qed

section \<open>Moves\<close>

text \<open>
  A memory seen as a function from places to values, and a step that moves values: those in \<open>W\<close> are
  afterwards what was at \<open>\<sigma>\<close> of their place, all others stay. A run of such steps with the same \<open>\<sigma>\<close>
  that do not write what another one reads or writes is a move again.
\<close>

locale memory_view =
  fixes view :: "'m \<Rightarrow> 'k \<Rightarrow> 'v" and ok :: "'k \<Rightarrow> bool"
begin

definition moves :: "'k set \<Rightarrow> ('k \<Rightarrow> 'k) \<Rightarrow> ('m \<Rightarrow> 'm) \<Rightarrow> bool" where
  "moves W \<sigma> f \<longleftrightarrow> (\<forall>mem k. ok k \<longrightarrow> view (f mem) k = (if k \<in> W then view mem (\<sigma> k) else view mem k))"

lemma moves_id: "moves {} \<sigma> (\<lambda>mem. mem)"
  by (simp add: moves_def)

lemma moves_run:
  assumes step: "\<And>x. x \<in> set xs \<Longrightarrow> moves (W x) \<sigma> (f x)" and "distinct xs"
    and inside: "\<And>x k. x \<in> set xs \<Longrightarrow> k \<in> W x \<Longrightarrow> ok k \<Longrightarrow> ok (\<sigma> k)"
    and apart: "\<And>x y k. x \<in> set xs \<Longrightarrow> y \<in> set xs \<Longrightarrow> x \<noteq> y \<Longrightarrow> k \<in> W x \<Longrightarrow> k \<notin> W y \<and> \<sigma> k \<notin> W y"
  shows "moves (\<Union>x \<in> set xs. W x) \<sigma> (fold f xs)"
  using assms
proof (induction xs rule: rev_induct)
  case (snoc x xs)
  have IH: "moves (\<Union>x \<in> set xs. W x) \<sigma> (fold f xs)"
  proof (rule snoc.IH)
    show "moves (W y) \<sigma> (f y)" if "y \<in> set xs" for y using snoc.prems(1) that by simp
    show "distinct xs" using snoc.prems(2) by simp
    show "ok (\<sigma> k)" if "y \<in> set xs" "k \<in> W y" "ok k" for y k using snoc.prems(3) [of y k] that by simp
    show "k \<notin> W z \<and> \<sigma> k \<notin> W z" if "y \<in> set xs" "z \<in> set xs" "y \<noteq> z" "k \<in> W y" for y z k
      using snoc.prems(4) [of y z k] that by simp
  qed
  have last_step: "moves (W x) \<sigma> (f x)" using snoc.prems(1) by simp
  show ?case
    unfolding moves_def
  proof (intro allI impI)
    fix mem k assume ok: "ok k"
    show "view (fold f (xs @ [x]) mem) k = (if k \<in> (\<Union>x \<in> set (xs @ [x]). W x) then view mem (\<sigma> k) else view mem k)"
    proof (cases "k \<in> W x")
      case True
      have new: "\<sigma> k \<notin> (\<Union>x \<in> set xs. W x)" using snoc.prems(2) snoc.prems(4) [of x] True by fastforce
      have "ok (\<sigma> k)" using snoc.prems(3) [of x] True ok by simp
      then have "view (fold f xs mem) (\<sigma> k) = view mem (\<sigma> k)" using IH new unfolding moves_def by meson
      moreover have "view (fold f (xs @ [x]) mem) k = view (fold f xs mem) (\<sigma> k)" using last_step True ok by (simp add: moves_def)
      ultimately show ?thesis using True by simp
    next
      case False
      then have "view (fold f (xs @ [x]) mem) k = view (fold f xs mem) k" using last_step ok by (simp add: moves_def)
      then show ?thesis using IH False ok unfolding moves_def by (simp add: False)
    qed
  qed
qed (simp add: moves_def)

end

text \<open>The bytes of an MRAM.\<close>

interpretation mram_view: memory_view "\<lambda>mem :: nat \<Rightarrow> u8. mem" "\<lambda>_. True" .

abbreviation pulls :: "nat set \<Rightarrow> (nat \<Rightarrow> nat) \<Rightarrow> ((nat \<Rightarrow> u8) \<Rightarrow> nat \<Rightarrow> u8) \<Rightarrow> bool" where
  "pulls \<equiv> mram_view.moves"

lemma pulls_def: "pulls W \<sigma> f \<longleftrightarrow> (\<forall>mem i. f mem i = (if i \<in> W then mem (\<sigma> i) else mem i))"
  by (simp add: mram_view.moves_def)

lemma pulls_run:
  assumes "\<And>x. x \<in> set xs \<Longrightarrow> pulls (W x) \<sigma> (f x)" "distinct xs"
    and "\<And>x y i. x \<in> set xs \<Longrightarrow> y \<in> set xs \<Longrightarrow> x \<noteq> y \<Longrightarrow> i \<in> W x \<Longrightarrow> i \<notin> W y \<and> \<sigma> i \<notin> W y"
  shows "pulls (\<Union>x \<in> set xs. W x) \<sigma> (fold f xs)"
  using assms(1,2) TrueI assms(3) by (rule mram_view.moves_run)

text \<open>Stores of caches that were loaded before the first of them.\<close>

lemma store_caches:
  assumes "\<And>t i. t \<in> set ts \<Longrightarrow> D t \<le> i \<Longrightarrow> i < D t + n \<Longrightarrow> \<sigma> i = S t + (i - D t)"
  shows "fold (\<lambda>(t, c). store_bytes (D t) c) (zip ts (map (\<lambda>t. load_bytes (S t) n mem) ts)) mem' i
    = (if \<exists>t \<in> set ts. D t \<le> i \<and> i < D t + n then mem (\<sigma> i) else mem' i)"
  using assms
proof (induction ts arbitrary: mem')
  case (Cons t ts)
  have "fold (\<lambda>(t, c). store_bytes (D t) c) (zip ts (map (\<lambda>t. load_bytes (S t) n mem) ts)) (store_bytes (D t) (load_bytes (S t) n mem) mem') i
    = (if \<exists>t \<in> set ts. D t \<le> i \<and> i < D t + n then mem (\<sigma> i) else store_bytes (D t) (load_bytes (S t) n mem) mem' i)"
    using Cons.prems by (intro Cons.IH) simp
  moreover have "store_bytes (D t) (load_bytes (S t) n mem) mem' i = (if D t \<le> i \<and> i < D t + n then mem (S t + (i - D t)) else mem' i)"
    by (auto simp: store_bytes_def load_bytes_def nth_map)
  ultimately show ?case using Cons.prems [of t i] by auto
qed simp

section \<open>What a relocation does\<close>

text \<open>
  The blocks of \<open>B\<close> bytes at \<open>a\<close>: the number of the block of an address, its place in the block, and the
  address in the blocks at \<open>s\<close> whose contents a relocation moves there; \<open>\<pi>\<close> gives the block of a round that
  goes to a place.
\<close>

definition block_of :: "nat \<Rightarrow> nat \<Rightarrow> nat \<Rightarrow> nat" where
  "block_of B a i = (i - a) div B"

definition place_of :: "nat \<Rightarrow> nat \<Rightarrow> nat \<Rightarrow> nat" where
  "place_of B a i = (i - a) mod B"

definition origin :: "nat \<Rightarrow> (nat \<Rightarrow> nat) \<Rightarrow> nat \<Rightarrow> nat \<Rightarrow> nat \<Rightarrow> nat \<Rightarrow> nat" where
  "origin m \<pi> B s a i = s + B * (m * (block_of B a i div m) + \<pi> (block_of B a i mod m)) + place_of B a i"

lemma block_place:
  assumes "x < B"
  shows "block_of B a (a + B * b + x) = b" "place_of B a (a + B * b + x) = x"
  using assms by (simp_all add: block_of_def place_of_def add.assoc)

lemma block_place_eq: "0 < B \<Longrightarrow> a \<le> i \<Longrightarrow> i = a + B * block_of B a i + place_of B a i"
  by (simp add: block_of_def place_of_def add.assoc)

lemma block_bound: "a \<le> i \<Longrightarrow> i < a + B * N \<Longrightarrow> block_of B a i < N"
  unfolding block_of_def by (rule less_mult_imp_div_less) (simp add: mult.commute less_diff_conv2)

text \<open>
  The area is written in rounds of \<open>m\<close> blocks and chunks of 2048 bytes of each.
\<close>

definition round_area :: "nat \<Rightarrow> nat \<Rightarrow> nat \<Rightarrow> nat \<Rightarrow> nat \<Rightarrow> nat \<Rightarrow> nat set" where
  "round_area m B N a k it = {i. a \<le> i \<and> i < a + B * N \<and> block_of B a i div m = k \<and> place_of B a i div 2048 = it}"

definition permutes_round :: "nat \<Rightarrow> (nat \<Rightarrow> nat) \<Rightarrow> (nat \<Rightarrow> nat) \<Rightarrow> bool" where
  "permutes_round m off \<pi> \<longleftrightarrow> (\<forall>t < m. off t < m \<and> \<pi> (off t) = t) \<and> (\<forall>q < m. \<pi> q < m \<and> off (\<pi> q) = q)"

lemma chunk_places:
  assumes "permutes_round m off \<pi>" "N = m * r" "k < r" "t < m" and i: "a + B * (m * k + off t) + 2048 * it \<le> i"
    "i < a + B * (m * k + off t) + 2048 * it + min 2048 (B - 2048 * it)"
  shows "i \<in> round_area m B N a k it" "origin m \<pi> B s a i = s + B * (m * k + t) + 2048 * it + (i - (a + B * (m * k + off t) + 2048 * it))"
proof -
  define x where "x = i - (a + B * (m * k + off t))"
  have off: "off t < m" "\<pi> (off t) = t" using assms(1,4) by (simp_all add: permutes_round_def)
  have x: "i = a + B * (m * k + off t) + x" "2048 * it \<le> x" "x < 2048 * it + 2048" "x < B" using i by (auto simp: x_def)
  have at: "block_of B a i = m * k + off t" "place_of B a i = x" unfolding x(1) by (rule block_place [OF x(4)])+
  have "m * k + off t < m * r" using assms(3) off(1) by (metis add.commute add_less_cancel_left less_le_trans mult_Suc_right mult_le_mono2 Suc_leI)
  then have "B * (m * k + off t) + B \<le> B * N" unfolding assms(2) by (metis Suc_leI mult_Suc_right add.commute mult_le_mono2)
  then have "i < a + B * N" using x by linarith
  moreover have "x div 2048 = it" using x(2,3) by (intro div_nat_eqI) simp_all
  moreover have "(m * k + off t) div m = k" using off(1) by simp
  moreover have "a \<le> i" using x(1) by simp
  ultimately show "i \<in> round_area m B N a k it" unfolding round_area_def by (simp only: at mem_Collect_eq simp_thms)
  show "origin m \<pi> B s a i = s + B * (m * k + t) + 2048 * it + (i - (a + B * (m * k + off t) + 2048 * it))"
  proof -
    have "(m * k + off t) div m = k" "(m * k + off t) mod m = off t" using off(1) by simp_all
    then have "origin m \<pi> B s a i = s + B * (m * k + t) + x" unfolding origin_def at by (simp only: off(2))
    then show ?thesis using x(1,2) by linarith
  qed
qed

lemma round_area_chunk:
  assumes "permutes_round m off \<pi>" "0 < m" "i \<in> round_area m B N a k it"
  shows "\<exists>t < m. a + B * (m * k + off t) + 2048 * it \<le> i \<and> i < a + B * (m * k + off t) + 2048 * it + min 2048 (B - 2048 * it)"
proof -
  have i: "a \<le> i" "i < a + B * N" "block_of B a i div m = k" "place_of B a i div 2048 = it" using assms(3) by (simp_all add: round_area_def)
  have B: "0 < B" using i(1,2) by (cases B) simp_all
  let ?q = "block_of B a i mod m" and ?x = "place_of B a i"
  have q: "\<pi> ?q < m" "off (\<pi> ?q) = ?q" using assms(1,2) by (simp_all add: permutes_round_def)
  have "m * k + ?q = block_of B a i" using mult_div_mod_eq [of m "block_of B a i"] unfolding i(3) .
  then have at: "i = a + B * (m * k + off (\<pi> ?q)) + ?x" using block_place_eq [OF B i(1)] q(2) by simp
  have "?x < B" using B by (simp add: place_of_def)
  moreover have "2048 * it \<le> ?x" "?x < 2048 * it + 2048" using i(4) by (auto simp: div_nat_eqI dest: sym)
  ultimately have "2048 * it \<le> ?x" "?x < 2048 * it + min 2048 (B - 2048 * it)" by simp_all
  then have "a + B * (m * k + off (\<pi> ?q)) + 2048 * it \<le> i" "i < a + B * (m * k + off (\<pi> ?q)) + 2048 * it + min 2048 (B - 2048 * it)"
    using at by linarith+
  with q(1) show ?thesis by blast
qed

section \<open>Sizes and addresses\<close>

definition block_bytes :: "u32 \<Rightarrow> dpu_arguments_comm \<Rightarrow> nat" where
  "block_bytes size_of_T args = unat (max_words_per_dpu size_of_T args) * unat size_of_T"

text \<open>
  The blocks are a multiple of 8 bytes long, both areas start at a multiple of 8 bytes and are in the bank,
  and they are the same or do not overlap.
\<close>

definition relocation_ok :: "u32 \<Rightarrow> u32 \<Rightarrow> dpu_arguments_comm \<Rightarrow> bool" where
  "relocation_ok heap size_of_T args \<longleftrightarrow>
     (let bytes = block_bytes size_of_T args * unat (arg_num_comm_dpu args);
          start = unat (arg_start_offset args);
          target = unat (arg_target_offset args)
      in unat size_of_T dvd 2048 \<and> 8 dvd block_bytes size_of_T args \<and> 8 dvd unat heap \<and> 8 dvd start \<and> 8 dvd target
         \<and> mram_start \<le> unat heap \<and> unat heap + start + bytes \<le> mram_end \<and> unat heap + target + bytes \<le> mram_end
         \<and> (start = target \<or> start + bytes \<le> target \<or> target + bytes \<le> start))"

lemma unat_of_nat_small: "n < 2 ^ 32 \<Longrightarrow> unat (of_nat n :: u32) = n"
  by (simp add: unsigned_of_nat take_bit_nat_eq_self_iff)

lemma word_block_bytes: "max_words_per_dpu size_of_T args * size_of_T = of_nat (block_bytes size_of_T args)"
  by (simp add: block_bytes_def)

lemma relocate_iter_nat:
  assumes "block_bytes size_of_T args \<le> mram_end"
  shows "unat (relocate_iter size_of_T args) = (block_bytes size_of_T args + 2047) div 2048"
proof -
  let ?B = "block_bytes size_of_T args"
  have B: "unat (of_nat ?B :: u32) = ?B" using assms by (intro unat_of_nat_small) simp
  have zero: "(of_nat ?B :: u32) mod 2048 = 0 \<longleftrightarrow> ?B mod 2048 = 0"
    by (simp add: word_unat_eq_iff unat_mod B)
  have "?B div 2048 + 1 < 2 ^ 32" using assms by simp
  then have plus: "unat ((of_nat ?B :: u32) div 2048 + 1) = ?B div 2048 + 1" by (simp add: unat_word_ariths unat_div B)
  show ?thesis
  proof (cases "?B mod 2048 = 0")
    case True
    then have "(?B + 2047) div 2048 = ?B div 2048" by (auto elim!: dvdE simp: mod_eq_0_iff_dvd)
    then show ?thesis using True by (simp add: relocate_iter_def word_block_bytes zero unat_div B)
  next
    case False
    define q r where "q = ?B div 2048" and "r = ?B mod 2048"
    have "?B = 2048 * q + r" "r < 2048" "r \<noteq> 0" using False by (simp_all add: q_def r_def)
    then have "(?B + 2047) div 2048 = q + 1" by (intro div_nat_eqI) simp_all
    then have "(?B + 2047) div 2048 = ?B div 2048 + 1" by (simp add: q_def)
    then show ?thesis using False plus by (simp add: relocate_iter_def word_block_bytes zero)
  qed
qed

lemma chunk_size_nat:
  assumes B: "block_bytes size_of_T args \<le> mram_end" and T: "unat size_of_T dvd 2048" and it: "it < unat (relocate_iter size_of_T args)"
  shows "unat (chunk_size size_of_T args (of_nat it)) = min 2048 (block_bytes size_of_T args - 2048 * it)"
    "2048 * it < block_bytes size_of_T args"
proof -
  let ?B = "block_bytes size_of_T args" and ?n = "unat (relocate_iter size_of_T args)"
  note n = relocate_iter_nat [OF B]
  have start: "2048 * it < ?B" using it n by linarith
  then show "2048 * it < ?B" .
  have "it < 2 ^ LENGTH(32)" using it unsigned_less by (rule order_less_trans)
  then have small: "it < 2 ^ 32" by simp
  have "unat (relocate_iter size_of_T args - 1) = ?n - 1" using it by (intro unat_minus_one) auto
  then have last_one: "of_nat it = relocate_iter size_of_T args - 1 \<longleftrightarrow> it = ?n - 1"
    by (simp only: word_unat_eq_iff unat_of_nat_small [OF small])
  show "unat (chunk_size size_of_T args (of_nat it)) = min 2048 (?B - 2048 * it)"
  proof (cases "it = ?n - 1")
    case True
    have "unat (2048 div size_of_T) * unat size_of_T = 2048" using T by (simp add: unat_div)
    then have "unat (2048 div size_of_T * size_of_T) = 2048" by (simp add: unat_word_ariths)
    then have whole: "2048 div size_of_T * size_of_T = 2048" by (simp add: word_unat_eq_iff)
    have "(max_words_per_dpu size_of_T args - 2048 div size_of_T * of_nat it) * size_of_T
        = max_words_per_dpu size_of_T args * size_of_T - 2048 div size_of_T * size_of_T * of_nat it"
      by (simp add: algebra_simps)
    also have "\<dots> = of_nat ?B - 2048 div size_of_T * size_of_T * of_nat it" by (simp only: word_block_bytes)
    also have "\<dots> = of_nat (?B - 2048 * it)" unfolding whole using start by (simp add: of_nat_diff)
    finally have "chunk_size size_of_T args (of_nat it) = of_nat (?B - 2048 * it)"
      using last_one True by (simp add: chunk_size_def Let_def)
    moreover have "unat (of_nat (?B - 2048 * it) :: u32) = ?B - 2048 * it" 
    proof (rule unat_of_nat_small)
      have "mram_end < 2 ^ 32" by simp
      then show "?B - 2048 * it < 2 ^ 32" using B by linarith
    qed
    moreover have "?B - 2048 * it \<le> 2048" using True n by linarith
    ultimately show ?thesis by (simp only: min_absorb2)
  next
    case False
    then have "2048 * it + 2048 \<le> ?B" using it n by linarith
    moreover have "chunk_size size_of_T args (of_nat it) = 2048" using last_one False by (simp add: chunk_size_def)
    ultimately show ?thesis by simp
  qed
qed

text \<open>The addresses of the chunk \<open>it\<close> of a block.\<close>

lemma chunk_address:
  fixes args :: dpu_arguments_comm and heap size_of_T a :: u32
  defines "B \<equiv> block_bytes size_of_T args"
  assumes room: "unat heap + unat a + B * N \<le> mram_end" and b: "b < N" and it: "2048 * it < B"
  shows "unat (heap + a + max_words_per_dpu size_of_T args * of_nat b * size_of_T + 2048 * of_nat it) = unat heap + unat a + B * b + 2048 * it"
proof -
  have "B * b + B \<le> B * N" using b by (metis Suc_leI mult_Suc_right add.commute mult_le_mono2)
  moreover have "mram_end < 2 ^ 32" by simp
  ultimately have "unat heap + unat a + B * b + 2048 * it < 2 ^ 32" using room it by linarith
  then have "unat (of_nat (unat heap + unat a + B * b + 2048 * it) :: u32) = unat heap + unat a + B * b + 2048 * it"
    by (rule unat_of_nat_small)
  moreover have "of_nat (unat heap + unat a + B * b + 2048 * it)
      = heap + a + max_words_per_dpu size_of_T args * of_nat b * size_of_T + 2048 * of_nat it"
    by (simp add: B_def block_bytes_def mult.assoc mult.left_commute)
  ultimately show ?thesis by (simp only:)
qed

lemma round_target:
  assumes m: "unat m dvd 2 ^ 32" "0 < unat m" and t: "t < unat m" and small: "t + unat m * k < 2 ^ 32"
  shows "(of_nat t + m * of_nat k) div m * m = m * of_nat k" "of_nat t + m * of_nat k = (of_nat (unat m * k + t) :: u32)"
proof -
  show at: "of_nat t + m * of_nat k = (of_nat (unat m * k + t) :: u32)" by simp
  have "unat (of_nat (unat m * k + t) :: u32) = unat m * k + t" using small by (intro unat_of_nat_small) simp
  then have "unat ((of_nat t + m * of_nat k) div m) = k" unfolding at unat_div using t by simp
  moreover have "k < 2 ^ 32"
  proof -
    have "1 * k \<le> unat m * k" using m(2) by (intro mult_right_mono) simp_all
    then show ?thesis using small by linarith
  qed
  ultimately have "(of_nat t + m * of_nat k) div m = of_nat k" by (simp only: word_unat_eq_iff unat_of_nat_small)
  then show "(of_nat t + m * of_nat k) div m * m = m * of_nat k" by (simp add: mult.commute)
qed

text \<open>The places of the blocks of a round.\<close>

definition clockwise :: "nat \<Rightarrow> nat \<Rightarrow> nat \<Rightarrow> nat" where
  "clockwise m d t = (t + m - d mod m) mod m"

definition counterclockwise :: "nat \<Rightarrow> nat \<Rightarrow> nat \<Rightarrow> nat" where
  "counterclockwise m d q = (q + d) mod m"

definition reverse :: "nat \<Rightarrow> nat \<Rightarrow> nat \<Rightarrow> nat" where
  "reverse m d t = (d mod m + m - t) mod m"

lemma clockwise_permutes: "0 < m \<Longrightarrow> permutes_round m (clockwise m d) (counterclockwise m d)"
proof -
  assume m: "0 < m"
  have le: "d mod m \<le> m" using m by (simp add: less_imp_le)
  have "((t + m - d mod m) mod m + d) mod m = t" if "t < m" for t
  proof -
    have "((t + m - d mod m) mod m + d) mod m = (t + m - d mod m + d mod m) mod m" by (simp only: mod_add_left_eq mod_add_right_eq)
    also have "t + m - d mod m + d mod m = t + m" using le by simp
    finally show ?thesis using that by simp
  qed
  moreover have "((q + d) mod m + m - d mod m) mod m = q" if "q < m" for q
  proof -
    have "((q + d) mod m + m - d mod m) mod m = ((q + d) mod m + (m - d mod m)) mod m" using le by simp
    also have "\<dots> = (q + d + (m - d mod m)) mod m" by (rule mod_add_left_eq)
    also have "q + d + (m - d mod m) = q + m * (d div m + 1)"
    proof -
      define u v where "u = m * (d div m)" and "v = d mod m"
      have "d = u + v" "v \<le> m" using le by (simp_all add: u_def v_def)
      then have "q + d + (m - v) = q + (u + m)" by linarith
      then show ?thesis by (simp only: u_def v_def distrib_left mult_1_right)
    qed
    finally have "((q + d) mod m + m - d mod m) mod m = q mod m" by (simp only: mod_mult_self2)
    then show ?thesis using that by (simp only: mod_less)
  qed
  ultimately show ?thesis using m by (simp add: permutes_round_def clockwise_def counterclockwise_def)
qed

lemma reverse_permutes: "0 < m \<Longrightarrow> permutes_round m (reverse m d) (reverse m d)"
proof -
  assume m: "0 < m"
  define e where "e = d mod m"
  have e: "e < m" using m by (simp add: e_def)
  have "(e + m - (e + m - t) mod m) mod m = t" if t: "t < m" for t
  proof (cases "t \<le> e")
    case True
    then have "e + m - t = (e - t) + m" by linarith
    moreover have "e - t < m" using e by linarith
    ultimately have "(e + m - t) mod m = e - t" by (simp only: mod_add_self2 mod_less)
    moreover have "e + m - (e - t) = t + m" using True by linarith
    ultimately show ?thesis using t by (simp only: mod_add_self2 mod_less)
  next
    case False
    then have "e + m - t < m" using m by linarith
    then have "(e + m - t) mod m = e + m - t" by (simp only: mod_less)
    moreover have "e + m - (e + m - t) = t" using t by linarith
    ultimately show ?thesis using t by (simp only: mod_less)
  qed
  then show ?thesis using m by (simp add: permutes_round_def reverse_def e_def)
qed

lemma mod_shift: "(a + M - b mod M) mod M = (a - b) mod (M :: int)" "(b mod M + M - a) mod M = (b - a) mod M"
proof -
  have "(a + M - b mod M) mod M = (a + M - b) mod M" by (rule mod_diff_right_eq)
  also have "a + M - b = a - b + M" by simp
  finally show "(a + M - b mod M) mod M = (a - b) mod M" by simp
  have "(b mod M + M - a) mod M = (b mod M + (M - a)) mod M" by (simp add: add_diff_eq)
  also have "\<dots> = (b + (M - a)) mod M" by (rule mod_add_left_eq)
  also have "b + (M - a) = b - a + M" by simp
  finally show "(b mod M + M - a) mod M = (b - a) mod M" by simp
qed

lemma sub_mod:
  assumes "unat m dvd 2 ^ 32"
  shows "int (unat (x - y :: u32) mod unat m) = (int (unat x) - int (unat y)) mod int (unat m)"
proof -
  have "uint (x - y) = (uint x - uint y) mod 2 ^ LENGTH(32)" by (rule uint_word_ariths)
  then have "int (unat (x - y)) = (int (unat x) - int (unat y)) mod 2 ^ 32" by simp
  moreover have "int (unat m) dvd int (2 ^ 32)" using assms by (simp only: of_nat_dvd_iff)
  ultimately show ?thesis by (simp only: zmod_int mod_mod_cancel of_nat_power of_nat_numeral)
qed

lemma offset_nat:
  assumes m: "unat m dvd 2 ^ 32" "0 < unat m" and "t < unat m" "t + unat m * k < 2 ^ 32"
  shows "unat (clockwise_offset m args (of_nat t + m * of_nat k)) = clockwise (unat m) (unat (arg_each_dpu args)) t"
    "unat (reverse_offset m args (of_nat t + m * of_nat k)) = reverse (unat m) (unat (arg_each_dpu args)) t"
proof -
  let ?d = "unat (arg_each_dpu args)" and ?m = "unat m"
  have x: "unat (of_nat t + m * of_nat k :: u32) = ?m * k + t"
    unfolding round_target(2) [OF assms] using assms(4) by (intro unat_of_nat_small) simp
  have x_mod: "(int (?m * k + t) - a) mod int ?m = (int t - a) mod int ?m" "(a - int (?m * k + t)) mod int ?m = (a - int t) mod int ?m" for a
  proof -
    have "int (?m * k + t) - a = int t - a + int k * int ?m" "a - int (?m * k + t) = a - int t + (- int k) * int ?m" by simp_all
    then show "(int (?m * k + t) - a) mod int ?m = (int t - a) mod int ?m" "(a - int (?m * k + t)) mod int ?m = (a - int t) mod int ?m"
      by (simp_all only: mod_mult_self1)
  qed
  have "?d mod ?m \<le> t + ?m" using m(2) by (meson mod_less_divisor less_imp_le trans_le_add2)
  then have "int (clockwise ?m ?d t) = (int t + int ?m - int ?d mod int ?m) mod int ?m"
    by (simp only: clockwise_def zmod_int of_nat_diff of_nat_add)
  also have "\<dots> = int (unat (clockwise_offset m args (of_nat t + m * of_nat k)))"
    unfolding clockwise_offset_def unat_mod sub_mod [OF m(1)] x x_mod mod_shift ..
  finally show "unat (clockwise_offset m args (of_nat t + m * of_nat k)) = clockwise ?m ?d t" by (simp only: of_nat_eq_iff)
  have "t \<le> ?d mod ?m + ?m" using assms(3) by simp
  then have "int (reverse ?m ?d t) = (int ?d mod int ?m + int ?m - int t) mod int ?m"
    by (simp only: reverse_def zmod_int of_nat_diff of_nat_add)
  also have "\<dots> = int (unat (reverse_offset m args (of_nat t + m * of_nat k)))"
    unfolding reverse_offset_def unat_mod sub_mod [OF m(1)] x x_mod mod_shift ..
  finally show "unat (reverse_offset m args (of_nat t + m * of_nat k)) = reverse ?m ?d t" by (simp only: of_nat_eq_iff)
qed

section \<open>The result\<close>

context mram_dma
begin

lemma round_pulls:
  fixes args :: dpu_arguments_comm and heap size_of_T m :: u32
  defines "B \<equiv> block_bytes size_of_T args" and "N \<equiv> unat (arg_num_comm_dpu args)"
    and "src \<equiv> unat heap + unat (arg_start_offset args)" and "tgt \<equiv> unat heap + unat (arg_target_offset args)"
  assumes ok: "relocation_ok heap size_of_T args" and m: "unat m dvd 2 ^ 32" "0 < unat m" and N: "N = unat m * r"
    and k: "k < r" and it: "it < unat (relocate_iter size_of_T args)" and order: "set order = {0..<unat m}"
    and perm: "permutes_round (unat m) off \<pi>"
    and target: "\<And>t. t < unat m \<Longrightarrow> 2048 * it < B \<Longrightarrow>
      unat (target_addr m heap size_of_T args (offset (of_nat t + m * of_nat k)) (of_nat t + m * of_nat k) (of_nat it))
        = tgt + B * (unat m * k + off t) + 2048 * it"
  shows "pulls (round_area (unat m) B N tgt k it) (origin (unat m) \<pi> B src tgt) (relocate_round mram_read mram_write m heap size_of_T args offset order k it)"
  unfolding pulls_def
proof (intro allI)
  fix mem i
  have room: "unat heap + unat (arg_start_offset args) + B * N \<le> mram_end" and T: "unat size_of_T dvd 2048"
    using ok by (simp_all add: relocation_ok_def Let_def B_def N_def)
  have "0 < N" using N m k by simp
  then have "B * 1 \<le> B * N" by (intro mult_le_mono2) simp
  then have B: "B \<le> mram_end" using room by linarith
  note chunk = chunk_size_nat [OF B [unfolded B_def] T it, folded B_def]
  let ?D = "\<lambda>t. tgt + B * (unat m * k + off t) + 2048 * it" and ?S = "\<lambda>t. src + B * (unat m * k + t) + 2048 * it"
    and ?n = "min 2048 (B - 2048 * it)" and ?from = "\<lambda>t. original_addr heap size_of_T args (of_nat t + m * of_nat k) (of_nat it)"
    and ?to = "\<lambda>t. target_addr m heap size_of_T args (offset (of_nat t + m * of_nat k)) (of_nat t + m * of_nat k) (of_nat it)"
  have inside: "t < unat m" if "t \<in> set order" for t using that order by simp
  have small: "t + unat m * k < N" if "t < unat m" for t
  proof -
    have "unat m * k + unat m \<le> N" unfolding N using k by (metis Suc_leI mult_Suc_right add.commute mult_le_mono2)
    then show ?thesis using that by linarith
  qed
  have N32: "N < 2 ^ 32" unfolding N_def using unsigned_less [of "arg_num_comm_dpu args"] by simp
  have original: "unat (original_addr heap size_of_T args (of_nat t + m * of_nat k) (of_nat it)) = ?S t" if "t < unat m" for t
  proof -
    have "t + unat m * k < 2 ^ 32" using small [OF that] N32 by linarith
    note at = round_target(2) [OF m that this]
    have "unat m * k + t < N" using small [OF that] by linarith
    from chunk_address [OF room [unfolded B_def] this chunk(2) [unfolded B_def]] show ?thesis
      unfolding original_addr_def at src_def B_def .
  qed
  have whole: "8 dvd B" "8 dvd src" "8 dvd tgt" using ok by (simp_all add: relocation_ok_def Let_def B_def src_def tgt_def)
  have part: "dma_aligned addr (chunk_size size_of_T args (of_nat it))"
    if "unat addr = a + B * b + 2048 * it" "8 dvd a" "mram_start \<le> a" "a + B * N \<le> mram_end" "b < N" for addr :: u32 and a b
  proof -
    have "B * b + B \<le> B * N" using that(5) by (metis Suc_leI mult_Suc_right add.commute mult_le_mono2)
    then have "a + B * b + 2048 * it + ?n \<le> mram_end" using that(4) chunk(2) by linarith
    moreover have "mram_start \<le> a + B * b + 2048 * it" using that(3) by linarith
    moreover have "8 dvd B - 2048 * it" using whole(1) by (intro dvd_diff_nat) simp_all
    then have "8 dvd ?n" by (simp add: min_def)
    moreover have "8 dvd a + B * b + 2048 * it" using whole(1) that(2) by simp
    ultimately show ?thesis unfolding dma_aligned_def chunk(1) that(1) using chunk(2) by simp
  qed
  have areas: "mram_start \<le> src" "mram_start \<le> tgt" "src + B * N \<le> mram_end" "tgt + B * N \<le> mram_end"
    using ok by (simp_all add: relocation_ok_def Let_def B_def N_def src_def tgt_def)
  have "unat m * k + off t < N" if "t < unat m" for t using small [of "off t"] perm that by (simp add: permutes_round_def add.commute)
  then have aligned: "dma_aligned (?from t) (chunk_size size_of_T args (of_nat it))"
    "dma_aligned (?to t) (chunk_size size_of_T args (of_nat it))" if "t < unat m" for t
    using that small [OF that] part [OF original whole(2) areas(1,3)] part [OF target [OF _ chunk(2)] whole(3) areas(2,4)] by (simp_all add: add.commute)
  have "relocate_round mram_read mram_write m heap size_of_T args offset order k it mem
      = fold (\<lambda>(t, c). store_bytes (?D t) c) (zip order (map (\<lambda>t. load_bytes (?S t) ?n mem) order)) mem"
    unfolding relocate_round_def Let_def
  proof (rule fold_cong [OF refl])
    show caches: "zip order (map (\<lambda>t. mram_read (?from t) (chunk_size size_of_T args (of_nat it)) mem) order)
        = zip order (map (\<lambda>t. load_bytes (?S t) ?n mem) order)"
      by (intro arg_cong [where f = "zip order"] map_cong refl) (simp only: read_aligned [OF aligned(1)] chunk(1) original inside)
    fix x assume x: "x \<in> set (zip order (map (\<lambda>t. mram_read (?from t) (chunk_size size_of_T args (of_nat it)) mem) order))"
    obtain t c where tc: "x = (t, c)" by (cases x)
    have t: "t < unat m" using x inside set_zip_leftD [of t c] unfolding tc by blast
    have "length c = ?n" using set_zip_rightD [OF x [unfolded caches tc]] by (auto simp: load_bytes_def)
    then have "length c = unat (chunk_size size_of_T args (of_nat it))" by (simp only: chunk(1))
    from write_aligned [OF aligned(2) [OF t] this]
    show "(case x of (t, c) \<Rightarrow> mram_write c (?to t) (chunk_size size_of_T args (of_nat it))) = (case x of (t, c) \<Rightarrow> store_bytes (?D t) c)"
      unfolding tc by (auto simp only: prod.case target [OF t chunk(2)])
  qed
  moreover have "fold (\<lambda>(t, c). store_bytes (?D t) c) (zip order (map (\<lambda>t. load_bytes (?S t) ?n mem) order)) mem i
      = (if \<exists>t \<in> set order. ?D t \<le> i \<and> i < ?D t + ?n then mem (origin (unat m) \<pi> B src tgt i) else mem i)"
    by (rule store_caches) (rule chunk_places(2) [OF perm N k inside])
  ultimately have "relocate_round mram_read mram_write m heap size_of_T args offset order k it mem i
      = (if \<exists>t \<in> set order. ?D t \<le> i \<and> i < ?D t + ?n then mem (origin (unat m) \<pi> B src tgt i) else mem i)" by (simp only:)
  moreover have "(\<exists>t \<in> set order. ?D t \<le> i \<and> i < ?D t + ?n) \<longleftrightarrow> i \<in> round_area (unat m) B N tgt k it"
  proof
    assume "\<exists>t \<in> set order. ?D t \<le> i \<and> i < ?D t + ?n"
    then obtain t where "t \<in> set order" "?D t \<le> i" "i < ?D t + ?n" by blast
    then show "i \<in> round_area (unat m) B N tgt k it" by (intro chunk_places(1) [OF perm N k inside])
  next
    assume "i \<in> round_area (unat m) B N tgt k it"
    from round_area_chunk [OF perm m(2) this] obtain t where "t < unat m" "?D t \<le> i \<and> i < ?D t + ?n" by blast
    moreover from this have "t \<in> set order" by (simp add: order)
    ultimately show "\<exists>t \<in> set order. ?D t \<le> i \<and> i < ?D t + ?n" by blast
  qed
  ultimately show "relocate_round mram_read mram_write m heap size_of_T args offset order k it mem i
    = (if i \<in> round_area (unat m) B N tgt k it then mem (origin (unat m) \<pi> B src tgt i) else mem i)" by simp
qed

lemma relocate_pulls:
  fixes args :: dpu_arguments_comm and heap size_of_T m :: u32
  defines "B \<equiv> block_bytes size_of_T args" and "N \<equiv> unat (arg_num_comm_dpu args)"
    and "src \<equiv> unat heap + unat (arg_start_offset args)" and "tgt \<equiv> unat heap + unat (arg_target_offset args)"
  assumes ok: "relocation_ok heap size_of_T args" and m: "unat m dvd 2 ^ 32" "0 < unat m" and N: "unat m dvd N"
    and order: "\<forall>k it. set (order k it) = {0..<unat m}" and perm: "permutes_round (unat m) off \<pi>"
    and target: "\<And>t k it. t < unat m \<Longrightarrow> unat m * k + t < N \<Longrightarrow> 2048 * it < B \<Longrightarrow>
      unat (target_addr m heap size_of_T args (offset (of_nat t + m * of_nat k)) (of_nat t + m * of_nat k) (of_nat it))
        = tgt + B * (unat m * k + off t) + 2048 * it"
  shows "pulls {tgt..<tgt + B * N} (origin (unat m) \<pi> B src tgt) (relocate_blocks mram_read mram_write m heap size_of_T args offset order)"
proof -
  obtain r where r: "N = unat m * r" using N by blast
  then have rounds: "unat (arg_num_comm_dpu args div m) = r" using m(2) by (simp add: N_def unat_div)
  let ?iter = "unat (relocate_iter size_of_T args)" and ?\<sigma> = "origin (unat m) \<pi> B src tgt"
  let ?W = "\<lambda>k it. round_area (unat m) B N tgt k it"
  have apart: "src = tgt \<or> src + B * N \<le> tgt \<or> tgt + B * N \<le> src"
    using ok by (auto simp: relocation_ok_def Let_def B_def N_def src_def tgt_def)
  have keep: "?\<sigma> i \<notin> {tgt..<tgt + B * N} \<or> block_of B tgt (?\<sigma> i) div unat m = block_of B tgt i div unat m \<and> place_of B tgt (?\<sigma> i) = place_of B tgt i"
    if "i \<in> {tgt..<tgt + B * N}" for i
  proof -
    have B: "0 < B" using that by (cases B) simp_all
    let ?b = "unat m * (block_of B tgt i div unat m) + \<pi> (block_of B tgt i mod unat m)"
    have \<pi>: "\<pi> (block_of B tgt i mod unat m) < unat m" using perm m(2) by (simp add: permutes_round_def)
    have x: "place_of B tgt i < B" using B by (simp add: place_of_def)
    have "block_of B tgt i < unat m * r" using that block_bound [of tgt i B N] r by simp
    then have "block_of B tgt i div unat m < r" by (simp add: less_mult_imp_div_less mult.commute)
    then have "?b < N" unfolding r using \<pi> by (metis Suc_leI add.commute add_less_cancel_left less_le_trans mult_Suc_right mult_le_mono2)
    then have "B * ?b + B \<le> B * N" by (metis Suc_leI mult_Suc_right add.commute mult_le_mono2)
    then have at: "src \<le> ?\<sigma> i" "?\<sigma> i < src + B * N" using x unfolding origin_def by linarith+
    show ?thesis
    proof (cases "src = tgt")
      case True
      have "?\<sigma> i = tgt + B * ?b + place_of B tgt i" by (simp only: origin_def True)
      moreover have "?b div unat m = block_of B tgt i div unat m" using \<pi> by simp
      ultimately show ?thesis by (simp only: block_place [OF x] simp_thms)
    next
      case False
      then show ?thesis using apart at by auto
    qed
  qed
  have step: "pulls (?W k it) ?\<sigma> (relocate_round mram_read mram_write m heap size_of_T args offset (order k it) k it)" if "k < r" "it < ?iter" for k it
  proof -
    have "unat m * k + t < N" if "t < unat m" for t
      unfolding r using that \<open>k < r\<close> by (metis Suc_leI add.commute add_less_cancel_left less_le_trans mult_Suc_right mult_le_mono2)
    then show ?thesis using target unfolding B_def N_def src_def tgt_def
      by (intro round_pulls [OF ok m r [unfolded N_def] that(1,2) _ perm]) (use order in simp_all)
  qed
  have inner: "pulls (\<Union>it \<in> set [0..<?iter]. ?W k it) ?\<sigma>
      (fold (\<lambda>it. relocate_round mram_read mram_write m heap size_of_T args offset (order k it) k it) [0..<?iter])" if "k < r" for k
  proof (rule pulls_run)
    show "pulls (?W k it) ?\<sigma> (relocate_round mram_read mram_write m heap size_of_T args offset (order k it) k it)" if "it \<in> set [0..<?iter]" for it
      using step [OF \<open>k < r\<close>] that by simp
    show "distinct [0..<?iter]" by simp
    show "i \<notin> ?W k y \<and> ?\<sigma> i \<notin> ?W k y" if "x \<noteq> y" "i \<in> ?W k x" for x y i
      using that keep [of i] by (auto simp: round_area_def)
  qed
  have "pulls (\<Union>k \<in> set [0..<r]. \<Union>it \<in> set [0..<?iter]. ?W k it) ?\<sigma> (relocate_blocks mram_read mram_write m heap size_of_T args offset order)"
    unfolding relocate_blocks_def rounds
  proof (rule pulls_run)
    show "pulls (\<Union>it \<in> set [0..<?iter]. ?W k it) ?\<sigma> (fold (\<lambda>it. relocate_round mram_read mram_write m heap size_of_T args offset (order k it) k it) [0..<?iter])"
      if "k \<in> set [0..<r]" for k using inner that by simp
    show "distinct [0..<r]" by simp
    show "i \<notin> (\<Union>it \<in> set [0..<?iter]. ?W y it) \<and> ?\<sigma> i \<notin> (\<Union>it \<in> set [0..<?iter]. ?W y it)"
      if "x \<noteq> y" "i \<in> (\<Union>it \<in> set [0..<?iter]. ?W x it)" for x y i
      using that keep [of i] by (auto simp: round_area_def)
  qed
  moreover have "(\<Union>k \<in> set [0..<r]. \<Union>it \<in> set [0..<?iter]. ?W k it) = {tgt..<tgt + B * N}"
  proof (intro equalityI subsetI)
    fix i assume i: "i \<in> {tgt..<tgt + B * N}"
    then have B: "0 < B" by (cases B) simp_all
    have "block_of B tgt i < unat m * r" using i block_bound [of tgt i B N] r by simp
    then have k: "block_of B tgt i div unat m < r" by (simp add: less_mult_imp_div_less mult.commute)
    have "0 < N" using i by (cases N) simp_all
    then have "B * 1 \<le> B * N" by (intro mult_le_mono2) simp
    moreover have "unat heap + unat (arg_start_offset args) + B * N \<le> mram_end" using ok by (simp add: relocation_ok_def Let_def B_def N_def)
    ultimately have "B \<le> mram_end" by linarith
    then have "?iter = (B + 2047) div 2048" unfolding B_def by (rule relocate_iter_nat)
    moreover have "place_of B tgt i < B" using B by (simp add: place_of_def)
    ultimately have "place_of B tgt i div 2048 < ?iter" by linarith
    with k i show "i \<in> (\<Union>k \<in> set [0..<r]. \<Union>it \<in> set [0..<?iter]. ?W k it)" by (auto simp: round_area_def)
  qed (auto simp: round_area_def)
  ultimately show ?thesis by simp
qed

end

lemma target_chunk:
  fixes args :: dpu_arguments_comm and heap size_of_T m offset :: u32
  defines "B \<equiv> block_bytes size_of_T args" and "N \<equiv> unat (arg_num_comm_dpu args)"
  assumes ok: "relocation_ok heap size_of_T args" and m: "unat m dvd 2 ^ 32" "0 < unat m" and rotate: "\<not> arg_no_rotate args"
    and t: "t < unat m" "unat m * k + t < N" and q: "q < unat m" "unat m * k + q < N" and it: "2048 * it < B" and offset: "unat offset = q"
  shows "unat (target_addr m heap size_of_T args offset (of_nat t + m * of_nat k) (of_nat it))
    = unat heap + unat (arg_target_offset args) + B * (unat m * k + q) + 2048 * it"
proof -
  have "N < 2 ^ 32" unfolding N_def using unsigned_less [of "arg_num_comm_dpu args"] by simp
  then have "t + unat m * k < 2 ^ 32" using t(2) by linarith
  note at = round_target(1) [OF m t(1) this]
  have room: "unat heap + unat (arg_target_offset args) + block_bytes size_of_T args * N \<le> mram_end"
    using ok by (simp add: relocation_ok_def Let_def N_def)
  have "offset = of_nat q" using offset by auto
  then have sum: "a + m * of_nat k * max_words_per_dpu size_of_T args * size_of_T + offset * max_words_per_dpu size_of_T args * size_of_T
      = a + max_words_per_dpu size_of_T args * of_nat (unat m * k + q) * size_of_T" for a by (simp add: algebra_simps)
  then have "target_addr m heap size_of_T args offset (of_nat t + m * of_nat k) (of_nat it)
      = heap + arg_target_offset args + max_words_per_dpu size_of_T args * of_nat (unat m * k + q) * size_of_T + 2048 * of_nat it"
    using rotate by (simp only: target_addr_def Let_def at if_False sum)
  then show ?thesis unfolding B_def using chunk_address [OF room q(2) it [unfolded B_def]] by (simp only:)
qed

context mram_dma
begin

lemma clockwise_pulls:
  fixes args :: dpu_arguments_comm and heap size_of_T :: u32
  defines "B \<equiv> block_bytes size_of_T args" and "N \<equiv> unat (arg_num_comm_dpu args)"
    and "src \<equiv> unat heap + unat (arg_start_offset args)" and "tgt \<equiv> unat heap + unat (arg_target_offset args)"
  assumes ok: "relocation_ok heap size_of_T args" and N: "8 dvd N" and rotate: "\<not> arg_no_rotate args"
    and order: "\<forall>k it. set (order k it) = {0..<8}"
  shows "pulls {tgt..<tgt + B * N} (origin 8 (counterclockwise 8 (unat (arg_each_dpu args))) B src tgt) (data_relocate_clockwise mram_read mram_write heap size_of_T order args)"
    "pulls {tgt..<tgt + B * N} (origin 8 (reverse 8 (unat (arg_each_dpu args))) B src tgt) (data_relocate_reverse_clockwise_8 mram_read mram_write heap size_of_T order args)"
proof -
  let ?d = "unat (arg_each_dpu args)"
  have m: "unat (8 :: u32) = 8" "unat (8 :: u32) dvd 2 ^ 32" "0 < unat (8 :: u32)" by simp_all
  have N32: "N < 2 ^ 32" unfolding N_def using unsigned_less [of "arg_num_comm_dpu args"] by simp
  have inside: "q < 8 \<Longrightarrow> 8 * k + t < N \<Longrightarrow> t < 8 \<Longrightarrow> 8 * k + q < N" for k t q :: nat
  proof -
    assume "q < 8" "8 * k + t < N" "t < 8"
    obtain r where "N = 8 * r" using N by blast
    with \<open>8 * k + t < N\<close> have "k < r" by simp
    then show "8 * k + q < N" using \<open>q < 8\<close> \<open>N = 8 * r\<close> by simp
  qed
  have "arg_num_comm_dpu args mod 8 = 0"
    using N by (simp add: N_def word_unat_eq_iff unat_mod dvd_eq_mod_eq_0)
  then have prog: "data_relocate_clockwise mram_read mram_write heap size_of_T order args
      = relocate_blocks mram_read mram_write 8 heap size_of_T args (clockwise_offset 8 args) order"
    by (simp add: data_relocate_clockwise_def Let_def)
  have "pulls {tgt..<tgt + B * N} (origin (unat (8 :: u32)) (counterclockwise (unat (8 :: u32)) ?d) B src tgt)
      (relocate_blocks mram_read mram_write 8 heap size_of_T args (clockwise_offset 8 args) order)"
    unfolding B_def N_def src_def tgt_def
  proof (rule relocate_pulls [OF ok m(2,3) _ _ clockwise_permutes [OF m(3)]])
    fix t k it assume t: "t < unat (8 :: u32)" "unat (8 :: u32) * k + t < unat (arg_num_comm_dpu args)" "2048 * it < block_bytes size_of_T args"
    have "t + unat (8 :: u32) * k < 2 ^ 32" using t(2) N32 unfolding N_def by linarith
    note off = offset_nat(1) [OF m(2,3) t(1) this, of args]
    have q: "clockwise (unat (8 :: u32)) ?d t < unat (8 :: u32)" unfolding clockwise_def by (rule mod_less_divisor [OF m(3)])
    then have "unat (8 :: u32) * k + clockwise (unat (8 :: u32)) ?d t < unat (arg_num_comm_dpu args)"
      using t(1,2) inside unfolding m(1) N_def by blast
    from target_chunk [OF ok m(2,3) rotate t(1,2) q this t(3) off]
    show "unat (target_addr 8 heap size_of_T args (clockwise_offset 8 args (of_nat t + 8 * of_nat k)) (of_nat t + 8 * of_nat k) (of_nat it))
      = unat heap + unat (arg_target_offset args) + block_bytes size_of_T args * (unat (8 :: u32) * k + clockwise (unat (8 :: u32)) ?d t) + 2048 * it" .
  qed (use N order in \<open>simp_all add: N_def\<close>)
  then show "pulls {tgt..<tgt + B * N} (origin 8 (counterclockwise 8 ?d) B src tgt) (data_relocate_clockwise mram_read mram_write heap size_of_T order args)"
    unfolding prog m(1) .
  have "pulls {tgt..<tgt + B * N} (origin (unat (8 :: u32)) (reverse (unat (8 :: u32)) ?d) B src tgt)
      (relocate_blocks mram_read mram_write 8 heap size_of_T args (reverse_offset 8 args) order)"
    unfolding B_def N_def src_def tgt_def
  proof (rule relocate_pulls [OF ok m(2,3) _ _ reverse_permutes [OF m(3)]])
    fix t k it assume t: "t < unat (8 :: u32)" "unat (8 :: u32) * k + t < unat (arg_num_comm_dpu args)" "2048 * it < block_bytes size_of_T args"
    have "t + unat (8 :: u32) * k < 2 ^ 32" using t(2) N32 unfolding N_def by linarith
    note off = offset_nat(2) [OF m(2,3) t(1) this, of args]
    have q: "reverse (unat (8 :: u32)) ?d t < unat (8 :: u32)" unfolding reverse_def by (rule mod_less_divisor [OF m(3)])
    then have "unat (8 :: u32) * k + reverse (unat (8 :: u32)) ?d t < unat (arg_num_comm_dpu args)"
      using t(1,2) inside unfolding m(1) N_def by blast
    from target_chunk [OF ok m(2,3) rotate t(1,2) q this t(3) off]
    show "unat (target_addr 8 heap size_of_T args (reverse_offset 8 args (of_nat t + 8 * of_nat k)) (of_nat t + 8 * of_nat k) (of_nat it))
      = unat heap + unat (arg_target_offset args) + block_bytes size_of_T args * (unat (8 :: u32) * k + reverse (unat (8 :: u32)) ?d t) + 2048 * it" .
  qed (use N order in \<open>simp_all add: N_def\<close>)
  then show "pulls {tgt..<tgt + B * N} (origin 8 (reverse 8 ?d) B src tgt) (data_relocate_reverse_clockwise_8 mram_read mram_write heap size_of_T order args)"
    unfolding data_relocate_reverse_clockwise_8_def m(1) .
qed

end

text \<open>
  C6: the first program, with the rotation on and a number of DPUs that is a multiple of 8, turns the blocks of
  each eight DPUs round: the block \<open>j\<close> of each eight goes to the place \<open>j - d\<close> (modulo 8), where \<open>d\<close> is the
  number of the DPU, in the area of the target; all other bytes stay. This holds whatever the order of the
  tasklets between two barriers, for blocks of any number of chunks, when the size of a block, the heap and the two
  offsets are multiples of 8 bytes, as the DMA asks for, the size of the type divides 2048, and both areas are in
  the bank and are the same or do not overlap. Of \<^verbatim>\<open>mram_read\<close> and \<^verbatim>\<open>mram_write\<close> only the documented copy of
  aligned pieces of at most 2048 bytes is used (\<open>mram_dma\<close>); blocks of other sizes are not covered.
\<close>

theorem relocate_clockwise_blocks:
  fixes args :: dpu_arguments_comm and heap size_of_T :: u32
  defines "B \<equiv> block_bytes size_of_T args" and "N \<equiv> unat (arg_num_comm_dpu args)"
    and "src \<equiv> unat heap + unat (arg_start_offset args)" and "tgt \<equiv> unat heap + unat (arg_target_offset args)"
  assumes dma: "mram_dma mram_read mram_write"
    and ok: "relocation_ok heap size_of_T args" and N: "8 dvd N" and rotate: "\<not> arg_no_rotate args"
    and order: "\<forall>k it. set (order k it) = {0..<8}"
  shows "(\<forall>k j x. 8 * k + j < N \<longrightarrow> j < 8 \<longrightarrow> x < B \<longrightarrow>
      data_relocate_clockwise mram_read mram_write heap size_of_T order args mem (tgt + B * (8 * k + clockwise 8 (unat (arg_each_dpu args)) j) + x)
        = mem (src + B * (8 * k + j) + x))
    \<and> (\<forall>i. i \<notin> {tgt..<tgt + B * N} \<longrightarrow> data_relocate_clockwise mram_read mram_write heap size_of_T order args mem i = mem i)"
proof -
  note run = mram_dma.clockwise_pulls(1) [OF dma ok N [unfolded N_def] rotate order, folded B_def N_def src_def tgt_def, unfolded pulls_def]
  have "data_relocate_clockwise mram_read mram_write heap size_of_T order args mem (tgt + B * (8 * k + clockwise 8 (unat (arg_each_dpu args)) j) + x)
      = mem (src + B * (8 * k + j) + x)" if j: "8 * k + j < N" "j < 8" "x < B" for k j x
  proof -
    let ?q = "clockwise 8 (unat (arg_each_dpu args)) j" and ?i = "tgt + B * (8 * k + clockwise 8 (unat (arg_each_dpu args)) j) + x"
    have q: "?q < 8" "counterclockwise 8 (unat (arg_each_dpu args)) ?q = j"
      using clockwise_permutes [of 8 "unat (arg_each_dpu args)"] j(2) by (simp_all add: permutes_round_def)
    obtain r where r: "N = 8 * r" using N by blast
    then have "k < r" using j(1) by linarith
    then have "8 * k + ?q < N" using q(1) unfolding r by linarith
    then have "B * (8 * k + ?q) + B \<le> B * N" by (metis Suc_leI mult_Suc_right add.commute mult_le_mono2)
    then have "?i \<in> {tgt..<tgt + B * N}" using j(3) by simp
    moreover have "origin 8 (counterclockwise 8 (unat (arg_each_dpu args))) B src tgt ?i = src + B * (8 * k + j) + x"
    proof -
      have "(8 * k + ?q) div 8 = k" "(8 * k + ?q) mod 8 = ?q" using q(1) by simp_all
      then show ?thesis unfolding origin_def block_place [OF j(3)] by (simp only: q(2))
    qed
    ultimately show ?thesis using run by simp
  qed
  then show ?thesis using run by simp
qed

lemma relocate_clockwise_blocks_witness:
  "data_relocate_clockwise ldma_read sdma_write 0x08100000 4 (\<lambda>_ _. [0..<8]) \<lparr>arg_start_offset = 64, arg_target_offset = 64, arg_total_data_size = 262144,
      arg_num_comm_dpu = 16, arg_each_dpu = 5, arg_no_rotate = False, arg_num_row = 0, arg_comm_type = 0, arg_a_length = 16, arg_num_comm_rg = 8\<rparr>
      (\<lambda>i. of_nat (i div 16384)) (135266368 + 16384 * (8 * 1 + clockwise 8 5 2) + 3)
    = (of_nat ((135266368 + 16384 * (8 * 1 + 2) + 3) div 16384) :: u8)"
proof -
  let ?args = "\<lparr>arg_start_offset = 64, arg_target_offset = 64, arg_total_data_size = 262144,
      arg_num_comm_dpu = 16, arg_each_dpu = 5, arg_no_rotate = False, arg_num_row = 0, arg_comm_type = 0, arg_a_length = 16, arg_num_comm_rg = 8\<rparr>"
  have B: "block_bytes 4 ?args = 16384" by (simp add: block_bytes_def max_words_per_dpu_def)
  have "relocation_ok 0x08100000 4 ?args" by (simp add: relocation_ok_def B)
  from conjunct1 [OF relocate_clockwise_blocks [OF isa.mram_dma_axioms this, where order = "\<lambda>_ _. [0..<8]" and mem = "\<lambda>i. of_nat (i div 16384)"],
    THEN spec [of _ 1], THEN spec [of _ 2], THEN spec [of _ 3]]
  show ?thesis unfolding B by simp
qed

end
