(* ===== verification/Spec2Isabelle.thy ===== *)
theory Spec2Isabelle
  imports Ci_Live Ci_Encoding Mux_Spec Memory_Spec Reset_Spec Reset_Live Debug_Encoding Debug_Spec Checkpoint_Spec Xeon_Gather Xeon_Pool Pid_Reduce Pid_Schedule Pid_Relocate
begin

text \<open>
  Verification of the host side of the UPMEM DPU backend: the UFI layer (\<^verbatim>\<open>ufi/src\<close>), which drives
  the control interfaces (CI) of a rank of DPUs, the instruction encoder, the debugger and its
  checkpoints, the mapping of a rank into the memory of the host, the collective operations on it, and the programs that
  relocate the blocks in the DPUs before and after them.

  \<^bold>\<open>How the parts interact.\<close> The API works on ranks; the UFI layer turns an operation on some DPUs of a
  rank into frames of 64 bits, one for each CI, which \<^verbatim>\<open>ufi_ci.c\<close> commits to the backend and polls for
  answers, judged by the color bits of a rank. The backend (\<^verbatim>\<open>struct dpu_rank_handler\<close>: driver,
  simulator, hardware) is a family of functions over an unknown world. The MRAMs are copied by the backend
  through the region that maps them; there the bytes of eight DPUs are interleaved, which the collective
  operations use to move words between DPUs without unpacking them.

  \<^bold>\<open>Shared theories.\<close>
  \<^item> \<open>Prelude\<close>: machine words, the result type of an operation (\<open>Ret\<close>, \<open>Fail\<close> with the
    \<^verbatim>\<open>dpu_error_t\<close> of the C code, \<open>Abort\<close> for a failed assertion or a value the code leaves undefined,
    \<open>NoFuel\<close> for a bounded reading of a loop the code does not bound), the sequencing macro \<^verbatim>\<open>FF\<close>, and
    \<open>keeps\<close>, \<open>returns\<close> and \<open>succeeds\<close>, the proof rules for operations.
  \<^item> \<open>Rank_State\<close>: \<^verbatim>\<open>struct dpu_rank_t\<close> and the structures it embeds, as records of the same names.
  \<^item> \<open>Sample_Rank\<close>: concrete ranks on which the witnesses run.

  \<^bold>\<open>The control interfaces.\<close>
  \<^item> \<open>Dpu_Mask\<close> (\<^verbatim>\<open>commons/include/dpu_mask.h\<close>), \<open>Ci_Commands\<close> (\<^verbatim>\<open>ufi/include/ufi/ufi_ci_commands.h\<close>),
    \<open>Cmd_Ring\<close> (the packet log of \<^verbatim>\<open>ufi_rank_utils.h\<close>), \<open>Bit_Config\<close> (\<^verbatim>\<open>ufi_bit_config.c\<close>: shuffling a
    word and back is the identity).
  \<^item> \<open>Ufi_Ci\<close> (\<^verbatim>\<open>ufi_ci.c\<close>): sending a packet to the CIs and polling for the answers. \<open>Ci_Protocol\<close>: the
    answer that is accepted, the colors after a command, timeouts; \<open>Ci_Encoding\<close>: what the frames carry.
  \<^item> \<open>Ufi\<close> (\<^verbatim>\<open>ufi.c\<close>): structures and frames, selection of DPUs and groups, memories, threads, faults.
    \<open>Ufi_Select\<close>: selections and groups after these operations.
  \<^item> \<open>Ci_Frame\<close>, \<open>Ufi_Frame\<close>: locales that lift an invariant from the few updates of the rank to every
    operation of the two layers; their interpretations are what an operation cannot change.
  \<^item> \<open>Ci_Live\<close>: the contract of a responsive backend, under which commands succeed.

  \<^bold>\<open>Configuration of a rank\<close> (\<^verbatim>\<open>ufi_config.c\<close>, \<^verbatim>\<open>ufi_dma_wavegen_config.c\<close>, \<^verbatim>\<open>ufi_runner.c\<close>).
  \<^item> \<open>Ufi_Mux\<close>: the MRAM multiplexers and starting threads; \<open>Mux_Spec\<close>: the recorded sides, the pairs of
    DPUs, and the side recorded for a DPU whose threads have started.
  \<^item> \<open>Wavegen\<close>: the timing of the DMA engine and the wave generator, which of its fields agree.
  \<^item> \<open>Ufi_Repair\<close>: which repair is computed from faulty words, soundness and completeness.
  \<^item> \<open>Ufi_Reset\<close>: the reset; \<open>Reset_Frame\<close>: what its steps keep; \<open>Reset_Spec\<close>: the DPUs that are enabled
    after it and its errors; \<open>Reset_Live\<close>: it succeeds on a rank that answers.

  \<^bold>\<open>Memories and debugger.\<close>
  \<^item> \<open>Dpu_Isa\<close>, \<open>Dpu_Isa_Table\<close> (\<^verbatim>\<open>commons/src/dpu_instruction_encoder.h\<close>): every instruction by its opcode
    and its fields, which are disjoint.
  \<^item> \<open>Ufi_Memory\<close> (\<^verbatim>\<open>ufi_memory.c\<close>, \<^verbatim>\<open>api/src/dpu_memory.c\<close>): copies to and from IRAM, WRAM and MRAM;
    \<open>Memory_Spec\<close>: the backend only sees transfers whose DPUs are on the side of the host.
  \<^item> \<open>Ufi_Debug\<close> (\<^verbatim>\<open>ufi_debug.c\<close>, \<^verbatim>\<open>dpu_internals.c\<close>, \<^verbatim>\<open>dpu_debug.c\<close>): entering and leaving the debugger;
    \<open>Debug_Encoding\<close>: faults in instructions and in the error storage; \<open>Debug_Layout\<close>: the context in
    WRAM; \<open>Debug_Drain\<close>: the schedule of the threads as a function of what the rounds of a drain read,
    and the order in which a resume boots them; \<open>Debug_Spec\<close>: the faults that entering the debugger does
    not take over.
  \<^item> \<open>Bytes\<close>, \<open>Checkpoint\<close> (\<^verbatim>\<open>dpu_debug.c\<close>): a context as bytes; \<open>Checkpoint_Spec\<close>: it is read back, and
    cut bytes are noticed or read past.

  \<^bold>\<open>The mapping of a Xeon SP\<close> (\<^verbatim>\<open>hw/src/mappings/xeon_sp\<close>).
  \<^item> \<open>Xeon_Sp\<close> (\<^verbatim>\<open>xeon_sp_translation.c\<close>): vector instructions on lists of bytes, the address of an MRAM
    word, transfers of plain and scattered buffers by threads, pools. \<open>Xeon_Interleave\<close>: every vectorised
    transposition is the reference; \<open>Xeon_Transfer\<close>, \<open>Xeon_Read\<close>: what threads write and read, in any
    order; \<open>Xeon_Scatter\<close>, \<open>Xeon_Gather\<close>: scattered buffers deliver the bytes of their blocks one behind
    the other; \<open>Xeon_Pool\<close>: the threads of a channel run as long as it has ranks.
  \<^item> \<open>Pid_Comm\<close> (\<^verbatim>\<open>pid_comm.c\<close>): collective operations over regions that are functions from offsets to
    bytes. \<open>Pid_Words\<close>: what rotating, transposing and adding lanes does to the words of the DPUs;
    \<open>Pid_Lines\<close>: runs of rounds that load and store lines; \<open>Pid_All_To_All\<close>, \<open>Pid_Gather\<close>, \<open>Pid_Reduce\<close>:
    the words that every DPU has after an operation.
  \<^item> \<open>Pid_Schedule\<close> (\<^verbatim>\<open>hw/src/rank/hw_dpu_rank.c\<close>): which groups the threads of an all-to-all exchange;
    the shares of the threads are all iterations.
  \<^item> \<open>Pid_Relocate\<close> (\<^verbatim>\<open>pidcomm_lib\<close>): the programs that relocate the blocks in the MRAM of a DPU, over the
    DMA of the tool chain (\<^verbatim>\<open>mram.h\<close>, which is not part of the repository) as a parameter. Its locale
    \<open>mram_dma\<close> says only that aligned pieces of whole groups of eight bytes are copied; the instructions
    \<^verbatim>\<open>ldma\<close> and \<^verbatim>\<open>sdma\<close> of \<^verbatim>\<open>python/dpu/isa.py\<close> are an instance.

  \<^bold>\<open>Bounds and fuel.\<close> The polls of \<^verbatim>\<open>exec_cmd\<close> are bounded by the code (\<open>NB_RETRY_FOR_VALID_RESULT\<close>). The
  loop that shortens the refresh pulses runs on fuel, of which three rounds are shown to be enough for the
  configurations of the code; the polls of the reset and of the debugger that the code does not bound take
  their fuel as an argument, and \<open>NoFuel\<close> is not a success. Where the code uses a value it did not set,
  the model stops with \<open>Abort\<close>, or takes what was there as an argument.

  \<^bold>\<open>Not modelled.\<close> Logging text; locks (recursive, taken by the calling thread); allocation, which
  succeeds; fences and cache flushes, which do not change values; the creation of threads. The variants of
  the collective operations for axes that are shorter than eight; the driver, the simulator and the other
  mappings; programs, the ELF loader, the sets of the API and its bindings to other languages.
\<close>

end
